(* ===== verification/Prelude.thy ===== *)
theory Prelude
  imports Main "HOL-Library.Char_ord" "HOL-Library.List_Lexorder"
begin

text \<open>
  Vocabulary shared by every component theory.

  \<^item> Raised exceptions: a fallible operation returns \<open>'e + 'a\<close>, with \<open>Inl\<close> for the raise.
    \<open>first_error\<close> is a sequence of guards "if condition: raise error", \<open>ebind\<close> runs
    one fallible step after another, \<open>efold\<close> is a \<open>for\<close> loop whose body may raise.
  \<^item> Python text: \<open>py_strip\<close> is \<open>str.strip()\<close>, \<open>split_on\<close> is \<open>str.split(c)\<close>, and
    the character-class predicates are the \<open>pattern=\<close> constraints of the model fields.
    A string is a list of code points below 256.
  \<^item> Timestamps: a Python \<open>datetime\<close> is naive or aware; a validated timestamp is its UTC
    instant, an integer number of microseconds.
\<close>

section \<open>Raising operations\<close>

text \<open>
  The exceptions the components share: a \<open>ValueError\<close> with its message, a Pydantic field
  constraint that fails (with the name of the field), a \<open>TypeError\<close>, a \<open>KeyError\<close>. Messages are those of the
  code; a message the code formats from values is kept without the values.
\<close>

datatype fault =
    Value_Error string | Field_Invalid string | Type_Error string | Key_Missing string

named_theorems err_simps "case analysis of raising operations"

fun first_error :: "(bool \<times> 'e) list \<Rightarrow> 'e + unit" where
  "first_error [] = Inr ()"
| "first_error ((bad, e) # rest) = (if bad then Inl e else first_error rest)"

lemma first_error_Inr [simp]:
  "first_error gs = Inr u \<longleftrightarrow> (\<forall>(bad, e) \<in> set gs. \<not> bad)"
  by (induction gs rule: first_error.induct) auto

lemma first_error_Inl_Cons [simp]:
  "first_error ((bad, e) # rest) = Inl x \<longleftrightarrow>
     (bad \<and> x = e) \<or> (\<not> bad \<and> first_error rest = Inl x)"
  by auto

lemma first_error_Inl:
  "first_error gs = Inl e \<Longrightarrow> \<exists>bad. bad \<and> (bad, e) \<in> set gs"
  by (induction gs rule: first_error.induct) (auto split: if_splits)

declare first_error.simps(2) [simp del]

lemma first_error_Cons_simps [simp]:
  "first_error ((False, e) # rest) = first_error rest"
  "first_error ((True, e) # rest) = Inl e"
  by (simp_all add: first_error.simps)

definition ebind :: "'e + 'a \<Rightarrow> ('a \<Rightarrow> 'e + 'b) \<Rightarrow> 'e + 'b" where
  "ebind m f = (case m of Inl e \<Rightarrow> Inl e | Inr x \<Rightarrow> f x)"

lemma ebind_Inl [simp]: "ebind (Inl e) f = Inl e"
  by (simp add: ebind_def)

lemma ebind_Inr [simp]: "ebind (Inr x) f = f x"
  by (simp add: ebind_def)

lemma ebind_eq_Inr [err_simps]: "ebind m f = Inr y \<longleftrightarrow> (\<exists>x. m = Inr x \<and> f x = Inr y)"
  by (cases m) auto

lemma ebind_eq_Inl [err_simps]:
  "ebind m f = Inl e \<longleftrightarrow> m = Inl e \<or> (\<exists>x. m = Inr x \<and> f x = Inl e)"
  by (cases m) auto

lemma sum_unit_cases:
  fixes r :: "'e + unit"
  obtains (raised) e where "r = Inl e" | (returned) "r = Inr ()"
  by (cases r) auto

fun efold :: "('a \<Rightarrow> 's \<Rightarrow> 'e + 's) \<Rightarrow> 'a list \<Rightarrow> 's \<Rightarrow> 'e + 's" where
  "efold f [] s = Inr s"
| "efold f (x # xs) s = ebind (f x s) (efold f xs)"

lemma efold_append: "efold f (xs @ ys) s = ebind (efold f xs s) (efold f ys)"
proof (induction xs arbitrary: s)
  case (Cons x xs)
  then show ?case by (cases "f x s") simp_all
qed simp

text \<open>A property every loop body keeps holds after the loop.\<close>

lemma efold_invariant:
  assumes "efold f xs s = Inr t" and "I s"
    and "\<And>x a b. x \<in> set xs \<Longrightarrow> I a \<Longrightarrow> f x a = Inr b \<Longrightarrow> I b"
  shows "I t"
  using assms
proof (induction xs arbitrary: s)
  case (Cons x xs)
  then obtain u where u: "f x s = Inr u" "efold f xs u = Inr t"
    by (auto simp: ebind_eq_Inr)
  have "I u" using Cons.prems(3) [of x s u] Cons.prems(2) u(1) by simp
  moreover have "\<And>y a b. y \<in> set xs \<Longrightarrow> I a \<Longrightarrow> f y a = Inr b \<Longrightarrow> I b"
    using Cons.prems(3) by (metis list.set_intros(2))
  ultimately show ?case
    by (rule Cons.IH [OF u(2)])
qed simp

text \<open>A loop whose body never raises under an invariant never raises.\<close>

lemma efold_total:
  assumes "I s" and "\<And>x a. x \<in> set xs \<Longrightarrow> I a \<Longrightarrow> \<exists>b. f x a = Inr b \<and> I b"
  shows "\<exists>t. efold f xs s = Inr t \<and> I t"
  using assms
proof (induction xs arbitrary: s)
  case (Cons x xs)
  then obtain u where u: "f x s = Inr u" "I u" by force
  with Cons.IH [of u] Cons.prems(2) show ?case by simp
qed simp

text \<open>A loop that only checks its elements.\<close>

fun check_all :: "('a \<Rightarrow> 'e + unit) \<Rightarrow> 'a list \<Rightarrow> 'e + unit" where
  "check_all f [] = Inr ()"
| "check_all f (x # xs) = ebind (f x) (\<lambda>_. check_all f xs)"

lemma check_all_Inr [simp]: "check_all f xs = Inr u \<longleftrightarrow> (\<forall>x \<in> set xs. f x = Inr ())"
  by (induction xs) (auto simp: ebind_eq_Inr)

text \<open>A loop that appends one result per element.\<close>

fun emap :: "('a \<Rightarrow> 'e + 'b) \<Rightarrow> 'a list \<Rightarrow> 'e + 'b list" where
  "emap f [] = Inr []"
| "emap f (x # xs) = ebind (f x) (\<lambda>y. ebind (emap f xs) (\<lambda>ys. Inr (y # ys)))"

lemma emap_Inr: "emap f xs = Inr ys \<longleftrightarrow> list_all2 (\<lambda>x y. f x = Inr y) xs ys"
  by (induction xs arbitrary: ys) (auto simp: ebind_eq_Inr list_all2_Cons1)

lemma emap_cong: "(\<And>x. x \<in> set xs \<Longrightarrow> f x = g x) \<Longrightarrow> emap f xs = emap g xs"
  by (induction xs) simp_all

section \<open>Lists, options and maps\<close>

definition the_or :: "'a option \<Rightarrow> 'a \<Rightarrow> 'a" where
  "the_or v d = (case v of None \<Rightarrow> d | Some x \<Rightarrow> x)"

lemma the_or_simps [simp]: "the_or None d = d" "the_or (Some x) d = x"
  by (simp_all add: the_or_def)

text \<open>\<open>dict.fromkeys\<close> on a sequence: first occurrences, in order.\<close>

fun dedup_from :: "'a list \<Rightarrow> 'a list \<Rightarrow> 'a list" where
  "dedup_from seen [] = []"
| "dedup_from seen (x # xs) =
     (if x \<in> set seen then dedup_from seen xs else x # dedup_from (x # seen) xs)"

definition dedup :: "'a list \<Rightarrow> 'a list" where
  "dedup xs = dedup_from [] xs"

lemma set_dedup_from: "set (dedup_from seen xs) = set xs - set seen"
  by (induction seen xs rule: dedup_from.induct) auto

lemma distinct_dedup_from: "distinct (dedup_from seen xs)"
  by (induction seen xs rule: dedup_from.induct) (auto simp: set_dedup_from)

lemma set_dedup [simp]: "set (dedup xs) = set xs"
  by (simp add: dedup_def set_dedup_from)

lemma distinct_dedup [simp]: "distinct (dedup xs)"
  by (simp add: dedup_def distinct_dedup_from)

lemma dedup_Nil_iff [simp]: "dedup xs = [] \<longleftrightarrow> xs = []"
  by (metis set_dedup set_empty)

lemma dedup_from_distinct:
  "distinct xs \<Longrightarrow> set xs \<inter> set seen = {} \<Longrightarrow> dedup_from seen xs = xs"
  by (induction seen xs rule: dedup_from.induct) auto

lemma dedup_distinct [simp]: "distinct xs \<Longrightarrow> dedup xs = xs"
  by (simp add: dedup_def dedup_from_distinct)

text \<open>First element of a sequence with a given key: the \<open>get_...\<close> accessors.\<close>

lemma find_Some_key:
  "List.find P xs = Some x \<Longrightarrow> x \<in> set xs \<and> P x"
  by (induction xs) (auto split: if_splits)

lemma find_None_key: "List.find P xs = None \<longleftrightarrow> (\<forall>x \<in> set xs. \<not> P x)"
  by (induction xs) auto

lemma find_distinct_key:
  "distinct (map k xs) \<Longrightarrow> x \<in> set xs \<Longrightarrow> List.find (\<lambda>y. k y = k x) xs = Some x"
  by (induction xs) (auto simp: rev_image_eqI)

lemma distinct_map_eq:
  "distinct (map k xs) \<Longrightarrow> x \<in> set xs \<Longrightarrow> y \<in> set xs \<Longrightarrow> k x = k y \<Longrightarrow> x = y"
  by (metis distinct_map inj_onD)

lemma sum_list_nonneg_rat:
  fixes xs :: "'a::linordered_semidom list"
  shows "(\<And>x. x \<in> set xs \<Longrightarrow> 0 \<le> x) \<Longrightarrow> 0 \<le> sum_list xs"
  by (induction xs) auto

text \<open>Every element is related to the next one.\<close>

fun adjacent :: "('a \<Rightarrow> 'a \<Rightarrow> bool) \<Rightarrow> 'a list \<Rightarrow> bool" where
  "adjacent R (x # y # rest) \<longleftrightarrow> R x y \<and> adjacent R (y # rest)"
| "adjacent R _ \<longleftrightarrow> True"

lemma eq_sort_iff [simp]: "(xs :: 'a::linorder list) = sort xs \<longleftrightarrow> sorted xs"
  by (metis sorted_sort sorted_sort_id)

lemma adjacent_append:
  "adjacent R (xs @ [x]) \<longleftrightarrow> adjacent R xs \<and> (xs \<noteq> [] \<longrightarrow> R (last xs) x)"
  by (induction R xs rule: adjacent.induct) auto

lemma adjacent_split: "adjacent R (xs @ ys) \<Longrightarrow> adjacent R xs \<and> adjacent R ys"
proof (induction xs)
  case (Cons x xs)
  then show ?case by (cases xs; cases ys) auto
qed simp

section \<open>Stores that only grow\<close>

text \<open>
  The contract of the persisted stores: a step keeps the invariant, and the value stored under
  a key is only ever replaced by one that extends it. Everything a reader has seen then stays
  part of what any later reader sees.
\<close>

locale append_only =
  fixes step :: "'s \<Rightarrow> 's \<Rightarrow> bool" and view :: "'s \<Rightarrow> 'k \<Rightarrow> 'r option"
    and extends :: "'r \<Rightarrow> 'r \<Rightarrow> bool" and inv :: "'s \<Rightarrow> bool"
  assumes extends_refl: "extends r r"
    and extends_trans: "extends a b \<Longrightarrow> extends b c \<Longrightarrow> extends a c"
    and step_inv: "inv s \<Longrightarrow> step s t \<Longrightarrow> inv t"
    and step_extends: "inv s \<Longrightarrow> step s t \<Longrightarrow> view s k = Some r \<Longrightarrow>
      \<exists>r'. view t k = Some r' \<and> extends r r'"
begin

lemma reachable_inv: "step\<^sup>*\<^sup>* s t \<Longrightarrow> inv s \<Longrightarrow> inv t"
  by (induction rule: rtranclp_induct) (auto intro: step_inv)

lemma reachable_extends:
  assumes "step\<^sup>*\<^sup>* s t" and "inv s" and "view s k = Some r"
  shows "\<exists>r'. view t k = Some r' \<and> extends r r'"
  using assms
proof (induction rule: rtranclp_induct)
  case base
  then show ?case using extends_refl by blast
next
  case (step t u)
  then obtain r' where r': "view t k = Some r'" "extends r r'" by blast
  have "inv t" using step.hyps(1) step.prems(1) by (rule reachable_inv)
  from step_extends [OF this step.hyps(2) r'(1)] r'(2) extends_trans show ?case by blast
qed

end

lemma prefix_trans_ex: "(\<exists>x. b = a @ x) \<Longrightarrow> (\<exists>y. c = b @ y) \<Longrightarrow> (\<exists>z. c = a @ z)"
  by auto

lemma butlast_extends: "butlast ys = xs \<Longrightarrow> length ys = length xs + 1 \<Longrightarrow> ys = xs @ [last ys]"
  by (cases ys rule: rev_cases) auto

section \<open>Text\<close>

definition py_space :: "char \<Rightarrow> bool" where
  "py_space c \<longleftrightarrow>
     (let n = of_char c :: nat
      in (9 \<le> n \<and> n \<le> 13) \<or> (28 \<le> n \<and> n \<le> 32) \<or> n = 133 \<or> n = 160)"

text \<open>The same on the bits of the character, for evaluation.\<close>

lemma py_space_bits [code]:
  "py_space (Char b0 b1 b2 b3 b4 b5 b6 b7) \<longleftrightarrow>
     (if b7 then \<not> b6 \<and> \<not> b4 \<and> \<not> b3 \<and> \<not> b1 \<and> (if b5 then \<not> b2 \<and> \<not> b0 else b2 \<and> b0)
      else \<not> b6 \<and> (if b5 then \<not> b4 \<and> \<not> b3 \<and> \<not> b2 \<and> \<not> b1 \<and> \<not> b0
        else b3 \<and> (if b4 then b2 else (b2 \<or> b1 \<or> b0) \<and> \<not> (b2 \<and> b1))))"
  by (cases b0; cases b1; cases b2; cases b3; cases b4; cases b5; cases b6; cases b7; simp add: py_space_def)

definition py_strip :: "string \<Rightarrow> string" where
  "py_strip s = rev (dropWhile py_space (rev (dropWhile py_space s)))"

lemma set_py_strip: "set (py_strip s) \<subseteq> set s"
  unfolding py_strip_def by (auto dest!: set_dropWhileD)

lemma length_py_strip: "length (py_strip s) \<le> length s"
  unfolding py_strip_def by (metis length_dropWhile_le length_rev le_trans)

lemma dropWhile_rev_dropWhile_hd:
  assumes "s = [] \<or> \<not> P (hd s)"
  shows "dropWhile P (rev (dropWhile P (rev s))) = rev (dropWhile P (rev s))"
proof (cases "rev (dropWhile P (rev s)) = []")
  case False
  then obtain y ys where ys: "dropWhile P (rev s) = ys @ [y]"
    by (metis rev.simps(1) rev_exhaust)
  obtain pre where "rev s = pre @ ys @ [y]"
    by (metis takeWhile_dropWhile_id ys)
  then have "s = y # rev ys @ rev pre"
    by (metis append_assoc rev.simps(2) rev_append rev_rev_ident rev_singleton_conv append_Cons append_Nil)
  with assms have "\<not> P y" by simp
  with ys show ?thesis by simp
next
  case True
  then show ?thesis by (metis dropWhile.simps(1))
qed

lemma py_strip_idem [simp]: "py_strip (py_strip s) = py_strip s"
proof -
  let ?a = "dropWhile py_space s"
  have hd: "?a = [] \<or> \<not> py_space (hd ?a)"
    using hd_dropWhile by blast
  have "dropWhile py_space (py_strip s) = py_strip s"
    unfolding py_strip_def by (rule dropWhile_rev_dropWhile_hd) (rule hd)
  moreover have "dropWhile py_space (rev (py_strip s)) = rev (py_strip s)"
    unfolding py_strip_def by (simp add: dropWhile_idem)
  ultimately show ?thesis
    by (metis py_strip_def rev_rev_ident)
qed

text \<open>\<open>str.split(c)\<close>: the pieces between occurrences of one character.\<close>

fun split_on :: "char \<Rightarrow> string \<Rightarrow> string list" where
  "split_on c [] = [[]]"
| "split_on c (x # xs) =
     (if x = c then [] # split_on c xs
      else case split_on c xs of [] \<Rightarrow> [[x]] | p # ps \<Rightarrow> (x # p) # ps)"

definition is_lower :: "char \<Rightarrow> bool" where
  "is_lower c \<longleftrightarrow> (let n = of_char c :: nat in 97 \<le> n \<and> n \<le> 122)"

definition is_upper :: "char \<Rightarrow> bool" where
  "is_upper c \<longleftrightarrow> (let n = of_char c :: nat in 65 \<le> n \<and> n \<le> 90)"

definition is_digit_char :: "char \<Rightarrow> bool" where
  "is_digit_char c \<longleftrightarrow> (let n = of_char c :: nat in 48 \<le> n \<and> n \<le> 57)"

definition is_hex_char :: "char \<Rightarrow> bool" where
  "is_hex_char c \<longleftrightarrow> is_digit_char c \<or> (let n = of_char c :: nat in 97 \<le> n \<and> n \<le> 102)"

text \<open>The same classes on the bits of a character, for evaluation.\<close>

lemma char_class_bits [code]:
  "is_digit_char (Char b0 b1 b2 b3 b4 b5 b6 b7) \<longleftrightarrow>
     \<not> b7 \<and> \<not> b6 \<and> b5 \<and> b4 \<and> (\<not> b3 \<or> \<not> b2 \<and> \<not> b1)"
  "is_lower (Char b0 b1 b2 b3 b4 b5 b6 b7) \<longleftrightarrow>
     \<not> b7 \<and> b6 \<and> b5 \<and> (b4 \<or> b3 \<or> b2 \<or> b1 \<or> b0) \<and> \<not> (b4 \<and> b3 \<and> (b2 \<or> b1 \<and> b0))"
  "is_upper (Char b0 b1 b2 b3 b4 b5 b6 b7) \<longleftrightarrow>
     \<not> b7 \<and> b6 \<and> \<not> b5 \<and> (b4 \<or> b3 \<or> b2 \<or> b1 \<or> b0) \<and> \<not> (b4 \<and> b3 \<and> (b2 \<or> b1 \<and> b0))"
  by (cases b0; cases b1; cases b2; cases b3; cases b4; cases b5; cases b6; cases b7;
      simp add: is_digit_char_def is_lower_def is_upper_def)+

lemma hex_char_bits [code]:
  "is_hex_char (Char b0 b1 b2 b3 b4 b5 b6 b7) \<longleftrightarrow>
     is_digit_char (Char b0 b1 b2 b3 b4 b5 b6 b7) \<or>
     \<not> b7 \<and> b6 \<and> b5 \<and> \<not> b4 \<and> \<not> b3 \<and> (b2 \<or> b1 \<or> b0) \<and> \<not> (b2 \<and> b1 \<and> b0)"
  by (cases b0; cases b1; cases b2; cases b3; cases b4; cases b5; cases b6; cases b7;
      simp add: is_hex_char_def)

text \<open>The identifier patterns: \<open>[a-z][a-z0-9_]*\<close>, \<open>[a-z0-9][a-z0-9_-]*\<close>, 64 hexadecimal
  digits, and a Git object name of 40 or 64 hexadecimal digits.\<close>

definition ident_pattern :: "string \<Rightarrow> bool" where
  "ident_pattern s \<longleftrightarrow>
     (case s of [] \<Rightarrow> False
      | c # cs \<Rightarrow> is_lower c \<and>
          list_all (\<lambda>d. is_lower d \<or> is_digit_char d \<or> d = CHR ''_'') cs)"

definition run_id_pattern :: "string \<Rightarrow> bool" where
  "run_id_pattern s \<longleftrightarrow>
     (case s of [] \<Rightarrow> False
      | c # cs \<Rightarrow> (is_lower c \<or> is_digit_char c) \<and>
          list_all (\<lambda>d. is_lower d \<or> is_digit_char d \<or> d = CHR ''_'' \<or> d = CHR ''-'') cs)"

definition sha256_pattern :: "string \<Rightarrow> bool" where
  "sha256_pattern s \<longleftrightarrow> length s = 64 \<and> list_all is_hex_char s"

definition commit_pattern :: "string \<Rightarrow> bool" where
  "commit_pattern s \<longleftrightarrow> (length s = 40 \<or> length s = 64) \<and> list_all is_hex_char s"

lemmas char_class_defs =
  is_lower_def is_upper_def is_digit_char_def is_hex_char_def Let_def

lemmas pattern_defs =
  ident_pattern_def run_id_pattern_def sha256_pattern_def commit_pattern_def char_class_defs

text \<open>\<open>[A-Z][A-Z0-9_-]*\<close>, \<open>[a-z][a-z0-9_-]{0,63}\<close>, a prefix followed by \<open>[A-Z0-9_]+\<close>, and
  \<open>[0-9a-f]{7,64}\<close>.\<close>

definition upper_id_pattern :: "string \<Rightarrow> bool" where
  "upper_id_pattern s \<longleftrightarrow>
     (case s of [] \<Rightarrow> False
      | c # cs \<Rightarrow> is_upper c \<and>
          list_all (\<lambda>d. is_upper d \<or> is_digit_char d \<or> d = CHR ''_'' \<or> d = CHR ''-'') cs)"

definition short_name_pattern :: "string \<Rightarrow> bool" where
  "short_name_pattern s \<longleftrightarrow>
     (case s of [] \<Rightarrow> False
      | c # cs \<Rightarrow> is_lower c \<and> length cs \<le> 63 \<and>
          list_all (\<lambda>d. is_lower d \<or> is_digit_char d \<or> d = CHR ''_'' \<or> d = CHR ''-'') cs)"

definition prefixed_id_pattern :: "string \<Rightarrow> string \<Rightarrow> bool" where
  "prefixed_id_pattern prefix s \<longleftrightarrow>
     take (length prefix) s = prefix \<and> length prefix < length s \<and>
     list_all (\<lambda>d. is_upper d \<or> is_digit_char d \<or> d = CHR ''_'') (drop (length prefix) s)"

definition short_commit_pattern :: "string \<Rightarrow> bool" where
  "short_commit_pattern s \<longleftrightarrow> 7 \<le> length s \<and> length s \<le> 64 \<and> list_all is_hex_char s"

text \<open>\<open>PurePosixPath\<close>: the parts of a path are its non-empty components other than \<open>.\<close>; an
  absolute path has its root as first part (two leading slashes are a root of their own).\<close>

definition posix_absolute :: "string \<Rightarrow> bool" where
  "posix_absolute s \<longleftrightarrow> (case s of [] \<Rightarrow> False | c # cs \<Rightarrow> c = CHR ''/'')"

definition posix_root :: "string \<Rightarrow> string list" where
  "posix_root s =
     (if \<not> posix_absolute s then []
      else if take 2 s = ''//'' \<and> take 3 s \<noteq> ''///'' then [''//''] else [''/''])"

definition posix_parts :: "string \<Rightarrow> string list" where
  "posix_parts s = posix_root s @ filter (\<lambda>p. p \<noteq> [] \<and> p \<noteq> ''.'') (split_on (CHR ''/'') s)"

fun join_with :: "string \<Rightarrow> string list \<Rightarrow> string" where
  "join_with sep [] = []"
| "join_with sep [p] = p"
| "join_with sep (p # q # ps) = p @ sep @ join_with sep (q # ps)"

definition posix_str :: "string \<Rightarrow> string" where
  "posix_str s =
     (if posix_parts s = [] then ''.''
      else if posix_absolute s then hd (posix_parts s) @ join_with ''/'' (tl (posix_parts s))
      else join_with ''/'' (posix_parts s))"

definition safe_relative :: "string \<Rightarrow> bool" where
  "safe_relative s \<longleftrightarrow> \<not> posix_absolute s \<and> ''..'' \<notin> set (posix_parts s) \<and> posix_parts s \<noteq> []"

lemma safe_relative_parts:
  "safe_relative s \<Longrightarrow> p \<in> set (posix_parts s) \<Longrightarrow> p \<noteq> [] \<and> p \<noteq> ''.'' \<and> p \<noteq> ''..''"
  by (auto simp: safe_relative_def posix_parts_def posix_root_def)

text \<open>An optional field with a constraint is checked only when it is present.\<close>

definition opt_all :: "('a \<Rightarrow> bool) \<Rightarrow> 'a option \<Rightarrow> bool" where
  "opt_all P v \<longleftrightarrow> (case v of None \<Rightarrow> True | Some x \<Rightarrow> P x)"

lemma opt_all_simps [simp]: "opt_all P None" "opt_all P (Some x) = P x"
  by (simp_all add: opt_all_def)

section \<open>Time\<close>

text \<open>\<open>Aware local offset\<close> is wall-clock time with its UTC offset, both in microseconds.\<close>

datatype datetime = Naive int | Aware int int

fun require_utc :: "'e \<Rightarrow> datetime \<Rightarrow> 'e + int" where
  "require_utc e (Naive t) = Inl e"
| "require_utc e (Aware t off) = Inr (t - off)"

lemma require_utc_Inr [err_simps]:
  "require_utc e d = Inr t \<longleftrightarrow> (\<exists>l off. d = Aware l off \<and> t = l - off)"
  by (cases d) auto

end
