(* ===== verification/Decimal_Arith.thy ===== *)
theory Decimal_Arith
  imports Complex_Main Prelude
begin

text \<open>
  The arithmetic of Python's \<open>decimal\<close> module in its default context: every operation
  computes the exact result and rounds it to 28 significant digits, ties to even. A finite
  \<open>Decimal\<close> is its numeric value, a \<open>rat\<close>. The exponent limits of the context (about
  \<open>10 ^ 999999\<close>) are not modelled.

  The locale \<open>rounding\<close> states what the ledger relies on: rounding is monotone, idempotent
  and keeps zero. It is interpreted on \<open>dec_round\<close>, the context's rounding.
\<close>

section \<open>Rounding to 28 significant digits\<close>

fun ndigits :: "nat \<Rightarrow> nat" where
  "ndigits n = (if n < 10 then 1 else Suc (ndigits (n div 10)))"

declare ndigits.simps [simp del]

lemma ndigits_upper: "n < 10 ^ ndigits n"
proof (induction n rule: ndigits.induct)
  case (1 n)
  show ?case
  proof (cases "n < 10")
    case False
    with 1 have "n div 10 < 10 ^ ndigits (n div 10)" by simp
    then have "n < 10 * 10 ^ ndigits (n div 10)" by simp
    with False show ?thesis by (simp add: ndigits.simps [of n])
  qed (simp add: ndigits.simps [of n])
qed

lemma ndigits_lower: "0 < n \<Longrightarrow> 10 ^ (ndigits n - 1) \<le> n"
proof (induction n rule: ndigits.induct)
  case (1 n)
  show ?case
  proof (cases "n < 10")
    case True
    with 1(2) show ?thesis by (simp add: ndigits.simps [of n])
  next
    case False
    with 1 have "10 ^ (ndigits (n div 10) - 1) \<le> n div 10" by simp
    then have "10 * 10 ^ (ndigits (n div 10) - 1) \<le> n" by simp
    moreover have "0 < ndigits (n div 10)"
      by (simp add: ndigits.simps [of "n div 10"])
    ultimately have "10 ^ ndigits (n div 10) \<le> n"
      by (metis Suc_diff_1 power_Suc)
    with False show ?thesis by (simp add: ndigits.simps [of n])
  qed
qed

text \<open>\<open>Decimal.adjusted()\<close>: the exponent of the leading digit.\<close>

definition dec_adjusted :: "rat \<Rightarrow> int" where
  "dec_adjusted q =
     (let (n, d) = quotient_of \<bar>q\<bar>;
          e = int (ndigits (nat n)) - int (ndigits (nat d))
      in if 10 powi e \<le> \<bar>q\<bar> then e else e - 1)"

definition round_half_even :: "rat \<Rightarrow> int" where
  "round_half_even q =
     (let f = \<lfloor>q\<rfloor>; r = q - of_int f
      in if r < 1 / 2 then f else if 1 / 2 < r then f + 1
         else if even f then f else f + 1)"

definition dec_round :: "rat \<Rightarrow> rat" where
  "dec_round q =
     (if q = 0 then 0
      else let u = 10 powi (dec_adjusted q - 27)
           in of_int (round_half_even (q / u)) * u)"

definition dec_add :: "rat \<Rightarrow> rat \<Rightarrow> rat" where
  "dec_add a b = dec_round (a + b)"

definition dec_sub :: "rat \<Rightarrow> rat \<Rightarrow> rat" where
  "dec_sub a b = dec_round (a - b)"

definition dec_mul :: "rat \<Rightarrow> rat \<Rightarrow> rat" where
  "dec_mul a b = dec_round (a * b)"

definition dec_div :: "rat \<Rightarrow> rat \<Rightarrow> rat" where
  "dec_div a b = dec_round (a / b)"

text \<open>\<open>sum(values, Decimal(0))\<close>, left to right.\<close>

definition dec_sum :: "rat list \<Rightarrow> rat" where
  "dec_sum xs = foldl dec_add 0 xs"

section \<open>The leading digit\<close>

lemma pow10_pos [simp]: "(0::rat) < 10 powi e"
  by simp

lemma dec_adjusted_bounds:
  assumes "q \<noteq> 0"
  shows "10 powi dec_adjusted q \<le> \<bar>q\<bar>" and "\<bar>q\<bar> < 10 powi (dec_adjusted q + 1)"
proof -
  obtain n d where nd: "quotient_of \<bar>q\<bar> = (n, d)" by force
  have d: "0 < d" using nd quotient_of_denom_pos by blast
  have q: "\<bar>q\<bar> = of_int n / of_int d" using nd quotient_of_div by blast
  with assms d have n: "0 < n"
    by (metis abs_ge_zero abs_eq_0 divide_eq_0_iff of_int_0 of_int_0_less_iff
        order_le_less zero_less_divide_iff of_int_less_0_iff less_asym)
  define a where "a = ndigits (nat n)"
  define b where "b = ndigits (nat d)"
  have a0: "0 < a" and b0: "0 < b"
    by (simp_all add: a_def b_def ndigits.simps [of "nat n"] ndigits.simps [of "nat d"])
  have "nat n < 10 ^ a" "10 ^ (a - 1) \<le> nat n" "nat d < 10 ^ b" "10 ^ (b - 1) \<le> nat d"
    unfolding a_def b_def using n d
    by (intro ndigits_upper ndigits_lower; simp)+
  then have "int (nat n) < int (10 ^ a)" "int (10 ^ (a - 1)) \<le> int (nat n)"
      "int (nat d) < int (10 ^ b)" "int (10 ^ (b - 1)) \<le> int (nat d)"
    by (simp_all only: of_nat_less_iff of_nat_le_iff)
  then have i: "n < 10 ^ a" "10 ^ (a - 1) \<le> n" "d < 10 ^ b" "10 ^ (b - 1) \<le> d"
    using n d by simp_all
  have r: "of_int n < (10::rat) ^ a" "10 ^ (a - 1) \<le> (of_int n :: rat)"
      "of_int d < (10::rat) ^ b" "10 ^ (b - 1) \<le> (of_int d :: rat)"
    using i by (metis of_int_less_iff of_int_numeral of_int_power)
      (metis i of_int_le_iff of_int_less_iff of_int_numeral of_int_power)+
  define e where "e = int a - int b"
  have dp: "(0::rat) < of_int d" using d by simp
  have up: "\<bar>q\<bar> < 10 powi (e + 1)"
  proof -
    have "\<bar>q\<bar> < 10 ^ a / of_int d" using q r(1) dp by (simp add: divide_strict_right_mono)
    also have "\<dots> \<le> 10 ^ a / 10 ^ (b - 1)"
      using r(4) dp by (intro divide_left_mono) simp_all
    also have "\<dots> = 10 powi (int a - int (b - 1))"
      by (simp add: power_int_diff)
    also have "int a - int (b - 1) = e + 1" using b0 by (simp add: e_def)
    finally show ?thesis .
  qed
  have lo: "10 powi (e - 1) \<le> \<bar>q\<bar>"
  proof -
    have "10 powi (e - 1) = (10::rat) powi (int (a - 1) - int b)"
      using a0 by (simp add: e_def algebra_simps of_nat_diff)
    also have "\<dots> = 10 ^ (a - 1) / 10 ^ b" by (simp add: power_int_diff)
    also have "\<dots> \<le> of_int n / 10 ^ b" using r(2) by (simp add: divide_right_mono)
    also have "\<dots> \<le> \<bar>q\<bar>" unfolding q
      using r(3) dp n by (intro divide_left_mono) simp_all
    finally show ?thesis .
  qed
  have adj: "dec_adjusted q = (if 10 powi e \<le> \<bar>q\<bar> then e else e - 1)"
    by (simp add: dec_adjusted_def nd e_def a_def b_def Let_def)
  show "10 powi dec_adjusted q \<le> \<bar>q\<bar>" using lo adj by simp
  show "\<bar>q\<bar> < 10 powi (dec_adjusted q + 1)" using up adj by auto
qed

lemma powi10_less_iff: "(10::rat) powi a < 10 powi b \<longleftrightarrow> a < b"
proof
  assume h: "(10::rat) powi a < 10 powi b"
  show "a < b"
  proof (rule ccontr)
    assume "\<not> a < b"
    then have "(10::rat) powi b \<le> 10 powi a"
      by (intro power_int_increasing) simp_all
    with h show False by simp
  qed
qed (auto intro: power_int_strict_increasing)

lemma dec_adjusted_unique:
  assumes "10 powi e \<le> \<bar>q\<bar>" and "\<bar>q\<bar> < 10 powi (e + 1)"
  shows "dec_adjusted q = e"
proof -
  have "0 < \<bar>q\<bar>" using assms(1) pow10_pos [of e] by linarith
  then have "q \<noteq> 0" by simp
  note b = dec_adjusted_bounds [OF this]
  have "10 powi e < (10::rat) powi (dec_adjusted q + 1)"
    using assms(1) b(2) by linarith
  moreover have "10 powi dec_adjusted q < (10::rat) powi (e + 1)"
    using assms(2) b(1) by linarith
  ultimately show ?thesis by (simp add: powi10_less_iff)
qed

lemma dec_adjusted_minus [simp]: "dec_adjusted (- q) = dec_adjusted q"
  by (simp add: dec_adjusted_def)

lemma dec_adjusted_mono:
  assumes "0 < \<bar>x\<bar>" and "\<bar>x\<bar> \<le> \<bar>y\<bar>"
  shows "dec_adjusted x \<le> dec_adjusted y"
proof -
  have "x \<noteq> 0" "y \<noteq> 0" using assms by auto
  then have "10 powi dec_adjusted x < (10::rat) powi (dec_adjusted y + 1)"
    using dec_adjusted_bounds [of x] dec_adjusted_bounds [of y] assms(2) by linarith
  then show ?thesis by (simp add: powi10_less_iff)
qed

section \<open>Rounding to an integer\<close>

lemma round_half_even_bounds: "\<lfloor>q\<rfloor> \<le> round_half_even q" "round_half_even q \<le> \<lfloor>q\<rfloor> + 1"
  by (simp_all add: round_half_even_def Let_def)

lemma round_half_even_of_int [simp]: "round_half_even (of_int m) = m"
  by (simp add: round_half_even_def)

lemma round_half_even_mono: "x \<le> y \<Longrightarrow> round_half_even x \<le> round_half_even y"
proof -
  assume xy: "x \<le> y"
  show ?thesis
  proof (cases "\<lfloor>x\<rfloor> = \<lfloor>y\<rfloor>")
    case True
    then show ?thesis using xy by (auto simp: round_half_even_def Let_def)
  next
    case False
    then have "\<lfloor>x\<rfloor> + 1 \<le> \<lfloor>y\<rfloor>" using floor_mono [OF xy] by simp
    then show ?thesis
      using round_half_even_bounds(2) [of x] round_half_even_bounds(1) [of y] by linarith
  qed
qed

lemma round_half_even_minus [simp]: "round_half_even (- x) = - round_half_even x"
proof (cases "x = of_int \<lfloor>x\<rfloor>")
  case True
  then show ?thesis
    by (metis of_int_minus round_half_even_of_int)
next
  case False
  then have c: "\<lfloor>- x\<rfloor> = - \<lfloor>x\<rfloor> - 1"
    by (metis ceiling_altdef ceiling_def floor_uminus_of_int diff_minus_eq_add minus_diff_eq
        add.commute add.inverse_inverse uminus_add_conv_diff)
  have "x - of_int \<lfloor>x\<rfloor> < 1" "0 \<le> x - of_int \<lfloor>x\<rfloor>"
    using floor_correct [of x] by linarith+
  then show ?thesis
    by (auto simp: round_half_even_def c Let_def algebra_simps)
qed

lemma round_half_even_between:
  "of_int a \<le> x \<Longrightarrow> x \<le> of_int b \<Longrightarrow> a \<le> round_half_even x \<and> round_half_even x \<le> b"
  using round_half_even_mono [of "of_int a" x] round_half_even_mono [of x "of_int b"] by simp

section \<open>The laws of the context's rounding\<close>

lemma dec_round_zero [simp]: "dec_round 0 = 0"
  by (simp add: dec_round_def)

lemma dec_round_minus [simp]: "dec_round (- q) = - dec_round q"
proof -
  have "- q / u = - (q / u)" for u by simp
  then show ?thesis by (simp add: dec_round_def Let_def del: minus_divide_left)
qed

lemma dec_round_scaled:
  assumes "0 < q"
  shows "10 ^ 27 \<le> q / 10 powi (dec_adjusted q - 27)"
    and "q / 10 powi (dec_adjusted q - 27) \<le> 10 ^ 28"
proof -
  let ?L = "dec_adjusted q" and ?u = "(10::rat) powi (dec_adjusted q - 27)"
  have "10 powi ?L \<le> q" "q < 10 powi (?L + 1)"
    using dec_adjusted_bounds [of q] assms by simp_all
  moreover have "10 powi ?L = 10 ^ 27 * ?u" "10 powi (?L + 1) = 10 ^ 28 * ?u"
    by (simp_all add: power_int_diff power_int_add)
  ultimately have "10 ^ 27 * ?u \<le> q" "q \<le> 10 ^ 28 * ?u" by linarith+
  then show "10 ^ 27 \<le> q / ?u" "q / ?u \<le> 10 ^ 28"
    by (simp_all only: pos_le_divide_eq pos_divide_le_eq pow10_pos)
qed

lemma dec_round_digits:
  assumes "0 < q"
  obtains m where "dec_round q = of_int m * 10 powi (dec_adjusted q - 27)"
    and "10 ^ 27 \<le> m" and "m \<le> 10 ^ 28"
proof
  let ?m = "round_half_even (q / 10 powi (dec_adjusted q - 27))"
  show "dec_round q = of_int ?m * 10 powi (dec_adjusted q - 27)"
    using assms by (simp add: dec_round_def Let_def)
  have "10 ^ 27 \<le> ?m \<and> ?m \<le> 10 ^ 28"
    using dec_round_scaled [OF assms] by (intro round_half_even_between) simp_all
  then show "10 ^ 27 \<le> ?m" "?m \<le> 10 ^ 28" by simp_all
qed

lemma dec_round_pos_bounds:
  assumes "0 < q"
  shows "10 powi dec_adjusted q \<le> dec_round q"
    and "dec_round q \<le> 10 powi (dec_adjusted q + 1)"
proof -
  let ?u = "(10::rat) powi (dec_adjusted q - 27)"
  obtain m where m: "dec_round q = of_int m * ?u" "10 ^ 27 \<le> m" "m \<le> 10 ^ 28"
    using dec_round_digits [OF assms] by blast
  have "(10::rat) ^ 27 \<le> of_int m" "of_int m \<le> (10::rat) ^ 28"
    using m(2,3) by (metis of_int_le_iff of_int_numeral of_int_power)+
  then have "10 ^ 27 * ?u \<le> of_int m * ?u" "of_int m * ?u \<le> 10 ^ 28 * ?u"
    by (intro mult_right_mono; simp)+
  moreover have "10 powi dec_adjusted q = 10 ^ 27 * ?u"
      "10 powi (dec_adjusted q + 1) = 10 ^ 28 * ?u"
    by (simp_all add: power_int_diff power_int_add)
  ultimately show "10 powi dec_adjusted q \<le> dec_round q"
      "dec_round q \<le> 10 powi (dec_adjusted q + 1)"
    using m(1) by simp_all
qed

lemma dec_round_mono_pos:
  assumes "0 < x" and "x \<le> y"
  shows "dec_round x \<le> dec_round y"
proof (cases "dec_adjusted x = dec_adjusted y")
  case True
  let ?u = "(10::rat) powi (dec_adjusted y - 27)"
  have "x / ?u \<le> y / ?u" using assms(2) by (simp add: divide_right_mono)
  then have "round_half_even (x / ?u) \<le> round_half_even (y / ?u)"
    by (rule round_half_even_mono)
  then have "of_int (round_half_even (x / ?u)) * ?u \<le> of_int (round_half_even (y / ?u)) * ?u"
    by (intro mult_right_mono) simp_all
  with True assms show ?thesis by (simp add: dec_round_def Let_def)
next
  case False
  with dec_adjusted_mono [of x y] assms have "dec_adjusted x + 1 \<le> dec_adjusted y" by simp
  then have "(10::rat) powi (dec_adjusted x + 1) \<le> 10 powi dec_adjusted y"
    by (intro power_int_increasing) simp_all
  then show ?thesis
    using dec_round_pos_bounds(2) [of x] dec_round_pos_bounds(1) [of y] assms by simp
qed

lemma dec_round_pos: "0 < q \<Longrightarrow> 0 < dec_round q"
  using dec_round_pos_bounds(1) [of q] pow10_pos [of "dec_adjusted q"] by linarith

lemma dec_round_mono: "x \<le> y \<Longrightarrow> dec_round x \<le> dec_round y"
proof -
  assume xy: "x \<le> y"
  consider "0 < x" | "x \<le> 0" "0 \<le> y" | "y < 0" by linarith
  then show ?thesis
  proof cases
    case 1
    then show ?thesis using xy by (rule dec_round_mono_pos)
  next
    case 2
    have "dec_round x \<le> 0"
      using 2(1) dec_round_pos [of "- x"] by (cases "x = 0") simp_all
    moreover have "0 \<le> dec_round y"
      using 2(2) dec_round_pos [of y] by (cases "y = 0") simp_all
    ultimately show ?thesis by simp
  next
    case 3
    then show ?thesis using dec_round_mono_pos [of "- y" "- x"] xy by simp
  qed
qed

text \<open>A value with at most 28 significant digits is not changed.\<close>

lemma dec_round_exact_pos:
  assumes "0 < m" and "m \<le> 10 ^ 28"
  shows "dec_round (of_int m * 10 powi k) = of_int m * 10 powi k"
proof -
  let ?q = "of_int m * (10::rat) powi k"
  let ?e = "dec_adjusted ?q"
  have q: "0 < ?q" using assms(1) by simp
  have "?q \<noteq> 0" using q by linarith
  then have lo: "10 powi ?e \<le> ?q" using dec_adjusted_bounds(1) [of ?q] q by linarith
  also have "?q \<le> 10 ^ 28 * 10 powi k"
  proof (rule mult_right_mono)
    show "of_int m \<le> (10::rat) ^ 28"
      using assms(2) by (metis of_int_le_iff of_int_numeral of_int_power)
  qed simp
  also have "\<dots> < 10 powi (k + 29)" by (simp add: power_int_add)
  finally have "?e < k + 29" by (simp only: powi10_less_iff)
  then consider "?e - 27 \<le> k" | "?e = k + 28" by linarith
  then show ?thesis
  proof cases
    case 1
    then obtain j where j: "k = ?e - 27 + int j" by (metis zle_iff_zadd)
    have "?q / 10 powi (?e - 27) = of_int m * 10 powi (k - (?e - 27))"
      by (simp add: power_int_diff)
    also have "\<dots> = of_int m * 10 ^ j"
      using j by (metis add_diff_cancel_left' power_int_of_nat)
    also have "\<dots> = of_int (m * 10 ^ j)" by simp
    finally have "?q / 10 powi (?e - 27) = of_int (m * 10 ^ j)" .
    then have "of_int (round_half_even (?q / 10 powi (?e - 27))) = ?q / 10 powi (?e - 27)"
      by (simp only: round_half_even_of_int)
    then show ?thesis using q by (simp add: dec_round_def Let_def)
  next
    case 2
    from lo have "10 ^ 28 * 10 powi k \<le> ?q" using 2 by (simp add: power_int_add)
    then have "?q = 10 ^ 28 * 10 powi k" using \<open>?q \<le> 10 ^ 28 * 10 powi k\<close> by linarith
    then have "?q / 10 powi (?e - 27) = of_int (10 ^ 27)"
      using 2 by (simp add: power_int_add power_int_diff)
    then have "of_int (round_half_even (?q / 10 powi (?e - 27))) = ?q / 10 powi (?e - 27)"
      by (simp only: round_half_even_of_int)
    then show ?thesis using q by (simp add: dec_round_def Let_def)
  qed
qed

lemma dec_round_exact:
  assumes "\<bar>m\<bar> \<le> 10 ^ 28"
  shows "dec_round (of_int m * 10 powi k) = of_int m * 10 powi k"
proof -
  consider "m = 0" | "0 < m" | "0 < - m" by linarith
  then show ?thesis
  proof cases
    case 3
    then have "dec_round (of_int (- m) * 10 powi k) = of_int (- m) * 10 powi k"
      using assms by (intro dec_round_exact_pos) simp_all
    then show ?thesis by simp
  qed (use assms dec_round_exact_pos in simp_all)
qed

lemma dec_round_idem [simp]: "dec_round (dec_round q) = dec_round q"
proof -
  have pos: "dec_round (dec_round p) = dec_round p" if "0 < p" for p
    by (rule dec_round_digits [OF that]) (simp add: dec_round_exact)
  consider "q = 0" | "0 < q" | "0 < - q" by linarith
  then show ?thesis
  proof cases
    case 3
    from pos [OF this] show ?thesis by simp
  qed (use pos in simp_all)
qed

section \<open>The rounding interface and its interpretation\<close>

locale rounding =
  fixes rnd :: "rat \<Rightarrow> rat"
  assumes rnd_mono: "x \<le> y \<Longrightarrow> rnd x \<le> rnd y"
    and rnd_zero: "rnd 0 = 0"
    and rnd_idem: "rnd (rnd x) = rnd x"
begin

lemma rnd_nonneg: "0 \<le> x \<Longrightarrow> 0 \<le> rnd x"
  using rnd_mono [of 0 x] rnd_zero by simp

lemma rnd_nonpos: "x \<le> 0 \<Longrightarrow> rnd x \<le> 0"
  using rnd_mono [of x 0] rnd_zero by simp

lemma rnd_positive_arg: "0 < rnd x \<Longrightarrow> 0 < x"
  using rnd_nonpos [of x] by force

text \<open>What a hold of the whole remainder leaves: nothing, however much was spent since.\<close>

lemma rnd_remainder_exhausted:
  assumes "spent \<le> spent'"
  shows "rnd (rnd (limit - spent') - rnd (rnd (limit - spent) - 0)) \<le> 0"
proof -
  have "rnd (limit - spent') \<le> rnd (limit - spent)"
    using assms by (intro rnd_mono) simp
  then show ?thesis by (simp add: rnd_idem rnd_nonpos)
qed

lemma rnd_foldl_nonneg:
  "0 \<le> a \<Longrightarrow> (\<And>x. x \<in> set xs \<Longrightarrow> 0 \<le> x) \<Longrightarrow> 0 \<le> foldl (\<lambda>s x. rnd (s + x)) a xs"
  by (induction xs arbitrary: a) (simp_all add: rnd_nonneg)

end

interpretation dec: rounding dec_round
  by unfold_locales (simp_all add: dec_round_mono)

lemma dec_sub_nonpos_iff: "a \<le> b \<Longrightarrow> dec_sub a b \<le> 0"
  by (simp add: dec_sub_def dec.rnd_nonpos)

lemma dec_add_nonneg: "0 \<le> a \<Longrightarrow> 0 \<le> b \<Longrightarrow> 0 \<le> dec_add a b"
  by (simp add: dec_add_def dec.rnd_nonneg)

lemma dec_mul_nonneg: "0 \<le> a \<Longrightarrow> 0 \<le> b \<Longrightarrow> 0 \<le> dec_mul a b"
  by (simp add: dec_mul_def dec.rnd_nonneg)

lemma dec_div_nonneg: "0 \<le> a \<Longrightarrow> 0 \<le> b \<Longrightarrow> 0 \<le> dec_div a b"
  by (simp add: dec_div_def dec.rnd_nonneg)

lemma dec_add_mono_left: "0 \<le> b \<Longrightarrow> dec_round a = a \<Longrightarrow> a \<le> dec_add a b"
  unfolding dec_add_def by (metis dec_round_mono le_add_same_cancel1)

section \<open>Sums of currency amounts\<close>

text \<open>Amounts with at most \<open>k\<close> decimals whose total stays below \<open>10 ^ (28 - k)\<close> add up
  exactly, in any order.\<close>

definition on_grid :: "nat \<Rightarrow> rat \<Rightarrow> bool" where
  "on_grid k x \<longleftrightarrow> x * 10 ^ k \<in> \<int>"

lemma on_grid_add: "on_grid k x \<Longrightarrow> on_grid k y \<Longrightarrow> on_grid k (x + y)"
  by (simp add: on_grid_def distrib_right)

lemma on_grid_zero [simp]: "on_grid k 0"
  by (simp add: on_grid_def)

lemma on_grid_sum_list: "(\<And>x. x \<in> set xs \<Longrightarrow> on_grid k x) \<Longrightarrow> on_grid k (sum_list xs)"
  by (induction xs) (auto intro: on_grid_add)

lemma dec_round_on_grid:
  assumes "on_grid k x" and "\<bar>x\<bar> * 10 ^ k \<le> 10 ^ 28"
  shows "dec_round x = x"
proof -
  obtain m where m: "x * 10 ^ k = of_int m"
    using assms(1) by (auto simp: on_grid_def elim: Ints_cases)
  then have x: "x = of_int m * 10 powi (- int k)"
    by (simp add: power_int_minus field_simps)
  have "\<bar>of_int m\<bar> \<le> (10::rat) ^ 28"
    using assms(2) m by (metis abs_mult abs_of_pos zero_less_numeral zero_less_power)
  then have "\<bar>m\<bar> \<le> 10 ^ 28"
    by (metis of_int_abs of_int_le_iff of_int_numeral of_int_power)
  then show ?thesis unfolding x by (rule dec_round_exact)
qed

lemma dec_foldl_exact:
  assumes "on_grid k a" and "0 \<le> a" and "\<And>x. x \<in> set xs \<Longrightarrow> on_grid k x \<and> 0 \<le> x"
    and "(a + sum_list xs) * 10 ^ k \<le> 10 ^ 28"
  shows "foldl dec_add a xs = a + sum_list xs"
  using assms
proof (induction xs arbitrary: a)
  case (Cons x xs)
  have s: "0 \<le> sum_list xs" using Cons.prems(3) by (intro sum_list_nonneg_rat) simp
  have "(a + x) * 10 ^ k \<le> (a + sum_list (x # xs)) * 10 ^ k"
    using s by (intro mult_right_mono) simp_all
  also have "\<dots> \<le> 10 ^ 28" by (rule Cons.prems(4))
  finally have "\<bar>a + x\<bar> * 10 ^ k \<le> 10 ^ 28"
    using Cons.prems(2,3) by (simp add: abs_of_nonneg)
  moreover have "on_grid k (a + x)"
    using Cons.prems(1,3) by (auto intro: on_grid_add)
  ultimately have "dec_add a x = a + x"
    unfolding dec_add_def by (rule dec_round_on_grid [rotated])
  moreover have "foldl dec_add (a + x) xs = a + x + sum_list xs"
    using Cons.prems by (intro Cons.IH) (auto intro: on_grid_add simp: add.assoc)
  ultimately show ?case by (simp add: add.assoc)
qed simp

lemma dec_sum_exact:
  assumes "\<And>x. x \<in> set xs \<Longrightarrow> on_grid k x \<and> 0 \<le> x"
    and "sum_list xs * 10 ^ k \<le> 10 ^ 28"
  shows "dec_sum xs = sum_list xs"
  using dec_foldl_exact [of k 0 xs] assms by (simp add: dec_sum_def)

lemma dec_sum_nonneg: "(\<And>x. x \<in> set xs \<Longrightarrow> 0 \<le> x) \<Longrightarrow> 0 \<le> dec_sum xs"
  unfolding dec_sum_def dec_add_def by (rule dec.rnd_foldl_nonneg) simp_all

lemma dec_sum_snoc: "dec_sum (xs @ [x]) = dec_add (dec_sum xs) x"
  by (simp add: dec_sum_def)

lemma dec_sum_singleton: "dec_sum [x] = dec_round x"
  by (simp add: dec_sum_def dec_add_def)

lemma dec_sum_rounded: "dec_round (dec_sum xs) = dec_sum xs"
  by (cases xs rule: rev_exhaust) (simp_all add: dec_sum_def dec_add_def)

text \<open>Integers of at most 28 digits are their own decimals.\<close>

lemma dec_round_of_int: "\<bar>m\<bar> \<le> 10 ^ 28 \<Longrightarrow> dec_round (of_int m) = of_int m"
  using dec_round_exact [of m 0] by simp

lemma dec_round_one [simp]: "dec_round 1 = 1"
  using dec_round_of_int [of 1] by simp

lemma dec_round_numeral [simp]:
  "(numeral n :: int) \<le> 10 ^ 28 \<Longrightarrow> dec_round (numeral n) = numeral n"
  using dec_round_of_int [of "numeral n"] by simp

end
