(* ===== verification/Model_Costs.thy ===== *)
theory Model_Costs
  imports Prelude Decimal_Arith
begin

text \<open>
  \<open>model_metadata.py\<close> and \<open>model_costs.py\<close>: the source labels of model prices, cache
  pricing and cache token usage, and the price of one call. Prices are decimals
  (rationals rounded by \<open>dec_round\<close> after every operation, see \<open>Decimal_Arith\<close>).

  A record with a validator is a Pydantic model: the record holds the fields after
  conversion, the validator is the sequence of the field constraints and then of the
  \<open>model_validator\<close> functions in their order. Pydantic reports every failing field of one
  model in one \<open>ValidationError\<close>; the validators here name the first one.
\<close>

section \<open>Metadata sources (\<open>model_metadata.py\<close>)\<close>

datatype model_metadata_source = Runtime_Catalog | Provider_Catalog | User_Supplied | Confirmed_Zero

section \<open>Cache pricing and usage\<close>

record cache_pricing =
  cp_read :: rat
  cp_write :: rat
  cp_source :: model_metadata_source
  cp_observed_at :: int

definition validate_cache_pricing :: "cache_pricing \<Rightarrow> fault + unit" where
  "validate_cache_pricing c = first_error
     [(cp_read c < 0, Field_Invalid ''read_cost_per_million_usd''),
      (cp_write c < 0, Field_Invalid ''write_cost_per_million_usd''),
      (cp_source c = Confirmed_Zero \<and> (cp_read c \<noteq> 0 \<or> cp_write c \<noteq> 0),
        Value_Error ''confirmed-zero cache pricing requires two zero rates'')]"

definition mk_cache_pricing ::
    "rat \<Rightarrow> rat \<Rightarrow> model_metadata_source \<Rightarrow> datetime \<Rightarrow> fault + cache_pricing" where
  "mk_cache_pricing read_cost write_cost source observed =
     ebind (require_utc (Value_Error ''cache pricing time must include a UTC offset'') observed) (\<lambda>t.
       let c = \<lparr>cp_read = read_cost, cp_write = write_cost, cp_source = source,
                cp_observed_at = t\<rparr>
       in ebind (validate_cache_pricing c) (\<lambda>_. Inr c))"

record cache_token_usage =
  cu_read :: "int option"
  cu_write :: "int option"

definition validate_cache_usage :: "cache_token_usage \<Rightarrow> fault + unit" where
  "validate_cache_usage u = first_error
     [(\<not> opt_all (\<lambda>n. 0 \<le> n) (cu_read u), Field_Invalid ''read_tokens''),
      (\<not> opt_all (\<lambda>n. 0 \<le> n) (cu_write u), Field_Invalid ''write_tokens'')]"

text \<open>\<open>CacheTokenUsage()\<close>: both buckets unknown.\<close>

definition unknown_cache_usage :: cache_token_usage where
  "unknown_cache_usage = \<lparr>cu_read = None, cu_write = None\<rparr>"

abbreviation cache_pricing_ok :: "cache_pricing \<Rightarrow> bool" where
  "cache_pricing_ok c \<equiv> validate_cache_pricing c = Inr ()"

abbreviation cache_usage_ok :: "cache_token_usage \<Rightarrow> bool" where
  "cache_usage_ok u \<equiv> validate_cache_usage u = Inr ()"

lemma cache_pricing_ok_nonneg:
  "cache_pricing_ok c \<Longrightarrow> 0 \<le> cp_read c \<and> 0 \<le> cp_write c"
  by (auto simp: validate_cache_pricing_def err_simps)

lemma cache_usage_ok_nonneg:
  "cache_usage_ok u \<Longrightarrow> cu_read u = Some r \<Longrightarrow> cu_write u = Some w \<Longrightarrow> 0 \<le> r \<and> 0 \<le> w"
  by (auto simp: validate_cache_usage_def err_simps)

lemma unknown_cache_usage_ok [simp]: "cache_usage_ok unknown_cache_usage"
  by (simp add: validate_cache_usage_def unknown_cache_usage_def)

section \<open>The price of one call\<close>

text \<open>\<open>bool(cache_usage.read_tokens or cache_usage.write_tokens)\<close> of two known counts.\<close>

definition any_cache_tokens :: "int \<Rightarrow> int \<Rightarrow> bool" where
  "any_cache_tokens r w \<longleftrightarrow> r \<noteq> 0 \<or> w \<noteq> 0"

definition cache_amount :: "int \<Rightarrow> int \<Rightarrow> cache_pricing \<Rightarrow> rat" where
  "cache_amount r w p = dec_add (dec_mul (of_int r) (cp_read p)) (dec_mul (of_int w) (cp_write p))"

definition per_million :: "rat \<Rightarrow> rat" where
  "per_million amount = dec_div amount 1000000"

fun price_buckets ::
    "rat \<Rightarrow> cache_token_usage option \<Rightarrow> cache_pricing option \<Rightarrow> rat option" where
  "price_buckets amount None None = Some (per_million amount)"
| "price_buckets amount None (Some p) = None"
| "price_buckets amount (Some u) prices =
     (case (cu_read u, cu_write u) of
        (Some r, Some w) \<Rightarrow>
          (case prices of
             None \<Rightarrow> if any_cache_tokens r w then None else Some (per_million amount)
           | Some p \<Rightarrow> Some (per_million (dec_add amount (cache_amount r w p))))
      | _ \<Rightarrow> None)"

definition estimate_model_cost ::
    "int option \<Rightarrow> int option \<Rightarrow> rat option \<Rightarrow> rat option \<Rightarrow>
     cache_token_usage option \<Rightarrow> cache_pricing option \<Rightarrow> fault + rat option" where
  "estimate_model_cost input_tokens output_tokens input_price output_price usage prices =
     (case (input_tokens, output_tokens, input_price, output_price) of
        (Some i, Some out, Some p_in, Some p_out) \<Rightarrow>
          if i < 0 \<or> out < 0 then Inl (Value_Error ''token counts cannot be negative'')
          else Inr (price_buckets
                 (dec_add (dec_mul (of_int i) p_in) (dec_mul (of_int out) p_out)) usage prices)
      | _ \<Rightarrow> Inr None)"

lemma estimate_nonneg_tokens_returns:
  assumes "opt_all (\<lambda>n. 0 \<le> n) i" and "opt_all (\<lambda>n. 0 \<le> n) out"
  shows "\<exists>r. estimate_model_cost i out p_in p_out usage prices = Inr r"
  using assms by (auto simp: estimate_model_cost_def split: option.splits)

lemma estimate_raises_iff:
  "(\<exists>e. estimate_model_cost i out p_in p_out usage prices = Inl e) \<longleftrightarrow>
     i \<noteq> None \<and> out \<noteq> None \<and> p_in \<noteq> None \<and> p_out \<noteq> None \<and> (the i < 0 \<or> the out < 0)"
  by (auto simp: estimate_model_cost_def split: option.splits)

lemma per_million_nonneg: "0 \<le> a \<Longrightarrow> 0 \<le> per_million a"
  by (simp add: per_million_def dec_div_nonneg)

lemma per_million_mono: "a \<le> b \<Longrightarrow> per_million a \<le> per_million b"
  by (simp add: per_million_def dec_div_def dec_round_mono divide_right_mono)

lemma per_million_rounded [simp]: "dec_round (per_million a) = per_million a"
  by (simp add: per_million_def dec_div_def)

lemma cache_amount_nonneg:
  "0 \<le> r \<Longrightarrow> 0 \<le> w \<Longrightarrow> cache_pricing_ok p \<Longrightarrow> 0 \<le> cache_amount r w p"
  by (simp add: cache_amount_def dec_add_nonneg dec_mul_nonneg cache_pricing_ok_nonneg)

lemma price_buckets_nonneg:
  assumes "price_buckets amount usage prices = Some c" and "0 \<le> amount"
    and "opt_all cache_usage_ok usage" and "opt_all cache_pricing_ok prices"
  shows "0 \<le> c"
proof (cases usage)
  case None
  then show ?thesis
    using assms(1,2) by (cases prices) (auto simp: per_million_nonneg)
next
  case (Some u)
  with assms(1) obtain r w where rw: "cu_read u = Some r" "cu_write u = Some w"
    by (auto split: option.splits)
  then have nonneg: "0 \<le> r" "0 \<le> w"
    using assms(3) Some cache_usage_ok_nonneg by auto
  show ?thesis
  proof (cases prices)
    case None
    then show ?thesis using assms(1,2) Some rw by (auto simp: per_million_nonneg split: if_splits)
  next
    case (Some p)
    then have "c = per_million (dec_add amount (cache_amount r w p))"
      using assms(1) \<open>usage = Some u\<close> rw by simp
    then show ?thesis
      using assms(2,4) Some nonneg by (simp add: per_million_nonneg dec_add_nonneg cache_amount_nonneg)
  qed
qed

lemma estimate_nonneg:
  assumes "estimate_model_cost i out (Some p_in) (Some p_out) usage prices = Inr (Some c)"
    and "0 \<le> p_in" and "0 \<le> p_out"
    and "opt_all cache_usage_ok usage" and "opt_all cache_pricing_ok prices"
  shows "0 \<le> c"
proof -
  obtain m n where "i = Some m" "out = Some n" and mn: "0 \<le> m" "0 \<le> n"
    and c: "price_buckets (dec_add (dec_mul (of_int m) p_in) (dec_mul (of_int n) p_out)) usage prices = Some c"
    using assms(1) by (auto simp: estimate_model_cost_def split: option.splits if_splits)
  have "0 \<le> dec_add (dec_mul (of_int m) p_in) (dec_mul (of_int n) p_out)"
    using mn assms(2,3) by (simp add: dec_add_nonneg dec_mul_nonneg)
  then show ?thesis using price_buckets_nonneg [OF c] assms(4,5) by blast
qed

lemma price_buckets_rounded:
  "price_buckets amount usage prices = Some c \<Longrightarrow> dec_round c = c"
  by (cases "(amount, usage, prices)" rule: price_buckets.cases)
    (auto split: option.splits if_splits)

lemma estimate_rounded:
  "estimate_model_cost i out p_in p_out usage prices = Inr (Some c) \<Longrightarrow> dec_round c = c"
  by (auto simp: estimate_model_cost_def split: option.splits if_splits dest: price_buckets_rounded)

text \<open>The current writers always pass a cache usage: an unknown one is never priced.\<close>

lemma estimate_unknown_usage:
  "estimate_model_cost i out p_in p_out (Some unknown_cache_usage) prices \<noteq> Inr (Some c)"
  by (auto simp: estimate_model_cost_def unknown_cache_usage_def split: option.splits)

section \<open>Exact amounts\<close>

text \<open>
  Prices with at most \<open>k\<close> decimal places make every product and sum of a call exact as
  long as the amount has at most 28 digits; then only the division by a million rounds.
\<close>

lemma on_grid_mult_int: "on_grid k x \<Longrightarrow> on_grid k (of_int n * x)"
  by (simp add: on_grid_def Ints_mult mult.assoc)

lemma dec_mul_exact:
  assumes "on_grid k x" and "0 \<le> x" and "0 \<le> n" and "of_int n * x * 10 ^ k \<le> 10 ^ 28"
  shows "dec_mul (of_int n) x = of_int n * x"
  unfolding dec_mul_def
proof (rule dec_round_on_grid)
  show "on_grid k (of_int n * x)" using assms(1) by (rule on_grid_mult_int)
  have "0 \<le> of_int n * x" using assms(2,3) by simp
  then show "\<bar>of_int n * x\<bar> * 10 ^ k \<le> 10 ^ 28" using assms(4) by (simp only: abs_of_nonneg)
qed

lemma dec_two_buckets_exact:
  assumes "on_grid k x" and "on_grid k y" and "0 \<le> x" and "0 \<le> y" and "0 \<le> m" and "0 \<le> n"
    and "(of_int m * x + of_int n * y) * 10 ^ k \<le> 10 ^ 28"
  shows "dec_add (dec_mul (of_int m) x) (dec_mul (of_int n) y) = of_int m * x + of_int n * y"
proof -
  have a: "0 \<le> of_int m * x" and b: "0 \<le> of_int n * y" using assms by simp_all
  have "of_int m * x * 10 ^ k \<le> (of_int m * x + of_int n * y) * 10 ^ k"
    and "of_int n * y * 10 ^ k \<le> (of_int m * x + of_int n * y) * 10 ^ k"
    using a b by (intro mult_right_mono; simp)+
  then have "dec_mul (of_int m) x = of_int m * x" and "dec_mul (of_int n) y = of_int n * y"
    using assms by (intro dec_mul_exact [of k]; linarith)+
  moreover have "\<bar>of_int m * x + of_int n * y\<bar> * 10 ^ k \<le> 10 ^ 28"
    using a b assms(7) by (simp only: abs_of_nonneg add_nonneg_nonneg)
  then have "dec_round (of_int m * x + of_int n * y) = of_int m * x + of_int n * y"
    using assms(1,2) by (intro dec_round_on_grid) (auto intro: on_grid_add on_grid_mult_int)
  ultimately show ?thesis by (simp add: dec_add_def)
qed

end
