(* ===== verification/Budgets.thy ===== *)
theory Budgets
  imports Model_Costs
begin

text \<open>
  The data of \<open>budgets.py\<close>: run budgets, model prices, call reservations, usage
  snapshots, per-call cost records and the terminal ledger record, each with its validator,
  and the lemmas on what the validators accept.
\<close>

section \<open>Data\<close>

datatype budget_authority = Controlled_Evaluation | User_Task

datatype model_cost_source = Estimated | Provider_Reported | Unknown_Cost

definition has_confirmed_zero_pricing ::
    "rat option \<Rightarrow> rat option \<Rightarrow> model_metadata_source option \<Rightarrow> cache_pricing option \<Rightarrow> bool" where
  "has_confirmed_zero_pricing input_price output_price source prices \<longleftrightarrow>
     source = Some Confirmed_Zero \<and> input_price = Some 0 \<and> output_price = Some 0 \<and>
     (case prices of None \<Rightarrow> False
      | Some c \<Rightarrow> cp_source c = Confirmed_Zero \<and> cp_read c = 0 \<and> cp_write c = 0)"

record call_reservation =
  cr_sequence :: int
  cr_agent_id :: string
  cr_run_id :: "string option"
  cr_stage :: "string option"
  cr_attempt :: int
  cr_route_id :: "string option"
  cr_model :: "string option"
  cr_input_price :: "rat option"
  cr_output_price :: "rat option"
  cr_pricing_source :: "model_metadata_source option"
  cr_pricing_observed_at :: "int option"
  cr_reserved :: rat
  cr_cache_pricing :: "cache_pricing option"

definition validate_call_reservation :: "call_reservation \<Rightarrow> fault + unit" where
  "validate_call_reservation r = first_error
     [(cr_sequence r < 1, Field_Invalid ''sequence''),
      (\<not> ident_pattern (cr_agent_id r), Field_Invalid ''agent_id''),
      (\<not> opt_all run_id_pattern (cr_run_id r), Field_Invalid ''run_id''),
      (\<not> opt_all ident_pattern (cr_stage r), Field_Invalid ''stage''),
      (cr_attempt r < 1, Field_Invalid ''attempt''),
      (\<not> opt_all ident_pattern (cr_route_id r), Field_Invalid ''route_id''),
      (\<not> opt_all (\<lambda>m. m \<noteq> []) (cr_model r), Field_Invalid ''model''),
      (\<not> opt_all (\<lambda>p. 0 \<le> p) (cr_input_price r), Field_Invalid ''input_cost_per_million_usd''),
      (\<not> opt_all (\<lambda>p. 0 \<le> p) (cr_output_price r), Field_Invalid ''output_cost_per_million_usd''),
      (cr_reserved r < 0, Field_Invalid ''reserved_estimated_cost_usd''),
      ((cr_input_price r \<noteq> None) \<noteq> (cr_output_price r \<noteq> None),
        Value_Error ''call reservation prices must be configured together''),
      ((cr_input_price r \<noteq> None) \<noteq> (cr_pricing_source r \<noteq> None),
        Value_Error ''known call reservation prices require a source''),
      (cr_input_price r \<noteq> None \<and> cr_model r = None,
        Value_Error ''known call reservation prices require a model'')]"

definition reservation_estimate_cost ::
    "call_reservation \<Rightarrow> int option \<Rightarrow> int option \<Rightarrow> cache_token_usage option \<Rightarrow>
     fault + rat option" where
  "reservation_estimate_cost r input_tokens output_tokens usage =
     (if has_confirmed_zero_pricing (cr_input_price r) (cr_output_price r)
           (cr_pricing_source r) (cr_cache_pricing r)
      then Inr (Some 0)
      else case estimate_model_cost input_tokens output_tokens (cr_input_price r)
             (cr_output_price r) usage (cr_cache_pricing r) of
             Inl e \<Rightarrow> Inl e | Inr c \<Rightarrow> Inr c)"

record budget_usage =
  us_calls_started :: int
  us_calls_completed :: int
  us_active_calls :: int
  us_input_tokens :: int
  us_output_tokens :: int
  us_agent_duration_ms :: int
  us_known_cost :: rat
  us_active_reserved :: rat
  us_unpriced_calls :: int
  us_unreported_token_calls :: int

definition validate_usage :: "budget_usage \<Rightarrow> fault + unit" where
  "validate_usage u = first_error
     [(us_calls_started u < 0, Field_Invalid ''calls_started''),
      (us_calls_completed u < 0, Field_Invalid ''calls_completed''),
      (us_active_calls u < 0, Field_Invalid ''active_calls''),
      (us_input_tokens u < 0, Field_Invalid ''input_tokens''),
      (us_output_tokens u < 0, Field_Invalid ''output_tokens''),
      (us_agent_duration_ms u < 0, Field_Invalid ''agent_duration_ms''),
      (us_known_cost u < 0, Field_Invalid ''known_estimated_cost_usd''),
      (us_active_reserved u < 0, Field_Invalid ''active_reserved_cost_usd''),
      (us_unpriced_calls u < 0, Field_Invalid ''unpriced_calls''),
      (us_unreported_token_calls u < 0, Field_Invalid ''unreported_token_calls''),
      (us_calls_completed u + us_active_calls u \<noteq> us_calls_started u,
        Value_Error ''budget call counts are inconsistent''),
      (us_calls_completed u < us_unpriced_calls u,
        Value_Error ''unpriced calls cannot exceed completed calls''),
      (us_calls_completed u < us_unreported_token_calls u,
        Value_Error ''unreported-token calls cannot exceed completed calls''),
      (us_active_calls u = 0 \<and> us_active_reserved u \<noteq> 0,
        Value_Error ''terminal usage cannot retain a call reservation'')]"

record budget =
  bg_schema_version :: int
  bg_authority :: budget_authority
  bg_max_calls :: "int option"
  bg_max_input_tokens :: "int option"
  bg_max_output_tokens :: "int option"
  bg_max_duration_seconds :: "int option"
  bg_max_cost :: rat

definition budget_optional_limits :: "budget \<Rightarrow> int option list" where
  "budget_optional_limits b =
     [bg_max_calls b, bg_max_input_tokens b, bg_max_output_tokens b, bg_max_duration_seconds b]"

definition validate_budget :: "budget \<Rightarrow> fault + unit" where
  "validate_budget b = first_error
     [(bg_schema_version b \<notin> {1, 2, 3}, Field_Invalid ''schema_version''),
      (\<not> opt_all (\<lambda>n. 1 \<le> n \<and> n \<le> 1000000) (bg_max_calls b), Field_Invalid ''max_calls''),
      (\<not> opt_all (\<lambda>n. 1 \<le> n \<and> n \<le> 1000000000) (bg_max_input_tokens b), Field_Invalid ''max_input_tokens''),
      (\<not> opt_all (\<lambda>n. 1 \<le> n \<and> n \<le> 1000000000) (bg_max_output_tokens b), Field_Invalid ''max_output_tokens''),
      (\<not> opt_all (\<lambda>n. 1 \<le> n \<and> n \<le> 31536000) (bg_max_duration_seconds b), Field_Invalid ''max_agent_duration_seconds''),
      (bg_max_cost b < 0, Field_Invalid ''max_estimated_cost_usd''),
      (bg_authority b = Controlled_Evaluation \<and>
         list_ex (\<lambda>v. v = None) (budget_optional_limits b),
        Value_Error ''controlled-evaluation budgets require call, token, and duration ceilings''),
      (bg_authority b = Controlled_Evaluation \<and> bg_max_cost b \<le> 0,
        Value_Error ''controlled-evaluation budgets require a positive cost ceiling''),
      (bg_authority b = User_Task \<and>
         list_ex (\<lambda>v. v \<noteq> None) (budget_optional_limits b),
        Value_Error ''ordinary user-task budgets may contain only one USD ceiling'')]"

definition remaining_estimated_cost_usd :: "budget_usage \<Rightarrow> budget \<Rightarrow> rat" where
  "remaining_estimated_cost_usd u b =
     max 0 (dec_sub (dec_sub (bg_max_cost b) (us_known_cost u)) (us_active_reserved u))"

record call_cost_record =
  cc_sequence :: int
  cc_agent_id :: string
  cc_run_id :: "string option"
  cc_stage :: "string option"
  cc_attempt :: int
  cc_route_id :: "string option"
  cc_model :: "string option"
  cc_pricing_source :: "model_metadata_source option"
  cc_input_price :: "rat option"
  cc_output_price :: "rat option"
  cc_pricing_observed_at :: "int option"
  cc_input_tokens :: "int option"
  cc_output_tokens :: "int option"
  cc_duration_ms :: int
  cc_cost_source :: model_cost_source
  cc_cost_usd :: "rat option"
  cc_cache_usage :: "cache_token_usage option"
  cc_cache_pricing :: "cache_pricing option"

definition record_field_errors :: "call_cost_record \<Rightarrow> (bool \<times> fault) list" where
  "record_field_errors c =
     [(cc_sequence c < 1, Field_Invalid ''sequence''),
      (\<not> ident_pattern (cc_agent_id c), Field_Invalid ''agent_id''),
      (\<not> opt_all run_id_pattern (cc_run_id c), Field_Invalid ''run_id''),
      (\<not> opt_all ident_pattern (cc_stage c), Field_Invalid ''stage''),
      (cc_attempt c < 1, Field_Invalid ''attempt''),
      (\<not> opt_all ident_pattern (cc_route_id c), Field_Invalid ''route_id''),
      (\<not> opt_all (\<lambda>m. m \<noteq> []) (cc_model c), Field_Invalid ''model''),
      (\<not> opt_all (\<lambda>p. 0 \<le> p) (cc_input_price c), Field_Invalid ''input_cost_per_million_usd''),
      (\<not> opt_all (\<lambda>p. 0 \<le> p) (cc_output_price c), Field_Invalid ''output_cost_per_million_usd''),
      (\<not> opt_all (\<lambda>n. 0 \<le> n) (cc_input_tokens c), Field_Invalid ''input_tokens''),
      (\<not> opt_all (\<lambda>n. 0 \<le> n) (cc_output_tokens c), Field_Invalid ''output_tokens''),
      (cc_duration_ms c < 0, Field_Invalid ''duration_ms''),
      (\<not> opt_all (\<lambda>x. 0 \<le> x) (cc_cost_usd c), Field_Invalid ''cost_usd'')]"

definition validate_call_record :: "call_cost_record \<Rightarrow> fault + unit" where
  "validate_call_record c =
     (let prices_known = cc_input_price c \<noteq> None;
          confirmed_zero = has_confirmed_zero_pricing (cc_input_price c) (cc_output_price c)
            (cc_pricing_source c) (cc_cache_pricing c)
      in ebind (first_error (record_field_errors c @
           [(prices_known \<noteq> (cc_output_price c \<noteq> None),
        Value_Error ''call cost prices must be configured together''),
            (prices_known \<noteq> (cc_pricing_source c \<noteq> None),
        Value_Error ''known call cost prices require a source''),
            (prices_known \<and> cc_model c = None,
        Value_Error ''known call cost prices require a model''),
            (cc_cost_source c = Unknown_Cost \<and> cc_cost_usd c \<noteq> None,
        Value_Error ''unknown call cost cannot contain a USD amount''),
            (cc_cost_source c \<noteq> Unknown_Cost \<and> cc_cost_usd c = None,
        Value_Error ''known call cost requires a USD amount''),
            (cc_cost_source c = Estimated \<and> \<not> prices_known,
        Value_Error ''estimated call cost requires prices and token usage'')]))
         (\<lambda>_. if cc_cost_source c \<noteq> Estimated then Inr ()
           else ebind
             (if confirmed_zero then Inr (Some 0)
              else case estimate_model_cost (cc_input_tokens c) (cc_output_tokens c)
                     (cc_input_price c) (cc_output_price c) (cc_cache_usage c)
                     (cc_cache_pricing c) of
                     Inl e \<Rightarrow> Inl e | Inr x \<Rightarrow> Inr x)
             (\<lambda>expected. first_error
               [(expected = None,
        Value_Error ''estimated call cost requires prices and token usage''),
                (cc_cost_usd c \<noteq> expected,
        Value_Error ''estimated call cost differs from frozen pricing'')])))"

section \<open>Model prices\<close>

record model_pricing =
  mp_model :: string
  mp_input_price :: "rat option"
  mp_output_price :: "rat option"
  mp_source :: "model_metadata_source option"
  mp_observed_at :: "int option"
  mp_max_input_tokens :: "int option"
  mp_max_output_tokens :: "int option"
  mp_cache_pricing :: "cache_pricing option"

text \<open>\<open>infer_explicit_price_source\<close>: two explicit prices without a source are the user's.\<close>

definition infer_explicit_price_source ::
    "rat option \<Rightarrow> rat option \<Rightarrow> model_metadata_source option \<Rightarrow> model_metadata_source option" where
  "infer_explicit_price_source input_price output_price source =
     (if input_price \<noteq> None \<and> output_price \<noteq> None \<and> source = None
      then Some User_Supplied else source)"

definition validate_model_pricing :: "model_pricing \<Rightarrow> fault + unit" where
  "validate_model_pricing p = first_error
     [(mp_model p = [], Field_Invalid ''model''),
      (\<not> opt_all (\<lambda>x. 0 \<le> x) (mp_input_price p), Field_Invalid ''input_cost_per_million_usd''),
      (\<not> opt_all (\<lambda>x. 0 \<le> x) (mp_output_price p), Field_Invalid ''output_cost_per_million_usd''),
      (\<not> opt_all (\<lambda>n. 1 \<le> n) (mp_max_input_tokens p), Field_Invalid ''max_input_tokens''),
      (\<not> opt_all (\<lambda>n. 1 \<le> n) (mp_max_output_tokens p), Field_Invalid ''max_output_tokens''),
      ((mp_input_price p = None) \<noteq> (mp_output_price p = None),
        Value_Error ''input and output prices must be configured together''),
      ((mp_input_price p \<noteq> None) \<noteq> (mp_source p \<noteq> None),
        Value_Error ''known model prices require one pricing source''),
      (mp_source p = Some Confirmed_Zero \<and>
         (mp_input_price p \<noteq> Some 0 \<or> mp_output_price p \<noteq> Some 0),
        Value_Error ''confirmed-zero pricing requires two zero prices'')]"

definition mk_model_pricing ::
    "string \<Rightarrow> rat option \<Rightarrow> rat option \<Rightarrow> model_metadata_source option \<Rightarrow> datetime option \<Rightarrow>
     int option \<Rightarrow> int option \<Rightarrow> cache_pricing option \<Rightarrow> fault + model_pricing" where
  "mk_model_pricing model input_price output_price source observed max_in max_out prices =
     (if model = [] then Inl (Field_Invalid ''model'')
      else if py_strip model = [] then Inl (Value_Error ''model must not be blank'')
      else ebind (case observed of None \<Rightarrow> Inr None
                  | Some d \<Rightarrow> ebind (require_utc (Value_Error ''pricing observation time must include a UTC offset'') d) (\<lambda>t. Inr (Some t)))
        (\<lambda>t. let p = \<lparr>mp_model = py_strip model, mp_input_price = input_price,
                      mp_output_price = output_price,
                      mp_source = infer_explicit_price_source input_price output_price source,
                      mp_observed_at = t, mp_max_input_tokens = max_in,
                      mp_max_output_tokens = max_out, mp_cache_pricing = prices\<rparr>
             in ebind (validate_model_pricing p) (\<lambda>_. Inr p)))"

definition max_call_estimated_cost_usd :: "model_pricing \<Rightarrow> rat option" where
  "max_call_estimated_cost_usd p =
     (case (mp_max_input_tokens p, mp_max_output_tokens p, mp_input_price p, mp_output_price p,
            mp_cache_pricing p) of
        (Some max_in, Some max_out, Some p_in, Some p_out, Some c) \<Rightarrow>
          (let input_rate = max (max p_in (cp_read c)) (cp_write c)
           in Some (per_million (dec_add (dec_mul (of_int max_in) input_rate)
                                         (dec_mul (of_int max_out) p_out))))
      | _ \<Rightarrow> None)"

definition pricing_estimate_cost ::
    "model_pricing \<Rightarrow> int \<Rightarrow> int \<Rightarrow> cache_token_usage option \<Rightarrow> fault + rat option" where
  "pricing_estimate_cost p input_tokens output_tokens usage =
     estimate_model_cost (Some input_tokens) (Some output_tokens) (mp_input_price p)
       (mp_output_price p) usage (mp_cache_pricing p)"

section \<open>The terminal ledger record\<close>

record ledger_record =
  lr_schema_version :: int
  lr_budget :: budget
  lr_usage :: budget_usage
  lr_calls :: "call_cost_record list"

definition tokens_or_zero :: "int option \<Rightarrow> int" where
  "tokens_or_zero v = the_or v 0"

definition known_costs :: "call_cost_record list \<Rightarrow> rat list" where
  "known_costs cs = map (\<lambda>c. the (cc_cost_usd c)) (filter (\<lambda>c. cc_cost_usd c \<noteq> None) cs)"

definition call_unpriced :: "call_cost_record \<Rightarrow> bool" where
  "call_unpriced c \<longleftrightarrow> cc_cost_source c = Unknown_Cost"

definition call_unreported :: "call_cost_record \<Rightarrow> bool" where
  "call_unreported c \<longleftrightarrow> cc_input_tokens c = None \<or> cc_output_tokens c = None"

definition count_calls :: "(call_cost_record \<Rightarrow> bool) \<Rightarrow> call_cost_record list \<Rightarrow> int" where
  "count_calls P cs = int (length (filter P cs))"

definition validate_ledger_record :: "ledger_record \<Rightarrow> fault + unit" where
  "validate_ledger_record r = (let u = lr_usage r; cs = lr_calls r in first_error
     [(lr_schema_version r \<notin> {1, 2, 3}, Field_Invalid ''schema_version''),
      (us_active_calls u \<noteq> 0, Value_Error ''terminal budget ledger cannot contain active calls''),
      (3 \<le> lr_schema_version r \<and> list_ex (\<lambda>c. cc_cache_usage c = None) cs,
        Value_Error ''budget schema v3 requires explicit cache usage, including unknown''),
      (us_calls_started u \<noteq> us_calls_completed u,
        Value_Error ''terminal budget ledger requires every call to complete''),
      (map cc_sequence cs \<noteq> map int [1..<Suc (length cs)],
        Value_Error ''budget ledger call records must be contiguous''),
      (int (length cs) \<noteq> us_calls_completed u,
        Value_Error ''budget ledger call count differs from aggregate usage''),
      (bg_authority (lr_budget r) = User_Task \<and>
         list_ex (\<lambda>c. cc_run_id c = None \<or> cc_stage c = None \<or> cc_route_id c = None \<or>
           cc_model c = None \<or> cc_pricing_source c = None) cs,
        Value_Error ''user-task ledger calls require complete attribution''),
      (sum_list (map (\<lambda>c. tokens_or_zero (cc_input_tokens c)) cs) \<noteq> us_input_tokens u,
        Value_Error ''budget ledger input-token total is inconsistent''),
      (sum_list (map (\<lambda>c. tokens_or_zero (cc_output_tokens c)) cs) \<noteq> us_output_tokens u,
        Value_Error ''budget ledger output-token total is inconsistent''),
      (sum_list (map cc_duration_ms cs) \<noteq> us_agent_duration_ms u,
        Value_Error ''budget ledger duration total is inconsistent''),
      (dec_sum (known_costs cs) \<noteq> us_known_cost u,
        Value_Error ''budget ledger cost total is inconsistent''),
      (count_calls call_unpriced cs \<noteq> us_unpriced_calls u,
        Value_Error ''budget ledger unknown-cost total is inconsistent''),
      (count_calls call_unreported cs \<noteq> us_unreported_token_calls u,
        Value_Error ''budget ledger unreported-token total is inconsistent'')])"

section \<open>What the validators accept\<close>

abbreviation reservation_ok :: "call_reservation \<Rightarrow> bool" where
  "reservation_ok r \<equiv> validate_call_reservation r = Inr ()"

abbreviation usage_ok :: "budget_usage \<Rightarrow> bool" where
  "usage_ok u \<equiv> validate_usage u = Inr ()"

abbreviation budget_ok :: "budget \<Rightarrow> bool" where
  "budget_ok b \<equiv> validate_budget b = Inr ()"

abbreviation pricing_ok :: "model_pricing \<Rightarrow> bool" where
  "pricing_ok p \<equiv> validate_model_pricing p = Inr () \<and> opt_all cache_pricing_ok (mp_cache_pricing p)"

lemma reservation_ok_prices:
  assumes "reservation_ok r"
  shows "cr_input_price r = None \<longleftrightarrow> cr_output_price r = None"
    and "cr_input_price r = None \<longleftrightarrow> cr_pricing_source r = None"
    and "opt_all (\<lambda>p. 0 \<le> p) (cr_input_price r)" and "opt_all (\<lambda>p. 0 \<le> p) (cr_output_price r)"
    and "0 \<le> cr_reserved r"
  using assms by (auto simp: validate_call_reservation_def)

lemma confirmed_zero_prices:
  "has_confirmed_zero_pricing p_in p_out src c \<Longrightarrow> p_in = Some 0 \<and> p_out = Some 0 \<and> c \<noteq> None"
  by (auto simp: has_confirmed_zero_pricing_def split: option.splits)

lemma estimate_prices_known:
  "estimate_model_cost i out p_in p_out u c = Inr (Some x) \<Longrightarrow> p_in \<noteq> None \<and> p_out \<noteq> None"
  by (auto simp: estimate_model_cost_def split: option.splits)

lemma mk_model_pricing_ok:
  "mk_model_pricing m p_in p_out src obs mi mo c = Inr p \<Longrightarrow>
     validate_model_pricing p = Inr () \<and> mp_cache_pricing p = c \<and> mp_model p = py_strip m"
  by (auto simp: mk_model_pricing_def Let_def err_simps split: if_splits)

lemma max_call_estimate_parts:
  assumes "max_call_estimated_cost_usd p = Some bound"
  obtains max_in max_out p_in p_out c where
    "mp_max_input_tokens p = Some max_in" "mp_max_output_tokens p = Some max_out"
    "mp_input_price p = Some p_in" "mp_output_price p = Some p_out" "mp_cache_pricing p = Some c"
    "bound = per_million (dec_add (dec_mul (of_int max_in) (max (max p_in (cp_read c)) (cp_write c)))
       (dec_mul (of_int max_out) p_out))"
  using assms by (auto simp: max_call_estimated_cost_usd_def Let_def split: option.splits)

text \<open>Every bucket of input tokens costs at most the dearest input rate.\<close>

lemma bucket_amounts_le:
  fixes p_in p_out rd wr :: rat
  assumes "0 \<le> i" and "0 \<le> r" and "0 \<le> w" and "i + r + w \<le> max_in" and "n \<le> max_out"
    and "0 \<le> p_in" and "0 \<le> p_out"
  shows "(of_int i * p_in + of_int n * p_out) + (of_int r * rd + of_int w * wr)
      \<le> of_int max_in * max (max p_in rd) wr + of_int max_out * p_out"
proof -
  define rate where "rate = max (max p_in rd) wr"
  have rates: "p_in \<le> rate" "rd \<le> rate" "wr \<le> rate" "0 \<le> rate"
    using assms(6) by (auto simp: rate_def)
  have "of_int i * p_in + of_int r * rd + of_int w * wr \<le> of_int (i + r + w) * rate"
    using assms(1-3) rates by (simp add: distrib_right mult_left_mono add_mono)
  also have "\<dots> \<le> of_int max_in * rate"
    using assms(4) rates(4) by (intro mult_right_mono) (simp_all only: of_int_le_iff)
  finally have "of_int i * p_in + of_int r * rd + of_int w * wr \<le> of_int max_in * rate" .
  moreover have "of_int n * p_out \<le> of_int max_out * p_out"
    using assms(5,7) by (intro mult_right_mono) simp_all
  ultimately show ?thesis unfolding rate_def by linarith
qed

lemma scaled_le:
  fixes x y :: rat
  shows "x \<le> y \<Longrightarrow> y * 10 ^ k \<le> L \<Longrightarrow> x * 10 ^ k \<le> L"
  by (meson mult_right_mono order_trans zero_le_numeral zero_le_power)

lemma call_amount_le_bound_amount:
  fixes p_in p_out :: rat
  assumes "0 \<le> i" "0 \<le> r" "0 \<le> w" "0 \<le> n" "i + r + w \<le> max_in" "n \<le> max_out"
    and "0 \<le> p_in" "0 \<le> p_out" "0 \<le> cp_read c" "0 \<le> cp_write c"
    and "on_grid k p_in" "on_grid k p_out" "on_grid k (cp_read c)" "on_grid k (cp_write c)"
    and limit: "(of_int max_in * max (max p_in (cp_read c)) (cp_write c) + of_int max_out * p_out)
        * 10 ^ k \<le> 10 ^ 28"
  shows "dec_add (dec_add (dec_mul (of_int i) p_in) (dec_mul (of_int n) p_out)) (cache_amount r w c)
      \<le> dec_add (dec_mul (of_int max_in) (max (max p_in (cp_read c)) (cp_write c)))
          (dec_mul (of_int max_out) p_out)"
proof -
  define rate where "rate = max (max p_in (cp_read c)) (cp_write c)"
  define a where "a = of_int i * p_in + of_int n * p_out"
  define b where "b = of_int r * cp_read c + of_int w * cp_write c"
  define t where "t = of_int max_in * rate + of_int max_out * p_out"
  have ab: "0 \<le> a" "0 \<le> b" using assms unfolding a_def b_def by simp_all
  have le: "a + b \<le> t"
    unfolding a_def b_def t_def rate_def using assms by (intro bucket_amounts_le) simp_all
  have t: "t * 10 ^ k \<le> 10 ^ 28" using limit unfolding t_def rate_def .
  have A: "dec_add (dec_mul (of_int i) p_in) (dec_mul (of_int n) p_out) = a"
    unfolding a_def using assms t le ab
    by (intro dec_two_buckets_exact [of k]) (auto simp: a_def intro: scaled_le [of _ t])
  have B: "cache_amount r w c = b"
    unfolding b_def cache_amount_def using assms t le ab
    by (intro dec_two_buckets_exact [of k]) (auto simp: b_def intro: scaled_le [of _ t])
  have grid: "on_grid k rate" using assms by (simp add: rate_def max_def)
  have rate: "0 \<le> rate" using assms by (simp add: rate_def max_def)
  have T: "dec_add (dec_mul (of_int max_in) rate) (dec_mul (of_int max_out) p_out) = t"
    unfolding t_def using assms t grid rate
    by (intro dec_two_buckets_exact [of k]) (auto simp: t_def)
  have "dec_add a b \<le> dec_round t"
    unfolding dec_add_def using le by (rule dec_round_mono)
  also have "dec_round t = t" using T by (simp add: dec_add_def flip: T)
  finally show ?thesis using A B T by (simp add: rate_def)
qed

section \<open>Properties\<close>

text \<open>C7: The bound of one provider request covers what that request can cost. When the
  usage of a request stays within the declared token limits of its model (input, cache-read
  and cache-write tokens together within the input limit), its price never exceeds
  \<open>max_call_estimated_cost_usd\<close>, the amount compared with the remaining authorization before
  launch. The prices have at most \<open>k\<close> decimal places and the bound at most 28 digits, so that
  only the last division rounds.\<close>

theorem request_bound_covers_request:
  assumes "pricing_ok p" and "max_call_estimated_cost_usd p = Some bound"
    and "mp_max_input_tokens p = Some max_in" and "mp_max_output_tokens p = Some max_out"
    and "mp_input_price p = Some p_in" and "mp_output_price p = Some p_out"
    and "mp_cache_pricing p = Some c"
    and "0 \<le> i" "0 \<le> r" "0 \<le> w" "0 \<le> n" "i + r + w \<le> max_in" "n \<le> max_out"
    and "on_grid k p_in" "on_grid k p_out" "on_grid k (cp_read c)" "on_grid k (cp_write c)"
    and "(of_int max_in * max (max p_in (cp_read c)) (cp_write c) + of_int max_out * p_out)
        * 10 ^ k \<le> 10 ^ 28"
  shows "\<exists>cost. pricing_estimate_cost p i n (Some \<lparr>cu_read = Some r, cu_write = Some w\<rparr>)
      = Inr (Some cost) \<and> 0 \<le> cost \<and> cost \<le> bound"
proof -
  define cost where "cost = per_million
    (dec_add (dec_add (dec_mul (of_int i) p_in) (dec_mul (of_int n) p_out)) (cache_amount r w c))"
  have prices: "0 \<le> p_in" "0 \<le> p_out" "cache_pricing_ok c"
    using assms(1,5,6,7) by (auto simp: validate_model_pricing_def)
  then have rates: "0 \<le> cp_read c" "0 \<le> cp_write c" using cache_pricing_ok_nonneg by auto
  have est: "pricing_estimate_cost p i n (Some \<lparr>cu_read = Some r, cu_write = Some w\<rparr>)
      = Inr (Some cost)"
    using assms by (simp add: pricing_estimate_cost_def estimate_model_cost_def cost_def)
  have "0 \<le> cost"
    unfolding cost_def using assms(8-11) prices
    by (simp add: per_million_nonneg dec_add_nonneg dec_mul_nonneg cache_amount_nonneg)
  moreover have "cost \<le> bound"
    using assms(2-7) per_million_mono [OF call_amount_le_bound_amount
      [OF assms(8-10) assms(11-13) prices(1,2) rates assms(14-18)]]
    by (elim max_call_estimate_parts) (simp add: cost_def)
  ultimately show ?thesis using est by blast
qed

definition demo_cache :: cache_pricing where
  "demo_cache = \<lparr>cp_read = 1, cp_write = 3, cp_source = Provider_Catalog, cp_observed_at = 0\<rparr>"

definition demo_pricing :: model_pricing where
  "demo_pricing = \<lparr>mp_model = ''m'', mp_input_price = Some 2, mp_output_price = Some 1,
     mp_source = Some Provider_Catalog, mp_observed_at = None, mp_max_input_tokens = Some 1000000,
     mp_max_output_tokens = Some 1000000, mp_cache_pricing = Some demo_cache\<rparr>"

lemma demo_pricing_ok: "pricing_ok demo_pricing"
  by code_simp

lemma demo_bound: "max_call_estimated_cost_usd demo_pricing = Some 4"
  by (simp add: max_call_estimated_cost_usd_def demo_pricing_def demo_cache_def per_million_def
      dec_add_def dec_mul_def dec_div_def)

theorem request_bound_covers_request_witness:
  "\<exists>cost. pricing_estimate_cost demo_pricing 500000 1000000
      (Some \<lparr>cu_read = Some 100000, cu_write = Some 400000\<rparr>) = Inr (Some cost) \<and>
      0 \<le> cost \<and> cost \<le> 4"
  by (rule request_bound_covers_request
      [OF demo_pricing_ok demo_bound, where k = 0 and max_in = 1000000 and max_out = 1000000
        and p_in = 2 and p_out = 1 and c = demo_cache])
    (simp_all add: demo_pricing_def demo_cache_def on_grid_def)

end
