(* ===== verification/Budget_Ledger.thy ===== *)
theory Budget_Ledger
  imports Budgets "HOL-Library.AList" "HOL-Library.Multiset"
begin

text \<open>
  The shared \<open>AgentBudgetLedger\<close> of \<open>budgets.py\<close>. The ledger is the record \<open>ledger\<close> of the
  attributes of the Python object; its dictionary of active calls is an association list in
  insertion order (the order in which the reserved amounts are summed). \<open>reserve_call_locked\<close>,
  \<open>complete_call\<close> and \<open>terminal_record\<close> are the methods that run under the lock; an operation
  that may raise after having changed an attribute returns the changed ledger beside the error.

  \<open>ledger_ok\<close> is the invariant of the object, \<open>run_ledger\<close> a sequence of calls by any number of
  threads (each call is atomic under the lock), \<open>reserve_call\<close> the waiting loop with the
  operations of other threads between its turns.
\<close>

section \<open>The ledger\<close>

record ledger =
  lg_budget :: budget
  lg_calls_started :: int
  lg_calls_completed :: int
  lg_active :: "(int \<times> call_reservation) list"
  lg_input_tokens :: int
  lg_output_tokens :: int
  lg_agent_duration_ms :: int
  lg_known_cost :: rat
  lg_unpriced_calls :: int
  lg_unreported_token_calls :: int
  lg_call_records :: "call_cost_record list"

definition new_ledger :: "budget \<Rightarrow> ledger" where
  "new_ledger b = \<lparr>lg_budget = b, lg_calls_started = 0, lg_calls_completed = 0, lg_active = [],
     lg_input_tokens = 0, lg_output_tokens = 0, lg_agent_duration_ms = 0, lg_known_cost = 0,
     lg_unpriced_calls = 0, lg_unreported_token_calls = 0, lg_call_records = []\<rparr>"

datatype exceeded_detail =
    Calls_Exhausted | Pricing_Unknown | Spend_Not_Accounted_Before_Call | Authorization_Exhausted
  | Request_Not_Covered
  | Spend_Not_Accounted | Input_Tokens_Exceeded | Output_Tokens_Exceeded | Duration_Exceeded
  | Cost_Exceeded

datatype ledger_error =
    Fault fault
  | Budget_Exceeded exceeded_detail budget_usage
  | Budget_Busy exceeded_detail budget_usage
  | Wait_Check_Raised

definition active_reserved :: "ledger \<Rightarrow> rat" where
  "active_reserved l = dec_sum (map (\<lambda>(k, r). cr_reserved r) (lg_active l))"

definition usage_of :: "ledger \<Rightarrow> budget_usage" where
  "usage_of l = \<lparr>us_calls_started = lg_calls_started l, us_calls_completed = lg_calls_completed l,
     us_active_calls = int (length (lg_active l)), us_input_tokens = lg_input_tokens l,
     us_output_tokens = lg_output_tokens l, us_agent_duration_ms = lg_agent_duration_ms l,
     us_known_cost = lg_known_cost l, us_active_reserved = active_reserved l,
     us_unpriced_calls = lg_unpriced_calls l,
     us_unreported_token_calls = lg_unreported_token_calls l\<rparr>"

definition snapshot_locked :: "ledger \<Rightarrow> fault + budget_usage" where
  "snapshot_locked l = ebind (validate_usage (usage_of l)) (\<lambda>_. Inr (usage_of l))"

definition exceeds :: "int \<Rightarrow> int option \<Rightarrow> bool" where
  "exceeds n limit = (case limit of None \<Rightarrow> False | Some m \<Rightarrow> m < n)"

definition exceeded :: "budget \<Rightarrow> budget_usage \<Rightarrow> exceeded_detail option" where
  "exceeded b u =
     (if bg_authority b = User_Task \<and> us_unpriced_calls u \<noteq> 0 then Some Spend_Not_Accounted
      else if exceeds (us_input_tokens u) (bg_max_input_tokens b) then Some Input_Tokens_Exceeded
      else if exceeds (us_output_tokens u) (bg_max_output_tokens b) then Some Output_Tokens_Exceeded
      else if exceeds (us_agent_duration_ms u)
                (map_option (\<lambda>s. s * 1000) (bg_max_duration_seconds b)) then Some Duration_Exceeded
      else if bg_max_cost b < us_known_cost u then Some Cost_Exceeded
      else None)"

subsection \<open>Reserving a call\<close>

record call_request =
  rq_agent_id :: string
  rq_run_id :: "string option"
  rq_stage :: "string option"
  rq_attempt :: int
  rq_route_id :: "string option"
  rq_pricing :: "model_pricing option"

text \<open>The amount still free for a paid call: the local \<open>available\<close>.\<close>

definition available_amount :: "ledger \<Rightarrow> budget_usage \<Rightarrow> rat" where
  "available_amount l u =
     dec_sub (dec_sub (bg_max_cost (lg_budget l)) (lg_known_cost l)) (us_active_reserved u)"

text \<open>The admission of a user-task call: the branch \<open>authority is USER_TASK\<close>, ending with
  the amount to reserve.\<close>

definition user_task_admission ::
    "ledger \<Rightarrow> call_request \<Rightarrow> budget_usage \<Rightarrow> ledger_error + rat" where
  "user_task_admission l rq u =
     (if rq_run_id rq = None \<or> rq_stage rq = None \<or> rq_route_id rq = None
      then Inl (Fault (Value_Error ''Task model-call attribution is incomplete before launch''))
      else case rq_pricing rq of
        None \<Rightarrow> Inl (Budget_Exceeded Pricing_Unknown u)
      | Some p \<Rightarrow>
          if mp_source p = None \<or> mp_cache_pricing p = None
          then Inl (Budget_Exceeded Pricing_Unknown u)
          else if lg_unpriced_calls l \<noteq> 0
          then Inl (Budget_Exceeded Spend_Not_Accounted_Before_Call u)
          else if has_confirmed_zero_pricing (mp_input_price p) (mp_output_price p)
                    (mp_source p) (mp_cache_pricing p)
          then Inr 0
          else (let available = available_amount l u in
            if available \<le> 0
            then if 0 < us_active_reserved u \<and> lg_known_cost l < bg_max_cost (lg_budget l)
                 then Inl (Budget_Busy Authorization_Exhausted u)
                 else Inl (Budget_Exceeded Authorization_Exhausted u)
            else case max_call_estimated_cost_usd p of
                None \<Rightarrow> Inr available
              | Some bound \<Rightarrow>
                  if available < bound then Inl (Budget_Exceeded Request_Not_Covered u)
                  else Inr available))"

definition reservation_for :: "call_request \<Rightarrow> int \<Rightarrow> rat \<Rightarrow> call_reservation" where
  "reservation_for rq sequence amount =
     \<lparr>cr_sequence = sequence, cr_agent_id = rq_agent_id rq, cr_run_id = rq_run_id rq,
          cr_stage = rq_stage rq, cr_attempt = rq_attempt rq, cr_route_id = rq_route_id rq,
          cr_model = map_option mp_model (rq_pricing rq),
          cr_input_price = Option.bind (rq_pricing rq) mp_input_price,
          cr_output_price = Option.bind (rq_pricing rq) mp_output_price,
          cr_pricing_source = Option.bind (rq_pricing rq) mp_source,
          cr_pricing_observed_at = Option.bind (rq_pricing rq) mp_observed_at,
          cr_reserved = amount,
          cr_cache_pricing = Option.bind (rq_pricing rq) mp_cache_pricing\<rparr>"

text \<open>
  The sequence counter is advanced before the reservation model is validated: a
  reservation that fails validation leaves the advanced counter behind.
\<close>

definition issue_reservation ::
    "ledger \<Rightarrow> call_request \<Rightarrow> rat \<Rightarrow> ledger \<times> (ledger_error + call_reservation)" where
  "issue_reservation l rq amount =
     (let sequence = lg_calls_started l + 1;
          l1 = l\<lparr>lg_calls_started := sequence\<rparr>;
          r = reservation_for rq sequence amount
      in case validate_call_reservation r of
           Inl e \<Rightarrow> (l1, Inl (Fault e))
         | Inr _ \<Rightarrow> (l1\<lparr>lg_active := AList.update sequence r (lg_active l1)\<rparr>, Inr r))"

definition reserve_admission :: "ledger \<Rightarrow> call_request \<Rightarrow> ledger_error + rat" where
  "reserve_admission l rq =
     (if \<not> ident_pattern (rq_agent_id rq)
      then Inl (Fault (Value_Error ''budget reservations require a valid Agent ID''))
      else case snapshot_locked l of
        Inl e \<Rightarrow> Inl (Fault e)
      | Inr u \<Rightarrow>
          if (case bg_max_calls (lg_budget l) of None \<Rightarrow> False
              | Some m \<Rightarrow> m \<le> lg_calls_started l)
          then Inl (Budget_Exceeded Calls_Exhausted u)
          else if bg_authority (lg_budget l) = User_Task then user_task_admission l rq u
          else Inr 0)"

definition reserve_call_locked ::
    "ledger \<Rightarrow> call_request \<Rightarrow> ledger \<times> (ledger_error + call_reservation)" where
  "reserve_call_locked l rq =
     (case reserve_admission l rq of
        Inl e \<Rightarrow> (l, Inl e)
      | Inr amount \<Rightarrow> issue_reservation l rq amount)"

subsection \<open>Completing a call\<close>

record call_report =
  rp_reservation :: call_reservation
  rp_input_tokens :: "int option"
  rp_output_tokens :: "int option"
  rp_duration_ms :: int
  rp_cache_usage :: "cache_token_usage option"

definition cost_record_for :: "call_report \<Rightarrow> rat option \<Rightarrow> call_cost_record" where
  "cost_record_for rp cost =
     (let r = rp_reservation rp
      in \<lparr>cc_sequence = cr_sequence r, cc_agent_id = cr_agent_id r, cc_run_id = cr_run_id r,
          cc_stage = cr_stage r, cc_attempt = cr_attempt r, cc_route_id = cr_route_id r,
          cc_model = cr_model r, cc_pricing_source = cr_pricing_source r,
          cc_input_price = cr_input_price r, cc_output_price = cr_output_price r,
          cc_pricing_observed_at = cr_pricing_observed_at r,
          cc_input_tokens = rp_input_tokens rp, cc_output_tokens = rp_output_tokens rp,
          cc_duration_ms = rp_duration_ms rp,
          cc_cost_source = (if cost = None then Unknown_Cost else Estimated),
          cc_cost_usd = cost,
          cc_cache_usage = Some (the_or (rp_cache_usage rp) unknown_cache_usage),
          cc_cache_pricing = cr_cache_pricing r\<rparr>)"

definition settle_call :: "ledger \<Rightarrow> call_report \<Rightarrow> rat option \<Rightarrow> ledger" where
  "settle_call l rp cost =
     l\<lparr>lg_active := AList.delete (cr_sequence (rp_reservation rp)) (lg_active l),
       lg_calls_completed := lg_calls_completed l + 1,
       lg_unreported_token_calls := lg_unreported_token_calls l +
         (if rp_input_tokens rp = None \<or> rp_output_tokens rp = None then 1 else 0),
       lg_input_tokens := lg_input_tokens l + tokens_or_zero (rp_input_tokens rp),
       lg_output_tokens := lg_output_tokens l + tokens_or_zero (rp_output_tokens rp),
       lg_agent_duration_ms := lg_agent_duration_ms l + rp_duration_ms rp,
       lg_unpriced_calls := lg_unpriced_calls l + (if cost = None then 1 else 0),
       lg_known_cost := (case cost of None \<Rightarrow> lg_known_cost l
                         | Some c \<Rightarrow> dec_add (lg_known_cost l) c),
       lg_call_records := lg_call_records l @ [cost_record_for rp cost]\<rparr>"

definition check_report :: "call_report \<Rightarrow> fault + unit" where
  "check_report rp = first_error
     [(\<not> opt_all (\<lambda>n. 0 \<le> n) (rp_input_tokens rp),
        Value_Error ''reported input tokens cannot be negative''),
      (\<not> opt_all (\<lambda>n. 0 \<le> n) (rp_output_tokens rp),
        Value_Error ''reported output tokens cannot be negative''),
      (rp_duration_ms rp < 0, Value_Error ''reported Agent duration cannot be negative'')]"

text \<open>Everything \<open>complete_call\<close> evaluates before its first assignment: the violation the
  ledger already had, and the cost of the call.\<close>

definition price_report ::
    "ledger \<Rightarrow> call_report \<Rightarrow> fault + (exceeded_detail option \<times> rat option)" where
  "price_report l rp =
     ebind (check_report rp) (\<lambda>_.
     ebind (if map_of (lg_active l) (cr_sequence (rp_reservation rp)) = Some (rp_reservation rp)
            then Inr () else Inl (Value_Error ''Agent call reservation is not active'')) (\<lambda>_.
     ebind (snapshot_locked l) (\<lambda>before.
     ebind (reservation_estimate_cost (rp_reservation rp) (rp_input_tokens rp)
              (rp_output_tokens rp)
              (Some (the_or (rp_cache_usage rp) unknown_cache_usage))) (\<lambda>cost.
     ebind (validate_call_record (cost_record_for rp cost)) (\<lambda>_.
       Inr (exceeded (lg_budget l) before, cost))))))"

definition complete_call ::
    "ledger \<Rightarrow> call_report \<Rightarrow> ledger \<times> (ledger_error + budget_usage)" where
  "complete_call l rp =
     (case price_report l rp of
        Inl e \<Rightarrow> (l, Inl (Fault e))
      | Inr (previous, cost) \<Rightarrow>
          (let l1 = settle_call l rp cost
           in case snapshot_locked l1 of
                Inl e \<Rightarrow> (l1, Inl (Fault e))
              | Inr u \<Rightarrow>
                  (let detail = exceeded (lg_budget l1) u;
                       own_cost_unknown = (bg_authority (lg_budget l1) = User_Task \<and> cost = None)
                   in (l1, if detail = previous \<and> \<not> own_cost_unknown then Inr u
                           else case detail of
                                  None \<Rightarrow> Inr u
                                | Some d \<Rightarrow> Inl (Budget_Exceeded d u)))))"

subsection \<open>Reading the ledger\<close>

definition ledger_call_records :: "ledger \<Rightarrow> call_cost_record list" where
  "ledger_call_records l = sort_key cc_sequence (lg_call_records l)"

definition terminal_record :: "ledger \<Rightarrow> fault + ledger_record" where
  "terminal_record l =
     ebind (snapshot_locked l) (\<lambda>u.
       let r = \<lparr>lr_schema_version = 3, lr_budget = lg_budget l, lr_usage = u,
                lr_calls = ledger_call_records l\<rparr>
       in ebind (validate_ledger_record r) (\<lambda>_. Inr r))"

subsection \<open>Sequences of operations and the waiting loop\<close>

datatype ledger_op = Reserve call_request | Complete call_report

definition run_op :: "ledger_op \<Rightarrow> ledger \<Rightarrow> ledger" where
  "run_op x l = (case x of Reserve rq \<Rightarrow> fst (reserve_call_locked l rq)
                 | Complete rp \<Rightarrow> fst (complete_call l rp))"

definition run_ledger :: "ledger_op list \<Rightarrow> ledger \<Rightarrow> ledger" where
  "run_ledger ops l = fold run_op ops l"

text \<open>
  \<open>reserve_call\<close>: one element of the schedule per turn of its loop, holding whether
  \<open>wait_check\<close> raises in that turn and the operations other threads perform on the ledger
  before the lock is taken. \<open>None\<close>: the schedule ends and the call still waits.
\<close>

fun reserve_call ::
    "(bool \<times> ledger_op list) list \<Rightarrow> ledger \<Rightarrow> call_request \<Rightarrow> bool \<Rightarrow>
     (ledger \<times> (ledger_error + call_reservation)) option" where
  "reserve_call [] l rq wait_for_active = None"
| "reserve_call ((check_raises, others) # turns) l rq wait_for_active =
     (if check_raises then Some (l, Inl Wait_Check_Raised)
      else case reserve_call_locked (run_ledger others l) rq of
             (l1, Inl (Budget_Busy d u)) \<Rightarrow>
               if wait_for_active then reserve_call turns l1 rq wait_for_active
               else Some (l1, Inl (Budget_Busy d u))
           | (l1, r) \<Rightarrow> Some (l1, r))"

section \<open>The dictionary of active calls\<close>

lemma update_fresh: "k \<notin> fst ` set xs \<Longrightarrow> AList.update k v xs = xs @ [(k, v)]"
  by (induction xs) auto

lemma delete_filter: "AList.delete k xs = filter (\<lambda>x. fst x \<noteq> k) xs"
  by (auto simp: AList.delete_eq intro!: filter_cong)

lemma length_delete:
  "distinct (map fst xs) \<Longrightarrow> map_of xs k = Some v \<Longrightarrow> length xs = length (AList.delete k xs) + 1"
proof (induction xs)
  case (Cons x xs)
  show ?case
  proof (cases "fst x = k")
    case True
    then have "filter (\<lambda>x. fst x \<noteq> k) xs = xs"
      using Cons.prems(1) by (auto simp: filter_id_conv rev_image_eqI)
    with True show ?thesis by (simp add: delete_filter)
  next
    case False
    then show ?thesis using Cons by (cases x) (simp add: delete_filter)
  qed
qed simp

lemma keys_delete: "fst ` set (AList.delete k xs) = fst ` set xs - {k}"
  by (auto simp: delete_filter)

lemma distinct_delete_keys:
  "distinct (map fst xs) \<Longrightarrow> distinct (map fst (AList.delete k xs))"
  by (simp add: delete_filter distinct_map_filter)

lemma dec_sum_zeros: "(\<And>x. x \<in> set xs \<Longrightarrow> x = 0) \<Longrightarrow> dec_sum xs = 0"
proof (induction xs rule: rev_induct)
  case (snoc x xs)
  have "x = 0" by (rule snoc.prems) simp
  moreover have "dec_sum xs = 0" by (rule snoc.IH) (rule snoc.prems, simp)
  ultimately show ?case by (simp add: dec_sum_snoc dec_add_def)
qed (simp add: dec_sum_def)

text \<open>With one non-zero amount among the reservations, their rounded sum is that amount.\<close>

lemma dec_sum_single_nonzero:
  "filter (\<lambda>x. x \<noteq> 0) xs = [r] \<Longrightarrow> dec_round r = r \<Longrightarrow> dec_sum xs = r"
proof (induction xs rule: rev_induct)
  case (snoc x xs)
  show ?case
  proof (cases "x = 0")
    case True
    then show ?thesis
      using snoc by (simp add: dec_sum_snoc dec_add_def)
  next
    case False
    with snoc.prems have "filter (\<lambda>x. x \<noteq> 0) xs = []" "x = r" by simp_all
    then have "dec_sum xs = 0" by (intro dec_sum_zeros) (auto simp: filter_empty_conv)
    with \<open>x = r\<close> snoc.prems show ?thesis by (simp add: dec_sum_snoc dec_add_def)
  qed
qed simp

section \<open>The invariant\<close>

definition request_ok :: "call_request \<Rightarrow> bool" where
  "request_ok rq \<longleftrightarrow> 1 \<le> rq_attempt rq \<and> opt_all run_id_pattern (rq_run_id rq) \<and>
     opt_all ident_pattern (rq_stage rq) \<and> opt_all ident_pattern (rq_route_id rq) \<and>
     opt_all (\<lambda>p. pricing_ok p) (rq_pricing rq)"

definition report_ok :: "call_report \<Rightarrow> bool" where
  "report_ok rp \<longleftrightarrow> opt_all cache_usage_ok (rp_cache_usage rp)"

definition op_ok :: "ledger_op \<Rightarrow> bool" where
  "op_ok x = (case x of Reserve rq \<Rightarrow> request_ok rq | Complete rp \<Rightarrow> report_ok rp)"

definition active_ok :: "ledger \<Rightarrow> bool" where
  "active_ok l \<longleftrightarrow> distinct (map fst (lg_active l)) \<and>
     (\<forall>(k, r) \<in> set (lg_active l). cr_sequence r = k \<and> 1 \<le> k \<and> k \<le> lg_calls_started l \<and>
        reservation_ok r \<and> opt_all cache_pricing_ok (cr_cache_pricing r))"

definition records_ok :: "ledger \<Rightarrow> bool" where
  "records_ok l \<longleftrightarrow> distinct (map cc_sequence (lg_call_records l)) \<and>
     set (map cc_sequence (lg_call_records l)) = {1..lg_calls_started l} - fst ` set (lg_active l) \<and>
     (\<forall>c \<in> set (lg_call_records l). validate_call_record c = Inr () \<and> cc_cache_usage c \<noteq> None)"

definition counts_ok :: "ledger \<Rightarrow> bool" where
  "counts_ok l \<longleftrightarrow>
     lg_calls_started l = lg_calls_completed l + int (length (lg_active l)) \<and>
     lg_calls_completed l = int (length (lg_call_records l))"

definition totals_ok :: "ledger \<Rightarrow> bool" where
  "totals_ok l \<longleftrightarrow> (let cs = lg_call_records l in
     lg_input_tokens l = sum_list (map (\<lambda>c. tokens_or_zero (cc_input_tokens c)) cs) \<and>
     lg_output_tokens l = sum_list (map (\<lambda>c. tokens_or_zero (cc_output_tokens c)) cs) \<and>
     lg_agent_duration_ms l = sum_list (map cc_duration_ms cs) \<and>
     lg_known_cost l = dec_sum (known_costs cs) \<and>
     lg_unpriced_calls l = count_calls call_unpriced cs \<and>
     lg_unreported_token_calls l = count_calls call_unreported cs)"

definition ledger_ok :: "ledger \<Rightarrow> bool" where
  "ledger_ok l \<longleftrightarrow> active_ok l \<and> records_ok l \<and> counts_ok l \<and> totals_ok l"

lemmas ledger_ok_defs = ledger_ok_def active_ok_def records_ok_def counts_ok_def totals_ok_def

lemma new_ledger_ok: "ledger_ok (new_ledger b)"
  by (simp add: ledger_ok_defs new_ledger_def known_costs_def count_calls_def dec_sum_def)

subsection \<open>Usage snapshots\<close>

lemma valid_record_nonneg:
  assumes "validate_call_record c = Inr ()"
  shows "0 \<le> tokens_or_zero (cc_input_tokens c)" "0 \<le> tokens_or_zero (cc_output_tokens c)"
    "0 \<le> cc_duration_ms c" "opt_all (\<lambda>x. 0 \<le> x) (cc_cost_usd c)"
  using assms
  by (auto simp: validate_call_record_def record_field_errors_def Let_def tokens_or_zero_def
      the_or_def ebind_eq_Inr split: option.splits)

lemma valid_known_costs_nonneg:
  "(\<And>c. c \<in> set cs \<Longrightarrow> validate_call_record c = Inr ()) \<Longrightarrow> x \<in> set (known_costs cs) \<Longrightarrow> 0 \<le> x"
  using valid_record_nonneg(4) by (fastforce simp: known_costs_def)

lemma count_calls_bounds: "0 \<le> count_calls P cs" "count_calls P cs \<le> int (length cs)"
  by (simp_all add: count_calls_def)

lemma active_reserved_nonneg: "active_ok l \<Longrightarrow> 0 \<le> active_reserved l"
  unfolding active_reserved_def
  by (rule dec_sum_nonneg) (auto simp: active_ok_def dest: reservation_ok_prices(5))

lemma ledger_ok_totals_nonneg:
  assumes "ledger_ok l"
  shows "0 \<le> lg_input_tokens l" "0 \<le> lg_output_tokens l" "0 \<le> lg_agent_duration_ms l"
    "0 \<le> lg_known_cost l"
proof -
  have v: "\<And>c. c \<in> set (lg_call_records l) \<Longrightarrow> validate_call_record c = Inr ()"
    using assms by (simp add: ledger_ok_def records_ok_def)
  have t: "0 \<le> sum_list (map (\<lambda>c. tokens_or_zero (cc_input_tokens c)) (lg_call_records l))"
    "0 \<le> sum_list (map (\<lambda>c. tokens_or_zero (cc_output_tokens c)) (lg_call_records l))"
    "0 \<le> sum_list (map cc_duration_ms (lg_call_records l))"
    using valid_record_nonneg(1-3) [OF v] by (auto intro!: sum_list_nonneg)
  have k: "0 \<le> dec_sum (known_costs (lg_call_records l))"
    using valid_known_costs_nonneg [OF v] by (rule dec_sum_nonneg)
  show "0 \<le> lg_input_tokens l" "0 \<le> lg_output_tokens l" "0 \<le> lg_agent_duration_ms l"
    "0 \<le> lg_known_cost l"
    using assms t k by (simp_all add: ledger_ok_def totals_ok_def Let_def)
qed

lemma usage_of_ok:
  assumes "ledger_ok l"
  shows "usage_ok (usage_of l)"
proof -
  have n: "0 \<le> lg_unpriced_calls l" "0 \<le> lg_unreported_token_calls l"
    "lg_unpriced_calls l \<le> lg_calls_completed l"
    "lg_unreported_token_calls l \<le> lg_calls_completed l" "0 \<le> lg_calls_completed l"
    using assms count_calls_bounds
    by (simp_all add: ledger_ok_def totals_ok_def counts_ok_def Let_def)
  have s: "lg_calls_started l = lg_calls_completed l + int (length (lg_active l))"
    using assms by (simp add: ledger_ok_def counts_ok_def)
  have z: "lg_active l = [] \<Longrightarrow> active_reserved l = 0"
    by (simp add: active_reserved_def dec_sum_def)
  show ?thesis
    using assms n s z ledger_ok_totals_nonneg [OF assms] active_reserved_nonneg [of l]
    by (simp add: validate_usage_def usage_of_def ledger_ok_def not_less)
qed

lemma snapshot_ok: "ledger_ok l \<Longrightarrow> snapshot_locked l = Inr (usage_of l)"
  by (simp add: snapshot_locked_def usage_of_ok)

subsection \<open>The two transitions\<close>

lemma admission_nonneg: "reserve_admission l rq = Inr a \<Longrightarrow> 0 \<le> a"
  by (auto simp: reserve_admission_def user_task_admission_def Let_def
      split: sum.splits if_splits option.splits)

lemma admission_agent_id: "reserve_admission l rq = Inr a \<Longrightarrow> ident_pattern (rq_agent_id rq)"
  by (auto simp: reserve_admission_def split: if_splits)

lemma reservation_for_ok:
  assumes "request_ok rq" and "ident_pattern (rq_agent_id rq)" and "1 \<le> n" and "0 \<le> a"
  shows "reservation_ok (reservation_for rq n a)"
    and "opt_all cache_pricing_ok (cr_cache_pricing (reservation_for rq n a))"
  using assms
  by (cases "rq_pricing rq";
      auto simp: request_ok_def validate_call_reservation_def reservation_for_def
        validate_model_pricing_def)+

text \<open>The ledger after a reservation has been issued.\<close>

definition admit_call :: "ledger \<Rightarrow> call_request \<Rightarrow> rat \<Rightarrow> ledger" where
  "admit_call l rq a =
     l\<lparr>lg_calls_started := lg_calls_started l + 1,
       lg_active := lg_active l @ [(lg_calls_started l + 1,
         reservation_for rq (lg_calls_started l + 1) a)]\<rparr>"

lemma started_nonneg: "ledger_ok l \<Longrightarrow> 0 \<le> lg_calls_started l"
  by (simp add: ledger_ok_def counts_ok_def)

lemma next_sequence_fresh: "active_ok l \<Longrightarrow> lg_calls_started l + 1 \<notin> fst ` set (lg_active l)"
  by (force simp: active_ok_def)

lemma issue_reservation_ok:
  assumes "ledger_ok l" and "request_ok rq" and "ident_pattern (rq_agent_id rq)" and "0 \<le> a"
  shows "issue_reservation l rq a =
    (admit_call l rq a, Inr (reservation_for rq (lg_calls_started l + 1) a))"
  using assms reservation_for_ok(1) [of rq "lg_calls_started l + 1" a] started_nonneg [of l]
    update_fresh [OF next_sequence_fresh [of l]]
  by (simp add: issue_reservation_def Let_def admit_call_def ledger_ok_def)

lemma reserve_call_locked_ok:
  assumes "ledger_ok l" and "request_ok rq"
  shows "reserve_call_locked l rq =
    (case reserve_admission l rq of
       Inl e \<Rightarrow> (l, Inl e)
     | Inr a \<Rightarrow> (admit_call l rq a, Inr (reservation_for rq (lg_calls_started l + 1) a)))"
  using issue_reservation_ok [OF assms] admission_nonneg admission_agent_id
  by (auto simp: reserve_call_locked_def split: sum.splits)

lemma admit_call_ok:
  assumes "ledger_ok l" and "request_ok rq" and "ident_pattern (rq_agent_id rq)" and "0 \<le> a"
  shows "ledger_ok (admit_call l rq a)"
proof -
  let ?n = "lg_calls_started l + 1"
  have fresh: "?n \<notin> fst ` set (lg_active l)"
    using assms(1) next_sequence_fresh by (simp add: ledger_ok_def)
  have new: "reservation_ok (reservation_for rq ?n a)"
    "opt_all cache_pricing_ok (cr_cache_pricing (reservation_for rq ?n a))"
    using reservation_for_ok [OF assms(2,3) _ assms(4)] started_nonneg [OF assms(1)] by simp_all
  have "active_ok (admit_call l rq a)"
    using assms(1) fresh new started_nonneg [OF assms(1)]
    by (auto simp: ledger_ok_def active_ok_def admit_call_def reservation_for_def)
  moreover have "{1..?n} - insert ?n A = {1..lg_calls_started l} - A" for A by auto
  then have "records_ok (admit_call l rq a)"
    using assms(1) by (simp add: ledger_ok_def records_ok_def admit_call_def)
  moreover have "counts_ok (admit_call l rq a)" and "totals_ok (admit_call l rq a)"
    using assms(1) by (simp_all add: ledger_ok_def counts_ok_def totals_ok_def admit_call_def)
  ultimately show ?thesis by (simp add: ledger_ok_def)
qed

lemma complete_call_cases:
  assumes "complete_call l rp = (l', res)"
  obtains (rejected) e where "price_report l rp = Inl e" "l' = l" "res = Inl (Fault e)"
  | (settled) prev cost where "price_report l rp = Inr (prev, cost)" "l' = settle_call l rp cost"
  using assms
  by (auto simp: complete_call_def Let_def split: sum.splits if_splits option.splits)

lemma price_report_settles:
  assumes "price_report l rp = Inr (prev, cost)"
  shows "map_of (lg_active l) (cr_sequence (rp_reservation rp)) = Some (rp_reservation rp)"
    and "validate_call_record (cost_record_for rp cost) = Inr ()"
    and "check_report rp = Inr ()"
    and "reservation_estimate_cost (rp_reservation rp) (rp_input_tokens rp) (rp_output_tokens rp)
           (Some (the_or (rp_cache_usage rp) unknown_cache_usage)) = Inr cost"
  using assms by (auto simp: price_report_def ebind_eq_Inr split: if_splits)

lemma known_costs_snoc:
  "known_costs (cs @ [c]) = known_costs cs @ (case cc_cost_usd c of None \<Rightarrow> [] | Some x \<Rightarrow> [x])"
  by (simp add: known_costs_def split: option.split)

lemma count_calls_snoc: "count_calls P (cs @ [c]) = count_calls P cs + (if P c then 1 else 0)"
  by (simp add: count_calls_def)

lemma settle_call_totals:
  "totals_ok l \<Longrightarrow> totals_ok (settle_call l rp cost)"
  by (auto simp: totals_ok_def settle_call_def Let_def cost_record_for_def known_costs_snoc
      count_calls_snoc call_unpriced_def call_unreported_def dec_sum_snoc split: option.splits)

lemma settle_call_ok:
  assumes "ledger_ok l" and "price_report l rp = Inr (prev, cost)"
  shows "ledger_ok (settle_call l rp cost)"
proof -
  let ?k = "cr_sequence (rp_reservation rp)" and ?l = "settle_call l rp cost"
  note m = price_report_settles(1) [OF assms(2)]
  have d: "distinct (map fst (lg_active l))" using assms(1) by (simp add: ledger_ok_defs)
  have kin: "?k \<in> fst ` set (lg_active l)" using m by (metis domI dom_map_of_conv_image_fst)
  then have k: "1 \<le> ?k" "?k \<le> lg_calls_started l"
    using assms(1) by (auto simp: ledger_ok_def active_ok_def)
  have "active_ok ?l"
    using assms(1) by (auto simp: ledger_ok_def active_ok_def settle_call_def delete_filter
        distinct_map_filter)
  moreover have "records_ok ?l"
    using assms(1) price_report_settles(2) [OF assms(2)] kin k
    by (auto simp: ledger_ok_def records_ok_def settle_call_def keys_delete cost_record_for_def
        Let_def)
  moreover have "counts_ok ?l"
    using assms(1) length_delete [OF d m] by (simp add: ledger_ok_def counts_ok_def settle_call_def)
  moreover have "totals_ok ?l"
    using assms(1) by (simp add: ledger_ok_def settle_call_totals)
  ultimately show ?thesis by (simp add: ledger_ok_def)
qed

lemma run_op_ok:
  assumes "ledger_ok l" and "op_ok x"
  shows "ledger_ok (run_op x l)"
proof (cases x)
  case (Reserve rq)
  then show ?thesis
    using assms admit_call_ok admission_nonneg admission_agent_id
    by (auto simp: run_op_def op_ok_def reserve_call_locked_ok split: sum.splits)
next
  case (Complete rp)
  then show ?thesis
    using assms(1) complete_call_cases [of l rp "fst (complete_call l rp)" "snd (complete_call l rp)"]
      settle_call_ok
    by (metis ledger_op.simps(6) prod.collapse run_op_def)
qed

lemma run_ledger_ok:
  "ledger_ok l \<Longrightarrow> (\<And>x. x \<in> set ops \<Longrightarrow> op_ok x) \<Longrightarrow> ledger_ok (run_ledger ops l)"
  unfolding run_ledger_def by (induction ops arbitrary: l) (simp_all add: run_op_ok)

section \<open>Paid calls exclude each other\<close>

definition paid_amounts :: "ledger \<Rightarrow> rat list" where
  "paid_amounts l = filter (\<lambda>x. x \<noteq> 0) (map (\<lambda>(k, r). cr_reserved r) (lg_active l))"

text \<open>At most one reserved amount, and it was the whole remainder at some earlier spend.\<close>

definition paid_ok :: "ledger \<Rightarrow> bool" where
  "paid_ok l \<longleftrightarrow> paid_amounts l = [] \<or>
     (\<exists>s. s \<le> lg_known_cost l \<and>
        paid_amounts l = [dec_sub (dec_sub (bg_max_cost (lg_budget l)) s) 0])"

lemma active_reserved_paid:
  assumes "paid_amounts l = [dec_sub a b]"
  shows "active_reserved l = dec_sub a b"
  using assms unfolding active_reserved_def paid_amounts_def
  by (intro dec_sum_single_nonzero) (simp_all add: dec_sub_def)

lemma active_reserved_unpaid: "paid_amounts l = [] \<Longrightarrow> active_reserved l = 0"
  unfolding active_reserved_def paid_amounts_def
  by (rule dec_sum_zeros) (auto simp: filter_empty_conv)

lemma admission_amount_facts:
  assumes "reserve_admission l rq = Inr a" and "ledger_ok l"
  shows "a = 0 \<or>
     (a = dec_sub (dec_sub (bg_max_cost (lg_budget l)) (lg_known_cost l)) (active_reserved l) \<and>
      0 < a \<and> bg_authority (lg_budget l) = User_Task \<and>
      (\<forall>p bound. rq_pricing rq = Some p \<longrightarrow> max_call_estimated_cost_usd p = Some bound \<longrightarrow> bound \<le> a))"
  using assms(1) snapshot_ok [OF assms(2)]
  by (auto simp: reserve_admission_def user_task_admission_def Let_def available_amount_def
      usage_of_def not_le not_less split: sum.splits if_splits option.splits)

lemma admission_amount:
  assumes "reserve_admission l rq = Inr a" and "ledger_ok l"
  obtains (free) "a = 0"
  | (paid) "a = dec_sub (dec_sub (bg_max_cost (lg_budget l)) (lg_known_cost l)) (active_reserved l)"
      "0 < a" "bg_authority (lg_budget l) = User_Task"
      "\<And>p bound. rq_pricing rq = Some p \<Longrightarrow> max_call_estimated_cost_usd p = Some bound \<Longrightarrow> bound \<le> a"
  using admission_amount_facts [OF assms] by blast

lemma available_exhausted:
  assumes "paid_ok l" and "paid_amounts l \<noteq> []"
  shows "dec_sub (dec_sub (bg_max_cost (lg_budget l)) (lg_known_cost l)) (active_reserved l) \<le> 0"
proof -
  obtain s where s: "s \<le> lg_known_cost l"
    and p: "paid_amounts l = [dec_sub (dec_sub (bg_max_cost (lg_budget l)) s) 0]"
    using assms by (auto simp: paid_ok_def)
  show ?thesis
    using active_reserved_paid [OF p] dec.rnd_remainder_exhausted [OF s] by (simp add: dec_sub_def)
qed

lemma admitted_paid_alone:
  assumes "ledger_ok l" and "paid_ok l" and "reserve_admission l rq = Inr a" and "a \<noteq> 0"
  shows "paid_amounts l = []"
    and "a = dec_sub (dec_sub (bg_max_cost (lg_budget l)) (lg_known_cost l)) 0"
proof -
  have a: "a = dec_sub (dec_sub (bg_max_cost (lg_budget l)) (lg_known_cost l)) (active_reserved l)"
    and "0 < a"
    using assms(3,1,4) by (cases rule: admission_amount; simp)+
  with available_exhausted [OF assms(2)] show none: "paid_amounts l = []" by linarith
  show "a = dec_sub (dec_sub (bg_max_cost (lg_budget l)) (lg_known_cost l)) 0"
    using a active_reserved_unpaid [OF none] by simp
qed

lemma paid_amounts_admit:
  "paid_amounts (admit_call l rq a) = paid_amounts l @ (if a = 0 then [] else [a])"
  by (simp add: paid_amounts_def admit_call_def reservation_for_def)

lemma admit_call_paid:
  assumes "ledger_ok l" and "paid_ok l" and "reserve_admission l rq = Inr a"
  shows "paid_ok (admit_call l rq a)"
proof (cases "a = 0")
  case True
  then show ?thesis
    using assms(2) by (simp add: paid_ok_def paid_amounts_admit) (simp add: admit_call_def)
next
  case False
  note alone = admitted_paid_alone [OF assms False]
  then have "paid_amounts (admit_call l rq a) =
      [dec_sub (dec_sub (bg_max_cost (lg_budget (admit_call l rq a))) (lg_known_cost l)) 0]"
    using False by (simp add: paid_amounts_admit) (simp add: admit_call_def)
  moreover have "lg_known_cost l \<le> lg_known_cost (admit_call l rq a)"
    by (simp add: admit_call_def)
  ultimately show ?thesis unfolding paid_ok_def by blast
qed

lemma filter_singleton_sub: "filter P [x] = [] \<or> filter P [x] = [x]" by simp

lemma paid_amounts_delete:
  assumes "length (paid_amounts l) \<le> 1" and "lg_active l' = AList.delete k (lg_active l)"
  shows "paid_amounts l' = [] \<or> paid_amounts l' = paid_amounts l"
proof -
  let ?f = "\<lambda>x. cr_reserved (snd x) \<noteq> 0"
  have pl: "paid_amounts m = map (\<lambda>x. cr_reserved (snd x)) (filter ?f (lg_active m))" for m
    by (simp add: paid_amounts_def filter_map o_def split_def)
  have fl: "filter ?f (lg_active l') = filter (\<lambda>x. fst x \<noteq> k) (filter ?f (lg_active l))"
    unfolding assms(2) delete_filter filter_filter by (rule filter_cong) auto
  have "length (filter ?f (lg_active l)) \<le> 1" using assms(1) by (simp add: pl)
  then consider "filter ?f (lg_active l) = []" | y where "filter ?f (lg_active l) = [y]"
    by (cases "filter ?f (lg_active l)") auto
  then show ?thesis by cases (simp_all add: pl fl)
qed

lemma valid_cost_nonneg:
  "validate_call_record (cost_record_for rp (Some c)) = Inr () \<Longrightarrow> 0 \<le> c"
  using valid_record_nonneg(4) by (force simp: cost_record_for_def Let_def)

lemma settle_known_cost_mono:
  assumes "ledger_ok l" and "price_report l rp = Inr (prev, cost)"
  shows "lg_known_cost l \<le> lg_known_cost (settle_call l rp cost)"
proof (cases cost)
  case None
  then show ?thesis by (simp add: settle_call_def)
next
  case (Some c)
  have "dec_round (lg_known_cost l) = lg_known_cost l"
    using assms(1) by (simp add: ledger_ok_def totals_ok_def Let_def dec_sum_rounded)
  moreover have "0 \<le> c" using price_report_settles(2) [OF assms(2)] Some valid_cost_nonneg by blast
  ultimately show ?thesis using Some by (simp add: settle_call_def dec_add_mono_left)
qed

lemma settle_call_paid:
  assumes "ledger_ok l" and "paid_ok l" and "price_report l rp = Inr (prev, cost)"
  shows "paid_ok (settle_call l rp cost)"
proof -
  let ?l = "settle_call l rp cost"
  have b: "lg_budget ?l = lg_budget l" by (simp add: settle_call_def)
  have "length (paid_amounts l) \<le> 1" using assms(2) by (auto simp: paid_ok_def)
  then have "paid_amounts ?l = [] \<or> paid_amounts ?l = paid_amounts l"
    by (rule paid_amounts_delete) (simp add: settle_call_def)
  then show ?thesis
    using assms(2) settle_known_cost_mono [OF assms(1,3)] unfolding paid_ok_def b
    by (metis order_trans)
qed

section \<open>Attribution of user-task calls\<close>

definition attributed :: "ledger \<Rightarrow> bool" where
  "attributed l \<longleftrightarrow> bg_authority (lg_budget l) = User_Task \<longrightarrow>
     (\<forall>(k, r) \<in> set (lg_active l). cr_run_id r \<noteq> None \<and> cr_stage r \<noteq> None \<and>
        cr_route_id r \<noteq> None \<and> cr_model r \<noteq> None \<and> cr_pricing_source r \<noteq> None) \<and>
     (\<forall>c \<in> set (lg_call_records l). cc_run_id c \<noteq> None \<and> cc_stage c \<noteq> None \<and>
        cc_route_id c \<noteq> None \<and> cc_model c \<noteq> None \<and> cc_pricing_source c \<noteq> None)"

lemma admit_call_attributed:
  assumes "attributed l" and "reserve_admission l rq = Inr a"
  shows "attributed (admit_call l rq a)"
proof -
  have "bg_authority (lg_budget l) = User_Task \<Longrightarrow>
      rq_run_id rq \<noteq> None \<and> rq_stage rq \<noteq> None \<and> rq_route_id rq \<noteq> None \<and>
      (\<exists>p. rq_pricing rq = Some p \<and> mp_source p \<noteq> None)"
    using assms(2)
    by (auto simp: reserve_admission_def user_task_admission_def
        split: sum.splits if_splits option.splits)
  then show ?thesis
    using assms(1) by (auto simp: attributed_def admit_call_def reservation_for_def)
qed

lemma settle_call_attributed:
  assumes "attributed l" and "price_report l rp = Inr (prev, cost)"
  shows "attributed (settle_call l rp cost)"
proof -
  have "(cr_sequence (rp_reservation rp), rp_reservation rp) \<in> set (lg_active l)"
    using price_report_settles(1) [OF assms(2)] by (rule map_of_SomeD)
  then show ?thesis
    using assms(1)
    by (auto simp: attributed_def settle_call_def delete_filter cost_record_for_def Let_def)
qed

section \<open>Reachable ledgers\<close>

definition ledger_inv :: "ledger \<Rightarrow> bool" where
  "ledger_inv l \<longleftrightarrow> ledger_ok l \<and> paid_ok l \<and> attributed l"

lemma new_ledger_inv: "ledger_inv (new_ledger b)"
  using new_ledger_ok [of b]
  by (simp add: ledger_inv_def paid_ok_def paid_amounts_def attributed_def new_ledger_def)

text \<open>A step leaves the ledger alone, admits one call or settles one call.\<close>

lemma run_op_cases:
  assumes "ledger_ok l" and "op_ok x"
  obtains (same) "run_op x l = l"
  | (admitted) rq a where "x = Reserve rq" "reserve_admission l rq = Inr a"
      "run_op x l = admit_call l rq a"
  | (settled) rp prev cost where "x = Complete rp" "price_report l rp = Inr (prev, cost)"
      "run_op x l = settle_call l rp cost"
proof (cases x)
  case (Reserve rq)
  then show ?thesis
    using assms that by (cases "reserve_admission l rq")
      (auto simp: run_op_def op_ok_def reserve_call_locked_ok)
next
  case (Complete rp)
  obtain l' res where c: "complete_call l rp = (l', res)" by force
  then have r: "run_op x l = l'" using Complete by (simp add: run_op_def)
  from c show ?thesis
  proof (cases rule: complete_call_cases)
    case rejected
    then show ?thesis using r same by simp
  next
    case (settled prev cost)
    then show ?thesis using r Complete that(3) by blast
  qed
qed

lemma run_op_inv:
  assumes "ledger_inv l" and "op_ok x"
  shows "ledger_inv (run_op x l)"
proof -
  have ok: "ledger_ok l" using assms(1) by (simp add: ledger_inv_def)
  from ok assms(2) show ?thesis
    by (cases rule: run_op_cases)
      (use assms run_op_ok [OF ok assms(2)] in \<open>auto simp: ledger_inv_def
        intro: admit_call_paid settle_call_paid admit_call_attributed settle_call_attributed\<close>)
qed

lemma run_ledger_inv:
  "ledger_inv l \<Longrightarrow> (\<And>x. x \<in> set ops \<Longrightarrow> op_ok x) \<Longrightarrow> ledger_inv (run_ledger ops l)"
  unfolding run_ledger_def by (induction ops arbitrary: l) (simp_all add: run_op_inv)

lemma run_op_budget: "lg_budget (run_op x l) = lg_budget l"
proof (cases x)
  case (Reserve rq)
  then show ?thesis
    by (auto simp: run_op_def reserve_call_locked_def issue_reservation_def Let_def
        split: sum.splits)
next
  case (Complete rp)
  then show ?thesis
    by (auto simp: run_op_def complete_call_def settle_call_def Let_def split: sum.splits)
qed

lemma run_ledger_budget [simp]: "lg_budget (run_ledger ops l) = lg_budget l"
  unfolding run_ledger_def by (induction ops arbitrary: l) (simp_all add: run_op_budget)

section \<open>Settling a call\<close>

lemma estimate_cost_nonneg:
  assumes "reservation_ok r" and "opt_all cache_pricing_ok (cr_cache_pricing r)"
    and "opt_all cache_usage_ok usage"
    and "reservation_estimate_cost r i n usage = Inr (Some c)"
  shows "0 \<le> c"
proof (cases "has_confirmed_zero_pricing (cr_input_price r) (cr_output_price r)
    (cr_pricing_source r) (cr_cache_pricing r)")
  case False
  then have e: "estimate_model_cost i n (cr_input_price r) (cr_output_price r) usage
      (cr_cache_pricing r) = Inr (Some c)"
    using assms(4) by (auto simp: reservation_estimate_cost_def split: sum.splits)
  then obtain p_in p_out where p: "cr_input_price r = Some p_in" "cr_output_price r = Some p_out"
    using estimate_prices_known by blast
  then have "0 \<le> p_in" "0 \<le> p_out"
    using reservation_ok_prices(3,4) [OF assms(1)] by simp_all
  then show ?thesis using e p assms(2,3) by (auto intro: estimate_nonneg)
qed (use assms(4) in \<open>simp add: reservation_estimate_cost_def\<close>)

text \<open>The record built from a valid reservation and a checked report passes its validator.\<close>

lemma cost_record_valid:
  assumes "reservation_ok (rp_reservation rp)"
    and "opt_all cache_pricing_ok (cr_cache_pricing (rp_reservation rp))"
    and "report_ok rp" and "check_report rp = Inr ()"
    and cost: "reservation_estimate_cost (rp_reservation rp) (rp_input_tokens rp)
      (rp_output_tokens rp) (Some (the_or (rp_cache_usage rp) unknown_cache_usage)) = Inr cost"
  shows "validate_call_record (cost_record_for rp cost) = Inr ()"
proof -
  let ?r = "rp_reservation rp" and ?c = "cost_record_for rp cost"
  have usage: "opt_all cache_usage_ok (Some (the_or (rp_cache_usage rp) unknown_cache_usage))"
    using assms(3) unknown_cache_usage_ok by (cases "rp_cache_usage rp") (simp_all add: report_ok_def)
  have "opt_all (\<lambda>x. 0 \<le> x) cost"
    using estimate_cost_nonneg [OF assms(1,2) usage] cost by (cases cost) auto
  then have fields: "\<forall>(bad, e) \<in> set (record_field_errors ?c). \<not> bad"
    using assms(1,4)
    by (auto simp: record_field_errors_def cost_record_for_def Let_def
        validate_call_reservation_def check_report_def)
  have known: "cost \<noteq> None \<Longrightarrow> cr_input_price ?r \<noteq> None"
    using cost estimate_prices_known confirmed_zero_prices
    by (fastforce simp: reservation_estimate_cost_def split: if_splits sum.splits)
  show ?thesis
    unfolding validate_call_record_def Let_def ebind_eq_Inr first_error_Inr
    using fields assms(1) known cost
    by (auto simp: cost_record_for_def Let_def validate_call_reservation_def
        reservation_estimate_cost_def split: if_splits sum.splits)
qed

lemma price_report_returns:
  assumes "ledger_ok l" and "report_ok rp" and "check_report rp = Inr ()"
    and "map_of (lg_active l) (cr_sequence (rp_reservation rp)) = Some (rp_reservation rp)"
  obtains prev cost where "price_report l rp = Inr (prev, cost)"
proof -
  let ?r = "rp_reservation rp" and ?u = "Some (the_or (rp_cache_usage rp) unknown_cache_usage)"
  have r: "reservation_ok ?r" "opt_all cache_pricing_ok (cr_cache_pricing ?r)"
    using map_of_SomeD [OF assms(4)] assms(1) by (auto simp: ledger_ok_def active_ok_def)
  have "\<exists>c. estimate_model_cost (rp_input_tokens rp) (rp_output_tokens rp) (cr_input_price ?r)
      (cr_output_price ?r) ?u (cr_cache_pricing ?r) = Inr c"
    using assms(3) by (intro estimate_nonneg_tokens_returns) (auto simp: check_report_def)
  then have "\<exists>cost. reservation_estimate_cost ?r (rp_input_tokens rp) (rp_output_tokens rp) ?u = Inr cost"
    by (cases "has_confirmed_zero_pricing (cr_input_price ?r) (cr_output_price ?r)
        (cr_pricing_source ?r) (cr_cache_pricing ?r)") (auto simp: reservation_estimate_cost_def)
  then obtain cost where cost: "reservation_estimate_cost ?r (rp_input_tokens rp)
      (rp_output_tokens rp) ?u = Inr cost"
    by blast
  have "price_report l rp = Inr (exceeded (lg_budget l) (usage_of l), cost)"
    using cost_record_valid [OF r assms(2,3) cost] assms(3,4) cost snapshot_ok [OF assms(1)]
    by (simp add: price_report_def)
  then show ?thesis by (rule that)
qed

lemma complete_call_settled:
  assumes "ledger_ok l" and "price_report l rp = Inr (prev, cost)"
  shows "fst (complete_call l rp) = settle_call l rp cost"
    and "(\<exists>u. snd (complete_call l rp) = Inr u) \<or>
         (\<exists>d u. snd (complete_call l rp) = Inl (Budget_Exceeded d u))"
  using assms snapshot_ok [OF settle_call_ok [OF assms]]
  by (auto simp: complete_call_def Let_def split: option.splits)

section \<open>Monotone quantities\<close>

lemma run_op_unpriced:
  assumes "ledger_ok l" and "op_ok x"
  shows "lg_unpriced_calls l \<le> lg_unpriced_calls (run_op x l)"
  using assms
  by (cases rule: run_op_cases) (simp_all add: admit_call_def settle_call_def)

lemma run_ledger_unpriced:
  "ledger_ok l \<Longrightarrow> (\<And>x. x \<in> set ops \<Longrightarrow> op_ok x) \<Longrightarrow>
     lg_unpriced_calls l \<le> lg_unpriced_calls (run_ledger ops l)"
proof (induction ops arbitrary: l)
  case (Cons x ops)
  then have "lg_unpriced_calls l \<le> lg_unpriced_calls (run_op x l)"
    and "lg_unpriced_calls (run_op x l) \<le> lg_unpriced_calls (run_ledger ops (run_op x l))"
    by (simp_all add: run_op_unpriced run_op_ok)
  then show ?case by (simp add: run_ledger_def)
qed (simp add: run_ledger_def)

lemma admission_call_limit:
  "reserve_admission l rq = Inr a \<Longrightarrow> bg_max_calls (lg_budget l) = Some m \<Longrightarrow> lg_calls_started l < m"
  by (auto simp: reserve_admission_def not_le split: sum.splits if_splits)

definition within_call_limit :: "ledger \<Rightarrow> bool" where
  "within_call_limit l \<longleftrightarrow> opt_all (\<lambda>m. lg_calls_started l \<le> m) (bg_max_calls (lg_budget l))"

lemma run_op_call_limit:
  assumes "ledger_ok l" and "op_ok x" and "within_call_limit l"
  shows "within_call_limit (run_op x l)"
  using assms(1,2)
proof (cases rule: run_op_cases)
  case (admitted rq a)
  then show ?thesis
    using admission_call_limit [of l rq a]
    by (cases "bg_max_calls (lg_budget l)") (auto simp: within_call_limit_def admit_call_def)
next
  case (settled rp prev cost)
  then show ?thesis
    using assms(3) by (cases "bg_max_calls (lg_budget l)")
      (auto simp: within_call_limit_def settle_call_def)
qed (simp add: assms(3))

lemma run_ledger_call_limit:
  "ledger_ok l \<Longrightarrow> within_call_limit l \<Longrightarrow> (\<And>x. x \<in> set ops \<Longrightarrow> op_ok x) \<Longrightarrow>
     within_call_limit (run_ledger ops l)"
  unfolding run_ledger_def
  by (induction ops arbitrary: l) (simp_all add: run_op_ok run_op_call_limit)

section \<open>The terminal record\<close>

lemma mset_sort_records: "mset (ledger_call_records l) = mset (lg_call_records l)"
  by (simp add: ledger_call_records_def)

lemma mset_sum_list_map:
  fixes f :: "'a \<Rightarrow> 'b::comm_monoid_add"
  shows "mset xs = mset ys \<Longrightarrow> sum_list (map f xs) = sum_list (map f ys)"
  by (simp flip: sum_mset_sum_list)

lemma mset_count_calls: "mset xs = mset ys \<Longrightarrow> count_calls P xs = count_calls P ys"
  by (metis count_calls_def mset_filter size_mset)

lemma mset_known_costs: "mset xs = mset ys \<Longrightarrow> mset (known_costs xs) = mset (known_costs ys)"
  by (simp add: known_costs_def)

text \<open>Sums of amounts on one decimal grid do not depend on the order of the calls.\<close>

lemma known_costs_order_free:
  assumes "mset xs = mset ys" and "\<And>x. x \<in> set (known_costs xs) \<Longrightarrow> on_grid k x \<and> 0 \<le> x"
    and "sum_list (known_costs xs) * 10 ^ k \<le> 10 ^ 28"
  shows "dec_sum (known_costs xs) = dec_sum (known_costs ys)"
proof -
  note m = mset_known_costs [OF assms(1)]
  then have s: "set (known_costs ys) = set (known_costs xs)" by (metis set_mset_mset)
  have "sum_list (known_costs ys) = sum_list (known_costs xs)"
    using m by (metis sum_mset_sum_list)
  then show ?thesis
    using assms(2,3) s dec_sum_exact [of "known_costs xs" k] dec_sum_exact [of "known_costs ys" k]
    by metis
qed

lemma sorted_records_contiguous:
  assumes "ledger_ok l" and "lg_active l = []"
  shows "map cc_sequence (ledger_call_records l) = map int [1..<Suc (length (ledger_call_records l))]"
proof (rule sorted_distinct_set_unique)
  have len: "lg_calls_started l = int (length (ledger_call_records l))"
    using assms by (simp add: ledger_ok_def counts_ok_def ledger_call_records_def)
  show "sorted (map cc_sequence (ledger_call_records l))"
    by (simp add: ledger_call_records_def)
  show "distinct (map cc_sequence (ledger_call_records l))"
    using assms(1) by (simp add: ledger_ok_def records_ok_def ledger_call_records_def
        distinct_map inj_on_def)
  have "set (map cc_sequence (ledger_call_records l)) = {1..lg_calls_started l}"
    using assms by (simp add: ledger_ok_def records_ok_def ledger_call_records_def)
  also have "\<dots> = int ` {1..length (ledger_call_records l)}"
    by (simp add: len image_int_atLeastAtMost)
  finally show "set (map cc_sequence (ledger_call_records l)) =
      set (map int [1..<Suc (length (ledger_call_records l))])"
    by (simp add: atLeastLessThanSuc_atLeastAtMost del: upt_Suc)
qed (auto simp: distinct_map sorted_map sorted_wrt_map simp del: upt_Suc)

lemma terminal_record_returns:
  assumes "ledger_inv l" and "lg_active l = []"
    and "\<And>x. x \<in> set (known_costs (lg_call_records l)) \<Longrightarrow> on_grid k x"
    and "sum_list (known_costs (lg_call_records l)) * 10 ^ k \<le> 10 ^ 28"
  shows "terminal_record l = Inr \<lparr>lr_schema_version = 3, lr_budget = lg_budget l,
    lr_usage = usage_of l, lr_calls = ledger_call_records l\<rparr>"
proof -
  have ok: "ledger_ok l" and at: "attributed l" using assms(1) by (simp_all add: ledger_inv_def)
  note m = mset_sort_records [of l]
  have set_eq: "set (ledger_call_records l) = set (lg_call_records l)"
    by (simp add: ledger_call_records_def)
  have len: "length (ledger_call_records l) = length (lg_call_records l)"
    by (simp add: ledger_call_records_def)
  have valid: "\<And>c. c \<in> set (lg_call_records l) \<Longrightarrow> validate_call_record c = Inr ()"
    using ok by (simp add: ledger_ok_def records_ok_def)
  then have nonneg: "\<And>x. x \<in> set (known_costs (lg_call_records l)) \<Longrightarrow> 0 \<le> x"
    by (rule valid_known_costs_nonneg)
  have cost: "dec_sum (known_costs (ledger_call_records l)) = lg_known_cost l"
    using known_costs_order_free [OF m [symmetric], of k] assms(3,4) nonneg ok
    by (simp add: ledger_ok_def totals_ok_def Let_def)
  have totals: "sum_list (map (\<lambda>c. tokens_or_zero (cc_input_tokens c)) (ledger_call_records l))
        = lg_input_tokens l"
    "sum_list (map (\<lambda>c. tokens_or_zero (cc_output_tokens c)) (ledger_call_records l))
        = lg_output_tokens l"
    "sum_list (map cc_duration_ms (ledger_call_records l)) = lg_agent_duration_ms l"
    "count_calls call_unpriced (ledger_call_records l) = lg_unpriced_calls l"
    "count_calls call_unreported (ledger_call_records l) = lg_unreported_token_calls l"
    using ok mset_sum_list_map [OF m] mset_count_calls [OF m]
    by (simp_all add: ledger_ok_def totals_ok_def Let_def)
  have "validate_ledger_record \<lparr>lr_schema_version = 3, lr_budget = lg_budget l,
      lr_usage = usage_of l, lr_calls = ledger_call_records l\<rparr> = Inr ()"
    unfolding validate_ledger_record_def Let_def first_error_Inr
    using ok at assms(2) cost totals sorted_records_contiguous [OF ok assms(2)] len
    by (auto simp: list_ex_iff set_eq usage_of_def ledger_ok_def records_ok_def counts_ok_def
        attributed_def simp del: upt_Suc)
  then show ?thesis using snapshot_ok [OF ok] by (simp add: terminal_record_def Let_def)
qed

section \<open>Properties\<close>

definition reachable_ledger :: "ledger_op list \<Rightarrow> budget \<Rightarrow> ledger" where
  "reachable_ledger ops b = run_ledger ops (new_ledger b)"

lemma reachable_ledger_inv: "list_all op_ok ops \<Longrightarrow> ledger_inv (reachable_ledger ops b)"
  unfolding reachable_ledger_def
  by (rule run_ledger_inv [OF new_ledger_inv]) (simp add: list_all_iff)

lemma reachable_ledger_budget [simp]: "lg_budget (reachable_ledger ops b) = b"
  by (simp add: reachable_ledger_def new_ledger_def)

lemma reachable_ledger_ok: "list_all op_ok ops \<Longrightarrow> ledger_ok (reachable_ledger ops b)"
  using reachable_ledger_inv by (simp add: ledger_inv_def)

definition demo_budget :: budget where
  "demo_budget = \<lparr>bg_schema_version = 3, bg_authority = User_Task, bg_max_calls = None,
     bg_max_input_tokens = None, bg_max_output_tokens = None, bg_max_duration_seconds = None,
     bg_max_cost = 5\<rparr>"

definition demo_request :: call_request where
  "demo_request = \<lparr>rq_agent_id = ''coder'', rq_run_id = Some ''run-1'', rq_stage = Some ''coder'',
     rq_attempt = 1, rq_route_id = Some ''r'', rq_pricing = Some demo_pricing\<rparr>"

definition demo_report :: call_report where
  "demo_report = \<lparr>rp_reservation = reservation_for demo_request 1 5,
     rp_input_tokens = Some 1000000, rp_output_tokens = Some 1000000, rp_duration_ms = 10,
     rp_cache_usage = Some \<lparr>cu_read = Some 0, cu_write = Some 0\<rparr>\<rparr>"

lemmas dec_op_defs = dec_add_def dec_mul_def dec_sub_def dec_div_def

lemmas demo_ledger_defs = demo_budget_def demo_request_def demo_report_def demo_pricing_def
  demo_cache_def new_ledger_def

lemma demo_ops_ok: "op_ok (Reserve demo_request)" "op_ok (Complete demo_report)"
  by code_simp+

lemma demo_agent_id: "ident_pattern ''coder''"
  by code_simp

lemma demo_paid:
  "\<not> has_confirmed_zero_pricing (Some 2) (Some 1) (Some Provider_Catalog) c"
  by (simp add: has_confirmed_zero_pricing_def)

lemma demo_admission: "reserve_admission (new_ledger demo_budget) demo_request = Inr 5"
proof -
  have "ident_pattern (rq_agent_id demo_request)"
    using demo_agent_id by (simp add: demo_request_def)
  moreover have "user_task_admission (new_ledger demo_budget) demo_request
      (usage_of (new_ledger demo_budget)) = Inr 5"
    using demo_bound demo_paid
    by (simp add: user_task_admission_def demo_request_def)
      (simp add: demo_pricing_def demo_cache_def available_amount_def usage_of_def new_ledger_def
        demo_budget_def active_reserved_def dec_sum_def dec_sub_def)
  ultimately show ?thesis
    by (simp add: reserve_admission_def snapshot_ok new_ledger_ok)
      (simp add: new_ledger_def demo_budget_def)
qed

lemma demo_reserved:
  "reserve_call_locked (new_ledger demo_budget) demo_request =
     (admit_call (new_ledger demo_budget) demo_request 5, Inr (reservation_for demo_request 1 5))"
  using reserve_call_locked_ok [OF new_ledger_ok, of demo_request demo_budget] demo_ops_ok(1)
    demo_admission
  by (simp add: op_ok_def) (simp add: new_ledger_def)

text \<open>C3: The accounting of the ledger is coherent. After any sequence of reservations and
  completions by any number of threads whose requests and reports are valid (attempt numbers,
  identifiers, pricing and cache counters pass their models), the usage snapshot is valid, every
  started call is active or has exactly one record, every record passes its validator, and
  the aggregate tokens, duration, cost and counters are the sums over the records.\<close>

theorem ledger_accounting_coherent:
  assumes "list_all op_ok ops" and "l = reachable_ledger ops b"
  shows "snapshot_locked l = Inr (usage_of l) \<and>
    lg_calls_started l = lg_calls_completed l + int (length (lg_active l)) \<and>
    distinct (map cc_sequence (lg_call_records l)) \<and>
    set (map cc_sequence (lg_call_records l)) = {1..lg_calls_started l} - fst ` set (lg_active l) \<and>
    (\<forall>c \<in> set (lg_call_records l). validate_call_record c = Inr ()) \<and>
    totals_ok l"
  using reachable_ledger_ok [OF assms(1), of b] snapshot_ok assms(2)
  by (auto simp: ledger_ok_def counts_ok_def records_ok_def)

theorem ledger_accounting_coherent_witness:
  "snapshot_locked (reachable_ledger [Reserve demo_request, Complete demo_report] demo_budget) =
     Inr (usage_of (reachable_ledger [Reserve demo_request, Complete demo_report] demo_budget))"
  using ledger_accounting_coherent [of "[Reserve demo_request, Complete demo_report]"] demo_ops_ok
  by simp

text \<open>C1: Paid calls of one run exclude each other. In every reachable ledger at most one
  active reservation holds money, and the amount held is what every snapshot reports.\<close>

theorem paid_calls_exclusive:
  assumes "list_all op_ok ops" and "l = reachable_ledger ops b"
  shows "length (filter (\<lambda>(k, r). cr_reserved r \<noteq> 0) (lg_active l)) \<le> 1 \<and>
    us_active_reserved (usage_of l) = sum_list (map (\<lambda>(k, r). cr_reserved r) (lg_active l))"
proof -
  have paid: "paid_ok l" using reachable_ledger_inv [OF assms(1)] assms(2) by (simp add: ledger_inv_def)
  have sums: "sum_list xs = sum_list (filter (\<lambda>x. x \<noteq> 0) xs)" for xs :: "rat list"
    by (induction xs) simp_all
  have "length (paid_amounts l) \<le> 1" using paid by (auto simp: paid_ok_def)
  moreover have "active_reserved l = sum_list (paid_amounts l)"
    using paid active_reserved_paid [of l] active_reserved_unpaid [of l]
    by (auto simp: paid_ok_def)
  ultimately show ?thesis
    using sums [of "map (\<lambda>(k, r). cr_reserved r) (lg_active l)"]
    by (simp add: usage_of_def paid_amounts_def filter_map o_def split_def)
qed

theorem paid_calls_exclusive_witness:
  "length (filter (\<lambda>(k, r). cr_reserved r \<noteq> 0)
     (lg_active (reachable_ledger [Reserve demo_request, Reserve demo_request] demo_budget))) \<le> 1"
  using paid_calls_exclusive [of "[Reserve demo_request, Reserve demo_request]"] demo_ops_ok
  by simp

text \<open>C2: A granted user-task call is covered. When a reservation is issued against a user
  task, either every rate of its route is confirmed zero and it reserves nothing, or it is the
  only call holding money, reserves the whole remaining authorization, a positive amount, and
  that amount covers one provider request at the declared token limits.\<close>

theorem granted_call_is_covered:
  assumes "list_all op_ok ops" and "l = reachable_ledger ops b" and "request_ok rq"
    and "bg_authority b = User_Task" and "reserve_call_locked l rq = (l', Inr r)"
  shows "has_confirmed_zero_pricing (cr_input_price r) (cr_output_price r) (cr_pricing_source r)
      (cr_cache_pricing r) \<and> cr_reserved r = 0 \<or>
    paid_amounts l = [] \<and> 0 < cr_reserved r \<and>
    cr_reserved r = dec_sub (dec_sub (bg_max_cost b) (lg_known_cost l)) 0 \<and>
    (\<exists>p. rq_pricing rq = Some p \<and>
       opt_all (\<lambda>bound. bound \<le> cr_reserved r) (max_call_estimated_cost_usd p))"
proof -
  have ok: "ledger_ok l" "paid_ok l"
    using reachable_ledger_inv [OF assms(1)] assms(2) by (simp_all add: ledger_inv_def)
  obtain a where a: "reserve_admission l rq = Inr a"
    and r: "r = reservation_for rq (lg_calls_started l + 1) a"
    using assms(5) reserve_call_locked_ok [OF ok(1) assms(3)] by (auto split: sum.splits)
  obtain p where p: "rq_pricing rq = Some p"
    and bound: "has_confirmed_zero_pricing (mp_input_price p) (mp_output_price p) (mp_source p)
        (mp_cache_pricing p) \<and> a = 0 \<or>
      0 < a \<and> opt_all (\<lambda>bound. bound \<le> a) (max_call_estimated_cost_usd p)"
    using a assms(2,4)
    by (auto simp: reserve_admission_def user_task_admission_def Let_def not_le not_less
        split: sum.splits if_splits option.splits)
  show ?thesis
    using bound
  proof
    assume "has_confirmed_zero_pricing (mp_input_price p) (mp_output_price p) (mp_source p)
        (mp_cache_pricing p) \<and> a = 0"
    then show ?thesis using p r by (simp add: reservation_for_def)
  next
    assume b: "0 < a \<and> opt_all (\<lambda>bound. bound \<le> a) (max_call_estimated_cost_usd p)"
    then have "a \<noteq> 0" by simp
    note alone = admitted_paid_alone [OF ok a this]
    have amount: "cr_reserved r = a" using r by (simp add: reservation_for_def)
    have "lg_budget l = b" using assms(2) by simp
    then have "cr_reserved r = dec_sub (dec_sub (bg_max_cost b) (lg_known_cost l)) 0"
      using alone(2) amount by simp
    then show ?thesis using alone(1) b p amount by blast
  qed
qed

theorem granted_call_is_covered_witness:
  "0 < cr_reserved (reservation_for demo_request 1 5)"
  using granted_call_is_covered [of "[]" "new_ledger demo_budget" demo_budget demo_request
      "admit_call (new_ledger demo_budget) demo_request 5" "reservation_for demo_request 1 5"]
    demo_reserved demo_ops_ok(1)
  by (simp add: reachable_ledger_def run_ledger_def op_ok_def)
    (simp add: demo_budget_def reservation_for_def demo_request_def demo_pricing_def
      has_confirmed_zero_pricing_def)

text \<open>C4: A completion is not lost. In a ledger reached by valid requests and reports, for an
  active reservation and a report with non-negative counters and valid cache usage, \<open>complete_call\<close> removes the reservation and appends the record of the
  call, whose validation cannot fail; it returns the usage or raises
  \<open>AgentBudgetExceeded\<close>, and when it raises the call has been recorded all the same.
  (In a ledger corrupted as in \<open>invalid_reservation_corrupts_ledger\<close> a completion records
  nothing.)\<close>

theorem completion_always_recorded:
  assumes "list_all op_ok ops" and "l = reachable_ledger ops b" and "report_ok rp"
    and "check_report rp = Inr ()"
    and "map_of (lg_active l) (cr_sequence (rp_reservation rp)) = Some (rp_reservation rp)"
  shows "\<exists>l' cost. fst (complete_call l rp) = l' \<and>
    lg_call_records l' = lg_call_records l @ [cost_record_for rp cost] \<and>
    lg_active l' = AList.delete (cr_sequence (rp_reservation rp)) (lg_active l) \<and>
    snapshot_locked l' = Inr (usage_of l') \<and>
    (snd (complete_call l rp) = Inr (usage_of l') \<or>
     (\<exists>d. snd (complete_call l rp) = Inl (Budget_Exceeded d (usage_of l'))))"
proof -
  have ok: "ledger_ok l" using reachable_ledger_ok [OF assms(1)] assms(2) by simp
  obtain prev cost where p: "price_report l rp = Inr (prev, cost)"
    using price_report_returns [OF ok assms(3-5)] by blast
  note settled = complete_call_settled(1) [OF ok p] snapshot_ok [OF settle_call_ok [OF ok p]]
  then have "snd (complete_call l rp) = Inr (usage_of (settle_call l rp cost)) \<or>
      (\<exists>d. snd (complete_call l rp) = Inl (Budget_Exceeded d (usage_of (settle_call l rp cost))))"
    using p by (auto simp: complete_call_def Let_def split: option.splits)
  moreover have "lg_call_records (settle_call l rp cost) =
      lg_call_records l @ [cost_record_for rp cost]"
    and "lg_active (settle_call l rp cost) =
      AList.delete (cr_sequence (rp_reservation rp)) (lg_active l)"
    by (simp_all add: settle_call_def)
  ultimately show ?thesis using settled by auto
qed

lemma demo_ledger_active:
  "lg_active (reachable_ledger [Reserve demo_request] demo_budget) = [(1, reservation_for demo_request 1 5)]"
  using demo_reserved
  by (simp add: reachable_ledger_def run_ledger_def run_op_def)
    (simp add: admit_call_def new_ledger_def)

theorem completion_always_recorded_witness:
  "\<exists>cost. lg_call_records (fst (complete_call
      (reachable_ledger [Reserve demo_request] demo_budget) demo_report)) =
     lg_call_records (reachable_ledger [Reserve demo_request] demo_budget) @
       [cost_record_for demo_report cost]"
  using completion_always_recorded [of "[Reserve demo_request]"
      "reachable_ledger [Reserve demo_request] demo_budget" demo_budget demo_report]
    demo_ops_ok demo_ledger_active
  by (auto simp: demo_report_def reservation_for_def op_ok_def check_report_def)

text \<open>C5: Spend that could not be accounted stops the task. Once a user-task ledger has
  recorded a call of unknown cost, no operation sequence makes it grant another reservation.\<close>

theorem unknown_spend_stops_task:
  assumes "list_all op_ok ops" and "l = reachable_ledger ops b"
    and "bg_authority b = User_Task" and "\<exists>c \<in> set (lg_call_records l). cc_cost_source c = Unknown_Cost"
    and "list_all op_ok later"
  shows "snd (reserve_call_locked (run_ledger later l) rq) \<noteq> Inr r"
proof -
  have ok: "ledger_ok l" using reachable_ledger_ok [OF assms(1)] assms(2) by simp
  have later: "\<And>x. x \<in> set later \<Longrightarrow> op_ok x" using assms(5) by (simp add: list_all_iff)
  have "0 < count_calls call_unpriced (lg_call_records l)"
    using assms(4) by (auto simp: count_calls_def call_unpriced_def filter_empty_conv)
  then have "0 < lg_unpriced_calls l"
    using ok by (simp add: ledger_ok_def totals_ok_def Let_def)
  then have "lg_unpriced_calls (run_ledger later l) \<noteq> 0"
    using run_ledger_unpriced [OF ok, of later] later by force
  then have "reserve_admission (run_ledger later l) rq \<noteq> Inr a" if "a \<noteq> 0 \<or> a = 0" for a
    using assms(2,3)
    by (auto simp: reserve_admission_def user_task_admission_def
        split: sum.splits if_splits option.splits)
  then show ?thesis
    by (cases "reserve_admission (run_ledger later l) rq")
      (auto simp: reserve_call_locked_def)
qed

definition demo_unpriced_report :: call_report where
  "demo_unpriced_report = demo_report\<lparr>rp_cache_usage := None\<rparr>"

lemma demo_unpriced_settled:
  "\<exists>c \<in> set (lg_call_records (reachable_ledger
     [Reserve demo_request, Complete demo_unpriced_report] demo_budget)).
     cc_cost_source c = Unknown_Cost"
proof -
  let ?l = "admit_call (new_ledger demo_budget) demo_request 5"
  have ok: "ledger_ok ?l"
    using reachable_ledger_ok [of "[Reserve demo_request]" demo_budget] demo_ops_ok(1) demo_reserved
    by (simp add: reachable_ledger_def run_ledger_def run_op_def)
  have "report_ok demo_unpriced_report" "check_report demo_unpriced_report = Inr ()"
    by (simp_all add: demo_unpriced_report_def demo_report_def report_ok_def check_report_def)
  then obtain prev cost where p: "price_report ?l demo_unpriced_report = Inr (prev, cost)"
    using price_report_returns [OF ok, of demo_unpriced_report]
    by (auto simp: demo_unpriced_report_def demo_report_def admit_call_def new_ledger_def
        reservation_for_def)
  have "reservation_estimate_cost (reservation_for demo_request 1 5) (Some 1000000) (Some 1000000)
      (Some unknown_cache_usage) = Inr None"
    using demo_paid
    by (simp add: reservation_estimate_cost_def reservation_for_def demo_request_def
        demo_pricing_def estimate_model_cost_def unknown_cache_usage_def)
  then have "cost = None"
    using price_report_settles(4) [OF p] by (simp add: demo_unpriced_report_def demo_report_def)
  then have "cost_record_for demo_unpriced_report None \<in>
      set (lg_call_records (fst (complete_call ?l demo_unpriced_report)))"
    using complete_call_settled(1) [OF ok p] by (simp add: settle_call_def)
  then show ?thesis
    using demo_reserved
    by (intro bexI [of _ "cost_record_for demo_unpriced_report None"])
      (simp_all add: reachable_ledger_def run_ledger_def run_op_def cost_record_for_def Let_def)
qed

theorem unknown_spend_stops_task_witness:
  "snd (reserve_call_locked
     (reachable_ledger [Reserve demo_request, Complete demo_unpriced_report] demo_budget)
     demo_request) \<noteq> Inr (reservation_for demo_request 2 5)"
proof -
  have "op_ok (Complete demo_unpriced_report)"
    by (simp add: op_ok_def report_ok_def demo_unpriced_report_def)
  then show ?thesis
    using unknown_spend_stops_task [of "[Reserve demo_request, Complete demo_unpriced_report]" _
        demo_budget "[]"] demo_unpriced_settled demo_ops_ok(1)
    by (simp add: run_ledger_def) (simp add: demo_budget_def)
qed

text \<open>A frozen call ceiling is never exceeded, whatever calls are reserved, completed,
  rejected or left active.\<close>

theorem call_ceiling_respected:
  assumes "list_all op_ok ops" and "bg_max_calls b = Some m" and "0 \<le> m"
  shows "lg_calls_started (reachable_ledger ops b) \<le> m"
proof -
  have "within_call_limit (new_ledger b)"
    using assms(2,3) by (simp add: within_call_limit_def new_ledger_def)
  then have "within_call_limit (reachable_ledger ops b)"
    unfolding reachable_ledger_def
    using assms(1) by (intro run_ledger_call_limit [OF new_ledger_ok]) (simp_all add: list_all_iff)
  then show ?thesis using assms(2) by (simp add: within_call_limit_def)
qed

theorem call_ceiling_respected_witness:
  "lg_calls_started (reachable_ledger [Reserve demo_request, Reserve demo_request]
     (demo_budget\<lparr>bg_max_calls := Some 1\<rparr>)) \<le> 1"
  by (rule call_ceiling_respected) (use demo_ops_ok in simp_all)

lemma busy_only_while_paid:
  assumes "ledger_ok l" and "reserve_admission l rq = Inl (Budget_Busy d u)"
  shows "0 < active_reserved l \<and> lg_known_cost l < bg_max_cost (lg_budget l)"
  using assms(2) snapshot_ok [OF assms(1)]
  by (auto simp: reserve_admission_def user_task_admission_def Let_def usage_of_def
      split: sum.splits if_splits option.splits)

lemma busy_result:
  assumes "ledger_ok l" and "request_ok rq"
    and "reserve_call_locked l rq = (l', Inl (Budget_Busy d u))"
  shows "l' = l \<and> reserve_admission l rq = Inl (Budget_Busy d u)"
  using assms(3) reserve_call_locked_ok [OF assms(1,2)] by (auto split: sum.splits)

lemma active_reserved_holder:
  assumes "0 < active_reserved l" and "active_ok l"
  obtains k r where "(k, r) \<in> set (lg_active l)" and "0 < cr_reserved r"
proof -
  have "\<exists>x \<in> set (lg_active l). cr_reserved (snd x) \<noteq> 0"
  proof (rule ccontr)
    assume "\<not> ?thesis"
    then have "active_reserved l = 0"
      unfolding active_reserved_def by (intro dec_sum_zeros) auto
    with assms(1) show False by simp
  qed
  then obtain k r where kr: "(k, r) \<in> set (lg_active l)" "cr_reserved r \<noteq> 0" by auto
  then have "0 \<le> cr_reserved r"
    using assms(2) reservation_ok_prices(5) by (auto simp: active_ok_def)
  with kr that show ?thesis by (metis order_le_less)
qed

lemma reserve_call_waiting_not_busy:
  "reserve_call turns l rq True \<noteq> Some (l', Inl (Budget_Busy d u))"
  by (induction turns arbitrary: l)
    (auto split: if_splits prod.splits sum.splits ledger_error.splits)

text \<open>C6: Waiting is only for money that an active call can give back. A reservation is
  answered "busy" only while an active call holds a reserved amount and the recorded spend is
  below the ceiling; so in a turn before which every other call has completed the waiting loop
  ends, with a reservation or a terminal error; and a waiting call never ends with "busy".\<close>

theorem waiting_call_is_served:
  assumes "list_all op_ok ops" and "l = reachable_ledger ops b" and "request_ok rq"
    and "list_all op_ok others"
  shows "(snd (reserve_call_locked l rq) = Inl (Budget_Busy d u) \<longrightarrow>
      (\<exists>(k, r) \<in> set (lg_active l). 0 < cr_reserved r) \<and> lg_known_cost l < bg_max_cost b) \<and>
    (lg_active (run_ledger others l) = [] \<longrightarrow>
      reserve_call ((c, others) # turns) l rq True \<noteq> None) \<and>
    reserve_call turns l rq True \<noteq> Some (l', Inl (Budget_Busy d u))"
proof (intro conjI impI)
  have inv: "ledger_inv l" using reachable_ledger_inv [OF assms(1)] assms(2) by simp
  then have ok: "ledger_ok l" by (simp add: ledger_inv_def)
  show "reserve_call turns l rq True \<noteq> Some (l', Inl (Budget_Busy d u))"
    by (rule reserve_call_waiting_not_busy)
  { assume "snd (reserve_call_locked l rq) = Inl (Budget_Busy d u)"
    then have "reserve_call_locked l rq = (fst (reserve_call_locked l rq), Inl (Budget_Busy d u))"
      by (metis prod.collapse)
    note busy_only_while_paid [OF ok conjunct2 [OF busy_result [OF ok assms(3) this]]]
    then show "\<exists>(k, r) \<in> set (lg_active l). 0 < cr_reserved r"
      and "lg_known_cost l < bg_max_cost b"
      using active_reserved_holder [of l] ok assms(2)
      by (auto simp: ledger_ok_def) }
  { let ?m = "run_ledger others l"
    assume "lg_active ?m = []"
    then have none: "active_reserved ?m = 0" by (simp add: active_reserved_def dec_sum_def)
    have "ledger_ok ?m" using ok assms(4) by (intro run_ledger_ok) (simp_all add: list_all_iff)
    then have "reserve_call_locked ?m rq \<noteq> (m', Inl (Budget_Busy d u))" for m' d u
      using busy_result busy_only_while_paid none assms(3) by (metis less_irrefl)
    then show "reserve_call ((c, others) # turns) l rq True \<noteq> None"
      by (auto split: prod.splits sum.splits ledger_error.splits) }
qed

theorem waiting_call_is_served_witness:
  "reserve_call [(False, [])] (reachable_ledger [] demo_budget) demo_request True \<noteq> None"
  using waiting_call_is_served [of "[]" "reachable_ledger [] demo_budget" demo_budget demo_request "[]"]
    demo_ops_ok(1)
  by (simp add: reachable_ledger_def run_ledger_def new_ledger_def op_ok_def del: reserve_call.simps)

text \<open>A settled ledger can be frozen. When no call is active and the recorded costs lie
  on one decimal grid with a total of at most 28 digits (so that their sum does not depend on
  the order in which calls completed), \<open>terminal_record\<close> returns a record of every call in
  reservation order, numbered from 1 without a gap.\<close>

theorem settled_ledger_freezes:
  assumes "list_all op_ok ops" and "l = reachable_ledger ops b" and "lg_active l = []"
    and "list_all (on_grid k) (known_costs (lg_call_records l))"
    and "sum_list (known_costs (lg_call_records l)) * 10 ^ k \<le> 10 ^ 28"
  shows "\<exists>r. terminal_record l = Inr r \<and> lr_usage r = usage_of l \<and>
    map cc_sequence (lr_calls r) = map int [1..<Suc (length (lg_call_records l))] \<and>
    mset (lr_calls r) = mset (lg_call_records l)"
proof -
  have inv: "ledger_inv l" using reachable_ledger_inv [OF assms(1)] assms(2) by simp
  then have ok: "ledger_ok l" by (simp add: ledger_inv_def)
  have "length (ledger_call_records l) = length (lg_call_records l)"
    by (simp add: ledger_call_records_def)
  then show ?thesis
    using terminal_record_returns [OF inv assms(3) _ assms(5)] assms(4) mset_sort_records [of l]
      sorted_records_contiguous [OF ok assms(3)]
    by (simp add: list_all_iff del: upt_Suc)
qed

theorem settled_ledger_freezes_witness:
  "\<exists>r. terminal_record (reachable_ledger [] demo_budget) = Inr r"
  using settled_ledger_freezes [of "[]" "reachable_ledger [] demo_budget" demo_budget 0]
  by (auto simp: reachable_ledger_def run_ledger_def new_ledger_def known_costs_def)

text \<open>A snapshot that fails blocks everything: it is the first thing each operation evaluates,
  so the ledger never changes again and every operation on it raises.\<close>

lemma failed_snapshot_blocks:
  assumes "snapshot_locked l = Inl f"
  shows "\<exists>g. reserve_call_locked l rq = (l, Inl (Fault g))"
    and "\<exists>g. complete_call l rp = (l, Inl (Fault g))"
    and "terminal_record l = Inl f" and "run_ledger later l = l"
proof -
  show reserve: "\<exists>g. reserve_call_locked l rq = (l, Inl (Fault g))" for rq
    using assms by (simp add: reserve_call_locked_def reserve_admission_def)
  have "\<exists>g. price_report l rp = Inl g" for rp
    using assms by (cases "check_report rp") (auto simp: price_report_def)
  show complete: "\<exists>g. complete_call l rp = (l, Inl (Fault g))" for rp
  proof -
    obtain g where "price_report l rp = Inl g" using \<open>\<And>rp. \<exists>g. price_report l rp = Inl g\<close> by blast
    then show ?thesis by (simp add: complete_call_def)
  qed
  show "terminal_record l = Inl f" using assms by (simp add: terminal_record_def)
  have "run_op x l = l" for x
  proof (cases x)
    case (Reserve rq)
    then show ?thesis using reserve [of rq] by (auto simp: run_op_def)
  next
    case (Complete rp)
    then show ?thesis using complete [of rp] by (auto simp: run_op_def)
  qed
  then show "run_ledger later l = l"
    by (induction later) (simp_all add: run_ledger_def)
qed

text \<open>C8: The counter is advanced before the reservation is validated. Take a ledger reached by
  valid requests and reports, and a request that is admitted but whose reservation does not
  validate (attempt number 0, a malformed stage, ...). The reservation raises the validation
  error and leaves the counter of started calls advanced; from then on every snapshot,
  reservation, completion and terminal record raises, and no operation changes the ledger.\<close>

theorem invalid_reservation_corrupts_ledger:
  assumes "list_all op_ok ops" and "l = reachable_ledger ops b"
    and "reserve_admission l rq = Inr a"
    and "validate_call_reservation (reservation_for rq (lg_calls_started l + 1) a) = Inl e"
  shows "\<exists>l' f. reserve_call_locked l rq = (l', Inl (Fault e)) \<and>
    l' = l\<lparr>lg_calls_started := lg_calls_started l + 1\<rparr> \<and>
    snapshot_locked l' = Inl f \<and> terminal_record l' = Inl f \<and>
    (\<forall>rq'. \<exists>g. reserve_call_locked l' rq' = (l', Inl (Fault g))) \<and>
    (\<forall>rp. \<exists>g. complete_call l' rp = (l', Inl (Fault g))) \<and>
    (\<forall>later. run_ledger later l' = l')"
proof -
  let ?l = "l\<lparr>lg_calls_started := lg_calls_started l + 1\<rparr>"
  have ok: "ledger_ok l" using reachable_ledger_ok [OF assms(1)] assms(2) by simp
  have r: "reserve_call_locked l rq = (?l, Inl (Fault e))"
    using assms(3,4) by (simp add: reserve_call_locked_def issue_reservation_def Let_def)
  have "validate_usage (usage_of ?l) \<noteq> Inr ()"
    using ok by (auto simp: validate_usage_def usage_of_def ledger_ok_def counts_ok_def)
  then obtain f where "validate_usage (usage_of ?l) = Inl f"
    by (cases "validate_usage (usage_of ?l)") auto
  then have f: "snapshot_locked ?l = Inl f" by (simp add: snapshot_locked_def)
  show ?thesis using r f failed_snapshot_blocks [OF f] by blast
qed

lemma admission_ignores_attempt [simp]:
  "reserve_admission l (rq\<lparr>rq_attempt := n\<rparr>) = reserve_admission l rq"
proof -
  have "user_task_admission l (rq\<lparr>rq_attempt := n\<rparr>) = user_task_admission l rq"
    by (rule ext) (simp add: user_task_admission_def)
  then show ?thesis by (simp add: reserve_admission_def split: sum.split)
qed

lemma demo_request_agent [simp]: "rq_agent_id demo_request = ''coder''"
  by (simp add: demo_request_def)

theorem invalid_reservation_corrupts_ledger_witness:
  "\<exists>l'. (\<exists>e. reserve_call_locked (new_ledger demo_budget) (demo_request\<lparr>rq_attempt := 0\<rparr>) =
     (l', Inl (Fault e))) \<and> (\<exists>g. complete_call l' demo_report = (l', Inl (Fault g)))"
proof -
  let ?rq = "demo_request\<lparr>rq_attempt := 0\<rparr>"
  have "validate_call_reservation (reservation_for ?rq (lg_calls_started (new_ledger demo_budget) + 1) 5) \<noteq> Inr ()"
    by (auto simp: validate_call_reservation_def reservation_for_def)
  then obtain e where e: "validate_call_reservation
      (reservation_for ?rq (lg_calls_started (new_ledger demo_budget) + 1) 5) = Inl e"
    by (cases "validate_call_reservation
      (reservation_for ?rq (lg_calls_started (new_ledger demo_budget) + 1) 5)") auto
  have a: "reserve_admission (new_ledger demo_budget) ?rq = Inr 5" using demo_admission by simp
  have l: "new_ledger demo_budget = reachable_ledger [] demo_budget"
    by (simp add: reachable_ledger_def run_ledger_def)
  show ?thesis using invalid_reservation_corrupts_ledger [OF _ l a e] by auto
qed

end
