(* ===== verification/Artifacts.thy ===== *)
theory Artifacts
  imports Prelude
begin

text \<open>
  The contracts of \<open>artifacts.py\<close> that the controller, the teams and the run store share:
  the enumerations, safe relative paths, the confirmed task brief with its product
  definition, artifact references and handoff envelopes. Enumeration values carry the name
  of their enumeration as a prefix.
\<close>

section \<open>Enumerations\<close>

datatype agent_role =
    Role_Clarifier | Role_Single_Agent | Role_Planner | Role_Generalist_Developer
  | Role_Frontend_Developer | Role_Backend_Developer | Role_Integrator | Role_Tester
  | Role_Reviewer

datatype artifact_kind =
    Kind_Clarification_Record | Kind_Task_Brief | Kind_Implementation_Plan | Kind_Work_Result
  | Kind_Test_Report | Kind_Review_Report | Kind_Security_Assessment
  | Kind_Experience_Assessment | Kind_Iteration_Record | Kind_Final_Report
  | Kind_Handoff_Envelope | Kind_Agent_Execution_Record

datatype product_disposition =
    Explicit_Input | Resolved_Question | Planner_Recommendation | Not_Material

datatype product_dimension =
    Target_Users | Primary_Workflow | Delivery_Maturity_Dimension | Usability_Expectations
  | Operational_Expectations | Delivery_Expectations

datatype delivery_maturity =
    Throwaway_Prototype | Usable_Local_Product | Releasable_Small_Product

datatype handoff_status = Handoff_Completed | Handoff_Blocked | Handoff_Failed

datatype check_status = Check_Passed | Check_Failed | Check_Blocked | Check_Pending_Review

datatype review_severity = Severity_Critical | Severity_High | Severity_Medium | Severity_Low

datatype review_verdict = Verdict_Accept | Verdict_Revise | Verdict_Fail

datatype review_boundary = Top_Level_Input | Nested_Input | Alias_Or_Indirection | Failure_Path

datatype review_termination = Safety_Boundary_Crossed_Review | Evidence_Integrity_Compromised

datatype iteration_decision = Decide_Accept | Decide_Revise | Decide_Fail

datatype final_status = Final_Completed | Final_Failed | Final_Cancelled

definition review_artifact_kinds :: "artifact_kind list" where
  "review_artifact_kinds = [Kind_Review_Report, Kind_Security_Assessment, Kind_Experience_Assessment]"

definition implementation_roles :: "agent_role list" where
  "implementation_roles =
     [Role_Single_Agent, Role_Generalist_Developer, Role_Frontend_Developer,
      Role_Backend_Developer, Role_Integrator]"

section \<open>Cleaned lists and safe paths\<close>

definition require_clean_unique_items :: "string list \<Rightarrow> fault + string list" where
  "require_clean_unique_items values =
     (let cleaned = map py_strip values
      in ebind (first_error
           [(list_ex (\<lambda>v. v = []) cleaned, Value_Error ''list entries must not be blank''),
            (\<not> distinct cleaned, Value_Error ''list entries must be unique'')])
         (\<lambda>_. Inr cleaned))"

definition require_safe_relative_path :: "string \<Rightarrow> fault + string" where
  "require_safe_relative_path value =
     ebind (first_error
       [(CHR 0x5C \<in> set value, Value_Error ''paths must use POSIX separators''),
        (\<not> safe_relative value, Value_Error ''paths must be safe relative paths'')])
     (\<lambda>_. Inr value)"

lemma clean_unique_items_ok:
  "require_clean_unique_items vs = Inr cs \<longleftrightarrow>
     cs = map py_strip vs \<and> [] \<notin> set cs \<and> distinct cs"
  by (auto simp: require_clean_unique_items_def Let_def ebind_eq_Inr list_ex_iff)

text \<open>Cleaning twice changes nothing: a persisted list is read back as it was written.\<close>

lemma clean_unique_items_stable:
  "require_clean_unique_items vs = Inr cs \<Longrightarrow> require_clean_unique_items cs = Inr cs"
  by (auto simp: clean_unique_items_ok distinct_map inj_on_def)

section \<open>Acceptance criteria and the product definition\<close>

record acceptance_criterion =
  ac_id :: string
  ac_description :: string
  ac_verification :: string
  ac_review_boundaries :: "review_boundary list"

definition validate_acceptance_criterion :: "acceptance_criterion \<Rightarrow> fault + unit" where
  "validate_acceptance_criterion c = first_error
     [(\<not> upper_id_pattern (ac_id c), Field_Invalid ''id''),
      (ac_description c = [], Field_Invalid ''description''),
      (ac_verification c = [], Field_Invalid ''verification''),
      (\<not> distinct (ac_review_boundaries c),
        Value_Error ''acceptance review boundaries must be unique'')]"

record product_basis =
  pb_disposition :: product_disposition
  pb_source :: string
  pb_rationale :: string
  pb_requirement_ids :: "string list"
  pb_criterion_ids :: "string list"
  pb_decision_ids :: "string list"

definition clean_text :: "string \<Rightarrow> bool" where
  "clean_text s \<longleftrightarrow> py_strip s = s \<and> s \<noteq> []"

definition validate_product_basis :: "product_basis \<Rightarrow> fault + unit" where
  "validate_product_basis b = first_error
     [(pb_source b = [] \<or> 500 < length (pb_source b), Field_Invalid ''source''),
      (pb_rationale b = [] \<or> 500 < length (pb_rationale b), Field_Invalid ''rationale''),
      (\<not> clean_text (pb_source b) \<or> \<not> clean_text (pb_rationale b),
        Value_Error ''product-definition text must be stripped and non-empty''),
      (\<not> distinct (pb_requirement_ids b) \<or> \<not> distinct (pb_criterion_ids b) \<or>
         \<not> distinct (pb_decision_ids b),
        Value_Error ''product-definition references must be unique''),
      (pb_disposition b \<noteq> Not_Material \<and>
         pb_requirement_ids b = [] \<and> pb_criterion_ids b = [] \<and> pb_decision_ids b = [],
        Value_Error ''each material product-definition dimension requires a downstream reference''),
      (list_ex (\<lambda>v. \<not> prefixed_id_pattern ''REQ_'' v) (pb_requirement_ids b),
        Value_Error ''product-definition requirements must use REQ_ IDs''),
      (list_ex (\<lambda>v. \<not> upper_id_pattern v) (pb_criterion_ids b),
        Value_Error ''product-definition criteria must use stable uppercase IDs''),
      (list_ex (\<lambda>v. \<not> prefixed_id_pattern ''DECISION_'' v) (pb_decision_ids b),
        Value_Error ''product-definition decisions must use DECISION_ IDs'')]"

record product_statement =
  ps_basis :: product_basis
  ps_statement :: string

definition validate_product_statement :: "product_statement \<Rightarrow> fault + unit" where
  "validate_product_statement s =
     ebind (first_error
       [(ps_statement s = [] \<or> 1000 < length (ps_statement s), Field_Invalid ''statement''),
        (\<not> clean_text (ps_statement s),
          Value_Error ''product-definition statements must be stripped and non-empty'')])
     (\<lambda>_. validate_product_basis (ps_basis s))"

record product_maturity =
  pm_basis :: product_basis
  pm_level :: delivery_maturity

record product_impact =
  pi_architecture :: string
  pi_team :: string
  pi_cost :: string
  pi_delivery :: string

definition validate_product_impact :: "product_impact \<Rightarrow> fault + unit" where
  "validate_product_impact i =
     (let vs = [pi_architecture i, pi_team i, pi_cost i, pi_delivery i] in first_error
       [(list_ex (\<lambda>v. v = [] \<or> 1000 < length v) vs, Field_Invalid ''impact''),
        (list_ex (\<lambda>v. \<not> clean_text v) vs,
          Value_Error ''product-definition impact must be stripped and non-empty'')])"

record product_definition =
  pd_target_users :: product_statement
  pd_primary_workflow :: product_statement
  pd_delivery_maturity :: product_maturity
  pd_usability :: product_statement
  pd_operational :: product_statement
  pd_delivery :: product_statement
  pd_impact :: product_impact

definition product_dimensions :: "product_definition \<Rightarrow> (product_dimension \<times> product_basis) list" where
  "product_dimensions d =
     [(Target_Users, ps_basis (pd_target_users d)),
      (Primary_Workflow, ps_basis (pd_primary_workflow d)),
      (Delivery_Maturity_Dimension, pm_basis (pd_delivery_maturity d)),
      (Usability_Expectations, ps_basis (pd_usability d)),
      (Operational_Expectations, ps_basis (pd_operational d)),
      (Delivery_Expectations, ps_basis (pd_delivery d))]"

section \<open>The task brief\<close>

record task_brief =
  tb_run_id :: string
  tb_title :: string
  tb_source_request :: string
  tb_requirements :: "string list"
  tb_acceptance_criteria :: "acceptance_criterion list"
  tb_product_definition :: "product_definition option"
  tb_constraints :: "string list"
  tb_assumptions :: "string list"
  tb_open_questions :: "string list"
  tb_confirmed :: bool

definition clean_brief_items :: "string list \<Rightarrow> fault + string list" where
  "clean_brief_items values =
     (let cleaned = map py_strip values
      in ebind (first_error
           [(list_ex (\<lambda>v. v = []) cleaned,
              Value_Error ''task brief list entries must not be blank''),
            (\<not> distinct cleaned, Value_Error ''task brief list entries must be unique'')])
         (\<lambda>_. Inr cleaned))"

definition validate_task_brief :: "task_brief \<Rightarrow> fault + unit" where
  "validate_task_brief b =
     first_error
       [(\<not> run_id_pattern (tb_run_id b), Field_Invalid ''run_id''),
        (tb_title b = [], Field_Invalid ''title''),
        (tb_source_request b = [], Field_Invalid ''source_request''),
        (tb_requirements b = [], Field_Invalid ''requirements''),
        (tb_acceptance_criteria b = [], Field_Invalid ''acceptance_criteria''),
        (\<not> distinct (map ac_id (tb_acceptance_criteria b)),
          Value_Error ''acceptance criterion IDs must be unique''),
        (tb_confirmed b \<and> tb_open_questions b \<noteq> [],
          Value_Error ''a confirmed task brief cannot contain open questions'')]"

text \<open>The constructor: list fields are cleaned before the checks run.\<close>

definition mk_task_brief :: "task_brief \<Rightarrow> fault + task_brief" where
  "mk_task_brief b =
     ebind (clean_brief_items (tb_requirements b)) (\<lambda>requirements.
     ebind (clean_brief_items (tb_constraints b)) (\<lambda>constraints.
     ebind (clean_brief_items (tb_assumptions b)) (\<lambda>assumptions.
     ebind (clean_brief_items (tb_open_questions b)) (\<lambda>questions.
       let c = b\<lparr>tb_requirements := requirements, tb_constraints := constraints,
                 tb_assumptions := assumptions, tb_open_questions := questions\<rparr>
       in ebind (validate_task_brief c) (\<lambda>_. Inr c)))))"

lemma clean_brief_items_ok:
  "clean_brief_items vs = Inr cs \<longleftrightarrow> cs = map py_strip vs \<and> [] \<notin> set cs \<and> distinct cs"
  by (auto simp: clean_brief_items_def Let_def ebind_eq_Inr list_ex_iff)

lemma clean_brief_items_stable: "clean_brief_items vs = Inr cs \<Longrightarrow> clean_brief_items cs = Inr cs"
  by (auto simp: clean_brief_items_ok distinct_map inj_on_def)

lemma mk_task_brief_ok:
  assumes "mk_task_brief b = Inr c"
  shows "validate_task_brief c = Inr () \<and> mk_task_brief c = Inr c"
proof -
  obtain r k a q where c: "clean_brief_items (tb_requirements b) = Inr r"
    "clean_brief_items (tb_constraints b) = Inr k" "clean_brief_items (tb_assumptions b) = Inr a"
    "clean_brief_items (tb_open_questions b) = Inr q"
    "c = b\<lparr>tb_requirements := r, tb_constraints := k, tb_assumptions := a, tb_open_questions := q\<rparr>"
    "validate_task_brief c = Inr ()"
    using assms by (auto simp: mk_task_brief_def Let_def ebind_eq_Inr)
  note stable = clean_brief_items_stable [OF c(1)] clean_brief_items_stable [OF c(2)]
    clean_brief_items_stable [OF c(3)] clean_brief_items_stable [OF c(4)]
  have f: "tb_requirements c = r" "tb_constraints c = k" "tb_assumptions c = a"
    "tb_open_questions c = q"
    using c(5) by simp_all
  have same: "c\<lparr>tb_requirements := r, tb_constraints := k, tb_assumptions := a,
      tb_open_questions := q\<rparr> = c"
    using c(5) by simp
  show ?thesis
    unfolding mk_task_brief_def f stable Let_def ebind_Inr same c(6) by simp
qed

section \<open>References and handoffs\<close>

record artifact_reference =
  ar_kind :: artifact_kind
  ar_path :: string
  ar_sha256 :: string
  ar_description :: string

definition validate_artifact_reference :: "artifact_reference \<Rightarrow> fault + unit" where
  "validate_artifact_reference r = first_error
     [(ar_path r = [], Field_Invalid ''path''),
      (CHR 0x5C \<in> set (ar_path r), Value_Error ''artifact paths must use POSIX separators''),
      (\<not> safe_relative (ar_path r),
        Value_Error ''artifact paths must be safe run-relative paths''),
      (\<not> sha256_pattern (ar_sha256 r), Field_Invalid ''sha256'')]"

text \<open>No accepted reference can name a file outside the run directory.\<close>

lemma artifact_reference_inside:
  assumes "validate_artifact_reference r = Inr ()"
  shows "\<not> posix_absolute (ar_path r)"
    and "posix_parts (ar_path r) \<noteq> []"
    and "p \<in> set (posix_parts (ar_path r)) \<Longrightarrow> p \<noteq> [] \<and> p \<noteq> ''.'' \<and> p \<noteq> ''..'' \<and> CHR 0x5C \<notin> set p"
proof -
  have s: "safe_relative (ar_path r)" and b: "CHR 0x5C \<notin> set (ar_path r)"
    using assms by (auto simp: validate_artifact_reference_def)
  then show "\<not> posix_absolute (ar_path r)" "posix_parts (ar_path r) \<noteq> []"
    by (auto simp: safe_relative_def)
  have pieces: "q \<in> set (split_on c s) \<Longrightarrow> set q \<subseteq> set s" for c q s
    by (induction c s arbitrary: q rule: split_on.induct)
      (auto split: if_splits list.splits, blast+)
  assume p: "p \<in> set (posix_parts (ar_path r))"
  then have "p \<in> set (split_on (CHR ''/'') (ar_path r))"
    using s by (auto simp: posix_parts_def posix_root_def safe_relative_def)
  then show "p \<noteq> [] \<and> p \<noteq> ''.'' \<and> p \<noteq> ''..'' \<and> CHR 0x5C \<notin> set p"
    using safe_relative_parts [OF s p] pieces b by blast
qed

record handoff_envelope =
  ho_schema_version :: int
  ho_run_id :: string
  ho_team_id :: string
  ho_iteration :: int
  ho_stage :: string
  ho_sequence :: int
  ho_source_agent_id :: string
  ho_target_agent_id :: "string option"
  ho_status :: handoff_status
  ho_created_at :: "int option"
  ho_summary :: string
  ho_input_commit :: "string option"
  ho_artifacts :: "artifact_reference list"
  ho_blockers :: "string list"

definition clean_blockers :: "string list \<Rightarrow> fault + string list" where
  "clean_blockers values =
     (let cleaned = map py_strip values
      in ebind (first_error
           [(list_ex (\<lambda>v. v = []) cleaned, Value_Error ''blockers must not be blank''),
            (\<not> distinct cleaned, Value_Error ''blockers must be unique'')])
         (\<lambda>_. Inr cleaned))"

definition validate_handoff :: "handoff_envelope \<Rightarrow> fault + unit" where
  "validate_handoff h = first_error
     [(\<not> (2 \<le> ho_schema_version h \<and> ho_schema_version h \<le> 15), Field_Invalid ''schema_version''),
      (\<not> run_id_pattern (ho_run_id h), Field_Invalid ''run_id''),
      (\<not> ident_pattern (ho_team_id h), Field_Invalid ''team_id''),
      (ho_iteration h < 1, Field_Invalid ''iteration''),
      (\<not> ident_pattern (ho_stage h), Field_Invalid ''stage''),
      (ho_sequence h < 1, Field_Invalid ''sequence''),
      (\<not> ident_pattern (ho_source_agent_id h), Field_Invalid ''source_agent_id''),
      (\<not> opt_all ident_pattern (ho_target_agent_id h), Field_Invalid ''target_agent_id''),
      (ho_summary h = [], Field_Invalid ''summary''),
      (\<not> opt_all short_commit_pattern (ho_input_commit h), Field_Invalid ''input_commit''),
      ((ho_status h = Handoff_Blocked \<or> ho_status h = Handoff_Failed) \<and> ho_blockers h = [],
        Value_Error ''blocked or failed handoffs must identify a blocker''),
      (ho_target_agent_id h = Some (ho_source_agent_id h),
        Value_Error ''source and target Agents must differ''),
      (\<not> distinct (map ar_path (ho_artifacts h)),
        Value_Error ''handoff artifact references must be unique'')]"

definition mk_handoff :: "handoff_envelope \<Rightarrow> datetime option \<Rightarrow> fault + handoff_envelope" where
  "mk_handoff h created =
     ebind (case created of None \<Rightarrow> Inr None
            | Some d \<Rightarrow> ebind (require_utc
                (Value_Error ''artifact timestamps must include a timezone'') d) (\<lambda>t. Inr (Some t)))
     (\<lambda>t. ebind (clean_blockers (ho_blockers h)) (\<lambda>bs.
       let g = h\<lparr>ho_created_at := t, ho_blockers := bs\<rparr>
       in ebind (validate_handoff g) (\<lambda>_. Inr g)))"

end
