(* ===== verification/Dag.thy ===== *)
theory Dag
  imports Prelude
begin

text \<open>
  Dependency graphs as the validators and the schedulers use them: a sequence of node
  identifiers and, for each node, the identifiers it depends on.

  \<^item> \<open>visit\<close> and \<open>visits\<close> are the depth-first cycle check nested in
    \<open>TeamPlan.validate_plan\<close> (sets \<open>visiting\<close> and \<open>visited\<close>); the check accepts exactly the
    acyclic graphs (\<open>acyclic_check_iff\<close>), whatever the order in which a Python set of
    dependencies is enumerated.
  \<^item> \<open>reaches_from\<close> is the worklist of \<open>transitively_depends\<close>; it decides the transitive closure.
  \<^item> \<open>waves_from\<close> is the loop of \<open>execution_waves\<close>.
  \<^item> The locale \<open>dag\<close> is the contract a validated plan gives to everything that
    schedules it; \<open>Team_Plans\<close> interprets it on \<open>TeamPlan\<close>.

  Looking up a node that the dictionary of dependencies does not hold is a \<open>KeyError\<close>.
\<close>

datatype dag_fault = Cycle_Found | Key_Error

definition edges :: "'a list \<Rightarrow> ('a \<Rightarrow> 'a list) \<Rightarrow> ('a \<times> 'a) set" where
  "edges nodes deps = {(a, b). a \<in> set nodes \<and> b \<in> set (deps a)}"

definition closed_deps :: "'a list \<Rightarrow> ('a \<Rightarrow> 'a list) \<Rightarrow> bool" where
  "closed_deps nodes deps \<longleftrightarrow> list_all (\<lambda>a. set (deps a) \<subseteq> set nodes) nodes"

lemma closed_depsD: "closed_deps nodes deps \<Longrightarrow> a \<in> set nodes \<Longrightarrow> b \<in> set (deps a) \<Longrightarrow> b \<in> set nodes"
  by (auto simp: closed_deps_def list_all_iff)

lemma edges_iff [simp]: "(a, b) \<in> edges nodes deps \<longleftrightarrow> a \<in> set nodes \<and> b \<in> set (deps a)"
  by (simp add: edges_def)

section \<open>The depth-first cycle check\<close>

function visit :: "'a list \<Rightarrow> ('a \<Rightarrow> 'a list) \<Rightarrow> 'a \<Rightarrow> 'a set \<Rightarrow> 'a set \<Rightarrow> dag_fault + 'a set"
  and visits :: "'a list \<Rightarrow> ('a \<Rightarrow> 'a list) \<Rightarrow> 'a list \<Rightarrow> 'a set \<Rightarrow> 'a set \<Rightarrow> dag_fault + 'a set" where
  "visit nodes deps a visiting visited =
     (if a \<in> visiting then Inl Cycle_Found
      else if a \<in> visited then Inr visited
      else if a \<notin> set nodes then Inl Key_Error
      else case visits nodes deps (deps a) (insert a visiting) visited of
             Inl e \<Rightarrow> Inl e
           | Inr seen \<Rightarrow> Inr (insert a seen))"
| "visits nodes deps [] visiting visited = Inr visited"
| "visits nodes deps (a # rest) visiting visited =
     (case visit nodes deps a visiting visited of
        Inl e \<Rightarrow> Inl e
      | Inr seen \<Rightarrow> visits nodes deps rest visiting seen)"
  by pat_completeness auto

termination
proof (relation "measures
    [\<lambda>x. case x of Inl (nodes, deps, a, visiting, visited) \<Rightarrow> card (set nodes - visiting)
       | Inr (nodes, deps, as, visiting, visited) \<Rightarrow> card (set nodes - visiting),
     \<lambda>x. case x of Inl (nodes, deps, a, visiting, visited) \<Rightarrow> 0
       | Inr (nodes, deps, as, visiting, visited) \<Rightarrow> Suc (length as)]", goal_cases)
  case (2 nodes deps a visiting visited)
  then have "set nodes - insert a visiting \<subset> set nodes - visiting" by auto
  then have "card (set nodes - insert a visiting) < card (set nodes - visiting)"
    by (rule psubset_card_mono [rotated]) simp
  then show ?case by simp
qed auto

declare visit.simps [simp del]

definition acyclic_check :: "'a list \<Rightarrow> ('a \<Rightarrow> 'a list) \<Rightarrow> dag_fault + unit" where
  "acyclic_check nodes deps = ebind (visits nodes deps nodes {} {}) (\<lambda>_. Inr ())"

text \<open>What a visited set guarantees: it is closed under dependencies, has no cycle, and
  avoids the nodes being visited.\<close>

definition settled :: "'a list \<Rightarrow> ('a \<Rightarrow> 'a list) \<Rightarrow> 'a set \<Rightarrow> bool" where
  "settled nodes deps s \<longleftrightarrow> s \<subseteq> set nodes \<and> (\<forall>a \<in> s. set (deps a) \<subseteq> s) \<and>
     acyclic (edges nodes deps \<inter> s \<times> UNIV)"

lemma trancl_stays:
  assumes "(x, y) \<in> (edges nodes deps \<inter> s \<times> UNIV)\<^sup>+" and "\<forall>a \<in> s. set (deps a) \<subseteq> s"
  shows "x \<in> s \<and> y \<in> s"
  using assms by (induction rule: trancl_induct) auto

lemma settled_insert:
  assumes s: "settled nodes deps s" and a: "a \<in> set nodes" "a \<notin> s" "set (deps a) \<subseteq> s"
  shows "settled nodes deps (insert a s)"
proof -
  let ?R = "edges nodes deps \<inter> s \<times> UNIV" and ?Q = "edges nodes deps \<inter> insert a s \<times> UNIV"
  have cl: "\<forall>x \<in> s. set (deps x) \<subseteq> s" using s by (simp add: settled_def)
  have R: "(x, y) \<in> ?R\<^sup>+ \<and> y \<in> s" if "(x, y) \<in> ?Q\<^sup>+" "x \<in> s" for x y
    using that
  proof (induction rule: trancl_induct)
    case (base y)
    then show ?case using cl by auto
  next
    case (step y z)
    then have "(y, z) \<in> ?R" using a(2) by auto
    moreover have "z \<in> s" using step cl by auto
    ultimately show ?case using step by (auto intro: trancl_into_trancl)
  qed
  have "(x, x) \<notin> ?Q\<^sup>+" for x
  proof
    assume xx: "(x, x) \<in> ?Q\<^sup>+"
    then obtain y where "(x, y) \<in> ?Q" "(y, x) \<in> ?Q\<^sup>*" by (metis tranclD)
    then have y: "y \<in> s" "x \<in> insert a s" using a(3) cl by auto
    then have "x \<in> s"
      using R \<open>(y, x) \<in> ?Q\<^sup>*\<close> by (auto dest!: rtranclD)
    then show False using R [OF xx] s by (auto simp: settled_def acyclic_def)
  qed
  then show ?thesis using s a cl by (auto simp: settled_def acyclic_def)
qed

lemma visit_settled:
  "visit nodes deps a visiting visited = Inr r \<Longrightarrow> settled nodes deps visited \<Longrightarrow>
     visiting \<inter> visited = {} \<Longrightarrow>
     settled nodes deps r \<and> visited \<subseteq> r \<and> a \<in> r \<and> visiting \<inter> r = {}"
  and visits_settled:
  "visits nodes deps as visiting visited = Inr r \<Longrightarrow> settled nodes deps visited \<Longrightarrow>
     visiting \<inter> visited = {} \<Longrightarrow>
     settled nodes deps r \<and> visited \<subseteq> r \<and> set as \<subseteq> r \<and> visiting \<inter> r = {}"
proof (induction nodes deps a visiting visited and nodes deps as visiting visited
    arbitrary: r and r rule: visit_visits.induct)
  case (1 nodes deps a visiting visited)
  show ?case
  proof (cases "a \<in> visited")
    case True
    then show ?thesis using 1 by (auto simp: visit.simps [of nodes deps a] split: if_splits)
  next
    case False
    then obtain seen where seen: "a \<notin> visiting" "a \<in> set nodes"
      "visits nodes deps (deps a) (insert a visiting) visited = Inr seen" "r = insert a seen"
      using 1(2) by (auto simp: visit.simps [of nodes deps a] split: if_splits sum.splits)
    then have "settled nodes deps seen \<and> visited \<subseteq> seen \<and> set (deps a) \<subseteq> seen \<and>
        insert a visiting \<inter> seen = {}"
      using 1(1) False 1(3,4) by auto
    then show ?thesis using settled_insert [of nodes deps seen a] seen by auto
  qed
next
  case (3 nodes deps a rest visiting visited)
  then obtain seen where seen: "visit nodes deps a visiting visited = Inr seen"
    "visits nodes deps rest visiting seen = Inr r"
    by (auto split: sum.splits)
  have v: "settled nodes deps seen \<and> visited \<subseteq> seen \<and> a \<in> seen \<and> visiting \<inter> seen = {}"
    using 3(1) [OF seen(1) 3(4,5)] .
  then have "settled nodes deps r \<and> seen \<subseteq> r \<and> set rest \<subseteq> r \<and> visiting \<inter> r = {}"
    using 3(2) [OF seen] by simp
  with v show ?case by auto
qed auto

lemma visit_acyclic:
  "acyclic (edges nodes deps) \<Longrightarrow> closed_deps nodes deps \<Longrightarrow> a \<in> set nodes \<Longrightarrow>
     (\<And>v. v \<in> visiting \<Longrightarrow> (v, a) \<in> (edges nodes deps)\<^sup>+) \<Longrightarrow>
     \<exists>r. visit nodes deps a visiting visited = Inr r"
  and visits_acyclic:
  "acyclic (edges nodes deps) \<Longrightarrow> closed_deps nodes deps \<Longrightarrow> set as \<subseteq> set nodes \<Longrightarrow>
     (\<And>v b. v \<in> visiting \<Longrightarrow> b \<in> set as \<Longrightarrow> (v, b) \<in> (edges nodes deps)\<^sup>+) \<Longrightarrow>
     \<exists>r. visits nodes deps as visiting visited = Inr r"
proof (induction nodes deps a visiting visited and nodes deps as visiting visited
    rule: visit_visits.induct)
  case (1 nodes deps a visiting visited)
  have out: "a \<notin> visiting" using 1(2,5) by (auto simp: acyclic_def)
  show ?case
  proof (cases "a \<in> visited")
    case True
    then show ?thesis using out by (simp add: visit.simps [of nodes deps a])
  next
    case False
    have "\<exists>r. visits nodes deps (deps a) (insert a visiting) visited = Inr r"
    proof (rule 1(1))
      fix v b assume "v \<in> insert a visiting" "b \<in> set (deps a)"
      then have "(a, b) \<in> edges nodes deps" "v = a \<or> (v, a) \<in> (edges nodes deps)\<^sup>+"
        using 1(4,5) by auto
      then show "(v, b) \<in> (edges nodes deps)\<^sup>+"
        by (metis r_into_trancl trancl.trancl_into_trancl)
    qed (use out False 1(2-4) closed_depsD [OF 1(3)] in auto)
    then show ?thesis using out False 1(4) by (auto simp: visit.simps [of nodes deps a])
  qed
next
  case (3 nodes deps a rest visiting visited)
  then obtain seen where "visit nodes deps a visiting visited = Inr seen" by fastforce
  then show ?case using 3 by fastforce
qed auto

lemma acyclic_check_iff:
  assumes "closed_deps nodes deps"
  shows "acyclic_check nodes deps = Inr () \<longleftrightarrow> acyclic (edges nodes deps)"
proof
  assume "acyclic_check nodes deps = Inr ()"
  then obtain r where r: "visits nodes deps nodes {} {} = Inr r"
    by (auto simp: acyclic_check_def ebind_eq_Inr)
  have "settled nodes deps {}" by (simp add: settled_def acyclic_def)
  with visits_settled [OF r] have "settled nodes deps r" "set nodes \<subseteq> r" by auto
  then show "acyclic (edges nodes deps)"
    by (auto simp: settled_def edges_def elim!: acyclic_subset)
next
  assume "acyclic (edges nodes deps)"
  then show "acyclic_check nodes deps = Inr ()"
    using visits_acyclic [of nodes deps nodes "{}" "{}"] assms
    by (auto simp: acyclic_check_def)
qed

section \<open>Transitive dependency\<close>

text \<open>The list is the stack \<open>pending\<close> with its top first (\<open>list.pop()\<close> takes the last element,
  \<open>list.extend\<close> pushes the dependencies of a node in their order).\<close>

function reaches_from ::
    "'a list \<Rightarrow> ('a \<Rightarrow> 'a list) \<Rightarrow> 'a \<Rightarrow> 'a list \<Rightarrow> 'a set \<Rightarrow> dag_fault + bool" where
  "reaches_from nodes deps target [] seen = Inr False"
| "reaches_from nodes deps target (current # pending) seen =
     (if current = target then Inr True
      else if current \<in> seen then reaches_from nodes deps target pending seen
      else if current \<notin> set nodes then Inl Key_Error
      else reaches_from nodes deps target (rev (deps current) @ pending) (insert current seen))"
  by pat_completeness auto

termination
proof (relation "measures
    [\<lambda>(nodes, deps, target, pending, seen). card (set nodes - seen),
     \<lambda>(nodes, deps, target, pending, seen). length pending]", goal_cases)
  case (3 nodes deps target current pending seen)
  then have "set nodes - insert current seen \<subset> set nodes - seen" by auto
  then have "card (set nodes - insert current seen) < card (set nodes - seen)"
    by (rule psubset_card_mono [rotated]) simp
  then show ?case by simp
qed auto

definition transitively_depends ::
    "'a list \<Rightarrow> ('a \<Rightarrow> 'a list) \<Rightarrow> 'a \<Rightarrow> 'a \<Rightarrow> dag_fault + bool" where
  "transitively_depends nodes deps a target =
     (if a \<notin> set nodes then Inl Key_Error
      else reaches_from nodes deps target (rev (deps a)) {})"

lemma reaches_from_returns:
  "closed_deps nodes deps \<Longrightarrow> set pending \<subseteq> set nodes \<Longrightarrow>
     \<exists>b. reaches_from nodes deps target pending seen = Inr b"
proof (induction nodes deps target pending seen rule: reaches_from.induct)
  case (2 nodes deps target current pending seen)
  have "set (rev (deps current) @ pending) \<subseteq> set nodes"
    using 2(3,4) closed_depsD [OF 2(3)] by auto
  then show ?case using 2 by auto
qed auto

lemma reaches_from_sound:
  "reaches_from nodes deps target pending seen = Inr True \<Longrightarrow>
     (\<And>x. x \<in> set pending \<Longrightarrow> (a, x) \<in> (edges nodes deps)\<^sup>+) \<Longrightarrow>
     (a, target) \<in> (edges nodes deps)\<^sup>+"
proof (induction nodes deps target pending seen rule: reaches_from.induct)
  case (2 nodes deps target current pending seen)
  consider "current = target" | "current \<noteq> target" "current \<in> seen"
    | "current \<noteq> target" "current \<notin> seen" "current \<in> set nodes"
    using 2(3) by (auto split: if_splits)
  then show ?case
  proof cases
    case 3
    have "(a, x) \<in> (edges nodes deps)\<^sup>+" if "x \<in> set (rev (deps current) @ pending)" for x
      using that 3 2(4) by (auto intro: trancl.trancl_into_trancl [of a current])
    then show ?thesis using 2(2) [OF 3(1,2)] 3 2(3) by simp
  qed (use 2 in auto)
qed simp

lemma reaches_from_complete:
  "reaches_from nodes deps target pending seen = Inr False \<Longrightarrow> target \<notin> seen \<Longrightarrow>
     (\<And>x. x \<in> seen \<Longrightarrow> set (deps x) \<subseteq> seen \<union> set pending) \<Longrightarrow>
     \<exists>s. seen \<union> set pending \<subseteq> s \<and> target \<notin> s \<and> (\<forall>x \<in> s. set (deps x) \<subseteq> s)"
proof (induction nodes deps target pending seen rule: reaches_from.induct)
  case (1 nodes deps target seen)
  then show ?case by auto
next
  case (2 nodes deps target current pending seen)
  have ne: "current \<noteq> target" using 2(3) by auto
  show ?case
  proof (cases "current \<in> seen")
    case True
    then have "\<exists>s. seen \<union> set pending \<subseteq> s \<and> target \<notin> s \<and> (\<forall>x \<in> s. set (deps x) \<subseteq> s)"
    proof (intro 2(1) [OF ne True])
      fix x assume "x \<in> seen"
      then show "set (deps x) \<subseteq> seen \<union> set pending"
        using 2(5) [of x] True by auto
    qed (use 2(3,4) ne True in simp_all)
    moreover have "seen \<union> set (current # pending) = seen \<union> set pending" using True by auto
    ultimately show ?thesis by simp
  next
    case False
    then have "current \<in> set nodes" using 2(3) ne by (auto split: if_splits)
    then have "\<exists>s. insert current seen \<union> set (rev (deps current) @ pending) \<subseteq> s \<and> target \<notin> s \<and>
        (\<forall>x \<in> s. set (deps x) \<subseteq> s)"
    proof (intro 2(2) [OF ne False])
      fix x assume "x \<in> insert current seen"
      then show "set (deps x) \<subseteq> insert current seen \<union> set (rev (deps current) @ pending)"
        using 2(5) [of x] by auto
    qed (use 2(3,4) ne False in \<open>auto split: if_splits\<close>)
    moreover have "seen \<union> set (current # pending) \<subseteq>
        insert current seen \<union> set (rev (deps current) @ pending)" by auto
    ultimately show ?thesis by (meson order_trans)
  qed
qed

lemma closed_set_trancl:
  "(a, b) \<in> (edges nodes deps)\<^sup>+ \<Longrightarrow> set (deps a) \<subseteq> s \<Longrightarrow> (\<forall>x \<in> s. set (deps x) \<subseteq> s) \<Longrightarrow> b \<in> s"
  by (induction rule: trancl_induct) auto

lemma transitively_depends_iff:
  assumes "closed_deps nodes deps" and "a \<in> set nodes"
  shows "transitively_depends nodes deps a target = Inr ((a, target) \<in> (edges nodes deps)\<^sup>+)"
proof -
  have "set (rev (deps a)) \<subseteq> set nodes" using closed_depsD [OF assms] by auto
  then obtain b where b: "reaches_from nodes deps target (rev (deps a)) {} = Inr b"
    using reaches_from_returns [OF assms(1)] by blast
  have "b \<longleftrightarrow> (a, target) \<in> (edges nodes deps)\<^sup>+"
  proof (cases b)
    case True
    then have "(a, target) \<in> (edges nodes deps)\<^sup>+"
      using b assms(2) by (intro reaches_from_sound [of nodes deps target "rev (deps a)" "{}"]) auto
    with True show ?thesis by simp
  next
    case False
    then obtain s where "set (deps a) \<subseteq> s" "target \<notin> s" "\<forall>x \<in> s. set (deps x) \<subseteq> s"
      using reaches_from_complete [of nodes deps target "rev (deps a)" "{}"] b by auto
    then show ?thesis using closed_set_trancl [of a target nodes deps s] False by blast
  qed
  then show ?thesis using b assms(2) by (simp add: transitively_depends_def)
qed

section \<open>Topological waves\<close>

definition ready_nodes :: "('a \<Rightarrow> 'a list) \<Rightarrow> 'a list \<Rightarrow> 'a set \<Rightarrow> 'a list" where
  "ready_nodes deps remaining completed = filter (\<lambda>a. set (deps a) \<subseteq> completed) remaining"

function waves_from :: "'e \<Rightarrow> ('a \<Rightarrow> 'a list) \<Rightarrow> 'a list \<Rightarrow> 'a set \<Rightarrow> 'e + 'a list list" where
  "waves_from e deps remaining completed =
     (if remaining = [] then Inr []
      else let ready = ready_nodes deps remaining completed
        in if ready = [] then Inl e
        else case waves_from e deps (filter (\<lambda>a. a \<notin> set ready) remaining)
                    (completed \<union> set ready) of
               Inl x \<Rightarrow> Inl x
             | Inr ws \<Rightarrow> Inr (ready # ws))"
  by pat_completeness auto

termination
proof (relation "measure (\<lambda>(e, deps, remaining, completed). length remaining)", goal_cases)
  case (2 e deps remaining completed ready)
  then have "hd ready \<in> set ready" by simp
  moreover have "hd ready \<in> set remaining" using calculation 2 by (auto simp: ready_nodes_def)
  ultimately show ?case by (auto intro!: length_filter_less)
qed simp

declare waves_from.simps [simp del]

section \<open>The contract of a validated plan\<close>

locale dag =
  fixes valid :: "'p \<Rightarrow> bool" and nodes :: "'p \<Rightarrow> 'a list" and deps :: "'p \<Rightarrow> 'a \<Rightarrow> 'a list"
  assumes nodes_distinct: "valid p \<Longrightarrow> distinct (nodes p)"
    and deps_closed: "valid p \<Longrightarrow> closed_deps (nodes p) (deps p)"
    and deps_acyclic: "valid p \<Longrightarrow> acyclic (edges (nodes p) (deps p))"
begin

lemma deps_wf:
  assumes "valid p"
  shows "wf ((edges (nodes p) (deps p))\<inverse>)"
proof (rule finite_acyclic_wf)
  have "edges (nodes p) (deps p) \<subseteq> set (nodes p) \<times> set (nodes p)"
    using closed_depsD [OF deps_closed [OF assms]] by auto
  then show "finite ((edges (nodes p) (deps p))\<inverse>)"
    by (auto intro: finite_subset)
qed (use deps_acyclic [OF assms] in simp)

text \<open>Whatever is finished, some unfinished node has all its dependencies finished.\<close>

lemma some_node_ready:
  assumes "valid p" and "s \<subseteq> set (nodes p)" and "s \<noteq> {}"
  shows "\<exists>a \<in> s. set (deps p a) \<subseteq> set (nodes p) - s"
proof -
  have "wf ((edges (nodes p) (deps p))\<inverse>)" by (rule deps_wf [OF assms(1)])
  then obtain a where a: "a \<in> s" "\<And>b. (b, a) \<in> (edges (nodes p) (deps p))\<inverse> \<Longrightarrow> b \<notin> s"
    using assms(3) by (metis ex_in_conv wfE_min)
  then have "set (deps p a) \<inter> s = {}" using assms(2) by auto
  moreover have "set (deps p a) \<subseteq> set (nodes p)"
    using closed_depsD [OF deps_closed [OF assms(1)]] a(1) assms(2) by blast
  ultimately show ?thesis using a(1) by blast
qed

lemma not_self_dependent: "valid p \<Longrightarrow> (a, a) \<notin> (edges (nodes p) (deps p))\<^sup>+"
  using deps_acyclic by (simp add: acyclic_def)

text \<open>Each wave depends only on earlier ones, and the waves enumerate the remaining nodes.\<close>

lemma waves_from_complete:
  assumes "valid p"
  shows "set remaining \<subseteq> set (nodes p) \<Longrightarrow> distinct remaining \<Longrightarrow>
    completed = set (nodes p) - set remaining \<Longrightarrow>
    \<exists>ws. waves_from e (deps p) remaining completed = Inr ws \<and>
      distinct (concat ws) \<and> set (concat ws) = set remaining \<and> [] \<notin> set ws \<and>
      (\<forall>i < length ws. \<forall>a \<in> set (ws ! i). set (deps p a) \<subseteq> completed \<union> set (concat (take i ws)))"
proof (induction "length remaining" arbitrary: remaining completed rule: less_induct)
  case less
  show ?case
  proof (cases "remaining = []")
    case True
    then show ?thesis by (intro exI [of _ "[]"]) (simp add: waves_from.simps)
  next
    case False
    define ready where "ready = ready_nodes (deps p) remaining completed"
    have "\<exists>a \<in> set remaining. set (deps p a) \<subseteq> completed"
      using some_node_ready [OF assms less(2)] False less(4) by simp
    then have ne: "ready \<noteq> []" by (auto simp: ready_def ready_nodes_def filter_empty_conv)
    have sub: "set ready \<subseteq> set remaining" and rd: "distinct ready"
      using less(3) by (auto simp: ready_def ready_nodes_def)
    define rest where "rest = filter (\<lambda>a. a \<notin> set ready) remaining"
    have shorter: "length rest < length remaining"
      unfolding rest_def using ne sub by (cases ready) (auto intro!: length_filter_less)
    have rest_props: "set rest \<subseteq> set (nodes p)" "distinct rest"
      "completed \<union> set ready = set (nodes p) - set rest"
      using less(2-4) sub by (auto simp: rest_def)
    obtain ws where ws: "waves_from e (deps p) rest (completed \<union> set ready) = Inr ws"
      "distinct (concat ws)" "set (concat ws) = set rest" "[] \<notin> set ws"
      "\<forall>i < length ws. \<forall>a \<in> set (ws ! i).
         set (deps p a) \<subseteq> completed \<union> set ready \<union> set (concat (take i ws))"
      using less(1) [OF shorter rest_props] by blast
    have "waves_from e (deps p) remaining completed = Inr (ready # ws)"
      using False ne ws(1)
      by (simp add: waves_from.simps [of e "deps p" remaining] ready_def [symmetric]
          rest_def [symmetric] Let_def)
    moreover have "distinct (concat (ready # ws))" using ws(2,3) rd by (auto simp: rest_def)
    moreover have "set (concat (ready # ws)) = set remaining" using ws(3) sub by (auto simp: rest_def)
    moreover have "set (deps p a) \<subseteq> completed \<union> set (concat (take i (ready # ws)))"
      if "i < length (ready # ws)" "a \<in> set ((ready # ws) ! i)" for i a
    proof (cases i)
      case 0
      then show ?thesis using that by (auto simp: ready_def ready_nodes_def)
    next
      case (Suc j)
      then have "set (deps p a) \<subseteq> completed \<union> set ready \<union> set (concat (take j ws))"
        using that ws(5) by simp
      then show ?thesis using Suc by (simp add: Un_assoc)
    qed
    ultimately show ?thesis using ws(4) ne by (intro exI [of _ "ready # ws"]) simp
  qed
qed

end

end
