(* ===== verification/Model_Runtime.thy ===== *)
theory Model_Runtime
  imports Prelude
begin

text \<open>
  \<open>model_runtime.py\<close>: the runtime profile of a provider/model, the table of reviewed presets
  and the resolution of a model reference to a profile. The validation of configured endpoint
  URLs (\<open>urlsplit\<close>, \<open>ipaddress\<close>) and the translation from and to OpenClaw configuration are not
  modelled; the profiles built here, presets and native ones, are values.
\<close>

datatype model_api =
    Openai_Completions | Openai_Responses | Openai_Chatgpt_Responses | Anthropic_Messages
  | Google_Generative_Ai | Google_Vertex | Github_Copilot | Bedrock_Converse_Stream | Ollama
  | Azure_Openai_Responses

datatype endpoint_kind = Endpoint_Native | Endpoint_Remote | Endpoint_Local

datatype profile_source = Source_Native | Source_Preset | Source_Private_Config | Source_User_Supplied

datatype credential_source = Credential_None | Credential_Openclaw_Auth | Credential_Environment

datatype submission_policy = Policy_Runtime_Default | Policy_Openai_Required

record runtime_profile =
  rt_source :: profile_source
  rt_provider_id :: string
  rt_native_model_id :: string
  rt_display_name :: "string option"
  rt_api :: "model_api option"
  rt_endpoint_kind :: endpoint_kind
  rt_base_url :: "string option"
  rt_credential_source :: credential_source
  rt_credential_env :: "string option"
  rt_request_timeout :: "int option"
  rt_input_modalities :: "string list"
  rt_context_window :: "int option"
  rt_max_output_tokens :: "int option"
  rt_invocation_max_tokens :: "int option"
  rt_reasoning :: "bool option"
  rt_disable_thinking :: bool
  rt_supports_tools :: "bool option"
  rt_supports_streaming_usage :: "bool option"
  rt_supports_reasoning_effort :: "bool option"
  rt_submission_policy :: submission_policy

text \<open>\<open>str.partition("/")\<close>: the text before the first separator, whether there is one, and
  the text after it.\<close>

fun partition_on :: "char \<Rightarrow> string \<Rightarrow> string \<times> bool \<times> string" where
  "partition_on c [] = ([], False, [])"
| "partition_on c (x # xs) =
     (if x = c then ([], True, xs)
      else case partition_on c xs of (a, found, b) \<Rightarrow> (x # a, found, b))"

definition provider_pattern :: "string \<Rightarrow> bool" where
  "provider_pattern s \<longleftrightarrow>
     (case s of [] \<Rightarrow> False
      | c # cs \<Rightarrow> is_lower c \<and>
          list_all (\<lambda>d. is_lower d \<or> is_digit_char d \<or> d = CHR ''_'' \<or> d = CHR ''.'' \<or> d = CHR ''-'') cs)"

definition clean_runtime_text :: "string \<Rightarrow> bool" where
  "clean_runtime_text s \<longleftrightarrow> py_strip s \<noteq> [] \<and>
     CHR 0x00 \<notin> set (py_strip s) \<and> CHR 0x0D \<notin> set (py_strip s) \<and> CHR 0x0A \<notin> set (py_strip s)"

definition native_profile_value :: "string \<Rightarrow> string \<Rightarrow> runtime_profile" where
  "native_profile_value provider_id native_model_id =
     \<lparr>rt_source = Source_Native, rt_provider_id = provider_id,
      rt_native_model_id = py_strip native_model_id,
      rt_display_name = None, rt_api = None, rt_endpoint_kind = Endpoint_Native,
      rt_base_url = None, rt_credential_source = Credential_Openclaw_Auth,
      rt_credential_env = None, rt_request_timeout = None, rt_input_modalities = [],
      rt_context_window = None, rt_max_output_tokens = None, rt_invocation_max_tokens = None,
      rt_reasoning = None, rt_disable_thinking = False, rt_supports_tools = None,
      rt_supports_streaming_usage = None, rt_supports_reasoning_effort = None,
      rt_submission_policy = Policy_Runtime_Default\<rparr>"

definition native_runtime_profile :: "string \<Rightarrow> fault + runtime_profile" where
  "native_runtime_profile model =
     (case partition_on (CHR ''/'') (py_strip model) of (provider_id, found, native_model_id) \<Rightarrow>
        ebind (first_error
          [(provider_id = [] \<or> \<not> found \<or> native_model_id = [],
             Value_Error ''model runtime profiles require a provider/model reference''),
           (\<not> provider_pattern provider_id, Field_Invalid ''provider_id''),
           (500 < length native_model_id, Field_Invalid ''native_model_id''),
           (\<not> clean_runtime_text native_model_id, Value_Error ''model runtime text must be clean'')])
        (\<lambda>_. Inr (native_profile_value provider_id native_model_id)))"

definition gemini_flash_runtime_profile :: "string \<Rightarrow> string \<Rightarrow> runtime_profile" where
  "gemini_flash_runtime_profile native_model_id display_name =
     \<lparr>rt_source = Source_Preset, rt_provider_id = ''google'',
      rt_native_model_id = native_model_id, rt_display_name = Some display_name,
      rt_api = Some Google_Generative_Ai, rt_endpoint_kind = Endpoint_Remote,
      rt_base_url = Some ''https://generativelanguage.googleapis.com/v1beta'',
      rt_credential_source = Credential_Environment, rt_credential_env = Some ''GEMINI_API_KEY'',
      rt_request_timeout = None, rt_input_modalities = [''text'', ''image''],
      rt_context_window = Some 1048576, rt_max_output_tokens = Some 65536,
      rt_invocation_max_tokens = Some 16384, rt_reasoning = Some True,
      rt_disable_thinking = False, rt_supports_tools = Some True,
      rt_supports_streaming_usage = None, rt_supports_reasoning_effort = Some True,
      rt_submission_policy = Policy_Runtime_Default\<rparr>"

definition deepseek_runtime_profile ::
    "string \<Rightarrow> string \<Rightarrow> credential_source \<Rightarrow> string option \<Rightarrow> string list \<Rightarrow> int \<Rightarrow> int \<Rightarrow>
     runtime_profile" where
  "deepseek_runtime_profile native_model_id display_name credential env modalities window max_out =
     \<lparr>rt_source = Source_Preset, rt_provider_id = ''deepseek'',
      rt_native_model_id = native_model_id, rt_display_name = Some display_name,
      rt_api = Some Openai_Completions, rt_endpoint_kind = Endpoint_Remote,
      rt_base_url = Some ''https://api.deepseek.com'',
      rt_credential_source = credential, rt_credential_env = env,
      rt_request_timeout = None, rt_input_modalities = modalities,
      rt_context_window = Some window, rt_max_output_tokens = Some max_out,
      rt_invocation_max_tokens = Some 16384, rt_reasoning = Some True,
      rt_disable_thinking = True, rt_supports_tools = Some True,
      rt_supports_streaming_usage = Some True, rt_supports_reasoning_effort = Some True,
      rt_submission_policy = Policy_Openai_Required\<rparr>"

definition model_runtime_presets :: "(string \<times> runtime_profile) list" where
  "model_runtime_presets =
     [(''google/gemini-3.1-flash-lite'',
         gemini_flash_runtime_profile ''gemini-3.1-flash-lite'' ''Gemini 3.1 Flash Lite''),
      (''google/gemini-3.5-flash-lite'',
         gemini_flash_runtime_profile ''gemini-3.5-flash-lite'' ''Gemini 3.5 Flash Lite''),
      (''google/gemini-3.5-flash'',
         gemini_flash_runtime_profile ''gemini-3.5-flash'' ''Gemini 3.5 Flash''),
      (''google/gemini-3.6-flash'',
         gemini_flash_runtime_profile ''gemini-3.6-flash'' ''Gemini 3.6 Flash''),
      (''google/gemini-3.7-flash'',
         gemini_flash_runtime_profile ''gemini-3.7-flash'' ''Gemini 3.7 Flash''),
      (''google/gemini-3.8-flash'',
         gemini_flash_runtime_profile ''gemini-3.8-flash'' ''Gemini 3.8 Flash''),
      (''deepseek/deepseek-v4-flash'',
         deepseek_runtime_profile ''deepseek-v4-flash'' ''DeepSeek V4 Flash''
           Credential_Openclaw_Auth None [''text''] 1000000 384000),
      (''deepseek/deepseek-v4-flash-vision-exp'',
         deepseek_runtime_profile ''deepseek-v4-flash-vision-exp'' ''DeepSeek V4 Flash Vision Exp''
           Credential_Environment (Some ''DEEPSEEK_API_KEY'') [''text'', ''image''] 1000000 384000),
      (''deepseek/deepseek-flash'',
         deepseek_runtime_profile ''deepseek-flash'' ''DeepSeek V4.1 Flash''
           Credential_Environment (Some ''DEEPSEEK_API_KEY'') [''text''] 120000 16384)]"

definition has_runtime_profile_preset :: "string \<Rightarrow> bool" where
  "has_runtime_profile_preset model \<longleftrightarrow> map_of model_runtime_presets (py_strip model) \<noteq> None"

definition runtime_profile_for_model :: "string \<Rightarrow> fault + runtime_profile" where
  "runtime_profile_for_model model =
     (let normalized = py_strip model
      in case map_of model_runtime_presets normalized of
           Some preset \<Rightarrow> Inr preset
         | None \<Rightarrow> native_runtime_profile normalized)"

definition openclaw_invocation_thinking_level :: "runtime_profile \<Rightarrow> string option" where
  "openclaw_invocation_thinking_level p =
     (if rt_reasoning p = Some True \<and> rt_supports_reasoning_effort p = Some True \<and>
         \<not> rt_disable_thinking p
      then Some ''medium'' else None)"

text \<open>The provider of a resolved profile is the text before the first slash.\<close>

lemma presets_provider:
  "list_all (\<lambda>(m, p). fst (partition_on (CHR ''/'') m) = rt_provider_id p) model_runtime_presets"
  by code_simp

lemma resolved_provider:
  assumes "runtime_profile_for_model model = Inr p"
  shows "rt_provider_id p = fst (partition_on (CHR ''/'') (py_strip model))"
proof (cases "map_of model_runtime_presets (py_strip model)")
  case None
  then have "native_runtime_profile (py_strip model) = Inr p"
    using assms by (simp add: runtime_profile_for_model_def Let_def)
  then show ?thesis
    by (auto simp: native_runtime_profile_def native_profile_value_def ebind_eq_Inr split: prod.splits)
next
  case (Some q)
  then have "(py_strip model, q) \<in> set model_runtime_presets" by (rule map_of_SomeD)
  then have "fst (partition_on (CHR ''/'') (py_strip model)) = rt_provider_id q"
    using presets_provider by (auto simp: list_all_iff)
  then show ?thesis using assms Some by (simp add: runtime_profile_for_model_def Let_def)
qed

end
