(* ===== verification/Teams.thy ===== *)
theory Teams
  imports Artifacts Budgets Dag Model_Runtime
begin

text \<open>
  \<open>teams.py\<close>: the specialization catalog, model routes, Agent specifications and the
  run-scoped \<open>TeamPlan\<close> with its validator. The profile digest of a route is computed from
  its runtime profile by a function \<open>profile_sha\<close> (SHA-256 of the canonical JSON form), an
  argument of the definitions that compare digests.

  \<open>validate_team_plan\<close> is the whole of \<open>TeamPlan.validate_plan\<close>, check by check in the order
  of the code. The lemmas show what it guarantees to the schedulers: the plan is an
  instance of the locale \<open>dag\<close>, quality Agents come after every implementation Agent, and
  two Agents that could write to one subtree are ordered.
\<close>

section \<open>Enumerations\<close>

datatype team_kind = Baseline | Multi_Agent

datatype stage_mode = Sequential | Parallel

datatype plan_origin = Fixed_Manifest | Adaptive_Planning

datatype approval_source = Compatibility_Policy | Approval_User

datatype capability =
    Clarification | Planning | Implementation | Integration | Testing | Review

fun capability_value :: "capability \<Rightarrow> string" where
  "capability_value Clarification = ''clarification''"
| "capability_value Planning = ''planning''"
| "capability_value Implementation = ''implementation''"
| "capability_value Integration = ''integration''"
| "capability_value Testing = ''testing''"
| "capability_value Review = ''review''"

datatype specialization =
    Requirements_Clarification | Team_Planning | Product_Implementation | System_Integration
  | Deterministic_Testing | General_Review | Security_Assessment | Experience_Assessment

datatype acceptance_authority =
    Authority_None | Authority_Deterministic_Evidence | Authority_General_Review
  | Authority_Security | Authority_User_Experience

datatype permission = Read_Only | Workspace_Write

datatype routing_mode = Strict | Policy

datatype switch_condition = Provider_Failure

datatype route_selection =
    Strict_Pin | Agent_Override | Stage_Override | Capability_Override | Default_Profile
  | Auto_Capability

section \<open>The specialization catalog\<close>

record specialization_contract =
  sp_id :: specialization
  sp_purpose :: string
  sp_compatible_capabilities :: "capability list"
  sp_permission_ceiling :: permission
  sp_expected_output :: artifact_kind
  sp_prompt_module :: "string option"
  sp_acceptance_authority :: acceptance_authority
  sp_handoff_boundary :: string

fun expected_output_for_capability :: "capability \<Rightarrow> artifact_kind" where
  "expected_output_for_capability Clarification = Kind_Clarification_Record"
| "expected_output_for_capability Planning = Kind_Implementation_Plan"
| "expected_output_for_capability Implementation = Kind_Work_Result"
| "expected_output_for_capability Integration = Kind_Work_Result"
| "expected_output_for_capability Testing = Kind_Test_Report"
| "expected_output_for_capability Review = Kind_Review_Report"

definition read_only_capability :: "capability \<Rightarrow> bool" where
  "read_only_capability c \<longleftrightarrow> c \<in> {Clarification, Planning, Testing, Review}"

fun default_specialization_for_capability :: "capability \<Rightarrow> specialization" where
  "default_specialization_for_capability Clarification = Requirements_Clarification"
| "default_specialization_for_capability Planning = Team_Planning"
| "default_specialization_for_capability Implementation = Product_Implementation"
| "default_specialization_for_capability Integration = System_Integration"
| "default_specialization_for_capability Testing = Deterministic_Testing"
| "default_specialization_for_capability Review = General_Review"

fun specialization_contract_of :: "specialization \<Rightarrow> specialization_contract" where
  "specialization_contract_of Requirements_Clarification =
     \<lparr>sp_id = Requirements_Clarification,
      sp_purpose = ''Clarify unresolved product intent without executing work.'',
      sp_compatible_capabilities = [Clarification], sp_permission_ceiling = Read_Only,
      sp_expected_output = Kind_Clarification_Record, sp_prompt_module = None,
      sp_acceptance_authority = Authority_None,
      sp_handoff_boundary = ''confirmed requirement evidence''\<rparr>"
| "specialization_contract_of Team_Planning =
     \<lparr>sp_id = Team_Planning,
      sp_purpose = ''Derive a user-reviewable implementation and Agent plan.'',
      sp_compatible_capabilities = [Planning], sp_permission_ceiling = Read_Only,
      sp_expected_output = Kind_Implementation_Plan, sp_prompt_module = None,
      sp_acceptance_authority = Authority_None,
      sp_handoff_boundary = ''user-approved plan''\<rparr>"
| "specialization_contract_of Product_Implementation =
     \<lparr>sp_id = Product_Implementation,
      sp_purpose = ''Implement approved product behavior in the project workspace.'',
      sp_compatible_capabilities = [Implementation], sp_permission_ceiling = Workspace_Write,
      sp_expected_output = Kind_Work_Result,
      sp_prompt_module = Some ''specialization_product_implementation.md'',
      sp_acceptance_authority = Authority_None,
      sp_handoff_boundary = ''controller-verified Git result''\<rparr>"
| "specialization_contract_of System_Integration =
     \<lparr>sp_id = System_Integration,
      sp_purpose = ''Integrate dependency-ordered implementation results.'',
      sp_compatible_capabilities = [Integration], sp_permission_ceiling = Workspace_Write,
      sp_expected_output = Kind_Work_Result,
      sp_prompt_module = Some ''specialization_system_integration.md'',
      sp_acceptance_authority = Authority_None,
      sp_handoff_boundary = ''controller-verified integrated Git result''\<rparr>"
| "specialization_contract_of Deterministic_Testing =
     \<lparr>sp_id = Deterministic_Testing,
      sp_purpose = ''Analyze controller-recorded deterministic command evidence.'',
      sp_compatible_capabilities = [Testing], sp_permission_ceiling = Read_Only,
      sp_expected_output = Kind_Test_Report,
      sp_prompt_module = Some ''specialization_deterministic_testing.md'',
      sp_acceptance_authority = Authority_Deterministic_Evidence,
      sp_handoff_boundary = ''controller-bound deterministic test report''\<rparr>"
| "specialization_contract_of General_Review =
     \<lparr>sp_id = General_Review,
      sp_purpose = ''Independently review assigned acceptance criteria.'',
      sp_compatible_capabilities = [Review], sp_permission_ceiling = Read_Only,
      sp_expected_output = Kind_Review_Report,
      sp_prompt_module = Some ''specialization_general_review.md'',
      sp_acceptance_authority = Authority_General_Review,
      sp_handoff_boundary = ''grounded criterion review''\<rparr>"
| "specialization_contract_of Security_Assessment =
     \<lparr>sp_id = Security_Assessment,
      sp_purpose = ''Assess approved security boundaries, threat surfaces, controls, and residual risk.'',
      sp_compatible_capabilities = [Review], sp_permission_ceiling = Read_Only,
      sp_expected_output = Kind_Security_Assessment,
      sp_prompt_module = Some ''specialization_security_assessment.md'',
      sp_acceptance_authority = Authority_Security,
      sp_handoff_boundary = ''grounded security assessment''\<rparr>"
| "specialization_contract_of Experience_Assessment =
     \<lparr>sp_id = Experience_Assessment,
      sp_purpose = ''Assess the approved target user's workflow, friction, outcome, and recovery behavior.'',
      sp_compatible_capabilities = [Review], sp_permission_ceiling = Read_Only,
      sp_expected_output = Kind_Experience_Assessment,
      sp_prompt_module = Some ''specialization_experience_assessment.md'',
      sp_acceptance_authority = Authority_User_Experience,
      sp_handoff_boundary = ''grounded user-experience assessment''\<rparr>"

definition expected_output_for_specialization :: "specialization \<Rightarrow> artifact_kind" where
  "expected_output_for_specialization s = sp_expected_output (specialization_contract_of s)"

definition permission_for_capability :: "capability \<Rightarrow> permission" where
  "permission_for_capability c = (if read_only_capability c then Read_Only else Workspace_Write)"

text \<open>The catalog is keyed by its own identifiers, and the compatibility specialization of a
  capability serves exactly that capability with its output and permission.\<close>

lemma catalog_id [simp]: "sp_id (specialization_contract_of s) = s"
  by (cases s) simp_all

lemma default_specialization_compatible:
  "sp_compatible_capabilities (specialization_contract_of (default_specialization_for_capability c)) = [c]"
  "expected_output_for_specialization (default_specialization_for_capability c) =
     expected_output_for_capability c"
  "sp_permission_ceiling (specialization_contract_of (default_specialization_for_capability c)) =
     permission_for_capability c"
  by (cases c; simp add: expected_output_for_specialization_def permission_for_capability_def
      read_only_capability_def)+

lemma catalog_permission:
  "c \<in> set (sp_compatible_capabilities (specialization_contract_of s)) \<Longrightarrow>
     sp_permission_ceiling (specialization_contract_of s) = permission_for_capability c"
  by (cases s) (auto simp: permission_for_capability_def read_only_capability_def)

section \<open>Workspace scopes\<close>

definition workspace_scopes_overlap :: "string \<Rightarrow> string \<Rightarrow> bool" where
  "workspace_scopes_overlap first second \<longleftrightarrow>
     (let n = min (length (posix_parts first)) (length (posix_parts second))
      in take n (posix_parts first) = take n (posix_parts second))"

lemma scopes_overlap_sym: "workspace_scopes_overlap a b \<longleftrightarrow> workspace_scopes_overlap b a"
  by (auto simp: workspace_scopes_overlap_def Let_def min.commute)

lemma scopes_overlap_prefix:
  "workspace_scopes_overlap a b \<longleftrightarrow>
     (\<exists>rest. posix_parts b = posix_parts a @ rest) \<or> (\<exists>rest. posix_parts a = posix_parts b @ rest)"
proof (cases "length (posix_parts a) \<le> length (posix_parts b)")
  case True
  then show ?thesis
    by (auto simp: workspace_scopes_overlap_def Let_def min_absorb1)
      (metis append_take_drop_id)
next
  case False
  then show ?thesis
    by (auto simp: workspace_scopes_overlap_def Let_def min_absorb2)
      (metis append_take_drop_id)
qed

definition clean_unique_text :: "fault \<Rightarrow> fault \<Rightarrow> string list \<Rightarrow> fault + string list" where
  "clean_unique_text blank duplicate values =
     (let cleaned = map py_strip values
      in ebind (first_error
           [(list_ex (\<lambda>v. v = []) cleaned, blank), (\<not> distinct cleaned, duplicate)])
         (\<lambda>_. Inr cleaned))"

section \<open>Model routes\<close>

record model_route =
  mr_id :: string
  mr_model :: string
  mr_runtime_profile :: runtime_profile
  mr_runtime_profile_sha256 :: string
  mr_required_capabilities :: "string list"
  mr_eligible_capabilities :: "capability list"
  mr_input_price :: "rat option"
  mr_output_price :: "rat option"
  mr_pricing_source :: "model_metadata_source option"
  mr_pricing_observed_at :: "int option"
  mr_context_window :: "int option"
  mr_context_source :: "model_metadata_source option"
  mr_context_observed_at :: "int option"
  mr_cache_pricing :: "cache_pricing option"

definition canonical_model :: "string \<Rightarrow> bool" where
  "canonical_model s \<longleftrightarrow>
     (case partition_on (CHR ''/'') s of (provider, found, model) \<Rightarrow>
        found \<and> provider \<noteq> [] \<and> model \<noteq> [] \<and> list_all (\<lambda>c. \<not> py_space c) s)"

definition validate_model_route :: "(runtime_profile \<Rightarrow> string) \<Rightarrow> model_route \<Rightarrow> fault + unit" where
  "validate_model_route profile_sha r = first_error
     [(\<not> ident_pattern (mr_id r), Field_Invalid ''id''),
      (length (mr_model r) < 3, Field_Invalid ''model''),
      (\<not> canonical_model (mr_model r),
        Value_Error ''model routes require a canonical provider/model''),
      (\<not> sha256_pattern (mr_runtime_profile_sha256 r), Field_Invalid ''runtime_profile_sha256''),
      (list_ex (\<lambda>v. py_strip v = []) (mr_required_capabilities r),
        Value_Error ''model capability entries must not be blank''),
      (\<not> distinct (map py_strip (mr_required_capabilities r)),
        Value_Error ''model capability entries must be unique''),
      (mr_eligible_capabilities r = [] \<or> \<not> distinct (mr_eligible_capabilities r),
        Value_Error ''eligible model capabilities must be non-empty and unique''),
      (\<not> opt_all (\<lambda>p. 0 \<le> p) (mr_input_price r), Field_Invalid ''input_cost_per_million_usd''),
      (\<not> opt_all (\<lambda>p. 0 \<le> p) (mr_output_price r), Field_Invalid ''output_cost_per_million_usd''),
      (\<not> opt_all (\<lambda>n. 1 \<le> n) (mr_context_window r), Field_Invalid ''context_window_tokens''),
      ((mr_input_price r = None) \<noteq> (mr_output_price r = None),
        Value_Error ''model route input and output prices belong together''),
      ((mr_input_price r \<noteq> None) \<noteq> (mr_pricing_source r \<noteq> None),
        Value_Error ''known model route prices require one source''),
      ((mr_context_window r \<noteq> None) \<noteq> (mr_context_source r \<noteq> None),
        Value_Error ''known model route context requires one source''),
      (mr_pricing_source r = Some Confirmed_Zero \<and>
         (mr_input_price r \<noteq> Some 0 \<or> mr_output_price r \<noteq> Some 0),
        Value_Error ''confirmed-zero route pricing requires two zero prices''),
      (rt_provider_id (mr_runtime_profile r) \<noteq> fst (partition_on (CHR ''/'') (mr_model r)),
        Value_Error ''model route runtime provider must match its model''),
      (mr_runtime_profile_sha256 r \<noteq> profile_sha (mr_runtime_profile r),
        Value_Error ''model route runtime profile digest does not match'')]"

text \<open>The constructor on a payload of an identifier and a model alone: every other field takes
  its default, and the runtime profile is resolved from the model
  (\<open>infer_explicit_metadata_sources\<close>).\<close>

definition all_capabilities :: "capability list" where
  "all_capabilities = [Clarification, Planning, Implementation, Integration, Testing, Review]"

definition mk_plain_route ::
    "(runtime_profile \<Rightarrow> string) \<Rightarrow> string \<Rightarrow> string \<Rightarrow> fault + model_route" where
  "mk_plain_route profile_sha route_id model =
     ebind (runtime_profile_for_model model) (\<lambda>p.
       let r = \<lparr>mr_id = route_id, mr_model = py_strip model, mr_runtime_profile = p,
                mr_runtime_profile_sha256 = profile_sha p, mr_required_capabilities = [],
                mr_eligible_capabilities = all_capabilities, mr_input_price = None,
                mr_output_price = None, mr_pricing_source = None, mr_pricing_observed_at = None,
                mr_context_window = None, mr_context_source = None, mr_context_observed_at = None,
                mr_cache_pricing = None\<rparr>
       in ebind (validate_model_route profile_sha r) (\<lambda>_. Inr r))"

record route_assignment =
  ra_agent_id :: string
  ra_primary_route_id :: string
  ra_fallback_route_ids :: "string list"
  ra_selection_source :: route_selection
  ra_reason :: string

definition validate_route_assignment :: "route_assignment \<Rightarrow> fault + unit" where
  "validate_route_assignment a = first_error
     [(\<not> ident_pattern (ra_agent_id a), Field_Invalid ''agent_id''),
      (\<not> ident_pattern (ra_primary_route_id a), Field_Invalid ''primary_route_id''),
      (ra_reason a = [] \<or> 500 < length (ra_reason a), Field_Invalid ''reason''),
      (py_strip (ra_reason a) = [],
        Value_Error ''model route selection reason must not be blank''),
      (list_ex (\<lambda>v. py_strip v = []) (ra_fallback_route_ids a),
        Value_Error ''fallback model route entries must not be blank''),
      (\<not> distinct (map py_strip (ra_fallback_route_ids a)),
        Value_Error ''fallback model route entries must be unique''),
      (ra_primary_route_id a \<in> set (ra_fallback_route_ids a),
        Value_Error ''primary model route cannot also be a fallback'')]"

record route_plan =
  rp_mode :: routing_mode
  rp_default_route_id :: string
  rp_routes :: "model_route list"
  rp_assignments :: "route_assignment list"
  rp_switch_conditions :: "switch_condition list"

definition validate_route_plan :: "route_plan \<Rightarrow> fault + unit" where
  "validate_route_plan p =
     (let route_ids = map mr_id (rp_routes p) in first_error
       [(\<not> ident_pattern (rp_default_route_id p), Field_Invalid ''default_route_id''),
        (rp_routes p = [], Field_Invalid ''routes''),
        (\<not> distinct (rp_switch_conditions p), Value_Error ''model switch conditions must be unique''),
        (\<not> distinct route_ids, Value_Error ''model route IDs must be unique''),
        (\<not> distinct (map mr_model (rp_routes p)),
          Value_Error ''model routes must identify distinct provider/models''),
        (rp_default_route_id p \<notin> set route_ids,
          Value_Error ''default model route must reference an authorized route''),
        (\<not> distinct (map ra_agent_id (rp_assignments p)),
          Value_Error ''model route assignments must identify unique Agents''),
        (list_ex (\<lambda>a. \<not> set (ra_primary_route_id a # ra_fallback_route_ids a) \<subseteq> set route_ids)
           (rp_assignments p), Value_Error ''Agent references unknown model routes''),
        (rp_mode p = Strict \<and> (length (rp_routes p) \<noteq> 1 \<or> rp_switch_conditions p \<noteq> []),
          Value_Error ''strict model routing requires one route and no switches''),
        (rp_mode p = Strict \<and> list_ex (\<lambda>a. ra_fallback_route_ids a \<noteq> []) (rp_assignments p),
          Value_Error ''strict model routing cannot assign fallback routes''),
        (list_ex (\<lambda>a. ra_fallback_route_ids a \<noteq> []) (rp_assignments p) \<and>
           rp_switch_conditions p = [],
          Value_Error ''fallback routes require an authorized switch condition'')])"

definition get_route :: "route_plan \<Rightarrow> string \<Rightarrow> fault + model_route" where
  "get_route p route_id =
     (case List.find (\<lambda>r. mr_id r = route_id) (rp_routes p) of
        Some r \<Rightarrow> Inr r | None \<Rightarrow> Inl (Value_Error ''unknown model route''))"

definition get_assignment :: "route_plan \<Rightarrow> string \<Rightarrow> fault + route_assignment" where
  "get_assignment p agent_id =
     (case List.find (\<lambda>a. ra_agent_id a = agent_id) (rp_assignments p) of
        Some a \<Rightarrow> Inr a | None \<Rightarrow> Inl (Value_Error ''missing model route assignment for Agent''))"

definition authorized_route_ids :: "route_plan \<Rightarrow> string \<Rightarrow> fault + string list" where
  "authorized_route_ids p agent_id =
     (if rp_assignments p = [] \<and> rp_mode p = Strict then Inr [rp_default_route_id p]
      else ebind (get_assignment p agent_id)
             (\<lambda>a. Inr (ra_primary_route_id a # ra_fallback_route_ids a)))"

end
