(* ===== verification/Team_Plans.thy ===== *)
theory Team_Plans
  imports Teams
begin

text \<open>
  \<open>AgentSpec\<close> and \<open>TeamPlan\<close> of \<open>teams.py\<close>. \<open>validate_team_plan\<close> is \<open>TeamPlan.validate_plan\<close>, its
  checks in the order of the code, split where the code starts a new subject: origin, dependency
  graph, model routes, budgets, quality and revision, workspace scopes, fixture roles. The
  lemmas derive from it the contract the schedulers rely on and interpret the locale \<open>dag\<close>.
\<close>

section \<open>Agent specifications\<close>

record agent_spec =
  as_id :: string
  as_label :: string
  as_responsibility :: string
  as_rationale :: string
  as_capability :: capability
  as_specialization :: specialization
  as_permission :: permission
  as_stage_id :: string
  as_dependencies :: "string list"
  as_expected_output :: artifact_kind
  as_model_route_id :: string
  as_timeout_seconds :: int
  as_workspace_scope :: string
  as_legacy_role :: "agent_role option"

definition canonical_scope :: "string \<Rightarrow> bool" where
  "canonical_scope s \<longleftrightarrow> s \<noteq> [] \<and> CHR 0x5C \<notin> set s \<and> safe_relative s \<and> posix_str s = s"

definition validate_agent_spec :: "agent_spec \<Rightarrow> fault + unit" where
  "validate_agent_spec a =
     (let contract = specialization_contract_of (as_specialization a) in first_error
       [(\<not> ident_pattern (as_id a), Field_Invalid ''id''),
        (as_label a = [] \<or> 80 < length (as_label a), Field_Invalid ''label''),
        (as_responsibility a = [] \<or> 500 < length (as_responsibility a), Field_Invalid ''responsibility''),
        (as_rationale a = [] \<or> 500 < length (as_rationale a), Field_Invalid ''rationale''),
        (\<not> ident_pattern (as_stage_id a), Field_Invalid ''stage_id''),
        (\<not> ident_pattern (as_model_route_id a), Field_Invalid ''model_route_id''),
        (as_timeout_seconds a < 0, Field_Invalid ''timeout_seconds''),
        (as_workspace_scope a = [] \<or> 200 < length (as_workspace_scope a), Field_Invalid ''workspace_scope''),
        (\<not> canonical_scope (as_workspace_scope a),
          Value_Error ''workspace scopes must be canonical safe relative paths''),
        (hd (posix_parts (as_workspace_scope a)) \<noteq> ''repository'',
          Value_Error ''workspace scopes must start at repository or repository/''),
        (as_capability a \<notin> set (sp_compatible_capabilities contract),
          Value_Error ''Agent specialization and executable capability are incompatible''),
        (as_expected_output a \<noteq> sp_expected_output contract,
          Value_Error ''Agent specialization and expected output are inconsistent''),
        (as_permission a \<noteq> sp_permission_ceiling contract,
          Value_Error ''Agent permission exceeds or differs from its specialization ceiling''),
        (read_only_capability (as_capability a) \<and> as_permission a \<noteq> Read_Only,
          Value_Error ''planning and quality capabilities must be read-only''),
        (\<not> read_only_capability (as_capability a) \<and> as_permission a \<noteq> Workspace_Write,
          Value_Error ''implementation capabilities require workspace write''),
        (as_id a \<in> set (as_dependencies a), Value_Error ''an Agent cannot depend on itself'')])"

text \<open>The constructor: a missing specialization is inferred from the capability, texts,
  dependencies and scope are stripped, then the model is validated.\<close>

definition mk_agent_spec :: "agent_spec \<Rightarrow> specialization option \<Rightarrow> fault + agent_spec" where
  "mk_agent_spec a given =
     ebind (first_error
       [(list_ex (\<lambda>v. py_strip v = []) [as_label a, as_responsibility a, as_rationale a],
          Value_Error ''AgentSpec text must not be blank'')]) (\<lambda>_.
     ebind (clean_unique_text (Value_Error ''Agent dependency entries must not be blank'')
              (Value_Error ''Agent dependency entries must be unique'') (as_dependencies a)) (\<lambda>deps.
       let b = a\<lparr>as_specialization :=
                   the_or given (default_specialization_for_capability (as_capability a)),
                 as_label := py_strip (as_label a),
                 as_responsibility := py_strip (as_responsibility a),
                 as_rationale := py_strip (as_rationale a),
                 as_dependencies := deps,
                 as_workspace_scope := py_strip (as_workspace_scope a)\<rparr>
       in ebind (validate_agent_spec b) (\<lambda>_. Inr b)))"

lemma agent_spec_permission:
  "validate_agent_spec a = Inr () \<Longrightarrow> as_permission a = permission_for_capability (as_capability a)"
  by (auto simp: validate_agent_spec_def Let_def permission_for_capability_def
      intro: permission.exhaust)

section \<open>The team plan\<close>

record team_plan =
  tp_schema_version :: int
  tp_catalog_version :: int
  tp_plan_id :: string
  tp_revision :: int
  tp_run_id :: string
  tp_task_brief_sha256 :: string
  tp_implementation_plan_sha256 :: "string option"
  tp_team_id :: string
  tp_origin :: plan_origin
  tp_approval_source :: approval_source
  tp_created_at :: int
  tp_source_manifest_version :: "int option"
  tp_source_team_id :: "string option"
  tp_source_team_sha256 :: "string option"
  tp_agents :: "agent_spec list"
  tp_model_routes :: route_plan
  tp_budget :: budget
  tp_run_deadline_seconds :: "int option"
  tp_iteration_limit :: int
  tp_max_concurrency :: int
  tp_independent_review :: bool
  tp_revision_enabled :: bool

definition plan_agent_ids :: "team_plan \<Rightarrow> string list" where
  "plan_agent_ids p = map as_id (tp_agents p)"

definition plan_deps :: "team_plan \<Rightarrow> string \<Rightarrow> string list" where
  "plan_deps p a =
     (case List.find (\<lambda>s. as_id s = a) (tp_agents p) of None \<Rightarrow> [] | Some s \<Rightarrow> as_dependencies s)"

definition plan_fields :: "team_plan \<Rightarrow> fault + unit" where
  "plan_fields p = first_error
     [(tp_schema_version p \<notin> {1, 2, 3, 4}, Field_Invalid ''schema_version''),
      (tp_catalog_version p \<noteq> 1, Field_Invalid ''specialization_catalog_version''),
      (\<not> run_id_pattern (tp_plan_id p), Field_Invalid ''plan_id''),
      (tp_revision p < 1, Field_Invalid ''revision''),
      (\<not> run_id_pattern (tp_run_id p), Field_Invalid ''run_id''),
      (\<not> sha256_pattern (tp_task_brief_sha256 p), Field_Invalid ''task_brief_sha256''),
      (\<not> opt_all sha256_pattern (tp_implementation_plan_sha256 p),
        Field_Invalid ''implementation_plan_sha256''),
      (\<not> ident_pattern (tp_team_id p), Field_Invalid ''team_id''),
      (\<not> opt_all (\<lambda>n. 1 \<le> n) (tp_source_manifest_version p), Field_Invalid ''source_manifest_version''),
      (\<not> opt_all ident_pattern (tp_source_team_id p), Field_Invalid ''source_team_id''),
      (\<not> opt_all sha256_pattern (tp_source_team_sha256 p), Field_Invalid ''source_team_sha256''),
      (tp_agents p = [], Field_Invalid ''agents''),
      (\<not> opt_all (\<lambda>n. 1 \<le> n) (tp_run_deadline_seconds p), Field_Invalid ''run_deadline_seconds''),
      (tp_iteration_limit p < 1, Field_Invalid ''iteration_limit''),
      (tp_max_concurrency p < 1, Field_Invalid ''max_concurrency'')]"

definition check_origin :: "team_plan \<Rightarrow> fault + unit" where
  "check_origin p =
     (if tp_origin p = Fixed_Manifest then first_error
       [(tp_approval_source p \<noteq> Compatibility_Policy,
          Value_Error ''fixed plans require compatibility-policy approval''),
        (tp_implementation_plan_sha256 p \<noteq> None,
          Value_Error ''fixed compatibility plans create their implementation plan at runtime''),
        (tp_source_manifest_version p = None \<or> tp_source_team_id p = None \<or>
           tp_source_team_sha256 p = None,
          Value_Error ''fixed plans require complete manifest provenance''),
        (tp_source_team_id p \<noteq> Some (tp_team_id p),
          Value_Error ''fixed plan team ID must match its source fixture''),
        (list_ex (\<lambda>a. as_legacy_role a = None) (tp_agents p),
          Value_Error ''fixed plans require a legacy role for every Agent''),
        (list_ex (\<lambda>a. as_timeout_seconds a = 0) (tp_agents p),
          Value_Error ''fixed evaluation plans require positive invocation timeouts'')]
      else first_error
       [(tp_approval_source p \<noteq> Approval_User, Value_Error ''adaptive plans require user approval''),
        (tp_implementation_plan_sha256 p = None,
          Value_Error ''adaptive plans must bind an approved implementation plan''),
        (tp_source_manifest_version p \<noteq> None \<or> tp_source_team_id p \<noteq> None \<or>
           tp_source_team_sha256 p \<noteq> None,
          Value_Error ''adaptive plans cannot claim fixed-manifest provenance''),
        (list_ex (\<lambda>a. as_legacy_role a \<noteq> None) (tp_agents p),
          Value_Error ''adaptive plans cannot use fixed-fixture roles''),
        (list_ex (\<lambda>a. as_capability a \<in> {Clarification, Planning}) (tp_agents p),
          Value_Error ''adaptive runtime plans cannot include bootstrap capabilities''),
        (\<not> tp_independent_review p,
          Value_Error ''adaptive plans require independent quality control'')])"

definition check_graph :: "team_plan \<Rightarrow> fault + unit" where
  "check_graph p = first_error
     [(\<not> distinct (plan_agent_ids p), Value_Error ''TeamPlan Agent IDs must be unique''),
      (\<not> closed_deps (plan_agent_ids p) (plan_deps p),
        Value_Error ''Agent references unknown dependencies''),
      (acyclic_check (plan_agent_ids p) (plan_deps p) \<noteq> Inr (),
        Value_Error ''TeamPlan dependencies must be acyclic'')]"

definition agent_route_eligible :: "route_plan \<Rightarrow> agent_spec \<Rightarrow> string \<Rightarrow> fault \<Rightarrow> fault + unit" where
  "agent_route_eligible rts a route_id e =
     ebind (get_route rts route_id) (\<lambda>r. first_error
       [(as_capability a \<notin> set (mr_eligible_capabilities r), e)])"

definition check_policy_assignment :: "route_plan \<Rightarrow> agent_spec \<Rightarrow> fault + unit" where
  "check_policy_assignment rts a =
     ebind (get_assignment rts (as_id a)) (\<lambda>asg.
     ebind (first_error
       [(ra_primary_route_id asg \<noteq> as_model_route_id a,
          Value_Error ''Agent primary model assignment differs from its AgentSpec'')]) (\<lambda>_.
       check_all (\<lambda>route_id. agent_route_eligible rts a route_id
           (Value_Error ''fallback model route is not eligible for Agent''))
         (ra_fallback_route_ids asg)))"

definition check_routes :: "team_plan \<Rightarrow> fault + unit" where
  "check_routes p =
     (let rts = tp_model_routes p in
      ebind (first_error
        [(\<not> set (map as_model_route_id (tp_agents p)) \<subseteq> set (map mr_id (rp_routes rts)),
           Value_Error ''Agent model routes are not authorized'')]) (\<lambda>_.
      ebind (check_all (\<lambda>a. agent_route_eligible rts a (as_model_route_id a)
           (Value_Error ''model route is not eligible for Agent'')) (tp_agents p)) (\<lambda>_.
      if rp_mode rts \<noteq> Policy then Inr ()
      else ebind (first_error
        [(set (map ra_agent_id (rp_assignments rts)) \<noteq> set (plan_agent_ids p),
           Value_Error ''policy model assignments must exactly cover TeamPlan Agents'')]) (\<lambda>_.
        check_all (check_policy_assignment rts) (tp_agents p)))))"

definition planned_calls :: "team_plan \<Rightarrow> int" where
  "planned_calls p =
     int (length (tp_agents p)) * tp_iteration_limit p +
     sum_list (map (\<lambda>a. int (length (ra_fallback_route_ids a))) (rp_assignments (tp_model_routes p)))
       * tp_iteration_limit p"

definition check_limits :: "team_plan \<Rightarrow> fault + unit" where
  "check_limits p =
     (let n = int (length (tp_agents p)); calls = bg_max_calls (tp_budget p) in first_error
       [(n < tp_max_concurrency p, Value_Error ''TeamPlan concurrency cannot exceed its Agent count''),
        (\<not> opt_all (\<lambda>m. n \<le> m) calls,
          Value_Error ''TeamPlan Agent count exceeds the run call budget''),
        (tp_origin p = Adaptive_Planning \<and> \<not> opt_all (\<lambda>m. n * tp_iteration_limit p \<le> m) calls,
          Value_Error ''TeamPlan planned Agent invocations exceed the run call budget''),
        (tp_origin p = Adaptive_Planning \<and> \<not> opt_all (\<lambda>m. planned_calls p \<le> m) calls,
          Value_Error ''TeamPlan primary and authorized fallback invocations exceed the run call budget'')])"

definition implementation_agents :: "team_plan \<Rightarrow> string list" where
  "implementation_agents p =
     map as_id (filter (\<lambda>a. as_capability a \<in> {Implementation, Integration}) (tp_agents p))"

definition quality_agents :: "team_plan \<Rightarrow> string list" where
  "quality_agents p = map as_id (filter (\<lambda>a. as_capability a \<in> {Testing, Review}) (tp_agents p))"

text \<open>\<open>transitively_depends\<close>; its \<open>KeyError\<close> cannot occur once \<open>check_graph\<close> has passed.\<close>

definition depends_on :: "team_plan \<Rightarrow> string \<Rightarrow> string \<Rightarrow> bool" where
  "depends_on p a b \<longleftrightarrow> transitively_depends (plan_agent_ids p) (plan_deps p) a b = Inr True"

definition check_quality :: "team_plan \<Rightarrow> fault + unit" where
  "check_quality p = first_error
     [(implementation_agents p = [], Value_Error ''TeamPlan requires an implementation capability''),
      (tp_independent_review p \<and> quality_agents p = [],
        Value_Error ''independent review requires a quality capability''),
      (tp_origin p = Adaptive_Planning \<and> quality_agents p = [],
        Value_Error ''adaptive plans require an independent quality Agent''),
      (tp_revision_enabled p \<and> quality_agents p = [],
        Value_Error ''evidence-driven revision requires a quality capability''),
      (\<not> tp_revision_enabled p \<and> tp_iteration_limit p \<noteq> 1,
        Value_Error ''a non-revising TeamPlan requires one iteration''),
      (tp_independent_review p \<and>
         list_ex (\<lambda>q. list_ex (\<lambda>i. \<not> depends_on p q i) (implementation_agents p)) (quality_agents p),
        Value_Error ''every quality Agent must depend on every implementation path'')]"

definition scopes_ordered :: "team_plan \<Rightarrow> agent_spec \<Rightarrow> agent_spec \<Rightarrow> bool" where
  "scopes_ordered p a b \<longleftrightarrow>
     (as_permission a = Read_Only \<and> as_permission b = Read_Only) \<or>
     \<not> workspace_scopes_overlap (as_workspace_scope a) (as_workspace_scope b) \<or>
     depends_on p (as_id a) (as_id b) \<or> depends_on p (as_id b) (as_id a)"

fun scopes_checked :: "team_plan \<Rightarrow> agent_spec list \<Rightarrow> fault + unit" where
  "scopes_checked p [] = Inr ()"
| "scopes_checked p (a # rest) =
     ebind (first_error
       [(\<not> list_all (scopes_ordered p a) rest,
          Value_Error ''overlapping workspace access with a writer must be dependency ordered'')])
     (\<lambda>_. scopes_checked p rest)"

definition check_fixed_roles :: "team_plan \<Rightarrow> fault + unit" where
  "check_fixed_roles p = first_error
     [(tp_origin p = Fixed_Manifest \<and> \<not> distinct (map as_legacy_role (tp_agents p)),
        Value_Error ''fixed TeamPlan legacy roles must be unique'')]"

definition validate_team_plan :: "team_plan \<Rightarrow> fault + unit" where
  "validate_team_plan p =
     ebind (plan_fields p) (\<lambda>_. ebind (check_origin p) (\<lambda>_. ebind (check_graph p) (\<lambda>_.
     ebind (check_routes p) (\<lambda>_. ebind (check_limits p) (\<lambda>_. ebind (check_quality p) (\<lambda>_.
     ebind (scopes_checked p (tp_agents p)) (\<lambda>_. check_fixed_roles p)))))))"

abbreviation plan_ok :: "team_plan \<Rightarrow> bool" where
  "plan_ok p \<equiv> validate_team_plan p = Inr ()"

definition get_agent :: "team_plan \<Rightarrow> string \<Rightarrow> fault + agent_spec" where
  "get_agent p agent_id =
     (case List.find (\<lambda>a. as_id a = agent_id) (tp_agents p) of
        Some a \<Rightarrow> Inr a | None \<Rightarrow> Inl (Value_Error ''unknown TeamPlan Agent''))"

definition legacy_roles :: "team_plan \<Rightarrow> fault + agent_role list" where
  "legacy_roles p =
     (if list_ex (\<lambda>a. as_legacy_role a = None) (tp_agents p)
      then Inl (Value_Error ''TeamPlan contains an Agent without a legacy role'')
      else Inr (List.map_filter as_legacy_role (tp_agents p)))"

definition legacy_role_timeouts :: "team_plan \<Rightarrow> agent_role \<Rightarrow> int option" where
  "legacy_role_timeouts p =
     map_of (rev (List.map_filter
       (\<lambda>a. map_option (\<lambda>r. (r, as_timeout_seconds a)) (as_legacy_role a)) (tp_agents p)))"

definition timeout_for_role :: "team_plan \<Rightarrow> agent_role \<Rightarrow> fault + int" where
  "timeout_for_role p r =
     (case List.find (\<lambda>a. as_legacy_role a = Some r) (tp_agents p) of
        Some a \<Rightarrow> Inr (as_timeout_seconds a)
      | None \<Rightarrow> Inl (Value_Error ''role is not part of TeamPlan''))"

definition stage_agents :: "team_plan \<Rightarrow> string \<Rightarrow> string set" where
  "stage_agents p stage = set (map as_id (filter (\<lambda>a. as_stage_id a = stage) (tp_agents p)))"

definition execution_waves :: "team_plan \<Rightarrow> fault + string list list" where
  "execution_waves p =
     waves_from (Value_Error ''TeamPlan dependencies cannot be scheduled'') (plan_deps p)
       (plan_agent_ids p) {}"

section \<open>The contract of an accepted plan\<close>

lemma plan_ok_parts:
  assumes "plan_ok p"
  shows "plan_fields p = Inr ()" "check_origin p = Inr ()" "check_graph p = Inr ()"
    "check_routes p = Inr ()" "check_limits p = Inr ()" "check_quality p = Inr ()"
    "scopes_checked p (tp_agents p) = Inr ()" "check_fixed_roles p = Inr ()"
  using assms by (auto simp: validate_team_plan_def ebind_eq_Inr)

lemma plan_ok_ids: "plan_ok p \<Longrightarrow> distinct (plan_agent_ids p)"
  using plan_ok_parts(3) by (auto simp: check_graph_def)

lemma plan_ok_closed: "plan_ok p \<Longrightarrow> closed_deps (plan_agent_ids p) (plan_deps p)"
  using plan_ok_parts(3) by (auto simp: check_graph_def)

lemma plan_ok_acyclic: "plan_ok p \<Longrightarrow> acyclic (edges (plan_agent_ids p) (plan_deps p))"
  using plan_ok_parts(3) plan_ok_closed acyclic_check_iff by (fastforce simp: check_graph_def)

interpretation team_dag: dag plan_ok plan_agent_ids plan_deps
  by unfold_locales (rule plan_ok_ids plan_ok_closed plan_ok_acyclic, assumption)+

lemma plan_deps_of_agent:
  "plan_ok p \<Longrightarrow> a \<in> set (tp_agents p) \<Longrightarrow> plan_deps p (as_id a) = as_dependencies a"
  using find_distinct_key [of as_id "tp_agents p" a] plan_ok_ids
  by (simp add: plan_deps_def plan_agent_ids_def)

lemma depends_on_iff:
  "plan_ok p \<Longrightarrow> a \<in> set (plan_agent_ids p) \<Longrightarrow>
     depends_on p a b \<longleftrightarrow> (a, b) \<in> (edges (plan_agent_ids p) (plan_deps p))\<^sup>+"
  using transitively_depends_iff [OF plan_ok_closed] by (simp add: depends_on_def)

lemma scopes_checked_pairs:
  "scopes_checked p agents = Inr () \<longleftrightarrow>
     (\<forall>i j. i < j \<longrightarrow> j < length agents \<longrightarrow> scopes_ordered p (agents ! i) (agents ! j))"
proof (induction agents)
  case (Cons a rest)
  have "scopes_checked p (a # rest) = Inr () \<longleftrightarrow>
      (\<forall>b \<in> set rest. scopes_ordered p a b) \<and> scopes_checked p rest = Inr ()"
    by (auto simp: ebind_eq_Inr list_all_iff)
  also have "\<dots> \<longleftrightarrow> (\<forall>j < length rest. scopes_ordered p a (rest ! j)) \<and>
      (\<forall>i j. i < j \<longrightarrow> j < length rest \<longrightarrow> scopes_ordered p (rest ! i) (rest ! j))"
    using Cons.IH by (auto simp: all_set_conv_all_nth)
  also have "\<dots> \<longleftrightarrow> (\<forall>i j. i < j \<longrightarrow> j < length (a # rest) \<longrightarrow>
      scopes_ordered p ((a # rest) ! i) ((a # rest) ! j))"
    by (auto simp: nth_Cons less_Suc_eq_0_disj split: nat.split)
  finally show ?case .
qed simp

lemma scopes_ordered_sym: "scopes_ordered p a b \<longleftrightarrow> scopes_ordered p b a"
  by (auto simp: scopes_ordered_def scopes_overlap_sym)

lemma plan_ok_scopes:
  assumes "plan_ok p" and "a \<in> set (tp_agents p)" and "b \<in> set (tp_agents p)" and "as_id a \<noteq> as_id b"
  shows "scopes_ordered p a b"
proof -
  obtain i j where "i < length (tp_agents p)" "tp_agents p ! i = a"
    "j < length (tp_agents p)" "tp_agents p ! j = b"
    using assms(2,3) by (metis in_set_conv_nth)
  moreover then have "i \<noteq> j" using assms(4) by auto
  ultimately show ?thesis
    using plan_ok_parts(7) [OF assms(1)] scopes_ordered_sym
    by (metis nat_neq_iff scopes_checked_pairs)
qed

section \<open>A concrete plan\<close>

definition demo_profile_sha :: "runtime_profile \<Rightarrow> string" where
  "demo_profile_sha p = replicate 64 (CHR ''a'')"

definition demo_agent :: "string \<Rightarrow> capability \<Rightarrow> string list \<Rightarrow> string \<Rightarrow> agent_spec" where
  "demo_agent i c ds scope =
     \<lparr>as_id = i, as_label = i, as_responsibility = i, as_rationale = i, as_capability = c,
      as_specialization = default_specialization_for_capability c,
      as_permission = permission_for_capability c, as_stage_id = i, as_dependencies = ds,
      as_expected_output = expected_output_for_capability c, as_model_route_id = ''main'',
      as_timeout_seconds = 0, as_workspace_scope = scope, as_legacy_role = None\<rparr>"

definition demo_route :: model_route where
  "demo_route =
     \<lparr>mr_id = ''main'', mr_model = ''acme/m1'',
      mr_runtime_profile = native_profile_value ''acme'' ''m1'',
      mr_runtime_profile_sha256 = replicate 64 (CHR ''a''), mr_required_capabilities = [],
      mr_eligible_capabilities = all_capabilities, mr_input_price = None,
      mr_output_price = None, mr_pricing_source = None, mr_pricing_observed_at = None,
      mr_context_window = None, mr_context_source = None, mr_context_observed_at = None,
      mr_cache_pricing = None\<rparr>"

definition demo_routes :: route_plan where
  "demo_routes = \<lparr>rp_mode = Strict, rp_default_route_id = ''main'', rp_routes = [demo_route],
     rp_assignments = [], rp_switch_conditions = []\<rparr>"

definition demo_plan :: team_plan where
  "demo_plan =
     \<lparr>tp_schema_version = 4, tp_catalog_version = 1, tp_plan_id = ''run-1-plan'', tp_revision = 1,
      tp_run_id = ''run-1'', tp_task_brief_sha256 = replicate 64 (CHR ''b''),
      tp_implementation_plan_sha256 = Some (replicate 64 (CHR ''c'')), tp_team_id = ''adaptive'',
      tp_origin = Adaptive_Planning, tp_approval_source = Approval_User, tp_created_at = 0,
      tp_source_manifest_version = None, tp_source_team_id = None, tp_source_team_sha256 = None,
      tp_agents =
        [demo_agent ''api'' Implementation [] ''repository/api'',
         demo_agent ''web'' Implementation [] ''repository/web'',
         demo_agent ''merge'' Integration [''api'', ''web''] ''repository'',
         demo_agent ''tests'' Testing [''merge''] ''repository''],
      tp_model_routes = demo_routes,
      tp_budget = \<lparr>bg_schema_version = 3, bg_authority = User_Task, bg_max_calls = None,
        bg_max_input_tokens = None, bg_max_output_tokens = None, bg_max_duration_seconds = None,
        bg_max_cost = 5\<rparr>,
      tp_run_deadline_seconds = None, tp_iteration_limit = 2, tp_max_concurrency = 2,
      tp_independent_review = True, tp_revision_enabled = True\<rparr>"

lemma demo_plan_ok: "plan_ok demo_plan"
  by code_simp

lemma demo_parts_ok:
  "validate_route_plan demo_routes = Inr ()"
  "validate_model_route demo_profile_sha demo_route = Inr ()"
  "list_all (\<lambda>a. validate_agent_spec a = Inr ()) (tp_agents demo_plan)"
  by code_simp+

section \<open>Properties\<close>

text \<open>C9: Every accepted plan can be scheduled. \<open>execution_waves\<close> never raises on a plan that
  passed validation; its waves are non-empty, contain every Agent exactly once, and an Agent's
  dependencies are all in earlier waves.\<close>

theorem accepted_plan_has_waves:
  assumes "plan_ok p"
  shows "\<exists>ws. execution_waves p = Inr ws \<and> [] \<notin> set ws \<and>
    distinct (concat ws) \<and> set (concat ws) = set (plan_agent_ids p) \<and>
    (\<forall>i < length ws. \<forall>a \<in> set (ws ! i). set (plan_deps p a) \<subseteq> set (concat (take i ws)))"
proof -
  obtain ws where "execution_waves p = Inr ws" "distinct (concat ws)" "[] \<notin> set ws"
    "set (concat ws) = set (plan_agent_ids p)"
    "\<forall>i < length ws. \<forall>a \<in> set (ws ! i). set (plan_deps p a) \<subseteq> {} \<union> set (concat (take i ws))"
    using team_dag.waves_from_complete [OF assms _ plan_ok_ids [OF assms], of "{}"
        "Value_Error ''TeamPlan dependencies cannot be scheduled''"]
    by (auto simp: execution_waves_def)
  then show ?thesis by simp
qed

theorem accepted_plan_has_waves_witness:
  "execution_waves demo_plan = Inr [[''api'', ''web''], [''merge''], [''tests'']] \<and>
   (\<exists>ws. execution_waves demo_plan = Inr ws \<and> set (concat ws) = set (plan_agent_ids demo_plan))"
proof
  show "execution_waves demo_plan = Inr [[''api'', ''web''], [''merge''], [''tests'']]"
    by code_simp
  show "\<exists>ws. execution_waves demo_plan = Inr ws \<and> set (concat ws) = set (plan_agent_ids demo_plan)"
    using accepted_plan_has_waves [OF demo_plan_ok] by blast
qed

text \<open>C12: The cycle check is exact. The nested depth-first \<open>visit\<close> rejects a plan if and only
  if its dependencies contain a cycle: with unique Agents and known dependencies the graph
  check passes exactly when no Agent depends on itself transitively.\<close>

theorem graph_check_exact:
  "check_graph p = Inr () \<longleftrightarrow>
     distinct (plan_agent_ids p) \<and> closed_deps (plan_agent_ids p) (plan_deps p) \<and>
     (\<nexists>a. (a, a) \<in> (edges (plan_agent_ids p) (plan_deps p))\<^sup>+)"
  using acyclic_check_iff [of "plan_agent_ids p" "plan_deps p"]
  by (auto simp: check_graph_def acyclic_def)

text \<open>C10: Overlapping writers never run side by side. In an accepted plan two different Agents
  whose workspace scopes share a subtree, one of them allowed to write, are ordered by a chain of
  dependencies; so no execution wave contains both.\<close>

theorem overlapping_writers_ordered:
  assumes "plan_ok p" and "a \<in> set (tp_agents p)" and "b \<in> set (tp_agents p)"
    and "as_id a \<noteq> as_id b" and "as_permission a = Workspace_Write"
    and "workspace_scopes_overlap (as_workspace_scope a) (as_workspace_scope b)"
  shows "(as_id a, as_id b) \<in> (edges (plan_agent_ids p) (plan_deps p))\<^sup>+ \<or>
    (as_id b, as_id a) \<in> (edges (plan_agent_ids p) (plan_deps p))\<^sup>+"
proof -
  have ids: "as_id a \<in> set (plan_agent_ids p)" "as_id b \<in> set (plan_agent_ids p)"
    using assms(2,3) by (simp_all add: plan_agent_ids_def)
  have "depends_on p (as_id a) (as_id b) \<or> depends_on p (as_id b) (as_id a)"
    using plan_ok_scopes [OF assms(1-4)] assms(5,6) by (auto simp: scopes_ordered_def)
  then show ?thesis using depends_on_iff [OF assms(1)] ids by blast
qed

theorem overlapping_writers_ordered_witness:
  "(''merge'', ''api'') \<in> (edges (plan_agent_ids demo_plan) (plan_deps demo_plan))\<^sup>+ \<or>
   (''api'', ''merge'') \<in> (edges (plan_agent_ids demo_plan) (plan_deps demo_plan))\<^sup>+"
proof -
  let ?m = "demo_agent ''merge'' Integration [''api'', ''web''] ''repository''"
  let ?a = "demo_agent ''api'' Implementation [] ''repository/api''"
  have "workspace_scopes_overlap (as_workspace_scope ?m) (as_workspace_scope ?a)"
    "as_permission ?m = Workspace_Write" "as_id ?m = ''merge''" "as_id ?a = ''api''"
    by code_simp+
  then show ?thesis
    using overlapping_writers_ordered [OF demo_plan_ok, of ?m ?a]
    by (simp add: demo_plan_def)
qed

text \<open>C11: Quality control sees all the work. In an accepted plan with independent review (every
  adaptive plan) there is a quality Agent, and each quality Agent depends, directly or
  transitively, on every implementation and integration Agent.\<close>

theorem quality_after_implementation:
  assumes "plan_ok p" and "tp_independent_review p"
  shows "quality_agents p \<noteq> [] \<and> implementation_agents p \<noteq> [] \<and>
    (\<forall>q \<in> set (quality_agents p). \<forall>i \<in> set (implementation_agents p).
       (q, i) \<in> (edges (plan_agent_ids p) (plan_deps p))\<^sup>+)"
proof -
  have "\<forall>q \<in> set (quality_agents p). q \<in> set (plan_agent_ids p)"
    by (auto simp: quality_agents_def plan_agent_ids_def)
  moreover have "quality_agents p \<noteq> []" "implementation_agents p \<noteq> []"
    "\<forall>q \<in> set (quality_agents p). \<forall>i \<in> set (implementation_agents p). depends_on p q i"
    using plan_ok_parts(6) [OF assms(1)] assms(2) by (auto simp: check_quality_def list_ex_iff)
  ultimately show ?thesis using depends_on_iff [OF assms(1)] by blast
qed

theorem quality_after_implementation_witness:
  "(''tests'', ''api'') \<in> (edges (plan_agent_ids demo_plan) (plan_deps demo_plan))\<^sup>+"
proof -
  have "''tests'' \<in> set (quality_agents demo_plan)" "''api'' \<in> set (implementation_agents demo_plan)"
    "tp_independent_review demo_plan"
    by code_simp+
  then show ?thesis using quality_after_implementation [OF demo_plan_ok] by blast
qed

text \<open>An Agent never gets more than its specialization allows. For an accepted
  specification the permission is the one of its capability (so planning, testing and
  review Agents are read-only), the output is the one of the catalog, and the workspace scope
  stays inside the repository: no absolute path and no parent component.\<close>

theorem agent_spec_boundary:
  assumes "validate_agent_spec a = Inr ()"
  shows "as_permission a = permission_for_capability (as_capability a) \<and>
    as_expected_output a = expected_output_for_specialization (as_specialization a) \<and>
    hd (posix_parts (as_workspace_scope a)) = ''repository'' \<and>
    \<not> posix_absolute (as_workspace_scope a) \<and> ''..'' \<notin> set (posix_parts (as_workspace_scope a))"
  using assms agent_spec_permission [OF assms]
  by (auto simp: validate_agent_spec_def Let_def canonical_scope_def safe_relative_def
      expected_output_for_specialization_def)

theorem agent_spec_boundary_witness:
  "as_permission (demo_agent ''tests'' Testing [''merge''] ''repository'') = Read_Only"
proof -
  have "validate_agent_spec (demo_agent ''tests'' Testing [''merge''] ''repository'') = Inr ()"
    by code_simp
  from agent_spec_boundary [OF this] show ?thesis
    by (simp add: demo_agent_def permission_for_capability_def read_only_capability_def)
qed

end
