(* ===== verification/Fixed_Teams.thy ===== *)
theory Fixed_Teams
  imports Team_Plans
begin

text \<open>
  The fixed evaluation fixtures of \<open>teams.py\<close>: team manifests, the compilation of one fixture
  into a \<open>TeamPlan\<close> and \<open>validate_fixed_team_plan\<close>, which recompiles the fixture and compares.
  The digest of a team definition is a function \<open>team_sha\<close>, an argument of the definitions that
  use it, as is \<open>profile_sha\<close> of \<open>Teams\<close>.
\<close>

section \<open>Manifests\<close>

record team_stage =
  ts_id :: string
  ts_mode :: stage_mode
  ts_roles :: "agent_role list"

definition validate_team_stage :: "team_stage \<Rightarrow> fault + unit" where
  "validate_team_stage s = first_error
     [(\<not> ident_pattern (ts_id s), Field_Invalid ''id''),
      (ts_roles s = [], Field_Invalid ''roles''),
      (\<not> distinct (ts_roles s), Value_Error ''a stage cannot contain a role more than once''),
      (ts_mode s = Parallel \<and> length (ts_roles s) < 2,
        Value_Error ''a parallel stage requires at least two roles'')]"

record team_definition =
  td_id :: string
  td_kind :: team_kind
  td_description :: string
  td_roles :: "agent_role list"
  td_stages :: "team_stage list"
  td_max_iterations :: int
  td_independent_review :: bool
  td_revision_enabled :: bool

definition staged_roles :: "team_definition \<Rightarrow> agent_role list" where
  "staged_roles t = concat (map ts_roles (td_stages t))"

definition validate_team_definition :: "team_definition \<Rightarrow> fault + unit" where
  "validate_team_definition t = first_error
     [(\<not> ident_pattern (td_id t), Field_Invalid ''id''),
      (td_description t = [], Field_Invalid ''description''),
      (td_roles t = [], Field_Invalid ''roles''),
      (td_stages t = [], Field_Invalid ''stages''),
      (td_max_iterations t < 1 \<or> 3 < td_max_iterations t, Field_Invalid ''max_iterations''),
      (\<not> distinct (td_roles t), Value_Error ''team roles must be unique''),
      (\<not> distinct (map ts_id (td_stages t)), Value_Error ''team stage IDs must be unique''),
      (\<not> distinct (staged_roles t),
        Value_Error ''each role must appear in exactly one initial stage''),
      (set (staged_roles t) \<noteq> set (td_roles t),
        Value_Error ''team roles must exactly match roles assigned to stages''),
      (td_kind t = Baseline \<and> td_roles t \<noteq> [Role_Single_Agent],
        Value_Error ''the baseline must contain only the single_agent role''),
      (td_kind t = Baseline \<and> td_max_iterations t \<noteq> 1,
        Value_Error ''the baseline must use exactly one implementation pass''),
      (td_kind t = Baseline \<and> (td_independent_review t \<or> td_revision_enabled t),
        Value_Error ''the baseline cannot enable review-driven revision''),
      (td_kind t \<noteq> Baseline \<and> \<not> {Role_Planner, Role_Tester, Role_Reviewer} \<subseteq> set (td_roles t),
        Value_Error ''multi-agent teams require planner, tester, and reviewer roles''),
      (td_kind t \<noteq> Baseline \<and> (\<not> td_independent_review t \<or> \<not> td_revision_enabled t),
        Value_Error ''multi-agent teams require independent review and revision'')]"

record team_manifest =
  tm_schema_version :: int
  tm_default_team :: string
  tm_shared_roles :: "agent_role list"
  tm_teams :: "team_definition list"

definition validate_team_manifest :: "team_manifest \<Rightarrow> fault + unit" where
  "validate_team_manifest m = first_error
     [(tm_schema_version m < 1, Field_Invalid ''schema_version''),
      (\<not> ident_pattern (tm_default_team m), Field_Invalid ''default_team''),
      (tm_teams m = [], Field_Invalid ''teams''),
      (\<not> distinct (tm_shared_roles m), Value_Error ''shared roles must be unique''),
      (Role_Clarifier \<notin> set (tm_shared_roles m),
        Value_Error ''the clarifier must be registered as a shared role''),
      (\<not> distinct (map td_id (tm_teams m)), Value_Error ''team IDs must be unique''),
      (tm_default_team m \<notin> set (map td_id (tm_teams m)),
        Value_Error ''default_team must reference a configured team''),
      (list_ex (\<lambda>t. set (tm_shared_roles m) \<inter> set (td_roles t) \<noteq> {}) (tm_teams m),
        Value_Error ''shared roles cannot be duplicated inside a team'')]"

definition required_roles :: "team_manifest \<Rightarrow> agent_role set" where
  "required_roles m = set (tm_shared_roles m) \<union> \<Union> (set ` td_roles ` set (tm_teams m))"

definition get_team :: "team_manifest \<Rightarrow> string \<Rightarrow> fault + team_definition" where
  "get_team m team_id =
     (case List.find (\<lambda>t. td_id t = team_id) (tm_teams m) of
        Some t \<Rightarrow> Inr t | None \<Rightarrow> Inl (Value_Error ''unknown team configuration''))"

definition validate_handoff_boundary ::
    "team_manifest \<Rightarrow> string \<Rightarrow> int \<Rightarrow> agent_role \<Rightarrow> agent_role option \<Rightarrow> fault + unit" where
  "validate_handoff_boundary m team_id iteration source target =
     ebind (get_team m team_id) (\<lambda>t.
       let allowed = tm_shared_roles m @ td_roles t in first_error
         [(td_max_iterations t < iteration, Value_Error ''iteration exceeds the team limit''),
          (source \<notin> set allowed, Value_Error ''source role is not part of team''),
          (\<not> opt_all (\<lambda>r. r \<in> set allowed) target, Value_Error ''target role is not part of team'')])"

section \<open>Compilation\<close>

fun role_value :: "agent_role \<Rightarrow> string" where
  "role_value Role_Clarifier = ''clarifier''"
| "role_value Role_Single_Agent = ''single_agent''"
| "role_value Role_Planner = ''planner''"
| "role_value Role_Generalist_Developer = ''generalist_developer''"
| "role_value Role_Frontend_Developer = ''frontend_developer''"
| "role_value Role_Backend_Developer = ''backend_developer''"
| "role_value Role_Integrator = ''integrator''"
| "role_value Role_Tester = ''tester''"
| "role_value Role_Reviewer = ''reviewer''"

fun capability_for_legacy_role :: "agent_role \<Rightarrow> capability" where
  "capability_for_legacy_role Role_Clarifier = Clarification"
| "capability_for_legacy_role Role_Single_Agent = Implementation"
| "capability_for_legacy_role Role_Planner = Planning"
| "capability_for_legacy_role Role_Generalist_Developer = Implementation"
| "capability_for_legacy_role Role_Frontend_Developer = Implementation"
| "capability_for_legacy_role Role_Backend_Developer = Implementation"
| "capability_for_legacy_role Role_Integrator = Integration"
| "capability_for_legacy_role Role_Tester = Testing"
| "capability_for_legacy_role Role_Reviewer = Review"

text \<open>The texts and the scope of a role; the dictionaries have no entry for the clarifier.\<close>

fun role_texts :: "agent_role \<Rightarrow> (string \<times> string \<times> string) option" where
  "role_texts Role_Clarifier = None"
| "role_texts Role_Single_Agent = Some
     (''Implement the confirmed task as one accountable owner.'',
      ''This fixture measures a one-owner baseline.'', ''repository'')"
| "role_texts Role_Planner = Some
     (''Translate the confirmed task into an implementation plan.'',
      ''Planning is separated from source mutation in this fixture.'', ''repository'')"
| "role_texts Role_Generalist_Developer = Some
     (''Implement and revise the complete product from the approved plan.'',
      ''One implementation owner avoids integration conflicts in the vertical slice.'',
      ''repository'')"
| "role_texts Role_Frontend_Developer = Some
     (''Implement and revise the user-interface portion of the approved plan.'',
      ''The domain-specialized fixture isolates interface implementation context.'',
      ''repository/frontend'')"
| "role_texts Role_Backend_Developer = Some
     (''Implement and revise the server and persistence portion of the plan.'',
      ''The domain-specialized fixture isolates server and persistence context.'',
      ''repository/backend'')"
| "role_texts Role_Integrator = Some
     (''Integrate independently owned implementation work into one coherent result.'',
      ''Separate domain work requires explicit controller-visible integration.'',
      ''repository'')"
| "role_texts Role_Tester = Some
     (''Analyze controller-run command evidence against confirmed acceptance.'',
      ''Testing remains independent from source authorship.'', ''repository'')"
| "role_texts Role_Reviewer = Some
     (''Independently review the immutable result and configured manual scope.'',
      ''Acceptance requires judgment independent from implementation.'', ''repository'')"

text \<open>\<open>value.replace("_", " ").title()\<close> on lower-case words.\<close>

fun title_words :: "bool \<Rightarrow> string \<Rightarrow> string" where
  "title_words start [] = []"
| "title_words start (c # cs) =
     (if c = CHR ''_'' then CHR '' '' # title_words True cs
      else (if start then char_of ((of_char c :: nat) - 32) else c) # title_words False cs)"

definition compile_role ::
    "(agent_role \<Rightarrow> int option) \<Rightarrow> string \<Rightarrow> agent_role list \<Rightarrow> agent_role \<Rightarrow> fault + agent_spec" where
  "compile_role timeouts stage_id previous role =
     (let c = capability_for_legacy_role role; s = default_specialization_for_capability c in
      case role_texts role of
        None \<Rightarrow> Inl (Key_Missing (role_value role))
      | Some (responsibility, rationale, scope) \<Rightarrow>
         (case timeouts role of
            None \<Rightarrow> Inl (Key_Missing (role_value role))
          | Some seconds \<Rightarrow> mk_agent_spec
              \<lparr>as_id = role_value role, as_label = title_words True (role_value role),
               as_responsibility = responsibility, as_rationale = rationale, as_capability = c,
               as_specialization = s, as_permission = permission_for_capability c,
               as_stage_id = stage_id, as_dependencies = map role_value previous,
               as_expected_output = expected_output_for_specialization s,
               as_model_route_id = ''primary'', as_timeout_seconds = seconds,
               as_workspace_scope = scope, as_legacy_role = Some role\<rparr> (Some s)))"

fun compile_stages ::
    "(agent_role \<Rightarrow> int option) \<Rightarrow> agent_role list \<Rightarrow> team_stage list \<Rightarrow> fault + agent_spec list" where
  "compile_stages timeouts previous [] = Inr []"
| "compile_stages timeouts previous (stage # rest) =
     ebind (emap (compile_role timeouts (ts_id stage) previous) (ts_roles stage)) (\<lambda>agents.
     ebind (compile_stages timeouts (ts_roles stage) rest) (\<lambda>more. Inr (agents @ more)))"

definition compile_fixed_team_plan ::
    "(runtime_profile \<Rightarrow> string) \<Rightarrow> (team_definition \<Rightarrow> string) \<Rightarrow> team_manifest \<Rightarrow> string \<Rightarrow> string \<Rightarrow>
     string \<Rightarrow> string \<Rightarrow> budget \<Rightarrow> (agent_role \<Rightarrow> int option) \<Rightarrow> int \<Rightarrow> int \<Rightarrow> int \<Rightarrow> fault + team_plan" where
  "compile_fixed_team_plan profile_sha team_sha m team_id run_id brief_sha model b timeouts
      iteration_limit max_concurrency created_at =
     ebind (get_team m team_id) (\<lambda>t.
     ebind (first_error
       [(\<not> (1 \<le> iteration_limit \<and> iteration_limit \<le> td_max_iterations t),
          Value_Error ''iteration limit is out of range for the team''),
        (\<not> (1 \<le> max_concurrency \<and> max_concurrency \<le> int (length (td_roles t))),
          Value_Error ''team concurrency must be between one and its Agent count''),
        (list_ex (\<lambda>r. timeouts r = None) (td_roles t),
          Value_Error ''TeamPlan invocation timeouts are missing roles'')]) (\<lambda>_.
     ebind (compile_stages timeouts [] (td_stages t)) (\<lambda>agents.
     ebind (mk_plain_route profile_sha ''primary'' model) (\<lambda>route.
       let routes = \<lparr>rp_mode = Strict, rp_default_route_id = ''primary'', rp_routes = [route],
                     rp_assignments = [], rp_switch_conditions = []\<rparr>;
           p = \<lparr>tp_schema_version = 4, tp_catalog_version = 1, tp_plan_id = run_id @ ''-team-v1'',
                tp_revision = 1, tp_run_id = run_id, tp_task_brief_sha256 = brief_sha,
                tp_implementation_plan_sha256 = None, tp_team_id = td_id t,
                tp_origin = Fixed_Manifest, tp_approval_source = Compatibility_Policy,
                tp_created_at = created_at,
                tp_source_manifest_version = Some (tm_schema_version m),
                tp_source_team_id = Some (td_id t), tp_source_team_sha256 = Some (team_sha t),
                tp_agents = agents, tp_model_routes = routes, tp_budget = b,
                tp_run_deadline_seconds = None, tp_iteration_limit = iteration_limit,
                tp_max_concurrency = max_concurrency,
                tp_independent_review = td_independent_review t,
                tp_revision_enabled = td_revision_enabled t\<rparr>
       in ebind (validate_route_plan routes) (\<lambda>_.
          ebind (validate_team_plan p) (\<lambda>_. Inr p))))))"

definition validate_fixed_team_plan ::
    "(runtime_profile \<Rightarrow> string) \<Rightarrow> (team_definition \<Rightarrow> string) \<Rightarrow> team_plan \<Rightarrow> team_manifest \<Rightarrow>
     fault + unit" where
  "validate_fixed_team_plan profile_sha team_sha p m =
     ebind (first_error
       [(tp_origin p \<noteq> Fixed_Manifest,
          Value_Error ''only fixed-origin TeamPlans use manifest validation''),
        (tp_source_manifest_version p \<noteq> Some (tm_schema_version m),
          Value_Error ''TeamPlan uses a different team manifest version'')]) (\<lambda>_.
     ebind (get_team m (tp_team_id p)) (\<lambda>t.
     ebind (first_error
       [(tp_source_team_sha256 p \<noteq> Some (team_sha t),
          Value_Error ''TeamPlan uses a different fixed team definition'')]) (\<lambda>_.
     ebind (get_route (tp_model_routes p) (rp_default_route_id (tp_model_routes p))) (\<lambda>route.
     ebind (compile_fixed_team_plan profile_sha team_sha m (tp_team_id p) (tp_run_id p)
              (tp_task_brief_sha256 p) (mr_model route) (tp_budget p) (legacy_role_timeouts p)
              (tp_iteration_limit p) (tp_max_concurrency p) (tp_created_at p)) (\<lambda>expected.
       first_error
         [(expected \<noteq> p, Value_Error ''TeamPlan differs from its fixed manifest compilation'')])))))"

section \<open>A compiled plan passes its own provenance check\<close>

lemma mk_agent_spec_keeps:
  "mk_agent_spec a g = Inr b \<Longrightarrow> as_legacy_role b = as_legacy_role a \<and>
     as_timeout_seconds b = as_timeout_seconds a \<and> as_id b = as_id a \<and>
     validate_agent_spec b = Inr ()"
  by (auto simp: mk_agent_spec_def Let_def ebind_eq_Inr)

lemma compile_role_result:
  assumes "compile_role timeouts stage previous role = Inr a"
  shows "as_legacy_role a = Some role \<and> timeouts role = Some (as_timeout_seconds a)"
  using assms
  by (auto simp: compile_role_def Let_def split: option.splits prod.splits dest!: mk_agent_spec_keeps)

lemma compile_role_cong: "f role = g role \<Longrightarrow> compile_role f stage previous role = compile_role g stage previous role"
  by (auto simp: compile_role_def Let_def split: option.split prod.split)

lemma compile_stages_cong:
  "(\<And>r. r \<in> set (concat (map ts_roles stages)) \<Longrightarrow> f r = g r) \<Longrightarrow>
     compile_stages f previous stages = compile_stages g previous stages"
proof (induction stages arbitrary: previous)
  case (Cons stage rest)
  have "emap (compile_role f (ts_id stage) previous) (ts_roles stage) =
      emap (compile_role g (ts_id stage) previous) (ts_roles stage)"
    using Cons.prems by (intro emap_cong compile_role_cong) simp
  moreover have "compile_stages f (ts_roles stage) rest = compile_stages g (ts_roles stage) rest"
    using Cons.prems by (intro Cons.IH) simp
  ultimately show ?case by simp
qed simp

lemma emap_roles:
  assumes "emap (compile_role timeouts stage previous) roles = Inr agents"
  shows "map as_legacy_role agents = map Some roles \<and>
    (\<forall>a \<in> set agents. \<exists>r. as_legacy_role a = Some r \<and> timeouts r = Some (as_timeout_seconds a))"
  using assms
proof (induction roles arbitrary: agents)
  case (Cons role roles)
  then obtain a rest where "compile_role timeouts stage previous role = Inr a"
    "emap (compile_role timeouts stage previous) roles = Inr rest" "agents = a # rest"
    by (auto simp: ebind_eq_Inr)
  with Cons.IH [of rest] compile_role_result show ?case by auto
qed simp

lemma compile_stages_roles:
  assumes "compile_stages timeouts previous stages = Inr agents"
  shows "map as_legacy_role agents = map Some (concat (map ts_roles stages)) \<and>
    (\<forall>a \<in> set agents. \<exists>r. as_legacy_role a = Some r \<and> timeouts r = Some (as_timeout_seconds a))"
  using assms
proof (induction stages arbitrary: previous agents)
  case (Cons stage rest)
  then obtain as bs where
    "emap (compile_role timeouts (ts_id stage) previous) (ts_roles stage) = Inr as"
    "compile_stages timeouts (ts_roles stage) rest = Inr bs" "agents = as @ bs"
    by (auto simp: ebind_eq_Inr)
  with Cons.IH emap_roles show ?case by fastforce
qed simp

lemma role_timeouts_recovered:
  assumes "\<forall>a \<in> set (tp_agents p). \<exists>r. as_legacy_role a = Some r \<and> timeouts r = Some (as_timeout_seconds a)"
    and "Some r \<in> set (map as_legacy_role (tp_agents p))"
  shows "legacy_role_timeouts p r = timeouts r"
proof -
  let ?pairs = "List.map_filter (\<lambda>a. map_option (\<lambda>r. (r, as_timeout_seconds a)) (as_legacy_role a))
    (tp_agents p)"
  have all: "timeouts q = Some v" if "(q, v) \<in> set ?pairs" for q v
    using that assms(1) by (fastforce simp: List.map_filter_def)
  obtain a where "a \<in> set (tp_agents p)" "as_legacy_role a = Some r" using assms(2) by auto
  then have "(r, as_timeout_seconds a) \<in> set ?pairs"
    by (auto simp: List.map_filter_def image_iff intro!: bexI [of _ a])
  then have "r \<in> fst ` set ?pairs" by force
  then have "r \<in> dom (map_of (rev ?pairs))" by (simp add: dom_map_of_conv_image_fst)
  then obtain v where v: "map_of (rev ?pairs) r = Some v" by blast
  then have "(r, v) \<in> set ?pairs" using map_of_SomeD by fastforce
  with all v show ?thesis by (simp add: legacy_role_timeouts_def)
qed

lemma mk_plain_route_strip:
  "mk_plain_route sha i (py_strip model) = mk_plain_route sha i model"
  by (simp add: mk_plain_route_def runtime_profile_for_model_def native_runtime_profile_def Let_def)

lemma mk_plain_route_result:
  "mk_plain_route sha i model = Inr r \<Longrightarrow> mr_id r = i \<and> mr_model r = py_strip model"
  by (auto simp: mk_plain_route_def Let_def ebind_eq_Inr)

text \<open>C13: Compilation and provenance check agree. A \<open>TeamPlan\<close> compiled from a fixture of a
  manifest of valid teams passes \<open>validate_fixed_team_plan\<close> against that manifest, although the
  check recompiles from what the plan kept: its stripped model name and the timeouts recovered
  from its Agents. So the run controller never rejects a plan its own compiler produced.\<close>

theorem compiled_plan_passes_provenance:
  assumes compiled: "compile_fixed_team_plan profile_sha team_sha m team_id run_id brief_sha model b
      timeouts limit concurrency created = Inr p"
    and valid: "list_all (\<lambda>t. validate_team_definition t = Inr ()) (tm_teams m)"
  shows "validate_fixed_team_plan profile_sha team_sha p m = Inr ()"
proof -
  obtain t agents route where t: "get_team m team_id = Inr t"
    and agents: "compile_stages timeouts [] (td_stages t) = Inr agents"
    and route: "mk_plain_route profile_sha ''primary'' model = Inr route"
    and roles: "\<forall>r \<in> set (td_roles t). timeouts r \<noteq> None"
    and p: "tp_agents p = agents" "tp_team_id p = td_id t" "tp_run_id p = run_id"
      "tp_task_brief_sha256 p = brief_sha" "tp_budget p = b" "tp_iteration_limit p = limit"
      "tp_max_concurrency p = concurrency" "tp_created_at p = created"
      "tp_origin p = Fixed_Manifest" "tp_source_manifest_version p = Some (tm_schema_version m)"
      "tp_source_team_sha256 p = Some (team_sha t)"
      "rp_routes (tp_model_routes p) = [route]"
      "rp_default_route_id (tp_model_routes p) = ''primary''"
    using compiled
    by (auto simp: compile_fixed_team_plan_def Let_def ebind_eq_Inr list_ex_iff)
  have td: "td_id t = team_id" "t \<in> set (tm_teams m)"
    using t by (auto simp: get_team_def split: option.splits dest: find_Some_key)
  then have "validate_team_definition t = Inr ()" using valid by (simp add: list_all_iff)
  then have staged: "set (concat (map ts_roles (td_stages t))) = set (td_roles t)"
    by (simp add: validate_team_definition_def staged_roles_def)
  have same: "legacy_role_timeouts p r = timeouts r" if "r \<in> set (td_roles t)" for r
    using compile_stages_roles [OF agents] that staged p(1)
    by (intro role_timeouts_recovered) auto
  have "compile_stages (legacy_role_timeouts p) [] (td_stages t) =
      compile_stages timeouts [] (td_stages t)"
    using same staged by (intro compile_stages_cong) auto
  moreover have "list_ex (\<lambda>r. legacy_role_timeouts p r = None) (td_roles t) =
      list_ex (\<lambda>r. timeouts r = None) (td_roles t)"
    using same by (auto simp: list_ex_iff)
  ultimately have "compile_fixed_team_plan profile_sha team_sha m team_id run_id brief_sha (py_strip model) b
      (legacy_role_timeouts p) limit concurrency created = Inr p"
    using compiled t by (simp add: compile_fixed_team_plan_def mk_plain_route_strip)
  moreover have "get_route (tp_model_routes p) ''primary'' = Inr route"
    using mk_plain_route_result [OF route] p by (simp add: get_route_def)
  ultimately show ?thesis
    using t td p mk_plain_route_result [OF route]
    by (simp add: validate_fixed_team_plan_def)
qed

definition demo_team :: team_definition where
  "demo_team =
     \<lparr>td_id = ''multi'', td_kind = Multi_Agent, td_description = ''d'',
      td_roles = [Role_Planner, Role_Generalist_Developer, Role_Tester, Role_Reviewer],
      td_stages =
        [\<lparr>ts_id = ''planning'', ts_mode = Sequential, ts_roles = [Role_Planner]\<rparr>,
         \<lparr>ts_id = ''implementation'', ts_mode = Sequential, ts_roles = [Role_Generalist_Developer]\<rparr>,
         \<lparr>ts_id = ''quality'', ts_mode = Parallel, ts_roles = [Role_Tester, Role_Reviewer]\<rparr>],
      td_max_iterations = 3, td_independent_review = True, td_revision_enabled = True\<rparr>"

definition demo_manifest :: team_manifest where
  "demo_manifest = \<lparr>tm_schema_version = 1, tm_default_team = ''multi'',
     tm_shared_roles = [Role_Clarifier], tm_teams = [demo_team]\<rparr>"

definition demo_eval_budget :: budget where
  "demo_eval_budget = \<lparr>bg_schema_version = 3, bg_authority = Controlled_Evaluation,
     bg_max_calls = Some 20, bg_max_input_tokens = Some 1000, bg_max_output_tokens = Some 1000,
     bg_max_duration_seconds = Some 100, bg_max_cost = 5\<rparr>"

definition demo_compiled :: "fault + team_plan" where
  "demo_compiled = compile_fixed_team_plan demo_profile_sha (\<lambda>t. replicate 64 (CHR ''d''))
     demo_manifest ''multi'' ''run-1'' (replicate 64 (CHR ''b'')) '' acme/m1 '' demo_eval_budget
     (\<lambda>r. Some 60) 2 2 0"

definition demo_fixed_plan :: team_plan where
  "demo_fixed_plan = (case demo_compiled of Inl e \<Rightarrow> demo_plan | Inr p \<Rightarrow> p)"

lemma demo_compiled_ok: "(case demo_compiled of Inl e \<Rightarrow> False | Inr p \<Rightarrow> True)"
  by code_simp

theorem compiled_plan_passes_provenance_witness:
  "validate_fixed_team_plan demo_profile_sha (\<lambda>t. replicate 64 (CHR ''d'')) demo_fixed_plan demo_manifest
     = Inr ()"
proof (rule compiled_plan_passes_provenance)
  show "compile_fixed_team_plan demo_profile_sha (\<lambda>t. replicate 64 (CHR ''d'')) demo_manifest ''multi''
      ''run-1'' (replicate 64 (CHR ''b'')) '' acme/m1 '' demo_eval_budget (\<lambda>r. Some 60) 2 2 0 =
      Inr demo_fixed_plan"
    using demo_compiled_ok unfolding demo_fixed_plan_def demo_compiled_def
    by (auto split: sum.splits)
  show "list_all (\<lambda>t. validate_team_definition t = Inr ()) (tm_teams demo_manifest)"
    by code_simp
qed

end
