(* ===== verification/Model_Routing.thy ===== *)
theory Model_Routing
  imports Team_Plans "HOL-Library.Product_Lexorder"
begin

text \<open>
  \<open>model_routing.py\<close>: the model profiles a user has authorized, the routing policy over them, and
  \<open>resolve_model_route_plan\<close>, which gives every planned Agent its primary route and its fallbacks.
  A dictionary of overrides is an association list with distinct keys; the \<open>RoutableAgent\<close>
  protocol is a record of the three fields the resolution reads. The results: a resolved plan
  obeys the policy and passes the validators of the plan and of the team plan that uses it, and
  which faults a resolution can raise.
\<close>

section \<open>Profiles\<close>

record model_profile =
  pf_id :: string
  pf_model :: string
  pf_runtime_profile :: runtime_profile
  pf_capabilities :: "capability list"
  pf_priority :: int
  pf_input_price :: "rat option"
  pf_output_price :: "rat option"
  pf_pricing_source :: "model_metadata_source option"
  pf_pricing_observed_at :: "int option"
  pf_context_window :: "int option"
  pf_context_source :: "model_metadata_source option"
  pf_context_observed_at :: "int option"
  pf_cache_pricing :: "cache_pricing option"

text \<open>What the constructor is given: the runtime profile may be missing, times are raw.\<close>

record profile_payload =
  py_id :: string
  py_model :: string
  py_runtime_profile :: "runtime_profile option"
  py_capabilities :: "capability list"
  py_priority :: int
  py_input_price :: "rat option"
  py_output_price :: "rat option"
  py_pricing_source :: "model_metadata_source option"
  py_pricing_observed_at :: "datetime option"
  py_context_window :: "int option"
  py_context_source :: "model_metadata_source option"
  py_context_observed_at :: "datetime option"
  py_cache_pricing :: "cache_pricing option"

definition validate_model_profile :: "model_profile \<Rightarrow> fault + unit" where
  "validate_model_profile p = first_error
     [(\<not> ident_pattern (pf_id p), Field_Invalid ''id''),
      (length (pf_model p) < 3, Field_Invalid ''model''),
      (\<not> canonical_model (pf_model p),
        Value_Error ''model profiles require a canonical provider/model''),
      (pf_capabilities p = [], Field_Invalid ''capabilities''),
      (\<not> distinct (pf_capabilities p), Value_Error ''model profile capabilities must be unique''),
      (pf_priority p < 1, Field_Invalid ''priority''),
      (\<not> opt_all (\<lambda>c. 0 \<le> c) (pf_input_price p), Field_Invalid ''input_cost_per_million_usd''),
      (\<not> opt_all (\<lambda>c. 0 \<le> c) (pf_output_price p), Field_Invalid ''output_cost_per_million_usd''),
      (\<not> opt_all (\<lambda>n. 1 \<le> n) (pf_context_window p), Field_Invalid ''context_window_tokens''),
      ((pf_input_price p = None) \<noteq> (pf_output_price p = None),
        Value_Error ''model profile input and output prices must be configured together''),
      ((pf_input_price p \<noteq> None) \<noteq> (pf_pricing_source p \<noteq> None),
        Value_Error ''known model prices require exactly one pricing source''),
      ((pf_context_window p \<noteq> None) \<noteq> (pf_context_source p \<noteq> None),
        Value_Error ''known context length requires exactly one context source''),
      (pf_pricing_source p = Some Confirmed_Zero \<and>
         (pf_input_price p \<noteq> Some 0 \<or> pf_output_price p \<noteq> Some 0),
        Value_Error ''confirmed-zero pricing requires two zero prices''),
      (rt_provider_id (pf_runtime_profile p) \<noteq> fst (partition_on (CHR ''/'') (pf_model p)),
        Value_Error ''model profile runtime provider must match its model reference'')]"

text \<open>\<open>infer_explicit_metadata_sources\<close>: a missing runtime profile is resolved from the model, its
  context window replaces a missing one together with the source, and known values without a
  source count as supplied by the user.\<close>

definition inferred_context ::
    "runtime_profile \<Rightarrow> profile_payload \<Rightarrow> int option \<times> model_metadata_source option" where
  "inferred_context rt p =
     (let (window, source) =
        (if py_context_window p = None \<and> rt_context_window rt \<noteq> None
         then (rt_context_window rt,
               Some (if rt_source rt = Source_User_Supplied then User_Supplied else Provider_Catalog))
         else (py_context_window p, py_context_source p))
      in (window, if window \<noteq> None \<and> source = None then Some User_Supplied else source))"

definition inferred_pricing_source :: "profile_payload \<Rightarrow> model_metadata_source option" where
  "inferred_pricing_source p =
     (if py_input_price p \<noteq> None \<and> py_output_price p \<noteq> None \<and> py_pricing_source p = None
      then Some User_Supplied else py_pricing_source p)"

definition observed_utc :: "datetime option \<Rightarrow> fault + int option" where
  "observed_utc t = (case t of
     None \<Rightarrow> Inr None
   | Some d \<Rightarrow> ebind (require_utc (Value_Error ''model metadata timestamps must include a UTC offset'') d)
       (\<lambda>u. Inr (Some u)))"

definition mk_model_profile :: "profile_payload \<Rightarrow> fault + model_profile" where
  "mk_model_profile p =
     ebind (case py_runtime_profile p of
         None \<Rightarrow> runtime_profile_for_model (py_model p) | Some rt \<Rightarrow> Inr rt) (\<lambda>rt.
     ebind (observed_utc (py_pricing_observed_at p)) (\<lambda>priced_at.
     ebind (observed_utc (py_context_observed_at p)) (\<lambda>context_at.
     ebind (first_error [(length (py_model p) < 3, Field_Invalid ''model'')]) (\<lambda>_.
     let m = \<lparr>pf_id = py_id p, pf_model = py_strip (py_model p), pf_runtime_profile = rt,
              pf_capabilities = py_capabilities p, pf_priority = py_priority p,
              pf_input_price = py_input_price p, pf_output_price = py_output_price p,
              pf_pricing_source = inferred_pricing_source p, pf_pricing_observed_at = priced_at,
              pf_context_window = fst (inferred_context rt p),
              pf_context_source = snd (inferred_context rt p),
              pf_context_observed_at = context_at, pf_cache_pricing = py_cache_pricing p\<rparr>
     in ebind (validate_model_profile m) (\<lambda>_. Inr m)))))"

definition profile_supports :: "model_profile \<Rightarrow> capability \<Rightarrow> bool" where
  "profile_supports p c \<longleftrightarrow> c \<in> set (pf_capabilities p)"

section \<open>The policy\<close>

record routing_policy =
  mp_mode :: routing_mode
  mp_profiles :: "model_profile list"
  mp_default_profile_id :: string
  mp_capability_overrides :: "(capability \<times> string) list"
  mp_stage_overrides :: "(string \<times> string) list"
  mp_switch_conditions :: "switch_condition list"

definition get_profile :: "routing_policy \<Rightarrow> string \<Rightarrow> fault + model_profile" where
  "get_profile q profile_id =
     (case List.find (\<lambda>p. pf_id p = profile_id) (mp_profiles q) of
        Some p \<Rightarrow> Inr p | None \<Rightarrow> Inl (Value_Error ''unknown model profile''))"

definition bootstrap_capabilities :: "capability list" where
  "bootstrap_capabilities = [Clarification, Planning]"

definition profile_ids :: "routing_policy \<Rightarrow> string list" where
  "profile_ids q = map pf_id (mp_profiles q)"

definition override_ok :: "routing_policy \<Rightarrow> capability \<times> string \<Rightarrow> fault + unit" where
  "override_ok q entry =
     (case entry of (c, profile_id) \<Rightarrow>
        ebind (get_profile q profile_id) (\<lambda>p. first_error
          [(\<not> profile_supports p c, Value_Error ''model profile is not authorized'')]))"

definition validate_routing_policy :: "routing_policy \<Rightarrow> fault + unit" where
  "validate_routing_policy q =
     ebind (first_error
       [(mp_profiles q = [], Field_Invalid ''profiles''),
        (\<not> ident_pattern (mp_default_profile_id q), Field_Invalid ''default_profile_id''),
        (list_ex (\<lambda>(stage, _). \<not> ident_pattern stage) (mp_stage_overrides q),
          Value_Error ''model stage overrides require safe stage IDs''),
        (list_ex (\<lambda>(_, profile). \<not> ident_pattern profile) (mp_stage_overrides q),
          Value_Error ''model stage overrides require safe profile IDs''),
        (\<not> distinct (profile_ids q), Value_Error ''model profile IDs must be unique''),
        (\<not> distinct (map pf_model (mp_profiles q)),
          Value_Error ''model profiles must identify distinct models''),
        (mp_default_profile_id q \<notin> set (profile_ids q),
          Value_Error ''default model profile is not configured''),
        (\<not> snd ` (set (mp_capability_overrides q)) \<union> snd ` (set (mp_stage_overrides q)) \<subseteq> set (profile_ids q),
          Value_Error ''model routing overrides reference unknown profiles'')]) (\<lambda>_.
     ebind (check_all (override_ok q) (mp_capability_overrides q)) (\<lambda>_.
     ebind (get_profile q (mp_default_profile_id q)) (\<lambda>d. first_error
       [(\<not> set bootstrap_capabilities \<subseteq> set (pf_capabilities d),
          Value_Error ''default model profile must support clarification and planning''),
        (mp_mode q = Strict \<and> (length (mp_profiles q) \<noteq> 1 \<or> mp_capability_overrides q \<noteq> [] \<or>
           mp_stage_overrides q \<noteq> [] \<or> mp_switch_conditions q \<noteq> []),
          Value_Error ''strict model routing requires one profile and no overrides or switches'')])))"

section \<open>Resolution\<close>

record routable_agent =
  rg_id :: string
  rg_stage_id :: string
  rg_capability :: capability

datatype routing_error = Routing_Error string | Routing_Fault fault

definition routing_raise :: "fault + 'a \<Rightarrow> routing_error + 'a" where
  "routing_raise m = (case m of Inl f \<Rightarrow> Inl (Routing_Fault f) | Inr x \<Rightarrow> Inr x)"

text \<open>\<open>_profile_order\<close>: the last index of an identifier.\<close>

definition profile_order :: "routing_policy \<Rightarrow> string \<Rightarrow> nat" where
  "profile_order q i = the_or (map_of (rev (zip (profile_ids q) [0..<length (mp_profiles q)])) i) 0"

definition profile_key :: "routing_policy \<Rightarrow> model_profile \<Rightarrow> int \<times> nat" where
  "profile_key q p = (pf_priority p, profile_order q (pf_id p))"

definition eligible_profiles :: "routing_policy \<Rightarrow> capability \<Rightarrow> model_profile list" where
  "eligible_profiles q c =
     sort_key (profile_key q) (filter (\<lambda>p. profile_supports p c) (mp_profiles q))"

definition resolve_bootstrap_profiles :: "routing_policy \<Rightarrow> fault + model_profile list" where
  "resolve_bootstrap_profiles q =
     ebind (get_profile q (mp_default_profile_id q)) (\<lambda>d.
       if Provider_Failure \<notin> set (mp_switch_conditions q) then Inr [d]
       else Inr (d # sort_key (profile_key q)
              (filter (\<lambda>p. pf_id p \<noteq> pf_id d \<and> set bootstrap_capabilities \<subseteq> set (pf_capabilities p))
                (mp_profiles q))))"

text \<open>The precedence: strict pin, the user's choice for the Agent, the stage, the capability, the
  default profile, the best eligible profile.\<close>

definition select_profile ::
    "routing_policy \<Rightarrow> (string \<times> string) list \<Rightarrow> model_profile \<Rightarrow> model_profile list \<Rightarrow> routable_agent \<Rightarrow>
     fault + (model_profile \<times> route_selection \<times> string)" where
  "select_profile q overrides std eligible a =
     (if mp_mode q = Strict
      then Inr (std, Strict_Pin,
             ''Strict routing pins every Agent to the approved default profile.'')
      else case map_of overrides (rg_id a) of
        Some i \<Rightarrow> ebind (get_profile q i) (\<lambda>p. Inr (p, Agent_Override,
             ''The user selected profile '' @ pf_id p @ '' for this Agent.''))
      | None \<Rightarrow>
      case map_of (mp_stage_overrides q) (rg_stage_id a) of
        Some i \<Rightarrow> ebind (get_profile q i) (\<lambda>p. Inr (p, Stage_Override,
             ''Stage '' @ rg_stage_id a @ '' is configured to use profile '' @ pf_id p @ ''.''))
      | None \<Rightarrow>
      case map_of (mp_capability_overrides q) (rg_capability a) of
        Some i \<Rightarrow> ebind (get_profile q i) (\<lambda>p. Inr (p, Capability_Override,
             ''Capability '' @ capability_value (rg_capability a) @ '' is configured to use '' @
             ''profile '' @ pf_id p @ ''.''))
      | None \<Rightarrow>
          if profile_supports std (rg_capability a)
          then Inr (std, Default_Profile, ''The default profile supports this Agent capability.'')
          else Inr (hd eligible, Auto_Capability,
             ''The controller selected the highest-priority profile authorized '' @
             ''for '' @ capability_value (rg_capability a) @ ''.''))"

definition assign_route ::
    "routing_policy \<Rightarrow> (string \<times> string) list \<Rightarrow> model_profile \<Rightarrow> routable_agent \<Rightarrow>
     routing_error + route_assignment" where
  "assign_route q overrides std a =
     (let eligible = eligible_profiles q (rg_capability a) in
      if eligible = []
      then Inl (Routing_Error ''no authorized model profile supports the capability of the Agent'')
      else ebind (routing_raise (select_profile q overrides std eligible a)) (\<lambda>(p, source, reason).
        if \<not> profile_supports p (rg_capability a)
        then Inl (Routing_Error ''model profile is not authorized for Agent'')
        else
          let r = \<lparr>ra_agent_id = rg_id a, ra_primary_route_id = pf_id p,
                   ra_fallback_route_ids =
                     (if mp_switch_conditions q \<noteq> []
                      then map pf_id (filter (\<lambda>e. pf_id e \<noteq> pf_id p) eligible) else []),
                   ra_selection_source = source, ra_reason = reason\<rparr>
          in ebind (routing_raise (validate_route_assignment r)) (\<lambda>_. Inr r)))"

definition route_of_profile :: "(runtime_profile \<Rightarrow> string) \<Rightarrow> model_profile \<Rightarrow> model_route" where
  "route_of_profile profile_sha p =
     \<lparr>mr_id = pf_id p, mr_model = pf_model p, mr_runtime_profile = pf_runtime_profile p,
      mr_runtime_profile_sha256 = profile_sha (pf_runtime_profile p), mr_required_capabilities = [],
      mr_eligible_capabilities = pf_capabilities p, mr_input_price = pf_input_price p,
      mr_output_price = pf_output_price p, mr_pricing_source = pf_pricing_source p,
      mr_pricing_observed_at = pf_pricing_observed_at p, mr_context_window = pf_context_window p,
      mr_context_source = pf_context_source p, mr_context_observed_at = pf_context_observed_at p,
      mr_cache_pricing = pf_cache_pricing p\<rparr>"

definition used_routes :: "routing_policy \<Rightarrow> route_assignment list \<Rightarrow> string list" where
  "used_routes q assignments =
     mp_default_profile_id q #
     concat (map (\<lambda>r. ra_primary_route_id r # ra_fallback_route_ids r) assignments)"

definition resolve_model_route_plan ::
    "(runtime_profile \<Rightarrow> string) \<Rightarrow> routing_policy \<Rightarrow> routable_agent list \<Rightarrow> (string \<times> string) list \<Rightarrow>
     routing_error + route_plan" where
  "resolve_model_route_plan profile_sha q agents overrides =
     ebind (first_error
       [(agents = [], Routing_Error ''model routing requires at least one runtime Agent''),
        (\<not> fst ` (set overrides) \<subseteq> set (map rg_id agents),
          Routing_Error ''model overrides reference unknown Agents'')]) (\<lambda>_.
     ebind (routing_raise (get_profile q (mp_default_profile_id q))) (\<lambda>std.
     ebind (emap (assign_route q overrides std) agents) (\<lambda>assignments.
     let routes = map (route_of_profile profile_sha)
           (filter (\<lambda>p. pf_id p \<in> set (used_routes q assignments)) (mp_profiles q));
         plan = \<lparr>rp_mode = mp_mode q, rp_default_route_id = mp_default_profile_id q, rp_routes = routes,
                 rp_assignments = assignments, rp_switch_conditions = mp_switch_conditions q\<rparr>
     in ebind (routing_raise (check_all (validate_model_route profile_sha) routes)) (\<lambda>_.
        ebind (routing_raise (validate_route_plan plan)) (\<lambda>_. Inr plan)))))"


section \<open>What a resolution gives\<close>

lemma ident_strip: "ident_pattern s \<Longrightarrow> py_strip s = s \<and> s \<noteq> []"
proof -
  assume "ident_pattern s"
  then have "s \<noteq> []" and space: "\<not> py_space c" if "c \<in> set s" for c
    using that by (auto simp: ident_pattern_def list_all_iff py_space_def char_class_defs split: list.splits)
  moreover have "s \<noteq> []" using \<open>ident_pattern s\<close> by (auto simp: ident_pattern_def)
  moreover have drop: "dropWhile py_space t = t" if "set t \<subseteq> set s" for t
    using that space by (cases t) auto
  ultimately show ?thesis by (simp add: py_strip_def drop)
qed

lemma get_profile_Inr: "get_profile q i = Inr p \<Longrightarrow> p \<in> set (mp_profiles q) \<and> pf_id p = i"
  by (auto simp: get_profile_def dest: find_Some_key split: option.splits)

lemma get_profile_known: "i \<in> set (profile_ids q) \<Longrightarrow> \<exists>p. get_profile q i = Inr p"
  by (auto simp: get_profile_def profile_ids_def find_None_key split: option.splits)

lemma set_eligible: "set (eligible_profiles q c) = {p \<in> set (mp_profiles q). profile_supports p c}"
  by (simp add: eligible_profiles_def)

lemma routing_raise_Inr [simp]: "routing_raise m = Inr x \<longleftrightarrow> m = Inr x"
  by (simp add: routing_raise_def split: sum.splits)

lemma routing_raise_returns: "routing_raise (Inr x) = Inr x"
  by simp

lemma select_profile_known:
  assumes "select_profile q overrides std eligible a = Inr (p, source, reason)"
    and "std \<in> set (mp_profiles q)" and "eligible \<noteq> []" and "set eligible \<subseteq> set (mp_profiles q)"
  shows "p \<in> set (mp_profiles q)"
  using assms
  by (auto simp: select_profile_def ebind_eq_Inr dest: get_profile_Inr split: if_splits option.splits
      intro: subsetD hd_in_set)

definition fallback_profiles :: "routing_policy \<Rightarrow> capability \<Rightarrow> string \<Rightarrow> string list" where
  "fallback_profiles q c primary =
     (if mp_switch_conditions q \<noteq> []
      then map pf_id (filter (\<lambda>e. pf_id e \<noteq> primary) (eligible_profiles q c)) else [])"

lemma assign_route_Inr:
  assumes "assign_route q overrides std a = Inr r" and "std \<in> set (mp_profiles q)"
  obtains p where "p \<in> set (mp_profiles q)" "profile_supports p (rg_capability a)"
    "ra_primary_route_id r = pf_id p" "ra_agent_id r = rg_id a"
    "ra_fallback_route_ids r = fallback_profiles q (rg_capability a) (pf_id p)"
    "select_profile q overrides std (eligible_profiles q (rg_capability a)) a =
       Inr (p, ra_selection_source r, ra_reason r)"
    "validate_route_assignment r = Inr ()"
proof -
  obtain p source reason where p: "eligible_profiles q (rg_capability a) \<noteq> []"
    "select_profile q overrides std (eligible_profiles q (rg_capability a)) a = Inr (p, source, reason)"
    "profile_supports p (rg_capability a)"
    "r = \<lparr>ra_agent_id = rg_id a, ra_primary_route_id = pf_id p,
         ra_fallback_route_ids = fallback_profiles q (rg_capability a) (pf_id p),
         ra_selection_source = source, ra_reason = reason\<rparr>" "validate_route_assignment r = Inr ()"
    using assms(1)
    by (auto simp: assign_route_def Let_def ebind_eq_Inr fallback_profiles_def split: if_splits)
  then show thesis
    using that [of p] select_profile_known [OF p(2) assms(2) p(1)] set_eligible [of q "rg_capability a"] by auto
qed

lemma resolve_Inr:
  assumes "resolve_model_route_plan profile_sha q agents overrides = Inr plan"
  obtains std where "get_profile q (mp_default_profile_id q) = Inr std"
    "list_all2 (\<lambda>a r. assign_route q overrides std a = Inr r) agents (rp_assignments plan)"
    "rp_routes plan = map (route_of_profile profile_sha)
       (filter (\<lambda>p. pf_id p \<in> set (used_routes q (rp_assignments plan))) (mp_profiles q))"
    "rp_mode plan = mp_mode q" "rp_default_route_id plan = mp_default_profile_id q"
    "rp_switch_conditions plan = mp_switch_conditions q"
    "check_all (validate_model_route profile_sha) (rp_routes plan) = Inr ()"
    "validate_route_plan plan = Inr ()"
  using assms by (auto simp: resolve_model_route_plan_def Let_def ebind_eq_Inr emap_Inr)

text \<open>Looking up a used route finds the profile of that name.\<close>

lemma resolved_get_route:
  assumes "distinct (profile_ids q)" and "p \<in> set (mp_profiles q)" and "pf_id p \<in> used"
    and "rp_routes plan = map (route_of_profile profile_sha) (filter (\<lambda>p. pf_id p \<in> used) (mp_profiles q))"
  shows "get_route plan (pf_id p) = Inr (route_of_profile profile_sha p)"
proof -
  let ?rs = "rp_routes plan"
  have "distinct (map mr_id ?rs)"
    using assms(1) by (simp add: assms(4) comp_def route_of_profile_def profile_ids_def distinct_map_filter)
  moreover have "route_of_profile profile_sha p \<in> set ?rs" using assms(2,3) by (auto simp: assms(4))
  ultimately have "List.find (\<lambda>r. mr_id r = mr_id (route_of_profile profile_sha p)) ?rs =
      Some (route_of_profile profile_sha p)"
    by (rule find_distinct_key)
  then show ?thesis by (simp add: get_route_def route_of_profile_def)
qed

section \<open>Concrete policies\<close>

definition demo_profile :: "string \<Rightarrow> string \<Rightarrow> capability list \<Rightarrow> int \<Rightarrow> model_profile" where
  "demo_profile i model cs priority =
     \<lparr>pf_id = i, pf_model = model, pf_runtime_profile = native_profile_value ''acme'' model,
      pf_capabilities = cs, pf_priority = priority, pf_input_price = None, pf_output_price = None,
      pf_pricing_source = None, pf_pricing_observed_at = None, pf_context_window = None,
      pf_context_source = None, pf_context_observed_at = None, pf_cache_pricing = None\<rparr>"

definition demo_policy :: "switch_condition list \<Rightarrow> routing_policy" where
  "demo_policy switches =
     \<lparr>mp_mode = Policy,
      mp_profiles =
        [demo_profile ''main'' ''acme/m1'' [Clarification, Planning, Testing] 50,
         demo_profile ''slow'' ''acme/m2'' [Implementation, Testing] 20,
         demo_profile ''fast'' ''acme/m3'' [Implementation, Testing] 10],
      mp_default_profile_id = ''main'', mp_capability_overrides = [], mp_stage_overrides = [],
      mp_switch_conditions = switches\<rparr>"

definition demo_routable :: "string \<Rightarrow> capability \<Rightarrow> routable_agent" where
  "demo_routable i c = \<lparr>rg_id = i, rg_stage_id = ''build'', rg_capability = c\<rparr>"

definition demo_resolution :: "switch_condition list \<Rightarrow> routing_error + route_plan" where
  "demo_resolution switches =
     resolve_model_route_plan (\<lambda>_. replicate 64 (CHR ''a'')) (demo_policy switches)
       [demo_routable ''api'' Implementation, demo_routable ''tests'' Testing] [(''tests'', ''fast'')]"

lemma demo_policy_ok:
  "validate_routing_policy (demo_policy [Provider_Failure]) = Inr ()"
  "validate_routing_policy (demo_policy [Provider_Failure, Provider_Failure]) = Inr ()"
  by code_simp+

lemma demo_resolution_routes:
  "case demo_resolution [Provider_Failure] of Inl _ \<Rightarrow> False
   | Inr plan \<Rightarrow> map (\<lambda>r. (ra_agent_id r, ra_primary_route_id r # ra_fallback_route_ids r)) (rp_assignments plan) =
       [(''api'', [''fast'', ''slow'']), (''tests'', [''fast'', ''slow'', ''main''])]"
  by code_simp

section \<open>Properties\<close>

text \<open>C36: A resolved plan obeys the policy. It has one assignment per Agent, in the order of the Agents;
  the primary route of an Agent is a configured profile that the user authorized for the Agent's
  capability, chosen in the documented precedence; its fallbacks are, when a switch is authorized,
  exactly the other profiles authorized for that capability, by priority and then by position, and
  none otherwise; every route an Agent may use is in the plan with the data of its profile.\<close>

theorem resolved_routes_obey_policy:
  assumes "validate_routing_policy q = Inr ()"
    and "resolve_model_route_plan profile_sha q agents overrides = Inr plan"
  shows "list_all2 (\<lambda>a r. ra_agent_id r = rg_id a \<and>
      ra_fallback_route_ids r = fallback_profiles q (rg_capability a) (ra_primary_route_id r) \<and>
      (\<exists>p std. p \<in> set (mp_profiles q) \<and> pf_id p = ra_primary_route_id r \<and>
        get_profile q (mp_default_profile_id q) = Inr std \<and>
        select_profile q overrides std (eligible_profiles q (rg_capability a)) a =
          Inr (p, ra_selection_source r, ra_reason r)) \<and>
      (\<forall>i \<in> set (ra_primary_route_id r # ra_fallback_route_ids r). \<exists>p \<in> set (mp_profiles q).
        pf_id p = i \<and> profile_supports p (rg_capability a) \<and>
        get_route plan i = Inr (route_of_profile profile_sha p)))
    agents (rp_assignments plan)"
proof -
  obtain std where plan: "get_profile q (mp_default_profile_id q) = Inr std"
    "list_all2 (\<lambda>a r. assign_route q overrides std a = Inr r) agents (rp_assignments plan)"
    "rp_routes plan = map (route_of_profile profile_sha)
       (filter (\<lambda>p. pf_id p \<in> set (used_routes q (rp_assignments plan))) (mp_profiles q))"
    by (rule resolve_Inr [OF assms(2)])
  have ids: "distinct (profile_ids q)"
    using assms(1) by (auto simp: validate_routing_policy_def ebind_eq_Inr)
  have std: "std \<in> set (mp_profiles q)" using get_profile_Inr [OF plan(1)] by blast
  show ?thesis
  proof (rule list.rel_mono_strong [OF plan(2)])
    fix a r assume r: "r \<in> set (rp_assignments plan)" and assigned: "assign_route q overrides std a = Inr r"
    obtain p where p: "p \<in> set (mp_profiles q)" "profile_supports p (rg_capability a)"
      "ra_primary_route_id r = pf_id p" "ra_agent_id r = rg_id a"
      "ra_fallback_route_ids r = fallback_profiles q (rg_capability a) (pf_id p)"
      "select_profile q overrides std (eligible_profiles q (rg_capability a)) a =
         Inr (p, ra_selection_source r, ra_reason r)"
      using assigned std by (rule assign_route_Inr)
    have "\<exists>p \<in> set (mp_profiles q). pf_id p = i \<and> profile_supports p (rg_capability a) \<and>
        get_route plan i = Inr (route_of_profile profile_sha p)"
      if i: "i \<in> set (ra_primary_route_id r # ra_fallback_route_ids r)" for i
    proof -
      have "i = pf_id p \<or> (\<exists>e \<in> set (eligible_profiles q (rg_capability a)). i = pf_id e)"
        using i p(3,5) by (auto simp: fallback_profiles_def split: if_splits)
      then obtain e where e: "e \<in> set (mp_profiles q)" "profile_supports e (rg_capability a)" "pf_id e = i"
        using p(1,2) set_eligible by fastforce
      moreover have "pf_id e \<in> set (used_routes q (rp_assignments plan))"
        using i r e(3) by (auto simp: used_routes_def)
      ultimately show ?thesis using resolved_get_route [OF ids e(1) _ plan(3)] by blast
    qed
    then show "ra_agent_id r = rg_id a \<and>
      ra_fallback_route_ids r = fallback_profiles q (rg_capability a) (ra_primary_route_id r) \<and>
      (\<exists>p std. p \<in> set (mp_profiles q) \<and> pf_id p = ra_primary_route_id r \<and>
        get_profile q (mp_default_profile_id q) = Inr std \<and>
        select_profile q overrides std (eligible_profiles q (rg_capability a)) a =
          Inr (p, ra_selection_source r, ra_reason r)) \<and>
      (\<forall>i \<in> set (ra_primary_route_id r # ra_fallback_route_ids r). \<exists>p \<in> set (mp_profiles q).
        pf_id p = i \<and> profile_supports p (rg_capability a) \<and>
        get_route plan i = Inr (route_of_profile profile_sha p))"
      using p plan(1) by auto
  qed
qed

theorem resolved_routes_obey_policy_witness:
  "\<exists>plan. demo_resolution [Provider_Failure] = Inr plan \<and>
     map ra_agent_id (rp_assignments plan) = [''api'', ''tests''] \<and>
     map ra_fallback_route_ids (rp_assignments plan) = [[''slow''], [''slow'', ''main'']]"
proof -
  obtain plan where plan: "demo_resolution [Provider_Failure] = Inr plan"
    "map (\<lambda>r. (ra_agent_id r, ra_primary_route_id r # ra_fallback_route_ids r)) (rp_assignments plan) =
       [(''api'', [''fast'', ''slow'']), (''tests'', [''fast'', ''slow'', ''main''])]"
    using demo_resolution_routes by (cases "demo_resolution [Provider_Failure]") auto
  have "list_all2 (\<lambda>a r. ra_agent_id r = rg_id a)
      [demo_routable ''api'' Implementation, demo_routable ''tests'' Testing] (rp_assignments plan)"
    by (rule list.rel_mono_strong
        [OF resolved_routes_obey_policy [OF demo_policy_ok(1) plan(1) [unfolded demo_resolution_def]]]) blast
  then show ?thesis using plan by (auto simp: list_all2_Cons1 demo_routable_def)
qed

text \<open>What routing resolves, the team plan accepts. A team plan whose Agents take the primary route
  of their assignment passes the route check of the plan validator: every route is authorized and
  eligible, and the assignments cover exactly the Agents.\<close>

theorem resolved_routes_pass_team_plan:
  assumes "validate_routing_policy q = Inr ()"
    and "resolve_model_route_plan profile_sha q
      (map (\<lambda>a. \<lparr>rg_id = as_id a, rg_stage_id = as_stage_id a, rg_capability = as_capability a\<rparr>) (tp_agents p))
      overrides = Inr (tp_model_routes p)"
    and "map ra_primary_route_id (rp_assignments (tp_model_routes p)) = map as_model_route_id (tp_agents p)"
  shows "check_routes p = Inr ()"
proof -
  let ?plan = "tp_model_routes p" and ?rs = "rp_assignments (tp_model_routes p)"
  obtain std where plan: "validate_route_plan ?plan = Inr ()" "rp_mode ?plan = mp_mode q"
    by (rule resolve_Inr [OF assms(2)])
  have agents: "list_all2 (\<lambda>a r. ra_agent_id r = as_id a \<and>
      (\<forall>i \<in> set (ra_primary_route_id r # ra_fallback_route_ids r).
         agent_route_eligible ?plan a i e1 = Inr () \<and> i \<in> set (map mr_id (rp_routes ?plan))))
      (tp_agents p) ?rs" for e1
    using resolved_routes_obey_policy [OF assms(1,2)] unfolding list_all2_map1
    by (rule list.rel_mono_strong)
      (force simp: agent_route_eligible_def route_of_profile_def profile_supports_def get_route_def
        split: option.splits dest: find_Some_key)
  have primary: "ra_primary_route_id (?rs ! i) = as_model_route_id (tp_agents p ! i)"
    if "i < length ?rs" "i < length (tp_agents p)" for i
    using arg_cong [OF assms(3), of "\<lambda>l. l ! i"] that by simp
  have both: "list_all2 (\<lambda>a r. ra_agent_id r = as_id a \<and> ra_primary_route_id r = as_model_route_id a \<and>
      (\<forall>i \<in> set (ra_primary_route_id r # ra_fallback_route_ids r).
         agent_route_eligible ?plan a i e1 = Inr () \<and> i \<in> set (map mr_id (rp_routes ?plan))))
      (tp_agents p) ?rs" for e1
    using agents [of e1] by (auto simp: list_all2_conv_all_nth primary)
  have each: "\<exists>r \<in> set ?rs. ra_agent_id r = as_id a \<and> ra_primary_route_id r = as_model_route_id a \<and>
      (\<forall>i \<in> set (ra_primary_route_id r # ra_fallback_route_ids r).
         agent_route_eligible ?plan a i e1 = Inr () \<and> i \<in> set (map mr_id (rp_routes ?plan)))"
    if a: "a \<in> set (tp_agents p)" for a e1
  proof -
    obtain i where i: "i < length (tp_agents p)" "tp_agents p ! i = a"
      using a by (auto simp: in_set_conv_nth)
    then have "?rs ! i \<in> set ?rs" using list_all2_lengthD [OF both [of e1]] by simp
    with list_all2_nthD [OF both [of e1] i(1), unfolded i(2)] show ?thesis by (rule bexI)
  qed
  have ids: "map ra_agent_id ?rs = plan_agent_ids p"
    using both by (auto simp: plan_agent_ids_def list_all2_conv_all_nth intro: nth_equalityI)
  have "distinct (map ra_agent_id ?rs)" using plan(1) by (auto simp: validate_route_plan_def Let_def)
  then have lookup: "get_assignment ?plan (as_id a) = Inr r"
    if "r \<in> set ?rs" "ra_agent_id r = as_id a" for a r
    using find_distinct_key [of ra_agent_id ?rs r] that by (simp add: get_assignment_def)
  have own: "agent_route_eligible ?plan a (as_model_route_id a) e1 = Inr ()"
      "as_model_route_id a \<in> set (map mr_id (rp_routes ?plan))" if "a \<in> set (tp_agents p)" for a e1
    using each [OF that, of e1] by (metis list.set_intros(1))+
  have "check_policy_assignment ?plan a = Inr ()" if a: "a \<in> set (tp_agents p)" for a
  proof -
    let ?e = "Value_Error ''fallback model route is not eligible for Agent''"
    obtain r where r: "r \<in> set ?rs" "ra_agent_id r = as_id a" "ra_primary_route_id r = as_model_route_id a"
      "\<forall>i \<in> set (ra_primary_route_id r # ra_fallback_route_ids r). agent_route_eligible ?plan a i ?e = Inr ()"
      using each [OF a, of ?e] by blast
    then show ?thesis using lookup [OF r(1,2)] by (simp add: check_policy_assignment_def)
  qed
  then have policy_checks: "check_all (check_policy_assignment ?plan) (tp_agents p) = Inr ()" by simp
  have "set (map ra_agent_id ?rs) = set (plan_agent_ids p)" by (simp only: ids)
  moreover have "set (map as_model_route_id (tp_agents p)) \<subseteq> set (map mr_id (rp_routes ?plan))"
    using own(2) by auto
  moreover have "check_all (\<lambda>a. agent_route_eligible ?plan a (as_model_route_id a)
      (Value_Error ''model route is not eligible for Agent'')) (tp_agents p) = Inr ()"
    using own(1) by simp
  ultimately show ?thesis
    unfolding check_routes_def Let_def by (simp del: set_map check_all_Inr add: policy_checks)
qed

text \<open>A team plan over the concrete policy, and the payload of a profile as the user writes it.\<close>

definition demo_team :: "route_plan \<Rightarrow> team_plan" where
  "demo_team rts = demo_plan\<lparr>tp_model_routes := rts,
     tp_agents := [(demo_agent ''api'' Implementation [] ''repository/api'')\<lparr>as_model_route_id := ''fast''\<rparr>,
                   (demo_agent ''tests'' Testing [''api''] ''repository'')\<lparr>as_model_route_id := ''fast''\<rparr>]\<rparr>"

theorem resolved_routes_pass_team_plan_witness:
  "\<exists>rts. rp_assignments rts \<noteq> [] \<and> check_routes (demo_team rts) = Inr ()"
proof -
  let ?agents = "map (\<lambda>a. \<lparr>rg_id = as_id a, rg_stage_id = as_stage_id a, rg_capability = as_capability a\<rparr>)
      (tp_agents (demo_team demo_routes))"
  let ?res = "resolve_model_route_plan (\<lambda>_. replicate 64 (CHR ''a'')) (demo_policy [Provider_Failure]) ?agents
      [(''tests'', ''fast'')]"
  have "case ?res of Inl _ \<Rightarrow> False
    | Inr rts \<Rightarrow> map ra_primary_route_id (rp_assignments rts) = [''fast'', ''fast'']"
    by code_simp
  then obtain rts where rts: "?res = Inr rts" "map ra_primary_route_id (rp_assignments rts) = [''fast'', ''fast'']"
    by (cases ?res) auto
  have agents: "tp_agents (demo_team rts) = tp_agents (demo_team demo_routes)"
      "tp_model_routes (demo_team rts) = rts" by (simp_all add: demo_team_def)
  have "check_routes (demo_team rts) = Inr ()"
    by (rule resolved_routes_pass_team_plan [OF demo_policy_ok(1)])
      (use rts in \<open>simp_all add: agents\<close>, simp add: demo_team_def)
  then show ?thesis using rts(2) by (intro exI [of _ rts]) auto
qed

section \<open>Faults of a resolution\<close>

lemma eligible_distinct: "distinct (profile_ids q) \<Longrightarrow> distinct (map pf_id (eligible_profiles q c))"
proof -
  assume "distinct (profile_ids q)"
  then have "distinct (map pf_id (filter (\<lambda>p. profile_supports p c) (mp_profiles q)))"
    by (simp add: profile_ids_def distinct_map_filter)
  moreover have "distinct (map pf_id (sort_key (profile_key q) xs)) \<longleftrightarrow> distinct (map pf_id xs)" for xs
    by (simp add: distinct_map)
  ultimately show ?thesis by (simp add: eligible_profiles_def)
qed

lemma profile_route_ok:
  "validate_model_profile p = Inr () \<Longrightarrow> sha256_pattern (profile_sha (pf_runtime_profile p)) \<Longrightarrow>
     validate_model_route profile_sha (route_of_profile profile_sha p) = Inr ()"
  by (auto simp: validate_model_profile_def validate_model_route_def route_of_profile_def)

text \<open>The inputs Planning passes: valid profiles with short names, distinct Agents with short stages,
  overrides to configured profiles, and a digest function with digests for values.\<close>

definition routable_inputs ::
    "(runtime_profile \<Rightarrow> string) \<Rightarrow> routing_policy \<Rightarrow> routable_agent list \<Rightarrow> (string \<times> string) list \<Rightarrow> bool" where
  "routable_inputs profile_sha q agents overrides \<longleftrightarrow>
     list_all (\<lambda>p. validate_model_profile p = Inr () \<and> length (pf_id p) \<le> 200 \<and>
       sha256_pattern (profile_sha (pf_runtime_profile p))) (mp_profiles q) \<and>
     list_all (\<lambda>a. ident_pattern (rg_id a) \<and> length (rg_stage_id a) \<le> 200) agents \<and>
     distinct (map rg_id agents) \<and> list_all (\<lambda>(_, i). i \<in> set (profile_ids q)) overrides"

lemma capability_value_short: "length (capability_value c) \<le> 14"
  by (cases c) simp_all

lemma strip_Cons: "\<not> py_space c \<Longrightarrow> py_strip (c # cs) \<noteq> []"
  by (auto simp: py_strip_def dropWhile_eq_Nil_conv)

lemma first_letters: "\<not> py_space (CHR ''S'')" "\<not> py_space (CHR ''T'')" "\<not> py_space (CHR ''C'')"
  by code_simp+

lemma select_reason:
  assumes "select_profile q overrides std eligible a = Inr (p, source, reason)"
    and "length (pf_id p) \<le> 200" and "length (rg_stage_id a) \<le> 200"
  shows "reason \<noteq> [] \<and> py_strip reason \<noteq> [] \<and> length reason \<le> 500"
  using assms capability_value_short [of "rg_capability a"] first_letters
  by (auto simp: select_profile_def ebind_eq_Inr strip_Cons split: if_splits option.splits)

lemma assignment_ok:
  assumes "select_profile q overrides std eligible a = Inr (p, source, reason)"
    and "p \<in> set (mp_profiles q)" and "routable_inputs profile_sha q agents overrides" and "a \<in> set agents"
    and "distinct (profile_ids q)"
  shows "validate_route_assignment \<lparr>ra_agent_id = rg_id a, ra_primary_route_id = pf_id p,
     ra_fallback_route_ids = fallback_profiles q (rg_capability a) (pf_id p),
     ra_selection_source = source, ra_reason = reason\<rparr> = Inr ()"
proof -
  have ids: "ident_pattern (pf_id e)" "length (pf_id e) \<le> 200" if "e \<in> set (mp_profiles q)" for e
    using that assms(3) by (auto simp: routable_inputs_def list_all_iff validate_model_profile_def)
  have agent: "ident_pattern (rg_id a)" "length (rg_stage_id a) \<le> 200"
    using assms(3,4) by (auto simp: routable_inputs_def list_all_iff)
  note reason = select_reason [OF assms(1) ids(2) [OF assms(2)] agent(2)]
  let ?fs = "fallback_profiles q (rg_capability a) (pf_id p)"
  have known: "ident_pattern i \<and> i \<noteq> pf_id p" if "i \<in> set ?fs" for i
    using that ids set_eligible by (auto simp: fallback_profiles_def split: if_splits)
  have "map py_strip ?fs = ?fs" using known ident_strip by (simp add: map_idI)
  moreover have "distinct ?fs"
    using eligible_distinct [OF assms(5)] by (simp add: fallback_profiles_def distinct_map_filter)
  moreover have "\<not> list_ex (\<lambda>v. py_strip v = []) ?fs" using known ident_strip by (auto simp: list_ex_iff)
  ultimately show ?thesis
    using agent ids(1) [OF assms(2)] reason known by (auto simp: validate_route_assignment_def)
qed

lemma assign_route_faults:
  assumes "routable_inputs profile_sha q agents overrides" and "a \<in> set agents"
    and "validate_routing_policy q = Inr ()" and "std \<in> set (mp_profiles q)"
  shows "(\<exists>r. assign_route q overrides std a = Inr r) \<or> (\<exists>m. assign_route q overrides std a = Inl (Routing_Error m))"
proof (cases "eligible_profiles q (rg_capability a) = []")
  case True
  then show ?thesis by (simp add: assign_route_def)
next
  case False
  have policy: "distinct (profile_ids q)"
    "snd ` set (mp_capability_overrides q) \<union> snd ` set (mp_stage_overrides q) \<subseteq> set (profile_ids q)"
    using assms(3) by (auto simp: validate_routing_policy_def ebind_eq_Inr)
  have over: "map_of overrides x = Some i \<Longrightarrow> \<exists>p. get_profile q i = Inr p"
    "map_of (mp_stage_overrides q) x = Some i \<Longrightarrow> \<exists>p. get_profile q i = Inr p"
    "map_of (mp_capability_overrides q) c = Some i \<Longrightarrow> \<exists>p. get_profile q i = Inr p" for i x c
    using assms(1) policy(2)
    by (auto simp: routable_inputs_def list_all_iff dest!: map_of_SomeD intro!: get_profile_known)
  have "\<exists>p source reason. select_profile q overrides std (eligible_profiles q (rg_capability a)) a = Inr (p, source, reason)"
    unfolding select_profile_def by (auto split: option.splits dest!: over)
  then obtain p source reason where
    s: "select_profile q overrides std (eligible_profiles q (rg_capability a)) a = Inr (p, source, reason)" by blast
  have "p \<in> set (mp_profiles q)"
    using select_profile_known [OF s assms(4) False] set_eligible by auto
  from assignment_ok [OF s this assms(1,2) policy(1)] show ?thesis
    using s False by (auto simp: assign_route_def Let_def fallback_profiles_def routing_raise_def)
qed

lemma emap_faults:
  assumes "\<And>x. x \<in> set xs \<Longrightarrow> (\<exists>y. f x = Inr y) \<or> (\<exists>m. f x = Inl (Routing_Error m))"
  shows "(\<exists>ys. emap f xs = Inr ys) \<or> (\<exists>m. emap f xs = Inl (Routing_Error m))"
  using assms
proof (induction xs)
  case (Cons x xs)
  then have "(\<exists>y. f x = Inr y) \<or> (\<exists>m. f x = Inl (Routing_Error m))"
    "(\<exists>ys. emap f xs = Inr ys) \<or> (\<exists>m. emap f xs = Inl (Routing_Error m))" by simp_all
  then show ?case by auto
qed simp


text \<open>A resolution can only raise the error its callers expect. On a valid policy without repeated
  switch conditions, valid profiles and distinct Agents with names of ordinary length, and overrides
  to configured profiles, \<open>resolve_model_route_plan\<close> returns a plan or raises \<open>ModelRoutingError\<close>;
  no validator of the plan it builds rejects it.\<close>

theorem resolution_raises_only_routing_errors:
  assumes "validate_routing_policy q = Inr ()" and "routable_inputs profile_sha q agents overrides"
    and "distinct (mp_switch_conditions q)"
  shows "(\<exists>plan. resolve_model_route_plan profile_sha q agents overrides = Inr plan) \<or>
    (\<exists>m. resolve_model_route_plan profile_sha q agents overrides = Inl (Routing_Error m))"
proof -
  have policy: "distinct (profile_ids q)" "distinct (map pf_model (mp_profiles q))"
    "mp_default_profile_id q \<in> set (profile_ids q)" "ident_pattern (mp_default_profile_id q)"
    "mp_mode q = Strict \<longrightarrow> length (mp_profiles q) = 1 \<and> mp_switch_conditions q = []"
    using assms(1) by (auto simp: validate_routing_policy_def ebind_eq_Inr)
  obtain std where std: "get_profile q (mp_default_profile_id q) = Inr std"
    using get_profile_known [OF policy(3)] by blast
  then have known: "std \<in> set (mp_profiles q)" by (blast dest: get_profile_Inr)
  show ?thesis
  proof (cases "agents = [] \<or> \<not> fst ` (set overrides) \<subseteq> set (map rg_id agents)")
    case True
    then show ?thesis by (auto simp: resolve_model_route_plan_def first_error.simps)
  next
    case False
    have "(\<exists>rs. emap (assign_route q overrides std) agents = Inr rs) \<or>
        (\<exists>m. emap (assign_route q overrides std) agents = Inl (Routing_Error m))"
      by (rule emap_faults) (rule assign_route_faults [OF assms(2) _ assms(1) known])
    then consider (ok) rs where "emap (assign_route q overrides std) agents = Inr rs"
      | (bad) m where "emap (assign_route q overrides std) agents = Inl (Routing_Error m)" by blast
    then show ?thesis
    proof cases
      case bad
      then show ?thesis using False std by (simp add: resolve_model_route_plan_def routing_raise_def)
    next
      case ok
      let ?routes = "map (route_of_profile profile_sha)
          (filter (\<lambda>p. pf_id p \<in> set (used_routes q rs)) (mp_profiles q))"
      let ?plan = "\<lparr>rp_mode = mp_mode q, rp_default_route_id = mp_default_profile_id q, rp_routes = ?routes,
                 rp_assignments = rs, rp_switch_conditions = mp_switch_conditions q\<rparr>"
      have routes: "check_all (validate_model_route profile_sha) ?routes = Inr ()"
        using assms(2) profile_route_ok by (auto simp: routable_inputs_def list_all_iff)
      have all2: "list_all2 (\<lambda>a r. assign_route q overrides std a = Inr r) agents rs"
        using ok by (simp add: emap_Inr)
      have ids: "map ra_agent_id rs = map rg_id agents"
      proof -
        have "list_all2 (\<lambda>a r. rg_id a = ra_agent_id r) agents rs"
          by (rule list.rel_mono_strong [OF all2]) (auto elim!: assign_route_Inr [OF _ known])
        then show ?thesis by (auto simp: list_all2_conv_all_nth intro: nth_equalityI)
      qed
      have route: "ra_fallback_route_ids r \<noteq> [] \<longrightarrow> mp_switch_conditions q \<noteq> []"
          "set (ra_primary_route_id r # ra_fallback_route_ids r) \<subseteq> set (profile_ids q)"
        if r: "r \<in> set rs" for r
      proof -
        obtain i where "i < length rs" "rs ! i = r" using r by (auto simp: in_set_conv_nth)
        then obtain a where "assign_route q overrides std a = Inr r"
          using all2 by (auto simp: list_all2_conv_all_nth)
        from assign_route_Inr [OF this known] obtain p where "p \<in> set (mp_profiles q)"
          "ra_primary_route_id r = pf_id p"
          "ra_fallback_route_ids r = fallback_profiles q (rg_capability a) (pf_id p)" by metis
        then show "ra_fallback_route_ids r \<noteq> [] \<longrightarrow> mp_switch_conditions q \<noteq> []"
          "set (ra_primary_route_id r # ra_fallback_route_ids r) \<subseteq> set (profile_ids q)"
          using set_eligible by (auto simp: fallback_profiles_def profile_ids_def)
      qed
      have names: "map mr_id ?routes = filter (\<lambda>i. i \<in> set (used_routes q rs)) (profile_ids q)"
        by (simp add: profile_ids_def filter_map comp_def route_of_profile_def)
      have models: "distinct (map mr_model ?routes)"
        using policy(2) by (simp add: comp_def route_of_profile_def distinct_map_filter)
      have strict: "mp_mode q = Strict \<longrightarrow> length ?routes = 1"
      proof
        assume "mp_mode q = Strict"
        then obtain p where "mp_profiles q = [p]" using policy(5) by (auto simp: length_Suc_conv)
        then show "length ?routes = 1" using policy(3) by (simp add: profile_ids_def used_routes_def)
      qed
      have std_in: "mp_default_profile_id q \<in> set (map mr_id ?routes)"
        unfolding names using policy(3) by (simp add: used_routes_def)
      have inside: "set (ra_primary_route_id r # ra_fallback_route_ids r) \<subseteq> set (map mr_id ?routes)"
        if "r \<in> set rs" for r
      proof -
        have "set (ra_primary_route_id r # ra_fallback_route_ids r) \<subseteq> set (used_routes q rs)"
          using that by (auto simp: used_routes_def)
        then show ?thesis unfolding names using route(2) [OF that] by auto
      qed
      have agents: "distinct (map ra_agent_id rs)" using ids assms(2) by (simp add: routable_inputs_def)
      have distinct: "distinct (map mr_id ?routes)" unfolding names using policy(1) by simp
      have some: "?routes \<noteq> []" using std_in by (metis list.map(1) list.set(1) empty_iff)
      have known_routes: "\<not> list_ex (\<lambda>r. \<not> set (ra_primary_route_id r # ra_fallback_route_ids r) \<subseteq>
          set (map mr_id ?routes)) rs"
        unfolding list_ex_iff using inside by blast
      have fallbacks: "mp_mode q = Strict \<longrightarrow> \<not> list_ex (\<lambda>r. ra_fallback_route_ids r \<noteq> []) rs"
          "list_ex (\<lambda>r. ra_fallback_route_ids r \<noteq> []) rs \<longrightarrow> mp_switch_conditions q \<noteq> []"
        unfolding list_ex_iff using route(1) policy(5) by blast+
      have valid: "validate_route_plan ?plan = Inr ()"
        using policy(4,5) assms(3) names models strict std_in known_routes fallbacks distinct some agents
        unfolding validate_route_plan_def Let_def first_error_Inr
        by (simp del: map_map set_map list.map set_simps) (simp only: list.set ball_simps split, blast)
      have "resolve_model_route_plan profile_sha q agents overrides = Inr ?plan"
        using False std ok routes valid unfolding resolve_model_route_plan_def Let_def
        by (simp add: routing_raise_returns del: check_all_Inr)
      then show ?thesis by blast
    qed
  qed
qed


theorem resolution_raises_only_routing_errors_witness:
  "\<exists>plan. demo_resolution [Provider_Failure] = Inr plan \<or> (\<exists>m. demo_resolution [Provider_Failure] = Inl (Routing_Error m))"
proof -
  have "routable_inputs (\<lambda>_. replicate 64 (CHR ''a'')) (demo_policy [Provider_Failure])
      [demo_routable ''api'' Implementation, demo_routable ''tests'' Testing] [(''tests'', ''fast'')]"
    by code_simp
  from resolution_raises_only_routing_errors [OF demo_policy_ok(1) this]
  show ?thesis by (simp add: demo_resolution_def demo_policy_def)
qed

text \<open>The policy validator lets through what the plan validator refuses. Switch conditions need not
  be distinct in a policy, but must be in the plan: with a condition given twice every resolution
  that has built its assignments ends in a validation error, which is not the \<open>ModelRoutingError\<close>
  that Planning catches.\<close>

theorem repeated_switch_condition_raises:
  "validate_routing_policy (demo_policy [Provider_Failure, Provider_Failure]) = Inr () \<and>
   demo_resolution [Provider_Failure, Provider_Failure] =
     Inl (Routing_Fault (Value_Error ''model switch conditions must be unique''))"
proof
  show "validate_routing_policy (demo_policy [Provider_Failure, Provider_Failure]) = Inr ()"
    by (rule demo_policy_ok)
  show "demo_resolution [Provider_Failure, Provider_Failure] =
     Inl (Routing_Fault (Value_Error ''model switch conditions must be unique''))"
    by code_simp
qed

end
