(* ===== verification/Git_Snapshots.thy ===== *)
theory Git_Snapshots
  imports Prelude
begin

text \<open>
  The evidence models of \<open>git_workspace.py\<close>: the identity of an isolated workspace, the
  verified snapshot of an iteration and the progress of an unfinished one. The Git subprocess
  calls that produce the evidence are not modelled.
\<close>

definition safe_repository_path :: "string \<Rightarrow> fault + string" where
  "safe_repository_path value =
     ebind (first_error
       [(CHR 0x5C \<in> set value, Value_Error ''repository paths must use POSIX separators''),
        (\<not> safe_relative value, Value_Error ''repository paths must be safe relative paths'')])
     (\<lambda>_. Inr value)"

record git_workspace =
  gw_run_id :: string
  gw_source_repository :: string
  gw_workspace_path :: string
  gw_base_commit :: string
  gw_created_at :: int

definition validate_git_workspace :: "git_workspace \<Rightarrow> fault + unit" where
  "validate_git_workspace w = first_error
     [(\<not> run_id_pattern (gw_run_id w), Field_Invalid ''run_id''),
      (gw_source_repository w = [], Field_Invalid ''source_repository''),
      (gw_workspace_path w = [], Field_Invalid ''workspace_path''),
      (\<not> commit_pattern (gw_base_commit w), Field_Invalid ''base_commit''),
      (\<not> posix_absolute (gw_source_repository w) \<or> \<not> posix_absolute (gw_workspace_path w),
        Value_Error ''workspace paths must be absolute''),
      (gw_source_repository w = gw_workspace_path w,
        Value_Error ''source repository and workspace paths must differ'')]"

record git_snapshot =
  gs_run_id :: string
  gs_iteration :: int
  gs_input_commit :: string
  gs_output_commit :: string
  gs_commit_count :: int
  gs_changed_files :: "string list"
  gs_recorded_at :: int

definition validate_git_snapshot :: "git_snapshot \<Rightarrow> fault + unit" where
  "validate_git_snapshot s =
     ebind (first_error
       [(\<not> run_id_pattern (gs_run_id s), Field_Invalid ''run_id''),
        (gs_iteration s < 1, Field_Invalid ''iteration''),
        (\<not> commit_pattern (gs_input_commit s), Field_Invalid ''input_commit''),
        (\<not> commit_pattern (gs_output_commit s), Field_Invalid ''output_commit''),
        (gs_commit_count s < 1, Field_Invalid ''commit_count''),
        (gs_changed_files s = [], Field_Invalid ''changed_files''),
        (\<not> distinct (gs_changed_files s), Value_Error ''snapshot changed files must be unique''),
        (list_ex (\<lambda>f. f = []) (gs_changed_files s),
          Value_Error ''snapshot changed files must not be blank'')]) (\<lambda>_.
     ebind (emap safe_repository_path (gs_changed_files s)) (\<lambda>_.
     first_error
       [(gs_input_commit s = gs_output_commit s,
          Value_Error ''snapshot output commit must differ from input'')]))"

record git_progress =
  gp_input_commit :: string
  gp_current_commit :: string
  gp_commits_ahead :: int
  gp_changed_files :: "string list"
  gp_uncommitted :: bool
  gp_state_sha256 :: string

definition validate_git_progress :: "git_progress \<Rightarrow> fault + unit" where
  "validate_git_progress p =
     ebind (first_error
       [(\<not> commit_pattern (gp_input_commit p), Field_Invalid ''input_commit''),
        (\<not> commit_pattern (gp_current_commit p), Field_Invalid ''current_commit''),
        (gp_commits_ahead p < 0, Field_Invalid ''commits_ahead''),
        (\<not> sha256_pattern (gp_state_sha256 p), Field_Invalid ''state_sha256''),
        (sort (gp_changed_files p) \<noteq> gp_changed_files p \<or> \<not> distinct (gp_changed_files p),
          Value_Error ''workspace progress paths must be sorted and unique'')]) (\<lambda>_.
     ebind (emap safe_repository_path (gp_changed_files p)) (\<lambda>_.
     first_error
       [((gp_current_commit p = gp_input_commit p) \<noteq> (gp_commits_ahead p = 0),
          Value_Error ''workspace progress commit evidence is inconsistent''),
        ((0 < gp_commits_ahead p \<or> gp_uncommitted p) \<and> gp_changed_files p = [],
          Value_Error ''workspace progress requires changed paths''),
        (gp_changed_files p \<noteq> [] \<and> \<not> (0 < gp_commits_ahead p \<or> gp_uncommitted p),
          Value_Error ''unchanged workspace cannot report changed paths'')]))"

definition made_progress :: "git_progress \<Rightarrow> bool" where
  "made_progress p \<longleftrightarrow> gp_changed_files p \<noteq> []"

lemma made_progress_iff:
  "validate_git_progress p = Inr () \<Longrightarrow>
     made_progress p \<longleftrightarrow> gp_current_commit p \<noteq> gp_input_commit p \<or> gp_uncommitted p"
  by (auto simp: validate_git_progress_def made_progress_def ebind_eq_Inr)

abbreviation snapshot_evidence_ok :: "git_snapshot \<Rightarrow> bool" where
  "snapshot_evidence_ok s \<equiv> validate_git_snapshot s = Inr ()"

end
