(* ===== verification/Run_Control.thy ===== *)
theory Run_Control
  imports Fixed_Teams Git_Snapshots
begin

text \<open>
  \<open>run_control.py\<close>: the lifecycle of one run. \<open>run_transition\<close> and \<open>run_record\<close> are the
  persisted models with their validators; a \<open>run_store\<close> maps a run identifier to what its
  directory holds (task brief, team plan, record); the operations of \<open>RunStore\<close> either return
  the new store or raise and leave it unchanged (the temporary file is removed and the rename is
  the last effect).

  A controller operation loads the store, builds the updated record and hands both to
  \<open>store_replace\<close>, which loads again under the lock: \<open>prepare_...\<close> is the part before, so that the
  store may change in between. The digests of persisted models are the functions of the
  record \<open>digests\<close>, an argument of every operation.
\<close>

section \<open>Phases and transitions\<close>

datatype run_phase =
    Created | Preparing_Workspace | Planning_Phase | Implementing | Snapshotting | Verifying
  | Reviewing | Deciding | Delivering | Completed_Run | Failed_Run

datatype termination_reason =
    Succeeded | Iteration_Limit_Reached | Resource_Limit_Reached | Dependency_Unavailable
  | Artifact_Invalid | Safety_Boundary_Crossed | Repeated_Blocker | No_Relevant_Change
  | Execution_Failed | Controller_Error | User_Interrupted | User_Cancelled
  | User_Correction_Requested

definition is_terminal :: "run_phase \<Rightarrow> bool" where
  "is_terminal p \<longleftrightarrow> p = Completed_Run \<or> p = Failed_Run"

fun legal_next_phases :: "run_phase \<Rightarrow> run_phase list" where
  "legal_next_phases Created = [Preparing_Workspace]"
| "legal_next_phases Preparing_Workspace = [Planning_Phase]"
| "legal_next_phases Planning_Phase = [Implementing]"
| "legal_next_phases Implementing = [Snapshotting]"
| "legal_next_phases Snapshotting = [Verifying]"
| "legal_next_phases Verifying = [Reviewing]"
| "legal_next_phases Reviewing = [Deciding]"
| "legal_next_phases Deciding = [Implementing, Delivering]"
| "legal_next_phases Delivering = [Completed_Run]"
| "legal_next_phases Completed_Run = []"
| "legal_next_phases Failed_Run = []"

definition is_legal_transition :: "run_phase \<Rightarrow> run_phase \<Rightarrow> bool" where
  "is_legal_transition source target \<longleftrightarrow>
     target \<in> set (legal_next_phases source) \<or> (target = Failed_Run \<and> \<not> is_terminal source)"

lemma terminal_has_no_successor: "is_terminal p \<Longrightarrow> \<not> is_legal_transition p q"
  by (cases p) (auto simp: is_legal_transition_def is_terminal_def)

record run_transition =
  tr_sequence :: int
  tr_source :: run_phase
  tr_target :: run_phase
  tr_iteration_before :: int
  tr_iteration_after :: int
  tr_occurred_at :: int
  tr_reason :: string
  tr_artifacts :: "artifact_reference list"
  tr_implementation_plan_sha256 :: "string option"
  tr_decision :: "iteration_decision option"

definition required_artifacts :: "run_phase \<Rightarrow> run_phase \<Rightarrow> artifact_kind list" where
  "required_artifacts source target =
     (if target = Failed_Run then [Kind_Final_Report]
      else if source = Implementing \<and> target = Snapshotting then [Kind_Work_Result]
      else if source = Verifying \<and> target = Reviewing then [Kind_Test_Report]
      else if source = Reviewing \<and> target = Deciding then [Kind_Iteration_Record]
      else if source = Delivering \<and> target = Completed_Run then [Kind_Final_Report]
      else [])"

definition expected_decision :: "run_phase \<Rightarrow> iteration_decision" where
  "expected_decision target = (if target = Implementing then Decide_Revise else Decide_Accept)"

definition validate_transition :: "run_transition \<Rightarrow> fault + unit" where
  "validate_transition t =
     (let source = tr_source t; target = tr_target t; kinds = map ar_kind (tr_artifacts t);
          is_revision = (source = Deciding \<and> target = Implementing);
          plan_transition = (source = Planning_Phase \<and> target = Implementing)
      in first_error
       [(tr_sequence t < 1, Field_Invalid ''sequence''),
        (tr_iteration_before t < 1, Field_Invalid ''iteration_before''),
        (tr_iteration_after t < 1, Field_Invalid ''iteration_after''),
        (tr_reason t = [], Field_Invalid ''reason''),
        (\<not> opt_all sha256_pattern (tr_implementation_plan_sha256 t),
          Field_Invalid ''implementation_plan_sha256''),
        (\<not> is_legal_transition source target, Value_Error ''illegal run transition''),
        (tr_iteration_after t \<noteq> (if is_revision then tr_iteration_before t + 1
                                 else tr_iteration_before t),
          Value_Error ''only a revision transition may increment iteration''),
        (\<not> distinct (map ar_path (tr_artifacts t)),
          Value_Error ''transition artifact references must be unique''),
        (plan_transition \<and> Kind_Implementation_Plan \<in> set kinds \<and>
           tr_implementation_plan_sha256 t \<noteq> None,
          Value_Error ''planning transition cannot bind both a plan artifact and digest''),
        (\<not> plan_transition \<and> tr_implementation_plan_sha256 t \<noteq> None,
          Value_Error ''only a planning transition may bind an implementation-plan digest''),
        (\<not> set (required_artifacts source target) \<subseteq> set kinds,
          Value_Error ''transition is missing required artifacts''),
        (source = Deciding \<and> target \<noteq> Failed_Run \<and>
           tr_decision t \<noteq> Some (expected_decision target),
          Value_Error ''transition requires its decision''),
        (\<not> (source = Deciding \<and> target \<noteq> Failed_Run) \<and> tr_decision t \<noteq> None,
          Value_Error ''only decision transitions may record a decision'')])"

text \<open>The constructor strips the reason (\<open>require_clean_reason\<close>).\<close>

definition mk_transition :: "run_transition \<Rightarrow> fault + run_transition" where
  "mk_transition t =
     (if tr_reason t = [] then Inl (Field_Invalid ''reason'')
      else if py_strip (tr_reason t) = []
      then Inl (Value_Error ''transition reasons must not be blank'')
      else let u = t\<lparr>tr_reason := py_strip (tr_reason t)\<rparr>
        in ebind (validate_transition u) (\<lambda>_. Inr u))"

section \<open>Run records\<close>

record run_record =
  rr_schema_version :: int
  rr_run_id :: string
  rr_team_id :: string
  rr_team_plan_revision :: int
  rr_team_plan_sha256 :: string
  rr_agent_timeouts :: "(string \<times> int) list"
  rr_event_count :: int
  rr_event_head_sha256 :: "string option"
  rr_phase :: run_phase
  rr_current_iteration :: int
  rr_iteration_limit :: int
  rr_revision :: int
  rr_task_brief_sha256 :: string
  rr_created_at :: int
  rr_updated_at :: int
  rr_termination_reason :: "termination_reason option"
  rr_termination_detail :: "string option"
  rr_workspace :: "git_workspace option"
  rr_snapshots :: "git_snapshot list"
  rr_transitions :: "run_transition list"

definition record_fields :: "run_record \<Rightarrow> fault + unit" where
  "record_fields r = first_error
     [(rr_schema_version r \<noteq> 6, Field_Invalid ''schema_version''),
      (\<not> run_id_pattern (rr_run_id r), Field_Invalid ''run_id''),
      (\<not> ident_pattern (rr_team_id r), Field_Invalid ''team_id''),
      (rr_team_plan_revision r < 1, Field_Invalid ''team_plan_revision''),
      (\<not> sha256_pattern (rr_team_plan_sha256 r), Field_Invalid ''team_plan_sha256''),
      (rr_event_count r < 0, Field_Invalid ''event_count''),
      (\<not> opt_all sha256_pattern (rr_event_head_sha256 r), Field_Invalid ''event_head_sha256''),
      (rr_current_iteration r < 1, Field_Invalid ''current_iteration''),
      (rr_iteration_limit r < 1, Field_Invalid ''iteration_limit''),
      (rr_revision r < 0, Field_Invalid ''revision''),
      (\<not> sha256_pattern (rr_task_brief_sha256 r), Field_Invalid ''task_brief_sha256''),
      (rr_agent_timeouts r = [] \<or> list_ex (\<lambda>(a, s). \<not> ident_pattern a) (rr_agent_timeouts r),
        Value_Error ''Agent timeout keys must be valid Agent IDs''),
      (list_ex (\<lambda>(a, s). s < 0) (rr_agent_timeouts r),
        Value_Error ''Agent invocation wall-clock limits must be between 0 and 86400''),
      ((rr_event_count r = 0) \<noteq> (rr_event_head_sha256 r = None),
        Value_Error ''run event count and head digest must agree''),
      (rr_iteration_limit r < rr_current_iteration r,
        Value_Error ''current iteration exceeds the run iteration limit''),
      (rr_updated_at r < rr_created_at r, Value_Error ''updated_at cannot precede created_at''),
      (rr_revision r \<noteq> int (length (rr_transitions r)),
        Value_Error ''run revision must equal the transition count'')]"

text \<open>The nested models are validated with the record.\<close>

definition check_nested :: "run_record \<Rightarrow> fault + unit" where
  "check_nested r =
     ebind (case rr_workspace r of None \<Rightarrow> Inr () | Some w \<Rightarrow> validate_git_workspace w) (\<lambda>_.
     ebind (check_all validate_git_snapshot (rr_snapshots r)) (\<lambda>_.
     check_all validate_transition (rr_transitions r)))"

text \<open>The loop over the transition history: the state of the loop is the expected source and
  iteration, the previous time and the artifact paths seen so far.\<close>

record history_state =
  hs_sequence :: int
  hs_source :: run_phase
  hs_iteration :: int
  hs_time :: int
  hs_paths :: "string set"

definition history_step :: "int \<Rightarrow> run_transition \<Rightarrow> history_state \<Rightarrow> fault + history_state" where
  "history_step updated_at t h =
     ebind (first_error
       [(tr_sequence t \<noteq> hs_sequence h, Value_Error ''transition sequences must be contiguous''),
        (tr_source t \<noteq> hs_source h, Value_Error ''transition history must form one phase chain''),
        (tr_iteration_before t \<noteq> hs_iteration h,
          Value_Error ''transition history must form one iteration chain''),
        (tr_occurred_at t < hs_time h, Value_Error ''transition timestamps must be monotonic''),
        (updated_at < tr_occurred_at t, Value_Error ''a transition cannot occur after updated_at''),
        (hs_paths h \<inter> set (map ar_path (tr_artifacts t)) \<noteq> {},
          Value_Error ''run history cannot reference an artifact twice'')])
     (\<lambda>_. Inr \<lparr>hs_sequence = hs_sequence h + 1, hs_source = tr_target t,
              hs_iteration = tr_iteration_after t, hs_time = tr_occurred_at t,
              hs_paths = hs_paths h \<union> set (map ar_path (tr_artifacts t))\<rparr>)"

definition history_start :: "run_record \<Rightarrow> history_state" where
  "history_start r = \<lparr>hs_sequence = 1, hs_source = Created, hs_iteration = 1,
     hs_time = rr_created_at r, hs_paths = {}\<rparr>"

definition check_history :: "run_record \<Rightarrow> fault + history_state" where
  "check_history r = efold (history_step (rr_updated_at r)) (rr_transitions r) (history_start r)"

definition before_workspace :: "run_phase \<Rightarrow> bool" where
  "before_workspace p \<longleftrightarrow> p = Created \<or> p = Preparing_Workspace"

definition before_snapshot :: "run_phase \<Rightarrow> bool" where
  "before_snapshot p \<longleftrightarrow> p = Planning_Phase \<or> p = Implementing \<or> p = Snapshotting"

definition after_snapshot :: "run_phase \<Rightarrow> bool" where
  "after_snapshot p \<longleftrightarrow>
     p = Verifying \<or> p = Reviewing \<or> p = Deciding \<or> p = Delivering \<or> p = Completed_Run"

definition check_workspace :: "run_record \<Rightarrow> fault + unit" where
  "check_workspace r = first_error
     [(\<not> opt_all (\<lambda>w. gw_run_id w = rr_run_id r) (rr_workspace r),
        Value_Error ''workspace run ID must match the run record''),
      (before_workspace (rr_phase r) \<and> rr_workspace r \<noteq> None,
        Value_Error ''workspace cannot exist before preparation completes''),
      (\<not> before_workspace (rr_phase r) \<and> rr_phase r \<noteq> Failed_Run \<and> rr_workspace r = None,
        Value_Error ''run phase requires attached workspace evidence''),
      (rr_snapshots r \<noteq> [] \<and> rr_workspace r = None,
        Value_Error ''snapshots require attached workspace evidence'')]"

fun check_snapshots :: "string \<Rightarrow> int \<Rightarrow> string option \<Rightarrow> git_snapshot list \<Rightarrow> fault + unit" where
  "check_snapshots run_id iteration expected [] = Inr ()"
| "check_snapshots run_id iteration expected (s # rest) =
     ebind (first_error
       [(gs_run_id s \<noteq> run_id, Value_Error ''snapshot run ID must match the run record''),
        (gs_iteration s \<noteq> iteration, Value_Error ''snapshot iterations must be contiguous''),
        (Some (gs_input_commit s) \<noteq> expected, Value_Error ''snapshot commits must form one chain'')])
     (\<lambda>_. check_snapshots run_id (iteration + 1) (Some (gs_output_commit s)) rest)"

definition check_snapshot_counts :: "run_record \<Rightarrow> fault + unit" where
  "check_snapshot_counts r =
     (let n = int (length (rr_snapshots r)); i = rr_current_iteration r in first_error
       [(i < n, Value_Error ''snapshot count exceeds the current iteration''),
        (before_snapshot (rr_phase r) \<and> n \<noteq> i - 1,
          Value_Error ''current iteration cannot already have a snapshot''),
        (after_snapshot (rr_phase r) \<and> n \<noteq> i,
          Value_Error ''run phase requires a snapshot for the current iteration'')])"

text \<open>\<open>self.transitions[-1]\<close> of a failed run without transitions would be an \<open>IndexError\<close>; the phase
  check before it excludes that case.\<close>

definition check_failed_run :: "run_record \<Rightarrow> fault + unit" where
  "check_failed_run r =
     (if rr_phase r \<noteq> Failed_Run then Inr ()
      else if rr_transitions r = [] then Inl (Key_Missing ''transitions'')
      else let source = tr_source (last (rr_transitions r));
               n = int (length (rr_snapshots r)); i = rr_current_iteration r
        in first_error
         [(before_workspace source \<and> (rr_workspace r \<noteq> None \<or> rr_snapshots r \<noteq> []),
            Value_Error ''early workspace failure cannot contain workspace evidence''),
          (\<not> before_workspace source \<and> rr_workspace r = None,
            Value_Error ''failed run is missing prior workspace evidence''),
          (\<not> before_workspace source \<and> n \<noteq> (if after_snapshot source then i else i - 1),
            Value_Error ''failed run snapshot history does not match its source phase'')])"

definition check_termination :: "run_record \<Rightarrow> fault + unit" where
  "check_termination r = first_error
     [(rr_phase r = Completed_Run \<and> rr_termination_reason r \<noteq> Some Succeeded,
        Value_Error ''completed runs require the succeeded reason''),
      (rr_phase r = Failed_Run \<and>
         (rr_termination_reason r = None \<or> rr_termination_reason r = Some Succeeded),
        Value_Error ''failed runs require a failure reason''),
      (\<not> is_terminal (rr_phase r) \<and>
         (rr_termination_reason r \<noteq> None \<or> rr_termination_detail r \<noteq> None),
        Value_Error ''non-terminal runs cannot contain termination metadata''),
      (is_terminal (rr_phase r) \<and> rr_termination_detail r = None,
        Value_Error ''terminal runs require termination detail'')]"

definition validate_run_record :: "run_record \<Rightarrow> fault + unit" where
  "validate_run_record r =
     ebind (check_nested r) (\<lambda>_. ebind (record_fields r) (\<lambda>_.
     ebind (check_history r) (\<lambda>h.
     ebind (first_error
       [(rr_phase r \<noteq> hs_source h, Value_Error ''current phase must match the transition history''),
        (rr_current_iteration r \<noteq> hs_iteration h,
          Value_Error ''current iteration must match the transition history'')]) (\<lambda>_.
     ebind (check_workspace r) (\<lambda>_.
     ebind (check_snapshots (rr_run_id r) 1 (map_option gw_base_commit (rr_workspace r))
              (rr_snapshots r)) (\<lambda>_.
     ebind (check_snapshot_counts r) (\<lambda>_.
     ebind (check_failed_run r) (\<lambda>_. check_termination r))))))))"

text \<open>The constructor: the termination detail is stripped, the timeouts are sorted by Agent.\<close>

definition mk_run_record :: "run_record \<Rightarrow> fault + run_record" where
  "mk_run_record r =
     (if \<not> opt_all (\<lambda>d. py_strip d \<noteq> []) (rr_termination_detail r)
      then Inl (Value_Error ''termination detail must not be blank'')
      else let u = r\<lparr>rr_termination_detail := map_option py_strip (rr_termination_detail r),
                     rr_agent_timeouts := sort_key fst (rr_agent_timeouts r)\<rparr>
        in ebind (validate_run_record u) (\<lambda>_. Inr u))"

definition current_commit :: "run_record \<Rightarrow> string option" where
  "current_commit r =
     (if rr_snapshots r \<noteq> [] then Some (gs_output_commit (last (rr_snapshots r)))
      else map_option gw_base_commit (rr_workspace r))"

definition artifact_references :: "run_record \<Rightarrow> artifact_reference list" where
  "artifact_references r = concat (map tr_artifacts (rr_transitions r))"

section \<open>The store\<close>

datatype run_error =
    Run_Already_Exists | Run_Not_Found | Run_Directory_Missing | Run_Conflict string | Run_Integrity string
  | Invalid_Transition string | Run_Control_Error string | Invalid_Record fault

record digests =
  dg_brief :: "task_brief \<Rightarrow> string"
  dg_plan :: "team_plan \<Rightarrow> string"
  dg_team :: "team_definition \<Rightarrow> string"
  dg_profile :: "runtime_profile \<Rightarrow> string"

record stored_run =
  sr_brief :: task_brief
  sr_plan :: team_plan
  sr_record :: run_record

type_synonym run_store = "string \<Rightarrow> stored_run option"

definition store_create ::
    "digests \<Rightarrow> run_store \<Rightarrow> task_brief \<Rightarrow> team_plan \<Rightarrow> run_record \<Rightarrow> run_error + run_store" where
  "store_create d s brief plan r =
     ebind (first_error
       [(\<not> tb_confirmed brief, Run_Integrity ''a run requires a confirmed task brief''),
        (tb_run_id brief \<noteq> rr_run_id r, Run_Integrity ''task brief and run record IDs must match''),
        (tp_run_id plan \<noteq> rr_run_id r, Run_Integrity ''team plan and run record IDs must match''),
        (dg_brief d brief \<noteq> rr_task_brief_sha256 r,
          Run_Integrity ''task brief digest does not match the run record''),
        (tp_task_brief_sha256 plan \<noteq> rr_task_brief_sha256 r,
          Run_Integrity ''team plan does not bind the frozen task brief''),
        (dg_plan d plan \<noteq> rr_team_plan_sha256 r,
          Run_Integrity ''team plan digest does not match the run record''),
        (\<not> run_id_pattern (rr_run_id r), Run_Control_Error ''invalid run ID''),
        (s (rr_run_id r) \<noteq> None, Run_Already_Exists)])
     (\<lambda>_. Inr (s(rr_run_id r \<mapsto> \<lparr>sr_brief = brief, sr_plan = plan, sr_record = r\<rparr>)))"

definition planning_boundary :: "team_plan \<Rightarrow> run_transition \<Rightarrow> run_error + unit" where
  "planning_boundary plan t =
     (if \<not> (tr_source t = Planning_Phase \<and> tr_target t = Implementing) then Inr ()
      else first_error
       [(tp_origin plan = Adaptive_Planning \<and>
           tr_implementation_plan_sha256 t \<noteq> tp_implementation_plan_sha256 plan,
          Run_Integrity ''planning transition differs from the approved implementation plan''),
        (tp_origin plan \<noteq> Adaptive_Planning \<and> tr_implementation_plan_sha256 t \<noteq> None,
          Run_Integrity ''fixed planning transition cannot claim an adaptive digest''),
        (tp_team_id plan = ''single_agent'' \<and> tr_artifacts t \<noteq> [],
          Run_Integrity ''single-agent baseline cannot claim a planning artifact''),
        (tp_team_id plan \<noteq> ''single_agent'' \<and> tp_origin plan = Fixed_Manifest \<and>
           Kind_Implementation_Plan \<notin> set (map ar_kind (tr_artifacts t)),
          Run_Integrity ''fixed team planning transition lacks its plan artifact'')])"

definition validate_transition_plan_boundary :: "team_plan \<Rightarrow> run_record \<Rightarrow> run_error + unit" where
  "validate_transition_plan_boundary plan r = check_all (planning_boundary plan) (rr_transitions r)"

definition store_load :: "digests \<Rightarrow> run_store \<Rightarrow> string \<Rightarrow> run_error + stored_run" where
  "store_load d s run_id =
     (if \<not> run_id_pattern run_id then Inl (Run_Control_Error ''invalid run ID'')
      else case s run_id of
        None \<Rightarrow> Inl Run_Not_Found
      | Some run \<Rightarrow>
          (let brief = sr_brief run; plan = sr_plan run; r = sr_record run in
           ebind (first_error
             [(\<not> tb_confirmed brief, Run_Integrity ''persisted task brief is not confirmed''),
              (tb_run_id brief \<noteq> run_id \<or> rr_run_id r \<noteq> run_id,
                Run_Integrity ''persisted run ID does not match its directory''),
              (tp_run_id plan \<noteq> run_id, Run_Integrity ''persisted team plan run ID does not match''),
              (dg_brief d brief \<noteq> rr_task_brief_sha256 r,
                Run_Integrity ''persisted task brief digest does not match''),
              (tp_task_brief_sha256 plan \<noteq> rr_task_brief_sha256 r,
                Run_Integrity ''persisted TeamPlan binds a different task brief''),
              (dg_plan d plan \<noteq> rr_team_plan_sha256 r,
                Run_Integrity ''persisted team plan digest does not match'')]) (\<lambda>_.
           ebind (validate_transition_plan_boundary plan r) (\<lambda>_. Inr run))))"

definition same_identity :: "run_record \<Rightarrow> run_record \<Rightarrow> bool" where
  "same_identity a b \<longleftrightarrow>
     rr_schema_version a = rr_schema_version b \<and> rr_run_id a = rr_run_id b \<and>
     rr_team_id a = rr_team_id b \<and> rr_team_plan_revision a = rr_team_plan_revision b \<and>
     rr_team_plan_sha256 a = rr_team_plan_sha256 b \<and> rr_agent_timeouts a = rr_agent_timeouts b \<and>
     rr_iteration_limit a = rr_iteration_limit b \<and>
     rr_task_brief_sha256 a = rr_task_brief_sha256 b \<and> rr_created_at a = rr_created_at b"

definition same_events :: "run_record \<Rightarrow> run_record \<Rightarrow> bool" where
  "same_events a b \<longleftrightarrow>
     rr_event_count a = rr_event_count b \<and> rr_event_head_sha256 a = rr_event_head_sha256 b"

definition validate_replacement :: "run_record \<Rightarrow> run_record \<Rightarrow> run_error + unit" where
  "validate_replacement previous updated =
     (let latest = last (rr_transitions updated);
          enters_planning = (tr_source latest = Preparing_Workspace \<and> tr_target latest = Planning_Phase);
          enters_verifying = (tr_source latest = Snapshotting \<and> tr_target latest = Verifying);
          old = rr_snapshots previous; new = rr_snapshots updated
      in first_error
       [(\<not> (same_identity previous updated \<and> same_events previous updated),
          Run_Integrity ''immutable run metadata cannot change''),
        (rr_revision updated \<noteq> rr_revision previous + 1,
          Run_Integrity ''a run update must increment revision once''),
        (length (rr_transitions updated) \<noteq> length (rr_transitions previous) + 1,
          Run_Integrity ''a run update must append one transition''),
        (butlast (rr_transitions updated) \<noteq> rr_transitions previous,
          Run_Integrity ''existing transition history cannot change''),
        (tr_source latest \<noteq> rr_phase previous,
          Run_Integrity ''new transition must start at the persisted phase''),
        (tr_iteration_before latest \<noteq> rr_current_iteration previous,
          Run_Integrity ''new transition must start at the persisted iteration''),
        (rr_workspace previous \<noteq> rr_workspace updated \<and>
           \<not> (rr_workspace previous = None \<and> rr_workspace updated \<noteq> None \<and> enters_planning),
          Run_Integrity ''workspace metadata cannot be replaced''),
        (rr_workspace previous = rr_workspace updated \<and> enters_planning,
          Run_Integrity ''planning transition must attach a workspace''),
        (old \<noteq> new \<and> \<not> (length new = length old + 1 \<and> butlast new = old \<and> enters_verifying),
          Run_Integrity ''snapshot history must append exactly once''),
        (old = new \<and> enters_verifying,
          Run_Integrity ''verification transition must attach a snapshot'')])"

definition store_write :: "run_store \<Rightarrow> stored_run \<Rightarrow> run_record \<Rightarrow> run_store" where
  "store_write s run updated = s(rr_run_id updated \<mapsto> run\<lparr>sr_record := updated\<rparr>)"

text \<open>\<open>replace\<close> and \<open>replace_event_head\<close> load the run under the lock of its directory; opening the lock
  file in a directory that does not exist raises \<open>FileNotFoundError\<close> before anything is loaded.\<close>

definition locked_load :: "digests \<Rightarrow> run_store \<Rightarrow> string \<Rightarrow> run_error + stored_run" where
  "locked_load d s run_id =
     (if run_id_pattern run_id \<and> s run_id = None then Inl Run_Directory_Missing
      else store_load d s run_id)"

lemma locked_load_Inr [simp]: "locked_load d s k = Inr run \<longleftrightarrow> store_load d s k = Inr run"
  by (auto simp: locked_load_def store_load_def)

definition store_replace ::
    "digests \<Rightarrow> run_store \<Rightarrow> run_record \<Rightarrow> run_record \<Rightarrow> run_error + run_store" where
  "store_replace d s previous updated =
     ebind (locked_load d s (rr_run_id previous)) (\<lambda>run.
     ebind (first_error
       [(rr_revision (sr_record run) \<noteq> rr_revision previous, Run_Conflict ''run revision conflict''),
        (sr_record run \<noteq> previous,
          Run_Conflict ''persisted run differs from the expected record'')]) (\<lambda>_.
     ebind (validate_replacement previous updated) (\<lambda>_.
     ebind (validate_transition_plan_boundary (sr_plan run) updated) (\<lambda>_.
       Inr (store_write s run updated)))))"

definition same_lifecycle :: "run_record \<Rightarrow> run_record \<Rightarrow> bool" where
  "same_lifecycle a b \<longleftrightarrow>
     same_identity a b \<and> rr_phase a = rr_phase b \<and>
     rr_current_iteration a = rr_current_iteration b \<and> rr_revision a = rr_revision b \<and>
     rr_termination_reason a = rr_termination_reason b \<and>
     rr_termination_detail a = rr_termination_detail b \<and> rr_workspace a = rr_workspace b \<and>
     rr_snapshots a = rr_snapshots b \<and> rr_transitions a = rr_transitions b"

definition store_replace_event_head ::
    "digests \<Rightarrow> run_store \<Rightarrow> run_record \<Rightarrow> run_record \<Rightarrow> run_error + run_store" where
  "store_replace_event_head d s previous updated =
     ebind (locked_load d s (rr_run_id previous)) (\<lambda>run.
     ebind (first_error
       [(sr_record run \<noteq> previous,
          Run_Conflict ''persisted run changed before its RunEvent was anchored''),
        (\<not> same_lifecycle previous updated,
          Run_Integrity ''RunEvent anchoring cannot change lifecycle state''),
        (rr_event_count updated \<noteq> rr_event_count previous + 1,
          Run_Integrity ''RunEvent count must increment exactly once''),
        (rr_event_head_sha256 updated = None,
          Run_Integrity ''RunEvent anchoring requires a head digest''),
        (rr_updated_at updated < rr_updated_at previous,
          Run_Integrity ''RunEvent timestamp predates run state'')]) (\<lambda>_.
       Inr (store_write s run updated)))"

section \<open>The controller\<close>

definition as_utc :: "datetime \<Rightarrow> run_error + int" where
  "as_utc t = (case require_utc (Value_Error ''run timestamps must include a timezone'') t of
     Inl e \<Rightarrow> Inl (Invalid_Record e) | Inr x \<Rightarrow> Inr x)"

definition validated :: "fault + 'a \<Rightarrow> run_error + 'a" where
  "validated m = (case m of Inl e \<Rightarrow> Inl (Invalid_Record e) | Inr x \<Rightarrow> Inr x)"

definition plan_timeouts :: "team_plan \<Rightarrow> (string \<times> int) list" where
  "plan_timeouts plan = map (\<lambda>a. (as_id a, as_timeout_seconds a)) (tp_agents plan)"

definition check_provenance :: "digests \<Rightarrow> team_manifest option \<Rightarrow> team_plan \<Rightarrow> run_error + unit" where
  "check_provenance d manifest plan =
     (if tp_origin plan \<noteq> Fixed_Manifest then Inr ()
      else case manifest of
        None \<Rightarrow> Inl (Run_Integrity ''fixed TeamPlan requires its source manifest'')
      | Some m \<Rightarrow>
          (case validate_fixed_team_plan (dg_profile d) (dg_team d) plan m of
             Inl e \<Rightarrow> Inl (Run_Integrity ''TeamPlan provenance is invalid'')
           | Inr _ \<Rightarrow> Inr ()))"

definition check_plan_boundary ::
    "digests \<Rightarrow> team_manifest option \<Rightarrow> team_plan \<Rightarrow> run_record \<Rightarrow> run_error + unit" where
  "check_plan_boundary d manifest plan r =
     ebind (check_provenance d manifest plan) (\<lambda>_. first_error
       [(rr_team_id r \<noteq> tp_team_id plan,
          Run_Integrity ''persisted run uses a different TeamPlan team''),
        (rr_team_plan_revision r \<noteq> tp_revision plan,
          Run_Integrity ''persisted run uses a different TeamPlan revision''),
        (rr_team_plan_sha256 r \<noteq> dg_plan d plan,
          Run_Integrity ''persisted run uses a different TeamPlan digest''),
        (rr_iteration_limit r \<noteq> tp_iteration_limit plan,
          Run_Integrity ''persisted iteration limit differs from TeamPlan''),
        (rr_agent_timeouts r \<noteq> sort_key fst (plan_timeouts plan),
          Run_Integrity ''persisted Agent timeouts differ from TeamPlan'')])"

definition controller_create ::
    "digests \<Rightarrow> team_manifest option \<Rightarrow> datetime \<Rightarrow> run_store \<Rightarrow> task_brief \<Rightarrow> team_plan \<Rightarrow>
     run_error + (run_store \<times> run_record)" where
  "controller_create d manifest clock s brief plan =
     ebind (first_error
       [(\<not> tb_confirmed brief, Run_Control_Error ''a run requires a confirmed task brief''),
        (tp_run_id plan \<noteq> tb_run_id brief,
          Run_Control_Error ''TeamPlan run ID must match the confirmed task''),
        (tp_task_brief_sha256 plan \<noteq> dg_brief d brief,
          Run_Control_Error ''TeamPlan must bind the confirmed task brief'')]) (\<lambda>_.
     ebind (check_provenance d manifest plan) (\<lambda>_.
     ebind (as_utc clock) (\<lambda>now.
     ebind (validated (mk_run_record
       \<lparr>rr_schema_version = 6, rr_run_id = tb_run_id brief, rr_team_id = tp_team_id plan,
        rr_team_plan_revision = tp_revision plan, rr_team_plan_sha256 = dg_plan d plan,
        rr_agent_timeouts = plan_timeouts plan, rr_event_count = 0, rr_event_head_sha256 = None,
        rr_phase = Created, rr_current_iteration = 1, rr_iteration_limit = tp_iteration_limit plan,
        rr_revision = 0, rr_task_brief_sha256 = dg_brief d brief, rr_created_at = now,
        rr_updated_at = now, rr_termination_reason = None, rr_termination_detail = None,
        rr_workspace = None, rr_snapshots = [], rr_transitions = []\<rparr>)) (\<lambda>r.
     ebind (store_create d s brief plan r) (\<lambda>s2. Inr (s2, r))))))"

definition controller_load ::
    "digests \<Rightarrow> team_manifest option \<Rightarrow> run_store \<Rightarrow> string \<Rightarrow> run_error + run_record" where
  "controller_load d manifest s run_id =
     ebind (store_load d s run_id) (\<lambda>run.
     ebind (check_plan_boundary d manifest (sr_plan run) (sr_record run)) (\<lambda>_. Inr (sr_record run)))"

definition load_expected ::
    "digests \<Rightarrow> team_manifest option \<Rightarrow> run_store \<Rightarrow> string \<Rightarrow> int \<Rightarrow> run_error + (team_plan \<times> run_record)" where
  "load_expected d manifest s run_id expected =
     ebind (store_load d s run_id) (\<lambda>run.
     ebind (check_plan_boundary d manifest (sr_plan run) (sr_record run)) (\<lambda>_.
     ebind (first_error
       [(rr_revision (sr_record run) \<noteq> expected, Run_Conflict ''run revision conflict''),
        (is_terminal (rr_phase (sr_record run)),
          Invalid_Transition ''terminal runs cannot transition again'')]) (\<lambda>_.
       Inr (sr_plan run, sr_record run))))"

text \<open>The arguments of \<open>_transition\<close>; \<open>record_updates\<close> can only set the workspace or the
  snapshots.\<close>

record transition_request =
  rq_target :: run_phase
  rq_iteration_after :: int
  rq_reason :: string
  rq_artifacts :: "artifact_reference list"
  rq_plan_sha256 :: "string option"
  rq_decision :: "iteration_decision option"
  rq_termination_reason :: "termination_reason option"
  rq_termination_detail :: "string option"
  rq_workspace :: "git_workspace option"
  rq_snapshot :: "git_snapshot option"

definition plain_request :: "run_phase \<Rightarrow> int \<Rightarrow> string \<Rightarrow> transition_request" where
  "plain_request target iteration reason =
     \<lparr>rq_target = target, rq_iteration_after = iteration, rq_reason = reason, rq_artifacts = [],
      rq_plan_sha256 = None, rq_decision = None, rq_termination_reason = None,
      rq_termination_detail = None, rq_workspace = None, rq_snapshot = None\<rparr>"

definition updated_record :: "run_record \<Rightarrow> int \<Rightarrow> transition_request \<Rightarrow> run_transition \<Rightarrow> run_record" where
  "updated_record current now q t =
     current\<lparr>rr_phase := rq_target q, rr_current_iteration := rq_iteration_after q,
       rr_revision := rr_revision current + 1, rr_updated_at := now,
       rr_termination_reason := rq_termination_reason q,
       rr_termination_detail := rq_termination_detail q,
       rr_transitions := rr_transitions current @ [t],
       rr_workspace := (if rq_workspace q = None then rr_workspace current else rq_workspace q),
       rr_snapshots := rr_snapshots current @ (case rq_snapshot q of None \<Rightarrow> [] | Some x \<Rightarrow> [x])\<rparr>"

definition build_transition ::
    "datetime \<Rightarrow> run_record \<Rightarrow> transition_request \<Rightarrow> run_error + (run_record \<times> run_record)" where
  "build_transition clock current q =
     ebind (as_utc clock) (\<lambda>now.
     ebind (first_error
       [(now < rr_updated_at current, Run_Control_Error ''controller clock moved backwards'')]) (\<lambda>_.
     ebind (validated (mk_transition
       \<lparr>tr_sequence = rr_revision current + 1, tr_source = rr_phase current,
        tr_target = rq_target q, tr_iteration_before = rr_current_iteration current,
        tr_iteration_after = rq_iteration_after q, tr_occurred_at = now, tr_reason = rq_reason q,
        tr_artifacts = rq_artifacts q, tr_implementation_plan_sha256 = rq_plan_sha256 q,
        tr_decision = rq_decision q\<rparr>)) (\<lambda>t.
     ebind (validated (mk_run_record (updated_record current now q t))) (\<lambda>updated.
       Inr (current, updated)))))"

definition commit_transition ::
    "digests \<Rightarrow> run_store \<Rightarrow> run_error + (run_record \<times> run_record) \<Rightarrow>
     run_error + (run_store \<times> run_record)" where
  "commit_transition d s prepared =
     ebind prepared (\<lambda>(current, updated).
     ebind (store_replace d s current updated) (\<lambda>s2. Inr (s2, updated)))"

definition prepare_advance ::
    "digests \<Rightarrow> team_manifest option \<Rightarrow> datetime \<Rightarrow> run_store \<Rightarrow> string \<Rightarrow> int \<Rightarrow> run_phase \<Rightarrow> string \<Rightarrow>
     artifact_reference list \<Rightarrow> string option \<Rightarrow> iteration_decision option \<Rightarrow>
     run_error + (run_record \<times> run_record)" where
  "prepare_advance d manifest clock s run_id expected target reason artifacts plan_sha decision =
     (if is_terminal target
      then Inl (Invalid_Transition ''use complete() or fail() for terminal transitions'')
      else ebind (load_expected d manifest s run_id expected) (\<lambda>(plan, current).
       let phase = rr_phase current;
           planning = (phase = Planning_Phase \<and> target = Implementing);
           revision = (phase = Deciding \<and> target = Implementing)
       in ebind (first_error
        [(phase = Preparing_Workspace \<and> target = Planning_Phase,
           Invalid_Transition ''use attach_workspace() to enter planning''),
         (phase = Snapshotting \<and> target = Verifying,
           Invalid_Transition ''use record_snapshot() to enter verification''),
         (\<not> is_legal_transition phase target, Invalid_Transition ''illegal run transition''),
         (planning \<and> tp_origin plan = Adaptive_Planning \<and>
            plan_sha \<noteq> tp_implementation_plan_sha256 plan,
           Run_Integrity ''implementation-plan digest differs from the approved TeamPlan''),
         (planning \<and> tp_origin plan \<noteq> Adaptive_Planning \<and> plan_sha \<noteq> None,
           Run_Integrity ''fixed TeamPlan cannot start from an adaptive plan digest''),
         (planning \<and> tp_team_id plan = ''single_agent'' \<and> artifacts \<noteq> [],
           Run_Integrity ''single-agent baseline cannot claim a plan''),
         (planning \<and> tp_team_id plan \<noteq> ''single_agent'' \<and>
            Kind_Implementation_Plan \<notin> set (map ar_kind artifacts) \<and>
            tp_origin plan = Fixed_Manifest,
           Run_Integrity ''fixed team requires a planning artifact''),
         (\<not> planning \<and> plan_sha \<noteq> None,
           Invalid_Transition ''implementation-plan digest is valid only when planning starts''),
         (revision \<and> rr_iteration_limit current \<le> rr_current_iteration current,
           Invalid_Transition ''run iteration limit prevents another revision'')]) (\<lambda>_.
        build_transition clock current
          ((plain_request target
              (rr_current_iteration current + (if revision then 1 else 0)) reason)
            \<lparr>rq_artifacts := artifacts, rq_plan_sha256 := plan_sha, rq_decision := decision\<rparr>))))"

definition prepare_attach_workspace ::
    "digests \<Rightarrow> team_manifest option \<Rightarrow> datetime \<Rightarrow> run_store \<Rightarrow> string \<Rightarrow> int \<Rightarrow> git_workspace \<Rightarrow> string \<Rightarrow>
     run_error + (run_record \<times> run_record)" where
  "prepare_attach_workspace d manifest clock s run_id expected workspace reason =
     ebind (load_expected d manifest s run_id expected) (\<lambda>(plan, current).
     ebind (first_error
       [(rr_phase current \<noteq> Preparing_Workspace, Invalid_Transition ''cannot attach a workspace''),
        (gw_run_id workspace \<noteq> rr_run_id current,
          Run_Integrity ''workspace belongs to a different run'')]) (\<lambda>_.
     build_transition clock current
       ((plain_request Planning_Phase (rr_current_iteration current) reason)
         \<lparr>rq_workspace := Some workspace\<rparr>)))"

definition prepare_record_snapshot ::
    "digests \<Rightarrow> team_manifest option \<Rightarrow> datetime \<Rightarrow> run_store \<Rightarrow> string \<Rightarrow> int \<Rightarrow> git_snapshot \<Rightarrow> string \<Rightarrow>
     run_error + (run_record \<times> run_record)" where
  "prepare_record_snapshot d manifest clock s run_id expected snapshot reason =
     ebind (load_expected d manifest s run_id expected) (\<lambda>(plan, current).
     ebind (first_error
       [(rr_phase current \<noteq> Snapshotting, Invalid_Transition ''cannot record a snapshot''),
        (gs_run_id snapshot \<noteq> rr_run_id current,
          Run_Integrity ''snapshot belongs to a different run''),
        (gs_iteration snapshot \<noteq> rr_current_iteration current,
          Run_Integrity ''snapshot iteration does not match the run''),
        (Some (gs_input_commit snapshot) \<noteq> current_commit current,
          Run_Integrity ''snapshot input does not match the current commit'')]) (\<lambda>_.
     build_transition clock current
       ((plain_request Verifying (rr_current_iteration current) reason)
         \<lparr>rq_snapshot := Some snapshot\<rparr>)))"

definition prepare_complete ::
    "digests \<Rightarrow> team_manifest option \<Rightarrow> datetime \<Rightarrow> run_store \<Rightarrow> string \<Rightarrow> int \<Rightarrow> string \<Rightarrow>
     artifact_reference \<Rightarrow> run_error + (run_record \<times> run_record)" where
  "prepare_complete d manifest clock s run_id expected detail final_report =
     ebind (load_expected d manifest s run_id expected) (\<lambda>(plan, current).
     ebind (first_error
       [(rr_phase current \<noteq> Delivering, Invalid_Transition ''cannot complete a run'')]) (\<lambda>_.
     build_transition clock current
       ((plain_request Completed_Run (rr_current_iteration current) ''delivery completed'')
         \<lparr>rq_artifacts := [final_report], rq_termination_reason := Some Succeeded,
          rq_termination_detail := Some detail\<rparr>)))"

definition prepare_fail ::
    "digests \<Rightarrow> team_manifest option \<Rightarrow> datetime \<Rightarrow> run_store \<Rightarrow> string \<Rightarrow> int \<Rightarrow> termination_reason \<Rightarrow>
     string \<Rightarrow> artifact_reference \<Rightarrow> run_error + (run_record \<times> run_record)" where
  "prepare_fail d manifest clock s run_id expected reason detail final_report =
     (if reason = Succeeded
      then Inl (Invalid_Transition ''failure cannot use the succeeded reason'')
      else ebind (load_expected d manifest s run_id expected) (\<lambda>(plan, current).
        build_transition clock current
          ((plain_request Failed_Run (rr_current_iteration current) detail)
            \<lparr>rq_artifacts := [final_report], rq_termination_reason := Some reason,
             rq_termination_detail := Some detail\<rparr>)))"

definition prepare_event_head ::
    "digests \<Rightarrow> team_manifest option \<Rightarrow> run_store \<Rightarrow> string \<Rightarrow> int \<Rightarrow> string \<Rightarrow> datetime \<Rightarrow>
     run_error + (run_record \<times> run_record)" where
  "prepare_event_head d manifest s run_id event_sequence event_sha256 occurred_at =
     (if \<not> sha256_pattern event_sha256
      then Inl (Run_Integrity ''RunEvent head digest is invalid'')
      else ebind (controller_load d manifest s run_id) (\<lambda>current.
       ebind (first_error
         [(event_sequence \<noteq> rr_event_count current + 1, Run_Conflict ''RunEvent sequence conflict'')])
         (\<lambda>_.
       ebind (as_utc occurred_at) (\<lambda>event_time.
       ebind (first_error
         [(event_time < rr_updated_at current,
            Run_Control_Error ''RunEvent timestamp predates run state'')]) (\<lambda>_.
       ebind (validated (mk_run_record
         (current\<lparr>rr_updated_at := event_time, rr_event_count := event_sequence,
            rr_event_head_sha256 := Some event_sha256\<rparr>))) (\<lambda>updated. Inr (current, updated)))))))"

definition commit_event_head ::
    "digests \<Rightarrow> run_store \<Rightarrow> run_error + (run_record \<times> run_record) \<Rightarrow>
     run_error + (run_store \<times> run_record)" where
  "commit_event_head d s prepared =
     ebind prepared (\<lambda>(current, updated).
     ebind (store_replace_event_head d s current updated) (\<lambda>s2. Inr (s2, updated)))"

section \<open>What a valid history determines\<close>

text \<open>The number of transitions that lead to a phase in the first iteration; each revision adds
  five.\<close>

fun phase_rank :: "run_phase \<Rightarrow> int" where
  "phase_rank Created = 0"
| "phase_rank Preparing_Workspace = 1"
| "phase_rank Planning_Phase = 2"
| "phase_rank Implementing = 3"
| "phase_rank Snapshotting = 4"
| "phase_rank Verifying = 5"
| "phase_rank Reviewing = 6"
| "phase_rank Deciding = 7"
| "phase_rank Delivering = 8"
| "phase_rank Completed_Run = 9"
| "phase_rank Failed_Run = 9"

abbreviation record_ok :: "run_record \<Rightarrow> bool" where
  "record_ok r \<equiv> validate_run_record r = Inr ()"

lemma record_ok_parts:
  assumes "record_ok r"
  obtains h where "check_nested r = Inr ()" "record_fields r = Inr ()" "check_history r = Inr h"
    "hs_source h = rr_phase r" "hs_iteration h = rr_current_iteration r" "check_workspace r = Inr ()"
    "check_snapshots (rr_run_id r) 1 (map_option gw_base_commit (rr_workspace r)) (rr_snapshots r) = Inr ()"
    "check_snapshot_counts r = Inr ()" "check_failed_run r = Inr ()" "check_termination r = Inr ()"
  using assms by (auto simp: validate_run_record_def ebind_eq_Inr)

lemma record_ok_transitions:
  "record_ok r \<Longrightarrow> t \<in> set (rr_transitions r) \<Longrightarrow> validate_transition t = Inr ()"
  by (auto simp: validate_run_record_def check_nested_def ebind_eq_Inr)

lemma history_step_Inr:
  "history_step u t h = Inr h' \<longleftrightarrow>
     tr_sequence t = hs_sequence h \<and> tr_source t = hs_source h \<and>
     tr_iteration_before t = hs_iteration h \<and> hs_time h \<le> tr_occurred_at t \<and>
     tr_occurred_at t \<le> u \<and> hs_paths h \<inter> set (map ar_path (tr_artifacts t)) = {} \<and>
     h' = \<lparr>hs_sequence = hs_sequence h + 1, hs_source = tr_target t,
           hs_iteration = tr_iteration_after t, hs_time = tr_occurred_at t,
           hs_paths = hs_paths h \<union> set (map ar_path (tr_artifacts t))\<rparr>"
  by (auto simp: history_step_def ebind_eq_Inr)

definition rank_ok :: "history_state \<Rightarrow> bool" where
  "rank_ok h \<longleftrightarrow> 1 \<le> hs_iteration h \<and>
     (if hs_source h = Failed_Run
      then hs_sequence h - 1 \<le> 9 + 5 * (hs_iteration h - 1)
      else hs_sequence h - 1 = phase_rank (hs_source h) + 5 * (hs_iteration h - 1))"

lemma legal_rank:
  assumes "validate_transition t = Inr ()"
  shows "\<not> is_terminal (tr_source t)"
    and "tr_target t \<noteq> Failed_Run \<Longrightarrow>
      phase_rank (tr_target t) + 5 * (tr_iteration_after t - 1) =
      phase_rank (tr_source t) + 5 * (tr_iteration_before t - 1) + 1"
    and "tr_target t = Failed_Run \<Longrightarrow> tr_iteration_after t = tr_iteration_before t"
    and "1 \<le> tr_iteration_after t"
proof -
  have legal: "is_legal_transition (tr_source t) (tr_target t)"
    and it: "tr_iteration_after t =
      (if tr_source t = Deciding \<and> tr_target t = Implementing then tr_iteration_before t + 1
       else tr_iteration_before t)"
    and "1 \<le> tr_iteration_after t"
    using assms by (auto simp: validate_transition_def Let_def)
  then show "1 \<le> tr_iteration_after t" by simp
  show "\<not> is_terminal (tr_source t)" using legal terminal_has_no_successor by blast
  show "tr_target t = Failed_Run \<Longrightarrow> tr_iteration_after t = tr_iteration_before t"
    using it by simp
  show "tr_target t \<noteq> Failed_Run \<Longrightarrow>
      phase_rank (tr_target t) + 5 * (tr_iteration_after t - 1) =
      phase_rank (tr_source t) + 5 * (tr_iteration_before t - 1) + 1"
    using legal it by (cases "tr_source t") (auto simp: is_legal_transition_def)
qed

lemma phase_rank_nonterminal: "\<not> is_terminal p \<Longrightarrow> phase_rank p \<le> 8"
  by (cases p) (auto simp: is_terminal_def)

lemma history_rank:
  assumes "efold (history_step u) ts h = Inr h'" and "rank_ok h"
    and "\<And>t. t \<in> set ts \<Longrightarrow> validate_transition t = Inr ()"
  shows "rank_ok h'"
proof (rule efold_invariant [OF assms(1), where I = rank_ok])
  fix t a b
  assume t: "t \<in> set ts" and a: "rank_ok a" and step: "history_step u t a = Inr b"
  note v = legal_rank [OF assms(3) [OF t]]
  have eq: "tr_source t = hs_source a" "tr_iteration_before t = hs_iteration a"
    "hs_sequence b = hs_sequence a + 1" "hs_source b = tr_target t"
    "hs_iteration b = tr_iteration_after t"
    using step by (simp_all add: history_step_Inr)
  have src: "hs_source a \<noteq> Failed_Run" "phase_rank (hs_source a) \<le> 8"
    using v(1) eq phase_rank_nonterminal by (auto simp: is_terminal_def)
  then have seq: "hs_sequence a - 1 = phase_rank (hs_source a) + 5 * (hs_iteration a - 1)"
    using a by (simp add: rank_ok_def)
  show "rank_ok b"
  proof (cases "tr_target t = Failed_Run")
    case True
    then show ?thesis using v(3,4) eq seq src by (simp add: rank_ok_def)
  next
    case False
    then show ?thesis using v(2) [OF False] v(4) eq seq by (simp add: rank_ok_def)
  qed
qed (rule assms(2))

lemma history_sequence:
  "efold (history_step u) ts h = Inr h' \<Longrightarrow> hs_sequence h' = hs_sequence h + int (length ts)"
proof (induction ts arbitrary: h)
  case (Cons t ts)
  then obtain g where g: "history_step u t h = Inr g" "efold (history_step u) ts g = Inr h'"
    by (auto simp: ebind_eq_Inr)
  have "hs_sequence g = hs_sequence h + 1" using g(1) by (simp add: history_step_Inr)
  then show ?case using Cons.IH [OF g(2)] by simp
qed simp

lemma record_ok_rank:
  assumes "record_ok r"
  shows "if rr_phase r = Failed_Run
    then rr_revision r \<le> 9 + 5 * (rr_current_iteration r - 1)
    else rr_revision r = phase_rank (rr_phase r) + 5 * (rr_current_iteration r - 1)"
proof -
  obtain h where h: "check_history r = Inr h" "hs_source h = rr_phase r"
    "hs_iteration h = rr_current_iteration r" "record_fields r = Inr ()"
    using assms by (rule record_ok_parts)
  have "rank_ok (history_start r)" by (simp add: rank_ok_def history_start_def)
  then have "rank_ok h"
    using history_rank h(1) record_ok_transitions [OF assms] unfolding check_history_def by blast
  moreover have "hs_sequence h - 1 = rr_revision r"
    using history_sequence h(1,4) by (fastforce simp: check_history_def history_start_def record_fields_def)
  ultimately show ?thesis
    using h(2,3) by (cases "rr_phase r = Failed_Run") (auto simp: rank_ok_def)
qed

section \<open>Steps of the store\<close>

inductive store_step :: "digests \<Rightarrow> run_store \<Rightarrow> run_store \<Rightarrow> bool" for d where
  created: "store_create d s brief plan r = Inr t \<Longrightarrow> record_ok r \<Longrightarrow> store_step d s t"
| replaced: "store_replace d s previous updated = Inr t \<Longrightarrow> record_ok updated \<Longrightarrow> store_step d s t"
| anchored: "store_replace_event_head d s previous updated = Inr t \<Longrightarrow> record_ok updated \<Longrightarrow>
    store_step d s t"

definition store_ok :: "run_store \<Rightarrow> bool" where
  "store_ok s \<longleftrightarrow> (\<forall>k run. s k = Some run \<longrightarrow> record_ok (sr_record run) \<and> rr_run_id (sr_record run) = k)"

text \<open>What may change between two observations of one run.\<close>

definition run_extends :: "stored_run \<Rightarrow> stored_run \<Rightarrow> bool" where
  "run_extends a b \<longleftrightarrow> sr_brief a = sr_brief b \<and> sr_plan a = sr_plan b \<and>
     same_identity (sr_record a) (sr_record b) \<and>
     (\<exists>x. rr_transitions (sr_record b) = rr_transitions (sr_record a) @ x) \<and>
     (\<exists>x. rr_snapshots (sr_record b) = rr_snapshots (sr_record a) @ x) \<and>
     (rr_workspace (sr_record a) \<noteq> None \<longrightarrow> rr_workspace (sr_record b) = rr_workspace (sr_record a)) \<and>
     rr_event_count (sr_record a) \<le> rr_event_count (sr_record b) \<and>
     (is_terminal (rr_phase (sr_record a)) \<longrightarrow> same_lifecycle (sr_record a) (sr_record b))"

lemma store_load_Inr:
  "store_load d s k = Inr run \<Longrightarrow> s k = Some run \<and> rr_run_id (sr_record run) = k"
  by (auto simp: store_load_def Let_def ebind_eq_Inr split: if_splits option.splits)

lemma store_replace_Inr:
  assumes "store_replace d s previous updated = Inr t"
  obtains run where "s (rr_run_id previous) = Some run" "sr_record run = previous"
    "validate_replacement previous updated = Inr ()" "t = store_write s run updated"
    "validate_transition_plan_boundary (sr_plan run) updated = Inr ()"
  using assms by (auto simp: store_replace_def ebind_eq_Inr dest!: store_load_Inr)

lemma store_replace_event_head_Inr:
  assumes "store_replace_event_head d s previous updated = Inr t"
  obtains run where "s (rr_run_id previous) = Some run" "sr_record run = previous"
    "same_lifecycle previous updated" "rr_event_count updated = rr_event_count previous + 1"
    "t = store_write s run updated"
  using assms by (auto simp: store_replace_event_head_def ebind_eq_Inr dest!: store_load_Inr)

lemma replacement_facts:
  assumes "validate_replacement previous updated = Inr ()"
  shows "same_identity previous updated" "same_events previous updated"
    "rr_transitions updated = rr_transitions previous @ [last (rr_transitions updated)]"
    "\<exists>x. rr_snapshots updated = rr_snapshots previous @ x"
    "rr_workspace previous \<noteq> None \<Longrightarrow> rr_workspace updated = rr_workspace previous"
    "tr_source (last (rr_transitions updated)) = rr_phase previous"
proof -
  note v = assms [unfolded validate_replacement_def Let_def first_error_Inr]
  show "same_identity previous updated" "same_events previous updated"
    "tr_source (last (rr_transitions updated)) = rr_phase previous"
    using v by simp_all
  show "rr_transitions updated = rr_transitions previous @ [last (rr_transitions updated)]"
    using v by (intro butlast_extends) auto
  show "rr_workspace previous \<noteq> None \<Longrightarrow> rr_workspace updated = rr_workspace previous"
    using v by auto
  show "\<exists>x. rr_snapshots updated = rr_snapshots previous @ x"
  proof (cases "rr_snapshots updated = rr_snapshots previous")
    case False
    then have "rr_snapshots updated = rr_snapshots previous @ [last (rr_snapshots updated)]"
      using v by (intro butlast_extends) auto
    then show ?thesis by blast
  qed simp
qed

lemma replacement_not_terminal:
  assumes "validate_replacement previous updated = Inr ()" and "record_ok updated"
  shows "\<not> is_terminal (rr_phase previous)"
proof -
  have "last (rr_transitions updated) \<in> set (rr_transitions updated)"
    using replacement_facts(3) [OF assms(1)] by (metis append_is_Nil_conv last_in_set list.distinct(1))
  then have "validate_transition (last (rr_transitions updated)) = Inr ()"
    using assms(2) record_ok_transitions by blast
  then show ?thesis using legal_rank(1) replacement_facts(6) [OF assms(1)] by fastforce
qed

lemma replaced_extends:
  assumes "validate_replacement (sr_record run) updated = Inr ()" and "record_ok updated"
  shows "run_extends run (run\<lparr>sr_record := updated\<rparr>)"
  using replacement_facts [OF assms(1)] replacement_not_terminal [OF assms]
  by (auto simp: run_extends_def same_events_def)

lemma anchored_extends:
  "same_lifecycle (sr_record run) updated \<Longrightarrow>
     rr_event_count updated = rr_event_count (sr_record run) + 1 \<Longrightarrow>
     run_extends run (run\<lparr>sr_record := updated\<rparr>)"
  by (simp add: run_extends_def same_lifecycle_def)

lemma run_extends_refl: "run_extends r r"
  by (simp add: run_extends_def same_lifecycle_def same_identity_def)

lemma same_identity_trans: "same_identity a b \<Longrightarrow> same_identity b c \<Longrightarrow> same_identity a c"
  by (simp add: same_identity_def)

lemma same_lifecycle_trans: "same_lifecycle a b \<Longrightarrow> same_lifecycle b c \<Longrightarrow> same_lifecycle a c"
  using same_identity_trans by (simp add: same_lifecycle_def) metis

lemma run_extends_trans:
  assumes "run_extends a b" and "run_extends b c"
  shows "run_extends a c"
proof -
  have "same_lifecycle (sr_record a) (sr_record c)" if "is_terminal (rr_phase (sr_record a))"
  proof -
    have ab: "same_lifecycle (sr_record a) (sr_record b)" using assms(1) that by (simp add: run_extends_def)
    then have "is_terminal (rr_phase (sr_record b))" using that by (simp add: same_lifecycle_def)
    then show ?thesis using assms(2) same_lifecycle_trans [OF ab] by (simp add: run_extends_def)
  qed
  then show ?thesis
    using assms same_identity_trans unfolding run_extends_def by (elim conjE exE) auto
qed

lemma store_write_view:
  "rr_run_id updated = rr_run_id (sr_record run) \<Longrightarrow>
     s (rr_run_id (sr_record run)) = Some run \<Longrightarrow> run_extends run (run\<lparr>sr_record := updated\<rparr>) \<Longrightarrow>
     s k = Some r \<Longrightarrow> \<exists>r'. store_write s run updated k = Some r' \<and> run_extends r r'"
  using run_extends_refl by (auto simp: store_write_def)

lemma store_step_inv:
  assumes "store_ok s" and "store_step d s t"
  shows "store_ok t"
  using assms(2)
proof cases
  case (created brief plan r)
  then show ?thesis
    using assms(1) by (auto simp: store_create_def store_ok_def ebind_eq_Inr split: if_splits)
next
  case (replaced previous updated)
  then show ?thesis
    using assms(1) by (elim store_replace_Inr) (auto simp: store_ok_def store_write_def)
next
  case (anchored previous updated)
  then show ?thesis
    using assms(1) by (elim store_replace_event_head_Inr) (auto simp: store_ok_def store_write_def)
qed

lemma same_identity_id: "same_identity a b \<Longrightarrow> rr_run_id b = rr_run_id a"
  by (simp add: same_identity_def)

lemma store_step_extends:
  assumes "store_ok s" and "store_step d s t" and "s k = Some r"
  shows "\<exists>r'. t k = Some r' \<and> run_extends r r'"
  using assms(2)
proof cases
  case (created brief plan r0)
  then show ?thesis
    using assms(3) run_extends_refl by (auto simp: store_create_def ebind_eq_Inr)
next
  case (replaced previous updated)
  from replaced(1) obtain run where run: "s (rr_run_id previous) = Some run" "sr_record run = previous"
    "validate_replacement previous updated = Inr ()" "t = store_write s run updated"
    by (rule store_replace_Inr)
  have "rr_run_id updated = rr_run_id (sr_record run)"
    using replacement_facts(1) [OF run(3)] run(2) by (simp add: same_identity_id)
  moreover have "run_extends run (run\<lparr>sr_record := updated\<rparr>)"
    using replaced_extends run(2,3) replaced(2) by blast
  ultimately show ?thesis
    unfolding run(4) using store_write_view [of updated run s k r] run(1,2) assms(3) by simp
next
  case (anchored previous updated)
  from anchored(1) obtain run where run: "s (rr_run_id previous) = Some run" "sr_record run = previous"
    "same_lifecycle previous updated" "rr_event_count updated = rr_event_count previous + 1"
    "t = store_write s run updated"
    by (rule store_replace_event_head_Inr)
  have "rr_run_id updated = rr_run_id (sr_record run)"
    using run(2,3) by (simp add: same_lifecycle_def same_identity_id)
  moreover have "run_extends run (run\<lparr>sr_record := updated\<rparr>)"
    using anchored_extends run(2-4) by blast
  ultimately show ?thesis
    unfolding run(5) using store_write_view [of updated run s k r] run(1,2) assms(3) by simp
qed

interpretation run_store: append_only "store_step d" "\<lambda>s. s" run_extends store_ok
  using run_extends_refl run_extends_trans store_step_inv store_step_extends
  by unfold_locales blast+

end
