(* ===== verification/Run_Properties.thy ===== *)
theory Run_Properties
  imports Run_Control
begin

text \<open>
  What the controller and the store of \<open>run_control.py\<close> guarantee together: a prepared operation
  passes every check of the store, a stale one never does, the history of a run only grows, it is
  bounded, and a completed run has passed verification, review and decision.
\<close>

section \<open>One controller operation\<close>

datatype run_command =
    Advance run_phase string "artifact_reference list" "string option" "iteration_decision option"
  | Attach_Workspace git_workspace string
  | Record_Snapshot git_snapshot string
  | Complete_Run string artifact_reference
  | Fail_Run termination_reason string artifact_reference

fun prepare_command ::
    "digests \<Rightarrow> team_manifest option \<Rightarrow> datetime \<Rightarrow> run_store \<Rightarrow> string \<Rightarrow> int \<Rightarrow> run_command \<Rightarrow>
     run_error + (run_record \<times> run_record)" where
  "prepare_command d m clock s run_id expected (Advance target reason artifacts plan_sha decision) =
     prepare_advance d m clock s run_id expected target reason artifacts plan_sha decision"
| "prepare_command d m clock s run_id expected (Attach_Workspace w reason) =
     prepare_attach_workspace d m clock s run_id expected w reason"
| "prepare_command d m clock s run_id expected (Record_Snapshot x reason) =
     prepare_record_snapshot d m clock s run_id expected x reason"
| "prepare_command d m clock s run_id expected (Complete_Run detail report) =
     prepare_complete d m clock s run_id expected detail report"
| "prepare_command d m clock s run_id expected (Fail_Run reason detail report) =
     prepare_fail d m clock s run_id expected reason detail report"

definition run_controller_step ::
    "digests \<Rightarrow> team_manifest option \<Rightarrow> datetime \<Rightarrow> run_store \<Rightarrow> string \<Rightarrow> int \<Rightarrow> run_command \<Rightarrow>
     run_error + (run_store \<times> run_record)" where
  "run_controller_step d m clock s run_id expected c =
     commit_transition d s (prepare_command d m clock s run_id expected c)"

section \<open>From preparation to commit\<close>

lemma load_expected_Inr:
  assumes "load_expected d m s run_id expected = Inr (plan, current)"
  obtains run where "store_load d s run_id = Inr run" "plan = sr_plan run" "current = sr_record run"
    "check_plan_boundary d m plan current = Inr ()" "rr_revision current = expected"
    "\<not> is_terminal (rr_phase current)"
  using assms by (auto simp: load_expected_def ebind_eq_Inr)

lemma mk_transition_Inr:
  "mk_transition t = Inr u \<Longrightarrow>
     u = t\<lparr>tr_reason := py_strip (tr_reason t)\<rparr> \<and> validate_transition u = Inr ()"
  by (auto simp: mk_transition_def Let_def ebind_eq_Inr split: if_splits)

lemma mk_run_record_Inr:
  "mk_run_record r = Inr u \<Longrightarrow>
     u = r\<lparr>rr_termination_detail := map_option py_strip (rr_termination_detail r),
           rr_agent_timeouts := sort_key fst (rr_agent_timeouts r)\<rparr> \<and> record_ok u"
  by (auto simp: mk_run_record_def Let_def ebind_eq_Inr split: if_splits)

lemma validated_Inr [simp]: "validated m = Inr x \<longleftrightarrow> m = Inr x"
  by (simp add: validated_def split: sum.split)

lemma build_transition_Inr:
  assumes "build_transition clock current q = Inr (previous, updated)"
  obtains now t where "previous = current" "rr_updated_at current \<le> now"
    "tr_source t = rr_phase current" "tr_target t = rq_target q"
    "tr_iteration_before t = rr_current_iteration current"
    "tr_artifacts t = rq_artifacts q" "tr_implementation_plan_sha256 t = rq_plan_sha256 q"
    "validate_transition t = Inr ()"
    "updated = (updated_record current now q t)
       \<lparr>rr_termination_detail := map_option py_strip (rq_termination_detail q),
        rr_agent_timeouts := sort_key fst (rr_agent_timeouts current)\<rparr>"
    "record_ok updated"
proof -
  let ?draft = "\<lambda>now. \<lparr>tr_sequence = rr_revision current + 1, tr_source = rr_phase current,
        tr_target = rq_target q, tr_iteration_before = rr_current_iteration current,
        tr_iteration_after = rq_iteration_after q, tr_occurred_at = now, tr_reason = rq_reason q,
        tr_artifacts = rq_artifacts q, tr_implementation_plan_sha256 = rq_plan_sha256 q,
        tr_decision = rq_decision q\<rparr>"
  obtain now t where b: "rr_updated_at current \<le> now" "mk_transition (?draft now) = Inr t"
    "mk_run_record (updated_record current now q t) = Inr updated" "previous = current"
    using assms unfolding build_transition_def ebind_eq_Inr validated_Inr first_error_Inr
    by (fastforce simp: not_less)
  have t: "t = (?draft now)\<lparr>tr_reason := py_strip (rq_reason q)\<rparr>" and valid: "validate_transition t = Inr ()"
    using mk_transition_Inr [OF b(2)] by (simp, blast)
  have u: "updated = (updated_record current now q t)
       \<lparr>rr_termination_detail := map_option py_strip (rq_termination_detail q),
        rr_agent_timeouts := sort_key fst (rr_agent_timeouts current)\<rparr>" 
    using mk_run_record_Inr [OF b(3)] by (simp add: updated_record_def)
  have ok: "record_ok updated" using mk_run_record_Inr [OF b(3)] by (rule conjunct2)
  show thesis
    by (rule that [OF b(4,1) _ _ _ _ _ valid u ok]) (simp_all add: t)
qed

lemma sort_key_idem: "sort_key f (sort_key f xs) = sort_key f xs"
  by (rule sort_key_id_if_sorted) simp

lemma boundary_timeouts:
  "check_plan_boundary d m plan r = Inr () \<Longrightarrow>
     sort_key fst (rr_agent_timeouts r) = rr_agent_timeouts r"
  by (auto simp: check_plan_boundary_def ebind_eq_Inr sort_key_idem)

text \<open>What the store demands of a request beyond a valid transition.\<close>

definition request_accepted :: "team_plan \<Rightarrow> run_record \<Rightarrow> transition_request \<Rightarrow> bool" where
  "request_accepted plan current q \<longleftrightarrow>
     (rq_workspace q \<noteq> None \<longleftrightarrow>
        rr_phase current = Preparing_Workspace \<and> rq_target q = Planning_Phase) \<and>
     (rq_snapshot q \<noteq> None \<longleftrightarrow> rr_phase current = Snapshotting \<and> rq_target q = Verifying) \<and>
     (\<forall>t. tr_source t = rr_phase current \<and> tr_target t = rq_target q \<and>
        tr_artifacts t = rq_artifacts q \<and> tr_implementation_plan_sha256 t = rq_plan_sha256 q \<longrightarrow>
        planning_boundary plan t = Inr ())"

lemma plain_request_simps [simp]:
  "rq_target (plain_request p i r) = p" "rq_workspace (plain_request p i r) = None"
  "rq_snapshot (plain_request p i r) = None" "rq_artifacts (plain_request p i r) = []"
  "rq_plan_sha256 (plain_request p i r) = None"
  by (simp_all add: plain_request_def)

lemma not_planning_boundary:
  "\<not> (tr_source t = Planning_Phase \<and> tr_target t = Implementing) \<Longrightarrow> planning_boundary plan t = Inr ()"
  by (simp add: planning_boundary_def)

lemma prepare_advance_Inr:
  assumes "prepare_advance d m clock s run_id expected target reason artifacts plan_sha decision =
      Inr (previous, updated)"
  obtains plan current q where "load_expected d m s run_id expected = Inr (plan, current)"
    "request_accepted plan current q" "build_transition clock current q = Inr (previous, updated)"
proof -
  obtain plan current where l: "load_expected d m s run_id expected = Inr (plan, current)"
    using assms by (auto simp: prepare_advance_def ebind_eq_Inr split: if_splits)
  let ?q = "(plain_request target (rr_current_iteration current +
      (if rr_phase current = Deciding \<and> target = Implementing then 1 else 0)) reason)
    \<lparr>rq_artifacts := artifacts, rq_plan_sha256 := plan_sha, rq_decision := decision\<rparr>"
  have "request_accepted plan current ?q" "build_transition clock current ?q = Inr (previous, updated)"
    using assms l
    by (auto simp: prepare_advance_def Let_def ebind_eq_Inr request_accepted_def planning_boundary_def
        split: if_splits)
  with l show thesis by (rule that)
qed

lemma prepare_command_Inr:
  assumes "prepare_command d m clock s run_id expected c = Inr (previous, updated)"
  obtains plan current q where "load_expected d m s run_id expected = Inr (plan, current)"
    "request_accepted plan current q" "build_transition clock current q = Inr (previous, updated)"
proof (cases c)
  case (Advance target reason artifacts plan_sha decision)
  then show thesis
    using assms prepare_advance_Inr [of d m clock s run_id expected target reason artifacts plan_sha
        decision previous updated] that by auto
next
  case (Attach_Workspace w reason)
  obtain plan current where l: "load_expected d m s run_id expected = Inr (plan, current)"
    and p: "rr_phase current = Preparing_Workspace"
    and b: "build_transition clock current ((plain_request Planning_Phase (rr_current_iteration current) reason)
      \<lparr>rq_workspace := Some w\<rparr>) = Inr (previous, updated)"
    using assms Attach_Workspace by (auto simp: prepare_attach_workspace_def ebind_eq_Inr)
  show thesis
    by (rule that [OF l _ b]) (simp add: request_accepted_def planning_boundary_def p)
next
  case (Record_Snapshot x reason)
  obtain plan current where l: "load_expected d m s run_id expected = Inr (plan, current)"
    and p: "rr_phase current = Snapshotting"
    and b: "build_transition clock current ((plain_request Verifying (rr_current_iteration current) reason)
      \<lparr>rq_snapshot := Some x\<rparr>) = Inr (previous, updated)"
    using assms Record_Snapshot by (auto simp: prepare_record_snapshot_def ebind_eq_Inr)
  show thesis
    by (rule that [OF l _ b]) (simp add: request_accepted_def planning_boundary_def p)
next
  case (Complete_Run detail report)
  obtain plan current where l: "load_expected d m s run_id expected = Inr (plan, current)"
    and p: "rr_phase current = Delivering"
    and b: "build_transition clock current ((plain_request Completed_Run (rr_current_iteration current) ''delivery completed'')
      \<lparr>rq_artifacts := [report], rq_termination_reason := Some Succeeded,
       rq_termination_detail := Some detail\<rparr>) = Inr (previous, updated)"
    using assms Complete_Run by (auto simp: prepare_complete_def ebind_eq_Inr)
  show thesis
    by (rule that [OF l _ b]) (simp add: request_accepted_def planning_boundary_def p)
next
  case (Fail_Run reason detail report)
  obtain plan current where l: "load_expected d m s run_id expected = Inr (plan, current)"
    and p: "\<not> is_terminal (rr_phase current)"
    and b: "build_transition clock current ((plain_request Failed_Run (rr_current_iteration current) detail)
      \<lparr>rq_artifacts := [report], rq_termination_reason := Some reason,
       rq_termination_detail := Some detail\<rparr>) = Inr (previous, updated)"
    using assms Fail_Run by (auto simp: prepare_fail_def load_expected_def ebind_eq_Inr split: if_splits)
  show thesis
    by (rule that [OF l _ b]) (simp add: request_accepted_def planning_boundary_def p)
qed

lemma store_load_boundary:
  "store_load d s k = Inr run \<Longrightarrow> validate_transition_plan_boundary (sr_plan run) (sr_record run) = Inr ()"
  by (auto simp: store_load_def Let_def ebind_eq_Inr split: if_splits option.splits)

text \<open>The checks of \<open>load\<close> hold for a rewritten run that keeps the identity.\<close>

lemma store_load_written:
  assumes "store_load d s k = Inr run" and "same_identity (sr_record run) updated"
    and "validate_transition_plan_boundary (sr_plan run) updated = Inr ()"
  shows "store_load d (store_write s run updated) k = Inr (run\<lparr>sr_record := updated\<rparr>)"
proof -
  have "rr_run_id updated = k"
    using store_load_Inr [OF assms(1)] assms(2) by (simp add: same_identity_def)
  then show ?thesis
    using assms
    by (auto simp: store_load_def store_write_def Let_def ebind_eq_Inr same_identity_def
        split: if_splits option.splits)
qed

lemma replaced_load:
  assumes "store_replace d s previous updated = Inr t"
  obtains run where "store_load d s (rr_run_id previous) = Inr run" "sr_record run = previous"
    "t = store_write s run updated"
    "store_load d t (rr_run_id previous) = Inr (run\<lparr>sr_record := updated\<rparr>)"
    "rr_revision updated = rr_revision previous + 1"
proof -
  obtain run where run: "store_load d s (rr_run_id previous) = Inr run" "sr_record run = previous"
    "t = store_write s run updated" "validate_replacement previous updated = Inr ()"
    "validate_transition_plan_boundary (sr_plan run) updated = Inr ()"
    using assms by (auto simp: store_replace_def ebind_eq_Inr)
  then have "same_identity previous updated" "rr_revision updated = rr_revision previous + 1"
    by (simp_all add: validate_replacement_def Let_def)
  with run show thesis using that store_load_written by blast
qed

lemma request_replacement:
  assumes "store_ok s" and "store_load d s k = Inr run"
    and "check_plan_boundary d m (sr_plan run) (sr_record run) = Inr ()"
    and "request_accepted (sr_plan run) (sr_record run) q"
    and "build_transition clock (sr_record run) q = Inr (previous, updated)"
  shows "validate_replacement previous updated = Inr ()"
    and "validate_transition_plan_boundary (sr_plan run) updated = Inr ()"
    and "previous = sr_record run" and "record_ok updated"
proof -
  let ?r = "sr_record run"
  from assms(5) obtain now t where b: "previous = ?r"
    "tr_source t = rr_phase ?r" "tr_target t = rq_target q"
    "tr_iteration_before t = rr_current_iteration ?r"
    "tr_artifacts t = rq_artifacts q" "tr_implementation_plan_sha256 t = rq_plan_sha256 q"
    "updated = (updated_record ?r now q t)
       \<lparr>rr_termination_detail := map_option py_strip (rq_termination_detail q),
        rr_agent_timeouts := sort_key fst (rr_agent_timeouts ?r)\<rparr>"
    "record_ok updated"
    by (rule build_transition_Inr)
  show "previous = ?r" and "record_ok updated" by (rule b)+
  have "record_ok ?r" using assms(1) store_load_Inr [OF assms(2)] by (auto simp: store_ok_def)
  then have ws: "rr_phase ?r = Preparing_Workspace \<Longrightarrow> rr_workspace ?r = None"
    by (auto simp: validate_run_record_def ebind_eq_Inr check_workspace_def before_workspace_def)
  have planning: "planning_boundary (sr_plan run) t = Inr ()"
    using assms(4) b by (auto simp: request_accepted_def)
  show "validate_transition_plan_boundary (sr_plan run) updated = Inr ()"
    using store_load_boundary [OF assms(2)] planning
    by (auto simp: validate_transition_plan_boundary_def b(7) updated_record_def)
  show "validate_replacement previous updated = Inr ()"
    using assms(4) boundary_timeouts [OF assms(3)] ws
    by (auto simp: validate_replacement_def Let_def b(1-4,7) updated_record_def request_accepted_def
        same_identity_def same_events_def split: option.splits)
qed

lemma prepared_replaces:
  assumes "store_ok s" and "load_expected d m s run_id expected = Inr (plan, current)"
    and "request_accepted plan current q" and "build_transition clock current q = Inr (previous, updated)"
  shows "\<exists>run. store_load d s run_id = Inr run \<and> sr_record run = previous \<and> rr_run_id previous = run_id \<and>
    rr_revision previous = expected \<and>
    store_replace d s previous updated = Inr (store_write s run updated) \<and> record_ok updated"
proof -
  obtain run where run: "store_load d s run_id = Inr run" "plan = sr_plan run" "current = sr_record run"
    "check_plan_boundary d m plan current = Inr ()" "rr_revision current = expected"
    using assms(2) by (rule load_expected_Inr)
  note r = request_replacement [OF assms(1) run(1) run(4) [unfolded run(2,3)]
      assms(3) [unfolded run(2,3)] assms(4) [unfolded run(3)]]
  have id: "rr_run_id previous = run_id" using store_load_Inr [OF run(1)] r(3) by simp
  have "store_replace d s previous updated = Inr (store_write s run updated)"
    unfolding store_replace_def id iffD2 [OF locked_load_Inr run(1)] using r by simp
  then show ?thesis using run r id by auto
qed

section \<open>A concrete run\<close>

definition demo_brief :: task_brief where
  "demo_brief = \<lparr>tb_run_id = ''run-1'', tb_title = ''t'', tb_source_request = ''r'',
     tb_requirements = [''r''], tb_acceptance_criteria =
       [\<lparr>ac_id = ''AC-1'', ac_description = ''d'', ac_verification = ''v'',
         ac_review_boundaries = []\<rparr>],
     tb_product_definition = None, tb_constraints = [], tb_assumptions = [], tb_open_questions = [],
     tb_confirmed = True\<rparr>"

definition demo_digests :: digests where
  "demo_digests = \<lparr>dg_brief = \<lambda>_. replicate 64 (CHR ''b''), dg_plan = \<lambda>_. replicate 64 (CHR ''e''),
     dg_team = \<lambda>_. replicate 64 (CHR ''d''), dg_profile = demo_profile_sha\<rparr>"

definition demo_artifact :: "artifact_kind \<Rightarrow> string \<Rightarrow> artifact_reference" where
  "demo_artifact k path = \<lparr>ar_kind = k, ar_path = path, ar_sha256 = replicate 64 (CHR ''f''),
     ar_description = ''''\<rparr>"

definition demo_git_workspace :: git_workspace where
  "demo_git_workspace = \<lparr>gw_run_id = ''run-1'', gw_source_repository = ''/src'',
     gw_workspace_path = ''/work'', gw_base_commit = replicate 40 (CHR ''0''), gw_created_at = 0\<rparr>"

definition demo_git_snapshot :: git_snapshot where
  "demo_git_snapshot = \<lparr>gs_run_id = ''run-1'', gs_iteration = 1,
     gs_input_commit = replicate 40 (CHR ''0''), gs_output_commit = replicate 40 (CHR ''1''),
     gs_commit_count = 1, gs_changed_files = [''a.py''], gs_recorded_at = 0\<rparr>"

definition demo_step :: "int \<Rightarrow> run_phase \<Rightarrow> run_phase \<Rightarrow> artifact_reference list \<Rightarrow> string option \<Rightarrow>
    iteration_decision option \<Rightarrow> run_transition" where
  "demo_step n source target artifacts plan_sha decision =
     \<lparr>tr_sequence = n, tr_source = source, tr_target = target, tr_iteration_before = 1,
      tr_iteration_after = 1, tr_occurred_at = n, tr_reason = ''go'', tr_artifacts = artifacts,
      tr_implementation_plan_sha256 = plan_sha, tr_decision = decision\<rparr>"

definition demo_record :: run_record where
  "demo_record = \<lparr>rr_schema_version = 6, rr_run_id = ''run-1'', rr_team_id = ''adaptive'',
     rr_team_plan_revision = 1, rr_team_plan_sha256 = replicate 64 (CHR ''e''),
     rr_agent_timeouts = [(''api'', 0), (''merge'', 0), (''tests'', 0), (''web'', 0)],
     rr_event_count = 0, rr_event_head_sha256 = None, rr_phase = Completed_Run,
     rr_current_iteration = 1, rr_iteration_limit = 2, rr_revision = 9,
     rr_task_brief_sha256 = replicate 64 (CHR ''b''), rr_created_at = 0, rr_updated_at = 9,
     rr_termination_reason = Some Succeeded, rr_termination_detail = Some ''ok'',
     rr_workspace = Some demo_git_workspace, rr_snapshots = [demo_git_snapshot],
     rr_transitions =
       [demo_step 1 Created Preparing_Workspace [] None None,
        demo_step 2 Preparing_Workspace Planning_Phase [] None None,
        demo_step 3 Planning_Phase Implementing [] (Some (replicate 64 (CHR ''c''))) None,
        demo_step 4 Implementing Snapshotting [demo_artifact Kind_Work_Result ''a/work'']
          None None,
        demo_step 5 Snapshotting Verifying [] None None,
        demo_step 6 Verifying Reviewing [demo_artifact Kind_Test_Report ''a/test''] None None,
        demo_step 7 Reviewing Deciding [demo_artifact Kind_Iteration_Record ''a/it''] None None,
        demo_step 8 Deciding Delivering [] None (Some Decide_Accept),
        demo_step 9 Delivering Completed_Run [demo_artifact Kind_Final_Report ''a/end'']
          None None]\<rparr>"

definition demo_store :: run_store where
  "demo_store = [''run-1'' \<mapsto> \<lparr>sr_brief = demo_brief, sr_plan = demo_plan, sr_record = demo_record\<rparr>]"

definition demo_created :: "run_error + (run_store \<times> run_record)" where
  "demo_created = controller_create demo_digests None (Aware 0 0) (\<lambda>_. None) demo_brief demo_plan"

definition demo_start :: run_store where
  "demo_start = (case demo_created of Inl e \<Rightarrow> (\<lambda>_. None) | Inr (s, r) \<Rightarrow> s)"

definition demo_command :: run_command where
  "demo_command = Advance Preparing_Workspace ''go'' [] None None"

definition demo_prepared :: "run_error + (run_record \<times> run_record)" where
  "demo_prepared = prepare_command demo_digests None (Aware 1 0) demo_start ''run-1'' 0 demo_command"

lemma demo_record_ok: "record_ok demo_record"
  by code_simp

lemma demo_created_ok: "case demo_created of Inl e \<Rightarrow> False | Inr (s, r) \<Rightarrow> rr_phase r = Created"
  by code_simp

lemma demo_prepared_ok:
  "case demo_prepared of Inl e \<Rightarrow> False | Inr (a, b) \<Rightarrow> rr_phase b = Preparing_Workspace"
  by code_simp

lemma demo_store_ok: "store_ok demo_store"
  using demo_record_ok by (simp add: store_ok_def demo_store_def demo_record_def)

lemma returned_value:
  "(case m of Inl e \<Rightarrow> False | Inr (s, r) \<Rightarrow> P r) \<Longrightarrow>
     \<exists>r. m = Inr (case m of Inl e \<Rightarrow> (\<lambda>_. None) | Inr (s, r) \<Rightarrow> s, r)"
  by (auto split: sum.splits)

lemma demo_created_Inr: "\<exists>r. demo_created = Inr (demo_start, r)"
  unfolding demo_start_def by (rule returned_value [OF demo_created_ok])

lemma demo_prepared_Inr: "\<exists>a b. demo_prepared = Inr (a, b)"
  using demo_prepared_ok by (auto split: sum.splits)

lemma demo_start_step: "store_step demo_digests (\<lambda>_. None) demo_start"
proof -
  obtain r where "demo_created = Inr (demo_start, r)" using demo_created_Inr by blast
  then have "store_create demo_digests (\<lambda>_. None) demo_brief demo_plan r = Inr demo_start" "record_ok r"
    unfolding demo_created_def controller_create_def by (auto simp: ebind_eq_Inr dest!: mk_run_record_Inr)
  then show ?thesis by (rule store_step.created)
qed

lemma demo_start_ok: "store_ok demo_start"
  using demo_start_step by (rule store_step_inv [rotated]) (simp add: store_ok_def)

lemma demo_start_run: "\<exists>a. demo_start ''run-1'' = Some a"
proof -
  obtain r where "demo_created = Inr (demo_start, r)" using demo_created_Inr by blast
  then have "store_create demo_digests (\<lambda>_. None) demo_brief demo_plan r = Inr demo_start"
    "rr_run_id r = tb_run_id demo_brief"
    unfolding demo_created_def controller_create_def by (auto simp: ebind_eq_Inr dest!: mk_run_record_Inr)
  moreover have "tb_run_id demo_brief = ''run-1''" by (simp add: demo_brief_def)
  ultimately have "demo_start = (\<lambda>_. None)(''run-1'' \<mapsto>
      \<lparr>sr_brief = demo_brief, sr_plan = demo_plan, sr_record = r\<rparr>)"
    by (auto simp: store_create_def ebind_eq_Inr)
  from fun_cong [OF this, of "''run-1''"] show ?thesis by simp
qed

lemma demo_commits: "demo_prepared = Inr (a, b) \<Longrightarrow> \<exists>t. store_replace demo_digests demo_start a b = Inr t \<and> record_ok b"
proof -
  assume ab: "demo_prepared = Inr (a, b)"
  obtain plan current q where p: "load_expected demo_digests None demo_start ''run-1'' 0 = Inr (plan, current)"
    "request_accepted plan current q" "build_transition (Aware 1 0) current q = Inr (a, b)"
    using ab unfolding demo_prepared_def by (rule prepare_command_Inr)
  then show ?thesis using prepared_replaces [OF demo_start_ok p] by blast
qed

section \<open>The tail of a history\<close>

lemma history_last:
  assumes "efold (history_step u) ts h = Inr g" and "ts \<noteq> []"
  obtains f where "efold (history_step u) (butlast ts) h = Inr f"
    "hs_source f = tr_source (last ts)" "hs_source g = tr_target (last ts)"
proof -
  have "ts = butlast ts @ [last ts]" using assms(2) by simp
  then have "efold (history_step u) (butlast ts @ [last ts]) h = Inr g" using assms(1) by metis
  then obtain f where f: "efold (history_step u) (butlast ts) h = Inr f"
    "history_step u (last ts) f = Inr g"
    by (auto simp: efold_append ebind_eq_Inr)
  from f(2) have "hs_source f = tr_source (last ts)" "hs_source g = tr_target (last ts)"
    by (simp_all add: history_step_Inr)
  with f(1) show thesis by (rule that)
qed

lemma history_pop:
  assumes "efold (history_step u) ts h = Inr g" and "hs_source h = Created" and "hs_source g = p"
    and "p \<noteq> Created" and "\<And>t. t \<in> set ts \<Longrightarrow> validate_transition t = Inr ()"
  obtains f xs t where "ts = xs @ [t]" "efold (history_step u) xs h = Inr f"
    "hs_source f = tr_source t" "tr_target t = p" "validate_transition t = Inr ()"
    "is_legal_transition (tr_source t) p" "\<And>t. t \<in> set xs \<Longrightarrow> validate_transition t = Inr ()"
proof -
  have ne: "ts \<noteq> []" using assms(1-4) by auto
  then obtain f where f: "efold (history_step u) (butlast ts) h = Inr f"
    "hs_source f = tr_source (last ts)" "hs_source g = tr_target (last ts)"
    using history_last assms(1) by blast
  have v: "validate_transition (last ts) = Inr ()" using assms(5) ne by simp
  then have "is_legal_transition (tr_source (last ts)) p"
    using f(3) assms(3) by (simp add: validate_transition_def Let_def)
  then show thesis
    using f v ne assms(3,5) that [of "butlast ts" "last ts" f] by (simp add: in_set_butlastD)
qed

lemma predecessor_phases:
  "is_legal_transition p Completed_Run \<Longrightarrow> p = Delivering"
  "is_legal_transition p Delivering \<Longrightarrow> p = Deciding"
  "is_legal_transition p Deciding \<Longrightarrow> p = Reviewing"
  "is_legal_transition p Reviewing \<Longrightarrow> p = Verifying"
  by (cases p; simp add: is_legal_transition_def)+

definition history_to :: "run_record \<Rightarrow> run_transition list \<Rightarrow> run_phase \<Rightarrow> bool" where
  "history_to r ts p \<longleftrightarrow> (\<exists>g. efold (history_step (rr_updated_at r)) ts (history_start r) = Inr g \<and>
     hs_source g = p) \<and> (\<forall>t \<in> set ts. validate_transition t = Inr ())"

lemma record_history_to: "record_ok r \<Longrightarrow> history_to r (rr_transitions r) (rr_phase r)"
  using record_ok_transitions by (auto simp: history_to_def check_history_def elim!: record_ok_parts)

text \<open>A phase other than the first was entered by the last transition, from one of its
  predecessors.\<close>

lemma history_to_pop:
  assumes "history_to r ts p" and "p \<noteq> Created" and "\<And>q. is_legal_transition q p \<Longrightarrow> q = source"
  obtains xs t where "ts = xs @ [t]" "history_to r xs source" "tr_source t = source" "tr_target t = p"
    "validate_transition t = Inr ()"
proof -
  obtain g where g: "efold (history_step (rr_updated_at r)) ts (history_start r) = Inr g" "hs_source g = p"
    and v: "\<And>t. t \<in> set ts \<Longrightarrow> validate_transition t = Inr ()"
    using assms(1) by (auto simp: history_to_def)
  have start: "hs_source (history_start r) = Created" by (simp add: history_start_def)
  show thesis
  proof (rule history_pop [OF g(1) start g(2) assms(2) v])
    fix xs t f
    assume f: "ts = xs @ [t]" "efold (history_step (rr_updated_at r)) xs (history_start r) = Inr f"
      "hs_source f = tr_source t" "tr_target t = p" "validate_transition t = Inr ()"
      "is_legal_transition (tr_source t) p" "\<And>t. t \<in> set xs \<Longrightarrow> validate_transition t = Inr ()"
    have src: "tr_source t = source" using f(6) by (rule assms(3))
    then have "history_to r xs source" unfolding history_to_def using f(2,3,7) by auto
    then show thesis using src f(1,4,5) by (intro that)
  qed
qed

lemma transition_artifacts:
  assumes "validate_transition t = Inr ()" and "k \<in> set (required_artifacts (tr_source t) (tr_target t))"
  shows "k \<in> ar_kind ` set (tr_artifacts t)"
proof -
  have "set (required_artifacts (tr_source t) (tr_target t)) \<subseteq> ar_kind ` set (tr_artifacts t)"
    using assms(1) by (simp add: validate_transition_def Let_def)
  then show ?thesis using assms(2) by blast
qed

lemma transition_decision:
  "validate_transition t = Inr () \<Longrightarrow> tr_source t = Deciding \<Longrightarrow> tr_target t \<noteq> Failed_Run \<Longrightarrow>
     tr_decision t = Some (expected_decision (tr_target t))"
  by (simp add: validate_transition_def Let_def)

lemma snapshot_chain:
  assumes "check_snapshots run_id i c ss = Inr ()" and "n < length ss"
  shows "gs_run_id (ss ! n) = run_id \<and> gs_iteration (ss ! n) = i + int n \<and>
    Some (gs_input_commit (ss ! n)) =
      (if n = 0 then c else Some (gs_output_commit (ss ! (n - 1))))"
  using assms
proof (induction ss arbitrary: i c n)
  case (Cons s ss)
  show ?case
  proof (cases n)
    case 0
    then show ?thesis using Cons.prems by (auto simp: ebind_eq_Inr)
  next
    case (Suc k)
    then show ?thesis
      using Cons.IH [of "i + 1" "Some (gs_output_commit s)" k] Cons.prems
      by (cases k) (auto simp: ebind_eq_Inr)
  qed
qed simp

section \<open>Properties\<close>

text \<open>C14: The store accepts every operation the controller prepares. If a controller
  operation on a store of valid runs gets through its own guards, then its commit on the same
  store succeeds, is one step of the store, advances the expected revision by one, and a later
  load returns exactly the updated record.\<close>

theorem prepared_operation_commits:
  assumes "store_ok s" and "prepare_command d m clock s run_id expected c = Inr (previous, updated)"
  shows "\<exists>t run. run_controller_step d m clock s run_id expected c = Inr (t, updated) \<and>
    store_step d s t \<and> store_load d t run_id = Inr run \<and> sr_record run = updated \<and>
    rr_revision updated = expected + 1"
proof -
  obtain plan current q where p: "load_expected d m s run_id expected = Inr (plan, current)"
    "request_accepted plan current q" "build_transition clock current q = Inr (previous, updated)"
    using assms(2) by (rule prepare_command_Inr)
  obtain run where run: "store_load d s run_id = Inr run" "sr_record run = previous"
    "rr_run_id previous = run_id" "rr_revision previous = expected" "record_ok updated"
    "store_replace d s previous updated = Inr (store_write s run updated)"
    using prepared_replaces [OF assms(1) p] by blast
  from run(6,5) have "store_step d s (store_write s run updated)" by (rule store_step.replaced)
  moreover have "run_controller_step d m clock s run_id expected c = Inr (store_write s run updated, updated)"
    using run(6) by (simp add: run_controller_step_def commit_transition_def assms(2))
  moreover have "store_load d (store_write s run updated) run_id = Inr (run\<lparr>sr_record := updated\<rparr>)"
    "rr_revision updated = expected + 1"
    using replaced_load [OF run(6)] run(1,3,4) by auto
  ultimately show ?thesis by auto
qed

theorem prepared_operation_commits_witness:
  "\<exists>a b t run. run_controller_step demo_digests None (Aware 1 0) demo_start ''run-1'' 0 demo_command =
     Inr (t, b) \<and> demo_prepared = Inr (a, b) \<and> store_load demo_digests t ''run-1'' = Inr run \<and>
     rr_revision b = 1"
proof -
  obtain a b where ab: "demo_prepared = Inr (a, b)" using demo_prepared_Inr by blast
  from prepared_operation_commits [OF demo_start_ok ab [unfolded demo_prepared_def]] ab
  show ?thesis by auto
qed

lemma anchored_load:
  assumes "store_replace_event_head d s previous updated = Inr t"
  obtains run where "store_load d t (rr_run_id previous) = Inr (run\<lparr>sr_record := updated\<rparr>)"
    "rr_revision updated = rr_revision previous" "updated \<noteq> previous"
proof -
  obtain run where run: "store_load d s (rr_run_id previous) = Inr run" "sr_record run = previous"
    "t = store_write s run updated" "same_lifecycle previous updated"
    "rr_event_count updated = rr_event_count previous + 1"
    using assms by (auto simp: store_replace_event_head_def ebind_eq_Inr)
  then have "same_identity (sr_record run) updated" "rr_revision updated = rr_revision previous"
    "rr_transitions (sr_record run) = rr_transitions updated"
    by (simp_all add: same_lifecycle_def)
  moreover from this have "validate_transition_plan_boundary (sr_plan run) updated = Inr ()"
    using store_load_boundary [OF run(1)] by (simp add: validate_transition_plan_boundary_def)
  moreover have "updated \<noteq> previous" using run(5) by auto
  ultimately show thesis using that store_load_written [OF run(1)] run(3) by blast
qed

text \<open>C15: Writers of one run are serialised. After a transition built from a record has been
  committed, every other transition built from the same record is refused as a revision conflict,
  and so is an event anchored to it; after an event has been anchored, the transitions and the
  other events built from the record before are refused. So no update is ever lost.\<close>

theorem stale_commit_conflicts:
  assumes "store_replace d s previous updated = Inr t \<or>
    store_replace_event_head d s previous updated = Inr t"
  shows "(\<exists>m. commit_transition d t (Inr (previous, other)) = Inl (Run_Conflict m)) \<and>
    (\<exists>m. commit_event_head d t (Inr (previous, other)) = Inl (Run_Conflict m))"
proof -
  obtain run where "store_load d t (rr_run_id previous) = Inr (run\<lparr>sr_record := updated\<rparr>)"
    "updated \<noteq> previous"
    using assms
  proof
    assume "store_replace d s previous updated = Inr t"
    then show thesis using that by (rule replaced_load) auto
  next
    assume "store_replace_event_head d s previous updated = Inr t"
    then show thesis using that by (rule anchored_load) auto
  qed
  then have "locked_load d t (rr_run_id previous) = Inr (run\<lparr>sr_record := updated\<rparr>)" "updated \<noteq> previous"
    by simp_all
  then show ?thesis
    by (simp del: locked_load_Inr add: commit_transition_def commit_event_head_def store_replace_def
        store_replace_event_head_def first_error.simps)
qed

theorem stale_commit_conflicts_witness:
  "\<exists>a b t. demo_prepared = Inr (a, b) \<and> store_replace demo_digests demo_start a b = Inr t \<and>
     (\<exists>m. commit_transition demo_digests t (Inr (a, b)) = Inl (Run_Conflict m))"
proof -
  obtain a b where ab: "demo_prepared = Inr (a, b)" using demo_prepared_Inr by blast
  obtain t where t: "store_replace demo_digests demo_start a b = Inr t"
    using demo_commits ab by auto
  from stale_commit_conflicts [OF disjI1 [OF t]] ab t show ?thesis by blast
qed

text \<open>C16: A run only grows. Along any sequence of steps of the store (creations, transitions
  and anchored events, of any runs) a run is never removed; its brief, plan and identity never
  change, its transitions and snapshots are only appended to, its workspace is never replaced,
  and the number of anchored events never falls.\<close>

theorem run_history_append_only:
  assumes "(store_step d)\<^sup>*\<^sup>* s t" and "store_ok s" and "s k = Some a"
  shows "\<exists>b. t k = Some b \<and> sr_brief b = sr_brief a \<and> sr_plan b = sr_plan a \<and>
    same_identity (sr_record a) (sr_record b) \<and>
    (\<exists>x. rr_transitions (sr_record b) = rr_transitions (sr_record a) @ x) \<and>
    (\<exists>x. rr_snapshots (sr_record b) = rr_snapshots (sr_record a) @ x) \<and>
    (rr_workspace (sr_record a) \<noteq> None \<longrightarrow> rr_workspace (sr_record b) = rr_workspace (sr_record a)) \<and>
    rr_event_count (sr_record a) \<le> rr_event_count (sr_record b)"
  using run_store.reachable_extends [OF assms] by (auto simp: run_extends_def)

theorem run_history_append_only_witness:
  "\<exists>a b t x y. demo_start ''run-1'' = Some a \<and> store_step demo_digests demo_start t \<and>
     t ''run-1'' = Some b \<and> rr_transitions (sr_record b) = rr_transitions (sr_record a) @ x"
proof -
  obtain a where a: "demo_start ''run-1'' = Some a" using demo_start_run by blast
  obtain p b where "demo_prepared = Inr (p, b)" using demo_prepared_Inr by blast
  then obtain t where t: "store_step demo_digests demo_start t"
    using demo_commits store_step.replaced by blast
  from run_history_append_only [OF r_into_rtranclp [of "store_step demo_digests", OF t] demo_start_ok a]
    a t show ?thesis by blast
qed

text \<open>A successful anchoring of an event changes the head of the events of one run and nothing
  of its lifecycle.\<close>

lemma anchored_event_head:
  assumes "commit_event_head d t (prepare_event_head d m t k n h time) = Inr (u, r)"
  obtains run where "t k = Some run" "same_lifecycle (sr_record run) r"
    "rr_event_count r = rr_event_count (sr_record run) + 1" "u k = Some (run\<lparr>sr_record := r\<rparr>)"
proof -
  obtain current where p: "prepare_event_head d m t k n h time = Inr (current, r)"
    "store_replace_event_head d t current r = Inr u"
    using assms by (auto simp: commit_event_head_def ebind_eq_Inr)
  have k: "rr_run_id current = k"
    using p(1) by (auto simp: prepare_event_head_def controller_load_def ebind_eq_Inr
        dest!: store_load_Inr split: if_splits)
  from p(2) obtain run where run: "t (rr_run_id current) = Some run" "sr_record run = current"
    "same_lifecycle current r" "rr_event_count r = rr_event_count current + 1" "u = store_write t run r"
    by (rule store_replace_event_head_Inr)
  have "rr_run_id r = k" using run(3) k by (auto simp: same_lifecycle_def dest: same_identity_id)
  then show thesis using run k that [of run] by (simp add: store_write_def)
qed

text \<open>C17: A finished run stays finished. Whatever steps of the store follow, a run that has
  reached a terminal phase keeps its phase, transitions, snapshots, workspace and termination
  reason and detail. Every later operation of the controller that makes a transition
  (\<open>advance\<close>, \<open>attach_workspace\<close>, \<open>record_snapshot\<close>, \<open>complete\<close>, \<open>fail\<close>) raises; only events may
  still be anchored, and \<open>record_event_head\<close>, when it succeeds, changes nothing of the above.\<close>

theorem terminal_run_is_final:
  assumes "(store_step d)\<^sup>*\<^sup>* s t" and "store_ok s" and "s k = Some a"
    and "is_terminal (rr_phase (sr_record a))"
  shows "\<exists>b. t k = Some b \<and> rr_phase (sr_record b) = rr_phase (sr_record a) \<and>
    rr_transitions (sr_record b) = rr_transitions (sr_record a) \<and>
    rr_snapshots (sr_record b) = rr_snapshots (sr_record a) \<and>
    rr_workspace (sr_record b) = rr_workspace (sr_record a) \<and>
    rr_termination_reason (sr_record b) = rr_termination_reason (sr_record a) \<and>
    rr_termination_detail (sr_record b) = rr_termination_detail (sr_record a) \<and>
    (\<forall>m clock n c. \<exists>e. run_controller_step d m clock t k n c = Inl e) \<and>
    (\<forall>m n h time u r. commit_event_head d t (prepare_event_head d m t k n h time) = Inr (u, r) \<longrightarrow>
       same_lifecycle (sr_record b) r \<and> rr_event_count r = rr_event_count (sr_record b) + 1 \<and>
       u k = Some (b\<lparr>sr_record := r\<rparr>))"
proof -
  obtain b where b: "t k = Some b" "run_extends a b"
    using run_store.reachable_extends [OF assms(1-3)] by blast
  have phase: "rr_phase (sr_record b) = rr_phase (sr_record a)"
    using b(2) assms(4) by (simp add: run_extends_def same_lifecycle_def)
  have "\<exists>e. run_controller_step d m clock t k n c = Inl e" for m clock n c
  proof (cases "run_controller_step d m clock t k n c")
    case (Inr r)
    then obtain x y where "prepare_command d m clock t k n c = Inr (x, y)"
      by (auto simp: run_controller_step_def commit_transition_def ebind_eq_Inr)
    then obtain plan current where l: "load_expected d m t k n = Inr (plan, current)"
      using prepare_command_Inr by metis
    obtain run where "store_load d t k = Inr run" "current = sr_record run" "\<not> is_terminal (rr_phase current)"
      using load_expected_Inr [OF l] by metis
    then have False using store_load_Inr b(1) phase assms(4) by fastforce
    then show ?thesis ..
  qed simp
  moreover have "same_lifecycle (sr_record b) r \<and> rr_event_count r = rr_event_count (sr_record b) + 1 \<and>
      u k = Some (b\<lparr>sr_record := r\<rparr>)"
    if "commit_event_head d t (prepare_event_head d m t k n h time) = Inr (u, r)" for m n h time u r
    using anchored_event_head [OF that] b(1) by auto
  ultimately show ?thesis
    using b assms(4) by (simp add: run_extends_def same_lifecycle_def)
qed

theorem terminal_run_is_final_witness:
  "\<exists>e. run_controller_step demo_digests None (Aware 10 0) demo_store ''run-1'' 9 demo_command = Inl e"
proof -
  have run: "demo_store ''run-1'' = Some \<lparr>sr_brief = demo_brief, sr_plan = demo_plan, sr_record = demo_record\<rparr>"
    by (simp add: demo_store_def)
  have t: "is_terminal (rr_phase (sr_record \<lparr>sr_brief = demo_brief, sr_plan = demo_plan, sr_record = demo_record\<rparr>))"
    by (simp add: is_terminal_def demo_record_def)
  from terminal_run_is_final [OF rtranclp.rtrancl_refl [of "store_step demo_digests"] demo_store_ok run t]
  show ?thesis by auto
qed

text \<open>Every run is bounded. In every store reachable from the empty one, the revision of a
  running run is fixed by its phase and its iteration (five transitions for each revision), and no
  run ever has more than four plus five transitions for each allowed iteration.\<close>

theorem run_length_bounded:
  assumes "(store_step d)\<^sup>*\<^sup>* (\<lambda>_. None) s" and "s k = Some run"
  shows "record_ok (sr_record run) \<and> rr_run_id (sr_record run) = k \<and>
    (rr_phase (sr_record run) \<noteq> Failed_Run \<longrightarrow> rr_revision (sr_record run) =
       phase_rank (rr_phase (sr_record run)) + 5 * (rr_current_iteration (sr_record run) - 1)) \<and>
    rr_revision (sr_record run) \<le> 4 + 5 * rr_iteration_limit (sr_record run)"
proof -
  have "store_ok s"
    using run_store.reachable_inv [OF assms(1)] by (simp add: store_ok_def)
  then have ok: "record_ok (sr_record run)" "rr_run_id (sr_record run) = k"
    using assms(2) by (auto simp: store_ok_def)
  then have "rr_current_iteration (sr_record run) \<le> rr_iteration_limit (sr_record run)"
    by (auto simp: record_fields_def elim!: record_ok_parts)
  moreover have "phase_rank p \<le> 9" for p by (cases p) simp_all
  ultimately show ?thesis
    using ok record_ok_rank [OF ok(1)] by (auto split: if_splits simp: add_le_cancel_right)
      (smt (verit))
qed

theorem run_length_bounded_witness:
  "\<exists>run. demo_start ''run-1'' = Some run \<and> rr_revision (sr_record run) \<le> 4 + 5 * rr_iteration_limit (sr_record run)"
proof -
  obtain run where "demo_start ''run-1'' = Some run" using demo_start_run by blast
  with run_length_bounded [OF r_into_rtranclp [of "store_step demo_digests", OF demo_start_step]]
  show ?thesis by blast
qed

text \<open>C19: No run completes without its evidence. The history of a valid completed run ends
  with verification that produced a test report, review that produced an iteration record, the
  decision to accept, and delivery with a final report; there is one snapshot for each iteration,
  and the snapshots form one chain of commits from the base commit of the workspace.\<close>

theorem completed_run_has_evidence:
  assumes "record_ok r" and "rr_phase r = Completed_Run"
  shows "(\<exists>ts v w x y. rr_transitions r = ts @ [v, w, x, y] \<and>
      tr_source v = Verifying \<and> Kind_Test_Report \<in> ar_kind ` set (tr_artifacts v) \<and>
      tr_source w = Reviewing \<and> Kind_Iteration_Record \<in> ar_kind ` set (tr_artifacts w) \<and>
      tr_source x = Deciding \<and> tr_decision x = Some Decide_Accept \<and>
      tr_source y = Delivering \<and> Kind_Final_Report \<in> ar_kind ` set (tr_artifacts y)) \<and>
    rr_termination_reason r = Some Succeeded \<and>
    int (length (rr_snapshots r)) = rr_current_iteration r \<and>
    (\<exists>w. rr_workspace r = Some w \<and> (\<forall>n < length (rr_snapshots r).
       gs_iteration (rr_snapshots r ! n) = 1 + int n \<and>
       gs_input_commit (rr_snapshots r ! n) =
         (if n = 0 then gw_base_commit w else gs_output_commit (rr_snapshots r ! (n - 1)))))"
proof -
  have h: "check_workspace r = Inr ()"
    "check_snapshots (rr_run_id r) 1 (map_option gw_base_commit (rr_workspace r)) (rr_snapshots r) = Inr ()"
    "check_snapshot_counts r = Inr ()" "check_termination r = Inr ()"
    using assms(1) by (auto elim!: record_ok_parts)
  have "history_to r (rr_transitions r) Completed_Run"
    using record_history_to [OF assms(1)] assms(2) by simp
  then obtain a y where y: "rr_transitions r = a @ [y]" "history_to r a Delivering"
    "tr_source y = Delivering" "tr_target y = Completed_Run" "validate_transition y = Inr ()"
    by (rule history_to_pop [OF _ _ predecessor_phases(1)]) simp_all
  obtain b x where x: "a = b @ [x]" "history_to r b Deciding"
    "tr_source x = Deciding" "tr_target x = Delivering" "validate_transition x = Inr ()"
    using y(2) by (rule history_to_pop [OF _ _ predecessor_phases(2)]) simp_all
  obtain c w where w: "b = c @ [w]" "history_to r c Reviewing"
    "tr_source w = Reviewing" "tr_target w = Deciding" "validate_transition w = Inr ()"
    using x(2) by (rule history_to_pop [OF _ _ predecessor_phases(3)]) simp_all
  obtain ts v where v: "c = ts @ [v]" "tr_source v = Verifying" "tr_target v = Reviewing"
    "validate_transition v = Inr ()"
    using w(2) by (rule history_to_pop [OF _ _ predecessor_phases(4)]) simp_all
  have "Kind_Test_Report \<in> ar_kind ` set (tr_artifacts v)"
    "Kind_Iteration_Record \<in> ar_kind ` set (tr_artifacts w)" "tr_decision x = Some Decide_Accept"
    "Kind_Final_Report \<in> ar_kind ` set (tr_artifacts y)"
    using transition_artifacts [OF v(4)] v(2,3) transition_artifacts [OF w(5)] w(3,4)
      transition_decision [OF x(5)] x(3,4) transition_artifacts [OF y(5)] y(3,4)
    by (simp_all add: required_artifacts_def expected_decision_def)
  then have tail: "\<exists>ts v w x y. rr_transitions r = ts @ [v, w, x, y] \<and>
      tr_source v = Verifying \<and> Kind_Test_Report \<in> ar_kind ` set (tr_artifacts v) \<and>
      tr_source w = Reviewing \<and> Kind_Iteration_Record \<in> ar_kind ` set (tr_artifacts w) \<and>
      tr_source x = Deciding \<and> tr_decision x = Some Decide_Accept \<and>
      tr_source y = Delivering \<and> Kind_Final_Report \<in> ar_kind ` set (tr_artifacts y)"
    using v(1,2) w(1,3) x(1,3) y(1,3)
    by (intro exI [of _ ts] exI [of _ v] exI [of _ w] exI [of _ x] exI [of _ y]) simp
  obtain ws where ws: "rr_workspace r = Some ws"
    using h(1) assms(2) by (auto simp: check_workspace_def before_workspace_def)
  have "rr_termination_reason r = Some Succeeded"
    "int (length (rr_snapshots r)) = rr_current_iteration r"
    using h(3,4) assms(2)
    by (auto simp: check_termination_def check_snapshot_counts_def after_snapshot_def Let_def)
  moreover have "gs_iteration (rr_snapshots r ! n) = 1 + int n \<and> gs_input_commit (rr_snapshots r ! n) =
      (if n = 0 then gw_base_commit ws else gs_output_commit (rr_snapshots r ! (n - 1)))"
    if "n < length (rr_snapshots r)" for n
    using snapshot_chain [OF h(2) that] by (cases "n = 0") (simp_all add: ws)
  ultimately show ?thesis using tail ws by blast
qed

theorem completed_run_has_evidence_witness:
  "record_ok demo_record \<and> rr_termination_reason demo_record = Some Succeeded \<and>
   (\<exists>ts v w x y. rr_transitions demo_record = ts @ [v, w, x, y] \<and> tr_decision x = Some Decide_Accept)"
proof -
  have "rr_phase demo_record = Completed_Run" by (simp add: demo_record_def)
  from completed_run_has_evidence [OF demo_record_ok this] demo_record_ok show ?thesis by blast
qed

end
