(* ===== verification/Schedule_Models.thy ===== *)
theory Schedule_Models
  imports Team_Plans
begin

text \<open>
  The persisted models of \<open>scheduling.py\<close> with their validators (runner outcomes, terminal
  records, events and the result of one scheduling pass), the cleaning of event messages, and
  \<open>invoke\<close>, which turns whatever a runner does into a valid outcome.

  The suffix that marks a truncated message holds a character outside the code points of the
  model's strings, so it is an argument of \<open>safe_schedule_message\<close>.
\<close>

section \<open>Messages\<close>

text \<open>\<open>str.split()\<close>: the words between runs of white space.\<close>

fun split_words :: "string \<Rightarrow> string \<Rightarrow> string list" where
  "split_words word [] = (if word = [] then [] else [word])"
| "split_words word (c # cs) =
     (if py_space c then (if word = [] then split_words [] cs else word # split_words [] cs)
      else split_words (word @ [c]) cs)"

definition rstrip :: "string \<Rightarrow> string" where
  "rstrip s = rev (dropWhile py_space (rev s))"

fun rfind_space :: "string \<Rightarrow> int" where
  "rfind_space [] = -1"
| "rfind_space (c # cs) =
     (if 0 \<le> rfind_space cs then 1 + rfind_space cs else if c = CHR '' '' then 0 else -1)"

definition safe_schedule_message :: "string \<Rightarrow> string \<Rightarrow> string" where
  "safe_schedule_message suffix value =
     (let joined = join_with '' '' (split_words [] value);
          cleaned = (if joined = [] then ''Scheduler state changed.'' else joined);
          room = 500 - length suffix
      in if length cleaned \<le> 500 then cleaned
         else let prefix = rstrip (take room cleaned); boundary = rfind_space prefix
           in (if int (room div 2) \<le> boundary then rstrip (take (nat boundary) prefix) else prefix) @ suffix)"

section \<open>Outcomes, records and events\<close>

datatype agent_run_status = Run_Completed | Run_Failed | Run_Interrupted

datatype scheduled_state =
    State_Completed | State_Failed | State_Skipped | State_Interrupted | State_Cancelled

datatype schedule_status =
    Schedule_Completed | Quality_Decision_Required | Schedule_Failed | Schedule_Cancelled
  | Correction_Requested

datatype schedule_event_kind =
    Agent_Queued | Agent_Ready | Agent_Started | Agent_Completed | Agent_Failed | Agent_Skipped
  | Agent_Interrupted | Agent_Cancelled

record agent_outcome =
  ao_agent_id :: string
  ao_status :: agent_run_status
  ao_output :: "artifact_reference option"
  ao_evidence :: "artifact_reference list"
  ao_requires_quality_decision :: bool
  ao_summary :: string
  ao_error :: "string option"

definition bounded_text :: "string \<Rightarrow> bool" where
  "bounded_text s \<longleftrightarrow> s \<noteq> [] \<and> length s \<le> 2000"

definition validate_outcome :: "agent_outcome \<Rightarrow> fault + unit" where
  "validate_outcome r = first_error
     [(\<not> ident_pattern (ao_agent_id r), Field_Invalid ''agent_id''),
      (\<not> bounded_text (ao_summary r), Field_Invalid ''summary''),
      (\<not> opt_all bounded_text (ao_error r), Field_Invalid ''error''),
      (ao_status r = Run_Completed \<and> (ao_output r = None \<or> ao_error r \<noteq> None),
        Value_Error ''completed Agent outcomes require output without error''),
      (ao_status r \<noteq> Run_Completed \<and> (ao_output r \<noteq> None \<or> ao_error r = None),
        Value_Error ''failed Agent outcomes require error without output''),
      (\<not> distinct (map ar_path (ao_evidence r)),
        Value_Error ''Agent outcome evidence references must be unique''),
      (ao_requires_quality_decision r \<and> ao_status r \<noteq> Run_Completed,
        Value_Error ''quality decisions require a completed Agent output'')]"

text \<open>The constructor strips both texts; blank text is refused, and the field limits apply to the
  text as given.\<close>

definition mk_outcome :: "agent_outcome \<Rightarrow> fault + agent_outcome" where
  "mk_outcome r =
     ebind (first_error
       [(\<not> bounded_text (ao_summary r), Field_Invalid ''summary''),
        (\<not> opt_all bounded_text (ao_error r), Field_Invalid ''error''),
        (py_strip (ao_summary r) = [] \<or> \<not> opt_all (\<lambda>e. py_strip e \<noteq> []) (ao_error r),
          Value_Error ''scheduler outcome text must not be blank'')]) (\<lambda>_.
     let u = r\<lparr>ao_summary := py_strip (ao_summary r), ao_error := map_option py_strip (ao_error r)\<rparr>
     in ebind (validate_outcome u) (\<lambda>_. Inr u))"

record scheduled_record =
  sc_agent_id :: string
  sc_capability :: capability
  sc_specialization :: specialization
  sc_stage_id :: string
  sc_dependencies :: "string list"
  sc_state :: scheduled_state
  sc_timeout_seconds :: int
  sc_started_at :: "int option"
  sc_finished_at :: "int option"
  sc_duration_ms :: "int option"
  sc_output :: "artifact_reference option"
  sc_evidence :: "artifact_reference list"
  sc_summary :: string
  sc_error :: "string option"

definition not_run :: "scheduled_state \<Rightarrow> bool" where
  "not_run s \<longleftrightarrow> s = State_Skipped \<or> s = State_Cancelled"

definition validate_scheduled_record :: "scheduled_record \<Rightarrow> fault + unit" where
  "validate_scheduled_record r =
     ebind (first_error
       [(\<not> ident_pattern (sc_agent_id r), Field_Invalid ''agent_id''),
        (\<not> ident_pattern (sc_stage_id r), Field_Invalid ''stage_id''),
        (sc_timeout_seconds r < 0, Field_Invalid ''timeout_seconds''),
        (\<not> opt_all (\<lambda>d. 0 \<le> d) (sc_duration_ms r), Field_Invalid ''duration_ms''),
        (\<not> bounded_text (sc_summary r), Field_Invalid ''summary''),
        (\<not> opt_all bounded_text (sc_error r), Field_Invalid ''error'')]) (\<lambda>_.
     if not_run (sc_state r) then first_error
       [(sc_started_at r \<noteq> None \<or> sc_finished_at r \<noteq> None \<or> sc_duration_ms r \<noteq> None,
          Value_Error ''skipped Agents cannot contain execution timing''),
        (sc_output r \<noteq> None \<or> sc_evidence r \<noteq> [],
          Value_Error ''skipped Agents cannot claim runtime evidence''),
        (sc_error r = None, Value_Error ''skipped Agents require a controller reason'')]
     else case (sc_started_at r, sc_finished_at r, sc_duration_ms r) of
       (Some a, Some b, Some c) \<Rightarrow> first_error
         [(b < a, Value_Error ''Agent finish time cannot precede start time''),
          (sc_state r = State_Completed \<and> (sc_output r = None \<or> sc_error r \<noteq> None),
            Value_Error ''completed Agents require output without error''),
          (sc_state r \<noteq> State_Completed \<and> (sc_output r \<noteq> None \<or> sc_error r = None),
            Value_Error ''failed Agents require error without output'')]
     | _ \<Rightarrow> Inl (Value_Error ''executed Agents require complete timing evidence''))"

record schedule_event =
  ev_sequence :: int
  ev_kind :: schedule_event_kind
  ev_agent_id :: string
  ev_occurred_at :: int
  ev_active_count :: int
  ev_message :: string
  ev_duration_ms :: "int option"

definition timed_event :: "schedule_event_kind \<Rightarrow> bool" where
  "timed_event k \<longleftrightarrow> k = Agent_Completed \<or> k = Agent_Failed \<or> k = Agent_Interrupted"

definition validate_schedule_event :: "schedule_event \<Rightarrow> fault + unit" where
  "validate_schedule_event v = first_error
     [(ev_sequence v < 1, Field_Invalid ''sequence''),
      (\<not> ident_pattern (ev_agent_id v), Field_Invalid ''agent_id''),
      (ev_active_count v < 0, Field_Invalid ''active_count''),
      (ev_message v = [] \<or> 500 < length (ev_message v), Field_Invalid ''message''),
      (\<not> opt_all (\<lambda>d. 0 \<le> d) (ev_duration_ms v), Field_Invalid ''duration_ms''),
      (timed_event (ev_kind v) \<noteq> (ev_duration_ms v \<noteq> None),
        Value_Error ''scheduler duration must match an executed terminal event'')]"

section \<open>The result of a scheduling pass\<close>

record schedule_result =
  sr_run_id :: string
  sr_plan_id :: string
  sr_iteration :: int
  sr_status :: schedule_status
  sr_records :: "scheduled_record list"
  sr_events :: "schedule_event list"
  sr_completion_order :: "string list"
  sr_max_observed_concurrency :: int
  sr_failed_agent_id :: "string option"
  sr_quality_decision_agent_id :: "string option"

definition agents_in_state :: "schedule_result \<Rightarrow> scheduled_state \<Rightarrow> string list" where
  "agents_in_state r s = map sc_agent_id (filter (\<lambda>x. sc_state x = s) (sr_records r))"

definition executed_agents :: "schedule_result \<Rightarrow> string list" where
  "executed_agents r = map sc_agent_id (filter (\<lambda>x. \<not> not_run (sc_state x)) (sr_records r))"

definition check_status_identity :: "schedule_result \<Rightarrow> fault + unit" where
  "check_status_identity r =
     (let failed = agents_in_state r State_Failed; interrupted = agents_in_state r State_Interrupted;
          done_ids = agents_in_state r State_Completed;
          fid = sr_failed_agent_id r; qid = sr_quality_decision_agent_id r
      in case sr_status r of
        Schedule_Completed \<Rightarrow> first_error
         [(failed \<noteq> [] \<or> interrupted \<noteq> [] \<or> fid \<noteq> None \<or> qid \<noteq> None,
            Value_Error ''completed schedules cannot contain failures''),
          (list_ex (\<lambda>x. sc_state x \<noteq> State_Completed) (sr_records r),
            Value_Error ''completed schedules require every Agent to complete'')]
      | Schedule_Failed \<Rightarrow> first_error
         [((failed = [] \<and> interrupted = []) \<or> fid \<notin> Some ` set (failed @ interrupted),
            Value_Error ''failed schedule identity must name a failed Agent''),
          (qid \<noteq> None, Value_Error ''failed schedules cannot request a quality decision'')]
      | Quality_Decision_Required \<Rightarrow> first_error
         [(failed \<noteq> [] \<or> interrupted \<noteq> [] \<or> fid \<noteq> None,
            Value_Error ''quality-decision schedules cannot contain Agent failures''),
          (qid \<notin> Some ` set done_ids,
            Value_Error ''quality-decision schedules must name a completed Agent'')]
      | _ \<Rightarrow> first_error
         [(fid \<noteq> None, Value_Error ''controlled stops cannot claim a failed Agent identity''),
          (qid \<noteq> None, Value_Error ''controlled stops cannot request a quality decision''),
          (sr_status r = Correction_Requested \<and> interrupted \<noteq> [],
            Value_Error ''cooperative correction cannot interrupt an Agent'')])"

definition validate_schedule_result :: "schedule_result \<Rightarrow> fault + unit" where
  "validate_schedule_result r =
     ebind (first_error
       [(\<not> run_id_pattern (sr_run_id r), Field_Invalid ''run_id''),
        (sr_iteration r < 1, Field_Invalid ''iteration''),
        (sr_max_observed_concurrency r < 0, Field_Invalid ''max_observed_concurrency''),
        (\<not> distinct (map sc_agent_id (sr_records r)),
          Value_Error ''schedule records must contain unique Agent IDs''),
        (\<not> distinct (sr_completion_order r),
          Value_Error ''completion order cannot repeat an Agent ID''),
        (set (sr_completion_order r) \<noteq> set (executed_agents r),
          Value_Error ''completion order must cover every executed Agent'')])
     (\<lambda>_. check_status_identity r)"

section \<open>Invoking a runner\<close>

text \<open>What a runner does: it raises an exception (its text and the name of its type) or returns an
  outcome, which its own constructor has validated.\<close>

datatype runner_reply = Runner_Raised string string | Runner_Returned agent_outcome

definition failed_outcome :: "string \<Rightarrow> string \<Rightarrow> string \<Rightarrow> agent_outcome" where
  "failed_outcome agent_id summary error =
     \<lparr>ao_agent_id = agent_id, ao_status = Run_Failed, ao_output = None, ao_evidence = [],
      ao_requires_quality_decision = False, ao_summary = summary, ao_error = Some error\<rparr>"

fun invoke :: "agent_spec \<Rightarrow> runner_reply \<Rightarrow> fault + agent_outcome" where
  "invoke a (Runner_Raised text kind) =
     (let detail = (if py_strip text = [] then kind else py_strip text)
      in mk_outcome (failed_outcome (as_id a) ''The Agent runner raised an exception.''
           (take 2000 detail)))"
| "invoke a (Runner_Returned r) =
     (if ao_agent_id r \<noteq> as_id a
      then mk_outcome (failed_outcome (as_id a) ''The Agent runner returned invalid evidence.''
             ''Agent runner returned a different Agent ID'')
      else if ao_status r = Run_Completed \<and>
          (case ao_output r of None \<Rightarrow> False | Some x \<Rightarrow> ar_kind x \<noteq> as_expected_output a)
      then mk_outcome (failed_outcome (as_id a) ''The Agent runner returned invalid evidence.''
             ''Agent output kind differs from its AgentSpec'')
      else Inr r)"

end
