(* ===== verification/Scheduling.thy ===== *)
theory Scheduling
  imports Schedule_Models
begin

text \<open>
  \<open>DagScheduler.execute\<close> of \<open>scheduling.py\<close>. The local variables of \<open>execute\<close> are the record
  \<open>sched_state\<close>; one iteration of its \<open>while\<close> loop is \<open>schedule_round\<close>, driven by what the
  environment does in that iteration (\<open>sched_round\<close>: the answers of the control channel and the
  runners that finish while the loop waits). The clock, the timer, the observer and the presence
  of a control channel are the record \<open>sched_env\<close>: \<open>se_clock n\<close> is the n-th reading of the clock,
  which only the scheduling thread reads, and \<open>se_elapsed i j\<close> is the rounded number of
  milliseconds between the readings i and j of the monotonic timer.

  A Python set whose order is never observed is a list in plan order.
\<close>

section \<open>State\<close>

datatype control_decision = Control_Continue | Control_Hold | Control_Cancel | Control_Correct

datatype sched_error = Sched_Fault fault | No_Schedulable_Agent

record sched_env =
  se_clock :: "nat \<Rightarrow> datetime"
  se_elapsed :: "nat \<Rightarrow> nat \<Rightarrow> int"
  se_observer :: "schedule_event \<Rightarrow> fault option"
  se_suffix :: string
  se_channel :: bool

record active_agent =
  aa_agent :: agent_spec
  aa_upstream :: "(string \<times> agent_outcome) list"
  aa_started_at :: int
  aa_timer :: nat

record sched_state =
  ss_pending :: "string list"
  ss_completed :: "(string \<times> agent_outcome) list"
  ss_records :: "(string \<times> scheduled_record) list"
  ss_completion_order :: "string list"
  ss_events :: "schedule_event list"
  ss_active :: "active_agent list"
  ss_first_failure :: "string option"
  ss_quality_agent :: "string option"
  ss_controlled_stop :: "control_decision option"
  ss_max_concurrency :: nat
  ss_announced :: "string list"
  ss_ticks :: nat
  ss_timer :: nat

record sched_round =
  ro_decision :: control_decision
  ro_final_decision :: control_decision
  ro_replies :: "(string \<times> runner_reply) list"

definition initial_schedule :: "team_plan \<Rightarrow> sched_state" where
  "initial_schedule p =
     \<lparr>ss_pending = dedup (plan_agent_ids p), ss_completed = [], ss_records = [],
      ss_completion_order = [], ss_events = [], ss_active = [], ss_first_failure = None,
      ss_quality_agent = None, ss_controlled_stop = None, ss_max_concurrency = 0,
      ss_announced = [], ss_ticks = 0, ss_timer = 0\<rparr>"

section \<open>Events\<close>

definition sched_utc :: "datetime \<Rightarrow> sched_error + int" where
  "sched_utc t = (case require_utc (Value_Error ''scheduler timestamps must include a timezone'') t of
     Inl e \<Rightarrow> Inl (Sched_Fault e) | Inr x \<Rightarrow> Inr x)"

definition read_clock :: "sched_env \<Rightarrow> sched_state \<Rightarrow> sched_error + (int \<times> sched_state)" where
  "read_clock e s =
     ebind (sched_utc (se_clock e (ss_ticks s))) (\<lambda>t. Inr (t, s\<lparr>ss_ticks := ss_ticks s + 1\<rparr>))"

definition checked :: "fault + 'a \<Rightarrow> sched_error + 'a" where
  "checked m = (case m of Inl e \<Rightarrow> Inl (Sched_Fault e) | Inr x \<Rightarrow> Inr x)"

definition emit ::
    "sched_env \<Rightarrow> schedule_event_kind \<Rightarrow> string \<Rightarrow> string \<Rightarrow> nat \<Rightarrow> int option \<Rightarrow> sched_state \<Rightarrow>
     sched_error + sched_state" where
  "emit e kind agent_id message active_count duration s =
     ebind (read_clock e s) (\<lambda>(now, s1).
     let event = \<lparr>ev_sequence = int (length (ss_events s)) + 1, ev_kind = kind,
           ev_agent_id = agent_id, ev_occurred_at = now, ev_active_count = int active_count,
           ev_message = safe_schedule_message (se_suffix e) message, ev_duration_ms = duration\<rparr>
     in ebind (checked (validate_schedule_event event)) (\<lambda>_.
        case se_observer e event of
          Some f \<Rightarrow> Inl (Sched_Fault f)
        | None \<Rightarrow> Inr (s1\<lparr>ss_events := ss_events s @ [event]\<rparr>)))"

definition queue_agent :: "sched_env \<Rightarrow> agent_spec \<Rightarrow> sched_state \<Rightarrow> sched_error + sched_state" where
  "queue_agent e a s =
     (let after = (if as_dependencies a = [] then ''scheduler'' else join_with '', '' (as_dependencies a))
      in emit e Agent_Queued (as_id a)
           (as_label a @ '' queued after '' @ after @ '': '' @ as_responsibility a) 0 None s)"

section \<open>Launching\<close>

definition writes :: "agent_spec \<Rightarrow> bool" where
  "writes a \<longleftrightarrow> as_permission a = Workspace_Write"

definition can_launch :: "agent_spec \<Rightarrow> active_agent list \<Rightarrow> bool" where
  "can_launch a active \<longleftrightarrow>
     active = [] \<or> (\<not> writes a \<and> \<not> list_ex (\<lambda>x. writes (aa_agent x)) active)"

definition ready_agents :: "team_plan \<Rightarrow> sched_state \<Rightarrow> agent_spec list" where
  "ready_agents p s =
     (let ready = filter (\<lambda>a. as_id a \<in> set (ss_pending s) \<and>
            set (as_dependencies a) \<subseteq> fst ` set (ss_completed s)) (tp_agents p)
      in if list_ex (\<lambda>x. as_capability (aa_agent x) = Testing) (ss_active s) \<or>
            list_ex (\<lambda>a. as_capability a = Testing) ready
         then filter (\<lambda>a. as_capability a = Testing) ready else ready)"

definition announce_agent :: "sched_env \<Rightarrow> agent_spec \<Rightarrow> sched_state \<Rightarrow> sched_error + sched_state" where
  "announce_agent e a s =
     (if as_id a \<in> set (ss_announced s) then Inr s
      else ebind (emit e Agent_Ready (as_id a) (as_label a @ '' is ready: '' @ as_responsibility a)
             (length (ss_active s)) None s)
        (\<lambda>t. Inr (t\<lparr>ss_announced := as_id a # ss_announced t\<rparr>)))"

definition upstream_of ::
    "agent_spec \<Rightarrow> sched_state \<Rightarrow> sched_error + (string \<times> agent_outcome) list" where
  "upstream_of a s = emap (\<lambda>d. case map_of (ss_completed s) d of
       None \<Rightarrow> Inl (Sched_Fault (Key_Missing d)) | Some r \<Rightarrow> Inr (d, r)) (as_dependencies a)"

definition start_agent ::
    "sched_env \<Rightarrow> agent_spec \<Rightarrow> (string \<times> agent_outcome) list \<Rightarrow> int \<Rightarrow> sched_state \<Rightarrow>
     sched_error + sched_state" where
  "start_agent e a upstream started s =
     ebind (emit e Agent_Started (as_id a) (as_label a @ '' started: '' @ as_responsibility a)
              (length (ss_active s) + 1) None
              (s\<lparr>ss_timer := ss_timer s + 1,
                 ss_pending := filter (\<lambda>x. x \<noteq> as_id a) (ss_pending s)\<rparr>)) (\<lambda>t.
     let active = ss_active t @ [\<lparr>aa_agent = a, aa_upstream = upstream, aa_started_at = started,
                                    aa_timer = ss_timer s\<rparr>]
     in Inr (t\<lparr>ss_active := active,
               ss_max_concurrency := max (ss_max_concurrency t) (length active)\<rparr>))"

definition launch_agent :: "sched_env \<Rightarrow> agent_spec \<Rightarrow> sched_state \<Rightarrow> sched_error + sched_state" where
  "launch_agent e a s =
     ebind (upstream_of a s) (\<lambda>upstream.
     ebind (read_clock e s) (\<lambda>(started, s1). start_agent e a upstream started s1))"

fun launch_ready ::
    "sched_env \<Rightarrow> team_plan \<Rightarrow> agent_spec list \<Rightarrow> sched_state \<Rightarrow> sched_error + sched_state" where
  "launch_ready e p [] s = Inr s"
| "launch_ready e p (a # rest) s =
     (if tp_max_concurrency p \<le> int (length (ss_active s)) then Inr s
      else if \<not> can_launch a (ss_active s) then launch_ready e p rest s
      else ebind (launch_agent e a s) (launch_ready e p rest))"

section \<open>Settling finished runners\<close>

fun state_of_status :: "agent_run_status \<Rightarrow> scheduled_state" where
  "state_of_status Run_Completed = State_Completed"
| "state_of_status Run_Failed = State_Failed"
| "state_of_status Run_Interrupted = State_Interrupted"

fun event_of_status :: "agent_run_status \<Rightarrow> schedule_event_kind" where
  "event_of_status Run_Completed = Agent_Completed"
| "event_of_status Run_Failed = Agent_Failed"
| "event_of_status Run_Interrupted = Agent_Interrupted"

definition executed_record ::
    "active_agent \<Rightarrow> agent_outcome \<Rightarrow> int \<Rightarrow> int \<Rightarrow> scheduled_record" where
  "executed_record x r finished duration =
     (let a = aa_agent x in
      \<lparr>sc_agent_id = as_id a, sc_capability = as_capability a,
       sc_specialization = as_specialization a, sc_stage_id = as_stage_id a,
       sc_dependencies = as_dependencies a, sc_state = state_of_status (ao_status r),
       sc_timeout_seconds = as_timeout_seconds a, sc_started_at = Some (aa_started_at x),
       sc_finished_at = Some finished, sc_duration_ms = Some duration, sc_output = ao_output r,
       sc_evidence = ao_evidence r, sc_summary = ao_summary r,
       sc_error = (if ao_status r = Run_Completed then None else ao_error r)\<rparr>)"

text \<open>The effect of an outcome on the control variables.\<close>

definition note_outcome :: "agent_spec \<Rightarrow> agent_outcome \<Rightarrow> sched_state \<Rightarrow> sched_state" where
  "note_outcome a r s =
     (let undecided = (ss_first_failure s = None \<and> ss_controlled_stop s = None) in
      if ao_status r = Run_Completed then
        s\<lparr>ss_completed := (as_id a, r) # ss_completed s,
          ss_quality_agent :=
            (if ao_requires_quality_decision r \<and> ss_quality_agent s = None \<and> undecided
             then Some (as_id a) else ss_quality_agent s)\<rparr>
      else s\<lparr>ss_first_failure := (if undecided then Some (as_id a) else ss_first_failure s)\<rparr>)"

definition settle_outcome ::
    "sched_env \<Rightarrow> active_agent \<Rightarrow> agent_outcome \<Rightarrow> int \<Rightarrow> sched_state \<Rightarrow> sched_error + sched_state" where
  "settle_outcome e x r finished s =
     (let a = aa_agent x;
          duration = max 0 (se_elapsed e (aa_timer x) (ss_timer s));
          s1 = note_outcome a r
            (s\<lparr>ss_timer := ss_timer s + 1, ss_completion_order := ss_completion_order s @ [as_id a]\<rparr>);
          rec = executed_record x r finished duration
      in ebind (checked (validate_scheduled_record rec)) (\<lambda>_.
         emit e (event_of_status (ao_status r)) (as_id a) (ao_summary r) (length (ss_active s1))
           (Some duration) (s1\<lparr>ss_records := (as_id a, rec) # ss_records s1\<rparr>)))"

definition settle_agent ::
    "sched_env \<Rightarrow> runner_reply \<Rightarrow> active_agent \<Rightarrow> sched_state \<Rightarrow> sched_error + sched_state" where
  "settle_agent e reply x s =
     (let a = aa_agent x;
          s1 = s\<lparr>ss_active := filter (\<lambda>y. as_id (aa_agent y) \<noteq> as_id a) (ss_active s)\<rparr>
      in ebind (checked (invoke a reply)) (\<lambda>r.
         ebind (read_clock e s1) (\<lambda>(finished, s2). settle_outcome e x r finished s2)))"

text \<open>The position of an Agent in the plan, the sort key of the finished runners.\<close>

fun position :: "'a \<Rightarrow> 'a list \<Rightarrow> nat" where
  "position x [] = 0"
| "position x (y # ys) = (if x = y then 0 else Suc (position x ys))"

definition finished_agents :: "team_plan \<Rightarrow> sched_round \<Rightarrow> sched_state \<Rightarrow> (active_agent \<times> runner_reply) list" where
  "finished_agents p r s =
     sort_key (\<lambda>(x, reply). position (as_id (aa_agent x)) (plan_agent_ids p))
       (List.map_filter (\<lambda>x. map_option (Pair x) (map_of (ro_replies r) (as_id (aa_agent x))))
          (ss_active s))"

definition settle_finished ::
    "sched_env \<Rightarrow> team_plan \<Rightarrow> sched_round \<Rightarrow> sched_state \<Rightarrow> sched_error + sched_state" where
  "settle_finished e p r s = efold (\<lambda>(x, reply). settle_agent e reply x) (finished_agents p r s) s"

section \<open>The loop\<close>

definition stops :: "control_decision \<Rightarrow> bool" where
  "stops d \<longleftrightarrow> d = Control_Cancel \<or> d = Control_Correct"

definition round_decision :: "sched_env \<Rightarrow> sched_round \<Rightarrow> control_decision" where
  "round_decision e r = (if se_channel e then ro_decision r else Control_Continue)"

definition observe_control :: "sched_env \<Rightarrow> control_decision \<Rightarrow> sched_state \<Rightarrow> sched_state" where
  "observe_control e d s = (if se_channel e \<and> stops d then s\<lparr>ss_controlled_stop := Some d\<rparr> else s)"

definition launches_allowed :: "control_decision \<Rightarrow> sched_state \<Rightarrow> bool" where
  "launches_allowed d s \<longleftrightarrow> ss_first_failure s = None \<and> ss_quality_agent s = None \<and>
     ss_controlled_stop s = None \<and> d = Control_Continue"

definition launch_phase ::
    "sched_env \<Rightarrow> team_plan \<Rightarrow> sched_round \<Rightarrow> sched_state \<Rightarrow> sched_error + sched_state" where
  "launch_phase e p r s =
     (let s1 = observe_control e (round_decision e r) s in
      if launches_allowed (round_decision e r) s1
      then let ready = ready_agents p s1 in
        ebind (efold (announce_agent e) ready s1) (launch_ready e p ready)
      else Inr s1)"

text \<open>The result of one iteration: leave the loop, or go on.\<close>

definition schedule_round ::
    "sched_env \<Rightarrow> team_plan \<Rightarrow> sched_round \<Rightarrow> sched_state \<Rightarrow> sched_error + (bool \<times> sched_state)" where
  "schedule_round e p r s =
     ebind (launch_phase e p r s) (\<lambda>t.
     if ss_active t = [] then
       (if ss_controlled_stop t \<noteq> None
        then Inr (True, observe_control e (ro_final_decision r) t)
        else if round_decision e r = Control_Hold then Inr (False, t)
        else if ss_pending t \<noteq> [] \<and> ss_first_failure t = None
        then (if ss_quality_agent t \<noteq> None then Inr (True, t) else Inl No_Schedulable_Agent)
        else Inr (True, t))
     else ebind (settle_finished e p r t) (\<lambda>u. Inr (False, u)))"

datatype loop_state = Loop_Left sched_state | Loop_Running sched_state

fun schedule_loop ::
    "sched_env \<Rightarrow> team_plan \<Rightarrow> sched_round list \<Rightarrow> sched_state \<Rightarrow> sched_error + loop_state" where
  "schedule_loop e p rounds s =
     (if ss_pending s = [] \<and> ss_active s = [] then Inr (Loop_Left s)
      else case rounds of
        [] \<Rightarrow> Inr (Loop_Running s)
      | r # rest \<Rightarrow> (case schedule_round e p r s of
            Inl f \<Rightarrow> Inl f
          | Inr (left, t) \<Rightarrow> if left then Inr (Loop_Left t) else schedule_loop e p rest t))"

declare schedule_loop.simps [simp del]

section \<open>After the loop\<close>

definition skip_reason :: "sched_state \<Rightarrow> string \<times> scheduled_state \<times> schedule_event_kind" where
  "skip_reason s =
     (if ss_controlled_stop s = Some Control_Cancel
      then (''Not started because the user cancelled the run.'', State_Cancelled, Agent_Cancelled)
      else if ss_controlled_stop s = Some Control_Correct
      then (''Not started because replacement Planning was requested.'', State_Skipped, Agent_Skipped)
      else if ss_quality_agent s \<noteq> None
      then (''Not started because deterministic quality evidence requires '' @
            ''a controller decision before further Review.'', State_Skipped, Agent_Skipped)
      else (''Not started after Agent '' @ the_or (ss_first_failure s) ''None'' @ '' failed.'',
            State_Skipped, Agent_Skipped))"

definition skipped_record :: "string \<Rightarrow> scheduled_state \<Rightarrow> agent_spec \<Rightarrow> scheduled_record" where
  "skipped_record reason state a =
     \<lparr>sc_agent_id = as_id a, sc_capability = as_capability a,
      sc_specialization = as_specialization a, sc_stage_id = as_stage_id a,
      sc_dependencies = as_dependencies a, sc_state = state,
      sc_timeout_seconds = as_timeout_seconds a, sc_started_at = None, sc_finished_at = None,
      sc_duration_ms = None, sc_output = None, sc_evidence = [], sc_summary = reason,
      sc_error = Some reason\<rparr>"

definition skip_agent :: "sched_env \<Rightarrow> agent_spec \<Rightarrow> sched_state \<Rightarrow> sched_error + sched_state" where
  "skip_agent e a s =
     (if as_id a \<notin> set (ss_pending s) then Inr s
      else case skip_reason s of (reason, state, kind) \<Rightarrow>
        let rec = skipped_record reason state a in
        ebind (checked (validate_scheduled_record rec)) (\<lambda>_.
          emit e kind (as_id a) reason 0 None (s\<lparr>ss_records := (as_id a, rec) # ss_records s\<rparr>)))"

definition result_status :: "sched_state \<Rightarrow> schedule_status" where
  "result_status s =
     (if ss_controlled_stop s = Some Control_Cancel then Schedule_Cancelled
      else if ss_controlled_stop s = Some Control_Correct then Correction_Requested
      else if ss_first_failure s \<noteq> None then Schedule_Failed
      else if ss_quality_agent s \<noteq> None then Quality_Decision_Required
      else Schedule_Completed)"

definition ordered_records :: "team_plan \<Rightarrow> sched_state \<Rightarrow> sched_error + scheduled_record list" where
  "ordered_records p s = emap (\<lambda>a. case map_of (ss_records s) (as_id a) of
       None \<Rightarrow> Inl (Sched_Fault (Key_Missing (as_id a))) | Some r \<Rightarrow> Inr r) (tp_agents p)"

definition schedule_result_of ::
    "team_plan \<Rightarrow> int \<Rightarrow> sched_state \<Rightarrow> scheduled_record list \<Rightarrow> schedule_result" where
  "schedule_result_of p iteration s recs =
     \<lparr>sr_run_id = tp_run_id p, sr_plan_id = tp_plan_id p, sr_iteration = iteration,
      sr_status = result_status s, sr_records = recs, sr_events = ss_events s,
      sr_completion_order = ss_completion_order s,
      sr_max_observed_concurrency = int (ss_max_concurrency s),
      sr_failed_agent_id = (if ss_controlled_stop s \<noteq> None then None else ss_first_failure s),
      sr_quality_decision_agent_id =
        (if ss_controlled_stop s = None \<and> ss_first_failure s = None then ss_quality_agent s
         else None)\<rparr>"

definition conclude_schedule ::
    "sched_env \<Rightarrow> team_plan \<Rightarrow> int \<Rightarrow> sched_state \<Rightarrow> sched_error + schedule_result" where
  "conclude_schedule e p iteration s =
     ebind (if ss_pending s = [] then Inr s else efold (skip_agent e) (tp_agents p) s) (\<lambda>t.
     ebind (ordered_records p t) (\<lambda>recs.
     let res = schedule_result_of p iteration t recs
     in ebind (checked (validate_schedule_result res)) (\<lambda>_. Inr res)))"

datatype schedule_outcome = Schedule_Returned schedule_result | Schedule_Running sched_state

definition execute_schedule ::
    "sched_env \<Rightarrow> team_plan \<Rightarrow> int \<Rightarrow> sched_round list \<Rightarrow> sched_error + schedule_outcome" where
  "execute_schedule e p iteration rounds =
     (if iteration < 1 \<or> tp_iteration_limit p < iteration
      then Inl (Sched_Fault (Value_Error ''schedule iteration exceeds the approved TeamPlan''))
      else ebind (efold (queue_agent e) (tp_agents p) (initial_schedule p)) (\<lambda>s.
        ebind (schedule_loop e p rounds s) (\<lambda>l. case l of
          Loop_Running t \<Rightarrow> Inr (Schedule_Running t)
        | Loop_Left t \<Rightarrow> ebind (conclude_schedule e p iteration t) (\<lambda>r. Inr (Schedule_Returned r)))))"

end
