(* ===== verification/Schedule_Properties.thy ===== *)
theory Schedule_Properties
  imports Scheduling
begin

text \<open>
  What the scheduler guarantees for an accepted plan, whatever the runners, the clock, the observer
  and the control channel do: the invariant of its loop (\<open>sched_inv\<close>), progress, the stop after a
  failure, and when its result passes the result's own validation.
\<close>

section \<open>The effect of each step\<close>

lemma checked_Inr [simp]: "checked m = Inr x \<longleftrightarrow> m = Inr x"
  by (simp add: checked_def split: sum.split)

lemma read_clock_Inr:
  "read_clock e s = Inr (t, u) \<Longrightarrow> u = s\<lparr>ss_ticks := ss_ticks s + 1\<rparr>"
  by (auto simp: read_clock_def ebind_eq_Inr)

text \<open>Emitting an event changes nothing but the events and the number of clock readings.\<close>

lemma emit_Inr:
  assumes "emit e k a m n dur s = Inr t"
  obtains ev where "t = s\<lparr>ss_ticks := ss_ticks s + 1, ss_events := ss_events s @ [ev]\<rparr>"
    "validate_schedule_event ev = Inr ()" "ev_kind ev = k" "ev_agent_id ev = a"
    "ev_sequence ev = int (length (ss_events s)) + 1"
  using assms
  by (auto simp: emit_def Let_def ebind_eq_Inr split: option.splits dest!: read_clock_Inr)

definition same_schedule :: "sched_state \<Rightarrow> sched_state \<Rightarrow> bool" where
  "same_schedule s t \<longleftrightarrow> ss_pending t = ss_pending s \<and> ss_completed t = ss_completed s \<and>
     ss_records t = ss_records s \<and> ss_completion_order t = ss_completion_order s \<and>
     ss_active t = ss_active s \<and> ss_first_failure t = ss_first_failure s \<and>
     ss_quality_agent t = ss_quality_agent s \<and> ss_controlled_stop t = ss_controlled_stop s \<and>
     ss_max_concurrency t = ss_max_concurrency s"

lemma same_schedule_refl [simp]: "same_schedule s s"
  by (simp add: same_schedule_def)

lemma same_schedule_trans: "same_schedule s t \<Longrightarrow> same_schedule t u \<Longrightarrow> same_schedule s u"
  by (simp add: same_schedule_def)

lemma emit_same: "emit e k a m n dur s = Inr t \<Longrightarrow> same_schedule s t"
  by (erule emit_Inr) (simp add: same_schedule_def)

lemma queue_agent_same: "queue_agent e a s = Inr t \<Longrightarrow> same_schedule s t"
  unfolding queue_agent_def Let_def by (rule emit_same)

lemma queue_agents_same: "efold (queue_agent e) as s = Inr t \<Longrightarrow> same_schedule s t"
  by (rule efold_invariant [where I = "same_schedule s"])
    (auto intro: same_schedule_trans dest: queue_agent_same)

lemma announce_agent_same: "announce_agent e a s = Inr t \<Longrightarrow> same_schedule s t"
  by (auto simp: announce_agent_def ebind_eq_Inr same_schedule_def dest!: emit_same split: if_splits)

lemma announce_same: "efold (announce_agent e) as s = Inr t \<Longrightarrow> same_schedule s t"
  by (rule efold_invariant [where I = "same_schedule s"])
    (auto intro: same_schedule_trans dest: announce_agent_same)

lemma launch_agent_Inr:
  assumes "launch_agent e a s = Inr t"
  obtains x where "aa_agent x = a" "upstream_of a s = Inr (aa_upstream x)"
    "ss_pending t = filter (\<lambda>y. y \<noteq> as_id a) (ss_pending s)" "ss_active t = ss_active s @ [x]"
    "ss_max_concurrency t = max (ss_max_concurrency s) (length (ss_active s) + 1)"
    "ss_completed t = ss_completed s" "ss_records t = ss_records s"
    "ss_completion_order t = ss_completion_order s" "ss_first_failure t = ss_first_failure s"
    "ss_quality_agent t = ss_quality_agent s" "ss_controlled_stop t = ss_controlled_stop s"
proof -
  obtain up started s1 where u: "upstream_of a s = Inr up" "read_clock e s = Inr (started, s1)"
    "start_agent e a up started s1 = Inr t"
    using assms unfolding launch_agent_def ebind_eq_Inr by auto
  have s1: "s1 = s\<lparr>ss_ticks := ss_ticks s + 1\<rparr>" using u(2) by (rule read_clock_Inr)
  let ?x = "\<lparr>aa_agent = a, aa_upstream = up, aa_started_at = started, aa_timer = ss_timer s1\<rparr>"
  obtain s2 where m: "emit e Agent_Started (as_id a) (as_label a @ '' started: '' @ as_responsibility a)
      (length (ss_active s1) + 1) None
      (s1\<lparr>ss_timer := ss_timer s1 + 1, ss_pending := filter (\<lambda>x. x \<noteq> as_id a) (ss_pending s1)\<rparr>) = Inr s2"
    and t: "t = s2\<lparr>ss_active := ss_active s2 @ [?x],
         ss_max_concurrency := max (ss_max_concurrency s2) (length (ss_active s2 @ [?x]))\<rparr>"
    using u(3) unfolding start_agent_def Let_def ebind_eq_Inr by blast
  note f = emit_same [OF m, unfolded same_schedule_def s1, simplified]
  show thesis
    by (rule that [of ?x]) (simp_all add: u(1) t f)
qed

lemma note_outcome_fields [simp]:
  "ss_pending (note_outcome a r s) = ss_pending s" "ss_records (note_outcome a r s) = ss_records s"
  "ss_completion_order (note_outcome a r s) = ss_completion_order s"
  "ss_active (note_outcome a r s) = ss_active s"
  "ss_controlled_stop (note_outcome a r s) = ss_controlled_stop s"
  "ss_max_concurrency (note_outcome a r s) = ss_max_concurrency s"
  "ss_completed (note_outcome a r s) =
     (if ao_status r = Run_Completed then (as_id a, r) # ss_completed s else ss_completed s)"
  "ss_first_failure (note_outcome a r s) =
     (if ao_status r \<noteq> Run_Completed \<and> ss_first_failure s = None \<and> ss_controlled_stop s = None
      then Some (as_id a) else ss_first_failure s)"
  "ss_quality_agent (note_outcome a r s) =
     (if ao_status r = Run_Completed \<and> ao_requires_quality_decision r \<and> ss_quality_agent s = None \<and>
        ss_first_failure s = None \<and> ss_controlled_stop s = None
      then Some (as_id a) else ss_quality_agent s)"
  by (simp_all add: note_outcome_def Let_def)

text \<open>The fields after a finished runner has been settled; \<open>rec\<close> is its record.\<close>

definition settled_to ::
    "sched_state \<Rightarrow> active_agent \<Rightarrow> agent_outcome \<Rightarrow> scheduled_record \<Rightarrow> sched_state \<Rightarrow> bool" where
  "settled_to s x r rec t \<longleftrightarrow> (let a = aa_agent x in
     ss_pending t = ss_pending s \<and>
     ss_active t = filter (\<lambda>y. as_id (aa_agent y) \<noteq> as_id a) (ss_active s) \<and>
     ss_completion_order t = ss_completion_order s @ [as_id a] \<and>
     ss_records t = (as_id a, rec) # ss_records s \<and>
     ss_completed t =
       (if ao_status r = Run_Completed then (as_id a, r) # ss_completed s else ss_completed s) \<and>
     ss_first_failure t =
       (if ao_status r \<noteq> Run_Completed \<and> ss_first_failure s = None \<and> ss_controlled_stop s = None
        then Some (as_id a) else ss_first_failure s) \<and>
     ss_quality_agent t =
       (if ao_status r = Run_Completed \<and> ao_requires_quality_decision r \<and> ss_quality_agent s = None \<and>
          ss_first_failure s = None \<and> ss_controlled_stop s = None
        then Some (as_id a) else ss_quality_agent s) \<and>
     ss_controlled_stop t = ss_controlled_stop s \<and> ss_max_concurrency t = ss_max_concurrency s)"

lemma settle_outcome_Inr:
  assumes "settle_outcome e x r fin s = Inr t"
    and "ss_active s = filter (\<lambda>y. as_id (aa_agent y) \<noteq> as_id (aa_agent x)) (ss_active s0)"
    and "same_schedule (s0\<lparr>ss_active := ss_active s\<rparr>) s"
  obtains dur where "validate_scheduled_record (executed_record x r fin dur) = Inr ()"
    "settled_to s0 x r (executed_record x r fin dur) t"
proof -
  define dur where "dur = max 0 (se_elapsed e (aa_timer x) (ss_timer s))"
  define s1 where "s1 = note_outcome (aa_agent x) r (s\<lparr>ss_timer := ss_timer s + 1,
    ss_completion_order := ss_completion_order s @ [as_id (aa_agent x)]\<rparr>)"
  define rec where "rec = executed_record x r fin dur"
  have v: "validate_scheduled_record rec = Inr ()"
    and m: "emit e (event_of_status (ao_status r)) (as_id (aa_agent x)) (ao_summary r)
      (length (ss_active s1)) (Some dur) (s1\<lparr>ss_records := (as_id (aa_agent x), rec) # ss_records s1\<rparr>) = Inr t"
    using assms(1) unfolding settle_outcome_def Let_def dur_def [symmetric] s1_def [symmetric]
      rec_def [symmetric] ebind_eq_Inr checked_Inr by auto
  note f = emit_same [OF m, unfolded same_schedule_def s1_def, simplified]
  note g = assms(3) [unfolded same_schedule_def, simplified]
  have "settled_to s0 x r rec t"
    unfolding settled_to_def Let_def by (simp add: f g assms(2))
  with v show thesis unfolding rec_def by (rule that)
qed

lemma settle_agent_Inr:
  assumes "settle_agent e reply x s = Inr t"
  obtains r fin dur where "invoke (aa_agent x) reply = Inr r"
    "validate_scheduled_record (executed_record x r fin dur) = Inr ()"
    "settled_to s x r (executed_record x r fin dur) t"
proof -
  let ?s1 = "s\<lparr>ss_active := filter (\<lambda>y. as_id (aa_agent y) \<noteq> as_id (aa_agent x)) (ss_active s)\<rparr>"
  obtain r fin s2 where r: "invoke (aa_agent x) reply = Inr r" "read_clock e ?s1 = Inr (fin, s2)"
    "settle_outcome e x r fin s2 = Inr t"
    using assms unfolding settle_agent_def Let_def ebind_eq_Inr checked_Inr by auto
  have s2: "s2 = ?s1\<lparr>ss_ticks := ss_ticks s + 1\<rparr>" using read_clock_Inr [OF r(2)] by simp
  show thesis
    by (rule settle_outcome_Inr [OF r(3), of s]) (use r(1) that s2 in \<open>auto simp: same_schedule_def\<close>)
qed

section \<open>The invariant\<close>

definition active_ids :: "sched_state \<Rightarrow> string list" where
  "active_ids s = map (as_id \<circ> aa_agent) (ss_active s)"

definition done_ids :: "sched_state \<Rightarrow> string set" where
  "done_ids s = fst ` set (ss_completed s)"

text \<open>Every Agent of the plan is waiting, running or finished, and only one of these, once.\<close>

definition partitioned :: "team_plan \<Rightarrow> sched_state \<Rightarrow> bool" where
  "partitioned p s \<longleftrightarrow>
     distinct (ss_pending s @ active_ids s @ ss_completion_order s) \<and>
     set (ss_pending s @ active_ids s @ ss_completion_order s) = set (plan_agent_ids p) \<and>
     aa_agent ` set (ss_active s) \<subseteq> set (tp_agents p)"

definition recorded :: "sched_state \<Rightarrow> bool" where
  "recorded s \<longleftrightarrow> map fst (ss_records s) = rev (ss_completion_order s) \<and>
     (\<forall>(i, r) \<in> set (ss_records s). sc_agent_id r = i \<and> validate_scheduled_record r = Inr () \<and>
        \<not> not_run (sc_state r)) \<and>
     done_ids s = {i. \<exists>r. (i, r) \<in> set (ss_records s) \<and> sc_state r = State_Completed}"

definition ordered_by_deps :: "team_plan \<Rightarrow> sched_state \<Rightarrow> bool" where
  "ordered_by_deps p s \<longleftrightarrow>
     (\<forall>i \<in> set (active_ids s @ ss_completion_order s). set (plan_deps p i) \<subseteq> done_ids s)"

definition exclusive :: "team_plan \<Rightarrow> sched_state \<Rightarrow> bool" where
  "exclusive p s \<longleftrightarrow> int (length (ss_active s)) \<le> tp_max_concurrency p \<and>
     int (ss_max_concurrency s) \<le> tp_max_concurrency p \<and>
     length (ss_active s) \<le> ss_max_concurrency s \<and>
     (\<forall>x \<in> set (ss_active s). writes (aa_agent x) \<longrightarrow> length (ss_active s) = 1)"

definition control_ok :: "sched_state \<Rightarrow> bool" where
  "control_ok s \<longleftrightarrow> opt_all stops (ss_controlled_stop s) \<and>
     opt_all (\<lambda>q. q \<in> done_ids s) (ss_quality_agent s) \<and>
     opt_all (\<lambda>f. \<exists>r. (f, r) \<in> set (ss_records s) \<and> sc_state r \<noteq> State_Completed) (ss_first_failure s) \<and>
     (ss_first_failure s = None \<and> ss_controlled_stop s = None \<longrightarrow>
        (\<forall>(i, r) \<in> set (ss_records s). sc_state r = State_Completed))"

definition sched_inv :: "team_plan \<Rightarrow> sched_state \<Rightarrow> bool" where
  "sched_inv p s \<longleftrightarrow>
     partitioned p s \<and> recorded s \<and> ordered_by_deps p s \<and> exclusive p s \<and> control_ok s"

lemmas sched_inv_defs =
  sched_inv_def partitioned_def recorded_def ordered_by_deps_def exclusive_def control_ok_def
  active_ids_def done_ids_def

lemma inv_same: "same_schedule s t \<Longrightarrow> sched_inv p t = sched_inv p s"
  by (simp add: same_schedule_def sched_inv_defs)

lemma inv_initial: "plan_ok p \<Longrightarrow> sched_inv p (initial_schedule p)"
  using plan_ok_ids [of p] plan_ok_parts(1) [of p]
  by (simp add: initial_schedule_def sched_inv_defs plan_fields_def)

lemma inv_launch:
  assumes inv: "sched_inv p s" and "plan_ok p" and step: "launch_agent e a s = Inr t"
    and a: "a \<in> set (tp_agents p)" "as_id a \<in> set (ss_pending s)"
    "set (as_dependencies a) \<subseteq> done_ids s" "int (length (ss_active s)) < tp_max_concurrency p"
    "can_launch a (ss_active s)"
  shows "sched_inv p t"
proof -
  obtain x where x: "aa_agent x = a" "ss_pending t = filter (\<lambda>y. y \<noteq> as_id a) (ss_pending s)"
    "ss_active t = ss_active s @ [x]"
    "ss_max_concurrency t = max (ss_max_concurrency s) (length (ss_active s) + 1)"
    "ss_completed t = ss_completed s" "ss_records t = ss_records s"
    "ss_completion_order t = ss_completion_order s" "ss_first_failure t = ss_first_failure s"
    "ss_quality_agent t = ss_quality_agent s" "ss_controlled_stop t = ss_controlled_stop s"
    using step by (rule launch_agent_Inr)
  have "partitioned p t"
    using inv a(1,2) by (auto simp: sched_inv_def partitioned_def active_ids_def x)
  moreover have "recorded t = recorded s" "control_ok t = control_ok s"
    by (simp_all add: recorded_def control_ok_def done_ids_def x)
  moreover have "ordered_by_deps p t"
    using inv a(3) plan_deps_of_agent [OF assms(2) a(1)]
    by (simp add: sched_inv_def ordered_by_deps_def active_ids_def done_ids_def x)
  moreover have "exclusive p t"
    using inv a(4,5) by (auto simp: sched_inv_def exclusive_def can_launch_def list_ex_iff x)
  ultimately show ?thesis using inv by (simp add: sched_inv_def)
qed

lemma opt_all_mono: "opt_all P v \<Longrightarrow> (\<And>x. P x \<Longrightarrow> Q x) \<Longrightarrow> opt_all Q v"
  by (cases v) auto

lemma control_settled:
  assumes c: "control_ok s" and f: "settled_to s x r rec t"
    and st: "sc_state rec = State_Completed \<longleftrightarrow> ao_status r = Run_Completed"
  shows "control_ok t"
proof -
  let ?i = "as_id (aa_agent x)"
  let ?failed = "\<lambda>s f. \<exists>r. (f, r) \<in> set (ss_records s) \<and> sc_state r \<noteq> State_Completed"
  note g = f [unfolded settled_to_def Let_def]
  have recs: "ss_records t = (?i, rec) # ss_records s" using g by blast
  have d: "done_ids s \<subseteq> done_ids t" "ao_status r = Run_Completed \<Longrightarrow> ?i \<in> done_ids t"
    using g by (auto simp: done_ids_def)
  have c1: "opt_all stops (ss_controlled_stop t)" using c g by (simp add: control_ok_def)
  have "opt_all (\<lambda>q. q \<in> done_ids s) (ss_quality_agent s)" using c by (simp add: control_ok_def)
  then have "opt_all (\<lambda>q. q \<in> done_ids t) (ss_quality_agent s)" by (rule opt_all_mono) (use d(1) in auto)
  then have c2: "opt_all (\<lambda>q. q \<in> done_ids t) (ss_quality_agent t)" using g d(2) by auto
  have "opt_all (?failed s) (ss_first_failure s)" using c by (simp add: control_ok_def)
  then have "opt_all (?failed t) (ss_first_failure s)" by (rule opt_all_mono) (auto simp: recs)
  moreover have "ao_status r \<noteq> Run_Completed \<Longrightarrow> ?failed t ?i" using st recs by auto
  moreover have "ss_first_failure t = (if ao_status r \<noteq> Run_Completed \<and> ss_first_failure s = None \<and>
      ss_controlled_stop s = None then Some ?i else ss_first_failure s)"
    using g by blast
  ultimately have c3: "opt_all (?failed t) (ss_first_failure t)" by (simp only: opt_all_simps split: if_split) blast
  have c4: "\<forall>(i, r) \<in> set (ss_records t). sc_state r = State_Completed"
    if "ss_first_failure t = None" "ss_controlled_stop t = None"
  proof -
    have s: "ss_first_failure s = None" "ss_controlled_stop s = None" "ao_status r = Run_Completed"
      using that g by (auto split: if_splits)
    then show ?thesis using c st recs by (auto simp: control_ok_def)
  qed
  show ?thesis unfolding control_ok_def using c1 c2 c3 c4 by blast
qed

lemma inv_settle:
  assumes inv: "sched_inv p s" and x: "x \<in> set (ss_active s)"
    and step: "settle_agent e reply x s = Inr t"
  shows "sched_inv p t"
proof -
  let ?i = "as_id (aa_agent x)"
  obtain r fin dur where r: "validate_scheduled_record (executed_record x r fin dur) = Inr ()"
    "settled_to s x r (executed_record x r fin dur) t"
    using step by (rule settle_agent_Inr)
  define rec where "rec = executed_record x r fin dur"
  note f = r(2) [folded rec_def, unfolded settled_to_def Let_def]
  have i: "sc_agent_id rec = ?i" "sc_state rec = state_of_status (ao_status r)"
    "\<not> not_run (sc_state rec)" "sc_state rec = State_Completed \<longleftrightarrow> ao_status r = Run_Completed"
    by (cases "ao_status r"; simp add: rec_def executed_record_def Let_def not_run_def)+
  have act: "?i \<in> set (active_ids s)" using x by (simp add: active_ids_def)
  have d: "done_ids s \<subseteq> done_ids t" using f by (auto simp: done_ids_def)
  have aids: "active_ids t = filter (\<lambda>y. y \<noteq> ?i) (active_ids s)"
    using f by (simp add: active_ids_def filter_map comp_def)
  have "partitioned p t"
    using inv act f by (auto simp: sched_inv_def partitioned_def aids)
  moreover have "recorded t"
    using inv f i r(1) by (auto simp: sched_inv_def recorded_def done_ids_def rec_def)
  moreover have "ordered_by_deps p t"
    using inv act d f by (auto simp: sched_inv_def ordered_by_deps_def aids)
  moreover have "exclusive p t"
  proof -
    have len: "length (ss_active t) \<le> length (ss_active s)" and sub: "set (ss_active t) \<subseteq> set (ss_active s)"
      and max: "ss_max_concurrency t = ss_max_concurrency s"
      using f by auto
    have "ss_active t = []" if "length (ss_active s) = 1"
      using that x f by (cases "ss_active s") auto
    then have nil: "length (ss_active s) = 1 \<Longrightarrow> y \<notin> set (ss_active t)" for y by simp
    have e: "int (length (ss_active s)) \<le> tp_max_concurrency p"
      "int (ss_max_concurrency s) \<le> tp_max_concurrency p" "length (ss_active s) \<le> ss_max_concurrency s"
      "\<And>y. y \<in> set (ss_active s) \<Longrightarrow> writes (aa_agent y) \<Longrightarrow> length (ss_active s) = 1"
      using inv unfolding sched_inv_def exclusive_def by blast+
    have "int (length (ss_active t)) \<le> tp_max_concurrency p" using e(1) len by simp
    then show ?thesis
      unfolding exclusive_def max
    proof (intro conjI ballI impI)
      show "int (ss_max_concurrency s) \<le> tp_max_concurrency p" by (rule e(2))
      show "length (ss_active t) \<le> ss_max_concurrency s" using len e(3) by (rule le_trans)
      fix y assume y: "y \<in> set (ss_active t)" "writes (aa_agent y)"
      then have "length (ss_active s) = 1" using e(4) sub by blast
      with nil y(1) show "length (ss_active t) = 1" by blast
    qed
  qed
  moreover have "control_ok t"
    by (rule control_settled [OF _ r(2)])
      (use inv i(4) in \<open>simp_all add: sched_inv_def rec_def\<close>)
  ultimately show ?thesis by (simp add: sched_inv_def)
qed

section \<open>The steps of the loop keep the invariant\<close>

lemma inv_observe:
  assumes "sched_inv p s"
  shows "sched_inv p (observe_control e d s)"
proof (cases "se_channel e \<and> stops d")
  case True
  let ?t = "s\<lparr>ss_controlled_stop := Some d\<rparr>"
  have "partitioned p ?t = partitioned p s" "recorded ?t = recorded s"
    "ordered_by_deps p ?t = ordered_by_deps p s" "exclusive p ?t = exclusive p s"
    by (simp_all add: sched_inv_defs)
  moreover have "control_ok s \<Longrightarrow> control_ok ?t"
    using True by (simp add: control_ok_def done_ids_def)
  ultimately show ?thesis using assms True by (simp add: observe_control_def sched_inv_def)
next
  case False
  then have "observe_control e d s = s" unfolding observe_control_def by (rule if_not_P)
  then show ?thesis using assms by simp
qed

lemma observe_control_fields [simp]:
  "ss_pending (observe_control e d s) = ss_pending s"
  "ss_active (observe_control e d s) = ss_active s"
  "ss_completed (observe_control e d s) = ss_completed s"
  "ss_records (observe_control e d s) = ss_records s"
  "ss_first_failure (observe_control e d s) = ss_first_failure s"
  "ss_quality_agent (observe_control e d s) = ss_quality_agent s"
  by (simp_all add: observe_control_def)

lemma ready_agents_ready:
  "a \<in> set (ready_agents p s) \<Longrightarrow>
     a \<in> set (tp_agents p) \<and> as_id a \<in> set (ss_pending s) \<and> set (as_dependencies a) \<subseteq> done_ids s"
  by (auto simp: ready_agents_def Let_def done_ids_def split: if_splits)

lemma ready_agents_distinct: "plan_ok p \<Longrightarrow> distinct (map as_id (ready_agents p s))"
  using plan_ok_ids [of p]
  by (auto simp: ready_agents_def Let_def plan_agent_ids_def intro!: distinct_map_filter)

lemma launch_ready_inv:
  assumes "launch_ready e p as s = Inr t" and "sched_inv p s" and "plan_ok p"
    and "distinct (map as_id as)"
    and "\<And>a. a \<in> set as \<Longrightarrow> a \<in> set (tp_agents p) \<and> as_id a \<in> set (ss_pending s) \<and>
      set (as_dependencies a) \<subseteq> done_ids s"
  shows "sched_inv p t"
  using assms
proof (induction as arbitrary: s)
  case (Cons a as)
  show ?case
  proof (cases "tp_max_concurrency p \<le> int (length (ss_active s)) \<or> \<not> can_launch a (ss_active s)")
    case True
    then show ?thesis
      using Cons.prems Cons.IH [of s] by (auto split: if_splits)
  next
    case False
    then obtain u where u: "launch_agent e a s = Inr u" "launch_ready e p as u = Inr t"
      using Cons.prems(1) by (auto simp: ebind_eq_Inr)
    obtain x where x: "ss_pending u = filter (\<lambda>y. y \<noteq> as_id a) (ss_pending s)"
      "ss_completed u = ss_completed s"
      using u(1) by (rule launch_agent_Inr)
    have "sched_inv p u"
      using False Cons.prems(5) [of a] by (intro inv_launch [OF Cons.prems(2,3) u(1)]) auto
    then show ?thesis
    proof (rule Cons.IH [OF u(2) _ Cons.prems(3)])
      show "distinct (map as_id as)" using Cons.prems(4) by simp
      fix b assume b: "b \<in> set as"
      then have "as_id b \<noteq> as_id a" using Cons.prems(4) by (auto simp: rev_image_eqI)
      with b show "b \<in> set (tp_agents p) \<and> as_id b \<in> set (ss_pending u) \<and>
          set (as_dependencies b) \<subseteq> done_ids u"
        using Cons.prems(4) Cons.prems(5) [of b] x by (auto simp: done_ids_def)
    qed
  qed
qed simp

lemma launch_phase_Inr:
  assumes "launch_phase e p r s = Inr t"
  obtains (no_launch) "\<not> launches_allowed (round_decision e r) (observe_control e (round_decision e r) s)"
      "t = observe_control e (round_decision e r) s"
  | (launch) u where "launches_allowed (round_decision e r) (observe_control e (round_decision e r) s)"
      "same_schedule (observe_control e (round_decision e r) s) u"
      "launch_ready e p (ready_agents p (observe_control e (round_decision e r) s)) u = Inr t"
proof (cases "launches_allowed (round_decision e r) (observe_control e (round_decision e r) s)")
  case True
  then obtain u where u: "efold (announce_agent e) (ready_agents p (observe_control e (round_decision e r) s))
      (observe_control e (round_decision e r) s) = Inr u"
    "launch_ready e p (ready_agents p (observe_control e (round_decision e r) s)) u = Inr t"
    using assms by (auto simp: launch_phase_def Let_def ebind_eq_Inr)
  show thesis by (rule launch [OF True announce_same [OF u(1)] u(2)])
next
  case False
  then have "Inr t = (Inr (observe_control e (round_decision e r) s) :: sched_error + sched_state)"
    using assms by (simp add: launch_phase_def Let_def)
  then show thesis by (intro no_launch [OF False]) simp
qed

lemma launch_phase_inv:
  assumes "launch_phase e p r s = Inr t" and "sched_inv p s" and "plan_ok p"
  shows "sched_inv p t"
  using assms(1)
proof (cases rule: launch_phase_Inr)
  case no_launch
  then show ?thesis using assms(2) inv_observe by blast
next
  case (launch u)
  let ?s = "observe_control e (round_decision e r) s"
  have "sched_inv p ?s" using assms(2) by (rule inv_observe)
  then have u: "sched_inv p u" using inv_same [OF launch(2)] by simp
  show ?thesis
  proof (rule launch_ready_inv [OF launch(3) u assms(3) ready_agents_distinct [OF assms(3)]])
    fix a assume "a \<in> set (ready_agents p ?s)"
    from ready_agents_ready [OF this] launch(2)
    show "a \<in> set (tp_agents p) \<and> as_id a \<in> set (ss_pending u) \<and> set (as_dependencies a) \<subseteq> done_ids u"
      by (simp add: same_schedule_def done_ids_def)
  qed
qed

lemma finished_agents_active:
  "set (map fst (finished_agents p r s)) \<subseteq> set (ss_active s)"
  by (auto simp: finished_agents_def List.map_filter_def)

lemma distinct_map_sort_key: "distinct (map f (sort_key k xs)) = distinct (map f xs)"
  by (simp add: distinct_map)

lemma finished_agents_distinct:
  assumes "distinct (active_ids s)"
  shows "distinct (map (as_id \<circ> aa_agent \<circ> fst) (finished_agents p r s))"
proof -
  have "distinct (map (as_id \<circ> aa_agent \<circ> fst)
      (List.map_filter (\<lambda>x. map_option (Pair x) (map_of (ro_replies r) (as_id (aa_agent x)))) xs))"
    if "distinct (map (as_id \<circ> aa_agent) xs)" for xs
    using that by (induction xs) (auto simp: List.map_filter_def split: option.splits)
  then show ?thesis
    using assms unfolding finished_agents_def distinct_map_sort_key active_ids_def by blast
qed

lemma settle_all_inv:
  assumes "efold (\<lambda>(x, reply). settle_agent e reply x) xs s = Inr t" and "sched_inv p s"
    and "set (map fst xs) \<subseteq> set (ss_active s)" and "distinct (map (as_id \<circ> aa_agent \<circ> fst) xs)"
  shows "sched_inv p t"
  using assms
proof (induction xs arbitrary: s)
  case (Cons y xs)
  obtain x reply where y: "y = (x, reply)" by force
  obtain u where u: "settle_agent e reply x s = Inr u"
    "efold (\<lambda>(x, reply). settle_agent e reply x) xs u = Inr t"
    using Cons.prems(1) by (auto simp: y ebind_eq_Inr)
  have x: "x \<in> set (ss_active s)" using Cons.prems(3) by (simp add: y)
  obtain r f where f: "settled_to s x r f u" using u(1) by (rule settle_agent_Inr)
  have "sched_inv p u" by (rule inv_settle [OF Cons.prems(2) x u(1)])
  moreover have "set (map fst xs) \<subseteq> set (ss_active u)"
    using Cons.prems(3,4) f by (auto simp: y settled_to_def Let_def) force
  ultimately show ?case using Cons.IH [OF u(2)] Cons.prems(4) by simp
qed simp

lemma settle_finished_inv:
  assumes "settle_finished e p r s = Inr t" and "sched_inv p s"
  shows "sched_inv p t"
  using assms(1) unfolding settle_finished_def
  by (rule settle_all_inv)
    (use assms(2) finished_agents_active finished_agents_distinct in \<open>auto simp: sched_inv_def partitioned_def\<close>)

lemma schedule_round_inv:
  assumes "schedule_round e p r s = Inr (left, t)" and "sched_inv p s" and "plan_ok p"
  shows "sched_inv p t"
proof -
  obtain u where u: "launch_phase e p r s = Inr u" using assms(1) by (auto simp: schedule_round_def ebind_eq_Inr)
  have "sched_inv p u" by (rule launch_phase_inv [OF u assms(2,3)])
  then show ?thesis
    using assms(1) u settle_finished_inv inv_observe
    by (auto simp: schedule_round_def ebind_eq_Inr split: if_splits)
qed

section \<open>Reachable states\<close>

inductive sched_step :: "sched_env \<Rightarrow> team_plan \<Rightarrow> sched_state \<Rightarrow> sched_state \<Rightarrow> bool" for e p where
  launched: "launch_phase e p r s = Inr t \<Longrightarrow> sched_step e p s t"
| settled: "settle_finished e p r s = Inr t \<Longrightarrow> sched_step e p s t"
| rechecked: "sched_step e p s (observe_control e d s)"

definition sched_started :: "sched_env \<Rightarrow> team_plan \<Rightarrow> sched_state \<Rightarrow> bool" where
  "sched_started e p s \<longleftrightarrow> efold (queue_agent e) (tp_agents p) (initial_schedule p) = Inr s"

lemma started_inv: "plan_ok p \<Longrightarrow> sched_started e p s \<Longrightarrow> sched_inv p s"
  unfolding sched_started_def using queue_agents_same inv_same inv_initial by blast

lemma step_inv: "sched_step e p s t \<Longrightarrow> plan_ok p \<Longrightarrow> sched_inv p s \<Longrightarrow> sched_inv p t"
  by (cases rule: sched_step.cases) (blast intro: launch_phase_inv settle_finished_inv inv_observe)+

text \<open>What a launch can change.\<close>

lemma launch_ready_effect:
  assumes "launch_ready e p as s = Inr t"
  shows "ss_records t = ss_records s \<and> ss_completed t = ss_completed s \<and>
    ss_completion_order t = ss_completion_order s \<and> ss_first_failure t = ss_first_failure s \<and>
    ss_quality_agent t = ss_quality_agent s \<and> ss_controlled_stop t = ss_controlled_stop s \<and>
    (\<exists>xs. ss_active t = ss_active s @ xs)"
  using assms
proof (induction as arbitrary: s)
  case (Cons a as)
  show ?case
  proof (cases "tp_max_concurrency p \<le> int (length (ss_active s)) \<or> \<not> can_launch a (ss_active s)")
    case True
    then show ?thesis using Cons.prems Cons.IH [of s] by (auto split: if_splits)
  next
    case False
    then obtain u where u: "launch_agent e a s = Inr u" "launch_ready e p as u = Inr t"
      using Cons.prems(1) by (auto simp: ebind_eq_Inr)
    obtain x where x: "ss_active u = ss_active s @ [x]" "ss_completed u = ss_completed s"
      "ss_records u = ss_records s" "ss_completion_order u = ss_completion_order s"
      "ss_first_failure u = ss_first_failure s" "ss_quality_agent u = ss_quality_agent s"
      "ss_controlled_stop u = ss_controlled_stop s"
      using u(1) by (rule launch_agent_Inr)
    from Cons.IH [OF u(2)] show ?thesis by (auto simp: x)
  qed
qed simp

lemma launch_phase_effect:
  assumes "launch_phase e p r s = Inr t"
  shows "ss_records t = ss_records s" "ss_completed t = ss_completed s"
    "ss_first_failure t = ss_first_failure s" "ss_quality_agent t = ss_quality_agent s"
    "ss_controlled_stop t = ss_controlled_stop (observe_control e (round_decision e r) s)"
    "\<exists>xs. ss_active t = ss_active s @ xs"
  using assms
  by (cases rule: launch_phase_Inr; auto simp: same_schedule_def dest!: launch_ready_effect)+

lemma settle_all_records:
  assumes "efold (\<lambda>(x, reply). settle_agent e reply x) xs s = Inr t"
  shows "\<exists>ys. ss_records t = ys @ ss_records s \<and> map fst ys = rev (map (as_id \<circ> aa_agent \<circ> fst) xs)"
  using assms
proof (induction xs arbitrary: s)
  case (Cons y xs)
  obtain x reply where y: "y = (x, reply)" by force
  obtain u where u: "settle_agent e reply x s = Inr u"
    "efold (\<lambda>(x, reply). settle_agent e reply x) xs u = Inr t"
    using Cons.prems(1) by (auto simp: y ebind_eq_Inr)
  obtain r f where f: "settled_to s x r f u" using u(1) by (rule settle_agent_Inr)
  obtain ys where "ss_records t = ys @ ss_records u" "map fst ys = rev (map (as_id \<circ> aa_agent \<circ> fst) xs)"
    using Cons.IH [OF u(2)] by blast
  then show ?case
    using f by (intro exI [of _ "ys @ [(as_id (aa_agent x), f)]"]) (simp add: y settled_to_def Let_def)
qed simp

lemma recorded_ids:
  assumes "sched_inv p s"
  shows "fst ` set (ss_records s) = set (ss_completion_order s)"
proof -
  have "map fst (ss_records s) = rev (ss_completion_order s)"
    using assms unfolding sched_inv_def recorded_def by blast
  then show ?thesis by (metis set_map set_rev)
qed

text \<open>A record, once written, is never replaced.\<close>

lemma step_records:
  assumes "sched_inv p s" and "sched_step e p s t" and "map_of (ss_records s) k = Some r"
  shows "map_of (ss_records t) k = Some r"
  using assms(2)
proof cases
  case (settled r0)
  obtain ys where ys: "ss_records t = ys @ ss_records s"
    "map fst ys = rev (map (as_id \<circ> aa_agent \<circ> fst) (finished_agents p r0 s))"
    using settle_all_records settled unfolding settle_finished_def by blast
  have "k \<in> fst ` set (ss_records s)" using assms(3) by (force dest: map_of_SomeD)
  then have "k \<in> set (ss_completion_order s)" using recorded_ids [OF assms(1)] by simp
  then have "k \<notin> set (active_ids s)" using assms(1) by (auto simp: sched_inv_def partitioned_def)
  then have "k \<notin> set (map fst ys)"
    unfolding ys(2) using finished_agents_active [of p r0 s] by (auto simp: active_ids_def)
  then have "map_of ys k = None" by (simp add: map_of_eq_None_iff)
  then show ?thesis using assms(3) by (simp add: ys(1) map_add_def)
qed (use assms(3) launch_phase_effect in \<open>auto simp: observe_control_def\<close>)

interpretation schedule_log: append_only "\<lambda>s t. plan_ok p \<and> sched_step e p s t"
    "\<lambda>s. map_of (ss_records s)" "(=)" "sched_inv p"
  using step_inv step_records by unfold_locales blast+

lemma step_with_plan:
  "(sched_step e p)\<^sup>*\<^sup>* s t \<Longrightarrow> plan_ok p \<Longrightarrow> (\<lambda>s t. plan_ok p \<and> sched_step e p s t)\<^sup>*\<^sup>* s t"
  by (induction rule: rtranclp_induct) (auto intro: rtranclp.rtrancl_into_rtrancl)

lemma reachable_sched_inv:
  "plan_ok p \<Longrightarrow> sched_started e p s \<Longrightarrow> (sched_step e p)\<^sup>*\<^sup>* s t \<Longrightarrow> sched_inv p t"
  using schedule_log.reachable_inv step_with_plan started_inv by blast

text \<open>Once something stops the schedule, nothing is launched any more.\<close>

definition halted :: "sched_state \<Rightarrow> bool" where
  "halted s \<longleftrightarrow> ss_first_failure s \<noteq> None \<or> ss_quality_agent s \<noteq> None \<or> ss_controlled_stop s \<noteq> None"

lemma settle_agent_halted:
  assumes "settle_agent e reply x s = Inr t"
  shows "ss_pending t = ss_pending s \<and> set (ss_active t) \<subseteq> set (ss_active s) \<and>
    ss_controlled_stop t = ss_controlled_stop s \<and> (halted s \<longrightarrow> halted t) \<and>
    (ss_first_failure s \<noteq> None \<longrightarrow> ss_first_failure t = ss_first_failure s)"
proof -
  obtain r f where f: "settled_to s x r f t" using assms by (rule settle_agent_Inr)
  then show ?thesis by (auto simp: settled_to_def Let_def halted_def)
qed

lemma settle_finished_halted:
  assumes "settle_finished e p r s = Inr t"
  shows "ss_pending t = ss_pending s \<and> set (ss_active t) \<subseteq> set (ss_active s) \<and>
    ss_controlled_stop t = ss_controlled_stop s \<and> (halted s \<longrightarrow> halted t) \<and>
    (ss_first_failure s \<noteq> None \<longrightarrow> ss_first_failure t = ss_first_failure s)"
  by (rule efold_invariant [OF assms [unfolded settle_finished_def]])
    (auto dest!: settle_agent_halted)

lemma step_halted:
  assumes "sched_step e p s t" and "halted s"
  shows "halted t \<and> ss_pending t = ss_pending s \<and> set (ss_active t) \<subseteq> set (ss_active s) \<and>
    (ss_first_failure s \<noteq> None \<longrightarrow> ss_first_failure t = ss_first_failure s)"
  using assms(1)
proof cases
  case (launched r)
  then show ?thesis
    using assms(2)
    by (cases rule: launch_phase_Inr)
      (auto simp: halted_def launches_allowed_def observe_control_def split: if_splits)
next
  case (settled r)
  then show ?thesis using assms(2) settle_finished_halted by blast
next
  case (rechecked d)
  then show ?thesis using assms(2) by (auto simp: halted_def observe_control_def)
qed

end
