(* ===== verification/Schedule_Results.thy ===== *)
theory Schedule_Results
  imports Schedule_Properties
begin

text \<open>
  The properties of \<open>DagScheduler.execute\<close>: safety of every state the loop passes through, progress
  and termination, the stop after a failure, and the exact condition under which its result passes
  the validation of \<open>DagScheduleResult\<close>.
\<close>

section \<open>Progress\<close>

definition never_stuck :: "sched_error + 'a \<Rightarrow> bool" where
  "never_stuck m \<longleftrightarrow> m \<noteq> Inl No_Schedulable_Agent"

lemma never_stuck_simps [simp]: "never_stuck (Inr x)" "never_stuck (Inl (Sched_Fault f))"
  by (simp_all add: never_stuck_def)

lemma never_stuck_ebind:
  "never_stuck m \<Longrightarrow> (\<And>x. m = Inr x \<Longrightarrow> never_stuck (f x)) \<Longrightarrow> never_stuck (ebind m f)"
  by (cases m) (auto simp: never_stuck_def)

lemma never_stuck_efold:
  "(\<And>x a. x \<in> set xs \<Longrightarrow> never_stuck (f x a)) \<Longrightarrow> never_stuck (efold f xs s)"
  by (induction xs arbitrary: s) (auto intro: never_stuck_ebind)

lemma never_stuck_checked: "never_stuck (checked m)"
  by (simp add: checked_def split: sum.split)

lemma never_stuck_clock: "never_stuck (read_clock e s)"
  unfolding read_clock_def sched_utc_def
  by (rule never_stuck_ebind) (simp_all split: sum.split)

lemma never_stuck_emit: "never_stuck (emit e k a m n d s)"
  unfolding emit_def Let_def
  by (rule never_stuck_ebind [OF never_stuck_clock])
    (auto intro!: never_stuck_ebind never_stuck_checked split: option.split)

lemma never_stuck_announce: "never_stuck (announce_agent e a s)"
  unfolding announce_agent_def by (auto intro!: never_stuck_ebind never_stuck_emit)

lemma never_stuck_emap: "(\<And>x. never_stuck (f x)) \<Longrightarrow> never_stuck (emap f xs)"
  by (induction xs) (auto intro!: never_stuck_ebind)

lemma never_stuck_launch_agent: "never_stuck (launch_agent e a s)"
  unfolding launch_agent_def upstream_of_def
  by (rule never_stuck_ebind)
    (auto intro!: never_stuck_ebind never_stuck_emap never_stuck_clock never_stuck_emit
      simp: start_agent_def Let_def split: option.split)

lemma never_stuck_launch_ready: "never_stuck (launch_ready e p as s)"
  by (induction as arbitrary: s) (auto intro!: never_stuck_ebind never_stuck_launch_agent)

lemma never_stuck_launch_phase: "never_stuck (launch_phase e p r s)"
  unfolding launch_phase_def Let_def
  by (auto intro!: never_stuck_ebind never_stuck_efold never_stuck_announce never_stuck_launch_ready)

lemma never_stuck_settle: "never_stuck (settle_finished e p r s)"
  unfolding settle_finished_def settle_agent_def settle_outcome_def Let_def
  by (auto intro!: never_stuck_efold never_stuck_ebind never_stuck_checked never_stuck_clock never_stuck_emit)

text \<open>When nothing runs and nothing has stopped the schedule, some waiting Agent is ready, and the
  first ready Agent is launched.\<close>

lemma all_done_when_idle:
  assumes "sched_inv p s" and "ss_first_failure s = None" and "ss_controlled_stop s = None"
  shows "done_ids s = set (ss_completion_order s)"
proof -
  have "done_ids s = {i. \<exists>r. (i, r) \<in> set (ss_records s) \<and> sc_state r = State_Completed}"
    "\<forall>(i, r) \<in> set (ss_records s). sc_state r = State_Completed"
    using assms unfolding sched_inv_def recorded_def control_ok_def by blast+
  then have "done_ids s = fst ` set (ss_records s)" by force
  then show ?thesis using recorded_ids [OF assms(1)] by simp
qed

lemma some_agent_ready:
  assumes "plan_ok p" and "sched_inv p s" and "ss_active s = []" and "ss_pending s \<noteq> []"
    and "ss_first_failure s = None" and "ss_controlled_stop s = None"
  shows "ready_agents p s \<noteq> []"
proof -
  have part: "set (ss_pending s) \<union> set (ss_completion_order s) = set (plan_agent_ids p)"
    "set (ss_pending s) \<inter> set (ss_completion_order s) = {}"
    using assms(2,3) by (auto simp: sched_inv_def partitioned_def active_ids_def)
  obtain i where i: "i \<in> set (ss_pending s)" "set (plan_deps p i) \<subseteq> set (plan_agent_ids p) - set (ss_pending s)"
    using team_dag.some_node_ready [OF assms(1), of "set (ss_pending s)"] part(1) assms(4) by auto
  then have "i \<in> as_id ` set (tp_agents p)" using part(1) by (auto simp: plan_agent_ids_def)
  then obtain a where a: "a \<in> set (tp_agents p)" "as_id a = i" by blast
  have "set (as_dependencies a) \<subseteq> done_ids s"
    using i(2) part plan_deps_of_agent [OF assms(1) a(1)] a(2) all_done_when_idle [OF assms(2,5,6)] by auto
  then show ?thesis
    using a i(1) assms(3) unfolding ready_agents_def Let_def done_ids_def
    by (auto simp: filter_empty_conv list_ex_iff)
qed

lemma launch_ready_starts:
  assumes "launch_ready e p as s = Inr t" and "as \<noteq> []" and "ss_active s = []"
    and "1 \<le> tp_max_concurrency p"
  shows "ss_active t \<noteq> []"
proof -
  obtain a rest where as: "as = a # rest" using assms(2) by (cases as) auto
  obtain u where u: "launch_agent e a s = Inr u" "launch_ready e p rest u = Inr t"
    using assms(1,3,4) by (auto simp: as can_launch_def ebind_eq_Inr split: if_splits)
  have "ss_active u \<noteq> []" using u(1) by (rule launch_agent_Inr) simp
  then show ?thesis using launch_ready_effect [OF u(2)] by auto
qed

lemma launch_phase_idle:
  assumes "launch_phase e p r s = Inr t" and "plan_ok p" and "sched_inv p s"
    and "ss_active t = []" and "ss_pending t \<noteq> []" and "\<not> halted t"
  shows "round_decision e r \<noteq> Control_Continue"
proof
  assume d: "round_decision e r = Control_Continue"
  have same: "observe_control e (round_decision e r) s = s"
    by (simp add: d observe_control_def stops_def)
  have s: "ss_active s = []" "\<not> halted s"
    using launch_phase_effect [OF assms(1)] assms(4,6) by (auto simp: same halted_def)
  from assms(1) show False
  proof (cases rule: launch_phase_Inr)
    case no_launch
    then have "\<not> launches_allowed (round_decision e r) s" by (simp only: same) simp
    then show False using s(2) d by (simp add: launches_allowed_def halted_def)
  next
    case (launch u)
    have u: "same_schedule s u" using launch(2) by (simp add: same)
    have inv: "sched_inv p t" by (rule launch_phase_inv [OF assms(1,3,2)])
    have "ss_pending s \<noteq> []"
    proof
      assume "ss_pending s = []"
      then have "ready_agents p s = []" by (simp add: ready_agents_def Let_def list_ex_iff)
      then have "t = u" using launch(3) by (simp add: same)
      then show False using u \<open>ss_pending s = []\<close> assms(5) by (simp add: same_schedule_def)
    qed
    then have "ready_agents p s \<noteq> []"
      using some_agent_ready [OF assms(2,3) s(1)] s(2) by (simp add: halted_def)
    moreover have "1 \<le> tp_max_concurrency p"
      using plan_ok_parts(1) [OF assms(2)] by (simp add: plan_fields_def)
    ultimately show False
      using launch_ready_starts launch(3) u s(1) assms(4) by (fastforce simp: same same_schedule_def)
  qed
qed

lemma round_never_stuck:
  assumes "plan_ok p" and "sched_inv p s"
  shows "never_stuck (schedule_round e p r s)"
  unfolding schedule_round_def
proof (rule never_stuck_ebind [OF never_stuck_launch_phase])
  fix t assume t: "launch_phase e p r s = Inr t"
  have "ss_controlled_stop t \<noteq> None" if "stops (round_decision e r)"
    using launch_phase_effect(5) [OF t] that
    by (auto simp: observe_control_def round_decision_def stops_def split: if_splits)
  then have "\<not> (ss_active t = [] \<and> \<not> halted t \<and> round_decision e r \<noteq> Control_Hold \<and> ss_pending t \<noteq> [])"
    using launch_phase_idle [OF t assms] by (cases "round_decision e r") (force simp: halted_def stops_def)+
  then show "never_stuck
     (if ss_active t = [] then
       (if ss_controlled_stop t \<noteq> None
        then Inr (True, observe_control e (ro_final_decision r) t)
        else if round_decision e r = Control_Hold then Inr (False, t)
        else if ss_pending t \<noteq> [] \<and> ss_first_failure t = None
        then (if ss_quality_agent t \<noteq> None then Inr (True, t) else Inl No_Schedulable_Agent)
        else Inr (True, t))
     else ebind (settle_finished e p r t) (\<lambda>u. Inr (False, u)))"
    by (auto simp: halted_def intro!: never_stuck_ebind never_stuck_settle)
qed

section \<open>Leaving the loop\<close>

text \<open>What holds when the loop is left: nothing runs, and if an Agent is still waiting there is a
  reason.\<close>

definition left_ok :: "sched_state \<Rightarrow> bool" where
  "left_ok s \<longleftrightarrow> ss_active s = [] \<and> (ss_pending s \<noteq> [] \<longrightarrow> halted s)"

lemma round_left_ok: "schedule_round e p r s = Inr (True, t) \<Longrightarrow> left_ok t"
  by (auto simp: schedule_round_def ebind_eq_Inr left_ok_def halted_def observe_control_def
      split: if_splits)

lemma loop_never_stuck:
  assumes "plan_ok p"
  shows "sched_inv p s \<Longrightarrow> never_stuck (schedule_loop e p rounds s)"
proof (induction rounds arbitrary: s)
  case Nil
  then show ?case by (simp add: schedule_loop.simps)
next
  case (Cons r rest)
  have "never_stuck (schedule_round e p r s)" by (rule round_never_stuck [OF assms Cons.prems])
  then show ?case
    using Cons.IH schedule_round_inv [OF _ Cons.prems assms]
    by (auto simp: schedule_loop.simps [of e p "r # rest"] never_stuck_def split: sum.split)
qed

lemma loop_left:
  assumes "plan_ok p"
  shows "sched_inv p s \<Longrightarrow> schedule_loop e p rounds s = Inr (Loop_Left t) \<Longrightarrow> sched_inv p t \<and> left_ok t"
proof (induction rounds arbitrary: s)
  case Nil
  then show ?case by (auto simp: schedule_loop.simps left_ok_def split: if_splits)
next
  case (Cons r rest)
  show ?case
  proof (cases "ss_pending s = [] \<and> ss_active s = []")
    case True
    then show ?thesis using Cons.prems by (simp add: schedule_loop.simps left_ok_def)
  next
    case False
    then obtain left u where u: "schedule_round e p r s = Inr (left, u)"
      "(if left then Inr (Loop_Left u) else schedule_loop e p rest u) = Inr (Loop_Left t)"
      using Cons.prems(2)
      by (auto simp: schedule_loop.simps [of e p "r # rest"] split: sum.splits)
    have "sched_inv p u" by (rule schedule_round_inv [OF u(1) Cons.prems(1) assms])
    then show ?thesis using u Cons.IH [of u] round_left_ok by (auto split: if_splits)
  qed
qed

section \<open>The records of a finished schedule\<close>

definition waiting_agents :: "team_plan \<Rightarrow> sched_state \<Rightarrow> agent_spec list" where
  "waiting_agents p s = filter (\<lambda>a. as_id a \<in> set (ss_pending s)) (tp_agents p)"

lemma skip_reason_cong:
  "ss_controlled_stop t = ss_controlled_stop s \<Longrightarrow> ss_quality_agent t = ss_quality_agent s \<Longrightarrow>
     ss_first_failure t = ss_first_failure s \<Longrightarrow> skip_reason t = skip_reason s"
  by (simp only: skip_reason_def)

lemma skip_agent_Inr:
  assumes "skip_agent e a s = Inr t" and "skip_reason s = (reason, state, kind)"
  shows "skip_reason t = (reason, state, kind) \<and> ss_pending t = ss_pending s \<and>
    ss_completion_order t = ss_completion_order s \<and> ss_first_failure t = ss_first_failure s \<and>
    ss_quality_agent t = ss_quality_agent s \<and> ss_controlled_stop t = ss_controlled_stop s \<and>
    ss_max_concurrency t = ss_max_concurrency s \<and>
    ss_records t = (if as_id a \<in> set (ss_pending s)
      then (as_id a, skipped_record reason state a) # ss_records s else ss_records s)"
proof (cases "as_id a \<in> set (ss_pending s)")
  case True
  then have "emit e kind (as_id a) reason 0 None
      (s\<lparr>ss_records := (as_id a, skipped_record reason state a) # ss_records s\<rparr>) = Inr t"
    using assms by (auto simp: skip_agent_def Let_def ebind_eq_Inr)
  note f = emit_same [OF this, unfolded same_schedule_def, simplified]
  have "skip_reason t = skip_reason s" by (rule skip_reason_cong) (simp_all add: f)
  then show ?thesis using True assms(2) by (simp add: f)
next
  case False
  then have "t = s" using assms(1) by (simp add: skip_agent_def)
  then show ?thesis using False assms(2) by simp
qed

lemma skip_agents_Inr:
  assumes "efold (skip_agent e) as s = Inr t" and "skip_reason s = (reason, state, kind)"
  shows "ss_pending t = ss_pending s \<and>
    ss_completion_order t = ss_completion_order s \<and> ss_first_failure t = ss_first_failure s \<and>
    ss_quality_agent t = ss_quality_agent s \<and> ss_controlled_stop t = ss_controlled_stop s \<and>
    ss_max_concurrency t = ss_max_concurrency s \<and>
    ss_records t = rev (map (\<lambda>a. (as_id a, skipped_record reason state a))
      (filter (\<lambda>a. as_id a \<in> set (ss_pending s)) as)) @ ss_records s"
  using assms
proof (induction as arbitrary: s)
  case (Cons a as)
  then obtain u where u: "skip_agent e a s = Inr u" "efold (skip_agent e) as u = Inr t"
    by (auto simp: ebind_eq_Inr)
  note f = skip_agent_Inr [OF u(1) Cons.prems(2)]
  have "skip_reason u = (reason, state, kind)" using f by blast
  from Cons.IH [OF u(2) this] f show ?case by simp
qed simp

text \<open>After the skipping loop every Agent of the plan has its record.\<close>

definition final_record :: "team_plan \<Rightarrow> sched_state \<Rightarrow> agent_spec \<Rightarrow> scheduled_record" where
  "final_record p s a =
     (if as_id a \<in> set (ss_pending s)
      then skipped_record (fst (skip_reason s)) (fst (snd (skip_reason s))) a
      else the (map_of (ss_records s) (as_id a)))"

lemma finished_has_record:
  assumes "sched_inv p s" and "ss_active s = []" and "a \<in> set (tp_agents p)"
    and "as_id a \<notin> set (ss_pending s)"
  obtains r where "map_of (ss_records s) (as_id a) = Some r" "(as_id a, r) \<in> set (ss_records s)"
proof -
  have "as_id a \<in> set (plan_agent_ids p)" using assms(3) by (simp add: plan_agent_ids_def)
  then have "as_id a \<in> set (ss_completion_order s)"
    using assms(1,2,4) by (auto simp: sched_inv_def partitioned_def active_ids_def)
  then have "as_id a \<in> fst ` set (ss_records s)" using recorded_ids [OF assms(1)] by simp
  then obtain r where "map_of (ss_records s) (as_id a) = Some r"
    by (metis map_of_eq_None_iff not_None_eq)
  then show thesis using that by (simp add: map_of_SomeD)
qed

lemma emap_Some: "(\<And>x. x \<in> set xs \<Longrightarrow> f x = Inr (g x)) \<Longrightarrow> emap f xs = Inr (map g xs)"
  by (induction xs) simp_all

lemma skip_agents_none: "ss_pending s = [] \<Longrightarrow> efold (skip_agent e) as s = Inr s"
  by (induction as) (simp_all add: skip_agent_def)

lemma skip_phase:
  "(if ss_pending s = [] then Inr s else efold (skip_agent e) (tp_agents p) s) =
     efold (skip_agent e) (tp_agents p) s"
  by (simp add: skip_agents_none)

lemma ordered_final:
  assumes "plan_ok p" and "sched_inv p s" and "ss_active s = []"
    and "efold (skip_agent e) (tp_agents p) s = Inr t"
  shows "ordered_records p t = Inr (map (final_record p s) (tp_agents p))"
proof -
  obtain reason state kind where sk: "skip_reason s = (reason, state, kind)" by (cases "skip_reason s")
  define new where "new = rev (map (\<lambda>a. (as_id a, skipped_record reason state a))
      (filter (\<lambda>a. as_id a \<in> set (ss_pending s)) (tp_agents p)))"
  have recs: "ss_records t = new @ ss_records s"
    using skip_agents_Inr [OF assms(4) sk] by (simp add: new_def)
  have dist: "distinct (map fst new)"
    using plan_ok_ids [OF assms(1)]
    by (simp add: new_def rev_map [symmetric] comp_def plan_agent_ids_def distinct_map_filter)
  have "map_of (ss_records t) (as_id a) = Some (final_record p s a)" if a: "a \<in> set (tp_agents p)" for a
  proof (cases "as_id a \<in> set (ss_pending s)")
    case True
    then have "(as_id a, skipped_record reason state a) \<in> set new" using a by (auto simp: new_def)
    then have "map_of new (as_id a) = Some (skipped_record reason state a)"
      using dist by (simp add: map_of_eq_Some_iff)
    then show ?thesis using True by (simp add: recs final_record_def sk map_add_def)
  next
    case False
    then have "as_id a \<notin> fst ` set new" by (auto simp: new_def)
    then have "map_of new (as_id a) = None" by (simp add: map_of_eq_None_iff)
    moreover obtain r where "map_of (ss_records s) (as_id a) = Some r"
      using finished_has_record [OF assms(2,3) a False] by blast
    ultimately show ?thesis using False by (simp add: recs final_record_def map_add_def)
  qed
  then show ?thesis unfolding ordered_records_def by (intro emap_Some) simp
qed

text \<open>The state of a final record.\<close>

lemma final_record_facts:
  assumes "sched_inv p s" and "ss_active s = []" and "a \<in> set (tp_agents p)"
  shows "sc_agent_id (final_record p s a) = as_id a"
    and "not_run (sc_state (final_record p s a)) \<longleftrightarrow> as_id a \<in> set (ss_pending s)"
    and "as_id a \<notin> set (ss_pending s) \<Longrightarrow>
      (as_id a, final_record p s a) \<in> set (ss_records s)"
proof -
  have st: "not_run (fst (snd (skip_reason s)))" by (simp add: skip_reason_def not_run_def)
  have r: "(as_id a, final_record p s a) \<in> set (ss_records s)" if np: "as_id a \<notin> set (ss_pending s)"
  proof -
    obtain r where "map_of (ss_records s) (as_id a) = Some r" "(as_id a, r) \<in> set (ss_records s)"
      by (rule finished_has_record [OF assms np])
    then show ?thesis using np by (simp add: final_record_def)
  qed
  then show "as_id a \<notin> set (ss_pending s) \<Longrightarrow> (as_id a, final_record p s a) \<in> set (ss_records s)" .
  have rec: "\<And>i r. (i, r) \<in> set (ss_records s) \<Longrightarrow> sc_agent_id r = i \<and> \<not> not_run (sc_state r)"
    using assms(1) unfolding sched_inv_def recorded_def by blast
  show "sc_agent_id (final_record p s a) = as_id a"
  proof (cases "as_id a \<in> set (ss_pending s)")
    case True
    then show ?thesis by (simp add: final_record_def skipped_record_def)
  next
    case False
    then show ?thesis using rec [OF r] by blast
  qed
  show "not_run (sc_state (final_record p s a)) \<longleftrightarrow> as_id a \<in> set (ss_pending s)"
  proof (cases "as_id a \<in> set (ss_pending s)")
    case True
    then show ?thesis using st by (simp add: final_record_def skipped_record_def)
  next
    case False
    then show ?thesis using rec [OF r] by blast
  qed
qed

lemma records_distinct: "sched_inv p s \<Longrightarrow> distinct (map fst (ss_records s))"
  unfolding sched_inv_def recorded_def partitioned_def by (metis distinct_append distinct_rev)

lemma record_is_final:
  assumes "sched_inv p s" and "ss_active s = []" and "(i, r) \<in> set (ss_records s)"
  shows "\<exists>a \<in> set (tp_agents p). as_id a = i \<and> i \<notin> set (ss_pending s) \<and> final_record p s a = r"
proof -
  have "i \<in> set (ss_completion_order s)" using recorded_ids [OF assms(1)] assms(3) by force
  then have "i \<in> set (plan_agent_ids p)" and np: "i \<notin> set (ss_pending s)"
    using assms(1) by (auto simp: sched_inv_def partitioned_def)
  then obtain a where a: "a \<in> set (tp_agents p)" "as_id a = i" by (auto simp: plan_agent_ids_def)
  have "(i, final_record p s a) \<in> set (ss_records s)"
    using final_record_facts(3) [OF assms(1,2) a(1)] a(2) np by simp
  then have "final_record p s a = r"
    using records_distinct [OF assms(1)] assms(3) by (metis eq_key_imp_eq_value)
  then show ?thesis using a np by blast
qed

abbreviation final_records :: "team_plan \<Rightarrow> sched_state \<Rightarrow> scheduled_record list" where
  "final_records p s \<equiv> map (final_record p s) (tp_agents p)"

lemma final_ids:
  "sched_inv p s \<Longrightarrow> ss_active s = [] \<Longrightarrow> map sc_agent_id (final_records p s) = plan_agent_ids p"
  using final_record_facts(1) by (simp add: plan_agent_ids_def)

lemma final_executed:
  assumes "sched_inv p s" and "ss_active s = []"
  shows "sc_agent_id ` {r \<in> set (final_records p s). \<not> not_run (sc_state r)} = set (ss_completion_order s)"
proof -
  have "sc_agent_id ` {r \<in> set (final_records p s). \<not> not_run (sc_state r)} =
      as_id ` {a \<in> set (tp_agents p). as_id a \<notin> set (ss_pending s)}"
    using final_record_facts(1,2) [OF assms] by (force simp: image_iff)
  also have "\<dots> = set (plan_agent_ids p) - set (ss_pending s)" by (auto simp: plan_agent_ids_def)
  also have "\<dots> = set (ss_completion_order s)"
    using assms by (auto simp: sched_inv_def partitioned_def active_ids_def)
  finally show ?thesis .
qed

text \<open>The one way in which the validation of the result can fail.\<close>

definition correction_conflict :: "sched_state \<Rightarrow> bool" where
  "correction_conflict s \<longleftrightarrow> ss_controlled_stop s = Some Control_Correct \<and>
     list_ex (\<lambda>(i, r). sc_state r = State_Interrupted) (ss_records s)"

lemma final_states:
  assumes "sched_inv p s" and "ss_active s = []" and "\<not> not_run st"
  shows "set (map sc_agent_id (filter (\<lambda>x. sc_state x = st) (final_records p s))) =
    {i. \<exists>r. (i, r) \<in> set (ss_records s) \<and> sc_state r = st}"
proof (intro set_eqI iffI)
  fix i assume "i \<in> set (map sc_agent_id (filter (\<lambda>x. sc_state x = st) (final_records p s)))"
  then obtain a where a: "a \<in> set (tp_agents p)" "sc_state (final_record p s a) = st"
    "i = sc_agent_id (final_record p s a)" by auto
  then have "as_id a \<notin> set (ss_pending s)" "i = as_id a"
    using final_record_facts(1,2) [OF assms(1,2) a(1)] assms(3) by auto
  then have "(i, final_record p s a) \<in> set (ss_records s)"
    using final_record_facts(3) [OF assms(1,2) a(1)] by simp
  then show "i \<in> {i. \<exists>r. (i, r) \<in> set (ss_records s) \<and> sc_state r = st}" using a(2) by blast
next
  fix i assume "i \<in> {i. \<exists>r. (i, r) \<in> set (ss_records s) \<and> sc_state r = st}"
  then obtain r where r: "(i, r) \<in> set (ss_records s)" "sc_state r = st" by blast
  obtain a where a: "a \<in> set (tp_agents p)" "as_id a = i" "final_record p s a = r"
    using record_is_final [OF assms(1,2) r(1)] by blast
  then have "i = sc_agent_id (final_record p s a)" using final_record_facts(1) [OF assms(1,2) a(1)] by simp
  then show "i \<in> set (map sc_agent_id (filter (\<lambda>x. sc_state x = st) (final_records p s)))"
    using a r(2) by auto
qed

lemma status_check:
  assumes inv: "sched_inv p s" and left: "left_ok s"
  shows "check_status_identity (schedule_result_of p i s (final_records p s)) =
    (if correction_conflict s
     then Inl (Value_Error ''cooperative correction cannot interrupt an Agent'') else Inr ())"
proof -
  let ?r = "schedule_result_of p i s (final_records p s)"
  have act: "ss_active s = []" using left by (simp add: left_ok_def)
  have st: "set (agents_in_state ?r x) = {i. \<exists>r. (i, r) \<in> set (ss_records s) \<and> sc_state r = x}"
    if "\<not> not_run x" for x
    using final_states [OF inv act that] by (simp add: agents_in_state_def schedule_result_of_def)
  have sets: "set (agents_in_state ?r State_Failed) = {i. \<exists>r. (i, r) \<in> set (ss_records s) \<and> sc_state r = State_Failed}"
    "set (agents_in_state ?r State_Interrupted) = {i. \<exists>r. (i, r) \<in> set (ss_records s) \<and> sc_state r = State_Interrupted}"
    "set (agents_in_state ?r State_Completed) = done_ids s"
    using inv by (simp_all add: st not_run_def sched_inv_def recorded_def)
  have ctl: "opt_all stops (ss_controlled_stop s)" "opt_all (\<lambda>q. q \<in> done_ids s) (ss_quality_agent s)"
    "opt_all (\<lambda>f. \<exists>r. (f, r) \<in> set (ss_records s) \<and> sc_state r \<noteq> State_Completed) (ss_first_failure s)"
    "ss_first_failure s = None \<Longrightarrow> ss_controlled_stop s = None \<Longrightarrow>
      \<forall>(i, r) \<in> set (ss_records s). sc_state r = State_Completed"
    using inv unfolding sched_inv_def control_ok_def by blast+
  have executed: "\<And>i r. (i, r) \<in> set (ss_records s) \<Longrightarrow> sc_state r \<noteq> State_Completed \<Longrightarrow>
      sc_state r = State_Failed \<or> sc_state r = State_Interrupted"
  proof -
    fix i r assume "(i, r) \<in> set (ss_records s)" "sc_state r \<noteq> State_Completed"
    moreover from this have "\<not> not_run (sc_state r)"
      using inv unfolding sched_inv_def recorded_def by blast
    ultimately show "sc_state r = State_Failed \<or> sc_state r = State_Interrupted"
      by (cases "sc_state r") (simp_all add: not_run_def)
  qed
  consider (stop) d where "ss_controlled_stop s = Some d" "stops d"
    | (failed) f where "ss_controlled_stop s = None" "ss_first_failure s = Some f"
    | (quality) q where "ss_controlled_stop s = None" "ss_first_failure s = None" "ss_quality_agent s = Some q"
    | (completed) "ss_controlled_stop s = None" "ss_first_failure s = None" "ss_quality_agent s = None"
    using ctl(1) by (cases "ss_controlled_stop s"; cases "ss_first_failure s"; cases "ss_quality_agent s") auto
  then show ?thesis
  proof cases
    case (stop d)
    have "agents_in_state ?r State_Interrupted = [] \<longleftrightarrow>
        \<not> list_ex (\<lambda>(i, r). sc_state r = State_Interrupted) (ss_records s)"
      using sets(2) by (force simp: list_ex_iff simp flip: set_empty)
    then show ?thesis
      using stop unfolding check_status_identity_def Let_def
      by (cases d) (auto simp: stops_def schedule_result_of_def result_status_def correction_conflict_def)
  next
    case (failed f)
    obtain r where "(f, r) \<in> set (ss_records s)" "sc_state r \<noteq> State_Completed"
      using ctl(3) failed(2) by auto
    then have "f \<in> set (agents_in_state ?r State_Failed) \<union> set (agents_in_state ?r State_Interrupted)"
      using executed unfolding sets by blast
    then show ?thesis
      using failed unfolding check_status_identity_def Let_def
      by (auto simp: schedule_result_of_def result_status_def correction_conflict_def)
  next
    case (quality q)
    have "agents_in_state ?r State_Failed = []" "agents_in_state ?r State_Interrupted = []"
      using ctl(4) [OF quality(2,1)] sets(1,2) by (force simp flip: set_empty)+
    moreover have "q \<in> set (agents_in_state ?r State_Completed)" using ctl(2) quality(3) sets(3) by simp
    ultimately show ?thesis
      using quality unfolding check_status_identity_def Let_def
      by (auto simp: schedule_result_of_def result_status_def correction_conflict_def)
  next
    case completed
    have "agents_in_state ?r State_Failed = []" "agents_in_state ?r State_Interrupted = []"
      using ctl(4) [OF completed(2,1)] sets(1,2) by (force simp flip: set_empty)+
    moreover have "ss_pending s = []" using left completed by (simp add: left_ok_def halted_def)
    then have "sc_state r = State_Completed" if "r \<in> set (final_records p s)" for r
      using that ctl(4) [OF completed(2,1)] final_record_facts(3) [OF inv act] by auto
    ultimately show ?thesis
      using completed unfolding check_status_identity_def Let_def
      by (auto simp: schedule_result_of_def result_status_def correction_conflict_def list_ex_iff)
  qed
qed

lemma check_status_cong:
  "sr_status a = sr_status b \<Longrightarrow> sr_records a = sr_records b \<Longrightarrow>
     sr_failed_agent_id a = sr_failed_agent_id b \<Longrightarrow>
     sr_quality_decision_agent_id a = sr_quality_decision_agent_id b \<Longrightarrow>
     check_status_identity a = check_status_identity b"
  by (simp only: check_status_identity_def agents_in_state_def)

lemma conclusion:
  assumes "plan_ok p" and "sched_inv p s" and "left_ok s" and "1 \<le> i"
    and "efold (skip_agent e) (tp_agents p) s = Inr t"
  shows "conclude_schedule e p i s =
    (if correction_conflict s
     then Inl (Sched_Fault (Value_Error ''cooperative correction cannot interrupt an Agent''))
     else Inr (schedule_result_of p i t (final_records p s)))"
proof -
  have act: "ss_active s = []" using assms(3) by (simp add: left_ok_def)
  obtain reason state kind where sk: "skip_reason s = (reason, state, kind)" by (cases "skip_reason s")
  note t = skip_agents_Inr [OF assms(5) sk]
  let ?r = "schedule_result_of p i t (final_records p s)"
  have same: "check_status_identity ?r = check_status_identity (schedule_result_of p i s (final_records p s))"
    using t by (intro check_status_cong) (simp_all add: schedule_result_of_def result_status_def)
  have "set (executed_agents ?r) = set (ss_completion_order s)"
    using final_executed [OF assms(2) act] by (simp add: executed_agents_def schedule_result_of_def)
  moreover have "distinct (ss_completion_order s)" using assms(2) by (simp add: sched_inv_def partitioned_def)
  moreover have "distinct (map sc_agent_id (final_records p s))"
    using final_ids [OF assms(2) act] plan_ok_ids [OF assms(1)] by simp
  moreover have "run_id_pattern (tp_run_id p)"
    using plan_ok_parts(1) [OF assms(1)] by (simp add: plan_fields_def)
  ultimately have "validate_schedule_result ?r = check_status_identity ?r"
    using t assms(4)
    by (simp add: validate_schedule_result_def schedule_result_of_def)
  then show ?thesis
    unfolding conclude_schedule_def skip_phase
    unfolding assms(5) ebind_Inr Let_def ordered_final [OF assms(1,2) act assms(5)] same status_check [OF assms(2,3)]
    by (simp add: checked_def)
qed

section \<open>Termination\<close>

text \<open>\<open>wait(..., timeout=None)\<close> returns when at least one runner has finished.\<close>

fun waits_answered :: "sched_env \<Rightarrow> team_plan \<Rightarrow> sched_round list \<Rightarrow> sched_state \<Rightarrow> bool" where
  "waits_answered e p [] s = True"
| "waits_answered e p (r # rest) s =
     (case launch_phase e p r s of
        Inl f \<Rightarrow> True
      | Inr t \<Rightarrow> (ss_active t \<noteq> [] \<longrightarrow> finished_agents p r t \<noteq> []) \<and>
          (case schedule_round e p r s of Inl f \<Rightarrow> True
           | Inr (left, u) \<Rightarrow> if left then True else waits_answered e p rest u))"

lemma partition_length:
  assumes "plan_ok p" and "sched_inv p s"
  shows "length (ss_pending s) + length (ss_active s) + length (ss_completion_order s) = length (tp_agents p)"
proof -
  let ?xs = "ss_pending s @ active_ids s @ ss_completion_order s"
  have "distinct ?xs" "set ?xs = set (plan_agent_ids p)"
    using assms(2) unfolding sched_inv_def partitioned_def by blast+
  then have "length ?xs = length (plan_agent_ids p)"
    using plan_ok_ids [OF assms(1)] by (metis distinct_card)
  then show ?thesis by (simp add: active_ids_def plan_agent_ids_def)
qed

lemma settle_all_order:
  "efold (\<lambda>(x, reply). settle_agent e reply x) xs s = Inr t \<Longrightarrow>
     length (ss_completion_order t) = length (ss_completion_order s) + length xs"
proof (induction xs arbitrary: s)
  case (Cons y xs)
  obtain x reply where y: "y = (x, reply)" by force
  obtain u where u: "settle_agent e reply x s = Inr u"
    "efold (\<lambda>(x, reply). settle_agent e reply x) xs u = Inr t"
    using Cons.prems(1) by (auto simp: y ebind_eq_Inr)
  obtain r f where "settled_to s x r f u" using u(1) by (rule settle_agent_Inr)
  then show ?case using Cons.IH [OF u(2)] by (simp add: settled_to_def Let_def)
qed simp

lemma launch_phase_order: "launch_phase e p r s = Inr t \<Longrightarrow> ss_completion_order t = ss_completion_order s"
  by (erule launch_phase_Inr)
    (auto simp: observe_control_def same_schedule_def dest!: launch_ready_effect)

lemma round_order:
  assumes "schedule_round e p r s = Inr (False, u)" and "\<not> se_channel e"
    and "waits_answered e p (r # rest) s"
  shows "length (ss_completion_order s) < length (ss_completion_order u)" and "waits_answered e p rest u"
proof -
  obtain t where t: "launch_phase e p r s = Inr t" "ss_active t \<noteq> []" "settle_finished e p r t = Inr u"
    using assms(1,2) by (auto simp: schedule_round_def ebind_eq_Inr round_decision_def split: if_splits)
  have "finished_agents p r t \<noteq> []" using assms(3) t(1,2) by simp
  then show "length (ss_completion_order s) < length (ss_completion_order u)"
    using settle_all_order [OF t(3) [unfolded settle_finished_def]] launch_phase_order [OF t(1)] by simp
  show "waits_answered e p rest u" using assms(1,3) t(1) by simp
qed

lemma loop_ends:
  assumes "plan_ok p" and "\<not> se_channel e"
  shows "sched_inv p s \<Longrightarrow> waits_answered e p rounds s \<Longrightarrow>
    length (tp_agents p) \<le> length (ss_completion_order s) + length rounds \<Longrightarrow>
    schedule_loop e p rounds s \<noteq> Inr (Loop_Running t)"
proof (induction rounds arbitrary: s)
  case Nil
  then have "length (ss_pending s) = 0 \<and> length (ss_active s) = 0"
    using partition_length [OF assms(1) Nil(1)] by (simp only: list.size) linarith
  then have "ss_pending s = [] \<and> ss_active s = []" by simp
  then show ?case by (simp add: schedule_loop.simps)
next
  case (Cons r rest)
  have step: "schedule_loop e p rest u \<noteq> Inr (Loop_Running t)"
    if u: "schedule_round e p r s = Inr (False, u)" for u
    using Cons.IH [OF schedule_round_inv [OF u Cons.prems(1) assms(1)] round_order(2) [OF u assms(2) Cons.prems(2)]]
      round_order(1) [OF u assms(2) Cons.prems(2)] Cons.prems(3) by simp
  then show ?case
    by (auto simp: schedule_loop.simps [of e p "r # rest"] split: sum.split)
qed

section \<open>Runners and messages\<close>







section \<open>Concrete schedules\<close>

definition demo_env :: "bool \<Rightarrow> sched_env" where
  "demo_env channel = \<lparr>se_clock = (\<lambda>n. Aware (int n) 0), se_elapsed = (\<lambda>i j. 5),
     se_observer = (\<lambda>_. None), se_suffix = '' ~ [truncated]'', se_channel = channel\<rparr>"

definition demo_outcome :: "string \<Rightarrow> artifact_kind \<Rightarrow> agent_outcome" where
  "demo_outcome i k = \<lparr>ao_agent_id = i, ao_status = Run_Completed,
     ao_output = Some \<lparr>ar_kind = k, ar_path = i, ar_sha256 = replicate 64 (CHR ''f''),
       ar_description = ''''\<rparr>,
     ao_evidence = [], ao_requires_quality_decision = False, ao_summary = ''done'', ao_error = None\<rparr>"

definition demo_interrupted :: "string \<Rightarrow> agent_outcome" where
  "demo_interrupted i = \<lparr>ao_agent_id = i, ao_status = Run_Interrupted, ao_output = None,
     ao_evidence = [], ao_requires_quality_decision = False, ao_summary = ''stopped'',
     ao_error = Some ''interrupted by the user''\<rparr>"

definition demo_rounds :: "sched_round list" where
  "demo_rounds = map (\<lambda>i. \<lparr>ro_decision = Control_Continue, ro_final_decision = Control_Continue,
       ro_replies = [(i, Runner_Returned (demo_outcome i (if i = ''tests'' then Kind_Test_Report
         else Kind_Work_Result)))]\<rparr>)
     [''api'', ''web'', ''merge'', ''tests'']"

definition demo_interrupt_rounds :: "sched_round list" where
  "demo_interrupt_rounds =
     [\<lparr>ro_decision = Control_Continue, ro_final_decision = Control_Continue,
       ro_replies = [(''api'', Runner_Returned (demo_interrupted ''api''))]\<rparr>,
      \<lparr>ro_decision = Control_Correct, ro_final_decision = Control_Correct, ro_replies = []\<rparr>]"

definition demo_queued :: "sched_error + sched_state" where
  "demo_queued = efold (queue_agent (demo_env False)) (tp_agents demo_plan) (initial_schedule demo_plan)"

definition demo_queued_state :: sched_state where
  "demo_queued_state = (case demo_queued of Inl f \<Rightarrow> initial_schedule demo_plan | Inr s \<Rightarrow> s)"

lemma demo_queued_ok: "case demo_queued of Inl f \<Rightarrow> False | Inr s \<Rightarrow> ss_active s = []"
  by code_simp

lemma demo_schedule_completes:
  "case execute_schedule (demo_env False) demo_plan 1 demo_rounds of
     Inr (Schedule_Returned r) \<Rightarrow> sr_status r = Schedule_Completed \<and>
       sr_completion_order r = [''api'', ''web'', ''merge'', ''tests''] | _ \<Rightarrow> False"
  by code_simp

lemma demo_interrupt_fails:
  "execute_schedule (demo_env True) demo_plan 1 demo_interrupt_rounds =
     Inl (Sched_Fault (Value_Error ''cooperative correction cannot interrupt an Agent''))"
  by code_simp

lemma returned_state:
  "(case m of Inl f \<Rightarrow> False | Inr s \<Rightarrow> P s) \<Longrightarrow> m = Inr (case m of Inl f \<Rightarrow> d | Inr s \<Rightarrow> s)"
  by (auto split: sum.splits)

lemma returned_has:
  "(case m of Inl f \<Rightarrow> False | Inr s \<Rightarrow> P s) \<Longrightarrow> P (case m of Inl f \<Rightarrow> d | Inr s \<Rightarrow> s)"
  by (cases m) auto

lemma demo_started: "sched_started (demo_env False) demo_plan demo_queued_state"
  unfolding sched_started_def demo_queued_state_def demo_queued_def [symmetric]
  by (rule returned_state [OF demo_queued_ok])

text \<open>The first two steps of the demonstration: the first Agent is launched, then settled.\<close>

definition demo_launched :: "sched_error + sched_state" where
  "demo_launched = launch_phase (demo_env False) demo_plan (hd demo_rounds) demo_queued_state"

definition demo_launched_state :: sched_state where
  "demo_launched_state = (case demo_launched of Inl f \<Rightarrow> initial_schedule demo_plan | Inr s \<Rightarrow> s)"

definition demo_settled :: "sched_error + sched_state" where
  "demo_settled = settle_finished (demo_env False) demo_plan (hd demo_rounds) demo_launched_state"

definition demo_settled_state :: sched_state where
  "demo_settled_state = (case demo_settled of Inl f \<Rightarrow> initial_schedule demo_plan | Inr s \<Rightarrow> s)"

lemma demo_launched_ok: "case demo_launched of Inl f \<Rightarrow> False | Inr s \<Rightarrow> True"
  by code_simp

lemma demo_settled_ok:
  "case demo_settled of Inl f \<Rightarrow> False | Inr s \<Rightarrow> map_of (ss_records s) ''api'' \<noteq> None"
  by code_simp

lemma demo_reached: "(sched_step (demo_env False) demo_plan)\<^sup>*\<^sup>* demo_queued_state demo_settled_state"
proof -
  have "launch_phase (demo_env False) demo_plan (hd demo_rounds) demo_queued_state = Inr demo_launched_state"
    unfolding demo_launched_state_def demo_launched_def [symmetric]
    by (rule returned_state [OF demo_launched_ok])
  moreover have "settle_finished (demo_env False) demo_plan (hd demo_rounds) demo_launched_state =
      Inr demo_settled_state"
    unfolding demo_settled_state_def demo_settled_def [symmetric]
    by (rule returned_state [OF demo_settled_ok])
  ultimately show ?thesis
    by (meson r_into_rtranclp rtranclp_trans sched_step.launched sched_step.settled)
qed

lemma demo_settled_record: "\<exists>r. map_of (ss_records demo_settled_state) ''api'' = Some r"
  using returned_has [OF demo_settled_ok] by (simp only: demo_settled_state_def not_None_eq)

text \<open>The whole demonstration, up to the conclusion.\<close>

definition demo_left_state :: sched_state where
  "demo_left_state =
     (case schedule_loop (demo_env False) demo_plan demo_rounds demo_queued_state of
        Inr (Loop_Left s) \<Rightarrow> s | _ \<Rightarrow> initial_schedule demo_plan)"

lemma demo_loop_left:
  "case schedule_loop (demo_env False) demo_plan demo_rounds demo_queued_state of
     Inr (Loop_Left s) \<Rightarrow> ss_controlled_stop s = None \<and> ss_pending s = [] | _ \<Rightarrow> False"
  by code_simp

lemma demo_left:
  "schedule_loop (demo_env False) demo_plan demo_rounds demo_queued_state = Inr (Loop_Left demo_left_state)"
  "ss_controlled_stop demo_left_state = None" "ss_pending demo_left_state = []"
  using demo_loop_left by (auto simp: demo_left_state_def split: sum.splits loop_state.splits)

definition demo_halted :: sched_state where
  "demo_halted = (initial_schedule demo_plan)\<lparr>ss_pending := [''web''], ss_first_failure := Some ''api''\<rparr>"

lemma never_stuck_conclude: "never_stuck (conclude_schedule e p i s)"
proof -
  have "never_stuck (skip_agent e a u)" for a u
    unfolding skip_agent_def Let_def
    by (auto intro!: never_stuck_ebind never_stuck_checked never_stuck_emit split: prod.split)
  then show ?thesis
    unfolding conclude_schedule_def ordered_records_def Let_def
    by (auto intro!: never_stuck_ebind never_stuck_efold never_stuck_emap never_stuck_checked
        split: option.split)
qed

section \<open>Properties\<close>

text \<open>C20: The scheduler is safe in every state it passes through. For an accepted plan, whatever the
  runners, the clock and the controls do, after every launching phase and every settling
  phase: each Agent of the plan is exactly once waiting, running or finished; every running or
  finished Agent has all its dependencies completed; at most \<open>max_concurrency\<close> Agents run; and a
  writer of the shared workspace runs alone.\<close>

theorem scheduling_is_safe:
  assumes "plan_ok p" and "sched_started e p s" and "(sched_step e p)\<^sup>*\<^sup>* s t"
  shows "distinct (ss_pending t @ active_ids t @ ss_completion_order t) \<and>
    set (ss_pending t @ active_ids t @ ss_completion_order t) = set (plan_agent_ids p) \<and>
    (\<forall>i \<in> set (active_ids t @ ss_completion_order t). set (plan_deps p i) \<subseteq> done_ids t) \<and>
    int (length (ss_active t)) \<le> tp_max_concurrency p \<and>
    (\<forall>x \<in> set (ss_active t). writes (aa_agent x) \<longrightarrow> length (ss_active t) = 1)"
proof -
  have "sched_inv p t" by (rule reachable_sched_inv [OF assms])
  then show ?thesis
    unfolding sched_inv_def partitioned_def ordered_by_deps_def exclusive_def by blast
qed

theorem scheduling_is_safe_witness:
  "set (ss_pending demo_queued_state @ active_ids demo_queued_state @ ss_completion_order demo_queued_state) =
     {''api'', ''web'', ''merge'', ''tests''}"
proof -
  have "set (plan_agent_ids demo_plan) = {''api'', ''web'', ''merge'', ''tests''}"
    by (simp add: plan_agent_ids_def demo_plan_def demo_agent_def)
  with scheduling_is_safe [OF demo_plan_ok demo_started rtranclp.rtrancl_refl] show ?thesis by metis
qed

text \<open>The record of an Agent is final and every Agent runs at most once: a record present in one
  state of the scheduler is the record of that Agent in every later state.\<close>

theorem scheduled_record_is_final:
  assumes "plan_ok p" and "sched_started e p s" and "(sched_step e p)\<^sup>*\<^sup>* s t"
    and "(sched_step e p)\<^sup>*\<^sup>* t u" and "map_of (ss_records t) i = Some r"
  shows "map_of (ss_records u) i = Some r \<and> i \<notin> set (ss_pending u) \<and> i \<notin> set (active_ids u)"
proof -
  have inv: "sched_inv p t" "sched_inv p u"
    using reachable_sched_inv [OF assms(1,2)] assms(3) rtranclp_trans [OF assms(3,4)] by blast+
  have r: "map_of (ss_records u) i = Some r"
    using schedule_log.reachable_extends [OF step_with_plan [OF assms(4,1)] inv(1) assms(5)] by simp
  then have "i \<in> fst ` set (ss_records u)" by (force dest: map_of_SomeD)
  then have "i \<in> set (ss_completion_order u)" using recorded_ids [OF inv(2)] by simp
  then show ?thesis using r inv(2) by (auto simp: sched_inv_def partitioned_def)
qed

theorem scheduled_record_is_final_witness:
  "''api'' \<notin> set (ss_pending demo_settled_state) \<and> ''api'' \<notin> set (active_ids demo_settled_state)"
proof -
  obtain r where "map_of (ss_records demo_settled_state) ''api'' = Some r"
    using demo_settled_record by (rule exE)
  from scheduled_record_is_final [OF demo_plan_ok demo_started demo_reached rtranclp.rtrancl_refl this]
  show ?thesis by (rule conjunct2)
qed

text \<open>C21: The scheduler never gives up on an accepted plan: the "no schedulable ready Agent" error
  cannot be raised by any execution, whatever happens in it.\<close>

theorem scheduler_never_stuck:
  assumes "plan_ok p"
  shows "execute_schedule e p i rounds \<noteq> Inl No_Schedulable_Agent"
proof -
  have "never_stuck (execute_schedule e p i rounds)"
    unfolding execute_schedule_def
  proof (simp, intro impI, rule never_stuck_ebind)
    show "never_stuck (efold (queue_agent e) (tp_agents p) (initial_schedule p))"
      by (intro never_stuck_efold) (simp add: queue_agent_def Let_def never_stuck_emit)
    fix s assume "efold (queue_agent e) (tp_agents p) (initial_schedule p) = Inr s"
    then have s: "sched_inv p s" using started_inv [OF assms] by (simp add: sched_started_def)
    show "never_stuck (ebind (schedule_loop e p rounds s) (\<lambda>l. case l of
          Loop_Running t \<Rightarrow> Inr (Schedule_Running t)
        | Loop_Left t \<Rightarrow> ebind (conclude_schedule e p i t) (\<lambda>r. Inr (Schedule_Returned r))))"
      by (rule never_stuck_ebind [OF loop_never_stuck [OF assms s]])
        (auto split: loop_state.split intro!: never_stuck_ebind never_stuck_conclude)
  qed
  then show ?thesis by (simp add: never_stuck_def)
qed

theorem scheduler_never_stuck_witness:
  "execute_schedule (demo_env True) demo_plan 1 demo_interrupt_rounds \<noteq> Inl No_Schedulable_Agent"
  by (rule scheduler_never_stuck [OF demo_plan_ok])

text \<open>C23: Nothing starts after a failure, a quality stop or a user stop. Once one of them is noted, in
  every later state the waiting Agents are the same, only Agents that were already running still
  run, and the first failure keeps its name.\<close>

theorem no_launch_after_stop:
  assumes "halted s" and "(sched_step e p)\<^sup>*\<^sup>* s t"
  shows "halted t \<and> ss_pending t = ss_pending s \<and> set (ss_active t) \<subseteq> set (ss_active s) \<and>
    (ss_first_failure s \<noteq> None \<longrightarrow> ss_first_failure t = ss_first_failure s)"
  using assms(2,1)
proof (induction rule: rtranclp_induct)
  case (step t u)
  then have t: "halted t" by blast
  from step_halted [OF step.hyps(2) t] step show ?case by auto
qed simp

theorem no_launch_after_stop_witness:
  "ss_pending (observe_control (demo_env True) Control_Cancel demo_halted) = [''web'']"
proof -
  have "halted demo_halted" by (simp add: halted_def demo_halted_def)
  from no_launch_after_stop [OF this r_into_rtranclp [of "sched_step (demo_env True) demo_plan",
        OF sched_step.rechecked]]
  show ?thesis by (simp add: demo_halted_def)
qed

text \<open>C22: The loop ends. Without a control channel, if each wait returns at least one finished
  runner, the loop has ended after at most as many iterations as the plan has Agents.\<close>

theorem schedule_terminates:
  assumes "plan_ok p" and "\<not> se_channel e" and "sched_started e p s"
    and "waits_answered e p rounds s" and "length (tp_agents p) \<le> length rounds"
  shows "schedule_loop e p rounds s \<noteq> Inr (Loop_Running t)"
  using loop_ends [OF assms(1,2) started_inv [OF assms(1,3)] assms(4)] assms(5) by simp

theorem schedule_terminates_witness:
  "schedule_loop (demo_env False) demo_plan demo_rounds demo_queued_state \<noteq>
     Inr (Loop_Running demo_queued_state)"
proof (rule schedule_terminates [OF demo_plan_ok _ demo_started])
  show "\<not> se_channel (demo_env False)" by (simp add: demo_env_def)
  show "waits_answered (demo_env False) demo_plan demo_rounds demo_queued_state" by code_simp
  show "length (tp_agents demo_plan) \<le> length demo_rounds"
    by (simp add: demo_plan_def demo_rounds_def)
qed

text \<open>C25: What \<open>execute\<close> returns, exactly. For an accepted plan, an iteration within its limit, a
  loop that starts with all Agents queued and is left, and the waiting Agents recorded as not
  started, \<open>execute\<close> returns the result built from its records, one per Agent in the order of the
  plan, with one exception: if replacement planning was requested and some Agent was interrupted,
  the validation of the result makes \<open>execute\<close> raise instead.\<close>

theorem schedule_result_exact:
  assumes "plan_ok p" and "1 \<le> i" and "i \<le> tp_iteration_limit p" and "sched_started e p s0"
    and "schedule_loop e p rounds s0 = Inr (Loop_Left s)"
    and "efold (skip_agent e) (tp_agents p) s = Inr t"
  shows "execute_schedule e p i rounds =
    (if ss_controlled_stop s = Some Control_Correct \<and>
        list_ex (\<lambda>(i, r). sc_state r = State_Interrupted) (ss_records s)
     then Inl (Sched_Fault (Value_Error ''cooperative correction cannot interrupt an Agent''))
     else Inr (Schedule_Returned
       (schedule_result_of p i t (map (final_record p s) (tp_agents p)))))"
proof -
  have "sched_inv p s \<and> left_ok s" by (rule loop_left [OF assms(1) started_inv [OF assms(1,4)] assms(5)])
  then have "conclude_schedule e p i s =
    (if correction_conflict s
     then Inl (Sched_Fault (Value_Error ''cooperative correction cannot interrupt an Agent''))
     else Inr (schedule_result_of p i t (map (final_record p s) (tp_agents p))))"
    using conclusion [OF assms(1) _ _ assms(2,6)] by blast
  then show ?thesis
    using assms(2-5) by (simp add: execute_schedule_def sched_started_def correction_conflict_def)
qed

theorem schedule_result_exact_witness:
  "\<exists>r. execute_schedule (demo_env False) demo_plan 1 demo_rounds = Inr (Schedule_Returned r) \<and>
     sr_iteration r = 1 \<and> sr_status r = result_status demo_left_state"
proof -
  have "1 \<le> tp_iteration_limit demo_plan" by code_simp
  from schedule_result_exact [OF demo_plan_ok order_refl this demo_started demo_left(1)
      skip_agents_none [OF demo_left(3)]]
  show ?thesis by (simp add: demo_left(2) schedule_result_of_def)
qed

text \<open>A request for replacement planning after an interruption makes the scheduler raise. On a
  concrete accepted plan, the user interrupts the running Agent and then asks for a correction
  before the next checkpoint; instead of the result \<open>correction_requested\<close>, \<open>execute\<close> raises the
  validation error of its own result.\<close>

theorem correction_after_interrupt_raises:
  "execute_schedule (demo_env True) demo_plan 1
     [\<lparr>ro_decision = Control_Continue, ro_final_decision = Control_Continue,
       ro_replies = [(''api'', Runner_Returned (demo_interrupted ''api''))]\<rparr>,
      \<lparr>ro_decision = Control_Correct, ro_final_decision = Control_Correct, ro_replies = []\<rparr>] =
   Inl (Sched_Fault (Value_Error ''cooperative correction cannot interrupt an Agent''))"
  using demo_interrupt_fails by (simp only: demo_interrupt_rounds_def)



end
