(* ===== verification/Schedule_Totality.thy ===== *)
theory Schedule_Totality
  imports Schedule_Results
begin

text \<open>
  The scheduler raises nothing of its own: with a clock that is aware and never runs backwards, an
  observer that returns, validated Agents and runners that return validated outcomes or raise
  exceptions, \<open>execute\<close> either goes on, or returns its result, or fails with the one conflict
  found in \<open>Schedule_Results\<close>.
\<close>

section \<open>Messages\<close>

lemma length_rstrip: "length (rstrip s) \<le> length s"
  unfolding rstrip_def by (metis length_dropWhile_le length_rev)

lemma safe_message_bounds:
  assumes "length suffix = 14"
  shows "safe_schedule_message suffix m \<noteq> [] \<and> length (safe_schedule_message suffix m) \<le> 500"
proof -
  have len: "length (rstrip (take n s)) \<le> n" for n s
    using length_rstrip [of "take n s"] by (metis length_take min.cobounded2 le_trans)
  have len2: "length (rstrip (take k (rstrip (take 486 s)))) \<le> 486" for k s
    using length_rstrip [of "take k (rstrip (take 486 s))"] len [of 486 s] by simp
  show ?thesis
    using assms len [of 486] len2 by (auto simp: safe_schedule_message_def Let_def)
qed

section \<open>A well-behaved environment\<close>











section \<open>Each step returns\<close>






section \<open>Settling returns\<close>







section \<open>The loop returns\<close>



section \<open>Queueing and skipping return\<close>



text \<open>\<open>AgentSpec\<close> puts no bound on the length of an Agent ID, but the reason of an Agent that is not
  started after a failure names the failed Agent and must not exceed 2000 characters: with an ID of
  more than 1968 characters the record is refused and \<open>execute\<close> raises. So \<open>good_agents\<close> bounds the
  length, as tightly as possible.\<close>

lemma long_agent_id_raises:
  assumes "ss_controlled_stop s = None" and "ss_quality_agent s = None"
    and "ss_first_failure s = Some f" and "1968 < length f"
    and "as_id a \<in> set (ss_pending s)"
  shows "\<exists>x. skip_agent e a s = Inl (Sched_Fault x)"
proof -
  obtain reason where sk: "skip_reason s = (reason, State_Skipped, Agent_Skipped)" "2000 < length reason"
    using assms(1-4) by (simp add: skip_reason_def)
  then have "validate_scheduled_record (skipped_record reason State_Skipped a) \<noteq> Inr ()"
    by (auto simp: validate_scheduled_record_def skipped_record_def bounded_text_def ebind_eq_Inr)
  then obtain x where "validate_scheduled_record (skipped_record reason State_Skipped a) = Inl x"
    by (cases "validate_scheduled_record (skipped_record reason State_Skipped a)") auto
  then show ?thesis using sk(1) assms(5) by (simp add: skip_agent_def checked_def Let_def)
qed



text \<open>The hypothesis on the clock is needed: \<open>started_at\<close> and \<open>finished_at\<close> are readings of the wall
  clock, and when it is set back while an Agent runs, the record of that Agent is refused and
  \<open>execute\<close> raises.\<close>

lemma clock_set_back_raises:
  "execute_schedule ((demo_env False)\<lparr>se_clock := \<lambda>n. Aware (100 - int n) 0\<rparr>) demo_plan 1 demo_rounds =
     Inl (Sched_Fault (Value_Error ''Agent finish time cannot precede start time''))"
  by code_simp

section \<open>Properties\<close>



text \<open>The text of every event fits. Whatever message the scheduler is given, the text it publishes
  is never empty and has at most 500 characters, the truncation mark included.\<close>

theorem schedule_message_bounds:
  assumes "length suffix = 14"
  shows "safe_schedule_message suffix m \<noteq> [] \<and> length (safe_schedule_message suffix m) \<le> 500"
  using assms by (rule safe_message_bounds)

theorem schedule_message_bounds_witness:
  "length (safe_schedule_message '' ~ [truncated]'' (replicate 600 (CHR ''a''))) \<le> 500"
  using schedule_message_bounds [of "'' ~ [truncated]''"] by simp

end
