(* ===== verification/Journal_Files.thy ===== *)
theory Journal_Files
  imports Prelude
begin

text \<open>
  The numbered files of the append-only directories: a control command and the event journal keep
  their records in \<open>000001.json\<close>, \<open>000002.json\<close>, ... and read them back in the order of the names.
  \<open>numbered_name_round\<close> and \<open>numbered_names_sorted\<close> say when names and numbers agree: up to
  999999.
\<close>

definition hidden :: "string \<Rightarrow> bool" where
  "hidden name \<longleftrightarrow> take 1 name = ''.''"

text \<open>The numbered files \<open>000001.json\<close>, \<open>000002.json\<close>, ...\<close>

definition digit :: "nat \<Rightarrow> char" where
  "digit d = char_of (48 + d)"

fun decimal :: "nat \<Rightarrow> string" where
  "decimal n = (if n < 10 then [digit n] else decimal (n div 10) @ [digit (n mod 10)])"

declare decimal.simps [simp del]

definition numbered_name :: "nat \<Rightarrow> string" where
  "numbered_name n = replicate (6 - length (decimal n)) (CHR ''0'') @ decimal n @ ''.json''"

definition read_digits :: "string \<Rightarrow> nat" where
  "read_digits s = foldl (\<lambda>n c. 10 * n + (of_char c - 48)) 0 s"

definition number_of_name :: "string \<Rightarrow> nat option" where
  "number_of_name name =
     (if length name = 11 \<and> list_all is_digit_char (take 6 name) \<and> drop 6 name = ''.json''
      then Some (read_digits (take 6 name)) else None)"

definition last_opt :: "'a list \<Rightarrow> 'a option" where
  "last_opt xs = (if xs = [] then None else Some (last xs))"

text \<open>\<open>list(range(1, n + 1))\<close>.\<close>

definition one_to :: "nat \<Rightarrow> int list" where
  "one_to n = map int [1..<n + 1]"

lemma one_to_facts: "sorted (one_to n)" "distinct (one_to n)" "length (one_to n) = n"
    "one_to (Suc n) = one_to n @ [int n + 1]"
  by (auto simp: one_to_def distinct_map sorted_iff_nth_mono simp del: upt_Suc) auto

section \<open>Names and numbers\<close>

lemma digit_facts:
  assumes "d < 10"
  shows "of_char (digit d) = 48 + d" "is_digit_char (digit d)"
  using assms by (simp_all add: digit_def is_digit_char_def of_char_of Let_def)

lemma read_digits_snoc: "read_digits (s @ [c]) = 10 * read_digits s + (of_char c - 48)"
  by (simp add: read_digits_def)

lemma decimal_facts:
  "list_all is_digit_char (decimal n) \<and> read_digits (decimal n) = n \<and> decimal n \<noteq> []"
proof (induction n rule: decimal.induct)
  case (1 n)
  show ?case
  proof (cases "n < 10")
    case True
    then have "decimal n = [digit n]" by (simp add: decimal.simps)
    then show ?thesis using True digit_facts [of n] by (simp add: read_digits_def)
  next
    case False
    then have "decimal n = decimal (n div 10) @ [digit (n mod 10)]" by (simp add: decimal.simps)
    then show ?thesis using 1 False digit_facts [of "n mod 10"] by (simp add: read_digits_snoc)
  qed
qed

lemma decimal_length: "n < 10 ^ k \<Longrightarrow> 0 < k \<Longrightarrow> length (decimal n) \<le> k"
proof (induction k arbitrary: n)
  case (Suc k)
  show ?case
  proof (cases "n < 10")
    case False
    then have "decimal n = decimal (n div 10) @ [digit (n mod 10)]" by (simp add: decimal.simps)
    moreover have "n div 10 < 10 ^ k" using Suc.prems(1) by (simp add: less_mult_imp_div_less mult.commute)
    moreover have "0 < k" using False Suc.prems(1) by (cases k) auto
    ultimately show ?thesis using Suc.IH [of "n div 10"] by simp
  qed (simp add: decimal.simps)
qed simp

definition padded :: "nat \<Rightarrow> string" where
  "padded n = replicate (6 - length (decimal n)) (CHR ''0'') @ decimal n"

lemma read_digits_zeros: "read_digits (replicate k (CHR ''0'') @ s) = read_digits s"
  by (induction k) (simp_all add: read_digits_def)

lemma padded_facts:
  assumes "n < 1000000"
  shows "length (padded n) = 6" "list_all is_digit_char (padded n)" "read_digits (padded n) = n"
proof -
  have "is_digit_char (CHR ''0'')" by code_simp
  then show "list_all is_digit_char (padded n)"
    using decimal_facts [of n] by (auto simp: padded_def list_all_iff)
  show "length (padded n) = 6" "read_digits (padded n) = n"
    using decimal_length [of n 6] decimal_facts [of n] assms
    by (simp_all add: padded_def read_digits_zeros)
qed

lemma numbered_name_padded: "numbered_name n = padded n @ ''.json''"
  by (simp add: numbered_name_def padded_def)

lemma numbered_name_round: "n < 1000000 \<Longrightarrow> number_of_name (numbered_name n) = Some n"
  using padded_facts [of n] by (simp add: number_of_name_def numbered_name_padded)

lemma number_of_name_Some:
  assumes "number_of_name name = Some n"
  shows "name = take 6 name @ ''.json''" "length (take 6 name) = 6"
    "list_all is_digit_char (take 6 name)" "n = read_digits (take 6 name)"
  using assms by (auto simp: number_of_name_def split: if_splits) (metis append_take_drop_id)+

text \<open>Names of six digits are ordered like their numbers.\<close>

lemma read_digits_bound: "list_all is_digit_char s \<Longrightarrow> read_digits s < 10 ^ length s"
proof (induction s rule: rev_induct)
  case (snoc c s)
  then have "of_char c - 48 < (10 :: nat)" by (auto simp: is_digit_char_def Let_def)
  then show ?case using snoc by (simp add: read_digits_snoc)
qed (simp add: read_digits_def)

lemma read_digits_foldl:
  "foldl (\<lambda>n c. 10 * n + (of_char c - 48)) m s = m * 10 ^ length s + read_digits s"
proof (induction s arbitrary: m)
  case (Cons c s)
  show ?case
    using Cons [of "10 * m + (of_char c - 48)"] Cons [of "of_char c - 48"]
    by (simp add: read_digits_def algebra_simps)
qed (simp add: read_digits_def)

lemma read_digits_Cons: "read_digits (c # s) = (of_char c - 48) * 10 ^ length s + read_digits s"
  using read_digits_foldl [of "of_char c - 48" s] by (simp add: read_digits_def)

lemma read_digits_less:
  assumes "length s = length t" and "list_all is_digit_char s" and "list_all is_digit_char t"
    and "read_digits s < read_digits t"
  shows "s < t"
  using assms
proof (induction s t rule: list_induct2)
  case (Cons c s d t)
  let ?c = "of_char c - 48 :: nat" and ?d = "of_char d - 48 :: nat"
  have digits: "48 \<le> (of_char c :: nat)" "48 \<le> (of_char d :: nat)"
    using Cons.prems by (auto simp: is_digit_char_def Let_def)
  have "?c \<le> ?d"
  proof (rule ccontr)
    assume "\<not> ?c \<le> ?d"
    then have "(?d + 1) * 10 ^ length s \<le> ?c * 10 ^ length s" by (intro mult_right_mono) auto
    moreover have "read_digits t < 10 ^ length s"
      using read_digits_bound [of t] Cons by simp
    ultimately show False
      using Cons.prems(3) Cons.hyps by (simp add: read_digits_Cons algebra_simps)
  qed
  then consider "?c < ?d" | "?c = ?d" by linarith
  then show ?case
  proof cases
    case 1
    then have "c < d" using digits by (simp add: less_char_def)
    then show ?thesis by simp
  next
    case 2
    then have "(of_char c :: nat) = of_char d" using digits by linarith
    then have "c = d" by simp
    then show ?thesis using Cons 2 by (simp add: read_digits_Cons)
  qed
qed simp

lemma append_suffix_less: "(s :: string) < t \<Longrightarrow> length s = length t \<Longrightarrow> s @ u < t @ u"
proof (induction s arbitrary: t)
  case (Cons c s)
  then show ?case by (cases t) auto
qed simp

lemma numbered_names_sorted: "m < n \<Longrightarrow> n < 1000000 \<Longrightarrow> numbered_name m < numbered_name n"
  using padded_facts [of m] padded_facts [of n]
  by (simp add: numbered_name_padded append_suffix_less read_digits_less)

end
