(* ===== verification/Controls.thy ===== *)
theory Controls
  imports Run_Control Journal_Files
begin

text \<open>
  \<open>controls.py\<close>: user-control commands and the mailbox that stores them. A command is a chain of
  revisions in a directory of its own: the request, then at most one resolution.

  \<^item> \<open>validate_command\<close> and \<open>mk_command\<close> are the \<open>ControlCommand\<close> model.
  \<^item> A mailbox is what the controls directory holds: named entries, a command directory being
    named files. Files the store did not write are part of the model (\<open>Unreadable_File\<close>,
    \<open>Not_A_File\<close>, \<open>Other_Entry\<close>), as are records that do not fit where they are.
  \<^item> \<open>request_command\<close>, \<open>resolve_command\<close>, \<open>load_command\<close> and \<open>list_latest\<close> are the operations of
    \<open>ControlCommandStore\<close>, each one step between taking and releasing the lock.

  The digest of a revision (SHA-256 of its JSON) and the freshly drawn identifier are arguments.
\<close>

section \<open>Vocabulary\<close>

datatype control_type = Ctl_Guide | Ctl_Correct | Ctl_Pause | Ctl_Resume | Ctl_Interrupt | Ctl_Cancel

datatype control_status =
    Ctl_Queued | Ctl_Applied | Ctl_Rejected | Ctl_Superseded | Ctl_Best_Effort_Failed

definition ctl_terminal :: "control_status \<Rightarrow> bool" where
  "ctl_terminal s \<longleftrightarrow> s \<noteq> Ctl_Queued"

datatype control_requester = Requester_User

datatype control_target_kind = Target_Run | Target_Agent | Target_Phase | Target_Future_Work

datatype control_boundary =
    At_Once | Before_Next_Invocation | Next_Safe_Checkpoint | Planning_Revision

record control_target =
  ct_kind :: control_target_kind
  ct_agent_id :: "string option"
  ct_attempt :: "int option"
  ct_phase :: "run_phase option"

definition validate_target :: "control_target \<Rightarrow> fault + unit" where
  "validate_target t =
     ebind (first_error
       [(\<not> opt_all ident_pattern (ct_agent_id t), Field_Invalid ''agent_id''),
        (\<not> opt_all (\<lambda>n. 1 \<le> n) (ct_attempt t), Field_Invalid ''attempt'')]) (\<lambda>_.
     ebind (if ct_kind t = Target_Agent
            then first_error
              [(ct_agent_id t = None, Value_Error ''Agent control targets require an Agent ID''),
               (ct_phase t \<noteq> None, Value_Error ''Agent control targets cannot claim a phase'')]
            else first_error
              [(ct_agent_id t \<noteq> None \<or> ct_attempt t \<noteq> None,
                 Value_Error ''only Agent control targets may identify an attempt'')]) (\<lambda>_.
     if ct_kind t = Target_Phase
     then first_error [(ct_phase t = None, Value_Error ''phase control targets require a phase'')]
     else first_error [(ct_phase t \<noteq> None,
       Value_Error ''only phase control targets may identify a phase'')]))"

section \<open>Commands\<close>

record control_command =
  cc_command_id :: string
  cc_run_id :: string
  cc_request_sequence :: int
  cc_revision :: int
  cc_requested_at :: int
  cc_updated_at :: int
  cc_requester :: control_requester
  cc_command :: control_type
  cc_instruction :: "string option"
  cc_target :: control_target
  cc_boundary :: control_boundary
  cc_status :: control_status
  cc_consequence :: "string option"
  cc_cost_caveat :: "string option"
  cc_plan_revision :: "int option"
  cc_lifecycle_revision :: "int option"
  cc_previous :: "string option"

text \<open>The identifier pattern \<open>ctl-[a-z0-9][a-z0-9-]*\<close>.\<close>

definition ctl_id_pattern :: "string \<Rightarrow> bool" where
  "ctl_id_pattern s \<longleftrightarrow> take 4 s = ''ctl-'' \<and>
     (case drop 4 s of [] \<Rightarrow> False
      | c # cs \<Rightarrow> (is_lower c \<or> is_digit_char c) \<and>
          list_all (\<lambda>d. is_lower d \<or> is_digit_char d \<or> d = CHR ''-'') cs)"

definition safe_ctl_text :: "bool \<Rightarrow> string \<Rightarrow> bool" where
  "safe_ctl_text newlines s \<longleftrightarrow> CHR 0x00 \<notin> set s \<and>
     (newlines \<or> (CHR 0x0A \<notin> set s \<and> CHR 0x0D \<notin> set s))"

definition clean_ctl_text :: "string \<Rightarrow> bool \<Rightarrow> string \<Rightarrow> fault + string" where
  "clean_ctl_text label newlines s =
     (let cleaned = py_strip s in
      ebind (first_error
        [(cleaned = [], Value_Error (label @ '' must not be blank'')),
         (\<not> safe_ctl_text newlines cleaned,
           Value_Error (label @ '' contains unsupported control characters''))])
      (\<lambda>_. Inr cleaned))"

fun allowed_targets :: "control_type \<Rightarrow> control_target_kind list" where
  "allowed_targets Ctl_Guide = [Target_Agent, Target_Phase, Target_Future_Work]"
| "allowed_targets Ctl_Correct = [Target_Run, Target_Future_Work]"
| "allowed_targets Ctl_Pause = [Target_Run]"
| "allowed_targets Ctl_Resume = [Target_Run]"
| "allowed_targets Ctl_Interrupt = [Target_Agent]"
| "allowed_targets Ctl_Cancel = [Target_Run]"

fun allowed_boundaries :: "control_type \<Rightarrow> control_boundary list" where
  "allowed_boundaries Ctl_Guide = [Before_Next_Invocation, Next_Safe_Checkpoint]"
| "allowed_boundaries Ctl_Correct = [Planning_Revision]"
| "allowed_boundaries Ctl_Pause = [Next_Safe_Checkpoint]"
| "allowed_boundaries Ctl_Resume = [Next_Safe_Checkpoint]"
| "allowed_boundaries Ctl_Interrupt = [At_Once]"
| "allowed_boundaries Ctl_Cancel = [At_Once]"

fun control_value :: "control_type \<Rightarrow> string" where
  "control_value Ctl_Guide = ''guide''"
| "control_value Ctl_Correct = ''correct''"
| "control_value Ctl_Pause = ''pause''"
| "control_value Ctl_Resume = ''resume''"
| "control_value Ctl_Interrupt = ''interrupt''"
| "control_value Ctl_Cancel = ''cancel''"

definition command_fields :: "control_command \<Rightarrow> fault + unit" where
  "command_fields c =
     ebind (first_error
       [(\<not> ctl_id_pattern (cc_command_id c), Field_Invalid ''command_id''),
        (\<not> run_id_pattern (cc_run_id c), Field_Invalid ''run_id''),
        (cc_request_sequence c < 1, Field_Invalid ''request_sequence''),
        (cc_revision c < 1, Field_Invalid ''revision''),
        (\<not> opt_all (\<lambda>s. length s \<le> 2000) (cc_instruction c), Field_Invalid ''instruction''),
        (\<not> opt_all (\<lambda>s. length s \<le> 500) (cc_consequence c), Field_Invalid ''consequence''),
        (\<not> opt_all (\<lambda>s. length s \<le> 500) (cc_cost_caveat c), Field_Invalid ''provider_cost_caveat''),
        (\<not> opt_all (\<lambda>n. 1 \<le> n) (cc_plan_revision c), Field_Invalid ''resulting_plan_revision''),
        (\<not> opt_all (\<lambda>n. 0 \<le> n) (cc_lifecycle_revision c), Field_Invalid ''resulting_lifecycle_revision''),
        (\<not> opt_all sha256_pattern (cc_previous c), Field_Invalid ''previous_revision_sha256'')])
     (\<lambda>_. validate_target (cc_target c))"

definition no_result :: "control_command \<Rightarrow> bool" where
  "no_result c \<longleftrightarrow> cc_consequence c = None \<and> cc_cost_caveat c = None \<and>
     cc_plan_revision c = None \<and> cc_lifecycle_revision c = None"

text \<open>\<open>validate_command\<close>, the model validator.\<close>

definition check_command :: "control_command \<Rightarrow> fault + unit" where
  "check_command c = first_error
     [(cc_updated_at c < cc_requested_at c, Value_Error ''control command cannot predate its request''),
      (cc_revision c = 1 \<and> cc_previous c \<noteq> None,
        Value_Error ''the first control revision has no predecessor''),
      (cc_revision c = 1 \<and> cc_status c \<noteq> Ctl_Queued, Value_Error ''a new control command must be queued''),
      (cc_revision c \<noteq> 1 \<and> cc_previous c = None,
        Value_Error ''later control revisions require a predecessor digest''),
      (cc_status c = Ctl_Queued \<and> (cc_revision c \<noteq> 1 \<or> cc_updated_at c \<noteq> cc_requested_at c),
        Value_Error ''only the first control revision may remain queued''),
      (cc_status c = Ctl_Queued \<and> \<not> no_result c,
        Value_Error ''queued control commands cannot contain a result''),
      (cc_status c \<noteq> Ctl_Queued \<and> cc_consequence c = None,
        Value_Error ''resolved control commands require a consequence''),
      (cc_status c \<noteq> Ctl_Applied \<and> (cc_plan_revision c \<noteq> None \<or> cc_lifecycle_revision c \<noteq> None),
        Value_Error ''only applied controls may record resulting revisions''),
      ((cc_command c = Ctl_Guide \<or> cc_command c = Ctl_Correct) \<and> cc_instruction c = None,
        Value_Error (control_value (cc_command c) @ '' requires an instruction'')),
      (\<not> (cc_command c = Ctl_Guide \<or> cc_command c = Ctl_Correct) \<and> cc_instruction c \<noteq> None,
        Value_Error (control_value (cc_command c) @ '' does not accept an instruction'')),
      (ct_kind (cc_target c) \<notin> set (allowed_targets (cc_command c)),
        Value_Error (''invalid target for '' @ control_value (cc_command c))),
      (cc_boundary c \<notin> set (allowed_boundaries (cc_command c)),
        Value_Error (''invalid application boundary for '' @ control_value (cc_command c)))]"

definition clean_opt :: "string \<Rightarrow> bool \<Rightarrow> string option \<Rightarrow> fault + string option" where
  "clean_opt label newlines v =
     (case v of None \<Rightarrow> Inr None | Some s \<Rightarrow> ebind (clean_ctl_text label newlines s) (\<lambda>t. Inr (Some t)))"

text \<open>The constructor: field constraints on the values as given, then the cleaning of the texts,
  then the model validator. It accepts its own results (\<open>mk_command_idem\<close>).\<close>

definition mk_command :: "control_command \<Rightarrow> fault + control_command" where
  "mk_command c =
     ebind (command_fields c) (\<lambda>_.
     ebind (clean_opt ''control instruction'' True (cc_instruction c)) (\<lambda>instruction.
     ebind (clean_opt ''control result'' False (cc_consequence c)) (\<lambda>consequence.
     ebind (clean_opt ''control result'' False (cc_cost_caveat c)) (\<lambda>caveat.
     let u = c\<lparr>cc_instruction := instruction, cc_consequence := consequence, cc_cost_caveat := caveat\<rparr>
     in ebind (check_command u) (\<lambda>_. Inr u)))))"

definition command_ok :: "control_command \<Rightarrow> bool" where
  "command_ok c \<longleftrightarrow> mk_command c = Inr c"

section \<open>The mailbox\<close>

datatype control_file = Revision_File control_command | Unreadable_File | Not_A_File

datatype control_entry = Command_Directory "(string \<times> control_file) list" | Other_Entry

record mailbox =
  mb_run_id :: string
  mb_entries :: "(string \<times> control_entry) list"

datatype control_error =
    Control_Error string | Control_Conflict | Control_Fault fault

definition control_raise :: "fault + 'a \<Rightarrow> control_error + 'a" where
  "control_raise m = (case m of Inl e \<Rightarrow> Inl (Control_Fault e) | Inr x \<Rightarrow> Inr x)"

definition command_names :: "mailbox \<Rightarrow> control_error + string list" where
  "command_names m =
     (let entries = sort_key fst (filter (\<lambda>(name, _). \<not> hidden name) (mb_entries m))
      in if list_ex (\<lambda>(name, entry). entry = Other_Entry \<or> \<not> ctl_id_pattern name) entries
         then Inl (Control_Error ''control mailbox contains an invalid entry'')
         else Inr (map fst entries))"

text \<open>The fields of a request that no resolution may change.\<close>

definition same_request :: "control_command \<Rightarrow> control_command \<Rightarrow> bool" where
  "same_request a b \<longleftrightarrow>
     cc_command_id a = cc_command_id b \<and> cc_run_id a = cc_run_id b \<and>
     cc_request_sequence a = cc_request_sequence b \<and> cc_requested_at a = cc_requested_at b \<and>
     cc_requester a = cc_requester b \<and> cc_command a = cc_command b \<and>
     cc_instruction a = cc_instruction b \<and> cc_target a = cc_target b \<and> cc_boundary a = cc_boundary b"

definition load_revision ::
    "(control_command \<Rightarrow> string) \<Rightarrow> string \<Rightarrow> string \<Rightarrow> string \<times> control_file \<Rightarrow> control_command list \<Rightarrow>
     control_error + control_command list" where
  "load_revision digest run_id command_id entry history =
     (let expected = length history + 1; previous = last_opt history in
      case number_of_name (fst entry) of
        None \<Rightarrow> Inl (Control_Error ''control history contains an invalid entry'')
      | Some n \<Rightarrow>
          if snd entry = Not_A_File
          then Inl (Control_Error ''control history contains an invalid entry'')
          else if n \<noteq> expected then Inl (Control_Error ''control revisions must be contiguous'')
          else case snd entry of
            Revision_File stored \<Rightarrow>
              (case mk_command stored of
                 Inl _ \<Rightarrow> Inl (Control_Error ''control history contains invalid JSON'')
               | Inr c \<Rightarrow> ebind (first_error
                  [(cc_command_id c \<noteq> command_id \<or> cc_run_id c \<noteq> run_id \<or> cc_revision c \<noteq> int expected,
                     Control_Error ''control identity does not match its path''),
                   (cc_previous c \<noteq> map_option digest previous,
                     Control_Error ''control predecessor digest does not match''),
                   (\<not> opt_all (\<lambda>p. same_request c p) previous,
                     Control_Error ''control request metadata is immutable''),
                   (\<not> opt_all (\<lambda>p. \<not> ctl_terminal (cc_status p)) previous,
                     Control_Error ''terminal control history cannot continue'')])
                  (\<lambda>_. Inr (history @ [c])))
          | _ \<Rightarrow> Inl (Control_Error ''control history contains invalid JSON''))"

definition not_found :: "string \<Rightarrow> control_error" where
  "not_found command_id = Control_Error (''control command not found: '' @ command_id)"

text \<open>\<open>_load_unlocked\<close>.\<close>

definition load_history ::
    "(control_command \<Rightarrow> string) \<Rightarrow> mailbox \<Rightarrow> string \<Rightarrow> control_error + control_command list" where
  "load_history digest m command_id =
     (case map_of (mb_entries m) command_id of
        Some (Command_Directory files) \<Rightarrow>
          ebind (efold (load_revision digest (mb_run_id m) command_id)
                   (sort_key fst (filter (\<lambda>(name, _). \<not> hidden name) files)) [])
            (\<lambda>history. if history = [] then Inl (not_found command_id) else Inr history)
      | _ \<Rightarrow> Inl (not_found command_id))"

definition valid_command_id :: "string \<Rightarrow> control_error + unit" where
  "valid_command_id command_id = first_error
     [(\<not> ctl_id_pattern command_id, Control_Error (''invalid control command ID: '' @ command_id))]"

definition load_command ::
    "(control_command \<Rightarrow> string) \<Rightarrow> mailbox \<Rightarrow> string \<Rightarrow> control_error + control_command list" where
  "load_command digest m command_id =
     ebind (valid_command_id command_id) (\<lambda>_. load_history digest m command_id)"

definition contiguous_error :: control_error where
  "contiguous_error = Control_Error ''control mailbox request sequences must be contiguous''"

definition list_latest ::
    "(control_command \<Rightarrow> string) \<Rightarrow> mailbox \<Rightarrow> control_error + control_command list" where
  "list_latest digest m =
     ebind (command_names m) (\<lambda>names.
     ebind (emap (load_history digest m) names) (\<lambda>histories.
     let ordered = sort_key cc_request_sequence (map last histories)
     in if map cc_request_sequence ordered \<noteq> one_to (length ordered)
        then Inl contiguous_error else Inr ordered))"

definition control_utc :: "datetime \<Rightarrow> control_error + int" where
  "control_utc t = control_raise
     (require_utc (Value_Error ''control-command timestamps must include a timezone'') t)"

text \<open>A request: the caller's identifier, or a fresh one.\<close>

record control_request =
  rq_command :: control_type
  rq_target :: control_target
  rq_boundary :: control_boundary
  rq_instruction :: "string option"
  rq_command_id :: "string option"

definition requested_id :: "control_request \<Rightarrow> string \<Rightarrow> string" where
  "requested_id q fresh = (if the_or (rq_command_id q) [] = [] then fresh else the_or (rq_command_id q) [])"

definition queued_command :: "string \<Rightarrow> control_request \<Rightarrow> string \<Rightarrow> int \<Rightarrow> int \<Rightarrow> control_command" where
  "queued_command run_id q command_id sequence now =
     \<lparr>cc_command_id = command_id, cc_run_id = run_id, cc_request_sequence = sequence,
      cc_revision = 1, cc_requested_at = now, cc_updated_at = now, cc_requester = Requester_User,
      cc_command = rq_command q, cc_instruction = rq_instruction q, cc_target = rq_target q,
      cc_boundary = rq_boundary q, cc_status = Ctl_Queued, cc_consequence = None,
      cc_cost_caveat = None, cc_plan_revision = None, cc_lifecycle_revision = None,
      cc_previous = None\<rparr>"

definition request_command ::
    "(control_command \<Rightarrow> string) \<Rightarrow> datetime \<Rightarrow> string \<Rightarrow> control_request \<Rightarrow> mailbox \<Rightarrow>
     control_error + (control_command \<times> mailbox)" where
  "request_command digest clock fresh q m =
     ebind (command_names m) (\<lambda>names.
     ebind (emap (load_history digest m) names) (\<lambda>histories.
     let sequences = sort_key id (map (cc_request_sequence \<circ> hd) histories)
     in if sequences \<noteq> one_to (length sequences) then Inl contiguous_error
        else ebind (control_utc clock) (\<lambda>now.
          ebind (control_raise (mk_command (queued_command (mb_run_id m) q (requested_id q fresh)
                   (int (length sequences) + 1) now))) (\<lambda>record.
          if map_of (mb_entries m) (cc_command_id record) \<noteq> None
          then Inl (Control_Error (''control command already exists: '' @ cc_command_id record))
          else Inr (record, m\<lparr>mb_entries := mb_entries m @
            [(cc_command_id record, Command_Directory [(numbered_name 1, Revision_File record)])]\<rparr>)))))"

record control_resolution =
  rs_status :: control_status
  rs_consequence :: string
  rs_cost_caveat :: "string option"
  rs_plan_revision :: "int option"
  rs_lifecycle_revision :: "int option"

definition resolved_command ::
    "(control_command \<Rightarrow> string) \<Rightarrow> control_resolution \<Rightarrow> int \<Rightarrow> control_command \<Rightarrow> control_command" where
  "resolved_command digest r now c =
     c\<lparr>cc_revision := cc_revision c + 1, cc_updated_at := now, cc_status := rs_status r,
       cc_consequence := Some (rs_consequence r), cc_cost_caveat := rs_cost_caveat r,
       cc_plan_revision := rs_plan_revision r, cc_lifecycle_revision := rs_lifecycle_revision r,
       cc_previous := Some (digest c)\<rparr>"

text \<open>Adding a file to a command directory; \<open>os.rename\<close> replaces a file of that name.\<close>

definition add_file :: "string \<Rightarrow> string \<Rightarrow> control_file \<Rightarrow> mailbox \<Rightarrow> mailbox" where
  "add_file command_id name content m = m\<lparr>mb_entries := map (\<lambda>(i, entry).
     (i, if i = command_id
         then (case entry of
             Command_Directory files \<Rightarrow>
               Command_Directory (filter (\<lambda>(n, _). n \<noteq> name) files @ [(name, content)])
           | Other_Entry \<Rightarrow> Other_Entry)
         else entry)) (mb_entries m)\<rparr>"

definition resolve_command ::
    "(control_command \<Rightarrow> string) \<Rightarrow> datetime \<Rightarrow> string \<Rightarrow> int \<Rightarrow> control_resolution \<Rightarrow> mailbox \<Rightarrow>
     control_error + (control_command \<times> mailbox)" where
  "resolve_command digest clock command_id expected_revision r m =
     ebind (first_error [(\<not> ctl_terminal (rs_status r),
              Control_Error ''resolve requires a terminal control status'')]) (\<lambda>_.
     ebind (valid_command_id command_id) (\<lambda>_.
     ebind (load_history digest m command_id) (\<lambda>history.
     let current = last history in
     if cc_revision current \<noteq> expected_revision then Inl Control_Conflict
     else if ctl_terminal (cc_status current)
     then Inl (Control_Error ''resolved control commands are immutable'')
     else ebind (control_utc clock) (\<lambda>now.
       ebind (control_raise (mk_command (resolved_command digest r now current))) (\<lambda>updated.
       Inr (updated, add_file command_id (numbered_name (nat (cc_revision updated)))
              (Revision_File updated) m))))))"

definition new_mailbox :: "string \<Rightarrow> mailbox" where
  "new_mailbox run_id = \<lparr>mb_run_id = run_id, mb_entries = []\<rparr>"

end
