(* ===== verification/Control_Histories.thy ===== *)
theory Control_Histories
  imports Controls
begin

text \<open>
  What the mailbox guarantees. \<open>load_history_shape\<close>: whatever files are in a command directory, a
  history that loads is a request with at most one resolution. \<open>mailbox_ok\<close> is the invariant of a
  mailbox that only \<open>request\<close> and \<open>resolve\<close> have written; under it every reader succeeds, and the
  interpretation \<open>mailbox\<close> of \<open>append_only\<close> gives the growth of histories.
\<close>

section \<open>The command model\<close>

lemma clean_ctl_text_Inr:
  "clean_ctl_text l nl s = Inr t \<longleftrightarrow> t = py_strip s \<and> t \<noteq> [] \<and> safe_ctl_text nl t"
  by (auto simp: clean_ctl_text_def Let_def ebind_eq_Inr)

lemma clean_opt_Inr:
  "clean_opt l nl v = Inr w \<longleftrightarrow> w = map_option py_strip v \<and> opt_all (\<lambda>t. t \<noteq> [] \<and> safe_ctl_text nl t) w"
  by (cases v) (auto simp: clean_opt_def ebind_eq_Inr clean_ctl_text_Inr)

lemma opt_all_strip: "opt_all (\<lambda>s. length s \<le> n) v \<Longrightarrow> opt_all (\<lambda>s. length s \<le> n) (map_option py_strip v)"
  using length_py_strip by (cases v) (auto intro: le_trans)

lemma mk_command_Inr:
  "mk_command x = Inr c \<longleftrightarrow> command_fields x = Inr () \<and>
     c = x\<lparr>cc_instruction := map_option py_strip (cc_instruction x),
           cc_consequence := map_option py_strip (cc_consequence x),
           cc_cost_caveat := map_option py_strip (cc_cost_caveat x)\<rparr> \<and>
     opt_all (\<lambda>t. t \<noteq> [] \<and> safe_ctl_text True t) (cc_instruction c) \<and>
     opt_all (\<lambda>t. t \<noteq> [] \<and> safe_ctl_text False t) (cc_consequence c) \<and>
     opt_all (\<lambda>t. t \<noteq> [] \<and> safe_ctl_text False t) (cc_cost_caveat c) \<and>
     check_command c = Inr ()"
  by (auto simp: mk_command_def ebind_eq_Inr clean_opt_Inr Let_def)

lemma mk_command_idem: "mk_command x = Inr c \<Longrightarrow> command_ok c"
  unfolding command_ok_def mk_command_Inr
  by (auto simp: command_fields_def ebind_eq_Inr opt_all_strip option.map_comp comp_def)

lemma command_ok_clean: "command_ok c \<Longrightarrow> map_option py_strip (cc_instruction c) = cc_instruction c"
proof -
  assume "command_ok c"
  then have "c = c\<lparr>cc_instruction := map_option py_strip (cc_instruction c),
           cc_consequence := map_option py_strip (cc_consequence c),
           cc_cost_caveat := map_option py_strip (cc_cost_caveat c)\<rparr>"
    by (simp only: command_ok_def mk_command_Inr)
  from arg_cong [OF this, of cc_instruction] show ?thesis by simp
qed

lemma command_ok_checked: "command_ok c \<Longrightarrow> check_command c = Inr () \<and> command_fields c = Inr ()"
  by (simp add: command_ok_def mk_command_Inr)

lemma ok_queued_iff: "command_ok c \<Longrightarrow> ctl_terminal (cc_status c) \<longleftrightarrow> cc_revision c \<noteq> 1"
  by (auto dest!: command_ok_checked simp: check_command_def ctl_terminal_def)

section \<open>Histories that load\<close>

definition history_ok :: "(control_command \<Rightarrow> string) \<Rightarrow> string \<Rightarrow> string \<Rightarrow> control_command list \<Rightarrow> bool" where
  "history_ok digest run_id i h \<longleftrightarrow>
     (\<exists>c. command_ok c \<and> cc_command_id c = i \<and> cc_run_id c = run_id \<and> cc_revision c = 1 \<and>
        (h = [c] \<or> (\<exists>d. h = [c, d] \<and> command_ok d \<and> cc_revision d = 2 \<and> same_request d c \<and>
           cc_previous d = Some (digest c))))"

lemma history_okE:
  assumes "history_ok digest run_id i h"
  obtains (requested) c where "h = [c]" "command_ok c" "cc_command_id c = i" "cc_run_id c = run_id"
      "cc_revision c = 1" "cc_status c = Ctl_Queued"
  | (resolved) c d where "h = [c, d]" "command_ok c" "cc_command_id c = i" "cc_run_id c = run_id"
      "cc_revision c = 1" "cc_status c = Ctl_Queued" "command_ok d" "cc_revision d = 2" "same_request d c"
      "cc_previous d = Some (digest c)" "ctl_terminal (cc_status d)"
proof -
  obtain c where c: "command_ok c" "cc_command_id c = i" "cc_run_id c = run_id" "cc_revision c = 1"
    "h = [c] \<or> (\<exists>d. h = [c, d] \<and> command_ok d \<and> cc_revision d = 2 \<and> same_request d c \<and>
           cc_previous d = Some (digest c))"
    using assms unfolding history_ok_def by blast
  have q: "cc_status c = Ctl_Queued" using ok_queued_iff [OF c(1)] c(4) by (simp add: ctl_terminal_def)
  show ?thesis
  proof (cases "h = [c]")
    case True
    then show ?thesis by (rule requested [OF _ c(1-4) q])
  next
    case False
    then obtain d where d: "h = [c, d]" "command_ok d" "cc_revision d = 2" "same_request d c"
      "cc_previous d = Some (digest c)" using c(5) by blast
    then show ?thesis using ok_queued_iff [OF d(2)] resolved [OF d(1) c(1-4) q d(2-5)] by simp
  qed
qed

lemma load_revision_keeps:
  assumes "load_revision digest run_id i f h = Inr h'" and "h = [] \<or> history_ok digest run_id i h"
  shows "history_ok digest run_id i h'"
proof -
  obtain stored c where c: "mk_command stored = Inr c" "h' = h @ [c]"
    "cc_command_id c = i" "cc_run_id c = run_id" "cc_revision c = int (length h + 1)"
    "cc_previous c = map_option digest (last_opt h)" "opt_all (\<lambda>p. same_request c p) (last_opt h)"
    "opt_all (\<lambda>p. \<not> ctl_terminal (cc_status p)) (last_opt h)"
    using assms(1) by (auto simp: load_revision_def Let_def ebind_eq_Inr
      split: option.splits control_file.splits if_splits sum.splits)
  have ok: "command_ok c" by (rule mk_command_idem [OF c(1)])
  show ?thesis
  proof (cases "h = []")
    case True
    then show ?thesis using c ok by (simp add: history_ok_def)
  next
    case False
    then have "history_ok digest run_id i h" using assms(2) by simp
    then show ?thesis
    proof (cases rule: history_okE)
      case (requested a)
      then show ?thesis using c ok by (simp add: history_ok_def last_opt_def)
    next
      case (resolved a d)
      then show ?thesis using c(8) by (simp add: last_opt_def)
    qed
  qed
qed

lemma load_history_shape:
  assumes "load_history digest m i = Inr h"
  shows "history_ok digest (mb_run_id m) i h"
proof -
  obtain files where h: "efold (load_revision digest (mb_run_id m) i)
      (sort_key fst (filter (\<lambda>(name, _). \<not> hidden name) files)) [] = Inr h" "h \<noteq> []"
    using assms by (auto simp: load_history_def ebind_eq_Inr split: option.splits control_entry.splits if_splits)
  have "h = [] \<or> history_ok digest (mb_run_id m) i h"
    by (rule efold_invariant [OF h(1)]) (auto dest: load_revision_keeps)
  then show ?thesis using h(2) by simp
qed

section \<open>Mailboxes the store has written\<close>

fun stored_files :: "nat \<Rightarrow> control_command list \<Rightarrow> (string \<times> control_file) list" where
  "stored_files n [] = []"
| "stored_files n (c # cs) = (numbered_name n, Revision_File c) # stored_files (n + 1) cs"

definition mailbox_of :: "string \<Rightarrow> (string \<times> control_command list) list \<Rightarrow> mailbox" where
  "mailbox_of run_id hs =
     \<lparr>mb_run_id = run_id, mb_entries = map (\<lambda>(i, h). (i, Command_Directory (stored_files 1 h))) hs\<rparr>"

definition histories_ok ::
    "(control_command \<Rightarrow> string) \<Rightarrow> string \<Rightarrow> (string \<times> control_command list) list \<Rightarrow> bool" where
  "histories_ok digest run_id hs \<longleftrightarrow> distinct (map fst hs) \<and>
     (\<forall>(i, h) \<in> set hs. ctl_id_pattern i \<and> history_ok digest run_id i h) \<and>
     map (\<lambda>(i, h). cc_request_sequence (hd h)) hs = one_to (length hs)"

definition mailbox_ok :: "(control_command \<Rightarrow> string) \<Rightarrow> mailbox \<Rightarrow> bool" where
  "mailbox_ok digest m \<longleftrightarrow> (\<exists>hs. m = mailbox_of (mb_run_id m) hs \<and> histories_ok digest (mb_run_id m) hs)"

lemma first_names:
  "numbered_name (Suc 0) = ''000001.json''" "numbered_name (Suc (Suc 0)) = ''000002.json''"
  "number_of_name ''000001.json'' = Some 1" "number_of_name ''000002.json'' = Some 2"
  by code_simp+

lemma names_order: "(''000001.json'' :: string) \<le> ''000002.json''"
  by code_simp

lemma names_sorted:
  "sort_key fst [(''000001.json'', a), (''000002.json'', b)] = [(''000001.json'', a), (''000002.json'', b)]"
  "\<not> hidden ''000001.json''" "\<not> hidden ''000002.json''"
  using names_order by (simp_all add: hidden_def)

lemma loaded_revision:
  assumes "number_of_name name = Some (length h + 1)" and "command_ok c"
    and "cc_command_id c = i" and "cc_run_id c = run_id" and "cc_revision c = int (length h) + 1"
    and "cc_previous c = map_option digest (last_opt h)"
    and "opt_all (\<lambda>p. same_request c p \<and> \<not> ctl_terminal (cc_status p)) (last_opt h)"
  shows "load_revision digest run_id i (name, Revision_File c) h = Inr (h @ [c])"
  using assms by (cases "last_opt h") (auto simp: load_revision_def command_ok_def)

lemma load_stored:
  assumes "history_ok digest run_id i h"
  shows "efold (load_revision digest run_id i)
    (sort_key fst (filter (\<lambda>(name, _). \<not> hidden name) (stored_files 1 h))) [] = Inr h"
  using assms
proof (cases rule: history_okE)
  case (requested c)
  then have "cc_previous c = None" by (auto dest!: command_ok_checked simp: check_command_def)
  then have "load_revision digest run_id i (''000001.json'', Revision_File c) [] = Inr [c]"
    using requested by (intro loaded_revision [where h = "[]", simplified]) (simp_all add: first_names last_opt_def)
  then show ?thesis using requested(1) by (simp add: first_names names_sorted)
next
  case (resolved c d)
  then have prev: "cc_previous c = None" by (auto dest!: command_ok_checked simp: check_command_def)
  have one: "load_revision digest run_id i (''000001.json'', Revision_File c) [] = Inr [c]"
    using prev resolved by (intro loaded_revision [where h = "[]", simplified]) (simp_all add: first_names last_opt_def)
  have ids: "cc_command_id d = i" "cc_run_id d = run_id"
    using resolved by (simp_all add: same_request_def)
  have "load_revision digest run_id i (''000002.json'', Revision_File d) [c] = Inr [c, d]"
    using ids resolved
    by (intro loaded_revision [where h = "[c]", simplified])
      (simp_all add: first_names last_opt_def ctl_terminal_def)
  then show ?thesis using resolved(1) one by (simp add: first_names names_sorted del: sort_key_simps)
qed

lemma ctl_id_visible: "ctl_id_pattern i \<Longrightarrow> \<not> hidden i"
  by (cases i) (auto simp: ctl_id_pattern_def hidden_def)

lemma sort_key_unique:
  assumes "distinct (map f xs)" and "set (map f xs) = set ys" and "sorted ys" and "distinct ys"
  shows "map f (sort_key f xs) = ys"
  by (rule sorted_distinct_set_unique) (use assms in \<open>auto simp: distinct_map\<close>)

definition names_of :: "(string \<times> control_command list) list \<Rightarrow> string list" where
  "names_of hs = sort_key id (map fst hs)"

lemma sort_key_map: "sort_key f (map g xs) = map g (sort_key (f \<circ> g) xs)"
proof -
  have "insort_key f (g x) (map g xs) = map g (insort_key (f \<circ> g) x xs)" for x xs
    by (induction xs) auto
  then show ?thesis by (induction xs) auto
qed

lemma command_names_of:
  assumes "histories_ok digest run_id hs"
  shows "command_names (mailbox_of run_id hs) = Inr (names_of hs)"
proof -
  let ?es = "mb_entries (mailbox_of run_id hs)"
  have ids: "ctl_id_pattern i" "entry \<noteq> Other_Entry" if "(i, entry) \<in> set ?es" for i entry
    using assms that by (auto simp: mailbox_of_def histories_ok_def)
  then have vis: "filter (\<lambda>(name, _). \<not> hidden name) ?es = ?es"
    by (auto simp: ctl_id_visible intro!: filter_True)
  have "\<not> list_ex (\<lambda>(name, entry). entry = Other_Entry \<or> \<not> ctl_id_pattern name) (sort_key fst ?es)"
    using ids by (auto simp: list_ex_iff)
  moreover have "map fst ?es = map fst hs" by (simp add: mailbox_of_def case_prod_unfold)
  then have "map fst (sort_key fst ?es) = sort_key id (map fst hs)"
    using sort_key_map [of id fst ?es] by simp
  ultimately show ?thesis
    unfolding command_names_def vis Let_def by (simp add: names_of_def)
qed

lemma load_history_of:
  assumes "histories_ok digest run_id hs" and "(i, h) \<in> set hs"
  shows "load_history digest (mailbox_of run_id hs) i = Inr h"
proof -
  have h: "history_ok digest run_id i h" and d: "distinct (map fst hs)"
    using assms by (auto simp: histories_ok_def)
  have "map_of (mb_entries (mailbox_of run_id hs)) i = Some (Command_Directory (stored_files 1 h))"
    using assms(2) d by (intro map_of_is_SomeI) (force simp: mailbox_of_def case_prod_unfold comp_def)+
  moreover have "h \<noteq> []" using h by (auto simp: history_ok_def)
  ultimately show ?thesis
    using load_stored [OF h] by (simp add: load_history_def mailbox_of_def)
qed

lemma load_history_unknown:
  "i \<notin> fst ` set hs \<Longrightarrow> load_history digest (mailbox_of run_id hs) i = Inl (not_found i)"
proof -
  assume "i \<notin> fst ` set hs"
  then have "map_of (mb_entries (mailbox_of run_id hs)) i = None"
    by (force simp: mailbox_of_def map_of_eq_None_iff)
  then show ?thesis by (simp add: load_history_def)
qed

definition history_at :: "(string \<times> control_command list) list \<Rightarrow> string \<Rightarrow> control_command list" where
  "history_at hs i = the (map_of hs i)"

lemma load_histories_of:
  assumes "histories_ok digest run_id hs"
  shows "emap (load_history digest (mailbox_of run_id hs)) (names_of hs) = Inr (map (history_at hs) (names_of hs))"
proof -
  have "load_history digest (mailbox_of run_id hs) i = Inr (history_at hs i)" if "i \<in> set (names_of hs)" for i
  proof -
    obtain h where h: "(i, h) \<in> set hs" using \<open>i \<in> set (names_of hs)\<close> by (auto simp: names_of_def)
    then have "map_of hs i = Some h" using assms by (auto simp: histories_ok_def)
    then show ?thesis using load_history_of [OF assms h] by (simp add: history_at_def)
  qed
  then show ?thesis by (induction "names_of hs") (auto simp: emap_Inr list_all2_map2 list.rel_refl_strong)
qed

text \<open>The request sequences, read in any order, are 1 up to the number of commands.\<close>

lemma sequences_of:
  assumes "histories_ok digest run_id hs" and "\<And>i h. (i, h) \<in> set hs \<Longrightarrow> f h = cc_request_sequence (hd h)"
  shows "map f (sort_key f (map (history_at hs) (names_of hs))) = one_to (length hs)"
proof (rule sort_key_unique)
  have d: "distinct (map fst hs)" using assms(1) by (simp add: histories_ok_def)
  have at: "history_at hs i = h" if "(i, h) \<in> set hs" for i h
    using d that by (simp add: history_at_def)
  have fhs: "map (f \<circ> history_at hs) (map fst hs) = one_to (length hs)"
  proof -
    have "map (f \<circ> history_at hs) (map fst hs) = map (\<lambda>(i, h). cc_request_sequence (hd h)) hs"
      using at assms(2) by auto
    also have "\<dots> = one_to (length hs)" using assms(1) unfolding histories_ok_def by blast
    finally show ?thesis .
  qed
  have inj: "inj_on (f \<circ> history_at hs) (fst ` set hs)"
    using fhs by (metis distinct_map list.set_map one_to_facts(2))
  have names: "distinct (names_of hs)" "set (names_of hs) = fst ` set hs"
    using d by (simp_all add: names_of_def)
  then show "distinct (map f (map (history_at hs) (names_of hs)))"
    using inj by (simp add: distinct_map)
  have "set (map f (map (history_at hs) (names_of hs))) = set (map (f \<circ> history_at hs) (map fst hs))"
    using names(2) by (simp add: image_comp comp_def)
  also have "\<dots> = set (one_to (length hs))" by (simp only: fhs)
  finally show "set (map f (map (history_at hs) (names_of hs))) = set (one_to (length hs))" .
qed (simp_all add: one_to_facts)

lemma history_hd: "history_ok digest run_id i h \<Longrightarrow> same_request (last h) (hd h) \<and> h \<noteq> []"
  by (auto elim!: history_okE simp: same_request_def)

text \<open>Every reader of the mailbox succeeds.\<close>

lemma list_latest_of:
  assumes "histories_ok digest run_id hs"
  shows "\<exists>cs. list_latest digest (mailbox_of run_id hs) = Inr cs \<and>
    map cc_request_sequence cs = one_to (length hs) \<and>
    set cs = (\<lambda>(i, h). last h) ` set hs"
proof -
  have d: "distinct (map fst hs)" and ok: "\<And>i h. (i, h) \<in> set hs \<Longrightarrow> history_ok digest run_id i h"
    using assms by (auto simp: histories_ok_def)
  let ?hs = "map (history_at hs) (names_of hs)"
  let ?cs = "sort_key cc_request_sequence (map last ?hs)"
  have last_seq: "cc_request_sequence (last h) = cc_request_sequence (hd h)" if "(i, h) \<in> set hs" for i h
    using history_hd [OF ok [OF that]] by (simp add: same_request_def)
  have "map (cc_request_sequence \<circ> last) (sort_key (cc_request_sequence \<circ> last) ?hs) = one_to (length hs)"
    by (rule sequences_of [OF assms]) (simp add: last_seq)
  then have seqs: "map cc_request_sequence ?cs = one_to (length hs)"
    by (simp add: sort_key_map comp_def)
  moreover have "length ?cs = length hs" using arg_cong [OF seqs, of length] by (simp add: one_to_facts)
  ultimately have "list_latest digest (mailbox_of run_id hs) = Inr ?cs"
    unfolding list_latest_def command_names_of [OF assms] load_histories_of [OF assms] ebind_Inr Let_def
    by presburger
  moreover have "set ?cs = (\<lambda>(i, h). last h) ` set hs"
  proof -
    have "(\<lambda>i. last (history_at hs i)) ` fst ` set hs = (\<lambda>(i, h). last h) ` set hs"
      using d by (force simp: history_at_def image_image)
    then show ?thesis by (simp add: names_of_def image_image)
  qed
  ultimately show ?thesis using seqs by blast
qed

section \<open>Requests and resolutions\<close>

lemma control_raise_Inr [simp]: "control_raise m = Inr x \<longleftrightarrow> m = Inr x"
  by (cases m) (simp_all add: control_raise_def)

lemma request_command_of:
  assumes "histories_ok digest run_id hs" and "request_command digest clock fresh q (mailbox_of run_id hs) = Inr (c, m)"
  shows "m = mailbox_of run_id (hs @ [(cc_command_id c, [c])])" and
    "histories_ok digest run_id (hs @ [(cc_command_id c, [c])])"
proof -
  let ?hs = "map (history_at hs) (names_of hs)"
  have "map (cc_request_sequence \<circ> hd) (sort_key (cc_request_sequence \<circ> hd) ?hs) = one_to (length hs)"
    by (rule sequences_of [OF assms(1)]) simp
  then have seqs: "sort_key id (map (cc_request_sequence \<circ> hd) ?hs) = one_to (length hs)"
    using sort_key_map [of id "cc_request_sequence \<circ> hd" ?hs] by simp
  obtain now where c: "mk_command (queued_command run_id q (requested_id q fresh) (int (length hs) + 1) now) = Inr c"
    "map_of (mb_entries (mailbox_of run_id hs)) (cc_command_id c) = None"
    "m = (mailbox_of run_id hs)\<lparr>mb_entries := mb_entries (mailbox_of run_id hs) @
       [(cc_command_id c, Command_Directory [(numbered_name 1, Revision_File c)])]\<rparr>"
    using assms(2)
    unfolding request_command_def command_names_of [OF assms(1)] load_histories_of [OF assms(1)] ebind_Inr
      Let_def seqs one_to_facts(3)
    by (auto simp: ebind_eq_Inr mailbox_of_def split: if_splits)
  have ok: "command_ok c" by (rule mk_command_idem [OF c(1)])
  have f: "cc_run_id c = run_id" "cc_revision c = 1" "cc_request_sequence c = int (length hs) + 1"
    using c(1) by (auto simp: mk_command_Inr queued_command_def)
  show "m = mailbox_of run_id (hs @ [(cc_command_id c, [c])])"
    using c(3) by (simp add: mailbox_of_def)
  have "cc_command_id c \<notin> fst ` set hs"
    using c(2) by (force simp: map_of_eq_None_iff mailbox_of_def)
  moreover have "ctl_id_pattern (cc_command_id c)"
    using command_ok_checked [OF ok] by (simp add: command_fields_def ebind_eq_Inr)
  moreover have "history_ok digest run_id (cc_command_id c) [c]"
    using ok f by (simp add: history_ok_def)
  ultimately show "histories_ok digest run_id (hs @ [(cc_command_id c, [c])])"
    using assms(1) f(3) unfolding histories_ok_def by (auto simp: one_to_facts)
qed

definition put_history ::
    "string \<Rightarrow> control_command list \<Rightarrow> (string \<times> control_command list) list \<Rightarrow> (string \<times> control_command list) list" where
  "put_history i h hs = map (\<lambda>(j, g). (j, if j = i then h else g)) hs"

lemma put_history_keys: "map fst (put_history i h hs) = map fst hs"
  by (simp add: put_history_def case_prod_unfold)

lemma add_file_of:
  assumes "distinct (map fst hs)" and "map_of hs i = Some [c]"
  shows "add_file i (numbered_name 2) (Revision_File d) (mailbox_of run_id hs) =
    mailbox_of run_id (put_history i [c, d] hs)"
proof -
  have h: "h = [c]" if "(i, h) \<in> set hs" for h using assms that by simp
  moreover have "numbered_name (Suc 0) \<noteq> numbered_name 2" by code_simp
  ultimately show ?thesis
    by (auto simp: add_file_def mailbox_of_def put_history_def numeral_2_eq_2 dest!: h)
qed

lemma resolve_command_of:
  assumes "histories_ok digest run_id hs"
    and "resolve_command digest clock i n r (mailbox_of run_id hs) = Inr (d, m)"
  obtains c where "map_of hs i = Some [c]" "cc_revision c = n" "cc_status c = Ctl_Queued"
    "m = mailbox_of run_id (put_history i [c, d] hs)"
    "histories_ok digest run_id (put_history i [c, d] hs)" "cc_status d = rs_status r"
proof -
  obtain h now where h: "load_history digest (mailbox_of run_id hs) i = Inr h" "cc_revision (last h) = n"
    "\<not> ctl_terminal (cc_status (last h))" "mk_command (resolved_command digest r now (last h)) = Inr d"
    "m = add_file i (numbered_name (nat (cc_revision d))) (Revision_File d) (mailbox_of run_id hs)"
    using assms(2) by (auto simp: resolve_command_def ebind_eq_Inr Let_def split: if_splits)
  have d: "distinct (map fst hs)" and ids: "\<And>i h. (i, h) \<in> set hs \<Longrightarrow> ctl_id_pattern i \<and> history_ok digest run_id i h"
    using assms(1) by (auto simp: histories_ok_def)
  obtain g where g: "(i, g) \<in> set hs"
    using h(1) load_history_unknown [of i hs digest run_id] by force
  then have hg: "h = g" using load_history_of [OF assms(1) g] h(1) by simp
  have ok: "history_ok digest run_id i h" using ids [OF g] hg by simp
  from ok obtain c where c: "h = [c]" "command_ok c" "cc_command_id c = i" "cc_run_id c = run_id"
    "cc_revision c = 1" "cc_status c = Ctl_Queued"
    by (cases rule: history_okE) (use h(3) in auto)
  have dd: "command_ok d" "cc_revision d = 2" "cc_previous d = Some (digest c)" "cc_status d = rs_status r"
    "same_request d c"
  proof -
    show "command_ok d" by (rule mk_command_idem [OF h(4)])
    have "map_option py_strip (cc_instruction c) = cc_instruction c"
      using command_ok_clean [OF c(2)] .
    then show "cc_revision d = 2" "cc_previous d = Some (digest c)" "cc_status d = rs_status r" "same_request d c"
      using h(4) c(1,5) by (auto simp: mk_command_Inr resolved_command_def same_request_def)
  qed
  have at: "map_of hs i = Some [c]" using g hg c(1) d by simp
  have m: "m = mailbox_of run_id (put_history i [c, d] hs)"
    using h(5) dd(2) add_file_of [OF d at] by simp
  have new: "history_ok digest run_id i [c, d]" using c(2-5) dd by (simp add: history_ok_def)
  have only: "hd g = c" if "(i, g) \<in> set hs" for g using at d that by simp
  have "map (\<lambda>(i, h). cc_request_sequence (hd h)) (put_history i [c, d] hs) =
      map (\<lambda>(i, h). cc_request_sequence (hd h)) hs"
    using only by (auto simp: put_history_def)
  then have "histories_ok digest run_id (put_history i [c, d] hs)"
    using assms(1) new ids unfolding histories_ok_def put_history_keys
    by (auto simp: put_history_def split: if_splits)
  then show ?thesis using that at h(2) c(1,6) m dd(4) by simp
qed

section \<open>Steps of a mailbox\<close>

inductive mailbox_step :: "(control_command \<Rightarrow> string) \<Rightarrow> mailbox \<Rightarrow> mailbox \<Rightarrow> bool" for digest where
  requested: "request_command digest clock fresh q m = Inr (c, m') \<Longrightarrow> mailbox_step digest m m'"
| resolved: "resolve_command digest clock i n r m = Inr (c, m') \<Longrightarrow> mailbox_step digest m m'"

lemma new_mailbox_ok: "mailbox_ok digest (new_mailbox run_id)"
proof -
  have "new_mailbox run_id = mailbox_of (mb_run_id (new_mailbox run_id)) []"
    by (simp add: new_mailbox_def mailbox_of_def)
  moreover have "histories_ok digest (mb_run_id (new_mailbox run_id)) []"
    by (simp add: histories_ok_def one_to_def)
  ultimately show ?thesis unfolding mailbox_ok_def by blast
qed

definition stored_history :: "(control_command \<Rightarrow> string) \<Rightarrow> mailbox \<Rightarrow> string \<Rightarrow> control_command list option" where
  "stored_history digest m i = (case load_history digest m i of Inl e \<Rightarrow> None | Inr h \<Rightarrow> Some h)"

lemma stored_history_Some: "stored_history digest m i = Some h \<longleftrightarrow> load_history digest m i = Inr h"
  by (auto simp: stored_history_def split: sum.split)

lemma mailbox_okE:
  assumes "mailbox_ok digest m"
  obtains hs run_id where "m = mailbox_of run_id hs" "histories_ok digest run_id hs" "mb_run_id m = run_id"
  using assms unfolding mailbox_ok_def by blast

lemma mailbox_okI: "histories_ok digest run_id hs \<Longrightarrow> mailbox_ok digest (mailbox_of run_id hs)"
  unfolding mailbox_ok_def by (rule exI [of _ hs]) (simp add: mailbox_of_def)

lemma mailbox_step_ok:
  assumes "mailbox_step digest m m'" and "mailbox_ok digest m"
  shows "mailbox_ok digest m'"
proof -
  obtain hs run_id where m: "m = mailbox_of run_id hs" "histories_ok digest run_id hs"
    using assms(2) by (rule mailbox_okE)
  from assms(1) show ?thesis
  proof cases
    case (requested clock fresh q c)
    note r = request_command_of [OF m(2) requested [unfolded m(1)]]
    show ?thesis unfolding r(1) by (rule mailbox_okI [OF r(2)])
  next
    case (resolved clock i n r d)
    obtain c where "m' = mailbox_of run_id (put_history i [c, d] hs)"
      "histories_ok digest run_id (put_history i [c, d] hs)"
      by (rule resolve_command_of [OF m(2) resolved [unfolded m(1)]])
    then show ?thesis using mailbox_okI by simp
  qed
qed

lemma load_in_ok:
  assumes "histories_ok digest run_id hs"
  shows "load_history digest (mailbox_of run_id hs) i = Inr h \<longleftrightarrow> (i, h) \<in> set hs"
  using load_history_of [OF assms] load_history_unknown [of i hs digest run_id] by force

lemma mailbox_step_extends:
  assumes "mailbox_step digest m m'" and "mailbox_ok digest m" and "load_history digest m i = Inr h"
  shows "\<exists>more. load_history digest m' i = Inr (h @ more)"
  using assms
proof (induction rule: mailbox_step.induct)
  case (requested clock fresh q m c m')
  obtain hs run_id where m: "m = mailbox_of run_id hs" "histories_ok digest run_id hs"
    using requested.prems(1) by (rule mailbox_okE)
  have q: "request_command digest clock fresh q (mailbox_of run_id hs) = Inr (c, m')"
    using requested.hyps m(1) by simp
  have "(i, h) \<in> set hs" using requested.prems(2) m load_in_ok by simp
  then have "load_history digest m' i = Inr h"
    using request_command_of [OF m(2) q] load_in_ok by simp
  then show ?case by (metis append_Nil2)
next
  case (resolved clock j n r m d m')
  obtain hs run_id where m: "m = mailbox_of run_id hs" "histories_ok digest run_id hs"
    using resolved.prems(1) by (rule mailbox_okE)
  obtain c where c: "map_of hs j = Some [c]" "m' = mailbox_of run_id (put_history j [c, d] hs)"
    "histories_ok digest run_id (put_history j [c, d] hs)"
    by (rule resolve_command_of [OF m(2) resolved.hyps [unfolded m(1)]])
  have h: "(i, h) \<in> set hs" using resolved.prems(2) m load_in_ok by simp
  show ?case
  proof (cases "i = j")
    case True
    have "h = [c]" using c(1) h m(2) True by (simp add: histories_ok_def)
    moreover have "(i, [c, d]) \<in> set (put_history j [c, d] hs)"
      using h True by (force simp: put_history_def)
    ultimately show ?thesis using load_in_ok [OF c(3)] c(2) by force
  next
    case False
    then have "(i, h) \<in> set (put_history j [c, d] hs)" using h by (force simp: put_history_def)
    then have "load_history digest m' i = Inr (h @ [])" using load_in_ok [OF c(3)] c(2) by simp
    then show ?thesis by blast
  qed
qed

interpretation mailbox_log: append_only "mailbox_step digest" "stored_history digest"
  "\<lambda>h h'. \<exists>more. h' = h @ more" "mailbox_ok digest"
  for digest
  by unfold_locales
    (auto intro: mailbox_step_ok simp: stored_history_Some dest: mailbox_step_extends prefix_trans_ex)

section \<open>Demonstration\<close>

definition demo_digest :: "control_command \<Rightarrow> string" where
  "demo_digest c = replicate 64 (CHR ''a'')"

definition demo_pause :: control_request where
  "demo_pause = \<lparr>rq_command = Ctl_Pause,
     rq_target = \<lparr>ct_kind = Target_Run, ct_agent_id = None, ct_attempt = None, ct_phase = None\<rparr>,
     rq_boundary = Next_Safe_Checkpoint, rq_instruction = None, rq_command_id = None\<rparr>"

definition demo_rejection :: control_resolution where
  "demo_rejection = \<lparr>rs_status = Ctl_Rejected, rs_consequence = ''The run is not paused.'',
     rs_cost_caveat = None, rs_plan_revision = None, rs_lifecycle_revision = None\<rparr>"

definition demo_asked :: "control_error + (control_command \<times> mailbox)" where
  "demo_asked = request_command demo_digest (Aware 5 0) ''ctl-a1'' demo_pause (new_mailbox ''run-1'')"

definition demo_asked_mailbox :: mailbox where
  "demo_asked_mailbox = (case demo_asked of Inl e \<Rightarrow> new_mailbox ''run-1'' | Inr (c, m) \<Rightarrow> m)"

definition demo_answered :: "control_error + (control_command \<times> mailbox)" where
  "demo_answered = resolve_command demo_digest (Aware 7 0) ''ctl-a1'' 1 demo_rejection demo_asked_mailbox"

definition demo_answered_mailbox :: mailbox where
  "demo_answered_mailbox = (case demo_answered of Inl e \<Rightarrow> new_mailbox ''run-1'' | Inr (c, m) \<Rightarrow> m)"

lemma not_raised: "\<not> isl m \<Longrightarrow> \<exists>x. m = Inr x"
  by (cases m) simp_all

lemma demo_asked_ok: "\<not> isl demo_asked"
  by code_simp

lemma demo_answered_ok: "\<not> isl demo_answered"
  by code_simp

lemma demo_steps: "mailbox_step demo_digest (new_mailbox ''run-1'') demo_asked_mailbox"
    "\<exists>d. resolve_command demo_digest (Aware 7 0) ''ctl-a1'' 1 demo_rejection demo_asked_mailbox =
       Inr (d, demo_answered_mailbox)"
proof -
  obtain c m where "demo_asked = Inr (c, m)" using not_raised [OF demo_asked_ok] by auto
  then show "mailbox_step demo_digest (new_mailbox ''run-1'') demo_asked_mailbox"
    unfolding demo_asked_mailbox_def by (auto simp: demo_asked_def intro: mailbox_step.requested)
  obtain d m' where "demo_answered = Inr (d, m')" using not_raised [OF demo_answered_ok] by auto
  then show "\<exists>d. resolve_command demo_digest (Aware 7 0) ''ctl-a1'' 1 demo_rejection demo_asked_mailbox =
       Inr (d, demo_answered_mailbox)"
    unfolding demo_answered_mailbox_def by (auto simp: demo_answered_def)
qed

section \<open>Properties\<close>

text \<open>C29: Whatever files are in the controls directory (written by the store, damaged, renamed or
  forged), a command history that loads is one queued request with revision 1, followed by at
  most one terminal revision 2 that carries the digest of the request and repeats its command,
  target, instruction, requester, time and place in the mailbox; both are valid commands of this
  run and of this directory.\<close>

theorem loaded_history_integrity:
  assumes "load_command digest m i = Inr h"
  shows "\<exists>c. command_ok c \<and> cc_command_id c = i \<and> cc_run_id c = mb_run_id m \<and> cc_revision c = 1 \<and>
    cc_status c = Ctl_Queued \<and>
    (h = [c] \<or> (\<exists>d. h = [c, d] \<and> command_ok d \<and> cc_revision d = 2 \<and> ctl_terminal (cc_status d) \<and>
       same_request d c \<and> cc_previous d = Some (digest c)))"
proof -
  have "load_history digest m i = Inr h" using assms by (simp add: load_command_def ebind_eq_Inr)
  then have "history_ok digest (mb_run_id m) i h" by (rule load_history_shape)
  then show ?thesis by (cases rule: history_okE) auto
qed

theorem loaded_history_integrity_witness:
  "\<exists>c. command_ok c \<and> cc_command_id c = ''ctl-a1'' \<and> cc_revision c = 1"
proof -
  have "\<exists>h. load_command demo_digest demo_asked_mailbox ''ctl-a1'' = Inr h"
  proof -
    have "\<not> isl (load_command demo_digest demo_asked_mailbox ''ctl-a1'')" by code_simp
    then show ?thesis by (rule not_raised)
  qed
  then obtain h where "load_command demo_digest demo_asked_mailbox ''ctl-a1'' = Inr h" by (rule exE)
  from loaded_history_integrity [OF this] show ?thesis by blast
qed

text \<open>C28: The mailbox never loses or rewrites anything. After any sequence of requests and
  resolutions on a new mailbox, listing the latest revisions succeeds and numbers the commands
  1, 2, 3, ... without gap, and a history a reader has seen is the beginning of the history any
  later reader sees.\<close>

theorem mailbox_append_only:
  assumes "(mailbox_step digest)\<^sup>*\<^sup>* (new_mailbox run_id) m" and "(mailbox_step digest)\<^sup>*\<^sup>* m m'"
    and "load_history digest m i = Inr h"
  shows "(\<exists>more. load_history digest m' i = Inr (h @ more)) \<and>
    (\<exists>cs. list_latest digest m' = Inr cs \<and> map cc_request_sequence cs = one_to (length cs))"
proof -
  have ok: "mailbox_ok digest m"
    using mailbox_log.reachable_inv [OF assms(1)] new_mailbox_ok by blast
  obtain h' where "stored_history digest m' i = Some h'" "\<exists>more. h' = h @ more"
    using mailbox_log.reachable_extends [OF assms(2) ok] assms(3) by (metis stored_history_Some)
  moreover have "mailbox_ok digest m'"
    using mailbox_log.reachable_inv [OF assms(2)] ok by blast
  then obtain hs run where "m' = mailbox_of run hs" "histories_ok digest run hs"
    by (rule mailbox_okE)
  then obtain cs where "list_latest digest m' = Inr cs" "map cc_request_sequence cs = one_to (length hs)"
    using list_latest_of by blast
  ultimately show ?thesis
    by (metis length_map one_to_facts(3) stored_history_Some)
qed

theorem mailbox_append_only_witness:
  "\<exists>cs. list_latest demo_digest demo_asked_mailbox = Inr cs \<and> map cc_request_sequence cs = one_to (length cs)"
proof -
  have "\<not> isl (load_history demo_digest demo_asked_mailbox ''ctl-a1'')" by code_simp
  then obtain h where "load_history demo_digest demo_asked_mailbox ''ctl-a1'' = Inr h"
    using not_raised by blast
  from mailbox_append_only [OF r_into_rtranclp [of "mailbox_step demo_digest", OF demo_steps(1)]
      rtranclp.rtrancl_refl this]
  show ?thesis by (rule conjunct2)
qed

text \<open>A decision is taken once. After a command of the mailbox has been resolved, in every later
  state its history is the same two revisions, and another attempt to resolve it fails, with a
  conflict when it expects the revision it was requested with.\<close>

theorem resolved_command_final:
  assumes "(mailbox_step digest)\<^sup>*\<^sup>* (new_mailbox run_id) m"
    and "resolve_command digest clock i n r m = Inr (d, m')" and "(mailbox_step digest)\<^sup>*\<^sup>* m' m''"
    and "ctl_terminal (rs_status r')"
  shows "(\<exists>c. load_history digest m'' i = Inr [c, d] \<and> cc_status c = Ctl_Queued \<and> cc_status d = rs_status r) \<and>
    resolve_command digest clock' i 1 r' m'' = Inl Control_Conflict \<and>
    (\<forall>k out. resolve_command digest clock' i k r' m'' \<noteq> Inr out)"
proof -
  have ok: "mailbox_ok digest m" using mailbox_log.reachable_inv [OF assms(1)] new_mailbox_ok by blast
  then obtain hs run where m: "m = mailbox_of run hs" "histories_ok digest run hs" by (rule mailbox_okE)
  obtain c where c: "map_of hs i = Some [c]" "cc_status c = Ctl_Queued"
    "m' = mailbox_of run (put_history i [c, d] hs)" "histories_ok digest run (put_history i [c, d] hs)"
    "cc_status d = rs_status r"
    by (rule resolve_command_of [OF m(2) assms(2) [unfolded m(1)]])
  have in': "(i, [c, d]) \<in> set (put_history i [c, d] hs)"
    using map_of_SomeD [OF c(1)] by (force simp: put_history_def)
  then have l': "load_history digest m' i = Inr [c, d]" using load_in_ok [OF c(4)] c(3) by simp
  then obtain more where l: "load_history digest m'' i = Inr ([c, d] @ more)"
    using mailbox_log.reachable_extends [OF assms(3), of i] mailbox_okI [OF c(4)] c(3)
    by (auto simp: stored_history_Some)
  then have hist: "history_ok digest (mb_run_id m'') i ([c, d] @ more)" by (rule load_history_shape)
  then have more: "more = []" and d: "cc_revision d = 2" "ctl_terminal (cc_status d)"
    by (auto elim!: history_okE)
  have "history_ok digest run i [c, d]" using c(4) in' by (auto simp: histories_ok_def)
  moreover have "ctl_id_pattern i" using c(4) in' by (auto simp: histories_ok_def)
  ultimately show ?thesis
    using l c(2,5) d assms(4) by (simp add: more resolve_command_def valid_command_id_def)
qed

theorem resolved_command_final_witness:
  "resolve_command demo_digest (Aware 9 0) ''ctl-a1'' 1 demo_rejection demo_answered_mailbox = Inl Control_Conflict"
proof -
  obtain d where "resolve_command demo_digest (Aware 7 0) ''ctl-a1'' 1 demo_rejection demo_asked_mailbox =
       Inr (d, demo_answered_mailbox)"
    using demo_steps(2) by (rule exE)
  moreover have "ctl_terminal (rs_status demo_rejection)" by code_simp
  ultimately show ?thesis
    using resolved_command_final [OF r_into_rtranclp [of "mailbox_step demo_digest", OF demo_steps(1)] _
        rtranclp.rtrancl_refl] by blast
qed

end
