(* ===== verification/Runtime_Controls.thy ===== *)
theory Runtime_Controls
  imports Control_Histories Scheduling
begin

text \<open>
  \<open>runtime_controls.py\<close>: \<open>RuntimeControlChannel\<close>, which the scheduler polls at each checkpoint. Its
  attributes are the record \<open>channel\<close> (the mailbox of the run included); \<open>poll_controls\<close> is \<open>poll\<close>,
  \<open>consume_guidance\<close> and \<open>invocation_stop_reason\<close> are its other two operations. The clock, the
  interruption callbacks, the event handler and the digest are the record \<open>channel_env\<close>.

  The lock makes each operation one step. A request that another process adds to the mailbox
  during a poll is seen by the next poll. \<open>phase_reader\<close> only feeds the message of a branch that no
  command type reaches. A message is written with a dash outside the code points of the model's
  strings, so that character is an argument.
\<close>

section \<open>Progress drafts\<close>

datatype draft_kind = Control_Received | Control_Applied | Control_Rejected | Agent_Paused | Agent_Resumed

record event_reference =
  er_id :: string
  er_path :: string
  er_sha256 :: string

definition validate_event_reference :: "event_reference \<Rightarrow> fault + unit" where
  "validate_event_reference r = first_error
     [(er_id r = [] \<or> 120 < length (er_id r), Field_Invalid ''id''),
      (300 < length (er_path r), Field_Invalid ''path''),
      (\<not> sha256_pattern (er_sha256 r), Field_Invalid ''sha256''),
      (py_strip (er_id r) = [], Value_Error ''RunEvent reference IDs must not be blank''),
      (py_strip (er_path r) = [] \<or> CHR 0x5C \<in> set (er_path r) \<or> \<not> safe_relative (py_strip (er_path r)) \<or>
         posix_str (py_strip (er_path r)) \<noteq> py_strip (er_path r),
        Value_Error ''RunEvent reference paths must be canonical and relative'')]"

record progress_draft =
  pd_kind :: draft_kind
  pd_message :: string
  pd_agent :: "(agent_spec \<times> string) option"
  pd_command_id :: "string option"
  pd_reference :: event_reference

section \<open>State\<close>

record channel_env =
  ce_digest :: "control_command \<Rightarrow> string"
  ce_clock :: "nat \<Rightarrow> datetime"
  ce_plan :: team_plan
  ce_handler :: "(progress_draft \<Rightarrow> fault option) option"
  ce_interrupt :: "nat \<Rightarrow> string \<Rightarrow> nat"
  ce_interrupt_all :: "nat \<Rightarrow> nat"
  ce_dash :: string

record channel =
  ch_store :: mailbox
  ch_observed :: "string list"
  ch_guidance :: "(string \<times> (string \<times> string) list) list"
  ch_pause :: "control_command option"
  ch_paused :: bool
  ch_correction :: "control_command option"
  ch_cancel :: "control_command option"
  ch_interrupts :: "(string \<times> control_command) list"
  ch_events :: "progress_draft list"
  ch_ticks :: nat
  ch_calls :: nat

definition open_channel :: "team_plan \<Rightarrow> mailbox \<Rightarrow> control_error + channel" where
  "open_channel p m =
     (if mb_run_id m \<noteq> tp_run_id p
      then Inl (Control_Fault (Value_Error ''control store and TeamPlan use different run IDs''))
      else Inr \<lparr>ch_store = m, ch_observed = [],
        ch_guidance = map (\<lambda>i. (i, [])) (dedup (plan_agent_ids p)), ch_pause = None,
        ch_paused = False, ch_correction = None, ch_cancel = None, ch_interrupts = [],
        ch_events = [], ch_ticks = 0, ch_calls = 0\<rparr>)"

section \<open>Events\<close>

definition command_reference :: "channel_env \<Rightarrow> control_command \<Rightarrow> event_reference" where
  "command_reference e c =
     \<lparr>er_id = cc_command_id c,
      er_path = ''controls/'' @ cc_command_id c @ ''/'' @ numbered_name (nat (cc_revision c)),
      er_sha256 = ce_digest e c\<rparr>"

definition send_draft :: "channel_env \<Rightarrow> progress_draft \<Rightarrow> channel \<Rightarrow> control_error + channel" where
  "send_draft e d s =
     (case ce_handler e of
        None \<Rightarrow> Inr s
      | Some handler \<Rightarrow>
          ebind (control_raise (validate_event_reference (pd_reference d))) (\<lambda>_.
          case handler d of
            Some f \<Rightarrow> Inl (Control_Fault f)
          | None \<Rightarrow> Inr (s\<lparr>ch_events := ch_events s @ [d]\<rparr>)))"

definition control_message :: "string \<Rightarrow> string" where
  "control_message message =
     (let joined = join_with '' '' (split_words [] message)
      in take 500 (if joined = [] then ''Control state changed'' else joined))"

definition emit_command ::
    "channel_env \<Rightarrow> draft_kind \<Rightarrow> control_command \<Rightarrow> string \<Rightarrow> channel \<Rightarrow> control_error + channel" where
  "emit_command e kind c message s =
     send_draft e \<lparr>pd_kind = kind, pd_message = control_message message, pd_agent = None,
       pd_command_id = Some (cc_command_id c), pd_reference = command_reference e c\<rparr> s"

definition emit_agent_state ::
    "channel_env \<Rightarrow> draft_kind \<Rightarrow> control_command \<Rightarrow> string \<Rightarrow> string \<Rightarrow> channel \<Rightarrow> control_error + channel" where
  "emit_agent_state e kind c message agent_id s =
     (if ce_handler e = None then Inr s
      else ebind (control_raise (get_agent (ce_plan e) agent_id)) (\<lambda>a.
        ebind (control_raise (get_route (tp_model_routes (ce_plan e)) (as_model_route_id a))) (\<lambda>r.
        send_draft e \<lparr>pd_kind = kind, pd_message = message, pd_agent = Some (a, mr_model r),
          pd_command_id = None, pd_reference = command_reference e c\<rparr> s)))"

fun status_value :: "control_status \<Rightarrow> string" where
  "status_value Ctl_Queued = ''queued''"
| "status_value Ctl_Applied = ''applied''"
| "status_value Ctl_Rejected = ''rejected''"
| "status_value Ctl_Superseded = ''superseded''"
| "status_value Ctl_Best_Effort_Failed = ''best_effort_failed''"

text \<open>\<open>_resolve\<close>.\<close>

definition answer ::
    "channel_env \<Rightarrow> control_command \<Rightarrow> control_status \<Rightarrow> string \<Rightarrow> string option \<Rightarrow> channel \<Rightarrow>
     control_error + (control_command \<times> channel)" where
  "answer e c status consequence caveat s =
     ebind (resolve_command (ce_digest e) (ce_clock e (ch_ticks s)) (cc_command_id c) (cc_revision c)
        \<lparr>rs_status = status, rs_consequence = consequence, rs_cost_caveat = caveat,
         rs_plan_revision = None, rs_lifecycle_revision = None\<rparr> (ch_store s)) (\<lambda>(d, m).
     ebind (emit_command e (if status = Ctl_Applied then Control_Applied else Control_Rejected) d
        (''Control '' @ status_value status @ '': '' @ control_value (cc_command c) @ ce_dash e @ consequence)
        (s\<lparr>ch_store := m, ch_ticks := ch_ticks s + 1\<rparr>)) (\<lambda>t.
     Inr (d, t)))"

definition answered_with ::
    "channel_env \<Rightarrow> control_command \<Rightarrow> control_status \<Rightarrow> string \<Rightarrow> string option \<Rightarrow> channel \<Rightarrow>
     control_error + channel" where
  "answered_with e c status consequence caveat s =
     ebind (answer e c status consequence caveat s) (\<lambda>(d, t). Inr t)"

section \<open>Applying a command\<close>

definition agent_phase :: "team_plan \<Rightarrow> string \<Rightarrow> fault + run_phase" where
  "agent_phase p agent_id =
     ebind (get_agent p agent_id) (\<lambda>a. Inr
       (if as_capability a = Implementation \<or> as_capability a = Integration then Implementing
        else if as_capability a = Testing then Verifying else Reviewing))"

text \<open>\<open>assert ... is not None\<close> on a command the model has validated.\<close>

definition target_agent :: "control_command \<Rightarrow> control_error + string" where
  "target_agent c = (case ct_agent_id (cc_target c) of
     Some i \<Rightarrow> Inr i | None \<Rightarrow> Inl (Control_Fault (Value_Error ''AssertionError'')))"

definition guidance_targets ::
    "team_plan \<Rightarrow> control_command \<Rightarrow> string list \<Rightarrow> string list \<Rightarrow> control_error + string list" where
  "guidance_targets p c active pending =
     (let candidates = active @ pending in
      case ct_kind (cc_target c) of
        Target_Agent \<Rightarrow> ebind (target_agent c) (\<lambda>i. Inr (filter (\<lambda>x. x = i) candidates))
      | Target_Future_Work \<Rightarrow> Inr pending
      | _ \<Rightarrow> ebind (emap (\<lambda>i. ebind (control_raise (agent_phase p i)) (\<lambda>ph. Inr (i, ph))) candidates)
          (\<lambda>phases. Inr (map fst (filter (\<lambda>(i, ph). Some ph = ct_phase (cc_target c)) phases))))"

text \<open>\<open>DynamicUserGuidance\<close> of \<open>prompting.py\<close>.\<close>

definition mk_guidance :: "string \<Rightarrow> string \<Rightarrow> fault + (string \<times> string)" where
  "mk_guidance command_id instruction =
     ebind (first_error
       [(\<not> ctl_id_pattern command_id, Field_Invalid ''command_id''),
        (instruction = [] \<or> 2000 < length instruction, Field_Invalid ''instruction''),
        (py_strip instruction = [] \<or> CHR 0x00 \<in> set (py_strip instruction),
          Value_Error ''dynamic user guidance must contain safe text'')])
     (\<lambda>_. Inr (command_id, py_strip instruction))"

definition apply_guidance ::
    "channel_env \<Rightarrow> control_command \<Rightarrow> string list \<Rightarrow> string list \<Rightarrow> channel \<Rightarrow> control_error + channel" where
  "apply_guidance e c active pending s =
     ebind (guidance_targets (ce_plan e) c active pending) (\<lambda>found.
     let targets = sort_key id (dedup found) in
     if targets = []
     then answered_with e c Ctl_Rejected ''No incomplete Agent matches the guidance target.'' None s
     else ebind (control_raise (mk_guidance (cc_command_id c) (the_or (cc_instruction c) []))) (\<lambda>g.
       answered_with e c Ctl_Applied
         (''Guidance was attached to the next invocation of: '' @ join_with '', '' targets) None
         (s\<lparr>ch_guidance := map (\<lambda>(i, gs). (i, if i \<in> set targets then gs @ [g] else gs)) (ch_guidance s)\<rparr>)))"

definition emit_agents ::
    "channel_env \<Rightarrow> draft_kind \<Rightarrow> control_command \<Rightarrow> string \<Rightarrow> string list \<Rightarrow> channel \<Rightarrow>
     control_error + channel" where
  "emit_agents e kind c message pending s =
     efold (emit_agent_state e kind c message) (sort_key id (dedup pending)) s"

definition apply_resume ::
    "channel_env \<Rightarrow> control_command \<Rightarrow> string list \<Rightarrow> channel \<Rightarrow> control_error + channel" where
  "apply_resume e c pending s =
     (case ch_pause s of
        Some pause \<Rightarrow>
          ebind (answered_with e pause Ctl_Superseded
            ''Resume withdrew the pause before its safe checkpoint.'' None s) (\<lambda>t.
          answered_with e c Ctl_Applied
            ''The pending pause was withdrawn; scheduling may continue.'' None (t\<lparr>ch_pause := None\<rparr>))
      | None \<Rightarrow>
          if \<not> ch_paused s then answered_with e c Ctl_Rejected ''The run is not paused.'' None s
          else ebind (answer e c Ctl_Applied ''Evidence remained valid; scheduling resumed.'' None
              (s\<lparr>ch_paused := False\<rparr>)) (\<lambda>(d, t).
            emit_agents e Agent_Resumed d
              ''Scheduling resumed; the Agent is waiting for its dependencies.'' pending t))"

definition supersede ::
    "channel_env \<Rightarrow> control_command option \<Rightarrow> string \<Rightarrow> channel \<Rightarrow> control_error + channel" where
  "supersede e c consequence s =
     (case c of None \<Rightarrow> Inr s | Some d \<Rightarrow> answered_with e d Ctl_Superseded consequence None s)"

definition apply_cancel ::
    "channel_env \<Rightarrow> control_command \<Rightarrow> string list \<Rightarrow> channel \<Rightarrow> control_error + channel" where
  "apply_cancel e c active s =
     (if ch_cancel s \<noteq> None
      then answered_with e c Ctl_Superseded ''The run is already cancelling.'' None s
      else if \<not> opt_all (\<lambda>d. \<not> ctl_terminal (cc_status d)) (ch_correction s)
      then answered_with e c Ctl_Superseded
        ''Replacement Planning already owns the terminal safe checkpoint.'' None s
      else
        ebind (supersede e (ch_pause s) ''Cancellation superseded the pending pause.'' s) (\<lambda>s1.
        ebind (supersede e (ch_correction s1) ''Cancellation superseded the pending correction.''
                 (s1\<lparr>ch_pause := None\<rparr>)) (\<lambda>s2.
        let interrupted = (if active = [] then 0 else ce_interrupt_all e (ch_calls s2)) in
        answered_with e c Ctl_Applied
          (''Cancellation is terminal; new work stopped and '' @ decimal interrupted @
           '' active invocation(s) received termination.'')
          (Some ''Provider usage incurred before termination may remain billable.'')
          (s2\<lparr>ch_correction := None, ch_cancel := Some c,
              ch_calls := (if active = [] then ch_calls s2 else ch_calls s2 + 1)\<rparr>))))"

fun accept_or_reject ::
    "control_type \<Rightarrow> channel_env \<Rightarrow> control_command \<Rightarrow> string list \<Rightarrow> string list \<Rightarrow> channel \<Rightarrow>
     control_error + channel" where
  "accept_or_reject Ctl_Guide e c active pending s = apply_guidance e c active pending s"
| "accept_or_reject Ctl_Correct e c active pending s =
     (if ch_cancel s \<noteq> None
      then answered_with e c Ctl_Rejected ''The run is already cancelling.'' None s
      else if ch_correction s \<noteq> None
      then answered_with e c Ctl_Superseded
        ''An earlier correction already owns the safe checkpoint.'' None s
      else Inr (s\<lparr>ch_correction := Some c\<rparr>))"
| "accept_or_reject Ctl_Pause e c active pending s =
     (if ch_cancel s \<noteq> None \<or> ch_correction s \<noteq> None
      then answered_with e c Ctl_Rejected ''A terminal stop request already owns the run.'' None s
      else if ch_paused s \<or> ch_pause s \<noteq> None
      then answered_with e c Ctl_Superseded
        ''The run is already paused or reaching a pause checkpoint.'' None s
      else Inr (s\<lparr>ch_pause := Some c\<rparr>))"
| "accept_or_reject Ctl_Resume e c active pending s = apply_resume e c pending s"
| "accept_or_reject Ctl_Interrupt e c active pending s =
     ebind (target_agent c) (\<lambda>i.
     if i \<notin> set active
     then answered_with e c Ctl_Rejected ''The targeted Agent is not currently active.'' None s
     else if \<not> opt_all (\<lambda>n. n = 1) (ct_attempt (cc_target c))
     then answered_with e c Ctl_Rejected ''The targeted scheduler attempt is not active.'' None s
     else Inr (s\<lparr>ch_interrupts := filter (\<lambda>(k, _). k \<noteq> cc_command_id c) (ch_interrupts s) @
                  [(cc_command_id c, c)]\<rparr>))"
| "accept_or_reject Ctl_Cancel e c active pending s = apply_cancel e c active s"

section \<open>Polling\<close>

definition observe_command ::
    "channel_env \<Rightarrow> string list \<Rightarrow> string list \<Rightarrow> control_command \<Rightarrow> channel \<Rightarrow> control_error + channel" where
  "observe_command e active pending c s =
     (if cc_status c \<noteq> Ctl_Queued \<or> cc_command_id c \<in> set (ch_observed s) then Inr s
      else ebind (emit_command e Control_Received c (''Control received: '' @ control_value (cc_command c))
             (s\<lparr>ch_observed := cc_command_id c # ch_observed s\<rparr>))
        (accept_or_reject (cc_command c) e c active pending))"

definition drop_interrupt :: "string \<Rightarrow> channel \<Rightarrow> channel" where
  "drop_interrupt i s = s\<lparr>ch_interrupts := filter (\<lambda>(k, _). k \<noteq> i) (ch_interrupts s)\<rparr>"

definition advance_interrupt ::
    "channel_env \<Rightarrow> string list \<Rightarrow> string \<times> control_command \<Rightarrow> channel \<Rightarrow> control_error + channel" where
  "advance_interrupt e active entry s =
     (case entry of (command_id, c) \<Rightarrow>
      ebind (target_agent c) (\<lambda>i.
      if i \<notin> set active
      then ebind (answered_with e c Ctl_Best_Effort_Failed
          ''The invocation ended before process termination was confirmed.''
          (Some ''Provider usage incurred before the request remains billable.'') s)
        (\<lambda>t. Inr (drop_interrupt command_id t))
      else
        let sent = ce_interrupt e (ch_calls s) i; s1 = s\<lparr>ch_calls := ch_calls s + 1\<rparr>
        in if 0 < sent
           then ebind (answered_with e c Ctl_Applied
               ''Best-effort termination was sent to the active invocation.''
               (Some (''Provider usage incurred before termination may remain '' @ ''billable.'')) s1)
             (\<lambda>t. Inr (drop_interrupt command_id t))
           else Inr s1))"

definition advance_pause ::
    "channel_env \<Rightarrow> string list \<Rightarrow> string list \<Rightarrow> channel \<Rightarrow> control_error + channel" where
  "advance_pause e active pending s =
     (case ch_pause s of
        Some c \<Rightarrow>
          if active \<noteq> [] then Inr s
          else ebind (answer e c Ctl_Applied
              ''The run reached a safe checkpoint; no Agent invocation is active.'' None
              (s\<lparr>ch_pause := None, ch_paused := True\<rparr>)) (\<lambda>(d, t).
            emit_agents e Agent_Paused d ''The Agent is paused before its next invocation.'' pending t)
      | None \<Rightarrow> Inr s)"

definition advance_correction ::
    "channel_env \<Rightarrow> string list \<Rightarrow> channel \<Rightarrow> control_error + channel" where
  "advance_correction e active s =
     (case ch_correction s of
        Some c \<Rightarrow>
          if active \<noteq> [] \<or> cc_status c \<noteq> Ctl_Queued then Inr s
          else ebind (answer e c Ctl_Applied
              ''Scheduling stopped at a safe checkpoint for replacement Planning.'' None s)
            (\<lambda>(d, t). Inr (t\<lparr>ch_correction := Some d\<rparr>))
      | None \<Rightarrow> Inr s)"

definition advance_deferred ::
    "channel_env \<Rightarrow> string list \<Rightarrow> string list \<Rightarrow> channel \<Rightarrow> control_error + channel" where
  "advance_deferred e active pending s =
     ebind (efold (advance_interrupt e active) (ch_interrupts s) s) (\<lambda>t.
     ebind (advance_pause e active pending t) (advance_correction e active))"

definition control_outcome :: "channel \<Rightarrow> control_decision" where
  "control_outcome s =
     (if ch_cancel s \<noteq> None then Control_Cancel
      else if ch_correction s \<noteq> None then Control_Correct
      else if ch_paused s \<or> ch_pause s \<noteq> None then Control_Hold
      else Control_Continue)"

definition checkpoint_ok :: "team_plan \<Rightarrow> string list \<Rightarrow> string list \<Rightarrow> control_error + unit" where
  "checkpoint_ok p active pending = first_error
     [(\<not> set active \<subseteq> set (plan_agent_ids p) \<or> \<not> set pending \<subseteq> set (plan_agent_ids p),
        Control_Fault (Value_Error ''runtime control checkpoint references unknown Agents'')),
      (set active \<inter> set pending \<noteq> {},
        Control_Fault (Value_Error ''an Agent cannot be active and pending at one checkpoint''))]"

definition poll_controls ::
    "channel_env \<Rightarrow> string list \<Rightarrow> string list \<Rightarrow> channel \<Rightarrow> control_error + (control_decision \<times> channel)" where
  "poll_controls e active pending s =
     ebind (checkpoint_ok (ce_plan e) active pending) (\<lambda>_.
     ebind (list_latest (ce_digest e) (ch_store s)) (\<lambda>commands.
     ebind (efold (observe_command e active pending) commands s) (\<lambda>t.
     ebind (advance_deferred e active pending t) (\<lambda>u.
     Inr (control_outcome u,
          if ch_cancel u \<noteq> None \<and> active \<noteq> [] then u\<lparr>ch_calls := ch_calls u + 1\<rparr> else u)))))"

section \<open>The other operations\<close>

definition consume_guidance :: "string \<Rightarrow> channel \<Rightarrow> control_error + ((string \<times> string) list \<times> channel)" where
  "consume_guidance agent_id s =
     (case map_of (ch_guidance s) agent_id of
        None \<Rightarrow> Inl (Control_Fault (Value_Error ''unknown Agent for guidance''))
      | Some values \<Rightarrow> Inr (values, s\<lparr>ch_guidance :=
          map (\<lambda>(i, gs). (i, if i = agent_id then [] else gs)) (ch_guidance s)\<rparr>))"

definition correction_instruction :: "channel \<Rightarrow> string option" where
  "correction_instruction s = (case ch_correction s of None \<Rightarrow> None | Some c \<Rightarrow> cc_instruction c)"

fun stored_stop :: "string \<Rightarrow> control_command list \<Rightarrow> termination_reason option" where
  "stored_stop agent_id [] = None"
| "stored_stop agent_id (c # cs) =
     (if cc_status c = Ctl_Rejected \<or> cc_status c = Ctl_Superseded then stored_stop agent_id cs
      else if cc_command c = Ctl_Cancel then Some User_Cancelled
      else if cc_command c = Ctl_Interrupt \<and> ct_agent_id (cc_target c) = Some agent_id
      then Some User_Interrupted
      else stored_stop agent_id cs)"

definition invocation_stop_reason ::
    "channel_env \<Rightarrow> string \<Rightarrow> channel \<Rightarrow> control_error + termination_reason option" where
  "invocation_stop_reason e agent_id s =
     (if agent_id \<notin> set (plan_agent_ids (ce_plan e))
      then Inl (Control_Fault (Value_Error ''unknown Agent for invocation admission''))
      else if ch_cancel s \<noteq> None then Inr (Some User_Cancelled)
      else if list_ex (\<lambda>(k, c). ct_agent_id (cc_target c) = Some agent_id) (ch_interrupts s)
      then Inr (Some User_Interrupted)
      else ebind (list_latest (ce_digest e) (ch_store s)) (\<lambda>cs. Inr (stored_stop agent_id cs)))"

end
