(* ===== verification/Control_Channel.thy ===== *)
theory Control_Channel
  imports Runtime_Controls
begin

text \<open>
  The channel and its mailbox agree. \<open>open_commands\<close> are the commands of the mailbox without an
  answer, \<open>requests\<close> those the channel holds back (a pause, a correction or interruptions that wait
  for their moment). \<open>channel_inv e W\<close> says that together with the commands W the poll has not come
  to yet, the requests are exactly the open commands.
\<close>

section \<open>Open commands\<close>

definition open_commands :: "(control_command \<Rightarrow> string) \<Rightarrow> mailbox \<Rightarrow> control_command set" where
  "open_commands digest m = {c. load_history digest m (cc_command_id c) = Inr [c]}"

lemma put_history_iff:
  "(j, g) \<in> set (put_history i h hs) \<longleftrightarrow> (if j = i then g = h \<and> i \<in> fst ` set hs else (j, g) \<in> set hs)"
  by (force simp: put_history_def)

lemma resolve_closes:
  assumes "mailbox_ok digest m" and "resolve_command digest clock i n r m = Inr (d, m')"
  obtains c where "c \<in> open_commands digest m" "cc_command_id c = i" "mailbox_ok digest m'"
    "open_commands digest m' = open_commands digest m - {c}" "cc_status d = rs_status r"
    "cc_command_id d = i" "cc_command d = cc_command c" "mb_run_id m' = mb_run_id m"
proof -
  obtain hs run where m: "m = mailbox_of run hs" "histories_ok digest run hs"
    using assms(1) by (rule mailbox_okE)
  obtain c where c: "map_of hs i = Some [c]" "m' = mailbox_of run (put_history i [c, d] hs)"
    "histories_ok digest run (put_history i [c, d] hs)" "cc_status d = rs_status r"
    by (rule resolve_command_of [OF m(2) assms(2) [unfolded m(1)]])
  have i: "(i, [c]) \<in> set hs" using c(1) by (rule map_of_SomeD)
  have i': "(i, [c, d]) \<in> set (put_history i [c, d] hs)" using i by (force simp: put_history_def)
  have "history_ok digest run i [c]" "history_ok digest run i [c, d]"
    using i i' m(2) c(3) by (auto simp: histories_ok_def)
  then have id: "cc_command_id c = i" "cc_command_id d = i" "cc_command d = cc_command c"
    by (auto elim!: history_okE simp: same_request_def)
  have mem: "x \<in> open_commands digest m \<longleftrightarrow> (cc_command_id x, [x]) \<in> set hs"
    "x \<in> open_commands digest m' \<longleftrightarrow> (cc_command_id x, [x]) \<in> set (put_history i [c, d] hs)" for x
    using load_in_ok [OF m(2)] load_in_ok [OF c(3)] by (simp_all add: open_commands_def m(1) c(2))
  have only: "g = [c]" if "(i, g) \<in> set hs" for g using that c(1) m(2) by (auto simp: histories_ok_def)
  have "x \<in> open_commands digest m' \<longleftrightarrow> x \<in> open_commands digest m \<and> x \<noteq> c" for x
    unfolding mem put_history_iff using only id(1) i by force
  then have "open_commands digest m' = open_commands digest m - {c}" by blast
  moreover have "c \<in> open_commands digest m" using i id(1) by (simp add: mem)
  moreover have "mb_run_id m' = mb_run_id m" by (simp add: c(2) m(1) mailbox_of_def)
  ultimately show ?thesis using that id c(4) mailbox_okI [OF c(3)] by (simp add: c(2))
qed

lemma open_id_inj: "x \<in> open_commands digest m \<Longrightarrow> y \<in> open_commands digest m \<Longrightarrow>
    cc_command_id x = cc_command_id y \<Longrightarrow> x = y"
  by (simp add: open_commands_def)

lemma request_opens:
  assumes "mailbox_ok digest m" and "request_command digest clock fresh q m = Inr (c, m')"
  shows "mailbox_ok digest m' \<and> open_commands digest m' = insert c (open_commands digest m) \<and>
    (\<forall>h. load_history digest m (cc_command_id c) \<noteq> Inr h) \<and> mb_run_id m' = mb_run_id m \<and>
    (\<forall>i h. load_history digest m i = Inr h \<longrightarrow> load_history digest m' i = Inr h)"
proof -
  obtain hs run where m: "m = mailbox_of run hs" "histories_ok digest run hs"
    using assms(1) by (rule mailbox_okE)
  note r = request_command_of [OF m(2) assms(2) [unfolded m(1)]]
  have "cc_command_id c \<notin> fst ` set hs" using r(2) by (auto simp: histories_ok_def)
  then have "\<forall>h. load_history digest m (cc_command_id c) \<noteq> Inr h"
    using load_in_ok [OF m(2)] m(1) by force
  moreover have "x \<in> open_commands digest m' \<longleftrightarrow> x \<in> insert c (open_commands digest m)" for x
    using load_in_ok [OF m(2)] load_in_ok [OF r(2)] by (auto simp: open_commands_def m(1) r(1))
  moreover have "load_history digest m' i = Inr h" if "load_history digest m i = Inr h" for i h
    using that load_in_ok [OF m(2)] load_in_ok [OF r(2)] m(1) r(1) by simp
  ultimately show ?thesis using mailbox_okI [OF r(2)] r(1) m(1) by (auto simp: mailbox_of_def)
qed

lemma latest_open:
  assumes "mailbox_ok digest m" and "list_latest digest m = Inr cs"
  shows "{c \<in> set cs. cc_status c = Ctl_Queued} = open_commands digest m"
    and "c \<in> set cs \<Longrightarrow> \<exists>h. load_history digest m (cc_command_id c) = Inr h"
proof -
  obtain hs run where m: "m = mailbox_of run hs" "histories_ok digest run hs"
    using assms(1) by (rule mailbox_okE)
  have cs: "set cs = (\<lambda>(i, h). last h) ` set hs"
    using list_latest_of [OF m(2)] assms(2) m(1) by auto
  have h: "(i, h) \<in> set hs \<Longrightarrow> history_ok digest run i h" for i h
    using m(2) by (auto simp: histories_ok_def)
  have mem: "x \<in> open_commands digest m \<longleftrightarrow> (cc_command_id x, [x]) \<in> set hs" for x
    using load_in_ok [OF m(2)] by (simp add: open_commands_def m(1))
  have q: "cc_status (last g) = Ctl_Queued \<longleftrightarrow> (\<exists>x. g = [x] \<and> cc_command_id x = i)" "cc_command_id (last g) = i"
    if "(i, g) \<in> set hs" for i g
    using h [OF that] by (auto elim!: history_okE simp: ctl_terminal_def same_request_def)
  show "{c \<in> set cs. cc_status c = Ctl_Queued} = open_commands digest m"
  proof (intro set_eqI iffI)
    fix x assume "x \<in> {c \<in> set cs. cc_status c = Ctl_Queued}"
    then obtain i g where g: "(i, g) \<in> set hs" "x = last g" "cc_status (last g) = Ctl_Queued"
      by (auto simp: cs)
    then show "x \<in> open_commands digest m" using q(1) [OF g(1)] by (auto simp: mem)
  next
    fix x assume "x \<in> open_commands digest m"
    then have g: "(cc_command_id x, [x]) \<in> set hs" by (simp add: mem)
    then have "last [x] \<in> set cs" unfolding cs by force
    then show "x \<in> {c \<in> set cs. cc_status c = Ctl_Queued}" using q(1) [OF g] by simp
  qed
  show "\<exists>h. load_history digest m (cc_command_id c) = Inr h" if "c \<in> set cs"
  proof -
    obtain i g where g: "(i, g) \<in> set hs" "c = last g" using \<open>c \<in> set cs\<close> by (auto simp: cs)
    then have "load_history digest m (cc_command_id c) = Inr g"
      using q(2) [OF g(1)] load_in_ok [OF m(2)] m(1) by simp
    then show ?thesis ..
  qed
qed

section \<open>Answers\<close>

definition requests :: "channel \<Rightarrow> control_command set" where
  "requests s = set_option (ch_pause s) \<union>
     {c \<in> set_option (ch_correction s). cc_status c = Ctl_Queued} \<union> snd ` set (ch_interrupts s)"

definition roles_ok :: "channel \<Rightarrow> bool" where
  "roles_ok s \<longleftrightarrow> opt_all (\<lambda>c. cc_command c = Ctl_Pause) (ch_pause s) \<and>
     opt_all (\<lambda>c. cc_command c = Ctl_Correct) (ch_correction s) \<and>
     list_all (\<lambda>(i, c). cc_command_id c = i \<and> cc_command c = Ctl_Interrupt) (ch_interrupts s) \<and>
     distinct (map fst (ch_interrupts s)) \<and>
     (ch_cancel s \<noteq> None \<longrightarrow> ch_correction s = None \<and> ch_pause s = None)"

definition channel_inv :: "channel_env \<Rightarrow> control_command set \<Rightarrow> channel \<Rightarrow> bool" where
  "channel_inv e W s \<longleftrightarrow> mailbox_ok (ce_digest e) (ch_store s) \<and> roles_ok s \<and>
     requests s \<union> W = open_commands (ce_digest e) (ch_store s) \<and> requests s \<inter> W = {}"

lemma channel_inv_quiet [simp]:
  "channel_inv e W (s\<lparr>ch_events := ev\<rparr>) = channel_inv e W s"
  "channel_inv e W (s\<lparr>ch_ticks := n\<rparr>) = channel_inv e W s"
  "channel_inv e W (s\<lparr>ch_calls := n\<rparr>) = channel_inv e W s"
  "channel_inv e W (s\<lparr>ch_guidance := g\<rparr>) = channel_inv e W s"
  "channel_inv e W (s\<lparr>ch_paused := b\<rparr>) = channel_inv e W s"
  "channel_inv e W (s\<lparr>ch_observed := is\<rparr>) = channel_inv e W s"
  by (simp_all add: channel_inv_def roles_ok_def requests_def)

lemma send_draft_Inr: "send_draft e d s = Inr t \<Longrightarrow> \<exists>ev. t = s\<lparr>ch_events := ev\<rparr>"
  by (auto simp: send_draft_def ebind_eq_Inr split: option.splits intro: exI [of _ "ch_events s"])

lemma emit_command_Inr: "emit_command e k c msg s = Inr t \<Longrightarrow> \<exists>ev. t = s\<lparr>ch_events := ev\<rparr>"
  unfolding emit_command_def by (rule send_draft_Inr)

lemma emit_agents_Inr:
  assumes "emit_agents e k c msg pending s = Inr t"
  shows "\<exists>ev. t = s\<lparr>ch_events := ev\<rparr>"
proof (rule efold_invariant [OF assms [unfolded emit_agents_def]])
  show "\<exists>ev. s = s\<lparr>ch_events := ev\<rparr>" by (rule exI [of _ "ch_events s"]) simp
  fix i a b assume a: "\<exists>ev. a = s\<lparr>ch_events := ev\<rparr>" and "emit_agent_state e k c msg i a = Inr b"
  then have "a = b \<or> (\<exists>ev. b = a\<lparr>ch_events := ev\<rparr>)"
    by (auto simp: emit_agent_state_def ebind_eq_Inr split: if_splits dest!: send_draft_Inr)
  then show "\<exists>ev. b = s\<lparr>ch_events := ev\<rparr>" using a by auto
qed

text \<open>An answer closes exactly the command it is given and changes nothing else in the channel.\<close>

lemma answer_Inr:
  assumes "answer e c st text caveat s = Inr (d, t)" and "mailbox_ok (ce_digest e) (ch_store s)"
  obtains m ev x where "t = s\<lparr>ch_store := m, ch_ticks := ch_ticks s + 1, ch_events := ev\<rparr>"
    "mailbox_ok (ce_digest e) m" "x \<in> open_commands (ce_digest e) (ch_store s)"
    "cc_command_id x = cc_command_id c"
    "open_commands (ce_digest e) m = open_commands (ce_digest e) (ch_store s) - {x}"
    "cc_status d = st" "cc_command d = cc_command x" "mb_run_id m = mb_run_id (ch_store s)"
proof -
  obtain m where m: "resolve_command (ce_digest e) (ce_clock e (ch_ticks s)) (cc_command_id c) (cc_revision c)
      \<lparr>rs_status = st, rs_consequence = text, rs_cost_caveat = caveat,
       rs_plan_revision = None, rs_lifecycle_revision = None\<rparr> (ch_store s) = Inr (d, m)"
    "\<exists>msg k. emit_command e k d msg (s\<lparr>ch_store := m, ch_ticks := ch_ticks s + 1\<rparr>) = Inr t"
    using assms(1) by (fastforce simp: answer_def ebind_eq_Inr)
  obtain ev where t: "t = (s\<lparr>ch_store := m, ch_ticks := ch_ticks s + 1\<rparr>)\<lparr>ch_events := ev\<rparr>"
    using m(2) emit_command_Inr by blast
  obtain x where x: "x \<in> open_commands (ce_digest e) (ch_store s)" "cc_command_id x = cc_command_id c"
    "mailbox_ok (ce_digest e) m"
    "open_commands (ce_digest e) m = open_commands (ce_digest e) (ch_store s) - {x}"
    "cc_status d = rs_status \<lparr>rs_status = st, rs_consequence = text, rs_cost_caveat = caveat,
       rs_plan_revision = None, rs_lifecycle_revision = None\<rparr>" "cc_command d = cc_command x"
    "mb_run_id m = mb_run_id (ch_store s)"
    using resolve_closes [OF assms(2) m(1)] by metis
  show ?thesis by (rule that [OF t x(3,1,2,4) _ x(6,7)]) (use x(5) in simp)
qed

text \<open>Answering the command at hand. The code answers a request before it clears the attribute that
  holds it; \<open>f\<close> stands for that clearing.\<close>

lemma answer_swap:
  assumes "answer e c st text caveat s = Inr (d, t)"
    and "\<And>m ev n. f (s\<lparr>ch_store := m, ch_ticks := n, ch_events := ev\<rparr>) =
      (f s)\<lparr>ch_store := m, ch_ticks := n, ch_events := ev\<rparr>"
    and "ch_store (f s) = ch_store s" and "channel_inv e (insert c W) (f s)" and "c \<notin> W"
  shows "channel_inv e W (f t) \<and> (\<exists>m ev n. t = s\<lparr>ch_store := m, ch_ticks := n, ch_events := ev\<rparr>)"
proof -
  have s: "mailbox_ok (ce_digest e) (ch_store s)" "roles_ok (f s)" "requests (f s) \<inter> insert c W = {}"
    "requests (f s) \<union> insert c W = open_commands (ce_digest e) (ch_store s)"
    using assms(3,4) by (simp_all add: channel_inv_def)
  obtain m ev x where t: "t = s\<lparr>ch_store := m, ch_ticks := ch_ticks s + 1, ch_events := ev\<rparr>"
    "mailbox_ok (ce_digest e) m" "x \<in> open_commands (ce_digest e) (ch_store s)"
    "cc_command_id x = cc_command_id c"
    "open_commands (ce_digest e) m = open_commands (ce_digest e) (ch_store s) - {x}"
    by (rule answer_Inr [OF assms(1) s(1)])
  have "x = c" using open_id_inj [OF t(3) _ t(4)] s(4) by blast
  then have "requests (f s) \<union> W = open_commands (ce_digest e) m" using s(3,4) t(5) assms(5) by auto
  moreover have ft: "f t = (f s)\<lparr>ch_store := m, ch_ticks := ch_ticks s + 1, ch_events := ev\<rparr>"
    unfolding t(1) by (rule assms(2))
  then have "requests (f t) = requests (f s)" "roles_ok (f t) = roles_ok (f s)"
    by (simp_all add: requests_def roles_ok_def)
  ultimately have "channel_inv e W (f t)" using s t(2) ft by (simp add: channel_inv_def)
  then show ?thesis using t(1) by blast
qed

lemma answer_plain:
  assumes "answer e c st words caveat s = Inr (d, t)" and "channel_inv e (insert c W) s" and "c \<notin> W"
  shows "channel_inv e W t \<and> (\<exists>m ev n. t = s\<lparr>ch_store := m, ch_ticks := n, ch_events := ev\<rparr>)"
  using answer_swap [OF assms(1), of "\<lambda>s. s"] assms(2,3) by simp

lemma answered_withE:
  assumes "answered_with e c st text caveat s = Inr t"
  obtains d where "answer e c st text caveat s = Inr (d, t)"
  using assms by (auto simp: answered_with_def ebind_eq_Inr)

lemma answered_new:
  assumes "answered_with e c st text caveat s = Inr t" and "channel_inv e (insert c W) s" and "c \<notin> W"
  shows "channel_inv e W t \<and> (\<exists>m ev n. t = s\<lparr>ch_store := m, ch_ticks := n, ch_events := ev\<rparr>)"
proof -
  obtain d where d: "answer e c st text caveat s = Inr (d, t)" using assms(1) by (rule answered_withE)
  show ?thesis by (rule answer_plain [OF d assms(2,3)])
qed

text \<open>Giving a request up makes it a command at hand.\<close>

lemma release_pause:
  assumes "channel_inv e W s" and "ch_pause s = Some p"
  shows "channel_inv e (insert p W) (s\<lparr>ch_pause := None\<rparr>)" and "p \<notin> W"
proof -
  have r: "roles_ok s" using assms(1) by (simp add: channel_inv_def)
  then have "requests s = insert p (requests (s\<lparr>ch_pause := None\<rparr>))" "p \<notin> requests (s\<lparr>ch_pause := None\<rparr>)"
    using assms(2) by (auto simp: requests_def roles_ok_def list_all_iff)
  then show "channel_inv e (insert p W) (s\<lparr>ch_pause := None\<rparr>)" "p \<notin> W"
    using assms(1) r by (auto simp: channel_inv_def roles_ok_def)
qed

lemma release_correction:
  assumes "channel_inv e W s" and "ch_correction s = Some p" and "cc_status p = Ctl_Queued"
  shows "channel_inv e (insert p W) (s\<lparr>ch_correction := None\<rparr>)" and "p \<notin> W"
proof -
  have r: "roles_ok s" using assms(1) by (simp add: channel_inv_def)
  then have "requests s = insert p (requests (s\<lparr>ch_correction := None\<rparr>))"
    "p \<notin> requests (s\<lparr>ch_correction := None\<rparr>)"
    using assms(2,3) by (auto simp: requests_def roles_ok_def list_all_iff)
  then show "channel_inv e (insert p W) (s\<lparr>ch_correction := None\<rparr>)" "p \<notin> W"
    using assms(1) r by (auto simp: channel_inv_def roles_ok_def)
qed

lemma release_interrupt:
  assumes "channel_inv e W s" and "(i, p) \<in> set (ch_interrupts s)"
  shows "channel_inv e (insert p W) (drop_interrupt i s)" and "p \<notin> W"
proof -
  have r: "roles_ok s" and p: "cc_command_id p = i" "cc_command p = Ctl_Interrupt"
    using assms by (auto simp: channel_inv_def roles_ok_def list_all_iff)
  have open_req: "requests s \<subseteq> open_commands (ce_digest e) (ch_store s)"
    using assms(1) by (auto simp: channel_inv_def)
  have in_req: "c \<in> requests s" if "(j, c) \<in> set (ch_interrupts s)" for j c
    using that by (force simp: requests_def)
  have same: "c = p" if "(i, c) \<in> set (ch_interrupts s)" for c
  proof -
    have "cc_command_id c = i" using that r by (auto simp: roles_ok_def list_all_iff)
    then show ?thesis using open_id_inj in_req [OF that] in_req [OF assms(2)] open_req p(1) by (metis subsetD)
  qed
  have "set (ch_interrupts s) = insert (i, p) (set (ch_interrupts (drop_interrupt i s)))"
  proof (intro set_eqI iffI)
    fix y assume y: "y \<in> set (ch_interrupts s)"
    show "y \<in> insert (i, p) (set (ch_interrupts (drop_interrupt i s)))"
    proof (cases "fst y = i")
      case True
      then have "y = (i, snd y)" by (cases y) simp
      moreover from this have "snd y = p" using same y by metis
      ultimately show ?thesis by simp
    qed (use y in \<open>auto simp: drop_interrupt_def\<close>)
  next
    fix y assume "y \<in> insert (i, p) (set (ch_interrupts (drop_interrupt i s)))"
    then show "y \<in> set (ch_interrupts s)" using assms(2) by (auto simp: drop_interrupt_def)
  qed
  then have "snd ` set (ch_interrupts s) = insert p (snd ` set (ch_interrupts (drop_interrupt i s)))"
    by (simp only: image_insert snd_conv)
  moreover have np: "p \<notin> snd ` set (ch_interrupts (drop_interrupt i s))"
    using r p(1) by (auto simp: drop_interrupt_def roles_ok_def list_all_iff)
  moreover have "ch_pause s \<noteq> Some p" "ch_correction s \<noteq> Some p"
    using r p(2) by (auto simp: roles_ok_def)
  moreover have "ch_pause (drop_interrupt i s) = ch_pause s" "ch_correction (drop_interrupt i s) = ch_correction s"
    by (simp_all add: drop_interrupt_def)
  ultimately have req: "requests s = insert p (requests (drop_interrupt i s))" "p \<notin> requests (drop_interrupt i s)"
    unfolding requests_def by auto
  have "roles_ok (drop_interrupt i s)" "ch_store (drop_interrupt i s) = ch_store s"
    using r by (auto simp: roles_ok_def drop_interrupt_def list_all_iff intro: distinct_map_filter)
  then show "channel_inv e (insert p W) (drop_interrupt i s)" "p \<notin> W"
    using assms(1) req unfolding channel_inv_def by auto
qed

text \<open>Holding a command back.\<close>

lemma hold_pause:
  assumes "channel_inv e (insert c W) s" and "c \<notin> W" and "cc_command c = Ctl_Pause"
    and "ch_pause s = None" and "ch_cancel s = None"
  shows "channel_inv e W (s\<lparr>ch_pause := Some c\<rparr>)"
proof -
  have "requests (s\<lparr>ch_pause := Some c\<rparr>) = insert c (requests s)" using assms(4) by (auto simp: requests_def)
  then show ?thesis using assms by (auto simp: channel_inv_def roles_ok_def)
qed

lemma hold_correction:
  assumes "channel_inv e (insert c W) s" and "c \<notin> W" and "cc_command c = Ctl_Correct"
    and "ch_correction s = None" and "ch_cancel s = None" and "cc_status c = Ctl_Queued"
  shows "channel_inv e W (s\<lparr>ch_correction := Some c\<rparr>)"
proof -
  have "requests (s\<lparr>ch_correction := Some c\<rparr>) = insert c (requests s)"
    using assms(4,6) by (auto simp: requests_def)
  then show ?thesis using assms by (auto simp: channel_inv_def roles_ok_def)
qed

lemma hold_interrupt:
  assumes "channel_inv e (insert c W) s" and "c \<notin> W" and "cc_command c = Ctl_Interrupt"
  shows "channel_inv e W (s\<lparr>ch_interrupts := filter (\<lambda>(k, _). k \<noteq> cc_command_id c) (ch_interrupts s) @
      [(cc_command_id c, c)]\<rparr>)" (is "channel_inv e W ?t")
proof -
  have r: "roles_ok s" and sub: "requests s \<union> insert c W = open_commands (ce_digest e) (ch_store s)"
    "c \<notin> requests s" using assms(1) by (auto simp: channel_inv_def)
  have fresh: "k \<noteq> cc_command_id c" if "(k, d) \<in> set (ch_interrupts s)" for k d
  proof
    assume k: "k = cc_command_id c"
    have d: "d \<in> requests s" "cc_command_id d = k"
      using that r by (force simp: requests_def, auto simp: roles_ok_def list_all_iff)
    then have "d = c" using open_id_inj [of d "ce_digest e" "ch_store s" c] sub(1) k by blast
    then show False using d(1) sub(2) by simp
  qed
  then have new: "cc_command_id c \<notin> fst ` set (ch_interrupts s)" by force
  have "filter (\<lambda>(k, _). k \<noteq> cc_command_id c) (ch_interrupts s) = ch_interrupts s"
    using fresh by (auto intro!: filter_True)
  then have i: "ch_interrupts ?t = ch_interrupts s @ [(cc_command_id c, c)]" by simp
  then have "requests ?t = insert c (requests s)" "roles_ok ?t"
    using r assms(3) new by (simp_all add: requests_def roles_ok_def)
  then show ?thesis using assms(1,2) by (auto simp: channel_inv_def)
qed

text \<open>What a step does to a stop: a cancellation stays, and a correction that has been applied keeps
  the run.\<close>

definition correction_owns :: "channel \<Rightarrow> bool" where
  "correction_owns s \<longleftrightarrow> ch_cancel s = None \<and>
     (\<exists>c. ch_correction s = Some c \<and> ctl_terminal (cc_status c))"

definition stops_kept :: "channel \<Rightarrow> channel \<Rightarrow> bool" where
  "stops_kept s t \<longleftrightarrow> (ch_cancel s \<noteq> None \<longrightarrow> ch_cancel t = ch_cancel s) \<and>
     (correction_owns s \<longrightarrow> correction_owns t)"

lemma stops_kept_refl [simp]: "stops_kept s s"
  by (simp add: stops_kept_def)

lemma stops_kept_trans: "stops_kept s t \<Longrightarrow> stops_kept t u \<Longrightarrow> stops_kept s u"
  by (auto simp: stops_kept_def)

definition kept :: "channel \<Rightarrow> channel \<Rightarrow> bool" where
  "kept s t \<longleftrightarrow> ch_observed t = ch_observed s \<and> stops_kept s t"

lemma kept_same:
  "ch_observed t = ch_observed s \<Longrightarrow> ch_cancel t = ch_cancel s \<Longrightarrow> ch_correction t = ch_correction s \<Longrightarrow> kept s t"
  by (simp add: kept_def stops_kept_def correction_owns_def)

lemma kept_refl [simp]: "kept s s"
  by (simp add: kept_def)

lemma kept_trans: "kept s t \<Longrightarrow> kept t u \<Longrightarrow> kept s u"
  unfolding kept_def using stops_kept_trans by metis

lemma answered_kept:
  assumes "answered_with e c st text caveat s = Inr t" and "channel_inv e (insert c W) s" and "c \<notin> W"
  shows "channel_inv e W t \<and> kept s t"
  using answered_new [OF assms] by (auto intro: kept_same)

lemma guidance_step:
  assumes "apply_guidance e c active pending s = Inr t" and "channel_inv e (insert c W) s" and "c \<notin> W"
  shows "channel_inv e W t \<and> kept s t"
proof -
  obtain g st words where g: "answered_with e c st words None (s\<lparr>ch_guidance := g\<rparr>) = Inr t"
  proof -
    obtain found where "(let targets = sort_key id (dedup found) in
       if targets = []
       then answered_with e c Ctl_Rejected ''No incomplete Agent matches the guidance target.'' None s
       else ebind (control_raise (mk_guidance (cc_command_id c) (the_or (cc_instruction c) []))) (\<lambda>g.
         answered_with e c Ctl_Applied
           (''Guidance was attached to the next invocation of: '' @ join_with '', '' targets) None
           (s\<lparr>ch_guidance := map (\<lambda>(i, gs). (i, if i \<in> set targets then gs @ [g] else gs)) (ch_guidance s)\<rparr>))) =
       Inr t"
      using assms(1) unfolding apply_guidance_def ebind_eq_Inr by blast
    note f = this [unfolded Let_def]
    show ?thesis
    proof (cases "sort_key id (dedup found) = []")
      case True
      have "s = s\<lparr>ch_guidance := ch_guidance s\<rparr>" by simp
      with f [unfolded if_P [OF True]] show ?thesis by (metis that)
    next
      case False
      show ?thesis
        by (rule exE [OF f [unfolded if_not_P [OF False] ebind_eq_Inr]], erule conjE, erule that)
    qed
  qed
  have "channel_inv e W t \<and> kept (s\<lparr>ch_guidance := g\<rparr>) t"
    by (rule answered_kept [OF g]) (use assms(2,3) in simp_all)
  then show ?thesis by (auto simp: kept_def stops_kept_def correction_owns_def)
qed

lemma resume_step:
  assumes "apply_resume e c pending s = Inr t" and "channel_inv e (insert c W) s" and "c \<notin> W"
  shows "channel_inv e W t \<and> kept s t"
proof (cases "ch_pause s")
  case (Some p)
  then obtain u where u: "answered_with e p Ctl_Superseded
      ''Resume withdrew the pause before its safe checkpoint.'' None s = Inr u"
    "answered_with e c Ctl_Applied ''The pending pause was withdrawn; scheduling may continue.'' None
      (u\<lparr>ch_pause := None\<rparr>) = Inr t"
    using assms(1) by (auto simp: apply_resume_def ebind_eq_Inr)
  note rel = release_pause [OF assms(2) Some]
  obtain d where d: "answer e p Ctl_Superseded
      ''Resume withdrew the pause before its safe checkpoint.'' None s = Inr (d, u)"
    using u(1) by (rule answered_withE)
  have a: "channel_inv e (insert c W) (u\<lparr>ch_pause := None\<rparr>) \<and>
      (\<exists>m ev n. u = s\<lparr>ch_store := m, ch_ticks := n, ch_events := ev\<rparr>)"
    using answer_swap [OF d, of "\<lambda>s. s\<lparr>ch_pause := None\<rparr>"] rel by simp
  then have "kept s (u\<lparr>ch_pause := None\<rparr>)" by (auto intro: kept_same)
  with answered_kept [OF u(2) conjunct1 [OF a] assms(3)] show ?thesis using kept_trans by blast
next
  case None
  show ?thesis
  proof (cases "ch_paused s")
    case True
    then obtain d u where u: "answer e c Ctl_Applied ''Evidence remained valid; scheduling resumed.'' None
        (s\<lparr>ch_paused := False\<rparr>) = Inr (d, u)"
      "emit_agents e Agent_Resumed d ''Scheduling resumed; the Agent is waiting for its dependencies.''
        pending u = Inr t"
      using assms(1) None by (auto simp: apply_resume_def ebind_eq_Inr)
    have a: "channel_inv e W u \<and> (\<exists>m ev n. u = (s\<lparr>ch_paused := False\<rparr>)\<lparr>ch_store := m, ch_ticks := n, ch_events := ev\<rparr>)"
      by (rule answer_plain [OF u(1) _ assms(3)]) (use assms(2) in simp)
    moreover obtain ev where "t = u\<lparr>ch_events := ev\<rparr>" using emit_agents_Inr [OF u(2)] by blast
    ultimately show ?thesis by (auto intro: kept_same)
  next
    case False
    then have "answered_with e c Ctl_Rejected ''The run is not paused.'' None s = Inr t"
      using assms(1) None by (simp add: apply_resume_def)
    then show ?thesis using answered_kept assms(2,3) by blast
  qed
qed

lemma supersede_pause:
  assumes "supersede e (ch_pause s) words s = Inr t" and "channel_inv e W s"
  shows "channel_inv e W (t\<lparr>ch_pause := None\<rparr>) \<and>
    (\<exists>m ev n. t = s\<lparr>ch_store := m, ch_ticks := n, ch_events := ev\<rparr>)"
proof (cases "ch_pause s")
  case None
  then have t: "t = s" using assms(1) by (simp add: supersede_def)
  have "t\<lparr>ch_pause := None\<rparr> = s" using None by (simp add: t)
  moreover have "t = s\<lparr>ch_store := ch_store s, ch_ticks := ch_ticks s, ch_events := ch_events s\<rparr>"
    by (simp add: t)
  ultimately show ?thesis using assms(2) by metis
next
  case (Some p)
  then obtain d where "answer e p Ctl_Superseded words None s = Inr (d, t)"
    using assms(1) by (auto simp: supersede_def elim: answered_withE)
  then show ?thesis
    using answer_swap [of e p Ctl_Superseded words None s d t "\<lambda>s. s\<lparr>ch_pause := None\<rparr>"]
      release_pause [OF assms(2) Some] by simp
qed

lemma supersede_correction:
  assumes "supersede e (ch_correction s) words s = Inr t" and "channel_inv e W s"
    and "opt_all (\<lambda>d. \<not> ctl_terminal (cc_status d)) (ch_correction s)"
  shows "channel_inv e W (t\<lparr>ch_correction := None\<rparr>) \<and>
    (\<exists>m ev n. t = s\<lparr>ch_store := m, ch_ticks := n, ch_events := ev\<rparr>)"
proof (cases "ch_correction s")
  case None
  then have t: "t = s" using assms(1) by (simp add: supersede_def)
  have "t\<lparr>ch_correction := None\<rparr> = s" using None by (simp add: t)
  moreover have "t = s\<lparr>ch_store := ch_store s, ch_ticks := ch_ticks s, ch_events := ch_events s\<rparr>"
    by (simp add: t)
  ultimately show ?thesis using assms(2) by metis
next
  case (Some p)
  then obtain d where "answer e p Ctl_Superseded words None s = Inr (d, t)"
    using assms(1) by (auto simp: supersede_def elim: answered_withE)
  then show ?thesis
    using answer_swap [of e p Ctl_Superseded words None s d t "\<lambda>s. s\<lparr>ch_correction := None\<rparr>"]
      release_correction [OF assms(2) Some] assms(3) Some by (simp add: ctl_terminal_def)
qed

lemma cancel_step:
  assumes "apply_cancel e c active s = Inr t" and "channel_inv e (insert c W) s" and "c \<notin> W"
  shows "channel_inv e W t \<and> kept s t"
proof -
  consider (cancelling) "ch_cancel s \<noteq> None"
    | (owned) "ch_cancel s = None" "\<not> opt_all (\<lambda>d. \<not> ctl_terminal (cc_status d)) (ch_correction s)"
    | (free) "ch_cancel s = None" "opt_all (\<lambda>d. \<not> ctl_terminal (cc_status d)) (ch_correction s)" by blast
  then show ?thesis
  proof cases
    case cancelling
    then have "answered_with e c Ctl_Superseded ''The run is already cancelling.'' None s = Inr t"
      using assms(1) by (simp only: apply_cancel_def if_True simp_thms)
    then show ?thesis using answered_kept assms(2,3) by blast
  next
    case owned
    then have "answered_with e c Ctl_Superseded
        ''Replacement Planning already owns the terminal safe checkpoint.'' None s = Inr t"
      using assms(1) by (simp only: apply_cancel_def if_True if_False simp_thms)
    then show ?thesis using answered_kept assms(2,3) by blast
  next
    case free
    obtain s1 s2 n words where s: "supersede e (ch_pause s) ''Cancellation superseded the pending pause.'' s = Inr s1"
      "supersede e (ch_correction s1) ''Cancellation superseded the pending correction.''
         (s1\<lparr>ch_pause := None\<rparr>) = Inr s2"
      "answered_with e c Ctl_Applied words
         (Some ''Provider usage incurred before termination may remain billable.'')
         (s2\<lparr>ch_correction := None, ch_cancel := Some c, ch_calls := n\<rparr>) = Inr t"
    proof -
      from assms(1) [unfolded apply_cancel_def] free
      have "ebind (supersede e (ch_pause s) ''Cancellation superseded the pending pause.'' s) (\<lambda>s1.
        ebind (supersede e (ch_correction s1) ''Cancellation superseded the pending correction.''
                 (s1\<lparr>ch_pause := None\<rparr>)) (\<lambda>s2.
        let interrupted = (if active = [] then 0 else ce_interrupt_all e (ch_calls s2)) in
        answered_with e c Ctl_Applied
          (''Cancellation is terminal; new work stopped and '' @ decimal interrupted @
           '' active invocation(s) received termination.'')
          (Some ''Provider usage incurred before termination may remain billable.'')
          (s2\<lparr>ch_correction := None, ch_cancel := Some c,
              ch_calls := (if active = [] then ch_calls s2 else ch_calls s2 + 1)\<rparr>))) = Inr t"
        by (simp only: if_False simp_thms)
      then show ?thesis unfolding ebind_eq_Inr Let_def by (elim exE conjE) (rule that)
    qed
    have p: "channel_inv e (insert c W) (s1\<lparr>ch_pause := None\<rparr>)"
      "\<exists>m ev n. s1 = s\<lparr>ch_store := m, ch_ticks := n, ch_events := ev\<rparr>"
      using supersede_pause [OF s(1) assms(2)] by blast+
    have "ch_correction (s1\<lparr>ch_pause := None\<rparr>) = ch_correction s" using p(2) by auto
    then have q: "channel_inv e (insert c W) (s2\<lparr>ch_correction := None\<rparr>)"
      "\<exists>m ev n. s2 = s1\<lparr>ch_pause := None, ch_store := m, ch_ticks := n, ch_events := ev\<rparr>"
      using supersede_correction [of e "s1\<lparr>ch_pause := None\<rparr>", OF _ p(1)] s(2) free(2) by simp_all
    let ?u = "s2\<lparr>ch_correction := None, ch_cancel := Some c, ch_calls := n\<rparr>"
    have "requests ?u = requests (s2\<lparr>ch_correction := None\<rparr>)" by (simp add: requests_def)
    moreover have "roles_ok ?u"
      using q p(2) by (auto simp: channel_inv_def roles_ok_def)
    ultimately have "channel_inv e (insert c W) ?u" using q(1) by (simp add: channel_inv_def)
    from answered_new [OF s(3) this assms(3)]
    have t: "channel_inv e W t" "ch_observed t = ch_observed ?u" by auto
    have "ch_observed ?u = ch_observed s" using q(2) p(2) by auto
    moreover have "\<not> correction_owns s" using free(2) by (auto simp: correction_owns_def)
    ultimately have "kept s t" using t(2) free(1) by (simp add: kept_def stops_kept_def)
    then show ?thesis using t(1) by blast
  qed
qed

lemma accept_step:
  assumes "accept_or_reject (cc_command c) e c active pending s = Inr t"
    and "channel_inv e (insert c W) s" and "c \<notin> W" and "cc_status c = Ctl_Queued"
  shows "channel_inv e W t \<and> kept s t"
proof (cases "cc_command c")
  case Ctl_Guide
  then show ?thesis using guidance_step assms by simp
next
  case Ctl_Correct
  consider words st where "answered_with e c st words None s = Inr t"
    | "t = s\<lparr>ch_correction := Some c\<rparr>" "ch_correction s = None" "ch_cancel s = None"
    using assms(1) [unfolded Ctl_Correct accept_or_reject.simps] by (metis sum.inject(2))
  then show ?thesis
  proof cases
    case 2
    then show ?thesis using hold_correction [OF assms(2,3) Ctl_Correct _ _ assms(4)]
      by (simp add: kept_def stops_kept_def correction_owns_def)
  qed (use answered_kept assms(2,3) in blast)
next
  case Ctl_Pause
  consider words st where "answered_with e c st words None s = Inr t"
    | "t = s\<lparr>ch_pause := Some c\<rparr>" "ch_pause s = None" "ch_cancel s = None"
    using assms(1) [unfolded Ctl_Pause accept_or_reject.simps] by (metis sum.inject(2))
  then show ?thesis
  proof cases
    case 2
    then show ?thesis using hold_pause [OF assms(2,3) Ctl_Pause] by (simp add: kept_same)
  qed (use answered_kept assms(2,3) in blast)
next
  case Ctl_Resume
  then show ?thesis using resume_step assms by simp
next
  case Ctl_Interrupt
  consider words st where "answered_with e c st words None s = Inr t"
    | "t = s\<lparr>ch_interrupts := filter (\<lambda>(k, _). k \<noteq> cc_command_id c) (ch_interrupts s) @ [(cc_command_id c, c)]\<rparr>"
    using assms(1) [unfolded Ctl_Interrupt accept_or_reject.simps ebind_eq_Inr] by (metis sum.inject(2))
  then show ?thesis
  proof cases
    case 2
    then show ?thesis using hold_interrupt [OF assms(2,3) Ctl_Interrupt] by (simp add: kept_same)
  qed (use answered_kept assms(2,3) in blast)
next
  case Ctl_Cancel
  then show ?thesis using cancel_step assms by simp
qed

section \<open>Polling\<close>

lemma observe_step:
  assumes "observe_command e active pending c s = Inr t"
    and "channel_inv e (if cc_status c = Ctl_Queued \<and> cc_command_id c \<notin> set (ch_observed s) then insert c W else W) s"
    and "c \<notin> W"
  shows "channel_inv e W t \<and> stops_kept s t \<and>
    set (ch_observed t) = (if cc_status c = Ctl_Queued then insert (cc_command_id c) else id) (set (ch_observed s))"
proof (cases "cc_status c = Ctl_Queued \<and> cc_command_id c \<notin> set (ch_observed s)")
  case False
  then have "t = s" using assms(1) by (auto simp: observe_command_def split: if_splits)
  then show ?thesis using assms(2) False by auto
next
  case True
  obtain u where u: "\<exists>msg. emit_command e Control_Received c msg
      (s\<lparr>ch_observed := cc_command_id c # ch_observed s\<rparr>) = Inr u"
    "accept_or_reject (cc_command c) e c active pending u = Inr t"
    using assms(1) True by (fastforce simp: observe_command_def ebind_eq_Inr)
  obtain ev where ev: "u = s\<lparr>ch_observed := cc_command_id c # ch_observed s, ch_events := ev\<rparr>"
    using u(1) emit_command_Inr by blast
  have "channel_inv e (insert c W) u" using assms(2) True by (simp add: ev)
  then have "channel_inv e W t \<and> kept u t" using accept_step [OF u(2) _ assms(3)] True by blast
  moreover have "stops_kept s u" "set (ch_observed u) = insert (cc_command_id c) (set (ch_observed s))"
    by (simp_all add: ev stops_kept_def correction_owns_def)
  ultimately show ?thesis using True stops_kept_trans by (auto simp: kept_def)
qed

lemma latest_distinct:
  assumes "mailbox_ok digest m" and "list_latest digest m = Inr cs"
  shows "distinct (map cc_command_id cs)"
proof -
  obtain hs run where m: "m = mailbox_of run hs" "histories_ok digest run hs"
    using assms(1) by (rule mailbox_okE)
  have cs: "set cs = (\<lambda>(i, h). last h) ` set hs" "map cc_request_sequence cs = one_to (length hs)"
    using list_latest_of [OF m(2)] assms(2) m(1) by auto
  have "cc_command_id (last h) = i" if "(i, h) \<in> set hs" for i h
    using that m(2) by (auto simp: histories_ok_def same_request_def elim!: history_okE)
  then have "cc_command_id ` set cs = fst ` set hs" unfolding cs(1) by (force simp: image_image)
  moreover have "length cs = length hs" using arg_cong [OF cs(2), of length] by (simp add: one_to_facts)
  moreover have "card (fst ` set hs) = length hs"
    using m(2) distinct_card [of "map fst hs"] by (simp add: histories_ok_def)
  ultimately show ?thesis by (intro card_distinct) simp
qed

lemma observe_all:
  assumes "efold (observe_command e active pending) cs s = Inr t" and "distinct (map cc_command_id cs)"
    and "channel_inv e {c \<in> set cs. cc_status c = Ctl_Queued \<and> cc_command_id c \<notin> set (ch_observed s)} s"
  shows "channel_inv e {} t \<and> stops_kept s t \<and>
    set (ch_observed t) = set (ch_observed s) \<union> cc_command_id ` {c \<in> set cs. cc_status c = Ctl_Queued}"
  using assms
proof (induction cs arbitrary: s)
  case (Cons c cs)
  obtain u where u: "observe_command e active pending c s = Inr u"
    "efold (observe_command e active pending) cs u = Inr t"
    using Cons.prems(1) by (auto simp: ebind_eq_Inr)
  define W where "W = {x \<in> set cs. cc_status x = Ctl_Queued \<and> cc_command_id x \<notin> set (ch_observed s)}"
  have c: "cc_command_id c \<notin> cc_command_id ` set cs" using Cons.prems(2) by simp
  have "{x \<in> set (c # cs). cc_status x = Ctl_Queued \<and> cc_command_id x \<notin> set (ch_observed s)} =
      (if cc_status c = Ctl_Queued \<and> cc_command_id c \<notin> set (ch_observed s) then insert c W else W)"
    by (auto simp: W_def)
  moreover have "c \<notin> W" using c by (auto simp: W_def)
  ultimately have a: "channel_inv e W u \<and> stops_kept s u \<and>
    set (ch_observed u) = (if cc_status c = Ctl_Queued then insert (cc_command_id c) else id) (set (ch_observed s))"
    using observe_step [OF u(1), of W] Cons.prems(3) by simp
  have "cc_command_id x \<noteq> cc_command_id c" if "x \<in> set cs" for x
    using c that by (metis imageI)
  then have "W = {x \<in> set cs. cc_status x = Ctl_Queued \<and> cc_command_id x \<notin> set (ch_observed u)}"
    using a unfolding W_def by auto
  then have "channel_inv e {} t \<and> stops_kept u t \<and>
    set (ch_observed t) = set (ch_observed u) \<union> cc_command_id ` {c \<in> set cs. cc_status c = Ctl_Queued}"
    using Cons.IH [OF u(2)] Cons.prems(2) a by simp
  moreover have "stops_kept s t" using a calculation stops_kept_trans by blast
  ultimately show ?case using a by auto
qed simp

text \<open>What waits for its moment.\<close>

definition same_waiting :: "channel \<Rightarrow> channel \<Rightarrow> bool" where
  "same_waiting s t \<longleftrightarrow> kept s t \<and> ch_pause t = ch_pause s \<and> ch_correction t = ch_correction s"

lemma interrupt_step:
  assumes "advance_interrupt e active (i, c) s = Inr t" and "channel_inv e {} s" and "(i, c) \<in> set (ch_interrupts s)"
  shows "channel_inv e {} t \<and> same_waiting s t \<and>
    (ch_interrupts t = ch_interrupts s \<and> active \<noteq> [] \<or>
     ch_interrupts t = filter (\<lambda>(k, _). k \<noteq> i) (ch_interrupts s))"
proof -
  have answered: "channel_inv e {} (drop_interrupt i u) \<and> same_waiting s (drop_interrupt i u) \<and>
      ch_interrupts (drop_interrupt i u) = filter (\<lambda>(k, _). k \<noteq> i) (ch_interrupts s)"
    if u: "answered_with e c st words caveat s1 = Inr u" and s1: "s1 = s\<lparr>ch_calls := n\<rparr>" for u s1 n st words caveat
  proof -
    have inv: "channel_inv e {} s1" and mem: "(i, c) \<in> set (ch_interrupts s1)" using assms(2,3) s1 by simp_all
    obtain d where d: "answer e c st words caveat s1 = Inr (d, u)" using u by (rule answered_withE)
    have "channel_inv e {} (drop_interrupt i u) \<and>
        (\<exists>m ev n. u = s1\<lparr>ch_store := m, ch_ticks := n, ch_events := ev\<rparr>)"
      using answer_swap [OF d, of "drop_interrupt i" "{}"] release_interrupt [OF inv mem]
      by (simp add: drop_interrupt_def)
    then show ?thesis
      by (auto simp: s1 drop_interrupt_def same_waiting_def intro!: kept_same)
  qed
  have s0: "s = s\<lparr>ch_calls := ch_calls s\<rparr>" by simp
  from assms(1) consider st words caveat u where "t = drop_interrupt i u"
      "answered_with e c st words caveat s = Inr u \<or> answered_with e c st words caveat (s\<lparr>ch_calls := ch_calls s + 1\<rparr>) = Inr u"
    | x where "t = s\<lparr>ch_calls := ch_calls s + 1\<rparr>" "x \<in> set active"
    by (auto simp: advance_interrupt_def ebind_eq_Inr Let_def split: if_splits)
  then show ?thesis
  proof cases
    case 1
    then show ?thesis using answered [OF _ s0] answered [OF _ refl] by blast
  next
    case 2
    then have "active \<noteq> []" by auto
    then show ?thesis using assms(2) 2(1) by (simp add: same_waiting_def kept_same)
  qed
qed

lemma interrupts_step:
  assumes "efold (advance_interrupt e active) xs s = Inr t" and "channel_inv e {} s"
    and "set xs \<subseteq> set (ch_interrupts s)" and "distinct (map fst xs)"
  shows "channel_inv e {} t \<and> same_waiting s t \<and> set (ch_interrupts t) \<subseteq> set (ch_interrupts s) \<and>
    (active = [] \<longrightarrow> fst ` set xs \<inter> fst ` set (ch_interrupts t) = {})"
  using assms
proof (induction xs arbitrary: s)
  case (Cons x xs)
  obtain i c where x: "x = (i, c)" by force
  obtain u where u: "advance_interrupt e active (i, c) s = Inr u" "efold (advance_interrupt e active) xs u = Inr t"
    using Cons.prems(1) by (auto simp: x ebind_eq_Inr)
  have a: "channel_inv e {} u \<and> same_waiting s u \<and>
    (ch_interrupts u = ch_interrupts s \<and> active \<noteq> [] \<or>
     ch_interrupts u = filter (\<lambda>(k, _). k \<noteq> i) (ch_interrupts s))"
    using interrupt_step [OF u(1) Cons.prems(2)] Cons.prems(3) x by simp
  have "i \<notin> fst ` set xs" using Cons.prems(4) x by simp
  then have sub: "set xs \<subseteq> set (ch_interrupts u)" using a Cons.prems(3) by (force simp: x)
  have b: "channel_inv e {} t \<and> same_waiting u t \<and> set (ch_interrupts t) \<subseteq> set (ch_interrupts u) \<and>
    (active = [] \<longrightarrow> fst ` set xs \<inter> fst ` set (ch_interrupts t) = {})"
    using Cons.IH [OF u(2) _ sub] a Cons.prems(4) by simp
  have "same_waiting s t"
    using a b kept_trans [of s u t] by (simp add: same_waiting_def)
  moreover have "active = [] \<longrightarrow> i \<notin> fst ` set (ch_interrupts t)" using a b by force
  ultimately show ?case using a b x by force
qed (simp add: same_waiting_def)

lemma pause_step:
  assumes "advance_pause e active pending s = Inr t" and "channel_inv e {} s"
  shows "channel_inv e {} t \<and> kept s t \<and> ch_interrupts t = ch_interrupts s \<and> (active = [] \<longrightarrow> ch_pause t = None)"
proof (cases "ch_pause s = None \<or> active \<noteq> []")
  case True
  then have "t = s" using assms(1) by (auto simp: advance_pause_def split: option.splits)
  then show ?thesis using True assms(2) by auto
next
  case False
  then obtain c where c: "ch_pause s = Some c" "active = []" by auto
  obtain d u where u: "answer e c Ctl_Applied ''The run reached a safe checkpoint; no Agent invocation is active.'' None
      (s\<lparr>ch_pause := None, ch_paused := True\<rparr>) = Inr (d, u)"
    "emit_agents e Agent_Paused d ''The Agent is paused before its next invocation.'' pending u = Inr t"
    using assms(1) c by (auto simp: advance_pause_def ebind_eq_Inr)
  have "channel_inv e (insert c {}) (s\<lparr>ch_pause := None, ch_paused := True\<rparr>)"
    using release_pause(1) [OF assms(2) c(1)] by simp
  from answer_plain [OF u(1) this]
  have a: "channel_inv e {} u \<and> (\<exists>m ev n. u = (s\<lparr>ch_pause := None, ch_paused := True\<rparr>)
      \<lparr>ch_store := m, ch_ticks := n, ch_events := ev\<rparr>)" by simp
  obtain ev where "t = u\<lparr>ch_events := ev\<rparr>" using emit_agents_Inr [OF u(2)] by blast
  then show ?thesis using a by (auto intro: kept_same)
qed

lemma correction_step:
  assumes "advance_correction e active s = Inr t" and "channel_inv e {} s"
  shows "channel_inv e {} t \<and> kept s t \<and> ch_interrupts t = ch_interrupts s \<and> ch_pause t = ch_pause s \<and>
    (active = [] \<longrightarrow> opt_all (\<lambda>c. ctl_terminal (cc_status c)) (ch_correction t))"
proof (cases "ch_correction s")
  case None
  then have "t = s" using assms(1) by (simp add: advance_correction_def)
  then show ?thesis using None assms(2) by simp
next
  case (Some c)
  show ?thesis
  proof (cases "active \<noteq> [] \<or> cc_status c \<noteq> Ctl_Queued")
    case True
    then have "t = s" using assms(1) Some by (simp add: advance_correction_def)
    then show ?thesis using True Some assms(2) by (auto simp: ctl_terminal_def)
  next
    case False
    then obtain d u where u: "answer e c Ctl_Applied
        ''Scheduling stopped at a safe checkpoint for replacement Planning.'' None s = Inr (d, u)"
      "t = u\<lparr>ch_correction := Some d\<rparr>"
      using assms(1) Some by (auto simp: advance_correction_def ebind_eq_Inr)
    have st: "mailbox_ok (ce_digest e) (ch_store s)" using assms(2) by (simp add: channel_inv_def)
    obtain x where x: "x \<in> open_commands (ce_digest e) (ch_store s)" "cc_command_id x = cc_command_id c"
      "cc_status d = Ctl_Applied" "cc_command d = cc_command x"
      by (rule answer_Inr [OF u(1) st])
    have "c \<in> open_commands (ce_digest e) (ch_store s)"
      using assms(2) Some False by (auto simp: channel_inv_def requests_def)
    then have "cc_command d = Ctl_Correct"
      using open_id_inj [OF x(1) _ x(2)] x(4) assms(2) Some by (simp add: channel_inv_def roles_ok_def)
    have "channel_inv e {} (u\<lparr>ch_correction := None\<rparr>) \<and>
        (\<exists>m ev n. u = s\<lparr>ch_store := m, ch_ticks := n, ch_events := ev\<rparr>)"
      using answer_swap [OF u(1), of "\<lambda>s. s\<lparr>ch_correction := None\<rparr>" "{}"]
        release_correction [OF assms(2) Some] False by simp
    moreover have "requests t = requests (u\<lparr>ch_correction := None\<rparr>)"
      using x(3) by (auto simp: requests_def u(2))
    moreover have "ch_cancel s = None" using assms(2) Some by (auto simp: channel_inv_def roles_ok_def)
    ultimately have "channel_inv e {} t" "ch_observed t = ch_observed s" "ch_cancel t = None"
      "ch_interrupts t = ch_interrupts s" "ch_pause t = ch_pause s"
      using \<open>cc_command d = Ctl_Correct\<close> by (auto simp: channel_inv_def roles_ok_def u(2))
    then show ?thesis
      using x(3) \<open>ch_cancel s = None\<close> by (simp add: kept_def stops_kept_def correction_owns_def u(2) ctl_terminal_def)
  qed
qed

lemma deferred_step:
  assumes "advance_deferred e active pending s = Inr t" and "channel_inv e {} s"
  shows "channel_inv e {} t \<and> kept s t \<and> (active = [] \<longrightarrow> requests t = {})"
proof -
  obtain u v where u: "efold (advance_interrupt e active) (ch_interrupts s) s = Inr u"
    "advance_pause e active pending u = Inr v" "advance_correction e active v = Inr t"
    using assms(1) by (auto simp: advance_deferred_def ebind_eq_Inr)
  have "distinct (map fst (ch_interrupts s))" using assms(2) by (simp add: channel_inv_def roles_ok_def)
  note a = interrupts_step [OF u(1) assms(2) order_refl this]
  note b = pause_step [OF u(2) conjunct1 [OF a]]
  note c = correction_step [OF u(3) conjunct1 [OF b]]
  have "kept s t" using a b c kept_trans by (metis same_waiting_def)
  moreover have "requests t = {}" if "active = []"
  proof -
    have "set (ch_interrupts u) \<subseteq> set (ch_interrupts s)"
      "fst ` set (ch_interrupts s) \<inter> fst ` set (ch_interrupts u) = {}" using a that by blast+
    then have "fst ` set (ch_interrupts u) = {}" by (metis image_mono inf.absorb_iff2)
    then have "set (ch_interrupts u) = {}" by (simp only: image_is_empty)
    then have "ch_interrupts u = []" by (simp only: set_empty)
    moreover have "ch_interrupts v = ch_interrupts u" "ch_interrupts t = ch_interrupts v"
      "ch_pause v = None" "ch_pause t = ch_pause v" using b c that by blast+
    ultimately have "ch_interrupts t = []" "ch_pause t = None" by presburger+
    moreover have "opt_all (\<lambda>c. ctl_terminal (cc_status c)) (ch_correction t)" using c that by blast
    ultimately show ?thesis by (cases "ch_correction t") (simp_all add: requests_def ctl_terminal_def)
  qed
  ultimately show ?thesis using c by blast
qed

section \<open>The channel only resolves\<close>

inductive mailbox_answer :: "(control_command \<Rightarrow> string) \<Rightarrow> mailbox \<Rightarrow> mailbox \<Rightarrow> bool" for digest where
  answered: "resolve_command digest clock i n r m = Inr (c, m') \<Longrightarrow> mailbox_answer digest m m'"

lemma answers_are_steps: "(mailbox_answer digest)\<^sup>*\<^sup>* m m' \<Longrightarrow> (mailbox_step digest)\<^sup>*\<^sup>* m m'"
  by (rule rtranclp_mono [THEN predicate2D]) (auto elim!: mailbox_answer.cases intro: mailbox_step.resolved)

lemma answers_open:
  assumes "(mailbox_answer digest)\<^sup>*\<^sup>* m m'" and "mailbox_ok digest m"
  shows "open_commands digest m' \<subseteq> open_commands digest m"
  using assms
proof (induction rule: rtranclp_induct)
  case (step a b)
  have "mailbox_ok digest a"
    using mailbox_log.reachable_inv [OF answers_are_steps [OF step.hyps(1)] step.prems] .
  from step.hyps(2) obtain clock i n r c where "resolve_command digest clock i n r a = Inr (c, b)"
    by (auto elim: mailbox_answer.cases)
  from resolve_closes [OF \<open>mailbox_ok digest a\<close> this]
  have "open_commands digest b \<subseteq> open_commands digest a" by (metis Diff_subset)
  then show ?case using step by blast
qed simp

definition grows :: "channel_env \<Rightarrow> channel \<Rightarrow> control_error + channel \<Rightarrow> bool" where
  "grows e s m \<longleftrightarrow> (\<forall>t. m = Inr t \<longrightarrow> (mailbox_answer (ce_digest e))\<^sup>*\<^sup>* (ch_store s) (ch_store t))"

lemma grows_Inr: "ch_store t = ch_store s \<Longrightarrow> grows e s (Inr t)"
  by (simp add: grows_def)

lemma grows_Inl [simp]: "grows e s (Inl f)"
  by (simp add: grows_def)

lemma grows_bind: "grows e s m \<Longrightarrow> (\<And>u. grows e u (f u)) \<Longrightarrow> grows e s (ebind m f)"
  unfolding grows_def ebind_eq_Inr by (blast intro: rtranclp_trans)

lemma grows_pure: "(\<And>x. grows e s (f x)) \<Longrightarrow> grows e s (ebind m f)"
  unfolding grows_def ebind_eq_Inr by blast

lemma grows_from: "grows e s' m \<Longrightarrow> ch_store s' = ch_store s \<Longrightarrow> grows e s m"
  by (simp add: grows_def)

lemma grows_fold: "(\<And>x u. grows e u (f x u)) \<Longrightarrow> grows e s (efold f xs s)"
proof (induction xs arbitrary: s)
  case (Cons x xs)
  show ?case unfolding efold.simps by (rule grows_bind) (use Cons in blast)+
qed (simp add: grows_Inr)

lemma grows_draft: "grows e s (send_draft e d s)"
  by (auto simp: grows_def dest!: send_draft_Inr)

lemma grows_emit: "grows e s (emit_command e k c msg s)"
  unfolding emit_command_def by (rule grows_draft)

lemma grows_agents: "grows e s (emit_agents e k c msg pending s)"
  by (auto simp: grows_def dest!: emit_agents_Inr)

lemma grows_answer:
  assumes "\<And>d u. grows e u (f d u)"
  shows "grows e s (ebind (answer e c st words caveat s) (\<lambda>(d, t). f d t))"
  unfolding grows_def
proof (intro allI impI)
  fix t assume "ebind (answer e c st words caveat s) (\<lambda>(d, t). f d t) = Inr t"
  then obtain d u where u: "answer e c st words caveat s = Inr (d, u)" "f d u = Inr t"
    by (auto simp: ebind_eq_Inr)
  obtain d' m clock r k msg where m: "resolve_command (ce_digest e) clock (cc_command_id c) (cc_revision c) r (ch_store s) = Inr (d', m)"
    "emit_command e k d' msg (s\<lparr>ch_store := m, ch_ticks := ch_ticks s + 1\<rparr>) = Inr u"
    using u(1) by (fastforce simp: answer_def ebind_eq_Inr)
  have "ch_store u = m" using emit_command_Inr [OF m(2)] by auto
  then have "mailbox_answer (ce_digest e) (ch_store s) (ch_store u)" using mailbox_answer.answered [OF m(1)] by simp
  moreover have "(mailbox_answer (ce_digest e))\<^sup>*\<^sup>* (ch_store u) (ch_store t)"
    using assms u(2) unfolding grows_def by blast
  ultimately show "(mailbox_answer (ce_digest e))\<^sup>*\<^sup>* (ch_store s) (ch_store t)"
    by (rule converse_rtranclp_into_rtranclp)
qed

lemma grows_answered: "grows e s (answered_with e c st words caveat s)"
  unfolding answered_with_def by (rule grows_answer) (simp add: grows_Inr)

lemma grows_answered_from: "ch_store s' = ch_store s \<Longrightarrow> grows e s (answered_with e c st words caveat s')"
  by (rule grows_from [OF grows_answered])

lemma grows_supersede: "ch_store s' = ch_store s \<Longrightarrow> grows e s (supersede e c words s')"
  unfolding supersede_def by (auto split: option.split intro: grows_answered_from grows_Inr)

lemmas grows_rules = grows_answered grows_answered_from grows_agents grows_Inr grows_pure grows_supersede

end
