(* ===== verification/Control_Properties.thy ===== *)
theory Control_Properties
  imports Control_Channel
begin

text \<open>
  What polling promises: after a poll every command of the mailbox is answered or held back by the
  channel for its moment (\<open>poll_inv\<close>), when nothing runs everything is answered, and a stop the
  scheduler has been told about is never taken back. \<open>channel_step\<close> are the steps of a run: polls,
  requests of the user, guidance handed to an Agent.
\<close>

section \<open>The store during a poll\<close>

lemma grows_guidance: "grows e s (apply_guidance e c active pending s)"
proof -
  have "grows e s (let targets = sort_key id (dedup found) in
     if targets = []
     then answered_with e c Ctl_Rejected ''No incomplete Agent matches the guidance target.'' None s
     else ebind (control_raise (mk_guidance (cc_command_id c) (the_or (cc_instruction c) []))) (\<lambda>g.
       answered_with e c Ctl_Applied
         (''Guidance was attached to the next invocation of: '' @ join_with '', '' targets) None
         (s\<lparr>ch_guidance := map (\<lambda>(i, gs). (i, if i \<in> set targets then gs @ [g] else gs)) (ch_guidance s)\<rparr>)))"
    for found
    unfolding Let_def by (auto intro!: grows_rules)
  then show ?thesis unfolding apply_guidance_def by (rule grows_pure)
qed

lemma grows_after: "grows e s m \<Longrightarrow> (\<And>u. ch_store (g u) = ch_store u) \<Longrightarrow> (\<And>u. grows e u (f u)) \<Longrightarrow>
    grows e s (ebind m (\<lambda>u. f (g u)))"
  by (rule grows_bind) (metis grows_from)+

lemma grows_resume: "grows e s (apply_resume e c pending s)"
proof (cases "ch_pause s")
  case (Some p)
  have "grows e s (ebind (answered_with e p Ctl_Superseded
      ''Resume withdrew the pause before its safe checkpoint.'' None s) (\<lambda>t.
      answered_with e c Ctl_Applied ''The pending pause was withdrawn; scheduling may continue.'' None
        (t\<lparr>ch_pause := None\<rparr>)))"
    by (rule grows_bind [OF grows_answered]) (simp add: grows_answered_from)
  then show ?thesis using Some by (simp add: apply_resume_def)
next
  case None
  have "grows e s (ebind (answer e c Ctl_Applied ''Evidence remained valid; scheduling resumed.'' None
      (s\<lparr>ch_paused := False\<rparr>)) (\<lambda>(d, t). emit_agents e Agent_Resumed d
        ''Scheduling resumed; the Agent is waiting for its dependencies.'' pending t))"
    by (rule grows_from [OF grows_answer [OF grows_agents]]) simp
  then show ?thesis using None by (simp add: apply_resume_def grows_answered)
qed

lemma grows_cancel: "grows e s (apply_cancel e c active s)"
proof -
  have "grows e s (ebind (supersede e (ch_pause s) w1 s) (\<lambda>s1.
      ebind (supersede e (ch_correction s1) w2 (s1\<lparr>ch_pause := None\<rparr>)) (\<lambda>s2.
      answered_with e c Ctl_Applied (w3 s2) w4 (s2\<lparr>ch_correction := None, ch_cancel := Some c, ch_calls := n s2\<rparr>))))"
    for w1 w2 w3 w4 n
    by (rule grows_bind [OF grows_supersede [OF refl]], rule grows_bind [OF grows_supersede])
      (simp_all add: grows_answered_from)
  then show ?thesis unfolding apply_cancel_def Let_def by (auto intro!: grows_rules)
qed

lemma grows_accept: "grows e s (accept_or_reject k e c active pending s)"
  by (cases k) (auto intro!: grows_rules grows_guidance grows_resume grows_cancel)

lemma grows_observe: "grows e s (observe_command e active pending c s)"
proof -
  have "grows e s (ebind (emit_command e Control_Received c w (s\<lparr>ch_observed := is\<rparr>))
      (accept_or_reject (cc_command c) e c active pending))" for w "is"
    by (rule grows_bind [OF grows_from [OF grows_emit] grows_accept]) simp
  then show ?thesis by (simp add: observe_command_def grows_Inr)
qed

lemma grows_interrupt: "grows e s (advance_interrupt e active x s)"
proof -
  have "grows e s (ebind (answered_with e c st w cav s') (\<lambda>t. Inr (drop_interrupt i t)))"
    if "ch_store s' = ch_store s" for c st w cav s' i
    by (rule grows_bind [OF grows_answered_from [OF that]]) (simp add: grows_Inr drop_interrupt_def)
  then show ?thesis by (auto simp: advance_interrupt_def Let_def split: prod.split intro!: grows_pure grows_Inr)
qed

lemma grows_deferred: "grows e s (advance_deferred e active pending s)"
proof -
  have "grows e u (advance_pause e active pending u)" for u
  proof -
    have "grows e u (ebind (answer e c Ctl_Applied w None (u\<lparr>ch_pause := None, ch_paused := True\<rparr>))
        (\<lambda>(d, t). emit_agents e Agent_Paused d w' pending t))" for c w w'
      by (rule grows_from [OF grows_answer [OF grows_agents]]) simp
    then show ?thesis by (simp add: advance_pause_def grows_Inr split: option.split)
  qed
  moreover have "grows e u (advance_correction e active u)" for u
  proof -
    have "grows e u (ebind (answer e c Ctl_Applied w None u) (\<lambda>(d, t). Inr (t\<lparr>ch_correction := Some d\<rparr>)))" for c w
      by (rule grows_answer) (simp add: grows_Inr)
    then show ?thesis by (simp add: advance_correction_def grows_Inr split: option.split)
  qed
  ultimately show ?thesis
    unfolding advance_deferred_def by (intro grows_bind grows_fold grows_interrupt)
qed

section \<open>One poll\<close>

text \<open>Between polls: the held requests are the observed open commands, and whatever has been
  observed is in the mailbox.\<close>

definition channel_ok :: "channel_env \<Rightarrow> channel \<Rightarrow> bool" where
  "channel_ok e s \<longleftrightarrow>
     channel_inv e {c \<in> open_commands (ce_digest e) (ch_store s). cc_command_id c \<notin> set (ch_observed s)} s \<and>
     (\<forall>i \<in> set (ch_observed s). \<exists>h. load_history (ce_digest e) (ch_store s) i = Inr h)"

lemma poll_parts:
  assumes "poll_controls e active pending s = Inr (d, t)"
  obtains cs u v where "list_latest (ce_digest e) (ch_store s) = Inr cs"
    "efold (observe_command e active pending) cs s = Inr u" "advance_deferred e active pending u = Inr v"
    "d = control_outcome v" "t = v \<or> (\<exists>n. t = v\<lparr>ch_calls := n\<rparr>)"
proof -
  obtain cs u v where p: "list_latest (ce_digest e) (ch_store s) = Inr cs"
    "efold (observe_command e active pending) cs s = Inr u" "advance_deferred e active pending u = Inr v"
    "control_outcome v = d" "(if ch_cancel v \<noteq> None \<and> active \<noteq> [] then v\<lparr>ch_calls := ch_calls v + 1\<rparr> else v) = t"
    using assms by (auto simp: poll_controls_def ebind_eq_Inr)
  have "t = v \<or> (\<exists>n. t = v\<lparr>ch_calls := n\<rparr>)" using p(5) by (auto split: if_splits)
  then show ?thesis by (rule that [OF p(1-3) p(4) [symmetric]])
qed

lemma poll_outcome: "poll_controls e active pending s = Inr (d, t) \<Longrightarrow> d = control_outcome t"
  by (erule poll_parts) (auto simp: control_outcome_def)

lemma poll_store:
  assumes "poll_controls e active pending s = Inr (d, t)"
  shows "(mailbox_answer (ce_digest e))\<^sup>*\<^sup>* (ch_store s) (ch_store t)"
proof -
  obtain cs u v where p: "efold (observe_command e active pending) cs s = Inr u"
    "advance_deferred e active pending u = Inr v" "t = v \<or> (\<exists>n. t = v\<lparr>ch_calls := n\<rparr>)"
    by (rule poll_parts [OF assms])
  have "(mailbox_answer (ce_digest e))\<^sup>*\<^sup>* (ch_store s) (ch_store u)"
    using grows_fold [of e "observe_command e active pending", OF grows_observe] p(1) by (auto simp: grows_def)
  moreover have "(mailbox_answer (ce_digest e))\<^sup>*\<^sup>* (ch_store u) (ch_store v)"
    using grows_deferred p(2) by (auto simp: grows_def)
  moreover have "ch_store t = ch_store v" using p(3) by auto
  ultimately show ?thesis by simp
qed

lemma poll_inv:
  assumes "poll_controls e active pending s = Inr (d, t)" and "channel_ok e s"
  shows "channel_inv e {} t \<and> channel_ok e t \<and> stops_kept s t \<and> d = control_outcome t \<and>
    requests t = open_commands (ce_digest e) (ch_store t) \<and> (active = [] \<longrightarrow> requests t = {})"
proof -
  obtain cs u v where p: "list_latest (ce_digest e) (ch_store s) = Inr cs"
    "efold (observe_command e active pending) cs s = Inr u" "advance_deferred e active pending u = Inr v"
    "d = control_outcome v" "t = v \<or> (\<exists>n. t = v\<lparr>ch_calls := n\<rparr>)"
    by (rule poll_parts [OF assms(1)])
  have ok: "mailbox_ok (ce_digest e) (ch_store s)" using assms(2) by (simp add: channel_ok_def channel_inv_def)
  note lat = latest_open [OF ok p(1)]
  have "{c \<in> open_commands (ce_digest e) (ch_store s). cc_command_id c \<notin> set (ch_observed s)} =
      {c \<in> set cs. cc_status c = Ctl_Queued \<and> cc_command_id c \<notin> set (ch_observed s)}"
    using lat(1) by blast
  then have "channel_inv e {c \<in> set cs. cc_status c = Ctl_Queued \<and> cc_command_id c \<notin> set (ch_observed s)} s"
    using assms(2) by (simp add: channel_ok_def)
  note a = observe_all [OF p(2) latest_distinct [OF ok p(1)] this]
  note b = deferred_step [OF p(3) conjunct1 [OF a]]
  have tv: "channel_inv e {} t" "requests t = requests v" "stops_kept v t" "control_outcome t = control_outcome v"
    "ch_observed t = ch_observed v"
    using b p(5) by (auto simp: requests_def stops_kept_def correction_owns_def control_outcome_def)
  have st: "stops_kept s t"
    using a b tv(3) stops_kept_trans by (metis kept_def)
  have req: "requests t = open_commands (ce_digest e) (ch_store t)" using tv(1) by (simp add: channel_inv_def)
  have obs: "set (ch_observed t) = set (ch_observed s) \<union> cc_command_id ` {c \<in> set cs. cc_status c = Ctl_Queued}"
    using a b tv(5) by (simp add: kept_def)
  have loads: "\<exists>h. load_history (ce_digest e) (ch_store t) i = Inr h" if i: "i \<in> set (ch_observed t)" for i
  proof -
    have "\<exists>h. load_history (ce_digest e) (ch_store s) i = Inr h"
      using i obs assms(2) lat(2) by (auto simp: channel_ok_def)
    then show ?thesis
      using mailbox_log.reachable_extends [OF answers_are_steps [OF poll_store [OF assms(1)]] ok, of i]
      by (auto simp: stored_history_Some)
  qed
  have "cc_command_id c \<in> set (ch_observed t)" if "c \<in> open_commands (ce_digest e) (ch_store t)" for c
    using that answers_open [OF poll_store [OF assms(1)] ok] lat(1) obs by blast
  then have "{c \<in> open_commands (ce_digest e) (ch_store t). cc_command_id c \<notin> set (ch_observed t)} = {}"
    by blast
  then have "channel_ok e t" unfolding channel_ok_def using tv(1) loads by (simp only:) blast
  then show ?thesis using tv(1) st req b tv(2,4) p(4) by simp
qed

section \<open>Steps of a run\<close>

inductive channel_step :: "channel_env \<Rightarrow> channel \<Rightarrow> channel \<Rightarrow> bool" for e where
  polled: "poll_controls e active pending s = Inr (d, t) \<Longrightarrow> channel_step e s t"
| asked: "request_command (ce_digest e) clock fresh q (ch_store s) = Inr (c, m) \<Longrightarrow>
    channel_step e s (s\<lparr>ch_store := m\<rparr>)"
| guided: "consume_guidance i s = Inr (gs, t) \<Longrightarrow> channel_step e s t"

lemma asked_ok:
  assumes "request_command (ce_digest e) clock fresh q (ch_store s) = Inr (c, m)" and "channel_ok e s"
  shows "channel_ok e (s\<lparr>ch_store := m\<rparr>)"
proof -
  have inv: "channel_inv e {c \<in> open_commands (ce_digest e) (ch_store s). cc_command_id c \<notin> set (ch_observed s)} s"
    and seen: "\<And>i. i \<in> set (ch_observed s) \<Longrightarrow> \<exists>h. load_history (ce_digest e) (ch_store s) i = Inr h"
    using assms(2) by (auto simp: channel_ok_def)
  have ok: "mailbox_ok (ce_digest e) (ch_store s)" using inv by (simp add: channel_inv_def)
  have m: "mailbox_ok (ce_digest e) m" "open_commands (ce_digest e) m = insert c (open_commands (ce_digest e) (ch_store s))"
    "\<And>h. load_history (ce_digest e) (ch_store s) (cc_command_id c) \<noteq> Inr h"
    "\<And>i h. load_history (ce_digest e) (ch_store s) i = Inr h \<Longrightarrow> load_history (ce_digest e) m i = Inr h"
    using request_opens [OF ok assms(1)] by blast+
  have c: "cc_command_id c \<notin> set (ch_observed s)" using seen m(3) by blast
  then have W: "{x \<in> open_commands (ce_digest e) m. cc_command_id x \<notin> set (ch_observed s)} =
      insert c {x \<in> open_commands (ce_digest e) (ch_store s). cc_command_id x \<notin> set (ch_observed s)}"
    using m(2) by blast
  have "c \<notin> open_commands (ce_digest e) (ch_store s)" using m(3) by (auto simp: open_commands_def)
  then have "c \<notin> requests s" using inv by (auto simp: channel_inv_def)
  then have "channel_inv e (insert c {x \<in> open_commands (ce_digest e) (ch_store s).
      cc_command_id x \<notin> set (ch_observed s)}) (s\<lparr>ch_store := m\<rparr>)"
    using inv m(1,2) by (auto simp: channel_inv_def requests_def roles_ok_def)
  moreover have "\<exists>h. load_history (ce_digest e) m i = Inr h" if "i \<in> set (ch_observed s)" for i
    using seen [OF that] m(4) by metis
  ultimately show ?thesis using W by (simp add: channel_ok_def)
qed

lemma guided_same: "consume_guidance i s = Inr (gs, t) \<Longrightarrow> \<exists>g. t = s\<lparr>ch_guidance := g\<rparr>"
  by (auto simp: consume_guidance_def split: option.splits)

lemma channel_step_ok:
  assumes "channel_step e s t" and "channel_ok e s"
  shows "channel_ok e t \<and> stops_kept s t"
  using assms
proof (induction rule: channel_step.induct)
  case (polled active pending s d t)
  then show ?case using poll_inv by blast
next
  case (asked clock fresh q s c m)
  then show ?case using asked_ok by (simp add: stops_kept_def correction_owns_def)
next
  case (guided i s gs t)
  then obtain g where "t = s\<lparr>ch_guidance := g\<rparr>" using guided_same by blast
  then show ?case using guided.prems by (simp add: channel_ok_def stops_kept_def correction_owns_def)
qed

lemma reachable_channel:
  assumes "(channel_step e)\<^sup>*\<^sup>* s t" and "channel_ok e s"
  shows "channel_ok e t \<and> stops_kept s t"
  using assms
proof (induction rule: rtranclp_induct)
  case (step t u)
  then have t: "channel_ok e t" "stops_kept s t" by blast+
  have "channel_ok e u \<and> stops_kept t u" by (rule channel_step_ok [OF step.hyps(2) t(1)])
  then show ?case using stops_kept_trans [OF t(2)] by blast
qed simp

lemma open_channel_ok:
  assumes "open_channel p m = Inr s" and "(mailbox_step (ce_digest e))\<^sup>*\<^sup>* (new_mailbox run) m"
  shows "channel_ok e s"
proof -
  have "mailbox_ok (ce_digest e) m" using mailbox_log.reachable_inv [OF assms(2)] new_mailbox_ok by blast
  then show ?thesis
    using assms(1)
    by (auto simp: open_channel_def channel_ok_def channel_inv_def roles_ok_def requests_def split: if_splits)
qed

section \<open>Demonstration\<close>

definition demo_channel_env :: channel_env where
  "demo_channel_env = \<lparr>ce_digest = demo_digest, ce_clock = (\<lambda>n. Aware (100 + int n) 0), ce_plan = demo_plan,
     ce_handler = None, ce_interrupt = (\<lambda>_ _. 1), ce_interrupt_all = (\<lambda>_. 1), ce_dash = '' - ''\<rparr>"

definition demo_open :: "control_error + channel" where
  "demo_open = open_channel demo_plan (new_mailbox ''run-1'')"

definition demo_ask :: "control_type \<Rightarrow> control_target_kind \<Rightarrow> control_boundary \<Rightarrow> string option \<Rightarrow> string option \<Rightarrow> control_request" where
  "demo_ask k t b agent words = \<lparr>rq_command = k,
     rq_target = \<lparr>ct_kind = t, ct_agent_id = agent, ct_attempt = None, ct_phase = None\<rparr>,
     rq_boundary = b, rq_instruction = words, rq_command_id = None\<rparr>"

text \<open>The user asks for a correction and then interrupts the running Agent.\<close>

definition demo_correct_first :: "control_error + (control_decision \<times> channel)" where
  "demo_correct_first =
     ebind demo_open (\<lambda>s.
     ebind (request_command demo_digest (Aware 5 0) ''ctl-1''
        (demo_ask Ctl_Correct Target_Run Planning_Revision None (Some ''use another framework'')) (ch_store s))
       (\<lambda>(c, m).
     ebind (request_command demo_digest (Aware 6 0) ''ctl-2''
        (demo_ask Ctl_Interrupt Target_Agent At_Once (Some ''api'') None) m) (\<lambda>(c', m').
     poll_controls demo_channel_env [''api''] [''web''] (s\<lparr>ch_store := m'\<rparr>))))"

lemma demo_correct_first_ok:
  "case demo_correct_first of Inl f \<Rightarrow> False
   | Inr (d, t) \<Rightarrow> d = Control_Correct \<and> ch_interrupts t = []"
  by code_simp

text \<open>A correction is applied while nothing runs, then the user asks to cancel.\<close>

definition demo_corrected :: "control_error + (control_decision \<times> channel)" where
  "demo_corrected =
     ebind demo_open (\<lambda>s.
     ebind (request_command demo_digest (Aware 5 0) ''ctl-1''
        (demo_ask Ctl_Correct Target_Run Planning_Revision None (Some ''use another framework'')) (ch_store s))
       (\<lambda>(c, m). poll_controls demo_channel_env [] [''web''] (s\<lparr>ch_store := m\<rparr>)))"

definition demo_corrected_channel :: channel where
  "demo_corrected_channel = (case demo_corrected of Inr (d, t) \<Rightarrow> t)"

definition demo_cancel_late :: "control_error + (control_decision \<times> channel)" where
  "demo_cancel_late =
     ebind (request_command demo_digest (Aware 50 0) ''ctl-2''
        (demo_ask Ctl_Cancel Target_Run At_Once None None) (ch_store demo_corrected_channel)) (\<lambda>(c, m).
     poll_controls demo_channel_env [] [''web''] (demo_corrected_channel\<lparr>ch_store := m\<rparr>))"

lemma demo_corrected_ok: "case demo_corrected of Inl f \<Rightarrow> False | Inr (d, t) \<Rightarrow> d = Control_Correct"
  by code_simp

lemma demo_cancel_late_ok: "case demo_cancel_late of Inl f \<Rightarrow> False | Inr (d, t) \<Rightarrow> True"
  by code_simp

text \<open>Guidance for many Agents: the text of the answer names them all, and the answer is a field of at
  most 500 characters.\<close>

lemma long_answer_raises:
  assumes "c \<in> open_commands (ce_digest e) (ch_store s)" and "mailbox_ok (ce_digest e) (ch_store s)"
    and "500 < length words" and "ctl_terminal st" and "\<exists>now. control_utc (ce_clock e (ch_ticks s)) = Inr now"
  shows "answered_with e c st words None s = Inl (Control_Fault (Field_Invalid ''consequence''))"
proof -
  have l: "load_history (ce_digest e) (ch_store s) (cc_command_id c) = Inr [c]"
    using assms(1) by (simp add: open_commands_def)
  have "history_ok (ce_digest e) (mb_run_id (ch_store s)) (cc_command_id c) [c]" by (rule load_history_shape [OF l])
  then have c: "command_ok c" "cc_revision c = 1" "cc_status c = Ctl_Queued" by (auto elim!: history_okE)
  note f = conjunct2 [OF command_ok_checked [OF c(1)]]
  have id: "ctl_id_pattern (cc_command_id c)" using f by (simp add: command_fields_def ebind_eq_Inr)
  obtain now where now: "control_utc (ce_clock e (ch_ticks s)) = Inr now" using assms(5) by (rule exE)
  define r where "r = \<lparr>rs_status = st, rs_consequence = words, rs_cost_caveat = None,
    rs_plan_revision = None, rs_lifecycle_revision = None\<rparr>"
  have "command_fields (resolved_command (ce_digest e) r now c) = Inl (Field_Invalid ''consequence'')"
    using f c(2) assms(3) by (auto simp: command_fields_def ebind_eq_Inl resolved_command_def r_def ebind_eq_Inr)
  then have "mk_command (resolved_command (ce_digest e) r now c) = Inl (Field_Invalid ''consequence'')"
    by (simp add: mk_command_def)
  then have "resolve_command (ce_digest e) (ce_clock e (ch_ticks s)) (cc_command_id c) (cc_revision c) r (ch_store s) =
      Inl (Control_Fault (Field_Invalid ''consequence''))"
    using id now assms(4) c(3)
    by (simp add: resolve_command_def valid_command_id_def l ctl_terminal_def r_def control_raise_def)
  then show ?thesis unfolding answered_with_def answer_def r_def by simp
qed

lemma guidance_of_command:
  assumes "command_ok c" and "cc_command c = Ctl_Guide"
  shows "\<exists>g. mk_guidance (cc_command_id c) (the_or (cc_instruction c) []) = Inr g"
proof -
  obtain w where w: "cc_instruction c = Some w" "w \<noteq> []" "safe_ctl_text True w" "length w \<le> 2000" "py_strip w = w"
  proof (cases "cc_instruction c")
    case None
    then show ?thesis
      using command_ok_checked [OF assms(1)] assms(2) by (simp add: check_command_def)
  next
    case (Some w)
    have "opt_all (\<lambda>t. t \<noteq> [] \<and> safe_ctl_text True t) (cc_instruction c)"
      using assms(1) by (simp only: command_ok_def mk_command_Inr)
    then show ?thesis
      using that Some command_ok_clean [OF assms(1)] command_ok_checked [OF assms(1)]
      by (simp add: command_fields_def ebind_eq_Inr)
  qed
  have "ctl_id_pattern (cc_command_id c)"
    using command_ok_checked [OF assms(1)] by (simp add: command_fields_def ebind_eq_Inr)
  then show ?thesis using w by (simp add: mk_guidance_def safe_ctl_text_def ebind_eq_Inr)
qed

definition demo_long_ids :: "string list" where
  "demo_long_ids = map (\<lambda>c. replicate 40 (CHR ''a'') @ [c]) ''bcdefghijklmno''"

definition demo_guidance :: control_request where
  "demo_guidance = demo_ask Ctl_Guide Target_Future_Work Before_Next_Invocation None (Some ''prefer small files'')"

definition demo_guided :: "control_error + (control_command \<times> mailbox)" where
  "demo_guided = request_command demo_digest (Aware 5 0) ''ctl-1'' demo_guidance (new_mailbox ''run-1'')"

lemma demo_guided_ok:
  "case demo_guided of Inl f \<Rightarrow> False
   | Inr (c, m) \<Rightarrow> cc_command c = Ctl_Guide \<and> ct_kind (cc_target c) = Target_Future_Work"
  by code_simp

lemma demo_long: "length (join_with '', '' (sort_key id (dedup demo_long_ids))) = 600"
  by code_simp

section \<open>Properties\<close>

text \<open>C26: No user command is lost. In any run (polls, requests of the user and guidance handed out, in
  any order, on a mailbox that only the store has written), after a poll the commands without an
  answer are exactly the pause, the correction and the interruptions the channel is holding back,
  each once; and after a poll with no Agent active every command of the mailbox has been answered.\<close>

theorem no_command_lost:
  assumes "open_channel p m = Inr s0" and "(mailbox_step (ce_digest e))\<^sup>*\<^sup>* (new_mailbox run) m"
    and "(channel_step e)\<^sup>*\<^sup>* s0 s" and "poll_controls e active pending s = Inr (d, t)"
  shows "open_commands (ce_digest e) (ch_store t) = requests t \<and>
    (active = [] \<longrightarrow> (\<exists>cs. list_latest (ce_digest e) (ch_store t) = Inr cs \<and>
       (\<forall>c \<in> set cs. ctl_terminal (cc_status c))))"
proof -
  have "channel_ok e s" using reachable_channel [OF assms(3) open_channel_ok [OF assms(1,2)]] by blast
  note inv = poll_inv [OF assms(4) this]
  then have t: "requests t = open_commands (ce_digest e) (ch_store t)" "active = [] \<longrightarrow> requests t = {}"
    by blast+
  have "channel_inv e {} t" using inv by blast
  then have ok: "mailbox_ok (ce_digest e) (ch_store t)" by (simp add: channel_inv_def)
  obtain hs r where "ch_store t = mailbox_of r hs" "histories_ok (ce_digest e) r hs"
    using ok by (rule mailbox_okE)
  then obtain cs where cs: "list_latest (ce_digest e) (ch_store t) = Inr cs" using list_latest_of by metis
  have "\<forall>c \<in> set cs. ctl_terminal (cc_status c)" if "active = []"
    using latest_open(1) [OF ok cs] t(1,2) that by (auto simp: ctl_terminal_def)
  then show ?thesis using t(1) cs by blast
qed

theorem no_command_lost_witness:
  "\<exists>t. open_commands demo_digest (ch_store t) = requests t \<and> ch_correction t \<noteq> None \<and> ch_interrupts t = []"
proof -
  obtain s0 c m c' m' d t where r: "open_channel demo_plan (new_mailbox ''run-1'') = Inr s0"
    "request_command demo_digest (Aware 5 0) ''ctl-1''
       (demo_ask Ctl_Correct Target_Run Planning_Revision None (Some ''use another framework'')) (ch_store s0) = Inr (c, m)"
    "request_command demo_digest (Aware 6 0) ''ctl-2''
       (demo_ask Ctl_Interrupt Target_Agent At_Once (Some ''api'') None) m = Inr (c', m')"
    "poll_controls demo_channel_env [''api''] [''web''] (s0\<lparr>ch_store := m'\<rparr>) = Inr (d, t)"
    "d = Control_Correct" "ch_interrupts t = []"
    using demo_correct_first_ok
    by (auto simp: demo_correct_first_def demo_open_def ebind_def split: sum.splits prod.splits)
  have dig: "ce_digest demo_channel_env = demo_digest" by (simp add: demo_channel_env_def)
  have "channel_step demo_channel_env s0 (s0\<lparr>ch_store := m\<rparr>)"
    using channel_step.asked [of demo_channel_env] r(2) dig by simp
  moreover have "channel_step demo_channel_env (s0\<lparr>ch_store := m\<rparr>) ((s0\<lparr>ch_store := m\<rparr>)\<lparr>ch_store := m'\<rparr>)"
    using channel_step.asked [of demo_channel_env _ _ _ "s0\<lparr>ch_store := m\<rparr>"] r(3) dig by simp
  ultimately have "(channel_step demo_channel_env)\<^sup>*\<^sup>* s0 (s0\<lparr>ch_store := m'\<rparr>)"
    by (simp add: converse_rtranclp_into_rtranclp)
  from no_command_lost [OF r(1) rtranclp.rtrancl_refl this r(4)] r(5,6) have "open_commands demo_digest (ch_store t) = requests t"
    unfolding dig by blast
  moreover have "ch_correction t \<noteq> None"
    using poll_outcome [OF r(4)] r(5) by (auto simp: control_outcome_def split: if_splits)
  ultimately show ?thesis using r(6) by blast
qed

text \<open>C27: A stop is never taken back. Once a poll has answered "cancel", every later poll answers
  "cancel"; once a poll with no Agent active has answered "correct", every later poll answers
  "correct", whatever the user asks in between.\<close>

theorem user_stop_is_final:
  assumes "channel_ok e s" and "poll_controls e active pending s = Inr (d, t)"
    and "d = Control_Cancel \<or> (d = Control_Correct \<and> active = [])"
    and "(channel_step e)\<^sup>*\<^sup>* t u" and "poll_controls e active' pending' u = Inr (d', v)"
  shows "d' = d"
proof -
  have t: "channel_ok e t" "d = control_outcome t" "active = [] \<longrightarrow> requests t = {}"
    using poll_inv [OF assms(2,1)] by blast+
  have u: "channel_ok e u" "stops_kept t u" using reachable_channel [OF assms(4) t(1)] by blast+
  have v: "stops_kept u v" "d' = control_outcome v" using poll_inv [OF assms(5) u(1)] by blast+
  have k: "stops_kept t v" by (rule stops_kept_trans [OF u(2) v(1)])
  show ?thesis
  proof (cases "ch_cancel t = None")
    case False
    then show ?thesis using k t(2) v(2) by (simp add: stops_kept_def control_outcome_def)
  next
    case True
    then have "d = Control_Correct" "active = []" using assms(3) t(2) by (auto simp: control_outcome_def split: if_splits)
    then have "correction_owns t"
      using True t by (auto simp: control_outcome_def correction_owns_def requests_def ctl_terminal_def split: if_splits)
    then have "correction_owns v" using k by (simp add: stops_kept_def)
    then show ?thesis using \<open>d = Control_Correct\<close> v(2) by (auto simp: control_outcome_def correction_owns_def)
  qed
qed

theorem user_stop_is_final_witness:
  "\<exists>d t. demo_cancel_late = Inr (d, t) \<and> d = Control_Correct"
proof -
  obtain s0 c m t where r: "open_channel demo_plan (new_mailbox ''run-1'') = Inr s0"
    "request_command demo_digest (Aware 5 0) ''ctl-1''
       (demo_ask Ctl_Correct Target_Run Planning_Revision None (Some ''use another framework'')) (ch_store s0) = Inr (c, m)"
    "poll_controls demo_channel_env [] [''web''] (s0\<lparr>ch_store := m\<rparr>) = Inr (Control_Correct, t)"
    "demo_corrected_channel = t"
    using demo_corrected_ok
    by (auto simp: demo_corrected_channel_def demo_corrected_def demo_open_def ebind_def split: sum.splits prod.splits)
  obtain c' m' d v where q: "request_command demo_digest (Aware 50 0) ''ctl-2''
        (demo_ask Ctl_Cancel Target_Run At_Once None None) (ch_store t) = Inr (c', m')"
    "poll_controls demo_channel_env [] [''web''] (t\<lparr>ch_store := m'\<rparr>) = Inr (d, v)"
    "demo_cancel_late = Inr (d, v)"
    using demo_cancel_late_ok r(4)
    by (auto simp: demo_cancel_late_def ebind_def split: sum.splits prod.splits)
  have dig: "ce_digest demo_channel_env = demo_digest" by (simp add: demo_channel_env_def)
  have "channel_ok demo_channel_env (s0\<lparr>ch_store := m\<rparr>)"
    using asked_ok [of demo_channel_env _ _ _ s0] open_channel_ok [OF r(1) rtranclp.rtrancl_refl] r(2) dig by simp
  moreover have "(channel_step demo_channel_env)\<^sup>*\<^sup>* t (t\<lparr>ch_store := m'\<rparr>)"
    using channel_step.asked [of demo_channel_env _ _ _ t] q(1) dig by auto
  ultimately have "d = Control_Correct" using user_stop_is_final [OF _ r(3) _ _ q(2)] by blast
  then show ?thesis using q(3) by blast
qed

text \<open>Guidance for many Agents breaks the poll. When a valid guidance command addresses all future
  work and the names of the waiting Agents, joined by commas, have more than 460 characters, applying
  it raises a validation error: the answer lists the names in a field of at most 500 characters. The
  error leaves \<open>poll\<close>, and with it the scheduler.\<close>

theorem long_guidance_raises:
  assumes "mailbox_ok (ce_digest e) (ch_store s)" and "c \<in> open_commands (ce_digest e) (ch_store s)"
    and "cc_command c = Ctl_Guide" and "ct_kind (cc_target c) = Target_Future_Work"
    and "460 < length (join_with '', '' (sort_key id (dedup pending)))"
    and "\<exists>now. control_utc (ce_clock e (ch_ticks s)) = Inr now"
  shows "accept_or_reject (cc_command c) e c active pending s =
    Inl (Control_Fault (Field_Invalid ''consequence''))"
proof -
  let ?targets = "sort_key id (dedup pending)"
  have "load_history (ce_digest e) (ch_store s) (cc_command_id c) = Inr [c]"
    using assms(2) by (simp add: open_commands_def)
  then have "history_ok (ce_digest e) (mb_run_id (ch_store s)) (cc_command_id c) [c]" by (rule load_history_shape)
  then have "command_ok c" by (auto elim!: history_okE)
  then obtain g where g: "mk_guidance (cc_command_id c) (the_or (cc_instruction c) []) = Inr g"
    using guidance_of_command assms(3) by blast
  let ?s = "s\<lparr>ch_guidance := map (\<lambda>(i, gs). (i, if i \<in> set ?targets then gs @ [g] else gs)) (ch_guidance s)\<rparr>"
  have "?targets \<noteq> []" using assms(5) by (cases "?targets = []") auto
  moreover have "answered_with e c Ctl_Applied
      (''Guidance was attached to the next invocation of: '' @ join_with '', '' ?targets) None ?s =
      Inl (Control_Fault (Field_Invalid ''consequence''))"
    by (rule long_answer_raises) (use assms(1,2,5,6) in \<open>simp_all add: ctl_terminal_def\<close>)
  ultimately show ?thesis
    unfolding assms(3) accept_or_reject.simps apply_guidance_def guidance_targets_def Let_def assms(4)
    by (simp only: control_target_kind.case ebind_Inr g control_raise_def sum.case if_False)
qed

theorem long_guidance_raises_witness:
  "\<exists>c s. accept_or_reject (cc_command c) demo_channel_env c [] demo_long_ids s =
     Inl (Control_Fault (Field_Invalid ''consequence''))"
proof -
  obtain c m where c: "request_command demo_digest (Aware 5 0) ''ctl-1'' demo_guidance (new_mailbox ''run-1'') = Inr (c, m)"
    "cc_command c = Ctl_Guide" "ct_kind (cc_target c) = Target_Future_Work"
    using demo_guided_ok by (auto simp: demo_guided_def split: sum.splits prod.splits)
  define s where "s = \<lparr>ch_store = m, ch_observed = [], ch_guidance = [], ch_pause = None, ch_paused = False,
    ch_correction = None, ch_cancel = None, ch_interrupts = [], ch_events = [], ch_ticks = 0, ch_calls = 0\<rparr>"
  have "mailbox_ok demo_digest m" "c \<in> open_commands demo_digest m"
    using request_opens [OF new_mailbox_ok c(1)] by blast+
  then have "mailbox_ok (ce_digest demo_channel_env) (ch_store s)"
    "c \<in> open_commands (ce_digest demo_channel_env) (ch_store s)"
    by (simp_all add: s_def demo_channel_env_def)
  moreover have "460 < length (join_with '', '' (sort_key id (dedup demo_long_ids)))" unfolding demo_long by simp
  moreover have "\<exists>now. control_utc (ce_clock demo_channel_env (ch_ticks s)) = Inr now"
    by (simp add: demo_channel_env_def control_utc_def)
  ultimately show ?thesis using long_guidance_raises [OF _ _ c(2,3)] by blast
qed

end
