(* ===== verification/Invocation_Lifecycle.thy ===== *)
theory Invocation_Lifecycle
  imports Journal_Files Decimal_Arith
begin

text \<open>
  \<open>invocation_lifecycle.py\<close>: the phases of one Agent invocation and the evidence the execution
  adapter leaves about it, and the process observations of \<open>process_diagnostics.py\<close> that the
  evidence embeds. \<open>validate_lifecycle\<close> is the validator every stored lifecycle has passed:
  \<open>lifecycle_path\<close> shows that the phases it accepts are \<open>launched\<close>, any legal work and then
  exactly stopping, collecting evidence, stopped.

  Seconds are rational numbers (the code's floats without their rounding). A field that a
  Pydantic model knows to have been given explicitly (\<open>model_fields_set\<close>) is a flag of the
  record. Reading \<open>/proc\<close> is an input of the model, its result is a \<open>wait_diagnostic\<close>.
\<close>

section \<open>Phases, reasons and checkpoints\<close>

datatype invocation_phase =
    Inv_Launched | Inv_Initializing | Inv_Provider_Wait | Inv_Tool_Active
  | Inv_Finalizing_Response | Inv_Stopping | Inv_Collecting_Evidence | Inv_Stopped

datatype invocation_stop_reason =
    Stop_Completed | Stop_Initialization_Stall | Stop_Provider_Stall
  | Stop_Response_Finalization_Stall | Stop_User_Interrupt | Stop_User_Cancel
  | Stop_Run_Deadline | Stop_Evaluation_Timeout | Stop_Process_Failure | Stop_Provider_Failure
  | Stop_Upstream_Incomplete | Stop_Invalid_Response | Stop_Launch_Failure

datatype initialization_checkpoint =
    Chk_Process_Launched | Chk_Session_Directory | Chk_Session_Index | Chk_Session_Bound
  | Chk_Transcript_Header | Chk_Current_Turn | Chk_Provider_Stream

text \<open>\<open>_INITIALIZATION_ORDER\<close>: the order of declaration.\<close>

definition all_checkpoints :: "initialization_checkpoint list" where
  "all_checkpoints = [Chk_Process_Launched, Chk_Session_Directory, Chk_Session_Index,
     Chk_Session_Bound, Chk_Transcript_Header, Chk_Current_Turn, Chk_Provider_Stream]"

fun checkpoint_rank :: "initialization_checkpoint \<Rightarrow> nat" where
  "checkpoint_rank Chk_Process_Launched = 1"
| "checkpoint_rank Chk_Session_Directory = 2"
| "checkpoint_rank Chk_Session_Index = 3"
| "checkpoint_rank Chk_Session_Bound = 4"
| "checkpoint_rank Chk_Transcript_Header = 5"
| "checkpoint_rank Chk_Current_Turn = 6"
| "checkpoint_rank Chk_Provider_Stream = 7"

instantiation initialization_checkpoint :: linorder
begin

definition less_eq_initialization_checkpoint ::
    "initialization_checkpoint \<Rightarrow> initialization_checkpoint \<Rightarrow> bool" where
  "less_eq_initialization_checkpoint a b \<longleftrightarrow> checkpoint_rank a \<le> checkpoint_rank b"

definition less_initialization_checkpoint ::
    "initialization_checkpoint \<Rightarrow> initialization_checkpoint \<Rightarrow> bool" where
  "less_initialization_checkpoint a b \<longleftrightarrow> checkpoint_rank a < checkpoint_rank b"

instance
proof
  fix x y z :: initialization_checkpoint
  show "(x < y) = (x \<le> y \<and> \<not> y \<le> x)" "x \<le> x" "x \<le> y \<Longrightarrow> y \<le> z \<Longrightarrow> x \<le> z" "x \<le> y \<or> y \<le> x"
    by (auto simp: less_eq_initialization_checkpoint_def less_initialization_checkpoint_def)
  show "x \<le> y \<Longrightarrow> y \<le> x \<Longrightarrow> x = y"
    by (cases x; cases y) (auto simp: less_eq_initialization_checkpoint_def)
qed

end

lemmas checkpoint_order_defs =
  less_eq_initialization_checkpoint_def less_initialization_checkpoint_def

fun allowed_successors :: "invocation_phase \<Rightarrow> invocation_phase list" where
  "allowed_successors Inv_Launched = [Inv_Initializing, Inv_Stopping]"
| "allowed_successors Inv_Initializing = [Inv_Initializing, Inv_Provider_Wait, Inv_Stopping]"
| "allowed_successors Inv_Provider_Wait = [Inv_Tool_Active, Inv_Finalizing_Response, Inv_Stopping]"
| "allowed_successors Inv_Tool_Active =
     [Inv_Provider_Wait, Inv_Tool_Active, Inv_Finalizing_Response, Inv_Stopping]"
| "allowed_successors Inv_Finalizing_Response = [Inv_Stopping]"
| "allowed_successors Inv_Stopping = [Inv_Collecting_Evidence]"
| "allowed_successors Inv_Collecting_Evidence = [Inv_Stopped]"
| "allowed_successors Inv_Stopped = []"

definition shutdown_phase :: "invocation_phase \<Rightarrow> bool" where
  "shutdown_phase p \<longleftrightarrow> p \<in> {Inv_Stopping, Inv_Collecting_Evidence, Inv_Stopped}"

lemma shutdown_phase_simps [simp]:
  "shutdown_phase Inv_Stopping" "shutdown_phase Inv_Collecting_Evidence" "shutdown_phase Inv_Stopped"
  "\<not> shutdown_phase Inv_Launched" "\<not> shutdown_phase Inv_Initializing"
  "\<not> shutdown_phase Inv_Provider_Wait" "\<not> shutdown_phase Inv_Tool_Active"
  "\<not> shutdown_phase Inv_Finalizing_Response"
  by (simp_all add: shutdown_phase_def)

section \<open>Transitions\<close>

record lifecycle_transition =
  lt_sequence :: int
  lt_phase :: invocation_phase
  lt_elapsed_ms :: int
  lt_stop_reason :: "invocation_stop_reason option"
  lt_checkpoint :: "initialization_checkpoint option"
  lt_action :: "string option"

definition validate_lifecycle_transition :: "lifecycle_transition \<Rightarrow> fault + unit" where
  "validate_lifecycle_transition t = first_error
     [(lt_sequence t < 1, Field_Invalid ''sequence''),
      (lt_elapsed_ms t < 0, Field_Invalid ''elapsed_ms''),
      (\<not> opt_all (\<lambda>a. a \<noteq> [] \<and> length a \<le> 500) (lt_action t), Field_Invalid ''action''),
      (shutdown_phase (lt_phase t) \<noteq> (lt_stop_reason t \<noteq> None),
        Value_Error ''shutdown phases require exactly one stop reason''),
      (lt_checkpoint t \<noteq> None \<and> lt_phase t \<notin> {Inv_Initializing, Inv_Provider_Wait},
        Value_Error ''initialization checkpoints belong to initialization or provider wait'')]"

section \<open>Guard evidence\<close>

datatype initialization_mode = Init_Enforced | Init_Degraded | Init_Unavailable

record initialization_evidence =
  ie_mode :: initialization_mode
  ie_policy_source :: string
  ie_no_progress_seconds :: rat
  ie_stall_grace_seconds :: rat
  ie_baseline :: "initialization_checkpoint option"
  ie_baseline_turns :: int
  ie_checkpoints :: "initialization_checkpoint list"
  ie_activity_observations :: int
  ie_activity_given :: bool
  ie_suspected_count :: int
  ie_recovered_count :: int
  ie_maximum_no_progress_ms :: int
  ie_stalled :: bool
  ie_degradation_reason :: "string option"

definition validate_initialization :: "initialization_evidence \<Rightarrow> fault + unit" where
  "validate_initialization e = first_error
     [(ie_policy_source e = [] \<or> 300 < length (ie_policy_source e), Field_Invalid ''policy_source''),
      (ie_no_progress_seconds e \<le> 0, Field_Invalid ''no_progress_seconds''),
      (ie_stall_grace_seconds e \<le> 0, Field_Invalid ''stall_grace_seconds''),
      (ie_baseline_turns e < 0, Field_Invalid ''baseline_matching_turn_count''),
      (ie_activity_observations e < 0, Field_Invalid ''process_activity_observations''),
      (ie_suspected_count e < 0, Field_Invalid ''stall_suspected_count''),
      (ie_recovered_count e < 0, Field_Invalid ''stall_recovered_count''),
      (ie_maximum_no_progress_ms e < 0, Field_Invalid ''maximum_no_progress_ms''),
      (\<not> opt_all (\<lambda>s. s \<noteq> [] \<and> length s \<le> 500) (ie_degradation_reason e),
        Field_Invalid ''degradation_reason''),
      (ie_no_progress_seconds e \<le> ie_stall_grace_seconds e,
        Value_Error ''initialization grace must be shorter than its ceiling''),
      ((ie_mode e = Init_Enforced) = (ie_degradation_reason e \<noteq> None),
        Value_Error ''non-enforced initialization evidence requires exactly one reason''),
      (ie_stalled e \<and> ie_mode e \<noteq> Init_Enforced,
        Value_Error ''unobservable initialization cannot declare a stall''),
      (ie_baseline_turns e \<noteq> 0 \<and> ie_baseline e \<noteq> Some Chk_Current_Turn,
        Value_Error ''matching-turn baseline requires a pre-existing current turn''),
      (\<not> sorted_wrt (<) (ie_checkpoints e),
        Value_Error ''initialization checkpoints must advance exactly once''),
      (ie_stalled e \<and> Chk_Current_Turn \<in> set (ie_checkpoints e),
        Value_Error ''ready current turns cannot be initialization-stalled'')]"

record shutdown_evidence =
  se_reason :: invocation_stop_reason
  se_grace_seconds :: rat
  se_process_started :: bool
  se_group_targeted :: bool
  se_terminate_sent :: bool
  se_kill_sent :: bool
  se_exit_code :: "int option"
  se_signal :: "int option"
  se_stdout_collected :: bool
  se_stderr_collected :: bool
  se_session_status :: string
  se_submission_status :: string
  se_lease_released :: bool
  se_cleanup_completed :: bool

definition validate_shutdown :: "shutdown_evidence \<Rightarrow> fault + unit" where
  "validate_shutdown e = first_error
     [(se_grace_seconds e \<le> 0, Field_Invalid ''shutdown_grace_seconds''),
      (\<not> opt_all (\<lambda>s. 1 \<le> s) (se_signal e), Field_Invalid ''signal''),
      (se_session_status e = [] \<or> 100 < length (se_session_status e),
        Field_Invalid ''session_evidence_status''),
      (se_submission_status e = [] \<or> 100 < length (se_submission_status e),
        Field_Invalid ''submission_evidence_status''),
      (\<not> se_process_started e \<and>
         (se_group_targeted e \<or> se_terminate_sent e \<or> se_kill_sent e \<or> se_exit_code e \<noteq> None \<or>
          se_signal e \<noteq> None),
        Value_Error ''an unstarted process cannot have termination evidence''),
      (se_signal e \<noteq> None \<and> se_exit_code e \<noteq> None,
        Value_Error ''process outcome cannot be both exit code and signal''),
      (se_kill_sent e \<and> \<not> se_terminate_sent e,
        Value_Error ''forceful cleanup requires a preceding terminate request''),
      (se_cleanup_completed e \<and> \<not> se_lease_released e,
        Value_Error ''completed cleanup requires process-lease release'')]"

record finalization_evidence =
  fe_enforced :: bool
  fe_policy_source :: string
  fe_no_progress_seconds :: rat
  fe_stall_grace_seconds :: rat
  fe_terminal_observed :: bool
  fe_output_observations :: int
  fe_suspected_count :: int
  fe_recovered_count :: int
  fe_maximum_no_progress_ms :: int
  fe_stalled :: bool

definition validate_finalization :: "finalization_evidence \<Rightarrow> fault + unit" where
  "validate_finalization e = first_error
     [(fe_policy_source e = [] \<or> 300 < length (fe_policy_source e), Field_Invalid ''policy_source''),
      (fe_no_progress_seconds e \<le> 0, Field_Invalid ''no_progress_seconds''),
      (fe_stall_grace_seconds e \<le> 0, Field_Invalid ''stall_grace_seconds''),
      (fe_output_observations e < 0, Field_Invalid ''output_progress_observations''),
      (fe_suspected_count e < 0, Field_Invalid ''stall_suspected_count''),
      (fe_recovered_count e < 0, Field_Invalid ''stall_recovered_count''),
      (fe_maximum_no_progress_ms e < 0, Field_Invalid ''maximum_no_progress_ms''),
      (fe_no_progress_seconds e \<le> fe_stall_grace_seconds e,
        Value_Error ''response-finalization grace must be shorter than its ceiling''),
      (fe_enforced e \<noteq> fe_terminal_observed e,
        Value_Error ''enforced response finalization requires an observed terminal response''),
      (\<not> fe_enforced e \<and>
         (fe_output_observations e \<noteq> 0 \<or> fe_suspected_count e \<noteq> 0 \<or> fe_recovered_count e \<noteq> 0 \<or>
          fe_maximum_no_progress_ms e \<noteq> 0 \<or> fe_stalled e),
        Value_Error ''unobserved response finalization cannot contain progress evidence''),
      (fe_suspected_count e < fe_recovered_count e,
        Value_Error ''response-finalization recovery requires a suspicion''),
      (fe_stalled e \<and> \<not> fe_enforced e,
        Value_Error ''only enforced response finalization can stall'')]"

section \<open>Process observations\<close>

record process_identity =
  pi_pid :: int
  pi_group :: int
  pi_start_ticks :: int

definition validate_process_identity :: "process_identity \<Rightarrow> fault + unit" where
  "validate_process_identity p = first_error
     [(pi_pid p < 1, Field_Invalid ''pid''), (pi_group p < 1, Field_Invalid ''process_group_id''),
      (pi_start_ticks p < 1, Field_Invalid ''start_time_ticks'')]"

datatype snapshot_status = Snapshot_Observed | Snapshot_Identity_Changed | Snapshot_Unavailable

record wait_snapshot =
  ws_identity :: process_identity
  ws_expected_uid :: int
  ws_status :: snapshot_status
  ws_state :: "string option"
  ws_user_ticks :: "int option"
  ws_system_ticks :: "int option"
  ws_minor_faults :: "int option"
  ws_major_faults :: "int option"
  ws_rss_kib :: "int option"
  ws_swap_kib :: "int option"
  ws_read_bytes :: "int option"
  ws_write_bytes :: "int option"
  ws_wait_channel :: "string option"
  ws_unavailable :: "string list"

definition is_alpha :: "char \<Rightarrow> bool" where
  "is_alpha c \<longleftrightarrow> is_lower c \<or> is_upper c"

definition wait_channel_pattern :: "string \<Rightarrow> bool" where
  "wait_channel_pattern s \<longleftrightarrow>
     s \<noteq> [] \<and> list_all (\<lambda>c. is_alpha c \<or> is_digit_char c \<or> c = CHR ''_'') s"

definition core_given :: "wait_snapshot \<Rightarrow> bool list" where
  "core_given s =
     [ws_state s \<noteq> None, ws_user_ticks s \<noteq> None, ws_system_ticks s \<noteq> None,
      ws_minor_faults s \<noteq> None, ws_major_faults s \<noteq> None]"

definition optional_given :: "wait_snapshot \<Rightarrow> (string \<times> bool) list" where
  "optional_given s =
     [(''rss_kib'', ws_rss_kib s \<noteq> None), (''swap_kib'', ws_swap_kib s \<noteq> None),
      (''read_bytes'', ws_read_bytes s \<noteq> None), (''write_bytes'', ws_write_bytes s \<noteq> None),
      (''wait_channel'', ws_wait_channel s \<noteq> None)]"

definition counter_fields :: "wait_snapshot \<Rightarrow> int option list" where
  "counter_fields s =
     [ws_user_ticks s, ws_system_ticks s, ws_minor_faults s, ws_major_faults s, ws_read_bytes s,
      ws_write_bytes s]"

definition nonnegative_metrics :: "wait_snapshot \<Rightarrow> bool" where
  "nonnegative_metrics s \<longleftrightarrow>
     list_all (opt_all (\<lambda>n. 0 \<le> n)) (counter_fields s @ [ws_rss_kib s, ws_swap_kib s])"

definition validate_wait_snapshot :: "wait_snapshot \<Rightarrow> fault + unit" where
  "validate_wait_snapshot s =
     ebind (validate_process_identity (ws_identity s)) (\<lambda>_. first_error
     [(ws_expected_uid s < 0, Field_Invalid ''expected_uid''),
      (\<not> opt_all (\<lambda>v. length v = 1 \<and> list_all is_alpha v) (ws_state s), Field_Invalid ''state''),
      (\<not> nonnegative_metrics s, Field_Invalid ''metrics''),
      (\<not> opt_all wait_channel_pattern (ws_wait_channel s), Field_Invalid ''wait_channel''),
      (ws_status s \<noteq> Snapshot_Observed \<and>
         (list_ex id (core_given s) \<or> list_ex snd (optional_given s) \<or> ws_unavailable s \<noteq> []),
        Value_Error ''unattributed processes cannot carry metrics''),
      (ws_status s = Snapshot_Observed \<and>
         (\<not> list_all id (core_given s) \<or>
          set (ws_unavailable s) \<noteq> set (map fst (filter (\<lambda>(_, given). \<not> given) (optional_given s))) \<or>
          \<not> distinct (ws_unavailable s)),
        Value_Error ''observed processes require explicit metric availability'')])"

datatype wait_boundary = Wait_Suspected | Wait_Stalled

record wait_diagnostic =
  wd_reason :: wait_boundary
  wd_elapsed_ms :: int
  wd_processes :: "wait_snapshot list"
  wd_incomplete :: bool

definition validate_wait_diagnostic :: "wait_diagnostic \<Rightarrow> fault + unit" where
  "validate_wait_diagnostic d = ebind (check_all validate_wait_snapshot (wd_processes d)) (\<lambda>_.
     first_error [(wd_elapsed_ms d < 0, Field_Invalid ''elapsed_ms''),
       (64 < length (wd_processes d), Field_Invalid ''processes'')])"

text \<open>\<open>initialization_process_activity_detected\<close>: the dictionaries are keyed by the exact process
  identity, so a later snapshot of an identity replaces an earlier one.\<close>

definition observed_processes :: "wait_diagnostic \<Rightarrow> (process_identity \<times> wait_snapshot) list" where
  "observed_processes d =
     map (\<lambda>s. (ws_identity s, s)) (filter (\<lambda>s. ws_status s = Snapshot_Observed) (wd_processes d))"

definition observed_at :: "wait_diagnostic \<Rightarrow> process_identity \<Rightarrow> wait_snapshot option" where
  "observed_at d = map_of (rev (observed_processes d))"

definition counter_grew :: "int option \<Rightarrow> int option \<Rightarrow> bool" where
  "counter_grew old new = (case (old, new) of (Some a, Some b) \<Rightarrow> a < b | _ \<Rightarrow> False)"

definition process_activity_detected :: "wait_diagnostic \<Rightarrow> wait_diagnostic \<Rightarrow> bool" where
  "process_activity_detected previous current \<longleftrightarrow>
     (\<not> wd_incomplete previous \<and> \<not> wd_incomplete current \<and>
        set (map fst (observed_processes previous)) \<noteq> set (map fst (observed_processes current))) \<or>
     list_ex (\<lambda>i. case (observed_at previous i, observed_at current i) of
         (Some old, Some new) \<Rightarrow>
           list_ex (\<lambda>(a, b). counter_grew a b) (zip (counter_fields old) (counter_fields new))
       | _ \<Rightarrow> False) (map fst (observed_processes previous))"

section \<open>The lifecycle of an invocation\<close>

record lifecycle_evidence =
  le_schema_version :: int
  le_initialization_wait :: "wait_diagnostic list"
  le_wait_given :: bool
  le_transitions :: "lifecycle_transition list"
  le_initialization :: initialization_evidence
  le_response_finalization :: "finalization_evidence option"
  le_shutdown :: shutdown_evidence

definition lifecycle_fields :: "lifecycle_evidence \<Rightarrow> fault + unit" where
  "lifecycle_fields e =
     ebind (first_error
       [(le_schema_version e < 1 \<or> 5 < le_schema_version e, Field_Invalid ''schema_version'')]) (\<lambda>_.
     ebind (check_all validate_wait_diagnostic (le_initialization_wait e)) (\<lambda>_.
     ebind (first_error
       [(2 < length (le_initialization_wait e), Field_Invalid ''initialization_wait'')]) (\<lambda>_.
     ebind (check_all validate_lifecycle_transition (le_transitions e)) (\<lambda>_.
     ebind (first_error
       [(length (le_transitions e) < 2, Field_Invalid ''transitions'')]) (\<lambda>_.
     ebind (validate_initialization (le_initialization e)) (\<lambda>_.
     ebind (case le_response_finalization e of None \<Rightarrow> Inr () | Some f \<Rightarrow> validate_finalization f)
       (\<lambda>_. validate_shutdown (le_shutdown e))))))))"

definition check_lifecycle_versions :: "lifecycle_evidence \<Rightarrow> fault + unit" where
  "check_lifecycle_versions e =
     (let reasons = map wd_reason (le_initialization_wait e); i = le_initialization e
      in first_error
       [(le_schema_version e < 5 \<and> ie_activity_given i,
          Value_Error ''legacy lifecycle evidence cannot contain process activity''),
        (le_schema_version e < 4 \<and> le_wait_given e,
          Value_Error ''legacy lifecycle evidence cannot contain wait diagnostics''),
        (reasons \<notin> {[], [Wait_Suspected], [Wait_Stalled], [Wait_Suspected, Wait_Stalled]},
          Value_Error ''initialization wait boundaries must occur once in order''),
        (Wait_Stalled \<in> set reasons \<and> \<not> ie_stalled i,
          Value_Error ''stall diagnostic requires an initialization stall''),
        ((le_schema_version e = 1) \<noteq> (le_response_finalization e = None),
          Value_Error ''lifecycle schema v2 and later require response-finalization evidence''),
        (le_schema_version e < 3 \<and> (ie_baseline i \<noteq> None \<or> ie_baseline_turns i \<noteq> 0),
          Value_Error ''legacy lifecycle evidence cannot contain an invocation baseline'')])"

definition legal_step :: "lifecycle_transition \<Rightarrow> lifecycle_transition \<Rightarrow> bool" where
  "legal_step a b \<longleftrightarrow> lt_phase b \<in> set (allowed_successors (lt_phase a))"

definition check_lifecycle_path :: "lifecycle_transition list \<Rightarrow> fault + unit" where
  "check_lifecycle_path ts = first_error
     [(map lt_sequence ts \<noteq> one_to (length ts),
        Value_Error ''invocation lifecycle sequence must be contiguous''),
      (map lt_elapsed_ms ts \<noteq> sort (map lt_elapsed_ms ts),
        Value_Error ''invocation lifecycle elapsed time must be monotonic''),
      (lt_phase (hd ts) \<noteq> Inv_Launched, Value_Error ''invocation lifecycle must begin at launched''),
      (lt_phase (last ts) \<noteq> Inv_Stopped, Value_Error ''invocation lifecycle must end at stopped''),
      (\<not> adjacent legal_step ts,
        Value_Error ''invocation lifecycle contains an invalid phase transition'')]"

definition in_phase :: "invocation_phase \<Rightarrow> lifecycle_transition list \<Rightarrow> lifecycle_transition list" where
  "in_phase p ts = filter (\<lambda>t. lt_phase t = p) ts"

definition check_stop_reasons :: "invocation_stop_reason \<Rightarrow> lifecycle_transition list \<Rightarrow> fault + unit" where
  "check_stop_reasons reason ts =
     (let collecting = in_phase Inv_Collecting_Evidence ts; stopping = in_phase Inv_Stopping ts
      in first_error
       [(lt_stop_reason (last ts) \<noteq> Some reason,
          Value_Error ''terminal lifecycle reason must match shutdown evidence''),
        (length collecting \<noteq> 1,
          Value_Error ''invocation lifecycle requires one evidence collection phase''),
        (lt_stop_reason (hd collecting) \<noteq> Some reason,
          Value_Error ''evidence collection reason must match shutdown evidence''),
        (length stopping \<noteq> 1 \<or> lt_stop_reason (hd stopping) \<noteq> Some reason,
          Value_Error ''invocation lifecycle requires one matching stopping phase''),
        (list_ex (\<lambda>t. lt_stop_reason t \<notin> {None, Some reason}) ts,
          Value_Error ''invocation lifecycle cannot change its stop reason'')])"

definition check_finalizing :: "lifecycle_evidence \<Rightarrow> fault + unit" where
  "check_finalizing e =
     (case le_response_finalization e of
        None \<Rightarrow> Inr ()
      | Some f \<Rightarrow> first_error
         [(fe_terminal_observed f \<noteq> (length (in_phase Inv_Finalizing_Response (le_transitions e)) = 1),
            Value_Error ''terminal-response observation requires one finalizing phase''),
          ((se_reason (le_shutdown e) = Stop_Response_Finalization_Stall) \<noteq> fe_stalled f,
            Value_Error ''response-finalization stall reason must match guard evidence'')])"

definition validate_lifecycle :: "lifecycle_evidence \<Rightarrow> fault + unit" where
  "validate_lifecycle e =
     ebind (lifecycle_fields e) (\<lambda>_.
     ebind (check_lifecycle_versions e) (\<lambda>_.
     ebind (check_lifecycle_path (le_transitions e)) (\<lambda>_.
     ebind (check_stop_reasons (se_reason (le_shutdown e)) (le_transitions e)) (\<lambda>_.
       check_finalizing e))))"

section \<open>The shape of an accepted lifecycle\<close>

lemma step_from_shutdown:
  "lt_phase a = Inv_Stopping \<Longrightarrow> legal_step a b \<longleftrightarrow> lt_phase b = Inv_Collecting_Evidence"
  "lt_phase a = Inv_Collecting_Evidence \<Longrightarrow> legal_step a b \<longleftrightarrow> lt_phase b = Inv_Stopped"
  "lt_phase a = Inv_Stopped \<Longrightarrow> \<not> legal_step a b"
  by (auto simp: legal_step_def)

lemma shutdown_tail:
  assumes "adjacent legal_step (t # ts)" and "lt_phase (last (t # ts)) = Inv_Stopped"
    and "lt_phase t = Inv_Stopping"
  shows "map lt_phase (t # ts) = [Inv_Stopping, Inv_Collecting_Evidence, Inv_Stopped]"
proof -
  obtain c cs where ts: "ts = c # cs" "lt_phase c = Inv_Collecting_Evidence"
    using assms step_from_shutdown(1) [of t] by (cases ts) auto
  obtain d ds where cs: "cs = d # ds" "lt_phase d = Inv_Stopped"
    using assms ts step_from_shutdown(2) [of c] by (cases cs) auto
  then have "ds = []" using assms ts step_from_shutdown(3) [of d] by (cases ds) auto
  then show ?thesis using ts cs assms(3) by simp
qed

text \<open>Before the first stopping transition nothing can collect evidence or stop.\<close>

lemma work_prefix:
  assumes "adjacent legal_step (t # ts)" and "\<not> shutdown_phase (lt_phase t)"
    and "lt_phase (last (t # ts)) = Inv_Stopped"
  shows "\<exists>work s rest. t # ts = work @ s # rest \<and> lt_phase s = Inv_Stopping \<and>
    (\<forall>w \<in> set work. \<not> shutdown_phase (lt_phase w)) \<and> work \<noteq> []"
  using assms
proof (induction ts arbitrary: t)
  case Nil
  then show ?case by (auto simp: shutdown_phase_def)
next
  case (Cons u us)
  have step: "legal_step t u" "adjacent legal_step (u # us)" using Cons.prems(1) by auto
  show ?case
  proof (cases "lt_phase u = Inv_Stopping")
    case True
    then have "t # u # us = [t] @ u # us \<and> lt_phase u = Inv_Stopping \<and>
        (\<forall>w \<in> set [t]. \<not> shutdown_phase (lt_phase w)) \<and> [t] \<noteq> []"
      using Cons.prems(2) by simp
    then show ?thesis by blast
  next
    case False
    then have "\<not> shutdown_phase (lt_phase u)"
      using step(1) Cons.prems(2) by (cases "lt_phase t") (auto simp: legal_step_def shutdown_phase_def)
    then obtain work s rest where w: "u # us = work @ s # rest" "lt_phase s = Inv_Stopping"
        "\<forall>w \<in> set work. \<not> shutdown_phase (lt_phase w)"
      using Cons.IH [of u] step(2) Cons.prems(3) by (metis last_ConsR list.distinct(1))
    have "t # u # us = (t # work) @ s # rest \<and> (\<forall>w \<in> set (t # work). \<not> shutdown_phase (lt_phase w))"
      using w Cons.prems(2) by simp
    then show ?thesis using w(2) by blast
  qed
qed

lemma lifecycle_path:
  assumes "adjacent legal_step ts" and "ts \<noteq> []" and "lt_phase (hd ts) = Inv_Launched"
    and "lt_phase (last ts) = Inv_Stopped"
  obtains work s c f where "ts = work @ [s, c, f]" "work \<noteq> []"
    "\<forall>w \<in> set work. \<not> shutdown_phase (lt_phase w)" "lt_phase s = Inv_Stopping"
    "lt_phase c = Inv_Collecting_Evidence" "lt_phase f = Inv_Stopped"
proof -
  obtain t us where ts: "ts = t # us" using assms(2) by (cases ts) auto
  obtain work s rest where w: "ts = work @ s # rest" "lt_phase s = Inv_Stopping"
      "\<forall>w \<in> set work. \<not> shutdown_phase (lt_phase w)" "work \<noteq> []"
    using work_prefix [of t us] assms ts by auto
  have "adjacent legal_step (s # rest)" "lt_phase (last (s # rest)) = Inv_Stopped"
    using adjacent_split [of legal_step work "s # rest"] w(1) assms(1,4) by simp_all
  then have "map lt_phase (s # rest) = [Inv_Stopping, Inv_Collecting_Evidence, Inv_Stopped]"
    using shutdown_tail w(2) by blast
  then obtain c f where "rest = [c, f]" "lt_phase c = Inv_Collecting_Evidence" "lt_phase f = Inv_Stopped"
    by auto
  then show ?thesis using that [of work s c f] w by simp
qed

text \<open>Once the response is finalized the work is over.\<close>

lemma finalizing_is_last:
  assumes "adjacent legal_step (work @ [s])" and "\<forall>w \<in> set work. \<not> shutdown_phase (lt_phase w)"
    and "work = xs @ x # ys" and "lt_phase x = Inv_Finalizing_Response"
  shows "ys = []"
proof (cases ys)
  case (Cons y zs)
  then have "adjacent legal_step (x # y # zs @ [s])"
    using assms(1,3) adjacent_split [of legal_step xs "x # y # zs @ [s]"] by simp
  then have "lt_phase y = Inv_Stopping" using assms(4) by (simp add: legal_step_def)
  then show ?thesis using assms(2,3) Cons by auto
qed

lemma validate_lifecycle_Inr:
  "validate_lifecycle e = Inr () \<longleftrightarrow>
     lifecycle_fields e = Inr () \<and> check_lifecycle_versions e = Inr () \<and>
     check_lifecycle_path (le_transitions e) = Inr () \<and>
     check_stop_reasons (se_reason (le_shutdown e)) (le_transitions e) = Inr () \<and>
     check_finalizing e = Inr ()"
  by (auto simp: validate_lifecycle_def ebind_eq_Inr)

text \<open>C31: every lifecycle the validator accepts begins at launched, does legal work without a stop
  reason, and ends with exactly stopping, collecting evidence and stopped, all three for the reason
  of the shutdown evidence; finalizing the response is at most the last piece of work, and the
  elapsed times never decrease.\<close>

theorem accepted_lifecycle_shape:
  assumes "validate_lifecycle e = Inr ()"
  shows "\<exists>work s c f. le_transitions e = work @ [s, c, f] \<and> work \<noteq> [] \<and>
      lt_phase (hd work) = Inv_Launched \<and>
      (\<forall>w \<in> set work. \<not> shutdown_phase (lt_phase w) \<and> lt_stop_reason w = None) \<and>
      map lt_phase [s, c, f] = [Inv_Stopping, Inv_Collecting_Evidence, Inv_Stopped] \<and>
      map lt_stop_reason [s, c, f] = replicate 3 (Some (se_reason (le_shutdown e))) \<and>
      (\<forall>x \<in> set (butlast work). lt_phase x \<noteq> Inv_Finalizing_Response) \<and>
      sorted (map lt_elapsed_ms (le_transitions e))"
proof -
  let ?ts = "le_transitions e"
  note v = assms [unfolded validate_lifecycle_Inr]
  have valid: "\<forall>t \<in> set ?ts. validate_lifecycle_transition t = Inr ()" and ne: "?ts \<noteq> []"
    using v by (auto simp: lifecycle_fields_def ebind_eq_Inr)
  have path: "adjacent legal_step ?ts" "lt_phase (hd ?ts) = Inv_Launched"
      "lt_phase (last ?ts) = Inv_Stopped" "sorted (map lt_elapsed_ms ?ts)"
    using v by (simp_all add: check_lifecycle_path_def)
  obtain work s c f where p: "?ts = work @ [s, c, f]" "work \<noteq> []"
    "\<forall>w \<in> set work. \<not> shutdown_phase (lt_phase w)" "lt_phase s = Inv_Stopping"
    "lt_phase c = Inv_Collecting_Evidence" "lt_phase f = Inv_Stopped"
    using lifecycle_path [OF path(1) ne path(2,3)] .
  have reason: "lt_stop_reason w \<noteq> None \<longleftrightarrow> shutdown_phase (lt_phase w)" if "w \<in> set ?ts" for w
    using valid that by (auto simp: validate_lifecycle_transition_def)
  have "in_phase Inv_Collecting_Evidence ?ts = [c]" "in_phase Inv_Stopping ?ts = [s]"
    using p by (auto simp: in_phase_def shutdown_phase_def filter_empty_conv)
  then have "map lt_stop_reason [s, c, f] = replicate 3 (Some (se_reason (le_shutdown e)))"
    using v p(1) by (simp add: check_stop_reasons_def numeral_3_eq_3)
  moreover have "adjacent legal_step (work @ [s])"
    using path(1) p(1) adjacent_split [of legal_step "work @ [s]" "[c, f]"] by simp
  then have "\<forall>x \<in> set (butlast work). lt_phase x \<noteq> Inv_Finalizing_Response"
    using finalizing_is_last [of work s] p(2,3)
    by (metis append_butlast_last_id append_Cons append_assoc append_is_Nil_conv list.distinct(1) split_list)
  moreover have "\<forall>w \<in> set work. \<not> shutdown_phase (lt_phase w) \<and> lt_stop_reason w = None"
    using reason p(1,3) by fastforce
  moreover have "lt_phase (hd work) = Inv_Launched"
    using p(1,2) path(2) by simp
  moreover have "map lt_phase [s, c, f] = [Inv_Stopping, Inv_Collecting_Evidence, Inv_Stopped]"
    using p(4-6) by simp
  ultimately show ?thesis
    using p(1,2) path(4)
    by (intro exI conjI) assumption+
qed

text \<open>A lifecycle of a completed invocation with one tool.\<close>

definition demo_transition ::
    "int \<Rightarrow> invocation_phase \<Rightarrow> invocation_stop_reason option \<Rightarrow> lifecycle_transition" where
  "demo_transition n p r =
     \<lparr>lt_sequence = n, lt_phase = p, lt_elapsed_ms = 10 * n, lt_stop_reason = r,
      lt_checkpoint = None, lt_action = None\<rparr>"

definition demo_initialization :: initialization_evidence where
  "demo_initialization =
     \<lparr>ie_mode = Init_Enforced, ie_policy_source = ''policy'', ie_no_progress_seconds = 60,
      ie_stall_grace_seconds = 15, ie_baseline = None, ie_baseline_turns = 0,
      ie_checkpoints = [Chk_Process_Launched, Chk_Current_Turn], ie_activity_observations = 0,
      ie_activity_given = True, ie_suspected_count = 0, ie_recovered_count = 0,
      ie_maximum_no_progress_ms = 20, ie_stalled = False, ie_degradation_reason = None\<rparr>"

definition demo_finalization :: finalization_evidence where
  "demo_finalization =
     \<lparr>fe_enforced = True, fe_policy_source = ''policy'', fe_no_progress_seconds = 60,
      fe_stall_grace_seconds = 15, fe_terminal_observed = True, fe_output_observations = 1,
      fe_suspected_count = 0, fe_recovered_count = 0, fe_maximum_no_progress_ms = 5,
      fe_stalled = False\<rparr>"

definition demo_shutdown :: shutdown_evidence where
  "demo_shutdown =
     \<lparr>se_reason = Stop_Completed, se_grace_seconds = 5, se_process_started = True,
      se_group_targeted = False, se_terminate_sent = False, se_kill_sent = False,
      se_exit_code = Some 0, se_signal = None, se_stdout_collected = True,
      se_stderr_collected = True, se_session_status = ''captured'',
      se_submission_status = ''not_configured'', se_lease_released = True,
      se_cleanup_completed = True\<rparr>"

definition demo_lifecycle :: lifecycle_evidence where
  "demo_lifecycle =
     \<lparr>le_schema_version = 5, le_initialization_wait = [], le_wait_given = False,
      le_transitions =
        [demo_transition 1 Inv_Launched None, demo_transition 2 Inv_Initializing None,
         demo_transition 3 Inv_Provider_Wait None, demo_transition 4 Inv_Tool_Active None,
         demo_transition 5 Inv_Provider_Wait None, demo_transition 6 Inv_Finalizing_Response None,
         demo_transition 7 Inv_Stopping (Some Stop_Completed),
         demo_transition 8 Inv_Collecting_Evidence (Some Stop_Completed),
         demo_transition 9 Inv_Stopped (Some Stop_Completed)],
      le_initialization = demo_initialization, le_response_finalization = Some demo_finalization,
      le_shutdown = demo_shutdown\<rparr>"

lemma demo_lifecycle_accepted: "validate_lifecycle demo_lifecycle = Inr ()"
  by code_simp

theorem accepted_lifecycle_shape_witness:
  "\<exists>work s c f. le_transitions demo_lifecycle = work @ [s, c, f] \<and> work \<noteq> [] \<and>
      lt_phase (hd work) = Inv_Launched \<and> lt_stop_reason s = Some Stop_Completed"
proof -
  obtain work s c f where "le_transitions demo_lifecycle = work @ [s, c, f]" "work \<noteq> []"
    "lt_phase (hd work) = Inv_Launched"
    "map lt_stop_reason [s, c, f] = replicate 3 (Some (se_reason (le_shutdown demo_lifecycle)))"
    using accepted_lifecycle_shape [OF demo_lifecycle_accepted] by (elim exE conjE) rule
  moreover from this(4) have "lt_stop_reason s = Some Stop_Completed"
    by (simp add: numeral_3_eq_3 demo_lifecycle_def demo_shutdown_def)
  ultimately show ?thesis by blast
qed

end
