(* ===== verification/Lifecycle_Recorder.thy ===== *)
theory Lifecycle_Recorder
  imports Invocation_Lifecycle
begin

text \<open>
  The execution adapter's record of one running invocation (\<open>execution.py\<close>): the guard policies,
  the activities it publishes, and \<open>_InvocationLifecycleRecorder\<close>, the one place where the phase
  changes. Each method is a function from recorder to recorder that may raise; the methods of one
  recorder are serialized by its lock, so each is one step.

  The observer (\<open>activity_handler\<close>) is a function that says for the \<open>n\<close>-th activity it is given
  whether it returns (an exception of the observer is swallowed). \<open>rc_published\<close> is what was
  handed to it. Times are rational seconds; \<open>rc_elapsed\<close> is \<open>elapsed_ms\<close>. The terminal preview of an activity
  (\<open>presentation\<close>) is not modelled. \<open>re_grace_text\<close> is the number \<open>{grace:g}\<close> of a message.
\<close>

section \<open>Policies\<close>

text \<open>\<open>InitializationLivenessPolicy\<close> and \<open>ResponseFinalizationPolicy\<close> have the same fields.\<close>

record guard_policy =
  gp_no_progress_seconds :: rat
  gp_stall_grace_seconds :: rat
  gp_source :: string

definition validate_guard_policy :: "string \<Rightarrow> guard_policy \<Rightarrow> fault + unit" where
  "validate_guard_policy message p = first_error
     [(gp_no_progress_seconds p \<le> 0, Field_Invalid ''no_progress_seconds''),
      (gp_stall_grace_seconds p \<le> 0, Field_Invalid ''stall_grace_seconds''),
      (gp_source p = [] \<or> 300 < length (gp_source p), Field_Invalid ''source''),
      (gp_no_progress_seconds p \<le> gp_stall_grace_seconds p, Value_Error message)]"

definition validate_initialization_policy :: "guard_policy \<Rightarrow> fault + unit" where
  "validate_initialization_policy =
     validate_guard_policy ''initialization grace must be shorter than its ceiling''"

definition validate_finalization_policy :: "guard_policy \<Rightarrow> fault + unit" where
  "validate_finalization_policy =
     validate_guard_policy ''response-finalization grace must be shorter than its ceiling''"

definition suspect_after :: "guard_policy \<Rightarrow> rat" where
  "suspect_after p = gp_no_progress_seconds p - gp_stall_grace_seconds p"

record provider_policy =
  pp_model :: string
  pp_silence_seconds :: rat
  pp_stall_grace_seconds :: rat
  pp_source :: string

definition validate_provider_policy :: "provider_policy \<Rightarrow> fault + unit" where
  "validate_provider_policy p = first_error
     [(pp_model p = [], Field_Invalid ''model''),
      (pp_silence_seconds p \<le> 0, Field_Invalid ''silence_seconds''),
      (pp_stall_grace_seconds p \<le> 0, Field_Invalid ''stall_grace_seconds''),
      (pp_source p = [] \<or> 300 < length (pp_source p), Field_Invalid ''source''),
      (pp_silence_seconds p \<le> pp_stall_grace_seconds p,
        Value_Error ''provider stall grace must be shorter than the lease'')]"

definition provider_suspect_after :: "provider_policy \<Rightarrow> rat" where
  "provider_suspect_after p = pp_silence_seconds p - pp_stall_grace_seconds p"

section \<open>Activities\<close>

datatype activity_kind =
    Act_Launched | Act_Initializing | Act_Initialization_Progress
  | Act_Initialization_Degraded | Act_Initialization_Suspected | Act_Initialization_Recovered
  | Act_Initialization_Stalled | Act_Provider_Wait | Act_Tool_Active | Act_Finalizing_Response
  | Act_Stopping | Act_Collecting_Evidence | Act_Stopped | Act_Provider_Stream | Act_Tool_Started
  | Act_Tool_Completed | Act_Liveness_Degraded | Act_Stall_Suspected | Act_Stall_Recovered
  | Act_Provider_Stalled | Act_Finalization_Progress | Act_Finalization_Suspected
  | Act_Finalization_Recovered | Act_Finalization_Stalled

datatype tool_action =
    Action_Inspecting | Action_Editing | Action_Testing | Action_Building | Action_Running
  | Action_Preparing | Action_Submitting

datatype tool_target =
    Target_Project_Content | Target_Project_Files | Target_Quality_Checks | Target_Version_Control
  | Target_Review_Probe | Target_Typed_Artifact | Target_Sandbox_Workspace

record tool_activity =
  ta_tool_name :: string
  ta_executable :: "string option"

text \<open>\<open>executable.rsplit("/", maxsplit=1)[-1]\<close>: what follows the last slash.\<close>

definition base_name :: "string \<Rightarrow> string" where
  "base_name s = rev (takeWhile (\<lambda>c. c \<noteq> CHR ''/'') (rev s))"

definition classify_executable :: "string \<Rightarrow> tool_action \<times> tool_target \<times> string option" where
  "classify_executable x =
     (if x \<in> {''pytest'', ''ruff'', ''mypy'', ''pyright'', ''eslint''}
      then (Action_Testing, Target_Quality_Checks, Some x)
      else if x = ''git'' then (Action_Inspecting, Target_Version_Control, Some x)
      else if x = ''sat-probe-run'' then (Action_Testing, Target_Review_Probe, Some x)
      else if x = ''sat-probe-write'' then (Action_Preparing, Target_Review_Probe, Some x)
      else if x \<in> {''uv'', ''pip'', ''npm'', ''pnpm'', ''yarn'', ''make''}
      then (Action_Building, Target_Sandbox_Workspace, Some x)
      else if x \<in> {''cat'', ''find'', ''grep'', ''head'', ''ls'', ''pwd'', ''read'', ''readlink'', ''rg'', ''sed'',
                  ''stat'', ''tail''}
      then (Action_Inspecting, Target_Project_Content, Some x)
      else (Action_Running, Target_Sandbox_Workspace, None))"

definition classify_tool :: "tool_activity \<Rightarrow> tool_action \<times> tool_target \<times> string option" where
  "classify_tool a =
     (let tool = ta_tool_name a in
      if tool = ''read'' then (Action_Inspecting, Target_Project_Content, Some ''read'')
      else if tool \<in> {''write'', ''edit'', ''apply_patch''}
      then (Action_Editing, Target_Project_Files, Some tool)
      else if tool = ''sat_submit_artifact'' then (Action_Submitting, Target_Typed_Artifact, None)
      else case ta_executable a of
        Some x \<Rightarrow> if tool = ''exec'' then classify_executable (base_name x)
                  else (Action_Running, Target_Sandbox_Workspace, None)
      | None \<Rightarrow> (Action_Running, Target_Sandbox_Workspace, None))"

record activity =
  ac_kind :: activity_kind
  ac_agent_id :: string
  ac_session_key :: string
  ac_model :: "string option"
  ac_elapsed_ms :: int
  ac_trusted_count :: int
  ac_active_tools :: int
  ac_completed_tools :: int
  ac_inactivity_ms :: int
  ac_silence_seconds :: "rat option"
  ac_stall_grace_seconds :: "rat option"
  ac_policy_source :: "string option"
  ac_degradation_reason :: "string option"
  ac_phase :: "invocation_phase option"
  ac_stop_reason :: "invocation_stop_reason option"
  ac_checkpoint :: "initialization_checkpoint option"
  ac_shutdown_grace :: "rat option"
  ac_action :: "string option"
  ac_tool_action :: "tool_action option"
  ac_tool_target :: "tool_target option"
  ac_tool_detail :: "string option"

definition tool_detail_pattern :: "string \<Rightarrow> bool" where
  "tool_detail_pattern s \<longleftrightarrow>
     (case s of [] \<Rightarrow> False
      | c # cs \<Rightarrow> (is_alpha c \<or> is_digit_char c) \<and> length cs \<le> 63 \<and>
          list_all (\<lambda>d. is_alpha d \<or> is_digit_char d \<or> d \<in> set ''._+-'') cs)"

definition activity_fields :: "activity \<Rightarrow> fault + unit" where
  "activity_fields a = first_error
     [(\<not> ident_pattern (ac_agent_id a), Field_Invalid ''agent_id''),
      (ac_session_key a = [], Field_Invalid ''session_key''),
      (\<not> opt_all (\<lambda>m. m \<noteq> []) (ac_model a), Field_Invalid ''model''),
      (ac_elapsed_ms a < 0, Field_Invalid ''elapsed_ms''),
      (ac_trusted_count a < 0, Field_Invalid ''trusted_activity_count''),
      (ac_active_tools a < 0, Field_Invalid ''active_tool_count''),
      (ac_completed_tools a < 0, Field_Invalid ''completed_tool_count''),
      (ac_inactivity_ms a < 0, Field_Invalid ''inactivity_ms''),
      (\<not> opt_all (\<lambda>s. 0 < s) (ac_silence_seconds a), Field_Invalid ''silence_seconds''),
      (\<not> opt_all (\<lambda>s. 0 < s) (ac_stall_grace_seconds a), Field_Invalid ''stall_grace_seconds''),
      (\<not> opt_all (\<lambda>s. s \<noteq> [] \<and> length s \<le> 300) (ac_policy_source a), Field_Invalid ''policy_source''),
      (\<not> opt_all (\<lambda>s. s \<noteq> [] \<and> length s \<le> 500) (ac_degradation_reason a),
        Field_Invalid ''degradation_reason''),
      (\<not> opt_all (\<lambda>s. 0 < s) (ac_shutdown_grace a), Field_Invalid ''shutdown_grace_seconds''),
      (\<not> opt_all (\<lambda>s. s \<noteq> [] \<and> length s \<le> 500) (ac_action a), Field_Invalid ''action''),
      (\<not> opt_all tool_detail_pattern (ac_tool_detail a), Field_Invalid ''tool_detail'')]"

fun kind_phase :: "activity_kind \<Rightarrow> invocation_phase option" where
  "kind_phase Act_Launched = Some Inv_Launched"
| "kind_phase Act_Initializing = Some Inv_Initializing"
| "kind_phase Act_Provider_Wait = Some Inv_Provider_Wait"
| "kind_phase Act_Tool_Active = Some Inv_Tool_Active"
| "kind_phase Act_Finalizing_Response = Some Inv_Finalizing_Response"
| "kind_phase Act_Stopping = Some Inv_Stopping"
| "kind_phase Act_Collecting_Evidence = Some Inv_Collecting_Evidence"
| "kind_phase Act_Stopped = Some Inv_Stopped"
| "kind_phase _ = None"

definition no_policy :: "activity \<Rightarrow> bool" where
  "no_policy a \<longleftrightarrow> ac_silence_seconds a = None \<or> ac_stall_grace_seconds a = None \<or> ac_policy_source a = None"

definition check_activity :: "activity \<Rightarrow> fault + unit" where
  "check_activity a =
     (let k = ac_kind a;
          tools = (ac_tool_action a \<noteq> None \<and> ac_tool_target a \<noteq> None)
      in first_error
       [((k \<in> {Act_Liveness_Degraded, Act_Initialization_Degraded}) \<noteq> (ac_degradation_reason a \<noteq> None),
          Value_Error ''only degraded liveness activity may contain a degradation reason''),
        (k \<in> {Act_Provider_Stream, Act_Tool_Started, Act_Tool_Completed, Act_Liveness_Degraded,
              Act_Stall_Suspected, Act_Stall_Recovered, Act_Provider_Stalled} \<and> no_policy a,
          Value_Error ''provider activity requires its liveness policy''),
        (k \<in> {Act_Initialization_Progress, Act_Initialization_Degraded, Act_Initialization_Suspected,
              Act_Initialization_Recovered, Act_Initialization_Stalled} \<and> no_policy a,
          Value_Error ''initialization activity requires its guard policy''),
        (k \<in> {Act_Finalization_Progress, Act_Finalization_Suspected, Act_Finalization_Recovered,
              Act_Finalization_Stalled} \<and> no_policy a,
          Value_Error ''response-finalization activity requires its guard policy''),
        ((kind_phase k \<noteq> None) \<noteq> (ac_phase a \<noteq> None),
          Value_Error ''lifecycle activity requires exactly one invocation phase''),
        (kind_phase k \<noteq> None \<and> ac_phase a \<noteq> kind_phase k,
          Value_Error ''lifecycle activity kind must match its invocation phase''),
        ((k \<in> {Act_Stopping, Act_Collecting_Evidence, Act_Stopped}) \<noteq> (ac_stop_reason a \<noteq> None),
          Value_Error ''shutdown activity requires exactly one typed stop reason''),
        (ac_shutdown_grace a \<noteq> None \<and> k \<noteq> Act_Stopping,
          Value_Error ''shutdown grace belongs only to the stopping transition''),
        (ac_checkpoint a \<noteq> None \<and> k \<notin> {Act_Initializing, Act_Provider_Wait,
             Act_Initialization_Progress, Act_Initialization_Suspected, Act_Initialization_Recovered,
             Act_Initialization_Stalled},
          Value_Error ''initialization checkpoints belong only to initialization readiness''),
        ((ac_tool_action a = None) \<noteq> (ac_tool_target a = None),
          Value_Error ''tool action and target classes must appear together''),
        ((tools \<or> ac_tool_detail a \<noteq> None) \<and> k \<notin> {Act_Tool_Started, Act_Tool_Completed},
          Value_Error ''tool classification belongs only to tool history events'')])"

definition validate_activity :: "activity \<Rightarrow> fault + unit" where
  "validate_activity a = ebind (activity_fields a) (\<lambda>_. check_activity a)"

section \<open>The recorder\<close>

record recorder_env =
  re_agent_id :: string
  re_session_key :: string
  re_model :: "string option"
  re_started :: rat
  re_grace_seconds :: rat
  re_grace_text :: string
  re_initialization_policy :: guard_policy
  re_finalization_policy :: guard_policy
  re_handler :: "(nat \<Rightarrow> activity \<Rightarrow> bool) option"

record recorder =
  rc_transitions :: "lifecycle_transition list"
  rc_phase :: "invocation_phase option"
  rc_stop_reason :: "invocation_stop_reason option"
  rc_stop_started :: "rat option"
  rc_process_started :: bool
  rc_group_targeted :: bool
  rc_terminate_sent :: bool
  rc_kill_sent :: bool
  rc_lease_released :: bool
  rc_active_tools :: int
  rc_completed_tools :: int
  rc_wait :: "wait_diagnostic list"
  rc_initialization :: initialization_evidence
  rc_finalization :: finalization_evidence
  rc_published :: "activity list"

definition rc_elapsed :: "recorder_env \<Rightarrow> rat \<Rightarrow> int" where
  "rc_elapsed e now = max 0 (round_half_even ((now - re_started e) * 1000))"

text \<open>An activity without the fields that only some kinds have.\<close>

definition plain_activity :: "recorder_env \<Rightarrow> activity_kind \<Rightarrow> int \<Rightarrow> activity" where
  "plain_activity e kind elapsed =
     \<lparr>ac_kind = kind, ac_agent_id = re_agent_id e, ac_session_key = re_session_key e,
      ac_model = re_model e, ac_elapsed_ms = elapsed, ac_trusted_count = 0, ac_active_tools = 0,
      ac_completed_tools = 0, ac_inactivity_ms = 0, ac_silence_seconds = None,
      ac_stall_grace_seconds = None, ac_policy_source = None, ac_degradation_reason = None,
      ac_phase = None, ac_stop_reason = None, ac_checkpoint = None, ac_shutdown_grace = None,
      ac_action = None, ac_tool_action = None, ac_tool_target = None, ac_tool_detail = None\<rparr>"

definition with_guard :: "guard_policy \<Rightarrow> activity \<Rightarrow> activity" where
  "with_guard p a =
     a\<lparr>ac_silence_seconds := Some (gp_no_progress_seconds p),
       ac_stall_grace_seconds := Some (gp_stall_grace_seconds p),
       ac_policy_source := Some (gp_source p)\<rparr>"

text \<open>\<open>_emit\<close>: whether the observer took the activity.\<close>

definition deliver :: "recorder_env \<Rightarrow> activity \<Rightarrow> recorder \<Rightarrow> bool \<times> recorder" where
  "deliver e a r =
     (if rc_stop_reason r \<noteq> None \<and> \<not> (\<exists>p \<in> set_option (ac_phase a). shutdown_phase p) then (True, r)
      else case re_handler e of
        None \<Rightarrow> (True, r)
      | Some handler \<Rightarrow>
          (handler (length (rc_published r)) a, r\<lparr>rc_published := rc_published r @ [a]\<rparr>))"

fun phase_activity :: "invocation_phase \<Rightarrow> activity_kind" where
  "phase_activity Inv_Launched = Act_Launched"
| "phase_activity Inv_Initializing = Act_Initializing"
| "phase_activity Inv_Provider_Wait = Act_Provider_Wait"
| "phase_activity Inv_Tool_Active = Act_Tool_Active"
| "phase_activity Inv_Finalizing_Response = Act_Finalizing_Response"
| "phase_activity Inv_Stopping = Act_Stopping"
| "phase_activity Inv_Collecting_Evidence = Act_Collecting_Evidence"
| "phase_activity Inv_Stopped = Act_Stopped"

definition phase_record :: "recorder_env \<Rightarrow> lifecycle_transition \<Rightarrow> recorder \<Rightarrow> activity" where
  "phase_record e t r =
     (plain_activity e (phase_activity (lt_phase t)) (lt_elapsed_ms t))
       \<lparr>ac_phase := Some (lt_phase t), ac_stop_reason := lt_stop_reason t,
        ac_checkpoint := lt_checkpoint t,
        ac_shutdown_grace := (if lt_phase t = Inv_Stopping then Some (re_grace_seconds e) else None),
        ac_action := lt_action t, ac_active_tools := rc_active_tools r,
        ac_completed_tools := rc_completed_tools r\<rparr>"

definition emit_phase :: "recorder_env \<Rightarrow> lifecycle_transition \<Rightarrow> recorder \<Rightarrow> fault + recorder" where
  "emit_phase e t r =
     ebind (validate_activity (phase_record e t r)) (\<lambda>_. Inr (snd (deliver e (phase_record e t r) r)))"

definition repeats :: "recorder \<Rightarrow> lifecycle_transition \<Rightarrow> bool" where
  "repeats r t \<longleftrightarrow> rc_transitions r \<noteq> [] \<and>
     (let p = last (rc_transitions r) in
      lt_phase p = lt_phase t \<and> lt_stop_reason p = lt_stop_reason t \<and>
      lt_checkpoint p = lt_checkpoint t \<and> lt_action p = lt_action t)"

definition next_transition ::
    "recorder_env \<Rightarrow> invocation_phase \<Rightarrow> rat \<Rightarrow> invocation_stop_reason option \<Rightarrow>
     initialization_checkpoint option \<Rightarrow> string \<Rightarrow> recorder \<Rightarrow> lifecycle_transition" where
  "next_transition e phase now reason checkpoint action r =
     \<lparr>lt_sequence = int (length (rc_transitions r)) + 1, lt_phase = phase,
      lt_elapsed_ms = rc_elapsed e now, lt_stop_reason = reason, lt_checkpoint = checkpoint,
      lt_action = Some action\<rparr>"

text \<open>\<open>transition\<close>: after a stop reason is owned only the shutdown phases are recorded, and a
  repetition of the last transition is dropped.\<close>

definition enter_phase ::
    "recorder_env \<Rightarrow> invocation_phase \<Rightarrow> rat \<Rightarrow> invocation_stop_reason option \<Rightarrow>
     initialization_checkpoint option \<Rightarrow> string \<Rightarrow> recorder \<Rightarrow> fault + recorder" where
  "enter_phase e phase now reason checkpoint action r =
     (if rc_stop_reason r \<noteq> None \<and> \<not> shutdown_phase phase then Inr r
      else let t = next_transition e phase now reason checkpoint action r in
        ebind (validate_lifecycle_transition t) (\<lambda>_.
        if repeats r t then Inr r
        else emit_phase e t (r\<lparr>rc_transitions := rc_transitions r @ [t], rc_phase := Some phase\<rparr>)))"

definition new_recorder :: "recorder_env \<Rightarrow> recorder" where
  "new_recorder e =
     \<lparr>rc_transitions = [], rc_phase = None, rc_stop_reason = None, rc_stop_started = None,
      rc_process_started = False, rc_group_targeted = False, rc_terminate_sent = False,
      rc_kill_sent = False, rc_lease_released = True, rc_active_tools = 0, rc_completed_tools = 0,
      rc_wait = [],
      rc_initialization =
        \<lparr>ie_mode = Init_Unavailable, ie_policy_source = gp_source (re_initialization_policy e),
         ie_no_progress_seconds = gp_no_progress_seconds (re_initialization_policy e),
         ie_stall_grace_seconds = gp_stall_grace_seconds (re_initialization_policy e),
         ie_baseline = None, ie_baseline_turns = 0, ie_checkpoints = [],
         ie_activity_observations = 0, ie_activity_given = False, ie_suspected_count = 0,
         ie_recovered_count = 0, ie_maximum_no_progress_ms = 0, ie_stalled = False,
         ie_degradation_reason = Some ''subprocess initialization was not observed''\<rparr>,
      rc_finalization =
        \<lparr>fe_enforced = False, fe_policy_source = gp_source (re_finalization_policy e),
         fe_no_progress_seconds = gp_no_progress_seconds (re_finalization_policy e),
         fe_stall_grace_seconds = gp_stall_grace_seconds (re_finalization_policy e),
         fe_terminal_observed = False, fe_output_observations = 0, fe_suspected_count = 0,
         fe_recovered_count = 0, fe_maximum_no_progress_ms = 0, fe_stalled = False\<rparr>,
      rc_published = []\<rparr>"

definition open_recorder :: "recorder_env \<Rightarrow> fault + recorder" where
  "open_recorder e =
     ebind (validate_initialization (rc_initialization (new_recorder e))) (\<lambda>_.
     ebind (validate_finalization (rc_finalization (new_recorder e))) (\<lambda>_.
     enter_phase e Inv_Launched (re_started e) None None
       ''Controller handed the invocation to the execution adapter'' (new_recorder e)))"

section \<open>The recorder's operations\<close>

definition process_launched :: "recorder_env \<Rightarrow> rat \<Rightarrow> bool \<Rightarrow> recorder \<Rightarrow> fault + recorder" where
  "process_launched e now group_targeted r =
     enter_phase e Inv_Initializing now None (Some Chk_Process_Launched)
       ''OpenClaw process launched; waiting for an attributable current turn''
       (r\<lparr>rc_process_started := True, rc_group_targeted := group_targeted,
          rc_lease_released := False\<rparr>)"

definition initialization_activity ::
    "recorder_env \<Rightarrow> activity_kind \<Rightarrow> rat \<Rightarrow> initialization_checkpoint option \<Rightarrow> int \<Rightarrow> recorder \<Rightarrow> activity" where
  "initialization_activity e kind now checkpoint inactivity r =
     (with_guard (re_initialization_policy e) (plain_activity e kind (rc_elapsed e now)))
       \<lparr>ac_inactivity_ms := inactivity, ac_checkpoint := checkpoint,
        ac_degradation_reason :=
          (if kind = Act_Initialization_Degraded then ie_degradation_reason (rc_initialization r)
           else None)\<rparr>"

definition emit_initialization ::
    "recorder_env \<Rightarrow> activity_kind \<Rightarrow> rat \<Rightarrow> initialization_checkpoint option \<Rightarrow> int \<Rightarrow> recorder \<Rightarrow>
     fault + recorder" where
  "emit_initialization e kind now checkpoint inactivity r =
     (let a = initialization_activity e kind now checkpoint inactivity r in
      ebind (validate_activity a) (\<lambda>_. Inr (snd (deliver e a r))))"

fun checkpoint_value :: "initialization_checkpoint \<Rightarrow> string" where
  "checkpoint_value Chk_Process_Launched = ''process_launched''"
| "checkpoint_value Chk_Session_Directory = ''session_directory''"
| "checkpoint_value Chk_Session_Index = ''session_index''"
| "checkpoint_value Chk_Session_Bound = ''session_bound''"
| "checkpoint_value Chk_Transcript_Header = ''transcript_header''"
| "checkpoint_value Chk_Current_Turn = ''current_turn''"
| "checkpoint_value Chk_Provider_Stream = ''provider_stream''"

definition initialization_progress ::
    "recorder_env \<Rightarrow> initialization_checkpoint \<Rightarrow> rat \<Rightarrow> recorder \<Rightarrow> fault + recorder" where
  "initialization_progress e checkpoint now r =
     ebind (enter_phase e Inv_Initializing now None (Some checkpoint)
       (''OpenClaw initialization reached '' @ checkpoint_value checkpoint) r)
     (emit_initialization e Act_Initialization_Progress now (Some checkpoint) 0)"

definition provider_ready ::
    "recorder_env \<Rightarrow> initialization_checkpoint \<Rightarrow> rat \<Rightarrow> recorder \<Rightarrow> fault + recorder" where
  "provider_ready e checkpoint now r =
     (if rc_phase r \<in> Some ` {Inv_Provider_Wait, Inv_Tool_Active, Inv_Finalizing_Response, Inv_Stopping,
          Inv_Collecting_Evidence, Inv_Stopped} then Inr r
      else enter_phase e Inv_Provider_Wait now None (Some checkpoint)
        ''Provider activity lease is now attributable to this invocation'' r)"

definition int_text :: "int \<Rightarrow> string" where
  "int_text n = (if n < 0 then ''-'' @ decimal (nat (- n)) else decimal (nat n))"

definition tool_state :: "recorder_env \<Rightarrow> int \<Rightarrow> int \<Rightarrow> rat \<Rightarrow> recorder \<Rightarrow> fault + recorder" where
  "tool_state e active completed now r =
     (let desired = (if 0 < active then Inv_Tool_Active else Inv_Provider_Wait);
          r1 = r\<lparr>rc_active_tools := active, rc_completed_tools := completed\<rparr> in
      if rc_phase r \<in> Some ` {Inv_Stopping, Inv_Collecting_Evidence, Inv_Stopped,
           Inv_Finalizing_Response} \<or> rc_phase r = Some desired then Inr r1
      else if desired = Inv_Tool_Active
      then enter_phase e desired now None None
        (int_text active @ '' attributable tool operation(s) active'') r1
      else enter_phase e desired now None None
        ''Attributable tools completed; waiting for provider activity'' r1)"

definition response_finalizing :: "recorder_env \<Rightarrow> rat \<Rightarrow> recorder \<Rightarrow> fault + recorder" where
  "response_finalizing e now r =
     (if rc_phase r \<in> Some ` {Inv_Finalizing_Response, Inv_Stopping, Inv_Collecting_Evidence,
          Inv_Stopped} then Inr r
      else enter_phase e Inv_Finalizing_Response now None None
        (''Terminal provider response observed; OpenClaw is finalizing its '' @
         ''result envelope and process'') r)"

definition request_stop ::
    "recorder_env \<Rightarrow> invocation_stop_reason \<Rightarrow> rat \<Rightarrow> string \<Rightarrow> recorder \<Rightarrow> fault + (bool \<times> recorder)" where
  "request_stop e reason now action r =
     (if rc_stop_reason r \<noteq> None then Inr (False, r)
      else ebind (enter_phase e Inv_Stopping now (Some reason) None action
             (r\<lparr>rc_stop_reason := Some reason, rc_stop_started := Some now\<rparr>))
           (\<lambda>r1. Inr (True, r1)))"

text \<open>What \<open>finalize\<close> reads of the invocation's telemetry and submission evidence.\<close>

record telemetry_view =
  tv_duration_ms :: int
  tv_exit_code :: "int option"
  tv_session_status :: string
  tv_submission_status :: "string option"

definition shutdown_of :: "recorder_env \<Rightarrow> invocation_stop_reason \<Rightarrow> telemetry_view \<Rightarrow> recorder \<Rightarrow> shutdown_evidence" where
  "shutdown_of e reason tv r =
     (let code = (if rc_process_started r then tv_exit_code tv else None) in
      \<lparr>se_reason = reason, se_grace_seconds = re_grace_seconds e,
       se_process_started = rc_process_started r,
       se_group_targeted = (rc_group_targeted r \<and> rc_terminate_sent r),
       se_terminate_sent = rc_terminate_sent r, se_kill_sent = rc_kill_sent r,
       se_exit_code = (case code of Some c \<Rightarrow> if 0 \<le> c then Some c else None | None \<Rightarrow> None),
       se_signal = (case code of Some c \<Rightarrow> if c < 0 then Some (- c) else None | None \<Rightarrow> None),
       se_stdout_collected = True, se_stderr_collected = True,
       se_session_status = tv_session_status tv,
       se_submission_status = the_or (tv_submission_status tv) ''not_configured'',
       se_lease_released = rc_lease_released r,
       se_cleanup_completed =
         ((\<not> rc_process_started r \<or> tv_exit_code tv \<noteq> None) \<and> rc_lease_released r)\<rparr>)"

definition recorded_lifecycle :: "shutdown_evidence \<Rightarrow> recorder \<Rightarrow> lifecycle_evidence" where
  "recorded_lifecycle shutdown r =
     \<lparr>le_schema_version = 5, le_initialization_wait = rc_wait r, le_wait_given = True,
      le_transitions = rc_transitions r, le_initialization = rc_initialization r,
      le_response_finalization = Some (rc_finalization r), le_shutdown = shutdown\<rparr>"

definition finalize_lifecycle ::
    "recorder_env \<Rightarrow> invocation_stop_reason \<Rightarrow> telemetry_view \<Rightarrow> recorder \<Rightarrow>
     fault + (lifecycle_evidence \<times> recorder)" where
  "finalize_lifecycle e reason tv r =
     (let now = re_started e + of_int (tv_duration_ms tv) / 1000;
          owned = the_or (rc_stop_reason r) reason in
      ebind (enter_phase e Inv_Collecting_Evidence now (Some owned) None
        (''Collected stdout/stderr and checked attributable session and '' @ ''submission evidence'')
        (r\<lparr>rc_stop_reason := Some owned\<rparr>)) (\<lambda>r1.
      ebind (enter_phase e Inv_Stopped now (Some owned) None
        ''Exact invocation process outcome and cleanup are known'' r1) (\<lambda>r2.
      let shutdown = shutdown_of e owned tv r2 in
      ebind (validate_shutdown shutdown) (\<lambda>_.
      ebind (validate_lifecycle (recorded_lifecycle shutdown r2)) (\<lambda>_.
      Inr (recorded_lifecycle shutdown r2, r2))))))"

text \<open>\<open>_finalize_lifecycle_result\<close>: every result of \<open>execute\<close> passes through it.\<close>

definition finalize_result ::
    "recorder_env \<Rightarrow> invocation_stop_reason \<Rightarrow> telemetry_view \<Rightarrow> recorder \<Rightarrow>
     fault + (lifecycle_evidence \<times> recorder)" where
  "finalize_result e reason tv r =
     ebind (request_stop e reason (re_started e + of_int (tv_duration_ms tv) / 1000)
       ''Invocation work ended; entering the controlled stop protocol'' r) (\<lambda>(_, r1).
     finalize_lifecycle e reason tv r1)"

end
