(* ===== verification/Liveness_Monitors.thy ===== *)
theory Liveness_Monitors
  imports Lifecycle_Recorder
begin

text \<open>
  The three observers of a running invocation (\<open>execution.py\<close>), each polled by the supervising
  loop: \<open>_InitializationLivenessMonitor\<close> until the current turn is attributable,
  \<open>_ProviderLivenessMonitor\<close> while the provider works, \<open>_ResponseFinalizationMonitor\<close> after its
  terminal response. A \<open>watch\<close> holds their states and the recorder's.

  What a monitor reads from outside is an argument of its poll: the checkpoint that
  \<open>inspect_openclaw_initialization\<close> finds, a process snapshot, whether the private stream had new
  data, the session facts of \<open>inspect_openclaw_session_activity\<close>, the lengths of the process
  output. The previews a provider monitor keeps for the terminal are not modelled.
\<close>

section \<open>Provider liveness evidence\<close>

datatype lease_source = Lease_Current_Turn | Lease_Provider_Stream

record provider_evidence =
  pe_degraded :: bool
  pe_policy_source :: string
  pe_silence_seconds :: rat
  pe_stall_grace_seconds :: rat
  pe_lease_started :: bool
  pe_lease_source :: "lease_source option"
  pe_raw_stream_observed :: bool
  pe_session_observed :: bool
  pe_activity_observations :: int
  pe_tool_started :: int
  pe_tool_completed :: int
  pe_suspected_count :: int
  pe_recovered_count :: int
  pe_maximum_inactivity_ms :: int
  pe_stalled :: bool
  pe_terminal_observed :: bool
  pe_degradation_reason :: "string option"

definition validate_provider_evidence :: "provider_evidence \<Rightarrow> fault + unit" where
  "validate_provider_evidence e = first_error
     [(pe_policy_source e = [] \<or> 300 < length (pe_policy_source e), Field_Invalid ''policy_source''),
      (pe_silence_seconds e \<le> 0, Field_Invalid ''silence_seconds''),
      (pe_stall_grace_seconds e \<le> 0, Field_Invalid ''stall_grace_seconds''),
      (pe_activity_observations e < 0, Field_Invalid ''provider_activity_observations''),
      (pe_tool_started e < 0, Field_Invalid ''tool_started_count''),
      (pe_tool_completed e < 0, Field_Invalid ''tool_completed_count''),
      (pe_suspected_count e < 0, Field_Invalid ''stall_suspected_count''),
      (pe_recovered_count e < 0, Field_Invalid ''stall_recovered_count''),
      (pe_maximum_inactivity_ms e < 0, Field_Invalid ''maximum_inactivity_ms''),
      (\<not> opt_all (\<lambda>s. s \<noteq> [] \<and> length s \<le> 500) (pe_degradation_reason e),
        Field_Invalid ''degradation_reason''),
      (pe_degraded e \<noteq> (pe_degradation_reason e \<noteq> None),
        Value_Error ''degraded liveness requires exactly one reason''),
      (pe_stalled e \<and> pe_degraded e,
        Value_Error ''degraded liveness cannot declare a provider stall''),
      (pe_lease_started e \<noteq> (pe_lease_source e \<noteq> None),
        Value_Error ''started liveness requires exactly one start source''),
      (pe_stalled e \<and> \<not> pe_lease_started e,
        Value_Error ''provider stall requires a started liveness lease''),
      (pe_stalled e \<and> pe_terminal_observed e,
        Value_Error ''a terminal provider response cannot be provider-stalled'')]"

section \<open>Inputs\<close>

datatype initialization_reading = Initialization_Unreadable | Initialization_At "initialization_checkpoint option"

datatype stream_reading = Stream_Unreadable | Stream_Read bool

record session_activity =
  sa_progress_records :: int
  sa_tool_started :: int
  sa_tool_completed :: int
  sa_active_tools :: int
  sa_repeating :: bool
  sa_terminal :: bool
  sa_started_tools :: "tool_activity list"
  sa_completed_tools :: "tool_activity list"

datatype session_reading =
    Session_Unreadable string | Session_Lineage_Broken | Session_Facts "session_activity option"

section \<open>The state of the monitors\<close>

record init_monitor =
  im_last_progress :: rat
  im_observations :: int
  im_next_sample :: rat
  im_previous :: "wait_diagnostic option"
  im_checkpoints :: "initialization_checkpoint list"
  im_suspected :: bool
  im_ready :: bool
  im_stalled :: bool
  im_suspected_count :: int
  im_recovered_count :: int
  im_maximum_ms :: int
  im_degradation :: "string option"

record provider_monitor =
  pm_last_activity :: "rat option"
  pm_lease_source :: "lease_source option"
  pm_last_report :: "rat option"
  pm_progress_records :: int
  pm_tool_started :: int
  pm_tool_completed :: int
  pm_active_tools :: int
  pm_repeating :: bool
  pm_raw_observed :: bool
  pm_session_observed :: bool
  pm_observations :: int
  pm_qualified :: int
  pm_suspected_count :: int
  pm_recovered_count :: int
  pm_maximum_ms :: int
  pm_suspected :: bool
  pm_stalled :: bool
  pm_terminal :: bool
  pm_degradation :: "string option"
  pm_lineage_since :: "rat option"

record final_monitor =
  fm_terminal :: bool
  fm_last_progress :: "rat option"
  fm_stdout :: int
  fm_stderr :: int
  fm_output_observations :: int
  fm_suspected_count :: int
  fm_recovered_count :: int
  fm_maximum_ms :: int
  fm_suspected :: bool
  fm_stalled :: bool

text \<open>The baseline is the checkpoint and the number of matching turns that existed before the launch.
  \<open>me_monitor_start\<close> is the time the process was started.\<close>

record monitor_env = recorder_env +
  me_state_dir :: bool
  me_baseline :: "(initialization_checkpoint option \<times> int) option"
  me_identity_known :: bool
  me_provider_policy :: provider_policy
  me_monitor_start :: rat

record watch =
  wt_init :: init_monitor
  wt_provider :: provider_monitor
  wt_final :: final_monitor
  wt_recorder :: recorder

definition max_sample_seconds :: rat where "max_sample_seconds = 1"
definition samples_per_grace :: rat where "samples_per_grace = 4"
definition activity_report_seconds :: rat where "activity_report_seconds = 1"
definition lineage_recheck_seconds :: rat where "lineage_recheck_seconds = 3"

definition sample_interval :: "guard_policy \<Rightarrow> rat" where
  "sample_interval p = min max_sample_seconds (gp_stall_grace_seconds p / samples_per_grace)"

text \<open>\<open>round(max(0.0, now - last) * 1000)\<close>.\<close>

definition inactive_seconds :: "rat \<Rightarrow> rat \<Rightarrow> rat" where
  "inactive_seconds now since = max 0 (now - since)"

definition seconds_ms :: "rat \<Rightarrow> int" where
  "seconds_ms s = round_half_even (s * 1000)"

text \<open>A recorder operation inside a watch.\<close>

definition on_recorder :: "(recorder \<Rightarrow> fault + recorder) \<Rightarrow> watch \<Rightarrow> fault + watch" where
  "on_recorder f w = ebind (f (wt_recorder w)) (\<lambda>r. Inr (w\<lparr>wt_recorder := r\<rparr>))"

definition renv :: "monitor_env \<Rightarrow> recorder_env" where
  "renv e = recorder_env.truncate e"

section \<open>The initialization monitor\<close>

definition init_evidence :: "monitor_env \<Rightarrow> init_monitor \<Rightarrow> initialization_evidence" where
  "init_evidence e m =
     \<lparr>ie_mode = (if \<not> me_state_dir e then Init_Unavailable
        else if im_degradation m \<noteq> None then Init_Degraded else Init_Enforced),
      ie_policy_source = gp_source (re_initialization_policy e),
      ie_no_progress_seconds = gp_no_progress_seconds (re_initialization_policy e),
      ie_stall_grace_seconds = gp_stall_grace_seconds (re_initialization_policy e),
      ie_baseline = (case me_baseline e of None \<Rightarrow> None | Some (c, _) \<Rightarrow> c),
      ie_baseline_turns = (case me_baseline e of None \<Rightarrow> 0 | Some (_, n) \<Rightarrow> n),
      ie_checkpoints = im_checkpoints m, ie_activity_observations = im_observations m,
      ie_activity_given = True, ie_suspected_count = im_suspected_count m,
      ie_recovered_count = im_recovered_count m, ie_maximum_no_progress_ms = im_maximum_ms m,
      ie_stalled = im_stalled m, ie_degradation_reason = im_degradation m\<rparr>"

text \<open>\<open>lifecycle.set_initialization_evidence(self.evidence())\<close>.\<close>

definition record_initialization :: "monitor_env \<Rightarrow> watch \<Rightarrow> fault + watch" where
  "record_initialization e w =
     (let ev = init_evidence e (wt_init w) in
      ebind (validate_initialization ev) (\<lambda>_.
      Inr (w\<lparr>wt_recorder := (wt_recorder w)\<lparr>rc_initialization := ev\<rparr>\<rparr>)))"

definition tell_initialization ::
    "monitor_env \<Rightarrow> activity_kind \<Rightarrow> rat \<Rightarrow> initialization_checkpoint option \<Rightarrow> int \<Rightarrow> watch \<Rightarrow> fault + watch" where
  "tell_initialization e kind now checkpoint inactivity w =
     ebind (record_initialization e w)
       (on_recorder (emit_initialization (renv e) kind now checkpoint inactivity))"

definition new_init_monitor :: "monitor_env \<Rightarrow> init_monitor" where
  "new_init_monitor e =
     \<lparr>im_last_progress = me_monitor_start e, im_observations = 0, im_next_sample = me_monitor_start e,
      im_previous = None, im_checkpoints = [Chk_Process_Launched], im_suspected = False,
      im_ready = False, im_stalled = False, im_suspected_count = 0, im_recovered_count = 0,
      im_maximum_ms = 0, im_degradation = None\<rparr>"

definition degrade_initialization :: "monitor_env \<Rightarrow> string \<Rightarrow> rat \<Rightarrow> watch \<Rightarrow> fault + watch" where
  "degrade_initialization e reason now w =
     tell_initialization e Act_Initialization_Degraded now None 0
       (w\<lparr>wt_init := (wt_init w)\<lparr>im_degradation := Some reason\<rparr>\<rparr>)"

definition open_init_monitor :: "monitor_env \<Rightarrow> bool \<Rightarrow> watch \<Rightarrow> fault + watch" where
  "open_init_monitor e baseline_error w =
     (let w1 = w\<lparr>wt_init := new_init_monitor e\<rparr> in
      if \<not> me_state_dir e
      then degrade_initialization e
        ''OpenClaw state directory is unavailable for initialization observation''
        (me_monitor_start e) w1
      else if baseline_error
      then degrade_initialization e ''OpenClaw initialization baseline could not be attributed''
        (me_monitor_start e) w1
      else Inr w1)"

definition recover_initialization ::
    "monitor_env \<Rightarrow> initialization_checkpoint option \<Rightarrow> rat \<Rightarrow> watch \<Rightarrow> fault + watch" where
  "recover_initialization e checkpoint now w =
     tell_initialization e Act_Initialization_Recovered now checkpoint 0
       (w\<lparr>wt_init := (wt_init w)\<lparr>im_suspected := False,
          im_recovered_count := im_recovered_count (wt_init w) + 1\<rparr>\<rparr>)"

definition baseline_checkpoint :: "monitor_env \<Rightarrow> initialization_checkpoint option" where
  "baseline_checkpoint e = (case me_baseline e of None \<Rightarrow> None | Some (c, _) \<Rightarrow> c)"

definition implied_checkpoints ::
    "initialization_checkpoint option \<Rightarrow> initialization_checkpoint \<Rightarrow> initialization_checkpoint \<Rightarrow>
     initialization_checkpoint list" where
  "implied_checkpoints baseline latest checkpoint =
     (if checkpoint = Chk_Provider_Stream \<or> (\<exists>b \<in> set_option baseline. checkpoint \<le> b)
      then [checkpoint]
      else filter (\<lambda>c. c \<noteq> Chk_Provider_Stream \<and> latest < c \<and> c \<le> checkpoint \<and>
             opt_all (\<lambda>b. b < c) baseline) all_checkpoints)"

definition reach_checkpoint ::
    "monitor_env \<Rightarrow> rat \<Rightarrow> initialization_checkpoint \<Rightarrow> watch \<Rightarrow> fault + watch" where
  "reach_checkpoint e now candidate w =
     on_recorder (initialization_progress (renv e) candidate now)
       (w\<lparr>wt_init := (wt_init w)\<lparr>im_checkpoints := im_checkpoints (wt_init w) @ [candidate]\<rparr>\<rparr>)"

definition readiness :: "initialization_checkpoint \<Rightarrow> bool" where
  "readiness c \<longleftrightarrow> c = Chk_Current_Turn \<or> c = Chk_Provider_Stream"

definition advance_initialization ::
    "monitor_env \<Rightarrow> initialization_checkpoint \<Rightarrow> rat \<Rightarrow> watch \<Rightarrow> fault + watch" where
  "advance_initialization e checkpoint now w =
     (let latest = last (im_checkpoints (wt_init w)) in
      if checkpoint \<in> set (im_checkpoints (wt_init w)) then Inr w
      else if checkpoint < latest
      then degrade_initialization e ''OpenClaw initialization progress moved backwards'' now w
      else
        ebind (efold (reach_checkpoint e now)
          (implied_checkpoints (baseline_checkpoint e) latest checkpoint) w) (\<lambda>w1.
        let w2 = w1\<lparr>wt_init := (wt_init w1)\<lparr>im_last_progress := now\<rparr>\<rparr> in
        ebind (if im_suspected (wt_init w2) then recover_initialization e (Some checkpoint) now w2
               else Inr w2) (\<lambda>w3.
        if readiness checkpoint
        then on_recorder (provider_ready (renv e) checkpoint now)
          (w3\<lparr>wt_init := (wt_init w3)\<lparr>im_ready := True\<rparr>\<rparr>)
        else Inr w3)))"

definition mark_ready :: "monitor_env \<Rightarrow> initialization_checkpoint \<Rightarrow> rat \<Rightarrow> watch \<Rightarrow> fault + watch" where
  "mark_ready e checkpoint now w =
     (if im_ready (wt_init w) then Inr w
      else if \<not> readiness checkpoint
      then Inl (Value_Error ''provider readiness requires current-turn or stream evidence'')
      else advance_initialization e checkpoint now w)"

text \<open>\<open>_observe_process_activity\<close>: \<open>snapshot\<close> is what a sampling of the process tree returns now.\<close>

definition observe_process ::
    "monitor_env \<Rightarrow> wait_diagnostic \<Rightarrow> rat \<Rightarrow> watch \<Rightarrow> fault + watch" where
  "observe_process e snapshot now w =
     (let m = wt_init w in
      if \<not> me_identity_known e \<or> now < im_next_sample m then Inr w
      else let w1 = w\<lparr>wt_init := m\<lparr>im_previous := Some snapshot,
             im_next_sample := now + sample_interval (re_initialization_policy e)\<rparr>\<rparr> in
        if \<not> (\<exists>previous \<in> set_option (im_previous m). process_activity_detected previous snapshot)
        then Inr w1
        else let w2 = w1\<lparr>wt_init := (wt_init w1)\<lparr>im_observations := im_observations m + 1,
               im_last_progress := now\<rparr>\<rparr> in
          if im_suspected m then recover_initialization e None now w2 else Inr w2)"

definition note_init_inactivity :: "rat \<Rightarrow> watch \<Rightarrow> watch" where
  "note_init_inactivity now w =
     (let m = wt_init w in
      w\<lparr>wt_init := m\<lparr>im_maximum_ms :=
        max (im_maximum_ms m) (seconds_ms (inactive_seconds now (im_last_progress m)))\<rparr>\<rparr>)"

definition suspect_initialization :: "monitor_env \<Rightarrow> rat \<Rightarrow> watch \<Rightarrow> fault + watch" where
  "suspect_initialization e now w =
     (let m = wt_init w; inactive = inactive_seconds now (im_last_progress m) in
      if \<not> im_suspected m \<and> suspect_after (re_initialization_policy e) \<le> inactive
      then tell_initialization e Act_Initialization_Suspected now (Some (last (im_checkpoints m)))
        (seconds_ms inactive)
        (w\<lparr>wt_init := m\<lparr>im_suspected := True, im_suspected_count := im_suspected_count m + 1\<rparr>\<rparr>)
      else Inr w)"

definition stall_initialization :: "monitor_env \<Rightarrow> rat \<Rightarrow> watch \<Rightarrow> fault + (bool \<times> watch)" where
  "stall_initialization e now w =
     (let m = wt_init w; inactive = inactive_seconds now (im_last_progress m) in
      if im_suspected m \<and> gp_no_progress_seconds (re_initialization_policy e) \<le> inactive
      then ebind (tell_initialization e Act_Initialization_Stalled now
             (Some (last (im_checkpoints m))) (seconds_ms inactive)
             (w\<lparr>wt_init := m\<lparr>im_stalled := True\<rparr>\<rparr>)) (\<lambda>w1. Inr (True, w1))
      else ebind (record_initialization e w) (\<lambda>w1. Inr (False, w1)))"

definition poll_initialization ::
    "monitor_env \<Rightarrow> initialization_reading \<Rightarrow> wait_diagnostic \<Rightarrow> rat \<Rightarrow> watch \<Rightarrow> fault + (bool \<times> watch)" where
  "poll_initialization e reading snapshot now w =
     (let m = wt_init w in
      if im_ready m \<or> im_stalled m \<or> im_degradation m \<noteq> None then Inr (im_stalled m, w)
      else case reading of
        Initialization_Unreadable \<Rightarrow>
          ebind (degrade_initialization e
            ''OpenClaw initialization progress could not be attributed'' now w) (\<lambda>w1. Inr (False, w1))
      | Initialization_At observation \<Rightarrow>
          ebind (case observation of None \<Rightarrow> Inr w
                 | Some c \<Rightarrow> advance_initialization e c now w) (\<lambda>w1.
          ebind (if im_ready (wt_init w1) then Inr w1 else observe_process e snapshot now w1) (\<lambda>w2.
          let w3 = note_init_inactivity now w2 in
          if im_ready (wt_init w3)
          then ebind (record_initialization e w3) (\<lambda>w4. Inr (False, w4))
          else ebind (suspect_initialization e now w3) (stall_initialization e now))))"

definition finish_initialization ::
    "monitor_env \<Rightarrow> initialization_reading \<Rightarrow> wait_diagnostic \<Rightarrow> rat \<Rightarrow> watch \<Rightarrow> fault + watch" where
  "finish_initialization e reading snapshot now w =
     (let m = wt_init w in
      ebind (if \<not> im_ready m \<and> im_degradation m = None \<and> \<not> im_stalled m
             then ebind (poll_initialization e reading snapshot now w) (\<lambda>(_, w1). Inr w1)
             else Inr w) (record_initialization e))"

section \<open>The provider monitor\<close>

definition new_provider_monitor :: provider_monitor where
  "new_provider_monitor =
     \<lparr>pm_last_activity = None, pm_lease_source = None, pm_last_report = None,
      pm_progress_records = 0, pm_tool_started = 0, pm_tool_completed = 0, pm_active_tools = 0,
      pm_repeating = False, pm_raw_observed = False, pm_session_observed = False,
      pm_observations = 0, pm_qualified = 0, pm_suspected_count = 0, pm_recovered_count = 0,
      pm_maximum_ms = 0, pm_suspected = False, pm_stalled = False, pm_terminal = False,
      pm_degradation = None, pm_lineage_since = None\<rparr>"

definition provider_activity ::
    "monitor_env \<Rightarrow> activity_kind \<Rightarrow> rat \<Rightarrow> tool_activity option \<Rightarrow> provider_monitor \<Rightarrow> activity" where
  "provider_activity e kind now tool m =
     (let p = me_provider_policy e;
          inactivity = (case pm_last_activity m of None \<Rightarrow> 0 | Some t \<Rightarrow> inactive_seconds now t);
          class = map_option classify_tool tool
      in (plain_activity (renv e) kind (max 0 (seconds_ms (now - me_monitor_start e))))
        \<lparr>ac_trusted_count := pm_qualified m + pm_progress_records m,
         ac_active_tools := pm_active_tools m, ac_completed_tools := pm_tool_completed m,
         ac_inactivity_ms := max 0 (seconds_ms inactivity),
         ac_silence_seconds := Some (pp_silence_seconds p),
         ac_stall_grace_seconds := Some (pp_stall_grace_seconds p),
         ac_policy_source := Some (pp_source p),
         ac_degradation_reason := (if kind = Act_Liveness_Degraded then pm_degradation m else None),
         ac_tool_action := map_option fst class,
         ac_tool_target := map_option (\<lambda>(_, t, _). t) class,
         ac_tool_detail := (case class of Some (_, _, d) \<Rightarrow> d | None \<Rightarrow> None)\<rparr>)"

text \<open>\<open>_emit\<close>: an observer that fails degrades the monitor.\<close>

definition tell_provider ::
    "monitor_env \<Rightarrow> activity_kind \<Rightarrow> rat \<Rightarrow> tool_activity option \<Rightarrow> watch \<Rightarrow> fault + watch" where
  "tell_provider e kind now tool w =
     (if re_handler e = None then Inr w
      else let a = provider_activity e kind now tool (wt_provider w) in
        ebind (validate_activity a) (\<lambda>_.
        let (taken, r) = deliver (renv e) a (wt_recorder w); w1 = w\<lparr>wt_recorder := r\<rparr> in
        Inr (if taken then w1
             else w1\<lparr>wt_provider := (wt_provider w)\<lparr>pm_degradation :=
               Some ''provider liveness activity could not be reported''\<rparr>\<rparr>)))"

definition degrade_provider :: "monitor_env \<Rightarrow> string \<Rightarrow> rat \<Rightarrow> watch \<Rightarrow> fault + watch" where
  "degrade_provider e reason now w =
     (if pm_degradation (wt_provider w) \<noteq> None then Inr w
      else tell_provider e Act_Liveness_Degraded now None
        (w\<lparr>wt_provider := (wt_provider w)\<lparr>pm_degradation := Some reason\<rparr>\<rparr>))"

definition start_lease :: "monitor_env \<Rightarrow> lease_source \<Rightarrow> rat \<Rightarrow> watch \<Rightarrow> fault + watch" where
  "start_lease e source now w =
     (if pm_last_activity (wt_provider w) \<noteq> None then Inr w
      else mark_ready e (if source = Lease_Provider_Stream then Chk_Provider_Stream else Chk_Current_Turn)
        now (w\<lparr>wt_provider := (wt_provider w)\<lparr>pm_last_activity := Some now,
                 pm_lease_source := Some source\<rparr>\<rparr>))"

definition lineage_error :: string where
  "lineage_error = ''OpenClaw compaction lineage is invalid''"

definition unattributable :: "string \<Rightarrow> string" where
  "unattributable detail = ''OpenClaw session activity could not be attributed: '' @ detail"

text \<open>The counters of a session that the monitor takes over.\<close>

definition take_counters :: "session_activity \<Rightarrow> watch \<Rightarrow> watch" where
  "take_counters s w = w\<lparr>wt_provider := (wt_provider w)\<lparr>
     pm_progress_records := sa_progress_records s, pm_tool_started := sa_tool_started s,
     pm_tool_completed := sa_tool_completed s, pm_active_tools := sa_active_tools s,
     pm_repeating := sa_repeating s\<rparr>\<rparr>"

definition publish_tools ::
    "monitor_env \<Rightarrow> activity_kind \<Rightarrow> string \<Rightarrow> rat \<Rightarrow> int \<Rightarrow> tool_activity list \<Rightarrow> watch \<Rightarrow> fault + watch" where
  "publish_tools e kind message now delta tools w =
     (if int (length tools) \<noteq> delta then degrade_provider e message now w
      else efold (\<lambda>tool. tell_provider e kind now (Some tool)) tools w)"

definition follow_tools :: "monitor_env \<Rightarrow> session_activity \<Rightarrow> rat \<Rightarrow> watch \<Rightarrow> fault + watch" where
  "follow_tools e s now w =
     (let m = wt_provider w;
          started = sa_tool_started s - pm_tool_started m;
          completed = sa_tool_completed s - pm_tool_completed m;
          started_tools = drop (nat (pm_tool_started m)) (sa_started_tools s);
          completed_tools = drop (nat (pm_tool_completed m)) (sa_completed_tools s);
          w1 = take_counters s w
      in if started < 0 \<or> completed < 0
         then degrade_provider e ''OpenClaw session activity moved backwards'' now w1
         else
           ebind (if 0 < started \<or> 0 < completed
                  then on_recorder (tool_state (renv e) (sa_active_tools s) (sa_tool_completed s) now) w1
                  else Inr w1) (\<lambda>w2.
           ebind (publish_tools e Act_Tool_Started ''OpenClaw tool-start metadata is inconsistent''
                    now started started_tools w2)
             (publish_tools e Act_Tool_Completed ''OpenClaw tool-completion metadata is inconsistent''
                now completed completed_tools)))"

definition follow_session ::
    "monitor_env \<Rightarrow> session_activity \<Rightarrow> rat \<Rightarrow> watch \<Rightarrow> fault + (bool \<times> watch)" where
  "follow_session e s now w =
     (let m = wt_provider w;
          first = \<not> pm_session_observed m;
          w1 = w\<lparr>wt_provider := m\<lparr>pm_lineage_since := None, pm_session_observed := True\<rparr>\<rparr>
      in ebind (if first then start_lease e Lease_Current_Turn now w1 else Inr w1) (\<lambda>w2.
         let delta = sa_progress_records s - pm_progress_records (wt_provider w2) in
         ebind (if delta < 0
                then degrade_provider e ''OpenClaw session progress moved backwards'' now w2
                else Inr w2) (\<lambda>w3.
         ebind (follow_tools e s now w3) (\<lambda>w4.
         let trusted = (first \<or> (0 < delta \<and> \<not> sa_repeating s)) in
         if sa_terminal s \<and> \<not> pm_terminal (wt_provider w4)
         then ebind (on_recorder (response_finalizing (renv e) now)
                (w4\<lparr>wt_provider := (wt_provider w4)\<lparr>pm_terminal := True\<rparr>\<rparr>)) (\<lambda>w5. Inr (True, w5))
         else Inr (trusted, w4)))))"

definition note_lineage :: "rat \<Rightarrow> watch \<Rightarrow> watch" where
  "note_lineage now w =
     (if pm_lineage_since (wt_provider w) = None
      then w\<lparr>wt_provider := (wt_provider w)\<lparr>pm_lineage_since := Some now\<rparr>\<rparr> else w)"

text \<open>No session facts: a broken compaction lineage is given some time to heal.\<close>

definition without_session :: "monitor_env \<Rightarrow> rat \<Rightarrow> watch \<Rightarrow> fault + (bool \<times> watch)" where
  "without_session e now w =
     (if \<exists>t \<in> set_option (pm_lineage_since (wt_provider w)). lineage_recheck_seconds \<le> now - t
      then ebind (degrade_provider e (unattributable lineage_error) now w) (\<lambda>w1. Inr (False, w1))
      else Inr (False, w))"

definition read_session ::
    "monitor_env \<Rightarrow> session_reading \<Rightarrow> rat \<Rightarrow> watch \<Rightarrow> fault + (bool \<times> watch)" where
  "read_session e reading now w =
     (case reading of
        Session_Unreadable detail \<Rightarrow>
          ebind (degrade_provider e (unattributable detail) now w) (without_session e now)
      | Session_Lineage_Broken \<Rightarrow> without_session e now (note_lineage now w)
      | Session_Facts None \<Rightarrow> without_session e now w
      | Session_Facts (Some s) \<Rightarrow> follow_session e s now w)"

definition note_provider_inactivity :: "rat \<Rightarrow> watch \<Rightarrow> watch" where
  "note_provider_inactivity now w =
     (let m = wt_provider w in
      case pm_last_activity m of
        Some t \<Rightarrow> if pm_terminal m then w
          else w\<lparr>wt_provider := m\<lparr>pm_maximum_ms :=
            max (pm_maximum_ms m) (seconds_ms (inactive_seconds now t))\<rparr>\<rparr>
      | None \<Rightarrow> w)"

definition read_stream ::
    "monitor_env \<Rightarrow> stream_reading \<Rightarrow> rat \<Rightarrow> watch \<Rightarrow> fault + (bool \<times> watch)" where
  "read_stream e reading now w =
     (case reading of
        Stream_Unreadable \<Rightarrow>
          ebind (degrade_provider e ''private provider-stream observer became unavailable'' now w)
            (\<lambda>w1. Inr (False, w1))
      | Stream_Read False \<Rightarrow> Inr (False, w)
      | Stream_Read True \<Rightarrow> Inr (True, w\<lparr>wt_provider := (wt_provider w)\<lparr>pm_raw_observed := True,
          pm_observations := pm_observations (wt_provider w) + 1\<rparr>\<rparr>))"

definition qualify_stream :: "monitor_env \<Rightarrow> bool \<Rightarrow> rat \<Rightarrow> watch \<Rightarrow> fault + watch" where
  "qualify_stream e qualified now w =
     (if qualified
      then start_lease e Lease_Provider_Stream now
        (w\<lparr>wt_provider := (wt_provider w)\<lparr>pm_qualified := pm_qualified (wt_provider w) + 1\<rparr>\<rparr>)
      else Inr w)"

text \<open>Trusted activity renews the lease and is reported at most once a second.\<close>

definition renew_lease :: "monitor_env \<Rightarrow> bool \<Rightarrow> rat \<Rightarrow> watch \<Rightarrow> fault + watch" where
  "renew_lease e qualified now w =
     (let m = wt_provider w; w1 = w\<lparr>wt_provider := m\<lparr>pm_last_activity := Some now\<rparr>\<rparr> in
      ebind (if pm_suspected m
             then tell_provider e Act_Stall_Recovered now None
               (w1\<lparr>wt_provider := (wt_provider w1)\<lparr>pm_suspected := False,
                  pm_recovered_count := pm_recovered_count m + 1\<rparr>\<rparr>)
             else Inr w1) (\<lambda>w2.
      if qualified \<and> (pm_observations (wt_provider w2) = 1 \<or>
           opt_all (\<lambda>t. activity_report_seconds \<le> now - t) (pm_last_report (wt_provider w2)))
      then tell_provider e Act_Provider_Stream now None
        (w2\<lparr>wt_provider := (wt_provider w2)\<lparr>pm_last_report := Some now\<rparr>\<rparr>)
      else Inr w2))"

definition stall_provider :: "monitor_env \<Rightarrow> rat \<Rightarrow> rat \<Rightarrow> watch \<Rightarrow> fault + (bool \<times> watch)" where
  "stall_provider e inactive now w =
     (let m = wt_provider w in
      if pm_suspected m \<and> pp_silence_seconds (me_provider_policy e) \<le> inactive
      then ebind (tell_provider e Act_Provider_Stalled now None (w\<lparr>wt_provider := m\<lparr>pm_stalled := True\<rparr>\<rparr>))
             (\<lambda>w1. Inr (True, w1))
      else Inr (False, w))"

definition enforce_silence :: "monitor_env \<Rightarrow> bool \<Rightarrow> rat \<Rightarrow> watch \<Rightarrow> fault + (bool \<times> watch)" where
  "enforce_silence e enforce now w =
     (let m = wt_provider w in
      if \<not> enforce \<or> pm_degradation m \<noteq> None \<or> pm_lineage_since m \<noteq> None \<or>
         (0 < pm_active_tools m \<and> \<not> pm_repeating m) \<or> pm_terminal m then Inr (False, w)
      else case pm_last_activity m of
        None \<Rightarrow> Inr (False, w)
      | Some t \<Rightarrow>
          (let inactive = inactive_seconds now t in
           ebind (if \<not> pm_suspected m \<and> provider_suspect_after (me_provider_policy e) \<le> inactive
                  then tell_provider e Act_Stall_Suspected now None
                    (w\<lparr>wt_provider := m\<lparr>pm_suspected := True,
                       pm_suspected_count := pm_suspected_count m + 1\<rparr>\<rparr>)
                  else Inr w) (stall_provider e inactive now)))"

definition poll_provider ::
    "monitor_env \<Rightarrow> bool \<Rightarrow> stream_reading \<Rightarrow> session_reading \<Rightarrow> rat \<Rightarrow> watch \<Rightarrow> fault + (bool \<times> watch)" where
  "poll_provider e enforce stream session now w =
     ebind (read_stream e stream now (note_provider_inactivity now w)) (\<lambda>(raw, w1).
     ebind (read_session e session now w1) (\<lambda>(trusted, w2).
     let qualified = (raw \<and> \<not> pm_repeating (wt_provider w2)) in
     ebind (qualify_stream e qualified now w2) (\<lambda>w3.
     ebind (if trusted \<or> qualified then renew_lease e qualified now w3 else Inr w3)
       (enforce_silence e enforce now))))"

definition provider_evidence_of :: "monitor_env \<Rightarrow> provider_monitor \<Rightarrow> provider_evidence" where
  "provider_evidence_of e m =
     \<lparr>pe_degraded = (pm_degradation m \<noteq> None),
      pe_policy_source = pp_source (me_provider_policy e),
      pe_silence_seconds = pp_silence_seconds (me_provider_policy e),
      pe_stall_grace_seconds = pp_stall_grace_seconds (me_provider_policy e),
      pe_lease_started = (pm_last_activity m \<noteq> None), pe_lease_source = pm_lease_source m,
      pe_raw_stream_observed = pm_raw_observed m, pe_session_observed = pm_session_observed m,
      pe_activity_observations = pm_observations m, pe_tool_started = pm_tool_started m,
      pe_tool_completed = pm_tool_completed m, pe_suspected_count = pm_suspected_count m,
      pe_recovered_count = pm_recovered_count m, pe_maximum_inactivity_ms = pm_maximum_ms m,
      pe_stalled = pm_stalled m, pe_terminal_observed = pm_terminal m,
      pe_degradation_reason = pm_degradation m\<rparr>"

definition provider_result :: "monitor_env \<Rightarrow> watch \<Rightarrow> fault + provider_evidence" where
  "provider_result e w =
     (let ev = provider_evidence_of e (wt_provider w) in
      ebind (validate_provider_evidence ev) (\<lambda>_. Inr ev))"

definition finish_provider ::
    "monitor_env \<Rightarrow> stream_reading \<Rightarrow> session_reading \<Rightarrow> rat \<Rightarrow> watch \<Rightarrow> fault + watch" where
  "finish_provider e stream session now w =
     ebind (poll_provider e False stream session now w) (\<lambda>(_, w1).
     ebind (if pm_lineage_since (wt_provider w1) \<noteq> None
            then degrade_provider e (unattributable lineage_error) now w1 else Inr w1) (\<lambda>w2.
     ebind (if pm_last_activity (wt_provider w2) = None
            then degrade_provider e ''OpenClaw current-turn activity was never attributable'' now w2
            else Inr w2) (\<lambda>w3.
     ebind (provider_result e w3) (\<lambda>_. Inr w3))))"

section \<open>The finalization monitor\<close>

definition new_final_monitor :: final_monitor where
  "new_final_monitor =
     \<lparr>fm_terminal = False, fm_last_progress = None, fm_stdout = 0, fm_stderr = 0,
      fm_output_observations = 0, fm_suspected_count = 0, fm_recovered_count = 0,
      fm_maximum_ms = 0, fm_suspected = False, fm_stalled = False\<rparr>"

definition observe_terminal :: "int \<Rightarrow> int \<Rightarrow> rat \<Rightarrow> watch \<Rightarrow> watch" where
  "observe_terminal out err now w =
     (if fm_terminal (wt_final w) then w
      else w\<lparr>wt_final := (wt_final w)\<lparr>fm_terminal := True, fm_last_progress := Some now,
               fm_stdout := out, fm_stderr := err\<rparr>\<rparr>)"

definition final_activity :: "monitor_env \<Rightarrow> activity_kind \<Rightarrow> rat \<Rightarrow> final_monitor \<Rightarrow> activity" where
  "final_activity e kind now m =
     (with_guard (re_finalization_policy e)
        (plain_activity (renv e) kind (max 0 (seconds_ms (now - me_monitor_start e)))))
       \<lparr>ac_trusted_count := fm_output_observations m,
        ac_inactivity_ms :=
          max 0 (seconds_ms (inactive_seconds now (the_or (fm_last_progress m) now)))\<rparr>"

text \<open>This monitor calls the observer itself; whatever goes wrong there is ignored.\<close>

definition tell_final :: "monitor_env \<Rightarrow> activity_kind \<Rightarrow> rat \<Rightarrow> watch \<Rightarrow> watch" where
  "tell_final e kind now w =
     (let a = final_activity e kind now (wt_final w); r = wt_recorder w in
      if re_handler e = None \<or> validate_activity a \<noteq> Inr () then w
      else w\<lparr>wt_recorder := r\<lparr>rc_published := rc_published r @ [a]\<rparr>\<rparr>)"

definition note_output :: "monitor_env \<Rightarrow> int \<Rightarrow> int \<Rightarrow> rat \<Rightarrow> watch \<Rightarrow> watch" where
  "note_output e out err now w =
     (let m = wt_final w;
          progress = (fm_stdout m < out \<or> fm_stderr m < err);
          m1 = m\<lparr>fm_stdout := max (fm_stdout m) out, fm_stderr := max (fm_stderr m) err\<rparr>
      in if \<not> progress then w\<lparr>wt_final := m1\<rparr>
         else let w1 = tell_final e Act_Finalization_Progress now (w\<lparr>wt_final := m1\<lparr>
                 fm_last_progress := Some now,
                 fm_output_observations := fm_output_observations m + 1\<rparr>\<rparr>) in
           if fm_suspected m
           then tell_final e Act_Finalization_Recovered now (w1\<lparr>wt_final := (wt_final w1)\<lparr>
                 fm_suspected := False, fm_recovered_count := fm_recovered_count m + 1\<rparr>\<rparr>)
           else w1)"

definition poll_final ::
    "monitor_env \<Rightarrow> bool \<Rightarrow> int \<Rightarrow> int \<Rightarrow> rat \<Rightarrow> watch \<Rightarrow> bool \<times> watch" where
  "poll_final e enforce out err now w =
     (if \<not> fm_terminal (wt_final w) then (False, w)
      else if fm_stalled (wt_final w) then (enforce, w)
      else
        let w1 = note_output e out err now w;
            m = wt_final w1;
            p = re_finalization_policy e;
            inactive = inactive_seconds now (the_or (fm_last_progress m) now);
            w2 = w1\<lparr>wt_final := m\<lparr>fm_maximum_ms := max (fm_maximum_ms m) (seconds_ms inactive)\<rparr>\<rparr>;
            w3 = (if enforce \<and> \<not> fm_suspected m \<and> suspect_after p \<le> inactive
                  then tell_final e Act_Finalization_Suspected now (w2\<lparr>wt_final := (wt_final w2)\<lparr>
                         fm_suspected := True, fm_suspected_count := fm_suspected_count m + 1\<rparr>\<rparr>)
                  else w2)
        in if enforce \<and> fm_suspected (wt_final w3) \<and> gp_no_progress_seconds p \<le> inactive
           then (True, tell_final e Act_Finalization_Stalled now
                   (w3\<lparr>wt_final := (wt_final w3)\<lparr>fm_stalled := True\<rparr>\<rparr>))
           else (False, w3))"

definition final_evidence :: "monitor_env \<Rightarrow> final_monitor \<Rightarrow> finalization_evidence" where
  "final_evidence e m =
     \<lparr>fe_enforced = fm_terminal m, fe_policy_source = gp_source (re_finalization_policy e),
      fe_no_progress_seconds = gp_no_progress_seconds (re_finalization_policy e),
      fe_stall_grace_seconds = gp_stall_grace_seconds (re_finalization_policy e),
      fe_terminal_observed = fm_terminal m, fe_output_observations = fm_output_observations m,
      fe_suspected_count = fm_suspected_count m, fe_recovered_count = fm_recovered_count m,
      fe_maximum_no_progress_ms = fm_maximum_ms m, fe_stalled = fm_stalled m\<rparr>"

definition finish_final :: "monitor_env \<Rightarrow> int \<Rightarrow> int \<Rightarrow> rat \<Rightarrow> watch \<Rightarrow> fault + watch" where
  "finish_final e out err now w =
     (let w1 = snd (poll_final e False out err now w) in
      ebind (validate_finalization (final_evidence e (wt_final w1))) (\<lambda>_. Inr w1))"

end
