(* ===== verification/Invocation_Supervision.thy ===== *)
theory Invocation_Supervision
  imports Liveness_Monitors
begin

text \<open>
  \<open>OpenClawSubprocessExecutor._run_interruptible_process\<close> and what surrounds it in \<open>execute\<close>: one
  process under the three monitors, stopped by the first of a user's request, a stall, a failed
  observation or a deadline, and the lifecycle evidence made of it.

  The loop runs over a list of events. A \<open>tick\<close> is one expiry of the poll interval with everything
  the iteration reads; an \<open>exit_reading\<close> is the return of the process. \<open>interrupt\<close> and
  \<open>interrupt_all\<close> run in other threads: their claims take effect between the steps of an
  iteration, so a tick carries a list of claims for each of these points. What the stopped process
  does after the request is the time at which it exits by itself, if it does.
  An exception that leaves the loop leaves \<open>execute\<close>, so it is the result of \<open>supervise\<close>.
\<close>

section \<open>Deadlines\<close>

text \<open>\<open>_runtime_timeout\<close>: the runtime limit, the process limit, whether the deadline has passed and
  who owns a timeout. \<open>remaining\<close> is the time to the run deadline, when there is one.\<close>

definition runtime_timeout ::
    "int \<Rightarrow> rat option \<Rightarrow> int \<times> rat option \<times> bool \<times> invocation_stop_reason option" where
  "runtime_timeout timeout remaining =
     (case remaining of
        None \<Rightarrow> (timeout, if 0 < timeout then Some (of_int timeout) else None, False,
          if 0 < timeout then Some Stop_Evaluation_Timeout else None)
      | Some left \<Rightarrow>
          (let deadline = max 1 \<lceil>left\<rceil> in
           if left \<le> 0 then (0, None, True, Some Stop_Run_Deadline)
           else if timeout = 0 \<or> deadline \<le> timeout
           then (deadline, Some left, False, Some Stop_Run_Deadline)
           else (timeout, Some (of_int timeout), False, Some Stop_Evaluation_Timeout)))"

section \<open>Stopping the process\<close>

definition stop_action :: "recorder_env \<Rightarrow> string" where
  "stop_action e =
     ''Sending SIGTERM to the exact invocation process group; forceful cleanup is bounded by '' @
     re_grace_text e @ ''s''"

text \<open>\<open>_begin_stop\<close>: only the first reason signals the process.\<close>

definition begin_stop ::
    "monitor_env \<Rightarrow> invocation_stop_reason \<Rightarrow> rat \<Rightarrow> watch \<Rightarrow> fault + (bool \<times> watch)" where
  "begin_stop e reason now w =
     ebind (request_stop (renv e) reason now (stop_action (renv e)) (wt_recorder w)) (\<lambda>(first, r).
       Inr (first, w\<lparr>wt_recorder := (if first then r\<lparr>rc_terminate_sent := True\<rparr> else r)\<rparr>))"

text \<open>\<open>_await_process_stop\<close>: a process that does not exit within the grace is killed.\<close>

definition await_stop :: "monitor_env \<Rightarrow> rat option \<Rightarrow> watch \<Rightarrow> watch" where
  "await_stop e exits w =
     (let r = wt_recorder w;
          deadline = the_or (rc_stop_started r) 0 + re_grace_seconds e
      in w\<lparr>wt_recorder :=
        r\<lparr>rc_kill_sent := rc_kill_sent r \<or> \<not> (\<exists>t \<in> set_option exits. t < deadline)\<rparr>\<rparr>)"

definition stop_process ::
    "monitor_env \<Rightarrow> invocation_stop_reason \<Rightarrow> rat \<Rightarrow> rat option \<Rightarrow> watch \<Rightarrow> fault + watch" where
  "stop_process e reason now exits w =
     ebind (begin_stop e reason now w) (\<lambda>(_, w1). Inr (await_stop e exits w1))"

section \<open>Events\<close>

record claim =
  cl_reason :: invocation_stop_reason
  cl_now :: rat

record tick =
  tk_now :: rat
  tk_initialization :: initialization_reading
  tk_snapshot :: wait_diagnostic
  tk_suspected_wait :: wait_diagnostic
  tk_stalled_wait :: wait_diagnostic
  tk_stream :: stream_reading
  tk_session :: session_reading
  tk_stdout :: int
  tk_stderr :: int
  tk_exits :: "rat option"
  tk_claims_first :: "claim list"
  tk_claims_checked :: "claim list"
  tk_claims_initialized :: "claim list"
  tk_claims_provider :: "claim list"
  tk_claims_final :: "claim list"

record exit_reading =
  ex_now :: rat
  ex_initialization :: initialization_reading
  ex_snapshot :: wait_diagnostic
  ex_stream :: stream_reading
  ex_session :: session_reading
  ex_stdout :: int
  ex_stderr :: int
  ex_claims :: "claim list"

text \<open>\<open>Keyboard_Interrupt now exits\<close> is a terminal SIGINT on the main thread.\<close>

datatype loop_event =
    Poll_Expired tick | Process_Exited exit_reading | Keyboard_Interrupt rat "rat option"

record supervised =
  sv_watch :: watch
  sv_request :: "invocation_stop_reason option"

section \<open>Claims of other threads\<close>

definition user_stop :: "invocation_stop_reason \<Rightarrow> bool" where
  "user_stop reason \<longleftrightarrow> reason = Stop_User_Interrupt \<or> reason = Stop_User_Cancel"

text \<open>\<open>interrupt\<close>: \<open>_require_user_stop_reason\<close> raises in the thread of the caller, so such a call
  changes nothing here.\<close>

definition apply_claim :: "monitor_env \<Rightarrow> claim \<Rightarrow> supervised \<Rightarrow> fault + supervised" where
  "apply_claim e c s =
     (if \<not> user_stop (cl_reason c) then Inr s
      else ebind (begin_stop e (cl_reason c) (cl_now c) (sv_watch s)) (\<lambda>(first, w).
        Inr \<lparr>sv_watch = w, sv_request = (if first then Some (cl_reason c) else sv_request s)\<rparr>))"

definition apply_claims :: "monitor_env \<Rightarrow> claim list \<Rightarrow> supervised \<Rightarrow> fault + supervised" where
  "apply_claims e cs s = efold (apply_claim e) cs s"

section \<open>One iteration\<close>

definition capture_wait :: "wait_boundary \<Rightarrow> bool \<Rightarrow> wait_diagnostic \<Rightarrow> watch \<Rightarrow> watch" where
  "capture_wait boundary wanted d w =
     (let r = wt_recorder w in
      if wanted \<and> boundary \<notin> set (map wd_reason (rc_wait r))
      then w\<lparr>wt_recorder := r\<lparr>rc_wait := rc_wait r @ [d\<lparr>wd_reason := boundary\<rparr>]\<rparr>\<rparr> else w)"

definition lift_watch :: "(watch \<Rightarrow> fault + watch) \<Rightarrow> supervised \<Rightarrow> fault + supervised" where
  "lift_watch f s = ebind (f (sv_watch s)) (\<lambda>w. Inr (s\<lparr>sv_watch := w\<rparr>))"

definition lift_poll ::
    "(watch \<Rightarrow> fault + (bool \<times> watch)) \<Rightarrow> supervised \<Rightarrow> fault + (bool \<times> supervised)" where
  "lift_poll f s = ebind (f (sv_watch s)) (\<lambda>(b, w). Inr (b, s\<lparr>sv_watch := w\<rparr>))"

text \<open>A branch that stops the process ends the loop.\<close>

definition stop_and_leave ::
    "monitor_env \<Rightarrow> invocation_stop_reason \<Rightarrow> tick \<Rightarrow> supervised \<Rightarrow> fault + (bool \<times> supervised)" where
  "stop_and_leave e reason t s =
     ebind (lift_watch (stop_process e reason (tk_now t) (tk_exits t)) s) (\<lambda>s1. Inr (True, s1))"

text \<open>Process limits: the limit itself and who owns a timeout.\<close>

record process_limit =
  pl_seconds :: "rat option"
  pl_reason :: "invocation_stop_reason option"

definition limit_reached :: "monitor_env \<Rightarrow> process_limit \<Rightarrow> rat \<Rightarrow> bool" where
  "limit_reached e l now \<longleftrightarrow> (\<exists>s \<in> set_option (pl_seconds l). s \<le> now - me_monitor_start e)"

definition watch_provider ::
    "monitor_env \<Rightarrow> tick \<Rightarrow> supervised \<Rightarrow> fault + (bool \<times> supervised)" where
  "watch_provider e t s =
     (if me_state_dir e
      then ebind (lift_poll (poll_provider e True (tk_stream t) (tk_session t) (tk_now t)) s)
        (\<lambda>(stalled, s1). Inr (stalled,
          if pm_terminal (wt_provider (sv_watch s1))
          then s1\<lparr>sv_watch := observe_terminal (tk_stdout t) (tk_stderr t) (tk_now t) (sv_watch s1)\<rparr>
          else s1))
      else Inr (False, s))"

definition after_initialization ::
    "monitor_env \<Rightarrow> process_limit \<Rightarrow> tick \<Rightarrow> supervised \<Rightarrow> fault + (bool \<times> supervised)" where
  "after_initialization e limit t s =
     ebind (apply_claims e (tk_claims_initialized t) s) (\<lambda>s1.
     ebind (watch_provider e t s1) (\<lambda>(provider_stalled, s2).
     ebind (apply_claims e (tk_claims_provider t) s2) (\<lambda>s3.
     let (final_stalled, w) = poll_final e True (tk_stdout t) (tk_stderr t) (tk_now t) (sv_watch s3) in
     ebind (apply_claims e (tk_claims_final t) (s3\<lparr>sv_watch := w\<rparr>)) (\<lambda>s4.
     if final_stalled then stop_and_leave e Stop_Response_Finalization_Stall t s4
     else if provider_stalled then stop_and_leave e Stop_Provider_Stall t s4
     else if limit_reached e limit (tk_now t)
     then stop_and_leave e (the_or (pl_reason limit) Stop_Evaluation_Timeout) t s4
     else Inr (False, s4)))))"

definition watch_initialization ::
    "monitor_env \<Rightarrow> process_limit \<Rightarrow> tick \<Rightarrow> supervised \<Rightarrow> fault + (bool \<times> supervised)" where
  "watch_initialization e limit t s =
     ebind (lift_poll (poll_initialization e (tk_initialization t) (tk_snapshot t) (tk_now t)) s)
       (\<lambda>(stalled, s1).
     let w1 = capture_wait Wait_Suspected (im_suspected (wt_init (sv_watch s1))) (tk_suspected_wait t) (sv_watch s1);
         w2 = capture_wait Wait_Stalled stalled (tk_stalled_wait t) w1;
         s2 = s1\<lparr>sv_watch := w2\<rparr> in
     if stalled then stop_and_leave e Stop_Initialization_Stall t s2
     else if im_degradation (wt_init w2) \<noteq> None then stop_and_leave e Stop_Process_Failure t s2
     else after_initialization e limit t s2)"

definition supervise_tick ::
    "monitor_env \<Rightarrow> process_limit \<Rightarrow> tick \<Rightarrow> supervised \<Rightarrow> fault + (bool \<times> supervised)" where
  "supervise_tick e limit t s =
     ebind (apply_claims e (tk_claims_first t) s) (\<lambda>s1.
     case sv_request s1 of
       Some reason \<Rightarrow> stop_and_leave e reason t s1
     | None \<Rightarrow> ebind (apply_claims e (tk_claims_checked t) s1) (watch_initialization e limit t))"

definition process_exited :: "monitor_env \<Rightarrow> exit_reading \<Rightarrow> supervised \<Rightarrow> fault + supervised" where
  "process_exited e x s =
     ebind (apply_claims e (ex_claims x) s) (\<lambda>s1.
     ebind (lift_watch (finish_initialization e (ex_initialization x) (ex_snapshot x) (ex_now x)) s1) (\<lambda>s2.
     ebind (if me_state_dir e
            then lift_watch (finish_provider e (ex_stream x) (ex_session x) (ex_now x)) s2
            else Inr s2) (\<lambda>s3.
     let w = (if me_state_dir e \<and> pm_terminal (wt_provider (sv_watch s3))
              then observe_terminal (ex_stdout x) (ex_stderr x) (ex_now x) (sv_watch s3)
              else sv_watch s3) in
     ebind (finish_final e (ex_stdout x) (ex_stderr x) (ex_now x) w) (\<lambda>w1.
     Inr (s3\<lparr>sv_watch := w1\<rparr>)))))"

text \<open>The loop; \<open>None\<close> when the events end before it does.\<close>

fun supervise_loop ::
    "monitor_env \<Rightarrow> process_limit \<Rightarrow> loop_event list \<Rightarrow> supervised \<Rightarrow> fault + supervised option" where
  "supervise_loop e limit [] s = Inr None"
| "supervise_loop e limit (Poll_Expired t # events) s =
     ebind (supervise_tick e limit t s) (\<lambda>(left, s1).
       if left then Inr (Some s1) else supervise_loop e limit events s1)"
| "supervise_loop e limit (Process_Exited x # events) s =
     ebind (process_exited e x s) (\<lambda>s1. Inr (Some s1))"
| "supervise_loop e limit (Keyboard_Interrupt now exits # events) s =
     ebind (lift_watch (stop_process e Stop_User_Interrupt now exits) s) (\<lambda>s1. Inr (Some s1))"

section \<open>The whole invocation\<close>

record launch =
  la_group_targeted :: bool
  la_baseline_error :: bool

record closing =
  co_lease_released :: bool
  co_initialization :: initialization_reading
  co_snapshot :: wait_diagnostic
  co_now :: rat
  co_final_now :: rat
  co_stdout :: int
  co_stderr :: int

definition start_watch :: "monitor_env \<Rightarrow> launch \<Rightarrow> recorder \<Rightarrow> fault + watch" where
  "start_watch e l r =
     ebind (process_launched (renv e) (me_monitor_start e) (la_group_targeted l) r) (\<lambda>r1.
     open_init_monitor e (la_baseline_error l)
       \<lparr>wt_init = new_init_monitor e, wt_provider = new_provider_monitor,
        wt_final = new_final_monitor, wt_recorder = r1\<rparr>)"

text \<open>The \<open>finally\<close> block and the evidence of the provider monitor.\<close>

definition close_watch :: "monitor_env \<Rightarrow> closing \<Rightarrow> watch \<Rightarrow> fault + watch" where
  "close_watch e c w =
     (let r = wt_recorder w;
          w1 = w\<lparr>wt_recorder := r\<lparr>rc_lease_released := rc_lease_released r \<or> co_lease_released c\<rparr>\<rparr> in
      ebind (finish_initialization e (co_initialization c) (co_snapshot c) (co_now c) w1) (\<lambda>w2.
      ebind (finish_final e (co_stdout c) (co_stderr c) (co_final_now c) w2) (\<lambda>w3.
      let w4 = w3\<lparr>wt_recorder := (wt_recorder w3)\<lparr>rc_finalization := final_evidence e (wt_final w3)\<rparr>\<rparr> in
      ebind (if me_state_dir e then ebind (provider_result e w4) (\<lambda>_. Inr ()) else Inr ()) (\<lambda>_.
      Inr w4))))"

definition supervise ::
    "monitor_env \<Rightarrow> process_limit \<Rightarrow> launch \<Rightarrow> loop_event list \<Rightarrow> closing \<Rightarrow> recorder \<Rightarrow>
     fault + watch option" where
  "supervise e limit l events c r =
     ebind (start_watch e l r) (\<lambda>w.
     ebind (supervise_loop e limit events \<lparr>sv_watch = w, sv_request = None\<rparr>) (\<lambda>ended.
     case ended of
       None \<Rightarrow> Inr None
     | Some s \<Rightarrow> ebind (close_watch e c (sv_watch s)) (\<lambda>w1. Inr (Some w1))))"

text \<open>What \<open>execute\<close> does with the recorder: the deadline may have passed before the launch, the launch
  may fail, a configured runner may run the process unobserved, or the process is supervised. The
  telemetry and the reason that \<open>execute\<close> derives from the outcome are arguments.\<close>

datatype invocation_run =
    Not_Launched
  | Run_By_Runner
  | Run_Supervised process_limit launch "loop_event list" closing

definition run_recorded :: "monitor_env \<Rightarrow> invocation_run \<Rightarrow> recorder \<Rightarrow> fault + recorder option" where
  "run_recorded e run r =
     (case run of
        Not_Launched \<Rightarrow> Inr (Some r)
      | Run_By_Runner \<Rightarrow> Inr (Some (r\<lparr>rc_process_started := True, rc_lease_released := True\<rparr>))
      | Run_Supervised limit l events c \<Rightarrow>
          ebind (supervise e limit l events c r) (\<lambda>ended. Inr (map_option wt_recorder ended)))"

definition execute_lifecycle ::
    "monitor_env \<Rightarrow> invocation_run \<Rightarrow> invocation_stop_reason \<Rightarrow> telemetry_view \<Rightarrow>
     fault + lifecycle_evidence option" where
  "execute_lifecycle e run reason tv =
     ebind (open_recorder (renv e)) (\<lambda>r.
     ebind (run_recorded e run r) (\<lambda>ended.
     case ended of
       None \<Rightarrow> Inr None
     | Some r1 \<Rightarrow> ebind (finalize_result (renv e) reason tv r1) (\<lambda>(evidence, _). Inr (Some evidence))))"

end
