(* ===== verification/Lifecycle_Invariants.thy ===== *)
theory Lifecycle_Invariants
  imports Invocation_Supervision
begin

text \<open>
  What every operation of the recorder and of the monitors keeps. \<open>recorder_ok\<close> says that the
  transitions recorded so far are a legal beginning of a lifecycle; \<open>enter_ok\<close> is the one lemma
  about entering a phase that the operations rest on.

  \<open>succeeds m Q\<close> says that a raising operation returns and its result has \<open>Q\<close>; as \<open>succeeds_bind\<close>
  is a simplification rule, a sequence of operations is reduced to its parts.
\<close>

section \<open>Operations that return\<close>

definition succeeds :: "'e + 'a \<Rightarrow> ('a \<Rightarrow> bool) \<Rightarrow> bool" where
  "succeeds m Q \<longleftrightarrow> (case m of Inl _ \<Rightarrow> False | Inr x \<Rightarrow> Q x)"

lemma succeeds_simps [simp]: "succeeds (Inr x) Q = Q x" "\<not> succeeds (Inl f) Q"
  by (simp_all add: succeeds_def)

lemma succeeds_bind [simp]: "succeeds (ebind m f) Q = succeeds m (\<lambda>x. succeeds (f x) Q)"
  by (cases m) simp_all

lemma succeeds_mono: "succeeds m P \<Longrightarrow> (\<And>x. P x \<Longrightarrow> Q x) \<Longrightarrow> succeeds m Q"
  by (cases m) auto

lemma succeeds_iff: "succeeds m Q \<longleftrightarrow> (\<exists>x. m = Inr x \<and> Q x)"
  by (cases m) auto

lemma succeedsE:
  assumes "succeeds m Q"
  obtains x where "m = Inr x" and "Q x"
  using assms by (cases m) auto

lemma succeeds_unit [simp]: "succeeds (m :: fault + unit) Q \<longleftrightarrow> m = Inr () \<and> Q ()"
  by (cases m) auto

lemma succeeds_efold:
  assumes "I s" and "\<And>x a. x \<in> set xs \<Longrightarrow> I a \<Longrightarrow> succeeds (f x a) I"
  shows "succeeds (efold f xs s) I"
  using assms
proof (induction xs arbitrary: s)
  case (Cons x xs)
  have "succeeds (f x s) I" using Cons.prems by simp
  then obtain a where a: "f x s = Inr a" "I a" unfolding succeeds_iff by blast
  have "succeeds (efold f xs a) I"
    using Cons.IH [OF a(2)] Cons.prems(2) by (metis list.set_intros(2))
  then show ?case using a(1) by simp
qed simp

section \<open>The recorder\<close>

definition env_ok :: "recorder_env \<Rightarrow> bool" where
  "env_ok e \<longleftrightarrow> ident_pattern (re_agent_id e) \<and> re_session_key e \<noteq> [] \<and>
     opt_all (\<lambda>m. m \<noteq> []) (re_model e) \<and> 0 < re_grace_seconds e \<and> length (re_grace_text e) \<le> 100 \<and>
     validate_initialization_policy (re_initialization_policy e) = Inr () \<and>
     validate_finalization_policy (re_finalization_policy e) = Inr ()"

definition path_ok :: "int \<Rightarrow> lifecycle_transition list \<Rightarrow> bool" where
  "path_ok x ts \<longleftrightarrow> ts \<noteq> [] \<and> (\<forall>t \<in> set ts. validate_lifecycle_transition t = Inr ()) \<and>
     map lt_sequence ts = one_to (length ts) \<and> sorted (map lt_elapsed_ms ts) \<and>
     (\<forall>t \<in> set ts. lt_elapsed_ms t \<le> x) \<and> lt_phase (hd ts) = Inv_Launched \<and> adjacent legal_step ts"

definition stop_shape :: "invocation_stop_reason option \<Rightarrow> lifecycle_transition list \<Rightarrow> bool" where
  "stop_shape reason ts \<longleftrightarrow>
     (case reason of
        None \<Rightarrow> \<forall>t \<in> set ts. \<not> shutdown_phase (lt_phase t)
      | Some s \<Rightarrow> lt_phase (last ts) = Inv_Stopping \<and> lt_stop_reason (last ts) = Some s \<and>
          (\<forall>t \<in> set (butlast ts). \<not> shutdown_phase (lt_phase t)))"

lemma stop_shape_simps [simp]:
  "stop_shape None ts = (\<forall>t \<in> set ts. \<not> shutdown_phase (lt_phase t))"
  "stop_shape (Some s) (ts @ [t]) =
     (lt_phase t = Inv_Stopping \<and> lt_stop_reason t = Some s \<and>
      (\<forall>t \<in> set ts. \<not> shutdown_phase (lt_phase t)))"
  by (simp_all add: stop_shape_def)

definition recorder_ok :: "int \<Rightarrow> recorder \<Rightarrow> bool" where
  "recorder_ok x r \<longleftrightarrow> path_ok x (rc_transitions r) \<and> stop_shape (rc_stop_reason r) (rc_transitions r) \<and>
     rc_phase r = Some (lt_phase (last (rc_transitions r))) \<and>
     0 \<le> rc_active_tools r \<and> 0 \<le> rc_completed_tools r"

definition finalized :: "recorder \<Rightarrow> bool" where
  "finalized r \<longleftrightarrow> (\<exists>t \<in> set (rc_transitions r). lt_phase t = Inv_Finalizing_Response)"

lemma recorder_ok_mono: "recorder_ok x r \<Longrightarrow> x \<le> y \<Longrightarrow> recorder_ok y r"
  by (fastforce simp: recorder_ok_def path_ok_def)

text \<open>Fields that the path does not depend on.\<close>

lemma recorder_ok_frame:
  assumes "recorder_ok x r" and "rc_transitions r' = rc_transitions r" and "rc_phase r' = rc_phase r"
    and "rc_stop_reason r' = rc_stop_reason r" and "rc_active_tools r' = rc_active_tools r"
    and "rc_completed_tools r' = rc_completed_tools r"
  shows "recorder_ok x r'"
  using assms by (simp add: recorder_ok_def)

lemma rc_elapsed_mono: "s \<le> t \<Longrightarrow> rc_elapsed e s \<le> rc_elapsed e t"
  unfolding rc_elapsed_def by (intro max.mono order_refl round_half_even_mono) simp

lemma rc_elapsed_nonneg [simp]: "0 \<le> rc_elapsed e t" "\<not> rc_elapsed e t < 0"
  by (simp_all add: rc_elapsed_def not_less)

lemma policy_facts:
  assumes "validate_guard_policy message p = Inr ()"
  shows "0 < gp_no_progress_seconds p" "0 < gp_stall_grace_seconds p" "gp_source p \<noteq> []"
    "length (gp_source p) \<le> 300" "gp_stall_grace_seconds p < gp_no_progress_seconds p"
  using assms by (auto simp: validate_guard_policy_def)

lemma env_policies:
  assumes "env_ok e"
  shows "0 < gp_no_progress_seconds (re_initialization_policy e)"
    "0 < gp_stall_grace_seconds (re_initialization_policy e)"
    "gp_source (re_initialization_policy e) \<noteq> []" "length (gp_source (re_initialization_policy e)) \<le> 300"
    "gp_stall_grace_seconds (re_initialization_policy e) < gp_no_progress_seconds (re_initialization_policy e)"
    "0 < gp_no_progress_seconds (re_finalization_policy e)"
    "0 < gp_stall_grace_seconds (re_finalization_policy e)"
    "gp_source (re_finalization_policy e) \<noteq> []" "length (gp_source (re_finalization_policy e)) \<le> 300"
    "gp_stall_grace_seconds (re_finalization_policy e) < gp_no_progress_seconds (re_finalization_policy e)"
  using assms policy_facts
  by (auto simp: env_ok_def validate_initialization_policy_def validate_finalization_policy_def)

lemma deliver_frame:
  "\<exists>pub. snd (deliver e a r) = r\<lparr>rc_published := pub\<rparr>"
  by (cases "re_handler e") (auto simp: deliver_def intro: exI [of _ "rc_published r"])

lemma phase_record_valid:
  assumes "env_ok e" and "validate_lifecycle_transition t = Inr ()"
    and "0 \<le> rc_active_tools r" and "0 \<le> rc_completed_tools r"
  shows "validate_activity (phase_record e t r) = Inr ()"
proof -
  have t: "0 \<le> lt_elapsed_ms t" "opt_all (\<lambda>a. a \<noteq> [] \<and> length a \<le> 500) (lt_action t)"
      "shutdown_phase (lt_phase t) \<longleftrightarrow> lt_stop_reason t \<noteq> None"
      "lt_checkpoint t \<noteq> None \<Longrightarrow> lt_phase t \<in> {Inv_Initializing, Inv_Provider_Wait}"
    using assms(2) by (auto simp: validate_lifecycle_transition_def)
  have "activity_fields (phase_record e t r) = Inr ()"
    using assms t(1,2) by (simp add: activity_fields_def phase_record_def plain_activity_def env_ok_def)
  moreover have "check_activity (phase_record e t r) = Inr ()"
    using t(3,4) by (cases "lt_phase t"; cases "lt_stop_reason t"; cases "lt_checkpoint t")
      (simp_all add: check_activity_def phase_record_def plain_activity_def Let_def)
  ultimately show ?thesis by (simp add: validate_activity_def)
qed

lemma emit_phase_frame:
  assumes "env_ok e" and "validate_lifecycle_transition t = Inr ()"
    and "0 \<le> rc_active_tools r" and "0 \<le> rc_completed_tools r"
  shows "succeeds (emit_phase e t r) (\<lambda>r'. \<exists>pub. r' = r\<lparr>rc_published := pub\<rparr>)"
  using phase_record_valid [OF assms] deliver_frame [of e "phase_record e t r" r]
  by (simp add: emit_phase_def)

text \<open>Appending a transition to a legal path.\<close>

lemma path_ok_snoc:
  assumes "path_ok x ts" and "x \<le> lt_elapsed_ms t" and "validate_lifecycle_transition t = Inr ()"
    and "lt_sequence t = int (length ts) + 1" and "legal_step (last ts) t"
  shows "path_ok (lt_elapsed_ms t) (ts @ [t])"
  using assms by (fastforce simp: path_ok_def sorted_append adjacent_append one_to_facts(4))

definition proper_action :: "string \<Rightarrow> bool" where
  "proper_action a \<longleftrightarrow> a \<noteq> [] \<and> length a \<le> 500"

definition checkpoint_fits :: "invocation_phase \<Rightarrow> initialization_checkpoint option \<Rightarrow> bool" where
  "checkpoint_fits p c \<longleftrightarrow> c \<noteq> None \<longrightarrow> p \<in> {Inv_Initializing, Inv_Provider_Wait}"

text \<open>What entering a phase leaves alone.\<close>

definition only_path :: "recorder \<Rightarrow> recorder \<Rightarrow> bool" where
  "only_path r r' \<longleftrightarrow>
     rc_stop_reason r' = rc_stop_reason r \<and>
     rc_stop_started r' = rc_stop_started r \<and>
     rc_process_started r' = rc_process_started r \<and>
     rc_group_targeted r' = rc_group_targeted r \<and>
     rc_terminate_sent r' = rc_terminate_sent r \<and>
     rc_kill_sent r' = rc_kill_sent r \<and>
     rc_lease_released r' = rc_lease_released r \<and>
     rc_active_tools r' = rc_active_tools r \<and>
     rc_completed_tools r' = rc_completed_tools r \<and>
     rc_wait r' = rc_wait r \<and>
     rc_initialization r' = rc_initialization r \<and>
     rc_finalization r' = rc_finalization r"

lemma only_path_refl: "only_path r r"
  by (simp add: only_path_def)

lemma only_path_trans: "only_path a b \<Longrightarrow> only_path b c \<Longrightarrow> only_path a c"
  by (simp add: only_path_def)

lemma only_path_published: "only_path a r \<Longrightarrow> only_path a (r\<lparr>rc_published := pub\<rparr>)"
  by (simp add: only_path_def)

text \<open>Entering a phase with a reason that fits it, on a path that may be extended with it.\<close>

lemma enter_any:
  assumes env: "env_ok e" and path: "path_ok x (rc_transitions r)"
    and tools: "0 \<le> rc_active_tools r" "0 \<le> rc_completed_tools r"
    and time: "x \<le> rc_elapsed e now" and action: "proper_action a" and fits: "checkpoint_fits p c"
    and reason: "shutdown_phase p \<longleftrightarrow> reason \<noteq> None"
    and open_or_shutdown: "rc_stop_reason r = None \<or> shutdown_phase p"
    and legal: "p \<in> set (allowed_successors (lt_phase (last (rc_transitions r))))"
  shows "succeeds (enter_phase e p now reason c a r) (\<lambda>r'. only_path r r' \<and>
    path_ok (rc_elapsed e now) (rc_transitions r') \<and> rc_phase r' = rc_phase r \<and>
    rc_transitions r' = rc_transitions r \<and> lt_phase (last (rc_transitions r)) = p \<and>
    lt_stop_reason (last (rc_transitions r)) = reason \<or>
    only_path r r' \<and> path_ok (rc_elapsed e now) (rc_transitions r') \<and> rc_phase r' = Some p \<and>
    rc_transitions r' = rc_transitions r @ [next_transition e p now reason c a r])"
proof -
  let ?t = "next_transition e p now reason c a r"
  let ?r = "r\<lparr>rc_transitions := rc_transitions r @ [?t], rc_phase := Some p\<rparr>"
  have t: "validate_lifecycle_transition ?t = Inr ()"
    using action fits reason
    by (auto simp: validate_lifecycle_transition_def next_transition_def proper_action_def
        checkpoint_fits_def)
  have fields: "lt_phase ?t = p" "lt_elapsed_ms ?t = rc_elapsed e now" "lt_stop_reason ?t = reason"
    "lt_sequence ?t = int (length (rc_transitions r)) + 1"
    by (simp_all add: next_transition_def)
  have longer: "path_ok (rc_elapsed e now) (rc_transitions r @ [?t])"
    using path_ok_snoc [of x "rc_transitions r" ?t] path time t fields legal
    by (simp add: legal_step_def)
  show ?thesis
  proof (cases "repeats r ?t")
    case True
    then have "path_ok (rc_elapsed e now) (rc_transitions r)"
      using path time by (fastforce simp: path_ok_def)
    then show ?thesis
      using True t open_or_shutdown only_path_refl fields
      by (auto simp: enter_phase_def Let_def repeats_def)
  next
    case False
    obtain pub where "emit_phase e ?t ?r = Inr (?r\<lparr>rc_published := pub\<rparr>)"
      using emit_phase_frame [OF env t, of ?r] tools unfolding succeeds_iff by auto
    moreover have "only_path r (?r\<lparr>rc_published := pub\<rparr>)"
      by (simp add: only_path_def)
    ultimately show ?thesis
      using False t open_or_shutdown longer by (auto simp: enter_phase_def Let_def)
  qed
qed

lemma finalized_snoc:
  "rc_transitions r' = rc_transitions r @ [t] \<Longrightarrow>
     finalized r' \<longleftrightarrow> finalized r \<or> lt_phase t = Inv_Finalizing_Response"
  by (auto simp: finalized_def)

text \<open>A working phase, while no stop reason is owned.\<close>

lemma enter_work:
  assumes "env_ok e" and "recorder_ok x r" and "rc_stop_reason r = None"
    and "rc_phase r = Some q" and "p \<in> set (allowed_successors q)" and "\<not> shutdown_phase p"
    and "x \<le> rc_elapsed e now" and "checkpoint_fits p c" and "proper_action a"
  shows "succeeds (enter_phase e p now None c a r) (\<lambda>r'. recorder_ok (rc_elapsed e now) r' \<and>
    rc_phase r' = Some p \<and> only_path r r' \<and>
    (finalized r' \<longleftrightarrow> finalized r \<or> p = Inv_Finalizing_Response))"
proof -
  note ok = assms(2) [unfolded recorder_ok_def]
  have "succeeds (enter_phase e p now None c a r) (\<lambda>r'. only_path r r' \<and>
    path_ok (rc_elapsed e now) (rc_transitions r') \<and> rc_phase r' = rc_phase r \<and>
    rc_transitions r' = rc_transitions r \<and> lt_phase (last (rc_transitions r)) = p \<and>
    lt_stop_reason (last (rc_transitions r)) = None \<or>
    only_path r r' \<and> path_ok (rc_elapsed e now) (rc_transitions r') \<and> rc_phase r' = Some p \<and>
    rc_transitions r' = rc_transitions r @ [next_transition e p now None c a r])"
    using ok assms by (intro enter_any) auto
  then show ?thesis
  proof (rule succeeds_mono, elim disjE conjE)
    fix r' assume r': "only_path r r'" "path_ok (rc_elapsed e now) (rc_transitions r')"
      "rc_phase r' = rc_phase r" "rc_transitions r' = rc_transitions r"
      "lt_phase (last (rc_transitions r)) = p"
    have "last (rc_transitions r) \<in> set (rc_transitions r)" using ok by (simp add: path_ok_def)
    then show "recorder_ok (rc_elapsed e now) r' \<and> rc_phase r' = Some p \<and> only_path r r' \<and>
        (finalized r' \<longleftrightarrow> finalized r \<or> p = Inv_Finalizing_Response)"
      using r' ok r'(1) [unfolded only_path_def] by (auto simp: recorder_ok_def finalized_def)
  next
    fix r' assume r': "only_path r r'" "path_ok (rc_elapsed e now) (rc_transitions r')"
      "rc_phase r' = Some p"
      "rc_transitions r' = rc_transitions r @ [next_transition e p now None c a r]"
    have "lt_phase (next_transition e p now None c a r) = p" by (simp add: next_transition_def)
    then show "recorder_ok (rc_elapsed e now) r' \<and> rc_phase r' = Some p \<and> only_path r r' \<and>
        (finalized r' \<longleftrightarrow> finalized r \<or> p = Inv_Finalizing_Response)"
      using r' ok assms(3,6) r'(1) [unfolded only_path_def] finalized_snoc [OF r'(4)]
      by (simp add: recorder_ok_def)
  qed
qed

text \<open>After a stop reason is owned a working phase changes nothing.\<close>

lemma enter_after_stop:
  "rc_stop_reason r \<noteq> None \<Longrightarrow> \<not> shutdown_phase p \<Longrightarrow> enter_phase e p now reason c a r = Inr r"
  by (simp add: enter_phase_def)

lemma last_phase_open:
  assumes "recorder_ok x r" and "rc_stop_reason r = None"
  shows "\<not> shutdown_phase (lt_phase (last (rc_transitions r)))"
  using assms by (simp add: recorder_ok_def path_ok_def)

lemma may_stop: "\<not> shutdown_phase q \<Longrightarrow> Inv_Stopping \<in> set (allowed_successors q)"
  by (cases q) auto

text \<open>\<open>request_stop\<close>: the first reason is recorded, later ones change nothing.\<close>

lemma request_stop_ok:
  assumes env: "env_ok e" and ok: "recorder_ok x r" and time: "x \<le> rc_elapsed e now"
    and action: "proper_action a"
  shows "succeeds (request_stop e reason now a r) (\<lambda>(first, r').
    recorder_ok (rc_elapsed e now) r' \<and> first = (rc_stop_reason r = None) \<and>
    rc_stop_reason r' = Some (the_or (rc_stop_reason r) reason) \<and>
    (finalized r' \<longleftrightarrow> finalized r) \<and>
    (if first then only_path (r\<lparr>rc_stop_reason := Some reason, rc_stop_started := Some now\<rparr>) r'
     else r' = r))"
proof (cases "rc_stop_reason r")
  case None
  let ?r = "r\<lparr>rc_stop_reason := Some reason, rc_stop_started := Some now\<rparr>"
  note o = ok [unfolded recorder_ok_def] last_phase_open [OF ok None]
  have "succeeds (enter_phase e Inv_Stopping now (Some reason) None a ?r) (\<lambda>r'. only_path ?r r' \<and>
    path_ok (rc_elapsed e now) (rc_transitions r') \<and> rc_phase r' = rc_phase ?r \<and>
    rc_transitions r' = rc_transitions ?r \<and> lt_phase (last (rc_transitions ?r)) = Inv_Stopping \<and>
    lt_stop_reason (last (rc_transitions ?r)) = Some reason \<or>
    only_path ?r r' \<and> path_ok (rc_elapsed e now) (rc_transitions r') \<and> rc_phase r' = Some Inv_Stopping \<and>
    rc_transitions r' = rc_transitions ?r @ [next_transition e Inv_Stopping now (Some reason) None a ?r])"
    using o by (intro enter_any [OF env _ _ _ time action]) (auto simp: checkpoint_fits_def may_stop)
  then have "succeeds (enter_phase e Inv_Stopping now (Some reason) None a ?r) (\<lambda>r'.
    recorder_ok (rc_elapsed e now) r' \<and> only_path ?r r' \<and> (finalized r' \<longleftrightarrow> finalized r))"
  proof (rule succeeds_mono, elim disjE conjE)
    fix r' assume "lt_phase (last (rc_transitions ?r)) = Inv_Stopping"
    then show "recorder_ok (rc_elapsed e now) r' \<and> only_path ?r r' \<and> (finalized r' \<longleftrightarrow> finalized r)"
      using o(2) by simp
  next
    fix r' assume r': "only_path ?r r'" "path_ok (rc_elapsed e now) (rc_transitions r')"
      "rc_phase r' = Some Inv_Stopping"
      "rc_transitions r' = rc_transitions ?r @ [next_transition e Inv_Stopping now (Some reason) None a ?r]"
    then show "recorder_ok (rc_elapsed e now) r' \<and> only_path ?r r' \<and> (finalized r' \<longleftrightarrow> finalized r)"
      using o r'(1) [unfolded only_path_def] None
      by (auto simp: recorder_ok_def finalized_def next_transition_def)
  qed
  then show ?thesis
    unfolding request_stop_def using None
    by (auto elim!: succeeds_mono simp: only_path_def)
next
  case (Some s)
  then show ?thesis
    using recorder_ok_mono [OF ok time] by (simp add: request_stop_def)
qed

text \<open>Activities about the initialization.\<close>

lemma proper_reached: "proper_action (''OpenClaw initialization reached '' @ checkpoint_value c)"
  by (cases c) (simp_all add: proper_action_def)

lemma initialization_activity_valid:
  assumes env: "env_ok e" and "0 \<le> inactivity"
    and degraded: "kind = Act_Initialization_Degraded \<Longrightarrow>
      opt_all (\<lambda>s. s \<noteq> [] \<and> length s \<le> 500) (ie_degradation_reason (rc_initialization r)) \<and>
      ie_degradation_reason (rc_initialization r) \<noteq> None \<and> c = None"
    and kind: "kind \<in> {Act_Initialization_Progress, Act_Initialization_Degraded,
      Act_Initialization_Suspected, Act_Initialization_Recovered, Act_Initialization_Stalled}"
  shows "validate_activity (initialization_activity e kind now c inactivity r) = Inr ()"
proof -
  let ?a = "initialization_activity e kind now c inactivity r"
  have "activity_fields ?a = Inr ()"
    using env env_policies(1-4) [OF env] assms(2) degraded
    by (simp add: activity_fields_def initialization_activity_def with_guard_def plain_activity_def
        env_ok_def)
  moreover have "check_activity ?a = Inr ()"
    using kind degraded
    by (auto simp: check_activity_def initialization_activity_def with_guard_def plain_activity_def
        no_policy_def Let_def)
  ultimately show ?thesis by (simp add: validate_activity_def)
qed

lemma emit_initialization_ok:
  assumes "env_ok e" and "0 \<le> inactivity"
    and "kind = Act_Initialization_Degraded \<Longrightarrow>
      opt_all (\<lambda>s. s \<noteq> [] \<and> length s \<le> 500) (ie_degradation_reason (rc_initialization r)) \<and>
      ie_degradation_reason (rc_initialization r) \<noteq> None \<and> c = None"
    and "kind \<in> {Act_Initialization_Progress, Act_Initialization_Degraded,
      Act_Initialization_Suspected, Act_Initialization_Recovered, Act_Initialization_Stalled}"
  shows "succeeds (emit_initialization e kind now c inactivity r) (\<lambda>r'. \<exists>pub. r' = r\<lparr>rc_published := pub\<rparr>)"
  using initialization_activity_valid [OF assms] deliver_frame
  by (simp add: emit_initialization_def Let_def)

lemma published_ok:
  "recorder_ok x (r\<lparr>rc_published := pub\<rparr>) = recorder_ok x r" "finalized (r\<lparr>rc_published := pub\<rparr>) = finalized r"
  by (simp_all add: recorder_ok_def finalized_def)


section \<open>Working phases\<close>

lemma owned_mono:
  "recorder_ok x r \<Longrightarrow> x \<le> rc_elapsed e now \<Longrightarrow> recorder_ok (rc_elapsed e now) r"
  by (rule recorder_ok_mono)

lemma enter_or_owned:
  assumes "env_ok e" and "recorder_ok x r" and "\<not> shutdown_phase p"
    and "rc_stop_reason r = None \<Longrightarrow> \<exists>q. rc_phase r = Some q \<and> p \<in> set (allowed_successors q)"
    and "x \<le> rc_elapsed e now" and "checkpoint_fits p c" and "proper_action a"
  shows "succeeds (enter_phase e p now None c a r) (\<lambda>r'. recorder_ok (rc_elapsed e now) r' \<and>
    only_path r r' \<and>
    (rc_stop_reason r = None \<longrightarrow> rc_phase r' = Some p \<and>
       (finalized r' \<longleftrightarrow> finalized r \<or> p = Inv_Finalizing_Response)) \<and>
    (rc_stop_reason r \<noteq> None \<longrightarrow> rc_phase r' = rc_phase r \<and> (finalized r' \<longleftrightarrow> finalized r)))"
proof (cases "rc_stop_reason r")
  case None
  then obtain q where q: "rc_phase r = Some q" "p \<in> set (allowed_successors q)" using assms(4) by auto
  show ?thesis
    using enter_work [OF assms(1,2) None q assms(3,5-7)] None by (auto elim!: succeeds_mono)
next
  case (Some s)
  then show ?thesis
    using owned_mono [OF assms(2,5)] assms(3) only_path_refl by (simp add: enter_after_stop)
qed

lemma proper_literals:
  "proper_action ''Provider activity lease is now attributable to this invocation''"
  "proper_action (''Terminal provider response observed; OpenClaw is finalizing its '' @
     ''result envelope and process'')"
  "proper_action ''Attributable tools completed; waiting for provider activity''"
  by (simp_all add: proper_action_def)

lemma progress_ok:
  assumes "env_ok e" and "recorder_ok x r" and "x \<le> rc_elapsed e now"
    and "rc_stop_reason r = None \<longrightarrow> rc_phase r = Some Inv_Initializing"
  shows "succeeds (initialization_progress e c now r) (\<lambda>r'. recorder_ok (rc_elapsed e now) r' \<and>
    only_path r r' \<and> (rc_stop_reason r = None \<longrightarrow> rc_phase r' = Some Inv_Initializing) \<and>
    (finalized r' \<longleftrightarrow> finalized r))"
proof -
  have "succeeds (enter_phase e Inv_Initializing now None (Some c)
      (''OpenClaw initialization reached '' @ checkpoint_value c) r) (\<lambda>r'.
    recorder_ok (rc_elapsed e now) r' \<and> only_path r r' \<and>
    (rc_stop_reason r = None \<longrightarrow> rc_phase r' = Some Inv_Initializing \<and>
       (finalized r' \<longleftrightarrow> finalized r \<or> Inv_Initializing = Inv_Finalizing_Response)) \<and>
    (rc_stop_reason r \<noteq> None \<longrightarrow> rc_phase r' = rc_phase r \<and> (finalized r' \<longleftrightarrow> finalized r)))"
    using assms proper_reached by (intro enter_or_owned) (auto simp: checkpoint_fits_def)
  moreover have "succeeds (emit_initialization e Act_Initialization_Progress now (Some c) 0 r1)
      (\<lambda>r'. \<exists>pub. r' = r1\<lparr>rc_published := pub\<rparr>)" for r1
    using assms(1) by (intro emit_initialization_ok) auto
  ultimately show ?thesis
    unfolding initialization_progress_def succeeds_bind
    by (elim succeeds_mono, elim conjE)
      (rule succeeds_mono, assumption, auto simp: published_ok only_path_published)
qed

definition provider_phase :: "invocation_phase option \<Rightarrow> bool" where
  "provider_phase p \<longleftrightarrow> p \<in> Some ` {Inv_Provider_Wait, Inv_Tool_Active, Inv_Finalizing_Response}"

lemma provider_phase_simps [simp]:
  "provider_phase (Some Inv_Provider_Wait)" "provider_phase (Some Inv_Tool_Active)"
  "provider_phase (Some Inv_Finalizing_Response)" "\<not> provider_phase (Some Inv_Initializing)"
  by (simp_all add: provider_phase_def)

lemma ready_ok:
  assumes "env_ok e" and "recorder_ok x r" and "x \<le> rc_elapsed e now"
    and "rc_stop_reason r = None \<longrightarrow> rc_phase r = Some Inv_Initializing \<or> provider_phase (rc_phase r)"
  shows "succeeds (provider_ready e c now r) (\<lambda>r'. recorder_ok (rc_elapsed e now) r' \<and>
    only_path r r' \<and> (rc_stop_reason r = None \<longrightarrow> provider_phase (rc_phase r')) \<and>
    (finalized r' \<longleftrightarrow> finalized r))"
proof (cases "rc_phase r \<in> Some ` {Inv_Provider_Wait, Inv_Tool_Active, Inv_Finalizing_Response,
    Inv_Stopping, Inv_Collecting_Evidence, Inv_Stopped}")
  case True
  then show ?thesis
    using owned_mono [OF assms(2,3)] assms(4) only_path_refl
    by (auto simp: provider_ready_def provider_phase_def)
next
  case False
  have "succeeds (enter_phase e Inv_Provider_Wait now None (Some c)
      ''Provider activity lease is now attributable to this invocation'' r) (\<lambda>r'.
    recorder_ok (rc_elapsed e now) r' \<and> only_path r r' \<and>
    (rc_stop_reason r = None \<longrightarrow> rc_phase r' = Some Inv_Provider_Wait \<and>
       (finalized r' \<longleftrightarrow> finalized r \<or> Inv_Provider_Wait = Inv_Finalizing_Response)) \<and>
    (rc_stop_reason r \<noteq> None \<longrightarrow> rc_phase r' = rc_phase r \<and> (finalized r' \<longleftrightarrow> finalized r)))"
    using assms(2,4) False
    by (intro enter_or_owned [OF assms(1,2) _ _ assms(3) _ proper_literals(1)])
      (auto simp: checkpoint_fits_def provider_phase_def)
  then show ?thesis
    using False by (auto simp: provider_ready_def elim!: succeeds_mono)
qed

text \<open>More tools than numbers of 400 digits cannot be counted in an action of 500 characters.\<close>

definition count_digits :: nat where "count_digits = 400"

lemma int_text_length: "0 \<le> n \<Longrightarrow> n < 10 ^ count_digits \<Longrightarrow> length (int_text n) \<le> count_digits"
  using decimal_length [of "nat n" count_digits]
  by (simp add: int_text_def nat_less_iff count_digits_def del: power_numeral)

lemma tool_ok:
  assumes "env_ok e" and "recorder_ok x r" and "x \<le> rc_elapsed e now"
    and "0 \<le> active" and "active < 10 ^ count_digits" and "0 \<le> completed"
    and "rc_stop_reason r = None \<longrightarrow> provider_phase (rc_phase r)"
  shows "succeeds (tool_state e active completed now r) (\<lambda>r'. recorder_ok (rc_elapsed e now) r' \<and>
    only_path (r\<lparr>rc_active_tools := active, rc_completed_tools := completed\<rparr>) r' \<and>
    (rc_stop_reason r = None \<longrightarrow> provider_phase (rc_phase r')) \<and> (finalized r' \<longleftrightarrow> finalized r))"
proof -
  let ?r = "r\<lparr>rc_active_tools := active, rc_completed_tools := completed\<rparr>"
  define p where "p = (if 0 < active then Inv_Tool_Active else Inv_Provider_Wait)"
  have ok: "recorder_ok x ?r" using assms by (simp add: recorder_ok_def)
  show ?thesis
  proof (cases "rc_phase r \<in> Some ` {Inv_Stopping, Inv_Collecting_Evidence, Inv_Stopped,
      Inv_Finalizing_Response} \<or> rc_phase r = Some p")
    case True
    then have "tool_state e active completed now r = Inr ?r"
      by (simp add: tool_state_def Let_def p_def)
    then show ?thesis
      using owned_mono [OF ok assms(3)] assms(7) only_path_refl by (auto simp: finalized_def)
  next
    case False
    define a where "a = (if 0 < active then int_text active @ '' attributable tool operation(s) active''
      else ''Attributable tools completed; waiting for provider activity'')"
    have tool: "tool_state e active completed now r = enter_phase e p now None None a ?r"
      using False by (simp add: tool_state_def Let_def p_def a_def)
    have "proper_action a"
      using int_text_length [OF assms(4,5)] by (simp add: proper_action_def a_def count_digits_def)
    then have "succeeds (enter_phase e p now None None a ?r) (\<lambda>r'.
      recorder_ok (rc_elapsed e now) r' \<and> only_path ?r r' \<and>
      (rc_stop_reason ?r = None \<longrightarrow> rc_phase r' = Some p \<and>
         (finalized r' \<longleftrightarrow> finalized ?r \<or> p = Inv_Finalizing_Response)) \<and>
      (rc_stop_reason ?r \<noteq> None \<longrightarrow> rc_phase r' = rc_phase ?r \<and> (finalized r' \<longleftrightarrow> finalized ?r)))"
      using assms(1,3,7) ok False
      by (intro enter_or_owned) (auto simp: checkpoint_fits_def provider_phase_def p_def)
    then show ?thesis
      unfolding tool by (rule succeeds_mono) (auto simp: p_def finalized_def split: if_splits)
  qed
qed

lemma finalizing_ok:
  assumes "env_ok e" and "recorder_ok x r" and "x \<le> rc_elapsed e now"
    and "rc_stop_reason r = None \<longrightarrow> provider_phase (rc_phase r)"
  shows "succeeds (response_finalizing e now r) (\<lambda>r'. recorder_ok (rc_elapsed e now) r' \<and>
    only_path r r' \<and> (rc_stop_reason r = None \<longrightarrow> provider_phase (rc_phase r') \<and> finalized r') \<and>
    (rc_stop_reason r \<noteq> None \<longrightarrow> (finalized r' \<longleftrightarrow> finalized r)))"
proof (cases "rc_phase r \<in> Some ` {Inv_Finalizing_Response, Inv_Stopping, Inv_Collecting_Evidence,
    Inv_Stopped}")
  case True
  have "last (rc_transitions r) \<in> set (rc_transitions r)" "rc_phase r = Some (lt_phase (last (rc_transitions r)))"
    using assms(2) by (simp_all add: recorder_ok_def path_ok_def)
  then show ?thesis
    using True owned_mono [OF assms(2,3)] assms(4) only_path_refl
    by (auto simp: response_finalizing_def provider_phase_def finalized_def)
next
  case False
  have "succeeds (enter_phase e Inv_Finalizing_Response now None None
      (''Terminal provider response observed; OpenClaw is finalizing its '' @
       ''result envelope and process'') r) (\<lambda>r'.
    recorder_ok (rc_elapsed e now) r' \<and> only_path r r' \<and>
    (rc_stop_reason r = None \<longrightarrow> rc_phase r' = Some Inv_Finalizing_Response \<and>
       (finalized r' \<longleftrightarrow> finalized r \<or> Inv_Finalizing_Response = Inv_Finalizing_Response)) \<and>
    (rc_stop_reason r \<noteq> None \<longrightarrow> rc_phase r' = rc_phase r \<and> (finalized r' \<longleftrightarrow> finalized r)))"
    using assms(4) False
    by (intro enter_or_owned [OF assms(1,2) _ _ assms(3) _ proper_literals(2)])
      (auto simp: checkpoint_fits_def provider_phase_def)
  then show ?thesis
    unfolding response_finalizing_def using False by (auto elim!: succeeds_mono)
qed

end
