(* ===== verification/Monitor_Invariants.thy ===== *)
theory Monitor_Invariants
  imports Lifecycle_Invariants
begin

text \<open>
  The invariants of the three monitors and of the recorder they share. \<open>init_ok\<close>, \<open>provider_ok\<close> and
  \<open>final_ok\<close> describe one monitor each (the evidence they imply is always accepted), \<open>phase_ok\<close>
  ties the readiness of the initialization monitor to the recorded phase. Each operation is shown
  to return and to keep them.
\<close>

section \<open>Environments\<close>

lemma renv_simps [simp]:
  "re_agent_id (renv e) = re_agent_id e" "re_session_key (renv e) = re_session_key e"
  "re_model (renv e) = re_model e" "re_started (renv e) = re_started e"
  "re_grace_seconds (renv e) = re_grace_seconds e" "re_grace_text (renv e) = re_grace_text e"
  "re_initialization_policy (renv e) = re_initialization_policy e"
  "re_finalization_policy (renv e) = re_finalization_policy e" "re_handler (renv e) = re_handler e"
  by (simp_all add: renv_def recorder_env.truncate_def)

definition baseline_ok :: "(initialization_checkpoint option \<times> int) option \<Rightarrow> bool" where
  "baseline_ok b \<longleftrightarrow> (case b of None \<Rightarrow> True
     | Some (c, n) \<Rightarrow> 0 \<le> n \<and> (n \<noteq> 0 \<longrightarrow> c = Some Chk_Current_Turn))"

definition menv_ok :: "monitor_env \<Rightarrow> bool" where
  "menv_ok e \<longleftrightarrow> env_ok (renv e) \<and> validate_provider_policy (me_provider_policy e) = Inr () \<and>
     baseline_ok (me_baseline e)"

abbreviation elapsed :: "monitor_env \<Rightarrow> rat \<Rightarrow> int" where
  "elapsed e \<equiv> rc_elapsed (renv e)"

definition short_reason :: "string option \<Rightarrow> bool" where
  "short_reason r \<longleftrightarrow> opt_all (\<lambda>s. s \<noteq> [] \<and> length s \<le> 500) r"

section \<open>The initialization monitor\<close>

definition init_data :: "monitor_env \<Rightarrow> init_monitor \<Rightarrow> bool" where
  "init_data e m \<longleftrightarrow> im_checkpoints m \<noteq> [] \<and> sorted_wrt (<) (im_checkpoints m) \<and>
     0 \<le> im_observations m \<and> 0 \<le> im_suspected_count m \<and> 0 \<le> im_recovered_count m \<and>
     0 \<le> im_maximum_ms m \<and> short_reason (im_degradation m) \<and>
     (\<not> me_state_dir e \<longrightarrow> im_degradation m \<noteq> None) \<and>
     (im_stalled m \<longrightarrow> im_degradation m = None \<and> Chk_Current_Turn \<notin> set (im_checkpoints m))"

definition init_ok :: "monitor_env \<Rightarrow> init_monitor \<Rightarrow> bool" where
  "init_ok e m \<longleftrightarrow> init_data e m \<and> ((\<exists>c \<in> set (im_checkpoints m). readiness c) \<longleftrightarrow> im_ready m)"

lemma init_evidence_valid:
  assumes "menv_ok e" and "init_data e m"
  shows "validate_initialization (init_evidence e m) = Inr ()"
proof -
  have env: "env_ok (renv e)" "baseline_ok (me_baseline e)" using assms(1) by (simp_all add: menv_ok_def)
  have base: "0 \<le> ie_baseline_turns (init_evidence e m)"
      "ie_baseline_turns (init_evidence e m) \<noteq> 0 \<Longrightarrow> ie_baseline (init_evidence e m) = Some Chk_Current_Turn"
    using env(2) by (auto simp: init_evidence_def baseline_ok_def split: option.splits)
  show ?thesis
    using env_policies(1-5) [OF env(1)] base assms(2)
    by (auto simp: validate_initialization_def init_evidence_def init_data_def short_reason_def)
qed

definition phase_ok :: "watch \<Rightarrow> bool" where
  "phase_ok w \<longleftrightarrow> (rc_stop_reason (wt_recorder w) = None \<longrightarrow>
     (if im_ready (wt_init w) then provider_phase (rc_phase (wt_recorder w))
      else rc_phase (wt_recorder w) = Some Inv_Initializing))"

text \<open>What no monitor touches, and whether the response has been finalized.\<close>

definition keeps :: "recorder \<Rightarrow> recorder \<Rightarrow> bool" where
  "keeps r r' \<longleftrightarrow>
     rc_stop_reason r' = rc_stop_reason r \<and> rc_stop_started r' = rc_stop_started r \<and>
     rc_process_started r' = rc_process_started r \<and> rc_group_targeted r' = rc_group_targeted r \<and>
     rc_terminate_sent r' = rc_terminate_sent r \<and> rc_kill_sent r' = rc_kill_sent r \<and>
     rc_lease_released r' = rc_lease_released r \<and> rc_wait r' = rc_wait r \<and>
     rc_finalization r' = rc_finalization r \<and> (finalized r' \<longleftrightarrow> finalized r)"

lemma keeps_refl [simp]: "keeps r r"
  by (simp add: keeps_def)

lemma keeps_trans: "keeps a b \<Longrightarrow> keeps b c \<Longrightarrow> keeps a c"
  by (simp add: keeps_def)

lemma keeps_published: "keeps r (r\<lparr>rc_published := pub\<rparr>)"
  by (simp add: keeps_def finalized_def)

lemma keeps_only_path: "only_path r r' \<Longrightarrow> finalized r' = finalized r \<Longrightarrow> keeps r r'"
  by (simp add: keeps_def only_path_def)

definition same_monitors :: "watch \<Rightarrow> watch \<Rightarrow> bool" where
  "same_monitors w w' \<longleftrightarrow> wt_provider w' = wt_provider w \<and> wt_final w' = wt_final w"

definition init_step :: "monitor_env \<Rightarrow> int \<Rightarrow> watch \<Rightarrow> watch \<Rightarrow> bool" where
  "init_step e x w w' \<longleftrightarrow> same_monitors w w' \<and> keeps (wt_recorder w) (wt_recorder w') \<and>
     recorder_ok x (wt_recorder w') \<and> init_ok e (wt_init w') \<and> phase_ok w'"

lemma init_step_trans:
  "init_step e x a b \<Longrightarrow> init_step e y b c \<Longrightarrow> init_step e y a c"
  by (auto simp: init_step_def same_monitors_def intro: keeps_trans)

text \<open>Telling the observer changes neither the monitor nor the phase.\<close>

lemma tell_initialization_ok:
  assumes env: "menv_ok e" and init: "init_data e (wt_init w)" and ok: "recorder_ok x (wt_recorder w)"
    and "x \<le> elapsed e now" and "0 \<le> inactivity"
    and kind: "kind \<in> {Act_Initialization_Progress, Act_Initialization_Degraded,
      Act_Initialization_Suspected, Act_Initialization_Recovered, Act_Initialization_Stalled}"
    and degraded: "kind = Act_Initialization_Degraded \<Longrightarrow> im_degradation (wt_init w) \<noteq> None \<and> c = None"
  shows "succeeds (tell_initialization e kind now c inactivity w) (\<lambda>w'. wt_init w' = wt_init w \<and>
    same_monitors w w' \<and> keeps (wt_recorder w) (wt_recorder w') \<and>
    recorder_ok (elapsed e now) (wt_recorder w') \<and>
    rc_phase (wt_recorder w') = rc_phase (wt_recorder w))"
proof -
  let ?ev = "init_evidence e (wt_init w)"
  let ?r = "(wt_recorder w)\<lparr>rc_initialization := ?ev\<rparr>"
  have reason: "ie_degradation_reason ?ev = im_degradation (wt_init w)" by (simp add: init_evidence_def)
  have "succeeds (emit_initialization (renv e) kind now c inactivity ?r)
      (\<lambda>r'. \<exists>pub. r' = ?r\<lparr>rc_published := pub\<rparr>)"
    using env init assms(5) kind degraded
    by (intro emit_initialization_ok) (simp_all add: reason menv_ok_def init_data_def short_reason_def)
  moreover have "recorder_ok (elapsed e now) ?r"
    using recorder_ok_mono [OF ok assms(4)] by (simp add: recorder_ok_def)
  ultimately show ?thesis
    using init_evidence_valid [OF env init]
    by (auto simp: tell_initialization_def record_initialization_def on_recorder_def Let_def
        same_monitors_def keeps_def finalized_def published_ok elim!: succeeds_mono)
qed

lemma record_initialization_ok:
  assumes "menv_ok e" and "init_data e (wt_init w)"
  shows "record_initialization e w =
    Inr (w\<lparr>wt_recorder := (wt_recorder w)\<lparr>rc_initialization := init_evidence e (wt_init w)\<rparr>\<rparr>)"
  using init_evidence_valid [OF assms] by (simp add: record_initialization_def Let_def)

lemma record_initialization_step:
  assumes "menv_ok e" and "init_ok e (wt_init w)" and "recorder_ok x (wt_recorder w)" and "phase_ok w"
  shows "succeeds (record_initialization e w) (\<lambda>w'. init_step e x w w' \<and> wt_init w' = wt_init w \<and>
    rc_initialization (wt_recorder w') = init_evidence e (wt_init w))"
  using assms
  by (auto simp: record_initialization_ok init_ok_def init_step_def same_monitors_def keeps_def finalized_def
      recorder_ok_def phase_ok_def)

text \<open>Changing the monitor and then telling the observer.\<close>

lemma tell_step:
  assumes env: "menv_ok e" and ok: "recorder_ok x (wt_recorder w)" and "x \<le> elapsed e now"
    and "phase_ok w" and m: "init_ok e m" "im_ready m = im_ready (wt_init w)"
    and "0 \<le> inactivity"
    and "kind \<in> {Act_Initialization_Progress, Act_Initialization_Degraded,
      Act_Initialization_Suspected, Act_Initialization_Recovered, Act_Initialization_Stalled}"
    and "kind = Act_Initialization_Degraded \<Longrightarrow> im_degradation m \<noteq> None \<and> c = None"
  shows "succeeds (tell_initialization e kind now c inactivity (w\<lparr>wt_init := m\<rparr>)) (\<lambda>w'.
    init_step e (elapsed e now) w w' \<and> wt_init w' = m)"
proof -
  have "succeeds (tell_initialization e kind now c inactivity (w\<lparr>wt_init := m\<rparr>)) (\<lambda>w'.
    wt_init w' = wt_init (w\<lparr>wt_init := m\<rparr>) \<and> same_monitors (w\<lparr>wt_init := m\<rparr>) w' \<and>
    keeps (wt_recorder (w\<lparr>wt_init := m\<rparr>)) (wt_recorder w') \<and>
    recorder_ok (elapsed e now) (wt_recorder w') \<and>
    rc_phase (wt_recorder w') = rc_phase (wt_recorder (w\<lparr>wt_init := m\<rparr>)))"
    using assms unfolding init_ok_def by (intro tell_initialization_ok [where x = x]) auto
  then show ?thesis
    using assms(4) m by (auto simp: init_step_def same_monitors_def phase_ok_def keeps_def elim!: succeeds_mono)
qed

section \<open>Reaching checkpoints\<close>

lemma checkpoint_le_stream: "c \<le> Chk_Provider_Stream"
  by (cases c) (simp_all add: checkpoint_order_defs)

lemma current_turn_le: "Chk_Current_Turn \<le> c \<longleftrightarrow> readiness c"
  by (cases c) (simp_all add: checkpoint_order_defs readiness_def)

lemma all_checkpoints_sorted: "sorted_wrt (<) all_checkpoints" "c \<in> set all_checkpoints"
  by (cases c; simp add: all_checkpoints_def checkpoint_order_defs)+

lemma sorted_wrt_last: "sorted_wrt (<) xs \<Longrightarrow> c \<in> set xs \<Longrightarrow> (c :: 'a::linorder) \<le> last xs"
  by (cases xs rule: rev_cases) (auto simp: sorted_wrt_append intro: less_imp_le)

lemma implied_facts:
  assumes "latest < checkpoint"
  shows "sorted_wrt (<) (implied_checkpoints b latest checkpoint)"
    "\<forall>c \<in> set (implied_checkpoints b latest checkpoint). latest < c \<and> c \<le> checkpoint"
    "checkpoint \<in> set (implied_checkpoints b latest checkpoint)"
    "checkpoint = Chk_Provider_Stream \<Longrightarrow> implied_checkpoints b latest checkpoint = [checkpoint]"
  using assms all_checkpoints_sorted
  by (auto simp: implied_checkpoints_def sorted_wrt_filter not_le split: option.splits intro: opt_all_simps)
    (cases b; auto)+

lemma extended_checkpoints:
  fixes old :: "initialization_checkpoint list" and b :: "initialization_checkpoint option"
  assumes "sorted_wrt (<) old" and "old \<noteq> []" and "last old < checkpoint"
    and "\<forall>c \<in> set old. \<not> readiness c"
  defines "cs \<equiv> old @ implied_checkpoints b (last old) checkpoint"
  shows "sorted_wrt (<) cs" "last cs = checkpoint" "(\<exists>c \<in> set cs. readiness c) = readiness checkpoint"
    "checkpoint \<noteq> Chk_Current_Turn \<Longrightarrow> Chk_Current_Turn \<notin> set cs"
proof -
  note imp = implied_facts [OF assms(3), where b = b]
  have old: "c \<le> last old" if "c \<in> set old" for c using sorted_wrt_last [OF assms(1) that] .
  show sorted: "sorted_wrt (<) cs"
    unfolding cs_def using assms(1) imp old by (fastforce simp: sorted_wrt_append)
  have "checkpoint \<le> last cs" using sorted_wrt_last [OF sorted] imp(3) unfolding cs_def by simp
  moreover have "last cs \<in> set (implied_checkpoints b (last old) checkpoint)"
    using imp(3) unfolding cs_def by (metis empty_iff last_appendR last_in_set list.set(1))
  ultimately show last: "last cs = checkpoint" using imp(2) by fastforce
  have below: "c \<in> set cs \<Longrightarrow> c \<le> checkpoint" for c
    using sorted_wrt_last [OF sorted, of c] last by simp
  show "(\<exists>c \<in> set cs. readiness c) = readiness checkpoint"
  proof
    assume "\<exists>c \<in> set cs. readiness c"
    then show "readiness checkpoint" using below current_turn_le by (metis order_trans)
  next
    assume "readiness checkpoint"
    then show "\<exists>c \<in> set cs. readiness c" using imp(3) unfolding cs_def by auto
  qed
  assume neq: "checkpoint \<noteq> Chk_Current_Turn"
  show "Chk_Current_Turn \<notin> set cs"
  proof
    assume mem: "Chk_Current_Turn \<in> set cs"
    then have "readiness checkpoint" using below current_turn_le by blast
    then have "checkpoint = Chk_Provider_Stream" using neq by (simp add: readiness_def)
    then have "cs = old @ [checkpoint]" using imp(4) unfolding cs_def by simp
    then show False using mem neq assms(4) by (auto simp: readiness_def)
  qed
qed

lemma reach_all:
  assumes env: "menv_ok e" and "recorder_ok x (wt_recorder w)" and "x \<le> elapsed e now"
    and "rc_stop_reason (wt_recorder w) = None \<longrightarrow> rc_phase (wt_recorder w) = Some Inv_Initializing"
  shows "succeeds (efold (reach_checkpoint e now) cs w) (\<lambda>w'.
    wt_init w' = (wt_init w)\<lparr>im_checkpoints := im_checkpoints (wt_init w) @ cs\<rparr> \<and>
    same_monitors w w' \<and> keeps (wt_recorder w) (wt_recorder w') \<and>
    recorder_ok (elapsed e now) (wt_recorder w') \<and>
    (rc_stop_reason (wt_recorder w) = None \<longrightarrow> rc_phase (wt_recorder w') = Some Inv_Initializing))"
  using assms(2-)
proof (induction cs arbitrary: w x)
  case Nil
  then show ?case using recorder_ok_mono by (simp add: same_monitors_def)
next
  case (Cons c cs)
  let ?w = "w\<lparr>wt_init := (wt_init w)\<lparr>im_checkpoints := im_checkpoints (wt_init w) @ [c]\<rparr>\<rparr>"
  have "succeeds (initialization_progress (renv e) c now (wt_recorder w)) (\<lambda>r'.
    recorder_ok (elapsed e now) r' \<and> only_path (wt_recorder w) r' \<and>
    (rc_stop_reason (wt_recorder w) = None \<longrightarrow> rc_phase r' = Some Inv_Initializing) \<and>
    (finalized r' \<longleftrightarrow> finalized (wt_recorder w)))"
    using env Cons.prems(3) unfolding menv_ok_def by (intro progress_ok [OF _ Cons.prems(1,2)]) auto
  then obtain r where r1: "initialization_progress (renv e) c now (wt_recorder w) = Inr r"
    and r2: "recorder_ok (elapsed e now) r \<and> only_path (wt_recorder w) r \<and>
      (rc_stop_reason (wt_recorder w) = None \<longrightarrow> rc_phase r = Some Inv_Initializing) \<and>
      (finalized r \<longleftrightarrow> finalized (wt_recorder w))"
    by (rule succeedsE)
  have keep: "keeps (wt_recorder w) r" using r2 by (simp add: keeps_only_path)
  then have reason: "rc_stop_reason r = rc_stop_reason (wt_recorder w)" by (simp add: keeps_def)
  have step: "reach_checkpoint e now c w = Inr (?w\<lparr>wt_recorder := r\<rparr>)"
    using r1 by (simp add: reach_checkpoint_def on_recorder_def)
  have "succeeds (efold (reach_checkpoint e now) cs (?w\<lparr>wt_recorder := r\<rparr>)) (\<lambda>w'.
    wt_init w' = (wt_init ?w)\<lparr>im_checkpoints := im_checkpoints (wt_init ?w) @ cs\<rparr> \<and>
    same_monitors (?w\<lparr>wt_recorder := r\<rparr>) w' \<and> keeps r (wt_recorder w') \<and>
    recorder_ok (elapsed e now) (wt_recorder w') \<and>
    (rc_stop_reason r = None \<longrightarrow> rc_phase (wt_recorder w') = Some Inv_Initializing))"
    using Cons.IH [of "elapsed e now" "?w\<lparr>wt_recorder := r\<rparr>"] r2 reason by simp
  then have "succeeds (efold (reach_checkpoint e now) cs (?w\<lparr>wt_recorder := r\<rparr>)) (\<lambda>w'.
    wt_init w' = (wt_init w)\<lparr>im_checkpoints := im_checkpoints (wt_init w) @ c # cs\<rparr> \<and>
    same_monitors w w' \<and> keeps (wt_recorder w) (wt_recorder w') \<and>
    recorder_ok (elapsed e now) (wt_recorder w') \<and>
    (rc_stop_reason (wt_recorder w) = None \<longrightarrow> rc_phase (wt_recorder w') = Some Inv_Initializing))"
    by (rule succeeds_mono, elim conjE)
      (intro conjI, simp_all add: same_monitors_def reason keeps_trans [OF keep])
  then show ?case unfolding efold.simps step ebind_Inr .
qed

section \<open>Polling the initialization\<close>

text \<open>What an operation may assume: the monitor and the recorder fit, and \<open>now\<close> is not in the past.\<close>

definition init_pre :: "monitor_env \<Rightarrow> int \<Rightarrow> rat \<Rightarrow> watch \<Rightarrow> bool" where
  "init_pre e x now w \<longleftrightarrow> menv_ok e \<and> init_ok e (wt_init w) \<and> recorder_ok x (wt_recorder w) \<and>
     x \<le> elapsed e now \<and> phase_ok w"

lemma init_step_refl: "init_pre e x now w \<Longrightarrow> init_step e (elapsed e now) w w"
  by (auto simp: init_pre_def init_step_def same_monitors_def intro: recorder_ok_mono)

lemma init_step_pre:
  assumes "init_pre e x now w" and "init_step e (elapsed e now) w w'"
  shows "init_pre e (elapsed e now) now w'"
  using assms by (simp add: init_pre_def init_step_def)

lemma recover_ok:
  assumes "init_pre e x now w"
  shows "succeeds (recover_initialization e c now w) (\<lambda>w'. init_step e (elapsed e now) w w' \<and>
    wt_init w' = (wt_init w)\<lparr>im_suspected := False,
      im_recovered_count := im_recovered_count (wt_init w) + 1\<rparr>)"
  unfolding recover_initialization_def
  using assms by (intro tell_step) (auto simp: init_pre_def init_ok_def init_data_def)

lemma degrade_initialization_ok:
  assumes "init_pre e x now w" and "\<not> im_stalled (wt_init w)" and "reason \<noteq> []" and "length reason \<le> 500"
  shows "succeeds (degrade_initialization e reason now w) (\<lambda>w'. init_step e (elapsed e now) w w' \<and>
    wt_init w' = (wt_init w)\<lparr>im_degradation := Some reason\<rparr>)"
  unfolding degrade_initialization_def
  using assms by (intro tell_step) (auto simp: init_pre_def init_ok_def init_data_def short_reason_def)

text \<open>Moving the progress time of the monitor.\<close>

lemma init_pre_frame:
  assumes "init_pre e x now w" and "init_ok e m" and "im_ready m = im_ready (wt_init w)"
  shows "init_pre e x now (w\<lparr>wt_init := m\<rparr>)"
  using assms by (simp add: init_pre_def phase_ok_def)

lemma init_step_frame:
  assumes "init_step e y w0 w" and "init_ok e m" and "im_ready m = im_ready (wt_init w)"
  shows "init_step e y w0 (w\<lparr>wt_init := m\<rparr>)"
  using assms by (simp add: init_step_def phase_ok_def same_monitors_def)

lemma init_step_from:
  "init_step e y (w\<lparr>wt_init := m\<rparr>) w' \<longleftrightarrow> init_step e y w w'"
  by (simp add: init_step_def same_monitors_def)

lemma init_ok_same:
  assumes "init_ok e m" and "im_checkpoints m' = im_checkpoints m" and "im_ready m' = im_ready m"
    and "im_degradation m' = im_degradation m" and "im_stalled m' = im_stalled m"
    and "0 \<le> im_observations m'" and "0 \<le> im_suspected_count m'" and "0 \<le> im_recovered_count m'"
    and "0 \<le> im_maximum_ms m'"
  shows "init_ok e m'"
  using assms by (simp add: init_ok_def init_data_def)

text \<open>The new state of the monitor after the implied checkpoints are reached.\<close>

lemma advance_ok:
  assumes pre: "init_pre e x now w" and "\<not> im_ready (wt_init w)"
    and "last (im_checkpoints (wt_init w)) \<le> c"
    and stalled: "im_stalled (wt_init w) \<Longrightarrow> c \<noteq> Chk_Current_Turn"
  shows "succeeds (advance_initialization e c now w) (\<lambda>w'. init_step e (elapsed e now) w w' \<and>
    im_ready (wt_init w') = readiness c \<and> im_stalled (wt_init w') = im_stalled (wt_init w) \<and>
    im_degradation (wt_init w') = im_degradation (wt_init w) \<and>
    last (im_checkpoints (wt_init w')) = c)"
proof (cases "c \<in> set (im_checkpoints (wt_init w))")
  case True
  have ok: "init_ok e (wt_init w)" using pre by (simp add: init_pre_def)
  have "c \<le> last (im_checkpoints (wt_init w))"
    using sorted_wrt_last [of "im_checkpoints (wt_init w)" c] ok True by (simp add: init_ok_def init_data_def)
  then have "last (im_checkpoints (wt_init w)) = c" using assms(3) by simp
  moreover have "\<not> readiness c" using True ok assms(2) by (auto simp: init_ok_def)
  ultimately show ?thesis
    using True init_step_refl [OF pre] assms(2) by (simp add: advance_initialization_def Let_def)
next
  case False
  let ?m = "wt_init w" and ?old = "im_checkpoints (wt_init w)"
  let ?cs = "implied_checkpoints (baseline_checkpoint e) (last ?old) c"
  have ok: "init_ok e ?m" and env: "menv_ok e" "env_ok (renv e)" and rec: "recorder_ok x (wt_recorder w)"
    and time: "x \<le> elapsed e now" and phase: "phase_ok w"
    using pre by (simp_all add: init_pre_def menv_ok_def)
  have "?old \<noteq> []" using ok by (simp add: init_ok_def init_data_def)
  then have less: "last ?old < c" using False assms(3) by (metis last_in_set order.not_eq_order_implies_strict)
  have unready: "\<forall>c \<in> set ?old. \<not> readiness c" using ok assms(2) by (auto simp: init_ok_def)
  have sorted_old: "sorted_wrt (<) ?old" using ok by (simp add: init_ok_def init_data_def)
  note ext = extended_checkpoints [OF sorted_old \<open>?old \<noteq> []\<close> less unready, of "baseline_checkpoint e"]
  have init: "rc_stop_reason (wt_recorder w) = None \<longrightarrow> rc_phase (wt_recorder w) = Some Inv_Initializing"
    using phase assms(2) by (simp add: phase_ok_def)
  obtain w1 where w1: "efold (reach_checkpoint e now) ?cs w = Inr w1"
    and p1: "wt_init w1 = ?m\<lparr>im_checkpoints := ?old @ ?cs\<rparr> \<and> same_monitors w w1 \<and>
      keeps (wt_recorder w) (wt_recorder w1) \<and> recorder_ok (elapsed e now) (wt_recorder w1) \<and>
      (rc_stop_reason (wt_recorder w) = None \<longrightarrow> rc_phase (wt_recorder w1) = Some Inv_Initializing)"
    using reach_all [OF env(1) rec time init] by (rule succeedsE)
  define w2 where "w2 = w1\<lparr>wt_init := (wt_init w1)\<lparr>im_last_progress := now\<rparr>\<rparr>"
  define ready where "ready = (\<lambda>m :: init_monitor. m\<lparr>im_ready := readiness c\<rparr>)"
  have data: "init_data e (wt_init w2)"
    using ok ext(1,4) stalled p1 by (auto simp: init_ok_def init_data_def w2_def)
  have fields: "im_checkpoints (wt_init w2) = ?old @ ?cs" "im_stalled (wt_init w2) = im_stalled ?m"
      "im_degradation (wt_init w2) = im_degradation ?m" "im_ready (wt_init w2) = im_ready ?m"
      "wt_recorder w2 = wt_recorder w1" "same_monitors w w2"
    using p1 by (simp_all add: w2_def same_monitors_def)
  define good where "good = (\<lambda>w3. init_data e (wt_init w3) \<and> same_monitors w w3 \<and>
      keeps (wt_recorder w) (wt_recorder w3) \<and> recorder_ok (elapsed e now) (wt_recorder w3) \<and>
      im_checkpoints (wt_init w3) = ?old @ ?cs \<and> im_stalled (wt_init w3) = im_stalled ?m \<and>
      im_degradation (wt_init w3) = im_degradation ?m \<and> im_ready (wt_init w3) = im_ready ?m \<and>
      (rc_stop_reason (wt_recorder w) = None \<longrightarrow> rc_phase (wt_recorder w3) = Some Inv_Initializing))"
  have "succeeds (if im_suspected (wt_init w2) then recover_initialization e (Some c) now w2 else Inr w2) good"
  proof (cases "im_suspected (wt_init w2)")
    case True
    let ?w = "w2\<lparr>wt_init := (wt_init w2)\<lparr>im_suspected := False,
      im_recovered_count := im_recovered_count (wt_init w2) + 1\<rparr>\<rparr>"
    have "succeeds (recover_initialization e (Some c) now w2) (\<lambda>w'. wt_init w' = wt_init ?w \<and>
      same_monitors ?w w' \<and> keeps (wt_recorder ?w) (wt_recorder w') \<and>
      recorder_ok (elapsed e now) (wt_recorder w') \<and>
      rc_phase (wt_recorder w') = rc_phase (wt_recorder ?w))"
      unfolding recover_initialization_def
      using env data p1 fields(5)
      by (intro tell_initialization_ok [where x = "elapsed e now"]) (auto simp: init_data_def)
    then have "succeeds (recover_initialization e (Some c) now w2) good"
    proof (rule succeeds_mono, elim conjE)
      fix w' assume w': "wt_init w' = wt_init ?w" "same_monitors ?w w'"
        "keeps (wt_recorder ?w) (wt_recorder w')" "recorder_ok (elapsed e now) (wt_recorder w')"
        "rc_phase (wt_recorder w') = rc_phase (wt_recorder ?w)"
      have "init_data e (wt_init w')" using data w'(1) by (simp add: init_data_def)
      moreover have "keeps (wt_recorder w) (wt_recorder w')"
        using keeps_trans [of "wt_recorder w" "wt_recorder w1" "wt_recorder w'"] p1 w'(3) fields(5) by simp
      ultimately show "good w'"
        using w' fields p1 by (simp add: good_def same_monitors_def)
    qed
    then show ?thesis using True by simp
  next
    case False
    then show ?thesis using data fields p1 by (simp add: good_def)
  qed
  then obtain w3 where w3: "(if im_suspected (wt_init w2) then recover_initialization e (Some c) now w2
      else Inr w2) = Inr w3" and "good w3"
    by (rule succeedsE)
  note g = \<open>good w3\<close> [unfolded good_def]
  let ?w4 = "w3\<lparr>wt_init := (wt_init w3)\<lparr>im_ready := True\<rparr>\<rparr>"
  have reason: "rc_stop_reason (wt_recorder w3) = rc_stop_reason (wt_recorder w)"
    using g by (simp add: keeps_def)
  have ready: "(\<exists>c \<in> set (?old @ ?cs). readiness c) = readiness c" "last (?old @ ?cs) = c"
    using ext(2,3) by simp_all
  have run: "advance_initialization e c now w =
      (if readiness c then on_recorder (provider_ready (renv e) c now) ?w4 else Inr w3)"
  proof -
    have "\<not> c < last ?old" using less by simp
    then have "advance_initialization e c now w =
        ebind (if im_suspected (wt_init w2) then recover_initialization e (Some c) now w2 else Inr w2)
          (\<lambda>w3. if readiness c
             then on_recorder (provider_ready (renv e) c now) (w3\<lparr>wt_init := (wt_init w3)\<lparr>im_ready := True\<rparr>\<rparr>)
             else Inr w3)"
      unfolding advance_initialization_def Let_def using False w1 by (simp add: w2_def)
    then show ?thesis by (simp only: w3 ebind_Inr)
  qed
  show ?thesis
  proof (cases "readiness c")
    case True
    have "succeeds (provider_ready (renv e) c now (wt_recorder w3)) (\<lambda>r'.
      recorder_ok (elapsed e now) r' \<and> only_path (wt_recorder w3) r' \<and>
      (rc_stop_reason (wt_recorder w3) = None \<longrightarrow> provider_phase (rc_phase r')) \<and>
      (finalized r' \<longleftrightarrow> finalized (wt_recorder w3)))"
      using env g reason by (intro ready_ok [where x = "elapsed e now"]) auto
    then obtain r where r1: "provider_ready (renv e) c now (wt_recorder w3) = Inr r"
      and r2: "recorder_ok (elapsed e now) r \<and> only_path (wt_recorder w3) r \<and>
      (rc_stop_reason (wt_recorder w3) = None \<longrightarrow> provider_phase (rc_phase r)) \<and>
      (finalized r \<longleftrightarrow> finalized (wt_recorder w3))"
      by (rule succeedsE)
    have "keeps (wt_recorder w3) r" using r2 by (simp add: keeps_only_path)
    then have k: "keeps (wt_recorder w) r" using g keeps_trans by blast
    then have reason_r: "rc_stop_reason r = rc_stop_reason (wt_recorder w3)"
      using reason by (simp add: keeps_def)
    have "init_data e (wt_init w3)" using g by simp
    then have "init_data e (wt_init ?w4)" by (simp add: init_data_def)
    then have "init_ok e (wt_init ?w4)" using g ready(1) True unfolding init_ok_def by simp
    then have "init_step e (elapsed e now) w (?w4\<lparr>wt_recorder := r\<rparr>)"
      using g r2 k reason_r by (simp add: init_step_def same_monitors_def phase_ok_def)
    then show ?thesis using run True r1 g ready by (simp add: on_recorder_def)
  next
    case unready: False
    have "init_ok e (wt_init w3)" using g ready unready assms(2) by (simp add: init_ok_def)
    then have "init_step e (elapsed e now) w w3"
      using g reason assms(2) by (simp add: init_step_def phase_ok_def)
    then show ?thesis using run unready g ready assms(2) by simp
  qed
qed

lemma ms_nonneg: "0 \<le> seconds_ms (inactive_seconds now t)"
proof -
  have "round_half_even 0 \<le> round_half_even (inactive_seconds now t * 1000)"
    by (intro round_half_even_mono) (simp add: inactive_seconds_def)
  moreover have "round_half_even 0 = 0" using round_half_even_of_int [of 0] by simp
  ultimately show ?thesis by (simp add: seconds_ms_def)
qed

text \<open>What a poll leaves of a monitor that is not ready yet.\<close>

definition unready_same :: "init_monitor \<Rightarrow> init_monitor \<Rightarrow> bool" where
  "unready_same m m' \<longleftrightarrow> im_ready m' = im_ready m \<and> im_degradation m' = im_degradation m \<and>
     im_checkpoints m' = im_checkpoints m"

lemma observe_ok:
  assumes pre: "init_pre e x now w"
  shows "succeeds (observe_process e snapshot now w) (\<lambda>w'. init_step e (elapsed e now) w w' \<and>
    unready_same (wt_init w) (wt_init w') \<and> im_stalled (wt_init w') = im_stalled (wt_init w))"
proof -
  let ?m = "wt_init w"
  let ?m1 = "?m\<lparr>im_previous := Some snapshot,
    im_next_sample := now + sample_interval (re_initialization_policy e)\<rparr>"
  let ?m2 = "?m1\<lparr>im_observations := im_observations ?m + 1, im_last_progress := now\<rparr>"
  have ok: "init_ok e ?m" using pre by (simp add: init_pre_def)
  then have data: "0 \<le> im_observations ?m" "0 \<le> im_suspected_count ?m" "0 \<le> im_recovered_count ?m"
      "0 \<le> im_maximum_ms ?m" by (simp_all add: init_ok_def init_data_def)
  have ok1: "init_ok e ?m1" by (rule init_ok_same [OF ok]) (use data in simp_all)
  have ok2: "init_ok e ?m2" by (rule init_ok_same [OF ok]) (use data in simp_all)
  have pre1: "init_pre e x now (w\<lparr>wt_init := ?m1\<rparr>)" and pre2: "init_pre e x now (w\<lparr>wt_init := ?m2\<rparr>)"
    using init_pre_frame [OF pre ok1] init_pre_frame [OF pre ok2] by simp_all
  have step0: "init_step e (elapsed e now) w w" by (rule init_step_refl [OF pre])
  have step1: "init_step e (elapsed e now) w (w\<lparr>wt_init := ?m1\<rparr>)"
    using init_step_refl [OF pre1] by (simp only: init_step_from)
  have step2: "init_step e (elapsed e now) w (w\<lparr>wt_init := ?m2\<rparr>)"
    using init_step_refl [OF pre2] by (simp only: init_step_from)
  have recover: "succeeds (recover_initialization e None now (w\<lparr>wt_init := ?m2\<rparr>)) (\<lambda>w'.
      init_step e (elapsed e now) w w' \<and> wt_init w' = ?m2\<lparr>im_suspected := False,
      im_recovered_count := im_recovered_count ?m2 + 1\<rparr>)"
    using recover_ok [OF pre2, of None] by (simp only: init_step_from) simp
  show ?thesis
    using step0 step1 step2 succeeds_mono [OF recover]
    by (simp add: observe_process_def Let_def unready_same_def)
qed

lemma suspect_ok:
  assumes pre: "init_pre e x now w"
  shows "succeeds (suspect_initialization e now w) (\<lambda>w'. init_step e (elapsed e now) w w' \<and>
    unready_same (wt_init w) (wt_init w') \<and> im_stalled (wt_init w') = im_stalled (wt_init w))"
proof -
  let ?m = "wt_init w"
  let ?m1 = "?m\<lparr>im_suspected := True, im_suspected_count := im_suspected_count ?m + 1\<rparr>"
  have ok: "init_ok e ?m" using pre by (simp add: init_pre_def)
  then have ok1: "init_ok e ?m1" by (simp add: init_ok_def init_data_def)
  have tell: "succeeds (tell_initialization e Act_Initialization_Suspected now
      (Some (last (im_checkpoints ?m))) (seconds_ms (inactive_seconds now (im_last_progress ?m)))
      (w\<lparr>wt_init := ?m1\<rparr>)) (\<lambda>w'. init_step e (elapsed e now) w w' \<and> wt_init w' = ?m1)"
    using pre ok1 ms_nonneg by (intro tell_step [where x = x]) (auto simp: init_pre_def)
  show ?thesis
    using init_step_refl [OF pre] succeeds_mono [OF tell]
    by (simp add: suspect_initialization_def Let_def unready_same_def)
qed

lemma stall_ok:
  assumes pre: "init_pre e x now w" and "\<not> im_ready (wt_init w)" and "im_degradation (wt_init w) = None"
    and "\<not> im_stalled (wt_init w)"
  shows "succeeds (stall_initialization e now w) (\<lambda>(b, w'). init_step e (elapsed e now) w w' \<and>
    unready_same (wt_init w) (wt_init w') \<and> im_stalled (wt_init w') = b)"
proof -
  let ?m = "wt_init w"
  let ?m1 = "?m\<lparr>im_stalled := True\<rparr>"
  have ok: "init_ok e ?m" and env: "menv_ok e" and rec: "recorder_ok x (wt_recorder w)"
    and phase: "phase_ok w" and time: "x \<le> elapsed e now"
    using pre by (simp_all add: init_pre_def)
  have "Chk_Current_Turn \<notin> set (im_checkpoints ?m)"
    using ok assms(2) by (auto simp: init_ok_def readiness_def)
  then have ok1: "init_ok e ?m1" using ok assms(3) by (simp add: init_ok_def init_data_def)
  have tell: "succeeds (tell_initialization e Act_Initialization_Stalled now
      (Some (last (im_checkpoints ?m))) (seconds_ms (inactive_seconds now (im_last_progress ?m)))
      (w\<lparr>wt_init := ?m1\<rparr>)) (\<lambda>w'. init_step e (elapsed e now) w w' \<and> wt_init w' = ?m1)"
    using pre ok1 ms_nonneg by (intro tell_step [where x = x]) (auto simp: init_pre_def)
  have recorded: "succeeds (record_initialization e w) (\<lambda>w'. init_step e (elapsed e now) w w' \<and>
      wt_init w' = ?m)"
    using record_initialization_step [OF env ok recorder_ok_mono [OF rec time] phase]
    by (rule succeeds_mono) simp
  show ?thesis
    using succeeds_mono [OF tell] succeeds_mono [OF recorded] assms(4)
    by (simp add: stall_initialization_def Let_def unready_same_def)
qed

lemma note_inactivity_step:
  assumes pre: "init_pre e x now w"
  shows "init_step e (elapsed e now) w (note_init_inactivity now w)"
    "unready_same (wt_init w) (wt_init (note_init_inactivity now w))"
    "im_stalled (wt_init (note_init_inactivity now w)) = im_stalled (wt_init w)"
proof -
  let ?m = "(wt_init w)\<lparr>im_maximum_ms := max (im_maximum_ms (wt_init w))
    (seconds_ms (inactive_seconds now (im_last_progress (wt_init w))))\<rparr>"
  have "init_ok e (wt_init w)" using pre by (simp add: init_pre_def)
  then have "init_ok e ?m" by (simp add: init_ok_def init_data_def le_max_iff_disj)
  then have "init_pre e x now (w\<lparr>wt_init := ?m\<rparr>)" using init_pre_frame [OF pre, of ?m] by simp
  then have "init_step e (elapsed e now) w (w\<lparr>wt_init := ?m\<rparr>)"
    using init_step_refl by (metis init_step_from)
  then show "init_step e (elapsed e now) w (note_init_inactivity now w)"
    by (simp add: note_init_inactivity_def Let_def)
qed (simp_all add: note_init_inactivity_def unready_same_def Let_def)

text \<open>Readings that do not move back: \<open>b\<close> bounds what has been read before.\<close>

definition reading_after ::
    "initialization_checkpoint \<Rightarrow> initialization_reading \<Rightarrow> bool" where
  "reading_after b reading \<longleftrightarrow> (\<forall>c. reading = Initialization_At (Some c) \<longrightarrow> b \<le> c)"

fun next_bound :: "initialization_checkpoint \<Rightarrow> initialization_reading \<Rightarrow> initialization_checkpoint" where
  "next_bound b (Initialization_At (Some c)) = c"
| "next_bound b _ = b"

definition below :: "initialization_checkpoint \<Rightarrow> init_monitor \<Rightarrow> bool" where
  "below b m \<longleftrightarrow> im_ready m \<or> last (im_checkpoints m) \<le> b"

definition readable :: "initialization_reading \<Rightarrow> bool" where
  "readable reading \<longleftrightarrow> reading \<noteq> Initialization_Unreadable"

text \<open>The outcome of a poll: \<open>b\<close> says whether the initialization has stalled.\<close>

definition polled :: "monitor_env \<Rightarrow> initialization_checkpoint \<Rightarrow> rat \<Rightarrow> watch \<Rightarrow> bool \<times> watch \<Rightarrow> bool" where
  "polled e bound now w result \<longleftrightarrow> (case result of (b, w') \<Rightarrow>
     init_step e (elapsed e now) w w' \<and> im_stalled (wt_init w') = b \<and> below bound (wt_init w') \<and>
     (im_ready (wt_init w) \<longrightarrow> im_ready (wt_init w')) \<and>
     (im_stalled (wt_init w) \<longrightarrow> im_stalled (wt_init w')) \<and>
     (im_stalled (wt_init w') \<and> \<not> im_stalled (wt_init w) \<longrightarrow> \<not> im_ready (wt_init w')))"

lemma unready_tail:
  assumes pre: "init_pre e x now w" and "\<not> im_ready (wt_init w)" and "im_degradation (wt_init w) = None"
    and "\<not> im_stalled (wt_init w)"
  shows "succeeds (ebind (suspect_initialization e now w) (stall_initialization e now)) (\<lambda>(b, w').
    init_step e (elapsed e now) w w' \<and> unready_same (wt_init w) (wt_init w') \<and>
    im_stalled (wt_init w') = b)"
proof -
  obtain w1 where w1: "suspect_initialization e now w = Inr w1"
    and s: "init_step e (elapsed e now) w w1 \<and> unready_same (wt_init w) (wt_init w1) \<and>
      im_stalled (wt_init w1) = im_stalled (wt_init w)"
    using suspect_ok [OF pre] by (rule succeedsE)
  have "init_pre e (elapsed e now) now w1" using init_step_pre [OF pre] s by blast
  then have "succeeds (stall_initialization e now w1) (\<lambda>(b, w'). init_step e (elapsed e now) w1 w' \<and>
      unready_same (wt_init w1) (wt_init w') \<and> im_stalled (wt_init w') = b)"
    using assms(2-4) s by (intro stall_ok) (auto simp: unready_same_def)
  then have "succeeds (stall_initialization e now w1) (\<lambda>(b, w'). init_step e (elapsed e now) w w' \<and>
      unready_same (wt_init w) (wt_init w') \<and> im_stalled (wt_init w') = b)"
    using s by (auto simp: unready_same_def elim!: succeeds_mono intro: init_step_trans)
  then show ?thesis by (simp add: w1)
qed

text \<open>After the checkpoint has been taken in: sample the process unless ready, then judge.\<close>

definition judge_initialization ::
    "monitor_env \<Rightarrow> wait_diagnostic \<Rightarrow> rat \<Rightarrow> watch \<Rightarrow> fault + (bool \<times> watch)" where
  "judge_initialization e snapshot now w1 =
     ebind (if im_ready (wt_init w1) then Inr w1 else observe_process e snapshot now w1) (\<lambda>w2.
     let w3 = note_init_inactivity now w2 in
     if im_ready (wt_init w3)
     then ebind (record_initialization e w3) (\<lambda>w4. Inr (False, w4))
     else ebind (suspect_initialization e now w3) (stall_initialization e now))"

lemma judge_ok:
  assumes pre: "init_pre e x now w" and "im_degradation (wt_init w) = None" and "\<not> im_stalled (wt_init w)"
  shows "succeeds (judge_initialization e snapshot now w) (\<lambda>(b, w').
    init_step e (elapsed e now) w w' \<and> unready_same (wt_init w) (wt_init w') \<and>
    im_stalled (wt_init w') = b \<and> (b \<longrightarrow> \<not> im_ready (wt_init w')))"
proof (cases "im_ready (wt_init w)")
  case True
  let ?w = "note_init_inactivity now w"
  note n = note_inactivity_step [OF pre]
  have p: "init_pre e (elapsed e now) now ?w" by (rule init_step_pre [OF pre n(1)])
  have "succeeds (record_initialization e ?w) (\<lambda>w'. init_step e (elapsed e now) ?w w' \<and>
      wt_init w' = wt_init ?w \<and> rc_initialization (wt_recorder w') = init_evidence e (wt_init ?w))"
    using p by (intro record_initialization_step) (auto simp: init_pre_def)
  then have "succeeds (record_initialization e ?w) (\<lambda>w'. init_step e (elapsed e now) w w' \<and>
      wt_init w' = wt_init ?w)"
    using n(1) by (auto elim!: succeeds_mono intro: init_step_trans)
  then show ?thesis
    using True n(2,3) assms(3)
    by (auto simp: judge_initialization_def Let_def unready_same_def elim!: succeeds_mono)
next
  case False
  obtain w2 where w2: "observe_process e snapshot now w = Inr w2"
    and s: "init_step e (elapsed e now) w w2 \<and> unready_same (wt_init w) (wt_init w2) \<and>
      im_stalled (wt_init w2) = im_stalled (wt_init w)"
    using observe_ok [OF pre] by (rule succeedsE)
  let ?w = "note_init_inactivity now w2"
  have p2: "init_pre e (elapsed e now) now w2" using init_step_pre [OF pre] s by blast
  note n = note_inactivity_step [OF p2]
  have p: "init_pre e (elapsed e now) now ?w" by (rule init_step_pre [OF p2 n(1)])
  have same: "unready_same (wt_init w) (wt_init ?w)" "im_stalled (wt_init ?w) = im_stalled (wt_init w)"
    using s n(2,3) by (auto simp: unready_same_def)
  have "succeeds (ebind (suspect_initialization e now ?w) (stall_initialization e now)) (\<lambda>(b, w').
      init_step e (elapsed e now) ?w w' \<and> unready_same (wt_init ?w) (wt_init w') \<and>
      im_stalled (wt_init w') = b)"
    using False same assms(2,3) by (intro unready_tail [OF p]) (auto simp: unready_same_def)
  then have "succeeds (ebind (suspect_initialization e now ?w) (stall_initialization e now)) (\<lambda>(b, w').
      init_step e (elapsed e now) w w' \<and> unready_same (wt_init w) (wt_init w') \<and>
      im_stalled (wt_init w') = b \<and> (b \<longrightarrow> \<not> im_ready (wt_init w')))"
  proof (rule succeeds_mono, clarify)
    fix b w' assume w': "init_step e (elapsed e now) ?w w'" "unready_same (wt_init ?w) (wt_init w')"
    have "init_step e (elapsed e now) w ?w" using s n(1) init_step_trans by blast
    then have "init_step e (elapsed e now) w w'" using w'(1) by (rule init_step_trans)
    then show "init_step e (elapsed e now) w w' \<and> unready_same (wt_init w) (wt_init w') \<and>
      im_stalled (wt_init w') = im_stalled (wt_init w') \<and>
      (im_stalled (wt_init w') \<longrightarrow> \<not> im_ready (wt_init w'))"
      using w'(2) same False by (auto simp: unready_same_def)
  qed
  then show ?thesis
    using False same by (simp add: judge_initialization_def w2 unready_same_def)
qed

lemma poll_initialization_eq:
  assumes "\<not> im_ready (wt_init w)" and "im_degradation (wt_init w) = None"
    and "\<not> im_stalled (wt_init w)"
  shows "poll_initialization e (Initialization_At observation) snapshot now w =
    ebind (case observation of None \<Rightarrow> Inr w | Some c \<Rightarrow> advance_initialization e c now w)
      (judge_initialization e snapshot now)"
  using assms by (simp add: poll_initialization_def judge_initialization_def [abs_def] Let_def)

lemma poll_initialization_ok:
  assumes pre: "init_pre e x now w" and coherent: "reading_after b reading" and "below b (wt_init w)"
  shows "succeeds (poll_initialization e reading snapshot now w) (\<lambda>(s, w').
    polled e (next_bound b reading) now w (s, w') \<and>
    (readable reading \<longrightarrow> im_degradation (wt_init w') = im_degradation (wt_init w)) \<and>
    (reading = Initialization_At (Some Chk_Current_Turn) \<and> im_degradation (wt_init w) = None \<and>
       \<not> im_stalled (wt_init w) \<longrightarrow> im_ready (wt_init w')))"
    (is "succeeds _ (\<lambda>(s, w'). ?Q s w')")
proof (cases "im_ready (wt_init w) \<or> im_stalled (wt_init w) \<or> im_degradation (wt_init w) \<noteq> None")
  case True
  have "below (next_bound b reading) (wt_init w)"
    using coherent assms(3) by (cases "(b, reading)" rule: next_bound.cases)
      (auto simp: below_def reading_after_def)
  then show ?thesis
    using True init_step_refl [OF pre] by (auto simp: poll_initialization_def Let_def polled_def)
next
  case False
  then have active: "\<not> im_ready (wt_init w)" "im_degradation (wt_init w) = None" "\<not> im_stalled (wt_init w)"
    by auto
  have last: "last (im_checkpoints (wt_init w)) \<le> b" using assms(3) active(1) by (simp add: below_def)
  show ?thesis
  proof (cases reading)
    case Initialization_Unreadable
    have "succeeds (degrade_initialization e ''OpenClaw initialization progress could not be attributed'' now w)
        (\<lambda>w'. init_step e (elapsed e now) w w' \<and> wt_init w' = (wt_init w)\<lparr>im_degradation :=
          Some ''OpenClaw initialization progress could not be attributed''\<rparr>)"
      using active by (intro degrade_initialization_ok [OF pre]) simp_all
    then show ?thesis
      using active last unfolding poll_initialization_def Let_def Initialization_Unreadable
      by (auto simp: polled_def below_def readable_def elim!: succeeds_mono)
  next
    case (Initialization_At observation)
    show ?thesis
    proof (cases observation)
      case None
      have "succeeds (judge_initialization e snapshot now w) (\<lambda>(s, w'). ?Q s w')"
        using judge_ok [OF pre active(2,3)]
        by (rule succeeds_mono)
          (use active last in \<open>auto simp: polled_def below_def unready_same_def Initialization_At None\<close>)
      then show ?thesis
        unfolding Initialization_At poll_initialization_eq [OF active] None by simp
    next
      case (Some c)
      have "last (im_checkpoints (wt_init w)) \<le> c"
        using coherent last by (auto simp: reading_after_def Initialization_At Some)
      then obtain w1 where w1: "advance_initialization e c now w = Inr w1"
        and s: "init_step e (elapsed e now) w w1 \<and> im_ready (wt_init w1) = readiness c \<and>
          im_stalled (wt_init w1) = im_stalled (wt_init w) \<and>
          im_degradation (wt_init w1) = im_degradation (wt_init w) \<and> last (im_checkpoints (wt_init w1)) = c"
        using advance_ok [OF pre active(1), of c] active(3) by (auto elim: succeedsE)
      have pre1: "init_pre e (elapsed e now) now w1" using init_step_pre [OF pre] s by blast
      have "succeeds (judge_initialization e snapshot now w1) (\<lambda>(b, w').
        init_step e (elapsed e now) w1 w' \<and> unready_same (wt_init w1) (wt_init w') \<and>
        im_stalled (wt_init w') = b \<and> (b \<longrightarrow> \<not> im_ready (wt_init w')))"
        using s active by (intro judge_ok [OF pre1]) auto
      then have "succeeds (judge_initialization e snapshot now w1) (\<lambda>(s, w'). ?Q s w')"
      proof (rule succeeds_mono, clarify)
        fix b' w' assume w': "init_step e (elapsed e now) w1 w'" "unready_same (wt_init w1) (wt_init w')"
          "im_stalled (wt_init w') \<longrightarrow> \<not> im_ready (wt_init w')"
        have "init_step e (elapsed e now) w w'" using s w'(1) init_step_trans by blast
        then show "?Q (im_stalled (wt_init w')) w'"
          using w'(2,3) s active
          by (simp add: polled_def below_def unready_same_def Initialization_At Some readiness_def)
      qed
      then show ?thesis
        unfolding Initialization_At poll_initialization_eq [OF active] Some by (simp add: w1)
    qed
  qed
qed

lemma finish_initialization_ok:
  assumes pre: "init_pre e x now w" and coherent: "reading_after b reading" and "below b (wt_init w)"
  shows "succeeds (finish_initialization e reading snapshot now w) (\<lambda>w'.
    polled e (next_bound b reading) now w (im_stalled (wt_init w'), w') \<and>
    rc_initialization (wt_recorder w') = init_evidence e (wt_init w') \<and>
    (reading = Initialization_At (Some Chk_Current_Turn) \<and> im_degradation (wt_init w) = None \<and>
       \<not> im_stalled (wt_init w) \<longrightarrow> im_ready (wt_init w')))"
    (is "succeeds _ ?Q")
proof -
  have first: "succeeds (if \<not> im_ready (wt_init w) \<and> im_degradation (wt_init w) = None \<and> \<not> im_stalled (wt_init w)
      then ebind (poll_initialization e reading snapshot now w) (\<lambda>(_, w1). Inr w1) else Inr w)
    (\<lambda>w1. polled e (next_bound b reading) now w (im_stalled (wt_init w1), w1) \<and>
      (reading = Initialization_At (Some Chk_Current_Turn) \<and> im_degradation (wt_init w) = None \<and>
       \<not> im_stalled (wt_init w) \<longrightarrow> im_ready (wt_init w1)))"
  proof (cases "im_ready (wt_init w) \<or> im_stalled (wt_init w) \<or> im_degradation (wt_init w) \<noteq> None")
    case True
    have "below (next_bound b reading) (wt_init w)"
      using coherent assms(3) by (cases "(b, reading)" rule: next_bound.cases)
        (auto simp: below_def reading_after_def)
    then show ?thesis using True init_step_refl [OF pre] by (auto simp: polled_def)
  next
    case False
    then show ?thesis
      using poll_initialization_ok [OF assms, of snapshot]
      by (auto simp: polled_def elim!: succeeds_mono)
  qed
  then obtain w1 where w1: "(if \<not> im_ready (wt_init w) \<and> im_degradation (wt_init w) = None \<and> \<not> im_stalled (wt_init w)
      then ebind (poll_initialization e reading snapshot now w) (\<lambda>(_, w1). Inr w1) else Inr w) = Inr w1"
    and p: "polled e (next_bound b reading) now w (im_stalled (wt_init w1), w1) \<and>
      (reading = Initialization_At (Some Chk_Current_Turn) \<and> im_degradation (wt_init w) = None \<and>
       \<not> im_stalled (wt_init w) \<longrightarrow> im_ready (wt_init w1))"
    by (rule succeedsE)
  have "init_pre e (elapsed e now) now w1"
    using init_step_pre [OF pre] p by (simp add: polled_def)
  then have "succeeds (record_initialization e w1) (\<lambda>w'. init_step e (elapsed e now) w1 w' \<and>
      wt_init w' = wt_init w1 \<and> rc_initialization (wt_recorder w') = init_evidence e (wt_init w1))"
    by (intro record_initialization_step) (auto simp: init_pre_def)
  then have "succeeds (record_initialization e w1) ?Q"
    using p by (auto simp: polled_def elim!: succeeds_mono intro: init_step_trans)
  then show ?thesis unfolding finish_initialization_def Let_def w1 by simp
qed

end
