(* ===== verification/Provider_Invariants.thy ===== *)
theory Provider_Invariants
  imports Monitor_Invariants
begin

text \<open>
  The provider monitor and the finalization monitor under an observer that returns. \<open>fits\<close> is the
  joint invariant of the three monitors and the recorder; \<open>provider_step\<close> is what any part of a
  provider poll may change.
\<close>

section \<open>Activities of the provider monitor\<close>

lemma known_details:
  "list_all tool_detail_pattern [''read'', ''write'', ''edit'', ''apply_patch'', ''pytest'', ''ruff'', ''mypy'',
     ''pyright'', ''eslint'', ''git'', ''sat-probe-run'', ''sat-probe-write'', ''uv'', ''pip'', ''npm'', ''pnpm'',
     ''yarn'', ''make'', ''cat'', ''find'', ''grep'', ''head'', ''ls'', ''pwd'', ''readlink'', ''rg'', ''sed'', ''stat'',
     ''tail'']"
  by code_simp

lemma classified_executable: "opt_all tool_detail_pattern (snd (snd (classify_executable x)))"
  unfolding classify_executable_def using known_details by auto

lemma classified_detail: "opt_all tool_detail_pattern (snd (snd (classify_tool t)))"
  unfolding classify_tool_def Let_def
  using known_details classified_executable by (auto split: option.split)

definition observer_ok :: "monitor_env \<Rightarrow> bool" where
  "observer_ok e \<longleftrightarrow> (\<forall>handler. re_handler e = Some handler \<longrightarrow> (\<forall>n a. handler n a))"

definition provider_ok :: "provider_monitor \<Rightarrow> bool" where
  "provider_ok m \<longleftrightarrow> 0 \<le> pm_progress_records m \<and> 0 \<le> pm_tool_started m \<and> 0 \<le> pm_tool_completed m \<and>
     0 \<le> pm_active_tools m \<and> 0 \<le> pm_observations m \<and> 0 \<le> pm_qualified m \<and>
     0 \<le> pm_suspected_count m \<and> 0 \<le> pm_recovered_count m \<and> 0 \<le> pm_maximum_ms m \<and>
     short_reason (pm_degradation m) \<and>
     (pm_last_activity m = None \<longleftrightarrow> pm_lease_source m = None) \<and>
     (pm_session_observed m \<longrightarrow> pm_last_activity m \<noteq> None) \<and>
     (pm_terminal m \<longrightarrow> pm_session_observed m) \<and>
     (pm_stalled m \<longrightarrow> pm_degradation m = None \<and> pm_last_activity m \<noteq> None \<and> \<not> pm_terminal m)"

definition provider_kinds :: "activity_kind set" where
  "provider_kinds = {Act_Provider_Stream, Act_Tool_Started, Act_Tool_Completed,
     Act_Liveness_Degraded, Act_Stall_Suspected, Act_Stall_Recovered, Act_Provider_Stalled}"

lemma provider_policy_facts:
  assumes "menv_ok e"
  shows "0 < pp_silence_seconds (me_provider_policy e)" "0 < pp_stall_grace_seconds (me_provider_policy e)"
    "pp_source (me_provider_policy e) \<noteq> []" "length (pp_source (me_provider_policy e)) \<le> 300"
  using assms by (auto simp: menv_ok_def validate_provider_policy_def)

lemma provider_activity_valid:
  assumes env: "menv_ok e" and ok: "provider_ok m" and kind: "kind \<in> provider_kinds"
    and tool: "tool \<noteq> None \<Longrightarrow> kind \<in> {Act_Tool_Started, Act_Tool_Completed}"
    and degraded: "kind = Act_Liveness_Degraded \<Longrightarrow> pm_degradation m \<noteq> None"
  shows "validate_activity (provider_activity e kind now tool m) = Inr ()"
proof -
  let ?a = "provider_activity e kind now tool m"
  have detail: "opt_all tool_detail_pattern (ac_tool_detail ?a)"
    using classified_detail [of "the tool"]
    by (cases tool; cases "classify_tool (the tool)") (auto simp: provider_activity_def Let_def)
  have reason: "opt_all (\<lambda>s. s \<noteq> [] \<and> length s \<le> 500) (ac_degradation_reason ?a)"
    using ok by (simp add: provider_activity_def Let_def provider_ok_def short_reason_def)
  have "env_ok (renv e)" using env by (simp add: menv_ok_def)
  then have "activity_fields ?a = Inr ()"
    using detail reason provider_policy_facts [OF env] ok
    by (simp add: activity_fields_def provider_activity_def plain_activity_def env_ok_def Let_def provider_ok_def)
  moreover have "check_activity ?a = Inr ()"
    using kind tool degraded
    by (cases tool) (auto simp: check_activity_def provider_activity_def plain_activity_def
        no_policy_def Let_def provider_kinds_def split: prod.splits)
  ultimately show ?thesis by (simp add: validate_activity_def)
qed

lemma tell_provider_run:
  assumes "menv_ok e" and "observer_ok e" and "provider_ok (wt_provider w)" and "kind \<in> provider_kinds"
    and "tool \<noteq> None \<Longrightarrow> kind \<in> {Act_Tool_Started, Act_Tool_Completed}"
    and "kind = Act_Liveness_Degraded \<Longrightarrow> pm_degradation (wt_provider w) \<noteq> None"
  shows "\<exists>pub. tell_provider e kind now tool w =
    Inr (w\<lparr>wt_recorder := (wt_recorder w)\<lparr>rc_published := pub\<rparr>\<rparr>)"
proof (cases "re_handler e")
  case None
  then have "tell_provider e kind now tool w =
      Inr (w\<lparr>wt_recorder := (wt_recorder w)\<lparr>rc_published := rc_published (wt_recorder w)\<rparr>\<rparr>)"
    by (simp add: tell_provider_def)
  then show ?thesis by blast
next
  case (Some handler)
  let ?a = "provider_activity e kind now tool (wt_provider w)"
  obtain taken r where d: "deliver (renv e) ?a (wt_recorder w) = (taken, r)" by fastforce
  have "taken" using d assms(2) Some by (auto simp: deliver_def observer_ok_def split: if_splits)
  moreover obtain pub where "r = (wt_recorder w)\<lparr>rc_published := pub\<rparr>"
    using deliver_frame [of "renv e" ?a "wt_recorder w"] d by auto
  ultimately have "tell_provider e kind now tool w =
      Inr (w\<lparr>wt_recorder := (wt_recorder w)\<lparr>rc_published := pub\<rparr>\<rparr>)"
    using Some d provider_activity_valid [OF assms(1,3-6)] by (simp add: tell_provider_def Let_def)
  then show ?thesis by blast
qed

section \<open>The joint invariant\<close>

definition terminal_ok :: "watch \<Rightarrow> bool" where
  "terminal_ok w \<longleftrightarrow> (finalized (wt_recorder w) \<longrightarrow> pm_terminal (wt_provider w)) \<and>
     (rc_stop_reason (wt_recorder w) = None \<and> pm_terminal (wt_provider w) \<longrightarrow> finalized (wt_recorder w))"

definition fits :: "monitor_env \<Rightarrow> int \<Rightarrow> rat \<Rightarrow> watch \<Rightarrow> bool" where
  "fits e x now w \<longleftrightarrow> init_pre e x now w \<and> provider_ok (wt_provider w) \<and>
     (pm_last_activity (wt_provider w) \<noteq> None \<longrightarrow> im_ready (wt_init w)) \<and> terminal_ok w"

text \<open>Everything of the recorder that a poll leaves alone, whatever it finds.\<close>

definition holds :: "recorder \<Rightarrow> recorder \<Rightarrow> bool" where
  "holds r r' \<longleftrightarrow>
     rc_stop_reason r' = rc_stop_reason r \<and> rc_stop_started r' = rc_stop_started r \<and>
     rc_process_started r' = rc_process_started r \<and> rc_group_targeted r' = rc_group_targeted r \<and>
     rc_terminate_sent r' = rc_terminate_sent r \<and> rc_kill_sent r' = rc_kill_sent r \<and>
     rc_lease_released r' = rc_lease_released r \<and> rc_wait r' = rc_wait r \<and>
     rc_finalization r' = rc_finalization r"

lemma holds_refl [simp]: "holds r r" by (simp add: holds_def)

lemma holds_trans: "holds a b \<Longrightarrow> holds b c \<Longrightarrow> holds a c" by (simp add: holds_def)

lemma keeps_holds: "keeps r r' \<Longrightarrow> holds r r'" by (simp add: keeps_def holds_def)

definition init_grows :: "init_monitor \<Rightarrow> init_monitor \<Rightarrow> bool" where
  "init_grows m m' \<longleftrightarrow> im_stalled m' = im_stalled m \<and> im_degradation m' = im_degradation m \<and>
     (im_ready m \<longrightarrow> im_ready m') \<and> (\<not> im_ready m' \<longrightarrow> im_checkpoints m' = im_checkpoints m)"

lemma init_grows_refl [simp]: "init_grows m m" by (simp add: init_grows_def)

lemma init_grows_trans: "init_grows a b \<Longrightarrow> init_grows b c \<Longrightarrow> init_grows a c"
  by (auto simp: init_grows_def)

definition provider_step :: "monitor_env \<Rightarrow> rat \<Rightarrow> watch \<Rightarrow> watch \<Rightarrow> bool" where
  "provider_step e now w w' \<longleftrightarrow> fits e (elapsed e now) now w' \<and> wt_final w' = wt_final w \<and>
     holds (wt_recorder w) (wt_recorder w') \<and> init_grows (wt_init w) (wt_init w') \<and>
     pm_stalled (wt_provider w') = pm_stalled (wt_provider w) \<and>
     (pm_terminal (wt_provider w) \<longrightarrow> pm_terminal (wt_provider w')) \<and>
     (pm_session_observed (wt_provider w) \<longrightarrow> pm_session_observed (wt_provider w')) \<and>
     (pm_last_activity (wt_provider w) \<noteq> None \<longrightarrow> pm_last_activity (wt_provider w') \<noteq> None)"

lemma provider_step_trans:
  "provider_step e now a b \<Longrightarrow> provider_step e now b c \<Longrightarrow> provider_step e now a c"
  by (auto simp: provider_step_def intro: holds_trans init_grows_trans)

lemma provider_step_fits: "provider_step e now a b \<Longrightarrow> fits e (elapsed e now) now b"
  by (simp add: provider_step_def)

lemma fits_now: "fits e x now w \<Longrightarrow> fits e (elapsed e now) now w"
  by (auto simp: fits_def init_pre_def intro: recorder_ok_mono)

lemma provider_step_refl: "fits e x now w \<Longrightarrow> provider_step e now w w"
  by (simp add: provider_step_def fits_now)

text \<open>Sequencing: a later part starts from what an earlier part leaves.\<close>

lemma provider_seq:
  assumes "succeeds m (\<lambda>w1. provider_step e now w w1 \<and> P w1)"
    and "\<And>w1. provider_step e now w w1 \<Longrightarrow> P w1 \<Longrightarrow> succeeds (f w1) (\<lambda>w2. provider_step e now w1 w2 \<and> Q w2)"
  shows "succeeds (ebind m f) (\<lambda>w2. provider_step e now w w2 \<and> Q w2)"
proof -
  obtain w1 where w1: "m = Inr w1" and p: "provider_step e now w w1 \<and> P w1" using assms(1) by (rule succeedsE)
  have "succeeds (f w1) (\<lambda>w2. provider_step e now w1 w2 \<and> Q w2)" using assms(2) p by blast
  then show ?thesis using p by (auto simp: w1 elim!: succeeds_mono intro: provider_step_trans)
qed

text \<open>A change of the provider monitor alone.\<close>

lemma provider_change:
  assumes "fits e x now w" and "provider_ok m" and "pm_terminal m = pm_terminal (wt_provider w)"
    and "pm_last_activity m = None \<longleftrightarrow> pm_last_activity (wt_provider w) = None"
    and "pm_stalled m = pm_stalled (wt_provider w)"
    and "pm_session_observed (wt_provider w) \<Longrightarrow> pm_session_observed m"
  shows "provider_step e now w (w\<lparr>wt_provider := m\<rparr>)"
  using fits_now [OF assms(1)] assms(2-)
  by (simp add: provider_step_def fits_def init_pre_def phase_ok_def terminal_ok_def)

text \<open>A change of the recorder by a working phase.\<close>

lemma on_recorder_succeeds:
  "succeeds (on_recorder f w) Q = succeeds (f (wt_recorder w)) (\<lambda>r. Q (w\<lparr>wt_recorder := r\<rparr>))"
  by (simp add: on_recorder_def)

lemma recorder_change:
  assumes "fits e x now w" and "im_ready (wt_init w)" and "recorder_ok (elapsed e now) r"
    and "holds (wt_recorder w) r" and "finalized r \<longleftrightarrow> finalized (wt_recorder w)"
    and "rc_stop_reason (wt_recorder w) = None \<longrightarrow> provider_phase (rc_phase r)"
  shows "provider_step e now w (w\<lparr>wt_recorder := r\<rparr>)"
proof -
  have "rc_stop_reason r = rc_stop_reason (wt_recorder w)" using assms(4) by (simp add: holds_def)
  then show ?thesis
    using fits_now [OF assms(1)] assms(2-)
    by (simp add: provider_step_def fits_def init_pre_def phase_ok_def terminal_ok_def)
qed

lemma published_step:
  assumes "provider_step e now w w1"
  shows "provider_step e now w (w1\<lparr>wt_recorder := (wt_recorder w1)\<lparr>rc_published := pub\<rparr>\<rparr>)"
  using assms
  by (simp add: provider_step_def fits_def init_pre_def phase_ok_def terminal_ok_def published_ok holds_def)

lemma tell_provider_step:
  assumes "observer_ok e" and "provider_step e now w w1" and "kind \<in> provider_kinds"
    and "tool \<noteq> None \<Longrightarrow> kind \<in> {Act_Tool_Started, Act_Tool_Completed}"
    and "kind = Act_Liveness_Degraded \<Longrightarrow> pm_degradation (wt_provider w1) \<noteq> None"
  shows "succeeds (tell_provider e kind now tool w1) (\<lambda>w'. provider_step e now w w' \<and>
    wt_provider w' = wt_provider w1)"
proof -
  have "menv_ok e" "provider_ok (wt_provider w1)"
    using assms(2) by (simp_all add: provider_step_def fits_def init_pre_def)
  then obtain pub where "tell_provider e kind now tool w1 =
      Inr (w1\<lparr>wt_recorder := (wt_recorder w1)\<lparr>rc_published := pub\<rparr>\<rparr>)"
    using tell_provider_run assms by blast
  then show ?thesis using published_step [OF assms(2)] by simp
qed

lemma degrade_provider_step:
  assumes "observer_ok e" and "fits e x now w" and "\<not> pm_stalled (wt_provider w)"
    and "reason \<noteq> []" and "length reason \<le> 500"
  shows "succeeds (degrade_provider e reason now w) (\<lambda>w'. provider_step e now w w' \<and>
    (\<exists>d. wt_provider w' = (wt_provider w)\<lparr>pm_degradation := d\<rparr>))"
proof (cases "pm_degradation (wt_provider w)")
  case None
  let ?m = "(wt_provider w)\<lparr>pm_degradation := Some reason\<rparr>"
  have "provider_ok (wt_provider w)" using assms(2) by (simp add: fits_def)
  then have "provider_ok ?m" using assms(3-) by (auto simp: provider_ok_def short_reason_def)
  then have "provider_step e now w (w\<lparr>wt_provider := ?m\<rparr>)"
    by (intro provider_change [OF assms(2)]) simp_all
  then have "succeeds (tell_provider e Act_Liveness_Degraded now None (w\<lparr>wt_provider := ?m\<rparr>))
      (\<lambda>w'. provider_step e now w w' \<and> wt_provider w' = wt_provider (w\<lparr>wt_provider := ?m\<rparr>))"
    by (intro tell_provider_step [OF assms(1)]) (simp_all add: provider_kinds_def)
  then show ?thesis
    unfolding degrade_provider_def using None by (auto elim!: succeeds_mono)
next
  case (Some d)
  have "\<exists>d. wt_provider w = (wt_provider w)\<lparr>pm_degradation := d\<rparr>"
    by (rule exI [of _ "Some d"]) (simp add: Some [symmetric])
  then show ?thesis
    using Some provider_step_refl [OF assms(2)] by (simp add: degrade_provider_def)
qed

section \<open>The lease\<close>

lemma start_lease_ok:
  assumes pre: "init_pre e x now w" and terminal: "terminal_ok w"
    and given: "pm_last_activity (wt_provider w) \<noteq> None \<Longrightarrow>
      provider_ok (wt_provider w) \<and> im_ready (wt_init w)"
    and fresh: "pm_last_activity (wt_provider w) = None \<Longrightarrow>
      provider_ok ((wt_provider w)\<lparr>pm_last_activity := Some now, pm_lease_source := Some source\<rparr>)"
    and stalled: "im_stalled (wt_init w) \<Longrightarrow> source = Lease_Provider_Stream"
  shows "succeeds (start_lease e source now w) (\<lambda>w'. fits e (elapsed e now) now w' \<and>
    wt_final w' = wt_final w \<and> holds (wt_recorder w) (wt_recorder w') \<and>
    init_grows (wt_init w) (wt_init w') \<and>
    wt_provider w' = (if pm_last_activity (wt_provider w) \<noteq> None then wt_provider w
      else (wt_provider w)\<lparr>pm_last_activity := Some now, pm_lease_source := Some source\<rparr>))"
proof (cases "pm_last_activity (wt_provider w)")
  case (Some t)
  have "fits e x now w" using pre terminal given Some by (simp add: fits_def)
  then show ?thesis using Some fits_now by (simp add: start_lease_def)
next
  case None
  let ?c = "if source = Lease_Provider_Stream then Chk_Provider_Stream else Chk_Current_Turn"
  let ?w = "w\<lparr>wt_provider := (wt_provider w)\<lparr>pm_last_activity := Some now, pm_lease_source := Some source\<rparr>\<rparr>"
  have pre1: "init_pre e x now ?w" using pre by (simp add: init_pre_def phase_ok_def)
  have run: "start_lease e source now w = mark_ready e ?c now ?w" using None by (simp add: start_lease_def)
  have ready: "readiness ?c" by (simp add: readiness_def)
  show ?thesis
  proof (cases "im_ready (wt_init w)")
    case True
    then have "fits e x now ?w"
      using pre1 terminal fresh None by (simp add: fits_def terminal_ok_def)
    then show ?thesis using True None fits_now run by (simp add: mark_ready_def)
  next
    case False
    have ok: "init_ok e (wt_init w)" using pre by (simp add: init_pre_def)
    then have "last (im_checkpoints (wt_init w)) \<in> set (im_checkpoints (wt_init w))"
      by (simp add: init_ok_def init_data_def)
    then have "\<not> readiness (last (im_checkpoints (wt_init w)))"
      using ok False by (auto simp: init_ok_def)
    then have "last (im_checkpoints (wt_init w)) \<le> ?c"
      using current_turn_le checkpoint_le_stream by (metis linorder_le_cases)
    then have "succeeds (advance_initialization e ?c now ?w) (\<lambda>w'. init_step e (elapsed e now) ?w w' \<and>
        im_ready (wt_init w') = readiness ?c \<and> im_stalled (wt_init w') = im_stalled (wt_init ?w) \<and>
        im_degradation (wt_init w') = im_degradation (wt_init ?w) \<and>
        last (im_checkpoints (wt_init w')) = ?c)"
      using False stalled by (intro advance_ok [OF pre1]) (auto split: if_splits)
    then have "succeeds (advance_initialization e ?c now ?w) (\<lambda>w'. fits e (elapsed e now) now w' \<and>
      wt_final w' = wt_final w \<and> holds (wt_recorder w) (wt_recorder w') \<and>
      init_grows (wt_init w) (wt_init w') \<and> wt_provider w' = wt_provider ?w)"
    proof (rule succeeds_mono, elim conjE)
      fix w' assume w': "init_step e (elapsed e now) ?w w'" "im_ready (wt_init w') = readiness ?c"
        "im_stalled (wt_init w') = im_stalled (wt_init ?w)"
        "im_degradation (wt_init w') = im_degradation (wt_init ?w)"
      have "init_pre e (elapsed e now) now w'" by (rule init_step_pre [OF pre1 w'(1)])
      moreover have "keeps (wt_recorder w) (wt_recorder w')" "wt_provider w' = wt_provider ?w"
          "wt_final w' = wt_final w"
        using w'(1) by (simp_all add: init_step_def same_monitors_def)
      moreover have "terminal_ok w'"
        using terminal calculation(2,3) by (simp add: terminal_ok_def keeps_def)
      ultimately show "fits e (elapsed e now) now w' \<and> wt_final w' = wt_final w \<and>
        holds (wt_recorder w) (wt_recorder w') \<and> init_grows (wt_init w) (wt_init w') \<and>
        wt_provider w' = wt_provider ?w"
        using w' ready fresh None keeps_holds by (simp add: fits_def init_grows_def)
    qed
    then show ?thesis
      unfolding run using False ready None by (auto simp: mark_ready_def elim!: succeeds_mono)
  qed
qed

section \<open>Following the session\<close>

definition session_ok :: "session_activity \<Rightarrow> bool" where
  "session_ok s \<longleftrightarrow> 0 \<le> sa_progress_records s \<and> 0 \<le> sa_tool_started s \<and> 0 \<le> sa_tool_completed s \<and>
     0 \<le> sa_active_tools s \<and> sa_active_tools s < 10 ^ count_digits"

definition leased :: "watch \<Rightarrow> bool" where
  "leased w \<longleftrightarrow> pm_last_activity (wt_provider w) \<noteq> None \<and> pm_session_observed (wt_provider w)"

lemma leased_step: "leased a \<Longrightarrow> provider_step e now a b \<Longrightarrow> leased b"
  by (simp add: leased_def provider_step_def)

lemma take_counters_step:
  assumes "fits e x now w" and "session_ok s"
  shows "provider_step e now w (take_counters s w)"
proof -
  have "provider_ok (wt_provider w)" using assms(1) by (simp add: fits_def)
  then show ?thesis
    unfolding take_counters_def using assms(2)
    by (intro provider_change [OF assms(1)]) (auto simp: provider_ok_def session_ok_def)
qed

lemma tool_state_step:
  assumes "fits e x now w" and "session_ok s" and "leased w"
  shows "succeeds (on_recorder (tool_state (renv e) (sa_active_tools s) (sa_tool_completed s) now) w)
    (\<lambda>w'. provider_step e now w w' \<and> True)"
proof -
  let ?r = "wt_recorder w"
  have f: "env_ok (renv e)" "recorder_ok x ?r" "x \<le> elapsed e now" "phase_ok w" "im_ready (wt_init w)"
    using assms by (auto simp: fits_def init_pre_def menv_ok_def leased_def)
  have "succeeds (tool_state (renv e) (sa_active_tools s) (sa_tool_completed s) now ?r) (\<lambda>r'.
    recorder_ok (elapsed e now) r' \<and>
    only_path (?r\<lparr>rc_active_tools := sa_active_tools s, rc_completed_tools := sa_tool_completed s\<rparr>) r' \<and>
    (rc_stop_reason ?r = None \<longrightarrow> provider_phase (rc_phase r')) \<and> (finalized r' \<longleftrightarrow> finalized ?r))"
    using f assms(2) by (intro tool_ok [OF f(1-3)]) (auto simp: phase_ok_def session_ok_def)
  then show ?thesis
    unfolding on_recorder_succeeds
  proof (rule succeeds_mono, elim conjE)
    fix r assume r: "recorder_ok (elapsed e now) r"
      "only_path (?r\<lparr>rc_active_tools := sa_active_tools s, rc_completed_tools := sa_tool_completed s\<rparr>) r"
      "rc_stop_reason ?r = None \<longrightarrow> provider_phase (rc_phase r)" "finalized r \<longleftrightarrow> finalized ?r"
    have "holds ?r r" using r(2) by (simp add: only_path_def holds_def)
    then show "provider_step e now w (w\<lparr>wt_recorder := r\<rparr>) \<and> True"
      using recorder_change [OF assms(1)] r f(5) by simp
  qed
qed

lemma publish_tools_step:
  assumes "observer_ok e" and "fits e x now w" and "\<not> pm_stalled (wt_provider w)"
    and "kind \<in> {Act_Tool_Started, Act_Tool_Completed}" and "message \<noteq> []" and "length message \<le> 500"
  shows "succeeds (publish_tools e kind message now delta tools w) (\<lambda>w'. provider_step e now w w' \<and> True)"
proof (cases "int (length tools) = delta")
  case True
  have "succeeds (efold (\<lambda>tool. tell_provider e kind now (Some tool)) tools w) (\<lambda>w'. provider_step e now w w')"
  proof (rule succeeds_efold)
    show "provider_step e now w w" by (rule provider_step_refl [OF assms(2)])
    fix tool a assume "provider_step e now w a"
    then have "succeeds (tell_provider e kind now (Some tool) a) (\<lambda>w'. provider_step e now w w' \<and>
        wt_provider w' = wt_provider a)"
      using assms(4) by (intro tell_provider_step [OF assms(1)]) (auto simp: provider_kinds_def)
    then show "succeeds (tell_provider e kind now (Some tool) a) (provider_step e now w)"
      by (rule succeeds_mono) simp
  qed
  then show ?thesis using True by (simp add: publish_tools_def)
next
  case False
  then show ?thesis
    using degrade_provider_step [OF assms(1-3,5,6)]
    by (auto simp: publish_tools_def elim!: succeeds_mono)
qed

lemma follow_tools_step:
  assumes obs: "observer_ok e" and fit: "fits e x now w" and "\<not> pm_stalled (wt_provider w)"
    and s: "session_ok s" and "leased w"
  shows "succeeds (follow_tools e s now w) (\<lambda>w'. provider_step e now w w' \<and> True)"
proof -
  let ?w1 = "take_counters s w"
  define started where "started = sa_tool_started s - pm_tool_started (wt_provider w)"
  define completed where "completed = sa_tool_completed s - pm_tool_completed (wt_provider w)"
  have step1: "provider_step e now w ?w1" by (rule take_counters_step [OF fit s])
  have fit1: "fits e (elapsed e now) now ?w1" by (rule provider_step_fits [OF step1])
  have stalled1: "\<not> pm_stalled (wt_provider ?w1)" using step1 assms(3) by (simp add: provider_step_def)
  have leased1: "leased ?w1" by (rule leased_step [OF assms(5) step1])
  have still: "\<not> pm_stalled (wt_provider v)" if "provider_step e now ?w1 v" for v
    using that stalled1 by (simp add: provider_step_def)
  have moved: "succeeds (degrade_provider e ''OpenClaw session activity moved backwards'' now ?w1)
      (\<lambda>w'. provider_step e now ?w1 w' \<and> True)"
    using degrade_provider_step [OF obs fit1 stalled1, of "''OpenClaw session activity moved backwards''"]
    by (auto elim!: succeeds_mono)
  have phase: "succeeds (if 0 < started \<or> 0 < completed
      then on_recorder (tool_state (renv e) (sa_active_tools s) (sa_tool_completed s) now) ?w1
      else Inr ?w1) (\<lambda>w'. provider_step e now ?w1 w' \<and> True)"
    using tool_state_step [OF fit1 s leased1] provider_step_refl [OF fit1] by simp
  have publish: "succeeds (publish_tools e kind message now delta tools v) (\<lambda>w'. provider_step e now v w' \<and> True)"
    if "provider_step e now ?w1 v" "kind \<in> {Act_Tool_Started, Act_Tool_Completed}" "message \<noteq> []"
      "length message \<le> 500" for kind message delta tools v
    using publish_tools_step [OF obs provider_step_fits [OF that(1)] still [OF that(1)] that(2-4)] .
  have "succeeds (ebind (if 0 < started \<or> 0 < completed
      then on_recorder (tool_state (renv e) (sa_active_tools s) (sa_tool_completed s) now) ?w1
      else Inr ?w1) (\<lambda>w2. ebind (publish_tools e Act_Tool_Started
        ''OpenClaw tool-start metadata is inconsistent'' now started ts w2)
        (publish_tools e Act_Tool_Completed ''OpenClaw tool-completion metadata is inconsistent''
          now completed tc))) (\<lambda>w'. provider_step e now ?w1 w' \<and> True)" for ts tc
  proof (rule provider_seq [OF phase])
    fix v assume v: "provider_step e now ?w1 v"
    show "succeeds (ebind (publish_tools e Act_Tool_Started
        ''OpenClaw tool-start metadata is inconsistent'' now started ts v)
        (publish_tools e Act_Tool_Completed ''OpenClaw tool-completion metadata is inconsistent''
          now completed tc)) (\<lambda>w'. provider_step e now v w' \<and> True)"
    proof (rule provider_seq [OF publish [OF v]])
      fix u assume "provider_step e now v u"
      then have u: "provider_step e now ?w1 u" by (rule provider_step_trans [OF v])
      show "succeeds (publish_tools e Act_Tool_Completed
          ''OpenClaw tool-completion metadata is inconsistent'' now completed tc u)
          (\<lambda>w'. provider_step e now u w' \<and> True)"
        by (rule publish [OF u]) simp_all
    qed simp_all
  qed
  with moved have "succeeds (follow_tools e s now w) (\<lambda>w'. provider_step e now ?w1 w' \<and> True)"
    by (simp add: follow_tools_def Let_def started_def completed_def)
  then show ?thesis
    by (rule succeeds_mono) (use provider_step_trans [OF step1] in blast)
qed

text \<open>The first sight of the session starts the lease.\<close>

lemma meet_session_step:
  assumes fit: "fits e x now w" and "\<not> im_stalled (wt_init w)"
  defines "w1 \<equiv> w\<lparr>wt_provider := (wt_provider w)\<lparr>pm_lineage_since := None, pm_session_observed := True\<rparr>\<rparr>"
  shows "succeeds (if \<not> pm_session_observed (wt_provider w) then start_lease e Lease_Current_Turn now w1
    else Inr w1) (\<lambda>w'. provider_step e now w w' \<and> leased w')"
proof (cases "pm_session_observed (wt_provider w)")
  case True
  have "provider_ok (wt_provider w)" using fit by (simp add: fits_def)
  then have "provider_step e now w w1" "leased w1"
    using True unfolding w1_def
    by (auto intro!: provider_change [OF fit] simp: provider_ok_def leased_def)
  then show ?thesis using True by simp
next
  case False
  have ok: "provider_ok (wt_provider w)" and terminal: "\<not> pm_terminal (wt_provider w)"
    using fit False by (auto simp: fits_def provider_ok_def)
  have "succeeds (start_lease e Lease_Current_Turn now w1) (\<lambda>w'. fits e (elapsed e now) now w' \<and>
    wt_final w' = wt_final w1 \<and> holds (wt_recorder w1) (wt_recorder w') \<and>
    init_grows (wt_init w1) (wt_init w') \<and>
    wt_provider w' = (if pm_last_activity (wt_provider w1) \<noteq> None then wt_provider w1
      else (wt_provider w1)\<lparr>pm_last_activity := Some now, pm_lease_source := Some Lease_Current_Turn\<rparr>))"
    using fit ok terminal assms(2) unfolding w1_def
    by (intro start_lease_ok [where x = x])
      (auto simp: fits_def init_pre_def phase_ok_def terminal_ok_def provider_ok_def)
  then have "succeeds (start_lease e Lease_Current_Turn now w1) (\<lambda>w'. provider_step e now w w' \<and> leased w')"
    by (rule succeeds_mono) (auto simp: provider_step_def leased_def w1_def)
  then show ?thesis using False by simp
qed

lemma finalizing_step:
  assumes fit: "fits e x now w" and "leased w" and "\<not> pm_stalled (wt_provider w)"
  shows "succeeds (on_recorder (response_finalizing (renv e) now)
      (w\<lparr>wt_provider := (wt_provider w)\<lparr>pm_terminal := True\<rparr>\<rparr>)) (provider_step e now w)"
proof -
  let ?r = "wt_recorder w"
  have f: "env_ok (renv e)" "recorder_ok x ?r" "x \<le> elapsed e now" "phase_ok w" "im_ready (wt_init w)"
      "provider_ok (wt_provider w)"
    using fit assms(2) by (auto simp: fits_def init_pre_def menv_ok_def leased_def)
  have ok: "provider_ok ((wt_provider w)\<lparr>pm_terminal := True\<rparr>)"
    using f(6) assms(2,3) by (auto simp: provider_ok_def leased_def)
  have "succeeds (response_finalizing (renv e) now ?r) (\<lambda>r'. recorder_ok (elapsed e now) r' \<and>
    only_path ?r r' \<and> (rc_stop_reason ?r = None \<longrightarrow> provider_phase (rc_phase r') \<and> finalized r') \<and>
    (rc_stop_reason ?r \<noteq> None \<longrightarrow> (finalized r' \<longleftrightarrow> finalized ?r)))"
    using f by (intro finalizing_ok [OF f(1-3)]) (auto simp: phase_ok_def)
  then have "succeeds (response_finalizing (renv e) now ?r) (\<lambda>r. provider_step e now w
      (w\<lparr>wt_provider := (wt_provider w)\<lparr>pm_terminal := True\<rparr>, wt_recorder := r\<rparr>))"
  proof (rule succeeds_mono, elim conjE)
    fix r assume r: "recorder_ok (elapsed e now) r" "only_path ?r r"
      "rc_stop_reason ?r = None \<longrightarrow> provider_phase (rc_phase r) \<and> finalized r"
      "rc_stop_reason ?r \<noteq> None \<longrightarrow> (finalized r \<longleftrightarrow> finalized ?r)"
    have h: "holds ?r r" "rc_stop_reason r = rc_stop_reason ?r"
      using r(2) by (simp_all add: only_path_def holds_def)
    show "provider_step e now w (w\<lparr>wt_provider := (wt_provider w)\<lparr>pm_terminal := True\<rparr>, wt_recorder := r\<rparr>)"
      using fits_now [OF fit] ok r h f(5)
      by (simp add: provider_step_def fits_def init_pre_def phase_ok_def terminal_ok_def)
  qed
  then show ?thesis by (simp add: on_recorder_succeeds)
qed

lemma follow_session_step:
  assumes obs: "observer_ok e" and fit: "fits e x now w" and stalled: "\<not> pm_stalled (wt_provider w)"
    and "\<not> im_stalled (wt_init w)" and s: "session_ok s"
  shows "succeeds (follow_session e s now w) (\<lambda>(trusted, w'). provider_step e now w w' \<and> leased w')"
proof -
  let ?w1 = "w\<lparr>wt_provider := (wt_provider w)\<lparr>pm_lineage_since := None, pm_session_observed := True\<rparr>\<rparr>"
  obtain w2 where w2: "(if \<not> pm_session_observed (wt_provider w)
      then start_lease e Lease_Current_Turn now ?w1 else Inr ?w1) = Inr w2"
    and p2: "provider_step e now w w2 \<and> leased w2"
    using meet_session_step [OF fit assms(4)] by (rule succeedsE)
  let ?delta = "sa_progress_records s - pm_progress_records (wt_provider w2)"
  have fit2: "fits e (elapsed e now) now w2" and st2: "\<not> pm_stalled (wt_provider w2)"
    using p2 stalled by (simp_all add: provider_step_def)
  have "succeeds (if ?delta < 0
      then degrade_provider e ''OpenClaw session progress moved backwards'' now w2 else Inr w2)
    (\<lambda>w'. provider_step e now w2 w' \<and> True)"
    using degrade_provider_step [OF obs fit2 st2, of "''OpenClaw session progress moved backwards''"]
      provider_step_refl [OF fit2] by (auto elim!: succeeds_mono)
  then obtain w3 where w3: "(if ?delta < 0
      then degrade_provider e ''OpenClaw session progress moved backwards'' now w2 else Inr w2) = Inr w3"
    and p3: "provider_step e now w2 w3 \<and> True"
    by (rule succeedsE)
  have step3: "provider_step e now w w3" using p2 p3 provider_step_trans by blast
  have fit3: "fits e (elapsed e now) now w3" and st3: "\<not> pm_stalled (wt_provider w3)"
    using step3 stalled by (simp_all add: provider_step_def)
  have l3: "leased w3" using p2 p3 leased_step by blast
  obtain w4 where w4: "follow_tools e s now w3 = Inr w4" and p4: "provider_step e now w3 w4 \<and> True"
    using follow_tools_step [OF obs fit3 st3 s l3] by (rule succeedsE)
  have step4: "provider_step e now w w4" using step3 p4 provider_step_trans by blast
  have fit4: "fits e (elapsed e now) now w4" and st4: "\<not> pm_stalled (wt_provider w4)"
    using step4 stalled by (simp_all add: provider_step_def)
  have l4: "leased w4" using l3 p4 leased_step by blast
  obtain w5 where w5: "on_recorder (response_finalizing (renv e) now)
      (w4\<lparr>wt_provider := (wt_provider w4)\<lparr>pm_terminal := True\<rparr>\<rparr>) = Inr w5" and p5: "provider_step e now w4 w5"
    using finalizing_step [OF fit4 l4 st4] by (rule succeedsE)
  have "provider_step e now w w5 \<and> leased w5" using step4 p5 l4 provider_step_trans leased_step by blast
  then show ?thesis
    using step4 l4 unfolding follow_session_def Let_def w2 ebind_Inr w3 w4 w5 by simp
qed

section \<open>One poll\<close>

definition session_reading_ok :: "session_reading \<Rightarrow> bool" where
  "session_reading_ok reading \<longleftrightarrow> (case reading of
     Session_Unreadable detail \<Rightarrow> length detail \<le> 400
   | Session_Facts (Some s) \<Rightarrow> session_ok s
   | _ \<Rightarrow> True)"

lemma proper_reasons:
  "unattributable d \<noteq> []" "length d \<le> 400 \<Longrightarrow> length (unattributable d) \<le> 500" "length lineage_error \<le> 400"
  by (simp_all add: unattributable_def lineage_error_def)

lemma degrade_simple_step:
  assumes "observer_ok e" and "fits e x now w" and "\<not> pm_stalled (wt_provider w)"
    and "reason \<noteq> []" and "length reason \<le> 500"
  shows "succeeds (degrade_provider e reason now w) (provider_step e now w)"
  using degrade_provider_step [OF assms] by (rule succeeds_mono) simp

lemma without_session_step:
  assumes "observer_ok e" and "fits e x now w" and "\<not> pm_stalled (wt_provider w)"
  shows "succeeds (without_session e now w) (\<lambda>(trusted, w'). provider_step e now w w' \<and> \<not> trusted)"
  using degrade_simple_step [OF assms, of "unattributable lineage_error"] provider_step_refl [OF assms(2)]
    proper_reasons
  by (simp add: without_session_def)

lemma note_lineage_step:
  assumes "fits e x now w"
  shows "provider_step e now w (note_lineage now w)"
proof -
  have "provider_ok (wt_provider w)" using assms by (simp add: fits_def)
  then have "provider_step e now w (w\<lparr>wt_provider := (wt_provider w)\<lparr>pm_lineage_since := Some now\<rparr>\<rparr>)"
    by (intro provider_change [OF assms]) (auto simp: provider_ok_def)
  then show ?thesis using provider_step_refl [OF assms] by (simp add: note_lineage_def)
qed

lemma read_session_step:
  assumes obs: "observer_ok e" and fit: "fits e x now w" and stalled: "\<not> pm_stalled (wt_provider w)"
    and facts: "\<And>s. reading = Session_Facts (Some s) \<Longrightarrow> \<not> im_stalled (wt_init w)"
    and ok: "session_reading_ok reading"
  shows "succeeds (read_session e reading now w) (\<lambda>(trusted, w'). provider_step e now w w' \<and>
    (trusted \<longrightarrow> pm_last_activity (wt_provider w') \<noteq> None))"
proof -
  have later: "succeeds (without_session e now w1) (\<lambda>(trusted, w'). provider_step e now w w' \<and>
      (trusted \<longrightarrow> pm_last_activity (wt_provider w') \<noteq> None))" if "provider_step e now w w1" for w1
  proof -
    have "\<not> pm_stalled (wt_provider w1)" using that stalled by (simp add: provider_step_def)
    from without_session_step [OF obs provider_step_fits [OF that] this] show ?thesis
      by (rule succeeds_mono) (use provider_step_trans [OF that] in auto)
  qed
  show ?thesis
  proof (cases reading)
    case (Session_Unreadable d)
    have "succeeds (degrade_provider e (unattributable d) now w) (provider_step e now w)"
      using ok proper_reasons by (intro degrade_simple_step [OF obs fit stalled])
        (simp_all add: Session_Unreadable session_reading_ok_def)
    then obtain w1 where "degrade_provider e (unattributable d) now w = Inr w1" "provider_step e now w w1"
      by (rule succeedsE)
    then show ?thesis using later by (simp add: read_session_def Session_Unreadable)
  next
    case Session_Lineage_Broken
    then show ?thesis using later [OF note_lineage_step [OF fit]] by (simp add: read_session_def)
  next
    case (Session_Facts facts_opt)
    show ?thesis
    proof (cases facts_opt)
      case None
      then show ?thesis
        using later [OF provider_step_refl [OF fit]] Session_Facts by (simp add: read_session_def)
    next
      case (Some s)
      have "session_ok s" "\<not> im_stalled (wt_init w)"
        using ok facts by (simp_all add: Session_Facts Some session_reading_ok_def)
      then have "succeeds (follow_session e s now w) (\<lambda>(trusted, w'). provider_step e now w w' \<and> leased w')"
        by (intro follow_session_step [OF obs fit stalled])
      then have "succeeds (follow_session e s now w) (\<lambda>(trusted, w'). provider_step e now w w' \<and>
          (trusted \<longrightarrow> pm_last_activity (wt_provider w') \<noteq> None))"
        by (rule succeeds_mono) (auto simp: leased_def)
      then show ?thesis by (simp add: read_session_def Session_Facts Some)
    qed
  qed
qed

lemma note_provider_inactivity_step:
  assumes "fits e x now w"
  shows "provider_step e now w (note_provider_inactivity now w)"
proof (cases "pm_last_activity (wt_provider w)")
  case None
  then show ?thesis using provider_step_refl [OF assms] by (simp add: note_provider_inactivity_def Let_def)
next
  case (Some t)
  let ?m = "(wt_provider w)\<lparr>pm_maximum_ms :=
    max (pm_maximum_ms (wt_provider w)) (seconds_ms (inactive_seconds now t))\<rparr>"
  have "provider_ok (wt_provider w)" using assms by (simp add: fits_def)
  then have "provider_step e now w (w\<lparr>wt_provider := ?m\<rparr>)"
    by (intro provider_change [OF assms]) (auto simp: provider_ok_def le_max_iff_disj)
  then show ?thesis
    using Some provider_step_refl [OF assms] by (simp add: note_provider_inactivity_def Let_def)
qed

lemma read_stream_step:
  assumes "observer_ok e" and fit: "fits e x now w" and "\<not> pm_stalled (wt_provider w)"
  shows "succeeds (read_stream e reading now w) (\<lambda>(raw, w'). provider_step e now w w')"
proof (cases reading)
  case Stream_Unreadable
  then show ?thesis
    using degrade_simple_step [OF assms, of "''private provider-stream observer became unavailable''"]
    by (simp add: read_stream_def)
next
  case (Stream_Read fresh)
  have "provider_ok (wt_provider w)" using fit by (simp add: fits_def)
  then have "provider_step e now w (w\<lparr>wt_provider := (wt_provider w)\<lparr>pm_raw_observed := True,
      pm_observations := pm_observations (wt_provider w) + 1\<rparr>\<rparr>)"
    by (intro provider_change [OF fit]) (auto simp: provider_ok_def)
  then show ?thesis
    using provider_step_refl [OF fit] by (cases fresh) (simp_all add: read_stream_def Stream_Read)
qed

lemma qualify_stream_step:
  assumes fit: "fits e x now w"
  shows "succeeds (qualify_stream e qualified now w) (\<lambda>w'. provider_step e now w w' \<and>
    (qualified \<longrightarrow> pm_last_activity (wt_provider w') \<noteq> None) \<and>
    (pm_last_activity (wt_provider w) \<noteq> None \<longrightarrow> pm_last_activity (wt_provider w') \<noteq> None))"
proof (cases "qualified")
  case True
  let ?w = "w\<lparr>wt_provider := (wt_provider w)\<lparr>pm_qualified := pm_qualified (wt_provider w) + 1\<rparr>\<rparr>"
  have ok: "provider_ok (wt_provider w)" using fit by (simp add: fits_def)
  have "succeeds (start_lease e Lease_Provider_Stream now ?w) (\<lambda>w'. fits e (elapsed e now) now w' \<and>
    wt_final w' = wt_final ?w \<and> holds (wt_recorder ?w) (wt_recorder w') \<and>
    init_grows (wt_init ?w) (wt_init w') \<and>
    wt_provider w' = (if pm_last_activity (wt_provider ?w) \<noteq> None then wt_provider ?w
      else (wt_provider ?w)\<lparr>pm_last_activity := Some now, pm_lease_source := Some Lease_Provider_Stream\<rparr>))"
    using fit ok
    by (intro start_lease_ok [where x = x])
      (auto simp: fits_def init_pre_def phase_ok_def terminal_ok_def provider_ok_def)
  then have "succeeds (start_lease e Lease_Provider_Stream now ?w) (\<lambda>w'. provider_step e now w w' \<and>
    (qualified \<longrightarrow> pm_last_activity (wt_provider w') \<noteq> None) \<and>
    (pm_last_activity (wt_provider w) \<noteq> None \<longrightarrow> pm_last_activity (wt_provider w') \<noteq> None))"
    by (rule succeeds_mono) (auto simp: provider_step_def)
  then show ?thesis using True by (simp add: qualify_stream_def)
next
  case False
  then show ?thesis using provider_step_refl [OF fit] by (simp add: qualify_stream_def)
qed

text \<open>Changing the monitor and then telling the observer.\<close>

lemma change_and_tell:
  assumes "observer_ok e" and "fits e x now w" and "provider_ok m" and "kind \<in> provider_kinds"
    and "kind \<noteq> Act_Liveness_Degraded" and "pm_terminal m = pm_terminal (wt_provider w)"
    and "pm_last_activity m = None \<longleftrightarrow> pm_last_activity (wt_provider w) = None"
    and "pm_stalled m = pm_stalled (wt_provider w)"
    and "pm_session_observed (wt_provider w) \<Longrightarrow> pm_session_observed m"
  shows "succeeds (tell_provider e kind now None (w\<lparr>wt_provider := m\<rparr>)) (\<lambda>w'. provider_step e now w w' \<and>
    wt_provider w' = m)"
  using tell_provider_step [OF assms(1) provider_change [OF assms(2,3,6-9)] assms(4), of None] assms(5)
  by simp

lemma renew_lease_step:
  assumes obs: "observer_ok e" and fit: "fits e x now w" and "pm_last_activity (wt_provider w) \<noteq> None"
  shows "succeeds (renew_lease e qualifying now w) (provider_step e now w)"
proof -
  let ?m = "(wt_provider w)\<lparr>pm_last_activity := Some now\<rparr>"
  let ?r = "?m\<lparr>pm_suspected := False, pm_recovered_count := pm_recovered_count (wt_provider w) + 1\<rparr>"
  have ok: "provider_ok (wt_provider w)" using fit by (simp add: fits_def)
  then have m: "provider_ok ?m" "provider_ok ?r" using assms(3) by (auto simp: provider_ok_def)
  have "succeeds (tell_provider e Act_Stall_Recovered now None (w\<lparr>wt_provider := ?r\<rparr>))
      (\<lambda>w'. provider_step e now w w' \<and> wt_provider w' = ?r)"
    using m assms(3) by (intro change_and_tell [OF obs fit]) (simp_all add: provider_kinds_def)
  moreover have "provider_step e now w (w\<lparr>wt_provider := ?m\<rparr>)"
    using m(1) assms(3) by (intro provider_change [OF fit]) simp_all
  ultimately have "succeeds (if pm_suspected (wt_provider w)
      then tell_provider e Act_Stall_Recovered now None (w\<lparr>wt_provider := ?r\<rparr>)
      else Inr (w\<lparr>wt_provider := ?m\<rparr>)) (provider_step e now w)"
    by (auto elim!: succeeds_mono)
  then obtain w2 where w2: "(if pm_suspected (wt_provider w)
      then tell_provider e Act_Stall_Recovered now None (w\<lparr>wt_provider := ?r\<rparr>)
      else Inr (w\<lparr>wt_provider := ?m\<rparr>)) = Inr w2" and p2: "provider_step e now w w2"
    by (rule succeedsE)
  let ?t = "(wt_provider w2)\<lparr>pm_last_report := Some now\<rparr>"
  have f2: "fits e (elapsed e now) now w2" by (rule provider_step_fits [OF p2])
  then have "provider_ok ?t" by (auto simp: fits_def provider_ok_def)
  then have "succeeds (tell_provider e Act_Provider_Stream now None (w2\<lparr>wt_provider := ?t\<rparr>))
      (\<lambda>w'. provider_step e now w2 w' \<and> wt_provider w' = ?t)"
    by (intro change_and_tell [OF obs f2]) (simp_all add: provider_kinds_def)
  then have "succeeds (tell_provider e Act_Provider_Stream now None (w2\<lparr>wt_provider := ?t\<rparr>))
      (provider_step e now w)"
    by (rule succeeds_mono) (use provider_step_trans [OF p2] in blast)
  moreover have "renew_lease e qualifying now w =
    (if qualifying \<and> (pm_observations (wt_provider w2) = 1 \<or>
         opt_all (\<lambda>t. activity_report_seconds \<le> now - t) (pm_last_report (wt_provider w2)))
     then tell_provider e Act_Provider_Stream now None (w2\<lparr>wt_provider := ?t\<rparr>) else Inr w2)"
    using w2 by (cases "pm_suspected (wt_provider w)") (auto simp: renew_lease_def Let_def)
  ultimately show ?thesis using p2 by simp
qed

text \<open>What a poll leaves: \<open>b\<close> says whether the provider has stalled.\<close>

definition provider_polled :: "monitor_env \<Rightarrow> rat \<Rightarrow> watch \<Rightarrow> bool \<times> watch \<Rightarrow> bool" where
  "provider_polled e now w result \<longleftrightarrow> (case result of (b, w') \<Rightarrow>
     fits e (elapsed e now) now w' \<and> wt_final w' = wt_final w \<and>
     holds (wt_recorder w) (wt_recorder w') \<and> init_grows (wt_init w) (wt_init w') \<and>
     pm_stalled (wt_provider w') = b \<and>
     (pm_terminal (wt_provider w) \<longrightarrow> pm_terminal (wt_provider w')))"

lemma step_polled:
  "provider_step e now w w' \<Longrightarrow> \<not> pm_stalled (wt_provider w) \<Longrightarrow> provider_polled e now w (False, w')"
  by (simp add: provider_step_def provider_polled_def)

lemma polled_from:
  assumes "provider_step e now w w1" and "provider_polled e now w1 result"
  shows "provider_polled e now w result"
  using assms by (auto simp: provider_polled_def provider_step_def intro: holds_trans init_grows_trans)

lemma stall_provider_step:
  assumes obs: "observer_ok e" and fit: "fits e x now w" and "\<not> pm_stalled (wt_provider w)"
    and "pm_degradation (wt_provider w) = None" and "\<not> pm_terminal (wt_provider w)"
    and "pm_last_activity (wt_provider w) \<noteq> None"
  shows "succeeds (stall_provider e inactive now w) (provider_polled e now w)"
proof -
  let ?m = "(wt_provider w)\<lparr>pm_stalled := True\<rparr>"
  have ok: "provider_ok ?m" using fit assms(4-) by (auto simp: fits_def provider_ok_def)
  have fit': "fits e (elapsed e now) now (w\<lparr>wt_provider := ?m\<rparr>)"
    using fits_now [OF fit] ok by (simp add: fits_def init_pre_def phase_ok_def terminal_ok_def)
  have "succeeds (tell_provider e Act_Provider_Stalled now None (w\<lparr>wt_provider := ?m\<rparr>))
      (\<lambda>w'. provider_step e now (w\<lparr>wt_provider := ?m\<rparr>) w' \<and> wt_provider w' = wt_provider (w\<lparr>wt_provider := ?m\<rparr>))"
    by (intro tell_provider_step [OF obs provider_step_refl [OF fit']]) (simp_all add: provider_kinds_def)
  then have "succeeds (tell_provider e Act_Provider_Stalled now None (w\<lparr>wt_provider := ?m\<rparr>))
      (\<lambda>w'. provider_polled e now w (True, w'))"
    by (rule succeeds_mono) (simp add: provider_step_def provider_polled_def)
  then show ?thesis
    using step_polled [OF provider_step_refl [OF fit] assms(3)] by (simp add: stall_provider_def Let_def)
qed

lemma enforce_silence_step:
  assumes obs: "observer_ok e" and fit: "fits e x now w" and stalled: "\<not> pm_stalled (wt_provider w)"
  shows "succeeds (enforce_silence e enforce now w) (provider_polled e now w)"
proof (cases "pm_degradation (wt_provider w) = None \<and> \<not> pm_terminal (wt_provider w) \<and>
    pm_last_activity (wt_provider w) \<noteq> None")
  case False
  then show ?thesis
    using step_polled [OF provider_step_refl [OF fit] stalled]
    by (auto simp: enforce_silence_def Let_def split: option.split)
next
  case True
  then obtain t where t: "pm_last_activity (wt_provider w) = Some t" by auto
  let ?inactive = "inactive_seconds now t"
  let ?m = "(wt_provider w)\<lparr>pm_suspected := True, pm_suspected_count := pm_suspected_count (wt_provider w) + 1\<rparr>"
  let ?suspect = "\<not> pm_suspected (wt_provider w) \<and> provider_suspect_after (me_provider_policy e) \<le> ?inactive"
  have "provider_ok ?m" using fit by (auto simp: fits_def provider_ok_def)
  then have "succeeds (tell_provider e Act_Stall_Suspected now None (w\<lparr>wt_provider := ?m\<rparr>))
      (\<lambda>w'. provider_step e now w w' \<and> wt_provider w' = ?m)"
    by (intro change_and_tell [OF obs fit]) (simp_all add: provider_kinds_def)
  then have "succeeds (if ?suspect then tell_provider e Act_Stall_Suspected now None (w\<lparr>wt_provider := ?m\<rparr>)
      else Inr w) (\<lambda>w'. provider_step e now w w' \<and> (wt_provider w' = ?m \<or> wt_provider w' = wt_provider w))"
    using provider_step_refl [OF fit] by (auto elim!: succeeds_mono)
  then obtain w1 where w1: "(if ?suspect then tell_provider e Act_Stall_Suspected now None (w\<lparr>wt_provider := ?m\<rparr>)
      else Inr w) = Inr w1"
    and p1: "provider_step e now w w1 \<and> (wt_provider w1 = ?m \<or> wt_provider w1 = wt_provider w)"
    by (rule succeedsE)
  have "succeeds (stall_provider e ?inactive now w1) (provider_polled e now w1)"
    using p1 True stalled by (intro stall_provider_step [OF obs provider_step_fits]) auto
  then have "succeeds (stall_provider e ?inactive now w1) (provider_polled e now w)"
    by (rule succeeds_mono) (use p1 polled_from in blast)
  then show ?thesis
    using w1 step_polled [OF provider_step_refl [OF fit] stalled]
    unfolding enforce_silence_def Let_def t by simp
qed

lemma poll_provider_ok:
  assumes obs: "observer_ok e" and fit: "fits e x now w" and stalled: "\<not> pm_stalled (wt_provider w)"
    and facts: "\<And>s. session = Session_Facts (Some s) \<Longrightarrow> \<not> im_stalled (wt_init w)"
    and ok: "session_reading_ok session"
  shows "succeeds (poll_provider e enforce stream session now w) (provider_polled e now w)"
proof -
  let ?n = "note_provider_inactivity now w"
  have pn: "provider_step e now w ?n" by (rule note_provider_inactivity_step [OF fit])
  have st: "\<not> pm_stalled (wt_provider v)" "im_stalled (wt_init v) = im_stalled (wt_init w)"
    if "provider_step e now w v" for v
    using that stalled by (simp_all add: provider_step_def init_grows_def)
  have "succeeds (read_stream e stream now ?n) (\<lambda>(raw, w'). provider_step e now ?n w')"
    by (rule read_stream_step [OF obs provider_step_fits [OF pn] st(1) [OF pn]])
  then obtain raw w1 where w1: "read_stream e stream now ?n = Inr (raw, w1)" and p: "provider_step e now ?n w1"
    by (auto simp: succeeds_iff)
  have p1: "provider_step e now w w1" by (rule provider_step_trans [OF pn p])
  have "succeeds (read_session e session now w1) (\<lambda>(trusted, w'). provider_step e now w1 w' \<and>
      (trusted \<longrightarrow> pm_last_activity (wt_provider w') \<noteq> None))"
    using st [OF p1] facts by (intro read_session_step [OF obs provider_step_fits [OF p1] _ _ ok]) simp_all
  then obtain trusted w2 where w2: "read_session e session now w1 = Inr (trusted, w2)"
    and q: "provider_step e now w1 w2" "trusted \<longrightarrow> pm_last_activity (wt_provider w2) \<noteq> None"
    by (auto simp: succeeds_iff)
  have p2: "provider_step e now w w2" by (rule provider_step_trans [OF p1 q(1)])
  define qual where "qual = (raw \<and> \<not> pm_repeating (wt_provider w2))"
  obtain w3 where w3: "qualify_stream e qual now w2 = Inr w3"
    and r: "provider_step e now w2 w3 \<and> (qual \<longrightarrow> pm_last_activity (wt_provider w3) \<noteq> None) \<and>
      (pm_last_activity (wt_provider w2) \<noteq> None \<longrightarrow> pm_last_activity (wt_provider w3) \<noteq> None)"
    using qualify_stream_step [OF provider_step_fits [OF p2]] by (rule succeedsE)
  have p3: "provider_step e now w w3" using provider_step_trans [OF p2] r by blast
  have "succeeds (if trusted \<or> qual then renew_lease e qual now w3 else Inr w3) (provider_step e now w3)"
    using renew_lease_step [OF obs provider_step_fits [OF p3]] provider_step_refl [OF provider_step_fits [OF p3]]
      q(2) r by auto
  then obtain w4 where w4: "(if trusted \<or> qual then renew_lease e qual now w3 else Inr w3) = Inr w4"
    and s: "provider_step e now w3 w4" by (rule succeedsE)
  have p4: "provider_step e now w w4" by (rule provider_step_trans [OF p3 s])
  have "succeeds (enforce_silence e enforce now w4) (provider_polled e now w4)"
    by (rule enforce_silence_step [OF obs provider_step_fits [OF p4] st(1) [OF p4]])
  then have "succeeds (enforce_silence e enforce now w4) (provider_polled e now w)"
    by (rule succeeds_mono) (rule polled_from [OF p4])
  then show ?thesis
    using w1 w2 w3 w4 unfolding poll_provider_def Let_def qual_def by simp
qed

lemma unenforced_poll:
  assumes "poll_provider e False stream session now w = Inr (b, w')"
  shows "\<not> b"
  using assms by (auto simp: poll_provider_def enforce_silence_def Let_def ebind_eq_Inr)

lemma provider_result_ok:
  assumes "menv_ok e" and "provider_ok (wt_provider w)"
  shows "provider_result e w = Inr (provider_evidence_of e (wt_provider w))"
proof -
  have "validate_provider_evidence (provider_evidence_of e (wt_provider w)) = Inr ()"
    using provider_policy_facts [OF assms(1)] assms(2)
    by (cases "pm_degradation (wt_provider w)")
      (auto simp: validate_provider_evidence_def provider_evidence_of_def provider_ok_def short_reason_def)
  then show ?thesis by (simp add: provider_result_def Let_def)
qed

lemma finish_provider_ok:
  assumes obs: "observer_ok e" and fit: "fits e x now w" and stalled: "\<not> pm_stalled (wt_provider w)"
    and facts: "\<And>s. session = Session_Facts (Some s) \<Longrightarrow> \<not> im_stalled (wt_init w)"
    and ok: "session_reading_ok session"
  shows "succeeds (finish_provider e stream session now w) (\<lambda>w'. provider_polled e now w (False, w'))"
proof -
  have "succeeds (poll_provider e False stream session now w) (provider_polled e now w)"
    by (rule poll_provider_ok [OF obs fit stalled facts ok])
  then obtain b w1 where w1: "poll_provider e False stream session now w = Inr (b, w1)"
    and p: "provider_polled e now w (b, w1)"
    by (auto simp: succeeds_iff)
  have p1: "provider_polled e now w (False, w1)" using p unenforced_poll [OF w1] by simp
  then have f1: "fits e (elapsed e now) now w1" "\<not> pm_stalled (wt_provider w1)"
    by (simp_all add: provider_polled_def)
  have "succeeds (if pm_lineage_since (wt_provider w1) \<noteq> None
      then degrade_provider e (unattributable lineage_error) now w1 else Inr w1) (provider_step e now w1)"
    using degrade_simple_step [OF obs f1, of "unattributable lineage_error"] proper_reasons
      provider_step_refl [OF f1(1)] by simp
  then obtain w2 where w2: "(if pm_lineage_since (wt_provider w1) \<noteq> None
      then degrade_provider e (unattributable lineage_error) now w1 else Inr w1) = Inr w2"
    and p2: "provider_step e now w1 w2" by (rule succeedsE)
  have f2: "fits e (elapsed e now) now w2" "\<not> pm_stalled (wt_provider w2)"
    using p2 f1 by (simp_all add: provider_step_def)
  have "succeeds (if pm_last_activity (wt_provider w2) = None
      then degrade_provider e ''OpenClaw current-turn activity was never attributable'' now w2
      else Inr w2) (provider_step e now w2)"
    using degrade_simple_step [OF obs f2, of "''OpenClaw current-turn activity was never attributable''"]
      provider_step_refl [OF f2(1)] by simp
  then obtain w3 where w3: "(if pm_last_activity (wt_provider w2) = None
      then degrade_provider e ''OpenClaw current-turn activity was never attributable'' now w2
      else Inr w2) = Inr w3" and p3: "provider_step e now w2 w3" by (rule succeedsE)
  have p13: "provider_step e now w1 w3" by (rule provider_step_trans [OF p2 p3])
  then have "menv_ok e" "provider_ok (wt_provider w3)"
    by (simp_all add: provider_step_def fits_def init_pre_def)
  then have r: "provider_result e w3 = Inr (provider_evidence_of e (wt_provider w3))"
    by (rule provider_result_ok)
  have "provider_polled e now w (False, w3)"
    using p1 p13 by (auto simp: provider_polled_def provider_step_def intro: holds_trans init_grows_trans)
  then show ?thesis using w1 w2 w3 r unfolding finish_provider_def by simp
qed

end
