(* ===== verification/Lifecycle_Finalization.thy ===== *)
theory Lifecycle_Finalization
  imports Lifecycle_Invariants
begin

text \<open>
  \<open>_finalize_lifecycle_result\<close> on a recorder whose recorded path is legal: the stopping, the
  collecting and the stopped transition complete the path, and the evidence is accepted unless the
  guard of the response finalization disagrees with it in one of two ways.
\<close>

section \<open>The finalizing phase occurs once\<close>

definition past_work :: "invocation_phase \<Rightarrow> bool" where
  "past_work p \<longleftrightarrow> p = Inv_Finalizing_Response \<or> shutdown_phase p"

lemma past_work_step: "past_work (lt_phase a) \<Longrightarrow> legal_step a b \<Longrightarrow> shutdown_phase (lt_phase b)"
  by (cases "lt_phase a") (auto simp: past_work_def legal_step_def shutdown_phase_def)

lemma past_work_tail:
  "adjacent legal_step (t # ts) \<Longrightarrow> past_work (lt_phase t) \<Longrightarrow> in_phase Inv_Finalizing_Response ts = []"
proof (induction ts arbitrary: t)
  case Nil
  then show ?case by (simp add: in_phase_def)
next
  case (Cons u us)
  have step: "legal_step t u" "adjacent legal_step (u # us)" using Cons.prems(1) by auto
  have shut: "shutdown_phase (lt_phase u)" by (rule past_work_step [OF Cons.prems(2) step(1)])
  then have "in_phase Inv_Finalizing_Response us = []"
    using Cons.IH [OF step(2)] by (simp add: past_work_def)
  then show ?case using shut by (auto simp: in_phase_def shutdown_phase_def)
qed

lemma finalizing_once:
  "adjacent legal_step ts \<Longrightarrow> length (in_phase Inv_Finalizing_Response ts) \<le> 1"
proof (induction ts)
  case Nil
  then show ?case by (simp add: in_phase_def)
next
  case (Cons t ts)
  have tail: "adjacent legal_step ts" using Cons.prems by (cases ts) auto
  show ?case
  proof (cases "lt_phase t = Inv_Finalizing_Response")
    case True
    then have "in_phase Inv_Finalizing_Response ts = []"
      using past_work_tail [OF Cons.prems] by (simp add: past_work_def)
    then show ?thesis by (simp add: in_phase_def)
  next
    case False
    then show ?thesis using Cons.IH [OF tail] by (simp add: in_phase_def)
  qed
qed

lemma finalizing_count:
  assumes "path_ok x ts"
  shows "length (in_phase Inv_Finalizing_Response ts) = 1 \<longleftrightarrow> (\<exists>t \<in> set ts. lt_phase t = Inv_Finalizing_Response)"
proof -
  have "length (in_phase Inv_Finalizing_Response ts) \<le> 1"
    using assms finalizing_once by (simp add: path_ok_def)
  moreover have "in_phase Inv_Finalizing_Response ts = [] \<longleftrightarrow> (\<forall>t \<in> set ts. lt_phase t \<noteq> Inv_Finalizing_Response)"
    by (simp add: in_phase_def filter_empty_conv)
  ultimately show ?thesis
    by (cases "in_phase Inv_Finalizing_Response ts") auto
qed

section \<open>Completing the path\<close>

lemma elapsed_at_end: "0 \<le> d \<Longrightarrow> rc_elapsed e (re_started e + of_int d / 1000) = d"
  by (simp add: rc_elapsed_def)

lemma enter_collecting:
  assumes env: "env_ok e" and path: "path_ok x (rc_transitions r)" and time: "x \<le> rc_elapsed e now"
    and tools: "0 \<le> rc_active_tools r" "0 \<le> rc_completed_tools r"
    and last: "lt_phase (last (rc_transitions r)) = before" and p: "(before, p) \<in>
      {(Inv_Stopping, Inv_Collecting_Evidence), (Inv_Collecting_Evidence, Inv_Stopped)}"
    and action: "proper_action a"
  shows "succeeds (enter_phase e p now (Some reason) None a r) (\<lambda>r'. only_path r r' \<and>
    (\<exists>t. rc_transitions r' = rc_transitions r @ [t] \<and> lt_phase t = p \<and> lt_stop_reason t = Some reason \<and>
      path_ok (rc_elapsed e now) (rc_transitions r @ [t])))"
proof -
  have "succeeds (enter_phase e p now (Some reason) None a r) (\<lambda>r'. only_path r r' \<and>
    path_ok (rc_elapsed e now) (rc_transitions r') \<and> rc_phase r' = rc_phase r \<and>
    rc_transitions r' = rc_transitions r \<and> lt_phase (last (rc_transitions r)) = p \<and>
    lt_stop_reason (last (rc_transitions r)) = Some reason \<or>
    only_path r r' \<and> path_ok (rc_elapsed e now) (rc_transitions r') \<and> rc_phase r' = Some p \<and>
    rc_transitions r' = rc_transitions r @ [next_transition e p now (Some reason) None a r])"
    using p last by (intro enter_any [OF env path tools time action]) (auto simp: checkpoint_fits_def shutdown_phase_def)
  then show ?thesis
  proof (rule succeeds_mono, elim disjE conjE)
    fix r' assume "lt_phase (last (rc_transitions r)) = p"
    then show "only_path r r' \<and> (\<exists>t. rc_transitions r' = rc_transitions r @ [t] \<and> lt_phase t = p \<and>
        lt_stop_reason t = Some reason \<and> path_ok (rc_elapsed e now) (rc_transitions r @ [t]))"
      using p last by auto
  next
    fix r' assume "only_path r r'" "path_ok (rc_elapsed e now) (rc_transitions r')"
      "rc_transitions r' = rc_transitions r @ [next_transition e p now (Some reason) None a r]"
    then show "only_path r r' \<and> (\<exists>t. rc_transitions r' = rc_transitions r @ [t] \<and> lt_phase t = p \<and>
        lt_stop_reason t = Some reason \<and> path_ok (rc_elapsed e now) (rc_transitions r @ [t]))"
      by (auto simp: next_transition_def)
  qed
qed

text \<open>The checks on the path hold by construction.\<close>

lemma working_reason:
  assumes "validate_lifecycle_transition t = Inr ()" and "\<not> shutdown_phase (lt_phase t)"
  shows "lt_stop_reason t = None"
  using assms by (auto simp: validate_lifecycle_transition_def)

lemma completed_path:
  assumes path: "path_ok x (work @ [s, c, d])" and work: "\<forall>t \<in> set work. \<not> shutdown_phase (lt_phase t)"
    and phases: "lt_phase s = Inv_Stopping" "lt_phase c = Inv_Collecting_Evidence" "lt_phase d = Inv_Stopped"
    and reasons: "lt_stop_reason s = Some reason" "lt_stop_reason c = Some reason" "lt_stop_reason d = Some reason"
  shows "check_lifecycle_path (work @ [s, c, d]) = Inr ()" "check_stop_reasons reason (work @ [s, c, d]) = Inr ()"
proof -
  have sorted: "map lt_elapsed_ms (work @ [s, c, d]) = sort (map lt_elapsed_ms (work @ [s, c, d]))"
    using path unfolding path_ok_def by (metis sorted_sort_id)
  show "check_lifecycle_path (work @ [s, c, d]) = Inr ()"
    using path sorted phases unfolding check_lifecycle_path_def path_ok_def by simp
  have none: "lt_stop_reason t = None" if "t \<in> set work" for t
    using path work that working_reason by (simp add: path_ok_def)
  have collecting: "in_phase Inv_Collecting_Evidence (work @ [s, c, d]) = [c]"
    and stopping: "in_phase Inv_Stopping (work @ [s, c, d]) = [s]"
    using work phases by (auto simp: in_phase_def filter_empty_conv shutdown_phase_def)
  have "\<not> list_ex (\<lambda>t. lt_stop_reason t \<notin> {None, Some reason}) (work @ [s, c, d])"
    using none reasons by (auto simp: list_ex_iff)
  then show "check_stop_reasons reason (work @ [s, c, d]) = Inr ()"
    using collecting stopping reasons by (simp add: check_stop_reasons_def Let_def)
qed

section \<open>What finalization returns\<close>

definition waits_ok :: "wait_diagnostic list \<Rightarrow> bool \<Rightarrow> bool" where
  "waits_ok ds stalled \<longleftrightarrow>
     map wd_reason ds \<in> {[], [Wait_Suspected], [Wait_Stalled], [Wait_Suspected, Wait_Stalled]} \<and>
     (Wait_Stalled \<in> set (map wd_reason ds) \<longrightarrow> stalled) \<and>
     (\<forall>d \<in> set ds. validate_wait_diagnostic d = Inr ())"

definition status_text :: "string \<Rightarrow> bool" where
  "status_text s \<longleftrightarrow> s \<noteq> [] \<and> length s \<le> 100"

definition telemetry_ok :: "telemetry_view \<Rightarrow> bool" where
  "telemetry_ok tv \<longleftrightarrow> 0 \<le> tv_duration_ms tv \<and> status_text (tv_session_status tv) \<and>
     opt_all status_text (tv_submission_status tv)"

text \<open>Everything but the agreement of the finalization guard.\<close>

definition record_ok :: "recorder \<Rightarrow> bool" where
  "record_ok r \<longleftrightarrow> rc_process_started r \<and> (rc_kill_sent r \<longrightarrow> rc_terminate_sent r) \<and>
     waits_ok (rc_wait r) (ie_stalled (rc_initialization r)) \<and>
     validate_initialization (rc_initialization r) = Inr () \<and>
     validate_finalization (rc_finalization r) = Inr ()"

lemma record_ok_only_path: "only_path r r' \<Longrightarrow> record_ok r' = record_ok r"
  by (simp add: record_ok_def only_path_def)

lemma shutdown_valid:
  assumes "env_ok e" and "telemetry_ok tv" and "record_ok r"
  shows "validate_shutdown (shutdown_of e reason tv r) = Inr ()"
proof -
  have "status_text ''not_configured''" by (simp add: status_text_def)
  then have "status_text (the_or (tv_submission_status tv) ''not_configured'')"
    using assms(2) by (cases "tv_submission_status tv") (auto simp: telemetry_ok_def)
  then show ?thesis
    using assms
    by (cases "tv_exit_code tv")
      (auto simp: validate_shutdown_def shutdown_of_def Let_def env_ok_def telemetry_ok_def record_ok_def
        status_text_def)
qed

lemma recorded_fields:
  assumes "env_ok e" and "telemetry_ok tv" and "record_ok r"
    and "\<forall>t \<in> set (rc_transitions r). validate_lifecycle_transition t = Inr ()"
    and "2 \<le> length (rc_transitions r)"
  shows "lifecycle_fields (recorded_lifecycle (shutdown_of e reason tv r) r) = Inr ()"
    "check_lifecycle_versions (recorded_lifecycle (shutdown_of e reason tv r) r) = Inr ()"
proof -
  have waits: "length (rc_wait r) \<le> 2" "check_all validate_wait_diagnostic (rc_wait r) = Inr ()"
    using assms(3) by (auto simp: record_ok_def waits_ok_def dest: arg_cong [where f = length])
  moreover have "check_all validate_lifecycle_transition (rc_transitions r) = Inr ()"
    using assms(4) by simp
  ultimately show "lifecycle_fields (recorded_lifecycle (shutdown_of e reason tv r) r) = Inr ()"
    using shutdown_valid [OF assms(1-3)] assms(3,5)
    by (simp add: lifecycle_fields_def recorded_lifecycle_def record_ok_def ebind_eq_Inr)
  show "check_lifecycle_versions (recorded_lifecycle (shutdown_of e reason tv r) r) = Inr ()"
    using assms(3)
    by (auto simp: check_lifecycle_versions_def Let_def recorded_lifecycle_def record_ok_def waits_ok_def)
qed

definition guard_fault :: "bool \<Rightarrow> invocation_stop_reason \<Rightarrow> finalization_evidence \<Rightarrow> fault option" where
  "guard_fault seen reason f =
     (if fe_terminal_observed f \<noteq> seen
      then Some (Value_Error ''terminal-response observation requires one finalizing phase'')
      else if (reason = Stop_Response_Finalization_Stall) \<noteq> fe_stalled f
      then Some (Value_Error ''response-finalization stall reason must match guard evidence'')
      else None)"

lemma finalize_outcome:
  fixes reason :: invocation_stop_reason
  assumes env: "env_ok e" and ok: "recorder_ok x r" and complete: "record_ok r"
    and tv: "telemetry_ok tv" and time: "x \<le> tv_duration_ms tv"
  defines "owned \<equiv> the_or (rc_stop_reason r) reason"
  shows "case guard_fault (finalized r) owned (rc_finalization r) of
      Some f \<Rightarrow> finalize_result e reason tv r = Inl f
    | None \<Rightarrow> succeeds (finalize_result e reason tv r) (\<lambda>(ev, r').
        validate_lifecycle ev = Inr () \<and> se_reason (le_shutdown ev) = owned)"
proof -
  let ?now = "re_started e + of_int (tv_duration_ms tv) / 1000"
  have now: "rc_elapsed e ?now = tv_duration_ms tv" using tv by (simp add: elapsed_at_end telemetry_ok_def)
  have "proper_action ''Invocation work ended; entering the controlled stop protocol''"
    by (simp add: proper_action_def)
  then have "succeeds (request_stop e reason ?now ''Invocation work ended; entering the controlled stop protocol'' r)
    (\<lambda>(first, r'). recorder_ok (rc_elapsed e ?now) r' \<and> first = (rc_stop_reason r = None) \<and>
      rc_stop_reason r' = Some (the_or (rc_stop_reason r) reason) \<and> (finalized r' \<longleftrightarrow> finalized r) \<and>
      (if first then only_path (r\<lparr>rc_stop_reason := Some reason, rc_stop_started := Some ?now\<rparr>) r' else r' = r))"
    using time now by (intro request_stop_ok [OF env ok]) simp_all
  then obtain first r1 where r1: "request_stop e reason ?now ''Invocation work ended; entering the controlled stop protocol'' r
      = Inr (first, r1)"
    and p1: "recorder_ok (tv_duration_ms tv) r1" "rc_stop_reason r1 = Some owned" "finalized r1 \<longleftrightarrow> finalized r"
      "if first then only_path (r\<lparr>rc_stop_reason := Some reason, rc_stop_started := Some ?now\<rparr>) r1 else r1 = r"
    unfolding owned_def now by (auto simp: succeeds_iff)
  have f1: "record_ok r1" "rc_finalization r1 = rc_finalization r"
    using p1(4) complete by (auto simp: record_ok_def only_path_def split: if_splits)
  note ok1 = p1(1) [unfolded recorder_ok_def p1(2)]
  define work s where "work = butlast (rc_transitions r1)" and "s = last (rc_transitions r1)"
  have ts1: "rc_transitions r1 = work @ [s]" and s: "lt_phase s = Inv_Stopping" "lt_stop_reason s = Some owned"
    and work: "\<forall>t \<in> set work. \<not> shutdown_phase (lt_phase t)"
    using ok1 by (simp_all add: path_ok_def stop_shape_def work_def s_def)
  let ?r1 = "r1\<lparr>rc_stop_reason := Some owned\<rparr>"
  have "proper_action (''Collected stdout/stderr and checked attributable session and '' @ ''submission evidence'')"
    by (simp add: proper_action_def)
  then have "succeeds (enter_phase e Inv_Collecting_Evidence ?now (Some owned) None
      (''Collected stdout/stderr and checked attributable session and '' @ ''submission evidence'') ?r1)
    (\<lambda>r'. only_path ?r1 r' \<and> (\<exists>t. rc_transitions r' = rc_transitions ?r1 @ [t] \<and>
      lt_phase t = Inv_Collecting_Evidence \<and> lt_stop_reason t = Some owned \<and>
      path_ok (rc_elapsed e ?now) (rc_transitions ?r1 @ [t])))"
    using ok1 s now by (intro enter_collecting [OF env, where x = "tv_duration_ms tv" and before = Inv_Stopping])
      (auto simp: s_def)
  then obtain r2 c where r2: "enter_phase e Inv_Collecting_Evidence ?now (Some owned) None
      (''Collected stdout/stderr and checked attributable session and '' @ ''submission evidence'') ?r1 = Inr r2"
    and p2: "only_path ?r1 r2" "rc_transitions r2 = work @ [s, c]" "lt_phase c = Inv_Collecting_Evidence"
      "lt_stop_reason c = Some owned" "path_ok (tv_duration_ms tv) (work @ [s, c])"
    unfolding now by (auto simp: succeeds_iff ts1)
  have tools: "0 \<le> rc_active_tools r2" "0 \<le> rc_completed_tools r2"
    using p2(1) ok1 by (simp_all add: only_path_def)
  have "proper_action ''Exact invocation process outcome and cleanup are known''"
    by (simp add: proper_action_def)
  then have "succeeds (enter_phase e Inv_Stopped ?now (Some owned) None
      ''Exact invocation process outcome and cleanup are known'' r2)
    (\<lambda>r'. only_path r2 r' \<and> (\<exists>t. rc_transitions r' = rc_transitions r2 @ [t] \<and>
      lt_phase t = Inv_Stopped \<and> lt_stop_reason t = Some owned \<and>
      path_ok (rc_elapsed e ?now) (rc_transitions r2 @ [t])))"
    using p2 tools now
    by (intro enter_collecting [OF env, where x = "tv_duration_ms tv" and before = Inv_Collecting_Evidence]) auto
  then obtain r3 d where r3: "enter_phase e Inv_Stopped ?now (Some owned) None
      ''Exact invocation process outcome and cleanup are known'' r2 = Inr r3"
    and p3: "only_path r2 r3" "rc_transitions r3 = work @ [s, c, d]" "lt_phase d = Inv_Stopped"
      "lt_stop_reason d = Some owned" "path_ok (tv_duration_ms tv) (work @ [s, c, d])"
    unfolding now by (auto simp: succeeds_iff p2(2))
  have keep: "only_path ?r1 r3" by (rule only_path_trans [OF p2(1) p3(1)])
  have record3: "record_ok r3" "rc_finalization r3 = rc_finalization r"
    using keep f1 by (simp_all add: record_ok_def only_path_def)
  let ?ev = "recorded_lifecycle (shutdown_of e owned tv r3) r3"
  have fields: "lifecycle_fields ?ev = Inr ()" "check_lifecycle_versions ?ev = Inr ()"
    using p3(2,5) by (intro recorded_fields [OF env tv record3(1)]; simp add: path_ok_def)+
  note path = completed_path [OF p3(5) work s(1) p2(3) p3(3) s(2) p2(4) p3(4)]
  have seen: "length (in_phase Inv_Finalizing_Response (rc_transitions r3)) = 1 \<longleftrightarrow> finalized r"
    using finalizing_count [OF p3(5)] p1(3) s(1) p2(3) p3(3) by (simp add: p3(2) finalized_def ts1)
  have ev: "le_transitions ?ev = work @ [s, c, d]" "se_reason (le_shutdown ?ev) = owned"
    "le_response_finalization ?ev = Some (rc_finalization r)"
    using p3(2) record3(2) by (simp_all add: recorded_lifecycle_def shutdown_of_def Let_def)
  have verdict: "validate_lifecycle ?ev =
      (case guard_fault (finalized r) owned (rc_finalization r) of Some f \<Rightarrow> Inl f | None \<Rightarrow> Inr ())"
    using fields path seen ev p3(2)
    by (simp add: validate_lifecycle_def check_finalizing_def guard_fault_def)
  have final: "finalize_result e reason tv r = ebind (validate_lifecycle ?ev) (\<lambda>_. Inr (?ev, r3))"
    using r1 p1(2) r2 r3 shutdown_valid [OF env tv record3(1), of owned]
    by (simp add: finalize_result_def finalize_lifecycle_def Let_def)
  show ?thesis
    using verdict ev(2) unfolding final by (auto split: option.splits)
qed

end
