(* ===== verification/Supervision_Properties.thy ===== *)
theory Supervision_Properties
  imports Provider_Invariants Lifecycle_Finalization
begin

text \<open>
  A supervised invocation from the launch to its lifecycle evidence: the finalization monitor, the
  stop protocol, the loop, and the finalization of the recorder. The main result says for which
  runs the evidence that the adapter builds is accepted by its own model, and what it raises for
  the others.
\<close>

section \<open>The finalization monitor\<close>

definition final_ok :: "final_monitor \<Rightarrow> bool" where
  "final_ok m \<longleftrightarrow> 0 \<le> fm_output_observations m \<and> 0 \<le> fm_recovered_count m \<and> 0 \<le> fm_maximum_ms m \<and>
     fm_recovered_count m + (if fm_suspected m then 1 else 0) \<le> fm_suspected_count m \<and>
     (\<not> fm_terminal m \<longrightarrow> fm_output_observations m = 0 \<and> fm_suspected_count m = 0 \<and>
        fm_maximum_ms m = 0 \<and> \<not> fm_stalled m)"

lemma final_evidence_valid:
  assumes "menv_ok e" and "final_ok m"
  shows "validate_finalization (final_evidence e m) = Inr ()"
proof -
  have "env_ok (renv e)" using assms(1) by (simp add: menv_ok_def)
  then show ?thesis
    using env_policies(6-10) [of "renv e"] assms(2)
    by (auto simp: validate_finalization_def final_evidence_def final_ok_def split: if_splits)
qed

text \<open>What this monitor leaves alone.\<close>

definition only_final :: "watch \<Rightarrow> watch \<Rightarrow> bool" where
  "only_final w w' \<longleftrightarrow> wt_init w' = wt_init w \<and> wt_provider w' = wt_provider w \<and>
     (\<exists>pub. wt_recorder w' = (wt_recorder w)\<lparr>rc_published := pub\<rparr>)"

lemma same_published: "\<exists>pub. r = r\<lparr>rc_published := pub\<rparr>" for r :: recorder
  by (rule exI [of _ "rc_published r"]) simp

lemma only_final_frame:
  assumes "only_final w w'"
  shows "wt_init w' = wt_init w" "wt_provider w' = wt_provider w" "holds (wt_recorder w) (wt_recorder w')"
  using assms by (auto simp: only_final_def holds_def)

lemma only_final_refl: "only_final w w"
  by (simp add: only_final_def same_published)

lemma only_final_change: "only_final w w' \<Longrightarrow> only_final w (w'\<lparr>wt_final := m\<rparr>)"
  by (simp add: only_final_def)

lemma tell_final_frame:
  "only_final w w' \<Longrightarrow> only_final w (tell_final e kind now w')"
  "wt_final (tell_final e kind now w') = wt_final w'"
  by (auto simp: only_final_def tell_final_def Let_def)

lemma fits_only_final:
  assumes "fits e x now w" and "only_final w w'"
  shows "fits e x now w'"
  using assms
  by (auto simp: only_final_def fits_def init_pre_def phase_ok_def terminal_ok_def published_ok)

lemma note_output_ok:
  assumes "final_ok (wt_final w)" and "fm_terminal (wt_final w)"
  shows "only_final w (note_output e out err now w)" "final_ok (wt_final (note_output e out err now w))"
    "fm_terminal (wt_final (note_output e out err now w))"
    "fm_stalled (wt_final (note_output e out err now w)) = fm_stalled (wt_final w)"
  using assms
  by (auto simp: note_output_def Let_def final_ok_def tell_final_frame only_final_refl only_final_change)

lemma poll_final_ok:
  assumes "final_ok (wt_final w)" and "poll_final e enforce out err now w = (b, w')"
  shows "only_final w w' \<and> final_ok (wt_final w') \<and> fm_terminal (wt_final w') = fm_terminal (wt_final w) \<and>
    (enforce \<and> \<not> fm_stalled (wt_final w) \<longrightarrow> fm_stalled (wt_final w') = b) \<and>
    (\<not> enforce \<longrightarrow> fm_stalled (wt_final w') = fm_stalled (wt_final w))"
proof (cases "fm_terminal (wt_final w) \<and> \<not> fm_stalled (wt_final w)")
  case False
  then show ?thesis
    using assms only_final_refl by (auto simp: poll_final_def final_ok_def split: if_splits)
next
  case True
  let ?n = "note_output e out err now w"
  note n = note_output_ok [OF assms(1), of e out err now]
  define p where "p = re_finalization_policy e"
  define inactive where "inactive = inactive_seconds now (the_or (fm_last_progress (wt_final ?n)) now)"
  define w2 where "w2 = ?n\<lparr>wt_final := (wt_final ?n)\<lparr>fm_maximum_ms :=
    max (fm_maximum_ms (wt_final ?n)) (seconds_ms inactive)\<rparr>\<rparr>"
  define w3 where "w3 = (if enforce \<and> \<not> fm_suspected (wt_final ?n) \<and> suspect_after p \<le> inactive
    then tell_final e Act_Finalization_Suspected now (w2\<lparr>wt_final := (wt_final w2)\<lparr>
      fm_suspected := True, fm_suspected_count := fm_suspected_count (wt_final ?n) + 1\<rparr>\<rparr>) else w2)"
  have poll: "poll_final e enforce out err now w =
    (if enforce \<and> fm_suspected (wt_final w3) \<and> gp_no_progress_seconds p \<le> inactive
     then (True, tell_final e Act_Finalization_Stalled now
       (w3\<lparr>wt_final := (wt_final w3)\<lparr>fm_stalled := True\<rparr>\<rparr>)) else (False, w3))"
    using True by (simp add: poll_final_def Let_def p_def inactive_def w2_def w3_def)
  have w2: "only_final w w2" "final_ok (wt_final w2)" "fm_terminal (wt_final w2)" "\<not> fm_stalled (wt_final w2)"
    using n True by (auto simp: w2_def only_final_change final_ok_def le_max_iff_disj)
  have frame: "only_final w w3" using w2(1) by (simp add: w3_def only_final_change tell_final_frame)
  have w3: "final_ok (wt_final w3)" "fm_terminal (wt_final w3)" "\<not> fm_stalled (wt_final w3)"
    using w2(2-) by (auto simp: w3_def tell_final_frame final_ok_def w2_def)
  show ?thesis
    using assms(2) frame w3 True
    by (auto simp: poll only_final_change tell_final_frame final_ok_def split: if_splits)
qed

lemma finish_final_ok:
  assumes "menv_ok e" and "final_ok (wt_final w)"
  shows "succeeds (finish_final e out err now w) (\<lambda>w'. only_final w w' \<and> final_ok (wt_final w') \<and>
    fm_terminal (wt_final w') = fm_terminal (wt_final w) \<and> fm_stalled (wt_final w') = fm_stalled (wt_final w))"
proof -
  obtain b w' where p: "poll_final e False out err now w = (b, w')" by fastforce
  note q = poll_final_ok [OF assms(2) p]
  then have "validate_finalization (final_evidence e (wt_final w')) = Inr ()"
    using final_evidence_valid [OF assms(1)] by blast
  then show ?thesis using p q by (simp add: finish_final_def Let_def)
qed

lemma observe_terminal_ok:
  assumes "final_ok (wt_final w)"
  shows "only_final w (observe_terminal out err now w)"
    "final_ok (wt_final (observe_terminal out err now w))"
    "fm_terminal (wt_final (observe_terminal out err now w))"
    "fm_stalled (wt_final (observe_terminal out err now w)) = fm_stalled (wt_final w)"
  using assms
  by (auto simp: observe_terminal_def only_final_refl only_final_change final_ok_def)

section \<open>Stopping the process\<close>

text \<open>After a stop reason is owned and the process has been signalled.\<close>

definition stopped :: "monitor_env \<Rightarrow> rat \<Rightarrow> watch \<Rightarrow> watch \<Rightarrow> bool" where
  "stopped e now w w' \<longleftrightarrow> fits e (elapsed e now) now w' \<and> wt_init w' = wt_init w \<and>
     wt_provider w' = wt_provider w \<and> wt_final w' = wt_final w \<and>
     rc_stop_reason (wt_recorder w') \<noteq> None \<and> rc_terminate_sent (wt_recorder w') \<and>
     (finalized (wt_recorder w') \<longleftrightarrow> finalized (wt_recorder w)) \<and>
     rc_wait (wt_recorder w') = rc_wait (wt_recorder w) \<and>
     rc_process_started (wt_recorder w') = rc_process_started (wt_recorder w)"

lemma proper_stop_action:
  assumes "env_ok e"
  shows "proper_action (stop_action e)"
  using assms by (simp add: env_ok_def proper_action_def stop_action_def)

lemma begin_stop_ok:
  assumes fit: "fits e x now w"
    and sent: "rc_stop_reason (wt_recorder w) \<noteq> None \<longrightarrow> rc_terminate_sent (wt_recorder w)"
  shows "succeeds (begin_stop e reason now w) (\<lambda>(first, w'). stopped e now w w' \<and>
    first = (rc_stop_reason (wt_recorder w) = None) \<and>
    rc_stop_reason (wt_recorder w') = Some (the_or (rc_stop_reason (wt_recorder w)) reason) \<and>
    rc_kill_sent (wt_recorder w') = rc_kill_sent (wt_recorder w))"
proof -
  let ?r = "wt_recorder w"
  have f: "env_ok (renv e)" "recorder_ok x ?r" "x \<le> elapsed e now"
    using fit by (simp_all add: fits_def init_pre_def menv_ok_def)
  have "succeeds (request_stop (renv e) reason now (stop_action (renv e)) ?r) (\<lambda>(first, r').
    recorder_ok (elapsed e now) r' \<and> first = (rc_stop_reason ?r = None) \<and>
    rc_stop_reason r' = Some (the_or (rc_stop_reason ?r) reason) \<and> (finalized r' \<longleftrightarrow> finalized ?r) \<and>
    (if first then only_path (?r\<lparr>rc_stop_reason := Some reason, rc_stop_started := Some now\<rparr>) r'
     else r' = ?r))"
    by (rule request_stop_ok [OF f proper_stop_action [OF f(1)]])
  then obtain first r where r: "request_stop (renv e) reason now (stop_action (renv e)) ?r = Inr (first, r)"
    and p: "recorder_ok (elapsed e now) r" "first = (rc_stop_reason ?r = None)"
      "rc_stop_reason r = Some (the_or (rc_stop_reason ?r) reason)" "finalized r \<longleftrightarrow> finalized ?r"
      "if first then only_path (?r\<lparr>rc_stop_reason := Some reason, rc_stop_started := Some now\<rparr>) r else r = ?r"
    by (auto simp: succeeds_iff)
  let ?r' = "if first then r\<lparr>rc_terminate_sent := True\<rparr> else r"
  have "recorder_ok (elapsed e now) ?r'" "finalized ?r' \<longleftrightarrow> finalized ?r"
    using p(1,4) recorder_ok_frame by (simp_all add: recorder_ok_def finalized_def)
  moreover have "rc_terminate_sent ?r'" "rc_wait ?r' = rc_wait ?r" "rc_kill_sent ?r' = rc_kill_sent ?r"
      "rc_process_started ?r' = rc_process_started ?r" "rc_stop_reason ?r' = rc_stop_reason r"
    using p(2,5) sent by (auto simp: only_path_def)
  ultimately have "stopped e now w (w\<lparr>wt_recorder := ?r'\<rparr>) \<and>
      rc_kill_sent ?r' = rc_kill_sent ?r"
    using fits_now [OF fit] p(3)
    by (simp add: stopped_def fits_def init_pre_def phase_ok_def terminal_ok_def)
  then show ?thesis using r p(2,3) by (simp add: begin_stop_def)
qed

text \<open>Fields of the recorder that its path and phase do not depend on.\<close>

lemma field_frame [simp]:
  "recorder_ok x (r\<lparr>rc_kill_sent := k\<rparr>) = recorder_ok x r" "finalized (r\<lparr>rc_kill_sent := k\<rparr>) = finalized r"
  "recorder_ok x (r\<lparr>rc_wait := ds\<rparr>) = recorder_ok x r" "finalized (r\<lparr>rc_wait := ds\<rparr>) = finalized r"
  "recorder_ok x (r\<lparr>rc_lease_released := k\<rparr>) = recorder_ok x r"
  "finalized (r\<lparr>rc_lease_released := k\<rparr>) = finalized r"
  "recorder_ok x (r\<lparr>rc_finalization := f\<rparr>) = recorder_ok x r"
  "finalized (r\<lparr>rc_finalization := f\<rparr>) = finalized r"
  by (simp_all add: recorder_ok_def finalized_def)

lemma fits_recorder:
  assumes "fits e x now w" and "recorder_ok x r" and "rc_stop_reason r = rc_stop_reason (wt_recorder w)"
    and "rc_phase r = rc_phase (wt_recorder w)" and "finalized r = finalized (wt_recorder w)"
  shows "fits e x now (w\<lparr>wt_recorder := r\<rparr>)"
  using assms by (simp add: fits_def init_pre_def phase_ok_def terminal_ok_def)

lemma fits_path: "fits e x now w \<Longrightarrow> recorder_ok x (wt_recorder w)"
  by (simp add: fits_def init_pre_def)

lemma await_stop_ok:
  assumes "stopped e now w w1"
  shows "stopped e now w (await_stop e exits w1)"
    "rc_stop_reason (wt_recorder (await_stop e exits w1)) = rc_stop_reason (wt_recorder w1)"
proof -
  obtain k where k: "await_stop e exits w1 = w1\<lparr>wt_recorder := (wt_recorder w1)\<lparr>rc_kill_sent := k\<rparr>\<rparr>"
    by (simp add: await_stop_def Let_def)
  have "fits e (elapsed e now) now w1" using assms by (simp add: stopped_def)
  then have "fits e (elapsed e now) now (await_stop e exits w1)"
    unfolding k using fits_path by (intro fits_recorder) simp_all
  then show "stopped e now w (await_stop e exits w1)" using assms k by (simp add: stopped_def)
  show "rc_stop_reason (wt_recorder (await_stop e exits w1)) = rc_stop_reason (wt_recorder w1)"
    by (simp add: k)
qed

lemma stop_process_ok:
  assumes "fits e x now w"
    and "rc_stop_reason (wt_recorder w) \<noteq> None \<longrightarrow> rc_terminate_sent (wt_recorder w)"
  shows "succeeds (stop_process e reason now exits w) (\<lambda>w'. stopped e now w w' \<and>
    rc_stop_reason (wt_recorder w') = Some (the_or (rc_stop_reason (wt_recorder w)) reason))"
proof -
  have "succeeds (begin_stop e reason now w) (\<lambda>(first, w'). stopped e now w w' \<and>
    first = (rc_stop_reason (wt_recorder w) = None) \<and>
    rc_stop_reason (wt_recorder w') = Some (the_or (rc_stop_reason (wt_recorder w)) reason) \<and>
    rc_kill_sent (wt_recorder w') = rc_kill_sent (wt_recorder w))"
    by (rule begin_stop_ok [OF assms])
  then show ?thesis
    unfolding stop_process_def by (auto simp: succeeds_iff await_stop_ok)
qed

section \<open>Claims made while the adapter waits\<close>

definition claims_within :: "rat \<Rightarrow> rat \<Rightarrow> claim list \<Rightarrow> bool" where
  "claims_within lo hi cs \<longleftrightarrow> list_all (\<lambda>c. lo \<le> cl_now c \<and> cl_now c \<le> hi) cs"

definition claiming :: "claim list \<Rightarrow> bool" where
  "claiming cs \<longleftrightarrow> list_ex (\<lambda>c. user_stop (cl_reason c)) cs"

definition claimed :: "monitor_env \<Rightarrow> rat \<Rightarrow> supervised \<Rightarrow> supervised \<Rightarrow> bool" where
  "claimed e hi s s' \<longleftrightarrow> (\<exists>now reason. now \<le> hi \<and> stopped e now (sv_watch s) (sv_watch s') \<and>
     user_stop reason \<and> rc_stop_reason (wt_recorder (sv_watch s')) = Some reason \<and> sv_request s' = Some reason)"

lemma user_stop_not_stall: "user_stop reason \<Longrightarrow> reason \<noteq> Stop_Response_Finalization_Stall"
  by (auto simp: user_stop_def)

lemma fits_later: "fits e x now w \<Longrightarrow> now \<le> later \<Longrightarrow> fits e x later w"
  using rc_elapsed_mono [of now later "renv e"] by (auto simp: fits_def init_pre_def)

lemma apply_claims_ok:
  assumes fit: "fits e x lo (sv_watch s)" and open_: "rc_stop_reason (wt_recorder (sv_watch s)) = None"
    and "claims_within lo hi cs"
  shows "succeeds (apply_claims e cs s) (\<lambda>s'. if claiming cs then claimed e hi s s' else s' = s)"
  using assms(3)
proof (induction cs)
  case Nil
  then show ?case by (simp add: apply_claims_def claiming_def)
next
  case (Cons c cs)
  have c: "lo \<le> cl_now c" "cl_now c \<le> hi" "claims_within lo hi cs"
    using Cons.prems by (simp_all add: claims_within_def)
  show ?case
  proof (cases "user_stop (cl_reason c)")
    case False
    then show ?thesis using Cons.IH [OF c(3)] by (simp add: apply_claims_def apply_claim_def claiming_def)
  next
    case True
    have "succeeds (begin_stop e (cl_reason c) (cl_now c) (sv_watch s)) (\<lambda>(first, w').
      stopped e (cl_now c) (sv_watch s) w' \<and> first = (rc_stop_reason (wt_recorder (sv_watch s)) = None) \<and>
      rc_stop_reason (wt_recorder w') = Some (the_or (rc_stop_reason (wt_recorder (sv_watch s))) (cl_reason c)) \<and>
      rc_kill_sent (wt_recorder w') = rc_kill_sent (wt_recorder (sv_watch s)))"
      using open_ by (intro begin_stop_ok [OF fits_later [OF fit c(1)]]) simp
    then obtain w where w: "begin_stop e (cl_reason c) (cl_now c) (sv_watch s) = Inr (True, w)"
      and p: "stopped e (cl_now c) (sv_watch s) w" "rc_stop_reason (wt_recorder w) = Some (cl_reason c)"
      using open_ by (auto simp: succeeds_iff)
    let ?s = "\<lparr>sv_watch = w, sv_request = Some (cl_reason c)\<rparr>"
    have settled: "succeeds (efold (apply_claim e) cs ?s) (\<lambda>s'. s' = ?s)"
    proof (rule succeeds_efold)
      fix d a assume "a = ?s"
      then show "succeeds (apply_claim e d a) (\<lambda>s'. s' = ?s)"
        using p(2) by (simp add: apply_claim_def begin_stop_def request_stop_def)
    qed simp
    have "claimed e hi s ?s" using p True c(2) by (auto simp: claimed_def)
    then show ?thesis
      using settled w True by (auto simp: apply_claims_def apply_claim_def claiming_def succeeds_iff)
  qed
qed

section \<open>Between the iterations\<close>

definition watching :: "monitor_env \<Rightarrow> initialization_checkpoint \<Rightarrow> rat \<Rightarrow> watch \<Rightarrow> bool" where
  "watching e b now w \<longleftrightarrow> fits e (elapsed e now) now w \<and> below b (wt_init w) \<and>
     rc_stop_reason (wt_recorder w) = None \<and> \<not> im_stalled (wt_init w) \<and>
     \<not> pm_stalled (wt_provider w) \<and> \<not> fm_stalled (wt_final w) \<and> final_ok (wt_final w) \<and>
     fm_terminal (wt_final w) = pm_terminal (wt_provider w) \<and> rc_process_started (wt_recorder w) \<and>
     \<not> rc_kill_sent (wt_recorder w) \<and>
     map wd_reason (rc_wait (wt_recorder w)) \<in> {[], [Wait_Suspected]} \<and>
     waits_ok (rc_wait (wt_recorder w)) False"

text \<open>When the loop has ended; \<open>agreed\<close> says that the guard and the path tell the same.\<close>

definition left_loop :: "monitor_env \<Rightarrow> initialization_checkpoint \<Rightarrow> rat \<Rightarrow> watch \<Rightarrow> bool" where
  "left_loop e b now w \<longleftrightarrow> fits e (elapsed e now) now w \<and> below b (wt_init w) \<and>
     final_ok (wt_final w) \<and> fm_terminal (wt_final w) = pm_terminal (wt_provider w) \<and>
     rc_process_started (wt_recorder w) \<and>
     (rc_kill_sent (wt_recorder w) \<longrightarrow> rc_terminate_sent (wt_recorder w)) \<and>
     waits_ok (rc_wait (wt_recorder w)) (im_stalled (wt_init w)) \<and>
     (rc_stop_reason (wt_recorder w) = Some Stop_Response_Finalization_Stall \<longleftrightarrow> fm_stalled (wt_final w))"

definition agreed :: "watch \<Rightarrow> bool" where
  "agreed w \<longleftrightarrow> pm_terminal (wt_provider w) = finalized (wt_recorder w)"

lemma fits_agreed:
  assumes "fits e x now w" and "rc_stop_reason (wt_recorder w) = None"
  shows "agreed w"
  using assms by (auto simp: fits_def terminal_ok_def agreed_def)

lemma waits_weaken: "waits_ok ds False \<Longrightarrow> waits_ok ds b"
  by (simp add: waits_ok_def)

text \<open>Stopping after an iteration that has judged the guards.\<close>

lemma stop_leaves:
  assumes "fits e x now w" and "below b (wt_init w)" and "final_ok (wt_final w)"
    and "fm_terminal (wt_final w) = pm_terminal (wt_provider w)" and "agreed w"
    and "rc_process_started (wt_recorder w)" and "waits_ok (rc_wait (wt_recorder w)) (im_stalled (wt_init w))"
    and "rc_stop_reason (wt_recorder w) = None"
    and "reason = Stop_Response_Finalization_Stall \<longleftrightarrow> fm_stalled (wt_final w)"
  shows "succeeds (stop_process e reason now exits w) (\<lambda>w'. left_loop e b now w' \<and> agreed w')"
proof -
  have "succeeds (stop_process e reason now exits w) (\<lambda>w'. stopped e now w w' \<and>
    rc_stop_reason (wt_recorder w') = Some (the_or (rc_stop_reason (wt_recorder w)) reason))"
    using assms(8) by (intro stop_process_ok [OF assms(1)]) simp
  then show ?thesis
    using assms(2-) by (elim succeeds_mono) (simp add: stopped_def left_loop_def agreed_def)
qed

section \<open>The launch\<close>

lemma open_recorder_ok:
  assumes env: "menv_ok e"
  shows "succeeds (open_recorder (renv e)) (\<lambda>r. recorder_ok (elapsed e (re_started e)) r \<and>
    rc_phase r = Some Inv_Launched \<and> rc_stop_reason r = None \<and> \<not> finalized r \<and> rc_wait r = [] \<and>
    \<not> rc_kill_sent r \<and> \<not> rc_terminate_sent r)"
proof -
  have ok: "env_ok (renv e)" using env by (simp add: menv_ok_def)
  note policies = env_policies [OF ok]
  have init: "validate_initialization (rc_initialization (new_recorder (renv e))) = Inr ()"
    using policies(1-5) by (simp add: validate_initialization_def new_recorder_def)
  have final: "validate_finalization (rc_finalization (new_recorder (renv e))) = Inr ()"
    using policies(6-10) by (simp add: validate_finalization_def new_recorder_def)
  define t where "t = next_transition (renv e) Inv_Launched (re_started e) None None
    ''Controller handed the invocation to the execution adapter'' (new_recorder (renv e))"
  have t: "lt_phase t = Inv_Launched" "lt_sequence t = 1" "lt_elapsed_ms t = elapsed e (re_started e)"
    "lt_stop_reason t = None" "lt_checkpoint t = None"
    "lt_action t = Some ''Controller handed the invocation to the execution adapter''"
    by (simp_all add: t_def next_transition_def new_recorder_def)
  have valid: "validate_lifecycle_transition t = Inr ()"
    using t by (simp add: validate_lifecycle_transition_def shutdown_phase_def)
  let ?r = "(new_recorder (renv e))\<lparr>rc_transitions := [t], rc_phase := Some Inv_Launched\<rparr>"
  have "succeeds (emit_phase (renv e) t ?r) (\<lambda>r'. \<exists>pub. r' = ?r\<lparr>rc_published := pub\<rparr>)"
    by (rule emit_phase_frame [OF ok valid]) (simp_all add: new_recorder_def)
  then obtain pub where emit: "emit_phase (renv e) t ?r = Inr (?r\<lparr>rc_published := pub\<rparr>)"
    by (auto simp: succeeds_iff)
  have "open_recorder (renv e) = Inr (?r\<lparr>rc_published := pub\<rparr>)"
    using init final valid emit
    by (simp add: open_recorder_def enter_phase_def repeats_def new_recorder_def t_def Let_def)
  then show ?thesis
    using valid t
    by (simp add: recorder_ok_def path_ok_def finalized_def new_recorder_def shutdown_phase_def one_to_def)
qed

lemma new_init_ok:
  assumes "me_state_dir e \<or> d"
  shows "init_ok e ((new_init_monitor e)\<lparr>im_degradation := (if d then Some reason else None)\<rparr>) \<longleftrightarrow>
    (d \<longrightarrow> reason \<noteq> [] \<and> length reason \<le> 500)"
  using assms by (auto simp: init_ok_def init_data_def new_init_monitor_def short_reason_def readiness_def)

lemma start_watch_ok:
  assumes env: "menv_ok e" and ok: "recorder_ok (elapsed e (re_started e)) r"
    and r: "rc_phase r = Some Inv_Launched" "rc_stop_reason r = None" "\<not> finalized r" "rc_wait r = []"
      "\<not> rc_kill_sent r"
    and time: "re_started e \<le> me_monitor_start e"
  shows "succeeds (start_watch e l r) (watching e Chk_Process_Launched (me_monitor_start e))"
proof -
  let ?now = "me_monitor_start e"
  have envs: "env_ok (renv e)" using env by (simp add: menv_ok_def)
  let ?r = "r\<lparr>rc_process_started := True, rc_group_targeted := la_group_targeted l, rc_lease_released := False\<rparr>"
  have le: "elapsed e (re_started e) \<le> elapsed e ?now" using time by (rule rc_elapsed_mono)
  have ok1: "recorder_ok (elapsed e (re_started e)) ?r" using ok by (simp add: recorder_ok_def)
  have "proper_action ''OpenClaw process launched; waiting for an attributable current turn''"
    by (simp add: proper_action_def)
  then have "succeeds (process_launched (renv e) ?now (la_group_targeted l) r) (\<lambda>r'.
    recorder_ok (elapsed e ?now) r' \<and> rc_phase r' = Some Inv_Initializing \<and> only_path ?r r' \<and>
    (finalized r' \<longleftrightarrow> finalized ?r \<or> Inv_Initializing = Inv_Finalizing_Response))"
    unfolding process_launched_def using le r
    by (intro enter_work [OF envs ok1]) (auto simp: checkpoint_fits_def shutdown_phase_def)
  then obtain r1 where r1: "process_launched (renv e) ?now (la_group_targeted l) r = Inr r1"
    and p: "recorder_ok (elapsed e ?now) r1" "rc_phase r1 = Some Inv_Initializing" "only_path ?r r1"
      "\<not> finalized r1"
    using r(3) by (auto simp: succeeds_iff finalized_def)
  have kept: "rc_stop_reason r1 = None" "rc_wait r1 = []" "\<not> rc_kill_sent r1" "rc_process_started r1"
    using p(3) r by (simp_all add: only_path_def)
  let ?w = "\<lparr>wt_init = new_init_monitor e, wt_provider = new_provider_monitor, wt_final = new_final_monitor,
    wt_recorder = r1\<rparr>"
  have monitors: "provider_ok new_provider_monitor" "final_ok new_final_monitor"
    by (simp_all add: provider_ok_def new_provider_monitor_def short_reason_def final_ok_def new_final_monitor_def)
  have degraded: "succeeds (degrade_initialization e reason ?now ?w)
      (watching e Chk_Process_Launched ?now)" if "reason \<noteq> []" "length reason \<le> 500" for reason
  proof -
    let ?m = "(new_init_monitor e)\<lparr>im_degradation := Some reason\<rparr>"
    have m: "init_ok e ?m" using new_init_ok [of e True reason] that by simp
    have "succeeds (tell_initialization e Act_Initialization_Degraded ?now None 0 (?w\<lparr>wt_init := ?m\<rparr>))
      (\<lambda>w'. init_step e (elapsed e ?now) ?w w' \<and> wt_init w' = ?m)"
      using p(1,2) m by (intro tell_step [OF env]) (auto simp: phase_ok_def new_init_monitor_def)
    then have "succeeds (degrade_initialization e reason ?now ?w) (\<lambda>w'. init_step e (elapsed e ?now) ?w w' \<and> wt_init w' = ?m)"
      by (simp add: degrade_initialization_def)
    then show ?thesis
    proof (rule succeeds_mono, elim conjE)
      fix w' assume w': "init_step e (elapsed e ?now) ?w w'" "wt_init w' = ?m"
      then have "fits e (elapsed e ?now) ?now w'"
        using env monitors p(4) kept(1)
        by (auto simp: fits_def init_pre_def init_step_def same_monitors_def terminal_ok_def keeps_def
            new_provider_monitor_def)
      then show "watching e Chk_Process_Launched ?now w'"
        using w' monitors kept
        by (auto simp: watching_def init_step_def same_monitors_def keeps_def below_def waits_ok_def
            new_init_monitor_def new_provider_monitor_def new_final_monitor_def)
    qed
  qed
  have fresh: "watching e Chk_Process_Launched ?now ?w" if "me_state_dir e"
  proof -
    have "init_ok e (new_init_monitor e)"
      using new_init_ok [of e False] that by (simp add: new_init_monitor_def)
    then have "fits e (elapsed e ?now) ?now ?w"
      using env monitors p kept(1)
      by (auto simp: fits_def init_pre_def phase_ok_def terminal_ok_def new_init_monitor_def new_provider_monitor_def)
    then show ?thesis
      using monitors kept
      by (auto simp: watching_def below_def waits_ok_def new_init_monitor_def new_provider_monitor_def
          new_final_monitor_def)
  qed
  show ?thesis
    unfolding start_watch_def r1 open_init_monitor_def Let_def
    using degraded fresh by (simp add: r1)
qed

section \<open>One iteration\<close>

definition tick_ok :: "initialization_checkpoint \<Rightarrow> rat \<Rightarrow> tick \<Rightarrow> bool" where
  "tick_ok b prev t \<longleftrightarrow> prev \<le> tk_now t \<and> claims_within prev (tk_now t) (tk_claims_first t) \<and>
     \<not> claiming (tk_claims_checked t) \<and> \<not> claiming (tk_claims_initialized t) \<and>
     \<not> claiming (tk_claims_provider t) \<and> \<not> claiming (tk_claims_final t) \<and>
     reading_after b (tk_initialization t) \<and> session_reading_ok (tk_session t) \<and>
     validate_wait_diagnostic (tk_suspected_wait t) = Inr () \<and>
     validate_wait_diagnostic (tk_stalled_wait t) = Inr ()"

lemma no_claims: "\<not> claiming cs \<Longrightarrow> apply_claims e cs s = Inr s"
proof (induction cs)
  case (Cons c cs)
  then show ?case by (simp add: apply_claims_def apply_claim_def claiming_def)
qed (simp add: apply_claims_def)

text \<open>An initialization step keeps the joint invariant.\<close>

lemma fits_init_step:
  assumes "fits e x now w" and "init_step e (elapsed e now) w w'" and "im_ready (wt_init w) \<longrightarrow> im_ready (wt_init w')"
  shows "fits e (elapsed e now) now w'"
  using assms by (auto simp: fits_def init_pre_def init_step_def same_monitors_def terminal_ok_def keeps_def)

definition captured :: "watch \<Rightarrow> watch \<Rightarrow> bool" where
  "captured w w' \<longleftrightarrow> (\<exists>ds. w' = w\<lparr>wt_recorder := (wt_recorder w)\<lparr>rc_wait := ds\<rparr>\<rparr>)"

lemma captured_fits:
  assumes "captured w w'" and "fits e x now w"
  shows "fits e x now w'"
  using assms fits_path by (auto simp: captured_def intro!: fits_recorder)

lemma captured_frame:
  assumes "captured w w'"
  shows "wt_init w' = wt_init w" "wt_provider w' = wt_provider w" "wt_final w' = wt_final w"
    "rc_stop_reason (wt_recorder w') = rc_stop_reason (wt_recorder w)"
    "rc_process_started (wt_recorder w') = rc_process_started (wt_recorder w)"
    "rc_kill_sent (wt_recorder w') = rc_kill_sent (wt_recorder w)"
  using assms by (auto simp: captured_def)

lemma capture_captured:
  "captured w (capture_wait boundary wanted d w)"
  "captured w w1 \<Longrightarrow> captured w (capture_wait boundary wanted d w1)"
  by (auto simp: captured_def capture_wait_def Let_def intro: exI [of _ "rc_wait (wt_recorder w)"])

lemma revalidated: "validate_wait_diagnostic d = Inr () \<Longrightarrow> validate_wait_diagnostic (d\<lparr>wd_reason := b\<rparr>) = Inr ()"
  by (simp add: validate_wait_diagnostic_def)

lemma capture_waits:
  fixes w :: watch and suspected stalled :: bool
  assumes "map wd_reason (rc_wait (wt_recorder w)) \<in> {[], [Wait_Suspected]}"
    and "waits_ok (rc_wait (wt_recorder w)) False"
    and "validate_wait_diagnostic d1 = Inr ()" and "validate_wait_diagnostic d2 = Inr ()"
  defines "w2 \<equiv> capture_wait Wait_Stalled stalled d2 (capture_wait Wait_Suspected suspected d1 w)"
  shows "waits_ok (rc_wait (wt_recorder w2)) stalled"
    "\<not> stalled \<Longrightarrow> map wd_reason (rc_wait (wt_recorder w2)) \<in> {[], [Wait_Suspected]}"
  using assms revalidated
  by (auto simp: w2_def capture_wait_def Let_def waits_ok_def)

definition tick_done :: "monitor_env \<Rightarrow> initialization_checkpoint \<Rightarrow> rat \<Rightarrow> bool \<times> supervised \<Rightarrow> bool" where
  "tick_done e b now result \<longleftrightarrow> (case result of (leave, s) \<Rightarrow>
     if leave then left_loop e b now (sv_watch s) \<and> agreed (sv_watch s)
     else watching e b now (sv_watch s) \<and> sv_request s = None)"

lemma stop_and_leave_done:
  assumes "fits e x (tk_now t) (sv_watch s)" and "below b (wt_init (sv_watch s))"
    and "final_ok (wt_final (sv_watch s))"
    and "fm_terminal (wt_final (sv_watch s)) = pm_terminal (wt_provider (sv_watch s))"
    and "rc_process_started (wt_recorder (sv_watch s))"
    and "waits_ok (rc_wait (wt_recorder (sv_watch s))) (im_stalled (wt_init (sv_watch s)))"
    and "rc_stop_reason (wt_recorder (sv_watch s)) = None"
    and "reason = Stop_Response_Finalization_Stall \<longleftrightarrow> fm_stalled (wt_final (sv_watch s))"
  shows "succeeds (stop_and_leave e reason t s) (tick_done e b (tk_now t))"
proof -
  have "succeeds (stop_process e reason (tk_now t) (tk_exits t) (sv_watch s))
      (\<lambda>w'. left_loop e b (tk_now t) w' \<and> agreed w')"
    by (rule stop_leaves [OF assms(1-4) fits_agreed [OF assms(1,7)] assms(5-8)])
  then obtain w where w: "stop_process e reason (tk_now t) (tk_exits t) (sv_watch s) = Inr w"
    and p: "left_loop e b (tk_now t) w \<and> agreed w"
    by (rule succeedsE)
  show ?thesis using p by (simp add: stop_and_leave_def lift_watch_def tick_done_def w)
qed

text \<open>The state after the provider monitor has been polled.\<close>

lemma watch_provider_ok:
  assumes obs: "observer_ok e" and w: "watching e b now (sv_watch s)" and now: "tk_now t = now"
    and ok: "session_reading_ok (tk_session t)" and idle: "sv_request s = None"
  shows "succeeds (watch_provider e t s) (\<lambda>(stalled, s'). sv_request s' = None \<and>
    fits e (elapsed e now) now (sv_watch s') \<and> below b (wt_init (sv_watch s')) \<and>
    rc_stop_reason (wt_recorder (sv_watch s')) = None \<and> \<not> im_stalled (wt_init (sv_watch s')) \<and>
    pm_stalled (wt_provider (sv_watch s')) = stalled \<and> \<not> fm_stalled (wt_final (sv_watch s')) \<and>
    final_ok (wt_final (sv_watch s')) \<and>
    fm_terminal (wt_final (sv_watch s')) = pm_terminal (wt_provider (sv_watch s')) \<and>
    rc_process_started (wt_recorder (sv_watch s')) \<and> \<not> rc_kill_sent (wt_recorder (sv_watch s')) \<and>
    rc_wait (wt_recorder (sv_watch s')) = rc_wait (wt_recorder (sv_watch s)))"
    (is "succeeds _ ?Q")
proof (cases "me_state_dir e")
  case False
  then show ?thesis using w idle by (simp add: watch_provider_def watching_def)
next
  case True
  let ?w = "sv_watch s"
  have f: "fits e (elapsed e now) now ?w" "\<not> pm_stalled (wt_provider ?w)" "\<not> im_stalled (wt_init ?w)"
    using w by (simp_all add: watching_def)
  have "succeeds (poll_provider e True (tk_stream t) (tk_session t) now ?w) (provider_polled e now ?w)"
    using f(3) ok by (intro poll_provider_ok [OF obs f(1,2)])
  then obtain stalled w1 where w1: "poll_provider e True (tk_stream t) (tk_session t) now ?w = Inr (stalled, w1)"
    and p: "provider_polled e now ?w (stalled, w1)"
    by (auto simp: succeeds_iff)
  have q: "fits e (elapsed e now) now w1" "wt_final w1 = wt_final ?w" "holds (wt_recorder ?w) (wt_recorder w1)"
      "init_grows (wt_init ?w) (wt_init w1)" "pm_stalled (wt_provider w1) = stalled"
      "pm_terminal (wt_provider ?w) \<longrightarrow> pm_terminal (wt_provider w1)"
    using p by (simp_all add: provider_polled_def)
  have below: "below b (wt_init w1)" "\<not> im_stalled (wt_init w1)"
    using q(4) w by (auto simp: watching_def below_def init_grows_def)
  define w2 where "w2 = (if pm_terminal (wt_provider w1)
    then observe_terminal (tk_stdout t) (tk_stderr t) now w1 else w1)"
  have final: "final_ok (wt_final w1)" "\<not> fm_stalled (wt_final w1)" using q(2) w by (simp_all add: watching_def)
  note seen = observe_terminal_ok [OF final(1), of "tk_stdout t" "tk_stderr t" now]
  have o: "only_final w1 w2" using seen(1) only_final_refl by (simp add: w2_def)
  have w2: "fits e (elapsed e now) now w2" "final_ok (wt_final w2)" "\<not> fm_stalled (wt_final w2)"
      "fm_terminal (wt_final w2) = pm_terminal (wt_provider w2)"
    using fits_only_final [OF q(1) o] seen final q(2,6) w o
    by (auto simp: w2_def watching_def only_final_def)
  have same: "wt_init w2 = wt_init w1" "wt_provider w2 = wt_provider w1"
      "rc_stop_reason (wt_recorder w2) = rc_stop_reason (wt_recorder ?w)"
      "rc_process_started (wt_recorder w2) = rc_process_started (wt_recorder ?w)"
      "rc_kill_sent (wt_recorder w2) = rc_kill_sent (wt_recorder ?w)"
      "rc_wait (wt_recorder w2) = rc_wait (wt_recorder ?w)"
    using o q(3) by (auto simp: only_final_def holds_def)
  have "watch_provider e t s = Inr (stalled, s\<lparr>sv_watch := w2\<rparr>)"
    using True w1 now by (simp add: watch_provider_def lift_poll_def w2_def)
  then show ?thesis using w2 same below q(5) w idle by (simp add: watching_def)
qed

end
