(* ===== verification/Supervised_Runs.thy ===== *)
theory Supervised_Runs
  imports Supervision_Properties
begin

text \<open>
  The loop of a supervised run and what \<open>execute\<close> makes of it. \<open>run_ok\<close> describes the runs the
  results are about: times that do not go back, checkpoints that do not regress, an observer that
  returns, claims of other threads that are made while the adapter waits for the process.
\<close>

section \<open>A tick\<close>

lemma after_initialization_ok:
  assumes obs: "observer_ok e" and w: "watching e b now (sv_watch s)" and now: "tk_now t = now"
    and t: "tick_ok b' prev t" and idle: "sv_request s = None"
    and limit: "pl_reason limit \<noteq> Some Stop_Response_Finalization_Stall"
  shows "succeeds (after_initialization e limit t s) (tick_done e b now)"
proof -
  have quiet: "apply_claims e (tk_claims_initialized t) s' = Inr s'" "apply_claims e (tk_claims_provider t) s' = Inr s'"
      "apply_claims e (tk_claims_final t) s' = Inr s'" for s'
    using t by (simp_all add: tick_ok_def no_claims)
  have "session_reading_ok (tk_session t)" using t by (simp add: tick_ok_def)
  from watch_provider_ok [OF obs w now this idle]
  obtain stalled s1 where s1: "watch_provider e t s = Inr (stalled, s1)"
    and p: "sv_request s1 = None" "fits e (elapsed e now) now (sv_watch s1)" "below b (wt_init (sv_watch s1))"
      "rc_stop_reason (wt_recorder (sv_watch s1)) = None" "\<not> im_stalled (wt_init (sv_watch s1))"
      "pm_stalled (wt_provider (sv_watch s1)) = stalled" "\<not> fm_stalled (wt_final (sv_watch s1))"
      "final_ok (wt_final (sv_watch s1))"
      "fm_terminal (wt_final (sv_watch s1)) = pm_terminal (wt_provider (sv_watch s1))"
      "rc_process_started (wt_recorder (sv_watch s1))" "\<not> rc_kill_sent (wt_recorder (sv_watch s1))"
      "rc_wait (wt_recorder (sv_watch s1)) = rc_wait (wt_recorder (sv_watch s))"
    by (auto simp: succeeds_iff)
  obtain final_stalled w2 where w2: "poll_final e True (tk_stdout t) (tk_stderr t) now (sv_watch s1) = (final_stalled, w2)"
    by fastforce
  have f: "only_final (sv_watch s1) w2" "final_ok (wt_final w2)"
      "fm_terminal (wt_final w2) = fm_terminal (wt_final (sv_watch s1))" "fm_stalled (wt_final w2) = final_stalled"
    using poll_final_ok [OF p(8) w2] p(7) by simp_all
  let ?s = "s1\<lparr>sv_watch := w2\<rparr>"
  have g: "fits e (elapsed e now) now w2" by (rule fits_only_final [OF p(2) f(1)])
  have same: "wt_init w2 = wt_init (sv_watch s1)" "wt_provider w2 = wt_provider (sv_watch s1)"
      "rc_stop_reason (wt_recorder w2) = None" "rc_process_started (wt_recorder w2)" "\<not> rc_kill_sent (wt_recorder w2)"
      "rc_wait (wt_recorder w2) = rc_wait (wt_recorder (sv_watch s))"
    using f(1) p by (auto simp: only_final_def)
  have waits: "waits_ok (rc_wait (wt_recorder w2)) c"
      "map wd_reason (rc_wait (wt_recorder w2)) \<in> {[], [Wait_Suspected]}" for c
    using w same(6) waits_weaken by (simp_all add: watching_def)
  have stop: "succeeds (stop_and_leave e reason t ?s) (tick_done e b now)"
    if "reason = Stop_Response_Finalization_Stall \<longleftrightarrow> final_stalled" for reason
    using stop_and_leave_done [of e "elapsed e now" t ?s b reason] g same p(3,9) f waits that now by simp
  have "(the_or (pl_reason limit) Stop_Evaluation_Timeout) \<noteq> Stop_Response_Finalization_Stall"
    using limit by (cases "pl_reason limit") auto
  moreover have "\<not> final_stalled \<Longrightarrow> \<not> stalled \<Longrightarrow> tick_done e b now (False, ?s)"
    using g same p(1,3,5,6,9) f waits by (simp add: tick_done_def watching_def)
  ultimately have "succeeds (if final_stalled then stop_and_leave e Stop_Response_Finalization_Stall t ?s
     else if stalled then stop_and_leave e Stop_Provider_Stall t ?s
     else if limit_reached e limit (tk_now t)
     then stop_and_leave e (the_or (pl_reason limit) Stop_Evaluation_Timeout) t ?s
     else Inr (False, ?s)) (tick_done e b now)"
    using stop by simp
  then show ?thesis
    by (simp add: after_initialization_def quiet s1 w2 now)
qed

lemma watch_initialization_ok:
  assumes obs: "observer_ok e" and w: "watching e b prev (sv_watch s)" and t: "tick_ok b prev t"
    and idle: "sv_request s = None" and limit: "pl_reason limit \<noteq> Some Stop_Response_Finalization_Stall"
  shows "succeeds (watch_initialization e limit t s) (tick_done e (next_bound b (tk_initialization t)) (tk_now t))"
proof -
  let ?w = "sv_watch s" and ?now = "tk_now t" and ?b = "next_bound b (tk_initialization t)"
  have time: "prev \<le> ?now" "reading_after b (tk_initialization t)" using t by (simp_all add: tick_ok_def)
  have fit: "fits e (elapsed e prev) ?now ?w"
    using w fits_later [OF _ time(1)] by (simp add: watching_def)
  have "init_pre e (elapsed e prev) ?now ?w" "below b (wt_init ?w)"
    using fit w by (simp_all add: fits_def watching_def)
  from poll_initialization_ok [OF this(1) time(2) this(2), of "tk_snapshot t"]
  obtain stalled w1 where w1: "poll_initialization e (tk_initialization t) (tk_snapshot t) ?now ?w = Inr (stalled, w1)"
    and p: "polled e ?b ?now ?w (stalled, w1)"
    by (auto simp: succeeds_iff)
  have step: "init_step e (elapsed e ?now) ?w w1" and ready: "im_ready (wt_init ?w) \<longrightarrow> im_ready (wt_init w1)"
    and st: "im_stalled (wt_init w1) = stalled" and below: "below ?b (wt_init w1)"
    using p by (simp_all add: polled_def)
  have fit1: "fits e (elapsed e ?now) ?now w1" by (rule fits_init_step [OF fit step ready])
  have same1: "wt_provider w1 = wt_provider ?w" "wt_final w1 = wt_final ?w"
      "keeps (wt_recorder ?w) (wt_recorder w1)"
    using step by (simp_all add: init_step_def same_monitors_def)
  define w2 where "w2 = capture_wait Wait_Stalled stalled (tk_stalled_wait t)
    (capture_wait Wait_Suspected (im_suspected (wt_init w1)) (tk_suspected_wait t) w1)"
  have cap: "captured w1 w2" by (simp add: w2_def capture_captured)
  have fit2: "fits e (elapsed e ?now) ?now w2" by (rule captured_fits [OF cap fit1])
  have same2: "wt_init w2 = wt_init w1" "wt_provider w2 = wt_provider ?w" "wt_final w2 = wt_final ?w"
      "rc_stop_reason (wt_recorder w2) = None" "rc_process_started (wt_recorder w2)" "\<not> rc_kill_sent (wt_recorder w2)"
    using captured_frame [OF cap] same1 w by (simp_all add: keeps_def watching_def)
  have "rc_wait (wt_recorder w1) = rc_wait (wt_recorder ?w)" using same1(3) by (simp add: keeps_def)
  then have old: "map wd_reason (rc_wait (wt_recorder w1)) \<in> {[], [Wait_Suspected]}"
      "waits_ok (rc_wait (wt_recorder w1)) False"
    using w by (simp_all add: watching_def)
  have new: "validate_wait_diagnostic (tk_suspected_wait t) = Inr ()"
      "validate_wait_diagnostic (tk_stalled_wait t) = Inr ()"
    using t by (simp_all add: tick_ok_def)
  note waits = capture_waits [OF old new, of stalled "im_suspected (wt_init w1)", folded w2_def]
  have monitors: "final_ok (wt_final w2)" "fm_terminal (wt_final w2) = pm_terminal (wt_provider w2)"
      "\<not> fm_stalled (wt_final w2)" "\<not> pm_stalled (wt_provider w2)"
    using w same2 by (simp_all add: watching_def)
  let ?s = "s\<lparr>sv_watch := w2\<rparr>"
  have stop: "succeeds (stop_and_leave e reason t ?s) (tick_done e ?b ?now)"
    if "reason \<noteq> Stop_Response_Finalization_Stall" for reason
    using stop_and_leave_done [of e "elapsed e ?now" t ?s ?b reason] fit2 same2 below st waits(1) monitors that
    by simp
  have continue: "succeeds (after_initialization e limit t ?s) (tick_done e ?b ?now)" if "\<not> stalled"
  proof (rule after_initialization_ok [OF obs _ _ t _ limit])
    show "watching e ?b ?now (sv_watch ?s)"
      using fit2 same2 below st waits monitors that by (simp add: watching_def)
  qed (simp_all add: idle)
  have run: "watch_initialization e limit t s =
    (if stalled then stop_and_leave e Stop_Initialization_Stall t ?s
     else if im_degradation (wt_init w2) \<noteq> None then stop_and_leave e Stop_Process_Failure t ?s
     else after_initialization e limit t ?s)"
    unfolding w2_def by (simp add: watch_initialization_def lift_poll_def Let_def w1)
  show ?thesis unfolding run using stop continue by simp
qed

lemma tick_correct:
  assumes obs: "observer_ok e" and w: "watching e b prev (sv_watch s)" and t: "tick_ok b prev t"
    and idle: "sv_request s = None" and limit: "pl_reason limit \<noteq> Some Stop_Response_Finalization_Stall"
  shows "succeeds (supervise_tick e limit t s) (tick_done e (next_bound b (tk_initialization t)) (tk_now t))"
proof -
  let ?w = "sv_watch s"
  have time: "prev \<le> tk_now t" "claims_within prev (tk_now t) (tk_claims_first t)" using t by (simp_all add: tick_ok_def)
  have fit: "fits e (elapsed e prev) prev ?w" "rc_stop_reason (wt_recorder ?w) = None"
    using w by (simp_all add: watching_def)
  show ?thesis
  proof (cases "claiming (tk_claims_first t)")
    case False
    then have "apply_claims e (tk_claims_first t) s = Inr s" "apply_claims e (tk_claims_checked t) s = Inr s"
      using t by (simp_all add: no_claims tick_ok_def)
    then show ?thesis
      using watch_initialization_ok [OF assms] idle by (simp add: supervise_tick_def)
  next
    case True
    from apply_claims_ok [OF fit time(2)] True
    obtain s1 where s1: "apply_claims e (tk_claims_first t) s = Inr s1" and c: "claimed e (tk_now t) s s1"
      by (auto simp: succeeds_iff)
    obtain now reason where now: "now \<le> tk_now t" and st: "stopped e now ?w (sv_watch s1)" and user: "user_stop reason"
      and own: "rc_stop_reason (wt_recorder (sv_watch s1)) = Some reason" "sv_request s1 = Some reason"
      using c by (auto simp: claimed_def)
    have fit1: "fits e (elapsed e now) (tk_now t) (sv_watch s1)"
      using st fits_later [OF _ now] by (simp add: stopped_def)
    have "succeeds (stop_process e reason (tk_now t) (tk_exits t) (sv_watch s1)) (\<lambda>w'. stopped e (tk_now t) (sv_watch s1) w' \<and>
      rc_stop_reason (wt_recorder w') = Some (the_or (rc_stop_reason (wt_recorder (sv_watch s1))) reason))"
      using st by (intro stop_process_ok [OF fit1]) (simp add: stopped_def)
    then obtain w2 where w2: "stop_process e reason (tk_now t) (tk_exits t) (sv_watch s1) = Inr w2"
      and p: "stopped e (tk_now t) (sv_watch s1) w2" "rc_stop_reason (wt_recorder w2) = Some reason"
      using own by (auto simp: succeeds_iff)
    have below: "below (next_bound b (tk_initialization t)) (wt_init w2)"
      using w t p(1) st by (cases "(b, tk_initialization t)" rule: next_bound.cases)
        (auto simp: watching_def below_def tick_ok_def reading_after_def stopped_def)
    have "left_loop e (next_bound b (tk_initialization t)) (tk_now t) w2 \<and> agreed w2"
      using p st below w waits_weaken user_stop_not_stall [OF user] fits_agreed [OF fit]
      by (simp add: left_loop_def stopped_def watching_def agreed_def)
    then show ?thesis
      using s1 own w2 by (simp add: supervise_tick_def stop_and_leave_def lift_watch_def tick_done_def)
  qed
qed

section \<open>The return of the process\<close>

definition exit_ok :: "initialization_checkpoint \<Rightarrow> rat \<Rightarrow> exit_reading \<Rightarrow> bool" where
  "exit_ok b prev x \<longleftrightarrow> prev \<le> ex_now x \<and> claims_within prev (ex_now x) (ex_claims x) \<and>
     reading_after b (ex_initialization x) \<and> session_reading_ok (ex_session x) \<and>
     (case ex_session x of
        Session_Facts (Some _) \<Rightarrow> ex_initialization x = Initialization_At (Some Chk_Current_Turn)
      | _ \<Rightarrow> True)"

lemma finish_degraded:
  assumes "im_degradation (wt_init w) \<noteq> None" and "finish_initialization e reading snapshot now w = Inr w'"
  shows "wt_init w' = wt_init w"
  using assms by (auto simp: finish_initialization_def record_initialization_def Let_def ebind_eq_Inr)

text \<open>Facts about the session come only after the current turn has been attributed.\<close>

lemma finish_initialization_left:
  assumes fit: "fits e x now w" and "reading_after b reading" and "below b (wt_init w)"
    and unstalled: "\<not> im_stalled (wt_init w)"
  shows "succeeds (finish_initialization e reading snapshot now w) (\<lambda>w'.
    fits e (elapsed e now) now w' \<and> wt_provider w' = wt_provider w \<and> wt_final w' = wt_final w \<and>
    keeps (wt_recorder w) (wt_recorder w') \<and> below (next_bound b reading) (wt_init w') \<and>
    rc_initialization (wt_recorder w') = init_evidence e (wt_init w') \<and>
    (reading = Initialization_At (Some Chk_Current_Turn) \<longrightarrow> \<not> im_stalled (wt_init w')))"
proof -
  have "init_pre e x now w" using fit by (simp add: fits_def)
  from finish_initialization_ok [OF this assms(2,3), of snapshot]
  obtain w' where w': "finish_initialization e reading snapshot now w = Inr w'"
    and p: "polled e (next_bound b reading) now w (im_stalled (wt_init w'), w')"
      "rc_initialization (wt_recorder w') = init_evidence e (wt_init w')"
      "reading = Initialization_At (Some Chk_Current_Turn) \<and> im_degradation (wt_init w) = None \<and>
        \<not> im_stalled (wt_init w) \<longrightarrow> im_ready (wt_init w')"
    by (auto simp: succeeds_iff)
  have q: "init_step e (elapsed e now) w w'" "im_ready (wt_init w) \<longrightarrow> im_ready (wt_init w')"
      "im_stalled (wt_init w') \<longrightarrow> \<not> im_ready (wt_init w')" "below (next_bound b reading) (wt_init w')"
    using p(1) unstalled by (simp_all add: polled_def)
  have "\<not> im_stalled (wt_init w')" if "reading = Initialization_At (Some Chk_Current_Turn)"
    using that p(3) q(3) unstalled finish_degraded [OF _ w'] by (cases "im_degradation (wt_init w)") auto
  then show ?thesis
    using fits_init_step [OF fit q(1,2)] q p(2) w' by (simp add: init_step_def same_monitors_def)
qed

text \<open>The provider part of the last reading.\<close>

lemma finish_watching:
  fixes stream :: stream_reading
  assumes obs: "observer_ok e" and fit: "fits e x now w" and stalled: "\<not> pm_stalled (wt_provider w)"
    and facts: "\<And>s. session = Session_Facts (Some s) \<Longrightarrow> \<not> im_stalled (wt_init w)"
    and ok: "session_reading_ok session" and final: "final_ok (wt_final w)"
      "fm_terminal (wt_final w) = pm_terminal (wt_provider w)"
  defines "m \<equiv> (if me_state_dir e then finish_provider e stream session now w else Inr w)"
  shows "succeeds m (\<lambda>w1. let w2 = (if me_state_dir e \<and> pm_terminal (wt_provider w1)
      then observe_terminal out err now w1 else w1) in
    fits e (elapsed e now) now w2 \<and> final_ok (wt_final w2) \<and>
    fm_terminal (wt_final w2) = pm_terminal (wt_provider w2) \<and> fm_stalled (wt_final w2) = fm_stalled (wt_final w) \<and>
    holds (wt_recorder w) (wt_recorder w2) \<and> init_grows (wt_init w) (wt_init w2))"
proof (cases "me_state_dir e")
  case False
  then show ?thesis using fits_now [OF fit] final by (simp add: m_def)
next
  case True
  have "succeeds (finish_provider e stream session now w) (\<lambda>w'. provider_polled e now w (False, w'))"
    by (rule finish_provider_ok [OF obs fit stalled facts ok])
  then obtain w1 where w1: "finish_provider e stream session now w = Inr w1" and p: "provider_polled e now w (False, w1)"
    by (auto simp: succeeds_iff)
  have q: "fits e (elapsed e now) now w1" "wt_final w1 = wt_final w" "holds (wt_recorder w) (wt_recorder w1)"
      "init_grows (wt_init w) (wt_init w1)" "pm_terminal (wt_provider w) \<longrightarrow> pm_terminal (wt_provider w1)"
    using p by (simp_all add: provider_polled_def)
  define w2 where "w2 = (if pm_terminal (wt_provider w1) then observe_terminal out err now w1 else w1)"
  have f1: "final_ok (wt_final w1)" using q(2) final(1) by simp
  note seen = observe_terminal_ok [OF f1, of out err now]
  have o: "only_final w1 w2" using seen(1) only_final_refl by (simp add: w2_def)
  have "final_ok (wt_final w2)" "fm_stalled (wt_final w2) = fm_stalled (wt_final w)"
      "fm_terminal (wt_final w2) = pm_terminal (wt_provider w1)"
    using seen f1 q(2,5) final by (auto simp: w2_def)
  moreover have "wt_init w2 = wt_init w1" "wt_provider w2 = wt_provider w1" "holds (wt_recorder w) (wt_recorder w2)"
    using o q(3) by (auto simp: only_final_def holds_def)
  ultimately show ?thesis
    using True w1 fits_only_final [OF q(1) o] q(4) by (simp add: m_def Let_def w2_def [symmetric])
qed

text \<open>After the claims that were made during the last wait.\<close>

lemma exit_claims_ok:
  assumes w: "watching e b prev (sv_watch s)" and time: "prev \<le> now" "claims_within prev now cs"
  shows "succeeds (apply_claims e cs s) (\<lambda>s1. \<exists>y. fits e y now (sv_watch s1) \<and>
    wt_init (sv_watch s1) = wt_init (sv_watch s) \<and> wt_provider (sv_watch s1) = wt_provider (sv_watch s) \<and>
    wt_final (sv_watch s1) = wt_final (sv_watch s) \<and>
    rc_wait (wt_recorder (sv_watch s1)) = rc_wait (wt_recorder (sv_watch s)) \<and>
    rc_process_started (wt_recorder (sv_watch s1)) \<and>
    (rc_kill_sent (wt_recorder (sv_watch s1)) \<longrightarrow> rc_terminate_sent (wt_recorder (sv_watch s1))) \<and>
    rc_stop_reason (wt_recorder (sv_watch s1)) \<noteq> Some Stop_Response_Finalization_Stall \<and>
    (\<not> claiming cs \<longrightarrow> rc_stop_reason (wt_recorder (sv_watch s1)) = None))"
proof (cases "claiming cs")
  case False
  have "fits e (elapsed e prev) prev (sv_watch s)" using w by (simp add: watching_def)
  then have "\<exists>y. fits e y now (sv_watch s)" using fits_later [OF _ time(1)] by blast
  then show ?thesis using no_claims [OF False] w by (simp add: watching_def)
next
  case True
  have "fits e (elapsed e prev) prev (sv_watch s)" "rc_stop_reason (wt_recorder (sv_watch s)) = None"
    using w by (simp_all add: watching_def)
  from apply_claims_ok [OF this time(2)] True
  obtain s1 where s1: "apply_claims e cs s = Inr s1" and c: "claimed e now s s1"
    by (auto simp: succeeds_iff)
  obtain early reason where early: "early \<le> now" and st: "stopped e early (sv_watch s) (sv_watch s1)" and user: "user_stop reason"
    and own: "rc_stop_reason (wt_recorder (sv_watch s1)) = Some reason"
    using c by (auto simp: claimed_def)
  have "fits e (elapsed e early) now (sv_watch s1)" using st fits_later [OF _ early] by (simp add: stopped_def)
  then show ?thesis
    using s1 st own user_stop_not_stall [OF user] w True by (auto simp: stopped_def watching_def)
qed

lemma process_exited_ok:
  assumes obs: "observer_ok e" and w: "watching e b prev (sv_watch s)" and x: "exit_ok b prev x"
  shows "succeeds (process_exited e x s) (\<lambda>s'. left_loop e (next_bound b (ex_initialization x)) (ex_now x) (sv_watch s') \<and>
    (claiming (ex_claims x) \<or> agreed (sv_watch s')))"
proof -
  let ?w = "sv_watch s" and ?now = "ex_now x" and ?b = "next_bound b (ex_initialization x)"
  have time: "prev \<le> ?now" "claims_within prev ?now (ex_claims x)" "reading_after b (ex_initialization x)"
    using x by (simp_all add: exit_ok_def)
  from exit_claims_ok [OF w time(1,2)]
  obtain s1 y where s1: "apply_claims e (ex_claims x) s = Inr s1" and fit1: "fits e y ?now (sv_watch s1)"
    and p1: "wt_init (sv_watch s1) = wt_init ?w" "wt_provider (sv_watch s1) = wt_provider ?w"
      "wt_final (sv_watch s1) = wt_final ?w" "rc_wait (wt_recorder (sv_watch s1)) = rc_wait (wt_recorder ?w)"
      "rc_process_started (wt_recorder (sv_watch s1))"
      "rc_kill_sent (wt_recorder (sv_watch s1)) \<longrightarrow> rc_terminate_sent (wt_recorder (sv_watch s1))"
      "rc_stop_reason (wt_recorder (sv_watch s1)) \<noteq> Some Stop_Response_Finalization_Stall"
      "\<not> claiming (ex_claims x) \<longrightarrow> rc_stop_reason (wt_recorder (sv_watch s1)) = None"
    by (auto simp: succeeds_iff)
  have "below b (wt_init (sv_watch s1))" "\<not> im_stalled (wt_init (sv_watch s1))"
    using w p1 by (simp_all add: watching_def)
  from finish_initialization_left [OF fit1 time(3) this, of "ex_snapshot x"]
  obtain w2 where w2: "finish_initialization e (ex_initialization x) (ex_snapshot x) ?now (sv_watch s1) = Inr w2"
    and p2: "fits e (elapsed e ?now) ?now w2" "wt_provider w2 = wt_provider ?w" "wt_final w2 = wt_final ?w"
      "keeps (wt_recorder (sv_watch s1)) (wt_recorder w2)" "below ?b (wt_init w2)"
      "ex_initialization x = Initialization_At (Some Chk_Current_Turn) \<longrightarrow> \<not> im_stalled (wt_init w2)"
    using p1 by (auto simp: succeeds_iff)
  have m2: "\<not> pm_stalled (wt_provider w2)" "final_ok (wt_final w2)"
      "fm_terminal (wt_final w2) = pm_terminal (wt_provider w2)" "\<not> fm_stalled (wt_final w2)"
    using w p2 by (simp_all add: watching_def)
  have facts: "\<not> im_stalled (wt_init w2)" if "ex_session x = Session_Facts (Some a)" for a
    using that p2(6) x by (simp add: exit_ok_def)
  have ok: "session_reading_ok (ex_session x)" using x by (simp add: exit_ok_def)
  let ?m = "if me_state_dir e then finish_provider e (ex_stream x) (ex_session x) ?now w2 else Inr w2"
  let ?seen = "\<lambda>w3. if me_state_dir e \<and> pm_terminal (wt_provider w3)
      then observe_terminal (ex_stdout x) (ex_stderr x) ?now w3 else w3"
  have "succeeds ?m (\<lambda>w1. let w2' = ?seen w1 in
    fits e (elapsed e ?now) ?now w2' \<and> final_ok (wt_final w2') \<and>
    fm_terminal (wt_final w2') = pm_terminal (wt_provider w2') \<and> fm_stalled (wt_final w2') = fm_stalled (wt_final w2) \<and>
    holds (wt_recorder w2) (wt_recorder w2') \<and> init_grows (wt_init w2) (wt_init w2'))"
    by (rule finish_watching [OF obs p2(1) m2(1) _ ok m2(2,3)]) (rule facts)
  then obtain w3 w4 where w3: "?m = Inr w3" and w4: "w4 = ?seen w3"
    and p4: "fits e (elapsed e ?now) ?now w4" "final_ok (wt_final w4)"
      "fm_terminal (wt_final w4) = pm_terminal (wt_provider w4)" "\<not> fm_stalled (wt_final w4)"
      "holds (wt_recorder w2) (wt_recorder w4)" "init_grows (wt_init w2) (wt_init w4)"
    unfolding succeeds_iff Let_def using m2(4) by blast
  have "menv_ok e" using p4(1) by (simp add: fits_def init_pre_def)
  from finish_final_ok [OF this p4(2), of "ex_stdout x" "ex_stderr x" ?now]
  obtain w5 where w5: "finish_final e (ex_stdout x) (ex_stderr x) ?now w4 = Inr w5"
    and p5: "only_final w4 w5" "final_ok (wt_final w5)" "fm_terminal (wt_final w5) = fm_terminal (wt_final w4)"
      "\<not> fm_stalled (wt_final w5)"
    using p4(4) by (auto simp: succeeds_iff)
  have fit5: "fits e (elapsed e ?now) ?now w5" by (rule fits_only_final [OF p4(1) p5(1)])
  have same: "wt_init w5 = wt_init w4" "wt_provider w5 = wt_provider w4"
      "rc_stop_reason (wt_recorder w5) = rc_stop_reason (wt_recorder (sv_watch s1))"
      "rc_wait (wt_recorder w5) = rc_wait (wt_recorder ?w)" "rc_process_started (wt_recorder w5)"
      "rc_kill_sent (wt_recorder w5) \<longrightarrow> rc_terminate_sent (wt_recorder w5)"
    using only_final_frame(1,2) [OF p5(1)] p1
      holds_trans [OF holds_trans [OF keeps_holds [OF p2(4)] p4(5)] only_final_frame(3) [OF p5(1)]]
    by (simp_all add: holds_def)
  have "below ?b (wt_init w5)" using p4(6) p2(5) same(1) by (auto simp: below_def init_grows_def)
  moreover have "waits_ok (rc_wait (wt_recorder w5)) (im_stalled (wt_init w5))"
    using w same(4) waits_weaken by (simp add: watching_def)
  ultimately have "left_loop e ?b ?now w5"
    using fit5 p5 p4(3) same p1(7) by (simp add: left_loop_def)
  moreover have "claiming (ex_claims x) \<or> agreed w5"
    using fits_agreed [OF fit5] p1(8) same(3) by auto
  ultimately show ?thesis
    using s1 w2 w3 w4 w5
    by (cases "me_state_dir e"; cases "pm_terminal (wt_provider w3)")
      (simp_all add: process_exited_def lift_watch_def)
qed

section \<open>The loop\<close>

text \<open>The last readings come no earlier than the end of the loop.\<close>

definition closing_ok :: "closing \<Rightarrow> initialization_checkpoint \<Rightarrow> rat \<Rightarrow> bool" where
  "closing_ok c b now \<longleftrightarrow> now \<le> co_now c \<and> reading_after b (co_initialization c)"

fun events_ok :: "closing \<Rightarrow> initialization_checkpoint \<Rightarrow> rat \<Rightarrow> loop_event list \<Rightarrow> bool" where
  "events_ok c b prev [] = True"
| "events_ok c b prev (Poll_Expired t # events) =
     (let b' = next_bound b (tk_initialization t) in
      tick_ok b prev t \<and> closing_ok c b' (tk_now t) \<and> events_ok c b' (tk_now t) events)"
| "events_ok c b prev (Process_Exited x # events) =
     (exit_ok b prev x \<and> closing_ok c (next_bound b (ex_initialization x)) (ex_now x))"
| "events_ok c b prev (Keyboard_Interrupt now exits # events) = (prev \<le> now \<and> closing_ok c b now)"

fun ending :: "loop_event \<Rightarrow> bool" where
  "ending (Poll_Expired t) = False"
| "ending (Process_Exited x) = True"
| "ending (Keyboard_Interrupt now exits) = True"

fun claimed_exit :: "loop_event \<Rightarrow> bool" where
  "claimed_exit (Process_Exited x) = claiming (ex_claims x)"
| "claimed_exit event = False"

definition loop_done :: "monitor_env \<Rightarrow> closing \<Rightarrow> loop_event list \<Rightarrow> supervised option \<Rightarrow> bool" where
  "loop_done e c events result \<longleftrightarrow> (case result of
     None \<Rightarrow> \<not> list_ex ending events
   | Some s \<Rightarrow> \<exists>b now. left_loop e b now (sv_watch s) \<and> closing_ok c b now \<and>
       (agreed (sv_watch s) \<or> list_ex claimed_exit events))"

lemma supervise_loop_ok:
  assumes obs: "observer_ok e" and limit: "pl_reason limit \<noteq> Some Stop_Response_Finalization_Stall"
    and "watching e b prev (sv_watch s)" and "sv_request s = None" and "events_ok c b prev events"
  shows "succeeds (supervise_loop e limit events s) (loop_done e c events)"
  using assms(3-)
proof (induction events arbitrary: s b prev)
  case Nil
  then show ?case by (simp add: loop_done_def)
next
  case (Cons event events)
  show ?case
  proof (cases event)
    case (Poll_Expired t)
    let ?b = "next_bound b (tk_initialization t)"
    have ok: "tick_ok b prev t" "closing_ok c ?b (tk_now t)" "events_ok c ?b (tk_now t) events"
      using Cons.prems(3) by (simp_all add: Poll_Expired Let_def)
    have "succeeds (supervise_tick e limit t s) (tick_done e ?b (tk_now t))"
      by (rule tick_correct [OF obs Cons.prems(1) ok(1) Cons.prems(2) limit])
    then obtain leave s1 where s1: "supervise_tick e limit t s = Inr (leave, s1)"
      and p: "tick_done e ?b (tk_now t) (leave, s1)"
      by (auto simp: succeeds_iff)
    show ?thesis
    proof (cases leave)
      case True
      have "loop_done e c (event # events) (Some s1)"
        using p True ok(2) by (auto simp: tick_done_def loop_done_def)
      then show ?thesis using s1 True by (simp add: Poll_Expired)
    next
      case False
      have "succeeds (supervise_loop e limit events s1) (loop_done e c events)"
        using p False by (intro Cons.IH [OF _ _ ok(3)]) (simp_all add: tick_done_def)
      then have "succeeds (supervise_loop e limit events s1) (loop_done e c (event # events))"
        by (rule succeeds_mono) (auto simp: loop_done_def Poll_Expired split: option.splits)
      then show ?thesis using s1 False by (simp add: Poll_Expired)
    qed
  next
    case (Process_Exited x)
    have ok: "exit_ok b prev x" "closing_ok c (next_bound b (ex_initialization x)) (ex_now x)"
      using Cons.prems(3) by (simp_all add: Process_Exited)
    have "succeeds (process_exited e x s) (\<lambda>s'.
      left_loop e (next_bound b (ex_initialization x)) (ex_now x) (sv_watch s') \<and>
      (claiming (ex_claims x) \<or> agreed (sv_watch s')))"
      by (rule process_exited_ok [OF obs Cons.prems(1) ok(1)])
    then have "succeeds (process_exited e x s) (\<lambda>s'. loop_done e c (event # events) (Some s'))"
      by (rule succeeds_mono) (use ok(2) in \<open>auto simp: loop_done_def Process_Exited\<close>)
    then show ?thesis by (simp add: Process_Exited)
  next
    case (Keyboard_Interrupt now exits)
    have ok: "prev \<le> now" "closing_ok c b now" using Cons.prems(3) by (simp_all add: Keyboard_Interrupt)
    have w: "fits e (elapsed e prev) now (sv_watch s)" "rc_stop_reason (wt_recorder (sv_watch s)) = None"
      using Cons.prems(1) fits_later [OF _ ok(1)] by (simp_all add: watching_def)
    have "succeeds (stop_process e Stop_User_Interrupt now exits (sv_watch s))
        (\<lambda>w'. left_loop e b now w' \<and> agreed w')"
      using Cons.prems(1) fits_agreed [OF w] waits_weaken
      by (intro stop_leaves [OF w(1)]) (simp_all add: watching_def)
    then have "succeeds (stop_process e Stop_User_Interrupt now exits (sv_watch s))
        (\<lambda>w'. loop_done e c (event # events) (Some (s\<lparr>sv_watch := w'\<rparr>)))"
      by (rule succeeds_mono) (use ok(2) in \<open>auto simp: loop_done_def\<close>)
    then show ?thesis by (simp add: Keyboard_Interrupt lift_watch_def)
  qed
qed

section \<open>Closing\<close>

lemma close_watch_ok:
  assumes w: "left_loop e b now w" and c: "closing_ok c b now"
  shows "succeeds (close_watch e c w) (\<lambda>w'. recorder_ok (elapsed e (co_now c)) (wt_recorder w') \<and>
    record_ok (wt_recorder w') \<and> rc_stop_reason (wt_recorder w') = rc_stop_reason (wt_recorder w) \<and>
    (finalized (wt_recorder w') \<longleftrightarrow> finalized (wt_recorder w)) \<and>
    fe_terminal_observed (rc_finalization (wt_recorder w')) = pm_terminal (wt_provider w) \<and>
    fe_stalled (rc_finalization (wt_recorder w')) = fm_stalled (wt_final w))"
proof -
  let ?r = "wt_recorder w" and ?now = "co_now c"
  let ?w1 = "w\<lparr>wt_recorder := ?r\<lparr>rc_lease_released := rc_lease_released ?r \<or> co_lease_released c\<rparr>\<rparr>"
  have time: "now \<le> ?now" "reading_after b (co_initialization c)" using c by (simp_all add: closing_ok_def)
  have fit: "fits e (elapsed e now) ?now w" using w fits_later [OF _ time(1)] by (simp add: left_loop_def)
  have fit1: "fits e (elapsed e now) ?now ?w1"
    using fits_path [OF fit] by (intro fits_recorder [OF fit]) simp_all
  have env: "menv_ok e" using fit by (simp add: fits_def init_pre_def)
  have pre: "init_pre e (elapsed e now) ?now ?w1" using fit1 by (simp add: fits_def)
  have bound: "below b (wt_init ?w1)" using w by (simp add: left_loop_def)
  from finish_initialization_ok [OF pre time(2) bound, of "co_snapshot c"]
  obtain w2 where w2: "finish_initialization e (co_initialization c) (co_snapshot c) ?now ?w1 = Inr w2"
    and p: "polled e (next_bound b (co_initialization c)) ?now ?w1 (im_stalled (wt_init w2), w2)"
      "rc_initialization (wt_recorder w2) = init_evidence e (wt_init w2)"
    by (auto simp: succeeds_iff)
  have step: "init_step e (elapsed e ?now) ?w1 w2" "im_ready (wt_init ?w1) \<longrightarrow> im_ready (wt_init w2)"
      "im_stalled (wt_init ?w1) \<longrightarrow> im_stalled (wt_init w2)"
    using p(1) by (simp_all add: polled_def)
  have fit2: "fits e (elapsed e ?now) ?now w2" by (rule fits_init_step [OF fit1 step(1,2)])
  have same2: "wt_provider w2 = wt_provider w" "wt_final w2 = wt_final w" "keeps (wt_recorder ?w1) (wt_recorder w2)"
      "init_ok e (wt_init w2)"
    using step(1) by (simp_all add: init_step_def same_monitors_def)
  have "final_ok (wt_final w2)" using w same2(2) by (simp add: left_loop_def)
  from finish_final_ok [OF env this, of "co_stdout c" "co_stderr c" "co_final_now c"]
  obtain w3 where w3: "finish_final e (co_stdout c) (co_stderr c) (co_final_now c) w2 = Inr w3"
    and q: "only_final w2 w3" "final_ok (wt_final w3)" "fm_terminal (wt_final w3) = fm_terminal (wt_final w)"
      "fm_stalled (wt_final w3) = fm_stalled (wt_final w)"
    using same2(2) by (auto simp: succeeds_iff)
  have fit3: "fits e (elapsed e ?now) ?now w3" by (rule fits_only_final [OF fit2 q(1)])
  obtain pub where pub: "wt_recorder w3 = (wt_recorder w2)\<lparr>rc_published := pub\<rparr>" using q(1) by (auto simp: only_final_def)
  let ?r4 = "(wt_recorder w3)\<lparr>rc_finalization := final_evidence e (wt_final w3)\<rparr>"
  have fields: "rc_stop_reason ?r4 = rc_stop_reason ?r" "rc_wait ?r4 = rc_wait ?r"
      "rc_process_started ?r4 = rc_process_started ?r" "rc_kill_sent ?r4 = rc_kill_sent ?r"
      "rc_terminate_sent ?r4 = rc_terminate_sent ?r" "finalized ?r4 = finalized ?r"
      "rc_initialization ?r4 = init_evidence e (wt_init w2)"
    using same2(3) p(2) by (simp_all add: pub keeps_def published_ok)
  have initial: "validate_initialization (rc_initialization ?r4) = Inr ()" "ie_stalled (rc_initialization ?r4) = im_stalled (wt_init w2)"
    using init_evidence_valid [OF env] same2(4) by (simp_all only: fields(7) init_ok_def) (simp_all add: init_evidence_def)
  have "waits_ok (rc_wait ?r) (im_stalled (wt_init w2))"
    using w step(3) by (auto simp: left_loop_def waits_ok_def)
  then have complete: "record_ok ?r4"
    using initial fields w final_evidence_valid [OF env q(2)] by (simp add: record_ok_def left_loop_def)
  have "provider_ok (wt_provider w3)" using fit3 by (simp add: fits_def)
  then have result: "provider_result e (w3\<lparr>wt_recorder := ?r4\<rparr>) = Inr (provider_evidence_of e (wt_provider w3))"
    using provider_result_ok [OF env, of "w3\<lparr>wt_recorder := ?r4\<rparr>"] by simp
  have run: "close_watch e c w = Inr (w3\<lparr>wt_recorder := ?r4\<rparr>)"
    using w2 w3 result by (simp add: close_watch_def Let_def)
  have "recorder_ok (elapsed e ?now) ?r4" using fits_path [OF fit3] by simp
  then show ?thesis
    using complete fields(1,6) q(3,4) w unfolding run
    by (simp add: final_evidence_def left_loop_def)
qed

section \<open>The outcome of a run\<close>

definition run_ok ::
    "monitor_env \<Rightarrow> process_limit \<Rightarrow> loop_event list \<Rightarrow> closing \<Rightarrow> invocation_stop_reason \<Rightarrow> telemetry_view \<Rightarrow> bool" where
  "run_ok e limit events c reason tv \<longleftrightarrow> menv_ok e \<and> observer_ok e \<and>
     re_started e \<le> me_monitor_start e \<and> events_ok c Chk_Process_Launched (me_monitor_start e) events \<and>
     pl_reason limit \<noteq> Some Stop_Response_Finalization_Stall \<and>
     reason \<noteq> Stop_Response_Finalization_Stall \<and>
     telemetry_ok tv \<and> elapsed e (co_now c) \<le> tv_duration_ms tv"

text \<open>The one fault that is left.\<close>

definition finalizing_fault :: fault where
  "finalizing_fault = Value_Error ''terminal-response observation requires one finalizing phase''"

lemma supervise_ok:
  assumes ok: "run_ok e limit events c reason tv" and r: "recorder_ok (elapsed e (re_started e)) r"
    "rc_phase r = Some Inv_Launched" "rc_stop_reason r = None" "\<not> finalized r" "rc_wait r = []" "\<not> rc_kill_sent r"
  shows "succeeds (supervise e limit l events c r) (\<lambda>ended. case ended of
      None \<Rightarrow> \<not> list_ex ending events
    | Some w \<Rightarrow> recorder_ok (elapsed e (co_now c)) (wt_recorder w) \<and> record_ok (wt_recorder w) \<and>
        (rc_stop_reason (wt_recorder w) = Some Stop_Response_Finalization_Stall \<longleftrightarrow>
          fe_stalled (rc_finalization (wt_recorder w))) \<and>
        (fe_terminal_observed (rc_finalization (wt_recorder w)) = finalized (wt_recorder w) \<or>
          list_ex claimed_exit events))"
proof -
  note o = ok [unfolded run_ok_def]
  have "succeeds (start_watch e l r) (watching e Chk_Process_Launched (me_monitor_start e))"
    using o r by (intro start_watch_ok) simp_all
  then obtain w where w: "start_watch e l r = Inr w" and watch: "watching e Chk_Process_Launched (me_monitor_start e) w"
    by (rule succeedsE)
  let ?s = "\<lparr>sv_watch = w, sv_request = None\<rparr>"
  have "succeeds (supervise_loop e limit events ?s) (loop_done e c events)"
    using o watch by (intro supervise_loop_ok [where b = Chk_Process_Launched and prev = "me_monitor_start e"]) simp_all
  then obtain ended where ended: "supervise_loop e limit events ?s = Inr ended" and d: "loop_done e c events ended"
    by (rule succeedsE)
  show ?thesis
  proof (cases ended)
    case None
    then show ?thesis using w ended d by (simp add: supervise_def loop_done_def)
  next
    case (Some s1)
    obtain b now where left: "left_loop e b now (sv_watch s1)" and close: "closing_ok c b now"
      and agree: "agreed (sv_watch s1) \<or> list_ex claimed_exit events"
      using d Some by (auto simp: loop_done_def)
    from close_watch_ok [OF left close]
    obtain w1 where w1: "close_watch e c (sv_watch s1) = Inr w1"
      and p: "recorder_ok (elapsed e (co_now c)) (wt_recorder w1)" "record_ok (wt_recorder w1)"
        "rc_stop_reason (wt_recorder w1) = rc_stop_reason (wt_recorder (sv_watch s1))"
        "finalized (wt_recorder w1) \<longleftrightarrow> finalized (wt_recorder (sv_watch s1))"
        "fe_terminal_observed (rc_finalization (wt_recorder w1)) = pm_terminal (wt_provider (sv_watch s1))"
        "fe_stalled (rc_finalization (wt_recorder w1)) = fm_stalled (wt_final (sv_watch s1))"
      by (auto simp: succeeds_iff)
    then show ?thesis
      using w ended Some left agree by (simp add: supervise_def left_loop_def agreed_def)
  qed
qed

lemma supervised_outcome:
  assumes ok: "run_ok e limit events c reason tv"
  shows "list_ex claimed_exit events \<and>
      execute_lifecycle e (Run_Supervised limit l events c) reason tv = Inl finalizing_fault \<or>
    succeeds (execute_lifecycle e (Run_Supervised limit l events c) reason tv) (\<lambda>result.
      (list_ex ending events \<longrightarrow> result \<noteq> None) \<and>
      (\<forall>ev. result = Some ev \<longrightarrow> validate_lifecycle ev = Inr ()))"
proof -
  note o = ok [unfolded run_ok_def]
  have env: "menv_ok e" "env_ok (renv e)" using o by (simp_all add: menv_ok_def)
  from open_recorder_ok [OF env(1)]
  obtain r where r: "open_recorder (renv e) = Inr r"
    and p: "recorder_ok (elapsed e (re_started e)) r" "rc_phase r = Some Inv_Launched" "rc_stop_reason r = None"
      "\<not> finalized r" "rc_wait r = []" "\<not> rc_kill_sent r"
    by (auto simp: succeeds_iff)
  from supervise_ok [OF ok p, of l]
  obtain ended where ended: "supervise e limit l events c r = Inr ended"
    and d: "case ended of
      None \<Rightarrow> \<not> list_ex ending events
    | Some w \<Rightarrow> recorder_ok (elapsed e (co_now c)) (wt_recorder w) \<and> record_ok (wt_recorder w) \<and>
        (rc_stop_reason (wt_recorder w) = Some Stop_Response_Finalization_Stall \<longleftrightarrow>
          fe_stalled (rc_finalization (wt_recorder w))) \<and>
        (fe_terminal_observed (rc_finalization (wt_recorder w)) = finalized (wt_recorder w) \<or>
          list_ex claimed_exit events)"
    by (rule succeedsE)
  show ?thesis
  proof (cases ended)
    case None
    then show ?thesis using r ended d by (simp add: execute_lifecycle_def run_recorded_def)
  next
    case (Some w)
    let ?r = "wt_recorder w" and ?owned = "the_or (rc_stop_reason (wt_recorder w)) reason"
    have q: "recorder_ok (elapsed e (co_now c)) ?r" "record_ok ?r"
        "rc_stop_reason ?r = Some Stop_Response_Finalization_Stall \<longleftrightarrow> fe_stalled (rc_finalization ?r)"
        "fe_terminal_observed (rc_finalization ?r) = finalized ?r \<or> list_ex claimed_exit events"
      using d Some by simp_all
    have stall: "?owned = Stop_Response_Finalization_Stall \<longleftrightarrow> fe_stalled (rc_finalization ?r)"
      using q(3) o by (cases "rc_stop_reason ?r") auto
    have run: "execute_lifecycle e (Run_Supervised limit l events c) reason tv =
        ebind (finalize_result (renv e) reason tv ?r) (\<lambda>(evidence, _). Inr (Some evidence))"
      using r ended Some by (simp add: execute_lifecycle_def run_recorded_def)
    have tv: "telemetry_ok tv" "elapsed e (co_now c) \<le> tv_duration_ms tv" using o by simp_all
    note final = finalize_outcome [OF env(2) q(1,2) tv, of reason]
    show ?thesis
    proof (cases "fe_terminal_observed (rc_finalization ?r) = finalized ?r")
      case True
      then have "guard_fault (finalized ?r) ?owned (rc_finalization ?r) = None"
        using stall by (simp add: guard_fault_def)
      then have "succeeds (finalize_result (renv e) reason tv ?r) (\<lambda>(ev, r'). validate_lifecycle ev = Inr () \<and>
          se_reason (le_shutdown ev) = ?owned)"
        using final by simp
      then have "succeeds (finalize_result (renv e) reason tv ?r) (\<lambda>(ev, r'). validate_lifecycle ev = Inr ())"
        by (rule succeeds_mono) auto
      then show ?thesis unfolding run by (auto simp: succeeds_iff)
    next
      case False
      then have "guard_fault (finalized ?r) ?owned (rc_finalization ?r) = Some finalizing_fault"
        by (simp add: guard_fault_def finalizing_fault_def)
      then have "finalize_result (renv e) reason tv ?r = Inl finalizing_fault" using final by simp
      then show ?thesis using False q(4) unfolding run by simp
    qed
  qed
qed

section \<open>Runs\<close>

definition demo_guard :: guard_policy where
  "demo_guard = \<lparr>gp_no_progress_seconds = 60, gp_stall_grace_seconds = 10, gp_source = ''default''\<rparr>"

definition demo_watch_env :: monitor_env where
  "demo_watch_env = \<lparr>re_agent_id = ''planner'', re_session_key = ''s'', re_model = None, re_started = 0,
     re_grace_seconds = 5, re_grace_text = ''5'', re_initialization_policy = demo_guard,
     re_finalization_policy = demo_guard, re_handler = None, me_state_dir = True,
     me_baseline = Some (None, 0), me_identity_known = False,
     me_provider_policy = \<lparr>pp_model = ''m'', pp_silence_seconds = 60, pp_stall_grace_seconds = 10,
       pp_source = ''default''\<rparr>, me_monitor_start = 1\<rparr>"

definition demo_wait :: wait_diagnostic where
  "demo_wait = \<lparr>wd_reason = Wait_Suspected, wd_elapsed_ms = 0, wd_processes = [], wd_incomplete = False\<rparr>"

definition demo_tick :: tick where
  "demo_tick = \<lparr>tk_now = 2, tk_initialization = Initialization_At (Some Chk_Session_Bound),
     tk_snapshot = demo_wait, tk_suspected_wait = demo_wait, tk_stalled_wait = demo_wait,
     tk_stream = Stream_Read False, tk_session = Session_Facts None, tk_stdout = 0, tk_stderr = 0,
     tk_exits = None, tk_claims_first = [], tk_claims_checked = [], tk_claims_initialized = [],
     tk_claims_provider = [], tk_claims_final = []\<rparr>"

text \<open>The process returns with the terminal response in its session; \<open>cs\<close> was claimed before.\<close>

definition demo_exit :: "claim list \<Rightarrow> exit_reading" where
  "demo_exit cs = \<lparr>ex_now = 4, ex_initialization = Initialization_At (Some Chk_Current_Turn),
     ex_snapshot = demo_wait, ex_stream = Stream_Read True,
     ex_session = Session_Facts (Some \<lparr>sa_progress_records = 2, sa_tool_started = 0, sa_tool_completed = 0,
       sa_active_tools = 0, sa_repeating = False, sa_terminal = True, sa_started_tools = [],
       sa_completed_tools = []\<rparr>),
     ex_stdout = 10, ex_stderr = 0, ex_claims = cs\<rparr>"

definition demo_events :: "claim list \<Rightarrow> loop_event list" where
  "demo_events cs = [Poll_Expired demo_tick, Process_Exited (demo_exit cs)]"

definition demo_closing :: closing where
  "demo_closing = \<lparr>co_lease_released = True, co_initialization = Initialization_At (Some Chk_Current_Turn),
     co_snapshot = demo_wait, co_now = 5, co_final_now = 5, co_stdout = 10, co_stderr = 0\<rparr>"

definition demo_telemetry :: telemetry_view where
  "demo_telemetry = \<lparr>tv_duration_ms = 6000, tv_exit_code = Some 0, tv_session_status = ''available'',
     tv_submission_status = None\<rparr>"

definition demo_limit :: process_limit where
  "demo_limit = \<lparr>pl_seconds = Some 600, pl_reason = Some Stop_Evaluation_Timeout\<rparr>"

definition demo_launch :: launch where
  "demo_launch = \<lparr>la_group_targeted = True, la_baseline_error = False\<rparr>"

definition demo_claim :: claim where
  "demo_claim = \<lparr>cl_reason = Stop_User_Interrupt, cl_now = 3\<rparr>"

lemma demo_agent: "ident_pattern ''planner''"
  by code_simp

lemma demo_env_ok: "menv_ok demo_watch_env" "observer_ok demo_watch_env"
  using demo_agent
  by (simp_all add: menv_ok_def env_ok_def renv_def recorder_env.truncate_def demo_watch_env_def demo_guard_def
      validate_initialization_policy_def validate_finalization_policy_def validate_guard_policy_def
      validate_provider_policy_def baseline_ok_def observer_ok_def)

lemma demo_run_ok:
  assumes "cs = [] \<or> cs = [demo_claim]"
  shows "run_ok demo_watch_env demo_limit (demo_events cs) demo_closing Stop_Completed demo_telemetry"
proof -
  have a: "events_ok demo_closing Chk_Process_Launched (me_monitor_start demo_watch_env) (demo_events cs)"
    using assms
    by (auto simp: demo_events_def demo_tick_def demo_exit_def demo_closing_def demo_claim_def demo_wait_def
        demo_watch_env_def tick_ok_def exit_ok_def closing_ok_def claims_within_def claiming_def
        reading_after_def session_reading_ok_def session_ok_def count_digits_def validate_wait_diagnostic_def
        checkpoint_order_defs Let_def)
  have b: "elapsed demo_watch_env (co_now demo_closing) \<le> tv_duration_ms demo_telemetry"
    by code_simp
  show ?thesis
    using a b demo_env_ok
    by (simp add: run_ok_def demo_limit_def demo_telemetry_def telemetry_ok_def status_text_def demo_watch_env_def)
qed

text \<open>C30: How a supervised invocation ends. Assume (\<open>run_ok\<close>) that the activity observer returns,
  that the identity, the policies, the baseline, the session readings and the wait diagnostics are
  well-formed, that clock and initialization readings do not go back, that session facts at the exit of
  the process come only with the current turn, that user stops are claimed at the
  beginning of a turn of the loop, at the exit or by the keyboard (not between the polls of one turn),
  that neither the process limit nor the adapter itself reports a finalization stall, and that the
  telemetry lasts as long as the run. Then, whatever the monitors find, the lifecycle evidence of the
  invocation is there once the process has exited or the keyboard has interrupted, and its model
  accepts it. The only fault that can leave \<open>execute\<close> is the rejection of the finalizing phase by the
  evidence model, and only if the process exits while a user's stop is being claimed.\<close>

theorem supervised_evidence_accepted:
  assumes "run_ok e limit events c reason tv"
  shows "case execute_lifecycle e (Run_Supervised limit l events c) reason tv of
      Inl fault \<Rightarrow> fault = finalizing_fault \<and> list_ex claimed_exit events
    | Inr result \<Rightarrow> (list_ex ending events \<longrightarrow> result \<noteq> None) \<and>
        (\<forall>ev. result = Some ev \<longrightarrow> validate_lifecycle ev = Inr ())"
  using supervised_outcome [OF assms, of l] by (auto simp: succeeds_iff)

lemma demo_unclaimed: "\<not> list_ex claimed_exit (demo_events [])" "list_ex ending (demo_events cs)"
  by (simp_all add: demo_events_def demo_exit_def claiming_def)

theorem supervised_evidence_accepted_witness:
  "\<exists>ev. execute_lifecycle demo_watch_env (Run_Supervised demo_limit demo_launch (demo_events []) demo_closing)
     Stop_Completed demo_telemetry = Inr (Some ev) \<and> validate_lifecycle ev = Inr ()"
proof -
  have "run_ok demo_watch_env demo_limit (demo_events []) demo_closing Stop_Completed demo_telemetry"
    by (rule demo_run_ok) simp
  from supervised_evidence_accepted [OF this, of demo_launch]
  show ?thesis using demo_unclaimed(1) demo_unclaimed(2) [of "[]"] by (auto split: sum.splits)
qed

text \<open>The exceptional fault happens: a user interrupts an invocation, its process exits with the
  terminal response in the session, and the adapter's own evidence is rejected.\<close>

theorem interrupted_response_rejected:
  "execute_lifecycle demo_watch_env (Run_Supervised demo_limit demo_launch (demo_events [demo_claim]) demo_closing)
     Stop_User_Interrupt demo_telemetry = Inl finalizing_fault"
  by code_simp

text \<open>An observer that raises when it is told of the stall, and a provider that falls silent.\<close>

definition failing_env :: monitor_env where
  "failing_env = demo_watch_env\<lparr>re_handler := Some (\<lambda>n a. ac_kind a \<noteq> Act_Provider_Stalled)\<rparr>"

definition silent_tick :: "rat \<Rightarrow> tick" where
  "silent_tick now = demo_tick\<lparr>tk_now := now, tk_initialization := Initialization_At (Some Chk_Current_Turn),
     tk_session := Session_Facts (Some \<lparr>sa_progress_records = 1, sa_tool_started = 0, sa_tool_completed = 0,
       sa_active_tools = 0, sa_repeating = False, sa_terminal = False, sa_started_tools = [],
       sa_completed_tools = []\<rparr>)\<rparr>"

text \<open>An observer that fails on the stall notice turns the stall into an escaping validation error: the
  monitor is stalled and degraded at once, which its evidence model forbids.\<close>

theorem unreported_stall_rejected:
  "execute_lifecycle failing_env (Run_Supervised demo_limit demo_launch
     [Poll_Expired (silent_tick 2), Poll_Expired (silent_tick 3), Poll_Expired (silent_tick 60), Poll_Expired (silent_tick 63)]
     demo_closing) Stop_Provider_Stall demo_telemetry =
   Inl (Value_Error ''degraded liveness cannot declare a provider stall'')"
  by code_simp

end
