(* ===== verification/Run_Events.thy ===== *)
theory Run_Events
  imports Run_Control Budgets Controls Invocation_Lifecycle
begin

text \<open>
  The persisted events of a run (\<open>progress.py\<close>): the kinds with their fixed metadata, references to
  evidence, the checkpoint that answers what is done, what is next and what it cost, and
  \<open>RunEvent\<close> with its validator. \<open>run_draft\<close> is the \<open>ProgressEvent\<close> a component of the
  controller hands over; \<open>event_of_draft\<close> is the event the journal makes of it.

  The \<open>presentation\<close> of an event is left out: it is excluded from the persisted form and only
  feeds the terminal.
\<close>

section \<open>Kinds and metadata\<close>

datatype (plugins only: code size) event_kind =
    Ev_Run_Started | Ev_Workspace_Ready | Ev_Agent_Queued | Ev_Agent_Ready | Ev_Agent_Started
  | Ev_Agent_Invocation_Launched | Ev_Agent_Initializing | Ev_Agent_Initialization_Progress
  | Ev_Agent_Initialization_Liveness_Degraded | Ev_Agent_Initialization_Stall_Suspected
  | Ev_Agent_Initialization_Stall_Recovered | Ev_Agent_Initialization_Stalled
  | Ev_Agent_Waiting_Provider | Ev_Agent_Provider_Activity | Ev_Agent_Tool_Active
  | Ev_Agent_Tool_Started | Ev_Agent_Tool_Completed | Ev_Agent_Finalizing_Response
  | Ev_Agent_Finalization_Progress | Ev_Agent_Finalization_Stall_Suspected
  | Ev_Agent_Finalization_Stall_Recovered | Ev_Agent_Response_Finalization_Stalled
  | Ev_Agent_Liveness_Degraded | Ev_Agent_Stall_Suspected | Ev_Agent_Stall_Recovered
  | Ev_Agent_Provider_Stalled | Ev_Agent_Stopping | Ev_Agent_Collecting_Evidence
  | Ev_Agent_Stopped | Ev_Agent_Invocation_Completed | Ev_Model_Route_Switched
  | Ev_Agent_Completed | Ev_Agent_Retry | Ev_Agent_Failed | Ev_Agent_Skipped | Ev_Agent_Paused
  | Ev_Agent_Resumed | Ev_Agent_Interrupted | Ev_Agent_Cancelled | Ev_Snapshot_Verified
  | Ev_Quality_Gates_Started | Ev_Quality_Gate_Completed | Ev_Quality_Gate_Passed
  | Ev_Quality_Gate_Failed | Ev_Decision_Recorded | Ev_Control_Received | Ev_Control_Applied
  | Ev_Control_Rejected | Ev_Run_Completed | Ev_Run_Failed | Ev_Run_Cancelled

datatype event_category = Cat_Lifecycle | Cat_Agent | Cat_Git | Cat_Quality_Gate | Cat_Decision

datatype event_visibility = Vis_Compact | Vis_Standard | Vis_Detailed

datatype agent_run_state =
    State_Queued | State_Ready | State_Running | State_Launched | State_Initializing
  | State_Waiting_Provider | State_Tool_Active | State_Finalizing_Response | State_Stopping
  | State_Collecting_Evidence | State_Stopped | State_Waiting_Dependency | State_Blocked
  | State_Paused | State_Completed | State_Waiting_Repair | State_Interrupted | State_Cancelled
  | State_Failed

datatype event_source = From_Controller | From_Agent_Safe_Summary

datatype reference_kind =
    Ref_Artifact | Ref_Handoff | Ref_Quality_Gate | Ref_Git | Ref_Budget | Ref_Model_Route
  | Ref_Control_Command

text \<open>\<open>_EVENT_METADATA\<close>, one row per kind.\<close>

fun agent_row :: "event_visibility \<Rightarrow> agent_run_state \<Rightarrow>
    event_category \<times> event_visibility \<times> agent_run_state option" where
  "agent_row v s = (Cat_Agent, v, Some s)"

fun event_metadata ::
    "event_kind \<Rightarrow> event_category \<times> event_visibility \<times> agent_run_state option" where
  "event_metadata Ev_Run_Started = (Cat_Lifecycle, Vis_Compact, None)"
| "event_metadata Ev_Workspace_Ready = (Cat_Lifecycle, Vis_Standard, None)"
| "event_metadata Ev_Agent_Queued = agent_row Vis_Standard State_Queued"
| "event_metadata Ev_Agent_Ready = agent_row Vis_Standard State_Ready"
| "event_metadata Ev_Agent_Started = agent_row Vis_Standard State_Running"
| "event_metadata Ev_Agent_Invocation_Launched = agent_row Vis_Standard State_Launched"
| "event_metadata Ev_Agent_Initializing = agent_row Vis_Standard State_Initializing"
| "event_metadata Ev_Agent_Initialization_Progress = agent_row Vis_Detailed State_Initializing"
| "event_metadata Ev_Agent_Initialization_Liveness_Degraded = agent_row Vis_Compact State_Initializing"
| "event_metadata Ev_Agent_Initialization_Stall_Suspected = agent_row Vis_Compact State_Initializing"
| "event_metadata Ev_Agent_Initialization_Stall_Recovered = agent_row Vis_Standard State_Initializing"
| "event_metadata Ev_Agent_Initialization_Stalled = agent_row Vis_Compact State_Initializing"
| "event_metadata Ev_Agent_Waiting_Provider = agent_row Vis_Standard State_Waiting_Provider"
| "event_metadata Ev_Agent_Provider_Activity = agent_row Vis_Detailed State_Waiting_Provider"
| "event_metadata Ev_Agent_Tool_Active = agent_row Vis_Standard State_Tool_Active"
| "event_metadata Ev_Agent_Tool_Started = agent_row Vis_Standard State_Running"
| "event_metadata Ev_Agent_Tool_Completed = agent_row Vis_Standard State_Running"
| "event_metadata Ev_Agent_Finalizing_Response = agent_row Vis_Standard State_Finalizing_Response"
| "event_metadata Ev_Agent_Finalization_Progress = agent_row Vis_Detailed State_Finalizing_Response"
| "event_metadata Ev_Agent_Finalization_Stall_Suspected = agent_row Vis_Compact State_Finalizing_Response"
| "event_metadata Ev_Agent_Finalization_Stall_Recovered = agent_row Vis_Standard State_Finalizing_Response"
| "event_metadata Ev_Agent_Response_Finalization_Stalled = agent_row Vis_Compact State_Finalizing_Response"
| "event_metadata Ev_Agent_Liveness_Degraded = agent_row Vis_Compact State_Waiting_Provider"
| "event_metadata Ev_Agent_Stall_Suspected = agent_row Vis_Compact State_Waiting_Provider"
| "event_metadata Ev_Agent_Stall_Recovered = agent_row Vis_Standard State_Waiting_Provider"
| "event_metadata Ev_Agent_Provider_Stalled = agent_row Vis_Compact State_Waiting_Provider"
| "event_metadata Ev_Agent_Stopping = agent_row Vis_Compact State_Stopping"
| "event_metadata Ev_Agent_Collecting_Evidence = agent_row Vis_Compact State_Collecting_Evidence"
| "event_metadata Ev_Agent_Stopped = agent_row Vis_Compact State_Stopped"
| "event_metadata Ev_Agent_Invocation_Completed = agent_row Vis_Standard State_Running"
| "event_metadata Ev_Model_Route_Switched = agent_row Vis_Compact State_Waiting_Provider"
| "event_metadata Ev_Agent_Completed = agent_row Vis_Standard State_Completed"
| "event_metadata Ev_Agent_Retry = agent_row Vis_Compact State_Waiting_Repair"
| "event_metadata Ev_Agent_Failed = agent_row Vis_Compact State_Failed"
| "event_metadata Ev_Agent_Skipped = agent_row Vis_Standard State_Blocked"
| "event_metadata Ev_Agent_Paused = agent_row Vis_Standard State_Paused"
| "event_metadata Ev_Agent_Resumed = agent_row Vis_Standard State_Waiting_Dependency"
| "event_metadata Ev_Agent_Interrupted = agent_row Vis_Compact State_Interrupted"
| "event_metadata Ev_Agent_Cancelled = agent_row Vis_Standard State_Cancelled"
| "event_metadata Ev_Snapshot_Verified = (Cat_Git, Vis_Standard, None)"
| "event_metadata Ev_Quality_Gates_Started = (Cat_Quality_Gate, Vis_Standard, None)"
| "event_metadata Ev_Quality_Gate_Completed = (Cat_Quality_Gate, Vis_Standard, None)"
| "event_metadata Ev_Quality_Gate_Passed = (Cat_Quality_Gate, Vis_Standard, None)"
| "event_metadata Ev_Quality_Gate_Failed = (Cat_Quality_Gate, Vis_Standard, None)"
| "event_metadata Ev_Decision_Recorded = (Cat_Decision, Vis_Compact, None)"
| "event_metadata Ev_Control_Received = (Cat_Decision, Vis_Compact, None)"
| "event_metadata Ev_Control_Applied = (Cat_Decision, Vis_Compact, None)"
| "event_metadata Ev_Control_Rejected = (Cat_Decision, Vis_Compact, None)"
| "event_metadata Ev_Run_Completed = (Cat_Lifecycle, Vis_Compact, None)"
| "event_metadata Ev_Run_Failed = (Cat_Lifecycle, Vis_Compact, None)"
| "event_metadata Ev_Run_Cancelled = (Cat_Lifecycle, Vis_Compact, None)"

text \<open>\<open>_ATTEMPT_EVENT_KINDS\<close>, \<open>_INVOCATION_EVENT_KINDS\<close> and \<open>_RUN_EVENT_SCHEMA_FOUR_KINDS\<close>.\<close>

definition schema_four_kinds :: "event_kind list" where
  "schema_four_kinds =
     [Ev_Agent_Finalizing_Response, Ev_Agent_Finalization_Progress,
      Ev_Agent_Finalization_Stall_Suspected, Ev_Agent_Finalization_Stall_Recovered,
      Ev_Agent_Response_Finalization_Stalled]"

definition attempt_kinds :: "event_kind list" where
  "attempt_kinds =
     [Ev_Agent_Started, Ev_Agent_Invocation_Launched, Ev_Agent_Initializing,
      Ev_Agent_Initialization_Progress, Ev_Agent_Initialization_Liveness_Degraded,
      Ev_Agent_Initialization_Stall_Suspected, Ev_Agent_Initialization_Stall_Recovered,
      Ev_Agent_Initialization_Stalled, Ev_Agent_Waiting_Provider, Ev_Agent_Provider_Activity,
      Ev_Agent_Tool_Active, Ev_Agent_Tool_Started, Ev_Agent_Tool_Completed,
      Ev_Agent_Finalizing_Response, Ev_Agent_Finalization_Progress,
      Ev_Agent_Finalization_Stall_Suspected, Ev_Agent_Finalization_Stall_Recovered,
      Ev_Agent_Response_Finalization_Stalled, Ev_Agent_Liveness_Degraded,
      Ev_Agent_Stall_Suspected, Ev_Agent_Stall_Recovered, Ev_Agent_Provider_Stalled,
      Ev_Agent_Stopping, Ev_Agent_Collecting_Evidence, Ev_Agent_Stopped,
      Ev_Agent_Invocation_Completed, Ev_Model_Route_Switched, Ev_Agent_Completed,
      Ev_Agent_Retry, Ev_Agent_Failed, Ev_Agent_Interrupted]"

definition invocation_kinds :: "event_kind list" where
  "invocation_kinds = filter (\<lambda>k. k \<notin> {Ev_Agent_Started, Ev_Agent_Completed, Ev_Agent_Retry,
     Ev_Agent_Failed, Ev_Agent_Interrupted, Ev_Model_Route_Switched}) attempt_kinds"

text \<open>\<open>AgentRunState(phase.value)\<close>, with the provider wait under its own name.\<close>

fun phase_state :: "invocation_phase \<Rightarrow> agent_run_state" where
  "phase_state Inv_Launched = State_Launched"
| "phase_state Inv_Initializing = State_Initializing"
| "phase_state Inv_Provider_Wait = State_Waiting_Provider"
| "phase_state Inv_Tool_Active = State_Tool_Active"
| "phase_state Inv_Finalizing_Response = State_Finalizing_Response"
| "phase_state Inv_Stopping = State_Stopping"
| "phase_state Inv_Collecting_Evidence = State_Collecting_Evidence"
| "phase_state Inv_Stopped = State_Stopped"

section \<open>References\<close>

definition one_safe_line :: "string \<Rightarrow> fault + string" where
  "one_safe_line s =
     (let t = py_strip s in
      if t = [] then Inl (Value_Error ''RunEvent summaries must not be blank'')
      else if CHR 0x0A \<in> set t \<or> CHR 0x0D \<in> set t \<or> CHR 0x00 \<in> set t
      then Inl (Value_Error ''RunEvent summaries must be one safe line'')
      else Inr t)"

text \<open>A canonical relative path: what \<open>PurePosixPath\<close> prints is the text itself.\<close>

definition canonical_relative :: "string \<Rightarrow> bool" where
  "canonical_relative s \<longleftrightarrow>
     s \<noteq> [] \<and> CHR 0x5C \<notin> set s \<and> safe_relative s \<and> posix_str s = s"

record run_reference =
  rf_kind :: reference_kind
  rf_id :: string
  rf_path :: "string option"
  rf_sha256 :: "string option"

definition mk_run_reference :: "run_reference \<Rightarrow> fault + run_reference" where
  "mk_run_reference r = ebind (first_error
     [(rf_id r = [] \<or> 120 < length (rf_id r), Field_Invalid ''id''),
      (py_strip (rf_id r) = [], Value_Error ''RunEvent reference IDs must not be blank''),
      (\<not> opt_all (\<lambda>p. length p \<le> 300) (rf_path r), Field_Invalid ''path''),
      (\<not> opt_all (\<lambda>p. canonical_relative (py_strip p)) (rf_path r),
        Value_Error ''RunEvent reference paths must be canonical and relative''),
      (\<not> opt_all sha256_pattern (rf_sha256 r), Field_Invalid ''sha256'')])
     (\<lambda>_. Inr (r\<lparr>rf_id := py_strip (rf_id r), rf_path := map_option py_strip (rf_path r)\<rparr>))"

section \<open>Checkpoints\<close>

datatype git_progress = Git_Not_Applicable | Git_Verified | Git_Working | Git_Changed

datatype gate_progress = Gate_Not_Started | Gate_Running | Gate_Passed | Gate_Failed

datatype review_progress =
    Review_Not_Applicable | Review_Not_Started | Review_Running | Review_Accepted
  | Review_Changes_Requested | Review_Blocked

datatype coverage_state = Coverage_Not_Applicable | Coverage_Unverified | Coverage_Grounded

datatype accounting_state = Accounting_Settled | Accounting_Active | Accounting_Incomplete

record checkpoint_snapshot =
  ck_task_ids :: "string list"
  ck_phase :: invocation_phase
  ck_last_verified :: string
  ck_next :: string
  ck_completed_tools :: int
  ck_git :: git_progress
  ck_gate :: gate_progress
  ck_review :: review_progress
  ck_criterion_ids :: "string list"
  ck_coverage :: coverage_state
  ck_known_cost :: rat
  ck_authorized_cost :: rat
  ck_remaining_cost :: rat
  ck_reserved_cost :: rat
  ck_accounting :: accounting_state
  ck_unsettled_calls :: int

text \<open>\<open>[A-Z][A-Z0-9_]*\<close>.\<close>

definition criterion_pattern :: "string \<Rightarrow> bool" where
  "criterion_pattern s \<longleftrightarrow> upper_id_pattern s \<and> CHR ''-'' \<notin> set s"

definition checkpoint_fields :: "checkpoint_snapshot \<Rightarrow> fault + unit" where
  "checkpoint_fields c = first_error
     [(\<not> distinct (ck_task_ids c) \<or> \<not> list_all (prefixed_id_pattern ''TASK_'') (ck_task_ids c),
        Value_Error ''checkpoint task IDs must be unique canonical IDs''),
      (ck_last_verified c = [] \<or> 300 < length (ck_last_verified c), Field_Invalid ''last_verified_checkpoint''),
      (ck_next c = [] \<or> 300 < length (ck_next c), Field_Invalid ''next_controller_checkpoint''),
      (ck_completed_tools c < 0, Field_Invalid ''completed_tool_operations''),
      (\<not> distinct (ck_criterion_ids c) \<or> \<not> list_all criterion_pattern (ck_criterion_ids c),
        Value_Error ''checkpoint review criteria must be unique canonical IDs''),
      (ck_known_cost c < 0, Field_Invalid ''known_estimated_cost_usd''),
      (ck_authorized_cost c \<le> 0, Field_Invalid ''authorized_cost_usd''),
      (ck_remaining_cost c < 0, Field_Invalid ''remaining_estimated_cost_usd''),
      (ck_reserved_cost c < 0, Field_Invalid ''active_reserved_cost_usd''),
      (ck_unsettled_calls c < 0, Field_Invalid ''unsettled_model_calls'')]"

text \<open>\<open>validate_cost_snapshot\<close>: the remainder is recomputed in decimal arithmetic.\<close>

definition expected_remaining :: "checkpoint_snapshot \<Rightarrow> rat" where
  "expected_remaining c =
     max 0 (dec_sub (dec_sub (ck_authorized_cost c) (ck_known_cost c)) (ck_reserved_cost c))"

definition check_checkpoint :: "checkpoint_snapshot \<Rightarrow> fault + unit" where
  "check_checkpoint c = first_error
     [(ck_remaining_cost c \<noteq> expected_remaining c,
        Value_Error ''checkpoint remaining cost must match known and reserved task spend''),
      (ck_coverage c = Coverage_Not_Applicable \<and> ck_criterion_ids c \<noteq> [],
        Value_Error ''non-Review checkpoints cannot claim criterion coverage''),
      (ck_coverage c \<noteq> Coverage_Not_Applicable \<and> ck_criterion_ids c = [],
        Value_Error ''Review coverage requires assigned criterion IDs''),
      (ck_accounting c = Accounting_Active \<and> ck_unsettled_calls c < 1,
        Value_Error ''active cost accounting requires an unsettled call''),
      (ck_accounting c \<noteq> Accounting_Active \<and> ck_unsettled_calls c \<noteq> 0,
        Value_Error ''only active cost accounting may contain unsettled calls''),
      (ck_unsettled_calls c = 0 \<and> ck_reserved_cost c \<noteq> 0,
        Value_Error ''settled checkpoint cannot retain a call reservation'')]"

definition mk_checkpoint :: "checkpoint_snapshot \<Rightarrow> fault + checkpoint_snapshot" where
  "mk_checkpoint c =
     ebind (checkpoint_fields c) (\<lambda>_.
     ebind (one_safe_line (ck_last_verified c)) (\<lambda>last_verified.
     ebind (one_safe_line (ck_next c)) (\<lambda>next_one.
     let d = c\<lparr>ck_last_verified := last_verified, ck_next := next_one\<rparr>
     in ebind (check_checkpoint d) (\<lambda>_. Inr d))))"

section \<open>Events\<close>

text \<open>\<open>_current_agent_state\<close>: during an invocation the checkpoint, not the kind, says what the
  Agent does.\<close>

definition current_agent_state ::
    "event_kind \<Rightarrow> checkpoint_snapshot option \<Rightarrow> agent_run_state option" where
  "current_agent_state kind checkpoint =
     (case checkpoint of
        Some c \<Rightarrow>
          if kind \<in> set invocation_kinds then Some (phase_state (ck_phase c))
          else snd (snd (event_metadata kind))
      | None \<Rightarrow> snd (snd (event_metadata kind)))"

record run_event =
  re_schema_version :: int
  re_run_id :: string
  re_sequence :: int
  re_occurred_at :: int
  re_lifecycle_revision :: int
  re_kind :: event_kind
  re_category :: event_category
  re_visibility :: event_visibility
  re_source :: event_source
  re_summary :: string
  re_phase :: run_phase
  re_agent_id :: "string option"
  re_agent_state :: "agent_run_state option"
  re_iteration :: "int option"
  re_attempt :: "int option"
  re_duration_ms :: "int option"
  re_capability :: "string option"
  re_specialization :: "string option"
  re_stage_id :: "string option"
  re_model :: "string option"
  re_dependency_ids :: "string list"
  re_budget_usage :: "budget_usage option"
  re_checkpoint :: "checkpoint_snapshot option"
  re_completed :: "int option"
  re_total :: "int option"
  re_changed_files :: "string list"
  re_decision :: "iteration_decision option"
  re_references :: "run_reference list"
  re_control_command_id :: "string option"
  re_previous :: "string option"

text \<open>The field constraints and the field validators.\<close>

definition event_fields :: "run_event \<Rightarrow> fault + unit" where
  "event_fields v = first_error
     [(re_schema_version v < 2 \<or> 6 < re_schema_version v, Field_Invalid ''schema_version''),
      (\<not> run_id_pattern (re_run_id v), Field_Invalid ''run_id''),
      (re_sequence v < 1, Field_Invalid ''sequence''),
      (re_lifecycle_revision v < 0, Field_Invalid ''lifecycle_revision''),
      (re_summary v = [] \<or> 500 < length (re_summary v), Field_Invalid ''summary''),
      (\<not> opt_all ident_pattern (re_agent_id v), Field_Invalid ''agent_id''),
      (\<not> opt_all (\<lambda>n. 1 \<le> n) (re_iteration v), Field_Invalid ''iteration''),
      (\<not> opt_all (\<lambda>n. 1 \<le> n) (re_attempt v), Field_Invalid ''attempt''),
      (\<not> opt_all (\<lambda>n. 0 \<le> n) (re_duration_ms v), Field_Invalid ''duration_ms''),
      (\<not> opt_all ident_pattern (re_capability v), Field_Invalid ''capability''),
      (\<not> opt_all ident_pattern (re_specialization v), Field_Invalid ''specialization''),
      (\<not> opt_all ident_pattern (re_stage_id v), Field_Invalid ''stage_id''),
      (\<not> opt_all (\<lambda>m. m \<noteq> [] \<and> length m \<le> 300) (re_model v), Field_Invalid ''model''),
      (\<not> opt_all (\<lambda>m. py_strip m \<noteq> []) (re_model v), Value_Error ''RunEvent model must not be blank''),
      (\<not> distinct (re_dependency_ids v) \<or> \<not> list_all ident_pattern (re_dependency_ids v),
        Value_Error ''RunEvent dependencies must be unique Agent IDs''),
      (\<not> opt_all (\<lambda>n. 0 \<le> n) (re_completed v), Field_Invalid ''completed''),
      (\<not> opt_all (\<lambda>n. 1 \<le> n) (re_total v), Field_Invalid ''total''),
      (\<not> distinct (re_changed_files v), Value_Error ''RunEvent changed files must be unique''),
      (\<not> list_all canonical_relative (re_changed_files v),
        Value_Error ''RunEvent changed files must be canonical and relative''),
      (\<not> opt_all ctl_id_pattern (re_control_command_id v), Field_Invalid ''control_command_id''),
      (\<not> opt_all sha256_pattern (re_previous v), Field_Invalid ''previous_event_sha256'')]"

text \<open>\<open>validate_event\<close>: the metadata of the kind, then what an Agent event must and another event
  must not claim, then the fields that belong to particular kinds, then the chain.\<close>

definition required_agent_state :: "run_event \<Rightarrow> agent_run_state option" where
  "required_agent_state v =
     (if 5 \<le> re_schema_version v then current_agent_state (re_kind v) (re_checkpoint v)
      else snd (snd (event_metadata (re_kind v))))"

definition check_metadata :: "run_event \<Rightarrow> fault + unit" where
  "check_metadata v = first_error
     [(re_schema_version v < 4 \<and> re_kind v \<in> set schema_four_kinds,
        Value_Error ''legacy RunEvents cannot contain response-finalization state''),
      (re_category v \<noteq> fst (event_metadata (re_kind v)),
        Value_Error ''RunEvent category does not match its kind''),
      (re_visibility v \<noteq> fst (snd (event_metadata (re_kind v))),
        Value_Error ''RunEvent visibility does not match its kind''),
      (re_agent_state v \<noteq> required_agent_state v,
        Value_Error ''RunEvent Agent state does not match its authority'')]"

definition no_agent_claims :: "run_event \<Rightarrow> bool" where
  "no_agent_claims v \<longleftrightarrow>
     re_agent_id v = None \<and> re_attempt v = None \<and> re_capability v = None \<and>
     re_specialization v = None \<and> re_stage_id v = None \<and> re_model v = None \<and>
     re_dependency_ids v = [] \<and> re_budget_usage v = None"

definition check_agent_claims :: "run_event \<Rightarrow> fault + unit" where
  "check_agent_claims v =
     (if required_agent_state v \<noteq> None
      then first_error
        [(re_agent_id v = None, Value_Error ''Agent events require an Agent ID''),
         ((re_kind v \<in> set attempt_kinds) \<noteq> (re_attempt v \<noteq> None),
           Value_Error ''RunEvent attempt does not match its Agent event kind''),
         (6 \<le> re_schema_version v \<and> (re_capability v = None) \<noteq> (re_specialization v = None),
           Value_Error ''current Agent events must pair capability and specialization'')]
      else first_error
        [(\<not> no_agent_claims v,
           Value_Error ''non-Agent events cannot claim Agent execution metadata'')])"

definition control_kinds :: "event_kind list" where
  "control_kinds = [Ev_Control_Received, Ev_Control_Applied, Ev_Control_Rejected]"

definition gate_kinds :: "event_kind list" where
  "gate_kinds = [Ev_Quality_Gate_Completed, Ev_Quality_Gate_Passed, Ev_Quality_Gate_Failed]"

definition check_kind_fields :: "run_event \<Rightarrow> fault + unit" where
  "check_kind_fields v = first_error
     [(re_budget_usage v \<noteq> None \<and> re_kind v \<noteq> Ev_Agent_Invocation_Completed,
        Value_Error ''only completed invocations record budget usage''),
      (re_checkpoint v \<noteq> None \<and> re_agent_id v = None,
        Value_Error ''checkpoint snapshots require an Agent event''),
      (re_checkpoint v \<noteq> None \<and> re_schema_version v < 3,
        Value_Error ''legacy RunEvents cannot contain checkpoint snapshots''),
      ((re_kind v \<in> set control_kinds) \<noteq> (re_control_command_id v \<noteq> None),
        Value_Error ''RunEvent control identity does not match its kind''),
      ((re_completed v = None) \<noteq> (re_total v = None),
        Value_Error ''RunEvent gate progress requires completed and total''),
      (\<not> opt_all (\<lambda>n. opt_all (\<lambda>t. n \<le> t) (re_total v)) (re_completed v),
        Value_Error ''RunEvent completed count cannot exceed its total''),
      (re_kind v \<in> set gate_kinds \<and> re_completed v = None,
        Value_Error ''completed quality gates require progress counts''),
      (re_kind v \<notin> set gate_kinds \<and> re_completed v \<noteq> None,
        Value_Error ''only completed quality gates record progress counts''),
      (re_kind v = Ev_Decision_Recorded \<and> re_decision v = None,
        Value_Error ''decision events require a controller decision''),
      (re_kind v \<noteq> Ev_Decision_Recorded \<and> re_decision v \<noteq> None,
        Value_Error ''only decision events record a controller decision'')]"

definition reference_key :: "run_reference \<Rightarrow> reference_kind \<times> string \<times> string option" where
  "reference_key r = (rf_kind r, rf_id r, rf_path r)"

definition check_chain_fields :: "run_event \<Rightarrow> fault + unit" where
  "check_chain_fields v = first_error
     [(re_sequence v = 1 \<and> re_previous v \<noteq> None,
        Value_Error ''the first RunEvent cannot reference a predecessor''),
      (1 < re_sequence v \<and> re_previous v = None,
        Value_Error ''later RunEvents require a predecessor digest''),
      (\<not> distinct (map reference_key (re_references v)),
        Value_Error ''RunEvent references must be unique'')]"

definition check_event :: "run_event \<Rightarrow> fault + unit" where
  "check_event v =
     ebind (check_metadata v) (\<lambda>_. ebind (check_agent_claims v) (\<lambda>_.
     ebind (check_kind_fields v) (\<lambda>_. check_chain_fields v)))"

text \<open>The embedded models are validated with the event that holds them.\<close>

definition mk_opt :: "('a \<Rightarrow> fault + 'a) \<Rightarrow> 'a option \<Rightarrow> fault + 'a option" where
  "mk_opt f v = (case v of None \<Rightarrow> Inr None | Some x \<Rightarrow> ebind (f x) (\<lambda>y. Inr (Some y)))"

definition mk_usage :: "budget_usage \<Rightarrow> fault + budget_usage" where
  "mk_usage u = ebind (validate_usage u) (\<lambda>_. Inr u)"

definition mk_event :: "run_event \<Rightarrow> fault + run_event" where
  "mk_event v =
     ebind (event_fields v) (\<lambda>_.
     ebind (one_safe_line (re_summary v)) (\<lambda>summary.
     ebind (mk_opt mk_usage (re_budget_usage v)) (\<lambda>usage.
     ebind (mk_opt mk_checkpoint (re_checkpoint v)) (\<lambda>checkpoint.
     ebind (emap mk_run_reference (re_references v)) (\<lambda>references.
     let u = v\<lparr>re_summary := summary, re_model := map_option py_strip (re_model v),
               re_budget_usage := usage, re_checkpoint := checkpoint, re_references := references\<rparr>
     in ebind (check_event u) (\<lambda>_. Inr u))))))"

definition event_ok :: "run_event \<Rightarrow> bool" where
  "event_ok v \<longleftrightarrow> mk_event v = Inr v"

section \<open>Drafts\<close>

text \<open>\<open>ProgressEvent\<close>.\<close>

record run_draft =
  dr_kind :: event_kind
  dr_message :: string
  dr_phase :: "run_phase option"
  dr_agent_id :: "string option"
  dr_iteration :: "int option"
  dr_attempt :: "int option"
  dr_duration_ms :: "int option"
  dr_capability :: "string option"
  dr_specialization :: "string option"
  dr_stage_id :: "string option"
  dr_model :: "string option"
  dr_dependency_ids :: "string list"
  dr_budget_usage :: "budget_usage option"
  dr_checkpoint :: "checkpoint_snapshot option"
  dr_completed :: "int option"
  dr_total :: "int option"
  dr_changed_files :: "string list"
  dr_decision :: "iteration_decision option"
  dr_references :: "run_reference list"
  dr_control_command_id :: "string option"
  dr_source :: event_source

text \<open>A draft with a kind and a message, everything else left at its default.\<close>

definition plain_draft :: "event_kind \<Rightarrow> string \<Rightarrow> run_draft" where
  "plain_draft kind message =
     \<lparr>dr_kind = kind, dr_message = message, dr_phase = None, dr_agent_id = None,
      dr_iteration = None, dr_attempt = None, dr_duration_ms = None, dr_capability = None,
      dr_specialization = None, dr_stage_id = None, dr_model = None, dr_dependency_ids = [],
      dr_budget_usage = None, dr_checkpoint = None, dr_completed = None, dr_total = None,
      dr_changed_files = [], dr_decision = None, dr_references = [],
      dr_control_command_id = None, dr_source = From_Controller\<rparr>"

text \<open>The event \<open>append\<close> builds from a draft.\<close>

definition event_of_draft ::
    "string \<Rightarrow> int \<Rightarrow> int \<Rightarrow> int \<Rightarrow> run_phase \<Rightarrow> string option \<Rightarrow> run_draft \<Rightarrow> run_event" where
  "event_of_draft run_id sequence occurred_at lifecycle_revision phase previous d =
     \<lparr>re_schema_version = 6, re_run_id = run_id, re_sequence = sequence,
      re_occurred_at = occurred_at, re_lifecycle_revision = lifecycle_revision,
      re_kind = dr_kind d, re_category = fst (event_metadata (dr_kind d)),
      re_visibility = fst (snd (event_metadata (dr_kind d))), re_source = dr_source d,
      re_summary = dr_message d, re_phase = the_or (dr_phase d) phase,
      re_agent_id = dr_agent_id d,
      re_agent_state = current_agent_state (dr_kind d) (dr_checkpoint d),
      re_iteration = dr_iteration d, re_attempt = dr_attempt d,
      re_duration_ms = dr_duration_ms d, re_capability = dr_capability d,
      re_specialization = dr_specialization d, re_stage_id = dr_stage_id d,
      re_model = dr_model d, re_dependency_ids = dr_dependency_ids d,
      re_budget_usage = dr_budget_usage d, re_checkpoint = dr_checkpoint d,
      re_completed = dr_completed d, re_total = dr_total d,
      re_changed_files = dr_changed_files d, re_decision = dr_decision d,
      re_references = dr_references d, re_control_command_id = dr_control_command_id d,
      re_previous = previous\<rparr>"

section \<open>The validator accepts what it returns\<close>

lemma one_safe_line_Inr:
  "one_safe_line s = Inr t \<Longrightarrow> t \<noteq> [] \<and> t = py_strip s \<and> one_safe_line t = Inr t"
  by (auto simp: one_safe_line_def Let_def split: if_splits)

lemma strip_within [simp]:
  "length s \<le> n \<Longrightarrow> length (py_strip s) \<le> n" "length s \<le> n \<Longrightarrow> \<not> n < length (py_strip s)"
  using length_py_strip [of s] by auto

lemma mk_run_reference_idem: "mk_run_reference r = Inr s \<Longrightarrow> mk_run_reference s = Inr s"
  by (cases "rf_path r") (auto simp: mk_run_reference_def err_simps)

lemma mk_checkpoint_idem: "mk_checkpoint c = Inr d \<Longrightarrow> mk_checkpoint d = Inr d"
proof -
  assume "mk_checkpoint c = Inr d"
  then obtain l n where parts: "checkpoint_fields c = Inr ()" "one_safe_line (ck_last_verified c) = Inr l"
    "one_safe_line (ck_next c) = Inr n" "check_checkpoint d = Inr ()"
    "d = c\<lparr>ck_last_verified := l, ck_next := n\<rparr>"
    unfolding mk_checkpoint_def Let_def ebind_eq_Inr by (elim exE conjE) simp
  have lines: "l \<noteq> []" "n \<noteq> []" "l = py_strip (ck_last_verified c)" "n = py_strip (ck_next c)"
      "one_safe_line l = Inr l" "one_safe_line n = Inr n"
    using one_safe_line_Inr [OF parts(2)] one_safe_line_Inr [OF parts(3)] by blast+
  have "checkpoint_fields d = Inr ()"
    using parts(1) lines(1-4) unfolding parts(5) by (simp add: checkpoint_fields_def)
  then show ?thesis
    using parts(4) lines(5,6) unfolding mk_checkpoint_def by (simp add: parts(5))
qed

lemma mk_opt_idem:
  "(\<And>x y. f x = Inr y \<Longrightarrow> f y = Inr y) \<Longrightarrow> mk_opt f v = Inr w \<Longrightarrow> mk_opt f w = Inr w"
  by (cases v) (auto simp: mk_opt_def ebind_eq_Inr)

lemma emap_idem:
  "(\<And>x y. f x = Inr y \<Longrightarrow> f y = Inr y) \<Longrightarrow> emap f xs = Inr ys \<Longrightarrow> emap f ys = Inr ys"
  by (induction xs arbitrary: ys) (auto simp: ebind_eq_Inr)

lemma mk_usage_idem: "mk_usage u = Inr w \<Longrightarrow> mk_usage w = Inr w"
  by (auto simp: mk_usage_def ebind_eq_Inr)

lemma mk_event_Inr:
  assumes "mk_event v = Inr u"
  obtains summary usage checkpoint references where
    "event_fields v = Inr ()" "one_safe_line (re_summary v) = Inr summary"
    "mk_opt mk_usage (re_budget_usage v) = Inr usage"
    "mk_opt mk_checkpoint (re_checkpoint v) = Inr checkpoint"
    "emap mk_run_reference (re_references v) = Inr references"
    "u = v\<lparr>re_summary := summary, re_model := map_option py_strip (re_model v),
           re_budget_usage := usage, re_checkpoint := checkpoint, re_references := references\<rparr>"
    "check_event u = Inr ()"
  using assms by (auto simp: mk_event_def Let_def ebind_eq_Inr)

text \<open>The fields the validator leaves alone.\<close>

lemma mk_event_frame:
  assumes "mk_event v = Inr u"
  shows "re_run_id u = re_run_id v" "re_sequence u = re_sequence v"
    "re_occurred_at u = re_occurred_at v" "re_lifecycle_revision u = re_lifecycle_revision v"
    "re_previous u = re_previous v" "re_kind u = re_kind v" "re_phase u = re_phase v"
  using assms by (elim mk_event_Inr; simp)+

lemma mk_event_idem:
  assumes "mk_event v = Inr u"
  shows "event_ok u"
proof -
  obtain summary usage checkpoint references where parts:
    "event_fields v = Inr ()" "one_safe_line (re_summary v) = Inr summary"
    "mk_opt mk_usage (re_budget_usage v) = Inr usage"
    "mk_opt mk_checkpoint (re_checkpoint v) = Inr checkpoint"
    "emap mk_run_reference (re_references v) = Inr references"
    "u = v\<lparr>re_summary := summary, re_model := map_option py_strip (re_model v),
           re_budget_usage := usage, re_checkpoint := checkpoint, re_references := references\<rparr>"
    "check_event u = Inr ()"
    using assms by (rule mk_event_Inr)
  have summary: "summary \<noteq> []" "summary = py_strip (re_summary v)" "one_safe_line summary = Inr summary"
    using one_safe_line_Inr [OF parts(2)] by blast+
  have "event_fields u = Inr ()"
    using parts(1) summary(1,2) unfolding parts(6) event_fields_def first_error_Inr
    by (cases "re_model v") simp_all
  moreover have "mk_opt mk_usage usage = Inr usage" "mk_opt mk_checkpoint checkpoint = Inr checkpoint"
      "emap mk_run_reference references = Inr references"
    by (rule mk_opt_idem [where f = mk_usage, OF mk_usage_idem parts(3)]
        mk_opt_idem [where f = mk_checkpoint, OF mk_checkpoint_idem parts(4)]
        emap_idem [where f = mk_run_reference, OF mk_run_reference_idem parts(5)]; assumption?)+
  moreover have "map_option py_strip (map_option py_strip m) = map_option py_strip m" for m
    by (cases m) simp_all
  ultimately show ?thesis
    using parts(7) summary(3) unfolding event_ok_def mk_event_def by (simp add: parts(6))
qed

end
