(* ===== verification/Event_Journal.thy ===== *)
theory Event_Journal
  imports Run_Events Schedule_Models
begin

text \<open>
  \<open>RunEventJournal\<close> of \<open>progress.py\<close>: the append-only, hash-chained event files of one run. The
  events directory is a list of named files (a name maps to a stored event, to a file that is not
  readable as one, or to something that is no plain file); the anchor is what the controller keeps
  about the journal in the run record, behind the two callbacks \<open>anchor_writer\<close> and
  \<open>anchor_reader\<close>: a state of any type \<open>'w\<close> with an operation that may raise. The clock, the digest,
  the disk and the renderer are arguments. The lock makes \<open>append\<close> and \<open>load\<close> single steps.

  A write goes through a hidden temporary file, which every reader skips, so it either leaves
  nothing (\<open>Write_Failed\<close>), or the complete file, or the complete file with an error of the
  directory synchronisation after the rename (\<open>Sync_Failed\<close>).
\<close>

section \<open>The journal\<close>

datatype event_file = Event_File run_event | Unreadable_Event | Not_An_Event_File

record journal =
  jr_run_id :: string
  jr_files :: "(string \<times> event_file) list"
  jr_render_errors :: "string list"

datatype journal_error =
    Journal_Error string | Journal_Invalid fault | Journal_Os string | Anchor_Raised run_error

datatype write_outcome = Written | Write_Failed string | Sync_Failed string

record 'w anchor =
  an_write :: "run_event \<Rightarrow> 'w \<Rightarrow> 'w \<times> run_error option"
  an_read :: "'w \<Rightarrow> run_error + (int \<times> string option)"

record 'w journal_env =
  jn_digest :: "run_event \<Rightarrow> string"
  jn_clock :: datetime
  jn_disk :: "run_event \<Rightarrow> write_outcome"
  jn_anchor :: "'w anchor option"
  jn_handler :: "(run_event \<Rightarrow> (string \<times> string) option) option"

datatype path_state = Directory_Here | Link_Here | File_Here | Nothing_Here

definition open_journal ::
    "path_state \<Rightarrow> path_state \<Rightarrow> bool \<Rightarrow> bool \<Rightarrow> string \<Rightarrow> (string \<times> event_file) list \<Rightarrow>
     journal_error + journal" where
  "open_journal run_directory events_directory has_writer has_reader run_id files =
     ebind (first_error
       [(run_directory \<noteq> Directory_Here,
          Journal_Error ''RunEvent journal requires an existing run directory''),
        (has_writer \<noteq> has_reader,
          Journal_Error ''RunEvent anchoring requires both read and write sides''),
        (events_directory = Link_Here, Journal_Error ''RunEvent directory cannot be a symbolic link''),
        (events_directory = File_Here, Journal_Os ''FileExistsError'')])
     (\<lambda>_. Inr \<lparr>jr_run_id = run_id,
       jr_files = (if events_directory = Directory_Here then files else []),
       jr_render_errors = []\<rparr>)"

section \<open>Loading\<close>

definition visible_files :: "journal \<Rightarrow> (string \<times> event_file) list" where
  "visible_files j = filter (\<lambda>(name, _). \<not> hidden name) (jr_files j)"

definition load_event ::
    "(run_event \<Rightarrow> string) \<Rightarrow> string \<Rightarrow> string \<times> event_file \<Rightarrow> run_event list \<Rightarrow>
     journal_error + run_event list" where
  "load_event digest run_id entry events =
     (let expected = length events + 1; previous = last_opt events in
      case number_of_name (fst entry) of
        None \<Rightarrow> Inl (Journal_Error ''RunEvent journal contains an invalid entry'')
      | Some n \<Rightarrow>
          if snd entry = Not_An_Event_File
          then Inl (Journal_Error ''RunEvent journal contains an invalid entry'')
          else if n \<noteq> expected
          then Inl (Journal_Error ''RunEvent filenames must form a contiguous sequence'')
          else case snd entry of
            Event_File stored \<Rightarrow>
              (case mk_event stored of
                 Inl _ \<Rightarrow> Inl (Journal_Error ''RunEvent journal contains invalid JSON'')
               | Inr v \<Rightarrow> ebind (first_error
                  [(re_run_id v \<noteq> run_id \<or> re_sequence v \<noteq> int expected,
                     Journal_Error ''RunEvent identity does not match its journal''),
                   (re_previous v \<noteq> map_option digest previous,
                     Journal_Error ''RunEvent predecessor digest does not match''),
                   (\<not> opt_all (\<lambda>p. re_occurred_at p \<le> re_occurred_at v) previous,
                     Journal_Error ''RunEvent timestamps must be monotonic''),
                   (\<not> opt_all (\<lambda>p. re_lifecycle_revision p \<le> re_lifecycle_revision v) previous,
                     Journal_Error ''RunEvent lifecycle revisions must be monotonic'')])
                  (\<lambda>_. Inr (events @ [v])))
          | _ \<Rightarrow> Inl (Journal_Error ''RunEvent journal contains invalid JSON''))"

text \<open>\<open>_load_unlocked\<close>.\<close>

definition load_events :: "(run_event \<Rightarrow> string) \<Rightarrow> journal \<Rightarrow> journal_error + run_event list" where
  "load_events digest j =
     efold (load_event digest (jr_run_id j)) (sort_key fst (visible_files j)) []"

text \<open>\<open>_verify_anchor_unlocked\<close>.\<close>

definition verify_anchor ::
    "'w journal_env \<Rightarrow> run_event list \<Rightarrow> 'w \<Rightarrow> journal_error + unit" where
  "verify_anchor e events w =
     (case jn_anchor e of
        None \<Rightarrow> Inr ()
      | Some a \<Rightarrow>
          (case an_read a w of
             Inl m \<Rightarrow> Inl (Anchor_Raised m)
           | Inr (count, head) \<Rightarrow> first_error
               [(count \<noteq> int (length events) \<or> head \<noteq> map_option (jn_digest e) (last_opt events),
                  Journal_Error ''RunEvent journal does not match its run-state anchor'')]))"

definition journal_load :: "'w journal_env \<Rightarrow> journal \<Rightarrow> 'w \<Rightarrow> journal_error + run_event list" where
  "journal_load e j w =
     ebind (load_events (jn_digest e) j) (\<lambda>events.
     ebind (verify_anchor e events w) (\<lambda>_. Inr events))"

section \<open>Appending\<close>

definition journal_event :: "fault + 'a \<Rightarrow> journal_error + 'a" where
  "journal_event m = (case m of Inl f \<Rightarrow> Inl (Journal_Invalid f) | Inr x \<Rightarrow> Inr x)"

lemma journal_event_Inr [simp]: "journal_event m = Inr x \<longleftrightarrow> m = Inr x"
  by (cases m) (simp_all add: journal_event_def)

text \<open>The checks of \<open>append\<close> up to the new event.\<close>

definition next_event ::
    "'w journal_env \<Rightarrow> run_draft \<Rightarrow> int \<Rightarrow> run_phase \<Rightarrow> journal \<Rightarrow> 'w \<Rightarrow> journal_error + run_event" where
  "next_event e d lifecycle_revision phase j w =
     ebind (first_error
       [(\<not> opt_all (\<lambda>p. p = phase) (dr_phase d),
          Journal_Error ''RunEvent phase differs from controller state'')]) (\<lambda>_.
     ebind (journal_load e j w) (\<lambda>existing.
     ebind (require_utc (Journal_Error ''RunEvent timestamps must include a timezone'') (jn_clock e)) (\<lambda>now.
     ebind (first_error
       [(\<not> opt_all (\<lambda>p. re_occurred_at p \<le> now) (last_opt existing),
          Journal_Error ''RunEvent timestamps must be monotonic'')]) (\<lambda>_.
     journal_event (mk_event (event_of_draft (jr_run_id j) (int (length existing) + 1) now
       lifecycle_revision phase (map_option (jn_digest e) (last_opt existing)) d))))))"

lemma next_event_Inr:
  assumes "next_event e d lr phase j w = Inr v"
  obtains existing now where "journal_load e j w = Inr existing"
    "opt_all (\<lambda>p. re_occurred_at p \<le> now) (last_opt existing)"
    "mk_event (event_of_draft (jr_run_id j) (int (length existing) + 1) now lr phase
       (map_option (jn_digest e) (last_opt existing)) d) = Inr v"
  using assms by (auto simp: next_event_def ebind_eq_Inr)

definition event_name :: "run_event \<Rightarrow> string" where
  "event_name v = numbered_name (nat (re_sequence v))"

definition remove_file :: "string \<Rightarrow> journal \<Rightarrow> journal" where
  "remove_file name j = j\<lparr>jr_files := filter (\<lambda>(n, _). n \<noteq> name) (jr_files j)\<rparr>"

text \<open>\<open>_write_unlocked\<close>: the journal afterwards and the exception, if any.\<close>

definition write_event ::
    "(run_event \<Rightarrow> write_outcome) \<Rightarrow> run_event \<Rightarrow> journal \<Rightarrow> journal \<times> journal_error option" where
  "write_event disk v j =
     (if event_name v \<in> fst ` set (jr_files j)
      then (j, Some (Journal_Error ''RunEvent sequence already exists''))
      else
        let stored = j\<lparr>jr_files := jr_files j @ [(event_name v, Event_File v)]\<rparr>
        in case disk v of
             Written \<Rightarrow> (stored, None)
           | Write_Failed m \<Rightarrow> (j, Some (Journal_Os m))
           | Sync_Failed m \<Rightarrow> (stored, Some (Journal_Os m)))"

text \<open>The renderer runs after the lock is released; what it raises is kept as text.\<close>

definition render_event :: "'w journal_env \<Rightarrow> run_event \<Rightarrow> journal \<Rightarrow> journal" where
  "render_event e v j =
     (case jn_handler e of
        None \<Rightarrow> j
      | Some handler \<Rightarrow>
          (case handler v of
             None \<Rightarrow> j
           | Some (name, message) \<Rightarrow>
               (let joined = join_with '' '' (split_words [] message);
                    detail = (if joined = [] then ''renderer failed'' else joined)
                in j\<lparr>jr_render_errors := jr_render_errors j @ [name @ '': '' @ take 400 detail]\<rparr>)))"

definition journal_append ::
    "'w journal_env \<Rightarrow> run_draft \<Rightarrow> int \<Rightarrow> run_phase \<Rightarrow> journal \<Rightarrow> 'w \<Rightarrow>
     (journal \<times> 'w) \<times> (journal_error + run_event)" where
  "journal_append e d lifecycle_revision phase j w =
     (case next_event e d lifecycle_revision phase j w of
        Inl err \<Rightarrow> ((j, w), Inl err)
      | Inr v \<Rightarrow>
          (case write_event (jn_disk e) v j of
             (j1, Some err) \<Rightarrow> ((j1, w), Inl err)
           | (j1, None) \<Rightarrow>
               (case jn_anchor e of
                  None \<Rightarrow> ((render_event e v j1, w), Inr v)
                | Some a \<Rightarrow>
                    (case an_write a v w of
                       (w1, Some m) \<Rightarrow> ((remove_file (event_name v) j1, w1), Inl (Anchor_Raised m))
                     | (w1, None) \<Rightarrow> ((render_event e v j1, w1), Inr v)))))"

section \<open>What loads is a chain\<close>

definition event_follows :: "(run_event \<Rightarrow> string) \<Rightarrow> run_event \<Rightarrow> run_event \<Rightarrow> bool" where
  "event_follows digest a b \<longleftrightarrow> re_previous b = Some (digest a) \<and>
     re_occurred_at a \<le> re_occurred_at b \<and> re_lifecycle_revision a \<le> re_lifecycle_revision b"

definition event_chain :: "(run_event \<Rightarrow> string) \<Rightarrow> string \<Rightarrow> run_event list \<Rightarrow> bool" where
  "event_chain digest run_id vs \<longleftrightarrow>
     (\<forall>v \<in> set vs. event_ok v \<and> re_run_id v = run_id) \<and> map re_sequence vs = one_to (length vs) \<and>
     adjacent (event_follows digest) vs"

definition event_extends :: "(run_event \<Rightarrow> string) \<Rightarrow> string \<Rightarrow> run_event list \<Rightarrow> run_event \<Rightarrow> bool" where
  "event_extends digest run_id vs v \<longleftrightarrow> event_ok v \<and> re_run_id v = run_id \<and>
     re_sequence v = int (length vs) + 1 \<and> re_previous v = map_option digest (last_opt vs) \<and>
     opt_all (\<lambda>p. re_occurred_at p \<le> re_occurred_at v) (last_opt vs) \<and>
     opt_all (\<lambda>p. re_lifecycle_revision p \<le> re_lifecycle_revision v) (last_opt vs)"

lemma event_chain_Nil [simp]: "event_chain digest run_id []"
  by (simp add: event_chain_def one_to_def)

lemma event_chain_snoc:
  assumes "event_chain digest run_id vs" and "event_extends digest run_id vs v"
  shows "event_chain digest run_id (vs @ [v])"
  using assms one_to_facts(4) [of "length vs"]
  by (auto simp: event_chain_def event_extends_def event_follows_def adjacent_append last_opt_def)

lemma load_event_Inr:
  "load_event digest run_id entry vs = Inr ws \<longleftrightarrow>
     (\<exists>stored v. snd entry = Event_File stored \<and> mk_event stored = Inr v \<and>
        number_of_name (fst entry) = Some (length vs + 1) \<and> ws = vs @ [v] \<and>
        event_extends digest run_id vs v)"
proof
  assume "load_event digest run_id entry vs = Inr ws"
  then show "\<exists>stored v. snd entry = Event_File stored \<and> mk_event stored = Inr v \<and>
        number_of_name (fst entry) = Some (length vs + 1) \<and> ws = vs @ [v] \<and>
        event_extends digest run_id vs v"
    using mk_event_idem
    by (auto simp: load_event_def Let_def event_extends_def ebind_eq_Inr
        split: option.splits event_file.splits if_splits sum.splits)
next
  assume "\<exists>stored v. snd entry = Event_File stored \<and> mk_event stored = Inr v \<and>
        number_of_name (fst entry) = Some (length vs + 1) \<and> ws = vs @ [v] \<and>
        event_extends digest run_id vs v"
  then show "load_event digest run_id entry vs = Inr ws"
    by (auto simp: load_event_def event_extends_def ebind_eq_Inr)
qed

lemma load_events_chain:
  assumes "load_events digest j = Inr vs"
  shows "event_chain digest (jr_run_id j) vs"
  by (rule efold_invariant [OF assms [unfolded load_events_def]])
    (auto simp: load_event_Inr intro: event_chain_snoc)


text \<open>The journal loads exactly when its files, in the order of their names, are a chain.\<close>

definition event_files :: "run_event list \<Rightarrow> (string \<times> event_file) list" where
  "event_files vs = map (\<lambda>v. (event_name v, Event_File v)) vs"

definition holds_events :: "(run_event \<Rightarrow> string) \<Rightarrow> journal \<Rightarrow> run_event list \<Rightarrow> bool" where
  "holds_events digest j vs \<longleftrightarrow> visible_files j = event_files vs \<and> length vs < 1000000 \<and>
     event_chain digest (jr_run_id j) vs"

lemma event_chain_nth:
  "event_chain digest run_id vs \<Longrightarrow> i < length vs \<Longrightarrow> re_sequence (vs ! i) = int i + 1"
proof -
  assume chain: "event_chain digest run_id vs" and i: "i < length vs"
  have "map re_sequence vs ! i = one_to (length vs) ! i" using chain by (simp add: event_chain_def)
  then show ?thesis using i by (simp add: one_to_def nth_append del: upt_Suc)
qed

lemma event_chain_names:
  assumes "event_chain digest run_id vs"
  shows "map fst (event_files vs) = map (\<lambda>i. numbered_name (Suc i)) [0..<length vs]"
proof (rule nth_equalityI)
  fix i assume "i < length (map fst (event_files vs))"
  then have "i < length vs" by (simp add: event_files_def)
  then show "map fst (event_files vs) ! i = map (\<lambda>i. numbered_name (Suc i)) [0..<length vs] ! i"
    using event_chain_nth [OF assms] by (simp add: event_files_def event_name_def nat_add_distrib)
qed (simp add: event_files_def)

lemma event_chain_sorted:
  assumes "event_chain digest run_id vs" and "length vs < 1000000"
  shows "sort_key fst (event_files vs) = event_files vs"
proof (rule sort_key_id_if_sorted)
  have "numbered_name (Suc i) \<le> numbered_name (Suc k)" if "i \<le> k" "k < length vs" for i k
    using numbered_names_sorted [of "Suc i" "Suc k"] that assms(2) by (cases "i = k") auto
  then show "sorted (map fst (event_files vs))"
    unfolding event_chain_names [OF assms(1)] by (auto simp: sorted_iff_nth_mono)
qed

lemma event_chain_prefix:
  assumes "event_chain digest run_id (vs @ [v])"
  shows "event_chain digest run_id vs" "event_extends digest run_id vs v"
proof -
  have seq: "map re_sequence vs @ [re_sequence v] = one_to (length vs) @ [int (length vs) + 1]"
    using assms one_to_facts(4) [of "length vs"] by (simp add: event_chain_def)
  then show "event_chain digest run_id vs"
    using assms by (auto simp: event_chain_def adjacent_append)
  have "check_event v = Inr ()" if "mk_event v = Inr v"
    using that by (elim mk_event_Inr) simp
  then have "check_chain_fields v = Inr ()"
    using assms by (auto simp: event_chain_def event_ok_def check_event_def ebind_eq_Inr)
  then have "re_sequence v = 1 \<longrightarrow> re_previous v = None" by (auto simp: check_chain_fields_def)
  moreover have "vs \<noteq> [] \<longrightarrow> event_follows digest (last vs) v"
    using assms by (simp add: event_chain_def adjacent_append)
  moreover have "re_sequence v = int (length vs) + 1" using seq by (metis last_snoc)
  moreover have "event_ok v" "re_run_id v = run_id" using assms by (simp_all add: event_chain_def)
  ultimately show "event_extends digest run_id vs v"
    by (auto simp: event_extends_def event_follows_def last_opt_def)
qed

lemma load_event_files:
  assumes "event_chain digest run_id vs" and "length vs < 1000000"
  shows "efold (load_event digest run_id) (event_files vs) [] = Inr vs"
  using assms
proof (induction vs rule: rev_induct)
  case (snoc v vs)
  note parts = event_chain_prefix [OF snoc.prems(1)]
  have "load_event digest run_id (event_name v, Event_File v) vs = Inr (vs @ [v])"
    using parts(2) snoc.prems(2) numbered_name_round [of "length vs + 1"]
    by (auto simp: load_event_Inr event_extends_def event_ok_def event_name_def nat_add_distrib)
  moreover have "efold (load_event digest run_id) (event_files vs) [] = Inr vs"
    using snoc.IH parts(1) snoc.prems(2) by simp
  moreover have "event_files (vs @ [v]) = event_files vs @ [(event_name v, Event_File v)]"
    by (simp add: event_files_def)
  ultimately show ?case by (simp only: efold_append ebind_Inr efold.simps)
qed (simp add: event_files_def)

lemma holds_load: "holds_events digest j vs \<Longrightarrow> load_events digest j = Inr vs"
  unfolding holds_events_def load_events_def by (elim conjE) (simp only: event_chain_sorted load_event_files)

lemma numbered_name_visible: "\<not> hidden (numbered_name n)"
proof -
  obtain c s where "padded n = c # s" "is_digit_char c"
  proof (cases "6 - length (decimal n)")
    case 0
    then show thesis using that decimal_facts [of n] by (cases "decimal n") (auto simp: padded_def)
  next
    case (Suc k)
    have "is_digit_char (CHR ''0'')" by code_simp
    then show thesis using that Suc by (simp add: padded_def)
  qed
  moreover have "\<not> is_digit_char (CHR ''.'')" by code_simp
  ultimately show ?thesis by (auto simp: hidden_def numbered_name_padded)
qed

end
