(* ===== verification/Event_Anchoring.thy ===== *)
theory Event_Anchoring
  imports Event_Journal Run_Properties
begin

text \<open>
  The event journal of a run and the run record that anchors it. The locale \<open>event_anchor\<close> is what
  the journal needs of its two callbacks: a write that returns has moved the anchor to the event,
  a write that raises has changed nothing. The interpretation \<open>run_anchor\<close> discharges these laws
  for the callbacks \<open>workflow.py\<close> and \<open>dynamic_workflow.py\<close> pass, \<open>record_event_head\<close> and the
  reader of the run record. \<open>journal_step\<close> is everything that happens to the journal and the
  store of a run.
\<close>

section \<open>A journal behind any anchor\<close>

locale event_anchor =
  fixes put :: "run_event \<Rightarrow> 'w \<Rightarrow> 'w \<times> run_error option"
    and seen :: "'w \<Rightarrow> run_error + (int \<times> string option)"
    and digest :: "run_event \<Rightarrow> string" and run_id :: string
  assumes put_returns: "re_run_id v = run_id \<Longrightarrow> put v w = (w1, None) \<Longrightarrow>
      seen w1 = Inr (re_sequence v, Some (digest v))"
    and put_raises: "re_run_id v = run_id \<Longrightarrow> put v w = (w1, Some err) \<Longrightarrow> w1 = w"
begin

definition anchored_env :: "'w journal_env \<Rightarrow> bool" where
  "anchored_env e \<longleftrightarrow> jn_digest e = digest \<and> jn_anchor e = Some \<lparr>an_write = put, an_read = seen\<rparr>"

definition agrees :: "journal \<Rightarrow> 'w \<Rightarrow> run_event list \<Rightarrow> bool" where
  "agrees j w vs \<longleftrightarrow> jr_run_id j = run_id \<and> holds_events digest j vs \<and>
     seen w = Inr (int (length vs), map_option digest (last_opt vs))"

lemma agrees_parts:
  assumes "agrees j w vs"
  shows "jr_run_id j = run_id" "event_chain digest run_id vs" "length vs < 1000000"
    "visible_files j = event_files vs" "seen w = Inr (int (length vs), map_option digest (last_opt vs))"
  using assms by (auto simp: agrees_def holds_events_def)

lemma agrees_load: "agrees j w vs \<Longrightarrow> anchored_env e \<Longrightarrow> journal_load e j w = Inr vs"
  unfolding agrees_def anchored_env_def journal_load_def
  by (elim conjE) (drule holds_load, simp add: verify_anchor_def)

lemma next_event_extends:
  assumes "agrees j w vs" and "anchored_env e" and "next_event e d lr phase j w = Inr v"
    and "opt_all (\<lambda>p. re_lifecycle_revision p \<le> lr) (last_opt vs)"
  shows "event_extends digest run_id vs v" "re_lifecycle_revision v = lr"
proof -
  obtain now where v: "opt_all (\<lambda>p. re_occurred_at p \<le> now) (last_opt vs)"
    "mk_event (event_of_draft (jr_run_id j) (int (length vs) + 1) now lr phase
        (map_option (jn_digest e) (last_opt vs)) d) = Inr v"
    using agrees_load [OF assms(1,2)] by - (rule next_event_Inr [OF assms(3)], simp)
  note frame = mk_event_frame [OF v(2)] mk_event_idem [OF v(2)]
  then show "event_extends digest run_id vs v" "re_lifecycle_revision v = lr"
    using assms(1,2,4) v(1)
    by (simp_all add: event_extends_def event_of_draft_def agrees_def anchored_env_def)
qed

lemma new_event_name:
  assumes "agrees j w vs" and "event_extends digest run_id vs v" and "length vs < 999999"
  shows "event_name v \<notin> fst ` set (jr_files j)"
proof
  assume "event_name v \<in> fst ` set (jr_files j)"
  then have "event_name v \<in> fst ` set (visible_files j)"
    by (force simp: visible_files_def event_name_def numbered_name_visible)
  then have "event_name v \<in> set (map fst (event_files vs))"
    by (simp add: agrees_parts(4) [OF assms(1)])
  then obtain i where "i < length vs" "event_name v = numbered_name (Suc i)"
    unfolding event_chain_names [OF agrees_parts(2) [OF assms(1)]] by auto
  then show False
    using assms(2,3) numbered_names_sorted [of "Suc i" "Suc (length vs)"]
    by (simp add: event_name_def event_extends_def nat_add_distrib)
qed

text \<open>An \<open>append\<close> that returns has added its event; one that raises has left the journal as it was,
  unless the disk failed behind the rename.\<close>

lemma append_returns:
  assumes "agrees j w vs" and "anchored_env e" and "length vs < 999999"
    and "opt_all (\<lambda>p. re_lifecycle_revision p \<le> lr) (last_opt vs)"
    and "journal_append e d lr phase j w = ((j1, w1), Inr v)"
  shows "agrees j1 w1 (vs @ [v])" "re_lifecycle_revision v = lr"
proof -
  have v: "next_event e d lr phase j w = Inr v" "put v w = (w1, None)"
    "write_event (jn_disk e) v j = (j\<lparr>jr_files := jr_files j @ [(event_name v, Event_File v)]\<rparr>, None)"
    "j1 = render_event e v (j\<lparr>jr_files := jr_files j @ [(event_name v, Event_File v)]\<rparr>)"
    using assms(2,5)
    by (auto simp: journal_append_def anchored_env_def write_event_def Let_def
        split: sum.splits prod.splits option.splits if_splits write_outcome.splits)
  note ext = next_event_extends [OF assms(1,2) v(1) assms(4)]
  show "re_lifecycle_revision v = lr" by (rule ext(2))
  have frame: "jr_files j1 = jr_files j @ [(event_name v, Event_File v)]" "jr_run_id j1 = jr_run_id j"
    using v(4) by (auto simp: render_event_def Let_def split: option.splits)
  have "visible_files j1 = event_files (vs @ [v])"
    using assms(1) frame(1)
    by (simp add: visible_files_def agrees_def holds_events_def event_files_def event_name_def
        numbered_name_visible)
  moreover have "event_chain digest run_id (vs @ [v])"
    by (rule event_chain_snoc [OF agrees_parts(2) [OF assms(1)] ext(1)])
  moreover have "seen w1 = Inr (int (length (vs @ [v])), map_option digest (last_opt (vs @ [v])))"
    using put_returns [OF _ v(2)] ext(1) by (simp add: event_extends_def last_opt_def)
  ultimately show "agrees j1 w1 (vs @ [v])"
    using assms(1,3) frame(2) by (simp add: agrees_def holds_events_def)
qed

lemma removed_again:
  "event_name v \<notin> fst ` set (jr_files j) \<Longrightarrow>
     remove_file (event_name v) (j\<lparr>jr_files := jr_files j @ [(event_name v, Event_File v)]\<rparr>) = j"
proof -
  assume "event_name v \<notin> fst ` set (jr_files j)"
  then have "filter (\<lambda>(n, _). n \<noteq> event_name v) (jr_files j) = jr_files j"
    by (intro filter_True) force
  then show ?thesis by (simp add: remove_file_def)
qed

lemma append_raises:
  assumes "agrees j w vs" and "anchored_env e" and "\<And>v m. jn_disk e v \<noteq> Sync_Failed m"
    and "opt_all (\<lambda>p. re_lifecycle_revision p \<le> lr) (last_opt vs)"
    and "journal_append e d lr phase j w = ((j1, w1), Inl err)"
  shows "j1 = j" "w1 = w"
proof -
  have "j1 = j \<and> w1 = w"
  proof (cases "next_event e d lr phase j w")
    case (Inl f)
    then show ?thesis using assms(5) by (simp add: journal_append_def)
  next
    case (Inr v)
    note ext = next_event_extends [OF assms(1,2) Inr assms(4)]
    then have id: "re_run_id v = run_id" by (simp add: event_extends_def)
    show ?thesis
    proof (cases "write_event (jn_disk e) v j")
      case (Pair j2 failed)
      show ?thesis
      proof (cases failed)
        case (Some f)
        then have "j2 = j"
          using Pair assms(3) [of v]
          by (auto simp: write_event_def Let_def split: if_splits write_outcome.splits)
        then show ?thesis using Some Pair Inr assms(5) by (simp add: journal_append_def)
      next
        case None
        then have j2: "event_name v \<notin> fst ` set (jr_files j)"
          "j2 = j\<lparr>jr_files := jr_files j @ [(event_name v, Event_File v)]\<rparr>"
          using Pair by (auto simp: write_event_def Let_def split: if_splits write_outcome.splits)
        obtain w2 r where w: "put v w = (w2, r)" by (cases "put v w")
        with None Pair Inr assms(2,5) obtain m where r: "r = Some m" "w1 = w2"
            "j1 = remove_file (event_name v) j2"
          by (auto simp: journal_append_def anchored_env_def split: option.splits)
        then show ?thesis
          using put_raises [OF id w [unfolded r(1)]] j2 removed_again by simp
      qed
    qed
  qed
  then show "j1 = j" "w1 = w" by simp_all
qed

end

section \<open>The controller as the anchor\<close>

definition record_event_head ::
    "digests \<Rightarrow> team_manifest option \<Rightarrow> (run_event \<Rightarrow> string) \<Rightarrow> run_event \<Rightarrow> run_store \<Rightarrow>
     run_store \<times> run_error option" where
  "record_event_head d m digest v s =
     (case commit_event_head d s (prepare_event_head d m s (re_run_id v) (re_sequence v) (digest v)
        (Aware (re_occurred_at v) 0)) of
        Inl err \<Rightarrow> (s, Some err)
      | Inr (t, _) \<Rightarrow> (t, None))"

definition read_event_anchor ::
    "digests \<Rightarrow> team_manifest option \<Rightarrow> string \<Rightarrow> run_store \<Rightarrow> run_error + (int \<times> string option)" where
  "read_event_anchor d m run_id s =
     ebind (controller_load d m s run_id) (\<lambda>r. Inr (rr_event_count r, rr_event_head_sha256 r))"

lemma same_boundary:
  "same_identity a b \<Longrightarrow> check_plan_boundary d m plan a = check_plan_boundary d m plan b"
  by (simp add: check_plan_boundary_def same_identity_def)

lemma controller_load_Inr:
  "controller_load d m s k = Inr r \<longleftrightarrow>
     (\<exists>run. store_load d s k = Inr run \<and> sr_record run = r \<and> check_plan_boundary d m (sr_plan run) r = Inr ())"
  by (auto simp: controller_load_def ebind_eq_Inr)

lemma controller_load_written:
  assumes "store_load d s k = Inr run" and "same_identity (sr_record run) updated"
    and "validate_transition_plan_boundary (sr_plan run) updated = Inr ()"
    and "controller_load d m s k = Inr r"
  shows "controller_load d m (store_write s run updated) k = Inr updated"
  using store_load_written [OF assms(1-3)] same_boundary [OF assms(2), of d m "sr_plan run"] assms(1,4)
  by (auto simp: controller_load_Inr)

lemma prepare_event_head_Inr:
  assumes "prepare_event_head d m s k n h at_time = Inr (current, updated)"
  shows "controller_load d m s k = Inr current" "rr_event_count updated = n"
    "rr_event_head_sha256 updated = Some h" "record_ok updated" "rr_revision updated = rr_revision current"
proof -
  obtain t where u: "controller_load d m s k = Inr current"
    "mk_run_record (current\<lparr>rr_updated_at := t, rr_event_count := n, rr_event_head_sha256 := Some h\<rparr>) = Inr updated"
    using assms by (auto simp: prepare_event_head_def ebind_eq_Inr split: if_splits)
  from mk_run_record_Inr [OF u(2)] u(1)
  show "controller_load d m s k = Inr current" "rr_event_count updated = n"
    "rr_event_head_sha256 updated = Some h" "record_ok updated" "rr_revision updated = rr_revision current"
    by (blast, simp, simp, blast, simp)
qed

text \<open>Writing an anchor is a step of the store; the record that is read next holds it.\<close>

lemma record_event_head_returns:
  assumes "record_event_head d m digest v s = (t, None)"
  obtains current updated where "controller_load d m s (re_run_id v) = Inr current"
    "controller_load d m t (re_run_id v) = Inr updated" "rr_event_count updated = re_sequence v"
    "rr_event_head_sha256 updated = Some (digest v)" "rr_revision updated = rr_revision current"
    "store_step d s t"
proof -
  obtain current updated where p:
    "prepare_event_head d m s (re_run_id v) (re_sequence v) (digest v) (Aware (re_occurred_at v) 0) =
       Inr (current, updated)"
    "store_replace_event_head d s current updated = Inr t"
    using assms
    by (auto simp: record_event_head_def commit_event_head_def ebind_eq_Inr split: sum.splits prod.splits)
  note u = prepare_event_head_Inr [OF p(1)]
  have id: "rr_run_id current = re_run_id v"
    using u(1) by (auto simp: controller_load_Inr dest: store_load_Inr)
  obtain run where run: "store_load d s (re_run_id v) = Inr run" "sr_record run = current"
    "same_lifecycle current updated" "t = store_write s run updated"
    using p(2) id by (auto simp: store_replace_event_head_def ebind_eq_Inr)
  have "same_identity (sr_record run) updated" "rr_transitions updated = rr_transitions (sr_record run)"
    using run(2,3) by (simp_all add: same_lifecycle_def)
  moreover from this have "validate_transition_plan_boundary (sr_plan run) updated = Inr ()"
    using store_load_boundary [OF run(1)] by (simp add: validate_transition_plan_boundary_def)
  ultimately have "controller_load d m t (re_run_id v) = Inr updated"
    unfolding run(4) using controller_load_written [OF run(1) _ _ u(1)] by blast
  moreover have "store_step d s t" using p(2) u(4) by (rule store_step.anchored)
  ultimately show thesis using that u by blast
qed

lemma record_event_head_raises: "record_event_head d m digest v s = (t, Some err) \<Longrightarrow> t = s"
  by (auto simp: record_event_head_def split: sum.splits prod.splits)

interpretation run_anchor:
  event_anchor "record_event_head d m digest" "read_event_anchor d m run_id" digest run_id for d m digest run_id
proof
  fix v :: run_event and w w1 err
  assume id: "re_run_id v = run_id"
  show "read_event_anchor d m run_id w1 = Inr (re_sequence v, Some (digest v))"
    if "record_event_head d m digest v w = (w1, None)"
    using that id by (elim record_event_head_returns) (simp add: read_event_anchor_def)
  show "w1 = w" if "record_event_head d m digest v w = (w1, Some err)"
    by (rule record_event_head_raises [OF that])
qed

section \<open>A run and its journal\<close>

text \<open>What \<open>_emit\<close> of the workflows does not fix: the clock, the disk and the renderer.\<close>

record emit_env =
  em_clock :: datetime
  em_disk :: "run_event \<Rightarrow> write_outcome"
  em_handler :: "(run_event \<Rightarrow> (string \<times> string) option) option"

definition run_env ::
    "digests \<Rightarrow> team_manifest option \<Rightarrow> (run_event \<Rightarrow> string) \<Rightarrow> string \<Rightarrow> emit_env \<Rightarrow> run_store journal_env" where
  "run_env d m digest run_id e =
     \<lparr>jn_digest = digest, jn_clock = em_clock e, jn_disk = em_disk e,
      jn_anchor = Some \<lparr>an_write = record_event_head d m digest, an_read = read_event_anchor d m run_id\<rparr>,
      jn_handler = em_handler e\<rparr>"

text \<open>\<open>_emit\<close> loads the run record and then, without holding the lock of the journal in between,
  appends with the revision and the phase it has read. \<open>emit_observed\<close> is the append, with the record
  that was read as an argument; \<open>emit_event\<close> is \<open>_emit\<close> when nothing comes between the two.\<close>

definition emit_observed ::
    "digests \<Rightarrow> team_manifest option \<Rightarrow> (run_event \<Rightarrow> string) \<Rightarrow> string \<Rightarrow> emit_env \<Rightarrow> run_draft \<Rightarrow>
     run_record \<Rightarrow> journal \<Rightarrow> run_store \<Rightarrow> (journal \<times> run_store) \<times> (journal_error + run_event)" where
  "emit_observed d m digest run_id e draft observed j s =
     journal_append (run_env d m digest run_id e) draft (rr_revision observed) (rr_phase observed) j s"

definition emit_event ::
    "digests \<Rightarrow> team_manifest option \<Rightarrow> (run_event \<Rightarrow> string) \<Rightarrow> string \<Rightarrow> emit_env \<Rightarrow> run_draft \<Rightarrow>
     journal \<Rightarrow> run_store \<Rightarrow> (journal \<times> run_store) \<times> (journal_error + run_event)" where
  "emit_event d m digest run_id e draft j s =
     (case controller_load d m s run_id of
        Inl err \<Rightarrow> ((j, s), Inl (Anchor_Raised err))
      | Inr current \<Rightarrow> emit_observed d m digest run_id e draft current j s)"

definition run_journal_load ::
    "digests \<Rightarrow> team_manifest option \<Rightarrow> (run_event \<Rightarrow> string) \<Rightarrow> string \<Rightarrow> emit_env \<Rightarrow> journal \<Rightarrow> run_store \<Rightarrow>
     journal_error + run_event list" where
  "run_journal_load d m digest run_id e j s = journal_load (run_env d m digest run_id e) j s"

text \<open>An emission is overtaken if, after it has read the record, another one anchors an event with a
  later lifecycle revision. \<open>stale_revision_blocks_journal\<close> of \<open>Event_Properties\<close> shows what happens
  then.\<close>

definition not_overtaken ::
    "digests \<Rightarrow> team_manifest option \<Rightarrow> (run_event \<Rightarrow> string) \<Rightarrow> string \<Rightarrow> run_record \<Rightarrow>
     journal \<Rightarrow> run_store \<Rightarrow> bool" where
  "not_overtaken d m digest run_id observed j s \<longleftrightarrow>
     (\<exists>r. controller_load d m s run_id = Inr r \<and> rr_revision observed \<le> rr_revision r) \<and>
     (\<forall>vs. load_events digest j = Inr vs \<longrightarrow>
        opt_all (\<lambda>v. re_lifecycle_revision v \<le> rr_revision observed) (last_opt vs))"

text \<open>The steps: an event is emitted with a record that was read at any earlier moment (with any
  outcome, except a disk that fails behind the rename, and not overtaken), a transition of any run is
  committed, another run is created.\<close>

inductive journal_step ::
    "digests \<Rightarrow> team_manifest option \<Rightarrow> (run_event \<Rightarrow> string) \<Rightarrow> string \<Rightarrow>
     journal \<times> run_store \<Rightarrow> journal \<times> run_store \<Rightarrow> bool" for d m digest run_id where
  emitted: "emit_observed d m digest run_id e draft observed j s = (t, outcome) \<Longrightarrow>
    not_overtaken d m digest run_id observed j s \<Longrightarrow>
    (\<And>v x. em_disk e v \<noteq> Sync_Failed x) \<Longrightarrow> length (visible_files j) < 999999 \<Longrightarrow>
    journal_step d m digest run_id (j, s) t"
| transition: "store_replace d s previous updated = Inr t \<Longrightarrow> record_ok updated \<Longrightarrow>
    journal_step d m digest run_id (j, s) (j, t)"
| creation: "store_create d s brief plan r = Inr t \<Longrightarrow> record_ok r \<Longrightarrow>
    journal_step d m digest run_id (j, s) (j, t)"

text \<open>The invariant: the journal loads to a chain that the run record anchors and whose lifecycle
  revisions the record has reached.\<close>

definition journal_agrees ::
    "digests \<Rightarrow> team_manifest option \<Rightarrow> (run_event \<Rightarrow> string) \<Rightarrow> string \<Rightarrow> journal \<times> run_store \<Rightarrow>
     run_event list \<Rightarrow> bool" where
  "journal_agrees d m digest run_id js vs \<longleftrightarrow>
     run_anchor.agrees d m run_id digest (fst js) (snd js) vs \<and>
     (\<exists>r. controller_load d m (snd js) run_id = Inr r \<and>
        opt_all (\<lambda>v. re_lifecycle_revision v \<le> rr_revision r) (last_opt vs))"

lemma run_env_anchored: "run_anchor.anchored_env d m digest run_id (run_env d m digest run_id e)"
  by (simp add: run_anchor.anchored_env_def run_env_def)

lemma observed_agrees:
  assumes "journal_agrees d m digest run_id (j, s) vs"
    and "emit_observed d m digest run_id e draft observed j s = (t, outcome)"
    and "not_overtaken d m digest run_id observed j s"
    and "\<And>v x. em_disk e v \<noteq> Sync_Failed x" and "length (visible_files j) < 999999"
  shows "case outcome of Inl _ \<Rightarrow> t = (j, s) | Inr v \<Rightarrow> journal_agrees d m digest run_id t (vs @ [v])"
proof -
  obtain r where r: "run_anchor.agrees d m run_id digest j s vs" "controller_load d m s run_id = Inr r"
    "opt_all (\<lambda>v. re_lifecycle_revision v \<le> rr_revision r) (last_opt vs)"
    using assms(1) by (auto simp: journal_agrees_def)
  have "load_events digest j = Inr vs" using r(1) by (auto simp: run_anchor.agrees_def dest!: holds_load)
  then have read: "rr_revision observed \<le> rr_revision r"
    "opt_all (\<lambda>v. re_lifecycle_revision v \<le> rr_revision observed) (last_opt vs)"
    using assms(3) r(2) by (simp_all add: not_overtaken_def)
  obtain j1 s1 where t: "t = (j1, s1)" by (cases t)
  let ?e = "run_env d m digest run_id e"
  have a: "journal_append ?e draft (rr_revision observed) (rr_phase observed) j s = ((j1, s1), outcome)"
    using assms(2) t by (simp add: emit_observed_def)
  show ?thesis
  proof (cases outcome)
    case (Inl err)
    have "\<And>v x. jn_disk ?e v \<noteq> Sync_Failed x" using assms(4) by (simp add: run_env_def)
    from run_anchor.append_raises [OF r(1) run_env_anchored this read(2) a [unfolded Inl]]
    show ?thesis using Inl t by simp
  next
    case (Inr v)
    have "length vs < 999999"
      using assms(5) run_anchor.agrees_parts(4) [OF r(1)] by (simp add: event_files_def)
    note app = run_anchor.append_returns [OF r(1) run_env_anchored this read(2) a [unfolded Inr]]
    obtain count where "read_event_anchor d m run_id s1 = Inr count"
      using run_anchor.agrees_parts(5) [OF app(1)] by blast
    have "record_event_head d m digest v s = (s1, None)"
      using a Inr by (auto simp: journal_append_def run_env_def
          split: sum.splits prod.splits option.splits)
    then obtain current updated where u: "controller_load d m s (re_run_id v) = Inr current"
      "controller_load d m s1 (re_run_id v) = Inr updated" "rr_revision updated = rr_revision current"
      by (rule record_event_head_returns)
    have "re_run_id v = run_id"
      using run_anchor.agrees_parts(2) [OF app(1)] by (simp add: event_chain_def)
    then show ?thesis
      using u r(2) app t Inr read(1) by (simp add: journal_agrees_def last_opt_def)
  qed
qed

lemma current_not_overtaken:
  assumes "journal_agrees d m digest run_id (j, s) vs" and "controller_load d m s run_id = Inr r"
  shows "not_overtaken d m digest run_id r j s"
proof -
  have "run_anchor.agrees d m run_id digest j s vs" "opt_all (\<lambda>v. re_lifecycle_revision v \<le> rr_revision r) (last_opt vs)"
    using assms by (auto simp: journal_agrees_def)
  then show ?thesis
    using assms(2) by (auto simp: not_overtaken_def run_anchor.agrees_def dest!: holds_load)
qed

lemma emitted_agrees:
  assumes "journal_agrees d m digest run_id (j, s) vs"
    and "emit_event d m digest run_id e draft j s = (t, outcome)"
    and "\<And>v x. em_disk e v \<noteq> Sync_Failed x" and "length (visible_files j) < 999999"
  shows "case outcome of Inl _ \<Rightarrow> t = (j, s) | Inr v \<Rightarrow> journal_agrees d m digest run_id t (vs @ [v])"
proof -
  obtain r where r: "controller_load d m s run_id = Inr r" using assms(1) by (auto simp: journal_agrees_def)
  then have "emit_observed d m digest run_id e draft r j s = (t, outcome)"
    using assms(2) by (simp add: emit_event_def)
  from observed_agrees [OF assms(1) this current_not_overtaken [OF assms(1) r] assms(3,4)] show ?thesis .
qed

lemma replaced_agrees:
  assumes "journal_agrees d m digest run_id (j, s) vs" and "store_replace d s previous updated = Inr t"
  shows "journal_agrees d m digest run_id (j, t) vs"
proof -
  obtain r where r: "run_anchor.agrees d m run_id digest j s vs" "controller_load d m s run_id = Inr r"
    "opt_all (\<lambda>v. re_lifecycle_revision v \<le> rr_revision r) (last_opt vs)"
    using assms(1) by (auto simp: journal_agrees_def)
  obtain run where run: "store_load d s (rr_run_id previous) = Inr run" "sr_record run = previous"
    "t = store_write s run updated" "validate_replacement previous updated = Inr ()"
    "validate_transition_plan_boundary (sr_plan run) updated = Inr ()"
    "rr_revision updated = rr_revision previous + 1"
    using assms(2) by (auto simp: store_replace_def validate_replacement_def Let_def ebind_eq_Inr)
  have same: "same_identity previous updated" "same_events previous updated"
    using run(4) by (simp_all add: validate_replacement_def Let_def)
  show ?thesis
  proof (cases "rr_run_id previous = run_id")
    case True
    then have "r = previous" using run(1,2) r(2) by (auto simp: controller_load_Inr)
    moreover have "controller_load d m t run_id = Inr updated"
      using controller_load_written run(1,2,3,5) same(1) r(2) True by blast
    ultimately show ?thesis
      using r run(6) same(2)
      by (cases "last_opt vs")
        (auto simp: journal_agrees_def run_anchor.agrees_def read_event_anchor_def same_events_def)
  next
    case False
    then have "rr_run_id updated \<noteq> run_id" using same(1) by (simp add: same_identity_def)
    then have "t run_id = s run_id" by (simp add: run(3) store_write_def)
    then have "controller_load d m t run_id = controller_load d m s run_id"
      by (simp add: controller_load_def store_load_def)
    then show ?thesis
      using r by (simp add: journal_agrees_def run_anchor.agrees_def read_event_anchor_def)
  qed
qed

lemma created_agrees:
  assumes "journal_agrees d m digest run_id (j, s) vs" and "store_create d s brief plan r = Inr t"
  shows "journal_agrees d m digest run_id (j, t) vs"
proof -
  obtain run where "store_load d s run_id = Inr run"
    using assms(1) by (auto simp: journal_agrees_def controller_load_Inr)
  then have "s run_id \<noteq> None" using store_load_Inr by force
  then have "t run_id = s run_id" using assms(2) by (auto simp: store_create_def ebind_eq_Inr)
  then have "controller_load d m t run_id = controller_load d m s run_id"
    by (simp add: controller_load_def store_load_def)
  then show ?thesis
    using assms(1) by (simp add: journal_agrees_def run_anchor.agrees_def read_event_anchor_def)
qed

lemma journal_step_agrees:
  assumes "journal_agrees d m digest run_id a vs" and "journal_step d m digest run_id a b"
  shows "\<exists>ws. journal_agrees d m digest run_id b (vs @ ws)"
  using assms(2)
proof cases
  case (emitted e draft observed j s outcome)
  from observed_agrees [OF assms(1) [unfolded emitted(1)] emitted(2-5)] show ?thesis
    using assms(1) emitted(1) by (cases outcome) (auto intro: exI [of _ "[]"])
next
  case (transition s previous updated t j)
  then show ?thesis using replaced_agrees assms(1) by (intro exI [of _ "[]"]) auto
next
  case (creation s brief plan r t j)
  then show ?thesis using created_agrees assms(1) by (intro exI [of _ "[]"]) auto
qed

section \<open>Growth\<close>

definition journal_view :: "(run_event \<Rightarrow> string) \<Rightarrow> journal \<times> run_store \<Rightarrow> unit \<Rightarrow> run_event list option" where
  "journal_view digest js u =
     (case load_events digest (fst js) of Inl _ \<Rightarrow> None | Inr vs \<Rightarrow> Some vs)"

lemma journal_agrees_view: "journal_agrees d m digest run_id js vs \<Longrightarrow> journal_view digest js u = Some vs"
  by (auto simp: journal_agrees_def run_anchor.agrees_def journal_view_def dest!: holds_load)

interpretation event_journal:
  append_only "journal_step d m digest run_id" "journal_view digest" "\<lambda>a b. \<exists>x. b = a @ x"
    "\<lambda>js. \<exists>vs. journal_agrees d m digest run_id js vs" for d m digest run_id
proof
  fix a b :: "journal \<times> run_store" and k r
  assume a: "\<exists>vs. journal_agrees d m digest run_id a vs" and st: "journal_step d m digest run_id a b"
  then obtain vs ws where w: "journal_agrees d m digest run_id a vs"
    "journal_agrees d m digest run_id b (vs @ ws)"
    using journal_step_agrees by blast
  show "\<exists>vs. journal_agrees d m digest run_id b vs" using w(2) by blast
  show "\<exists>r'. journal_view digest b k = Some r' \<and> (\<exists>x. r' = r @ x)" if "journal_view digest a k = Some r"
    using that journal_agrees_view [OF w(1)] journal_agrees_view [OF w(2)] by simp
qed auto

end
