(* ===== verification/Event_Properties.thy ===== *)
theory Event_Properties
  imports Event_Anchoring Runtime_Controls
begin

text \<open>
  What the event journal of a run guarantees: it agrees with the run record that anchors it, an
  emitted event is loaded again, an event that is refused leaves no trace, and a tampered journal
  does not load under the anchor. A run that leaves the journal unreadable is at the end.
\<close>

section \<open>A concrete journal\<close>

text \<open>The completed run of \<open>Run_Properties\<close> with an empty journal, its first event, and an event
  that claims an older lifecycle revision.\<close>

definition demo_head :: "run_event \<Rightarrow> string" where
  "demo_head v = replicate 64 (if re_sequence v = 1 then CHR ''1'' else CHR ''2'')"

definition demo_emit :: "int \<Rightarrow> emit_env" where
  "demo_emit t = \<lparr>em_clock = Aware t 0, em_disk = \<lambda>_. Written, em_handler = None\<rparr>"

definition demo_env :: "int \<Rightarrow> run_store journal_env" where
  "demo_env t = run_env demo_digests None demo_head ''run-1'' (demo_emit t)"

definition demo_journal :: "run_event list \<Rightarrow> journal" where
  "demo_journal vs = \<lparr>jr_run_id = ''run-1'', jr_files = event_files vs, jr_render_errors = []\<rparr>"

definition demo_run :: "run_record \<Rightarrow> run_store" where
  "demo_run r = [''run-1'' \<mapsto> \<lparr>sr_brief = demo_brief, sr_plan = demo_plan, sr_record = r\<rparr>]"

definition demo_after :: "run_event \<Rightarrow> run_record \<Rightarrow> run_record" where
  "demo_after v r = r\<lparr>rr_updated_at := re_occurred_at v, rr_event_count := re_sequence v,
     rr_event_head_sha256 := Some (demo_head v)\<rparr>"

definition demo_end :: run_draft where
  "demo_end = plain_draft Ev_Run_Completed ''Run completed''"

definition demo_event :: run_event where
  "demo_event = event_of_draft ''run-1'' 1 10 9 Completed_Run None demo_end"

definition demo_stale :: run_event where
  "demo_stale = event_of_draft ''run-1'' 2 11 8 Delivering (Some (demo_head demo_event)) demo_end"

lemma demo_facts:
  "rr_run_id demo_record = ''run-1''" "rr_revision demo_record = 9" "rr_phase demo_record = Completed_Run"
  "rr_event_count demo_record = 0" "rr_event_head_sha256 demo_record = None" "rr_updated_at demo_record = 9"
  by (simp_all add: demo_record_def)

lemma demo_after_facts [simp]:
  "same_lifecycle r (demo_after v r)" "rr_event_count (demo_after v r) = re_sequence v"
  "rr_event_head_sha256 (demo_after v r) = Some (demo_head v)" "rr_revision (demo_after v r) = rr_revision r"
  "rr_phase (demo_after v r) = rr_phase r" "rr_updated_at (demo_after v r) = re_occurred_at v"
  by (simp_all add: demo_after_def same_lifecycle_def same_identity_def)

lemma demo_event_facts:
  "re_run_id demo_event = ''run-1''" "re_sequence demo_event = 1" "re_occurred_at demo_event = 10"
  "re_lifecycle_revision demo_event = 9" "re_kind demo_event = Ev_Run_Completed"
  "re_run_id demo_stale = ''run-1''" "re_sequence demo_stale = 2" "re_occurred_at demo_stale = 11"
  by (simp_all add: demo_event_def demo_stale_def event_of_draft_def demo_end_def plain_draft_def)

lemma demo_event_ok: "event_ok demo_event"
  unfolding event_ok_def by code_simp

lemma demo_stale_ok: "event_ok demo_stale"
  unfolding event_ok_def by code_simp

lemma demo_after_ok: "mk_run_record (demo_after demo_event demo_record) = Inr (demo_after demo_event demo_record)"
  by code_simp

lemma demo_after_stale_ok:
  "mk_run_record (demo_after demo_stale (demo_after demo_event demo_record)) =
     Inr (demo_after demo_stale (demo_after demo_event demo_record))"
  by code_simp

lemma demo_boundary: "check_plan_boundary demo_digests None demo_plan demo_record = Inr ()"
proof -
  have "tp_origin demo_plan \<noteq> Fixed_Manifest" by (simp add: demo_plan_def)
  then have "check_provenance demo_digests None demo_plan = Inr ()" by (simp add: check_provenance_def)
  moreover have "rr_agent_timeouts demo_record = sort_key fst (plan_timeouts demo_plan)" by code_simp
  ultimately show ?thesis
    unfolding check_plan_boundary_def by (simp add: demo_record_def demo_plan_def demo_digests_def)
qed

lemma demo_store_load:
  assumes "same_lifecycle demo_record r"
  shows "store_load demo_digests (demo_run r) ''run-1'' =
    Inr \<lparr>sr_brief = demo_brief, sr_plan = demo_plan, sr_record = r\<rparr>"
proof -
  have "(case store_load demo_digests (demo_run demo_record) ''run-1'' of Inl _ \<Rightarrow> False | Inr _ \<Rightarrow> True)"
    by code_simp
  then obtain run where run: "store_load demo_digests (demo_run demo_record) ''run-1'' = Inr run"
    by (auto split: sum.splits)
  then have "run = \<lparr>sr_brief = demo_brief, sr_plan = demo_plan, sr_record = demo_record\<rparr>"
    by (auto simp: demo_run_def dest!: store_load_Inr)
  with store_load_written [OF run, of r] store_load_boundary [OF run] assms show ?thesis
    by (auto simp: store_write_def demo_run_def same_identity_def same_lifecycle_def
        validate_transition_plan_boundary_def demo_facts)
qed

lemma demo_loaded:
  assumes "same_lifecycle demo_record r"
  shows "controller_load demo_digests None (demo_run r) ''run-1'' = Inr r"
  using demo_store_load [OF assms] demo_boundary same_boundary [of demo_record r] assms
  by (simp add: controller_load_Inr same_lifecycle_def)

lemma demo_anchors:
  assumes "same_lifecycle demo_record r" and "re_run_id v = ''run-1''"
    and "re_sequence v = rr_event_count r + 1" and "rr_updated_at r \<le> re_occurred_at v"
    and "mk_run_record (demo_after v r) = Inr (demo_after v r)"
  shows "record_event_head demo_digests None demo_head v (demo_run r) = (demo_run (demo_after v r), None)"
proof -
  have "sha256_pattern (replicate 64 (CHR ''1''))" "sha256_pattern (replicate 64 (CHR ''2''))" by code_simp+
  then have sha: "sha256_pattern (demo_head v)" by (simp add: demo_head_def)
  have "prepare_event_head demo_digests None (demo_run r) ''run-1'' (re_sequence v) (demo_head v)
      (Aware (re_occurred_at v) 0) = Inr (r, demo_after v r)"
    using sha assms(3-5) demo_loaded [OF assms(1)]
    by (simp add: prepare_event_head_def as_utc_def validated_def demo_after_def)
  moreover have id: "rr_run_id r = ''run-1''" "rr_run_id (demo_after v r) = ''run-1''"
    using assms(1) by (simp_all add: same_lifecycle_def same_identity_def demo_facts demo_after_def)
  then have "store_replace_event_head demo_digests (demo_run r) r (demo_after v r) =
      Inr (demo_run (demo_after v r))"
    using iffD2 [OF locked_load_Inr demo_store_load [OF assms(1)]] assms(3,4)
    by (simp del: locked_load_Inr add: store_replace_event_head_def store_write_def demo_run_def)
  ultimately show ?thesis using assms(2) by (simp add: record_event_head_def commit_event_head_def)
qed

lemma demo_appends:
  assumes "same_lifecycle demo_record r" and "re_run_id v = ''run-1''"
    and "re_sequence v = rr_event_count r + 1" and "rr_updated_at r \<le> re_occurred_at v"
    and "mk_run_record (demo_after v r) = Inr (demo_after v r)"
    and "next_event (demo_env t) draft lr phase (demo_journal vs) (demo_run r) = Inr v"
    and "event_name v \<notin> fst ` set (event_files vs)"
  shows "journal_append (demo_env t) draft lr phase (demo_journal vs) (demo_run r) =
    ((demo_journal (vs @ [v]), demo_run (demo_after v r)), Inr v)"
  using demo_anchors [OF assms(1-5)] assms(6,7)
  by (simp add: journal_append_def write_event_def demo_env_def run_env_def demo_emit_def
      render_event_def demo_journal_def event_files_def)

lemma demo_emit_event:
  "emit_event demo_digests None demo_head ''run-1'' (demo_emit 10) demo_end (demo_journal []) (demo_run demo_record) =
     ((demo_journal [demo_event], demo_run (demo_after demo_event demo_record)), Inr demo_event)"
proof -
  have same: "same_lifecycle demo_record demo_record" by (simp add: same_lifecycle_def same_identity_def)
  note load = demo_loaded [OF this]
  have "journal_load (demo_env 10) (demo_journal []) (demo_run demo_record) = Inr []"
    using load by (simp add: journal_load_def load_events_def visible_files_def demo_journal_def event_files_def
        verify_anchor_def demo_env_def run_env_def read_event_anchor_def demo_facts last_opt_def)
  then have "next_event (demo_env 10) demo_end 9 Completed_Run (demo_journal []) (demo_run demo_record) = Inr demo_event"
    using demo_event_ok
    by (simp add: next_event_def demo_end_def plain_draft_def demo_env_def run_env_def demo_emit_def
        last_opt_def demo_journal_def event_ok_def demo_event_def)
  from demo_appends [OF same _ _ _ demo_after_ok this] load show ?thesis
    by (simp add: emit_event_def emit_observed_def demo_facts demo_event_facts event_files_def demo_env_def)
qed

text \<open>A run whose record knows of no event, and an empty events directory.\<close>

definition fresh_journal ::
    "digests \<Rightarrow> team_manifest option \<Rightarrow> string \<Rightarrow> journal \<times> run_store \<Rightarrow> bool" where
  "fresh_journal d m run_id js \<longleftrightarrow> jr_run_id (fst js) = run_id \<and> visible_files (fst js) = [] \<and>
     (\<exists>r. controller_load d m (snd js) run_id = Inr r \<and> rr_event_count r = 0 \<and>
        rr_event_head_sha256 r = None)"

lemma fresh_journal_agrees: "fresh_journal d m run_id js \<Longrightarrow> journal_agrees d m digest run_id js []"
  by (auto simp: fresh_journal_def journal_agrees_def run_anchor.agrees_def holds_events_def
      event_files_def read_event_anchor_def last_opt_def)

lemma demo_fresh_journal: "fresh_journal demo_digests None ''run-1'' (demo_journal [], demo_run demo_record)"
  using demo_loaded [of demo_record]
  by (simp add: fresh_journal_def demo_journal_def visible_files_def same_lifecycle_def same_identity_def event_files_def demo_facts)

lemma demo_emit_observed:
  "emit_observed demo_digests None demo_head ''run-1'' (demo_emit 10) demo_end demo_record (demo_journal [])
     (demo_run demo_record) = ((demo_journal [demo_event], demo_run (demo_after demo_event demo_record)), Inr demo_event)"
  using demo_emit_event demo_loaded [of demo_record]
  by (simp add: emit_event_def same_lifecycle_def same_identity_def)

lemma demo_not_overtaken:
  "not_overtaken demo_digests None demo_head ''run-1'' demo_record (demo_journal []) (demo_run demo_record)"
  using demo_loaded [of demo_record]
  by (intro current_not_overtaken [OF fresh_journal_agrees [OF demo_fresh_journal]])
    (simp add: same_lifecycle_def same_identity_def)

lemma demo_event_steps:
  "(journal_step demo_digests None demo_head ''run-1'')\<^sup>*\<^sup>* (demo_journal [], demo_run demo_record)
     (demo_journal [demo_event], demo_run (demo_after demo_event demo_record))"
  by (rule r_into_rtranclp, rule journal_step.emitted [OF demo_emit_observed demo_not_overtaken])
    (simp_all add: demo_emit_def demo_journal_def visible_files_def event_files_def)

lemma emission_loaded:
  "run_journal_load demo_digests None demo_head ''run-1'' e (demo_journal [demo_event]) (demo_run (demo_after demo_event demo_record)) = Inr [demo_event]"
proof -
  obtain vs where vs: "journal_agrees demo_digests None demo_head ''run-1'' (demo_journal [demo_event], demo_run (demo_after demo_event demo_record)) ([] @ vs)"
    "vs = [demo_event]"
    using emitted_agrees [OF fresh_journal_agrees [OF demo_fresh_journal] demo_emit_event]
    by (auto simp: demo_emit_def demo_journal_def visible_files_def event_files_def)
  then show ?thesis
    using run_anchor.agrees_load [OF _ run_env_anchored]
    by (auto simp: run_journal_load_def journal_agrees_def)
qed

section \<open>Properties\<close>

text \<open>C32: The event journal and the run record agree. Start from a run without events and let
  events be emitted (accepted or refused, by any clock and renderer, each with the run record its
  caller had read at any earlier moment), transitions be committed and runs be created, where no
  directory synchronisation fails behind a rename, no more than 999999 events are written, and no
  emission is overtaken by one of a later lifecycle revision between its reading of the record and its
  append. Then at every moment the journal loads to a chain of valid events of this run, numbered from
  1, each with the digest of its predecessor, with timestamps and lifecycle revisions that never fall;
  the record holds their number and the digest of the last; and what had loaded at any earlier moment
  is a prefix of what loads now.\<close>

theorem event_journal_agrees:
  assumes "fresh_journal d m run_id start"
    and "(journal_step d m digest run_id)\<^sup>*\<^sup>* start (j1, s1)"
    and "(journal_step d m digest run_id)\<^sup>*\<^sup>* (j1, s1) (j2, s2)"
  shows "\<exists>vs ws r. run_journal_load d m digest run_id e1 j1 s1 = Inr vs \<and>
    run_journal_load d m digest run_id e2 j2 s2 = Inr (vs @ ws) \<and> event_chain digest run_id (vs @ ws) \<and>
    controller_load d m s2 run_id = Inr r \<and> rr_event_count r = int (length (vs @ ws)) \<and>
    rr_event_head_sha256 r = map_option digest (last_opt (vs @ ws))"
proof -
  have start: "\<exists>vs. journal_agrees d m digest run_id start vs"
    using fresh_journal_agrees [OF assms(1)] by blast
  obtain vs where one: "journal_agrees d m digest run_id (j1, s1) vs"
    using event_journal.reachable_inv [OF assms(2) start] by blast
  then obtain us where two: "journal_agrees d m digest run_id (j2, s2) us"
    using event_journal.reachable_inv [OF assms(3)] by blast
  obtain ws where us: "us = vs @ ws"
    using event_journal.reachable_extends [OF assms(3) _ journal_agrees_view [OF one]] one
      journal_agrees_view [OF two] by auto
  have agrees: "run_anchor.agrees d m run_id digest j1 s1 vs" "run_anchor.agrees d m run_id digest j2 s2 us"
    using one two by (simp_all add: journal_agrees_def)
  obtain r where "controller_load d m s2 run_id = Inr r" "rr_event_count r = int (length us)"
      "rr_event_head_sha256 r = map_option digest (last_opt us)"
    using run_anchor.agrees_parts(5) [OF agrees(2)] by (auto simp: read_event_anchor_def ebind_eq_Inr)
  then show ?thesis
    using run_anchor.agrees_load [OF agrees(1) run_env_anchored]
      run_anchor.agrees_load [OF agrees(2) run_env_anchored] run_anchor.agrees_parts(2) [OF agrees(2)]
    unfolding run_journal_load_def us by blast
qed

theorem event_journal_agrees_witness:
  "\<exists>r. run_journal_load demo_digests None demo_head ''run-1'' (demo_emit 1) (demo_journal [demo_event]) (demo_run (demo_after demo_event demo_record)) =
      Inr [demo_event] \<and> event_chain demo_head ''run-1'' [demo_event] \<and>
    controller_load demo_digests None (demo_run (demo_after demo_event demo_record)) ''run-1'' = Inr r \<and> rr_event_count r = 1"
proof -
  obtain vs ws r where
    "run_journal_load demo_digests None demo_head ''run-1'' (demo_emit 1) (demo_journal []) (demo_run demo_record) = Inr vs"
    and after: "run_journal_load demo_digests None demo_head ''run-1'' (demo_emit 1) (demo_journal [demo_event]) (demo_run (demo_after demo_event demo_record)) =
      Inr (vs @ ws)" "event_chain demo_head ''run-1'' (vs @ ws)"
      "controller_load demo_digests None (demo_run (demo_after demo_event demo_record)) ''run-1'' = Inr r"
      "rr_event_count r = int (length (vs @ ws))"
    using event_journal_agrees [OF demo_fresh_journal rtranclp.rtrancl_refl demo_event_steps] by metis
  have "vs @ ws = [demo_event]" using after(1) by (simp add: emission_loaded)
  then show ?thesis using after by auto
qed

text \<open>C33: Emitting an event is all or nothing. On a journal of fewer than 999999 events that agrees
  with its run, provided that the synchronisation of the directory does not fail behind the rename and
  that the emission is not overtaken, an emission that raises (a draft that is no valid event, a clock
  set back, a write error, an anchor the controller refuses) leaves the journal and every run as they
  were; one that returns has added its event, which the next load returns last, with the kind of the
  draft and the next number.\<close>

theorem emission_all_or_nothing:
  assumes "journal_agrees d m digest run_id (j, s) vs"
    and "emit_observed d m digest run_id e draft observed j s = ((j1, s1), outcome)"
    and "not_overtaken d m digest run_id observed j s"
    and "\<And>v x. em_disk e v \<noteq> Sync_Failed x" and "length vs < 999999"
  shows "case outcome of
      Inl err \<Rightarrow> j1 = j \<and> s1 = s
    | Inr v \<Rightarrow> run_journal_load d m digest run_id e1 j1 s1 = Inr (vs @ [v]) \<and>
        re_kind v = dr_kind draft \<and> re_sequence v = int (length vs) + 1 \<and>
        journal_agrees d m digest run_id (j1, s1) (vs @ [v])"
proof (cases outcome)
  case (Inl err)
  have agrees: "run_anchor.agrees d m run_id digest j s vs" using assms(1) by (simp add: journal_agrees_def)
  have "length (visible_files j) < 999999"
    using assms(5) run_anchor.agrees_parts(4) [OF agrees] by (simp add: event_files_def)
  from observed_agrees [OF assms(1-4) this] show ?thesis using Inl by simp
next
  case (Inr v)
  have agrees: "run_anchor.agrees d m run_id digest j s vs" using assms(1) by (simp add: journal_agrees_def)
  have "length (visible_files j) < 999999"
    using assms(5) run_anchor.agrees_parts(4) [OF agrees] by (simp add: event_files_def)
  from observed_agrees [OF assms(1-4) this]
  have after: "journal_agrees d m digest run_id (j1, s1) (vs @ [v])" using Inr by simp
  then have "run_anchor.agrees d m run_id digest j1 s1 (vs @ [v])" by (simp add: journal_agrees_def)
  note loaded = run_anchor.agrees_load [OF this run_env_anchored, of e1] run_anchor.agrees_parts(2) [OF this]
  obtain current :: run_record where "journal_append (run_env d m digest run_id e) draft (rr_revision current)
      (rr_phase current) j s = ((j1, s1), Inr v)"
    using assms(2) Inr by (auto simp: emit_observed_def)
  then have "next_event (run_env d m digest run_id e) draft (rr_revision current) (rr_phase current) j s = Inr v"
    by (auto simp: journal_append_def split: sum.splits prod.splits option.splits)
  then have "re_kind v = dr_kind draft"
    by (rule next_event_Inr) (drule mk_event_frame(6), simp add: event_of_draft_def)
  then show ?thesis
    using Inr loaded(1) after event_chain_prefix(2) [OF loaded(2)]
    by (simp add: run_journal_load_def event_extends_def)
qed

theorem emission_all_or_nothing_witness:
  "run_journal_load demo_digests None demo_head ''run-1'' (demo_emit 2) (demo_journal [demo_event]) (demo_run (demo_after demo_event demo_record)) =
     Inr [demo_event] \<and> re_kind demo_event = Ev_Run_Completed"
proof -
  have "journal_agrees demo_digests None demo_head ''run-1'' (demo_journal [], demo_run demo_record) []"
    by (rule fresh_journal_agrees [OF demo_fresh_journal])
  from emission_all_or_nothing [OF this demo_emit_observed demo_not_overtaken, of "demo_emit 2"]
  show ?thesis by (simp add: demo_emit_def demo_event_facts)
qed

text \<open>C34: The anchor makes tampering visible. Whatever files are in the events directory, two contents
  that both load under the same run record are the same sequence of events, provided the digest does
  not collide on them: no event can be changed, dropped, added, reordered or replaced without every
  reader raising.\<close>

theorem anchored_journal_unique:
  assumes "run_journal_load d m digest run_id e1 j1 s = Inr vs"
    and "run_journal_load d m digest run_id e2 j2 s = Inr ws"
    and "inj_on digest (set vs \<union> set ws)"
  shows "vs = ws"
proof -
  have loaded: "event_chain digest (jr_run_id j1) vs" "event_chain digest (jr_run_id j2) ws"
    "read_event_anchor d m run_id s = Inr (int (length vs), map_option digest (last_opt vs))"
    "read_event_anchor d m run_id s = Inr (int (length ws), map_option digest (last_opt ws))"
    using assms(1,2)
    by (auto simp: run_journal_load_def journal_load_def run_env_def ebind_eq_Inr verify_anchor_def
        intro!: load_events_chain split: sum.splits)
  have "event_chain digest r1 vs \<Longrightarrow> event_chain digest r2 ws \<Longrightarrow> length vs = length ws \<Longrightarrow>
      map_option digest (last_opt vs) = map_option digest (last_opt ws) \<Longrightarrow>
      inj_on digest (set vs \<union> set ws) \<Longrightarrow> vs = ws" for r1 r2
  proof (induction vs arbitrary: ws rule: rev_induct)
    case (snoc v vs)
    then obtain w us where ws: "ws = us @ [w]" by (cases ws rule: rev_cases) auto
    then have "digest v = digest w" using snoc.prems(4) by (simp add: last_opt_def)
    then have "v = w" by (rule inj_onD [OF snoc.prems(5)]) (simp_all add: ws)
    then have same: "v = w" "length vs = length us" using snoc.prems(3) ws by simp_all
    have "inj_on digest (set vs \<union> set us)"
      by (rule inj_on_subset [OF snoc.prems(5)]) (auto simp: ws)
    moreover note v = event_chain_prefix [OF snoc.prems(1)] and w = event_chain_prefix [OF snoc.prems(2) [unfolded ws]]
    then have "map_option digest (last_opt vs) = map_option digest (last_opt us)"
      using same(1) by (simp add: event_extends_def)
    ultimately show ?case using snoc.IH [of us] v(1) w(1) same ws by blast
  qed simp
  then show ?thesis using loaded assms(3) by (metis Inr_inject prod.inject of_nat_eq_iff)
qed

definition demo_littered :: journal where
  "demo_littered = (demo_journal [demo_event])\<lparr>jr_files := (''.tmp'', Unreadable_Event) # jr_files (demo_journal [demo_event])\<rparr>"

theorem anchored_journal_unique_witness:
  "\<exists>vs ws. run_journal_load demo_digests None demo_head ''run-1'' (demo_emit 1) (demo_journal [demo_event])
      (demo_run (demo_after demo_event demo_record)) = Inr vs \<and>
    run_journal_load demo_digests None demo_head ''run-1'' (demo_emit 1) demo_littered
      (demo_run (demo_after demo_event demo_record)) = Inr ws \<and> vs = ws \<and> ws \<noteq> []"
proof -
  have "run_journal_load demo_digests None demo_head ''run-1'' (demo_emit 1) demo_littered
      (demo_run (demo_after demo_event demo_record)) = Inr [demo_event]"
    using emission_loaded [of "demo_emit 1"]
    by (simp add: demo_littered_def run_journal_load_def journal_load_def load_events_def visible_files_def hidden_def)
  with anchored_journal_unique [OF emission_loaded this] emission_loaded show ?thesis by auto
qed

text \<open>C35: \<open>append\<close> does not check what \<open>load\<close> demands of the lifecycle revisions. An event appended
  with a revision below that of its predecessor (its caller read the run record before another
  thread committed a transition and emitted) is written, anchored and returned as a success, and
  from then on every load of the journal, and so every later emission, raises.\<close>

theorem stale_revision_blocks_journal:
  assumes "journal_agrees d m digest run_id (j, s) (vs @ [p])" and "length vs < 999998"
    and "journal_append (run_env d m digest run_id e) draft stale phase j s = ((j1, s1), Inr v)"
    and "stale < re_lifecycle_revision p"
  shows "run_journal_load d m digest run_id e1 j1 s1 =
      Inl (Journal_Error ''RunEvent lifecycle revisions must be monotonic'') \<and>
    (\<forall>draft2. \<exists>err. snd (emit_event d m digest run_id e1 draft2 j1 s1) = Inl err)"
proof -
  have agrees: "run_anchor.agrees d m run_id digest j s (vs @ [p])" using assms(1) by (simp add: journal_agrees_def)
  note parts = run_anchor.agrees_parts [OF agrees]
  have v: "next_event (run_env d m digest run_id e) draft stale phase j s = Inr v"
    "j1 = render_event (run_env d m digest run_id e) v
       (j\<lparr>jr_files := jr_files j @ [(event_name v, Event_File v)]\<rparr>)"
    using assms(3)
    by (auto simp: journal_append_def run_env_def write_event_def Let_def
        split: sum.splits prod.splits option.splits if_splits write_outcome.splits)
  obtain now where now: "re_occurred_at p \<le> now" and
    mk: "mk_event (event_of_draft run_id (int (length (vs @ [p])) + 1) now stale phase (Some (digest p)) draft) = Inr v"
    using run_anchor.agrees_load [OF agrees run_env_anchored, of e] parts(1)
    by - (rule next_event_Inr [OF v(1)], auto simp: run_env_def last_opt_def)
  note frame = mk_event_frame [OF mk] mk_event_idem [OF mk]
  have name: "event_name v = numbered_name (length vs + 2)"
    using frame by (simp add: event_name_def event_of_draft_def nat_add_distrib)
  have files: "visible_files j1 = event_files (vs @ [p]) @ [(event_name v, Event_File v)]" "jr_run_id j1 = run_id"
    using v(2) parts(1,4) numbered_name_visible name
    by (auto simp: visible_files_def render_event_def Let_def split: option.splits)
  have sorted: "sort_key fst (visible_files j1) = visible_files j1"
  proof (rule sort_key_id_if_sorted)
    have names: "map fst (visible_files j1) = map (\<lambda>i. numbered_name (Suc i)) [0..<length vs + 2]"
      using event_chain_names [OF parts(2)] by (simp add: files(1) name)
    have "numbered_name (Suc i) \<le> numbered_name (Suc k)" if "i \<le> k" "k < length vs + 2" for i k
      using numbered_names_sorted [of "Suc i" "Suc k"] that assms(2) by (cases "i = k") auto
    then show "sorted (map fst (visible_files j1))"
      unfolding names by (auto simp: sorted_iff_nth_mono simp del: upt_Suc)
  qed
  have "load_event digest run_id (event_name v, Event_File v) (vs @ [p]) =
      Inl (Journal_Error ''RunEvent lifecycle revisions must be monotonic'')"
    using frame now assms(2,4) numbered_name_round [of "length vs + 2"]
    by (simp add: load_event_def name last_opt_def event_ok_def event_of_draft_def)
  moreover have "efold (load_event digest run_id) (event_files (vs @ [p])) [] = Inr (vs @ [p])"
    using load_event_files parts(2,3) by blast
  ultimately have "load_events digest j1 = Inl (Journal_Error ''RunEvent lifecycle revisions must be monotonic'')"
    unfolding load_events_def sorted files(2)
    by (simp only: files(1) efold_append ebind_Inr efold.simps ebind_Inl)
  then have fails: "journal_load (run_env d m digest run_id e1) j1 s1 =
      Inl (Journal_Error ''RunEvent lifecycle revisions must be monotonic'')" for e1
    by (simp add: journal_load_def run_env_def)
  have "\<exists>err. next_event (run_env d m digest run_id e1) draft2 r ph j1 s1 = Inl err" for draft2 r ph
    using fails [of e1] by (auto simp: next_event_def ebind_eq_Inl)
  then have "\<exists>err. snd (journal_append (run_env d m digest run_id e1) draft2 r ph j1 s1) = Inl err" for draft2 r ph
    unfolding journal_append_def by (metis old.sum.simps(5) snd_conv)
  then have "\<exists>err. snd (emit_event d m digest run_id e1 draft2 j1 s1) = Inl err" for draft2
    by (simp add: emit_event_def emit_observed_def split: sum.split)
  then show ?thesis using fails by (simp add: run_journal_load_def)
qed


theorem stale_revision_blocks_journal_witness:
  "run_journal_load demo_digests None demo_head ''run-1'' (demo_emit 12)
     (demo_journal [demo_event, demo_stale]) (demo_run (demo_after demo_stale (demo_after demo_event demo_record))) =
   Inl (Journal_Error ''RunEvent lifecycle revisions must be monotonic'')"
proof -
  have agrees: "journal_agrees demo_digests None demo_head ''run-1''
      (demo_journal [demo_event], demo_run (demo_after demo_event demo_record)) ([] @ [demo_event])"
    using emitted_agrees [OF fresh_journal_agrees [OF demo_fresh_journal] demo_emit_event]
    by (simp add: demo_emit_def demo_journal_def visible_files_def event_files_def)
  have "next_event (demo_env 11) demo_end 8 Delivering (demo_journal [demo_event])
      (demo_run (demo_after demo_event demo_record)) = Inr demo_stale"
    using emission_loaded [of "demo_emit 11"] demo_stale_ok
    by (simp add: next_event_def run_journal_load_def demo_env_def last_opt_def demo_event_facts)
      (simp add: demo_end_def plain_draft_def run_env_def demo_emit_def demo_event_facts demo_journal_def
        event_ok_def demo_stale_def)
  then have "journal_append (demo_env 11) demo_end 8 Delivering (demo_journal [demo_event])
      (demo_run (demo_after demo_event demo_record)) =
    ((demo_journal ([demo_event] @ [demo_stale]),
      demo_run (demo_after demo_stale (demo_after demo_event demo_record))), Inr demo_stale)"
    using numbered_names_sorted [of 1 2]
    by (intro demo_appends demo_after_stale_ok)
      (simp_all add: demo_event_facts event_files_def event_name_def)
  from stale_revision_blocks_journal [OF agrees _ this [unfolded demo_env_def]] show ?thesis
    by (simp add: demo_event_facts)
qed

end
