(* ===== verification/Json_Values.thy ===== *)
theory Json_Values
  imports Journal_Files Complex_Main
begin

text \<open>
  JSON payloads and the pointers of \<open>response_corrections.py\<close> into them. A pointer is text: \<open>/\<close> is
  the whole payload, otherwise every part follows a slash, with \<open>~1\<close> for a slash and \<open>~0\<close> for a
  tilde. An object keeps the order of its keys, as a Python dictionary does.
\<close>

section \<open>Values\<close>

datatype json =
    Json_Null | Json_Bool bool | Json_Int int | Json_Number rat | Json_Text string
  | Json_List "json list" | Json_Object "(string \<times> json) list"

definition json_object_get :: "(string \<times> json) list \<Rightarrow> string \<Rightarrow> json option" where
  "json_object_get entries key = map_of entries key"

text \<open>\<open>d[key] = value\<close>: an existing key keeps its position, a new one goes last.\<close>

fun json_object_set :: "(string \<times> json) list \<Rightarrow> string \<Rightarrow> json \<Rightarrow> (string \<times> json) list" where
  "json_object_set [] key value = [(key, value)]"
| "json_object_set ((k, v) # rest) key value =
     (if k = key then (k, value) # rest else (k, v) # json_object_set rest key value)"

text \<open>A decoded object has each key once; \<open>well_formed\<close> says so for every object of a value.\<close>

fun well_formed :: "json \<Rightarrow> bool" where
  "well_formed (Json_List items) = list_all well_formed items"
| "well_formed (Json_Object entries) =
     (distinct (map fst entries) \<and> list_all (\<lambda>(_, v). well_formed v) entries)"
| "well_formed value = True"

section \<open>Pointers\<close>

fun escape_part :: "string \<Rightarrow> string" where
  "escape_part [] = []"
| "escape_part (c # cs) =
     (if c = CHR ''~'' then ''~0'' @ escape_part cs
      else if c = CHR ''/'' then ''~1'' @ escape_part cs else c # escape_part cs)"

definition encode_pointer :: "string list \<Rightarrow> string" where
  "encode_pointer parts =
     (if parts = [] then ''/'' else ''/'' @ join_with ''/'' (map escape_part parts))"

text \<open>The loop over the escapes of one part, and the two replacements after it: \<open>~1\<close> first.\<close>

fun escapes_ok :: "string \<Rightarrow> bool" where
  "escapes_ok [] = True"
| "escapes_ok (c # cs) =
     (if c = CHR ''~''
      then (case cs of [] \<Rightarrow> False | d # ds \<Rightarrow> (d = CHR ''0'' \<or> d = CHR ''1'') \<and> escapes_ok ds)
      else escapes_ok cs)"

fun replace_pair :: "char \<Rightarrow> char \<Rightarrow> char \<Rightarrow> string \<Rightarrow> string" where
  "replace_pair a b r (c # d # cs) =
     (if c = a \<and> d = b then r # replace_pair a b r cs else c # replace_pair a b r (d # cs))"
| "replace_pair a b r cs = cs"

definition unescape_part :: "string \<Rightarrow> string" where
  "unescape_part s =
     replace_pair (CHR ''~'') (CHR ''0'') (CHR ''~'') (replace_pair (CHR ''~'') (CHR ''1'') (CHR ''/'') s)"

definition decode_part :: "string \<Rightarrow> fault + string" where
  "decode_part raw = ebind (first_error
     [(\<not> escapes_ok raw, Value_Error ''JSON pointer contains an invalid escape'')])
     (\<lambda>_. Inr (unescape_part raw))"

definition decode_pointer :: "string \<Rightarrow> fault + string list" where
  "decode_pointer pointer =
     (if pointer = ''/'' then Inr [] else emap decode_part (split_on (CHR ''/'') (drop 1 pointer)))"

definition pointer_parts :: "string \<Rightarrow> string list" where
  "pointer_parts p = (case decode_pointer p of Inr parts \<Rightarrow> parts | Inl _ \<Rightarrow> [])"

section \<open>Encoding and decoding\<close>

lemma escapes_ok_escape: "escapes_ok (escape_part s)"
  by (induction s) simp_all

text \<open>Escaped text read as tokens: an escape or a plain character.\<close>

lemma replace_plain: "a \<notin> set s \<Longrightarrow> replace_pair a b r s = s"
  by (induction a b r s rule: replace_pair.induct) auto

fun tilde_only :: "string \<Rightarrow> string" where
  "tilde_only [] = []"
| "tilde_only (c # cs) = (if c = CHR ''~'' then ''~0'' @ tilde_only cs else c # tilde_only cs)"

lemma replace_tilde_step:
  "c \<noteq> a \<Longrightarrow> replace_pair a b r (c # s) = c # replace_pair a b r s"
  by (cases s) simp_all

lemma replace_slash_escapes:
  "replace_pair (CHR ''~'') (CHR ''1'') (CHR ''/'') (escape_part s) = tilde_only s"
  by (induction s) (auto simp: replace_tilde_step)

lemma replace_tilde_escapes:
  "replace_pair (CHR ''~'') (CHR ''0'') (CHR ''~'') (tilde_only s) = s"
  by (induction s) (auto simp: replace_tilde_step)

lemma unescape_escape: "unescape_part (escape_part s) = s"
  by (simp add: unescape_part_def replace_slash_escapes replace_tilde_escapes)

lemma escape_no_slash: "CHR ''/'' \<notin> set (escape_part s)"
  by (induction s) auto

lemma split_plain: "c \<notin> set s \<Longrightarrow> split_on c s = [s]"
  by (induction s) auto

lemma split_on_append: "c \<notin> set s \<Longrightarrow> split_on c (s @ c # t) = s # split_on c t"
  by (induction s) auto

lemma split_join:
  "ps \<noteq> [] \<Longrightarrow> (\<And>p. p \<in> set ps \<Longrightarrow> c \<notin> set p) \<Longrightarrow> split_on c (join_with [c] ps) = ps"
proof (induction ps rule: induct_list012)
  case (3 p q ps)
  have "split_on c (join_with [c] (p # q # ps)) = p # split_on c (join_with [c] (q # ps))"
    using split_on_append [of c p "join_with [c] (q # ps)"] 3(4) [of p] by simp
  then show ?case using 3(2,4) by simp
qed (simp_all add: split_plain)

lemma decode_parts: "emap decode_part (map escape_part ps) = Inr ps"
  by (induction ps) (simp_all add: decode_part_def escapes_ok_escape unescape_escape)

text \<open>A pointer made from parts is decoded to them, but for the one part that is the empty key:
  its pointer is the pointer of the whole payload.\<close>

lemma decode_encode:
  assumes "parts \<noteq> [[]]"
  shows "decode_pointer (encode_pointer parts) = Inr parts"
proof (cases "parts = []")
  case False
  have "escape_part p = [] \<longleftrightarrow> p = []" for p by (cases p) simp_all
  then have "join_with ''/'' (map escape_part parts) \<noteq> []"
    using False assms by (cases parts; cases "tl parts") auto
  moreover have "split_on (CHR ''/'') (join_with ''/'' (map escape_part parts)) = map escape_part parts"
    by (rule split_join) (use False escape_no_slash in auto)
  ultimately show ?thesis using False by (simp add: decode_pointer_def encode_pointer_def decode_parts)
qed (simp add: decode_pointer_def encode_pointer_def)

lemma empty_key_pointer: "encode_pointer [[]] = ''/''" "decode_pointer ''/'' = Inr []"
  by (simp_all add: encode_pointer_def decode_pointer_def)

section \<open>Distinct pointers have distinct parts\<close>

lemma unescape_step:
  "unescape_part (CHR ''~'' # CHR ''0'' # s) = CHR ''~'' # unescape_part s"
  "unescape_part (CHR ''~'' # CHR ''1'' # s) = CHR ''/'' # unescape_part s"
  "c \<noteq> CHR ''~'' \<Longrightarrow> unescape_part (c # s) = c # unescape_part s"
  "unescape_part [] = []"
  by (simp_all add: unescape_part_def replace_tilde_step)

lemma escape_unescape: "escapes_ok s \<Longrightarrow> CHR ''/'' \<notin> set s \<Longrightarrow> escape_part (unescape_part s) = s"
proof (induction s rule: escapes_ok.induct)
  case (2 c cs)
  show ?case
  proof (cases "c = CHR ''~''")
    case True
    then obtain d ds where d: "cs = d # ds" "d = CHR ''0'' \<or> d = CHR ''1''" "escapes_ok ds"
      using 2(3) by (auto split: list.splits)
    have "escape_part (unescape_part ds) = ds" using 2(1) [OF True d(1,3)] 2(4) d(1) by simp
    then show ?thesis using d(1,2) True by (auto simp: unescape_step)
  next
    case False
    then show ?thesis using 2 by (auto simp: unescape_step)
  qed
qed (simp add: unescape_step)

lemma join_Cons: "ps \<noteq> [] \<Longrightarrow> join_with sep ((c # p) # ps) = c # join_with sep (p # ps)"
  by (cases ps) simp_all

lemma split_not_Nil: "split_on c s \<noteq> []"
  by (induction s) (auto split: list.splits)

lemma join_split: "join_with [c] (split_on c s) = s"
proof (induction s)
  case (Cons x xs)
  obtain p ps where p: "split_on c xs = p # ps" using split_not_Nil [of c xs] by (cases "split_on c xs") auto
  show ?case
  proof (cases "x = c")
    case True
    then show ?thesis using Cons p by simp
  next
    case False
    then show ?thesis using Cons p by (cases ps) (auto simp: join_Cons)
  qed
qed simp

lemma split_no_sep: "p \<in> set (split_on c s) \<Longrightarrow> c \<notin> set p"
  by (induction s arbitrary: p) (auto split: list.splits if_splits)

lemma decode_part_Inr: "decode_part r = Inr p \<longleftrightarrow> escapes_ok r \<and> p = unescape_part r"
  by (auto simp: decode_part_def ebind_eq_Inr)

lemma decode_part_again:
  "emap decode_part raws = Inr ps \<Longrightarrow> (\<And>r. r \<in> set raws \<Longrightarrow> CHR ''/'' \<notin> set r) \<Longrightarrow> map escape_part ps = raws"
proof (induction raws arbitrary: ps)
  case (Cons r raws)
  then obtain qs where q: "escapes_ok r" "emap decode_part raws = Inr qs" "ps = unescape_part r # qs"
    using decode_part_Inr by (auto simp: ebind_eq_Inr)
  have "map escape_part qs = raws" using Cons.IH [OF q(2)] Cons.prems(2) by simp
  then show ?case using q Cons.prems(2) [of r] escape_unescape by simp
qed simp

lemma decode_Inr_encode:
  assumes "decode_pointer p = Inr parts" and "p \<noteq> ''/''" and "take 1 p = ''/''"
  shows "parts \<noteq> [] \<and> encode_pointer parts = p"
proof -
  obtain s where p: "p = CHR ''/'' # s" using assms(3) by (cases p) auto
  have d: "emap decode_part (split_on (CHR ''/'') s) = Inr parts"
    using assms(1,2) p by (simp add: decode_pointer_def)
  then have m: "map escape_part parts = split_on (CHR ''/'') s"
    by (rule decode_part_again) (rule split_no_sep)
  then have "parts \<noteq> []" using split_not_Nil [of "CHR ''/''" s] by auto
  then show ?thesis using m join_split [of "CHR ''/''" s] p by (simp add: encode_pointer_def)
qed

end
