(* ===== verification/Work_Artifacts.thy ===== *)
theory Work_Artifacts
  imports Artifacts Dag
begin

text \<open>
  The artifacts of \<open>artifacts.py\<close> that record planned, done and tested work: the implementation
  plan, work results, deterministic command evidence and test reports. A constructor \<open>mk_x\<close> cleans
  the fields that the model cleans and validates the result; that a constructed artifact is read
  back unchanged is the contract \<open>normalizer\<close>, which every artifact model interprets.
\<close>

section \<open>Constructors that clean their input\<close>

locale normalizer =
  fixes make :: "'a \<Rightarrow> fault + 'a"
  assumes stable: "make x = Inr y \<Longrightarrow> make y = Inr y"
begin

text \<open>A value that the constructor returns as it is.\<close>

definition made :: "'a \<Rightarrow> bool" where
  "made y \<longleftrightarrow> make y = Inr y"

lemma makes: "make x = Inr y \<Longrightarrow> made y"
  by (simp add: made_def stable)

lemma made_again: "made y \<Longrightarrow> make y = Inr y"
  by (simp add: made_def)

definition all_made :: "'a list \<Rightarrow> bool" where
  "all_made ys \<longleftrightarrow> emap make ys = Inr ys"

lemma all_stable: "emap make xs = Inr ys \<Longrightarrow> emap make ys = Inr ys"
proof (induction xs arbitrary: ys)
  case (Cons x xs)
  then obtain z zs where z: "make x = Inr z" "emap make xs = Inr zs" "ys = z # zs"
    by (auto simp: ebind_eq_Inr)
  have "emap make zs = Inr zs" using z(2) by (rule Cons.IH)
  then show ?case using z stable [OF z(1)] by simp
qed simp

lemma makes_all: "emap make xs = Inr ys \<Longrightarrow> all_made ys"
  by (simp add: all_made_def all_stable)

lemma all_made_again: "all_made ys \<Longrightarrow> emap make ys = Inr ys"
  by (simp add: all_made_def)

lemma all_madeD: "emap make xs = Inr ys \<Longrightarrow> y \<in> set ys \<Longrightarrow> make y = Inr y"
  by (induction xs arbitrary: ys) (auto simp: ebind_eq_Inr intro: stable)

lemmas again = made_again all_made_again
lemmas made_rules = makes makes_all

end

definition clean_then :: "('a \<Rightarrow> fault + 'a) \<Rightarrow> ('a \<Rightarrow> fault + unit) \<Rightarrow> 'a \<Rightarrow> fault + 'a" where
  "clean_then clean check x = ebind (clean x) (\<lambda>y. ebind (check y) (\<lambda>_. Inr y))"

lemma clean_then_Inr: "clean_then clean check x = Inr y \<longleftrightarrow> clean x = Inr y \<and> check y = Inr ()"
  by (auto simp: clean_then_def ebind_eq_Inr)

lemma clean_then_normalizer:
  assumes "\<And>x y. clean x = Inr y \<Longrightarrow> clean y = Inr y"
  shows "normalizer (clean_then clean check)"
  by unfold_locales (use assms in \<open>auto simp: clean_then_Inr\<close>)

text \<open>\<open>_require_utc\<close> keeps the instant and sets the offset to UTC.\<close>

definition normalize_utc :: "datetime \<Rightarrow> fault + datetime" where
  "normalize_utc d = ebind (require_utc (Value_Error ''artifact timestamps must include a timezone'') d)
     (\<lambda>t. Inr (Aware t 0))"

interpretation utc: normalizer normalize_utc
  by unfold_locales (auto simp: normalize_utc_def ebind_eq_Inr require_utc_Inr)

interpretation clean_items: normalizer require_clean_unique_items
  by unfold_locales (rule clean_unique_items_stable)

definition clean_paths :: "string list \<Rightarrow> fault + string list" where
  "clean_paths values = ebind (require_clean_unique_items values) (emap require_safe_relative_path)"

lemma safe_paths_same: "emap require_safe_relative_path vs = Inr ws \<longleftrightarrow>
    ws = vs \<and> (\<forall>v \<in> set vs. require_safe_relative_path v = Inr v)"
  by (induction vs arbitrary: ws) (auto simp: ebind_eq_Inr require_safe_relative_path_def)

interpretation clean_path_list: normalizer clean_paths
  by unfold_locales
    (auto simp: clean_paths_def ebind_eq_Inr safe_paths_same intro: clean_unique_items_stable)

section \<open>Headers\<close>

text \<open>\<open>PhaseArtifact\<close>: the metadata of every artifact; the kind is the constructor of the artifact.\<close>

record artifact_header =
  ah_schema_version :: int
  ah_run_id :: string
  ah_team_id :: string
  ah_producer :: string
  ah_created_at :: datetime

definition readable_schema :: "int \<Rightarrow> bool" where
  "readable_schema v \<longleftrightarrow> 2 \<le> v \<and> v \<le> 15"

definition validate_header :: "artifact_header \<Rightarrow> fault + unit" where
  "validate_header h = first_error
     [(\<not> readable_schema (ah_schema_version h), Field_Invalid ''schema_version''),
      (\<not> run_id_pattern (ah_run_id h), Field_Invalid ''run_id''),
      (\<not> ident_pattern (ah_team_id h), Field_Invalid ''team_id''),
      (\<not> ident_pattern (ah_producer h), Field_Invalid ''producer'')]"

definition clean_header :: "artifact_header \<Rightarrow> fault + artifact_header" where
  "clean_header h = ebind (normalize_utc (ah_created_at h)) (\<lambda>t. Inr (h\<lparr>ah_created_at := t\<rparr>))"

definition mk_header :: "artifact_header \<Rightarrow> fault + artifact_header" where
  "mk_header = clean_then clean_header validate_header"

interpretation headers: normalizer mk_header
  unfolding mk_header_def
  by (rule clean_then_normalizer) (auto simp: clean_header_def ebind_eq_Inr utc.again
      dest!: utc.made_rules)

section \<open>The implementation plan\<close>

record plan_task =
  pt_id :: string
  pt_owner :: agent_role
  pt_description :: string
  pt_dependencies :: "string list"
  pt_acceptance_criteria :: "string list"
  pt_expected_paths :: "string list"

definition clean_plan_task :: "plan_task \<Rightarrow> fault + plan_task" where
  "clean_plan_task t =
     ebind (require_clean_unique_items (pt_dependencies t)) (\<lambda>dependencies.
     ebind (require_clean_unique_items (pt_acceptance_criteria t)) (\<lambda>criteria.
     ebind (clean_paths (pt_expected_paths t)) (\<lambda>paths.
       Inr (t\<lparr>pt_dependencies := dependencies, pt_acceptance_criteria := criteria,
              pt_expected_paths := paths\<rparr>))))"

definition validate_plan_task :: "plan_task \<Rightarrow> fault + unit" where
  "validate_plan_task t = first_error
     [(\<not> prefixed_id_pattern ''TASK_'' (pt_id t), Field_Invalid ''id''),
      (pt_description t = [], Field_Invalid ''description''),
      (pt_acceptance_criteria t = [], Field_Invalid ''acceptance_criteria'')]"

definition mk_plan_task :: "plan_task \<Rightarrow> fault + plan_task" where
  "mk_plan_task = clean_then clean_plan_task validate_plan_task"

interpretation plan_tasks: normalizer mk_plan_task
  unfolding mk_plan_task_def
  by (rule clean_then_normalizer)
    (auto simp: clean_plan_task_def ebind_eq_Inr clean_items.again clean_path_list.again
      dest!: clean_items.made_rules clean_path_list.made_rules)

record implementation_plan =
  ip_header :: artifact_header
  ip_iteration :: int
  ip_objective :: string
  ip_approach :: "string list"
  ip_tasks :: "plan_task list"
  ip_risks :: "string list"
  ip_assumptions :: "string list"

definition task_ids :: "implementation_plan \<Rightarrow> string list" where
  "task_ids p = map pt_id (ip_tasks p)"

definition task_deps :: "implementation_plan \<Rightarrow> string \<Rightarrow> string list" where
  "task_deps p i = the_or (map_option pt_dependencies (List.find (\<lambda>t. pt_id t = i) (ip_tasks p))) []"

text \<open>\<open>validate_tasks\<close>: unique identifiers, known dependencies other than the task itself, no cycle.\<close>

definition check_task :: "implementation_plan \<Rightarrow> plan_task \<Rightarrow> fault + unit" where
  "check_task p t = first_error
     [(\<not> set (pt_dependencies t) \<subseteq> set (task_ids p), Value_Error ''task references unknown dependencies''),
      (pt_id t \<in> set (pt_dependencies t), Value_Error ''a plan task cannot depend on itself'')]"

definition check_tasks :: "implementation_plan \<Rightarrow> fault + unit" where
  "check_tasks p =
     ebind (first_error
       [(\<not> distinct (task_ids p), Value_Error ''implementation plan task IDs must be unique'')]) (\<lambda>_.
     ebind (check_all (check_task p) (ip_tasks p)) (\<lambda>_. first_error
       [(acyclic_check (task_ids p) (task_deps p) \<noteq> Inr (),
          Value_Error ''implementation plan dependencies must be acyclic'')]))"

definition clean_implementation_plan :: "implementation_plan \<Rightarrow> fault + implementation_plan" where
  "clean_implementation_plan p =
     ebind (mk_header (ip_header p)) (\<lambda>header.
     ebind (require_clean_unique_items (ip_approach p)) (\<lambda>approach.
     ebind (emap mk_plan_task (ip_tasks p)) (\<lambda>tasks.
     ebind (require_clean_unique_items (ip_risks p)) (\<lambda>risks.
     ebind (require_clean_unique_items (ip_assumptions p)) (\<lambda>assumptions.
       Inr (p\<lparr>ip_header := header, ip_approach := approach, ip_tasks := tasks, ip_risks := risks,
              ip_assumptions := assumptions\<rparr>))))))"

definition validate_implementation_plan :: "implementation_plan \<Rightarrow> fault + unit" where
  "validate_implementation_plan p =
     ebind (first_error
       [(ah_producer (ip_header p) \<noteq> ''planner'', Field_Invalid ''producer''),
        (ip_iteration p \<noteq> 1, Field_Invalid ''iteration''),
        (ip_objective p = [], Field_Invalid ''objective''),
        (ip_approach p = [], Field_Invalid ''approach''),
        (ip_tasks p = [], Field_Invalid ''tasks'')]) (\<lambda>_. check_tasks p)"

definition mk_implementation_plan :: "implementation_plan \<Rightarrow> fault + implementation_plan" where
  "mk_implementation_plan = clean_then clean_implementation_plan validate_implementation_plan"

interpretation implementation_plans: normalizer mk_implementation_plan
  unfolding mk_implementation_plan_def
  by (rule clean_then_normalizer)
    (auto simp: clean_implementation_plan_def ebind_eq_Inr clean_items.again headers.again plan_tasks.again
      dest!: clean_items.made_rules headers.made_rules plan_tasks.made_rules)

section \<open>Work results\<close>

record work_result =
  wr_header :: artifact_header
  wr_iteration :: int
  wr_input_commit :: string
  wr_output_commit :: string
  wr_summary :: string
  wr_completed_tasks :: "string list"
  wr_changed_files :: "string list"
  wr_unresolved_issues :: "string list"

definition clean_work_result :: "work_result \<Rightarrow> fault + work_result" where
  "clean_work_result w =
     ebind (mk_header (wr_header w)) (\<lambda>header.
     ebind (require_clean_unique_items (wr_completed_tasks w)) (\<lambda>completed.
     ebind (clean_paths (wr_changed_files w)) (\<lambda>changed.
     ebind (require_clean_unique_items (wr_unresolved_issues w)) (\<lambda>unresolved.
       Inr (w\<lparr>wr_header := header, wr_completed_tasks := completed, wr_changed_files := changed,
              wr_unresolved_issues := unresolved\<rparr>)))))"

definition validate_work_result :: "work_result \<Rightarrow> fault + unit" where
  "validate_work_result w = first_error
     [(wr_iteration w < 1, Field_Invalid ''iteration''),
      (\<not> commit_pattern (wr_input_commit w), Field_Invalid ''input_commit''),
      (\<not> commit_pattern (wr_output_commit w), Field_Invalid ''output_commit''),
      (wr_summary w = [], Field_Invalid ''summary''),
      (wr_completed_tasks w = [], Field_Invalid ''completed_tasks''),
      ((wr_input_commit w = wr_output_commit w) \<noteq> (wr_changed_files w = []),
        Value_Error ''work result requires changed files exactly when its commits differ'')]"

definition mk_work_result :: "work_result \<Rightarrow> fault + work_result" where
  "mk_work_result = clean_then clean_work_result validate_work_result"

interpretation work_results: normalizer mk_work_result
  unfolding mk_work_result_def
  by (rule clean_then_normalizer)
    (auto simp: clean_work_result_def ebind_eq_Inr clean_items.again headers.again clean_path_list.again
      dest!: clean_items.made_rules headers.made_rules clean_path_list.made_rules)

section \<open>Commands and criteria\<close>

record command_evidence =
  ce_id :: string
  ce_argv :: "string list"
  ce_criterion_ids :: "string list"
  ce_exit_code :: "int option"
  ce_timed_out :: bool
  ce_duration_ms :: int
  ce_stdout_path :: string
  ce_stderr_path :: string
  ce_stdout_tail :: string
  ce_stderr_tail :: string
  ce_stdout_truncated :: bool
  ce_stderr_truncated :: bool
  ce_summary :: string

definition clean_command :: "command_evidence \<Rightarrow> fault + command_evidence" where
  "clean_command c =
     ebind (require_clean_unique_items (ce_criterion_ids c)) (\<lambda>criteria.
     ebind (require_safe_relative_path (ce_stdout_path c)) (\<lambda>_.
     ebind (require_safe_relative_path (ce_stderr_path c)) (\<lambda>_.
       Inr (c\<lparr>ce_criterion_ids := criteria\<rparr>))))"

definition validate_command :: "command_evidence \<Rightarrow> fault + unit" where
  "validate_command c = first_error
     [(\<not> prefixed_id_pattern ''CHECK_'' (ce_id c), Field_Invalid ''id''),
      (ce_argv c = [], Field_Invalid ''argv''),
      ([] \<in> set (ce_argv c), Value_Error ''command arguments must not be empty''),
      (ce_duration_ms c < 0, Field_Invalid ''duration_ms''),
      (4096 < length (ce_stdout_tail c), Field_Invalid ''stdout_tail''),
      (4096 < length (ce_stderr_tail c), Field_Invalid ''stderr_tail''),
      (ce_timed_out c \<and> ce_exit_code c \<noteq> None,
        Value_Error ''timed-out commands cannot report an exit code''),
      (\<not> ce_timed_out c \<and> ce_exit_code c = None,
        Value_Error ''completed commands require an exit code''),
      (ce_stdout_truncated c \<and> ce_stdout_tail c = [],
        Value_Error ''truncated stdout requires a retained tail''),
      (ce_stderr_truncated c \<and> ce_stderr_tail c = [],
        Value_Error ''truncated stderr requires a retained tail'')]"

definition mk_command_evidence :: "command_evidence \<Rightarrow> fault + command_evidence" where
  "mk_command_evidence = clean_then clean_command validate_command"

interpretation commands: normalizer mk_command_evidence
  unfolding mk_command_evidence_def
  by (rule clean_then_normalizer)
    (auto simp: clean_command_def ebind_eq_Inr clean_items.again
      dest!: clean_items.made_rules)

record criterion_result =
  cr_criterion_id :: string
  cr_status :: check_status
  cr_command_ids :: "string list"
  cr_detail :: string

definition clean_criterion :: "criterion_result \<Rightarrow> fault + criterion_result" where
  "clean_criterion r = ebind (require_clean_unique_items (cr_command_ids r))
     (\<lambda>ids. Inr (r\<lparr>cr_command_ids := ids\<rparr>))"

definition validate_criterion :: "criterion_result \<Rightarrow> fault + unit" where
  "validate_criterion r = first_error
     [(\<not> upper_id_pattern (cr_criterion_id r), Field_Invalid ''criterion_id''),
      (cr_detail r = [], Field_Invalid ''detail'')]"

definition mk_criterion :: "criterion_result \<Rightarrow> fault + criterion_result" where
  "mk_criterion = clean_then clean_criterion validate_criterion"

interpretation criteria: normalizer mk_criterion
  unfolding mk_criterion_def
  by (rule clean_then_normalizer)
    (auto simp: clean_criterion_def ebind_eq_Inr clean_items.again
      dest!: clean_items.made_rules)

section \<open>Test reports\<close>

record test_report =
  tr_header :: artifact_header
  tr_iteration :: int
  tr_input_commit :: string
  tr_status :: check_status
  tr_commands :: "command_evidence list"
  tr_criteria :: "criterion_result list"
  tr_manual_review_criteria :: "string list"
  tr_findings :: "string list"
  tr_blockers :: "string list"
  tr_summary :: string

definition clean_test_report :: "test_report \<Rightarrow> fault + test_report" where
  "clean_test_report t =
     ebind (mk_header (tr_header t)) (\<lambda>header.
     ebind (emap mk_command_evidence (tr_commands t)) (\<lambda>cmds.
     ebind (emap mk_criterion (tr_criteria t)) (\<lambda>results.
     ebind (require_clean_unique_items (tr_manual_review_criteria t)) (\<lambda>manual.
     ebind (require_clean_unique_items (tr_findings t)) (\<lambda>findings.
     ebind (require_clean_unique_items (tr_blockers t)) (\<lambda>blockers.
       Inr (t\<lparr>tr_header := header, tr_commands := cmds, tr_criteria := results,
              tr_manual_review_criteria := manual, tr_findings := findings,
              tr_blockers := blockers\<rparr>)))))))"

definition command_covers :: "test_report \<Rightarrow> string \<Rightarrow> string \<Rightarrow> bool" where
  "command_covers t criterion command \<longleftrightarrow>
     opt_all (\<lambda>c. criterion \<in> set (ce_criterion_ids c))
       (List.find (\<lambda>c. ce_id c = command) (tr_commands t))"

definition coverage_available :: "test_report \<Rightarrow> bool" where
  "coverage_available t \<longleftrightarrow> list_all (\<lambda>c. ce_criterion_ids c \<noteq> []) (tr_commands t)"

definition check_criterion_commands :: "test_report \<Rightarrow> criterion_result \<Rightarrow> fault + unit" where
  "check_criterion_commands t r = first_error
     [(\<not> set (cr_command_ids r) \<subseteq> set (map ce_id (tr_commands t)),
        Value_Error ''criterion references unknown commands''),
      (coverage_available t \<and>
         list_ex (\<lambda>c. \<not> command_covers t (cr_criterion_id r) c) (cr_command_ids r),
        Value_Error ''criterion references commands without declared coverage'')]"

definition check_manual_criterion :: "test_report \<Rightarrow> criterion_result \<Rightarrow> fault + unit" where
  "check_manual_criterion t r =
     (let manual = cr_criterion_id r \<in> set (tr_manual_review_criteria t) in first_error
       [(cr_status r = Check_Pending_Review \<and> \<not> manual,
          Value_Error ''only manual-review criteria may be pending review''),
        (manual \<and> cr_status r = Check_Passed,
          Value_Error ''Tester cannot pass criteria assigned to independent review'')])"

definition command_passed :: "command_evidence \<Rightarrow> bool" where
  "command_passed c \<longleftrightarrow> \<not> ce_timed_out c \<and> ce_exit_code c = Some 0"

definition commands_passed :: "test_report \<Rightarrow> bool" where
  "commands_passed t \<longleftrightarrow> list_all command_passed (tr_commands t)"

definition tester_scope_passed :: "test_report \<Rightarrow> bool" where
  "tester_scope_passed t \<longleftrightarrow> list_all (\<lambda>r. cr_status r = Check_Passed \<or>
     cr_criterion_id r \<in> set (tr_manual_review_criteria t) \<and> cr_status r = Check_Pending_Review)
     (tr_criteria t)"

definition check_test_status :: "test_report \<Rightarrow> fault + unit" where
  "check_test_status t =
     (case tr_status t of
        Check_Passed \<Rightarrow> first_error
          [(\<not> commands_passed t \<or> \<not> tester_scope_passed t \<or> tr_blockers t \<noteq> [],
             Value_Error ''passed test reports require all evidence to pass'')]
      | Check_Blocked \<Rightarrow> first_error
          [(tr_blockers t = [], Value_Error ''blocked test reports must identify a blocker''),
           (\<not> list_ex (\<lambda>r. cr_status r = Check_Blocked) (tr_criteria t),
             Value_Error ''blocked test reports require a blocked criterion'')]
      | _ \<Rightarrow> first_error
          [(\<not> list_ex (\<lambda>r. cr_status r = Check_Failed) (tr_criteria t),
             Value_Error ''failed test reports require a failed criterion''),
           (commands_passed t \<and> tester_scope_passed t,
             Value_Error ''failed test reports require failing evidence'')])"

definition validate_test_report :: "test_report \<Rightarrow> fault + unit" where
  "validate_test_report t =
     ebind (first_error
       [(tr_iteration t < 1, Field_Invalid ''iteration''),
        (\<not> commit_pattern (tr_input_commit t), Field_Invalid ''input_commit''),
        (tr_status t = Check_Pending_Review, Field_Invalid ''status''),
        (tr_commands t = [], Field_Invalid ''commands''),
        (tr_criteria t = [], Field_Invalid ''criteria''),
        (tr_summary t = [], Field_Invalid ''summary''),
        (\<not> distinct (map ce_id (tr_commands t)), Value_Error ''test command IDs must be unique''),
        (\<not> distinct (map cr_criterion_id (tr_criteria t)),
          Value_Error ''test criterion IDs must be unique'')]) (\<lambda>_.
     ebind (check_all (check_criterion_commands t) (tr_criteria t)) (\<lambda>_.
     ebind (first_error
       [(\<not> set (tr_manual_review_criteria t) \<subseteq> set (map cr_criterion_id (tr_criteria t)),
          Value_Error ''manual-review criteria must exist in the test report'')]) (\<lambda>_.
     ebind (check_all (check_manual_criterion t) (tr_criteria t)) (\<lambda>_.
       check_test_status t))))"

definition mk_test_report :: "test_report \<Rightarrow> fault + test_report" where
  "mk_test_report = clean_then clean_test_report validate_test_report"

interpretation test_reports: normalizer mk_test_report
  unfolding mk_test_report_def
  by (rule clean_then_normalizer)
    (auto simp: clean_test_report_def ebind_eq_Inr clean_items.again headers.again commands.again
        criteria.again
      dest!: clean_items.made_rules headers.made_rules commands.made_rules criteria.made_rules)

section \<open>What an accepted artifact says\<close>

text \<open>An accepted plan can be executed task by task: the dependencies are known and without cycle.\<close>

lemma plan_task_deps:
  "distinct (task_ids p) \<Longrightarrow> t \<in> set (ip_tasks p) \<Longrightarrow> task_deps p (pt_id t) = pt_dependencies t"
  using find_distinct_key [of pt_id "ip_tasks p" t] by (simp add: task_deps_def task_ids_def)

lemma plan_tasks_closed:
  assumes "distinct (task_ids p)"
  shows "closed_deps (task_ids p) (task_deps p) \<longleftrightarrow>
    (\<forall>t \<in> set (ip_tasks p). set (pt_dependencies t) \<subseteq> set (task_ids p))"
  using plan_task_deps [OF assms] by (auto simp: closed_deps_def list_all_iff task_ids_def)

lemma check_tasks_iff:
  "check_tasks p = Inr () \<longleftrightarrow> distinct (task_ids p) \<and> closed_deps (task_ids p) (task_deps p) \<and>
     acyclic (edges (task_ids p) (task_deps p))"
proof (cases "distinct (task_ids p) \<and> closed_deps (task_ids p) (task_deps p)")
  case True
  have loop: "acyclic (edges (task_ids p) (task_deps p)) \<Longrightarrow> t \<in> set (ip_tasks p) \<Longrightarrow>
      pt_id t \<notin> set (pt_dependencies t)" for t
    using True plan_task_deps [of p t] r_into_trancl [of "pt_id t" "pt_id t" "edges (task_ids p) (task_deps p)"]
    by (auto simp: acyclic_def task_ids_def)
  show ?thesis
    using True acyclic_check_iff [of "task_ids p" "task_deps p"] loop plan_tasks_closed [of p]
    by (auto simp: check_tasks_def check_task_def ebind_eq_Inr)
next
  case False
  then show ?thesis
    using plan_tasks_closed [of p] by (auto simp: check_tasks_def check_task_def ebind_eq_Inr)
qed

text \<open>The statuses of a report that passed.\<close>

lemma passed_report:
  assumes "validate_test_report t = Inr ()" and "tr_status t = Check_Passed"
  shows "commands_passed t" "tr_blockers t = []"
    "\<And>r. r \<in> set (tr_criteria t) \<Longrightarrow> cr_status r =
       (if cr_criterion_id r \<in> set (tr_manual_review_criteria t) then Check_Pending_Review else Check_Passed)"
  using assms
  by (auto simp: validate_test_report_def ebind_eq_Inr check_test_status_def tester_scope_passed_def
      check_manual_criterion_def Let_def list_all_iff)

end
