(* ===== verification/Response_Corrections.thy ===== *)
theory Response_Corrections
  imports Json_Values Work_Artifacts "HOL-Library.Product_Lexorder"
begin

text \<open>
  \<open>response_corrections.py\<close>: the typed diagnosis of a rejected model response, the paths that the
  model may correct, and the application of one correction. The digests of a payload and of a set
  of issues are arguments, as are the schema of a value (\<open>correction_value_schema\<close>) and \<open>json.loads\<close>;
  a fingerprint is what the code hands to the digest, with a sorted list of a set left as the set.
  A Pydantic error is its location (as text), type and message.
\<close>

section \<open>Text\<close>

text \<open>\<open>str.split()\<close> and \<open>" ".join(s.split())\<close>.\<close>

definition extend_word :: "char \<Rightarrow> string list \<Rightarrow> string list" where
  "extend_word c ws = (case ws of [] \<Rightarrow> [[c]] | v # vs \<Rightarrow> (c # v) # vs)"

fun py_words :: "string \<Rightarrow> string list" where
  "py_words [] = []"
| "py_words (c # cs) =
     (if py_space c then py_words cs
      else if cs = [] \<or> py_space (hd cs) then [c] # py_words cs
      else extend_word c (py_words cs))"

definition single_spaced :: "string \<Rightarrow> string" where
  "single_spaced s = join_with '' '' (py_words s)"

lemma py_words_shape: "w \<in> set (py_words s) \<Longrightarrow> w \<noteq> [] \<and> list_all (\<lambda>c. \<not> py_space c) w"
  by (induction s arbitrary: w) (auto simp: extend_word_def split: list.splits if_splits)

lemma py_words_word:
  "w \<noteq> [] \<Longrightarrow> list_all (\<lambda>c. \<not> py_space c) w \<Longrightarrow> r = [] \<or> py_space (hd r) \<Longrightarrow>
     py_words (w @ r) = w # py_words r"
proof (induction w)
  case (Cons c w)
  then show ?case by (cases w) (auto simp: extend_word_def)
qed simp

lemma space_is_space: "py_space (CHR '' '')"
  by code_simp

lemma py_words_join:
  "(\<And>w. w \<in> set ws \<Longrightarrow> w \<noteq> [] \<and> list_all (\<lambda>c. \<not> py_space c) w) \<Longrightarrow>
     py_words (join_with '' '' ws) = ws"
proof (induction ws rule: induct_list012)
  case (2 w)
  then show ?case using py_words_word [of w "[]"] by simp
next
  case (3 v w ws)
  have "py_words (join_with '' '' (v # w # ws)) = v # py_words ('' '' @ join_with '' '' (w # ws))"
    using py_words_word [of v "'' '' @ join_with '' '' (w # ws)"] 3(3) [of v] space_is_space by simp
  then show ?case using 3 space_is_space by simp
qed simp

lemma single_spaced_again: "single_spaced (single_spaced s) = single_spaced s"
  using py_words_join [of "py_words s"] py_words_shape [of _ s] by (simp add: single_spaced_def)

section \<open>Diagnosis\<close>

datatype failure_class =
    Class_Transport | Class_Schema | Class_Context | Class_Grounding | Class_Missing_Decision

datatype issue_authority =
    Authority_Transport | Authority_Model | Authority_User | Authority_Evidence | Authority_Controller

datatype subject_kind =
    Subject_Agent | Subject_Capability | Subject_Criterion | Subject_Decision | Subject_Question
  | Subject_Requirement | Subject_Task

fun subject_value :: "subject_kind \<Rightarrow> string" where
  "subject_value Subject_Agent = ''agent''"
| "subject_value Subject_Capability = ''capability''"
| "subject_value Subject_Criterion = ''criterion''"
| "subject_value Subject_Decision = ''decision''"
| "subject_value Subject_Question = ''question''"
| "subject_value Subject_Requirement = ''requirement''"
| "subject_value Subject_Task = ''task''"

datatype correction_result =
    Correction_Accepted | Correction_Improved | No_Improvement | Invalid_Submission | Not_Evaluated

record issue_subject =
  js_kind :: subject_kind
  js_identifier :: string

definition mk_subject :: "issue_subject \<Rightarrow> fault + issue_subject" where
  "mk_subject s =
     (let cleaned = single_spaced (js_identifier s) in
      ebind (first_error
        [(js_identifier s = [] \<or> 200 < length (js_identifier s), Field_Invalid ''identifier''),
         (cleaned = [] \<or> CHR 0x00 \<in> set cleaned \<or> CHR 0x0D \<in> set cleaned \<or> CHR 0x0A \<in> set cleaned,
           Value_Error ''response issue subject must be bounded text'')])
      (\<lambda>_. Inr (s\<lparr>js_identifier := cleaned\<rparr>)))"

record validation_issue =
  vi_path :: string
  vi_code :: string
  vi_invariant_id :: "string option"
  vi_subjects :: "issue_subject list"
  vi_message :: string
  vi_authority :: issue_authority

definition code_pattern :: "string \<Rightarrow> bool" where
  "code_pattern s \<longleftrightarrow> ident_pattern s \<and> 2 \<le> length s \<and> length s \<le> 100"

definition require_json_pointer :: "string \<Rightarrow> fault + unit" where
  "require_json_pointer value =
     (if value = ''/'' then Inr ()
      else ebind (first_error
        [(value = [] \<or> 500 < length value, Field_Invalid ''path''),
         (take 1 value \<noteq> ''/'' \<or> CHR 0x00 \<in> set value \<or> CHR 0x0D \<in> set value \<or> CHR 0x0A \<in> set value,
           Value_Error ''response issue path must be a JSON pointer'')]) (\<lambda>_.
        ebind (decode_pointer value) (\<lambda>_. Inr ())))"

definition subject_identities :: "validation_issue \<Rightarrow> (string \<times> string) list" where
  "subject_identities i = map (\<lambda>s. (subject_value (js_kind s), js_identifier s)) (vi_subjects i)"

definition clean_issue :: "validation_issue \<Rightarrow> fault + validation_issue" where
  "clean_issue i =
     ebind (first_error
       [(vi_message i = [] \<or> 500 < length (vi_message i), Field_Invalid ''message''),
        (single_spaced (vi_message i) = [], Value_Error ''response issue message must not be blank'')]) (\<lambda>_.
     ebind (emap mk_subject (vi_subjects i)) (\<lambda>subjects.
       Inr (i\<lparr>vi_message := single_spaced (vi_message i), vi_subjects := subjects\<rparr>)))"

definition validate_issue :: "validation_issue \<Rightarrow> fault + unit" where
  "validate_issue i =
     ebind (require_json_pointer (vi_path i)) (\<lambda>_. first_error
       [(\<not> code_pattern (vi_code i), Field_Invalid ''code''),
        (\<not> opt_all code_pattern (vi_invariant_id i), Field_Invalid ''invariant_id''),
        (\<not> distinct (subject_identities i) \<or> \<not> sorted (subject_identities i),
          Value_Error ''response issue subjects must be unique and sorted'')])"

definition mk_issue :: "validation_issue \<Rightarrow> fault + validation_issue" where
  "mk_issue = clean_then clean_issue validate_issue"

type_synonym issue_identity = "string \<times> (string \<times> string) list \<times> string option \<times> issue_authority"

definition issue_identity :: "validation_issue \<Rightarrow> issue_identity" where
  "issue_identity i =
     (the_or (vi_invariant_id i) (vi_code i), subject_identities i,
      if subject_identities i = [] then Some (vi_path i) else None, vi_authority i)"

text \<open>\<open>_paths_overlap\<close>: one path is a prefix of the other, part by part.\<close>

definition parts_overlap :: "string list \<Rightarrow> string list \<Rightarrow> bool" where
  "parts_overlap xs ys \<longleftrightarrow>
     (let limit = min (length xs) (length ys) in take limit xs = take limit ys)"

definition paths_overlap :: "string \<Rightarrow> string \<Rightarrow> bool" where
  "paths_overlap left right \<longleftrightarrow> parts_overlap (pointer_parts left) (pointer_parts right)"

record diagnostic =
  vd_schema_version :: int
  vd_failure_class :: failure_class
  vd_response_sha256 :: string
  vd_issues :: "validation_issue list"
  vd_correction_paths :: "string list"

definition model_paths :: "validation_issue list \<Rightarrow> string list" where
  "model_paths issues = map vi_path (filter (\<lambda>i. vi_authority i = Authority_Model) issues)"

definition non_model_paths :: "validation_issue list \<Rightarrow> string list" where
  "non_model_paths issues = map vi_path (filter (\<lambda>i. vi_authority i \<noteq> Authority_Model) issues)"

definition check_correction_path :: "string \<Rightarrow> fault + unit" where
  "check_correction_path value =
     ebind (first_error
       [(value = ''/'', Value_Error ''whole-response replacement is not targeted'')])
     (\<lambda>_. require_json_pointer value)"

definition validate_diagnostic :: "diagnostic \<Rightarrow> fault + unit" where
  "validate_diagnostic d =
     ebind (first_error
       [(vd_schema_version d \<noteq> 1 \<and> vd_schema_version d \<noteq> 2, Field_Invalid ''schema_version''),
        (\<not> sha256_pattern (vd_response_sha256 d), Field_Invalid ''response_sha256''),
        (vd_issues d = [] \<or> 64 < length (vd_issues d), Field_Invalid ''issues''),
        (64 < length (vd_correction_paths d), Field_Invalid ''correction_paths''),
        (\<not> distinct (vd_correction_paths d) \<or> \<not> sorted (vd_correction_paths d),
          Value_Error ''response correction paths must be unique and sorted'')]) (\<lambda>_.
     ebind (check_all check_correction_path (vd_correction_paths d)) (\<lambda>_. first_error
       [(vd_schema_version d = 2 \<and> list_ex (\<lambda>i. vi_invariant_id i = None) (vd_issues d),
          Value_Error ''current response issues require a stable invariant ID''),
        (list_ex (\<lambda>p. \<not> list_ex (paths_overlap p) (model_paths (vd_issues d))) (vd_correction_paths d),
          Value_Error ''correction paths must resolve model-owned issues''),
        (list_ex (\<lambda>p. list_ex (paths_overlap p) (non_model_paths (vd_issues d))) (vd_correction_paths d),
          Value_Error ''correction paths cannot overlap non-model authority'')]))"

definition mk_diagnostic :: "diagnostic \<Rightarrow> fault + diagnostic" where
  "mk_diagnostic = clean_then
     (\<lambda>d. ebind (emap mk_issue (vd_issues d)) (\<lambda>issues. Inr (d\<lparr>vd_issues := issues\<rparr>)))
     validate_diagnostic"

datatype fingerprint =
    Fingerprint_One failure_class "(string \<times> string \<times> issue_authority) list" "string list"
  | Fingerprint_Two failure_class "issue_identity set"

definition fingerprint_of :: "diagnostic \<Rightarrow> fingerprint" where
  "fingerprint_of d =
     (if vd_schema_version d = 1
      then Fingerprint_One (vd_failure_class d)
        (map (\<lambda>i. (vi_path i, vi_code i, vi_authority i)) (vd_issues d)) (vd_correction_paths d)
      else Fingerprint_Two (vd_failure_class d) (issue_identity ` set (vd_issues d)))"

lemma join_length: "ws \<noteq> [] \<Longrightarrow> length (join_with '' '' ws) + 1 = (\<Sum>w\<leftarrow>ws. length w + 1)"
  by (induction ws rule: induct_list012) simp_all

lemma words_length:
  "(\<Sum>w\<leftarrow>py_words s. length w + 1) \<le> length s + 1"
  "s = [] \<or> py_space (hd s) \<Longrightarrow> (\<Sum>w\<leftarrow>py_words s. length w + 1) \<le> length s"
proof (induction s)
  case (Cons c cs)
  {
    case 1
    then show ?case using Cons by (cases "py_words cs"; cases cs) (auto simp: extend_word_def)
  next
    case 2
    then show ?case using Cons by simp
  }
qed simp_all

lemma single_spaced_length: "length (single_spaced s) \<le> length s"
  using join_length [of "py_words s"] words_length(1) [of s]
  by (cases "py_words s = []") (auto simp: single_spaced_def split: if_splits)

lemma single_spaced_bound: "length s \<le> n \<Longrightarrow> length (single_spaced s) \<le> n"
  using single_spaced_length [of s] by simp

interpretation subjects: normalizer mk_subject
  by unfold_locales
    (auto simp: mk_subject_def Let_def ebind_eq_Inr single_spaced_again not_less single_spaced_bound)

interpretation issues: normalizer mk_issue
  unfolding mk_issue_def
  by (rule clean_then_normalizer)
    (auto simp: clean_issue_def ebind_eq_Inr subjects.again single_spaced_again not_less
      single_spaced_bound dest!: subjects.made_rules)

interpretation diagnostics: normalizer mk_diagnostic
  unfolding mk_diagnostic_def
  by (rule clean_then_normalizer) (auto simp: ebind_eq_Inr issues.again dest!: issues.made_rules)

section \<open>The paths a model may correct\<close>

text \<open>\<open>_minimal_correction_paths\<close>: the paths of model-owned issues that overlap no path of another
  authority; of overlapping ones the longer remain.\<close>

definition candidate_paths :: "validation_issue list \<Rightarrow> string list" where
  "candidate_paths issues = sort (remdups (filter
     (\<lambda>p. p \<noteq> ''/'' \<and> \<not> list_ex (paths_overlap p) (non_model_paths issues)) (model_paths issues)))"

definition minimal_correction_paths :: "validation_issue list \<Rightarrow> string list" where
  "minimal_correction_paths issues = filter (\<lambda>p. \<not> list_ex (\<lambda>q. q \<noteq> p \<and>
     length (pointer_parts p) < length (pointer_parts q) \<and> paths_overlap p q) (candidate_paths issues))
     (candidate_paths issues)"

definition new_diagnostic ::
    "failure_class \<Rightarrow> string \<Rightarrow> validation_issue list \<Rightarrow> fault + diagnostic" where
  "new_diagnostic failure sha issues =
     ebind (emap mk_issue issues) (\<lambda>made.
       mk_diagnostic \<lparr>vd_schema_version = 2, vd_failure_class = failure, vd_response_sha256 = sha,
         vd_issues = made, vd_correction_paths = minimal_correction_paths made\<rparr>)"

record raw_error =
  rw_loc :: "string list"
  rw_type :: string
  rw_msg :: string

definition dots_to_underscores :: "string \<Rightarrow> string" where
  "dots_to_underscores s = map (\<lambda>c. if c = CHR ''.'' then CHR ''_'' else c) s"

definition protected_error :: "string list \<Rightarrow> raw_error \<Rightarrow> bool" where
  "protected_error protected e \<longleftrightarrow>
     rw_type e = ''extra_forbidden'' \<and> rw_loc e \<noteq> [] \<and> last (rw_loc e) \<in> set protected"

definition issue_of_error :: "issue_authority \<Rightarrow> string list \<Rightarrow> raw_error \<Rightarrow> validation_issue" where
  "issue_of_error authority protected e =
     \<lparr>vi_path = encode_pointer (rw_loc e), vi_code = take 100 (dots_to_underscores (rw_type e)),
      vi_invariant_id = Some (take 100 (dots_to_underscores (rw_type e))), vi_subjects = [],
      vi_message = take 500 (rw_msg e),
      vi_authority = (if protected_error protected e then Authority_Controller else authority)\<rparr>"

definition overflow_issue :: validation_issue where
  "overflow_issue =
     \<lparr>vi_path = ''/'', vi_code = ''validation_issue_overflow'',
      vi_invariant_id = Some ''validation_issue_overflow'', vi_subjects = [],
      vi_message = ''Response has too many independent validation failures for safe field-targeted correction'',
      vi_authority = Authority_Controller\<rparr>"

definition diagnostic_from_validation_error ::
    "raw_error list \<Rightarrow> string \<Rightarrow> failure_class \<Rightarrow> issue_authority \<Rightarrow> string list \<Rightarrow> fault + diagnostic" where
  "diagnostic_from_validation_error errors sha failure authority protected =
     (if 64 < length errors
      then ebind (mk_issue overflow_issue) (\<lambda>i. mk_diagnostic
        \<lparr>vd_schema_version = 2, vd_failure_class = failure, vd_response_sha256 = sha,
         vd_issues = [i], vd_correction_paths = []\<rparr>)
      else new_diagnostic failure sha (map (issue_of_error authority protected) errors))"

definition diagnostic_from_invariant ::
    "string \<Rightarrow> failure_class \<Rightarrow> issue_authority \<Rightarrow> string \<Rightarrow> string \<Rightarrow> issue_subject list \<Rightarrow> string \<Rightarrow>
     string list \<Rightarrow> fault + diagnostic" where
  "diagnostic_from_invariant sha failure authority code invariant_id subjects message paths =
     new_diagnostic failure sha (map (\<lambda>p.
       \<lparr>vi_path = p, vi_code = code, vi_invariant_id = Some invariant_id, vi_subjects = subjects,
        vi_message = take 500 message, vi_authority = authority\<rparr>) paths)"

definition diagnostic_from_message ::
    "string \<Rightarrow> failure_class \<Rightarrow> issue_authority \<Rightarrow> string \<Rightarrow> string \<Rightarrow> string list \<Rightarrow> fault + diagnostic" where
  "diagnostic_from_message sha failure authority code message paths =
     new_diagnostic failure sha (map (\<lambda>p.
       \<lparr>vi_path = p, vi_code = code, vi_invariant_id = Some code, vi_subjects = [],
        vi_message = take 500 message, vi_authority = authority\<rparr>) paths)"

definition diagnostic_from_transport :: "string \<Rightarrow> string \<Rightarrow> string \<Rightarrow> fault + diagnostic" where
  "diagnostic_from_transport sha code message =
     ebind (mk_issue \<lparr>vi_path = ''/'', vi_code = code, vi_invariant_id = Some code, vi_subjects = [],
       vi_message = take 500 message, vi_authority = Authority_Transport\<rparr>) (\<lambda>i. mk_diagnostic
       \<lparr>vd_schema_version = 2, vd_failure_class = Class_Transport, vd_response_sha256 = sha,
        vd_issues = [i], vd_correction_paths = []\<rparr>)"

end
