(* ===== verification/Correction_Application.thy ===== *)
theory Correction_Application
  imports Response_Corrections
begin

text \<open>
  The second half of \<open>response_corrections.py\<close>: the removal of forbidden fields, the plan of a
  correction and the application of what the model submits to the paths of the plan. What is
  outside is in \<open>correction_env\<close>: the digest of a payload, \<open>json.loads\<close> with its hooks (\<open>None\<close>
  where it raises), and \<open>correction_value_schema\<close> for a path (\<open>None\<close> without a schema).
\<close>

section \<open>Places in a payload\<close>

type_synonym payload = "(string \<times> json) list"

record correction_candidate =
  cc_handle :: string
  cc_value :: json
  cc_source :: string

record candidate_slot =
  cs_target :: string
  cs_candidates :: "correction_candidate list"

record correction_plan =
  cp_base :: payload
  cp_diagnostic :: diagnostic
  cp_sha256 :: string
  cp_fingerprint :: string
  cp_targets :: "string list"
  cp_preserved :: "string list"
  cp_slots :: "candidate_slot list"
  cp_require_all :: bool

text \<open>\<open>SemanticCorrectionSubmissionError\<close> with its diagnostic, recovery plan and normalizations; any
  other validation error; an \<open>IndexError\<close>.\<close>

datatype correction_error =
    Submission_Rejected diagnostic "correction_plan option" "string list"
  | Correction_Fault fault | Index_Out_Of_Range

definition decimal_text :: "string \<Rightarrow> bool" where
  "decimal_text s \<longleftrightarrow> s \<noteq> [] \<and> list_all is_digit_char s"

definition list_index :: "string \<Rightarrow> json list \<Rightarrow> nat option" where
  "list_index part items =
     (if decimal_text part \<and> read_digits part < length items then Some (read_digits part) else None)"

text \<open>What a list of parts leads to.\<close>

fun json_at :: "string list \<Rightarrow> json \<Rightarrow> json option" where
  "json_at [] value = Some value"
| "json_at (p # ps) (Json_Object entries) = (case map_of entries p of None \<Rightarrow> None | Some v \<Rightarrow> json_at ps v)"
| "json_at (p # ps) (Json_List items) = (case list_index p items of None \<Rightarrow> None | Some i \<Rightarrow> json_at ps (items ! i))"
| "json_at (p # ps) value = None"

text \<open>\<open>del parent[final]\<close> at the end of a path; \<open>None\<close> where the loop leaves the payload alone.\<close>

fun remove_at :: "string list \<Rightarrow> json \<Rightarrow> json option" where
  "remove_at [final] (Json_Object entries) =
     (if final \<in> fst ` set entries then Some (Json_Object (filter (\<lambda>(k, _). k \<noteq> final) entries)) else None)"
| "remove_at (p # q # ps) (Json_Object entries) =
     (case map_of entries p of
        None \<Rightarrow> None
      | Some v \<Rightarrow> map_option (\<lambda>w. Json_Object (json_object_set entries p w)) (remove_at (q # ps) v))"
| "remove_at (p # q # ps) (Json_List items) =
     (case list_index p items of
        None \<Rightarrow> None
      | Some i \<Rightarrow> map_option (\<lambda>w. Json_List (items[i := w])) (remove_at (q # ps) (items ! i)))"
| "remove_at parts value = None"

text \<open>\<open>parent[final] = replacement\<close> at the end of a path, with the errors on the way.\<close>

fun put_at :: "string list \<Rightarrow> json \<Rightarrow> json \<Rightarrow> correction_error + json" where
  "put_at [] v value = Inl Index_Out_Of_Range"
| "put_at [final] v (Json_Object entries) = Inr (Json_Object (json_object_set entries final v))"
| "put_at [final] v (Json_List items) =
     (case list_index final items of
        None \<Rightarrow> Inl (Correction_Fault (Value_Error ''semantic correction index is invalid''))
      | Some i \<Rightarrow> Inr (Json_List (items[i := v])))"
| "put_at [final] v value =
     Inl (Correction_Fault (Value_Error ''semantic correction target is not a container''))"
| "put_at (p # q # ps) v (Json_Object entries) =
     (case map_of entries p of
        None \<Rightarrow> Inl (Correction_Fault (Value_Error ''semantic correction parent is missing''))
      | Some child \<Rightarrow> ebind (put_at (q # ps) v child)
          (\<lambda>w. Inr (Json_Object (json_object_set entries p w))))"
| "put_at (p # q # ps) v (Json_List items) =
     (case list_index p items of
        None \<Rightarrow> Inl (Correction_Fault (Value_Error ''semantic correction index is invalid''))
      | Some i \<Rightarrow> ebind (put_at (q # ps) v (items ! i)) (\<lambda>w. Inr (Json_List (items[i := w]))))"
| "put_at (p # q # ps) v value =
     Inl (Correction_Fault (Value_Error ''semantic correction parent is not a container''))"

section \<open>Forbidden fields\<close>

text \<open>\<open>deterministically_remove_forbidden_fields\<close>: deepest paths first. The last part of a path that
  is \<open>/\<close> does not exist.\<close>

definition forbidden_paths :: "raw_error list \<Rightarrow> string list \<Rightarrow> string list" where
  "forbidden_paths errors protected =
     sort_key (\<lambda>p. (- int (length (pointer_parts p)), p)) (remdups (map (\<lambda>e. encode_pointer (rw_loc e))
       (filter (\<lambda>e. rw_type e = ''extra_forbidden'' \<and> rw_loc e \<noteq> [] \<and>
          last (rw_loc e) \<notin> set protected) errors)))"

definition remove_path :: "string \<Rightarrow> json \<times> string list \<Rightarrow> correction_error + (json \<times> string list)" where
  "remove_path path state =
     (let parts = pointer_parts path in
      if parts = [] then Inl Index_Out_Of_Range
      else case remove_at parts (fst state) of
        None \<Rightarrow> Inr state | Some w \<Rightarrow> Inr (w, snd state @ [path]))"

definition remove_forbidden_fields ::
    "payload \<Rightarrow> raw_error list \<Rightarrow> string list \<Rightarrow> correction_error + (json \<times> string list)" where
  "remove_forbidden_fields payload errors protected =
     (let paths = forbidden_paths errors protected in
      if 64 < length paths then Inr (Json_Object payload, [])
      else ebind (efold remove_path paths (Json_Object payload, []))
        (\<lambda>(normalized, removed). Inr (normalized, sort removed)))"

section \<open>Plans\<close>

record correction_env =
  cn_payload_sha :: "payload \<Rightarrow> string"
  cn_fingerprint_sha :: "fingerprint \<Rightarrow> string"
  cn_value_schema :: "string \<Rightarrow> json option"
  cn_loads :: "string \<Rightarrow> json option"

definition diagnostic_fingerprint :: "correction_env \<Rightarrow> diagnostic \<Rightarrow> string" where
  "diagnostic_fingerprint e d = cn_fingerprint_sha e (fingerprint_of d)"

definition build_correction_plan ::
    "correction_env \<Rightarrow> payload \<Rightarrow> diagnostic \<Rightarrow> correction_plan option" where
  "build_correction_plan e payload d =
     (if vd_response_sha256 d \<noteq> cn_payload_sha e payload \<or> vd_correction_paths d = [] then None
      else
        let targeted = map (\<lambda>p. hd (pointer_parts p)) (vd_correction_paths d);
            preserved = sort (map (\<lambda>k. encode_pointer [k])
              (filter (\<lambda>k. k \<notin> set targeted) (map fst payload)))
        in Some \<lparr>cp_base = payload, cp_diagnostic = d, cp_sha256 = vd_response_sha256 d,
             cp_fingerprint = diagnostic_fingerprint e d, cp_targets = vd_correction_paths d,
             cp_preserved = preserved, cp_slots = [], cp_require_all = False\<rparr>)"

text \<open>The evidence of the plan is a model with at most 64 targets and at most 64 preserved paths.\<close>

definition plan_evidence_ok :: "correction_plan \<Rightarrow> fault + unit" where
  "plan_evidence_ok p = first_error
     [(\<not> sha256_pattern (cp_sha256 p), Field_Invalid ''base_response_sha256''),
      (\<not> sha256_pattern (cp_fingerprint p), Field_Invalid ''issue_fingerprint''),
      (cp_targets p = [] \<or> 64 < length (cp_targets p), Field_Invalid ''target_paths''),
      (64 < length (cp_preserved p), Field_Invalid ''preserved_top_level_paths'')]"

definition new_correction_plan ::
    "correction_env \<Rightarrow> payload \<Rightarrow> diagnostic \<Rightarrow> fault + correction_plan option" where
  "new_correction_plan e payload d =
     (case build_correction_plan e payload d of
        None \<Rightarrow> Inr None
      | Some p \<Rightarrow> ebind (plan_evidence_ok p) (\<lambda>_. Inr (Some p)))"

definition attach_candidates ::
    "correction_plan \<Rightarrow> candidate_slot list \<Rightarrow> fault + correction_plan" where
  "attach_candidates p slots =
     (if slots = [] then Inr p
      else
        let paths = map cs_target slots in
        ebind (first_error
          [(\<not> distinct paths, Value_Error ''semantic correction candidate slots must be unique''),
           (\<not> set paths \<subseteq> set (cp_targets p),
             Value_Error ''semantic correction candidate slot is not authorized''),
           (paths \<noteq> filter (\<lambda>t. t \<in> set paths) (cp_targets p),
             Value_Error ''semantic correction candidate slots must follow target order'')])
        (\<lambda>_. Inr (p\<lparr>cp_slots := slots\<rparr>)))"

definition require_all_targets :: "correction_plan \<Rightarrow> correction_plan" where
  "require_all_targets p = p\<lparr>cp_require_all := True\<rparr>"

text \<open>\<open>semantic_correction_slot_handle\<close>: the position of the target, counted from one.\<close>

definition check_target_pointer :: "string \<Rightarrow> fault + unit" where
  "check_target_pointer path =
     ebind (first_error
       [(path = ''/'' \<or> take 1 path \<noteq> ''/'',
          Value_Error ''correction slot target requires a JSON pointer'')]) (\<lambda>_.
     ebind (decode_pointer path) (\<lambda>_. Inr ()))"

fun index_of :: "'a \<Rightarrow> 'a list \<Rightarrow> nat option" where
  "index_of x [] = None"
| "index_of x (y # ys) = (if x = y then Some 0 else map_option Suc (index_of x ys))"

definition handle_name :: "nat \<Rightarrow> string" where
  "handle_name position = ''slot_'' @ decimal position"

definition slot_handle :: "string list \<Rightarrow> string \<Rightarrow> fault + string" where
  "slot_handle targets target =
     ebind (first_error
       [(targets = [] \<or> 64 < length targets, Value_Error ''correction slot target set is invalid''),
        (\<not> distinct targets, Value_Error ''correction slot targets must be unique'')]) (\<lambda>_.
     ebind (check_all check_target_pointer targets) (\<lambda>_.
       case index_of target targets of
         None \<Rightarrow> Inl (Value_Error ''correction slot target is not authorized'')
       | Some n \<Rightarrow> Inr (handle_name (n + 1))))"

definition slot_bindings :: "correction_plan \<Rightarrow> fault + (string \<times> string) list" where
  "slot_bindings p =
     ebind (emap (\<lambda>t. ebind (slot_handle (cp_targets p) t) (\<lambda>h. Inr (h, t))) (cp_targets p)) (\<lambda>bindings.
     ebind (first_error
       [(length (remdups (map fst bindings)) \<noteq> length (cp_targets p),
          Value_Error ''semantic correction slot handle collision'')]) (\<lambda>_. Inr bindings))"

section \<open>Candidates\<close>

text \<open>\<open>slot_[1-9][0-9]?\<close> and \<open>candidate_[1-9][0-9]?\<close>.\<close>

definition numbered_handle :: "string \<Rightarrow> string \<Rightarrow> bool" where
  "numbered_handle prefix s \<longleftrightarrow> take (length prefix) s = prefix \<and>
     (case drop (length prefix) s of
        [c] \<Rightarrow> is_digit_char c \<and> c \<noteq> CHR ''0''
      | [c, d] \<Rightarrow> is_digit_char c \<and> c \<noteq> CHR ''0'' \<and> is_digit_char d
      | _ \<Rightarrow> False)"

definition mk_candidate :: "correction_candidate \<Rightarrow> fault + correction_candidate" where
  "mk_candidate c =
     (let cleaned = single_spaced (cc_source c) in
      ebind (first_error
        [(\<not> numbered_handle ''candidate_'' (cc_handle c), Field_Invalid ''handle''),
         (cc_source c = [] \<or> 200 < length (cc_source c), Field_Invalid ''source''),
         (cleaned = [] \<or> CHR 0x00 \<in> set cleaned,
           Value_Error ''correction candidate source must be bounded text'')])
      (\<lambda>_. Inr (c\<lparr>cc_source := cleaned\<rparr>)))"

definition validate_candidate_slot :: "(json \<Rightarrow> string) \<Rightarrow> candidate_slot \<Rightarrow> fault + unit" where
  "validate_candidate_slot value_sha s =
     ebind (first_error
       [(cs_target s = [] \<or> 500 < length (cs_target s), Field_Invalid ''target_path''),
        (cs_target s = ''/'' \<or> take 1 (cs_target s) \<noteq> ''/'',
          Value_Error ''candidate slot requires a targeted JSON pointer'')]) (\<lambda>_.
     ebind (decode_pointer (cs_target s)) (\<lambda>_. first_error
       [(cs_candidates s = [] \<or> 256 < length (cs_candidates s), Field_Invalid ''candidates''),
        (\<not> distinct (map cc_handle (cs_candidates s)),
          Value_Error ''correction candidate handles must be unique''),
        (\<not> distinct (map (\<lambda>c. value_sha (cc_value c)) (cs_candidates s)),
          Value_Error ''correction candidate values must be unique'')]))"

definition mk_candidate_slot :: "(json \<Rightarrow> string) \<Rightarrow> candidate_slot \<Rightarrow> fault + candidate_slot" where
  "mk_candidate_slot value_sha = clean_then
     (\<lambda>s. ebind (emap mk_candidate (cs_candidates s)) (\<lambda>candidates. Inr (s\<lparr>cs_candidates := candidates\<rparr>)))
     (validate_candidate_slot value_sha)"

interpretation candidates: normalizer mk_candidate
  by unfold_locales
    (auto simp: mk_candidate_def Let_def ebind_eq_Inr single_spaced_again not_less single_spaced_bound)

interpretation candidate_slots: normalizer "mk_candidate_slot value_sha"
  unfolding mk_candidate_slot_def
  by (rule clean_then_normalizer) (auto simp: ebind_eq_Inr candidates.again dest!: candidates.made_rules)

section \<open>The submission\<close>

text \<open>\<open>SemanticCorrectionSubmission\<close>: exactly the declared keys, each handle once.\<close>

fun read_replacement :: "json \<Rightarrow> fault + (string \<times> json)" where
  "read_replacement (Json_Object entries) =
     (if set (map fst entries) \<noteq> {''slot_handle'', ''replacement_value''}
      then Inl (Field_Invalid ''replacements'')
      else case (map_of entries ''slot_handle'', map_of entries ''replacement_value'') of
        (Some (Json_Text h), Some v) \<Rightarrow>
          if numbered_handle ''slot_'' h then Inr (h, v) else Inl (Field_Invalid ''slot_handle'')
      | _ \<Rightarrow> Inl (Field_Invalid ''slot_handle''))"
| "read_replacement value = Inl (Field_Invalid ''replacements'')"

definition read_submission :: "payload \<Rightarrow> fault + (string \<times> json) list" where
  "read_submission entries =
     (if set (map fst entries) \<noteq> {''replacements''} then Inl (Field_Invalid ''replacements'')
      else case map_of entries ''replacements'' of
        Some (Json_List items) \<Rightarrow>
          ebind (first_error [(items = [] \<or> 64 < length items, Field_Invalid ''replacements'')]) (\<lambda>_.
          ebind (emap read_replacement items) (\<lambda>pairs. ebind (first_error
            [(\<not> distinct (map fst pairs),
               Value_Error ''semantic correction slot handles must be unique'')]) (\<lambda>_. Inr pairs)))
      | _ \<Rightarrow> Inl (Field_Invalid ''replacements''))"

section \<open>Serialized containers\<close>

definition container_types :: "string list" where
  "container_types = [''array'', ''object'']"

fun text_items :: "json list \<Rightarrow> string list" where
  "text_items [] = []"
| "text_items (Json_Text t # rest) = t # text_items rest"
| "text_items (v # rest) = text_items rest"

lemma map_of_size: "map_of entries k = Some (Json_List bs) \<Longrightarrow> b \<in> set bs \<Longrightarrow> size b < size (Json_Object entries)"
proof (induction entries)
  case (Cons e entries)
  obtain a v where e: "e = (a, v)" by (cases e)
  show ?case
  proof (cases "a = k")
    case True
    then show ?thesis
      using Cons.prems e size_list_estimation' [of b bs "size b" size] by simp
  next
    case False
    then have "size b < size (Json_Object entries)" using Cons e by auto
    then show ?thesis by (simp add: e)
  qed
qed simp

text \<open>\<open>_structured_schema_root_types\<close>: the first of \<open>oneOf\<close> and \<open>anyOf\<close> that is a list with
  branches decides; a branch without container types makes the result empty.\<close>

definition branches_of :: "payload \<Rightarrow> json list" where
  "branches_of entries =
     (case map_of entries ''oneOf'' of
        Some (Json_List (b # bs)) \<Rightarrow> b # bs
      | _ \<Rightarrow> (case map_of entries ''anyOf'' of Some (Json_List bs) \<Rightarrow> bs | _ \<Rightarrow> []))"

definition all_branch_types :: "string list list \<Rightarrow> string list" where
  "all_branch_types ts = (if [] \<in> set ts then [] else remdups (concat ts))"

lemma branches_size: "b \<in> set (branches_of entries) \<Longrightarrow> size b < size (Json_Object entries)"
  by (auto simp: branches_of_def split: option.splits json.splits list.splits
      dest: map_of_size map_of_size [OF sym] simp del: json.size)

function structured_types :: "json \<Rightarrow> string list" where
  "structured_types (Json_Object entries) =
     (case map_of entries ''type'' of
        Some (Json_Text t) \<Rightarrow> if t \<in> set container_types then [t] else []
      | Some (Json_List ts) \<Rightarrow>
          let values = text_items ts in
          if values \<noteq> [] \<and> set values \<subseteq> set container_types then remdups values else []
      | _ \<Rightarrow> all_branch_types (map structured_types (branches_of entries)))"
| "structured_types Json_Null = []"
| "structured_types (Json_Bool b) = []"
| "structured_types (Json_Int n) = []"
| "structured_types (Json_Number q) = []"
| "structured_types (Json_Text t) = []"
| "structured_types (Json_List vs) = []"
  by pat_completeness auto

termination
  by (relation "measure size") (simp_all add: branches_size del: json.size)

text \<open>The bytes of a text whose code points are below 256.\<close>

definition utf8_length :: "string \<Rightarrow> int" where
  "utf8_length s = sum_list (map (\<lambda>c. if of_char c < (128 :: nat) then 1 else 2) s)"

definition decode_replacement ::
    "correction_env \<Rightarrow> json \<Rightarrow> json option \<Rightarrow> json \<times> string option" where
  "decode_replacement e value schema =
     (case (value, schema) of
        (Json_Text text_value, Some sch) \<Rightarrow>
          (let expected = structured_types sch in
           if expected = [] \<or> 524288 < utf8_length text_value then (value, None)
           else case cn_loads e text_value of
             Some (Json_Object entries) \<Rightarrow>
               if ''object'' \<in> set expected then (Json_Object entries, Some ''object'') else (value, None)
           | Some (Json_List items) \<Rightarrow>
               if ''array'' \<in> set expected then (Json_List items, Some ''array'') else (value, None)
           | _ \<Rightarrow> (value, None))
      | _ \<Rightarrow> (value, None))"

fun container_type :: "json \<Rightarrow> string option" where
  "container_type (Json_Object entries) = Some ''object''"
| "container_type (Json_List items) = Some ''array''"
| "container_type value = None"

section \<open>Application\<close>

text \<open>What the values of the submission stand for: resolved values, normalizations, invalid paths.\<close>

record resolution =
  rs_values :: "(string \<times> json) list"
  rs_notes :: "string list"
  rs_invalid :: "string list"

definition resolve_free :: "correction_env \<Rightarrow> string \<Rightarrow> json \<Rightarrow> resolution \<Rightarrow> resolution" where
  "resolve_free e path value r =
     (let schema = cn_value_schema e path;
          (resolved, decoded) = decode_replacement e value schema;
          expected = (case schema of None \<Rightarrow> [] | Some s \<Rightarrow> structured_types s) in
      if expected \<noteq> [] \<and> container_type resolved \<notin> Some ` set expected
      then r\<lparr>rs_invalid := rs_invalid r @ [path]\<rparr>
      else r\<lparr>rs_values := rs_values r @ [(path, resolved)],
             rs_notes := rs_notes r @ (case decoded of None \<Rightarrow> []
               | Some t \<Rightarrow> [''decoded JSON-serialized '' @ t @ '' correction value for '' @ path])\<rparr>)"

definition resolve_candidate :: "candidate_slot \<Rightarrow> string \<Rightarrow> json \<Rightarrow> resolution \<Rightarrow> resolution" where
  "resolve_candidate slot path value r =
     (case value of
        Json_Text h \<Rightarrow>
          (case List.find (\<lambda>c. cc_handle c = h) (cs_candidates slot) of
             None \<Rightarrow> r\<lparr>rs_invalid := rs_invalid r @ [path]\<rparr>
           | Some c \<Rightarrow> r\<lparr>rs_values := rs_values r @ [(path, cc_value c)],
               rs_notes := rs_notes r @ [''bound controller evidence candidate '' @ h @ '' to '' @ path]\<rparr>)
      | _ \<Rightarrow> r\<lparr>rs_invalid := rs_invalid r @ [path]\<rparr>)"

definition resolve_target ::
    "correction_env \<Rightarrow> correction_plan \<Rightarrow> (string \<times> json) list \<Rightarrow> string \<times> string \<Rightarrow>
     resolution \<Rightarrow> resolution" where
  "resolve_target e p submitted binding r =
     (case map_of submitted (fst binding) of
        None \<Rightarrow> r
      | Some value \<Rightarrow>
          (case List.find (\<lambda>s. cs_target s = snd binding) (cp_slots p) of
             None \<Rightarrow> resolve_free e (snd binding) value r
           | Some slot \<Rightarrow> resolve_candidate slot (snd binding) value r))"

definition resolve_values ::
    "correction_env \<Rightarrow> correction_plan \<Rightarrow> (string \<times> json) list \<Rightarrow> (string \<times> string) list \<Rightarrow> resolution" where
  "resolve_values e p submitted bindings =
     fold (resolve_target e p submitted) bindings \<lparr>rs_values = [], rs_notes = [], rs_invalid = []\<rparr>"

definition settled_values :: "correction_plan \<Rightarrow> resolution \<Rightarrow> resolution" where
  "settled_values p r =
     (if rs_invalid r \<noteq> [] \<and> length (remdups (map cs_target (cp_slots p))) \<noteq> length (cp_targets p)
      then r\<lparr>rs_values := [], rs_notes := []\<rparr> else r)"

text \<open>\<open>_apply_resolved_correction_values\<close>.\<close>

definition put_path :: "string \<times> json \<Rightarrow> json \<Rightarrow> correction_error + json" where
  "put_path entry value =
     (case decode_pointer (fst entry) of
        Inl f \<Rightarrow> Inl (Correction_Fault f)
      | Inr parts \<Rightarrow> put_at parts (snd entry) value)"

definition apply_values :: "payload \<Rightarrow> (string \<times> json) list \<Rightarrow> correction_error + json" where
  "apply_values base values = efold put_path values (Json_Object base)"

definition correction_raise :: "fault + 'a \<Rightarrow> correction_error + 'a" where
  "correction_raise m = (case m of Inl f \<Rightarrow> Inl (Correction_Fault f) | Inr x \<Rightarrow> Inr x)"

definition submission_error ::
    "correction_env \<Rightarrow> correction_plan \<Rightarrow> string \<Rightarrow> string list \<Rightarrow> correction_plan option \<Rightarrow> string list \<Rightarrow>
     correction_error" where
  "submission_error e p message paths recovery notes =
     (case diagnostic_from_invariant (cn_payload_sha e (cp_base p)) Class_Schema Authority_Model
         ''correction_submission_invalid'' ''correction_submission_authority'' [] message paths of
        Inl f \<Rightarrow> Correction_Fault f
      | Inr d \<Rightarrow> Submission_Rejected d recovery notes)"

text \<open>The private plan for the slots that remain, after the others were bound.\<close>

definition entries_of :: "json \<Rightarrow> payload" where
  "entries_of value = (case value of Json_Object entries \<Rightarrow> entries | _ \<Rightarrow> [])"

definition recovery_plan ::
    "correction_env \<Rightarrow> correction_plan \<Rightarrow> json \<Rightarrow> string list \<Rightarrow> correction_error + correction_plan" where
  "recovery_plan e p corrected invalid =
     ebind (correction_raise (diagnostic_from_invariant (cn_payload_sha e (entries_of corrected))
       Class_Schema Authority_Model ''correction_candidate_invalid'' ''correction_candidate_membership''
       [] ''Select an exact candidate handle from this slot's catalog.'' invalid)) (\<lambda>d.
     ebind (correction_raise (new_correction_plan e (entries_of corrected) d)) (\<lambda>pending.
       case pending of
         None \<Rightarrow> Inl (Correction_Fault (Type_Error ''AssertionError''))
       | Some q \<Rightarrow>
           ebind (emap (\<lambda>t. case List.find (\<lambda>s. cs_target s = t) (cp_slots p) of
               None \<Rightarrow> Inl (Correction_Fault (Key_Missing t)) | Some s \<Rightarrow> Inr s) (cp_targets q)) (\<lambda>slots.
             correction_raise (attach_candidates q slots))))"

definition conclude_application ::
    "correction_env \<Rightarrow> correction_plan \<Rightarrow> resolution \<Rightarrow> correction_error + (payload \<times> string list)" where
  "conclude_application e p r =
     ebind (apply_values (cp_base p) (rs_values r)) (\<lambda>corrected.
       if rs_invalid r = [] then Inr (entries_of corrected, rs_notes r)
       else ebind (if rs_values r = [] then Inr None
             else ebind (recovery_plan e p corrected (rs_invalid r)) (\<lambda>q. Inr (Some q))) (\<lambda>recovery.
           Inl (submission_error e p
             (''submitted value is not authorized for correction slot '' @ join_with '', '' (rs_invalid r))
             (rs_invalid r) recovery (rs_notes r))))"

definition missing_targets :: "(string \<times> json) list \<Rightarrow> (string \<times> string) list \<Rightarrow> string list" where
  "missing_targets submitted bindings =
     map snd (filter (\<lambda>(h, _). h \<notin> fst ` set submitted) bindings)"

definition apply_correction ::
    "correction_env \<Rightarrow> payload \<Rightarrow> correction_plan \<Rightarrow> correction_error + (payload \<times> string list)" where
  "apply_correction e submission p =
     (case read_submission submission of
        Inl _ \<Rightarrow> Inl (submission_error e p
          ''semantic correction requires unique typed slot/value records'' (cp_targets p) None [])
      | Inr submitted \<Rightarrow>
          ebind (correction_raise (slot_bindings p)) (\<lambda>bindings.
            if \<not> fst ` set submitted \<subseteq> fst ` set bindings
            then Inl (submission_error e p
              ''semantic correction includes a slot outside controller authority'' (cp_targets p) None [])
            else if cp_require_all p \<and> missing_targets submitted bindings \<noteq> []
            then Inl (submission_error e p
              ''final bounded semantic correction must cover every authorized slot''
              (missing_targets submitted bindings) None [])
            else conclude_application e p (settled_values p (resolve_values e p submitted bindings))))"

section \<open>Progress\<close>

definition constraint_rank :: "string \<Rightarrow> nat" where
  "constraint_rank code =
     (if take 5 (rev code) = rev ''_type'' \<or> code = ''model_attributes_type'' \<or> code = ''none_required'' then 0
      else if code = ''assertion_error'' \<or> code = ''value_error'' then 2 else 1)"

definition issues_at :: "string \<Rightarrow> validation_issue list \<Rightarrow> validation_issue list" where
  "issues_at target issues = filter (\<lambda>i. paths_overlap (vi_path i) target) issues"

definition previous_rank :: "string \<Rightarrow> validation_issue list \<Rightarrow> nat" where
  "previous_rank target issues =
     (case map (\<lambda>i. constraint_rank (vi_code i)) (issues_at target issues) of
        [] \<Rightarrow> 2 | r # rs \<Rightarrow> fold min rs r)"

definition regresses :: "correction_plan \<Rightarrow> diagnostic \<Rightarrow> bool" where
  "regresses p d \<longleftrightarrow> vd_failure_class d = Class_Schema \<and>
     list_ex (\<lambda>t. list_ex (\<lambda>i. constraint_rank (vi_code i) < previous_rank t (vd_issues (cp_diagnostic p)))
       (issues_at t (vd_issues d))) (cp_targets p)"

definition targeted_identities :: "correction_plan \<Rightarrow> issue_identity set" where
  "targeted_identities p = issue_identity ` set (filter
     (\<lambda>i. list_ex (paths_overlap (vi_path i)) (cp_targets p)) (vd_issues (cp_diagnostic p)))"

definition correction_outcome ::
    "correction_env \<Rightarrow> correction_plan \<Rightarrow> diagnostic option \<Rightarrow> string list \<Rightarrow> correction_result" where
  "correction_outcome e p result seen =
     (case result of
        None \<Rightarrow> Correction_Accepted
      | Some d \<Rightarrow>
          if diagnostic_fingerprint e d \<in> set seen then No_Improvement
          else if regresses p d then No_Improvement
          else if targeted_identities p \<subseteq> issue_identity ` set (vd_issues d) then No_Improvement
          else Correction_Improved)"

end
