(* ===== verification/Correction_Properties.thy ===== *)
theory Correction_Properties
  imports Correction_Application
begin

text \<open>
  What a correction may change and what a diagnosis authorizes. \<open>put_elsewhere\<close> and \<open>put_here\<close> say
  what one replacement does to the places of a payload; a successful correction is a sequence of
  replacements at the targets of its plan. \<open>parts_overlap\<close> is an equivalent of "one is a prefix of
  the other"; the minimal correction paths are pairwise free of it, because decoding a pointer is
  injective.
\<close>

section \<open>Places\<close>

text \<open>Two parts name the same child: the same key, or the same position of a list.\<close>

definition same_part :: "string \<Rightarrow> string \<Rightarrow> bool" where
  "same_part p q \<longleftrightarrow> p = q \<or> decimal_text p \<and> decimal_text q \<and> read_digits p = read_digits q"

fun places_meet :: "string list \<Rightarrow> string list \<Rightarrow> bool" where
  "places_meet (p # ps) (q # qs) = (same_part p q \<and> places_meet ps qs)"
| "places_meet ps qs = True"

lemma object_set_get: "map_of (json_object_set entries k v) = (map_of entries)(k \<mapsto> v)"
  by (induction entries k v rule: json_object_set.induct) auto

lemma list_index_part:
  "list_index p items = Some i \<Longrightarrow> decimal_text p \<and> read_digits p = i \<and> i < length items"
  by (auto simp: list_index_def split: if_splits)

lemma list_index_update [simp]: "list_index p (items[i := v]) = list_index p items"
  by (simp add: list_index_def)

lemma put_elsewhere:
  "put_at ts v j = Inr k \<Longrightarrow> \<not> places_meet ps ts \<Longrightarrow> json_at ps k = json_at ps j"
proof (induction ts v j arbitrary: k ps rule: put_at.induct)
  case (2 final v entries)
  then show ?case by (cases ps) (auto simp: object_set_get same_part_def)
next
  case (3 final v items)
  then obtain i where i: "list_index final items = Some i" "k = Json_List (items[i := v])"
    by (auto split: option.splits)
  obtain q qs where ps: "ps = q # qs" "\<not> same_part q final" using 3(2) by (cases ps) auto
  have "list_index q items \<noteq> Some i" using list_index_part [of q items i] list_index_part [OF i(1)] ps(2)
    by (auto simp: same_part_def)
  then show ?case using i ps(1) by (auto split: option.splits)
next
  case (5 p q qs v entries)
  then obtain child w where c: "map_of entries p = Some child" "put_at (q # qs) v child = Inr w"
      "k = Json_Object (json_object_set entries p w)"
    by (auto simp: ebind_eq_Inr split: option.splits)
  obtain r rs where ps: "ps = r # rs" "\<not> (same_part r p \<and> places_meet rs (q # qs))"
    using 5(3) by (cases ps) auto
  then show ?case
    using c 5(1) [OF c(1,2)] by (auto simp: object_set_get same_part_def)
next
  case (6 p q qs v items)
  then obtain i w where c: "list_index p items = Some i" "put_at (q # qs) v (items ! i) = Inr w"
      "k = Json_List (items[i := w])"
    by (auto simp: ebind_eq_Inr split: option.splits)
  obtain r rs where ps: "ps = r # rs" "\<not> (same_part r p \<and> places_meet rs (q # qs))"
    using 6(3) by (cases ps) auto
  have "same_part r p" if "list_index r items = Some i"
    using list_index_part [OF that] list_index_part [OF c(1)] by (simp add: same_part_def)
  then show ?case
    using c ps 6(1) [OF c(1,2)] list_index_part [OF c(1)] by (auto split: option.splits simp: nth_list_update)
qed auto

lemma put_here: "put_at ts v j = Inr k \<Longrightarrow> json_at ts k = Some v"
proof (induction ts v j arbitrary: k rule: put_at.induct)
  case (3 final v items)
  then obtain i where "list_index final items = Some i" "k = Json_List (items[i := v])"
    by (auto split: option.splits)
  then show ?case using list_index_part [of final items i] by simp
next
  case (6 p q qs v items)
  then obtain i w where "list_index p items = Some i" "put_at (q # qs) v (items ! i) = Inr w"
      "k = Json_List (items[i := w])"
    by (auto simp: ebind_eq_Inr split: option.splits)
  then show ?case using 6(1) list_index_part [of p items i] by simp
qed (auto simp: ebind_eq_Inr object_set_get split: option.splits)

lemma put_path_Inr:
  "put_path (path, v) j = Inr m \<longleftrightarrow> (\<exists>parts. decode_pointer path = Inr parts \<and> put_at parts v j = Inr m)"
  by (simp add: put_path_def split: sum.splits)

lemma put_same_kind: "put_at ts v (Json_Object entries) = Inr k \<Longrightarrow> \<exists>es. k = Json_Object es"
  by (cases ts; cases "tl ts") (auto simp: ebind_eq_Inr split: option.splits)

lemma apply_values_object: "apply_values base vals = Inr k \<Longrightarrow> \<exists>es. k = Json_Object es"
  unfolding apply_values_def
  by (erule efold_invariant) (auto simp: put_path_def split: sum.splits dest!: put_same_kind)

lemma puts_elsewhere:
  assumes "efold put_path vals j = Inr k"
    and "\<forall>path \<in> fst ` set vals. \<not> places_meet ps (pointer_parts path)"
  shows "json_at ps k = json_at ps j"
  using assms
proof (induction vals arbitrary: j)
  case (Cons entry vals)
  obtain path v where e: "entry = (path, v)" by (cases entry)
  obtain parts m where m: "decode_pointer path = Inr parts" "put_at parts v j = Inr m"
      "efold put_path vals m = Inr k"
    using Cons.prems(1) by (auto simp: e ebind_eq_Inr put_path_Inr)
  have "\<not> places_meet ps parts" using Cons.prems(2) m(1) by (simp add: e pointer_parts_def)
  then have "json_at ps m = json_at ps j" using put_elsewhere [OF m(2)] by simp
  then show ?case using Cons.IH [OF m(3)] Cons.prems(2) by simp
qed simp

lemma places_meet_sym: "places_meet ps qs = places_meet qs ps"
  by (induction ps qs rule: places_meet.induct) (auto simp: same_part_def)

lemma puts_here:
  assumes "efold put_path vals j = Inr k" and "(path, v) \<in> set vals"
    and "distinct (map fst vals)"
    and "\<And>p q. p \<in> fst ` set vals \<Longrightarrow> q \<in> fst ` set vals \<Longrightarrow> p \<noteq> q \<Longrightarrow>
      \<not> places_meet (pointer_parts p) (pointer_parts q)"
  shows "json_at (pointer_parts path) k = Some v"
  using assms
proof (induction vals arbitrary: j)
  case (Cons entry vals)
  obtain q w where e: "entry = (q, w)" by (cases entry)
  obtain parts m where m: "decode_pointer q = Inr parts" "put_at parts w j = Inr m"
      "efold put_path vals m = Inr k"
    using Cons.prems(1) by (auto simp: e ebind_eq_Inr put_path_Inr)
  show ?case
  proof (cases "(path, v) \<in> set vals")
    case True
    then show ?thesis using Cons.IH [OF m(3)] Cons.prems(3,4) by auto
  next
    case False
    then have here: "path = q" "v = w" using Cons.prems(2) e by auto
    have "\<forall>p \<in> fst ` set vals. \<not> places_meet (pointer_parts q) (pointer_parts p)"
      using Cons.prems(3) Cons.prems(4) [of q] e by auto
    from puts_elsewhere [OF m(3) this]
    have "json_at (pointer_parts q) k = json_at (pointer_parts q) m" .
    then show ?thesis using put_here [OF m(2)] m(1) here by (simp add: pointer_parts_def)
  qed
qed simp

section \<open>What a diagnosis authorizes\<close>

lemma parts_overlap_prefix:
  "parts_overlap xs ys \<longleftrightarrow> take (length xs) ys = xs \<or> take (length ys) xs = ys"
  by (auto simp: parts_overlap_def min_def Let_def not_le dest: arg_cong [of _ _ length])

lemma parts_overlap_refl: "parts_overlap xs xs"
  by (simp add: parts_overlap_def)

lemma parts_overlap_sym: "parts_overlap xs ys \<longleftrightarrow> parts_overlap ys xs"
  by (auto simp: parts_overlap_prefix)

lemma parts_overlap_longer:
  assumes "parts_overlap xs ys" and "parts_overlap ys zs" and "length xs \<le> length ys" and "length ys \<le> length zs"
  shows "parts_overlap xs zs"
proof -
  have "take (length xs) ys = xs" "take (length ys) zs = ys"
    using assms by (auto simp: parts_overlap_def min_def)
  then have "take (length xs) zs = xs" using assms(3) by (metis min.absorb1 take_take)
  then show ?thesis by (simp add: parts_overlap_prefix)
qed

definition pointer_ok :: "string \<Rightarrow> bool" where
  "pointer_ok p \<longleftrightarrow> require_json_pointer p = Inr ()"

lemma pointer_ok_inj:
  assumes "pointer_ok p" "pointer_ok q" "p \<noteq> ''/''" "q \<noteq> ''/''" "pointer_parts p = pointer_parts q"
  shows "p = q"
proof -
  have "\<exists>parts. decode_pointer p = Inr parts \<and> take 1 p = ''/''" if "pointer_ok p" "p \<noteq> ''/''" for p
    using that by (auto simp: pointer_ok_def require_json_pointer_def ebind_eq_Inr)
  then obtain a b where "decode_pointer p = Inr a" "take 1 p = ''/''" "decode_pointer q = Inr b" "take 1 q = ''/''"
    using assms by metis
  moreover have "a = b" using assms(5) calculation by (simp add: pointer_parts_def)
  ultimately show ?thesis using decode_Inr_encode assms(3,4) by metis
qed

lemma candidate_paths_iff:
  "p \<in> set (candidate_paths issues) \<longleftrightarrow>
     p \<in> set (model_paths issues) \<and> p \<noteq> ''/'' \<and> \<not> list_ex (paths_overlap p) (non_model_paths issues)"
  by (auto simp: candidate_paths_def)

lemma minimal_authorized:
  "p \<in> set (minimal_correction_paths issues) \<Longrightarrow>
     p \<in> set (model_paths issues) \<and> p \<noteq> ''/'' \<and> \<not> list_ex (paths_overlap p) (non_model_paths issues)"
  using candidate_paths_iff by (auto simp: minimal_correction_paths_def)

lemma minimal_sorted: "sorted (minimal_correction_paths issues)" "distinct (minimal_correction_paths issues)"
  by (simp_all add: minimal_correction_paths_def candidate_paths_def sorted_wrt_filter)

lemma minimal_apart:
  assumes "\<forall>i \<in> set issues. pointer_ok (vi_path i)"
    and "p \<in> set (minimal_correction_paths issues)" and "q \<in> set (minimal_correction_paths issues)" and "p \<noteq> q"
  shows "\<not> paths_overlap p q"
proof
  assume o: "paths_overlap p q"
  have longest: "length (pointer_parts b) \<le> length (pointer_parts a)"
    if "a \<in> set (minimal_correction_paths issues)" "b \<in> set (minimal_correction_paths issues)"
      "a \<noteq> b" "paths_overlap a b" for a b
    using that by (force simp: minimal_correction_paths_def list_ex_iff not_less)
  have "paths_overlap q p" using o by (simp add: paths_overlap_def parts_overlap_sym)
  then have "length (pointer_parts p) = length (pointer_parts q)"
    using longest [of p q] longest [of q p] assms(2-4) o by simp
  then have "pointer_parts p = pointer_parts q" using o by (simp add: paths_overlap_def parts_overlap_def)
  moreover have "pointer_ok p \<and> p \<noteq> ''/''" "pointer_ok q \<and> q \<noteq> ''/''"
    using assms(1) minimal_authorized [OF assms(2)] minimal_authorized [OF assms(3)]
    by (auto simp: model_paths_def)
  ultimately show False using pointer_ok_inj assms(4) by blast
qed

lemma minimal_covers:
  assumes "p \<in> set (candidate_paths issues)"
  shows "\<exists>q \<in> set (minimal_correction_paths issues). paths_overlap p q"
proof -
  let ?c = "{q \<in> set (candidate_paths issues). paths_overlap p q \<and> length (pointer_parts p) \<le> length (pointer_parts q)}"
  have "finite ?c" "p \<in> ?c" using assms by (auto simp: paths_overlap_def parts_overlap_refl)
  then obtain q where q: "q \<in> ?c" "\<And>r. r \<in> ?c \<Longrightarrow> length (pointer_parts r) \<le> length (pointer_parts q)"
    using Max_in [of "(\<lambda>r. length (pointer_parts r)) ` ?c"] Max_ge [of "(\<lambda>r. length (pointer_parts r)) ` ?c"]
    by (smt (verit) empty_iff finite_imageI image_iff imageI)
  have "\<not> (r \<in> set (candidate_paths issues) \<and> length (pointer_parts q) < length (pointer_parts r) \<and> paths_overlap q r)" for r
  proof
    assume r: "r \<in> set (candidate_paths issues) \<and> length (pointer_parts q) < length (pointer_parts r) \<and> paths_overlap q r"
    then have "r \<in> ?c" using q(1) parts_overlap_longer [of "pointer_parts p" "pointer_parts q" "pointer_parts r"]
      by (auto simp: paths_overlap_def)
    then show False using q(2) [of r] r by simp
  qed
  then have "q \<in> set (minimal_correction_paths issues)"
    using q(1) by (auto simp: minimal_correction_paths_def list_ex_iff)
  then show ?thesis using q(1) by blast
qed

lemma made_issue_pointer: "mk_issue i = Inr m \<Longrightarrow> pointer_ok (vi_path m)"
  by (auto simp: mk_issue_def clean_then_Inr validate_issue_def ebind_eq_Inr pointer_ok_def)

lemma filtered_length: "length (remdups (filter P (map f (filter Q xs)))) \<le> length xs"
proof -
  have "length (remdups (filter P (map f (filter Q xs)))) \<le> length (filter P (map f (filter Q xs)))"
    by (rule length_remdups_leq)
  also have "\<dots> \<le> length (map f (filter Q xs))" by (rule length_filter_le)
  also have "\<dots> \<le> length xs" by simp
  finally show ?thesis .
qed

text \<open>C37: A diagnosis is always valid and authorizes exactly the right places. From issues that are
  themselves valid, with their invariants named and at most 64 of them, the diagnostic can be built;
  its correction paths are paths of model-owned issues, overlap no issue of another authority, are
  pairwise independent, and every model-owned issue that overlaps no other authority and does not
  concern the whole response overlaps one of them.\<close>

theorem diagnosis_authorizes:
  assumes "emap mk_issue issues = Inr made" and "made \<noteq> []" and "length made \<le> 64"
    and "sha256_pattern sha" and "\<forall>i \<in> set made. vi_invariant_id i \<noteq> None"
  shows "\<exists>d. new_diagnostic failure sha issues = Inr d \<and> vd_issues d = made \<and>
    (\<forall>p \<in> set (vd_correction_paths d). p \<in> set (model_paths made) \<and>
       (\<forall>q \<in> set (non_model_paths made). \<not> paths_overlap p q) \<and>
       (\<forall>q \<in> set (vd_correction_paths d). p \<noteq> q \<longrightarrow> \<not> paths_overlap p q)) \<and>
    (\<forall>p \<in> set (model_paths made). p \<noteq> ''/'' \<and> (\<forall>q \<in> set (non_model_paths made). \<not> paths_overlap p q) \<longrightarrow>
       (\<exists>q \<in> set (vd_correction_paths d). paths_overlap p q))"
proof -
  let ?ps = "minimal_correction_paths made"
  let ?d = "\<lparr>vd_schema_version = 2, vd_failure_class = failure, vd_response_sha256 = sha,
    vd_issues = made, vd_correction_paths = ?ps\<rparr>"
  have ok: "\<forall>i \<in> set made. pointer_ok (vi_path i)"
    using issues.all_madeD [OF assms(1)] made_issue_pointer by blast
  have "length ?ps \<le> length (candidate_paths made)" by (simp add: minimal_correction_paths_def)
  also have "\<dots> \<le> length made"
    by (simp add: candidate_paths_def model_paths_def filtered_length)
  finally have few: "length ?ps \<le> 64" using assms(3) by simp
  have each: "check_correction_path p = Inr ()" if "p \<in> set ?ps" for p
    using minimal_authorized [OF that] ok
    by (auto simp: check_correction_path_def model_paths_def pointer_ok_def)
  have over: "\<not> list_ex (\<lambda>p. \<not> list_ex (paths_overlap p) (model_paths made)) ?ps"
      "\<not> list_ex (\<lambda>p. list_ex (paths_overlap p) (non_model_paths made)) ?ps"
    using minimal_authorized by (auto simp: list_ex_iff paths_overlap_def intro: parts_overlap_refl)
  have "validate_diagnostic ?d = Inr ()"
    using few each over assms(2-5) minimal_sorted
    by (auto simp: validate_diagnostic_def ebind_eq_Inr list_ex_iff)
  then have "new_diagnostic failure sha issues = Inr ?d"
    using assms(1) issues.all_stable [OF assms(1)]
    by (simp add: new_diagnostic_def mk_diagnostic_def clean_then_Inr)
  moreover have "\<exists>q \<in> set ?ps. paths_overlap p q"
    if "p \<in> set (model_paths made)" "p \<noteq> ''/''" "\<forall>q \<in> set (non_model_paths made). \<not> paths_overlap p q" for p
    using minimal_covers [of p made] that by (simp add: candidate_paths_iff list_ex_iff)
  ultimately show ?thesis
    using minimal_authorized minimal_apart [OF ok] by (auto simp: list_ex_iff)
qed

definition demo_issues :: "validation_issue list" where
  "demo_issues = map (issue_of_error Authority_Model [''run_id''])
     [\<lparr>rw_loc = [''tasks'', ''0''], rw_type = ''value_error'', rw_msg = ''task is invalid''\<rparr>,
      \<lparr>rw_loc = [''tasks'', ''0'', ''owner''], rw_type = ''enum'', rw_msg = ''unknown owner''\<rparr>,
      \<lparr>rw_loc = [''run_id''], rw_type = ''extra_forbidden'', rw_msg = ''not permitted''\<rparr>]"

definition demo_sha :: string where
  "demo_sha = replicate 64 (CHR ''a'')"

lemma demo_issues_made:
  "emap mk_issue demo_issues = Inr demo_issues \<and> demo_issues \<noteq> [] \<and> length demo_issues \<le> 64 \<and>
     sha256_pattern demo_sha \<and> (\<forall>i \<in> set demo_issues. vi_invariant_id i \<noteq> None)"
  by code_simp

lemma demo_minimal: "minimal_correction_paths demo_issues = [''/tasks/0/owner'']"
  by code_simp

theorem diagnosis_authorizes_witness:
  "\<exists>d. new_diagnostic Class_Schema demo_sha demo_issues = Inr d \<and> vd_issues d = demo_issues"
proof -
  note m = demo_issues_made [THEN conjunct1] demo_issues_made [THEN conjunct2, THEN conjunct1]
    demo_issues_made [THEN conjunct2, THEN conjunct2, THEN conjunct1]
    demo_issues_made [THEN conjunct2, THEN conjunct2, THEN conjunct2, THEN conjunct1]
    demo_issues_made [THEN conjunct2, THEN conjunct2, THEN conjunct2, THEN conjunct2]
  show ?thesis using diagnosis_authorizes [OF m] by blast
qed

section \<open>What a correction changes\<close>

text \<open>The value a target gets for what was submitted to its slot.\<close>

definition accepted_value :: "correction_env \<Rightarrow> correction_plan \<Rightarrow> string \<Rightarrow> json \<Rightarrow> json \<Rightarrow> bool" where
  "accepted_value e p target submitted stored \<longleftrightarrow>
     (case List.find (\<lambda>s. cs_target s = target) (cp_slots p) of
        Some slot \<Rightarrow> \<exists>c \<in> set (cs_candidates slot). submitted = Json_Text (cc_handle c) \<and> stored = cc_value c
      | None \<Rightarrow> stored = fst (decode_replacement e submitted (cn_value_schema e target)) \<and>
          (case cn_value_schema e target of
             None \<Rightarrow> True
           | Some s \<Rightarrow> structured_types s = [] \<or> container_type stored \<in> Some ` set (structured_types s)))"

lemma resolve_free_result:
  assumes "rs_invalid (resolve_free e t v r) = []" and "List.find (\<lambda>s. cs_target s = t) (cp_slots p) = None"
  shows "rs_invalid r = [] \<and> (\<exists>w. rs_values (resolve_free e t v r) = rs_values r @ [(t, w)] \<and>
    accepted_value e p t v w)"
  using assms by (auto simp: resolve_free_def accepted_value_def Let_def split: prod.splits if_splits option.splits)

lemma resolve_candidate_result:
  assumes "rs_invalid (resolve_candidate slot t v r) = []"
    and "List.find (\<lambda>s. cs_target s = t) (cp_slots p) = Some slot"
  shows "rs_invalid r = [] \<and> (\<exists>w. rs_values (resolve_candidate slot t v r) = rs_values r @ [(t, w)] \<and>
    accepted_value e p t v w)"
proof -
  obtain h c where h: "v = Json_Text h" "List.find (\<lambda>c. cc_handle c = h) (cs_candidates slot) = Some c"
      "rs_invalid r = []"
    using assms(1) by (auto simp: resolve_candidate_def split: json.splits option.splits)
  have "c \<in> set (cs_candidates slot)" "cc_handle c = h"
    using find_Some_key [OF h(2)] by auto
  then show ?thesis using h assms(2) by (auto simp: resolve_candidate_def accepted_value_def)
qed

lemma resolve_target_result:
  "map_of submitted h = None \<Longrightarrow> resolve_target e p submitted (h, t) r = r"
  "map_of submitted h = Some v \<Longrightarrow> rs_invalid (resolve_target e p submitted (h, t) r) = [] \<Longrightarrow>
     rs_invalid r = [] \<and> (\<exists>w. rs_values (resolve_target e p submitted (h, t) r) = rs_values r @ [(t, w)] \<and>
       accepted_value e p t v w)"
  using resolve_free_result [where e = e and t = t and v = v and r = r and p = p]
    resolve_candidate_result [where t = t and v = v and r = r and p = p and e = e]
  by (auto simp: resolve_target_def split: option.splits)

lemma resolve_values_result:
  assumes "rs_invalid (fold (resolve_target e p submitted) bindings r) = []"
  shows "rs_invalid r = [] \<and> (\<exists>ws. rs_values (fold (resolve_target e p submitted) bindings r) = rs_values r @ ws \<and>
    map fst ws = map snd (filter (\<lambda>(h, _). h \<in> fst ` set submitted) bindings) \<and>
    (\<forall>(t, w) \<in> set ws. \<exists>h v. (h, t) \<in> set bindings \<and> map_of submitted h = Some v \<and> accepted_value e p t v w))"
  using assms
proof (induction bindings arbitrary: r)
  case (Cons b bindings)
  obtain h t where b: "b = (h, t)" by (cases b)
  let ?s = "resolve_target e p submitted (h, t) r"
  obtain ws where ws: "rs_invalid ?s = []"
      "rs_values (fold (resolve_target e p submitted) bindings ?s) = rs_values ?s @ ws"
      "map fst ws = map snd (filter (\<lambda>(h, _). h \<in> fst ` set submitted) bindings)"
      "\<forall>(t, w) \<in> set ws. \<exists>h v. (h, t) \<in> set bindings \<and> map_of submitted h = Some v \<and> accepted_value e p t v w"
    using Cons.IH [of ?s] Cons.prems by (auto simp: b)
  show ?case
  proof (cases "map_of submitted h")
    case None
    then have "h \<notin> fst ` set submitted" by (simp add: map_of_eq_None_iff)
    then show ?thesis using ws resolve_target_result(1) [OF None] by (fastforce simp: b)
  next
    case (Some v)
    then have "h \<in> fst ` set submitted" by (force dest: map_of_SomeD)
    moreover obtain w where "rs_invalid r = []" "rs_values ?s = rs_values r @ [(t, w)]" "accepted_value e p t v w"
      using resolve_target_result(2) [OF Some ws(1)] by blast
    moreover have "\<forall>(u, x) \<in> set ((t, w) # ws). \<exists>g y. (g, u) \<in> set (b # bindings) \<and>
        map_of submitted g = Some y \<and> accepted_value e p u y x"
      using ws(4) Some calculation by (fastforce simp: b)
    ultimately show ?thesis
      using ws(2,3) by (intro conjI exI [of _ "(t, w) # ws"]) (simp_all add: b)
  qed
qed simp

lemma slot_bindings_facts:
  assumes "slot_bindings p = Inr bs"
  shows "map snd bs = cp_targets p" "distinct (cp_targets p)" "distinct (map fst bs)"
proof -
  have bs: "emap (\<lambda>t. ebind (slot_handle (cp_targets p) t) (\<lambda>h. Inr (h, t))) (cp_targets p) = Inr bs"
    and collision: "length (remdups (map fst bs)) = length (cp_targets p)"
    using assms by (auto simp: slot_bindings_def ebind_eq_Inr)
  have same: "list_all2 (\<lambda>t b. snd b = t) (cp_targets p) bs"
    using bs unfolding emap_Inr by (rule list.rel_mono_strong) (auto simp: ebind_eq_Inr)
  then show snd: "map snd bs = cp_targets p"
    by (auto simp: list_all2_conv_all_nth intro: nth_equalityI)
  show "distinct (cp_targets p)"
    using bs by (cases "cp_targets p") (auto simp: slot_handle_def ebind_eq_Inr)
  have "length (remdups (map fst bs)) = length (map fst bs)" using collision snd by (metis length_map)
  then show "distinct (map fst bs)" by (metis distinct_remdups length_remdups_eq)
qed

definition independent_targets :: "correction_plan \<Rightarrow> bool" where
  "independent_targets p \<longleftrightarrow> list_all (\<lambda>s. list_all (\<lambda>t. s = t \<or>
     \<not> places_meet (pointer_parts s) (pointer_parts t)) (cp_targets p)) (cp_targets p)"

lemma apply_correction_Inr:
  assumes "apply_correction e submission p = Inr (payload, notes)"
  obtains submitted bindings ws where "read_submission submission = Inr submitted"
    "slot_bindings p = Inr bindings" "fst ` set submitted \<subseteq> fst ` set bindings"
    "efold put_path ws (Json_Object (cp_base p)) = Inr (Json_Object payload)"
    "map fst ws = map snd (filter (\<lambda>(h, _). h \<in> fst ` set submitted) bindings)"
    "\<And>t w. (t, w) \<in> set ws \<Longrightarrow> \<exists>h v. (h, t) \<in> set bindings \<and> map_of submitted h = Some v \<and> accepted_value e p t v w"
proof -
  obtain submitted bindings where b: "read_submission submission = Inr submitted" "slot_bindings p = Inr bindings"
      "fst ` set submitted \<subseteq> fst ` set bindings"
      "conclude_application e p (settled_values p (resolve_values e p submitted bindings)) = Inr (payload, notes)"
    using assms by (auto simp: apply_correction_def correction_raise_def ebind_eq_Inr
        split: sum.splits if_splits)
  let ?r = "resolve_values e p submitted bindings"
  have valid: "rs_invalid ?r = []"
    using b(4) by (auto simp: conclude_application_def settled_values_def ebind_eq_Inr split: if_splits)
  then have "settled_values p ?r = ?r" by (simp add: settled_values_def)
  then obtain corrected where c: "apply_values (cp_base p) (rs_values ?r) = Inr corrected" "payload = entries_of corrected"
    using b(4) valid by (auto simp: conclude_application_def ebind_eq_Inr)
  then have "corrected = Json_Object payload" using apply_values_object [OF c(1)] by (auto simp: entries_of_def)
  then show ?thesis
    using that [OF b(1-3)] c(1) resolve_values_result [of e p submitted bindings] valid
    by (fastforce simp: apply_values_def resolve_values_def)
qed

text \<open>C38: A correction changes its targets and nothing else. When the submission of a model is applied,
  every slot it names belongs to the plan; at every target with a submitted value the new payload
  holds the value accepted for it (the candidate that was chosen, or the submitted value decoded
  against the schema of the place); every place that meets no such target is as in the base payload,
  in particular the targets that were not submitted.\<close>

theorem correction_exact:
  assumes "apply_correction e submission p = Inr (payload, notes)" and "independent_targets p"
  shows "\<exists>submitted bindings. read_submission submission = Inr submitted \<and> slot_bindings p = Inr bindings \<and>
    fst ` set submitted \<subseteq> fst ` set bindings \<and>
    (\<forall>(h, t) \<in> set bindings. \<forall>v. map_of submitted h = Some v \<longrightarrow>
       (\<exists>w. json_at (pointer_parts t) (Json_Object payload) = Some w \<and> accepted_value e p t v w)) \<and>
    (\<forall>ps. (\<forall>(h, t) \<in> set bindings. h \<in> fst ` set submitted \<longrightarrow> \<not> places_meet ps (pointer_parts t)) \<longrightarrow>
       json_at ps (Json_Object payload) = json_at ps (Json_Object (cp_base p)))"
proof -
  obtain submitted bindings ws where b: "read_submission submission = Inr submitted"
    "slot_bindings p = Inr bindings" "fst ` set submitted \<subseteq> fst ` set bindings"
    "efold put_path ws (Json_Object (cp_base p)) = Inr (Json_Object payload)"
    "map fst ws = map snd (filter (\<lambda>(h, _). h \<in> fst ` set submitted) bindings)"
    "\<And>t w. (t, w) \<in> set ws \<Longrightarrow> \<exists>h v. (h, t) \<in> set bindings \<and> map_of submitted h = Some v \<and> accepted_value e p t v w"
    using apply_correction_Inr [OF assms(1)] by blast
  note sb = slot_bindings_facts [OF b(2)]
  have keys: "fst ` set ws = snd ` {b \<in> set bindings. fst b \<in> fst ` set submitted}"
    using arg_cong [OF b(5), of set] by (simp add: split_def)
  have apart: "\<not> places_meet (pointer_parts s) (pointer_parts t)"
    if "s \<in> fst ` set ws" "t \<in> fst ` set ws" "s \<noteq> t" for s t
  proof -
    have "fst ` set ws \<subseteq> set (cp_targets p)" unfolding keys sb(1) [symmetric] by auto
    then show ?thesis using that assms(2) by (auto simp: independent_targets_def list_all_iff)
  qed
  have "distinct (map snd bindings)" using sb by simp
  then have "distinct (map snd (filter (\<lambda>(h, _). h \<in> fst ` set submitted) bindings))" by (rule distinct_map_filter)
  then have ws: "distinct (map fst ws)" using b(5) by simp
  have one: "h = h'" if "(h, t) \<in> set bindings" "(h', t) \<in> set bindings" for h h' t
    using that \<open>distinct (map snd bindings)\<close> by (metis Pair_inject distinct_map inj_on_eq_iff snd_conv)
  have "\<exists>w. json_at (pointer_parts t) (Json_Object payload) = Some w \<and> accepted_value e p t v w"
    if h: "(h, t) \<in> set bindings" "map_of submitted h = Some v" for h t v
  proof -
    have "h \<in> fst ` set submitted" using h(2) by (force dest: map_of_SomeD)
    then have "t \<in> fst ` set ws" unfolding keys using h(1) by force
    then obtain w where w: "(t, w) \<in> set ws" by auto
    from b(6) [OF w] obtain h' v' where "(h', t) \<in> set bindings" "map_of submitted h' = Some v'" "accepted_value e p t v' w"
      by blast
    moreover have "h' = h" using calculation(1) h(1) one by blast
    ultimately have "accepted_value e p t v w" using h(2) by simp
    then show ?thesis using puts_here [OF b(4) w ws apart] by blast
  qed
  moreover have "json_at ps (Json_Object payload) = json_at ps (Json_Object (cp_base p))"
    if "\<forall>(h, t) \<in> set bindings. h \<in> fst ` set submitted \<longrightarrow> \<not> places_meet ps (pointer_parts t)" for ps
  proof (rule puts_elsewhere [OF b(4)])
    show "\<forall>path \<in> fst ` set ws. \<not> places_meet ps (pointer_parts path)"
      unfolding keys using that by auto
  qed
  ultimately show ?thesis using b(1-3) by (intro exI [of _ submitted] exI [of _ bindings]) auto
qed

text \<open>Independent paths of a diagnosis are independent places, when list positions are written as
  Python writes them.\<close>

definition canonical_part :: "string \<Rightarrow> bool" where
  "canonical_part s \<longleftrightarrow> (decimal_text s \<longrightarrow> s = decimal (read_digits s))"

lemma places_meet_overlap:
  "list_all canonical_part xs \<Longrightarrow> list_all canonical_part ys \<Longrightarrow> places_meet xs ys \<longleftrightarrow> parts_overlap xs ys"
proof (induction xs ys rule: places_meet.induct)
  case (1 p ps q qs)
  have "same_part p q \<longleftrightarrow> p = q" using 1(2,3) by (auto simp: same_part_def canonical_part_def)
  moreover have "parts_overlap (p # ps) (q # qs) \<longleftrightarrow> p = q \<and> parts_overlap ps qs"
    by (auto simp: parts_overlap_prefix)
  ultimately show ?case using 1 by simp
qed (simp_all add: parts_overlap_prefix)

lemma diagnosed_plan_independent:
  assumes "new_diagnostic failure sha issues = Inr d" and "build_correction_plan e payload d = Some p"
    and "\<forall>t \<in> set (vd_correction_paths d). list_all canonical_part (pointer_parts t)"
  shows "independent_targets p"
proof -
  obtain made where made: "emap mk_issue issues = Inr made" "vd_issues d = made"
      "vd_correction_paths d = minimal_correction_paths made"
    using assms(1) issues.all_stable
    by (fastforce simp: new_diagnostic_def mk_diagnostic_def clean_then_Inr ebind_eq_Inr)
  have t: "cp_targets p = vd_correction_paths d"
    using assms(2) by (auto simp: build_correction_plan_def Let_def split: if_splits)
  have "\<forall>i \<in> set made. pointer_ok (vi_path i)"
    using issues.all_madeD [OF made(1)] made_issue_pointer by blast
  from minimal_apart [OF this] show ?thesis
    using assms(3) made(3) places_meet_overlap
    by (auto simp: independent_targets_def list_all_iff t paths_overlap_def)
qed

text \<open>A plan with one free slot and one candidate slot, and what a model submits for it.\<close>

definition demo_correction_env :: correction_env where
  "demo_correction_env = \<lparr>cn_payload_sha = (\<lambda>_. demo_sha), cn_fingerprint_sha = (\<lambda>_. demo_sha),
     cn_value_schema = (\<lambda>p. if p = ''/tags'' then Some (Json_Object [(''type'', Json_Text ''array'')]) else None),
     cn_loads = (\<lambda>_. Some (Json_List [Json_Int 1]))\<rparr>"

definition demo_base :: payload where
  "demo_base = [(''title'', Json_Text ''t''), (''tags'', Json_Null),
     (''tasks'', Json_List [Json_Object [(''owner'', Json_Text ''nobody''), (''id'', Json_Int 7)]])]"

definition demo_correction_plan :: correction_plan where
  "demo_correction_plan = \<lparr>cp_base = demo_base,
     cp_diagnostic = \<lparr>vd_schema_version = 2, vd_failure_class = Class_Schema, vd_response_sha256 = demo_sha,
       vd_issues = demo_issues, vd_correction_paths = [''/tags'', ''/tasks/0/owner'']\<rparr>,
     cp_sha256 = demo_sha, cp_fingerprint = demo_sha, cp_targets = [''/tags'', ''/tasks/0/owner''],
     cp_preserved = [''/title''],
     cp_slots = [\<lparr>cs_target = ''/tasks/0/owner'', cs_candidates =
       [\<lparr>cc_handle = ''candidate_1'', cc_value = Json_Text ''planner'', cc_source = ''team''\<rparr>]\<rparr>],
     cp_require_all = False\<rparr>"

definition demo_submission :: payload where
  "demo_submission = [(''replacements'', Json_List
     [Json_Object [(''slot_handle'', Json_Text ''slot_2''), (''replacement_value'', Json_Text ''candidate_1'')],
      Json_Object [(''slot_handle'', Json_Text ''slot_1''), (''replacement_value'', Json_Text ''[1]'')]])]"

definition demo_corrected :: payload where
  "demo_corrected = [(''title'', Json_Text ''t''), (''tags'', Json_List [Json_Int 1]),
     (''tasks'', Json_List [Json_Object [(''owner'', Json_Text ''planner''), (''id'', Json_Int 7)]])]"

lemma demo_submitted: "read_submission demo_submission =
    Inr [(''slot_2'', Json_Text ''candidate_1''), (''slot_1'', Json_Text ''[1]'')]"
  by code_simp

lemma demo_bindings:
  "slot_bindings demo_correction_plan = Inr [(''slot_1'', ''/tags''), (''slot_2'', ''/tasks/0/owner'')]"
  by code_simp

lemma demo_resolved: "resolve_values demo_correction_env demo_correction_plan
    [(''slot_2'', Json_Text ''candidate_1''), (''slot_1'', Json_Text ''[1]'')]
    [(''slot_1'', ''/tags''), (''slot_2'', ''/tasks/0/owner'')] =
  \<lparr>rs_values = [(''/tags'', Json_List [Json_Int 1]), (''/tasks/0/owner'', Json_Text ''planner'')],
   rs_notes = [''decoded JSON-serialized array correction value for /tags'',
     ''bound controller evidence candidate candidate_1 to /tasks/0/owner''], rs_invalid = []\<rparr>"
  by code_simp

lemma demo_put: "apply_values demo_base [(''/tags'', Json_List [Json_Int 1]), (''/tasks/0/owner'', Json_Text ''planner'')] =
    Inr (Json_Object demo_corrected)"
  by code_simp

lemma demo_correction:
  "\<exists>ns. apply_correction demo_correction_env demo_submission demo_correction_plan = Inr (demo_corrected, ns)"
proof -
  have "cp_base demo_correction_plan = demo_base" "\<not> cp_require_all demo_correction_plan"
    by (simp_all add: demo_correction_plan_def)
  then show ?thesis
    by (simp add: apply_correction_def demo_submitted demo_bindings demo_resolved correction_raise_def
        settled_values_def conclude_application_def demo_put entries_of_def)
qed

theorem correction_exact_witness:
  "\<exists>submitted. read_submission demo_submission = Inr submitted \<and> map fst submitted = [''slot_2'', ''slot_1''] \<and>
     json_at [''title''] (Json_Object demo_corrected) = json_at [''title''] (Json_Object demo_base)"
proof -
  have free: "independent_targets demo_correction_plan" by code_simp
  have out: "\<not> places_meet [''title''] (pointer_parts ''/tags'')"
      "\<not> places_meet [''title''] (pointer_parts ''/tasks/0/owner'')"
    by code_simp+
  obtain ns where "apply_correction demo_correction_env demo_submission demo_correction_plan = Inr (demo_corrected, ns)"
    using demo_correction by blast
  from correction_exact [OF this free]
  obtain submitted where "read_submission demo_submission = Inr submitted"
      "json_at [''title''] (Json_Object demo_corrected) = json_at [''title''] (Json_Object (cp_base demo_correction_plan))"
    using out unfolding demo_bindings by fastforce
  then show ?thesis by (auto simp: demo_correction_plan_def demo_submitted)
qed

section \<open>Pointers of payloads\<close>

text \<open>Pointers are read back as they were made, with one exception: the pointer to the empty key
  at the top of a payload is the pointer to the whole payload.\<close>

theorem pointer_round_trip:
  "decode_pointer (encode_pointer parts) = Inr (if parts = [[]] then [] else parts)"
  using decode_encode [of parts] empty_key_pointer by auto

lemma encoded_parts: "pointer_parts (encode_pointer parts) = [] \<longleftrightarrow> parts = [] \<or> parts = [[]]"
  using pointer_round_trip [of parts] by (auto simp: pointer_parts_def)

lemma remove_paths_raise:
  "efold remove_path paths st = Inl x \<longleftrightarrow> x = Index_Out_Of_Range \<and> list_ex (\<lambda>p. pointer_parts p = []) paths"
proof (induction paths arbitrary: st)
  case (Cons p paths)
  then show ?case
    by (auto simp: remove_path_def Let_def split: option.split)
qed simp

lemma forbidden_path_iff:
  "p \<in> set (forbidden_paths errors protected) \<longleftrightarrow>
     (\<exists>e \<in> set errors. rw_type e = ''extra_forbidden'' \<and> rw_loc e \<noteq> [] \<and>
        last (rw_loc e) \<notin> set protected \<and> p = encode_pointer (rw_loc e))"
  by (auto simp: forbidden_paths_def)

text \<open>C39: An empty key, and only that, stops the removal of forbidden fields. For every payload and
  every list of validation errors, \<open>deterministically_remove_forbidden_fields\<close> raises if and only if
  there are at most 64 paths to remove and one of the errors forbids the key \<open>""\<close> at the top of the
  response (and the empty name is not protected); what it raises is an \<open>IndexError\<close>, since the path
  \<open>/\<close> has no last part. The callers expect no such exception.\<close>

theorem empty_key_raises:
  "remove_forbidden_fields payload errors protected = Inl x \<longleftrightarrow>
     x = Index_Out_Of_Range \<and> length (forbidden_paths errors protected) \<le> 64 \<and> [] \<notin> set protected \<and>
     list_ex (\<lambda>e. rw_type e = ''extra_forbidden'' \<and> rw_loc e = [[]]) errors"
proof -
  have "list_ex (\<lambda>p. pointer_parts p = []) (forbidden_paths errors protected) \<longleftrightarrow>
      [] \<notin> set protected \<and> list_ex (\<lambda>e. rw_type e = ''extra_forbidden'' \<and> rw_loc e = [[]]) errors"
    (is "?l = ?r")
  proof
    assume ?l
    then obtain e where "e \<in> set errors" "rw_type e = ''extra_forbidden''" "rw_loc e = [[]]"
      "last (rw_loc e) \<notin> set protected"
      by (auto simp: list_ex_iff forbidden_path_iff encoded_parts)
    then show ?r unfolding list_ex_iff by (intro conjI bexI [of _ e]) simp_all
  next
    assume ?r
    then obtain e where "e \<in> set errors" "rw_type e = ''extra_forbidden''" "rw_loc e = [[]]" "[] \<notin> set protected"
      by (auto simp: list_ex_iff)
    then have "encode_pointer [[]] \<in> set (forbidden_paths errors protected)"
      unfolding forbidden_path_iff by (intro bexI [of _ e]) simp_all
    then show ?l using encoded_parts [of "[[]]"] by (auto simp: list_ex_iff)
  qed
  then show ?thesis
    by (auto simp: remove_forbidden_fields_def Let_def ebind_eq_Inl remove_paths_raise not_less split: prod.splits)
qed

theorem empty_key_raises_witness:
  "remove_forbidden_fields [([], Json_Null), (''files'', Json_Null)]
     [\<lparr>rw_loc = [''files''], rw_type = ''extra_forbidden'', rw_msg = ''no''\<rparr>,
      \<lparr>rw_loc = [[]], rw_type = ''extra_forbidden'', rw_msg = ''no''\<rparr>] [''approved''] = Inl Index_Out_Of_Range"
  unfolding empty_key_raises by code_simp

end
