(* ===== verification/Execution_Records.thy ===== *)
theory Execution_Records
  imports Response_Corrections Liveness_Monitors
begin

text \<open>
  The evidence of one Agent invocation: the typed submission (\<open>submissions.py\<close>), the sanitized tool
  calls and the execution record (\<open>artifacts.py\<close>), with the checks that tie the exit of the process,
  its lifecycle, its provider and its submission to each other. \<open>xr_rejections_given\<close> says whether
  \<open>runtime_rejections\<close> was among the given fields.
\<close>

section \<open>Submissions\<close>

datatype submission_purpose = For_Artifact | For_Planning_Response | For_Semantic_Correction

datatype submission_status =
    Submission_Accepted | Submission_Missing | Submission_Invalid | Submission_Duplicate
  | Submission_Unauthorized

datatype submission_protocol = Protocol_V1 | Protocol_V2

definition submission_tool :: string where
  "submission_tool = ''sat_submit_artifact''"

text \<open>\<open>tool-[0-9]{3}\<close>, and the number a call has.\<close>

definition tool_id_pattern :: "string \<Rightarrow> bool" where
  "tool_id_pattern s \<longleftrightarrow> length s = 8 \<and> take 5 s = ''tool-'' \<and> list_all is_digit_char (drop 5 s)"

definition tool_id :: "nat \<Rightarrow> string" where
  "tool_id n = ''tool-'' @ replicate (3 - length (decimal n)) (CHR ''0'') @ decimal n"

record submission_evidence =
  sb_protocol :: submission_protocol
  sb_purpose :: submission_purpose
  sb_status :: submission_status
  sb_tool_name :: string
  sb_schema_sha256 :: string
  sb_binding_sha256 :: string
  sb_tool_call_id :: "string option"
  sb_payload_sha256 :: "string option"
  sb_semantic_sha256 :: "string option"
  sb_diagnostic_code :: "string option"
  sb_diagnostic_detail :: "string option"

definition validate_submission :: "submission_evidence \<Rightarrow> fault + unit" where
  "validate_submission s =
     ebind (first_error
       [(sb_tool_name s \<noteq> submission_tool, Field_Invalid ''tool_name''),
        (\<not> sha256_pattern (sb_schema_sha256 s), Field_Invalid ''schema_sha256''),
        (\<not> sha256_pattern (sb_binding_sha256 s), Field_Invalid ''binding_sha256''),
        (\<not> opt_all tool_id_pattern (sb_tool_call_id s), Field_Invalid ''tool_call_id''),
        (\<not> opt_all sha256_pattern (sb_payload_sha256 s), Field_Invalid ''payload_sha256''),
        (\<not> opt_all sha256_pattern (sb_semantic_sha256 s), Field_Invalid ''semantic_payload_sha256''),
        (\<not> opt_all (\<lambda>c. ident_pattern c \<and> length c \<le> 100) (sb_diagnostic_code s),
          Field_Invalid ''diagnostic_code''),
        (\<not> opt_all (\<lambda>d. d \<noteq> [] \<and> length d \<le> 500) (sb_diagnostic_detail s),
          Field_Invalid ''diagnostic_detail'')]) (\<lambda>_.
     if sb_status s = Submission_Accepted
     then first_error
       [(sb_tool_call_id s = None \<or> sb_payload_sha256 s = None,
          Value_Error ''accepted submission requires call and payload evidence''),
        (sb_diagnostic_code s \<noteq> None \<or> sb_diagnostic_detail s \<noteq> None,
          Value_Error ''accepted submission cannot contain a diagnostic''),
        (sb_protocol s = Protocol_V2 \<and> sb_semantic_sha256 s = None,
          Value_Error ''v2 accepted submission requires a semantic payload digest''),
        (sb_protocol s = Protocol_V1 \<and> sb_semantic_sha256 s \<noteq> None,
          Value_Error ''v1 submission cannot contain a semantic payload digest'')]
     else first_error
       [(sb_diagnostic_code s = None \<or> sb_diagnostic_detail s = None,
          Value_Error ''rejected submission requires a typed diagnostic'')])"

section \<open>Tool calls\<close>

record submission_receipt =
  rp_schema_sha256 :: string
  rp_binding_sha256 :: string
  rp_external_call_sha256 :: string

definition validate_receipt :: "submission_receipt \<Rightarrow> fault + unit" where
  "validate_receipt r = first_error
     [(\<not> sha256_pattern (rp_schema_sha256 r), Field_Invalid ''schema_sha256''),
      (\<not> sha256_pattern (rp_binding_sha256 r), Field_Invalid ''binding_sha256''),
      (\<not> sha256_pattern (rp_external_call_sha256 r), Field_Invalid ''external_call_sha256'')]"

datatype tool_outcome = Call_Succeeded | Call_Failed | Call_Deferred

record tool_call =
  tc_id :: string
  tc_tool_name :: string
  tc_executable :: "string option"
  tc_external_call_sha256 :: string
  tc_arguments_sha256 :: string
  tc_outcome :: tool_outcome
  tc_is_error :: bool
  tc_reported_status :: "string option"
  tc_exit_code :: "int option"
  tc_duration_ms :: "int option"
  tc_output_sha256 :: string
  tc_output_bytes :: int
  tc_output_excerpt :: string
  tc_receipt :: "submission_receipt option"

definition tool_call_fields :: "tool_call \<Rightarrow> fault + unit" where
  "tool_call_fields c = first_error
     [(\<not> tool_id_pattern (tc_id c), Field_Invalid ''id''),
      (\<not> short_name_pattern (tc_tool_name c), Field_Invalid ''tool_name''),
      (\<not> opt_all (\<lambda>x. x \<noteq> [] \<and> length x \<le> 512) (tc_executable c), Field_Invalid ''executable''),
      (\<not> opt_all (\<lambda>x. py_strip x = x \<and> CHR 0x00 \<notin> set x) (tc_executable c),
        Value_Error ''tool evidence executable must be clean text''),
      (\<not> sha256_pattern (tc_external_call_sha256 c), Field_Invalid ''external_call_sha256''),
      (\<not> sha256_pattern (tc_arguments_sha256 c), Field_Invalid ''arguments_sha256''),
      (\<not> opt_all short_name_pattern (tc_reported_status c), Field_Invalid ''reported_status''),
      (\<not> opt_all (\<lambda>d. 0 \<le> d) (tc_duration_ms c), Field_Invalid ''duration_ms''),
      (\<not> sha256_pattern (tc_output_sha256 c), Field_Invalid ''output_sha256''),
      (tc_output_bytes c < 0 \<or> 1048576 < tc_output_bytes c, Field_Invalid ''output_bytes''),
      (4096 < length (tc_output_excerpt c), Field_Invalid ''output_excerpt''),
      (CHR 0x00 \<in> set (tc_output_excerpt c), Value_Error ''tool output excerpts must not contain NUL'')]"

definition reported_failure :: "tool_call \<Rightarrow> bool" where
  "reported_failure c \<longleftrightarrow> tc_reported_status c \<in>
     Some ` {''cancelled'', ''error'', ''failed'', ''timed_out'', ''timeout''}"

definition reported_deferred :: "tool_call \<Rightarrow> bool" where
  "reported_deferred c \<longleftrightarrow> tc_reported_status c = Some ''running''"

definition exit_clean :: "int option \<Rightarrow> bool" where
  "exit_clean code \<longleftrightarrow> code = None \<or> code = Some 0"

definition check_tool_outcome :: "tool_call \<Rightarrow> fault + unit" where
  "check_tool_outcome c = first_error
     [(tc_outcome c = Call_Succeeded \<and> (tc_is_error c \<or> \<not> exit_clean (tc_exit_code c) \<or>
         reported_failure c \<or> reported_deferred c),
        Value_Error ''successful tool evidence requires a terminal non-error result''),
      (tc_outcome c = Call_Failed \<and> (reported_deferred c \<or>
         \<not> tc_is_error c \<and> exit_clean (tc_exit_code c) \<and> \<not> reported_failure c),
        Value_Error ''failed tool evidence requires an observable failure''),
      (tc_outcome c = Call_Deferred \<and> (tc_is_error c \<or> tc_exit_code c \<noteq> None \<or>
         \<not> reported_deferred c \<or> tc_tool_name c \<notin> {''exec'', ''process''}),
        Value_Error ''deferred tool evidence requires a nonterminal async process result''),
      ((tc_tool_name c = ''exec'') \<noteq> (tc_executable c \<noteq> None),
        Value_Error ''only exec tool evidence requires an executable''),
      (\<not> opt_all (\<lambda>r. tc_tool_name c = submission_tool \<and> tc_outcome c = Call_Succeeded \<and>
         \<not> tc_is_error c \<and> rp_external_call_sha256 r = tc_external_call_sha256 c) (tc_receipt c),
        Value_Error ''submission receipt requires its successful attributed tool call'')]"

definition validate_tool_call :: "tool_call \<Rightarrow> fault + unit" where
  "validate_tool_call c =
     ebind (tool_call_fields c) (\<lambda>_.
     ebind (case tc_receipt c of None \<Rightarrow> Inr () | Some r \<Rightarrow> validate_receipt r) (\<lambda>_.
       check_tool_outcome c))"

record tool_rejection =
  rj_record_index :: int
  rj_tool_name :: string
  rj_external_call_sha256 :: string
  rj_record_sha256 :: string

definition runtime_name_pattern :: "string \<Rightarrow> bool" where
  "runtime_name_pattern s \<longleftrightarrow> s \<noteq> [] \<and> length s \<le> 64 \<and> list_all (\<lambda>d. is_lower d \<or> is_upper d \<or>
     is_digit_char d \<or> d \<in> {CHR ''_'', CHR '':'', CHR ''.'', CHR ''-''}) s"

definition validate_rejection :: "tool_rejection \<Rightarrow> fault + unit" where
  "validate_rejection r = first_error
     [(rj_record_index r < 1 \<or> 4096 < rj_record_index r, Field_Invalid ''record_index''),
      (\<not> runtime_name_pattern (rj_tool_name r), Field_Invalid ''tool_name''),
      (\<not> sha256_pattern (rj_external_call_sha256 r), Field_Invalid ''external_call_sha256''),
      (\<not> sha256_pattern (rj_record_sha256 r), Field_Invalid ''record_sha256'')]"

datatype collection_status = Not_Captured | Captured | Collection_Invalid

definition rejections_distinct :: "tool_rejection list \<Rightarrow> int option \<Rightarrow> tool_call list \<Rightarrow> bool" where
  "rejections_distinct rejections count calls \<longleftrightarrow>
     distinct (map rj_external_call_sha256 rejections) \<and>
     sorted (map rj_record_index rejections) \<and> distinct (map rj_record_index rejections) \<and>
     count \<noteq> None \<and> list_all (\<lambda>r. opt_all (\<lambda>n. rj_record_index r < n) count) rejections \<and>
     set (map rj_external_call_sha256 rejections) \<inter> set (map tc_external_call_sha256 calls) = {}"

definition validate_tool_evidence ::
    "collection_status \<Rightarrow> string option \<Rightarrow> int option \<Rightarrow> tool_call list \<Rightarrow> string option \<Rightarrow>
     tool_rejection list \<Rightarrow> fault + unit" where
  "validate_tool_evidence status transcript count calls error rejections =
     ebind (first_error
       [(map tc_id calls \<noteq> map tool_id [1..<length calls + 1],
          Value_Error ''tool evidence IDs must be contiguous and ordered''),
        (rejections \<noteq> [] \<and> status \<noteq> Captured,
          Value_Error ''runtime rejections require captured session provenance''),
        (rejections \<noteq> [] \<and> \<not> rejections_distinct rejections count calls,
          Value_Error ''runtime rejection identities must be distinct and ordered'')]) (\<lambda>_.
     case status of
       Not_Captured \<Rightarrow> first_error
         [(transcript \<noteq> None \<or> count \<noteq> None \<or> calls \<noteq> [],
            Value_Error ''uncaptured tool evidence cannot contain session records''),
          (error \<noteq> None, Value_Error ''uncaptured tool evidence cannot contain an error'')]
     | Captured \<Rightarrow> first_error
         [(transcript = None \<or> count = None,
            Value_Error ''captured tool evidence requires transcript provenance''),
          (error \<noteq> None, Value_Error ''captured tool evidence cannot contain an error'')]
     | Collection_Invalid \<Rightarrow> first_error
         [(error = None, Value_Error ''invalid tool evidence requires an error''),
          (calls \<noteq> [], Value_Error ''invalid tool evidence cannot expose partial tool calls'')])"

text \<open>\<open>RuntimeRejectionEvidence\<close>.\<close>

definition validate_rejection_evidence :: "string \<Rightarrow> int \<Rightarrow> tool_rejection list \<Rightarrow> fault + unit" where
  "validate_rejection_evidence transcript count rejections =
     ebind (first_error
       [(\<not> sha256_pattern transcript, Field_Invalid ''transcript_sha256''),
        (count < 1 \<or> 4096 < count, Field_Invalid ''record_count''),
        (rejections = [], Field_Invalid ''rejections'')]) (\<lambda>_.
     ebind (check_all validate_rejection rejections) (\<lambda>_.
       validate_tool_evidence Captured (Some transcript) (Some count) [] None rejections))"

section \<open>The execution record\<close>

datatype execution_status =
    Exec_Completed | Exec_Process_Failed | Exec_Provider_Failed | Exec_Provider_Stalled
  | Exec_Initialization_Stalled | Exec_Finalization_Stalled | Exec_Timed_Out
  | Exec_Upstream_Incomplete | Exec_Invalid_Response | Exec_Launch_Failed | Exec_Interrupted

datatype runtime_failure = Compaction_Timeout | Stream_Terminated

datatype response_transport = Typed_Submission_V1 | Typed_Submission_V2

record correction_request =
  cq_base_response_sha256 :: string
  cq_issue_fingerprint :: string
  cq_target_paths :: "string list"
  cq_preserved_paths :: "string list"

definition validate_correction_request :: "correction_request \<Rightarrow> fault + unit" where
  "validate_correction_request q = first_error
     [(\<not> sha256_pattern (cq_base_response_sha256 q), Field_Invalid ''base_response_sha256''),
      (\<not> sha256_pattern (cq_issue_fingerprint q), Field_Invalid ''issue_fingerprint''),
      (cq_target_paths q = [] \<or> 64 < length (cq_target_paths q), Field_Invalid ''target_paths''),
      (64 < length (cq_preserved_paths q), Field_Invalid ''preserved_top_level_paths'')]"

record execution_record =
  xr_schema_version :: int
  xr_run_id :: string
  xr_team_id :: string
  xr_iteration :: int
  xr_stage :: string
  xr_attempt :: int
  xr_agent_id :: string
  xr_capability :: string
  xr_specialization :: "string option"
  xr_status :: "execution_status option"
  xr_failure_code :: "runtime_failure option"
  xr_session_key :: string
  xr_session_id :: "string option"
  xr_model :: "string option"
  xr_provider :: "string option"
  xr_started_at :: datetime
  xr_finished_at :: datetime
  xr_duration_ms :: int
  xr_exit_code :: "int option"
  xr_timed_out :: bool
  xr_liveness :: "provider_evidence option"
  xr_lifecycle :: "lifecycle_evidence option"
  xr_input_tokens :: "int option"
  xr_output_tokens :: "int option"
  xr_estimated_cost :: "rat option"
  xr_stdout_path :: string
  xr_stderr_path :: string
  xr_stdout_sha256 :: string
  xr_stderr_sha256 :: string
  xr_contract :: "nat option"
  xr_transport :: "response_transport option"
  xr_supplied_fields :: "string list"
  xr_ignored_fields :: "string list"
  xr_normalizations :: "string list"
  xr_validation :: "diagnostic option"
  xr_correction_request :: "correction_request option"
  xr_correction_outcome :: "correction_result option"
  xr_submission :: "submission_evidence option"
  xr_evidence_status :: collection_status
  xr_transcript_sha256 :: "string option"
  xr_record_count :: "int option"
  xr_tool_calls :: "tool_call list"
  xr_rejections :: "tool_rejection list"
  xr_rejections_given :: bool
  xr_evidence_error :: "string option"
  xr_stage_timeout :: "int option"
  xr_remaining_timeout :: "int option"
  xr_response_artifact :: "artifact_reference option"
  xr_error :: "string option"

text \<open>A text field is stripped and must not be blank. \<open>xr_contract\<close> is the number of the literal
  \<open>semantic_body_v1\<close> to \<open>semantic_body_v4\<close>.\<close>

definition clean_execution_text :: "string option \<Rightarrow> fault + string option" where
  "clean_execution_text v =
     (case v of
        None \<Rightarrow> Inr None
      | Some s \<Rightarrow> ebind (first_error
          [(s = [], Field_Invalid ''text''),
           (py_strip s = [], Value_Error ''execution text fields must not be blank'')])
          (\<lambda>_. Inr (Some (py_strip s))))"

interpretation execution_text: normalizer clean_execution_text
  by unfold_locales
    (auto simp: clean_execution_text_def ebind_eq_Inr py_strip_idem split: option.splits)

lemma clean_execution_text_Some:
  "clean_execution_text (Some s) = Inr v \<longleftrightarrow> s \<noteq> [] \<and> py_strip s \<noteq> [] \<and> v = Some (py_strip s)"
  by (auto simp: clean_execution_text_def ebind_eq_Inr)

definition made_option :: "('a \<Rightarrow> fault + 'a) \<Rightarrow> 'a option \<Rightarrow> fault + 'a option" where
  "made_option build v = (case v of None \<Rightarrow> Inr None | Some x \<Rightarrow> ebind (build x) (\<lambda>y. Inr (Some y)))"

definition check_option :: "('a \<Rightarrow> fault + unit) \<Rightarrow> 'a option \<Rightarrow> fault + unit" where
  "check_option check v = (case v of None \<Rightarrow> Inr () | Some x \<Rightarrow> check x)"

lemma made_option_normalizer: "normalizer build \<Longrightarrow> normalizer (made_option build)"
  by (auto simp: normalizer_def made_option_def ebind_eq_Inr split: option.splits)

interpretation optional_diagnostics: normalizer "made_option mk_diagnostic"
  by (rule made_option_normalizer) (rule diagnostics.normalizer_axioms)

definition clean_execution :: "execution_record \<Rightarrow> fault + execution_record" where
  "clean_execution r =
     ebind (clean_execution_text (Some (xr_session_key r))) (\<lambda>session_key.
     ebind (clean_execution_text (xr_session_id r)) (\<lambda>session_id.
     ebind (clean_execution_text (xr_model r)) (\<lambda>model.
     ebind (clean_execution_text (xr_provider r)) (\<lambda>provider.
     ebind (normalize_utc (xr_started_at r)) (\<lambda>started.
     ebind (normalize_utc (xr_finished_at r)) (\<lambda>finished.
     ebind (made_option mk_diagnostic (xr_validation r)) (\<lambda>validation.
     ebind (clean_execution_text (xr_evidence_error r)) (\<lambda>evidence_error.
     ebind (clean_execution_text (xr_error r)) (\<lambda>error.
       Inr (r\<lparr>xr_session_key := the_or session_key [], xr_session_id := session_id, xr_model := model,
              xr_provider := provider, xr_started_at := started, xr_finished_at := finished,
              xr_validation := validation, xr_evidence_error := evidence_error, xr_error := error\<rparr>))))))))))"

definition execution_identity_fields :: "execution_record \<Rightarrow> fault + unit" where
  "execution_identity_fields r = first_error
     [(\<not> readable_schema (xr_schema_version r), Field_Invalid ''schema_version''),
      (\<not> run_id_pattern (xr_run_id r), Field_Invalid ''run_id''),
      (\<not> ident_pattern (xr_team_id r), Field_Invalid ''team_id''),
      (xr_iteration r < 1, Field_Invalid ''iteration''),
      (\<not> ident_pattern (xr_stage r), Field_Invalid ''stage''),
      (xr_attempt r < 1, Field_Invalid ''attempt''),
      (\<not> ident_pattern (xr_agent_id r), Field_Invalid ''agent_id''),
      (\<not> ident_pattern (xr_capability r), Field_Invalid ''capability''),
      (\<not> opt_all ident_pattern (xr_specialization r), Field_Invalid ''specialization''),
      (xr_duration_ms r < 0, Field_Invalid ''duration_ms''),
      (\<not> opt_all (\<lambda>n. 0 \<le> n) (xr_input_tokens r), Field_Invalid ''input_tokens''),
      (\<not> opt_all (\<lambda>n. 0 \<le> n) (xr_output_tokens r), Field_Invalid ''output_tokens''),
      (\<not> opt_all (\<lambda>c. 0 \<le> c) (xr_estimated_cost r), Field_Invalid ''estimated_cost_usd''),
      (\<not> sha256_pattern (xr_stdout_sha256 r), Field_Invalid ''stdout_sha256''),
      (\<not> sha256_pattern (xr_stderr_sha256 r), Field_Invalid ''stderr_sha256''),
      (\<not> opt_all (\<lambda>n. 1 \<le> n \<and> n \<le> 4) (xr_contract r), Field_Invalid ''response_contract'')]"

definition execution_evidence_fields :: "execution_record \<Rightarrow> fault + unit" where
  "execution_evidence_fields r = first_error
     [(list_ex (\<lambda>fs. \<not> distinct fs \<or> list_ex (\<lambda>f. \<not> ident_pattern f) fs)
         [xr_supplied_fields r, xr_ignored_fields r],
        Value_Error ''response binding fields must be valid and unique''),
      (100 < length (xr_normalizations r) \<or> \<not> distinct (xr_normalizations r) \<or>
         list_ex (\<lambda>v. py_strip v = [] \<or> 500 < length v) (xr_normalizations r),
        Value_Error ''response normalizations must be bounded and unique''),
      (\<not> opt_all sha256_pattern (xr_transcript_sha256 r), Field_Invalid ''session_transcript_sha256''),
      (\<not> opt_all (\<lambda>n. 1 \<le> n \<and> n \<le> 4096) (xr_record_count r), Field_Invalid ''session_record_count''),
      (\<not> opt_all (\<lambda>s. length s \<le> 2000) (xr_evidence_error r), Field_Invalid ''tool_evidence_error''),
      (\<not> opt_all (\<lambda>n. 0 \<le> n) (xr_stage_timeout r), Field_Invalid ''stage_timeout_seconds''),
      (\<not> opt_all (\<lambda>n. 0 \<le> n) (xr_remaining_timeout r), Field_Invalid ''remaining_timeout_seconds'')]"

definition execution_nested :: "execution_record \<Rightarrow> fault + unit" where
  "execution_nested r =
     ebind (check_option validate_provider_evidence (xr_liveness r)) (\<lambda>_.
     ebind (check_option validate_lifecycle (xr_lifecycle r)) (\<lambda>_.
     ebind (require_safe_relative_path (xr_stdout_path r)) (\<lambda>_.
     ebind (require_safe_relative_path (xr_stderr_path r)) (\<lambda>_.
     ebind (check_option validate_correction_request (xr_correction_request r)) (\<lambda>_.
     ebind (check_option validate_submission (xr_submission r)) (\<lambda>_.
     ebind (check_all validate_tool_call (xr_tool_calls r)) (\<lambda>_.
     ebind (check_all validate_rejection (xr_rejections r)) (\<lambda>_.
       check_option validate_artifact_reference (xr_response_artifact r)))))))))"

text \<open>\<open>validate_execution\<close>, part by part. A terminal submission is recovered when the call completed
  although the process was stopped for a finalization stall or failed with an exit code.\<close>

definition stop_reason_of :: "execution_record \<Rightarrow> invocation_stop_reason option" where
  "stop_reason_of r = map_option (\<lambda>l. se_reason (le_shutdown l)) (xr_lifecycle r)"

definition recovered_submission :: "execution_record \<Rightarrow> bool" where
  "recovered_submission r \<longleftrightarrow> xr_status r = Some Exec_Completed \<and>
     (stop_reason_of r = Some Stop_Response_Finalization_Stall \<or>
      stop_reason_of r = Some Stop_Process_Failure \<and> \<not> exit_clean (xr_exit_code r))"

definition failure_status :: "runtime_failure \<Rightarrow> execution_status" where
  "failure_status f = (case f of
     Stream_Terminated \<Rightarrow> Exec_Provider_Failed | Compaction_Timeout \<Rightarrow> Exec_Process_Failed)"

definition check_runtime_failure :: "execution_record \<Rightarrow> fault + unit" where
  "check_runtime_failure r = first_error
     [(13 \<le> xr_schema_version r \<and> xr_specialization r = None,
        Value_Error ''current execution records require specialization''),
      (\<not> opt_all (\<lambda>f. xr_status r = Some (failure_status f) \<and> \<not> exit_clean (xr_exit_code r)) (xr_failure_code r),
        Value_Error (if xr_failure_code r = Some Stream_Terminated
          then ''model stream termination requires a nonzero provider failure''
          else ''runtime failure codes require a nonzero process failure'')),
      (xr_schema_version r < 15 \<and> xr_failure_code r \<noteq> None,
        Value_Error ''runtime failure codes require artifact schema 15''),
      (xr_schema_version r < 14 \<and> list_ex (\<lambda>c. tc_receipt c \<noteq> None) (xr_tool_calls r),
        Value_Error ''submission receipts require artifact schema 14'')]"

definition instant :: "datetime \<Rightarrow> int" where
  "instant d = (case d of Naive t \<Rightarrow> t | Aware t off \<Rightarrow> t - off)"

definition check_execution_times :: "execution_record \<Rightarrow> fault + unit" where
  "check_execution_times r = first_error
     [(instant (xr_finished_at r) < instant (xr_started_at r),
        Value_Error ''execution finish time cannot precede start time''),
      ((xr_stage_timeout r = None) \<noteq> (xr_remaining_timeout r = None),
        Value_Error ''stage and remaining timeout evidence must appear together''),
      (\<not> opt_all (\<lambda>limit. opt_all (\<lambda>n. n \<le> limit) (xr_remaining_timeout r)) (xr_stage_timeout r),
        Value_Error ''effective invocation timeout cannot exceed its configured limit'')]"

definition check_response_binding :: "execution_record \<Rightarrow> fault + unit" where
  "check_response_binding r = first_error
     [(\<not> set (xr_ignored_fields r) \<subseteq> set (xr_supplied_fields r),
        Value_Error ''ignored response fields must be controller-owned''),
      (xr_contract r = None \<and> (xr_supplied_fields r \<noteq> [] \<or> xr_ignored_fields r \<noteq> [] \<or>
         xr_normalizations r \<noteq> [] \<or> xr_validation r \<noteq> None \<or> xr_correction_request r \<noteq> None \<or>
         xr_submission r \<noteq> None \<or> xr_transport r \<noteq> None),
        Value_Error ''response binding fields require a response contract''),
      (xr_submission r \<noteq> None \<and> xr_transport r = None,
        Value_Error ''submission evidence requires the typed submission transport''),
      (xr_transport r \<noteq> None \<and> xr_status r = Some Exec_Completed \<and> xr_submission r = None,
        Value_Error ''completed typed submission transport requires submission evidence'')]"

definition transport_of :: "submission_protocol \<Rightarrow> response_transport" where
  "transport_of p = (case p of Protocol_V2 \<Rightarrow> Typed_Submission_V2 | Protocol_V1 \<Rightarrow> Typed_Submission_V1)"

definition submission_calls :: "execution_record \<Rightarrow> submission_evidence \<Rightarrow> tool_call list" where
  "submission_calls r s = filter (\<lambda>c. Some (tc_id c) = sb_tool_call_id s \<and> tc_tool_name c = sb_tool_name s)
     (xr_tool_calls r)"

definition receipt_matches :: "submission_evidence \<Rightarrow> tool_call \<Rightarrow> bool" where
  "receipt_matches s c \<longleftrightarrow> (case tc_receipt c of
     None \<Rightarrow> False
   | Some p \<Rightarrow> sb_protocol s = Protocol_V2 \<and> rp_schema_sha256 p = sb_schema_sha256 s \<and>
       rp_binding_sha256 p = sb_binding_sha256 s \<and> rp_external_call_sha256 p = tc_external_call_sha256 c)"

text \<open>The last call of the transcript is the one submission call.\<close>

definition submission_bound :: "execution_record \<Rightarrow> submission_evidence \<Rightarrow> bool" where
  "submission_bound r s \<longleftrightarrow>
     xr_transport r = Some (transport_of (sb_protocol s)) \<and> xr_evidence_status r = Captured \<and>
     (case submission_calls r s of
        [c] \<Rightarrow> last (xr_tool_calls r) = c \<and> tc_outcome c = Call_Succeeded \<and> \<not> tc_is_error c \<and>
          (tc_receipt c = None \<or> receipt_matches s c) \<and>
          (Some (tc_arguments_sha256 c) = sb_payload_sha256 s \<or> receipt_matches s c)
      | _ \<Rightarrow> False)"

definition check_submission_binding :: "execution_record \<Rightarrow> fault + unit" where
  "check_submission_binding r = first_error
     [(\<not> opt_all (\<lambda>s. sb_status s = Submission_Accepted \<longrightarrow> submission_bound r s) (xr_submission r),
        Value_Error ''accepted submission evidence must bind the final successful captured tool call''),
      ((xr_correction_request r = None) \<noteq> (xr_correction_outcome r = None),
        Value_Error ''semantic correction request and outcome must appear together'')]"

definition owned_timeout_exit :: "execution_record \<Rightarrow> bool" where
  "owned_timeout_exit r \<longleftrightarrow> (case xr_lifecycle r of
     None \<Rightarrow> False
   | Some l \<Rightarrow> (let s = le_shutdown l in
       se_reason s \<in> {Stop_Run_Deadline, Stop_Evaluation_Timeout} \<and> se_terminate_sent s \<and>
       se_exit_code s = xr_exit_code r))"

definition check_timed_out_exit :: "execution_record \<Rightarrow> fault + unit" where
  "check_timed_out_exit r = first_error
     [(\<not> opt_all (\<lambda>n. n \<le> 0) (xr_exit_code r) \<and> \<not> owned_timeout_exit r,
        Value_Error ''timed-out executions require no exit, a zero wrapper exit, a terminating signal, or an owned timeout lifecycle matching the wrapper exit''),
      (xr_error r = None, Value_Error ''timed-out executions must record an error''),
      (xr_response_artifact r \<noteq> None,
        Value_Error ''timed-out executions cannot report a response artifact'')]"

definition check_normal_exit :: "execution_record \<Rightarrow> fault + unit" where
  "check_normal_exit r = first_error
     [(xr_exit_code r = None \<and> xr_error r = None,
        Value_Error ''executions without an exit code require an error''),
      (xr_exit_code r \<noteq> Some 0 \<and> xr_error r = None \<and> \<not> recovered_submission r,
        Value_Error ''failed executions must record an error''),
      (xr_exit_code r = Some 0 \<and> xr_error r = None \<and> xr_response_artifact r = None,
        Value_Error ''successful executions require a response artifact''),
      (xr_exit_code r = Some 0 \<and> xr_error r = None \<and> xr_model r = None,
        Value_Error ''successful executions require model metadata''),
      (recovered_submission r \<and> xr_model r = None,
        Value_Error ''recovered finalization requires model metadata''),
      (recovered_submission r \<and> xr_error r = None \<and> xr_response_artifact r = None,
        Value_Error ''recovered finalization requires a response artifact'')]"

definition check_status_evidence :: "execution_record \<Rightarrow> fault + unit" where
  "check_status_evidence r =
     (let stalled = (case xr_liveness r of None \<Rightarrow> False | Some e \<Rightarrow> pe_stalled e) in first_error
       [(xr_status r = Some Exec_Timed_Out \<and> \<not> xr_timed_out r,
          Value_Error ''typed timeout status requires timeout evidence''),
        (xr_status r \<noteq> Some Exec_Timed_Out \<and> xr_status r \<noteq> None \<and> xr_timed_out r,
          Value_Error ''timeout evidence requires the typed timeout status''),
        (xr_status r = Some Exec_Provider_Stalled \<and> \<not> stalled,
          Value_Error ''provider-stalled status requires terminal liveness evidence''),
        (xr_status r \<noteq> Some Exec_Provider_Stalled \<and> stalled,
          Value_Error ''terminal liveness evidence requires provider-stalled status'')])"

fun allowed_reasons :: "execution_status \<Rightarrow> invocation_stop_reason list" where
  "allowed_reasons Exec_Completed =
     [Stop_Completed, Stop_Response_Finalization_Stall, Stop_Process_Failure]"
| "allowed_reasons Exec_Process_Failed = [Stop_Process_Failure]"
| "allowed_reasons Exec_Provider_Failed = [Stop_Provider_Failure]"
| "allowed_reasons Exec_Provider_Stalled = [Stop_Provider_Stall]"
| "allowed_reasons Exec_Initialization_Stalled = [Stop_Initialization_Stall]"
| "allowed_reasons Exec_Finalization_Stalled = [Stop_Response_Finalization_Stall]"
| "allowed_reasons Exec_Timed_Out = [Stop_Run_Deadline, Stop_Evaluation_Timeout]"
| "allowed_reasons Exec_Upstream_Incomplete = [Stop_Upstream_Incomplete]"
| "allowed_reasons Exec_Invalid_Response = [Stop_Invalid_Response]"
| "allowed_reasons Exec_Launch_Failed = [Stop_Launch_Failure]"
| "allowed_reasons Exec_Interrupted = [Stop_User_Interrupt, Stop_User_Cancel]"

definition expected_lifecycle_schema :: "int \<Rightarrow> int" where
  "expected_lifecycle_schema v =
     (if v = 5 then 1 else if v < 9 then 2 else if v < 11 then 3 else if v < 12 then 4 else 5)"

definition recovery_evidence :: "execution_record \<Rightarrow> lifecycle_evidence \<Rightarrow> bool" where
  "recovery_evidence r l \<longleftrightarrow>
     (case le_response_finalization l of
        None \<Rightarrow> False
      | Some f \<Rightarrow> se_reason (le_shutdown l) = Stop_Response_Finalization_Stall \<longrightarrow> fe_stalled f) \<and>
     (case xr_liveness r of None \<Rightarrow> False | Some e \<Rightarrow> pe_terminal_observed e) \<and>
     (case xr_submission r of None \<Rightarrow> False | Some s \<Rightarrow> sb_status s = Submission_Accepted)"

definition check_lifecycle_binding :: "execution_record \<Rightarrow> lifecycle_evidence \<Rightarrow> fault + unit" where
  "check_lifecycle_binding r l = first_error
     [(xr_schema_version r < 5,
        Value_Error ''legacy execution records cannot contain invocation lifecycle''),
      (xr_status r = None, Value_Error ''invocation lifecycle requires a typed execution status''),
      (le_schema_version l \<noteq> expected_lifecycle_schema (xr_schema_version r),
        Value_Error ''execution-record schema does not match invocation-lifecycle schema''),
      (\<not> opt_all (\<lambda>s. se_reason (le_shutdown l) \<in> set (allowed_reasons s)) (xr_status r),
        Value_Error ''invocation lifecycle reason does not match execution status''),
      (recovered_submission r \<and> \<not> recovery_evidence r l,
        Value_Error ''recovered terminal completion requires terminal state and accepted submission evidence'')]"

definition check_legacy_record :: "execution_record \<Rightarrow> fault + unit" where
  "check_legacy_record r = first_error
     [(xr_schema_version r < 6 \<and> (xr_status r = Some Exec_Finalization_Stalled \<or>
         (case xr_liveness r of None \<Rightarrow> False | Some e \<Rightarrow> pe_terminal_observed e)),
        Value_Error ''legacy execution records cannot contain response-finalization state''),
      (xr_schema_version r < 7 \<and> xr_status r = Some Exec_Upstream_Incomplete,
        Value_Error ''legacy execution records cannot contain upstream-incomplete state''),
      (xr_schema_version r < 8 \<and> list_ex (\<lambda>c. tc_outcome c = Call_Deferred) (xr_tool_calls r),
        Value_Error ''legacy execution records cannot contain deferred tool evidence''),
      (xr_schema_version r < 10 \<and> xr_rejections_given r,
        Value_Error ''legacy execution records cannot contain runtime rejections'')]"

definition validate_execution :: "execution_record \<Rightarrow> fault + unit" where
  "validate_execution r =
     ebind (execution_identity_fields r) (\<lambda>_.
     ebind (execution_evidence_fields r) (\<lambda>_.
     ebind (execution_nested r) (\<lambda>_.
     ebind (check_runtime_failure r) (\<lambda>_.
     ebind (check_execution_times r) (\<lambda>_.
     ebind (check_response_binding r) (\<lambda>_.
     ebind (check_submission_binding r) (\<lambda>_.
     ebind (validate_tool_evidence (xr_evidence_status r) (xr_transcript_sha256 r) (xr_record_count r)
       (xr_tool_calls r) (xr_evidence_error r) (xr_rejections r)) (\<lambda>_.
     ebind (if xr_timed_out r then check_timed_out_exit r else check_normal_exit r) (\<lambda>_.
     ebind (check_status_evidence r) (\<lambda>_.
     ebind (check_option (check_lifecycle_binding r) (xr_lifecycle r)) (\<lambda>_.
       check_legacy_record r)))))))))))"

definition mk_execution :: "execution_record \<Rightarrow> fault + execution_record" where
  "mk_execution = clean_then clean_execution validate_execution"

interpretation execution_records: normalizer mk_execution
  unfolding mk_execution_def
proof (rule clean_then_normalizer)
  fix x y assume "clean_execution x = Inr y"
  then show "clean_execution y = Inr y"
    by (auto simp: clean_execution_def ebind_eq_Inr execution_text.again utc.again optional_diagnostics.again
        clean_execution_text_Some py_strip_idem
        dest!: execution_text.made_rules utc.made_rules optional_diagnostics.made_rules)
qed

end
