(* ===== verification/Versions.thy ===== *)
theory Versions
  imports Work_Artifacts Json_Values "HOL-Library.Product_Lexorder"
begin

text \<open>
  The identity of the installed software (\<open>versioning.py\<close>), the engine it is bound to (the model of
  \<open>docker_engine.py\<close>) and the schema ranges it reads (\<open>schema_compatibility.py\<close>). A release
  version is a triple of numbers in lexicographic order. The installation record file, the Git
  checkout and the persisted files that are inspected are arguments.
\<close>

section \<open>Release versions\<close>

type_synonym release = "nat \<times> nat \<times> nat"

definition version_number :: "string \<Rightarrow> bool" where
  "version_number s \<longleftrightarrow> s \<noteq> [] \<and> list_all is_digit_char s \<and> (length s = 1 \<or> hd s \<noteq> CHR ''0'')"

definition parse_release_version :: "string \<Rightarrow> fault + release" where
  "parse_release_version value =
     (case split_on (CHR ''.'') value of
        [a, b, c] \<Rightarrow>
          if version_number a \<and> version_number b \<and> version_number c
          then Inr (read_digits a, read_digits b, read_digits c)
          else Inl (Value_Error ''release version must be MAJOR.MINOR.PATCH without prerelease or build metadata'')
      | _ \<Rightarrow> Inl (Value_Error ''release version must be MAJOR.MINOR.PATCH without prerelease or build metadata''))"

definition release_text :: "release \<Rightarrow> string" where
  "release_text v = (case v of (a, b, c) \<Rightarrow> join_with ''.'' [decimal a, decimal b, decimal c])"

definition compare_release_versions :: "string \<Rightarrow> string \<Rightarrow> fault + int" where
  "compare_release_versions left right =
     ebind (parse_release_version left) (\<lambda>l. ebind (parse_release_version right) (\<lambda>r.
       Inr (of_bool (r < l) - of_bool (l < r))))"

fun better_release :: "string \<Rightarrow> release \<Rightarrow> string list \<Rightarrow> fault + string" where
  "better_release best v [] = Inr best"
| "better_release best v (s # rest) = ebind (parse_release_version s) (\<lambda>w.
     if v < w then better_release s w rest else better_release best v rest)"

text \<open>\<open>max(values, key=...)\<close> keeps the first of the largest.\<close>

definition highest_release_version :: "string list \<Rightarrow> fault + string" where
  "highest_release_version versions =
     (case versions of
        [] \<Rightarrow> Inl (Value_Error ''at least one release version is required'')
      | s # rest \<Rightarrow> ebind (emap parse_release_version versions) (\<lambda>_.
          ebind (parse_release_version s) (\<lambda>v. better_release s v rest)))"

section \<open>Schema ranges\<close>

datatype schema_family =
    Family_Installation | Family_User_Configuration | Family_Run | Family_Planning | Family_Artifact
  | Family_Run_Event | Family_Control_Command | Family_Team_Plan | Family_Budget | Family_Self_Check
  | Family_Process_Lease

definition schema_families :: "schema_family list" where
  "schema_families =
     [Family_Installation, Family_User_Configuration, Family_Run, Family_Planning, Family_Artifact,
      Family_Run_Event, Family_Control_Command, Family_Team_Plan, Family_Budget, Family_Self_Check,
      Family_Process_Lease]"

record schema_support =
  su_family :: schema_family
  su_current :: int
  su_minimum :: int
  su_maximum :: int

definition validate_schema_support :: "schema_support \<Rightarrow> fault + unit" where
  "validate_schema_support s = first_error
     [(su_current s < 1, Field_Invalid ''current''),
      (su_minimum s < 1, Field_Invalid ''minimum_readable''),
      (su_maximum s < 1, Field_Invalid ''maximum_readable''),
      (\<not> (su_minimum s \<le> su_current s \<and> su_current s \<le> su_maximum s),
        Value_Error ''current schema must be inside its readable interval'')]"

definition supports_schema :: "schema_support \<Rightarrow> int \<Rightarrow> bool" where
  "supports_schema s version \<longleftrightarrow> su_minimum s \<le> version \<and> version \<le> su_maximum s"

text \<open>\<open>supported_schemas\<close>, sorted by the names of the families.\<close>

definition supported_schemas :: "schema_support list" where
  "supported_schemas =
     [\<lparr>su_family = Family_Artifact, su_current = 15, su_minimum = 2, su_maximum = 15\<rparr>,
      \<lparr>su_family = Family_Budget, su_current = 3, su_minimum = 1, su_maximum = 3\<rparr>,
      \<lparr>su_family = Family_Control_Command, su_current = 2, su_minimum = 2, su_maximum = 2\<rparr>,
      \<lparr>su_family = Family_Installation, su_current = 2, su_minimum = 1, su_maximum = 2\<rparr>,
      \<lparr>su_family = Family_Planning, su_current = 23, su_minimum = 2, su_maximum = 23\<rparr>,
      \<lparr>su_family = Family_Process_Lease, su_current = 1, su_minimum = 1, su_maximum = 1\<rparr>,
      \<lparr>su_family = Family_Run, su_current = 6, su_minimum = 6, su_maximum = 6\<rparr>,
      \<lparr>su_family = Family_Run_Event, su_current = 6, su_minimum = 2, su_maximum = 6\<rparr>,
      \<lparr>su_family = Family_Self_Check, su_current = 2, su_minimum = 1, su_maximum = 2\<rparr>,
      \<lparr>su_family = Family_Team_Plan, su_current = 4, su_minimum = 1, su_maximum = 4\<rparr>,
      \<lparr>su_family = Family_User_Configuration, su_current = 11, su_minimum = 1, su_maximum = 11\<rparr>]"

lemma supported_schemas_ok:
  "check_all validate_schema_support supported_schemas = Inr ()"
  "distinct (map su_family supported_schemas)" "set (map su_family supported_schemas) = set schema_families"
  by code_simp+

record schema_observation =
  ob_family :: schema_family
  ob_path :: string
  ob_version :: int
  ob_supported :: bool

record compatibility_report =
  cy_compatible :: bool
  cy_observations :: "schema_observation list"
  cy_problems :: "string list"

definition validate_compatibility :: "compatibility_report \<Rightarrow> fault + unit" where
  "validate_compatibility r =
     ebind (first_error
       [(list_ex (\<lambda>b. ob_version b < 1) (cy_observations r), Field_Invalid ''version'')]) (\<lambda>_. first_error
       [(cy_compatible r \<noteq> (cy_problems r = [] \<and> list_all ob_supported (cy_observations r)),
          Value_Error ''persisted schema compatibility result is inconsistent'')])"

text \<open>\<open>inspect_persisted_schema_compatibility\<close> over the files it finds, each with its family, path and
  what reading its version gives: a positive number, or the message of the problem.\<close>

type_synonym schema_reading = "schema_family \<times> string \<times> (string + int)"

datatype compatibility_error = Inspection_Failed string | Report_Invalid fault

definition support_of :: "schema_support list \<Rightarrow> schema_family \<Rightarrow> schema_support option" where
  "support_of support family = List.find (\<lambda>s. su_family s = family) support"

fun observe_schemas ::
    "schema_support list \<Rightarrow> schema_reading list \<Rightarrow> schema_observation list \<times> string list" where
  "observe_schemas support [] = ([], [])"
| "observe_schemas support ((family, path, reading) # rest) =
     (let (observations, problems) = observe_schemas support rest in
      case reading of
        Inl problem \<Rightarrow> (observations, problem # problems)
      | Inr version \<Rightarrow>
          let supported = opt_all (\<lambda>s. supports_schema s version) (support_of support family) in
          (\<lparr>ob_family = family, ob_path = path, ob_version = version, ob_supported = supported\<rparr> # observations,
           if supported then problems else (''schema is outside readable range: '' @ path) # problems))"

definition inspect_schemas ::
    "schema_support list \<Rightarrow> schema_reading list \<Rightarrow> compatibility_error + compatibility_report" where
  "inspect_schemas support readings =
     ebind (first_error
       [(\<not> distinct (map su_family support) \<or> set (map su_family support) \<noteq> set schema_families,
          Inspection_Failed ''candidate schema support must contain every family exactly once''),
        (100000 < int (length readings),
          Inspection_Failed ''persisted schema file count exceeds safety limit'')]) (\<lambda>_.
     let (observations, problems) = observe_schemas support readings;
         report = \<lparr>cy_compatible = (problems = []), cy_observations = observations, cy_problems = problems\<rparr>
     in case validate_compatibility report of
          Inl f \<Rightarrow> Inl (Report_Invalid f) | Inr _ \<Rightarrow> Inr report)"

definition positive_reading :: "schema_reading \<Rightarrow> bool" where
  "positive_reading r \<longleftrightarrow> (case snd (snd r) of Inl _ \<Rightarrow> True | Inr version \<Rightarrow> 1 \<le> version)"

definition readable_file :: "schema_support list \<Rightarrow> schema_reading \<Rightarrow> bool" where
  "readable_file support r \<longleftrightarrow> (case snd (snd r) of Inl _ \<Rightarrow> False
     | Inr version \<Rightarrow> opt_all (\<lambda>s. supports_schema s version) (support_of support (fst r)))"

text \<open>The report is compatible exactly when every file was read and is in the readable range; the
  report's own check never fails on it.\<close>

lemma observe_schemas_facts:
  assumes "list_all positive_reading readings"
  shows "list_all (\<lambda>b. 1 \<le> ob_version b) (fst (observe_schemas support readings))"
    "snd (observe_schemas support readings) = [] \<longleftrightarrow>
       list_all (readable_file support) readings"
    "snd (observe_schemas support readings) = [] \<Longrightarrow>
       list_all ob_supported (fst (observe_schemas support readings))"
proof (atomize (full), use assms in \<open>induction readings\<close>)
  case (Cons entry readings)
  obtain family path reading where e: "entry = (family, path, reading)" by (cases entry)
  have "list_all positive_reading readings" using Cons.prems by simp
  note ih = Cons.IH [OF this]
  show ?case
    using ih Cons.prems
    by (cases reading)
      (auto simp: e Let_def positive_reading_def readable_file_def split: prod.splits)
qed simp

lemma inspection_exact:
  assumes "distinct (map su_family support)" "set (map su_family support) = set schema_families"
    and "int (length readings) \<le> 100000"
    and "list_all positive_reading readings"
  shows "\<exists>report. inspect_schemas support readings = Inr report \<and>
    (cy_compatible report \<longleftrightarrow> list_all (readable_file support) readings)"
proof -
  obtain observations problems where o: "observe_schemas support readings = (observations, problems)"
    by (cases "observe_schemas support readings")
  note facts = observe_schemas_facts [where support = support, OF assms(4), unfolded o fst_conv snd_conv]
  let ?report = "\<lparr>cy_compatible = (problems = []), cy_observations = observations, cy_problems = problems\<rparr>"
  have "validate_compatibility ?report = Inr ()"
    using facts(1,3) by (auto simp: validate_compatibility_def list_ex_iff list_all_iff ebind_eq_Inr)
  then have "inspect_schemas support readings = Inr ?report"
    using assms(1-3) by (simp add: inspect_schemas_def o not_less)
  then show ?thesis using facts(2) by auto
qed

record candidate_envelope =
  cd_source_revision :: string
  cd_schema_support :: "schema_support list"
  cd_compatibility :: compatibility_report
  cd_active_run_ids :: "string list"

definition validate_envelope :: "candidate_envelope \<Rightarrow> fault + unit" where
  "validate_envelope e = first_error
     [(\<not> commit_pattern (cd_source_revision e), Value_Error ''candidate source revision is invalid''),
      (\<not> distinct (map su_family (cd_schema_support e)) \<or>
         set (map su_family (cd_schema_support e)) \<noteq> set schema_families,
        Value_Error ''candidate schema support must contain every family exactly once''),
      (list_ex (\<lambda>b. ob_supported b \<noteq>
           opt_all (\<lambda>s. supports_schema s (ob_version b)) (support_of (cd_schema_support e) (ob_family b)))
         (cy_observations (cd_compatibility e)),
        Value_Error ''candidate compatibility observations disagree with schema support''),
      (\<not> sorted (cd_active_run_ids e) \<or> \<not> distinct (cd_active_run_ids e) \<or>
         list_ex (\<lambda>i. \<not> run_id_pattern i) (cd_active_run_ids e),
        Value_Error ''candidate active run identities are invalid'')]"

text \<open>\<open>inspect_candidate_persisted_state\<close>: what looking for the files gives (or a problem), and what
  listing the active runs gives.\<close>

definition inspect_candidate ::
    "string \<Rightarrow> string + schema_reading list \<Rightarrow> string + string list \<Rightarrow>
     compatibility_error + candidate_envelope" where
  "inspect_candidate revision files active =
     (let failed = (\<lambda>observations problem. \<lparr>cy_compatible = False, cy_observations = observations,
            cy_problems = [problem]\<rparr>);
          inspected = (case files of
             Inl problem \<Rightarrow> Inr (failed [] problem)
           | Inr readings \<Rightarrow> (case inspect_schemas supported_schemas readings of
               Inl (Inspection_Failed problem) \<Rightarrow> Inr (failed [] problem)
             | result \<Rightarrow> result))
      in ebind inspected (\<lambda>report.
        let (compatibility, runs) =
              (if cy_compatible report
               then (case active of
                       Inl problem \<Rightarrow> (failed (cy_observations report) problem, [])
                     | Inr ids \<Rightarrow> (report, ids))
               else (report, []));
            envelope = \<lparr>cd_source_revision = revision, cd_schema_support = supported_schemas,
              cd_compatibility = compatibility, cd_active_run_ids = runs\<rparr>
        in case validate_envelope envelope of
             Inl f \<Rightarrow> Inl (Report_Invalid f) | Inr _ \<Rightarrow> Inr envelope))"

section \<open>The installation record\<close>

record docker_engine =
  de_endpoint :: string
  de_daemon_id :: string
  de_rootless :: bool
  de_owner_uid :: int
  de_socket_uid :: int
  de_cgroup_driver :: string
  de_cgroup_version :: string

text \<open>\<open>os.path.normpath\<close> on an absolute path: empty parts and \<open>.\<close> go away, \<open>..\<close> removes the part
  before it, two leading slashes stay.\<close>

definition norm_step :: "string \<Rightarrow> string list \<Rightarrow> string list" where
  "norm_step part stack =
     (if part = [] \<or> part = ''.'' then stack
      else if part = ''..'' then butlast stack else stack @ [part])"

definition norm_path :: "string \<Rightarrow> string" where
  "norm_path s =
     (if take 2 s = ''//'' \<and> take 3 s \<noteq> ''///'' then ''//'' else ''/'') @
     join_with ''/'' (fold norm_step (split_on (CHR ''/'') s) [])"

definition validate_endpoint :: "string \<Rightarrow> fault + unit" where
  "validate_endpoint value = first_error
     [(take 8 value \<noteq> ''unix:///'', Value_Error ''Docker engine endpoint must be a local Unix socket''),
      (posix_parts (drop 7 value) = posix_root (drop 7 value) \<or> norm_path (drop 7 value) \<noteq> drop 7 value \<or>
         list_ex (\<lambda>c. py_space c \<or> of_char c < (32 :: nat)) value,
        Value_Error ''Docker engine socket path is unsafe'')]"

definition daemon_id_pattern :: "string \<Rightarrow> bool" where
  "daemon_id_pattern s \<longleftrightarrow>
     (case s of [] \<Rightarrow> False
      | c # cs \<Rightarrow> (is_lower c \<or> is_upper c \<or> is_digit_char c) \<and> length cs \<le> 199 \<and>
          list_all (\<lambda>d. is_lower d \<or> is_upper d \<or> is_digit_char d \<or>
            d \<in> {CHR '':'', CHR ''.'', CHR ''_'', CHR ''-''}) cs)"

definition validate_docker_engine :: "docker_engine \<Rightarrow> fault + unit" where
  "validate_docker_engine d =
     ebind (first_error
       [(length (de_endpoint d) < 9 \<or> 4096 < length (de_endpoint d), Field_Invalid ''endpoint'')]) (\<lambda>_.
     ebind (validate_endpoint (de_endpoint d)) (\<lambda>_. first_error
       [(de_daemon_id d = [] \<or> 200 < length (de_daemon_id d), Field_Invalid ''daemon_id''),
        (\<not> daemon_id_pattern (de_daemon_id d), Value_Error ''Docker daemon ID is invalid''),
        (de_owner_uid d < 0, Field_Invalid ''owner_uid''),
        (de_socket_uid d < 0, Field_Invalid ''socket_uid''),
        (de_cgroup_driver d = [] \<or> 50 < length (de_cgroup_driver d), Field_Invalid ''cgroup_driver''),
        (de_cgroup_version d = [] \<or> 20 < length (de_cgroup_version d), Field_Invalid ''cgroup_version'')]))"

datatype managed_channel = Channel_Stable | Channel_Dev

datatype install_mode = Mode_Managed | Mode_Source | Mode_Package

datatype identity_status = Identity_Verified | Identity_Partial | Identity_Inconsistent

record installation_record =
  ir_schema_version :: int
  ir_channel :: managed_channel
  ir_release_version :: string
  ir_source_revision :: string
  ir_source_ref :: string
  ir_repository_url :: string
  ir_application_path :: string
  ir_artifact_digest :: "string option"
  ir_installed_at :: datetime
  ir_docker_engine :: "docker_engine option"

definition aware :: "datetime \<Rightarrow> bool" where
  "aware d \<longleftrightarrow> (case d of Naive _ \<Rightarrow> False | Aware _ _ \<Rightarrow> True)"

definition artifact_digest_pattern :: "string \<Rightarrow> bool" where
  "artifact_digest_pattern s \<longleftrightarrow> take 7 s = ''sha256:'' \<and> sha256_pattern (drop 7 s)"

definition validate_installation :: "installation_record \<Rightarrow> fault + unit" where
  "validate_installation r =
     ebind (first_error
       [(ir_schema_version r \<noteq> 1 \<and> ir_schema_version r \<noteq> 2, Field_Invalid ''schema_version'')]) (\<lambda>_.
     ebind (parse_release_version (ir_release_version r)) (\<lambda>_.
     ebind (first_error
       [(\<not> commit_pattern (ir_source_revision r),
          Value_Error ''source revision must be a full lowercase Git object ID''),
        (ir_source_ref r = [] \<or> 200 < length (ir_source_ref r), Field_Invalid ''source_ref''),
        (ir_repository_url r = [] \<or> 2000 < length (ir_repository_url r), Field_Invalid ''repository_url''),
        (list_ex py_space (ir_source_ref r @ ir_repository_url r),
          Value_Error ''installation source values must not contain whitespace''),
        (ir_application_path r = [] \<or> 4096 < length (ir_application_path r), Field_Invalid ''application_path''),
        (\<not> posix_absolute (ir_application_path r) \<or>
           posix_parts (ir_application_path r) = posix_root (ir_application_path r),
          Value_Error ''application path must be a specific absolute path''),
        (\<not> opt_all artifact_digest_pattern (ir_artifact_digest r),
          Value_Error ''artifact digest must be a sha256 digest''),
        (\<not> aware (ir_installed_at r), Value_Error ''installed_at must include a UTC offset'')]) (\<lambda>_.
     ebind (case ir_docker_engine r of None \<Rightarrow> Inr () | Some d \<Rightarrow> validate_docker_engine d) (\<lambda>_. first_error
       [((ir_schema_version r = 1) \<noteq> (ir_docker_engine r = None),
          Value_Error ''installation schema v2 requires an exact Docker engine binding''),
        (ir_channel r = Channel_Stable \<and> ir_source_ref r \<noteq> ''v'' @ ir_release_version r,
          Value_Error ''stable source_ref must name the release'')]))))"

definition make_installation_record ::
    "managed_channel \<Rightarrow> string \<Rightarrow> string \<Rightarrow> string \<Rightarrow> string \<Rightarrow> string \<Rightarrow> string option \<Rightarrow>
     docker_engine option \<Rightarrow> datetime option \<Rightarrow> int \<Rightarrow> fault + installation_record" where
  "make_installation_record channel release revision source_ref url path digest engine installed now =
     (let r = \<lparr>ir_schema_version = (if engine \<noteq> None then 2 else 1), ir_channel = channel,
            ir_release_version = release, ir_source_revision = revision, ir_source_ref = source_ref,
            ir_repository_url = url, ir_application_path = path, ir_artifact_digest = digest,
            ir_installed_at = the_or installed (Aware now 0), ir_docker_engine = engine\<rparr>
      in ebind (validate_installation r) (\<lambda>_. Inr r))"

section \<open>The version report\<close>

datatype provenance_source = From_Installation_Record | From_Git | Provenance_Unavailable

record version_report =
  vr_release_version :: string
  vr_display_version :: string
  vr_source_revision :: "string option"
  vr_dirty :: "bool option"
  vr_install_mode :: install_mode
  vr_channel :: "managed_channel option"
  vr_source_ref :: "string option"
  vr_repository_url :: "string option"
  vr_application_path :: string
  vr_artifact_digest :: "string option"
  vr_installed_at :: "datetime option"
  vr_identity_status :: identity_status
  vr_provenance_source :: provenance_source
  vr_schema_support :: "schema_support list"
  vr_problems :: "string list"

definition validate_version_report :: "version_report \<Rightarrow> fault + unit" where
  "validate_version_report r =
     ebind (parse_release_version (vr_release_version r)) (\<lambda>_.
       check_all validate_schema_support (vr_schema_support r))"

definition display_version :: "string \<Rightarrow> string \<Rightarrow> string" where
  "display_version release revision = release @ ''+g'' @ take 12 revision"

text \<open>\<open>inspect_software_version\<close>: the package version, the resolved root, the record (with the
  resolved path of its application) and the revision of the checkout with its cleanness.\<close>

definition managed_report :: "string \<Rightarrow> string \<Rightarrow> installation_record \<Rightarrow> version_report" where
  "managed_report release app_root r =
     (let problems = (if ir_release_version r \<noteq> release
            then [''installation record release version does not match package metadata''] else [])
      in \<lparr>vr_release_version = release, vr_display_version = display_version release (ir_source_revision r),
          vr_source_revision = Some (ir_source_revision r), vr_dirty = Some False,
          vr_install_mode = Mode_Managed, vr_channel = Some (ir_channel r),
          vr_source_ref = Some (ir_source_ref r), vr_repository_url = Some (ir_repository_url r),
          vr_application_path = app_root, vr_artifact_digest = ir_artifact_digest r,
          vr_installed_at = Some (ir_installed_at r),
          vr_identity_status = (if problems \<noteq> [] then Identity_Inconsistent else Identity_Verified),
          vr_provenance_source = From_Installation_Record, vr_schema_support = supported_schemas,
          vr_problems = problems\<rparr>)"

definition source_report :: "string \<Rightarrow> string \<Rightarrow> string \<Rightarrow> bool \<Rightarrow> version_report" where
  "source_report release app_root revision dirty =
     \<lparr>vr_release_version = release, vr_display_version = display_version release revision,
      vr_source_revision = Some revision, vr_dirty = Some dirty, vr_install_mode = Mode_Source,
      vr_channel = None, vr_source_ref = None, vr_repository_url = None, vr_application_path = app_root,
      vr_artifact_digest = None, vr_installed_at = None,
      vr_identity_status = (if dirty then Identity_Partial else Identity_Verified),
      vr_provenance_source = From_Git, vr_schema_support = supported_schemas,
      vr_problems = (if dirty then [''source checkout has uncommitted changes''] else [])\<rparr>"

definition package_report :: "string \<Rightarrow> string \<Rightarrow> version_report" where
  "package_report release app_root =
     \<lparr>vr_release_version = release, vr_display_version = release, vr_source_revision = None,
      vr_dirty = None, vr_install_mode = Mode_Package, vr_channel = None, vr_source_ref = None,
      vr_repository_url = None, vr_application_path = app_root, vr_artifact_digest = None,
      vr_installed_at = None, vr_identity_status = Identity_Partial,
      vr_provenance_source = Provenance_Unavailable, vr_schema_support = supported_schemas,
      vr_problems = [''source provenance is unavailable'']\<rparr>"

definition inspect_software_version ::
    "string \<Rightarrow> string \<Rightarrow> (installation_record \<times> string) option \<Rightarrow> (string \<times> bool) option \<Rightarrow>
     fault + version_report" where
  "inspect_software_version release app_root record_here checkout =
     ebind (parse_release_version release) (\<lambda>_.
     let report = (case record_here of
           Some (r, resolved) \<Rightarrow> if resolved = app_root then managed_report release app_root r
             else (case checkout of Some (revision, dirty) \<Rightarrow> source_report release app_root revision dirty
                   | None \<Rightarrow> package_report release app_root)
         | None \<Rightarrow> (case checkout of Some (revision, dirty) \<Rightarrow> source_report release app_root revision dirty
                   | None \<Rightarrow> package_report release app_root))
     in ebind (validate_version_report report) (\<lambda>_. Inr report))"

section \<open>Facts\<close>

text \<open>Writing a version and reading it back.\<close>

lemma number_read:
  "version_number s \<Longrightarrow> decimal (read_digits s) = s \<and> (hd s \<noteq> CHR ''0'' \<longrightarrow> 1 \<le> read_digits s)"
proof (induction s rule: rev_induct)
  case (snoc c s)
  have c: "48 \<le> (of_char c :: nat)" "(of_char c :: nat) \<le> 57"
    using snoc.prems by (auto simp: version_number_def is_digit_char_def Let_def)
  then have digit: "digit (of_char c - 48) = c" by (simp add: digit_def)
  show ?case
  proof (cases "s = []")
    case True
    have "char_of (48 :: nat) = CHR ''0''" by code_simp
    then have "c \<noteq> CHR ''0'' \<longrightarrow> (of_char c :: nat) \<noteq> 48" by (metis char_of_char)
    then have "c \<noteq> CHR ''0'' \<longrightarrow> 1 \<le> (of_char c - 48 :: nat)" "(of_char c - 48 :: nat) < 10"
      using c by linarith+
    then show ?thesis using True digit by (simp add: read_digits_def decimal.simps)
  next
    case False
    then have "version_number s" "hd s \<noteq> CHR ''0''"
      using snoc.prems by (auto simp: version_number_def)
    then have ih: "decimal (read_digits s) = s" "1 \<le> read_digits s" using snoc.IH by auto
    let ?n = "10 * read_digits s + (of_char c - 48)"
    obtain d where d: "d = (of_char c - 48 :: nat)" "d < 10" using c by simp
    have n: "?n div 10 = read_digits s" "?n mod 10 = of_char c - 48" "\<not> ?n < 10"
      using ih(2) d(2) unfolding d(1) [symmetric] by auto
    have "decimal ?n = decimal (?n div 10) @ [digit (?n mod 10)]"
      using n(3) by (simp add: decimal.simps [of ?n])
    then show ?thesis using n ih digit by (simp add: read_digits_snoc)
  qed
qed (simp add: version_number_def)

lemma decimal_number: "version_number (decimal n)"
proof -
  have "length (decimal n) = 1 \<or> hd (decimal n) \<noteq> CHR ''0''"
  proof (induction n rule: decimal.induct)
    case (1 n)
    show ?case
    proof (cases "n < 10")
      case False
      then have d: "decimal n = decimal (n div 10) @ [digit (n mod 10)]" by (simp add: decimal.simps)
      have "hd (decimal (n div 10)) \<noteq> CHR ''0''"
      proof (cases "n div 10 < 10")
        case True
        then have "n div 10 = 0 \<or> hd (decimal (n div 10)) = digit (n div 10)" by (simp add: decimal.simps)
        moreover have "(of_char (digit (n div 10)) :: nat) = 48 + n div 10" using True digit_facts by blast
        ultimately show ?thesis using False True by (auto simp: decimal.simps)
      next
        case big: False
        then have "length (decimal (n div 10)) \<noteq> 1"
          using decimal_facts [of "n div 10 div 10"] by (simp add: decimal.simps [of "n div 10"])
        then show ?thesis using 1 False by blast
      qed
      then show ?thesis using d decimal_facts [of "n div 10"] by simp
    qed (simp add: decimal.simps)
  qed
  then show ?thesis using decimal_facts [of n] by (simp add: version_number_def)
qed

lemma number_no_dot: "version_number s \<Longrightarrow> CHR ''.'' \<notin> set s"
  by (auto simp: version_number_def list_all_iff is_digit_char_def Let_def)

lemma parse_release_text: "parse_release_version (release_text v) = Inr v"
proof -
  obtain a b c where v: "v = (a, b, c)" by (cases v) auto
  have "split_on (CHR ''.'') (release_text v) = [decimal a, decimal b, decimal c]"
    using split_join [of "[decimal a, decimal b, decimal c]" "CHR ''.''"] number_no_dot [OF decimal_number]
    by (auto simp: release_text_def v)
  then show ?thesis
    using decimal_number decimal_facts by (simp add: parse_release_version_def v)
qed

lemma release_text_parse: "parse_release_version s = Inr v \<Longrightarrow> release_text v = s"
  using number_read join_split [of "CHR ''.''" s]
  by (auto simp: parse_release_version_def release_text_def split: list.splits if_splits)

end
