(* ===== verification/Review_Artifacts.thy ===== *)
theory Review_Artifacts
  imports Execution_Records Versions Fixed_Teams
begin

text \<open>
  The artifacts of \<open>artifacts.py\<close> that judge work: review reports with their findings, criterion and
  boundary assessments, the two specialized assessments, iteration records and final reports; the
  union of the persisted artifacts, and the context check of one artifact against its run. Validators
  report their first error; a serialized form is a parameter of the store. The attempt of a tool
  reference is kept as it was given: a reference that leaves it out means the first attempt.
\<close>

section \<open>Text fields\<close>

text \<open>A field with a maximum length whose validator strips it and rejects blank text.\<close>

definition stripped_text :: "string \<Rightarrow> nat \<Rightarrow> string \<Rightarrow> string \<Rightarrow> fault + string" where
  "stripped_text field limit message v =
     ebind (first_error
       [(v = [] \<or> limit < length v, Field_Invalid field), (py_strip v = [], Value_Error message)])
     (\<lambda>_. Inr (py_strip v))"

lemma stripped_text_Inr:
  "stripped_text field limit message v = Inr w \<longleftrightarrow> w = py_strip v \<and> w \<noteq> [] \<and> length v \<le> limit \<and> v \<noteq> []"
  by (auto simp: stripped_text_def ebind_eq_Inr)

lemma stripped_text_stable:
  assumes "stripped_text field limit message v = Inr w"
  shows "stripped_text field limit message w = Inr w"
  using assms le_trans [OF length_py_strip [of v]] by (auto simp: stripped_text_Inr)

interpretation bounded_text: normalizer "stripped_text field limit message" for field limit message
  by unfold_locales (rule stripped_text_stable)

section \<open>Review findings\<close>

datatype review_criterion_status = Criterion_Satisfied | Criterion_Blocked

record tool_reference =
  rt_given_attempt :: "int option"
  rt_tool_call_id :: string
  rt_observable :: string

definition rt_execution_attempt :: "tool_reference \<Rightarrow> int" where
  "rt_execution_attempt r = the_or (rt_given_attempt r) 1"

definition clean_tool_reference :: "tool_reference \<Rightarrow> fault + tool_reference" where
  "clean_tool_reference r =
     ebind (stripped_text ''observable'' 256 ''tool evidence observables must be nonblank text'' (rt_observable r))
     (\<lambda>observable. Inr (r\<lparr>rt_observable := observable\<rparr>))"

definition validate_tool_reference :: "tool_reference \<Rightarrow> fault + unit" where
  "validate_tool_reference r = first_error
     [(rt_execution_attempt r < 1, Field_Invalid ''execution_attempt''),
      (\<not> tool_id_pattern (rt_tool_call_id r), Field_Invalid ''tool_call_id''),
      (CHR 0x00 \<in> set (rt_observable r), Value_Error ''tool evidence observables must be nonblank text'')]"

definition mk_tool_reference :: "tool_reference \<Rightarrow> fault + tool_reference" where
  "mk_tool_reference = clean_then clean_tool_reference validate_tool_reference"

interpretation tool_references: normalizer mk_tool_reference
  unfolding mk_tool_reference_def
  by (rule clean_then_normalizer)
    (auto simp: clean_tool_reference_def ebind_eq_Inr bounded_text.again dest!: bounded_text.made_rules)

record review_finding =
  rf_id :: string
  rf_severity :: review_severity
  rf_blocking :: bool
  rf_category :: string
  rf_description :: string
  rf_recommendation :: string
  rf_path :: "string option"
  rf_line :: "int option"
  rf_criterion_ids :: "string list"

definition clean_finding :: "review_finding \<Rightarrow> fault + review_finding" where
  "clean_finding f = ebind (require_clean_unique_items (rf_criterion_ids f))
     (\<lambda>ids. Inr (f\<lparr>rf_criterion_ids := ids\<rparr>))"

definition validate_finding :: "review_finding \<Rightarrow> fault + unit" where
  "validate_finding f = first_error
     [(\<not> prefixed_id_pattern ''FINDING_'' (rf_id f), Field_Invalid ''id''),
      (rf_category f = [], Field_Invalid ''category''),
      (rf_description f = [], Field_Invalid ''description''),
      (rf_recommendation f = [], Field_Invalid ''recommendation''),
      (\<not> opt_all (\<lambda>p. CHR 0x5C \<notin> set p) (rf_path f), Value_Error ''paths must use POSIX separators''),
      (\<not> opt_all safe_relative (rf_path f), Value_Error ''paths must be safe relative paths''),
      (\<not> opt_all (\<lambda>l. 1 \<le> l) (rf_line f), Field_Invalid ''line''),
      (rf_line f \<noteq> None \<and> rf_path f = None, Value_Error ''a finding line requires a source path''),
      (rf_severity f = Severity_Critical \<and> \<not> rf_blocking f,
        Value_Error ''critical review findings must be blocking'')]"

definition mk_finding :: "review_finding \<Rightarrow> fault + review_finding" where
  "mk_finding = clean_then clean_finding validate_finding"

interpretation findings: normalizer mk_finding
  unfolding mk_finding_def
  by (rule clean_then_normalizer)
    (auto simp: clean_finding_def ebind_eq_Inr clean_items.again dest!: clean_items.made_rules)

section \<open>Boundary checks and criterion assessments\<close>

definition tool_key :: "tool_reference \<Rightarrow> int \<times> string" where
  "tool_key r = (rt_execution_attempt r, rt_tool_call_id r)"

definition command_references_ok :: "string list \<Rightarrow> bool" where
  "command_references_ok ids \<longleftrightarrow> distinct ids \<and> list_all (prefixed_id_pattern ''CHECK_'') ids"

record boundary_check =
  bd_boundary :: review_boundary
  bd_adversarial_check :: string
  bd_command_evidence_ids :: "string list"
  bd_tool_evidence :: "tool_reference list"

definition clean_boundary_check :: "boundary_check \<Rightarrow> fault + boundary_check" where
  "clean_boundary_check b =
     ebind (stripped_text ''adversarial_check'' 1000 ''boundary adversarial check must not be blank''
       (bd_adversarial_check b)) (\<lambda>check.
     ebind (emap mk_tool_reference (bd_tool_evidence b)) (\<lambda>tools.
       Inr (b\<lparr>bd_adversarial_check := check, bd_tool_evidence := tools\<rparr>)))"

definition validate_boundary_check :: "boundary_check \<Rightarrow> fault + unit" where
  "validate_boundary_check b = first_error
     [(\<not> command_references_ok (bd_command_evidence_ids b),
        Value_Error ''boundary command-evidence references must be valid''),
      (\<not> distinct (map tool_key (bd_tool_evidence b)),
        Value_Error ''boundary tool-evidence references must be unique''),
      (bd_command_evidence_ids b = [] \<and> bd_tool_evidence b = [],
        Value_Error ''boundary checks require command or tool evidence references'')]"

definition mk_boundary_check :: "boundary_check \<Rightarrow> fault + boundary_check" where
  "mk_boundary_check = clean_then clean_boundary_check validate_boundary_check"

interpretation boundary_checks: normalizer mk_boundary_check
  unfolding mk_boundary_check_def
  by (rule clean_then_normalizer)
    (auto simp: clean_boundary_check_def ebind_eq_Inr bounded_text.again tool_references.again
      dest!: bounded_text.made_rules tool_references.made_rules)

record criterion_assessment =
  ca_criterion_id :: string
  ca_status :: review_criterion_status
  ca_adversarial_check :: string
  ca_evidence :: string
  ca_command_evidence_ids :: "string list"
  ca_tool_evidence :: "tool_reference list"
  ca_boundary_checks :: "boundary_check list"

definition clean_assessment :: "criterion_assessment \<Rightarrow> fault + criterion_assessment" where
  "clean_assessment a =
     ebind (stripped_text ''adversarial_check'' 2000 ''criterion assessment text must not be blank''
       (ca_adversarial_check a)) (\<lambda>check.
     ebind (stripped_text ''evidence'' 2000 ''criterion assessment text must not be blank''
       (ca_evidence a)) (\<lambda>evidence.
     ebind (emap mk_tool_reference (ca_tool_evidence a)) (\<lambda>tools.
     ebind (emap mk_boundary_check (ca_boundary_checks a)) (\<lambda>boundaries.
       Inr (a\<lparr>ca_adversarial_check := check, ca_evidence := evidence, ca_tool_evidence := tools,
              ca_boundary_checks := boundaries\<rparr>)))))"

definition validate_assessment :: "criterion_assessment \<Rightarrow> fault + unit" where
  "validate_assessment a = first_error
     [(\<not> upper_id_pattern (ca_criterion_id a), Field_Invalid ''criterion_id''),
      (\<not> command_references_ok (ca_command_evidence_ids a),
        Value_Error ''criterion command-evidence references must be valid and unique''),
      (\<not> distinct (map tool_key (ca_tool_evidence a)),
        Value_Error ''criterion tool-evidence references must be unique''),
      (\<not> distinct (map bd_boundary (ca_boundary_checks a)),
        Value_Error ''criterion boundary checks must be unique'')]"

definition mk_assessment :: "criterion_assessment \<Rightarrow> fault + criterion_assessment" where
  "mk_assessment = clean_then clean_assessment validate_assessment"

interpretation assessments: normalizer mk_assessment
  unfolding mk_assessment_def
  by (rule clean_then_normalizer)
    (auto simp: clean_assessment_def ebind_eq_Inr bounded_text.again tool_references.again boundary_checks.again
      dest!: bounded_text.made_rules tool_references.made_rules boundary_checks.made_rules)

section \<open>Review reports\<close>

record review_report =
  rr_header :: artifact_header
  rr_iteration :: int
  rr_input_commit :: string
  rr_verdict :: review_verdict
  rr_termination_reason :: "review_termination option"
  rr_reviewed_criteria :: "string list"
  rr_assessments :: "criterion_assessment list"
  rr_findings :: "review_finding list"
  rr_summary :: string

definition clean_review :: "review_report \<Rightarrow> fault + review_report" where
  "clean_review r =
     ebind (mk_header (rr_header r)) (\<lambda>header.
     ebind (require_clean_unique_items (rr_reviewed_criteria r)) (\<lambda>reviewed.
     ebind (emap mk_assessment (rr_assessments r)) (\<lambda>items.
     ebind (emap mk_finding (rr_findings r)) (\<lambda>found.
       Inr (r\<lparr>rr_header := header, rr_reviewed_criteria := reviewed, rr_assessments := items,
              rr_findings := found\<rparr>)))))"

definition blocking_findings :: "review_report \<Rightarrow> review_finding list" where
  "blocking_findings r = filter rf_blocking (rr_findings r)"

definition blocked_criteria :: "review_report \<Rightarrow> string list" where
  "blocked_criteria r = map ca_criterion_id (filter (\<lambda>a. ca_status a = Criterion_Blocked) (rr_assessments r))"

definition check_review_scope :: "review_report \<Rightarrow> fault + unit" where
  "check_review_scope r =
     (let ids = map ca_criterion_id (rr_assessments r); assessed = rr_assessments r \<noteq> [] in first_error
       [(\<not> distinct (map rf_id (rr_findings r)), Value_Error ''review finding IDs must be unique''),
        (\<not> distinct ids, Value_Error ''review criterion assessments must be unique''),
        (assessed \<and> set ids \<noteq> set (rr_reviewed_criteria r),
          Value_Error ''review criterion assessments must exactly cover review scope''),
        (assessed \<and> set (blocked_criteria r) \<noteq> set (concat (map rf_criterion_ids (blocking_findings r))),
          Value_Error ''blocked criterion assessments must exactly match blocking findings'')])"

definition check_verdict :: "review_report \<Rightarrow> fault + unit" where
  "check_verdict r =
     (let assessed = rr_assessments r \<noteq> []; verdict = rr_verdict r in first_error
       [(verdict = Verdict_Accept \<and> assessed \<and> blocked_criteria r \<noteq> [],
          Value_Error ''accepted reviews require every criterion to be satisfied''),
        (verdict \<noteq> Verdict_Accept \<and> assessed \<and> blocked_criteria r = [],
          Value_Error ''non-accepted reviews require a blocked criterion''),
        (verdict = Verdict_Accept \<and> blocking_findings r \<noteq> [],
          Value_Error ''accepted reviews cannot contain blocking findings''),
        (verdict = Verdict_Revise \<and> blocking_findings r = [],
          Value_Error ''revision requires a blocking review finding''),
        (verdict = Verdict_Fail \<and> \<not> list_ex (\<lambda>f. rf_severity f = Severity_Critical) (rr_findings r),
          Value_Error ''failed reviews require a critical finding''),
        (verdict \<noteq> Verdict_Fail \<and> rr_termination_reason r \<noteq> None,
          Value_Error ''only failed reviews may declare a terminal reason'')])"

definition validate_review :: "review_report \<Rightarrow> fault + unit" where
  "validate_review r =
     ebind (first_error
       [(rr_iteration r < 1, Field_Invalid ''iteration''),
        (\<not> commit_pattern (rr_input_commit r), Field_Invalid ''input_commit''),
        (rr_summary r = [], Field_Invalid ''summary'')]) (\<lambda>_.
     ebind (check_review_scope r) (\<lambda>_. check_verdict r))"

definition mk_review :: "review_report \<Rightarrow> fault + review_report" where
  "mk_review = clean_then clean_review validate_review"

interpretation reviews: normalizer mk_review
  unfolding mk_review_def
  by (rule clean_then_normalizer)
    (auto simp: clean_review_def ebind_eq_Inr clean_items.again headers.again assessments.again findings.again
      dest!: clean_items.made_rules headers.made_rules assessments.made_rules findings.made_rules)

section \<open>Specialized assessments\<close>

record security_surface =
  su_id :: string
  su_surface :: string
  su_threat :: string
  su_control :: string
  su_status :: review_criterion_status
  su_evidence :: string
  su_criterion_ids :: "string list"

definition clean_surface :: "security_surface \<Rightarrow> fault + security_surface" where
  "clean_surface s =
     (let message = ''security assessment text must not be blank'' in
      ebind (stripped_text ''surface'' 1000 message (su_surface s)) (\<lambda>surface.
      ebind (stripped_text ''threat'' 1000 message (su_threat s)) (\<lambda>threat.
      ebind (stripped_text ''control'' 1000 message (su_control s)) (\<lambda>control.
      ebind (stripped_text ''evidence'' 2000 message (su_evidence s)) (\<lambda>evidence.
      ebind (require_clean_unique_items (su_criterion_ids s)) (\<lambda>ids.
        Inr (s\<lparr>su_surface := surface, su_threat := threat, su_control := control, su_evidence := evidence,
               su_criterion_ids := ids\<rparr>)))))))"

definition validate_surface :: "security_surface \<Rightarrow> fault + unit" where
  "validate_surface s = first_error
     [(\<not> prefixed_id_pattern ''SECURITY_'' (su_id s), Field_Invalid ''id''),
      (su_criterion_ids s = [], Field_Invalid ''criterion_ids'')]"

definition mk_surface :: "security_surface \<Rightarrow> fault + security_surface" where
  "mk_surface = clean_then clean_surface validate_surface"

interpretation surfaces: normalizer mk_surface
  unfolding mk_surface_def
  by (rule clean_then_normalizer)
    (auto simp: clean_surface_def Let_def ebind_eq_Inr bounded_text.again clean_items.again
      dest!: bounded_text.made_rules clean_items.made_rules)

record experience_workflow =
  ew_id :: string
  ew_actor :: string
  ew_workflow :: string
  ew_outcome :: string
  ew_friction :: string
  ew_recovery :: string
  ew_status :: review_criterion_status
  ew_evidence :: string
  ew_criterion_ids :: "string list"

definition clean_workflow :: "experience_workflow \<Rightarrow> fault + experience_workflow" where
  "clean_workflow w =
     (let message = ''experience assessment text must not be blank'' in
      ebind (stripped_text ''actor'' 500 message (ew_actor w)) (\<lambda>actor.
      ebind (stripped_text ''workflow'' 1000 message (ew_workflow w)) (\<lambda>workflow.
      ebind (stripped_text ''outcome'' 1000 message (ew_outcome w)) (\<lambda>outcome.
      ebind (stripped_text ''friction'' 1000 message (ew_friction w)) (\<lambda>friction.
      ebind (stripped_text ''recovery'' 1000 message (ew_recovery w)) (\<lambda>recovery.
      ebind (stripped_text ''evidence'' 2000 message (ew_evidence w)) (\<lambda>evidence.
      ebind (require_clean_unique_items (ew_criterion_ids w)) (\<lambda>ids.
        Inr (w\<lparr>ew_actor := actor, ew_workflow := workflow, ew_outcome := outcome, ew_friction := friction,
               ew_recovery := recovery, ew_evidence := evidence, ew_criterion_ids := ids\<rparr>)))))))))"

definition validate_workflow :: "experience_workflow \<Rightarrow> fault + unit" where
  "validate_workflow w = first_error
     [(\<not> prefixed_id_pattern ''EXPERIENCE_'' (ew_id w), Field_Invalid ''id''),
      (ew_criterion_ids w = [], Field_Invalid ''criterion_ids'')]"

definition mk_workflow :: "experience_workflow \<Rightarrow> fault + experience_workflow" where
  "mk_workflow = clean_then clean_workflow validate_workflow"

interpretation workflows: normalizer mk_workflow
  unfolding mk_workflow_def
  by (rule clean_then_normalizer)
    (auto simp: clean_workflow_def Let_def ebind_eq_Inr bounded_text.again clean_items.again
      dest!: bounded_text.made_rules clean_items.made_rules)

text \<open>\<open>_validate_specialized_assessment_scope\<close>; the items are given as identifier, status and criteria.\<close>

definition check_specialized_scope ::
    "(string \<times> review_criterion_status \<times> string list) list \<Rightarrow> review_report \<Rightarrow> fault + unit" where
  "check_specialized_scope items r =
     (let blocked = list_ex (\<lambda>(_, s, _). s = Criterion_Blocked) items in first_error
       [(\<not> distinct (map fst items), Value_Error ''assessment IDs must be unique''),
        (\<not> set (concat (map (\<lambda>(_, _, cs). cs) items)) \<subseteq> set (rr_reviewed_criteria r),
          Value_Error ''assessment references criteria outside its review scope''),
        (rr_verdict r = Verdict_Accept \<and> blocked,
          Value_Error ''accepted assessment requires every specialist check to pass''),
        (rr_verdict r \<noteq> Verdict_Accept \<and> \<not> blocked,
          Value_Error ''non-accepted assessment requires a blocked specialist check'')])"

record security_report =
  sr_review :: review_report
  sr_surfaces :: "security_surface list"
  sr_residual_risks :: "string list"

definition clean_security :: "security_report \<Rightarrow> fault + security_report" where
  "clean_security s =
     ebind (clean_review (sr_review s)) (\<lambda>review.
     ebind (emap mk_surface (sr_surfaces s)) (\<lambda>items.
     ebind (require_clean_unique_items (sr_residual_risks s)) (\<lambda>risks.
       Inr (s\<lparr>sr_review := review, sr_surfaces := items, sr_residual_risks := risks\<rparr>))))"

definition validate_security :: "security_report \<Rightarrow> fault + unit" where
  "validate_security s =
     ebind (first_error [(sr_surfaces s = [], Field_Invalid ''surfaces'')]) (\<lambda>_.
     ebind (validate_review (sr_review s)) (\<lambda>_.
       check_specialized_scope (map (\<lambda>i. (su_id i, su_status i, su_criterion_ids i)) (sr_surfaces s))
         (sr_review s)))"

definition mk_security :: "security_report \<Rightarrow> fault + security_report" where
  "mk_security = clean_then clean_security validate_security"

lemma clean_review_stable: "clean_review x = Inr y \<Longrightarrow> clean_review y = Inr y"
  by (auto simp: clean_review_def ebind_eq_Inr clean_items.again headers.again assessments.again findings.again
      dest!: clean_items.made_rules headers.made_rules assessments.made_rules findings.made_rules)

interpretation cleaned_reviews: normalizer clean_review
  by unfold_locales (rule clean_review_stable)

interpretation securities: normalizer mk_security
  unfolding mk_security_def
  by (rule clean_then_normalizer)
    (auto simp: clean_security_def ebind_eq_Inr cleaned_reviews.again surfaces.again clean_items.again
      dest!: cleaned_reviews.made_rules surfaces.made_rules clean_items.made_rules)

record experience_report =
  er_review :: review_report
  er_workflows :: "experience_workflow list"
  er_usability_risks :: "string list"

definition clean_experience :: "experience_report \<Rightarrow> fault + experience_report" where
  "clean_experience e =
     ebind (clean_review (er_review e)) (\<lambda>review.
     ebind (emap mk_workflow (er_workflows e)) (\<lambda>items.
     ebind (require_clean_unique_items (er_usability_risks e)) (\<lambda>risks.
       Inr (e\<lparr>er_review := review, er_workflows := items, er_usability_risks := risks\<rparr>))))"

definition validate_experience :: "experience_report \<Rightarrow> fault + unit" where
  "validate_experience e =
     ebind (first_error [(er_workflows e = [], Field_Invalid ''workflows'')]) (\<lambda>_.
     ebind (validate_review (er_review e)) (\<lambda>_.
       check_specialized_scope (map (\<lambda>i. (ew_id i, ew_status i, ew_criterion_ids i)) (er_workflows e))
         (er_review e)))"

definition mk_experience :: "experience_report \<Rightarrow> fault + experience_report" where
  "mk_experience = clean_then clean_experience validate_experience"

interpretation experiences: normalizer mk_experience
  unfolding mk_experience_def
  by (rule clean_then_normalizer)
    (auto simp: clean_experience_def ebind_eq_Inr cleaned_reviews.again workflows.again clean_items.again
      dest!: cleaned_reviews.made_rules workflows.made_rules clean_items.made_rules)

section \<open>Open findings and acceptance results\<close>

definition collect_unresolved_review_findings :: "review_report list \<Rightarrow> string list" where
  "collect_unresolved_review_findings rs = dedup (filter (\<lambda>d. d \<noteq> [])
     (map (py_strip \<circ> rf_description) (filter (\<lambda>f. \<not> rf_blocking f) (concat (map rr_findings rs)))))"

definition resolve_criterion :: "test_report \<Rightarrow> criterion_result \<Rightarrow> fault + criterion_result" where
  "resolve_criterion t c =
     (if cr_criterion_id c \<notin> set (tr_manual_review_criteria t) then Inr c
      else if cr_status c \<noteq> Check_Pending_Review
      then Inl (Value_Error ''manual criterion is not pending independent review'')
      else Inr (c\<lparr>cr_status := Check_Passed,
        cr_detail := cr_detail c @ '' Independent review accepted the assigned manual criterion on the same immutable commit.''\<rparr>))"

definition resolve_acceptance_results :: "test_report \<Rightarrow> review_report list \<Rightarrow> fault + criterion_result list" where
  "resolve_acceptance_results t rs =
     ebind (first_error
       [(set (concat (map rr_reviewed_criteria rs)) \<noteq> set (tr_manual_review_criteria t),
          Value_Error ''independent reviews must exactly cover manual criteria''),
        (list_ex (\<lambda>r. rr_verdict r \<noteq> Verdict_Accept) rs,
          Value_Error ''manual acceptance requires every review to be accepted'')]) (\<lambda>_.
     emap (resolve_criterion t) (tr_criteria t))"

lemma emap_source: "emap f xs = Inr ys \<Longrightarrow> y \<in> set ys \<Longrightarrow> \<exists>x \<in> set xs. f x = Inr y"
  by (induction xs arbitrary: ys) (auto simp: ebind_eq_Inr)

lemma resolve_criterion_facts:
  "resolve_criterion t c = Inr d \<Longrightarrow> cr_criterion_id d = cr_criterion_id c \<and>
     cr_status d = (if cr_criterion_id c \<in> set (tr_manual_review_criteria t) then Check_Passed else cr_status c)"
  by (auto simp: resolve_criterion_def split: if_splits)

lemma resolve_facts:
  assumes "resolve_acceptance_results t rs = Inr results"
  shows "map cr_criterion_id results = map cr_criterion_id (tr_criteria t)"
    and "set (concat (map rr_reviewed_criteria rs)) = set (tr_manual_review_criteria t)"
    and "r \<in> set rs \<Longrightarrow> rr_verdict r = Verdict_Accept"
proof -
  have l: "list_all2 (\<lambda>x y. resolve_criterion t x = Inr y) (tr_criteria t) results"
    using assms by (auto simp: resolve_acceptance_results_def ebind_eq_Inr emap_Inr)
  from l show "map cr_criterion_id results = map cr_criterion_id (tr_criteria t)"
    by (induction rule: list_all2_induct) (auto dest: resolve_criterion_facts)
  show "set (concat (map rr_reviewed_criteria rs)) = set (tr_manual_review_criteria t)"
    "r \<in> set rs \<Longrightarrow> rr_verdict r = Verdict_Accept"
    using assms by (auto simp: resolve_acceptance_results_def ebind_eq_Inr list_ex_iff)
qed

text \<open>A passed report whose manual criteria are covered resolves to passed criteria only.\<close>

lemma resolve_passed:
  assumes "validate_test_report t = Inr ()" and "tr_status t = Check_Passed"
    and "resolve_acceptance_results t rs = Inr results" and "c \<in> set results"
  shows "cr_status c = Check_Passed"
proof -
  have "emap (resolve_criterion t) (tr_criteria t) = Inr results"
    using assms(3) by (auto simp: resolve_acceptance_results_def ebind_eq_Inr)
  then obtain x where "x \<in> set (tr_criteria t)" "resolve_criterion t x = Inr c"
    using assms(4) emap_source by fastforce
  then show ?thesis
    using passed_report(3) [OF assms(1,2), of x] by (auto dest: resolve_criterion_facts)
qed

end
