(* ===== verification/Run_Artifacts.thy ===== *)
theory Run_Artifacts
  imports Review_Artifacts
begin

text \<open>
  The controller's own artifacts of \<open>artifacts.py\<close>, iteration records and final reports, the union of
  the persisted artifacts with the one constructor per kind, and \<open>validate_artifact_context\<close>, which
  checks one artifact against its frozen run: a scope is the brief, the team and its Agents.
\<close>

section \<open>Iteration records\<close>

record iteration_record =
  it_header :: artifact_header
  it_iteration :: int
  it_input_commit :: string
  it_output_commit :: string
  it_plan :: "artifact_reference option"
  it_plan_sha256 :: "string option"
  it_work_results :: "artifact_reference list"
  it_test_reports :: "artifact_reference list"
  it_review_reports :: "artifact_reference list"
  it_decision :: iteration_decision
  it_blocking_finding_ids :: "string list"
  it_blocking_reasons :: "string list"
  it_resolved_finding_ids :: "string list"
  it_summary :: string

definition clean_iteration :: "iteration_record \<Rightarrow> fault + iteration_record" where
  "clean_iteration r =
     ebind (mk_header (it_header r)) (\<lambda>header.
     ebind (require_clean_unique_items (it_blocking_finding_ids r)) (\<lambda>blocking.
     ebind (require_clean_unique_items (it_blocking_reasons r)) (\<lambda>reasons.
     ebind (require_clean_unique_items (it_resolved_finding_ids r)) (\<lambda>resolved.
       Inr (r\<lparr>it_header := header, it_blocking_finding_ids := blocking, it_blocking_reasons := reasons,
              it_resolved_finding_ids := resolved\<rparr>)))))"

definition iteration_references :: "iteration_record \<Rightarrow> artifact_reference list" where
  "iteration_references r = (case it_plan r of None \<Rightarrow> [] | Some p \<Rightarrow> [p]) @ it_work_results r @
     it_test_reports r @ it_review_reports r"

definition iteration_fields :: "iteration_record \<Rightarrow> fault + unit" where
  "iteration_fields r =
     ebind (first_error
       [(ah_producer (it_header r) \<noteq> ''controller'', Field_Invalid ''producer''),
        (it_iteration r < 1, Field_Invalid ''iteration''),
        (\<not> commit_pattern (it_input_commit r), Field_Invalid ''input_commit''),
        (\<not> commit_pattern (it_output_commit r), Field_Invalid ''output_commit''),
        (\<not> opt_all sha256_pattern (it_plan_sha256 r), Field_Invalid ''implementation_plan_sha256''),
        (it_work_results r = [], Field_Invalid ''work_results''),
        (it_test_reports r = [], Field_Invalid ''test_reports''),
        (it_summary r = [], Field_Invalid ''summary'')]) (\<lambda>_.
     check_all validate_artifact_reference (iteration_references r))"

definition check_decision :: "iteration_record \<Rightarrow> fault + unit" where
  "check_decision r =
     (let blocker = it_blocking_finding_ids r \<noteq> [] \<or> it_blocking_reasons r \<noteq> [] in first_error
       [(it_plan r \<noteq> None \<and> it_plan_sha256 r \<noteq> None,
          Value_Error ''iteration record cannot bind both a plan artifact and digest''),
        (\<not> opt_all (\<lambda>p. ar_kind p = Kind_Implementation_Plan) (it_plan r),
          Value_Error ''implementation_plan must reference implementation_plan''),
        (list_ex (\<lambda>a. ar_kind a \<noteq> Kind_Work_Result) (it_work_results r),
          Value_Error ''work_results must reference only work_result''),
        (\<not> distinct (map ar_path (it_work_results r)), Value_Error ''work_results references must be unique''),
        (list_ex (\<lambda>a. ar_kind a \<noteq> Kind_Test_Report) (it_test_reports r),
          Value_Error ''test_reports must reference only test_report''),
        (\<not> distinct (map ar_path (it_test_reports r)), Value_Error ''test_reports references must be unique''),
        (list_ex (\<lambda>a. ar_kind a \<notin> set review_artifact_kinds) (it_review_reports r),
          Value_Error ''review_reports must reference only quality assessments''),
        (\<not> distinct (map ar_path (it_review_reports r)),
          Value_Error ''review_reports references must be unique''),
        (it_input_commit r = it_output_commit r,
          Value_Error ''iteration output commit must differ from input''),
        (it_decision r = Decide_Accept \<and> blocker, Value_Error ''accepted iterations cannot retain blockers''),
        (it_decision r \<noteq> Decide_Accept \<and> \<not> blocker,
          Value_Error ''revision and failure require blocking evidence''),
        (set (it_blocking_finding_ids r) \<inter> set (it_resolved_finding_ids r) \<noteq> {},
          Value_Error ''a finding cannot be both blocking and resolved'')])"

definition validate_iteration :: "iteration_record \<Rightarrow> fault + unit" where
  "validate_iteration r = ebind (iteration_fields r) (\<lambda>_. check_decision r)"

definition mk_iteration :: "iteration_record \<Rightarrow> fault + iteration_record" where
  "mk_iteration = clean_then clean_iteration validate_iteration"

interpretation iterations: normalizer mk_iteration
  unfolding mk_iteration_def
  by (rule clean_then_normalizer)
    (auto simp: clean_iteration_def ebind_eq_Inr clean_items.again headers.again
      dest!: clean_items.made_rules headers.made_rules)

section \<open>The final report\<close>

record final_report =
  fr_header :: artifact_header
  fr_software_version :: "version_report option"
  fr_status :: final_status
  fr_termination_reason :: string
  fr_final_commit :: "string option"
  fr_iterations :: "artifact_reference list"
  fr_acceptance_results :: "criterion_result list"
  fr_unresolved_findings :: "string list"
  fr_known_limitations :: "string list"
  fr_summary :: string

definition clean_final :: "final_report \<Rightarrow> fault + final_report" where
  "clean_final r =
     ebind (mk_header (fr_header r)) (\<lambda>header.
     ebind (emap mk_criterion (fr_acceptance_results r)) (\<lambda>results.
     ebind (require_clean_unique_items (fr_unresolved_findings r)) (\<lambda>unresolved.
     ebind (require_clean_unique_items (fr_known_limitations r)) (\<lambda>limitations.
       Inr (r\<lparr>fr_header := header, fr_acceptance_results := results, fr_unresolved_findings := unresolved,
              fr_known_limitations := limitations\<rparr>)))))"

definition final_fields :: "final_report \<Rightarrow> fault + unit" where
  "final_fields r =
     ebind (first_error
       [(ah_producer (fr_header r) \<noteq> ''controller'', Field_Invalid ''producer''),
        (fr_termination_reason r = [], Field_Invalid ''termination_reason''),
        (\<not> opt_all commit_pattern (fr_final_commit r), Field_Invalid ''final_commit''),
        (fr_summary r = [], Field_Invalid ''summary'')]) (\<lambda>_.
     ebind (check_option validate_version_report (fr_software_version r)) (\<lambda>_.
       check_all validate_artifact_reference (fr_iterations r)))"

definition check_final :: "final_report \<Rightarrow> fault + unit" where
  "check_final r =
     (let completed = fr_status r = Final_Completed in first_error
       [(list_ex (\<lambda>a. ar_kind a \<noteq> Kind_Iteration_Record) (fr_iterations r),
          Value_Error ''final report iterations must reference iteration records''),
        (\<not> distinct (map ar_path (fr_iterations r)),
          Value_Error ''final report iteration references must be unique''),
        (\<not> distinct (map cr_criterion_id (fr_acceptance_results r)),
          Value_Error ''final acceptance criterion IDs must be unique''),
        (completed \<and> fr_final_commit r = None, Value_Error ''completed final reports require a commit''),
        (completed \<and> (fr_iterations r = [] \<or> fr_acceptance_results r = []),
          Value_Error ''completed final reports require iteration and acceptance evidence''),
        (completed \<and> list_ex (\<lambda>c. cr_status c \<noteq> Check_Passed) (fr_acceptance_results r),
          Value_Error ''completed final reports require passed acceptance'')])"

definition validate_final :: "final_report \<Rightarrow> fault + unit" where
  "validate_final r = ebind (final_fields r) (\<lambda>_. check_final r)"

definition mk_final :: "final_report \<Rightarrow> fault + final_report" where
  "mk_final = clean_then clean_final validate_final"

interpretation finals: normalizer mk_final
  unfolding mk_final_def
  by (rule clean_then_normalizer)
    (auto simp: clean_final_def ebind_eq_Inr clean_items.again headers.again criteria.again
      dest!: clean_items.made_rules headers.made_rules criteria.made_rules)

section \<open>Persisted artifacts\<close>

definition remake_handoff :: "handoff_envelope \<Rightarrow> fault + handoff_envelope" where
  "remake_handoff h =
     ebind (check_all validate_artifact_reference (ho_artifacts h)) (\<lambda>_.
       mk_handoff h (map_option (\<lambda>t. Aware t 0) (ho_created_at h)))"

lemma blockers_stable: "clean_blockers vs = Inr cs \<Longrightarrow> clean_blockers cs = Inr cs"
  by (auto simp: clean_blockers_def Let_def ebind_eq_Inr list_ex_iff distinct_map inj_on_def)

lemma mk_handoff_stable:
  assumes "mk_handoff h created = Inr g"
  shows "mk_handoff g (map_option (\<lambda>t. Aware t 0) (ho_created_at g)) = Inr g \<and> ho_artifacts g = ho_artifacts h"
proof -
  obtain t bs where bs: "clean_blockers (ho_blockers h) = Inr bs"
    and g: "g = h\<lparr>ho_created_at := t, ho_blockers := bs\<rparr>" and ok: "validate_handoff g = Inr ()"
    using assms by (auto simp: mk_handoff_def Let_def ebind_eq_Inr)
  have f: "ho_created_at g = t" "ho_blockers g = bs" "ho_artifacts g = ho_artifacts h"
    and same: "g\<lparr>ho_created_at := t, ho_blockers := bs\<rparr> = g"
    using g by simp_all
  have "(case map_option (\<lambda>t. Aware t 0) t of None \<Rightarrow> Inr None
         | Some d \<Rightarrow> ebind (require_utc (Value_Error ''artifact timestamps must include a timezone'') d)
             (\<lambda>t. Inr (Some t))) = Inr t"
    by (cases t) simp_all
  then show ?thesis
    unfolding mk_handoff_def f blockers_stable [OF bs] Let_def by (simp add: same ok)
qed

interpretation handoffs: normalizer remake_handoff
proof
  fix x y assume "remake_handoff x = Inr y"
  then show "remake_handoff y = Inr y"
    using mk_handoff_stable [of x _ y] by (auto simp: remake_handoff_def ebind_eq_Inr)
qed

datatype persisted =
    Plan_Artifact implementation_plan
  | Work_Artifact work_result
  | Test_Artifact test_report
  | Review_Artifact review_report
  | Security_Artifact security_report
  | Experience_Artifact experience_report
  | Iteration_Artifact iteration_record
  | Final_Artifact final_report
  | Handoff_Artifact handoff_envelope
  | Execution_Artifact execution_record

fun persisted_kind :: "persisted \<Rightarrow> artifact_kind" where
  "persisted_kind (Plan_Artifact _) = Kind_Implementation_Plan"
| "persisted_kind (Work_Artifact _) = Kind_Work_Result"
| "persisted_kind (Test_Artifact _) = Kind_Test_Report"
| "persisted_kind (Review_Artifact _) = Kind_Review_Report"
| "persisted_kind (Security_Artifact _) = Kind_Security_Assessment"
| "persisted_kind (Experience_Artifact _) = Kind_Experience_Assessment"
| "persisted_kind (Iteration_Artifact _) = Kind_Iteration_Record"
| "persisted_kind (Final_Artifact _) = Kind_Final_Report"
| "persisted_kind (Handoff_Artifact _) = Kind_Handoff_Envelope"
| "persisted_kind (Execution_Artifact _) = Kind_Agent_Execution_Record"

text \<open>\<open>ARTIFACT_MODELS\<close> has a model for every kind but two.\<close>

definition artifact_models :: "artifact_kind list" where
  "artifact_models =
     [Kind_Implementation_Plan, Kind_Work_Result, Kind_Test_Report, Kind_Review_Report,
      Kind_Security_Assessment, Kind_Experience_Assessment, Kind_Iteration_Record, Kind_Final_Report,
      Kind_Handoff_Envelope, Kind_Agent_Execution_Record]"

fun mk_persisted :: "persisted \<Rightarrow> fault + persisted" where
  "mk_persisted (Plan_Artifact p) = ebind (mk_implementation_plan p) (\<lambda>x. Inr (Plan_Artifact x))"
| "mk_persisted (Work_Artifact w) = ebind (mk_work_result w) (\<lambda>x. Inr (Work_Artifact x))"
| "mk_persisted (Test_Artifact t) = ebind (mk_test_report t) (\<lambda>x. Inr (Test_Artifact x))"
| "mk_persisted (Review_Artifact r) = ebind (mk_review r) (\<lambda>x. Inr (Review_Artifact x))"
| "mk_persisted (Security_Artifact s) = ebind (mk_security s) (\<lambda>x. Inr (Security_Artifact x))"
| "mk_persisted (Experience_Artifact e) = ebind (mk_experience e) (\<lambda>x. Inr (Experience_Artifact x))"
| "mk_persisted (Iteration_Artifact r) = ebind (mk_iteration r) (\<lambda>x. Inr (Iteration_Artifact x))"
| "mk_persisted (Final_Artifact r) = ebind (mk_final r) (\<lambda>x. Inr (Final_Artifact x))"
| "mk_persisted (Handoff_Artifact h) = ebind (remake_handoff h) (\<lambda>x. Inr (Handoff_Artifact x))"
| "mk_persisted (Execution_Artifact r) = ebind (mk_execution r) (\<lambda>x. Inr (Execution_Artifact x))"

interpretation persisteds: normalizer mk_persisted
proof
  fix x y assume "mk_persisted x = Inr y"
  then show "mk_persisted y = Inr y"
    by (cases x) (auto simp: ebind_eq_Inr dest: implementation_plans.stable work_results.stable
        test_reports.stable reviews.stable securities.stable experiences.stable iterations.stable
        finals.stable handoffs.stable execution_records.stable)
qed

fun persisted_header :: "persisted \<Rightarrow> artifact_header option" where
  "persisted_header (Plan_Artifact p) = Some (ip_header p)"
| "persisted_header (Work_Artifact w) = Some (wr_header w)"
| "persisted_header (Test_Artifact t) = Some (tr_header t)"
| "persisted_header (Review_Artifact r) = Some (rr_header r)"
| "persisted_header (Security_Artifact s) = Some (rr_header (sr_review s))"
| "persisted_header (Experience_Artifact e) = Some (rr_header (er_review e))"
| "persisted_header (Iteration_Artifact r) = Some (it_header r)"
| "persisted_header (Final_Artifact r) = Some (fr_header r)"
| "persisted_header (Handoff_Artifact _) = None"
| "persisted_header (Execution_Artifact _) = None"

text \<open>The iteration of an \<open>IterationArtifact\<close>.\<close>

fun artifact_iteration :: "persisted \<Rightarrow> int option" where
  "artifact_iteration (Plan_Artifact p) = Some (ip_iteration p)"
| "artifact_iteration (Work_Artifact w) = Some (wr_iteration w)"
| "artifact_iteration (Test_Artifact t) = Some (tr_iteration t)"
| "artifact_iteration (Review_Artifact r) = Some (rr_iteration r)"
| "artifact_iteration (Security_Artifact s) = Some (rr_iteration (sr_review s))"
| "artifact_iteration (Experience_Artifact e) = Some (rr_iteration (er_review e))"
| "artifact_iteration (Iteration_Artifact r) = Some (it_iteration r)"
| "artifact_iteration _ = None"

fun as_review :: "persisted \<Rightarrow> review_report option" where
  "as_review (Review_Artifact r) = Some r"
| "as_review (Security_Artifact s) = Some (sr_review s)"
| "as_review (Experience_Artifact e) = Some (er_review e)"
| "as_review _ = None"

section \<open>The context of a run\<close>

fun specialization_value :: "specialization \<Rightarrow> string" where
  "specialization_value Requirements_Clarification = ''requirements_clarification''"
| "specialization_value Team_Planning = ''team_planning''"
| "specialization_value Product_Implementation = ''product_implementation''"
| "specialization_value System_Integration = ''system_integration''"
| "specialization_value Deterministic_Testing = ''deterministic_testing''"
| "specialization_value General_Review = ''general_review''"
| "specialization_value Security_Assessment = ''security_assessment''"
| "specialization_value Experience_Assessment = ''experience_assessment''"

text \<open>The dictionaries of a TeamPlan, as lookups: of two Agents with one identifier the later wins.\<close>

definition agent_capabilities :: "team_plan \<Rightarrow> string \<Rightarrow> string option" where
  "agent_capabilities p i = map_option (\<lambda>a. capability_value (as_capability a))
     (List.find (\<lambda>a. as_id a = i) (List.rev (tp_agents p)))"

definition agent_specializations :: "team_plan \<Rightarrow> string \<Rightarrow> string option" where
  "agent_specializations p i = map_option (\<lambda>a. specialization_value (as_specialization a))
     (List.find (\<lambda>a. as_id a = i) (List.rev (tp_agents p)))"

definition stage_members :: "team_plan \<Rightarrow> string \<Rightarrow> string set option" where
  "stage_members p stage = (let members = stage_agents p stage in if members = {} then None else Some members)"

record run_scope =
  sc_brief :: task_brief
  sc_team_id :: string
  sc_agents :: "string \<Rightarrow> string option"
  sc_specializations :: "(string \<Rightarrow> string option) option"
  sc_iteration_limit :: int
  sc_stages :: "(string \<Rightarrow> string set option) option"

definition persisted_run_id :: "persisted \<Rightarrow> string" where
  "persisted_run_id x = (case x of Handoff_Artifact h \<Rightarrow> ho_run_id h | Execution_Artifact r \<Rightarrow> xr_run_id r
     | _ \<Rightarrow> the_or (map_option ah_run_id (persisted_header x)) [])"

definition persisted_team_id :: "persisted \<Rightarrow> string" where
  "persisted_team_id x = (case x of Handoff_Artifact h \<Rightarrow> ho_team_id h | Execution_Artifact r \<Rightarrow> xr_team_id r
     | _ \<Rightarrow> the_or (map_option ah_team_id (persisted_header x)) [])"

definition persisted_iteration :: "persisted \<Rightarrow> int option" where
  "persisted_iteration x = (case x of Handoff_Artifact h \<Rightarrow> Some (ho_iteration h)
     | Execution_Artifact r \<Rightarrow> Some (xr_iteration r) | _ \<Rightarrow> artifact_iteration x)"

definition check_scope :: "run_scope \<Rightarrow> persisted \<Rightarrow> fault + unit" where
  "check_scope c x = first_error
     [(persisted_run_id x \<noteq> tb_run_id (sc_brief c),
        Value_Error ''artifact run ID does not match the task brief''),
      (persisted_team_id x \<noteq> sc_team_id c,
        Value_Error ''artifact team ID does not match the selected team''),
      (\<not> opt_all (\<lambda>i. i \<le> sc_iteration_limit c) (persisted_iteration x),
        Value_Error ''artifact iteration exceeds the run iteration limit''),
      (\<not> opt_all (\<lambda>h. ah_producer h = ''controller'' \<or> sc_agents c (ah_producer h) \<noteq> None) (persisted_header x),
        Value_Error ''artifact producer is not part of the approved TeamPlan'')]"

text \<open>The Agent of a handoff or of an execution record, in its stage.\<close>

definition check_stage_agent :: "run_scope \<Rightarrow> string \<Rightarrow> string \<Rightarrow> fault + unit" where
  "check_stage_agent c stage agent =
     (case sc_stages c of
        None \<Rightarrow> Inl (Value_Error ''Agent runtime artifacts require team stage context'')
      | Some stages \<Rightarrow>
          (case stages stage of
             None \<Rightarrow> Inl (Value_Error ''artifact stage is not part of the selected team'')
           | Some members \<Rightarrow> first_error
               [(sc_agents c agent = None, Value_Error ''artifact Agent is not part of the approved TeamPlan''),
                (agent \<notin> members, Value_Error ''artifact Agent is not assigned to its declared stage'')]))"

definition check_execution_agent :: "run_scope \<Rightarrow> execution_record \<Rightarrow> fault + unit" where
  "check_execution_agent c r =
     ebind (first_error
       [(Some (xr_capability r) \<noteq> sc_agents c (xr_agent_id r),
          Value_Error ''execution capability differs from its approved AgentSpec'')]) (\<lambda>_.
     case sc_specializations c of
       None \<Rightarrow> Inr ()
     | Some expected \<Rightarrow> first_error
         [(13 \<le> xr_schema_version r \<and> xr_specialization r = None,
            Value_Error ''current execution record requires specialization''),
          (xr_specialization r \<noteq> None \<and> xr_specialization r \<noteq> expected (xr_agent_id r),
            Value_Error ''execution specialization differs from its approved AgentSpec'')])"

definition check_handoff_context :: "run_scope \<Rightarrow> handoff_envelope \<Rightarrow> fault + unit" where
  "check_handoff_context c h = first_error
     [(ho_created_at h = None, Value_Error ''persisted handoffs require a creation timestamp''),
      (\<not> opt_all (\<lambda>t. sc_agents c t \<noteq> None) (ho_target_agent_id h),
        Value_Error ''handoff target is not part of the approved TeamPlan''),
      (ho_input_commit h = None, Value_Error ''persisted handoffs require an input commit''),
      (\<not> opt_all commit_pattern (ho_input_commit h),
        Value_Error ''persisted handoffs require a full commit ID'')]"

definition implementation_agent :: "run_scope \<Rightarrow> string \<Rightarrow> bool" where
  "implementation_agent c i \<longleftrightarrow> sc_agents c i \<in> {Some ''implementation'', Some ''integration''}"

definition check_review_context :: "run_scope \<Rightarrow> string set \<Rightarrow> review_report \<Rightarrow> string list \<Rightarrow> fault + unit" where
  "check_review_context c expected r extra = first_error
     [(sc_agents c (ah_producer (rr_header r)) \<noteq> Some ''review'',
        Value_Error ''review-report producer lacks review capability''),
      (\<not> set (concat (map rf_criterion_ids (rr_findings r)) @ rr_reviewed_criteria r @ extra) \<subseteq> expected,
        Value_Error ''review report references an unknown criterion'')]"

definition check_coverage :: "run_scope \<Rightarrow> persisted \<Rightarrow> fault + unit" where
  "check_coverage c x =
     (let expected = set (map ac_id (tb_acceptance_criteria (sc_brief c))) in
      case x of
        Plan_Artifact p \<Rightarrow> first_error
          [(list_ex (\<lambda>t. \<not> implementation_agent c (role_value (pt_owner t))) (ip_tasks p),
             Value_Error ''plan task owner is not an approved implementation Agent''),
           (set (concat (map pt_acceptance_criteria (ip_tasks p))) \<noteq> expected,
             Value_Error ''implementation plan acceptance coverage differs from the task brief'')]
      | Work_Artifact w \<Rightarrow> first_error
          [(\<not> implementation_agent c (ah_producer (wr_header w)),
             Value_Error ''work-result producer lacks implementation capability'')]
      | Test_Artifact t \<Rightarrow> first_error
          [(ah_producer (tr_header t) \<noteq> ''controller'' \<and> sc_agents c (ah_producer (tr_header t)) \<noteq> Some ''testing'',
             Value_Error ''test-report producer lacks testing capability''),
           (set (map cr_criterion_id (tr_criteria t)) \<noteq> expected,
             Value_Error ''test report must cover every confirmed acceptance criterion''),
           (\<not> set (tr_manual_review_criteria t) \<subseteq> expected,
             Value_Error ''test report references an unknown manual criterion'')]
      | Review_Artifact r \<Rightarrow> check_review_context c expected r []
      | Security_Artifact s \<Rightarrow>
          check_review_context c expected (sr_review s) (concat (map su_criterion_ids (sr_surfaces s)))
      | Experience_Artifact e \<Rightarrow>
          check_review_context c expected (er_review e) (concat (map ew_criterion_ids (er_workflows e)))
      | Final_Artifact r \<Rightarrow>
          (let referenced = set (map cr_criterion_id (fr_acceptance_results r)) in first_error
             [(fr_status r = Final_Completed \<and> referenced \<noteq> expected,
                Value_Error ''completed final report must cover every acceptance criterion''),
              (\<not> referenced \<subseteq> expected, Value_Error ''final report references an unknown criterion'')])
      | _ \<Rightarrow> Inr ())"

definition validate_artifact_context :: "run_scope \<Rightarrow> persisted \<Rightarrow> fault + unit" where
  "validate_artifact_context c x =
     ebind (check_scope c x) (\<lambda>_.
     ebind (case x of
         Handoff_Artifact h \<Rightarrow> ebind (check_stage_agent c (ho_stage h) (ho_source_agent_id h))
           (\<lambda>_. check_handoff_context c h)
       | Execution_Artifact r \<Rightarrow> ebind (check_stage_agent c (xr_stage r) (xr_agent_id r))
           (\<lambda>_. check_execution_agent c r)
       | _ \<Rightarrow> Inr ()) (\<lambda>_.
       check_coverage c x))"

end
