(* ===== verification/Artifact_Store.thy ===== *)
theory Artifact_Store
  imports Run_Artifacts
begin

text \<open>
  \<open>artifact_store.py\<close>: the write-once files of one run directory. A disk maps the parts of a path below
  the run directory to what is found there; the text of an artifact, its digest and the parser of one
  model are the codec. Loading a reference checks path, digest, model, canonical place, context and the
  referenced evidence; it is bounded by a depth, beyond which Python raises \<open>RecursionError\<close>. An
  operation that touches the disk takes the outcomes of its system calls and returns the new disk with
  its result.
\<close>

section \<open>The run directory\<close>

text \<open>What resolving a path finds: a file that can be read or not, a directory, a link or special file
  inside the run, something outside of it, a dangling link (with a target outside or not).\<close>

datatype 'b node = Regular 'b | Unreadable | Directory | Other_Inside | Escaping | Dangling bool

type_synonym 'b disk = "string list \<Rightarrow> 'b node option"

datatype store_error =
    Store_Error string | Integrity_Error string | Already_Exists string | Os_Error | Recursion_Exceeded

record 'b codec =
  cx_render :: "persisted \<Rightarrow> 'b"
  cx_parse :: "artifact_kind \<Rightarrow> 'b \<Rightarrow> persisted option"
  cx_digest :: "'b \<Rightarrow> string"
  cx_text :: "string \<Rightarrow> 'b"

record store =
  sto_brief :: task_brief
  sto_plan :: team_plan

definition store_scope :: "store \<Rightarrow> run_scope" where
  "store_scope s =
     \<lparr>sc_brief = sto_brief s, sc_team_id = tp_team_id (sto_plan s),
      sc_agents = agent_capabilities (sto_plan s),
      sc_specializations = Some (agent_specializations (sto_plan s)),
      sc_iteration_limit = tp_iteration_limit (sto_plan s),
      sc_stages = Some (stage_members (sto_plan s))\<rparr>"

text \<open>\<open>__init__\<close>: whether the root is a directory, and the digest of the brief.\<close>

definition open_store :: "bool \<Rightarrow> (task_brief \<Rightarrow> string) \<Rightarrow> task_brief \<Rightarrow> team_plan \<Rightarrow> store_error + store" where
  "open_store real_directory brief_digest brief plan =
     ebind (first_error
       [(\<not> real_directory, Store_Error ''artifact store requires an existing run directory''),
        (\<not> tb_confirmed brief, Store_Error ''artifact store requires a confirmed task brief''),
        (tb_run_id brief \<noteq> tp_run_id plan, Store_Error ''TeamPlan belongs to a different run''),
        (brief_digest brief \<noteq> tp_task_brief_sha256 plan,
          Store_Error ''TeamPlan binds a different task brief'')]) (\<lambda>_.
     Inr \<lparr>sto_brief = brief, sto_plan = plan\<rparr>)"

text \<open>\<open>_require_inside_root\<close> with \<open>must_exist\<close>, and the check for a regular file with its bytes.\<close>

definition require_inside :: "'b node option \<Rightarrow> store_error + unit" where
  "require_inside found = first_error
     [(found = None \<or> found = Some (Dangling True) \<or> found = Some (Dangling False),
        Integrity_Error ''artifact path does not exist''),
      (found = Some Escaping, Integrity_Error ''artifact path escapes the run directory'')]"

definition read_regular :: "'b disk \<Rightarrow> string list \<Rightarrow> string \<Rightarrow> string \<Rightarrow> store_error + 'b" where
  "read_regular d parts irregular unreadable =
     ebind (require_inside (d parts)) (\<lambda>_.
       case d parts of
         Some (Regular content) \<Rightarrow> Inr content
       | Some Unreadable \<Rightarrow> Inl (Integrity_Error unreadable)
       | _ \<Rightarrow> Inl (Integrity_Error irregular))"

lemma read_regular_Inr: "read_regular d parts irregular unreadable = Inr b \<longleftrightarrow> d parts = Some (Regular b)"
  by (auto simp: read_regular_def require_inside_def ebind_eq_Inr split: option.splits node.splits)

definition validate_file_digest :: "'b codec \<Rightarrow> 'b disk \<Rightarrow> string \<Rightarrow> string \<Rightarrow> store_error + unit" where
  "validate_file_digest c d path digest =
     ebind (read_regular d (posix_parts path) ''output is not a regular file'' ''cannot read output'') (\<lambda>b.
       first_error [(cx_digest c b \<noteq> digest, Integrity_Error ''output digest does not match'')])"

section \<open>Canonical paths\<close>

fun kind_value :: "artifact_kind \<Rightarrow> string" where
  "kind_value Kind_Clarification_Record = ''clarification_record''"
| "kind_value Kind_Task_Brief = ''task_brief''"
| "kind_value Kind_Implementation_Plan = ''implementation_plan''"
| "kind_value Kind_Work_Result = ''work_result''"
| "kind_value Kind_Test_Report = ''test_report''"
| "kind_value Kind_Review_Report = ''review_report''"
| "kind_value Kind_Security_Assessment = ''security_assessment''"
| "kind_value Kind_Experience_Assessment = ''experience_assessment''"
| "kind_value Kind_Iteration_Record = ''iteration_record''"
| "kind_value Kind_Final_Report = ''final_report''"
| "kind_value Kind_Handoff_Envelope = ''handoff_envelope''"
| "kind_value Kind_Agent_Execution_Record = ''agent_execution_record''"

text \<open>A number from one on, in at least two digits.\<close>

definition two_digits :: "int \<Rightarrow> string" where
  "two_digits n = replicate (2 - length (decimal (nat n))) (CHR ''0'') @ decimal (nat n)"

definition iteration_directory :: "int \<Rightarrow> string list" where
  "iteration_directory n = [''iterations'', two_digits n]"

definition execution_stem :: "string \<Rightarrow> int \<Rightarrow> string" where
  "execution_stem agent attempt = agent @ ''-attempt-'' @ two_digits attempt"

definition execution_file :: "int \<Rightarrow> string \<Rightarrow> string \<Rightarrow> int \<Rightarrow> string \<Rightarrow> string list" where
  "execution_file iteration stage agent attempt suffix =
     iteration_directory iteration @ [''executions'', stage, execution_stem agent attempt @ suffix]"

definition artifact_file :: "artifact_kind \<Rightarrow> string" where
  "artifact_file k = map (\<lambda>c. if c = CHR ''_'' then CHR ''-'' else c) (kind_value k) @ ''.json''"

definition producer_file :: "persisted \<Rightarrow> string list" where
  "producer_file x = iteration_directory (the_or (artifact_iteration x) 0) @
     [''agents'', the_or (map_option ah_producer (persisted_header x)) [], artifact_file (persisted_kind x)]"

definition artifact_path :: "persisted \<Rightarrow> string list" where
  "artifact_path x = (case x of
     Handoff_Artifact h \<Rightarrow> iteration_directory (ho_iteration h) @ [''handoffs'', ho_stage h,
       two_digits (ho_sequence h) @ ''-'' @ ho_source_agent_id h @ ''-to-'' @
       the_or (ho_target_agent_id h) ''controller'' @ ''.json'']
   | Execution_Artifact r \<Rightarrow>
       execution_file (xr_iteration r) (xr_stage r) (xr_agent_id r) (xr_attempt r) ''.json''
   | Plan_Artifact _ \<Rightarrow> [''implementation-plan.json'']
   | Final_Artifact _ \<Rightarrow> [''final-report.json'']
   | Iteration_Artifact r \<Rightarrow> iteration_directory (it_iteration r) @ [artifact_file Kind_Iteration_Record]
   | _ \<Rightarrow> producer_file x)"

section \<open>The references of an artifact\<close>

type_synonym loader = "artifact_reference \<Rightarrow> store_error + persisted"

fun as_plan :: "persisted \<Rightarrow> implementation_plan option" where
  "as_plan (Plan_Artifact p) = Some p" | "as_plan _ = None"

fun as_work :: "persisted \<Rightarrow> work_result option" where
  "as_work (Work_Artifact w) = Some w" | "as_work _ = None"

fun as_test :: "persisted \<Rightarrow> test_report option" where
  "as_test (Test_Artifact t) = Some t" | "as_test _ = None"

fun as_iteration :: "persisted \<Rightarrow> iteration_record option" where
  "as_iteration (Iteration_Artifact r) = Some r" | "as_iteration _ = None"

text \<open>\<open>all(isinstance(item, T) for item in items)\<close>, with the items at their type.\<close>

definition typed :: "string \<Rightarrow> (persisted \<Rightarrow> 'a option) \<Rightarrow> persisted list \<Rightarrow> store_error + 'a list" where
  "typed message view xs = (case those (map view xs) of None \<Rightarrow> Inl (Store_Error message) | Some ys \<Rightarrow> Inr ys)"

definition produced_by :: "string \<Rightarrow> persisted \<Rightarrow> bool" where
  "produced_by agent x \<longleftrightarrow> map_option ah_producer (persisted_header x) = Some agent"

definition check_handoff_references :: "loader \<Rightarrow> handoff_envelope \<Rightarrow> store_error + unit" where
  "check_handoff_references load h =
     ebind (first_error
       [(ho_status h = Handoff_Completed \<and> ho_artifacts h = [],
          Store_Error ''completed handoffs require a persisted source artifact'')]) (\<lambda>_.
     ebind (emap load (ho_artifacts h)) (\<lambda>loaded. first_error
       [(list_ex (\<lambda>x. as_plan x = None \<and> \<not> opt_all (\<lambda>i. i = ho_iteration h) (artifact_iteration x)) loaded,
          Store_Error (''handoff references must use the envelope'' @ CHR 0x27 # ''s iteration'')),
        (ho_status h = Handoff_Completed \<and> \<not> list_ex (produced_by (ho_source_agent_id h)) loaded,
          Store_Error ''completed handoffs require evidence produced by the source Agent'')]))"

definition check_response :: "loader \<Rightarrow> execution_record \<Rightarrow> artifact_reference \<Rightarrow> store_error + unit" where
  "check_response load r reference =
     ebind (load reference) (\<lambda>response. first_error
       [(persisted_header response = None,
          Store_Error ''execution response must reference a phase artifact''),
        (\<not> produced_by (xr_agent_id r) response,
          Store_Error ''execution response producer does not match the Agent''),
        (\<not> opt_all (\<lambda>i. i = xr_iteration r) (artifact_iteration response),
          Store_Error ''execution response must use the execution iteration'')])"

definition check_execution_references ::
    "'b codec \<Rightarrow> 'b disk \<Rightarrow> loader \<Rightarrow> execution_record \<Rightarrow> store_error + unit" where
  "check_execution_references c d load r =
     (let file = execution_file (xr_iteration r) (xr_stage r) (xr_agent_id r) (xr_attempt r) in
      ebind (first_error
        [(posix_parts (xr_stdout_path r) \<noteq> file ''.stdout.txt'',
           Store_Error ''execution stdout is not stored at its canonical path''),
         (posix_parts (xr_stderr_path r) \<noteq> file ''.stderr.txt'',
           Store_Error ''execution stderr is not stored at its canonical path'')]) (\<lambda>_.
      ebind (validate_file_digest c d (xr_stdout_path r) (xr_stdout_sha256 r)) (\<lambda>_.
      ebind (validate_file_digest c d (xr_stderr_path r) (xr_stderr_sha256 r)) (\<lambda>_.
      case xr_response_artifact r of None \<Rightarrow> Inr () | Some a \<Rightarrow> check_response load r a))))"

text \<open>The evidence of one iteration: what its references load to.\<close>

record iteration_evidence =
  ie_works :: "work_result list"
  ie_tests :: "test_report list"
  ie_reviews :: "review_report list"

definition check_plan_binding :: "store \<Rightarrow> loader \<Rightarrow> iteration_record \<Rightarrow> store_error + unit" where
  "check_plan_binding s load r =
     (let single = tp_team_id (sto_plan s) = ''single_agent'' in
      case it_plan r of
        Some reference \<Rightarrow>
          ebind (first_error
            [(single, Store_Error ''single-agent baseline cannot claim a planning artifact'')]) (\<lambda>_.
          ebind (load reference) (\<lambda>x. first_error
            [(as_plan x = None, Store_Error ''iteration plan reference has the wrong type'')]))
      | None \<Rightarrow> first_error
          [(single \<and> it_plan_sha256 r \<noteq> None \<or>
            \<not> single \<and> (it_plan_sha256 r = None \<or>
              it_plan_sha256 r \<noteq> tp_implementation_plan_sha256 (sto_plan s)),
             Store_Error ''iteration plan digest differs from the approved TeamPlan'')])"

definition load_evidence :: "loader \<Rightarrow> iteration_record \<Rightarrow> store_error + iteration_evidence" where
  "load_evidence load r =
     ebind (emap load (it_work_results r)) (\<lambda>works.
     ebind (emap load (it_test_reports r)) (\<lambda>tests.
     ebind (emap load (it_review_reports r)) (\<lambda>reviews.
     ebind (typed ''iteration work reference has the wrong type'' as_work works) (\<lambda>ws.
     ebind (typed ''iteration test reference has the wrong type'' as_test tests) (\<lambda>ts.
     ebind (typed ''iteration review reference has the wrong type'' as_review reviews) (\<lambda>rs.
       Inr \<lparr>ie_works = ws, ie_tests = ts, ie_reviews = rs\<rparr>))))))"

definition agents_with :: "store \<Rightarrow> capability set \<Rightarrow> string set" where
  "agents_with s capabilities =
     set (map as_id (filter (\<lambda>a. as_capability a \<in> capabilities) (tp_agents (sto_plan s))))"

definition expected_testers :: "store \<Rightarrow> string set" where
  "expected_testers s = (if agents_with s {Testing} = {} then {''controller''} else agents_with s {Testing})"

definition nonacceptance :: "iteration_evidence \<Rightarrow> bool" where
  "nonacceptance e \<longleftrightarrow> list_ex (\<lambda>t. tr_status t \<noteq> Check_Passed) (ie_tests e)"

definition work_producers :: "iteration_evidence \<Rightarrow> string set" where
  "work_producers e = set (map (\<lambda>w. ah_producer (wr_header w)) (ie_works e))"

definition test_producers :: "iteration_evidence \<Rightarrow> string set" where
  "test_producers e = set (map (\<lambda>t. ah_producer (tr_header t)) (ie_tests e))"

definition review_producers :: "iteration_evidence \<Rightarrow> string set" where
  "review_producers e = set (map (\<lambda>r. ah_producer (rr_header r)) (ie_reviews e))"

definition evidence_iterations :: "iteration_evidence \<Rightarrow> int list" where
  "evidence_iterations e =
     map wr_iteration (ie_works e) @ map tr_iteration (ie_tests e) @ map rr_iteration (ie_reviews e)"

definition check_producers :: "store \<Rightarrow> iteration_record \<Rightarrow> iteration_evidence \<Rightarrow> store_error + unit" where
  "check_producers s r e =
     (let testers = expected_testers s; reviewers = agents_with s {Review} in first_error
       [(work_producers e \<noteq> agents_with s {Implementation, Integration},
          Store_Error ''iteration work evidence must cover every approved writer''),
        (test_producers e \<noteq> testers \<and>
           \<not> (nonacceptance e \<and> test_producers e \<noteq> {} \<and> test_producers e \<subseteq> testers),
          Store_Error ''iteration test evidence must cover every approved tester''),
        (review_producers e \<noteq> reviewers \<and> \<not> (nonacceptance e \<and> review_producers e \<subseteq> reviewers),
          Store_Error ''iteration review evidence must cover every approved reviewer''),
        (list_ex (\<lambda>i. i \<noteq> it_iteration r) (evidence_iterations e),
          Store_Error (''iteration references must use the record'' @ CHR 0x27 # ''s iteration''))])"

fun commit_chain :: "string \<Rightarrow> work_result list \<Rightarrow> store_error + string" where
  "commit_chain expected [] = Inr expected"
| "commit_chain expected (w # ws) =
     (if wr_input_commit w \<noteq> expected
      then Inl (Store_Error ''iteration work results must form one commit chain'')
      else commit_chain (wr_output_commit w) ws)"

definition check_commits :: "iteration_record \<Rightarrow> iteration_evidence \<Rightarrow> store_error + unit" where
  "check_commits r e =
     ebind (commit_chain (it_input_commit r) (ie_works e)) (\<lambda>final. first_error
       [(final \<noteq> it_output_commit r \<or>
           list_ex (\<lambda>t. tr_input_commit t \<noteq> it_output_commit r) (ie_tests e) \<or>
           list_ex (\<lambda>v. rr_input_commit v \<noteq> it_output_commit r) (ie_reviews e),
          Store_Error ''iteration commits do not match referenced evidence'')])"

definition controller_evidence ::
    "test_report \<Rightarrow> check_status \<times> command_evidence list \<times> criterion_result list \<times> string list \<times> string list" where
  "controller_evidence t =
     (tr_status t, tr_commands t, tr_criteria t, tr_manual_review_criteria t, tr_blockers t)"

definition check_judgements :: "iteration_record \<Rightarrow> iteration_evidence \<Rightarrow> store_error + unit" where
  "check_judgements r e =
     (let first = hd (ie_tests e); manual = set (tr_manual_review_criteria first);
          reviewed = set (concat (map rr_reviewed_criteria (ie_reviews e)));
          found = concat (map rr_findings (ie_reviews e)) in first_error
       [(list_ex (\<lambda>t. controller_evidence t \<noteq> controller_evidence first) (tl (ie_tests e)),
          Store_Error ''iteration test reports disagree on controller-owned evidence''),
        (reviewed \<noteq> manual \<and> \<not> (nonacceptance e \<and> reviewed \<subseteq> manual),
          Store_Error ''iteration reviews must exactly cover manual criteria''),
        (\<not> distinct (map rf_id found), Store_Error ''review finding IDs must be unique across the iteration''),
        (set (it_blocking_finding_ids r) \<noteq> set (map rf_id (filter rf_blocking found)),
          Store_Error ''iteration blocking findings must match all review reports'')])"

definition all_accept :: "iteration_evidence \<Rightarrow> bool" where
  "all_accept e \<longleftrightarrow> list_all (\<lambda>r. rr_verdict r = Verdict_Accept) (ie_reviews e)"

definition check_decision_evidence :: "iteration_record \<Rightarrow> iteration_evidence \<Rightarrow> store_error + unit" where
  "check_decision_evidence r e =
     (let first = hd (ie_tests e); passed = (tr_status first = Check_Passed) in
      case it_decision r of
        Decide_Accept \<Rightarrow> first_error
          [(\<not> passed \<or> \<not> all_accept e, Store_Error ''accepted iteration requires all quality evidence to pass''),
           (isl (resolve_acceptance_results first (ie_reviews e)),
             Store_Error ''accepted iteration has unresolved manual criteria'')]
      | Decide_Revise \<Rightarrow> first_error
          [(list_ex (\<lambda>v. rr_verdict v = Verdict_Fail) (ie_reviews e) \<or> passed \<and> all_accept e,
             Store_Error ''revision decision does not match test and review evidence'')]
      | Decide_Fail \<Rightarrow> first_error
          [(passed \<and> all_accept e, Store_Error ''failure decision cannot replace an acceptance decision'')])"

definition check_iteration_references :: "store \<Rightarrow> loader \<Rightarrow> iteration_record \<Rightarrow> store_error + unit" where
  "check_iteration_references s load r =
     ebind (check_plan_binding s load r) (\<lambda>_.
     ebind (load_evidence load r) (\<lambda>e.
     ebind (check_producers s r e) (\<lambda>_.
     ebind (check_commits r e) (\<lambda>_.
     ebind (check_judgements r e) (\<lambda>_.
       check_decision_evidence r e)))))"

text \<open>The iterations of a final report: contiguous from one, in one chain of commits.\<close>

definition check_records :: "iteration_record list \<Rightarrow> store_error + unit" where
  "check_records records = first_error
     [(map it_iteration records \<noteq> one_to (length records),
        Store_Error ''final report iterations must be contiguous and ordered''),
      (\<not> adjacent (\<lambda>previous current. it_input_commit current = it_output_commit previous) records,
        Store_Error ''final report iteration commits must form one chain'')]"

definition check_completion ::
    "final_report \<Rightarrow> iteration_record \<Rightarrow> test_report list \<Rightarrow> review_report list \<Rightarrow> store_error + unit" where
  "check_completion f final tests reviews =
     (if fr_status f \<noteq> Final_Completed then Inr ()
      else case resolve_acceptance_results (hd tests) reviews of
          Inl _ \<Rightarrow> Inl (Store_Error ''completed final report has unresolved manual criteria'')
        | Inr results \<Rightarrow> first_error
            [(it_decision final \<noteq> Decide_Accept \<or> fr_final_commit f \<noteq> Some (it_output_commit final) \<or>
                fr_acceptance_results f \<noteq> results,
               Store_Error ''completed final report does not match final iteration evidence'')])"

definition check_final_references :: "loader \<Rightarrow> final_report \<Rightarrow> store_error + unit" where
  "check_final_references load f =
     (if fr_iterations f = [] then Inr ()
      else
       ebind (emap load (fr_iterations f)) (\<lambda>loaded.
       ebind (typed ''final report must reference iteration records'' as_iteration loaded) (\<lambda>records.
       ebind (check_records records) (\<lambda>_.
       let final = last records in
       ebind (emap load (it_test_reports final)) (\<lambda>tests.
       ebind (emap load (it_review_reports final)) (\<lambda>reviews.
       ebind (typed ''final iteration test reference is invalid'' as_test tests) (\<lambda>ts.
       ebind (typed ''final iteration review reference is invalid'' as_review reviews) (\<lambda>rs.
         check_completion f final ts rs))))))))"

definition check_references ::
    "store \<Rightarrow> 'b codec \<Rightarrow> 'b disk \<Rightarrow> loader \<Rightarrow> persisted \<Rightarrow> store_error + unit" where
  "check_references s c d load x = (case x of
     Handoff_Artifact h \<Rightarrow> check_handoff_references load h
   | Execution_Artifact r \<Rightarrow> check_execution_references c d load r
   | Iteration_Artifact r \<Rightarrow> check_iteration_references s load r
   | Final_Artifact f \<Rightarrow> check_final_references load f
   | _ \<Rightarrow> Inr ())"

section \<open>Loading\<close>

text \<open>\<open>model.model_validate_json\<close>: the parsed fields of the model of that kind, cleaned and validated.\<close>

definition read_model :: "'b codec \<Rightarrow> artifact_kind \<Rightarrow> 'b \<Rightarrow> persisted option" where
  "read_model c k content = (case cx_parse c k content of
     None \<Rightarrow> None
   | Some x \<Rightarrow> if persisted_kind x \<noteq> k then None
       else (case mk_persisted x of Inl _ \<Rightarrow> None | Inr y \<Rightarrow> Some y))"

text \<open>An \<open>ArtifactIntegrityError\<close> passes; any other \<open>ValueError\<close> becomes one.\<close>

definition as_integrity :: "store_error \<Rightarrow> store_error" where
  "as_integrity e = (case e of
     Store_Error _ \<Rightarrow> Integrity_Error ''artifact context is invalid''
   | Already_Exists _ \<Rightarrow> Integrity_Error ''artifact context is invalid''
   | _ \<Rightarrow> e)"

definition found_artifact :: "'b codec \<Rightarrow> 'b disk \<Rightarrow> artifact_reference \<Rightarrow> store_error + persisted" where
  "found_artifact c d r =
     (let parts = posix_parts (ar_path r) in
      ebind (first_error
        [(ar_kind r \<notin> set artifact_models, Integrity_Error ''unsupported persisted artifact kind'')]) (\<lambda>_.
      ebind (read_regular d parts ''artifact reference is not a regular file'' ''cannot read artifact'') (\<lambda>content.
      ebind (first_error
        [(cx_digest c content \<noteq> ar_sha256 r, Integrity_Error ''artifact digest does not match'')]) (\<lambda>_.
      case read_model c (ar_kind r) content of
        None \<Rightarrow> Inl (Integrity_Error ''artifact content is invalid'')
      | Some x \<Rightarrow> ebind (first_error
          [(artifact_path x \<noteq> parts, Integrity_Error ''artifact is not stored at its canonical path'')])
          (\<lambda>_. Inr x)))))"

fun load_artifact ::
    "store \<Rightarrow> 'b codec \<Rightarrow> 'b disk \<Rightarrow> nat \<Rightarrow> artifact_reference \<Rightarrow> store_error + persisted" where
  "load_artifact s c d 0 r = Inl Recursion_Exceeded"
| "load_artifact s c d (Suc depth) r =
     ebind (found_artifact c d r) (\<lambda>x.
       case validate_artifact_context (store_scope s) x of
         Inl _ \<Rightarrow> Inl (Integrity_Error ''artifact context is invalid'')
       | Inr _ \<Rightarrow> (case check_references s c d (load_artifact s c d depth) x of
           Inl e \<Rightarrow> Inl (as_integrity e)
         | Inr _ \<Rightarrow> Inr x))"

end
