(* ===== verification/Artifact_Writes.thy ===== *)
theory Artifact_Writes
  imports Artifact_Store
begin

text \<open>
  The writing operations of \<open>ArtifactStore\<close>: one artifact, the captured output of a process, the human
  report, and the terminal bundle with its rollback. A file is staged under a hidden unique name, linked
  to its place, which never replaces anything, and its directory is synchronized; the outcomes of these
  calls are arguments. Hidden staging files are not part of the disk: they are removed by every path.
\<close>

section \<open>Directories\<close>

text \<open>\<open>_prepare_parent\<close>, one directory after the other; a missing one is made unless \<open>mkdir\<close> fails.\<close>

fun prepare_from :: "bool \<Rightarrow> string list \<Rightarrow> string list \<Rightarrow> 'b disk \<Rightarrow> 'b disk \<times> (store_error + unit)" where
  "prepare_from mkdir_ok done_parts [] d = (d, Inr ())"
| "prepare_from mkdir_ok done_parts (part # rest) d =
     (let here = done_parts @ [part] in
      case d here of
        None \<Rightarrow> if mkdir_ok then prepare_from mkdir_ok here rest (d(here \<mapsto> Directory)) else (d, Inl Os_Error)
      | Some Directory \<Rightarrow> prepare_from mkdir_ok here rest d
      | _ \<Rightarrow> (d, Inl (Integrity_Error ''artifact parent must be a real directory inside the run'')))"

definition prepare_parent :: "bool \<Rightarrow> string list \<Rightarrow> 'b disk \<Rightarrow> 'b disk \<times> (store_error + unit)" where
  "prepare_parent mkdir_ok parts d = prepare_from mkdir_ok [] (butlast parts) d"

section \<open>One file\<close>

record file_calls =
  fc_mkdir :: bool
  fc_stage :: bool
  fc_link :: bool
  fc_sync :: bool

text \<open>\<open>_write_immutable_file\<close> and the same steps of \<open>write\<close>.\<close>

definition write_file :: "file_calls \<Rightarrow> string list \<Rightarrow> 'b \<Rightarrow> 'b disk \<Rightarrow> 'b disk \<times> (store_error + unit)" where
  "write_file io parts content d =
     (if \<not> fc_stage io then (d, Inl Os_Error)
      else if d parts \<noteq> None then (d, Inl (Already_Exists (join_with ''/'' parts)))
      else if \<not> fc_link io then (d, Inl Os_Error)
      else (d(parts \<mapsto> Regular content), if fc_sync io then Inr () else Inl Os_Error))"

definition file_reference :: "'b codec \<Rightarrow> artifact_kind \<Rightarrow> string list \<Rightarrow> 'b \<Rightarrow> string \<Rightarrow> artifact_reference" where
  "file_reference c k parts content description =
     \<lparr>ar_kind = k, ar_path = join_with ''/'' parts, ar_sha256 = cx_digest c content, ar_description = description\<rparr>"

text \<open>What must hold of an artifact before it is written.\<close>

definition accept_artifact :: "store \<Rightarrow> 'b codec \<Rightarrow> 'b disk \<Rightarrow> nat \<Rightarrow> persisted \<Rightarrow> store_error + unit" where
  "accept_artifact s c d depth x =
     (case validate_artifact_context (store_scope s) x of
        Inl _ \<Rightarrow> Inl (Store_Error ''artifact context is invalid'')
      | Inr _ \<Rightarrow> check_references s c d (load_artifact s c d depth) x)"

definition write_artifact ::
    "store \<Rightarrow> 'b codec \<Rightarrow> file_calls \<Rightarrow> nat \<Rightarrow> persisted \<Rightarrow> string \<Rightarrow> 'b disk \<Rightarrow>
     'b disk \<times> (store_error + artifact_reference)" where
  "write_artifact s c io depth x description d =
     (case accept_artifact s c d depth x of
        Inl e \<Rightarrow> (d, Inl e)
      | Inr _ \<Rightarrow>
          (let parts = artifact_path x; content = cx_render c x in
           case prepare_parent (fc_mkdir io) parts d of
             (d1, Inl e) \<Rightarrow> (d1, Inl e)
           | (d1, Inr _) \<Rightarrow> (case write_file io parts content d1 of
               (d2, Inl e) \<Rightarrow> (d2, Inl e)
             | (d2, Inr _) \<Rightarrow> (d2, Inr (file_reference c (persisted_kind x) parts content description)))))"

section \<open>Captured output\<close>

record output_evidence =
  oe_stdout_path :: string
  oe_stderr_path :: string
  oe_stdout_sha256 :: string
  oe_stderr_sha256 :: string

text \<open>Two files; when the second cannot be written the first is removed, unless that fails, and the
  directory is synchronized again.\<close>

record output_calls =
  oc_stdout :: file_calls
  oc_stderr :: file_calls
  oc_unlink :: bool
  oc_sync :: bool

definition write_pair ::
    "output_calls \<Rightarrow> string list \<Rightarrow> 'b \<Rightarrow> string list \<Rightarrow> 'b \<Rightarrow> 'b disk \<Rightarrow> 'b disk \<times> (store_error + unit)" where
  "write_pair io out out_content err err_content d =
     (case write_file (oc_stdout io) out out_content d of
        (d1, Inl e) \<Rightarrow> (d1, Inl e)
      | (d1, Inr _) \<Rightarrow> (case write_file (oc_stderr io) err err_content d1 of
          (d2, Inr _) \<Rightarrow> (d2, Inr ())
        | (d2, Inl e) \<Rightarrow> if oc_unlink io then (d2(out := None), Inl (if oc_sync io then e else Os_Error))
            else (d2, Inl Os_Error)))"

definition check_output_place :: "store \<Rightarrow> int \<Rightarrow> string \<Rightarrow> string \<Rightarrow> int \<Rightarrow> store_error + unit" where
  "check_output_place s iteration stage agent attempt = first_error
     [(\<not> (1 \<le> iteration \<and> iteration \<le> tp_iteration_limit (sto_plan s)),
        Store_Error ''execution iteration is outside the run limit''),
      (\<not> (1 \<le> attempt \<and> attempt \<le> 99), Store_Error ''execution attempt must be between 1 and 99''),
      (agent \<notin> stage_agents (sto_plan s) stage,
        Store_Error ''execution Agent is outside the declared stage'')]"

definition write_execution_outputs ::
    "store \<Rightarrow> 'b codec \<Rightarrow> output_calls \<Rightarrow> int \<Rightarrow> string \<Rightarrow> string \<Rightarrow> int \<Rightarrow> string \<Rightarrow> string \<Rightarrow> 'b disk \<Rightarrow>
     'b disk \<times> (store_error + output_evidence)" where
  "write_execution_outputs s c io iteration stage agent attempt stdout stderr d =
     (case check_output_place s iteration stage agent attempt of
        Inl e \<Rightarrow> (d, Inl e)
      | Inr _ \<Rightarrow>
          (let out = execution_file iteration stage agent attempt ''.stdout.txt'';
               err = execution_file iteration stage agent attempt ''.stderr.txt'' in
           case prepare_parent (fc_mkdir (oc_stdout io)) out d of
             (d1, Inl e) \<Rightarrow> (d1, Inl e)
           | (d1, Inr _) \<Rightarrow>
               (case write_pair io out (cx_text c stdout) err (cx_text c stderr) d1 of
                  (d2, Inl e) \<Rightarrow> (d2, Inl e)
                | (d2, Inr _) \<Rightarrow> (d2, Inr
                    \<lparr>oe_stdout_path = join_with ''/'' out, oe_stderr_path = join_with ''/'' err,
                     oe_stdout_sha256 = cx_digest c (cx_text c stdout),
                     oe_stderr_sha256 = cx_digest c (cx_text c stderr)\<rparr>))))"

section \<open>The human report\<close>

definition report_text_ok :: "string \<Rightarrow> bool" where
  "report_text_ok content \<longleftrightarrow> py_strip content \<noteq> [] \<and> CHR 0x00 \<notin> set content"

fun as_final :: "persisted \<Rightarrow> final_report option" where
  "as_final (Final_Artifact f) = Some f" | "as_final _ = None"

definition write_markdown ::
    "store \<Rightarrow> 'b codec \<Rightarrow> file_calls \<Rightarrow> nat \<Rightarrow> artifact_reference \<Rightarrow> string \<Rightarrow> 'b disk \<Rightarrow>
     'b disk \<times> (store_error + string)" where
  "write_markdown s c io depth final content d =
     (if ar_kind final \<noteq> Kind_Final_Report
      then (d, Inl (Store_Error ''human report requires a final-report reference''))
      else case load_artifact s c d depth final of
        Inl e \<Rightarrow> (d, Inl e)
      | Inr x \<Rightarrow>
          if as_final x = None then (d, Inl (Store_Error ''human report authority has the wrong type''))
          else if \<not> report_text_ok content then (d, Inl (Store_Error ''human report content is invalid''))
          else (case write_file io [''final-report.md''] (cx_text c content) d of
              (d1, Inl e) \<Rightarrow> (d1, Inl e)
            | (d1, Inr _) \<Rightarrow> (d1, Inr ''final-report.md'')))"

section \<open>The terminal bundle\<close>

record report_bundle =
  bn_reference :: artifact_reference
  bn_markdown_path :: string
  bn_markdown_sha256 :: string
  bn_ledger_path :: string
  bn_ledger_sha256 :: string

text \<open>The calls: staging, the three links in order, the synchronization, and how many of the created
  files the cleanup removes (the last first) before an unlink fails.\<close>

record bundle_calls =
  bc_stage :: bool
  bc_links :: "bool list"
  bc_sync :: bool
  bc_removed :: nat

text \<open>\<open>_require_inside_root\<close> without \<open>must_exist\<close>, then the check that nothing is there.\<close>

definition check_absent :: "'b disk \<Rightarrow> string list \<Rightarrow> store_error + unit" where
  "check_absent d parts = first_error
     [(d parts = Some Escaping \<or> d parts = Some (Dangling True),
        Integrity_Error ''artifact path escapes the run directory''),
      (d parts \<noteq> None, Already_Exists (join_with ''/'' parts))]"

text \<open>\<open>os.link\<close> one after the other: the files created, and whether all were.\<close>

fun link_all :: "bool list \<Rightarrow> (string list \<times> 'b) list \<Rightarrow> 'b disk \<Rightarrow> 'b disk \<times> string list list \<times> bool" where
  "link_all oks [] d = (d, [], True)"
| "link_all oks ((parts, content) # rest) d =
     (if d parts \<noteq> None \<or> \<not> (oks \<noteq> [] \<and> hd oks) then (d, [], False)
      else (let (d1, created, ok) = link_all (tl oks) rest (d(parts \<mapsto> Regular content))
            in (d1, parts # created, ok)))"

definition remove_files :: "string list list \<Rightarrow> 'b disk \<Rightarrow> 'b disk" where
  "remove_files ps d = fold (\<lambda>p e. e(p := None)) ps d"

definition commit_bundle ::
    "bundle_calls \<Rightarrow> (string list \<times> 'b) list \<Rightarrow> 'b disk \<Rightarrow> 'b disk \<times> (store_error + unit)" where
  "commit_bundle io entries d =
     (if \<not> bc_stage io then (d, Inl Os_Error)
      else let (d1, created, linked) = link_all (bc_links io) entries d in
        if linked \<and> bc_sync io then (d1, Inr ())
        else (remove_files (take (bc_removed io) (List.rev created)) d1, Inl Os_Error))"

definition bundle_entries :: "'b codec \<Rightarrow> final_report \<Rightarrow> string \<Rightarrow> 'b \<Rightarrow> (string list \<times> 'b) list" where
  "bundle_entries c report markdown ledger =
     [([''final-report.json''], cx_render c (Final_Artifact report)),
      ([''final-report.md''], cx_text c markdown), ([''budget-ledger.json''], ledger)]"

definition write_bundle ::
    "store \<Rightarrow> 'b codec \<Rightarrow> bundle_calls \<Rightarrow> nat \<Rightarrow> final_report \<Rightarrow> string \<Rightarrow> 'b \<Rightarrow> string \<Rightarrow> 'b disk \<Rightarrow>
     'b disk \<times> (store_error + report_bundle)" where
  "write_bundle s c io depth report markdown ledger description d =
     (let entries = bundle_entries c report markdown ledger in
      case ebind (accept_artifact s c d depth (Final_Artifact report)) (\<lambda>_.
           ebind (first_error
             [(\<not> report_text_ok markdown, Store_Error ''human report content is invalid'')]) (\<lambda>_.
           check_all (check_absent d) (map fst entries))) of
        Inl e \<Rightarrow> (d, Inl e)
      | Inr _ \<Rightarrow> (case commit_bundle io entries d of
          (d1, Inl e) \<Rightarrow> (d1, Inl e)
        | (d1, Inr _) \<Rightarrow> (d1, Inr
            \<lparr>bn_reference = file_reference c Kind_Final_Report [''final-report.json'']
               (cx_render c (Final_Artifact report)) description,
             bn_markdown_path = ''final-report.md'', bn_markdown_sha256 = cx_digest c (cx_text c markdown),
             bn_ledger_path = ''budget-ledger.json'', bn_ledger_sha256 = cx_digest c ledger\<rparr>)))"

text \<open>The rollback removes the three files when each is a regular file with its digest; the number says
  how many removals succeed, and whether the directory is then synchronized.\<close>

definition bundle_files :: "report_bundle \<Rightarrow> (string \<times> string) list" where
  "bundle_files b =
     [(ar_path (bn_reference b), ar_sha256 (bn_reference b)), (bn_markdown_path b, bn_markdown_sha256 b),
      (bn_ledger_path b, bn_ledger_sha256 b)]"

definition check_rollback_target :: "'b codec \<Rightarrow> 'b disk \<Rightarrow> string \<times> string \<Rightarrow> store_error + unit" where
  "check_rollback_target c d target =
     ebind (require_inside (d (posix_parts (fst target)))) (\<lambda>_.
       case d (posix_parts (fst target)) of
         Some (Regular content) \<Rightarrow> first_error
           [(cx_digest c content \<noteq> snd target,
              Integrity_Error ''terminal rollback target differs from the prepared bundle'')]
       | Some Unreadable \<Rightarrow> Inl Os_Error
       | _ \<Rightarrow> Inl (Integrity_Error ''terminal rollback target is not a regular file''))"

definition rollback_bundle ::
    "'b codec \<Rightarrow> nat \<Rightarrow> bool \<Rightarrow> report_bundle \<Rightarrow> 'b disk \<Rightarrow> 'b disk \<times> (store_error + unit)" where
  "rollback_bundle c removals sync_ok b d =
     (case check_all (check_rollback_target c d) (bundle_files b) of
        Inl e \<Rightarrow> (d, Inl e)
      | Inr _ \<Rightarrow>
          (let targets = List.rev (map (posix_parts \<circ> fst) (bundle_files b));
               d1 = remove_files (take removals targets) d
           in (d1, if length targets \<le> removals \<and> sync_ok then Inr () else Inl Os_Error)))"

text \<open>The transition of the controller decides; its error passes through the rollback.\<close>

definition bind_bundle ::
    "'b codec \<Rightarrow> nat \<Rightarrow> bool \<Rightarrow> report_bundle \<Rightarrow> (artifact_reference \<Rightarrow> 'e + 'r) \<Rightarrow> 'b disk \<Rightarrow> 'b disk \<times> ('e + 'r)" where
  "bind_bundle c removals sync_ok b transition d =
     (case transition (bn_reference b) of
        Inr result \<Rightarrow> (d, Inr result)
      | Inl e \<Rightarrow> (fst (rollback_bundle c removals sync_ok b d), Inl e))"

end
