(* ===== verification/Store_Growth.thy ===== *)
theory Store_Growth
  imports Artifact_Writes
begin

text \<open>
  The artifact store only grows: no operation but the rollback of an uncommitted bundle changes or
  removes what is on the disk, and what a reference loads to stays the same on every later disk and at
  every greater depth. Both are views of one append-only history.
\<close>

section \<open>Loading on a larger disk\<close>

definition extends_load :: "loader \<Rightarrow> loader \<Rightarrow> bool" where
  "extends_load f g \<longleftrightarrow> (\<forall>r x. f r = Inr x \<longrightarrow> g r = Inr x)"

lemma extends_loadD: "extends_load f g \<Longrightarrow> f r = Inr x \<Longrightarrow> g r = Inr x"
  by (simp add: extends_load_def)

lemma emap_extends: "extends_load f g \<Longrightarrow> emap f rs = Inr xs \<Longrightarrow> emap g rs = Inr xs"
  by (induction rs arbitrary: xs) (auto simp: ebind_eq_Inr dest: extends_loadD)

lemma map_leD: "d \<subseteq>\<^sub>m d' \<Longrightarrow> d p = Some v \<Longrightarrow> d' p = Some v"
  by (force simp: map_le_def dom_def)

lemma map_leI: "(\<And>p v. d p = Some v \<Longrightarrow> d' p = Some v) \<Longrightarrow> d \<subseteq>\<^sub>m d'"
  by (auto simp: map_le_def dom_def)

lemma digest_grows:
  "d \<subseteq>\<^sub>m d' \<Longrightarrow> validate_file_digest c d p h = Inr () \<Longrightarrow> validate_file_digest c d' p h = Inr ()"
  by (auto simp: validate_file_digest_def ebind_eq_Inr read_regular_Inr dest: map_leD)

lemma found_grows:
  assumes "d \<subseteq>\<^sub>m d'" and "found_artifact c d r = Inr x"
  shows "found_artifact c d' r = Inr x"
proof -
  obtain content where content: "d (posix_parts (ar_path r)) = Some (Regular content)"
    using assms(2) by (auto simp: found_artifact_def Let_def ebind_eq_Inr read_regular_Inr)
  note same = map_leD [OF assms(1) content]
  have "read_regular d' (posix_parts (ar_path r)) a b = read_regular d (posix_parts (ar_path r)) a b" for a b
    using content same by (simp add: read_regular_def)
  then show ?thesis using assms(2) by (simp add: found_artifact_def)
qed

lemma handoff_grows:
  "extends_load f g \<Longrightarrow> check_handoff_references f h = Inr () \<Longrightarrow> check_handoff_references g h = Inr ()"
  by (auto simp: check_handoff_references_def ebind_eq_Inr dest: emap_extends)

lemma execution_grows:
  "extends_load f g \<Longrightarrow> d \<subseteq>\<^sub>m d' \<Longrightarrow> check_execution_references c d f r = Inr () \<Longrightarrow>
     check_execution_references c d' g r = Inr ()"
  by (auto simp: check_execution_references_def check_response_def Let_def ebind_eq_Inr
      dest: digest_grows extends_loadD split: option.splits)

lemma evidence_grows:
  assumes "extends_load f g" and "load_evidence f r = Inr e"
  shows "load_evidence g r = Inr e"
  using assms(2) emap_extends [OF assms(1)] by (simp add: load_evidence_def ebind_eq_Inr) blast

lemma plan_binding_grows:
  "extends_load f g \<Longrightarrow> check_plan_binding s f r = Inr () \<Longrightarrow> check_plan_binding s g r = Inr ()"
  by (auto simp: check_plan_binding_def Let_def ebind_eq_Inr dest: extends_loadD split: option.splits)

lemma iteration_grows:
  "extends_load f g \<Longrightarrow> check_iteration_references s f r = Inr () \<Longrightarrow> check_iteration_references s g r = Inr ()"
  by (auto simp: check_iteration_references_def ebind_eq_Inr dest: evidence_grows plan_binding_grows)

lemma final_grows:
  assumes "extends_load f g" and "check_final_references f r = Inr ()"
  shows "check_final_references g r = Inr ()"
  using assms(2) emap_extends [OF assms(1)]
  by (simp add: check_final_references_def Let_def ebind_eq_Inr split: if_splits) blast

lemma references_grow:
  "extends_load f g \<Longrightarrow> d \<subseteq>\<^sub>m d' \<Longrightarrow> check_references s c d f x = Inr () \<Longrightarrow>
     check_references s c d' g x = Inr ()"
  by (cases x) (simp_all add: check_references_def handoff_grows execution_grows iteration_grows final_grows)

lemma load_artifact_Suc:
  "load_artifact s c d (Suc n) r = Inr x \<longleftrightarrow> found_artifact c d r = Inr x \<and>
     validate_artifact_context (store_scope s) x = Inr () \<and>
     check_references s c d (load_artifact s c d n) x = Inr ()"
proof (cases "found_artifact c d r")
  case (Inr y)
  then show ?thesis
    by (cases "validate_artifact_context (store_scope s) y" rule: sum_unit_cases;
        cases "check_references s c d (load_artifact s c d n) y" rule: sum_unit_cases) auto
qed simp

theorem load_grows_with_disk:
  "d \<subseteq>\<^sub>m d' \<Longrightarrow> n \<le> m \<Longrightarrow> load_artifact s c d n r = Inr x \<Longrightarrow> load_artifact s c d' m r = Inr x"
proof (induction n arbitrary: m r x)
  case (Suc n)
  obtain k where m: "m = Suc k" "n \<le> k" using Suc.prems(2) by (cases m) auto
  have "extends_load (load_artifact s c d n) (load_artifact s c d' k)"
    using Suc.IH [OF Suc.prems(1) m(2)] by (simp add: extends_load_def)
  then show ?case
    using Suc.prems(3) found_grows [OF Suc.prems(1)] references_grow [OF _ Suc.prems(1)]
    unfolding m(1) load_artifact_Suc by blast
qed simp

section \<open>The operations only add\<close>

lemma add_grows: "d p = None \<Longrightarrow> d \<subseteq>\<^sub>m d(p \<mapsto> v)"
  by (rule map_leI) auto

lemma grows_trans: "d \<subseteq>\<^sub>m d1 \<Longrightarrow> d1 \<subseteq>\<^sub>m d2 \<Longrightarrow> d \<subseteq>\<^sub>m d2"
  by (rule map_le_trans)

lemma remove_grows: "d \<subseteq>\<^sub>m d1 \<Longrightarrow> d p = None \<Longrightarrow> d \<subseteq>\<^sub>m d1(p := None)"
  by (rule map_leI) (auto dest: map_leD)

lemma prepare_from_grows: "d \<subseteq>\<^sub>m fst (prepare_from ok ps rest d)"
proof (induction rest arbitrary: ps d)
  case (Cons part rest)
  have "d (ps @ [part]) = None \<Longrightarrow>
      d \<subseteq>\<^sub>m fst (prepare_from ok (ps @ [part]) rest (d(ps @ [part] \<mapsto> Directory)))"
    by (rule grows_trans [OF add_grows Cons.IH])
  then show ?case
    using Cons.IH [of d "ps @ [part]"] by (auto simp: Let_def simp del: fun_upd_apply split: option.splits node.splits)
qed simp

lemma prepare_grows: "prepare_parent ok parts d = (d1, res) \<Longrightarrow> d \<subseteq>\<^sub>m d1"
  unfolding prepare_parent_def by (metis fst_conv prepare_from_grows)

lemma write_file_grows: "write_file io parts b d = (d1, res) \<Longrightarrow> d \<subseteq>\<^sub>m d1"
  by (auto simp: write_file_def intro: add_grows split: if_splits)

lemma write_file_done: "write_file io parts b d = (d1, Inr ()) \<Longrightarrow> d parts = None \<and> d1 = d(parts \<mapsto> Regular b)"
  by (auto simp: write_file_def split: if_splits)

lemma write_artifact_grows: "write_artifact s c io n x t d = (d1, res) \<Longrightarrow> d \<subseteq>\<^sub>m d1"
  by (auto simp: write_artifact_def Let_def dest!: prepare_grows write_file_grows
      intro: grows_trans split: sum.splits prod.splits)

lemma write_pair_grows:
  assumes "write_pair io out a err b d = (d1, res)" shows "d \<subseteq>\<^sub>m d1"
proof -
  obtain d0 r0 where f: "write_file (oc_stdout io) out a d = (d0, r0)" by fastforce
  obtain e0 r1 where g: "write_file (oc_stderr io) err b d0 = (e0, r1)" by fastforce
  have "d \<subseteq>\<^sub>m d0" "d \<subseteq>\<^sub>m e0"
    using write_file_grows [OF f] write_file_grows [OF g] by (auto intro: grows_trans)
  moreover have "r0 = Inr () \<Longrightarrow> d out = None" using f by (auto dest: write_file_done)
  ultimately show ?thesis
    using assms f g by (cases r0; cases r1) (auto simp: write_pair_def remove_grows split: if_splits)
qed

lemma write_outputs_grows: "write_execution_outputs s c io i st a n o1 o2 d = (d1, res) \<Longrightarrow> d \<subseteq>\<^sub>m d1"
  by (auto simp: write_execution_outputs_def Let_def dest!: prepare_grows write_pair_grows
      intro: grows_trans split: sum.splits prod.splits)

lemma write_markdown_grows: "write_markdown s c io n r t d = (d1, res) \<Longrightarrow> d \<subseteq>\<^sub>m d1"
  by (auto simp: write_markdown_def dest!: write_file_grows split: sum.splits prod.splits if_splits)

text \<open>What \<open>os.link\<close> created was not there before.\<close>

lemma link_all_grows:
  "link_all oks entries d = (d1, created, ok) \<Longrightarrow>
     d \<subseteq>\<^sub>m d1 \<and> (\<forall>p \<in> set created. d p = None) \<and> (ok \<longrightarrow> created = map fst entries)"
proof (induction oks entries d arbitrary: d1 created ok rule: link_all.induct)
  case (2 oks parts content rest d)
  show ?case
  proof (cases "d parts \<noteq> None \<or> \<not> (oks \<noteq> [] \<and> hd oks)")
    case False
    then obtain cs where l: "link_all (tl oks) rest (d(parts \<mapsto> Regular content)) = (d1, cs, ok)"
      and cs: "created = parts # cs"
      using "2.prems" by (auto split: prod.splits)
    have ih: "d(parts \<mapsto> Regular content) \<subseteq>\<^sub>m d1" "\<forall>p \<in> set cs. (d(parts \<mapsto> Regular content)) p = None"
      "ok \<longrightarrow> cs = map fst rest"
      using "2.IH" [OF False l] by (auto simp del: fun_upd_apply)
    have "\<forall>p \<in> set cs. d p = None" using ih(2) by (auto split: if_splits)
    moreover have "d \<subseteq>\<^sub>m d1" using False by (intro grows_trans [OF add_grows ih(1)]) simp
    ultimately show ?thesis using False ih(3) cs by auto
  qed (use "2.prems" in auto)
qed simp

lemma remove_files_apply: "remove_files ps d p = (if p \<in> set ps then None else d p)"
  unfolding remove_files_def by (induction ps arbitrary: d) (auto split: if_splits)

lemma remove_files_grows: "d \<subseteq>\<^sub>m d1 \<Longrightarrow> (\<forall>p \<in> set ps. d p = None) \<Longrightarrow> d \<subseteq>\<^sub>m remove_files ps d1"
  by (rule map_leI) (auto simp: remove_files_apply dest: map_leD)

lemma commit_bundle_grows: "commit_bundle io entries d = (d1, res) \<Longrightarrow> d \<subseteq>\<^sub>m d1"
  by (auto simp: commit_bundle_def Let_def dest!: link_all_grows in_set_takeD intro!: remove_files_grows
      split: prod.splits if_splits)

lemma write_bundle_grows: "write_bundle s c io n f m l t d = (d1, res) \<Longrightarrow> d \<subseteq>\<^sub>m d1"
  by (auto simp: write_bundle_def Let_def dest!: commit_bundle_grows split: sum.splits prod.splits)

section \<open>Histories of a store\<close>

inductive artifact_step :: "store \<Rightarrow> 'b codec \<Rightarrow> 'b disk \<Rightarrow> 'b disk \<Rightarrow> bool" for s c where
  artifact: "write_artifact s c io depth x description d = (d', result) \<Longrightarrow> artifact_step s c d d'"
| captured: "write_execution_outputs s c ios iteration stage agent attempt stdout stderr d = (d', evidence) \<Longrightarrow>
    artifact_step s c d d'"
| markdown: "write_markdown s c io depth reference content d = (d', path) \<Longrightarrow> artifact_step s c d d'"
| committed: "write_bundle s c calls depth report content ledger description d = (d', bound) \<Longrightarrow>
    artifact_step s c d d'"

lemma artifact_step_grows: "artifact_step s c d d' \<Longrightarrow> d \<subseteq>\<^sub>m d'"
  by (induction rule: artifact_step.induct)
    (auto dest: write_artifact_grows write_outputs_grows write_markdown_grows write_bundle_grows)

definition load_view :: "store \<Rightarrow> 'b codec \<Rightarrow> 'b disk \<Rightarrow> nat \<times> artifact_reference \<Rightarrow> persisted option" where
  "load_view s c d key = (case load_artifact s c d (fst key) (snd key) of Inl _ \<Rightarrow> None | Inr x \<Rightarrow> Some x)"

interpretation stored_files: append_only "artifact_step s c" "\<lambda>d. d" "\<lambda>a b. a = b" "\<lambda>d. True" for s c
  by unfold_locales (auto dest: artifact_step_grows map_leD)

interpretation stored_artifacts: append_only "artifact_step s c" "load_view s c" "\<lambda>a b. a = b" "\<lambda>d. True" for s c
proof
  fix d d' key x assume a: "artifact_step s c d d'" "load_view s c d key = Some x"
  have "load_artifact s c d (fst key) (snd key) = Inr x"
    using a(2) by (auto simp: load_view_def split: sum.splits)
  from load_grows_with_disk [OF artifact_step_grows [OF a(1)] order.refl this]
  have "load_artifact s c d' (fst key) (snd key) = Inr x" .
  then show "\<exists>y. load_view s c d' key = Some y \<and> x = y"
    by (simp add: load_view_def)
qed auto

text \<open>The artifact store is append-only. Whatever sequence of writes follows, with whatever failures
  of the file system, each file keeps its content, each directory stays, and a reference that loads
  once loads to the same artifact for ever after: the evidence it names is checked again each time and
  is still there.\<close>

theorem stored_artifacts_stay:
  assumes "(artifact_step s c)\<^sup>*\<^sup>* d d'"
  shows "(\<forall>parts node. d parts = Some node \<longrightarrow> d' parts = Some node) \<and>
    (\<forall>depth r x. load_artifact s c d depth r = Inr x \<longrightarrow> load_artifact s c d' depth r = Inr x)"
proof (intro conjI allI impI)
  fix parts node assume "d parts = Some node"
  then show "d' parts = Some node"
    using stored_files.reachable_extends [OF assms TrueI] by simp
next
  fix depth r x assume "load_artifact s c d depth r = Inr x"
  then show "load_artifact s c d' depth r = Inr x"
    using stored_artifacts.reachable_extends [OF assms TrueI, of "(depth, r)" x]
    by (auto simp: load_view_def split: sum.splits)
qed

end
