(* ===== verification/Store_Properties.thy ===== *)
theory Store_Properties
  imports Store_Growth
begin

text \<open>
  What the writing operations promise: an artifact that was written is read back, at its canonical path
  and after any later writes, and the terminal bundle is committed as a whole or not at all and can be
  taken back.
\<close>

section \<open>Canonical paths are read back\<close>

definition path_part :: "string \<Rightarrow> bool" where
  "path_part p \<longleftrightarrow> p \<noteq> [] \<and> hd p \<noteq> CHR ''.'' \<and> CHR ''/'' \<notin> set p"

lemma path_part_append: "path_part p \<Longrightarrow> CHR ''/'' \<notin> set q \<Longrightarrow> path_part (p @ q)"
  by (auto simp: path_part_def)

lemma posix_parts_join:
  assumes "ps \<noteq> []" and "list_all path_part ps"
  shows "posix_parts (join_with ''/'' ps) = ps"
proof -
  obtain p rest where ps: "ps = p # rest" and p: "path_part p" using assms by (cases ps) auto
  have "split_on (CHR ''/'') (join_with ''/'' ps) = ps"
    using split_join [of ps "CHR ''/''"] assms by (auto simp: list_all_iff path_part_def)
  moreover have "\<not> posix_absolute (join_with ''/'' ps)"
    using p by (cases p; cases rest) (auto simp: ps posix_absolute_def path_part_def)
  ultimately show ?thesis
    using assms(2) by (auto simp: posix_parts_def posix_root_def list_all_iff path_part_def intro!: filter_True)
qed

lemma digits_part:
  assumes "list_all is_digit_char s" "s \<noteq> []" shows "path_part s" "CHR ''/'' \<notin> set s"
proof -
  have "\<not> is_digit_char (CHR ''.'')" "\<not> is_digit_char (CHR ''/'')" by code_simp+
  then show "path_part s" "CHR ''/'' \<notin> set s"
    using assms by (cases s; auto simp: path_part_def list_all_iff)+
qed

lemma two_digits_part: "path_part (two_digits n)" "CHR ''/'' \<notin> set (two_digits n)"
proof -
  have "is_digit_char (CHR ''0'')" by code_simp
  then have "list_all is_digit_char (two_digits n)" "two_digits n \<noteq> []"
    using decimal_facts [of "nat n"] by (auto simp: two_digits_def list_all_iff)
  then show "path_part (two_digits n)" "CHR ''/'' \<notin> set (two_digits n)" by (auto dest: digits_part)
qed

lemma ident_part:
  assumes "ident_pattern s" shows "path_part s" "CHR ''/'' \<notin> set s"
proof -
  have "\<not> is_digit_char (CHR ''/'')" "\<not> is_lower (CHR ''/'')" "\<not> is_lower (CHR ''.'')" by code_simp+
  then show "path_part s" "CHR ''/'' \<notin> set s"
    using assms by (auto simp: ident_pattern_def path_part_def list_all_iff split: list.splits)
qed

lemma artifact_file_part: "path_part (artifact_file k)"
  by (cases k) (simp_all add: artifact_file_def path_part_def)

lemma literal_parts: "path_part ''iterations''" "path_part ''agents''" "path_part ''handoffs''"
  "path_part ''executions''" "path_part ''implementation-plan.json''" "path_part ''final-report.json''"
  by code_simp+

lemma execution_file_parts:
  assumes "ident_pattern stage" "ident_pattern agent" "CHR ''/'' \<notin> set suffix"
  shows "list_all path_part (execution_file iteration stage agent attempt suffix)"
  using ident_part [OF assms(1)] ident_part [OF assms(2)] assms(3) literal_parts two_digits_part
  by (auto simp: execution_file_def iteration_directory_def execution_stem_def intro!: path_part_append)

definition producer_ok :: "persisted \<Rightarrow> bool" where
  "producer_ok x \<longleftrightarrow> opt_all (\<lambda>h. ident_pattern (ah_producer h)) (persisted_header x)"

lemma header_producer: "mk_header h = Inr g \<Longrightarrow> ident_pattern (ah_producer g)"
  by (auto simp: mk_header_def clean_then_Inr validate_header_def)

lemma made_producer: "mk_persisted x = Inr y \<Longrightarrow> producer_ok y"
  by (cases x)
    (auto simp: producer_ok_def ebind_eq_Inr mk_implementation_plan_def mk_work_result_def mk_test_report_def
      mk_review_def mk_security_def mk_experience_def mk_iteration_def mk_final_def clean_then_Inr
      clean_implementation_plan_def clean_work_result_def clean_test_report_def clean_review_def
      clean_security_def clean_experience_def clean_iteration_def clean_final_def
      dest!: header_producer)

lemma made_handoff: "remake_handoff h = Inr g \<Longrightarrow> validate_handoff g = Inr ()"
  by (auto simp: remake_handoff_def mk_handoff_def Let_def ebind_eq_Inr)

lemma made_execution: "mk_execution r = Inr q \<Longrightarrow> ident_pattern (xr_stage q) \<and> ident_pattern (xr_agent_id q)"
  by (auto simp: mk_execution_def clean_then_Inr validate_execution_def ebind_eq_Inr execution_identity_fields_def)

lemma handoff_parts:
  "validate_handoff h = Inr () \<Longrightarrow> list_all path_part (artifact_path (Handoff_Artifact h))"
  using two_digits_part ident_part literal_parts
  by (auto simp: artifact_path_def validate_handoff_def iteration_directory_def the_or_def
      intro!: path_part_append split: option.splits)

lemma producer_parts: "producer_ok x \<Longrightarrow> persisted_header x \<noteq> None \<Longrightarrow> list_all path_part (producer_file x)"
  using two_digits_part ident_part literal_parts artifact_file_part
  by (auto simp: producer_file_def producer_ok_def iteration_directory_def)

lemma artifact_path_parts:
  assumes "mk_persisted x = Inr x"
  shows "list_all path_part (artifact_path x)"
  using made_producer [OF assms] assms two_digits_part literal_parts artifact_file_part
  by (cases x) (auto simp: ebind_eq_Inr artifact_path_def iteration_directory_def
      dest!: made_execution made_handoff handoff_parts intro!: execution_file_parts producer_parts)

lemma artifact_path_round:
  assumes "mk_persisted x = Inr x"
  shows "posix_parts (join_with ''/'' (artifact_path x)) = artifact_path x"
proof -
  have "artifact_path x \<noteq> []"
    by (cases x) (auto simp: artifact_path_def iteration_directory_def producer_file_def execution_file_def)
  then show ?thesis by (rule posix_parts_join) (rule artifact_path_parts [OF assms])
qed

section \<open>What was written is read back\<close>

text \<open>The codec of an artifact model: the model reads what it wrote.\<close>

definition codec_ok :: "'b codec \<Rightarrow> bool" where
  "codec_ok c \<longleftrightarrow> (\<forall>x. mk_persisted x = Inr x \<longrightarrow> cx_parse c (persisted_kind x) (cx_render c x) = Some x)"

lemma kind_modelled: "persisted_kind x \<in> set artifact_models"
  by (cases x) (simp_all add: artifact_models_def)

lemma written_found:
  assumes "codec_ok c" and "mk_persisted x = Inr x" and "d (artifact_path x) = Some (Regular (cx_render c x))"
  shows "found_artifact c d (file_reference c (persisted_kind x) (artifact_path x) (cx_render c x) t) = Inr x"
  using assms kind_modelled [of x] artifact_path_round [OF assms(2)]
  by (simp add: found_artifact_def Let_def file_reference_def read_regular_def require_inside_def
      read_model_def codec_ok_def)

lemma write_artifact_done:
  assumes "write_artifact s c io depth x t d = (d', Inr r)"
  shows "validate_artifact_context (store_scope s) x = Inr ()"
    and "check_references s c d (load_artifact s c d depth) x = Inr ()"
    and "d' (artifact_path x) = Some (Regular (cx_render c x))"
    and "r = file_reference c (persisted_kind x) (artifact_path x) (cx_render c x) t"
proof -
  have acc: "accept_artifact s c d depth x = Inr ()"
    using assms by (cases "accept_artifact s c d depth x" rule: sum_unit_cases) (simp_all add: write_artifact_def)
  then show "validate_artifact_context (store_scope s) x = Inr ()"
    "check_references s c d (load_artifact s c d depth) x = Inr ()"
    by (cases "validate_artifact_context (store_scope s) x" rule: sum_unit_cases;
        simp add: accept_artifact_def)+
  obtain d1 p where p: "prepare_parent (fc_mkdir io) (artifact_path x) d = (d1, p)" by fastforce
  obtain d2 w where w: "write_file io (artifact_path x) (cx_render c x) d1 = (d2, w)" by fastforce
  have "p = Inr ()" "w = Inr ()" "d' = d2"
    "r = file_reference c (persisted_kind x) (artifact_path x) (cx_render c x) t"
    using assms acc p w
    by (cases p rule: sum_unit_cases; cases w rule: sum_unit_cases; simp add: write_artifact_def Let_def)+
  then show "d' (artifact_path x) = Some (Regular (cx_render c x))"
    "r = file_reference c (persisted_kind x) (artifact_path x) (cx_render c x) t"
    using write_file_done w by fastforce+
qed

text \<open>What was written is read back. An artifact that its model made, written with success, loads
  from the reference that the write returned as the same artifact: at its canonical path, with its
  digest, in its context and with the evidence it refers to; and so it does after any later writes.\<close>

theorem stored_artifact_loads_back:
  assumes "codec_ok c" and "mk_persisted x = Inr x"
    and "write_artifact s c io depth x t d = (d', Inr r)" and "(artifact_step s c)\<^sup>*\<^sup>* d' d''"
  shows "load_artifact s c d'' (Suc depth) r = Inr x"
proof -
  note w = write_artifact_done [OF assms(3)]
  have le: "d \<subseteq>\<^sub>m d'" by (rule write_artifact_grows [OF assms(3)])
  have "check_references s c d' (load_artifact s c d' depth) x = Inr ()"
    by (rule references_grow [OF _ le w(2)])
      (auto simp: extends_load_def intro: load_grows_with_disk [OF le order.refl])
  then have "load_artifact s c d' (Suc depth) r = Inr x"
    unfolding load_artifact_Suc w(4) using written_found [of c x d', OF assms(1,2) w(3)] w(1) by simp
  then show ?thesis
    using stored_artifacts.reachable_extends [OF assms(4) TrueI, of "(Suc depth, r)" x]
    by (auto simp: load_view_def split: sum.splits)
qed

section \<open>A bundle is committed as a whole\<close>

lemma link_all_outside: "link_all oks entries d = (d1, created, ok) \<Longrightarrow> p \<notin> set created \<Longrightarrow> d1 p = d p"
  by (induction oks entries d arbitrary: d1 created ok rule: link_all.induct)
    (auto split: if_splits prod.splits)

lemma link_all_undo:
  assumes "link_all oks entries d = (d1, created, ok)"
  shows "remove_files created d1 = d"
proof
  fix p show "remove_files created d1 p = d p"
    using link_all_grows [OF assms] link_all_outside [OF assms, of p]
    by (cases "p \<in> set created") (simp_all add: remove_files_apply)
qed

lemma link_all_length: "link_all oks entries d = (d1, created, ok) \<Longrightarrow> length created \<le> length entries"
  by (induction oks entries d arbitrary: d1 created ok rule: link_all.induct)
    (auto split: if_splits prod.splits)

lemma remove_files_cong: "set ps = set qs \<Longrightarrow> remove_files ps d = remove_files qs d"
  by (simp add: remove_files_apply fun_eq_iff)

lemma commit_bundle_cases:
  assumes "commit_bundle io entries d = (d', result)" and "length entries \<le> bc_removed io"
  shows "case result of Inl _ \<Rightarrow> d' = d
    | Inr _ \<Rightarrow> \<exists>oks. link_all oks entries d = (d', map fst entries, True)"
proof (cases "bc_stage io")
  case True
  obtain d1 created ok where l: "link_all (bc_links io) entries d = (d1, created, ok)" by (metis prod_cases3)
  have "remove_files (take (bc_removed io) (List.rev created)) d1 = d"
    using link_all_undo [OF l] link_all_length [OF l] assms(2)
      remove_files_cong [of "List.rev created" created d1] by simp
  then show ?thesis
    using assms(1) True l link_all_grows [OF l] by (auto simp: commit_bundle_def split: if_splits)
qed (use assms in \<open>auto simp: commit_bundle_def\<close>)

lemma three_distinct: "distinct (map fst (bundle_entries c f m l))"
  by (simp add: bundle_entries_def)

lemma link_all_three:
  "link_all oks (bundle_entries c f m l) d = (d', created, True) \<Longrightarrow>
     d' = d([''final-report.json''] \<mapsto> Regular (cx_render c (Final_Artifact f)),
            [''final-report.md''] \<mapsto> Regular (cx_text c m), [''budget-ledger.json''] \<mapsto> Regular l) \<and>
     d [''final-report.json''] = None \<and> d [''final-report.md''] = None \<and> d [''budget-ledger.json''] = None"
  by (auto simp: bundle_entries_def split: if_splits prod.splits)

lemma bundle_paths: "posix_parts ''final-report.json'' = [''final-report.json'']"
  "posix_parts ''final-report.md'' = [''final-report.md'']"
  "posix_parts ''budget-ledger.json'' = [''budget-ledger.json'']"
  by code_simp+

text \<open>The terminal evidence is committed as a whole and can be taken back. When the system calls
  that clean up succeed, a bundle that cannot be written leaves the disk as it was; a bundle that is
  written adds exactly the report, its human form and the budget ledger where nothing was before, and
  when the transition of the controller then fails, the rollback leaves the disk as it was and the
  controller's error is the one that is raised.\<close>

theorem bundle_all_or_nothing:
  assumes "write_bundle s c io depth f m l t d = (d', result)" and "3 \<le> bc_removed io"
  shows "case result of
      Inl _ \<Rightarrow> d' = d
    | Inr b \<Rightarrow> d' = d([''final-report.json''] \<mapsto> Regular (cx_render c (Final_Artifact f)),
            [''final-report.md''] \<mapsto> Regular (cx_text c m), [''budget-ledger.json''] \<mapsto> Regular l) \<and>
        d [''final-report.json''] = None \<and> d [''final-report.md''] = None \<and> d [''budget-ledger.json''] = None \<and>
        (\<forall>transition e. transition (bn_reference b) = Inl e \<longrightarrow>
           bind_bundle c 3 True b transition d' = (d, Inl (e :: 'e)))"
proof -
  obtain d1 r1 where k: "commit_bundle io (bundle_entries c f m l) d = (d1, r1)" by fastforce
  have cs: "case r1 of Inl _ \<Rightarrow> d1 = d
      | Inr _ \<Rightarrow> \<exists>oks. link_all oks (bundle_entries c f m l) d = (d1, map fst (bundle_entries c f m l), True)"
    by (rule commit_bundle_cases [OF k]) (use assms(2) in \<open>simp add: bundle_entries_def\<close>)
  show ?thesis
  proof (cases result)
    case (Inl e)
    then show ?thesis
      using assms(1) k cs by (auto simp: write_bundle_def Let_def split: sum.splits)
  next
    case (Inr b)
    then have r1: "r1 = Inr ()" "d' = d1"
      and b: "b = \<lparr>bn_reference = file_reference c Kind_Final_Report [''final-report.json'']
               (cx_render c (Final_Artifact f)) t,
             bn_markdown_path = ''final-report.md'', bn_markdown_sha256 = cx_digest c (cx_text c m),
             bn_ledger_path = ''budget-ledger.json'', bn_ledger_sha256 = cx_digest c l\<rparr>"
      using assms(1) k by (auto simp: write_bundle_def Let_def split: sum.splits)
    then obtain oks where "link_all oks (bundle_entries c f m l) d = (d', map fst (bundle_entries c f m l), True)"
      using cs by auto
    note files = link_all_three [OF this]
    then have "rollback_bundle c 3 True b d' = (d, Inr ())"
      by (auto simp: rollback_bundle_def bundle_files_def b file_reference_def bundle_paths
          check_rollback_target_def require_inside_def remove_files_apply fun_eq_iff)
    then show ?thesis using files Inr by (auto simp: bind_bundle_def)
  qed
qed

end
