(* ===== verification/Evidence_Chains.thy ===== *)
theory Evidence_Chains
  imports Store_Properties
begin

text \<open>
  What a loaded report refers to: how deep its references go (loading a final report ends within three
  levels), and what the checks of an accepted iteration establish about its evidence.
\<close>

section \<open>Loaded artifacts\<close>

lemma mk_persisted_kind: "mk_persisted x = Inr y \<Longrightarrow> persisted_kind y = persisted_kind x"
  by (cases x) (auto simp: ebind_eq_Inr)

lemma found_made:
  assumes "found_artifact c d r = Inr x"
  shows "mk_persisted x = Inr x" and "persisted_kind x = ar_kind r"
proof -
  obtain content where "read_model c (ar_kind r) content = Some x"
    using assms by (auto simp: found_artifact_def Let_def ebind_eq_Inr split: option.splits)
  then obtain y where y: "mk_persisted y = Inr x" "persisted_kind y = ar_kind r"
    by (auto simp: read_model_def split: option.splits if_splits sum.splits)
  then show "mk_persisted x = Inr x" "persisted_kind x = ar_kind r"
    by (simp_all add: persisteds.stable mk_persisted_kind)
qed

lemma loaded_made:
  assumes "load_artifact s c d n r = Inr x"
  shows "mk_persisted x = Inr x" "persisted_kind x = ar_kind r"
    "validate_artifact_context (store_scope s) x = Inr ()"
    "check_references s c d (load_artifact s c d (n - 1)) x = Inr ()"
proof -
  obtain m where n: "n = Suc m" using assms by (cases n) auto
  then have l: "found_artifact c d r = Inr x" "validate_artifact_context (store_scope s) x = Inr ()"
    "check_references s c d (load_artifact s c d m) x = Inr ()"
    using assms by (simp_all only: load_artifact_Suc)
  then show "mk_persisted x = Inr x" "persisted_kind x = ar_kind r"
    "validate_artifact_context (store_scope s) x = Inr ()"
    "check_references s c d (load_artifact s c d (n - 1)) x = Inr ()"
    using found_made by (simp_all add: n)
qed

text \<open>The kinds whose artifacts refer to nothing.\<close>

definition leaf_kinds :: "artifact_kind list" where
  "leaf_kinds = [Kind_Implementation_Plan, Kind_Work_Result, Kind_Test_Report, Kind_Review_Report,
     Kind_Security_Assessment, Kind_Experience_Assessment]"

lemma made_iteration_leaves:
  assumes "mk_persisted (Iteration_Artifact i) = Inr (Iteration_Artifact i)" and "q \<in> set (iteration_references i)"
  shows "ar_kind q \<in> set leaf_kinds"
proof -
  have "check_decision i = Inr ()"
    using assms(1) by (auto simp: ebind_eq_Inr mk_iteration_def clean_then_Inr validate_iteration_def)
  then have kinds: "opt_all (\<lambda>p. ar_kind p = Kind_Implementation_Plan) (it_plan i)"
    "\<forall>a \<in> set (it_work_results i). ar_kind a = Kind_Work_Result"
    "\<forall>a \<in> set (it_test_reports i). ar_kind a = Kind_Test_Report"
    "\<forall>a \<in> set (it_review_reports i). ar_kind a \<in> set review_artifact_kinds"
    unfolding check_decision_def Let_def first_error_Inr by (simp_all add: list_ex_iff)
  consider "it_plan i = Some q" | "q \<in> set (it_work_results i)" | "q \<in> set (it_test_reports i)"
    | "q \<in> set (it_review_reports i)"
    using assms(2) by (cases "it_plan i") (auto simp: iteration_references_def)
  then show ?thesis
    by cases (use kinds in \<open>auto simp: leaf_kinds_def review_artifact_kinds_def\<close>)
qed

lemma made_final_iterations:
  assumes "mk_persisted (Final_Artifact f) = Inr (Final_Artifact f)" and "q \<in> set (fr_iterations f)"
  shows "ar_kind q = Kind_Iteration_Record"
proof -
  have "check_final f = Inr ()"
    using assms(1) by (auto simp: ebind_eq_Inr mk_final_def clean_then_Inr validate_final_def)
  then show ?thesis using assms(2) by (auto simp: check_final_def Let_def list_ex_iff)
qed

section \<open>How deep a report is\<close>

text \<open>Whatever the loader, the references of an iteration record concern leaves only.\<close>

lemma iteration_cong:
  assumes "mk_persisted (Iteration_Artifact i) = Inr (Iteration_Artifact i)"
    and "\<And>q. ar_kind q \<in> set leaf_kinds \<Longrightarrow> f q = g q"
  shows "check_iteration_references s f i = check_iteration_references s g i"
proof -
  have same: "f q = g q" if "q \<in> set (iteration_references i)" for q
    using assms(2) made_iteration_leaves [OF assms(1) that] by simp
  have "emap f (it_work_results i) = emap g (it_work_results i)"
    "emap f (it_test_reports i) = emap g (it_test_reports i)"
    "emap f (it_review_reports i) = emap g (it_review_reports i)"
    by (rule emap_cong; rule same; simp add: iteration_references_def)+
  moreover have "check_plan_binding s f i = check_plan_binding s g i"
  proof (cases "it_plan i")
    case (Some q)
    then have "f q = g q" by (intro same) (simp add: iteration_references_def)
    then show ?thesis by (simp add: check_plan_binding_def Some)
  qed (simp add: check_plan_binding_def)
  ultimately show ?thesis by (simp add: check_iteration_references_def load_evidence_def)
qed

lemma load_cong:
  assumes "\<And>x. found_artifact c d r = Inr x \<Longrightarrow>
      check_references s c d (load_artifact s c d m) x = check_references s c d (load_artifact s c d n) x"
  shows "load_artifact s c d (Suc m) r = load_artifact s c d (Suc n) r"
proof (cases "found_artifact c d r")
  case (Inr x)
  then show ?thesis
    using assms [OF Inr] by (cases "validate_artifact_context (store_scope s) x") simp_all
qed simp

lemma leaf_depth:
  assumes "ar_kind r \<in> set leaf_kinds"
  shows "load_artifact s c d (Suc m) r = load_artifact s c d (Suc 0) r"
proof (rule load_cong)
  fix x assume "found_artifact c d r = Inr x"
  then have "persisted_kind x \<in> set leaf_kinds" using found_made(2) assms by metis
  then show "check_references s c d (load_artifact s c d m) x =
      check_references s c d (load_artifact s c d 0) x"
    by (cases x) (simp_all add: leaf_kinds_def check_references_def)
qed

lemma iteration_depth:
  assumes "ar_kind r = Kind_Iteration_Record"
  shows "load_artifact s c d (Suc (Suc m)) r = load_artifact s c d (Suc (Suc 0)) r"
proof (rule load_cong)
  fix x assume f: "found_artifact c d r = Inr x"
  then obtain i where x: "x = Iteration_Artifact i"
    using found_made(2) [OF f] assms by (cases x) auto
  show "check_references s c d (load_artifact s c d (Suc m)) x =
      check_references s c d (load_artifact s c d (Suc 0)) x"
    unfolding x check_references_def persisted.case
    by (rule iteration_cong) (use found_made(1) [OF f] x leaf_depth in auto)
qed

text \<open>The records that a loader gives for the iterations of a final report are made.\<close>

definition gives_made :: "loader \<Rightarrow> bool" where
  "gives_made f \<longleftrightarrow> (\<forall>q x. f q = Inr x \<longrightarrow> mk_persisted x = Inr x)"

lemma load_gives_made: "gives_made (load_artifact s c d n)"
  by (auto simp: gives_made_def dest: loaded_made)

lemma typed_members: "typed m as_iteration xs = Inr is \<Longrightarrow> i \<in> set is \<Longrightarrow> Iteration_Artifact i \<in> set xs"
proof (induction xs arbitrary: "is")
  case (Cons x xs)
  then show ?case
    by (cases x) (auto simp: typed_def split: option.splits)
qed (simp add: typed_def)

lemma final_cong:
  assumes "mk_persisted (Final_Artifact f) = Inr (Final_Artifact f)" and "gives_made g"
    and "\<And>q. ar_kind q \<in> set leaf_kinds \<union> {Kind_Iteration_Record} \<Longrightarrow> g q = h q"
  shows "check_final_references g f = check_final_references h f"
proof -
  have e: "emap g (fr_iterations f) = emap h (fr_iterations f)"
    by (rule emap_cong) (simp add: assms(3) made_final_iterations [OF assms(1)])
  have "emap g (it_test_reports i) = emap h (it_test_reports i) \<and>
      emap g (it_review_reports i) = emap h (it_review_reports i)"
    if xs: "emap g (fr_iterations f) = Inr xs" "Iteration_Artifact i \<in> set xs" for xs i
  proof -
    obtain q where "g q = Inr (Iteration_Artifact i)" using emap_source [OF xs] by auto
    then have "mk_persisted (Iteration_Artifact i) = Inr (Iteration_Artifact i)"
      using assms(2) unfolding gives_made_def by blast
    note leaves = made_iteration_leaves [OF this]
    show ?thesis
      by (intro conjI emap_cong; rule assms(3); use leaves in \<open>simp add: iteration_references_def\<close>)
  qed
  then have last: "emap g (it_test_reports (last is)) = emap h (it_test_reports (last is)) \<and>
      emap g (it_review_reports (last is)) = emap h (it_review_reports (last is))"
    if "emap g (fr_iterations f) = Inr xs" "typed m as_iteration xs = Inr is" "is \<noteq> []" for xs m "is"
    using that typed_members [OF that(2)] last_in_set by blast
  show ?thesis
  proof (cases "fr_iterations f = []")
    case False
    show ?thesis
    proof (cases "emap g (fr_iterations f)")
      case (Inr xs)
      then have "xs \<noteq> []" using False by (cases "fr_iterations f") (auto simp: ebind_eq_Inr)
      then have "typed m as_iteration xs = Inr is \<Longrightarrow> is \<noteq> []" for m "is"
        by (cases xs) (auto simp: typed_def split: option.splits)
      then show ?thesis
        using False Inr e last [OF Inr]
        by (cases "typed ''final report must reference iteration records'' as_iteration xs")
          (auto simp: check_final_references_def Let_def)
    qed (use False e in \<open>simp add: check_final_references_def\<close>)
  qed (simp add: check_final_references_def)
qed

lemma final_depth:
  assumes "ar_kind r = Kind_Final_Report"
  shows "load_artifact s c d (Suc (Suc (Suc m))) r = load_artifact s c d (Suc (Suc (Suc 0))) r"
proof (rule load_cong)
  fix x assume f: "found_artifact c d r = Inr x"
  then obtain t where x: "x = Final_Artifact t"
    using found_made(2) [OF f] assms by (cases x) auto
  have "load_artifact s c d (Suc (Suc m)) q = load_artifact s c d (Suc (Suc 0)) q"
    if "ar_kind q \<in> set leaf_kinds \<union> {Kind_Iteration_Record}" for q
    using that leaf_depth [of q s c d "Suc m"] leaf_depth [of q s c d "Suc 0"] iteration_depth [of q s c d m]
    by auto
  then show "check_references s c d (load_artifact s c d (Suc (Suc m))) x =
      check_references s c d (load_artifact s c d (Suc (Suc 0))) x"
    unfolding x check_references_def persisted.case
    by (intro final_cong load_gives_made) (use found_made(1) [OF f] x in auto)
qed

text \<open>A check raises the recursion error only when its loader does.\<close>

definition never_exceeded :: "store_error + 'a \<Rightarrow> bool" where
  "never_exceeded m \<longleftrightarrow> m \<noteq> Inl Recursion_Exceeded"

lemma never_exceeded_ebind:
  "never_exceeded m \<Longrightarrow> (\<And>x. m = Inr x \<Longrightarrow> never_exceeded (f x)) \<Longrightarrow> never_exceeded (ebind m f)"
  by (cases m) (auto simp: never_exceeded_def)

lemma never_exceeded_first:
  "list_all (\<lambda>g. snd g \<noteq> Recursion_Exceeded) gs \<Longrightarrow> never_exceeded (first_error gs)"
  unfolding never_exceeded_def by (induction gs rule: first_error.induct) (auto simp: first_error.simps)

lemma never_exceeded_emap: "(\<And>q. q \<in> set qs \<Longrightarrow> never_exceeded (f q)) \<Longrightarrow> never_exceeded (emap f qs)"
  by (induction qs) (auto simp: never_exceeded_def ebind_eq_Inl)

lemma never_exceeded_typed: "never_exceeded (typed m v xs)"
  by (simp add: typed_def never_exceeded_def split: option.splits)

lemma never_exceeded_result: "never_exceeded (Inr x)" "e \<noteq> Recursion_Exceeded \<Longrightarrow> never_exceeded (Inl e)"
  by (simp_all add: never_exceeded_def)

lemmas never_exceeded_intros =
  never_exceeded_ebind never_exceeded_first never_exceeded_emap never_exceeded_typed never_exceeded_result

lemma found_never_exceeded: "never_exceeded (found_artifact c d r)"
  by (auto simp: found_artifact_def Let_def read_regular_def require_inside_def
      intro!: never_exceeded_intros split: option.splits node.splits)

lemma load_never_exceeded:
  assumes "\<And>x. found_artifact c d r = Inr x \<Longrightarrow> never_exceeded (check_references s c d (load_artifact s c d n) x)"
  shows "never_exceeded (load_artifact s c d (Suc n) r)"
  unfolding load_artifact.simps
  by (rule never_exceeded_ebind [OF found_never_exceeded])
    (use assms in \<open>auto simp: never_exceeded_def as_integrity_def split: sum.splits store_error.splits\<close>)

lemma leaf_never_exceeded:
  assumes "ar_kind r \<in> set leaf_kinds"
  shows "never_exceeded (load_artifact s c d (Suc n) r)"
proof (rule load_never_exceeded)
  fix x assume "found_artifact c d r = Inr x"
  then have "persisted_kind x \<in> set leaf_kinds" using found_made(2) assms by metis
  then show "never_exceeded (check_references s c d (load_artifact s c d n) x)"
    by (cases x) (simp_all add: leaf_kinds_def check_references_def never_exceeded_def)
qed

lemma commit_chain_never: "never_exceeded (commit_chain e ws)"
  by (induction ws arbitrary: e) (simp_all add: never_exceeded_def)

lemma iteration_never_exceeded:
  assumes "ar_kind r = Kind_Iteration_Record"
  shows "never_exceeded (load_artifact s c d (Suc (Suc n)) r)"
proof (rule load_never_exceeded)
  fix x assume f: "found_artifact c d r = Inr x"
  then obtain i where x: "x = Iteration_Artifact i"
    using found_made(2) [OF f] assms by (cases x) auto
  have leaf: "never_exceeded (load_artifact s c d (Suc n) q)" if "q \<in> set (iteration_references i)" for q
    using leaf_never_exceeded made_iteration_leaves [OF _ that] found_made(1) [OF f] x by simp
  have "never_exceeded (check_plan_binding s (load_artifact s c d (Suc n)) i)"
    using leaf unfolding check_plan_binding_def Let_def iteration_references_def
    by (cases "it_plan i") (auto intro!: never_exceeded_intros simp del: load_artifact.simps)
  moreover have "never_exceeded (load_evidence (load_artifact s c d (Suc n)) i)"
    using leaf unfolding load_evidence_def iteration_references_def
    by (auto intro!: never_exceeded_intros simp del: load_artifact.simps)
  moreover have "never_exceeded (check_producers s i e)" "never_exceeded (check_commits i e)"
    "never_exceeded (check_judgements i e)" "never_exceeded (check_decision_evidence i e)" for e
    unfolding check_producers_def check_commits_def check_judgements_def check_decision_evidence_def Let_def
    by (auto intro!: never_exceeded_intros commit_chain_never split: iteration_decision.splits)
  ultimately show "never_exceeded (check_references s c d (load_artifact s c d (Suc n)) x)"
    unfolding x check_references_def persisted.case check_iteration_references_def
    by (intro never_exceeded_ebind)
qed

lemma typed_nonempty: "typed m v xs = Inr ys \<Longrightarrow> xs \<noteq> [] \<Longrightarrow> ys \<noteq> []"
  by (cases xs) (auto simp: typed_def split: option.splits)

lemma emap_length: "emap f xs = Inr ys \<Longrightarrow> length ys = length xs"
  by (induction xs arbitrary: ys) (auto simp: ebind_eq_Inr)

text \<open>The records of a final report: loaded, made, and with references to leaves.\<close>

lemma final_records:
  assumes "emap (load_artifact s c d n) (fr_iterations f) = Inr xs" and "fr_iterations f \<noteq> []"
    and "typed m as_iteration xs = Inr records"
  shows "records \<noteq> []"
    and "mk_persisted (Iteration_Artifact (last records)) = Inr (Iteration_Artifact (last records))"
    and "q \<in> set (iteration_references (last records)) \<Longrightarrow> ar_kind q \<in> set leaf_kinds"
proof -
  show ne: "records \<noteq> []"
    by (rule typed_nonempty [OF assms(3)]) (use emap_length [OF assms(1)] assms(2) in auto)
  then have "Iteration_Artifact (last records) \<in> set xs" by (intro typed_members [OF assms(3)] last_in_set)
  then obtain r where "load_artifact s c d n r = Inr (Iteration_Artifact (last records))"
    using emap_source [OF assms(1)] by blast
  then show m: "mk_persisted (Iteration_Artifact (last records)) = Inr (Iteration_Artifact (last records))"
    by (rule loaded_made)
  show "q \<in> set (iteration_references (last records)) \<Longrightarrow> ar_kind q \<in> set leaf_kinds"
    by (rule made_iteration_leaves [OF m])
qed

lemma final_never_exceeded:
  assumes "ar_kind r = Kind_Final_Report"
  shows "never_exceeded (load_artifact s c d (Suc (Suc (Suc n))) r)"
proof (rule load_never_exceeded)
  fix x assume fd: "found_artifact c d r = Inr x"
  then obtain f where x: "x = Final_Artifact f"
    using found_made(2) [OF fd] assms by (cases x) auto
  let ?load = "load_artifact s c d (Suc (Suc n))"
  have iterations: "never_exceeded (?load q)" if "q \<in> set (fr_iterations f)" for q
    using iteration_never_exceeded made_final_iterations [OF _ that] found_made(1) [OF fd] x by simp
  have last: "never_exceeded (?load q)"
    if "emap ?load (fr_iterations f) = Inr xs" "fr_iterations f \<noteq> []" "typed m as_iteration xs = Inr records"
      "q \<in> set (it_test_reports (last records)) \<union> set (it_review_reports (last records))"
    for xs m records q
    by (rule leaf_never_exceeded, rule final_records(3) [OF that(1-3)])
      (use that(4) in \<open>auto simp: iteration_references_def\<close>)
  have "never_exceeded (check_records records)" "never_exceeded (check_completion f i ts rs)" for records i ts rs
    unfolding check_records_def check_completion_def
    by (auto intro!: never_exceeded_intros split: sum.splits)
  then show "never_exceeded (check_references s c d ?load x)"
    unfolding x check_references_def persisted.case check_final_references_def Let_def
    using iterations last
    by (auto intro!: never_exceeded_intros simp del: load_artifact.simps)
qed

text \<open>Loading a final report always ends, after at most three levels of references: report, iteration
  records, and the work, test and review artifacts that refer to nothing. A deeper recursion limit
  gives the same result, and the limit is never exceeded, whatever files the run directory holds.\<close>

theorem final_report_depth:
  assumes "ar_kind r = Kind_Final_Report"
  shows "load_artifact s c d (3 + k) r = load_artifact s c d 3 r \<and>
    load_artifact s c d (3 + k) r \<noteq> Inl Recursion_Exceeded"
proof -
  have "3 + k = Suc (Suc (Suc k))" "(3 :: nat) = Suc (Suc (Suc 0))" by simp_all
  then show ?thesis
    using final_depth [OF assms, of s c d k] final_never_exceeded [OF assms, of s c d k]
    by (simp only: never_exceeded_def) simp
qed

section \<open>The evidence under a completed report\<close>

lemma typed_Cons:
  "typed m v (x # xs) = Inr ys \<longleftrightarrow> (\<exists>z zs. v x = Some z \<and> typed m v xs = Inr zs \<and> ys = z # zs)"
  by (auto simp: typed_def split: option.splits)

lemma typed_Nil: "typed m v [] = Inr ys \<longleftrightarrow> ys = []"
  by (auto simp: typed_def)

lemma typed_iterations: "typed m as_iteration xs = Inr ys \<Longrightarrow> xs = map Iteration_Artifact ys"
  by (induction xs arbitrary: ys) (auto simp: typed_Cons typed_Nil elim: as_iteration.elims)

lemma typed_works: "typed m as_work xs = Inr ys \<Longrightarrow> xs = map Work_Artifact ys"
  by (induction xs arbitrary: ys) (auto simp: typed_Cons typed_Nil elim: as_work.elims)

lemma typed_tests: "typed m as_test xs = Inr ys \<Longrightarrow> xs = map Test_Artifact ys"
  by (induction xs arbitrary: ys) (auto simp: typed_Cons typed_Nil elim: as_test.elims)

lemma typed_message: "typed m v xs = Inr ys \<Longrightarrow> typed m' v xs = Inr ys"
  by (simp add: typed_def split: option.splits)

lemma typed_reviews: "typed m as_review xs = Inr ys \<Longrightarrow> y \<in> set ys \<Longrightarrow> \<exists>x \<in> set xs. as_review x = Some y"
  by (induction xs arbitrary: ys) (auto simp: typed_Cons typed_Nil)

lemma load_evidence_facts:
  assumes "load_evidence f i = Inr e"
  shows "emap f (it_test_reports i) = Inr (map Test_Artifact (ie_tests e))"
    and "\<exists>xs. emap f (it_review_reports i) = Inr xs \<and> typed m as_review xs = Inr (ie_reviews e)"
  using assms by (auto simp: load_evidence_def ebind_eq_Inr dest: typed_tests typed_message)

lemma made_test: "mk_persisted (Test_Artifact t) = Inr (Test_Artifact t) \<Longrightarrow> validate_test_report t = Inr ()"
  by (auto simp: ebind_eq_Inr mk_test_report_def clean_then_Inr)

lemma made_review_accept:
  assumes "mk_persisted x = Inr x" and "as_review x = Some v" and "rr_verdict v = Verdict_Accept"
  shows "blocking_findings v = []"
proof -
  have "validate_review v = Inr ()"
    using assms(1,2) by (cases x)
      (auto simp: ebind_eq_Inr mk_review_def mk_security_def mk_experience_def clean_then_Inr
        validate_security_def validate_experience_def)
  then show ?thesis using assms(3) by (auto simp: validate_review_def ebind_eq_Inr check_verdict_def Let_def)
qed

text \<open>An accepted iteration: every approved Agent gave its evidence on the output commit, and all of it
  is positive.\<close>

lemma accepted_evidence:
  assumes "check_producers s i e = Inr ()" and "check_commits i e = Inr ()" and "check_judgements i e = Inr ()"
    and "check_decision_evidence i e = Inr ()" and "it_decision i = Decide_Accept" and "ie_tests e \<noteq> []"
  shows "work_producers e = agents_with s {Implementation, Integration}"
    and "test_producers e = expected_testers s" and "review_producers e = agents_with s {Review}"
    and "commit_chain (it_input_commit i) (ie_works e) = Inr (it_output_commit i)"
    and "t \<in> set (ie_tests e) \<Longrightarrow> tr_input_commit t = it_output_commit i \<and> tr_status t = Check_Passed"
    and "v \<in> set (ie_reviews e) \<Longrightarrow> rr_input_commit v = it_output_commit i \<and> rr_verdict v = Verdict_Accept"
proof -
  obtain first rest where ts: "ie_tests e = first # rest" using assms(6) by (cases "ie_tests e") auto
  have first: "tr_status first = Check_Passed" and accept: "all_accept e"
    using assms(4,5) ts by (auto simp: check_decision_evidence_def Let_def)
  have passed: "t \<in> set (ie_tests e) \<Longrightarrow> tr_status t = Check_Passed" for t
    using assms(3) first unfolding ts
    by (auto simp: check_judgements_def Let_def ts controller_evidence_def list_ex_iff)
  then have positive: "\<not> nonacceptance e" by (auto simp: nonacceptance_def list_ex_iff)
  show "work_producers e = agents_with s {Implementation, Integration}"
    "test_producers e = expected_testers s" "review_producers e = agents_with s {Review}"
    using assms(1) positive by (simp_all add: check_producers_def Let_def)
  show "commit_chain (it_input_commit i) (ie_works e) = Inr (it_output_commit i)"
    using assms(2) by (auto simp: check_commits_def ebind_eq_Inr)
  show "t \<in> set (ie_tests e) \<Longrightarrow> tr_input_commit t = it_output_commit i \<and> tr_status t = Check_Passed"
    using assms(2) passed by (auto simp: check_commits_def ebind_eq_Inr list_ex_iff)
  show "v \<in> set (ie_reviews e) \<Longrightarrow> rr_input_commit v = it_output_commit i \<and> rr_verdict v = Verdict_Accept"
    using assms(2) accept by (auto simp: check_commits_def ebind_eq_Inr list_ex_iff all_accept_def list_all_iff)
qed

end
