(* ===== verification/Finished_Run.thy ===== *)
theory Finished_Run
  imports Artifact_Writes
begin

text \<open>
  A finished run as an example: three writers in a chain of commits, a tester, one accepted iteration
  and the completed report, with the files they are stored in. The codec keeps an artifact as its own
  text, and one digest serves all files.
\<close>

definition demo_text_codec :: "(persisted + string) codec" where
  "demo_text_codec =
     \<lparr>cx_render = Inl, cx_parse = (\<lambda>k b. case b of Inl x \<Rightarrow> Some x | Inr _ \<Rightarrow> None),
      cx_digest = (\<lambda>b. replicate 64 (CHR ''d'')), cx_text = Inr\<rparr>"

definition demo_run_brief :: task_brief where
  "demo_run_brief =
     \<lparr>tb_run_id = ''run-1'', tb_title = ''t'', tb_source_request = ''r'', tb_requirements = [''q''],
      tb_acceptance_criteria = [\<lparr>ac_id = ''AC-1'', ac_description = ''d'', ac_verification = ''v'',
        ac_review_boundaries = []\<rparr>],
      tb_product_definition = None, tb_constraints = [], tb_assumptions = [], tb_open_questions = [],
      tb_confirmed = True\<rparr>"

definition demo_run_store :: store where
  "demo_run_store = \<lparr>sto_brief = demo_run_brief, sto_plan = demo_plan\<rparr>"

definition demo_commit :: "char \<Rightarrow> string" where
  "demo_commit c = replicate 40 c"

definition demo_header :: "string \<Rightarrow> artifact_header" where
  "demo_header producer = \<lparr>ah_schema_version = 15, ah_run_id = ''run-1'', ah_team_id = ''adaptive'',
     ah_producer = producer, ah_created_at = Aware 0 0\<rparr>"

definition demo_work :: "string \<Rightarrow> char \<Rightarrow> char \<Rightarrow> persisted" where
  "demo_work producer a b = Work_Artifact
     \<lparr>wr_header = demo_header producer, wr_iteration = 1, wr_input_commit = demo_commit a,
      wr_output_commit = demo_commit b, wr_summary = ''s'', wr_completed_tasks = [''t''],
      wr_changed_files = [''src/'' @ producer], wr_unresolved_issues = []\<rparr>"

definition demo_criterion :: criterion_result where
  "demo_criterion = \<lparr>cr_criterion_id = ''AC-1'', cr_status = Check_Passed, cr_command_ids = [''CHECK_UNIT''],
     cr_detail = ''d''\<rparr>"

definition demo_test :: persisted where
  "demo_test = Test_Artifact
     \<lparr>tr_header = demo_header ''tests'', tr_iteration = 1, tr_input_commit = demo_commit (CHR ''3''),
      tr_status = Check_Passed,
      tr_commands = [\<lparr>ce_id = ''CHECK_UNIT'', ce_argv = [''pytest''], ce_criterion_ids = [''AC-1''],
        ce_exit_code = Some 0, ce_timed_out = False, ce_duration_ms = 1, ce_stdout_path = ''o'',
        ce_stderr_path = ''e'', ce_stdout_tail = [], ce_stderr_tail = [], ce_stdout_truncated = False,
        ce_stderr_truncated = False, ce_summary = []\<rparr>],
      tr_criteria = [demo_criterion], tr_manual_review_criteria = [], tr_findings = [], tr_blockers = [],
      tr_summary = ''s''\<rparr>"

definition demo_reference :: "persisted \<Rightarrow> artifact_reference" where
  "demo_reference x = file_reference demo_text_codec (persisted_kind x) (artifact_path x) (Inl x) []"

definition demo_works :: "persisted list" where
  "demo_works = [demo_work ''api'' (CHR ''0'') (CHR ''1''), demo_work ''web'' (CHR ''1'') (CHR ''2''),
     demo_work ''merge'' (CHR ''2'') (CHR ''3'')]"

definition demo_iteration :: persisted where
  "demo_iteration = Iteration_Artifact
     \<lparr>it_header = demo_header ''controller'', it_iteration = 1, it_input_commit = demo_commit (CHR ''0''),
      it_output_commit = demo_commit (CHR ''3''), it_plan = None,
      it_plan_sha256 = Some (replicate 64 (CHR ''c'')), it_work_results = map demo_reference demo_works,
      it_test_reports = [demo_reference demo_test], it_review_reports = [], it_decision = Decide_Accept,
      it_blocking_finding_ids = [], it_blocking_reasons = [], it_resolved_finding_ids = [],
      it_summary = ''s''\<rparr>"

definition demo_final_report :: final_report where
  "demo_final_report =
     \<lparr>fr_header = demo_header ''controller'', fr_software_version = None, fr_status = Final_Completed,
      fr_termination_reason = ''accepted'', fr_final_commit = Some (demo_commit (CHR ''3'')),
      fr_iterations = [demo_reference demo_iteration], fr_acceptance_results = [demo_criterion],
      fr_unresolved_findings = [], fr_known_limitations = [], fr_summary = ''s''\<rparr>"

definition demo_final :: persisted where
  "demo_final = Final_Artifact demo_final_report"

text \<open>The directories and the files before the final report is written, and after.\<close>

definition demo_evidence_disk :: "(persisted + string) disk" where
  "demo_evidence_disk = map_of
     (map (\<lambda>x. (artifact_path x, Regular (Inl x))) (demo_iteration # demo_test # demo_works))"

definition demo_calls :: file_calls where
  "demo_calls = \<lparr>fc_mkdir = True, fc_stage = True, fc_link = True, fc_sync = True\<rparr>"

definition demo_run_disk :: "(persisted + string) disk" where
  "demo_run_disk = fst (write_artifact demo_run_store demo_text_codec demo_calls (Suc (Suc 0)) demo_final []
     demo_evidence_disk)"

lemma demo_made: "mk_persisted demo_final = Inr demo_final" "mk_persisted demo_iteration = Inr demo_iteration"
  by code_simp+

lemma demo_final_written:
  "snd (write_artifact demo_run_store demo_text_codec demo_calls (Suc (Suc 0)) demo_final [] demo_evidence_disk)
     = Inr (demo_reference demo_final)"
  by code_simp

lemma demo_run_written:
  "write_artifact demo_run_store demo_text_codec demo_calls (Suc (Suc 0)) demo_final [] demo_evidence_disk =
     (demo_run_disk, Inr (demo_reference demo_final))"
  using demo_final_written by (simp add: demo_run_disk_def prod_eq_iff)

end
