(* ===== verification/Completed_Reports.thy ===== *)
theory Completed_Reports
  imports Evidence_Chains Finished_Run
begin

text \<open>
  From a completed final report down to the commands that passed: whatever files a run directory
  holds, a report that loads as completed stands on accepted evidence of every approved Agent for the
  commit it names.
\<close>

section \<open>What the checks of the last iteration establish\<close>

lemma load_deeper: "load_artifact s c d m r = Inr x \<Longrightarrow> m \<le> n \<Longrightarrow> load_artifact s c d n r = Inr x"
  by (rule load_grows_with_disk [OF map_le_refl])

lemma deeper_extends: "m \<le> n \<Longrightarrow> extends_load (load_artifact s c d m) (load_artifact s c d n)"
  by (auto simp: extends_load_def intro: load_deeper)

lemma completed_checks:
  assumes "check_final_references g f = Inr ()" and "fr_status f = Final_Completed" and "fr_iterations f \<noteq> []"
  obtains records ts rs results where
    "emap g (fr_iterations f) = Inr (map Iteration_Artifact records)" "records \<noteq> []"
    "map it_iteration records = one_to (length records)"
    "adjacent (\<lambda>a b. it_input_commit b = it_output_commit a) records"
    "emap g (it_test_reports (last records)) = Inr (map Test_Artifact ts)"
    "emap g (it_review_reports (last records)) = Inr rs"
    "it_decision (last records) = Decide_Accept"
    "fr_final_commit f = Some (it_output_commit (last records))"
    "\<exists>m reviews. typed m as_review rs = Inr reviews \<and>
       resolve_acceptance_results (hd ts) reviews = Inr (fr_acceptance_results f)"
proof -
  obtain loaded records tests reviews ts vs where l: "emap g (fr_iterations f) = Inr loaded"
    "typed ''final report must reference iteration records'' as_iteration loaded = Inr records"
    "check_records records = Inr ()" "emap g (it_test_reports (last records)) = Inr tests"
    "emap g (it_review_reports (last records)) = Inr reviews"
    "typed ''final iteration test reference is invalid'' as_test tests = Inr ts"
    "typed ''final iteration review reference is invalid'' as_review reviews = Inr vs"
    "check_completion f (last records) ts vs = Inr ()"
    using assms(1,3) by (auto simp: check_final_references_def Let_def ebind_eq_Inr)
  have "loaded \<noteq> []" using emap_length [OF l(1)] assms(3) by auto
  then have ne: "records \<noteq> []" by (rule typed_nonempty [OF l(2)])
  have records: "map it_iteration records = one_to (length records)"
    "adjacent (\<lambda>a b. it_input_commit b = it_output_commit a) records"
    using l(3) by (simp_all add: check_records_def)
  obtain results where "resolve_acceptance_results (hd ts) vs = Inr results"
    and ended: "it_decision (last records) = Decide_Accept"
      "fr_final_commit f = Some (it_output_commit (last records))" "fr_acceptance_results f = results"
    using l(8) assms(2) by (auto simp: check_completion_def split: sum.splits)
  then have "\<exists>m reviews'. typed m as_review reviews = Inr reviews' \<and>
      resolve_acceptance_results (hd ts) reviews' = Inr (fr_acceptance_results f)"
    using l(7) by blast
  then show thesis
    using that [of records ts reviews] l(1,4,5) ne records ended(1,2) typed_iterations [OF l(2)] typed_tests [OF l(6)]
    by simp
qed

lemma typed_same: "typed m v xs = Inr ys \<Longrightarrow> typed m' v xs = Inr zs \<Longrightarrow> ys = zs"
  by (auto simp: typed_def split: option.splits)

lemma testers_expected: "expected_testers s \<noteq> {}"
  by (simp add: expected_testers_def)

lemma producers_have_tests: "check_producers s i e = Inr () \<Longrightarrow> ie_tests e \<noteq> []"
  using testers_expected [of s] by (auto simp: check_producers_def Let_def test_producers_def)

text \<open>The evidence of an iteration that a loaded record refers to.\<close>

lemma loaded_iteration:
  assumes "load_artifact s c d n q = Inr (Iteration_Artifact i)" and "it_decision i = Decide_Accept"
  obtains e where "load_evidence (load_artifact s c d n) i = Inr e" "ie_tests e \<noteq> []"
    "check_producers s i e = Inr ()" "check_commits i e = Inr ()" "check_judgements i e = Inr ()"
    "check_decision_evidence i e = Inr ()"
proof -
  have "check_iteration_references s (load_artifact s c d (n - 1)) i = Inr ()"
    using loaded_made(4) [OF assms(1)] by (simp add: check_references_def)
  then obtain e where "load_evidence (load_artifact s c d (n - 1)) i = Inr e"
    and e: "check_producers s i e = Inr ()" "check_commits i e = Inr ()" "check_judgements i e = Inr ()"
      "check_decision_evidence i e = Inr ()"
    by (auto simp: check_iteration_references_def ebind_eq_Inr)
  then have "load_evidence (load_artifact s c d n) i = Inr e"
    using evidence_grows [OF deeper_extends [OF diff_le_self]] by blast
  then show thesis using that e producers_have_tests [OF e(1)] by blast
qed

section \<open>The artifacts that were loaded\<close>

lemma loaded_test:
  assumes "emap (load_artifact s c d n) qs = Inr (map Test_Artifact ts)" and "t \<in> set ts"
    and "tr_status t = Check_Passed"
  shows "tr_commands t \<noteq> []" and "list_all command_passed (tr_commands t)"
proof -
  have "Test_Artifact t \<in> set (map Test_Artifact ts)" using assms(2) by simp
  then obtain q where "load_artifact s c d n q = Inr (Test_Artifact t)"
    using emap_source [OF assms(1)] by blast
  then have "validate_test_report t = Inr ()" by (intro made_test loaded_made(1))
  then show "tr_commands t \<noteq> []" "list_all command_passed (tr_commands t)"
    using assms(3) by (auto simp: validate_test_report_def ebind_eq_Inr check_test_status_def commands_passed_def)
qed

lemma loaded_review:
  assumes "emap (load_artifact s c d n) qs = Inr xs" and "typed m as_review xs = Inr vs" and "v \<in> set vs"
    and "rr_verdict v = Verdict_Accept"
  shows "blocking_findings v = []"
proof -
  obtain x where x: "x \<in> set xs" "as_review x = Some v" using typed_reviews [OF assms(2,3)] by blast
  then obtain q where "load_artifact s c d n q = Inr x" using emap_source [OF assms(1)] by blast
  then show ?thesis by (intro made_review_accept [OF loaded_made(1) x(2) assms(4)])
qed

lemma loaded_final:
  assumes "load_artifact s c d n r = Inr (Final_Artifact f)" and "fr_status f = Final_Completed"
  shows "check_final_references (load_artifact s c d (n - 1)) f = Inr ()" and "fr_iterations f \<noteq> []"
    and "list_all (\<lambda>x. cr_status x = Check_Passed) (fr_acceptance_results f)"
    and "set (map cr_criterion_id (fr_acceptance_results f)) = set (map ac_id (tb_acceptance_criteria (sto_brief s)))"
proof -
  note l = loaded_made [OF assms(1)]
  show "check_final_references (load_artifact s c d (n - 1)) f = Inr ()"
    using l(4) by (simp add: check_references_def)
  have "check_final f = Inr ()"
    using l(1) by (auto simp: ebind_eq_Inr mk_final_def clean_then_Inr validate_final_def)
  then show "fr_iterations f \<noteq> []" "list_all (\<lambda>x. cr_status x = Check_Passed) (fr_acceptance_results f)"
    using assms(2) by (auto simp: check_final_def Let_def list_ex_iff list_all_iff)
  show "set (map cr_criterion_id (fr_acceptance_results f)) = set (map ac_id (tb_acceptance_criteria (sto_brief s)))"
    using l(3) assms(2) by (auto simp: validate_artifact_context_def ebind_eq_Inr check_coverage_def store_scope_def)
qed

section \<open>The property\<close>

text \<open>C40: A completed report stands on evidence. Whatever files the run directory holds: if a reference
  loads to a completed final report, then its iterations load as records 1, 2, ... in one chain of
  commits, the last of them accepted and with the final commit of the report as its output; its evidence
  loads, it consists of work of exactly the approved writers, chained from the input commit to that
  output, of test reports of exactly the approved testers on that output, with at least one command and
  every command returning 0 in time, and of reviews of exactly the approved reviewers of that output,
  all accepting and without a blocking finding; and the criteria of the report are those of the
  confirmed brief, all passed.\<close>

theorem completed_report_has_evidence:
  assumes "load_artifact s c d n r = Inr (Final_Artifact f)" and "fr_status f = Final_Completed"
  shows "\<exists>records i e. emap (load_artifact s c d n) (fr_iterations f) = Inr (map Iteration_Artifact records) \<and>
    map it_iteration records = one_to (length records) \<and>
    adjacent (\<lambda>a b. it_input_commit b = it_output_commit a) records \<and> last_opt records = Some i \<and>
    it_decision i = Decide_Accept \<and> fr_final_commit f = Some (it_output_commit i) \<and>
    load_evidence (load_artifact s c d n) i = Inr e \<and>
    work_producers e = agents_with s {Implementation, Integration} \<and>
    commit_chain (it_input_commit i) (ie_works e) = Inr (it_output_commit i) \<and>
    test_producers e = expected_testers s \<and>
    (\<forall>t \<in> set (ie_tests e). tr_input_commit t = it_output_commit i \<and> tr_commands t \<noteq> [] \<and>
       list_all command_passed (tr_commands t)) \<and>
    review_producers e = agents_with s {Review} \<and>
    (\<forall>v \<in> set (ie_reviews e). rr_input_commit v = it_output_commit i \<and> rr_verdict v = Verdict_Accept \<and>
       blocking_findings v = []) \<and>
    set (map cr_criterion_id (fr_acceptance_results f)) = set (map ac_id (tb_acceptance_criteria (sto_brief s))) \<and>
    list_all (\<lambda>x. cr_status x = Check_Passed) (fr_acceptance_results f)"
proof -
  let ?load = "load_artifact s c d n"
  note f = loaded_final [OF assms]
  from final_grows [OF deeper_extends f(1), of n] have "check_final_references ?load f = Inr ()" by simp
  then obtain records ts rs where r: "emap ?load (fr_iterations f) = Inr (map Iteration_Artifact records)"
    "records \<noteq> []" "map it_iteration records = one_to (length records)"
    "adjacent (\<lambda>a b. it_input_commit b = it_output_commit a) records"
    "it_decision (last records) = Decide_Accept" "fr_final_commit f = Some (it_output_commit (last records))"
    using completed_checks [OF _ assms(2) f(2)] by metis
  have "Iteration_Artifact (last records) \<in> set (map Iteration_Artifact records)" using r(2) by simp
  then obtain q where "?load q = Inr (Iteration_Artifact (last records))" using emap_source [OF r(1)] by blast
  then obtain e where e: "load_evidence ?load (last records) = Inr e" "ie_tests e \<noteq> []"
    "check_producers s (last records) e = Inr ()" "check_commits (last records) e = Inr ()"
    "check_judgements (last records) e = Inr ()" "check_decision_evidence (last records) e = Inr ()"
    by (rule loaded_iteration [OF _ r(5)])
  note a = accepted_evidence [OF e(3-6) r(5) e(2)]
  obtain xs where xs: "emap ?load (it_review_reports (last records)) = Inr xs"
    "typed [] as_review xs = Inr (ie_reviews e)"
    using load_evidence_facts(2) [OF e(1)] by blast
  have "last_opt records = Some (last records)" using r(2) by (simp add: last_opt_def)
  then show ?thesis
    using r f(3,4) e(1) a loaded_test [OF load_evidence_facts(1) [OF e(1)]] loaded_review [OF xs]
    by (intro exI [of _ records] exI [of _ "last records"] exI [of _ e]) simp
qed

theorem completed_report_has_evidence_witness:
  "\<exists>records i e. emap (load_artifact demo_run_store demo_text_codec demo_run_disk 3) (fr_iterations demo_final_report) =
      Inr (map Iteration_Artifact records) \<and> last_opt records = Some i \<and>
    load_evidence (load_artifact demo_run_store demo_text_codec demo_run_disk 3) i = Inr e \<and>
    test_producers e = expected_testers demo_run_store"
proof -
  have "load_artifact demo_run_store demo_text_codec demo_run_disk (Suc (Suc (Suc 0))) (demo_reference demo_final) =
      Inr (Final_Artifact demo_final_report)"
    using stored_artifact_loads_back [OF _ demo_made(1) demo_run_written rtranclp.rtrancl_refl]
    by (simp add: codec_ok_def demo_text_codec_def demo_final_def del: load_artifact.simps)
  moreover have "fr_status demo_final_report = Final_Completed" by (simp add: demo_final_report_def)
  ultimately show ?thesis
    using completed_report_has_evidence unfolding numeral_3_eq_3 by blast
qed

end
