(* ===== verification/Spec2Isabelle.thy ===== *)
theory Spec2Isabelle
  imports Budget_Ledger Fixed_Teams Model_Routing Run_Properties Schedule_Totality Control_Properties
    Supervised_Runs Event_Properties Correction_Properties Completed_Reports
begin

text \<open>
  Verification library of the Software Agent Team controller
  (\<open>src/src/software_agent_team\<close>).

  \<^bold>\<open>The program.\<close> A controller takes a confirmed task to an accepted change of a Git workspace by
  running language-model Agents. A team plan (\<open>teams.py\<close>) says which Agents run, with which
  permissions and in which order; the scheduler (\<open>scheduling.py\<close>) launches them; each launch is
  admitted by the shared budget ledger (\<open>budgets.py\<close>); one launch is one external process that the
  execution adapter (\<open>execution.py\<close>) supervises; the user steers a run through a mailbox of commands
  (\<open>controls.py\<close>) that the scheduler polls by way of a channel (\<open>runtime_controls.py\<close>); the run record
  (\<open>run_control.py\<close>) keeps the phase of the run, its evidence and the chain of its revisions; what
  happens is published as numbered events whose journal is anchored in that record (\<open>progress.py\<close>).

  \<^bold>\<open>Theories.\<close> \<open>Prelude\<close> holds the vocabulary: raised exceptions as sums (\<open>fault\<close>, \<open>ebind\<close>,
  \<open>first_error\<close>), the text and timestamp rules that the models share, lists, the locale of
  append-only histories. \<open>Decimal_Arith\<close> is Python's decimal arithmetic (28 digits, half even) on
  rationals; \<open>Journal_Files\<close> the numbered files of append-only directories; \<open>Dag\<close> the dependency
  graphs of the validators and the scheduler.

  \<^item> Budgets: \<open>Model_Costs\<close> (\<open>model_costs.py\<close>, \<open>model_metadata.py\<close>), \<open>Model_Runtime\<close>
    (\<open>model_runtime.py\<close>), \<open>Budgets\<close> (the models of \<open>budgets.py\<close>), \<open>Budget_Ledger\<close>
    (\<open>AgentBudgetLedger\<close>: admission, completion, waiting, settling). Its invariant ties the known
    costs, the active reservations and the counters; the results bound what calls can spend.
  \<^item> Teams: \<open>Artifacts\<close> (\<open>artifacts.py\<close>), \<open>Teams\<close> (routes, Agents), \<open>Team_Plans\<close> (the plan
    validator: graph, waves, workspace scopes, quality), \<open>Fixed_Teams\<close> (manifests and their
    compilation), \<open>Model_Routing\<close> (\<open>model_routing.py\<close>: profiles, policy, the resolved route plan). The
    graph check is shown to accept exactly the acyclic plans, and the route checks of a plan to accept
    what the routing resolves.
  \<^item> Runs: \<open>Git_Snapshots\<close> (evidence models of \<open>git_workspace.py\<close>), \<open>Run_Control\<close> (the record with its
    validators, the store of revisions, the controller), \<open>Run_Properties\<close> (append-only histories,
    finality, evidence of a completed run, prepared operations, optimistic concurrency).
  \<^item> Events: \<open>Run_Events\<close> (the event models of \<open>progress.py\<close> with their validators), \<open>Event_Journal\<close>
    (\<open>RunEventJournal\<close> and the emission of the workflows), \<open>Event_Anchoring\<close> (the journal and the run
    record as an append-only history with an anchor), \<open>Event_Properties\<close>.
  \<^item> Scheduling: \<open>Schedule_Models\<close>, \<open>Scheduling\<close> (\<open>execute_schedule\<close> with every callback a
    parameter), \<open>Schedule_Properties\<close>, \<open>Schedule_Results\<close>, \<open>Schedule_Totality\<close> (safety of the
    concurrent launches, no deadlock, termination, exactness of the result).
  \<^item> Controls: \<open>Controls\<close>, \<open>Control_Histories\<close> (the mailbox over directories with arbitrary contents),
    \<open>Runtime_Controls\<close>, \<open>Control_Channel\<close>, \<open>Control_Properties\<close> (no command is lost, a stop is final).
  \<^item> Artifacts: \<open>Work_Artifacts\<close> (plans, work results, test reports), \<open>Execution_Records\<close> (submissions,
    tool calls and the record of one invocation), \<open>Review_Artifacts\<close> (reviews and assessments),
    \<open>Run_Artifacts\<close> (iteration records, final reports, the union of the persisted artifacts and the
    check of one against its run), all from \<open>artifacts.py\<close>. A constructor that cleans its input is an
    instance of the locale \<open>normalizer\<close>: what it made it makes again.
  \<^item> Artifact store: \<open>Artifact_Store\<close> (loading with the recursive checks of referenced evidence),
    \<open>Artifact_Writes\<close> (every write, the terminal bundle and its rollback), \<open>Store_Growth\<close> (what loads once
    loads for ever), \<open>Store_Properties\<close> (what was written loads back; a bundle is written as a whole or
    not at all), \<open>Evidence_Chains\<close>, \<open>Finished_Run\<close> (an example), \<open>Completed_Reports\<close> (a completed report
    stands on the evidence of every approved Agent), all for \<open>artifact_store.py\<close>. Loading is bounded by
    a depth; three levels are enough for a final report (\<open>final_report_depth\<close>).
  \<^item> Corrections: \<open>Json_Values\<close> (JSON values and pointers), \<open>Response_Corrections\<close> (diagnostics),
    \<open>Correction_Application\<close> (authority, slots, application, progress), \<open>Correction_Properties\<close>
    (\<open>response_corrections.py\<close>: what a model may correct, and that a correction changes nothing else).
  \<^item> Versions: \<open>Versions\<close> (\<open>versioning.py\<close>, \<open>schema_compatibility.py\<close>, the identity of
    \<open>docker_engine.py\<close>): releases, the installation record, the version report, the inspection of
    persisted schemas.
  \<^item> Invocations: \<open>Invocation_Lifecycle\<close> (\<open>invocation_lifecycle.py\<close> and the models of
    \<open>process_diagnostics.py\<close>), \<open>Lifecycle_Recorder\<close> (\<open>_InvocationLifecycleRecorder\<close> and the activities),
    \<open>Liveness_Monitors\<close> (the three guards), \<open>Invocation_Supervision\<close> (\<open>_run_interruptible_process\<close> and the
    lifecycle part of \<open>execute\<close>). \<open>Lifecycle_Invariants\<close>, \<open>Monitor_Invariants\<close>, \<open>Provider_Invariants\<close>,
    \<open>Lifecycle_Finalization\<close>, \<open>Supervision_Properties\<close> and \<open>Supervised_Runs\<close> build, operation by operation,
    the result that the evidence of a run is accepted by its own model, and single out the runs where
    the code raises instead.

  \<^bold>\<open>Correspondence.\<close> A Pydantic model is a record with a validator \<open>validate_x\<close> that returns the first
  error in the order of the code, and a constructor \<open>mk_x\<close> where the model cleans its input; an enum
  is a datatype; a class with mutable state is a record, its methods are functions from state to a
  sum. Integers are unbounded as in Python, decimals and float seconds are rationals rounded where
  the code rounds, timestamps are instants. Callbacks, clocks, digests, fresh identifiers and
  observers are arguments; the directory of a store is an association list of named files. Threads
  that share a lock are sequences of its critical sections.

  \<^bold>\<open>Bounds.\<close> Recursion that the code leaves unbounded is made total by measures: the graph
  traversals by the unvisited nodes, the scheduler by its pending Agents and active futures. The
  supervising loop is a recursion over the events of a run, and says so when they end before it does.
  \<open>count_digits\<close> bounds the digits of a tool counter that is printed into an action of 500 characters.
  The number of an event stays below 1000000, beyond which the code writes names it cannot read.
  \<open>good_agents\<close> bounds Agent IDs by 1968 characters, beyond which \<open>execute\<close> can raise
  (\<open>long_agent_id_raises\<close>).

  \<^bold>\<open>Assumptions that the code does not enforce.\<close> Several results hold under conditions that are stated in
  them and that the code leaves to its environment: requests and reports of the ledger pass their
  models (\<open>op_ok\<close>; \<open>invalid_reservation_corrupts_ledger\<close> shows why); prices lie on a decimal grid within
  28 digits; the clock of the scheduler does not go back, its observer returns, its runners raise an
  \<open>Exception\<close> or return an outcome (\<open>runner_reply\<close> has no other replies); the supervising loop sees
  readings that do not go back and user stops that are claimed between its turns (\<open>run_ok\<close>,
  \<open>tick_ok\<close>). An emission reads the run record before it takes the lock of the journal:
  \<open>emit_observed\<close> has the record as an argument, \<open>not_overtaken\<close> excludes the one harmful interleaving,
  which \<open>stale_revision_blocks_journal\<close> exhibits.

  \<^bold>\<open>Not modelled.\<close> Launching, reading and signalling processes, containers, Git and the file system
  themselves; prompts, parsing of model output and planning dialogues; the terminal; installation
  and updates. Their results enter the models as arguments. An operation of the run store either
  writes and returns or raises and writes nothing: a synchronisation of the directory that fails after
  the rename (where the code raises with the new record in place) is outside the model of the store;
  for the event journal it is the outcome \<open>Sync_Failed\<close>, which \<open>journal_step\<close> leaves out. Floating-point rounding of seconds is
  not modelled: times are exact.
\<close>

end
